(* ===== verification/Prelude.thy ===== *)
theory Prelude
  imports Main "HOL-Library.Word"
begin

text \<open>
  What every theory of the development shares: the type names of the C++ integers, the
  collections the component proofs draw on, generic lemmas on lists, words and bit sets, and the
  interfaces (locales) that more than one component provides.
\<close>

unbundle bit_operations_syntax

section \<open>Names for the C++ types\<close>

text \<open>
  \<open>uint8_t\<close>, \<open>uint16_t\<close>, \<open>uint32_t\<close> and \<open>uint64_t\<close> are words of that width. A \<open>size_t\<close> that
  indexes a container is a \<open>nat\<close>: the containers of the program hold far fewer than \<open>2 ^ 64\<close>
  elements, so the index arithmetic never wraps. Where a \<open>size_t\<close> does wrap (a subtraction below
  zero) the wrap-around is written out. A \<open>std::string\<close> is a \<open>string\<close> of bytes.
\<close>

type_synonym uint8_t = "8 word"
type_synonym uint16_t = "16 word"
type_synonym uint32_t = "32 word"
type_synonym uint64_t = "64 word"

section \<open>Collections\<close>

named_theorems bits_simps \<open>bit-level descriptions of word operations\<close>
named_theorems abs_simps \<open>abstraction functions commuting with operations\<close>
named_theorems inv_intros \<open>operations preserving representation invariants\<close>
named_theorems frame_simps \<open>fields an operation leaves alone\<close>

section \<open>Bit sets\<close>

definition bit_set :: "'a::semiring_bits \<Rightarrow> nat set" where
  "bit_set a = {i. bit a i}"

lemma mem_bit_set [simp]: "i \<in> bit_set a \<longleftrightarrow> bit a i"
  by (simp add: bit_set_def)

lemma bit_set_0 [simp]: "bit_set 0 = {}"
  by (simp add: bit_set_def)

lemma bit_imp_power_le: "bit (n::nat) i \<Longrightarrow> 2 ^ i \<le> n"
proof -
  assume "bit n i"
  then have "odd (n div 2 ^ i)" by (simp add: bit_iff_odd)
  then have "n div 2 ^ i \<noteq> 0" by (metis even_zero)
  then show "2 ^ i \<le> n" by (simp add: div_eq_0_iff)
qed

lemma finite_bit_set_nat [simp]: "finite (bit_set (n::nat))"
proof -
  have "bit_set n \<subseteq> {..<n}"
    using bit_imp_power_le less_exp by (metis lessThan_iff less_le_trans mem_bit_set subsetI)
  then show ?thesis by (rule finite_subset) simp
qed

lemma bit_of_char_less: "bit (of_char c :: nat) i \<Longrightarrow> i < 8"
proof (rule ccontr)
  assume bit: "bit (of_char c :: nat) i" and "\<not> i < 8"
  then have "(256 :: nat) \<le> 2 ^ i" using power_increasing [of 8 i "2 :: nat"] by simp
  also have "\<dots> \<le> of_char c" using bit by (rule bit_imp_power_le)
  also have "\<dots> < (256 :: nat)"
    using of_char_mod_256 [of c, where 'a = nat] by (metis mod_less_divisor zero_less_numeral)
  finally show False by simp
qed

lemma finite_bit_set_word [simp]: "finite (bit_set (w::'a::len word))"
proof -
  have "bit_set w \<subseteq> {..<LENGTH('a)}" by (auto dest: bit_imp_le_length)
  then show ?thesis by (rule finite_subset) simp
qed

lemma bit_set_unat: "bit_set (unat w) = bit_set w"
  by (auto simp: bit_set_def unsigned_eq_0_iff bit_unsigned_iff dest: bit_imp_le_length)

lemma bit_set_double: "bit_set (2 * n :: nat) = Suc ` bit_set n"
proof -
  have "i \<in> bit_set (2 * n) \<longleftrightarrow> i \<in> Suc ` bit_set n" for i
    by (cases i) (simp_all add: bit_Suc bit_0 image_iff)
  then show ?thesis by blast
qed

lemma bit_set_double_Suc: "bit_set (Suc (2 * n)) = insert 0 (Suc ` bit_set n)"
proof -
  have "i \<in> bit_set (Suc (2 * n)) \<longleftrightarrow> i \<in> insert 0 (Suc ` bit_set n)" for i
    by (cases i) (simp_all add: bit_Suc bit_0 image_iff)
  then show ?thesis by blast
qed

lemma card_bit_set_double: "card (bit_set (2 * n :: nat)) = card (bit_set n)"
  by (simp add: bit_set_double card_image)

lemma card_bit_set_double_Suc: "card (bit_set (Suc (2 * n))) = Suc (card (bit_set n))"
  by (simp add: bit_set_double_Suc card_image)

lemma word_eq_iff_bit_set: "v = w \<longleftrightarrow> bit_set v = bit_set (w :: 'a::len word)"
  by (auto simp: bit_set_def set_eq_iff intro: bit_eqI)

lemma word_nonzero_iff_bit: "w \<noteq> 0 \<longleftrightarrow> (\<exists>i<LENGTH('a). bit (w::'a::len word) i)"
  by (metis bit_0_eq bit_eqI bit_imp_le_length bot_apply bot_bool_def)

lemma word_and_eq_0_iff: "v AND w = 0 \<longleftrightarrow> bit_set v \<inter> bit_set (w::'a::len word) = {}"
  by (auto simp: word_eq_iff_bit_set bit_and_iff)

text \<open>The code writes its masks as shifts; keep them in that form.\<close>

declare push_bit_of_1 [simp del]

lemma push_bit_1_nonzero: "n < LENGTH('a) \<Longrightarrow> push_bit n (1 :: 'a::len word) \<noteq> 0"
  by (simp add: push_bit_of_1)

lemma word_and_push_bit_1_eq_0_iff:
  fixes word :: "'a::len word"
  shows "word AND push_bit n 1 = 0 \<longleftrightarrow> \<not> bit word n"
proof -
  have "word AND push_bit n 1 = (if bit word n then push_bit n 1 else 0)"
    by (rule bit_word_eqI) (auto simp: bit_simps)
  moreover have "push_bit n (1 :: 'a word) \<noteq> 0" if "bit word n"
    using bit_imp_le_length [OF that] by (rule push_bit_1_nonzero)
  ultimately show ?thesis by auto
qed

lemma drop_bit_1_less:
  fixes b :: "'a::len word"
  assumes "b \<noteq> 0"
  shows "unat (drop_bit 1 b) < unat b"
proof -
  have "unat (drop_bit 1 b) = drop_bit 1 (unat b)" by (rule unat_drop_bit_eq)
  also have "\<dots> = unat b div 2" by (simp add: drop_bit_eq_div)
  also have "\<dots> < unat b" using assms by (simp add: unat_gt_0)
  finally show ?thesis .
qed

lemma unat_eq_word: "unat (i :: 'a::len word) = unat j \<longleftrightarrow> i = j"
  by (simp add: word_unat_eq_iff)

lemma inj_of_char_nat: "inj (of_char :: char \<Rightarrow> nat)"
  by (rule injI) simp

section \<open>Lists with an element put in or taken out at an index\<close>

definition list_insert_at :: "nat \<Rightarrow> 'a \<Rightarrow> 'a list \<Rightarrow> 'a list" where
  "list_insert_at i x xs = take i xs @ x # drop i xs"

definition list_erase_at :: "nat \<Rightarrow> 'a list \<Rightarrow> 'a list" where
  "list_erase_at i xs = take i xs @ drop (Suc i) xs"

lemma set_list_insert_at [simp]: "set (list_insert_at i x xs) = insert x (set xs)"
proof -
  have "set xs = set (take i xs) \<union> set (drop i xs)"
    by (metis append_take_drop_id set_append)
  then show ?thesis by (auto simp: list_insert_at_def)
qed

lemma length_list_insert_at [simp]: "length (list_insert_at i x xs) = Suc (length xs)"
  by (simp add: list_insert_at_def)

lemma map_list_insert_at: "map f (list_insert_at i x xs) = list_insert_at i (f x) (map f xs)"
  by (simp add: list_insert_at_def take_map drop_map)

lemma map_list_erase_at: "map f (list_erase_at i xs) = list_erase_at i (map f xs)"
  by (simp add: list_erase_at_def take_map drop_map)

lemma set_list_erase_at_subset: "set (list_erase_at i xs) \<subseteq> set xs"
  using set_take_subset set_drop_subset by (fastforce simp: list_erase_at_def)

lemma sorted_wrt_erase_at: "sorted_wrt P xs \<Longrightarrow> sorted_wrt P (list_erase_at i xs)"
proof (induction xs arbitrary: i)
  case (Cons x xs)
  then show ?case
    by (cases i) (auto simp: list_erase_at_def dest: in_set_takeD in_set_dropD)
qed (simp add: list_erase_at_def)

section \<open>Interfaces\<close>

text \<open>
  A container of values of type \<open>'a\<close>, with an abstraction to a set and a representation
  invariant. \<open>Enum_Set\<close> and \<open>Bit_Vec\<close> provide it.
\<close>

locale set_container =
  fixes empty :: "'s"
    and insrt :: "'a \<Rightarrow> 's \<Rightarrow> 's"
    and remove :: "'a \<Rightarrow> 's \<Rightarrow> 's"
    and member :: "'s \<Rightarrow> 'a \<Rightarrow> bool"
    and elems :: "'s \<Rightarrow> 'a set"
    and inv :: "'s \<Rightarrow> bool"
  assumes inv_empty: "inv empty"
    and elems_empty: "elems empty = {}"
    and inv_insrt: "inv s \<Longrightarrow> inv (insrt x s)"
    and elems_insrt: "inv s \<Longrightarrow> elems (insrt x s) = insert x (elems s)"
    and inv_remove: "inv s \<Longrightarrow> inv (remove x s)"
    and elems_remove: "inv s \<Longrightarrow> elems (remove x s) = elems s - {x}"
    and member_elems: "inv s \<Longrightarrow> member s x \<longleftrightarrow> x \<in> elems s"
begin

lemma fold_insrt:
  "inv s \<Longrightarrow> inv (fold insrt xs s) \<and> elems (fold insrt xs s) = set xs \<union> elems s"
  by (induction xs arbitrary: s) (auto simp: inv_insrt elems_insrt)

lemma member_fold_insrt: "inv s \<Longrightarrow> member (fold insrt xs s) x \<longleftrightarrow> x \<in> set xs \<or> member s x"
  by (simp add: fold_insrt member_elems)

lemma member_fold_empty: "member (fold insrt xs empty) x \<longleftrightarrow> x \<in> set xs"
  by (simp add: member_fold_insrt inv_empty member_elems elems_empty)

lemma member_insrt: "inv s \<Longrightarrow> member (insrt x s) y \<longleftrightarrow> y = x \<or> member s y"
  by (simp add: member_elems inv_insrt elems_insrt)

lemma member_remove: "inv s \<Longrightarrow> member (remove x s) y \<longleftrightarrow> y \<noteq> x \<and> member s y"
  by (auto simp: member_elems inv_remove elems_remove)

end

text \<open>
  A state machine whose operations keep an invariant: what holds after each operation holds after
  every sequence of them. The compiler options, the parser state and the containers provide it.
\<close>

locale step_invariant =
  fixes step :: "'op \<Rightarrow> 's \<Rightarrow> 's"
    and inv :: "'s \<Rightarrow> bool"
  assumes step_inv: "inv s \<Longrightarrow> inv (step a s)"
begin

lemma run_inv: "inv s \<Longrightarrow> inv (fold step as s)"
  by (induction as arbitrary: s) (auto intro: step_inv)

lemma run_prefix_inv: "inv s \<Longrightarrow> as = bs @ cs \<Longrightarrow> inv (fold step bs s)"
  by (simp add: run_inv)

end

end
