(* ===== verification/Bit_Utils.thy ===== *)
theory Bit_Utils
  imports Prelude
begin

text \<open>
  The bit manipulation templates of \<open>src/ShaderCompiler/src/spirv-tools/util/bitutils.h\<close>. The
  template parameter \<open>T\<close>, an unsigned integer type, is the word length \<open>'a\<close>. The asserts of the
  header are compiled out (\<open>premake5.lua\<close> defines \<open>NDEBUG\<close> in every configuration), so the
  operations below do not check them; they are the hypotheses of the lemmas.
\<close>

section \<open>Operations\<close>

text \<open>\<open>SetBits<T, First, Num>::get\<close>, a recursion over the template arguments.\<close>

fun SetBits :: "nat \<Rightarrow> nat \<Rightarrow> 'a::len word" where
  "SetBits First 0 = 0"
| "SetBits First (Suc Num) = push_bit First 1 OR SetBits (Suc First) Num"

text \<open>\<open>CountSetBits\<close>: clear the lowest set bit until the word is zero.\<close>

lemma and_pred_less:
  fixes w :: "'a::len word"
  assumes "w \<noteq> 0"
  shows "unat (w AND (w - 1)) < unat w"
proof -
  have "unat (w AND (w - 1)) \<le> unat (w - 1)"
    by (meson word_and_le1 word_le_nat_alt)
  also have "\<dots> < unat w"
    using assms by (metis measure_unat)
  finally show ?thesis .
qed

function CountSetBits_loop :: "'a::len word \<Rightarrow> nat \<Rightarrow> nat" where
  "CountSetBits_loop word count =
     (if word \<noteq> 0 then CountSetBits_loop (word AND (word - 1)) (count + 1) else count)"
  by pat_completeness auto
termination
  by (relation "measure (\<lambda>(w, c). unat w)") (auto simp: and_pred_less)

declare CountSetBits_loop.simps [simp del]

definition CountSetBits :: "'a::len word \<Rightarrow> nat" where
  "CountSetBits word = CountSetBits_loop word 0"

definition IsBitAtPositionSet :: "'a::len word \<Rightarrow> nat \<Rightarrow> bool" where
  "IsBitAtPositionSet word position \<longleftrightarrow> word AND push_bit position 1 \<noteq> 0"

definition MutateBits :: "'a::len word \<Rightarrow> nat \<Rightarrow> nat \<Rightarrow> bool \<Rightarrow> 'a word" where
  "MutateBits word first_position num_bits_to_mutate value =
     (if num_bits_to_mutate = 0 then word
      else
        let word_bit_width = LENGTH('a);
            all_ones = NOT 0 :: 'a word;
            num_unaffected_low_bits = first_position;
            unaffected_low_mask =
              push_bit num_unaffected_low_bits (drop_bit num_unaffected_low_bits all_ones);
            num_unaffected_high_bits = word_bit_width - (first_position + num_bits_to_mutate);
            unaffected_high_mask =
              drop_bit num_unaffected_high_bits (push_bit num_unaffected_high_bits all_ones);
            mutation_mask = unaffected_low_mask AND unaffected_high_mask
        in if value then word OR mutation_mask else word AND NOT mutation_mask)"

definition SetHighBits :: "'a::len word \<Rightarrow> nat \<Rightarrow> 'a word" where
  "SetHighBits word num_bits_to_set =
     (if num_bits_to_set = 0 then word
      else MutateBits word (LENGTH('a) - num_bits_to_set) num_bits_to_set True)"

definition ClearHighBits :: "'a::len word \<Rightarrow> nat \<Rightarrow> 'a word" where
  "ClearHighBits word num_bits_to_set =
     (if num_bits_to_set = 0 then word
      else MutateBits word (LENGTH('a) - num_bits_to_set) num_bits_to_set False)"

text \<open>
  \<open>number_of_bits\<close> is a \<open>uint32_t\<close>: for \<open>0\<close> the tested position wraps to \<open>2 ^ 32 - 1\<close>, outside
  every word, where the shift of the C++ code is undefined; the model tests a bit that is clear.
\<close>

definition SignExtendValue :: "'a::len word \<Rightarrow> nat \<Rightarrow> 'a word" where
  "SignExtendValue value number_of_bits =
     (let bit_width = LENGTH('a)
      in if number_of_bits = bit_width then value
         else
           let is_negative =
                 IsBitAtPositionSet value (if number_of_bits = 0 then 2 ^ 32 - 1 else number_of_bits - 1)
           in if is_negative then SetHighBits value (bit_width - number_of_bits)
              else ClearHighBits value (bit_width - number_of_bits))"

definition ZeroExtendValue :: "'a::len word \<Rightarrow> nat \<Rightarrow> 'a word" where
  "ZeroExtendValue value number_of_bits =
     (let bit_width = LENGTH('a)
      in if number_of_bits = bit_width then value
         else ClearHighBits value (bit_width - number_of_bits))"

section \<open>Bit-level descriptions\<close>

lemma bit_SetBits [bits_simps]:
  "First + Num \<le> LENGTH('a) \<Longrightarrow>
    bit (SetBits First Num :: 'a::len word) i \<longleftrightarrow> First \<le> i \<and> i < First + Num"
  by (induction First Num rule: SetBits.induct)
     (auto simp: bit_simps)

lemma IsBitAtPositionSet_bit [bits_simps]: "IsBitAtPositionSet word position \<longleftrightarrow> bit word position"
  by (simp only: IsBitAtPositionSet_def word_and_push_bit_1_eq_0_iff not_not)

lemma bit_low_mask:
  "bit (push_bit f (drop_bit f (NOT 0 :: 'a::len word))) i \<longleftrightarrow> f \<le> i \<and> i < LENGTH('a)"
  by (auto simp: bit_simps)

lemma bit_high_mask:
  "h \<le> LENGTH('a) \<Longrightarrow>
    bit (drop_bit h (push_bit h (NOT 0 :: 'a::len word))) i \<longleftrightarrow> i < LENGTH('a) - h"
  by (auto simp: bit_simps)

lemma bit_MutateBits [bits_simps]:
  fixes word :: "'a::len word"
  assumes "first + num \<le> LENGTH('a)"
  shows "bit (MutateBits word first num value) i \<longleftrightarrow>
    (if first \<le> i \<and> i < first + num then value else bit word i)"
proof -
  have "LENGTH('a) - (LENGTH('a) - (first + num)) = first + num" using assms by simp
  then show ?thesis
    using assms unfolding MutateBits_def Let_def
    by (cases "i < LENGTH('a)")
       (simp_all only: bit_or_iff bit_and_iff bit_not_iff bit_low_mask bit_high_mask diff_le_self
         if_distrib [of "\<lambda>w. bit w i"] possible_bit_word, auto dest: bit_imp_le_length)
qed

lemma bit_SetHighBits [bits_simps]:
  fixes word :: "'a::len word"
  assumes "n \<le> LENGTH('a)"
  shows "bit (SetHighBits word n) i \<longleftrightarrow> (LENGTH('a) - n \<le> i \<and> i < LENGTH('a)) \<or> bit word i"
  using assms by (auto simp: SetHighBits_def bit_MutateBits)

lemma bit_ClearHighBits [bits_simps]:
  fixes word :: "'a::len word"
  assumes "n \<le> LENGTH('a)"
  shows "bit (ClearHighBits word n) i \<longleftrightarrow> i < LENGTH('a) - n \<and> bit word i"
  using assms by (auto simp: ClearHighBits_def bit_MutateBits dest: bit_imp_le_length)

section \<open>What the operations compute\<close>

lemma double_and_pred:
  fixes n :: nat
  assumes "0 < n"
  shows "2 * n AND (2 * n - 1) = 2 * (n AND (n - 1))"
proof (rule bit_eqI)
  fix i
  have "2 * n - 1 = Suc (2 * (n - 1))" using assms by simp
  then show "bit (2 * n AND (2 * n - 1)) i \<longleftrightarrow> bit (2 * (n AND (n - 1))) i"
    unfolding bit_and_iff by (cases i) (simp_all add: bit_0 bit_Suc bit_and_iff)
qed

lemma Suc_double_and_pred:
  fixes n :: nat
  shows "Suc (2 * n) AND (Suc (2 * n) - 1) = 2 * n"
proof (rule bit_eqI)
  fix i
  show "bit (Suc (2 * n) AND (Suc (2 * n) - 1)) i \<longleftrightarrow> bit (2 * n) i"
    unfolding bit_and_iff by (cases i) (simp_all add: bit_0 bit_Suc)
qed

lemma card_bit_set_and_pred_nat:
  "0 < n \<Longrightarrow> card (bit_set n) = Suc (card (bit_set (n AND (n - 1) :: nat)))"
proof (induction n rule: nat_bit_induct)
  case (even n)
  then show ?case by (simp only: double_and_pred card_bit_set_double)
next
  case (odd n)
  show ?case by (simp only: Suc_double_and_pred card_bit_set_double card_bit_set_double_Suc)
qed simp

lemma card_bit_set_and_pred:
  fixes w :: "'a::len word"
  assumes "w \<noteq> 0"
  shows "card (bit_set w) = Suc (card (bit_set (w AND (w - 1))))"
proof -
  have "unat (w AND (w - 1)) = unat w AND (unat w - 1)"
    using assms by (simp add: unat_minus_one unsigned_and_eq)
  moreover have "0 < unat w" using assms by (simp add: unat_gt_0)
  ultimately show ?thesis
    using card_bit_set_and_pred_nat [of "unat w"] by (metis bit_set_unat)
qed

lemma CountSetBits_loop_card: "CountSetBits_loop w c = c + card (bit_set w)"
proof (induction w c rule: CountSetBits_loop.induct)
  case (1 w c)
  then show ?case
    by (subst CountSetBits_loop.simps) (auto simp: card_bit_set_and_pred)
qed

text \<open>
  The number of bits kept, at most the width of the type, as a truncation with and without sign.
\<close>

lemma ZeroExtendValue_take_bit:
  fixes v :: "'a::len word"
  assumes "n \<le> LENGTH('a)"
  shows "ZeroExtendValue v n = take_bit n v"
  using assms
  by (intro bit_word_eqI) (auto simp: ZeroExtendValue_def Let_def bit_ClearHighBits bit_take_bit_iff)

lemma SignExtendValue_signed_take_bit:
  fixes v :: "'a::len word"
  assumes "0 < n" "n \<le> LENGTH('a)"
  shows "SignExtendValue v n = signed_take_bit (n - 1) v"
proof (rule bit_word_eqI)
  fix i assume "i < LENGTH('a)"
  then show "bit (SignExtendValue v n) i = bit (signed_take_bit (n - 1) v) i"
    using assms
    by (cases "i = n - 1")
       (auto simp: SignExtendValue_def Let_def IsBitAtPositionSet_bit bit_SetHighBits bit_ClearHighBits
         bit_signed_take_bit_iff min_def)
qed

lemma sint_signed_take_bit:
  fixes v :: "'a::len word"
  assumes "n < LENGTH('a)"
  shows "sint (signed_take_bit n v) = signed_take_bit n (uint v)"
proof (rule bit_eqI)
  fix i
  show "bit (sint (signed_take_bit n v)) i = bit (signed_take_bit n (uint v)) i"
    using assms by (cases "i < LENGTH('a)")
      (auto simp: sint_uint bit_signed_take_bit_iff bit_uint_iff min_def)
qed

section \<open>Properties\<close>

text \<open>\<open>CountSetBits\<close> returns, for every word of every width, the number of its set bits; the
  loop that clears the lowest set bit runs exactly that often.\<close>

theorem CountSetBits_correct: "CountSetBits w = card (bit_set w)"
  by (simp add: CountSetBits_def CountSetBits_loop_card)

text \<open>For a number of bits between one and the width of the type, \<open>SignExtendValue\<close> reads the
  low bits as a two's complement number and writes that number at full width, and
  \<open>ZeroExtendValue\<close> reads them as an unsigned number, whatever the bits above them were.\<close>

theorem ExtendValue_correct:
  fixes v :: "'a::len word"
  assumes "0 < n" "n \<le> LENGTH('a)"
  shows "sint (SignExtendValue v n) = signed_take_bit (n - 1) (uint v) \<and>
    uint (ZeroExtendValue v n) = uint v mod 2 ^ n"
proof
  show "sint (SignExtendValue v n) = signed_take_bit (n - 1) (uint v)"
    using assms by (simp add: SignExtendValue_signed_take_bit sint_signed_take_bit)
  show "uint (ZeroExtendValue v n) = uint v mod 2 ^ n"
    using assms by (simp add: ZeroExtendValue_take_bit unsigned_take_bit_eq flip: take_bit_eq_mod)
qed

theorem ExtendValue_correct_witness:
  "sint (SignExtendValue (0xfffd :: uint32_t) 3) = -3 \<and>
   uint (ZeroExtendValue (0xfffd :: uint32_t) 3) = 5"
  using ExtendValue_correct [of 3 "0xfffd :: uint32_t"] by simp

end
