(* ===== verification/Bit_Vec.thy ===== *)
theory Bit_Vec
  imports Prelude
begin

text \<open>
  \<open>spvtools::utils::BitVector\<close> of \<open>src/ShaderCompiler/src/spirv-tools/util/bit_vector.h\<close> and
  \<open>bit_vector.cpp\<close>: a growing vector of 64-bit words. The abstraction \<open>bv_elems\<close> is the set of
  32-bit indices whose bit is set; the type provides \<open>set_container\<close> without an invariant.
\<close>

section \<open>Operations\<close>

type_synonym bit_vector = "uint64_t list"

definition kBitContainerSize :: nat where
  "kBitContainerSize = 64"

text \<open>The size computation is on \<open>uint32_t\<close>: for 0 the subtraction wraps around.\<close>

definition bv_new :: "uint32_t \<Rightarrow> bit_vector" where
  "bv_new reserved_size = replicate (unat ((reserved_size - 1) div word_of_nat kBitContainerSize + 1)) 0"

definition bv_Set :: "bit_vector \<Rightarrow> uint32_t \<Rightarrow> bit_vector \<times> bool" where
  "bv_Set bits i =
     (let element_index = unat i div kBitContainerSize;
          bit_in_element = unat i mod kBitContainerSize;
          bits' = (if element_index \<ge> length bits
                   then bits @ replicate (element_index + 1 - length bits) 0 else bits);
          original = bits' ! element_index;
          ith_bit = push_bit bit_in_element 1
      in if original AND ith_bit \<noteq> 0 then (bits', True)
         else (bits'[element_index := original OR ith_bit], False))"

definition bv_Clear :: "bit_vector \<Rightarrow> uint32_t \<Rightarrow> bit_vector \<times> bool" where
  "bv_Clear bits i =
     (let element_index = unat i div kBitContainerSize;
          bit_in_element = unat i mod kBitContainerSize
      in if element_index \<ge> length bits then (bits, False)
         else
           let original = bits ! element_index; ith_bit = push_bit bit_in_element 1
           in if original AND ith_bit = 0 then (bits, False)
              else (bits[element_index := original AND NOT ith_bit], True))"

definition bv_Get :: "bit_vector \<Rightarrow> uint32_t \<Rightarrow> bool" where
  "bv_Get bits i =
     (let element_index = unat i div kBitContainerSize;
          bit_in_element = unat i mod kBitContainerSize
      in if element_index \<ge> length bits then False
         else bits ! element_index AND push_bit bit_in_element 1 \<noteq> 0)"

fun bv_Empty :: "bit_vector \<Rightarrow> bool" where
  "bv_Empty [] = True"
| "bv_Empty (b # bits) = (if b \<noteq> 0 then False else bv_Empty bits)"

text \<open>\<open>Or\<close>: the common prefix word by word, then the rest of the other vector is appended.\<close>

fun bv_Or :: "bit_vector \<Rightarrow> bit_vector \<Rightarrow> bit_vector \<times> bool" where
  "bv_Or (t # this) (o1 # other) =
     (let temp = t OR o1; (rest, modified) = bv_Or this other
      in (temp # rest, temp \<noteq> t \<or> modified))"
| "bv_Or this [] = (this, False)"
| "bv_Or [] other = (other, True)"

text \<open>The inner loop of \<open>operator<<\<close>: the indices of the set bits of one word, lowest first.\<close>

function bits_of_container :: "uint64_t \<Rightarrow> nat \<Rightarrow> nat \<Rightarrow> nat list" where
  "bits_of_container b i j =
     (if b \<noteq> 0
      then (if b AND 1 \<noteq> 0 then [i * kBitContainerSize + j] else []) @
        bits_of_container (drop_bit 1 b) i (j + 1)
      else [])"
  by pat_completeness auto
termination
  by (relation "measure (\<lambda>(b, i, j). unat b)") (use drop_bit_1_less in auto)

declare bits_of_container.simps [simp del]

text \<open>The indices \<open>operator<<\<close> prints, over the words from number \<open>i\<close> on.\<close>

fun bv_printed :: "bit_vector \<Rightarrow> nat \<Rightarrow> nat list" where
  "bv_printed [] i = []"
| "bv_printed (b # bits) i = bits_of_container b i 0 @ bv_printed bits (i + 1)"

text \<open>The count of \<open>ReportDensity\<close>, a \<open>uint32_t\<close>.\<close>

function density_loop :: "uint64_t \<Rightarrow> uint32_t \<Rightarrow> uint32_t" where
  "density_loop e count =
     (if e \<noteq> 0 then density_loop (drop_bit 1 e) (if e AND 1 \<noteq> 0 then count + 1 else count)
      else count)"
  by pat_completeness auto
termination
  by (relation "measure (\<lambda>(e, c). unat e)") (use drop_bit_1_less in auto)

declare density_loop.simps [simp del]

definition density_count :: "bit_vector \<Rightarrow> uint32_t" where
  "density_count bits = fold density_loop bits 0"

section \<open>The set a bit vector stands for\<close>

definition bv_nats :: "bit_vector \<Rightarrow> nat set" where
  "bv_nats bits = {n. n div 64 < length bits \<and> bit (bits ! (n div 64)) (n mod 64)}"

definition bv_elems :: "bit_vector \<Rightarrow> uint32_t set" where
  "bv_elems bits = {i. unat i \<in> bv_nats bits}"

definition bv_insert :: "uint32_t \<Rightarrow> bit_vector \<Rightarrow> bit_vector" where
  "bv_insert i bits = fst (bv_Set bits i)"

definition bv_remove :: "uint32_t \<Rightarrow> bit_vector \<Rightarrow> bit_vector" where
  "bv_remove i bits = fst (bv_Clear bits i)"

lemma bv_Get_elems: "bv_Get bits i \<longleftrightarrow> i \<in> bv_elems bits"
  by (simp add: bv_Get_def bv_elems_def bv_nats_def kBitContainerSize_def Let_def
      word_and_push_bit_1_eq_0_iff)

lemma bv_nats_resize: "bv_nats (bits @ replicate n 0) = bv_nats bits"
proof -
  have "(bits @ replicate n 0) ! k = (if k < length bits then bits ! k else 0)"
    if "k < length bits + n" for k
    using that by (simp add: nth_append)
  then show ?thesis by (auto simp: bv_nats_def split: if_splits)
qed

lemma bit_single: "bit (push_bit k (1 :: 'a::len word)) j \<longleftrightarrow> j = k \<and> k < LENGTH('a)"
  by (auto simp: bit_push_bit_iff bit_1_iff)

lemma same_place: "m div 64 = n div 64 \<Longrightarrow> m mod 64 = n mod (64 :: nat) \<longleftrightarrow> m = n"
  by (metis div_mult_mod_eq)

lemma bv_nats_update:
  assumes "n div 64 < length bits" "\<And>j. j < 64 \<Longrightarrow> bit w j = (if j = n mod 64 then v else bit (bits ! (n div 64)) j)"
  shows "bv_nats (bits[n div 64 := w]) = (if v then insert n (bv_nats bits) else bv_nats bits - {n})"
proof (rule set_eqI)
  fix m
  show "m \<in> bv_nats (bits[n div 64 := w]) \<longleftrightarrow>
      m \<in> (if v then insert n (bv_nats bits) else bv_nats bits - {n})"
  proof (cases "m div 64 = n div 64")
    case True
    then show ?thesis using assms same_place [OF True] by (auto simp: bv_nats_def)
  next
    case False
    then have "m \<noteq> n" by auto
    with False show ?thesis by (simp add: bv_nats_def)
  qed
qed

lemma bv_nats_update_or:
  "n div 64 < length bits \<Longrightarrow>
    bv_nats (bits[n div 64 := bits ! (n div 64) OR push_bit (n mod 64) 1]) = insert n (bv_nats bits)"
  by (subst bv_nats_update [where v = True]) (auto simp: bit_or_iff bit_single)

lemma bv_nats_update_and_not:
  "n div 64 < length bits \<Longrightarrow>
    bv_nats (bits[n div 64 := bits ! (n div 64) AND NOT (push_bit (n mod 64) 1)]) = bv_nats bits - {n}"
  by (subst bv_nats_update [where v = False]) (auto simp: bit_and_iff bit_not_iff bit_single)

lemma bv_Set_correct:
  assumes "bv_Set bits i = (bits', before)"
  shows "bv_nats bits' = insert (unat i) (bv_nats bits) \<and> (before \<longleftrightarrow> i \<in> bv_elems bits)"
proof -
  let ?k = "unat i div 64" and ?m = "unat i mod 64"
  define bs where "bs = (if ?k \<ge> length bits
    then bits @ replicate (?k + 1 - length bits) 0 else bits)"
  have bs: "bv_nats bs = bv_nats bits" "?k < length bs"
    by (auto simp: bs_def bv_nats_resize)
  have "bv_Set bits i = (if bit (bs ! ?k) ?m then (bs, True)
      else (bs[?k := bs ! ?k OR push_bit ?m 1], False))"
    by (simp add: bv_Set_def kBitContainerSize_def Let_def word_and_push_bit_1_eq_0_iff
        bs_def [symmetric] del: One_nat_def)
  moreover have "bit (bs ! ?k) ?m \<longleftrightarrow> unat i \<in> bv_nats bits"
    using bs by (auto simp: bv_nats_def)
  ultimately show ?thesis
    using assms bs by (auto simp: bv_nats_update_or bv_elems_def split: if_splits)
qed

lemma bv_Clear_correct:
  assumes "bv_Clear bits i = (bits', before)"
  shows "bv_nats bits' = bv_nats bits - {unat i} \<and> (before \<longleftrightarrow> i \<in> bv_elems bits)"
proof -
  let ?k = "unat i div 64" and ?m = "unat i mod 64"
  have mem: "unat i \<in> bv_nats bits \<longleftrightarrow> ?k < length bits \<and> bit (bits ! ?k) ?m"
    by (simp add: bv_nats_def)
  have "bv_Clear bits i = (if ?k < length bits \<and> bit (bits ! ?k) ?m
      then (bits[?k := bits ! ?k AND NOT (push_bit ?m 1)], True) else (bits, False))"
    by (simp add: bv_Clear_def kBitContainerSize_def Let_def word_and_push_bit_1_eq_0_iff)
  with assms mem show ?thesis
    using bv_nats_update_and_not [of "unat i" bits] by (auto simp: bv_elems_def split: if_splits)
qed

lemma bv_elems_insert: "bv_elems (bv_insert i bits) = insert i (bv_elems bits)"
  using bv_Set_correct [of bits i "fst (bv_Set bits i)" "snd (bv_Set bits i)"]
  unfolding bv_insert_def bv_elems_def by (auto simp: unat_eq_word)

lemma bv_elems_remove: "bv_elems (bv_remove i bits) = bv_elems bits - {i}"
  using bv_Clear_correct [of bits i "fst (bv_Clear bits i)" "snd (bv_Clear bits i)"]
  unfolding bv_remove_def bv_elems_def by (auto simp: unat_eq_word)

lemma bv_elems_new: "bv_elems (bv_new n) = {}"
  by (auto simp: bv_elems_def bv_nats_def bv_new_def)

interpretation bv: set_container "bv_new n" bv_insert bv_remove bv_Get bv_elems "\<lambda>_. True"
  by unfold_locales (simp_all add: bv_elems_new bv_elems_insert bv_elems_remove bv_Get_elems)

section \<open>Emptiness and union\<close>

lemma bv_nats_Nil [simp]: "bv_nats [] = {}"
  by (simp add: bv_nats_def)

lemma mem_bv_nats_Cons:
  "n \<in> bv_nats (b # bits) \<longleftrightarrow> (if n < 64 then bit b n else n - 64 \<in> bv_nats bits)"
proof (cases "n < 64")
  case False
  then obtain m where "n = m + 64" by (metis le_add_diff_inverse2 not_less)
  then show ?thesis using div_add_self2 [of 64 m] by (simp add: bv_nats_def)
qed (simp add: bv_nats_def)

lemma bv_nats_Cons: "bv_nats (b # bits) = bit_set b \<union> (\<lambda>n. n + 64) ` bv_nats bits"
proof (rule set_eqI)
  fix n
  show "n \<in> bv_nats (b # bits) \<longleftrightarrow> n \<in> bit_set b \<union> (\<lambda>n. n + 64) ` bv_nats bits"
    using bit_imp_le_length [of b n]
    by (auto simp: mem_bv_nats_Cons image_iff) (metis le_add_diff_inverse2 not_less)+
qed

lemma finite_bv_nats [simp]: "finite (bv_nats bits)"
  by (induction bits) (simp_all add: bv_nats_Cons)

lemma bv_Empty_nats: "bv_Empty bits \<longleftrightarrow> bv_nats bits = {}"
  by (induction bits) (auto simp: bv_nats_Cons word_eq_iff_bit_set)

lemma bv_nats_Cons_subset:
  "bv_nats (b # bits) \<subseteq> bv_nats (c # cits) \<longleftrightarrow> bit_set b \<subseteq> bit_set c \<and> bv_nats bits \<subseteq> bv_nats cits"
proof -
  have 1: "bit_set b \<subseteq> bit_set c \<longleftrightarrow> (\<forall>n < 64. bit b n \<longrightarrow> bit c n)"
    using bit_imp_le_length [of b] by fastforce
  have 2: "(\<forall>n. \<not> n < 64 \<longrightarrow> n - 64 \<in> bv_nats bits \<longrightarrow> n - 64 \<in> bv_nats cits) \<longleftrightarrow>
      bv_nats bits \<subseteq> bv_nats cits"
  proof (intro iffI subsetI allI impI)
    fix m assume "\<forall>n. \<not> n < 64 \<longrightarrow> n - 64 \<in> bv_nats bits \<longrightarrow> n - 64 \<in> bv_nats cits" "m \<in> bv_nats bits"
    then show "m \<in> bv_nats cits" by (auto dest: spec [of _ "m + 64"])
  qed auto
  show ?thesis
    unfolding 1 2 [symmetric] by (auto simp: subset_iff mem_bv_nats_Cons)
qed

lemma bv_Or_nats:
  "bv_Or this other = (r, modified) \<Longrightarrow>
    bv_nats r = bv_nats this \<union> bv_nats other \<and> length r = max (length this) (length other) \<and>
    (modified \<longleftrightarrow> \<not> bv_nats other \<subseteq> bv_nats this \<or> length this < length other)"
proof (induction this other arbitrary: r modified rule: bv_Or.induct)
  case (1 t this o1 other)
  obtain r' m' where rec: "bv_Or this other = (r', m')" by fastforce
  then have r: "r = (t OR o1) # r'" "modified \<longleftrightarrow> t OR o1 \<noteq> t \<or> m'"
    using "1.prems" by (auto simp: Let_def)
  have ih: "bv_nats r' = bv_nats this \<union> bv_nats other" "length r' = max (length this) (length other)"
    "m' \<longleftrightarrow> \<not> bv_nats other \<subseteq> bv_nats this \<or> length this < length other"
    using "1.IH" [OF refl rec] by auto
  have union: "bit_set (t OR o1) = bit_set t \<union> bit_set o1" by (auto simp: bit_or_iff)
  have "t OR o1 = t \<longleftrightarrow> bit_set o1 \<subseteq> bit_set t"
    unfolding word_eq_iff_bit_set union by blast
  moreover have "bv_nats (o1 # other) \<subseteq> bv_nats (t # this) \<longleftrightarrow>
      bit_set o1 \<subseteq> bit_set t \<and> bv_nats other \<subseteq> bv_nats this"
    by (rule bv_nats_Cons_subset)
  ultimately have "modified \<longleftrightarrow> \<not> bv_nats (o1 # other) \<subseteq> bv_nats (t # this) \<or>
      length (t # this) < length (o1 # other)"
    using ih(3) r(2) by auto
  moreover have "bv_nats r = bv_nats (t # this) \<union> bv_nats (o1 # other)"
    using ih(1) r(1) union by (simp add: bv_nats_Cons image_Un Un_ac)
  ultimately show ?case using ih(2) r(1) by simp
qed auto

section \<open>What is printed and counted\<close>

lemma and_1_odd: "w AND 1 \<noteq> 0 \<longleftrightarrow> bit (w :: 'a::len word) 0"
  using word_and_push_bit_1_eq_0_iff [of w 0] by simp

lemma upt_64_unfold: "j < 64 \<Longrightarrow> [j..<64] = j # [Suc j..<64]"
  by (rule upt_conv_Cons)

lemma bits_of_container_filter:
  "j \<le> 64 \<Longrightarrow> b = drop_bit j w \<Longrightarrow>
    bits_of_container b i j = map ((+) (i * 64)) (filter (bit w) [j..<64])"
proof (induction b i j rule: bits_of_container.induct)
  case (1 b i j)
  show ?case
  proof (cases "b = 0")
    case True
    then have "\<not> bit w k" if "j \<le> k" for k
      using that "1.prems"(2) True bit_drop_bit_eq [of j w] by (metis bit_0_eq bot_apply bot_bool_def comp_apply le_add_diff_inverse)
    then have "filter (bit w) [j..<64] = []" by (simp add: filter_empty_conv)
    with True show ?thesis by (simp add: bits_of_container.simps)
  next
    case False
    have "drop_bit 64 w = 0" by (rule drop_bit_word_beyond) simp
    with False have j: "j < 64" using "1.prems" by (cases "j = 64") auto
    have "drop_bit 1 b = drop_bit (j + 1) w" using "1.prems"(2) by (simp add: drop_bit_drop_bit)
    then have ih: "bits_of_container (drop_bit 1 b) i (j + 1) =
        map ((+) (i * 64)) (filter (bit w) [Suc j..<64])"
      using "1.IH" [OF False] j by simp
    have b0: "b AND 1 \<noteq> 0 \<longleftrightarrow> bit w j"
      using "1.prems"(2) by (simp add: and_1_odd bit_drop_bit_eq del: bit_0)
    show ?thesis
      using False ih
      by (subst bits_of_container.simps) (simp add: b0 upt_64_unfold [OF j] kBitContainerSize_def)
  qed
qed

lemma bv_printed_correct:
  "sorted_wrt (<) (bv_printed bits i) \<and> set (bv_printed bits i) = (\<lambda>n. i * 64 + n) ` bv_nats bits"
proof (induction bits arbitrary: i)
  case (Cons b bits)
  have head: "bits_of_container b i 0 = map ((+) (i * 64)) (filter (bit b) [0..<64])"
    by (rule bits_of_container_filter) simp_all
  have "sorted_wrt (<) (filter (bit b) [0..<64])" by (intro sorted_wrt_filter) simp
  then have 1: "sorted_wrt (<) (bits_of_container b i 0)"
    by (simp add: head sorted_wrt_map)
  have 2: "set (bits_of_container b i 0) = (\<lambda>n. i * 64 + n) ` bit_set b"
    using bit_imp_le_length [of b] by (auto simp: head)
  have 3: "(\<lambda>n. (i + 1) * 64 + n) ` bv_nats bits = (\<lambda>n. i * 64 + n) ` (\<lambda>n. n + 64) ` bv_nats bits"
    by (simp add: image_image algebra_simps)
  have "x < i * 64 + 64" if "x \<in> set (bits_of_container b i 0)" for x
    using that by (auto simp: head)
  then have 4: "\<forall>x \<in> set (bits_of_container b i 0). \<forall>y \<in> set (bv_printed bits (i + 1)). x < y"
    using Cons [of "i + 1"] by fastforce
  show ?case
    using Cons [of "i + 1"] 1 2 3 4
    by (simp add: sorted_wrt_append bv_nats_Cons image_Un)
qed simp

lemma card_bit_set_halve:
  "card (bit_set (n :: nat)) = (if odd n then 1 else 0) + card (bit_set (n div 2))"
proof (cases "odd n")
  case True
  then have "n = Suc (2 * (n div 2))" by (metis odd_two_times_div_two_succ Suc_eq_plus1)
  then show ?thesis using True card_bit_set_double_Suc [of "n div 2"] by simp
next
  case False
  then have "n = 2 * (n div 2)" by (metis even_two_times_div_two)
  then show ?thesis using False card_bit_set_double [of "n div 2"] by simp
qed

lemma density_loop_card: "density_loop e c = c + word_of_nat (card (bit_set e))"
proof (induction e c rule: density_loop.induct)
  case (1 e c)
  have "unat (drop_bit 1 e) = unat e div 2"
    using unat_drop_bit_eq [of 1 e] by (simp only: drop_bit_eq_div power_one_right)
  then have "card (bit_set e) = (if e AND 1 \<noteq> 0 then 1 else 0) + card (bit_set (drop_bit 1 e))"
    using card_bit_set_halve [of "unat e"] bit_set_unat [of e] bit_set_unat [of "drop_bit 1 e"]
      mem_bit_set [of 0 "unat e"] mem_bit_set [of 0 e]
    unfolding and_1_odd by (simp add: bit_0)
  with 1 show ?case
    by (subst density_loop.simps) (auto simp del: drop_bit_eq_div)
qed

lemma card_bv_nats_Cons: "card (bv_nats (b # bits)) = card (bit_set b) + card (bv_nats bits)"
proof -
  have "bit_set b \<inter> (\<lambda>n. n + 64) ` bv_nats bits = {}"
    using bit_imp_le_length [of b] by fastforce
  then show ?thesis by (simp add: bv_nats_Cons card_Un_disjoint card_image inj_on_def)
qed

lemma density_count_card: "density_count bits = word_of_nat (card (bv_nats bits))"
proof -
  have "fold density_loop bits c = c + word_of_nat (card (bv_nats bits))" for c
    by (induction bits arbitrary: c) (simp_all add: density_loop_card card_bv_nats_Cons add.assoc)
  then show ?thesis by (simp add: density_count_def)
qed

section \<open>Properties\<close>

text \<open>C36: \<open>BitVector\<close> implements a set of 32-bit indices: \<open>Set\<close> adds, \<open>Clear\<close> removes and both
  report whether the bit was set before, \<open>Get\<close> tests, \<open>Empty\<close> says whether no bit is set, and a
  new vector of any reserved size is empty.\<close>

theorem BitVector_refines_set:
  "bv_elems (fst (bv_Set bits i)) = insert i (bv_elems bits) \<and>
   snd (bv_Set bits i) = (i \<in> bv_elems bits) \<and>
   bv_elems (fst (bv_Clear bits i)) = bv_elems bits - {i} \<and>
   snd (bv_Clear bits i) = (i \<in> bv_elems bits) \<and>
   bv_Get bits i = (i \<in> bv_elems bits) \<and>
   bv_Empty bits = (bv_nats bits = {}) \<and>
   bv_Empty (bv_new n)"
  using bv.elems_insrt [where x = i and s = bits] bv.elems_remove [where x = i and s = bits] bv.member_elems [where x = i and s = bits]
    bv_Set_correct [of bits i "fst (bv_Set bits i)" "snd (bv_Set bits i)"]
    bv_Clear_correct [of bits i "fst (bv_Clear bits i)" "snd (bv_Clear bits i)"]
  by (simp add: bv_insert_def bv_remove_def bv_Empty_nats) (simp add: bv_new_def bv_nats_def)

text \<open>\<open>Or\<close> leaves the union of both vectors in the first. Its result is true exactly when the
  second vector holds a bit the first did not, or is longer: a longer vector of zero words makes it
  report a change although no bit changed.\<close>

theorem BitVector_Or:
  "bv_nats (fst (bv_Or this other)) = bv_nats this \<union> bv_nats other \<and>
   (\<not> snd (bv_Or this other)) = (bv_nats (fst (bv_Or this other)) = bv_nats this \<and> length other \<le> length this)"
  using bv_Or_nats [of this other "fst (bv_Or this other)" "snd (bv_Or this other)"]
  by (auto simp: not_less)

text \<open>The stream output lists exactly the set bits in ascending order, and \<open>ReportDensity\<close>
  counts them (modulo the width of its counter).\<close>

theorem BitVector_reports:
  "bv_printed bits 0 = sorted_list_of_set (bv_nats bits) \<and>
   density_count bits = word_of_nat (card (bv_nats bits))"
  using bv_printed_correct [of bits 0] density_count_card [of bits]
  by (simp add: strict_sorted_equal)

end
