(* ===== verification/Enum_Set.thy ===== *)
theory Enum_Set
  imports Prelude
begin

text \<open>
  \<open>spvtools::EnumSet\<close> of \<open>src/ShaderCompiler/src/spirv-tools/enum_set.h\<close>: a set of unsigned enum
  values kept as a vector of 64-bit buckets sorted by the first value they can hold. An enum value
  is its number (a \<open>nat\<close>), a bucket index a \<open>nat\<close>, a bit offset the \<open>uint32_t\<close> it is in the code.
  The representation invariant is \<open>es_inv\<close>, the abstraction to a set \<open>es_elems\<close>; every operation
  is shown to keep the one and to commute with the other, so the type is an instance of the
  interface \<open>set_container\<close>.
\<close>

section \<open>State\<close>

record bucket =
  b_data :: uint64_t
  b_start :: nat

record enum_set =
  es_buckets :: "bucket list"
  es_size :: nat

definition kBucketSize :: nat where
  "kBucketSize = 64"

definition es_empty :: enum_set where
  "es_empty = \<lparr>es_buckets = [], es_size = 0\<rparr>"

section \<open>Placement of a value\<close>

definition ComputeLargestPossibleBucketIndexFor :: "nat \<Rightarrow> nat" where
  "ComputeLargestPossibleBucketIndexFor value = value div kBucketSize"

definition ComputeBucketStart :: "nat \<Rightarrow> nat" where
  "ComputeBucketStart value = kBucketSize * ComputeLargestPossibleBucketIndexFor value"

definition ComputeBucketOffset :: "nat \<Rightarrow> nat" where
  "ComputeBucketOffset value = value mod kBucketSize"

definition ComputeMaskForValue :: "nat \<Rightarrow> uint64_t" where
  "ComputeMaskForValue value = push_bit (ComputeBucketOffset value) 1"

definition GetValueFromBucket :: "bucket \<Rightarrow> nat \<Rightarrow> nat" where
  "GetValueFromBucket b offset = b_start b + offset"

text \<open>The loop of \<open>FindBucketForValue\<close>, scanning left from \<open>index\<close>.\<close>

fun FindBucket_loop :: "bucket list \<Rightarrow> nat \<Rightarrow> nat \<Rightarrow> nat" where
  "FindBucket_loop bs wanted_start index =
     (if b_start (bs ! index) \<ge> wanted_start
      then (if index = 0 then 0 else FindBucket_loop bs wanted_start (index - 1))
      else index + 1)"

declare FindBucket_loop.simps [simp del]

definition FindBucketForValue :: "enum_set \<Rightarrow> nat \<Rightarrow> nat" where
  "FindBucketForValue s value =
     (if length (es_buckets s) = 0 then 0
      else
        let wanted_start = ComputeBucketStart value;
            index = min (length (es_buckets s) - 1) (ComputeLargestPossibleBucketIndexFor value)
        in FindBucket_loop (es_buckets s) wanted_start index)"

definition InsertBucketFor :: "enum_set \<Rightarrow> nat \<Rightarrow> nat \<Rightarrow> enum_set" where
  "InsertBucketFor s index value =
     (let bucket_start = ComputeBucketStart value;
          bucket = \<lparr>b_data = push_bit (ComputeBucketOffset value) 1, b_start = bucket_start\<rparr>
      in s\<lparr>es_buckets := list_insert_at index bucket (es_buckets s)\<rparr>)"

definition HasEnumAt :: "enum_set \<Rightarrow> nat \<Rightarrow> uint32_t \<Rightarrow> bool" where
  "HasEnumAt s bucketIndex bucketOffset \<longleftrightarrow>
     b_data (es_buckets s ! bucketIndex) AND push_bit (unat bucketOffset) 1 \<noteq> 0"

section \<open>Operations\<close>

text \<open>An iterator is the pair of its bucket index and its offset in the bucket.\<close>

type_synonym iterator = "nat \<times> uint32_t"

definition insert_value :: "enum_set \<Rightarrow> nat \<Rightarrow> enum_set \<times> iterator \<times> bool" where
  "insert_value s value =
     (let index = FindBucketForValue s value;
          offset = word_of_nat (ComputeBucketOffset value)
      in if index \<ge> length (es_buckets s)
            \<or> b_start (es_buckets s ! index) \<noteq> ComputeBucketStart value
         then (InsertBucketFor (s\<lparr>es_size := es_size s + 1\<rparr>) index value, (index, offset), True)
         else
           let bucket = es_buckets s ! index; mask = ComputeMaskForValue value
           in if b_data bucket AND mask \<noteq> 0 then (s, (index, offset), False)
              else (s\<lparr>es_size := es_size s + 1,
                      es_buckets := (es_buckets s)[index :=
                        bucket\<lparr>b_data := b_data bucket OR ComputeMaskForValue value\<rparr>]\<rparr>,
                    (index, offset), True))"

definition erase :: "enum_set \<Rightarrow> nat \<Rightarrow> enum_set \<times> nat" where
  "erase s value =
     (let index = FindBucketForValue s value
      in if index \<ge> length (es_buckets s)
            \<or> b_start (es_buckets s ! index) \<noteq> ComputeBucketStart value
         then (s, 0)
         else
           let bucket = es_buckets s ! index; mask = ComputeMaskForValue value
           in if b_data bucket AND mask = 0 then (s, 0)
              else
                let bucket' = bucket\<lparr>b_data := b_data bucket AND NOT mask\<rparr>;
                    s' = s\<lparr>es_size := es_size s - 1,
                           es_buckets := (es_buckets s)[index := bucket']\<rparr>
                in (if b_data bucket' = 0
                    then s'\<lparr>es_buckets := list_erase_at index (es_buckets s')\<rparr>
                    else s', 1))"

definition contains :: "enum_set \<Rightarrow> nat \<Rightarrow> bool" where
  "contains s value =
     (let index = FindBucketForValue s value
      in if index \<ge> length (es_buckets s)
            \<or> b_start (es_buckets s ! index) \<noteq> ComputeBucketStart value
         then False
         else b_data (es_buckets s ! index) AND ComputeMaskForValue value \<noteq> 0)"

definition es_count :: "enum_set \<Rightarrow> nat \<Rightarrow> nat" where
  "es_count s value = (if contains s value then 1 else 0)"

definition es_is_empty :: "enum_set \<Rightarrow> bool" where
  "es_is_empty s \<longleftrightarrow> es_size s = 0"

text \<open>The two-pointer walk of \<open>HasAnyOf\<close> over both bucket vectors.\<close>

fun HasAnyOf_loop :: "bucket list \<Rightarrow> bucket list \<Rightarrow> bool" where
  "HasAnyOf_loop (l # lhs) (r # rhs) =
     (if b_start l = b_start r then
        (if b_data l AND b_data r \<noteq> 0 then True else HasAnyOf_loop lhs rhs)
      else if b_start l < b_start r then HasAnyOf_loop lhs (r # rhs)
      else HasAnyOf_loop (l # lhs) rhs)"
| "HasAnyOf_loop lhs rhs = False"

definition HasAnyOf :: "enum_set \<Rightarrow> enum_set \<Rightarrow> bool" where
  "HasAnyOf s in_set =
     (if es_is_empty in_set then True else HasAnyOf_loop (es_buckets s) (es_buckets in_set))"

text \<open>\<open>operator==\<close>; the buckets are compared field by field, as \<open>Bucket::operator==\<close> does.\<close>

definition bucket_eq :: "bucket \<Rightarrow> bucket \<Rightarrow> bool" where
  "bucket_eq lhs rhs \<longleftrightarrow> b_start lhs = b_start rhs \<and> b_data lhs = b_data rhs"

definition es_eq :: "enum_set \<Rightarrow> enum_set \<Rightarrow> bool" where
  "es_eq lhs rhs =
     (if es_size lhs \<noteq> es_size rhs then False
      else if length (es_buckets lhs) \<noteq> length (es_buckets rhs) then False
      else list_all2 bucket_eq (es_buckets lhs) (es_buckets rhs))"

text \<open>
  The state change of an insertion and of a removal, and the constructor that inserts a list of
  values one after the other into an empty set.
\<close>

definition es_insert :: "nat \<Rightarrow> enum_set \<Rightarrow> enum_set" where
  "es_insert value s = fst (insert_value s value)"

definition es_erase :: "nat \<Rightarrow> enum_set \<Rightarrow> enum_set" where
  "es_erase value s = fst (erase s value)"

definition es_of_list :: "nat list \<Rightarrow> enum_set" where
  "es_of_list values = fold es_insert values es_empty"

section \<open>Iteration\<close>

lemma offset_distance_decreases:
  fixes bo :: uint32_t
  assumes "bo + 1 \<noteq> 64"
  shows "unat (63 - (bo + 1)) < unat (63 - bo)"
proof -
  have "63 - bo \<noteq> 0" using assms by auto
  then have "unat (63 - bo - 1) < unat (63 - bo)" by (rule measure_unat)
  then show ?thesis by (simp add: diff_diff_eq)
qed

text \<open>
  \<open>Iterator::operator++\<close>: step to the next bit, then on while the bit is clear. The offset is a
  \<open>uint32_t\<close>; what shrinks is the distance to the end, bucket first.
\<close>

function Iterator_next :: "enum_set \<Rightarrow> nat \<Rightarrow> uint32_t \<Rightarrow> iterator" where
  "Iterator_next s bucketIndex bucketOffset =
     (if bucketIndex \<ge> length (es_buckets s) then (length (es_buckets s), 0)
      else
        let bucketIndex' = (if bucketOffset + 1 = 64 then bucketIndex + 1 else bucketIndex);
            bucketOffset' = (if bucketOffset + 1 = 64 then 0 else bucketOffset + 1)
        in if bucketIndex' < length (es_buckets s) \<and> \<not> HasEnumAt s bucketIndex' bucketOffset'
           then Iterator_next s bucketIndex' bucketOffset'
           else (bucketIndex', bucketOffset'))"
  by pat_completeness auto

termination
proof (relation "measures [\<lambda>(s, bi, bo). length (es_buckets s) - bi, \<lambda>(s, bi, bo). unat (63 - bo)]")
qed (use offset_distance_decreases in \<open>auto split: if_splits\<close>)

declare Iterator_next.simps [simp del]

definition cend :: "enum_set \<Rightarrow> iterator" where
  "cend s = (length (es_buckets s), 0)"

definition cbegin :: "enum_set \<Rightarrow> iterator" where
  "cbegin s =
     (if length (es_buckets s) = 0 then (0, 0)
      else if \<not> HasEnumAt s 0 0 then Iterator_next s 0 0 else (0, 0))"

definition Iterator_deref :: "enum_set \<Rightarrow> iterator \<Rightarrow> nat" where
  "Iterator_deref s it = GetValueFromBucket (es_buckets s ! fst it) (unat (snd it))"

text \<open>
  The values a range-based \<open>for\<close> sees from an iterator on: every iterator before the end points at
  a value of the set (the assert of \<open>operator*\<close>), and is then advanced.
\<close>

inductive iterates :: "enum_set \<Rightarrow> iterator \<Rightarrow> nat list \<Rightarrow> bool" where
  iterates_end: "it = cend s \<Longrightarrow> iterates s it []"
| iterates_step: "\<lbrakk>it \<noteq> cend s; HasEnumAt s (fst it) (snd it);
    iterates s (Iterator_next s (fst it) (snd it)) vs\<rbrakk> \<Longrightarrow>
    iterates s it (Iterator_deref s it # vs)"

section \<open>Abstraction and invariant\<close>

definition bucket_has :: "bucket \<Rightarrow> nat \<Rightarrow> bool" where
  "bucket_has b v \<longleftrightarrow> b_start b = 64 * (v div 64) \<and> bit (b_data b) (v mod 64)"

definition buckets_elems :: "bucket list \<Rightarrow> nat set" where
  "buckets_elems bs = {v. \<exists>b \<in> set bs. bucket_has b v}"

definition es_elems :: "enum_set \<Rightarrow> nat set" where
  "es_elems s = buckets_elems (es_buckets s)"

definition buckets_ok :: "bucket list \<Rightarrow> bool" where
  "buckets_ok bs \<longleftrightarrow> sorted_wrt (<) (map b_start bs) \<and>
     (\<forall>b \<in> set bs. 64 dvd b_start b \<and> b_data b \<noteq> 0)"

definition es_inv :: "enum_set \<Rightarrow> bool" where
  "es_inv s \<longleftrightarrow> buckets_ok (es_buckets s) \<and> es_size s = card (es_elems s)"

lemmas placement_simps =
  kBucketSize_def ComputeLargestPossibleBucketIndexFor_def ComputeBucketStart_def
  ComputeBucketOffset_def ComputeMaskForValue_def

lemma finite_bucket_has: "finite {v. bucket_has b v}"
proof -
  have "{v. bucket_has b v} \<subseteq> {..< b_start b + 64}"
    by (auto simp: bucket_has_def)
  then show ?thesis by (rule finite_subset) simp
qed

lemma buckets_elems_Nil [simp]: "buckets_elems [] = {}"
  by (simp add: buckets_elems_def)

lemma buckets_elems_Cons: "buckets_elems (b # bs) = {v. bucket_has b v} \<union> buckets_elems bs"
  by (auto simp: buckets_elems_def)

lemma finite_buckets_elems [simp]: "finite (buckets_elems bs)"
  by (induction bs) (simp_all add: buckets_elems_Cons finite_bucket_has)

lemma finite_es_elems [simp]: "finite (es_elems s)"
  by (simp add: es_elems_def)

section \<open>Where a value's bucket is\<close>

lemma sorted_starts_less:
  "sorted_wrt (<) (map b_start bs) \<Longrightarrow> i < j \<Longrightarrow> j < length bs \<Longrightarrow>
    b_start (bs ! i) < b_start (bs ! j)"
  using sorted_wrt_nth_less [of "(<)" "map b_start bs" i j] by simp

lemma sorted_starts_lower_bound:
  "sorted_wrt (<) (map b_start bs) \<Longrightarrow> \<forall>b \<in> set bs. 64 dvd b_start b \<Longrightarrow> i < length bs \<Longrightarrow>
    64 * i \<le> b_start (bs ! i)"
proof (induction i)
  case (Suc i)
  then have "64 * i \<le> b_start (bs ! i)" "b_start (bs ! i) < b_start (bs ! Suc i)"
    by (auto simp: sorted_starts_less)
  moreover have "64 dvd b_start (bs ! Suc i)" "64 dvd b_start (bs ! i)"
    using Suc.prems by auto
  ultimately show ?case by (elim dvdE) simp
qed simp

lemma FindBucket_loop_split:
  "\<lbrakk>sorted_wrt (<) (map b_start bs); index < length bs;
    \<forall>j. index < j \<and> j < length bs \<longrightarrow> wanted \<le> b_start (bs ! j);
    r = FindBucket_loop bs wanted index\<rbrakk> \<Longrightarrow>
   r \<le> length bs \<and> (\<forall>j<r. b_start (bs ! j) < wanted) \<and>
   (\<forall>j. r \<le> j \<and> j < length bs \<longrightarrow> wanted \<le> b_start (bs ! j))"
proof (induction bs wanted index arbitrary: r rule: FindBucket_loop.induct)
  case (1 bs wanted index)
  note unfold = FindBucket_loop.simps [of bs wanted index]
  show ?case
  proof (cases "wanted \<le> b_start (bs ! index)")
    case ge: True
    have right: "\<forall>j. index \<le> j \<and> j < length bs \<longrightarrow> wanted \<le> b_start (bs ! j)"
      using ge "1.prems"(3) by (auto simp: le_less)
    show ?thesis
    proof (cases "index = 0")
      case True
      with ge have "r = 0" using "1.prems"(4) by (simp add: FindBucket_loop.simps)
      with right True show ?thesis by simp
    next
      case False
      then have "\<forall>j. index - 1 < j \<and> j < length bs \<longrightarrow> wanted \<le> b_start (bs ! j)"
        using right by auto
      then show ?thesis
        using "1.IH" [OF ge False] "1.prems" ge False by (simp add: unfold)
    qed
  next
    case False
    have "b_start (bs ! j) < wanted" if "j < Suc index" for j
    proof (cases "j = index")
      case False
      with that have "b_start (bs ! j) < b_start (bs ! index)"
        using "1.prems"(1,2) by (simp add: sorted_starts_less)
      with \<open>\<not> wanted \<le> _\<close> show ?thesis by simp
    qed (use \<open>\<not> wanted \<le> _\<close> in simp)
    with False "1.prems" show ?thesis by (auto simp: unfold)
  qed
qed

lemma FindBucketForValue_split:
  assumes ok: "buckets_ok (es_buckets s)" and r: "r = FindBucketForValue s value"
  shows "r \<le> length (es_buckets s)"
    and "\<forall>j<r. b_start (es_buckets s ! j) < ComputeBucketStart value"
    and "\<forall>j. r \<le> j \<and> j < length (es_buckets s) \<longrightarrow>
      ComputeBucketStart value \<le> b_start (es_buckets s ! j)"
proof -
  let ?bs = "es_buckets s" and ?w = "ComputeBucketStart value"
  let ?i = "min (length ?bs - 1) (value div 64)"
  have ok: "sorted_wrt (<) (map b_start ?bs)" "\<forall>b \<in> set ?bs. 64 dvd b_start b"
    using ok by (auto simp: buckets_ok_def)
  have "?w \<le> b_start (?bs ! j)" if "?i < j" "j < length ?bs" for j
    using sorted_starts_lower_bound [OF ok that(2)] that by (simp add: placement_simps)
  moreover have "?i < length ?bs" if "?bs \<noteq> []"
    using that by (metis One_nat_def diff_less length_greater_0_conv lessI min.strict_coboundedI1)
  ultimately have "r \<le> length ?bs \<and> (\<forall>j<r. b_start (?bs ! j) < ?w) \<and>
      (\<forall>j. r \<le> j \<and> j < length ?bs \<longrightarrow> ?w \<le> b_start (?bs ! j))"
    using FindBucket_loop_split [OF ok(1), of ?i ?w r]
    by (cases "?bs = []")
       (simp_all add: r FindBucketForValue_def Let_def
         ComputeLargestPossibleBucketIndexFor_def kBucketSize_def)
  then show "r \<le> length ?bs" "\<forall>j<r. b_start (?bs ! j) < ?w"
    "\<forall>j. r \<le> j \<and> j < length ?bs \<longrightarrow> ?w \<le> b_start (?bs ! j)"
    by auto
qed

text \<open>
  The bucket found is the one that can hold the value, or there is none and the index is where it
  belongs.
\<close>

lemma bucket_found:
  assumes "buckets_ok (es_buckets s)" "index = FindBucketForValue s value"
    and "index < length (es_buckets s)"
    and "b_start (es_buckets s ! index) = ComputeBucketStart value"
  shows "value \<in> es_elems s \<longleftrightarrow> bit (b_data (es_buckets s ! index)) (value mod 64)"
proof -
  let ?bs = "es_buckets s"
  have only: "j = index" if "j < length ?bs" "b_start (?bs ! j) = ComputeBucketStart value" for j
    using that assms sorted_starts_less [of ?bs] by (metis buckets_ok_def linorder_cases nat_neq_iff)
  have "value \<in> es_elems s \<longleftrightarrow> (\<exists>j<length ?bs. bucket_has (?bs ! j) value)"
    unfolding es_elems_def buckets_elems_def mem_Collect_eq by (metis in_set_conv_nth)
  also have "\<dots> \<longleftrightarrow> bucket_has (?bs ! index) value"
    using only assms(3) by (auto simp: bucket_has_def placement_simps)
  finally show ?thesis using assms(4) by (simp add: bucket_has_def placement_simps)
qed

lemma bucket_missing:
  assumes "buckets_ok (es_buckets s)" "index = FindBucketForValue s value"
    and "index \<ge> length (es_buckets s) \<or>
      b_start (es_buckets s ! index) \<noteq> ComputeBucketStart value"
  shows "\<forall>b \<in> set (es_buckets s). b_start b \<noteq> ComputeBucketStart value"
    and "index \<le> length (es_buckets s)"
    and "\<forall>b \<in> set (take index (es_buckets s)). b_start b < ComputeBucketStart value"
    and "\<forall>b \<in> set (drop index (es_buckets s)). ComputeBucketStart value < b_start b"
proof -
  let ?bs = "es_buckets s" and ?w = "ComputeBucketStart value"
  note split = FindBucketForValue_split [OF assms(1,2)]
  show le: "index \<le> length ?bs" by (rule split(1))
  have lt: "b_start (?bs ! j) < ?w" if "j < index" for j using split(2) that by blast
  have gt: "?w < b_start (?bs ! j)" if "index \<le> j" "j < length ?bs" for j
  proof (cases "j = index")
    case True
    with assms(3) split(3) that show ?thesis by (metis le_neq_implies_less not_le)
  next
    case False
    then have "b_start (?bs ! index) < b_start (?bs ! j)"
      using that assms(1) by (simp add: buckets_ok_def sorted_starts_less)
    moreover have "?w \<le> b_start (?bs ! index)" using split(3) that by simp
    ultimately show ?thesis by simp
  qed
  show "\<forall>b \<in> set (take index ?bs). b_start b < ?w"
    using lt le by (auto simp: in_set_conv_nth)
  show "\<forall>b \<in> set (drop index ?bs). ?w < b_start b"
    using gt le by (auto simp: in_set_conv_nth)
  show "\<forall>b \<in> set ?bs. b_start b \<noteq> ?w"
    using lt gt by (metis in_set_conv_nth less_irrefl linorder_not_le)
qed

section \<open>Lookup\<close>

lemma mask_test: "w AND ComputeMaskForValue value = 0 \<longleftrightarrow> \<not> bit w (value mod 64)"
  by (simp only: placement_simps word_and_push_bit_1_eq_0_iff)

lemma contains_elems:
  assumes "es_inv s"
  shows "contains s value \<longleftrightarrow> value \<in> es_elems s"
proof -
  let ?i = "FindBucketForValue s value"
  have ok: "buckets_ok (es_buckets s)" using assms by (simp add: es_inv_def)
  show ?thesis
  proof (cases "?i \<ge> length (es_buckets s) \<or> b_start (es_buckets s ! ?i) \<noteq> ComputeBucketStart value")
    case True
    with bucket_missing(1) [OF ok refl True] show ?thesis
      by (auto simp: contains_def Let_def es_elems_def buckets_elems_def bucket_has_def
          placement_simps)
  next
    case False
    with bucket_found [OF ok refl] show ?thesis
      by (simp add: contains_def Let_def mask_test)
  qed
qed

section \<open>Insertion\<close>

lemma bucket_has_mask:
  "bucket_has \<lparr>b_data = push_bit (v mod 64) 1, b_start = 64 * (v div 64)\<rparr> x \<longleftrightarrow> x = v"
proof -
  have "x mod 64 < 64" by simp
  then have "bit (push_bit (v mod 64) 1 :: uint64_t) (x mod 64) \<longleftrightarrow> x mod 64 = v mod 64"
    by (auto simp: bit_simps)
  then show ?thesis
    by (auto simp: bucket_has_def) (metis div_mult_mod_eq mult.commute)
qed

lemma bucket_has_or:
  assumes "b_start b = 64 * (v div 64)"
  shows "bucket_has (b\<lparr>b_data := b_data b OR push_bit (v mod 64) 1\<rparr>) x \<longleftrightarrow>
    x = v \<or> bucket_has b x"
  using assms bucket_has_mask [of v x] by (auto simp: bucket_has_def bit_or_iff)

lemma bucket_has_and_not:
  assumes "b_start b = 64 * (v div 64)"
  shows "bucket_has (b\<lparr>b_data := b_data b AND NOT (push_bit (v mod 64) 1)\<rparr>) x \<longleftrightarrow>
    x \<noteq> v \<and> bucket_has b x"
proof -
  have "x mod 64 < 64" by simp
  then show ?thesis
    using assms bucket_has_mask [of v x]
    by (auto simp: bucket_has_def bit_and_iff bit_not_iff)
qed

text \<open>Replacing a bucket by one that holds other values.\<close>

lemma buckets_elems_nth: "buckets_elems bs = {x. \<exists>j<length bs. bucket_has (bs ! j) x}"
  unfolding buckets_elems_def by (metis in_set_conv_nth)

lemma buckets_elems_update:
  "i < length bs \<Longrightarrow> buckets_elems (bs[i := b']) =
    {x. bucket_has b' x \<or> (\<exists>j<length bs. j \<noteq> i \<and> bucket_has (bs ! j) x)}"
  by (auto simp: buckets_elems_nth nth_list_update)

lemma buckets_elems_split:
  "i < length bs \<Longrightarrow> buckets_elems bs =
    {x. bucket_has (bs ! i) x \<or> (\<exists>j<length bs. j \<noteq> i \<and> bucket_has (bs ! j) x)}"
  by (auto simp: buckets_elems_nth)

lemma insert_value_fresh:
  assumes ok: "buckets_ok (es_buckets s)"
    and new: "index \<ge> length (es_buckets s) \<or>
      b_start (es_buckets s ! index) \<noteq> ComputeBucketStart value"
    and index: "index = FindBucketForValue s value"
  shows "buckets_ok (es_buckets (InsertBucketFor s index value))"
    and "es_elems (InsertBucketFor s index value) = insert value (es_elems s)"
    and "value \<notin> es_elems s"
proof -
  note miss = bucket_missing [OF ok index new]
  let ?b = "\<lparr>b_data = push_bit (value mod 64) 1, b_start = 64 * (value div 64)\<rparr> :: bucket"
  have bs: "es_buckets (InsertBucketFor s index value) = list_insert_at index ?b (es_buckets s)"
    by (simp add: InsertBucketFor_def Let_def placement_simps)
  show "value \<notin> es_elems s"
    using miss(1) by (auto simp: es_elems_def buckets_elems_def bucket_has_def placement_simps)
  show "es_elems (InsertBucketFor s index value) = insert value (es_elems s)"
    unfolding es_elems_def bs by (auto simp: buckets_elems_def bucket_has_mask)
  have "push_bit (value mod 64) (1 :: uint64_t) \<noteq> 0" by (rule push_bit_1_nonzero) simp
  moreover have "sorted_wrt (<) (map b_start (take index (es_buckets s) @ drop index (es_buckets s)))"
    using ok by (simp add: buckets_ok_def)
  ultimately show "buckets_ok (es_buckets (InsertBucketFor s index value))"
    using ok miss(3,4) unfolding bs buckets_ok_def
    by (auto simp: list_insert_at_def sorted_wrt_append placement_simps
        simp del: append_take_drop_id dest: in_set_takeD in_set_dropD)
qed

text \<open>A change of the data of one bucket, and what it does to the rest.\<close>

lemma buckets_ok_update:
  assumes "buckets_ok bs" "i < length bs" "d \<noteq> 0"
  shows "buckets_ok (bs[i := (bs ! i)\<lparr>b_data := d\<rparr>])"
proof -
  have "map b_start (bs[i := (bs ! i)\<lparr>b_data := d\<rparr>]) = map b_start bs"
    using assms(2) by (simp add: map_update list_update_same_conv)
  moreover have "64 dvd b_start (bs ! i)" using assms by (simp add: buckets_ok_def)
  ultimately show ?thesis
    using assms by (auto simp: buckets_ok_def dest!: set_update_subset_insert [THEN subsetD])
qed

lemma other_bucket_misses:
  assumes "buckets_ok bs" "i < length bs" "b_start (bs ! i) = 64 * (v div 64)"
    and "j < length bs" "j \<noteq> i"
  shows "\<not> bucket_has (bs ! j) v"
proof -
  have "b_start (bs ! j) \<noteq> b_start (bs ! i)"
    using assms sorted_starts_less [of bs i j] sorted_starts_less [of bs j i]
    by (cases "i < j") (auto simp: buckets_ok_def)
  with assms(3) show ?thesis by (simp add: bucket_has_def)
qed

lemma insert_value_correct:
  assumes inv: "es_inv s" and res: "insert_value s value = (s', it, inserted)"
  shows "es_inv s'"
    and "es_elems s' = insert value (es_elems s)"
    and "inserted \<longleftrightarrow> value \<notin> es_elems s"
proof -
  let ?i = "FindBucketForValue s value" and ?bs = "es_buckets s"
  have ok: "buckets_ok ?bs" and size: "es_size s = card (es_elems s)"
    using inv by (auto simp: es_inv_def)
  have "es_inv s' \<and> es_elems s' = insert value (es_elems s) \<and> (inserted \<longleftrightarrow> value \<notin> es_elems s)"
  proof (cases "?i \<ge> length ?bs \<or> b_start (?bs ! ?i) \<noteq> ComputeBucketStart value")
    case True
    let ?s = "s\<lparr>es_size := es_size s + 1\<rparr>"
    have "s' = InsertBucketFor ?s ?i value" "inserted"
      using res True by (auto simp: insert_value_def Let_def)
    moreover have "es_buckets ?s = ?bs" "es_elems ?s = es_elems s" "es_size (InsertBucketFor ?s ?i value) = es_size s + 1"
      "es_buckets (InsertBucketFor ?s ?i value) = es_buckets (InsertBucketFor s ?i value)"
      by (simp_all add: es_elems_def InsertBucketFor_def Let_def)
    ultimately show ?thesis
      using insert_value_fresh [OF ok True refl] size by (simp add: es_inv_def es_elems_def)
  next
    case False
    then have lt: "?i < length ?bs" and start: "b_start (?bs ! ?i) = 64 * (value div 64)"
      by (auto simp: placement_simps)
    have mem: "value \<in> es_elems s \<longleftrightarrow> bit (b_data (?bs ! ?i)) (value mod 64)"
      using bucket_found [OF ok refl] False by simp
    show ?thesis
    proof (cases "value \<in> es_elems s")
      case True
      with res False mem inv show ?thesis
        by (auto simp: insert_value_def Let_def mask_test)
    next
      case fresh: False
      let ?d = "b_data (?bs ! ?i) OR push_bit (value mod 64) 1"
      have s': "s' = s\<lparr>es_size := es_size s + 1, es_buckets := ?bs[?i := (?bs ! ?i)\<lparr>b_data := ?d\<rparr>]\<rparr>"
        and ins: inserted
        using res False fresh mem
        by (auto simp: insert_value_def Let_def placement_simps word_and_push_bit_1_eq_0_iff)
      have "bit ?d (value mod 64)" by (simp add: bit_simps)
      then have "?d \<noteq> 0" by (metis bit_0_eq bot_apply bot_bool_def)
      then have "buckets_ok (es_buckets s')" using buckets_ok_update [OF ok lt] by (simp add: s')
      moreover have elems: "es_elems s' = insert value (es_elems s)"
        using lt by (auto simp: es_elems_def s' buckets_elems_update buckets_elems_split [OF lt]
            bucket_has_or [OF start])
      ultimately show ?thesis using fresh size ins by (simp add: es_inv_def s')
    qed
  qed
  then show "es_inv s'" "es_elems s' = insert value (es_elems s)"
    "inserted \<longleftrightarrow> value \<notin> es_elems s" by auto
qed

section \<open>Removal\<close>

lemma buckets_elems_erase_at:
  assumes "i < length bs" "b_data (bs ! i) = 0"
  shows "buckets_elems (list_erase_at i bs) = buckets_elems bs"
proof -
  have "set bs = set (take i bs) \<union> {bs ! i} \<union> set (drop (Suc i) bs)"
    using assms(1) by (metis Un_insert_right Un_empty_right id_take_nth_drop list.simps(15)
        set_append Un_commute Un_insert_left)
  then show ?thesis
    using assms(2) by (auto simp: buckets_elems_def list_erase_at_def bucket_has_def)
qed

lemma buckets_ok_erase_at:
  assumes "sorted_wrt (<) (map b_start bs)" "\<forall>b \<in> set bs. 64 dvd b_start b"
    and "\<forall>j<length bs. j \<noteq> i \<longrightarrow> b_data (bs ! j) \<noteq> 0"
  shows "buckets_ok (list_erase_at i bs)"
proof -
  have "b_data b \<noteq> 0" if "b \<in> set (list_erase_at i bs)" for b
    using that assms(3) by (fastforce simp: list_erase_at_def in_set_conv_nth)
  then show ?thesis
    using assms(1,2) set_list_erase_at_subset [of i bs]
    by (auto simp: buckets_ok_def map_list_erase_at sorted_wrt_erase_at)
qed

lemma erase_not_contained: "\<not> contains s v \<Longrightarrow> erase s v = (s, 0)"
  by (simp add: erase_def contains_def Let_def split: if_splits)

lemma erase_correct:
  assumes inv: "es_inv s" and res: "erase s value = (s', n)"
  shows "es_inv s'"
    and "es_elems s' = es_elems s - {value}"
    and "n = (if value \<in> es_elems s then 1 else 0)"
proof -
  let ?i = "FindBucketForValue s value" and ?bs = "es_buckets s"
  have ok: "buckets_ok ?bs" and size: "es_size s = card (es_elems s)"
    using inv by (auto simp: es_inv_def)
  have "es_inv s' \<and> es_elems s' = es_elems s - {value} \<and> n = (if value \<in> es_elems s then 1 else 0)"
  proof (cases "value \<in> es_elems s")
    case False
    then have "s' = s" "n = 0"
      using res erase_not_contained contains_elems [OF inv] by simp_all
    with False inv show ?thesis by simp
  next
    case True
    then have "contains s value" using contains_elems [OF inv] by simp
    then have lt: "?i < length ?bs" and start: "b_start (?bs ! ?i) = 64 * (value div 64)"
      by (auto simp: contains_def Let_def placement_simps split: if_splits)
    let ?d = "b_data (?bs ! ?i) AND NOT (push_bit (value mod 64) 1)"
    let ?b' = "(?bs ! ?i)\<lparr>b_data := ?d\<rparr>"
    let ?bs' = "?bs[?i := ?b']"
    have s': "s' = s\<lparr>es_size := es_size s - 1,
        es_buckets := if ?d = 0 then list_erase_at ?i ?bs' else ?bs'\<rparr>" and n: "n = 1"
      using res \<open>contains s value\<close>
      by (auto simp: erase_def contains_def Let_def placement_simps split: if_splits)
    have upd: "buckets_elems ?bs' = es_elems s - {value}"
      using lt other_bucket_misses [OF ok lt start]
      by (auto simp: es_elems_def buckets_elems_update buckets_elems_split [OF lt]
          bucket_has_and_not [OF start])
    have "buckets_ok (es_buckets s') \<and> es_elems s' = es_elems s - {value}"
    proof (cases "?d = 0")
      case True
      have starts: "map b_start ?bs' = map b_start ?bs"
        using lt by (simp add: map_update list_update_same_conv)
      have "sorted_wrt (<) (map b_start ?bs')" "\<forall>b \<in> set ?bs'. 64 dvd b_start b"
        using ok lt starts by (auto simp: buckets_ok_def dest!: set_update_subset_insert [THEN subsetD])
      moreover have "\<forall>j<length ?bs'. j \<noteq> ?i \<longrightarrow> b_data (?bs' ! j) \<noteq> 0"
        using ok by (auto simp: buckets_ok_def)
      ultimately have "buckets_ok (list_erase_at ?i ?bs')" by (rule buckets_ok_erase_at)
      moreover have "buckets_elems (list_erase_at ?i ?bs') = buckets_elems ?bs'"
        using lt True by (intro buckets_elems_erase_at) simp_all
      ultimately show ?thesis using True upd by (simp add: s' es_elems_def)
    next
      case False
      then show ?thesis using buckets_ok_update [OF ok lt False] upd by (simp add: s' es_elems_def)
    qed
    then show ?thesis using True size n by (simp add: es_inv_def s')
  qed
  then show "es_inv s'" "es_elems s' = es_elems s - {value}"
    "n = (if value \<in> es_elems s then 1 else 0)" by auto
qed

section \<open>The interface\<close>

lemma es_inv_empty: "es_inv es_empty"
  by (simp add: es_inv_def es_empty_def buckets_ok_def es_elems_def)

lemma es_elems_empty: "es_elems es_empty = {}"
  by (simp add: es_empty_def es_elems_def)

lemma es_insert_correct:
  assumes "es_inv s"
  shows "es_inv (es_insert v s)" "es_elems (es_insert v s) = insert v (es_elems s)"
  using insert_value_correct [OF assms] by (metis es_insert_def prod.collapse)+

lemma es_erase_correct:
  assumes "es_inv s"
  shows "es_inv (es_erase v s)" "es_elems (es_erase v s) = es_elems s - {v}"
  using erase_correct [OF assms] by (metis es_erase_def prod.collapse)+

interpretation es: set_container es_empty es_insert es_erase contains es_elems es_inv
  by unfold_locales
     (simp_all add: es_inv_empty es_elems_empty es_insert_correct es_erase_correct contains_elems)

lemma es_of_list_correct: "es_inv (es_of_list vs) \<and> es_elems (es_of_list vs) = set vs"
  using es.fold_insrt [OF es.inv_empty, of vs] by (simp add: es_of_list_def es.elems_empty)

section \<open>Comparison and intersection\<close>

lemma bucket_value_exists:
  assumes "64 dvd b_start b" "i < 64"
  shows "64 * ((b_start b + i) div 64) = b_start b \<and> (b_start b + i) mod 64 = i"
  using assms by (auto elim!: dvdE)

lemma nonempty_bucket_has:
  assumes "64 dvd b_start b" "b_data b \<noteq> 0"
  obtains v where "bucket_has b v"
proof -
  obtain i where "i < 64" "bit (b_data b) i"
    using assms(2) word_nonzero_iff_bit [of "b_data b"] by auto
  then have "bucket_has b (b_start b + i)"
    using bucket_value_exists [OF assms(1)] by (simp add: bucket_has_def)
  then show ?thesis by (rule that)
qed

lemma same_start_intersect:
  assumes "64 dvd b_start l" "b_start l = b_start r"
  shows "b_data l AND b_data r \<noteq> 0 \<longleftrightarrow> (\<exists>v. bucket_has l v \<and> bucket_has r v)"
proof
  assume "b_data l AND b_data r \<noteq> 0"
  then obtain i where i: "i < 64" "bit (b_data l) i" "bit (b_data r) i"
    using word_nonzero_iff_bit [of "b_data l AND b_data r"] by (auto simp: bit_and_iff)
  have "bucket_has l (b_start l + i)" "bucket_has r (b_start l + i)"
    using i assms(2) bucket_value_exists [OF assms(1) i(1)] by (auto simp: bucket_has_def)
  then show "\<exists>v. bucket_has l v \<and> bucket_has r v" by blast
next
  assume "\<exists>v. bucket_has l v \<and> bucket_has r v"
  then show "b_data l AND b_data r \<noteq> 0"
    by (auto simp: bucket_has_def word_and_eq_0_iff)
qed

lemma bucket_disjoint:
  "\<forall>b \<in> set bs. b_start b \<noteq> b_start l \<Longrightarrow> bucket_has l v \<Longrightarrow> v \<notin> buckets_elems bs"
  by (auto simp: bucket_has_def buckets_elems_def)

lemma buckets_ok_Cons:
  "buckets_ok (b # bs) \<longleftrightarrow> 64 dvd b_start b \<and> b_data b \<noteq> 0 \<and>
    (\<forall>c \<in> set bs. b_start b < b_start c) \<and> buckets_ok bs"
  by (auto simp: buckets_ok_def)

lemma HasAnyOf_loop_correct:
  "buckets_ok lhs \<Longrightarrow> buckets_ok rhs \<Longrightarrow>
    HasAnyOf_loop lhs rhs \<longleftrightarrow> buckets_elems lhs \<inter> buckets_elems rhs \<noteq> {}"
proof (induction lhs rhs rule: HasAnyOf_loop.induct)
  case (1 l lhs r rhs)
  note oks = "1.prems" [unfolded buckets_ok_Cons]
  consider (same) "b_start l = b_start r" | (less) "b_start l < b_start r"
    | (greater) "b_start r < b_start l" by linarith
  then show ?case
  proof cases
    case same
    have "\<forall>b \<in> set rhs. b_start b \<noteq> b_start l" "\<forall>b \<in> set lhs. b_start b \<noteq> b_start r"
      using oks same by auto
    then have "buckets_elems (l # lhs) \<inter> buckets_elems (r # rhs) \<noteq> {} \<longleftrightarrow>
        (\<exists>v. bucket_has l v \<and> bucket_has r v) \<or> buckets_elems lhs \<inter> buckets_elems rhs \<noteq> {}"
      using bucket_disjoint by (fastforce simp: buckets_elems_Cons)
    moreover have "HasAnyOf_loop (l # lhs) (r # rhs) \<longleftrightarrow>
        (\<exists>v. bucket_has l v \<and> bucket_has r v) \<or> buckets_elems lhs \<inter> buckets_elems rhs \<noteq> {}"
      using 1 same oks same_start_intersect [OF _ same] by auto
    ultimately show ?thesis by simp
  next
    case less
    have "\<forall>b \<in> set (r # rhs). b_start b \<noteq> b_start l" using oks less by auto
    with 1 less oks show ?thesis
      using bucket_disjoint [of "r # rhs" l] by (auto simp: buckets_elems_Cons [of l lhs])
  next
    case greater
    have "\<forall>b \<in> set (l # lhs). b_start b \<noteq> b_start r" using oks greater by auto
    with 1 greater oks show ?thesis
      using bucket_disjoint [of "l # lhs" r] by (auto simp: buckets_elems_Cons [of r rhs])
  qed
qed simp_all

lemma HasAnyOf_correct:
  assumes "es_inv s" "es_inv t"
  shows "HasAnyOf s t \<longleftrightarrow> es_elems t = {} \<or> es_elems s \<inter> es_elems t \<noteq> {}"
  using assms
  by (auto simp: HasAnyOf_def es_is_empty_def es_inv_def HasAnyOf_loop_correct es_elems_def)

text \<open>
  The representation is canonical: the starts are the multiples of 64 below the elements, each
  bucket's bits are the elements in its range.
\<close>

lemma starts_of_elems:
  assumes "buckets_ok bs"
  shows "b_start ` set bs = (\<lambda>v. 64 * (v div 64)) ` buckets_elems bs"
proof -
  have "b_start b \<in> (\<lambda>v. 64 * (v div 64)) ` buckets_elems bs" if b: "b \<in> set bs" for b
  proof -
    have "64 dvd b_start b" "b_data b \<noteq> 0" using assms b by (auto simp: buckets_ok_def)
    then obtain v where "bucket_has b v" by (rule nonempty_bucket_has)
    then show ?thesis using b by (auto simp: bucket_has_def buckets_elems_def)
  qed
  then show ?thesis by (auto simp: buckets_elems_def bucket_has_def) (metis imageI)
qed

lemma bucket_bits_of_elems:
  assumes "buckets_ok bs" "i < length bs" "n < 64"
  shows "bit (b_data (bs ! i)) n \<longleftrightarrow> b_start (bs ! i) + n \<in> buckets_elems bs"
proof -
  let ?v = "b_start (bs ! i) + n"
  have dvd: "64 dvd b_start (bs ! i)" using assms by (simp add: buckets_ok_def)
  have v: "64 * (?v div 64) = b_start (bs ! i)" "?v mod 64 = n"
    using bucket_value_exists [OF dvd assms(3)] by simp_all
  have "bucket_has (bs ! i) ?v \<longleftrightarrow> bit (b_data (bs ! i)) n"
    using v by (simp add: bucket_has_def)
  then show ?thesis
    using other_bucket_misses [OF assms(1,2) v(1) [symmetric]]
    by (auto simp: buckets_elems_split [OF assms(2)])
qed

lemma buckets_canonical:
  assumes "buckets_ok l" "buckets_ok r" "buckets_elems l = buckets_elems r"
  shows "l = r"
proof -
  have "map b_start l = map b_start r"
    using assms starts_of_elems [OF assms(1)] starts_of_elems [OF assms(2)]
    by (intro strict_sorted_equal) (auto simp: buckets_ok_def)
  then have len: "length l = length r" and starts: "\<And>i. i < length l \<Longrightarrow> b_start (l ! i) = b_start (r ! i)"
    by (auto dest: map_eq_imp_length_eq) (metis nth_map map_eq_imp_length_eq)
  show ?thesis
  proof (rule nth_equalityI [OF len])
    fix i assume i: "i < length l"
    have "b_data (l ! i) = b_data (r ! i)"
      using i len starts assms(3) bucket_bits_of_elems [OF assms(1)] bucket_bits_of_elems [OF assms(2)]
      by (intro bit_word_eqI) simp
    then show "l ! i = r ! i" using starts [OF i] by simp
  qed
qed

lemma bucket_eq_iff: "bucket_eq = (=)"
  by (auto simp: bucket_eq_def fun_eq_iff)

lemma es_eq_correct:
  assumes "es_inv s" "es_inv t"
  shows "es_eq s t \<longleftrightarrow> es_elems s = es_elems t"
proof
  assume "es_elems s = es_elems t"
  then show "es_eq s t"
    using assms buckets_canonical [of "es_buckets s" "es_buckets t"]
    by (simp add: es_eq_def bucket_eq_iff list.rel_eq es_inv_def es_elems_def)
qed (auto simp: es_eq_def bucket_eq_iff list.rel_eq es_elems_def split: if_splits)

section \<open>What iteration visits\<close>

definition bucket_values :: "bucket \<Rightarrow> nat \<Rightarrow> nat list" where
  "bucket_values b from = map ((+) (b_start b)) (filter (bit (b_data b)) [from..<64])"

definition values_from :: "bucket list \<Rightarrow> nat \<Rightarrow> nat \<Rightarrow> nat list" where
  "values_from bs i from =
     (if i < length bs
      then bucket_values (bs ! i) from @ concat (map (\<lambda>b. bucket_values b 0) (drop (Suc i) bs))
      else [])"

lemma values_from_next_bucket: "i < length bs \<Longrightarrow> values_from bs i 64 = values_from bs (Suc i) 0"
  by (cases "Suc i < length bs")
     (simp_all add: values_from_def bucket_values_def Cons_nth_drop_Suc [symmetric])

lemma values_from_step:
  assumes "i < length bs" "n < 64"
  shows "values_from bs i n =
    (if bit (b_data (bs ! i)) n then (b_start (bs ! i) + n) # values_from bs i (Suc n)
     else values_from bs i (Suc n))"
proof -
  have "[n..<64] = n # [Suc n..<64]" using assms(2) by (rule upt_conv_Cons)
  then show ?thesis using assms(1) by (simp add: values_from_def bucket_values_def)
qed

lemma HasEnumAt_bit: "HasEnumAt s i n \<longleftrightarrow> bit (b_data (es_buckets s ! i)) (unat n)"
  by (simp add: HasEnumAt_def word_and_push_bit_1_eq_0_iff)

lemma Iterator_next_values:
  assumes "i < length (es_buckets s)" "unat n < 64" "Iterator_next s i n = (i', n')"
  shows "values_from (es_buckets s) i (Suc (unat n)) = values_from (es_buckets s) i' (unat n')"
    and "(i', n') = cend s \<or> i' < length (es_buckets s) \<and> unat n' < 64 \<and> HasEnumAt s i' n'"
proof -
  have "values_from (es_buckets s) i (Suc (unat n)) = values_from (es_buckets s) i' (unat n') \<and>
    ((i', n') = cend s \<or> i' < length (es_buckets s) \<and> unat n' < 64 \<and> HasEnumAt s i' n')"
    using assms
  proof (induction s i n rule: Iterator_next.induct)
    case (1 s i n)
    let ?bs = "es_buckets s"
    define j where "j = (if n + 1 = 64 then i + 1 else i)"
    define m where "m = (if n + 1 = 64 then 0 else n + 1)"
    have n1: "unat (n + 1) = Suc (unat n)"
      using "1.prems"(2) by (simp add: unat_word_ariths)
    have n64: "n + 1 = 64 \<longleftrightarrow> Suc (unat n) = 64"
      using n1 by (simp add: word_unat_eq_iff)
    have m: "unat m < 64" using "1.prems"(2) n1 n64 by (auto simp: m_def)
    have vals: "values_from ?bs i (Suc (unat n)) = values_from ?bs j (unat m)"
      using n1 n64 "1.prems"(1) by (simp add: j_def m_def values_from_next_bucket)
    have unfold: "Iterator_next s i n =
        (if j < length ?bs \<and> \<not> HasEnumAt s j m then Iterator_next s j m else (j, m))"
      using "1.prems"(1) by (subst Iterator_next.simps) (simp add: Let_def j_def m_def)
    show ?case
    proof (cases "j < length ?bs \<and> \<not> HasEnumAt s j m")
      case True
      have "values_from ?bs j (unat m) = values_from ?bs j (Suc (unat m))"
        using True m by (simp add: values_from_step HasEnumAt_bit)
      with 1 True m vals unfold show ?thesis by (simp add: j_def m_def)
    next
      case False
      with 1 unfold have "i' = j" "n' = m" by simp_all
      with False vals m "1.prems"(1) show ?thesis by (auto simp: cend_def j_def m_def)
    qed
  qed
  then show "values_from (es_buckets s) i (Suc (unat n)) = values_from (es_buckets s) i' (unat n')"
    "(i', n') = cend s \<or> i' < length (es_buckets s) \<and> unat n' < 64 \<and> HasEnumAt s i' n'" by auto
qed

lemma iterates_values_from:
  "i < length (es_buckets s) \<Longrightarrow> unat n < 64 \<Longrightarrow> HasEnumAt s i n \<Longrightarrow>
    vs = values_from (es_buckets s) i (unat n) \<Longrightarrow> iterates s (i, n) vs"
proof (induction "length vs" arbitrary: i n vs rule: less_induct)
  case less
  obtain i' n' where nxt: "Iterator_next s i n = (i', n')" by fastforce
  note next_vals = Iterator_next_values [OF less.prems(1,2) nxt]
  have vs: "vs = Iterator_deref s (i, n) # values_from (es_buckets s) i' (unat n')"
    using less.prems next_vals(1)
    by (simp add: values_from_step HasEnumAt_bit Iterator_deref_def GetValueFromBucket_def)
  have "iterates s (i', n') (values_from (es_buckets s) i' (unat n'))"
  proof (cases "(i', n') = cend s")
    case True
    then show ?thesis by (auto simp: cend_def values_from_def intro: iterates_end)
  next
    case False
    with next_vals(2) less.hyps vs show ?thesis by auto
  qed
  moreover have "(i, n) \<noteq> cend s" using less.prems(1) by (simp add: cend_def)
  ultimately show ?case using less.prems(3) nxt vs iterates_step [of "(i, n)" s] by simp
qed

lemma iterates_cbegin: "iterates s (cbegin s) (values_from (es_buckets s) 0 0)"
proof -
  consider (empty) "es_buckets s = []" | (hit) "es_buckets s \<noteq> []" "HasEnumAt s 0 0"
    | (skip) "es_buckets s \<noteq> []" "\<not> HasEnumAt s 0 0" by blast
  then show ?thesis
  proof cases
    case empty
    then show ?thesis by (auto simp: cbegin_def cend_def values_from_def intro: iterates_end)
  next
    case hit
    then show ?thesis using iterates_values_from [of 0 s 0] by (simp add: cbegin_def)
  next
    case skip
    obtain i' n' where nxt: "Iterator_next s 0 0 = (i', n')" by fastforce
    have "values_from (es_buckets s) 0 0 = values_from (es_buckets s) 0 (Suc 0)"
      using skip by (simp add: values_from_step HasEnumAt_bit)
    with skip Iterator_next_values [OF _ _ nxt] iterates_values_from [of i' s n'] nxt show ?thesis
      by (auto simp: cbegin_def cend_def values_from_def intro: iterates_end)
  qed
qed

lemma bucket_values_elems:
  "64 dvd b_start b \<Longrightarrow> set (bucket_values b 0) = {v. bucket_has b v}"
  using bucket_value_exists [of b]
  by (auto simp: bucket_values_def bucket_has_def image_iff)
     (metis atLeastLessThan_iff mod_less_divisor mult_div_mod_eq zero_le zero_less_numeral)

lemma values_from_all:
  "values_from bs 0 0 = concat (map (\<lambda>b. bucket_values b 0) bs)"
  by (cases bs) (simp_all add: values_from_def)

lemma sorted_bucket_values: "sorted_wrt (<) (bucket_values b n)"
proof -
  have "sorted_wrt (<) (filter (bit (b_data b)) [n..<64])"
    by (intro sorted_wrt_filter) simp
  then show ?thesis by (simp add: bucket_values_def sorted_wrt_map)
qed

lemma values_sorted:
  "buckets_ok bs \<Longrightarrow> sorted_wrt (<) (values_from bs 0 0) \<and> set (values_from bs 0 0) = buckets_elems bs"
proof (induction bs)
  case (Cons b bs)
  have ok: "64 dvd b_start b" "\<forall>c \<in> set bs. b_start b < b_start c" "buckets_ok bs"
    using Cons.prems by (simp_all add: buckets_ok_Cons)
  have "v < w" if "bucket_has b v" "w \<in> buckets_elems bs" for v w
    using that ok(2) by (force simp: bucket_has_def buckets_elems_def)
  with Cons ok show ?case
    by (simp add: values_from_all sorted_wrt_append sorted_bucket_values bucket_values_elems
        buckets_elems_Cons)
qed (simp add: values_from_all)

lemma iteration_sorted:
  assumes "es_inv s"
  shows "iterates s (cbegin s) (sorted_list_of_set (es_elems s))"
proof -
  have "values_from (es_buckets s) 0 0 = sorted_list_of_set (es_elems s)"
    using values_sorted [of "es_buckets s"] assms
    by (intro strict_sorted_equal) (auto simp: es_inv_def es_elems_def)
  then show ?thesis using iterates_cbegin by metis
qed

section \<open>Properties\<close>

text \<open>C7: on every well-formed \<open>EnumSet\<close>, \<open>insert\<close>, \<open>erase\<close>, \<open>contains\<close> and \<open>size\<close> refine the
  operations of a mathematical set: the result is again well-formed, holds exactly the expected
  values, and the returned flag, count and size are those of the set.\<close>

theorem EnumSet_refines_set:
  assumes "es_inv s"
  shows "es_inv (fst (insert_value s value)) \<and>
      es_elems (fst (insert_value s value)) = insert value (es_elems s) \<and>
      snd (snd (insert_value s value)) = (value \<notin> es_elems s) \<and>
      es_inv (fst (erase s value)) \<and>
      es_elems (fst (erase s value)) = es_elems s - {value} \<and>
      snd (erase s value) = (if value \<in> es_elems s then 1 else 0) \<and>
      contains s value = (value \<in> es_elems s) \<and>
      es_size s = card (es_elems s)"
proof -
  obtain s' it b where ins: "insert_value s value = (s', it, b)" by (metis prod_cases3)
  obtain t n where er: "erase s value = (t, n)" by fastforce
  show ?thesis
    using insert_value_correct [OF assms ins] erase_correct [OF assms er] ins er
      contains_elems [OF assms] assms
    by (simp add: es_inv_def)
qed

theorem EnumSet_refines_set_witness:
  "es_elems (fst (erase (es_of_list [3, 70]) 3)) = es_elems (es_of_list [3, 70]) - {3} \<and>
   snd (snd (insert_value (es_of_list [3, 70]) 64)) = (64 \<notin> es_elems (es_of_list [3, 70]))"
  using EnumSet_refines_set [of "es_of_list [3, 70]" 3] EnumSet_refines_set [of "es_of_list [3, 70]" 64]
  by (simp add: es_of_list_correct)

text \<open>C12: iterating over a well-formed \<open>EnumSet\<close> from \<open>begin\<close> to \<open>end\<close> stops, points at a value
  of the set at every step, and visits each value exactly once in ascending order.\<close>

theorem EnumSet_iteration:
  assumes "es_inv s"
  shows "iterates s (cbegin s) (sorted_list_of_set (es_elems s))"
  using assms by (rule iteration_sorted)

theorem EnumSet_iteration_witness:
  "iterates (es_of_list [70, 3, 65]) (cbegin (es_of_list [70, 3, 65])) [3, 65, 70]"
  using EnumSet_iteration [of "es_of_list [70, 3, 65]"] by (simp add: es_of_list_correct)

text \<open>C32: two well-formed sets compare equal (size, then buckets field by field) exactly when they
  hold the same values: the bucket representation is canonical. \<open>HasAnyOf\<close> is true exactly when
  the other set is empty or shares a value.\<close>

theorem EnumSet_comparison:
  assumes "es_inv s" "es_inv t"
  shows "es_eq s t = (es_elems s = es_elems t) \<and>
    HasAnyOf s t = (es_elems t = {} \<or> es_elems s \<inter> es_elems t \<noteq> {})"
  using assms by (simp add: es_eq_correct HasAnyOf_correct)

theorem EnumSet_comparison_witness:
  "es_eq (es_of_list [1, 100]) (es_of_list [100, 1, 1]) \<and>
   \<not> HasAnyOf (es_of_list [1, 100]) (es_of_list [2, 164])"
  using EnumSet_comparison [of "es_of_list [1, 100]" "es_of_list [100, 1, 1]"]
    EnumSet_comparison [of "es_of_list [1, 100]" "es_of_list [2, 164]"]
  by (simp add: es_of_list_correct insert_commute)

end
