(* ===== verification/Libspirv.thy ===== *)
theory Libspirv
  imports Prelude
begin

text \<open>
  The small enumerations of the C interface, \<open>src/ShaderCompiler/include/spirv-tools/libspirv.h\<close>,
  that several components return or store.
\<close>

datatype spv_result_t =
    SPV_SUCCESS | SPV_UNSUPPORTED | SPV_END_OF_STREAM | SPV_WARNING | SPV_FAILED_MATCH |
    SPV_REQUESTED_TERMINATION | SPV_ERROR_INTERNAL | SPV_ERROR_OUT_OF_MEMORY |
    SPV_ERROR_INVALID_POINTER | SPV_ERROR_INVALID_BINARY | SPV_ERROR_INVALID_TEXT |
    SPV_ERROR_INVALID_TABLE | SPV_ERROR_INVALID_VALUE | SPV_ERROR_INVALID_DIAGNOSTIC |
    SPV_ERROR_INVALID_LOOKUP | SPV_ERROR_INVALID_ID | SPV_ERROR_INVALID_CFG |
    SPV_ERROR_INVALID_LAYOUT | SPV_ERROR_INVALID_CAPABILITY | SPV_ERROR_INVALID_DATA |
    SPV_ERROR_MISSING_EXTENSION | SPV_ERROR_WRONG_VERSION

datatype spv_endianness_t = SPV_ENDIANNESS_LITTLE | SPV_ENDIANNESS_BIG

datatype spv_number_kind_t =
    SPV_NUMBER_NONE | SPV_NUMBER_UNSIGNED_INT | SPV_NUMBER_SIGNED_INT | SPV_NUMBER_FLOATING

datatype spv_ext_inst_type_t =
    SPV_EXT_INST_TYPE_NONE | SPV_EXT_INST_TYPE_GLSL_STD_450 | SPV_EXT_INST_TYPE_OPENCL_STD |
    SPV_EXT_INST_TYPE_SPV_AMD_SHADER_EXPLICIT_VERTEX_PARAMETER |
    SPV_EXT_INST_TYPE_SPV_AMD_SHADER_TRINARY_MINMAX | SPV_EXT_INST_TYPE_SPV_AMD_GCN_SHADER |
    SPV_EXT_INST_TYPE_SPV_AMD_SHADER_BALLOT | SPV_EXT_INST_TYPE_DEBUGINFO |
    SPV_EXT_INST_TYPE_OPENCL_DEBUGINFO_100 | SPV_EXT_INST_TYPE_NONSEMANTIC_CLSPVREFLECTION |
    SPV_EXT_INST_TYPE_NONSEMANTIC_SHADER_DEBUGINFO_100 |
    SPV_EXT_INST_TYPE_NONSEMANTIC_VKSPREFLECTION | SPV_EXT_INST_TYPE_TOSA_001000_1 |
    SPV_EXT_INST_TYPE_NONSEMANTIC_UNKNOWN

datatype spv_fp_encoding_t =
    SPV_FP_ENCODING_UNKNOWN | SPV_FP_ENCODING_IEEE754_BINARY16 |
    SPV_FP_ENCODING_IEEE754_BINARY32 | SPV_FP_ENCODING_IEEE754_BINARY64 |
    SPV_FP_ENCODING_BFLOAT16 | SPV_FP_ENCODING_FLOAT8_E4M3 | SPV_FP_ENCODING_FLOAT8_E5M2

end
