(* ===== verification/Endian.thy ===== *)
theory Endian
  imports Libspirv
begin

text \<open>
  \<open>src/ShaderCompiler/src/spirv-tools/spirv_endian.cpp\<close>. What the union \<open>o32_host_order\<close> reads as
  depends on the machine: it is the parameter \<open>host\<close>, \<open>I32_ENDIAN_LITTLE\<close> or \<open>I32_ENDIAN_BIG\<close> on
  the machines the code supports, and decides how a word lies in memory (\<open>host_bytes\<close>).
\<close>

section \<open>Operations\<close>

definition I32_ENDIAN_LITTLE :: uint32_t where
  "I32_ENDIAN_LITTLE = 0x03020100"

definition I32_ENDIAN_BIG :: uint32_t where
  "I32_ENDIAN_BIG = 0x00010203"

definition spvFixWord :: "uint32_t \<Rightarrow> uint32_t \<Rightarrow> spv_endianness_t \<Rightarrow> uint32_t" where
  "spvFixWord host w endian =
     (if SPV_ENDIANNESS_LITTLE = endian \<and> host = I32_ENDIAN_BIG \<or>
         SPV_ENDIANNESS_BIG = endian \<and> host = I32_ENDIAN_LITTLE
      then push_bit 24 (w AND 0x000000ff) OR push_bit 8 (w AND 0x0000ff00) OR
           drop_bit 8 (w AND 0x00ff0000) OR drop_bit 24 (w AND 0xff000000)
      else w)"

definition spvFixDoubleWord ::
  "uint32_t \<Rightarrow> uint32_t \<Rightarrow> uint32_t \<Rightarrow> spv_endianness_t \<Rightarrow> uint64_t" where
  "spvFixDoubleWord host low high endian =
     push_bit 32 (ucast (spvFixWord host high endian)) OR ucast (spvFixWord host low endian)"

text \<open>The four bytes of a word in the order they lie in memory.\<close>

definition byte_of :: "nat \<Rightarrow> uint32_t \<Rightarrow> uint8_t" where
  "byte_of k w = ucast (drop_bit (8 * k) w)"

definition host_bytes :: "uint32_t \<Rightarrow> uint32_t \<Rightarrow> uint8_t list" where
  "host_bytes host w =
     (if host = I32_ENDIAN_LITTLE then [byte_of 0 w, byte_of 1 w, byte_of 2 w, byte_of 3 w]
      else [byte_of 3 w, byte_of 2 w, byte_of 1 w, byte_of 0 w])"

text \<open>
  A binary is a pointer to its words, possibly null, with their number; the result pointer may be
  null too. The value is the error, or the endianness stored with \<open>SPV_SUCCESS\<close>.
\<close>

definition spvBinaryEndianness ::
  "uint32_t \<Rightarrow> uint32_t list option \<Rightarrow> bool \<Rightarrow> spv_result_t + spv_endianness_t" where
  "spvBinaryEndianness host code pEndian_null =
     (case code of
        None \<Rightarrow> Inl SPV_ERROR_INVALID_BINARY
      | Some ws \<Rightarrow>
          if length ws = 0 then Inl SPV_ERROR_INVALID_BINARY
          else if pEndian_null then Inl SPV_ERROR_INVALID_POINTER
          else
            let bytes = host_bytes host (ws ! 0)
            in if 0x03 = bytes ! 0 \<and> 0x02 = bytes ! 1 \<and> 0x23 = bytes ! 2 \<and> 0x07 = bytes ! 3
               then Inr SPV_ENDIANNESS_LITTLE
               else if 0x07 = bytes ! 0 \<and> 0x23 = bytes ! 1 \<and> 0x02 = bytes ! 2 \<and> 0x03 = bytes ! 3
               then Inr SPV_ENDIANNESS_BIG
               else Inl SPV_ERROR_INVALID_BINARY)"

definition spvIsHostEndian :: "uint32_t \<Rightarrow> spv_endianness_t \<Rightarrow> bool" where
  "spvIsHostEndian host endian \<longleftrightarrow>
     SPV_ENDIANNESS_LITTLE = endian \<and> I32_ENDIAN_LITTLE = host \<or>
     SPV_ENDIANNESS_BIG = endian \<and> I32_ENDIAN_BIG = host"

definition SpvMagicNumber :: uint32_t where
  "SpvMagicNumber = 0x07230203"

section \<open>Byte-level descriptions\<close>

definition word_of_bytes :: "uint8_t \<Rightarrow> uint8_t \<Rightarrow> uint8_t \<Rightarrow> uint8_t \<Rightarrow> uint32_t" where
  "word_of_bytes b0 b1 b2 b3 =
     ucast b0 OR push_bit 8 (ucast b1) OR push_bit 16 (ucast b2) OR push_bit 24 (ucast b3)"

lemma bit_byte_of: "bit (byte_of k w) i \<longleftrightarrow> i < 8 \<and> bit w (8 * k + i)"
  by (auto simp: byte_of_def bit_simps)

lemma word_of_bytes_of:
  "word_of_bytes (byte_of 0 w) (byte_of 1 w) (byte_of 2 w) (byte_of 3 w) = w"
proof (rule bit_word_eqI)
  fix i assume "i < LENGTH(32)"
  then consider "i < 8" | "8 \<le> i" "i < 16" | "16 \<le> i" "i < 24" | "24 \<le> i" "i < 32"
    by fastforce
  then show "bit (word_of_bytes (byte_of 0 w) (byte_of 1 w) (byte_of 2 w) (byte_of 3 w)) i = bit w i"
    by cases (auto simp: word_of_bytes_def bit_byte_of bit_simps)
qed

lemma byte_of_word_of_bytes:
  "byte_of 0 (word_of_bytes b0 b1 b2 b3) = b0" "byte_of 1 (word_of_bytes b0 b1 b2 b3) = b1"
  "byte_of 2 (word_of_bytes b0 b1 b2 b3) = b2" "byte_of 3 (word_of_bytes b0 b1 b2 b3) = b3"
  by (rule bit_word_eqI, auto simp: word_of_bytes_def bit_byte_of bit_simps dest: bit_imp_le_length)+

lemma word_eq_bytes:
  "v = w \<longleftrightarrow> byte_of 0 v = byte_of 0 w \<and> byte_of 1 v = byte_of 1 w \<and>
    byte_of 2 v = byte_of 2 w \<and> byte_of 3 v = byte_of 3 w"
  by (metis word_of_bytes_of)

definition swapped :: "uint32_t \<Rightarrow> uint32_t" where
  "swapped w = word_of_bytes (byte_of 3 w) (byte_of 2 w) (byte_of 1 w) (byte_of 0 w)"

lemma swapped_swapped [simp]: "swapped (swapped w) = w"
  by (simp add: swapped_def byte_of_word_of_bytes word_of_bytes_of del: One_nat_def)

lemma byte_masks:
  "(0x000000ff :: uint32_t) = mask 8" "(0x0000ff00 :: uint32_t) = push_bit 8 (mask 8)"
  "(0x00ff0000 :: uint32_t) = push_bit 16 (mask 8)" "(0xff000000 :: uint32_t) = push_bit 24 (mask 8)"
  by (simp_all add: mask_eq_exp_minus_1 push_bit_eq_mult)

lemma swap_expression:
  "push_bit 24 (w AND 0x000000ff) OR push_bit 8 (w AND 0x0000ff00) OR
   drop_bit 8 (w AND 0x00ff0000) OR drop_bit 24 (w AND 0xff000000) = swapped w"
  unfolding byte_masks
  by (rule bit_word_eqI)
    (auto simp: swapped_def word_of_bytes_def bit_byte_of bit_simps)

lemma spvFixWord_swapped:
  "host \<in> {I32_ENDIAN_LITTLE, I32_ENDIAN_BIG} \<Longrightarrow>
    spvFixWord host w e = (if spvIsHostEndian host e then w else swapped w)"
  unfolding spvFixWord_def swap_expression
  by (cases e) (auto simp: spvIsHostEndian_def I32_ENDIAN_LITTLE_def I32_ENDIAN_BIG_def)

lemma magic_bytes:
  "byte_of 0 SpvMagicNumber = 0x03" "byte_of 1 SpvMagicNumber = 0x02"
  "byte_of 2 SpvMagicNumber = 0x23" "byte_of 3 SpvMagicNumber = 0x07"
  by code_simp+

lemma bytes_of_magic:
  "w = SpvMagicNumber \<longleftrightarrow>
    byte_of 0 w = 0x03 \<and> byte_of 1 w = 0x02 \<and> byte_of 2 w = 0x23 \<and> byte_of 3 w = 0x07"
  unfolding word_eq_bytes [of w] magic_bytes by simp

lemma bytes_of_swapped:
  "byte_of 0 (swapped w) = byte_of 3 w" "byte_of 1 (swapped w) = byte_of 2 w"
  "byte_of 2 (swapped w) = byte_of 1 w" "byte_of 3 (swapped w) = byte_of 0 w"
  unfolding swapped_def by (simp_all only: byte_of_word_of_bytes)

lemma host_bytes_nth:
  "host_bytes host w ! 0 = byte_of (if host = I32_ENDIAN_LITTLE then 0 else 3) w"
  "host_bytes host w ! 1 = byte_of (if host = I32_ENDIAN_LITTLE then 1 else 2) w"
  "host_bytes host w ! 2 = byte_of (if host = I32_ENDIAN_LITTLE then 2 else 1) w"
  "host_bytes host w ! 3 = byte_of (if host = I32_ENDIAN_LITTLE then 3 else 0) w"
  by (simp_all add: host_bytes_def)

text \<open>The two tests of the code are the magic number and its byte-swapped form.\<close>

lemma endianness_tests:
  assumes "host \<in> {I32_ENDIAN_LITTLE, I32_ENDIAN_BIG}"
  shows "spvBinaryEndianness host (Some (w # ws)) False =
    (if spvFixWord host w SPV_ENDIANNESS_LITTLE = SpvMagicNumber then Inr SPV_ENDIANNESS_LITTLE
     else if spvFixWord host w SPV_ENDIANNESS_BIG = SpvMagicNumber then Inr SPV_ENDIANNESS_BIG
     else Inl SPV_ERROR_INVALID_BINARY)"
proof -
  have swap: "(x :: uint8_t) = y \<longleftrightarrow> y = x" for x y by auto
  have hosts: "I32_ENDIAN_LITTLE \<noteq> I32_ENDIAN_BIG"
    by (simp add: I32_ENDIAN_LITTLE_def I32_ENDIAN_BIG_def)
  note flip = eq_commute [of "3 :: uint8_t"] eq_commute [of "2 :: uint8_t"]
    eq_commute [of "0x23 :: uint8_t"] eq_commute [of "7 :: uint8_t"]
  have w: "spvBinaryEndianness host (Some (w # ws)) False =
    (if host_bytes host w ! 0 = 0x03 \<and> host_bytes host w ! 1 = 0x02 \<and>
        host_bytes host w ! 2 = 0x23 \<and> host_bytes host w ! 3 = 0x07 then Inr SPV_ENDIANNESS_LITTLE
     else if host_bytes host w ! 0 = 0x07 \<and> host_bytes host w ! 1 = 0x23 \<and>
        host_bytes host w ! 2 = 0x02 \<and> host_bytes host w ! 3 = 0x03 then Inr SPV_ENDIANNESS_BIG
     else Inl SPV_ERROR_INVALID_BINARY)"
    by (simp add: spvBinaryEndianness_def Let_def flip)
  consider "host = I32_ENDIAN_LITTLE" | "host = I32_ENDIAN_BIG" using assms by blast
  then show ?thesis
  proof cases
    case 1
    then show ?thesis
      unfolding w host_bytes_nth bytes_of_magic spvFixWord_swapped [OF assms]
      by (simp add: spvIsHostEndian_def bytes_of_swapped [unfolded One_nat_def] hosts hosts [symmetric] conj_commute
          conj_left_commute)
  next
    case 2
    then show ?thesis
      unfolding w host_bytes_nth bytes_of_magic spvFixWord_swapped [OF assms]
      by (simp add: spvIsHostEndian_def bytes_of_swapped [unfolded One_nat_def] hosts hosts [symmetric]
          conj_commute conj_left_commute)
  qed
qed

lemma swapped_magic: "swapped SpvMagicNumber \<noteq> SpvMagicNumber"
  unfolding word_eq_bytes [of "swapped SpvMagicNumber"] bytes_of_swapped magic_bytes by simp

section \<open>Properties\<close>

text \<open>On little-endian and on big-endian machines, correcting a word twice for one endianness
  gives it back, so what one side writes the other reads; no word is changed for the machine's own
  endianness.\<close>

theorem spvFixWord_involution:
  assumes "host \<in> {I32_ENDIAN_LITTLE, I32_ENDIAN_BIG}"
  shows "spvFixWord host (spvFixWord host w e) e = w \<and>
    (spvIsHostEndian host e \<longrightarrow> spvFixWord host w e = w)"
  using assms by (simp add: spvFixWord_swapped)

theorem spvFixWord_involution_witness:
  "spvFixWord I32_ENDIAN_LITTLE (spvFixWord I32_ENDIAN_LITTLE 0x01020304 SPV_ENDIANNESS_BIG)
     SPV_ENDIANNESS_BIG = 0x01020304"
  using spvFixWord_involution [of I32_ENDIAN_LITTLE "0x01020304" SPV_ENDIANNESS_BIG] by simp

text \<open>On both kinds of machines, for a non-null binary with at least one word,
  \<open>spvBinaryEndianness\<close> reports an endianness exactly when correcting the first word for it gives
  the SPIR-V magic number, and reports an invalid binary when neither endianness does.\<close>

theorem spvBinaryEndianness_magic:
  assumes "host \<in> {I32_ENDIAN_LITTLE, I32_ENDIAN_BIG}"
  shows "(spvBinaryEndianness host (Some (w # ws)) False = Inr e) =
      (spvFixWord host w e = SpvMagicNumber) \<and>
    (spvBinaryEndianness host (Some (w # ws)) False = Inl SPV_ERROR_INVALID_BINARY) =
      (\<forall>e. spvFixWord host w e \<noteq> SpvMagicNumber)"
proof -
  let ?fix = "\<lambda>e. spvFixWord host w e = SpvMagicNumber"
  have not_both: "\<not> (?fix SPV_ENDIANNESS_LITTLE \<and> ?fix SPV_ENDIANNESS_BIG)"
    using assms swapped_magic
    by (auto simp: spvFixWord_swapped spvIsHostEndian_def I32_ENDIAN_LITTLE_def I32_ENDIAN_BIG_def)
  have all: "(\<forall>e. spvFixWord host w e \<noteq> SpvMagicNumber) \<longleftrightarrow>
      \<not> ?fix SPV_ENDIANNESS_LITTLE \<and> \<not> ?fix SPV_ENDIANNESS_BIG"
    by (metis spv_endianness_t.exhaust)
  show ?thesis
    unfolding endianness_tests [OF assms] using not_both
    by (cases e) (auto simp: all)
qed

theorem spvBinaryEndianness_magic_witness:
  "spvBinaryEndianness I32_ENDIAN_BIG (Some [0x03022307, 0]) False = Inr SPV_ENDIANNESS_LITTLE"
  using spvBinaryEndianness_magic
    [of I32_ENDIAN_BIG "0x03022307" "[0]" SPV_ENDIANNESS_LITTLE]
  by (simp add: spvFixWord_def SpvMagicNumber_def I32_ENDIAN_BIG_def)

end
