(* ===== verification/Str_Utils.thy ===== *)
theory Str_Utils
  imports Prelude
begin

text \<open>
  \<open>src/ShaderCompiler/src/spirv-tools/util/string_utils.h\<close> and \<open>string_utils.cpp\<close>: decimal and
  ordinal numbers, the splitting of an optimizer flag, and the SPIR-V encoding of a string as
  words, four bytes a word from the low byte up, with a terminating zero byte.
\<close>

section \<open>Numbers as text\<close>

text \<open>\<open>operator<<\<close> of an unsigned integer.\<close>

fun ToString :: "nat \<Rightarrow> string" where
  "ToString val = (if val < 10 then [char_of (48 + val)]
                   else ToString (val div 10) @ [char_of (48 + val mod 10)])"

declare ToString.simps [simp del]

text \<open>\<open>operator<<\<close> of a signed integer.\<close>

definition int_string :: "int \<Rightarrow> string" where
  "int_string n = (if n < 0 then ''-'' @ ToString (nat (- n)) else ToString (nat n))"

definition CardinalToOrdinal :: "nat \<Rightarrow> string" where
  "CardinalToOrdinal cardinal =
     (let mod10 = cardinal mod 10; mod100 = cardinal mod 100;
          suffix = (if mod10 = 1 \<and> mod100 \<noteq> 11 then ''st''
                    else if mod10 = 2 \<and> mod100 \<noteq> 12 then ''nd''
                    else if mod10 = 3 \<and> mod100 \<noteq> 13 then ''rd''
                    else ''th'')
      in ToString cardinal @ suffix)"

section \<open>Splitting a flag\<close>

text \<open>\<open>std::string::find\<close> of one character; \<open>None\<close> is \<open>npos\<close>.\<close>

fun find_char :: "char \<Rightarrow> string \<Rightarrow> nat option" where
  "find_char c [] = None"
| "find_char c (d # s) = (if d = c then Some 0 else map_option Suc (find_char c s))"

definition substr :: "string \<Rightarrow> nat \<Rightarrow> nat \<Rightarrow> string" where
  "substr s pos n = take n (drop pos s)"

text \<open>
  The count \<open>ix - 2\<close> is a \<open>size_t\<close>: below 2 it wraps around to a number beyond every string.
\<close>

definition SplitFlagArgs :: "string \<Rightarrow> string \<times> string" where
  "SplitFlagArgs flag =
     (if length flag < 2 then (flag, '''')
      else
        let dash_ix = (if flag ! 0 = CHR ''-'' \<and> flag ! 1 = CHR ''-'' then 2
                       else if flag ! 0 = CHR ''-'' then 1 else 0)
        in case find_char (CHR ''='') flag of
             Some ix \<Rightarrow> (substr flag dash_ix (if ix < 2 then 2 ^ 64 + ix - 2 else ix - 2),
                         drop (ix + 1) flag)
           | None \<Rightarrow> (drop dash_ix flag, ''''))"

definition starts_with :: "string \<Rightarrow> string \<Rightarrow> bool" where
  "starts_with str pre \<longleftrightarrow> take (length pre) str = pre"

section \<open>Strings as words\<close>

function AppendToVector_loop :: "string \<Rightarrow> nat \<Rightarrow> uint32_t \<Rightarrow> uint32_t list \<Rightarrow> uint32_t \<times> uint32_t list" where
  "AppendToVector_loop input byte_index word result =
     (if byte_index \<le> length input then
        let new_byte = (if byte_index < length input then word_of_nat (of_char (input ! byte_index)) else 0);
            word' = word OR push_bit (8 * (byte_index mod 4)) new_byte
        in if 3 = byte_index mod 4
           then AppendToVector_loop input (byte_index + 1) 0 (result @ [word'])
           else AppendToVector_loop input (byte_index + 1) word' result
      else (word, result))"
  by pat_completeness auto
termination
  by (relation "measure (\<lambda>(input, i, w, r). Suc (length input) - i)") auto

declare AppendToVector_loop.simps [simp del]

definition AppendToVector :: "string \<Rightarrow> uint32_t list \<Rightarrow> uint32_t list" where
  "AppendToVector input result =
     (let (word, result') = AppendToVector_loop input 0 0 result
      in if (length input + 1) mod 4 \<noteq> 0 then result' @ [word] else result')"

definition MakeVector :: "string \<Rightarrow> uint32_t list" where
  "MakeVector input = AppendToVector input []"

text \<open>
  The inner loop of \<open>MakeString\<close>: \<open>Inl\<close> is the early return at a zero byte, \<open>Inr\<close> the string after
  the whole word.
\<close>

function MakeString_word :: "uint32_t \<Rightarrow> nat \<Rightarrow> string \<Rightarrow> string + string" where
  "MakeString_word word byte_index result =
     (if byte_index < 4 then
        let extracted_word = drop_bit (8 * byte_index) word AND 0xFF;
            c = (char_of (unat extracted_word) :: char)
        in if c = CHR 0x00 then Inl result
           else MakeString_word word (byte_index + 1) (result @ [c])
      else Inr result)"
  by pat_completeness auto
termination
  by (relation "measure (\<lambda>(w, i, r). 4 - i)") auto

declare MakeString_word.simps [simp del]

fun MakeString_loop :: "uint32_t list \<Rightarrow> string \<Rightarrow> string" where
  "MakeString_loop [] result = result"
| "MakeString_loop (word # words) result =
     (case MakeString_word word 0 result of
        Inl r \<Rightarrow> r
      | Inr r \<Rightarrow> MakeString_loop words r)"

definition MakeString :: "uint32_t list \<Rightarrow> string" where
  "MakeString words = MakeString_loop words ''''"

section \<open>The encoding as a recursion on the string\<close>

definition char_word :: "char \<Rightarrow> uint32_t" where
  "char_word c = word_of_nat (of_char c)"

text \<open>\<open>k\<close> bytes of the current word are already in \<open>w\<close>; the terminating zero closes it.\<close>

fun encode :: "string \<Rightarrow> nat \<Rightarrow> uint32_t \<Rightarrow> uint32_t list" where
  "encode [] k w = [w]"
| "encode (c # s) k w =
     (let w' = w OR push_bit (8 * k) (char_word c)
      in if k = 3 then w' # encode s 0 0 else encode s (k + 1) w')"

definition finish_vector :: "string \<Rightarrow> uint32_t \<times> uint32_t list \<Rightarrow> uint32_t list" where
  "finish_vector input p =
     (if (length input + 1) mod 4 \<noteq> 0 then snd p @ [fst p] else snd p)"

lemma AppendToVector_loop_step:
  assumes "i < length input"
  shows "AppendToVector_loop input i w result =
    (let w' = w OR push_bit (8 * (i mod 4)) (char_word (input ! i))
     in if i mod 4 = 3 then AppendToVector_loop input (Suc i) 0 (result @ [w'])
        else AppendToVector_loop input (Suc i) w' result)"
proof -
  have flip: "3 = i mod 4 \<longleftrightarrow> i mod 4 = 3" by auto
  show ?thesis
    using assms by (subst AppendToVector_loop.simps) (simp add: char_word_def Let_def flip)
qed

lemma AppendToVector_loop_end:
  "finish_vector input (AppendToVector_loop input (length input) w result) = result @ [w]"
proof -
  have over: "AppendToVector_loop input (Suc (length input)) v r = (v, r)" for v r
    by (simp add: AppendToVector_loop.simps)
  have "3 = length input mod 4 \<longleftrightarrow> Suc (length input) mod 4 = 0"
    by presburger
  then show ?thesis
    by (subst AppendToVector_loop.simps) (simp add: over finish_vector_def)
qed

lemma AppendToVector_loop_encode:
  "i \<le> length input \<Longrightarrow>
    finish_vector input (AppendToVector_loop input i w result) =
    result @ encode (drop i input) (i mod 4) w"
proof (induction "length input - i" arbitrary: i w result)
  case 0
  then have "i = length input" by simp
  then show ?case using AppendToVector_loop_end [of input w result] by simp
next
  case (Suc n)
  then have i: "i < length input" and n: "n = length input - Suc i" "Suc i \<le> length input"
    by linarith+
  have drop: "drop i input = input ! i # drop (Suc i) input" using i by (simp add: Cons_nth_drop_Suc)
  show ?case
  proof (cases "i mod 4 = 3")
    case True
    then have "Suc i mod 4 = 0" by presburger
    with True Suc.hyps(1) [OF n] show ?thesis
      by (simp add: AppendToVector_loop_step [OF i] drop Let_def)
  next
    case False
    then have "Suc i mod 4 = Suc (i mod 4)" by presburger
    with False Suc.hyps(1) [OF n] show ?thesis
      by (simp add: AppendToVector_loop_step [OF i] drop Let_def)
  qed
qed

lemma AppendToVector_encode: "AppendToVector input result = result @ encode input 0 0"
  using AppendToVector_loop_encode [of 0 input 0 result]
  by (simp add: AppendToVector_def finish_vector_def split_beta)

section \<open>Decoding what was encoded\<close>

definition word_byte :: "nat \<Rightarrow> uint32_t \<Rightarrow> char" where
  "word_byte k w = char_of (unat (drop_bit (8 * k) w AND 0xFF))"

text \<open>The first \<open>length pre\<close> bytes of \<open>w\<close> are \<open>pre\<close>, the others are zero.\<close>

definition holds_bytes :: "uint32_t \<Rightarrow> string \<Rightarrow> bool" where
  "holds_bytes w pre \<longleftrightarrow> length pre \<le> 4 \<and> (\<forall>i < 32. bit w i \<longleftrightarrow>
     (i div 8 < length pre \<and> bit (of_char (pre ! (i div 8)) :: nat) (i mod 8)))"

lemma bit_char_word: "bit (char_word c) i \<longleftrightarrow> bit (of_char c :: nat) i"
  using bit_of_char_less [of c i] by (auto simp: char_word_def bit_of_nat_iff)

lemma holds_bytes_0: "holds_bytes 0 []"
  by (simp add: holds_bytes_def)

lemma holds_bytes_snoc:
  assumes "holds_bytes w pre" "length pre < 4"
  shows "holds_bytes (w OR push_bit (8 * length pre) (char_word c)) (pre @ [c])"
  unfolding holds_bytes_def
proof (intro conjI allI impI)
  let ?n = "length pre"
  show "length (pre @ [c]) \<le> 4" using assms(2) by simp
  fix i :: nat assume i: "i < 32"
  have w: "bit w i \<longleftrightarrow> i div 8 < ?n \<and> bit (of_char (pre ! (i div 8)) :: nat) (i mod 8)"
    using assms(1) i by (simp add: holds_bytes_def)
  have or: "bit (w OR push_bit (8 * ?n) (char_word c)) i \<longleftrightarrow>
      bit w i \<or> 8 * ?n \<le> i \<and> bit (of_char c :: nat) (i - 8 * ?n)"
    using i by (auto simp: bit_or_iff bit_push_bit_iff bit_char_word)
  consider "i div 8 < ?n" | "i div 8 = ?n" | "?n < i div 8" by linarith
  then show "bit (w OR push_bit (8 * ?n) (char_word c)) i \<longleftrightarrow>
      i div 8 < length (pre @ [c]) \<and> bit (of_char ((pre @ [c]) ! (i div 8)) :: nat) (i mod 8)"
  proof cases
    case 1
    then have "\<not> 8 * ?n \<le> i" by linarith
    with 1 show ?thesis unfolding or w by (simp add: nth_append)
  next
    case 2
    then have "8 * ?n \<le> i" "i - 8 * ?n = i mod 8" by presburger+
    with 2 show ?thesis unfolding or w by simp
  next
    case 3
    then have "8 \<le> i - 8 * ?n" by linarith
    with 3 show ?thesis unfolding or w using bit_of_char_less [of c "i - 8 * ?n"] by auto
  qed
qed

lemma word_byte_holds:
  assumes "holds_bytes w pre" "k < 4"
  shows "word_byte k w = (if k < length pre then pre ! k else CHR 0x00)"
proof -
  have mask: "(0xFF :: uint32_t) = mask 8" by (simp add: mask_eq_exp_minus_1)
  have "unat (drop_bit (8 * k) w AND 0xFF) = (if k < length pre then of_char (pre ! k) else 0)"
  proof (rule bit_eqI)
    fix j
    show "bit (unat (drop_bit (8 * k) w AND 0xFF)) j =
        bit (if k < length pre then of_char (pre ! k) else 0 :: nat) j"
    proof (cases "j < 8")
      case True
      then have "8 * k + j < 32" "(8 * k + j) div 8 = k" "(8 * k + j) mod 8 = j" using assms(2) by auto
      with assms(1) True show ?thesis
        by (simp add: holds_bytes_def mask bit_unsigned_iff bit_and_iff bit_drop_bit_eq bit_mask_iff)
    next
      case False
      then show ?thesis
        using bit_of_char_less [of "pre ! k" j]
        by (auto simp: mask bit_unsigned_iff bit_and_iff bit_mask_iff)
    qed
  qed
  moreover have "char_of (0 :: nat) = CHR 0x00" by code_simp
  ultimately show ?thesis by (simp add: word_byte_def)
qed

lemma MakeString_word_holds:
  assumes "CHR 0x00 \<notin> set pre"
  shows "holds_bytes w pre \<Longrightarrow> k \<le> length pre \<Longrightarrow> MakeString_word w k r =
    (if length pre < 4 then Inl (r @ drop k pre) else Inr (r @ drop k pre))"
proof (induction w k r rule: MakeString_word.induct)
  case (1 w k r)
  have len: "length pre \<le> 4" using "1.prems"(1) by (simp add: holds_bytes_def)
  have step: "k < 4 \<Longrightarrow> MakeString_word w k r =
      (if word_byte k w = CHR 0x00 then Inl r else MakeString_word w (k + 1) (r @ [word_byte k w]))"
    by (subst MakeString_word.simps) (simp add: word_byte_def Let_def)
  consider "k < length pre" | "k = length pre" "k < 4" | "k = length pre" "k = 4"
    using "1.prems" len by linarith
  then show ?case
  proof cases
    case 1
    then have k: "k < 4" and byte: "word_byte k w = pre ! k"
      using len word_byte_holds [OF "1.prems"(1), of k] by auto
    moreover have "pre ! k \<noteq> CHR 0x00" using assms 1 nth_mem by metis
    moreover have "MakeString_word w (k + 1) (r @ [pre ! k]) =
        (if length pre < 4 then Inl (r @ drop k pre) else Inr (r @ drop k pre))"
      using "1.IH" [OF k refl refl] "1.prems" 1 byte \<open>pre ! k \<noteq> CHR 0x00\<close>
      by (simp add: word_byte_def Cons_nth_drop_Suc [OF 1, symmetric])
    ultimately show ?thesis using step by simp
  next
    case 2
    then show ?thesis using step word_byte_holds [OF "1.prems"(1), of k] by simp
  next
    case 3
    then show ?thesis by (subst MakeString_word.simps) simp
  qed
qed

text \<open>Decoding the words that close a partial word holding \<open>pre\<close> gives \<open>pre\<close> and the string.\<close>

lemma MakeString_encode:
  "\<lbrakk>holds_bytes w pre; length pre < 4; CHR 0x00 \<notin> set pre; CHR 0x00 \<notin> set s\<rbrakk> \<Longrightarrow>
    MakeString_loop (encode s (length pre) w @ rest) r = r @ pre @ s"
proof (induction s arbitrary: w pre r)
  case Nil
  then show ?case using MakeString_word_holds [of pre w 0 r] by simp
next
  case (Cons c s)
  let ?w = "w OR push_bit (8 * length pre) (char_word c)"
  have holds: "holds_bytes ?w (pre @ [c])" using Cons.prems by (intro holds_bytes_snoc)
  show ?case
  proof (cases "length pre = 3")
    case True
    have "MakeString_word ?w 0 r = Inr (r @ pre @ [c])"
      using MakeString_word_holds [of "pre @ [c]" ?w 0 r, OF _ holds] Cons.prems True by simp
    then show ?thesis
      using True Cons.IH [of 0 "[]" "r @ pre @ [c]"] Cons.prems by (simp add: holds_bytes_0 Let_def)
  next
    case False
    then show ?thesis using Cons.IH [OF holds, of r] Cons.prems by (simp add: Let_def)
  qed
qed

text \<open>What is decoded from any words: their bytes up to the first zero.\<close>

definition word_string :: "uint32_t \<Rightarrow> string" where
  "word_string w = [word_byte 0 w, word_byte 1 w, word_byte 2 w, word_byte 3 w]"

lemma MakeString_word_bytes:
  "MakeString_word w 0 r =
    (if CHR 0x00 \<in> set (word_string w) then Inl (r @ takeWhile (\<lambda>c. c \<noteq> CHR 0x00) (word_string w))
     else Inr (r @ word_string w))"
proof -
  have step: "MakeString_word w k r =
      (if k < 4 then if word_byte k w = CHR 0x00 then Inl r else MakeString_word w (k + 1) (r @ [word_byte k w])
       else Inr r)" for k r
    by (subst MakeString_word.simps) (simp add: word_byte_def Let_def)
  have steps:
    "MakeString_word w 0 r = (if word_byte 0 w = CHR 0x00 then Inl r else MakeString_word w 1 (r @ [word_byte 0 w]))"
    "MakeString_word w 1 r =
      (if word_byte 1 w = CHR 0x00 then Inl r else MakeString_word w 2 (r @ [word_byte 1 w]))"
    "MakeString_word w 2 r = (if word_byte 2 w = CHR 0x00 then Inl r else MakeString_word w 3 (r @ [word_byte 2 w]))"
    "MakeString_word w 3 r = (if word_byte 3 w = CHR 0x00 then Inl r else MakeString_word w 4 (r @ [word_byte 3 w]))"
    "MakeString_word w 4 r = Inr r" for r
    by (simp_all add: step [of 0] step [of 1] step [of 2] step [of 3] step [of 4] del: One_nat_def)
  show ?thesis
    by (cases "word_byte 0 w = CHR 0x00"; cases "word_byte 1 w = CHR 0x00"; cases "word_byte 2 w = CHR 0x00";
        cases "word_byte 3 w = CHR 0x00") (simp_all add: steps word_string_def del: One_nat_def)
qed

lemma MakeString_bytes: "MakeString ws = takeWhile (\<lambda>c. c \<noteq> CHR 0x00) (concat (map word_string ws))"
proof -
  have "MakeString_loop ws r = r @ takeWhile (\<lambda>c. c \<noteq> CHR 0x00) (concat (map word_string ws))" for r
  proof (induction ws arbitrary: r)
    case (Cons w ws)
    show ?case
    proof (cases "CHR 0x00 \<in> set (word_string w)")
      case True
      then show ?thesis by (simp add: MakeString_word_bytes)
    next
      case False
      then have "\<And>c. c \<in> set (word_string w) \<Longrightarrow> c \<noteq> CHR 0x00" by blast
      with False Cons.IH show ?thesis by (simp add: MakeString_word_bytes takeWhile_append2)
    qed
  qed simp
  then show ?thesis by (simp add: MakeString_def)
qed

lemma takeWhile_take: "takeWhile P (take n xs) = take n (takeWhile P xs)"
  by (induction xs arbitrary: n) (auto simp: take_Cons split: nat.split)

lemma takeWhile_shorter: "x \<in> set xs \<Longrightarrow> \<not> P x \<Longrightarrow> length (takeWhile P xs) < length xs"
  by (induction xs) auto

lemma take_word_strings: "take (4 * n) (concat (map word_string ws)) = concat (map word_string (take n ws))"
proof (induction ws arbitrary: n)
  case (Cons w ws)
  have "4 * Suc m = Suc (Suc (Suc (Suc (4 * m))))" for m :: nat by simp
  then show ?case using Cons.IH by (cases n) (simp_all only: take_Suc_Cons word_string_def list.map concat.simps
      append.simps take_0 mult_0_right)
qed simp

text \<open>A string is decoded from the words that it takes.\<close>

lemma MakeString_take: "MakeString (take (length (MakeString ws) div 4 + 1) ws) = MakeString ws"
proof -
  have "MakeString (take n ws) = take (4 * n) (MakeString ws)" for n
    unfolding MakeString_bytes take_word_strings [symmetric] takeWhile_take by (rule refl)
  moreover have "n \<le> 4 * (n div 4 + 1)" for n :: nat by presburger
  ultimately show ?thesis by (simp only: take_all)
qed

lemma MakeString_head:
  assumes "CHR 0x00 \<notin> set (word_string w)"
  shows "take 4 (MakeString (w # ws)) = word_string w"
proof -
  have "MakeString (w # ws) = word_string w @ takeWhile (\<lambda>c. c \<noteq> CHR 0x00) (concat (map word_string ws))"
    using assms unfolding MakeString_bytes by (simp, subst takeWhile_append2) auto
  then show ?thesis by (simp add: word_string_def)
qed

lemma MakeString_head_zero:
  assumes "4 \<le> length (MakeString (w # ws))"
  shows "CHR 0x00 \<notin> set (word_string w)"
proof
  assume zero: "CHR 0x00 \<in> set (word_string w)"
  then have "length (MakeString (w # ws)) = length (takeWhile (\<lambda>c. c \<noteq> CHR 0x00) (word_string w))"
    unfolding MakeString_bytes by simp
  also have "\<dots> < length (word_string w)" using zero by (rule takeWhile_shorter) simp
  finally show False using assms by (simp add: word_string_def)
qed

lemma length_encode: "k < 4 \<Longrightarrow> length (encode s k w) = (length s + k) div 4 + 1"
  by (induction s k w rule: encode.induct) (auto simp: Let_def)

section \<open>Properties\<close>

text \<open>C14: a string without zero bytes, encoded after any words and followed by any words, is
  decoded from where it starts as itself, and takes one word per four bytes, rounded up with the
  terminating zero; \<open>AppendToVector\<close> leaves the words before it alone.\<close>

theorem MakeString_MakeVector:
  assumes "CHR 0x00 \<notin> set input"
  shows "AppendToVector input result = result @ MakeVector input \<and>
    length (MakeVector input) = length input div 4 + 1 \<and>
    MakeString (MakeVector input @ rest) = input"
  using assms MakeString_encode [of 0 "[]" input rest "[]"]
  by (simp add: MakeVector_def AppendToVector_encode length_encode holds_bytes_0 MakeString_def)

theorem MakeString_MakeVector_witness:
  "MakeString (MakeVector ''GLSL.std.450'' @ [7]) = ''GLSL.std.450''"
  using MakeString_MakeVector [of "''GLSL.std.450''" "[]" "[7]"] by simp

text \<open>\<open>SplitFlagArgs\<close> splits \<open>--name=args\<close> at the first equals sign and drops the two dashes,
  and returns \<open>--name\<close> without arguments when there is none. A single-dash flag with arguments,
  although its comment says single dashes are handled, loses the last character of its name,
  because the count of the substring is taken for two dashes.\<close>

theorem SplitFlagArgs_forms:
  assumes "CHR ''='' \<notin> set name"
  shows "SplitFlagArgs (''--'' @ name @ ''='' @ args) = (name, args) \<and>
    SplitFlagArgs (''--'' @ name) = (name, '''') \<and>
    (\<forall>c. c \<notin> {CHR ''-'', CHR ''=''} \<longrightarrow>
      SplitFlagArgs (''-'' @ c # name @ ''='' @ args) = (butlast (c # name), args))"
proof -
  have find: "find_char (CHR ''='') (pre @ CHR ''='' # post) = Some (length pre)"
    if "CHR ''='' \<notin> set pre" for pre post
    using that by (induction pre) auto
  have none: "find_char (CHR ''='') pre = None" if "CHR ''='' \<notin> set pre" for pre
    using that by (induction pre) auto
  show ?thesis
    using assms find [of "''--'' @ name" args] none [of "''--'' @ name"]
    by (auto simp: SplitFlagArgs_def substr_def find [of name args] butlast_conv_take take_Cons')
qed

theorem SplitFlagArgs_forms_witness:
  "SplitFlagArgs ''--scalar-block-layout=a=b'' = (''scalar-block-layout'', ''a=b'') \<and>
   SplitFlagArgs ''-Os=1'' = (''O'', ''1'')"
  using SplitFlagArgs_forms [of "''scalar-block-layout''" "''a=b''"] SplitFlagArgs_forms [of "''s''" "''1''"]
  by simp

end
