(* ===== verification/Target_Env.thy ===== *)
theory Target_Env
  imports Prelude "HOL-Library.Sublist"
begin

text \<open>
  The target environments of \<open>src/ShaderCompiler/src/spirv-tools/spirv_target_env.cpp\<close>: their
  descriptions, SPIR-V versions, names, families, and the functions that choose one from a command
  line name, from the header comment of an assembly text, or from a Vulkan version. A \<open>switch\<close> is
  a chain of membership tests in the order of its groups of labels; the asserts on
  \<open>SPV_ENV_WEBGPU_0\<close> and \<open>SPV_ENV_MAX\<close> are compiled out and fall through to the last return.
\<close>

section \<open>Environments and their versions\<close>

datatype spv_target_env =
    SPV_ENV_UNIVERSAL_1_0| SPV_ENV_VULKAN_1_0| SPV_ENV_UNIVERSAL_1_1| SPV_ENV_OPENCL_2_1|
  SPV_ENV_OPENCL_2_2| SPV_ENV_OPENGL_4_0| SPV_ENV_OPENGL_4_1| SPV_ENV_OPENGL_4_2|
  SPV_ENV_OPENGL_4_3| SPV_ENV_OPENGL_4_5| SPV_ENV_UNIVERSAL_1_2| SPV_ENV_OPENCL_1_2|
  SPV_ENV_OPENCL_EMBEDDED_1_2| SPV_ENV_OPENCL_2_0| SPV_ENV_OPENCL_EMBEDDED_2_0|
  SPV_ENV_OPENCL_EMBEDDED_2_1| SPV_ENV_OPENCL_EMBEDDED_2_2| SPV_ENV_UNIVERSAL_1_3|
  SPV_ENV_VULKAN_1_1| SPV_ENV_WEBGPU_0| SPV_ENV_UNIVERSAL_1_4| SPV_ENV_VULKAN_1_1_SPIRV_1_4|
  SPV_ENV_UNIVERSAL_1_5| SPV_ENV_VULKAN_1_2| SPV_ENV_UNIVERSAL_1_6| SPV_ENV_VULKAN_1_3|
  SPV_ENV_VULKAN_1_4| SPV_ENV_MAX

text \<open>The macros of \<open>spirv_constant.h\<close>; both parts are cut to a byte.\<close>

definition SPV_SPIRV_VERSION_WORD :: "nat \<Rightarrow> nat \<Rightarrow> uint32_t" where
  "SPV_SPIRV_VERSION_WORD MAJOR MINOR =
     push_bit 16 (ucast (word_of_nat MAJOR :: uint8_t)) OR
     push_bit 8 (ucast (word_of_nat MINOR :: uint8_t))"

definition SPV_SPIRV_VERSION_MAJOR_PART :: "uint32_t \<Rightarrow> uint32_t" where
  "SPV_SPIRV_VERSION_MAJOR_PART w = drop_bit 16 w AND 0xff"

definition SPV_SPIRV_VERSION_MINOR_PART :: "uint32_t \<Rightarrow> uint32_t" where
  "SPV_SPIRV_VERSION_MINOR_PART w = drop_bit 8 w AND 0xff"

definition spvTargetEnvDescription :: "spv_target_env \<Rightarrow> string" where
  "spvTargetEnvDescription env =
     (if env = SPV_ENV_UNIVERSAL_1_0
      then ''SPIR-V 1.0''
      else if env = SPV_ENV_VULKAN_1_0
      then ''SPIR-V 1.0 (under Vulkan 1.0 semantics)''
      else if env = SPV_ENV_UNIVERSAL_1_1
      then ''SPIR-V 1.1''
      else if env = SPV_ENV_OPENCL_1_2
      then ''SPIR-V 1.0 (under OpenCL 1.2 Full Profile semantics)''
      else if env = SPV_ENV_OPENCL_EMBEDDED_1_2
      then ''SPIR-V 1.0 (under OpenCL 1.2 Embedded Profile semantics)''
      else if env = SPV_ENV_OPENCL_2_0
      then ''SPIR-V 1.0 (under OpenCL 2.0 Full Profile semantics)''
      else if env = SPV_ENV_OPENCL_EMBEDDED_2_0
      then ''SPIR-V 1.0 (under OpenCL 2.0 Embedded Profile semantics)''
      else if env = SPV_ENV_OPENCL_2_1
      then ''SPIR-V 1.0 (under OpenCL 2.1 Full Profile semantics)''
      else if env = SPV_ENV_OPENCL_EMBEDDED_2_1
      then ''SPIR-V 1.0 (under OpenCL 2.1 Embedded Profile semantics)''
      else if env = SPV_ENV_OPENCL_2_2
      then ''SPIR-V 1.2 (under OpenCL 2.2 Full Profile semantics)''
      else if env = SPV_ENV_OPENCL_EMBEDDED_2_2
      then ''SPIR-V 1.2 (under OpenCL 2.2 Embedded Profile semantics)''
      else if env = SPV_ENV_OPENGL_4_0
      then ''SPIR-V 1.0 (under OpenGL 4.0 semantics)''
      else if env = SPV_ENV_OPENGL_4_1
      then ''SPIR-V 1.0 (under OpenGL 4.1 semantics)''
      else if env = SPV_ENV_OPENGL_4_2
      then ''SPIR-V 1.0 (under OpenGL 4.2 semantics)''
      else if env = SPV_ENV_OPENGL_4_3
      then ''SPIR-V 1.0 (under OpenGL 4.3 semantics)''
      else if env = SPV_ENV_OPENGL_4_5
      then ''SPIR-V 1.0 (under OpenGL 4.5 semantics)''
      else if env = SPV_ENV_UNIVERSAL_1_2
      then ''SPIR-V 1.2''
      else if env = SPV_ENV_UNIVERSAL_1_3
      then ''SPIR-V 1.3''
      else if env = SPV_ENV_VULKAN_1_1
      then ''SPIR-V 1.3 (under Vulkan 1.1 semantics)''
      else if env = SPV_ENV_UNIVERSAL_1_4
      then ''SPIR-V 1.4''
      else if env = SPV_ENV_VULKAN_1_1_SPIRV_1_4
      then ''SPIR-V 1.4 (under Vulkan 1.1 semantics)''
      else if env = SPV_ENV_UNIVERSAL_1_5
      then ''SPIR-V 1.5''
      else if env = SPV_ENV_VULKAN_1_2
      then ''SPIR-V 1.5 (under Vulkan 1.2 semantics)''
      else if env = SPV_ENV_UNIVERSAL_1_6
      then ''SPIR-V 1.6''
      else if env = SPV_ENV_VULKAN_1_3
      then ''SPIR-V 1.6 (under Vulkan 1.3 semantics)''
      else if env = SPV_ENV_VULKAN_1_4
      then ''SPIR-V 1.6 (under Vulkan 1.4 semantics)''
      else '''')"

definition spvVersionForTargetEnv :: "spv_target_env \<Rightarrow> uint32_t" where
  "spvVersionForTargetEnv env =
     (if env \<in> {SPV_ENV_UNIVERSAL_1_0, SPV_ENV_VULKAN_1_0, SPV_ENV_OPENCL_1_2,
            SPV_ENV_OPENCL_EMBEDDED_1_2, SPV_ENV_OPENCL_2_0, SPV_ENV_OPENCL_EMBEDDED_2_0,
            SPV_ENV_OPENCL_2_1, SPV_ENV_OPENCL_EMBEDDED_2_1, SPV_ENV_OPENGL_4_0,
            SPV_ENV_OPENGL_4_1, SPV_ENV_OPENGL_4_2, SPV_ENV_OPENGL_4_3, SPV_ENV_OPENGL_4_5}
      then SPV_SPIRV_VERSION_WORD 1 0
      else if env = SPV_ENV_UNIVERSAL_1_1
      then SPV_SPIRV_VERSION_WORD 1 1
      else if env \<in> {SPV_ENV_UNIVERSAL_1_2, SPV_ENV_OPENCL_2_2, SPV_ENV_OPENCL_EMBEDDED_2_2}
      then SPV_SPIRV_VERSION_WORD 1 2
      else if env \<in> {SPV_ENV_UNIVERSAL_1_3, SPV_ENV_VULKAN_1_1}
      then SPV_SPIRV_VERSION_WORD 1 3
      else if env \<in> {SPV_ENV_UNIVERSAL_1_4, SPV_ENV_VULKAN_1_1_SPIRV_1_4}
      then SPV_SPIRV_VERSION_WORD 1 4
      else if env \<in> {SPV_ENV_UNIVERSAL_1_5, SPV_ENV_VULKAN_1_2}
      then SPV_SPIRV_VERSION_WORD 1 5
      else if env \<in> {SPV_ENV_UNIVERSAL_1_6, SPV_ENV_VULKAN_1_3, SPV_ENV_VULKAN_1_4}
      then SPV_SPIRV_VERSION_WORD 1 6
      else SPV_SPIRV_VERSION_WORD 0 0)"

definition ordered_universal_envs :: "spv_target_env list" where
  "ordered_universal_envs =
     [SPV_ENV_UNIVERSAL_1_0, SPV_ENV_UNIVERSAL_1_1, SPV_ENV_UNIVERSAL_1_2,
      SPV_ENV_UNIVERSAL_1_3, SPV_ENV_UNIVERSAL_1_4, SPV_ENV_UNIVERSAL_1_5,
      SPV_ENV_UNIVERSAL_1_6]"

section \<open>Names\<close>

definition spvTargetEnvNameMap :: "(string \<times> spv_target_env) list" where
  "spvTargetEnvNameMap = [
     (''vulkan1.0'', SPV_ENV_VULKAN_1_0),
     (''vulkan1.1spv1.4'', SPV_ENV_VULKAN_1_1_SPIRV_1_4),
     (''vulkan1.1'', SPV_ENV_VULKAN_1_1),
     (''vulkan1.2'', SPV_ENV_VULKAN_1_2),
     (''vulkan1.3'', SPV_ENV_VULKAN_1_3),
     (''vulkan1.4'', SPV_ENV_VULKAN_1_4),
     (''spv1.0'', SPV_ENV_UNIVERSAL_1_0),
     (''spv1.1'', SPV_ENV_UNIVERSAL_1_1),
     (''spv1.2'', SPV_ENV_UNIVERSAL_1_2),
     (''spv1.3'', SPV_ENV_UNIVERSAL_1_3),
     (''spv1.4'', SPV_ENV_UNIVERSAL_1_4),
     (''spv1.5'', SPV_ENV_UNIVERSAL_1_5),
     (''spv1.6'', SPV_ENV_UNIVERSAL_1_6),
     (''opencl1.2embedded'', SPV_ENV_OPENCL_EMBEDDED_1_2),
     (''opencl1.2'', SPV_ENV_OPENCL_1_2),
     (''opencl2.0embedded'', SPV_ENV_OPENCL_EMBEDDED_2_0),
     (''opencl2.0'', SPV_ENV_OPENCL_2_0),
     (''opencl2.1embedded'', SPV_ENV_OPENCL_EMBEDDED_2_1),
     (''opencl2.1'', SPV_ENV_OPENCL_2_1),
     (''opencl2.2embedded'', SPV_ENV_OPENCL_EMBEDDED_2_2),
     (''opencl2.2'', SPV_ENV_OPENCL_2_2),
     (''opengl4.0'', SPV_ENV_OPENGL_4_0),
     (''opengl4.1'', SPV_ENV_OPENGL_4_1),
     (''opengl4.2'', SPV_ENV_OPENGL_4_2),
     (''opengl4.3'', SPV_ENV_OPENGL_4_3),
     (''opengl4.5'', SPV_ENV_OPENGL_4_5)]"

text \<open>
  \<open>strncmp (s, b, strlen (b)) == 0\<close>: \<open>b\<close> is a prefix of \<open>s\<close>. The pointer \<open>s\<close> may be null. The
  result is what the function returns with what it stores through \<open>env\<close>.
\<close>

definition match_name :: "string option \<Rightarrow> string \<Rightarrow> bool" where
  "match_name s b = (case s of None \<Rightarrow> False | Some t \<Rightarrow> take (length b) t = b)"

fun spvParseTargetEnv_loop ::
  "string option \<Rightarrow> (string \<times> spv_target_env) list \<Rightarrow> bool \<times> spv_target_env" where
  "spvParseTargetEnv_loop s [] = (False, SPV_ENV_UNIVERSAL_1_0)"
| "spvParseTargetEnv_loop s (name_env # rest) =
     (if match_name s (fst name_env) then (True, snd name_env)
      else spvParseTargetEnv_loop s rest)"

definition spvParseTargetEnv :: "string option \<Rightarrow> bool \<times> spv_target_env" where
  "spvParseTargetEnv s = spvParseTargetEnv_loop s spvTargetEnvNameMap"

section \<open>The version comment of an assembly text\<close>

definition isdigit :: "char \<Rightarrow> bool" where
  "isdigit c \<longleftrightarrow> 48 \<le> (of_char c :: nat) \<and> (of_char c :: nat) \<le> 57"

definition isspace :: "char \<Rightarrow> bool" where
  "isspace c \<longleftrightarrow> (of_char c :: nat) = 32 \<or> 9 \<le> (of_char c :: nat) \<and> (of_char c :: nat) \<le> 13"

definition kVersionPrefix :: string where
  "kVersionPrefix = ''; Version: 1.''"

definition kPrefixLength :: nat where
  "kPrefixLength = 13"

text \<open>The loop over \<open>j\<close>: the first position from \<open>j\<close> on that differs from the prefix.\<close>

function match_prefix :: "string \<Rightarrow> nat \<Rightarrow> nat \<Rightarrow> nat" where
  "match_prefix text i j =
     (if j < kPrefixLength
      then (if kVersionPrefix ! j \<noteq> text ! (i + j) then j else match_prefix text i (j + 1))
      else j)"
  by pat_completeness auto
termination
  by (relation "measure (\<lambda>(text, i, j). kPrefixLength - j)") auto

text \<open>The loop that skips to the next newline (or to the end).\<close>

function skip_line :: "string \<Rightarrow> nat \<Rightarrow> nat" where
  "skip_line text i =
     (if i < length text then (if text ! i = CHR 0x0A then i else skip_line text (i + 1)) else i)"
  by pat_completeness auto
termination
  by (relation "measure (\<lambda>(text, i). length text - i)") auto

declare match_prefix.simps [simp del] skip_line.simps [simp del]

lemma skip_line_ge: "i \<le> skip_line text i"
  by (induction "text" i rule: skip_line.induct) (subst skip_line.simps, auto)

lemma skip_line_decreases:
  "i < length text \<Longrightarrow> length text - Suc (skip_line text (i + j)) < length text - i"
  using skip_line_ge [of "i + j" "text"] by simp

text \<open>The environment a line that starts at \<open>i\<close> asks for, once its prefix has matched.\<close>

definition version_of_line :: "string \<Rightarrow> nat \<Rightarrow> spv_target_env option" where
  "version_of_line text minor_digit_pos =
     (let minor = text ! minor_digit_pos;
          next_char = (if minor_digit_pos + 1 < length text then text ! (minor_digit_pos + 1) else CHR 0x00)
      in if isdigit minor \<and> \<not> isdigit next_char then
           let index = (of_char minor :: nat) - 48
           in if index < length ordered_universal_envs then Some (ordered_universal_envs ! index)
              else None
         else None)"

text \<open>The loop over the text: \<open>None\<close> stands for \<open>false\<close> with \<open>env\<close> untouched.\<close>

function spvReadEnvironment_loop :: "string \<Rightarrow> nat \<Rightarrow> spv_target_env option" where
  "spvReadEnvironment_loop text i =
     (if i < length text then
        let c = text ! i
        in if c = CHR '';'' then
             let minor_digit_pos = i + kPrefixLength
             in if minor_digit_pos \<ge> length text then None
                else
                  let j = match_prefix text i 1
                  in (case (if j = kPrefixLength then version_of_line text minor_digit_pos else None) of
                        Some env \<Rightarrow> Some env
                      | None \<Rightarrow> spvReadEnvironment_loop text (skip_line text (i + j) + 1))
           else if \<not> isspace c then None
           else spvReadEnvironment_loop text (i + 1)
      else None)"
  by pat_completeness auto
termination
  by (relation "measure (\<lambda>(text, i). length text - i)") (auto simp: skip_line_decreases)

declare spvReadEnvironment_loop.simps [simp del]

definition spvReadEnvironmentFromText :: "string \<Rightarrow> spv_target_env option" where
  "spvReadEnvironmentFromText text = spvReadEnvironment_loop text 0"

section \<open>Vulkan versions\<close>

definition VULKAN_VER :: "nat \<Rightarrow> nat \<Rightarrow> uint32_t" where
  "VULKAN_VER MAJOR MINOR = push_bit 22 (word_of_nat MAJOR) OR push_bit 12 (word_of_nat MINOR)"

definition SPIRV_VER :: "nat \<Rightarrow> nat \<Rightarrow> uint32_t" where
  "SPIRV_VER MAJOR MINOR = push_bit 16 (word_of_nat MAJOR) OR push_bit 8 (word_of_nat MINOR)"

record VulkanEnv =
  vulkan_env :: spv_target_env
  vulkan_ver :: uint32_t
  spirv_ver :: uint32_t

definition ordered_vulkan_envs :: "VulkanEnv list" where
  "ordered_vulkan_envs = [
     \<lparr>vulkan_env = SPV_ENV_VULKAN_1_0, vulkan_ver = VULKAN_VER 1 0, spirv_ver = SPIRV_VER 1 0\<rparr>,
     \<lparr>vulkan_env = SPV_ENV_VULKAN_1_1, vulkan_ver = VULKAN_VER 1 1, spirv_ver = SPIRV_VER 1 3\<rparr>,
     \<lparr>vulkan_env = SPV_ENV_VULKAN_1_1_SPIRV_1_4, vulkan_ver = VULKAN_VER 1 1,
      spirv_ver = SPIRV_VER 1 4\<rparr>,
     \<lparr>vulkan_env = SPV_ENV_VULKAN_1_2, vulkan_ver = VULKAN_VER 1 2, spirv_ver = SPIRV_VER 1 5\<rparr>,
     \<lparr>vulkan_env = SPV_ENV_VULKAN_1_3, vulkan_ver = VULKAN_VER 1 3, spirv_ver = SPIRV_VER 1 6\<rparr>,
     \<lparr>vulkan_env = SPV_ENV_VULKAN_1_4, vulkan_ver = VULKAN_VER 1 4, spirv_ver = SPIRV_VER 1 6\<rparr>]"

fun spvParseVulkanEnv_loop :: "VulkanEnv list \<Rightarrow> uint32_t \<Rightarrow> uint32_t \<Rightarrow> spv_target_env option" where
  "spvParseVulkanEnv_loop [] vk spv = None"
| "spvParseVulkanEnv_loop (triple # triples) vk spv =
     (if vulkan_ver triple \<ge> vk \<and> spirv_ver triple \<ge> spv then Some (vulkan_env triple)
      else spvParseVulkanEnv_loop triples vk spv)"

definition spvParseVulkanEnv :: "uint32_t \<Rightarrow> uint32_t \<Rightarrow> spv_target_env option" where
  "spvParseVulkanEnv vk spv = spvParseVulkanEnv_loop ordered_vulkan_envs vk spv"

section \<open>Families\<close>

definition spvIsVulkanEnv :: "spv_target_env \<Rightarrow> bool" where
  "spvIsVulkanEnv env =
     (if env \<in> {SPV_ENV_UNIVERSAL_1_0, SPV_ENV_OPENCL_1_2, SPV_ENV_OPENCL_EMBEDDED_1_2,
            SPV_ENV_OPENCL_2_0, SPV_ENV_OPENCL_EMBEDDED_2_0, SPV_ENV_OPENCL_2_1,
            SPV_ENV_OPENCL_EMBEDDED_2_1, SPV_ENV_OPENGL_4_0, SPV_ENV_OPENGL_4_1,
            SPV_ENV_OPENGL_4_2, SPV_ENV_OPENGL_4_3, SPV_ENV_OPENGL_4_5, SPV_ENV_UNIVERSAL_1_1,
            SPV_ENV_UNIVERSAL_1_2, SPV_ENV_OPENCL_2_2, SPV_ENV_OPENCL_EMBEDDED_2_2,
            SPV_ENV_UNIVERSAL_1_3, SPV_ENV_UNIVERSAL_1_4, SPV_ENV_UNIVERSAL_1_5,
            SPV_ENV_UNIVERSAL_1_6}
      then False
      else if env \<in> {SPV_ENV_VULKAN_1_0, SPV_ENV_VULKAN_1_1, SPV_ENV_VULKAN_1_1_SPIRV_1_4,
            SPV_ENV_VULKAN_1_2, SPV_ENV_VULKAN_1_3, SPV_ENV_VULKAN_1_4}
      then True
      else False)"

definition spvIsOpenCLEnv :: "spv_target_env \<Rightarrow> bool" where
  "spvIsOpenCLEnv env =
     (if env \<in> {SPV_ENV_UNIVERSAL_1_0, SPV_ENV_VULKAN_1_0, SPV_ENV_UNIVERSAL_1_1,
            SPV_ENV_OPENGL_4_0, SPV_ENV_OPENGL_4_1, SPV_ENV_OPENGL_4_2, SPV_ENV_OPENGL_4_3,
            SPV_ENV_OPENGL_4_5, SPV_ENV_UNIVERSAL_1_2, SPV_ENV_UNIVERSAL_1_3,
            SPV_ENV_VULKAN_1_1, SPV_ENV_UNIVERSAL_1_4, SPV_ENV_VULKAN_1_1_SPIRV_1_4,
            SPV_ENV_UNIVERSAL_1_5, SPV_ENV_VULKAN_1_2, SPV_ENV_UNIVERSAL_1_6,
            SPV_ENV_VULKAN_1_3, SPV_ENV_VULKAN_1_4}
      then False
      else if env \<in> {SPV_ENV_OPENCL_1_2, SPV_ENV_OPENCL_EMBEDDED_1_2, SPV_ENV_OPENCL_2_0,
            SPV_ENV_OPENCL_EMBEDDED_2_0, SPV_ENV_OPENCL_EMBEDDED_2_1,
            SPV_ENV_OPENCL_EMBEDDED_2_2, SPV_ENV_OPENCL_2_1, SPV_ENV_OPENCL_2_2}
      then True
      else False)"

definition spvIsOpenGLEnv :: "spv_target_env \<Rightarrow> bool" where
  "spvIsOpenGLEnv env =
     (if env \<in> {SPV_ENV_UNIVERSAL_1_0, SPV_ENV_VULKAN_1_0, SPV_ENV_UNIVERSAL_1_1,
            SPV_ENV_UNIVERSAL_1_2, SPV_ENV_UNIVERSAL_1_3, SPV_ENV_VULKAN_1_1,
            SPV_ENV_OPENCL_1_2, SPV_ENV_OPENCL_EMBEDDED_1_2, SPV_ENV_OPENCL_2_0,
            SPV_ENV_OPENCL_EMBEDDED_2_0, SPV_ENV_OPENCL_EMBEDDED_2_1,
            SPV_ENV_OPENCL_EMBEDDED_2_2, SPV_ENV_OPENCL_2_1, SPV_ENV_OPENCL_2_2,
            SPV_ENV_UNIVERSAL_1_4, SPV_ENV_VULKAN_1_1_SPIRV_1_4, SPV_ENV_UNIVERSAL_1_5,
            SPV_ENV_VULKAN_1_2, SPV_ENV_UNIVERSAL_1_6, SPV_ENV_VULKAN_1_3, SPV_ENV_VULKAN_1_4}
      then False
      else if env \<in> {SPV_ENV_OPENGL_4_0, SPV_ENV_OPENGL_4_1, SPV_ENV_OPENGL_4_2, SPV_ENV_OPENGL_4_3,
            SPV_ENV_OPENGL_4_5}
      then True
      else False)"

definition spvIsValidEnv :: "spv_target_env \<Rightarrow> bool" where
  "spvIsValidEnv env =
     (if env \<in> {SPV_ENV_UNIVERSAL_1_0, SPV_ENV_VULKAN_1_0, SPV_ENV_UNIVERSAL_1_1,
            SPV_ENV_UNIVERSAL_1_2, SPV_ENV_UNIVERSAL_1_3, SPV_ENV_VULKAN_1_1,
            SPV_ENV_OPENCL_1_2, SPV_ENV_OPENCL_EMBEDDED_1_2, SPV_ENV_OPENCL_2_0,
            SPV_ENV_OPENCL_EMBEDDED_2_0, SPV_ENV_OPENCL_EMBEDDED_2_1,
            SPV_ENV_OPENCL_EMBEDDED_2_2, SPV_ENV_OPENCL_2_1, SPV_ENV_OPENCL_2_2,
            SPV_ENV_UNIVERSAL_1_4, SPV_ENV_VULKAN_1_1_SPIRV_1_4, SPV_ENV_UNIVERSAL_1_5,
            SPV_ENV_VULKAN_1_2, SPV_ENV_UNIVERSAL_1_6, SPV_ENV_VULKAN_1_3, SPV_ENV_VULKAN_1_4,
            SPV_ENV_OPENGL_4_0, SPV_ENV_OPENGL_4_1, SPV_ENV_OPENGL_4_2, SPV_ENV_OPENGL_4_3,
            SPV_ENV_OPENGL_4_5}
      then True
      else False)"

definition spvLogStringForEnv :: "spv_target_env \<Rightarrow> string" where
  "spvLogStringForEnv env =
     (if env \<in> {SPV_ENV_OPENCL_1_2, SPV_ENV_OPENCL_2_0, SPV_ENV_OPENCL_2_1, SPV_ENV_OPENCL_2_2,
            SPV_ENV_OPENCL_EMBEDDED_1_2, SPV_ENV_OPENCL_EMBEDDED_2_0,
            SPV_ENV_OPENCL_EMBEDDED_2_1, SPV_ENV_OPENCL_EMBEDDED_2_2}
      then ''OpenCL''
      else if env \<in> {SPV_ENV_OPENGL_4_0, SPV_ENV_OPENGL_4_1, SPV_ENV_OPENGL_4_2, SPV_ENV_OPENGL_4_3,
            SPV_ENV_OPENGL_4_5}
      then ''OpenGL''
      else if env \<in> {SPV_ENV_VULKAN_1_0, SPV_ENV_VULKAN_1_1, SPV_ENV_VULKAN_1_1_SPIRV_1_4,
            SPV_ENV_VULKAN_1_2, SPV_ENV_VULKAN_1_3, SPV_ENV_VULKAN_1_4}
      then ''Vulkan''
      else if env \<in> {SPV_ENV_UNIVERSAL_1_0, SPV_ENV_UNIVERSAL_1_1, SPV_ENV_UNIVERSAL_1_2,
            SPV_ENV_UNIVERSAL_1_3, SPV_ENV_UNIVERSAL_1_4, SPV_ENV_UNIVERSAL_1_5,
            SPV_ENV_UNIVERSAL_1_6}
      then ''Universal''
      else ''Unknown'')"

section \<open>The list of names shown to the user\<close>

text \<open>
  \<open>max_line_len\<close> is a \<open>size_t\<close>: \<open>wrap - pad\<close> wraps around when the padding is the larger.
\<close>

fun spvTargetEnvList_loop ::
  "nat \<Rightarrow> nat \<Rightarrow> (string \<times> spv_target_env) list \<Rightarrow> uint64_t \<Rightarrow> string \<Rightarrow> string \<Rightarrow> string \<Rightarrow> string" where
  "spvTargetEnvList_loop pad wrap [] max_line_len ret line sep = ret @ line"
| "spvTargetEnvList_loop pad wrap (name_env # rest) max_line_len ret line sep =
     (let word = sep @ fst name_env
      in if word_of_nat (length line + length word) > max_line_len
         then spvTargetEnvList_loop pad wrap rest (word_of_nat wrap) (ret @ line @ [CHR 0x0A])
                (replicate pad (CHR '' '') @ word) ''|''
         else spvTargetEnvList_loop pad wrap rest max_line_len ret (line @ word) ''|'')"

definition spvTargetEnvList :: "nat \<Rightarrow> nat \<Rightarrow> string" where
  "spvTargetEnvList pad wrap =
     spvTargetEnvList_loop pad wrap spvTargetEnvNameMap
       (word_of_int (int wrap - int pad)) '''' '''' ''''"

section \<open>Lemmas: families and versions\<close>

lemmas env_simps = spvIsVulkanEnv_def spvIsOpenCLEnv_def spvIsOpenGLEnv_def spvIsValidEnv_def
  spvLogStringForEnv_def spvVersionForTargetEnv_def

lemma version_parts:
  "SPV_SPIRV_VERSION_MAJOR_PART (SPV_SPIRV_VERSION_WORD major minor) =
    ucast (word_of_nat major :: uint8_t)"
  "SPV_SPIRV_VERSION_MINOR_PART (SPV_SPIRV_VERSION_WORD major minor) =
    ucast (word_of_nat minor :: uint8_t)"
proof -
  have mask: "(0xff :: uint32_t) = mask 8" by (simp add: mask_eq_exp_minus_1)
  show "SPV_SPIRV_VERSION_MAJOR_PART (SPV_SPIRV_VERSION_WORD major minor) =
    ucast (word_of_nat major :: uint8_t)"
    by (rule bit_word_eqI) (auto simp: SPV_SPIRV_VERSION_MAJOR_PART_def
        SPV_SPIRV_VERSION_WORD_def mask bit_simps)
  show "SPV_SPIRV_VERSION_MINOR_PART (SPV_SPIRV_VERSION_WORD major minor) =
    ucast (word_of_nat minor :: uint8_t)"
    by (rule bit_word_eqI) (auto simp: SPV_SPIRV_VERSION_MINOR_PART_def
        SPV_SPIRV_VERSION_WORD_def mask bit_simps)
qed

section \<open>Lemmas: names\<close>

lemma match_name_prefix: "match_name (Some t) b \<longleftrightarrow> prefix b t"
  by (auto simp: match_name_def prefix_def) (metis append_take_drop_id)

lemma match_name_null [simp]: "\<not> match_name None b"
  by (simp add: match_name_def)

lemma parse_loop_longest:
  "\<lbrakk>sorted_wrt (\<lambda>x y. \<not> strict_prefix (fst x) (fst y)) m; distinct (map fst m); (n, e) \<in> set m;
    prefix n t; \<forall>(n', e') \<in> set m. prefix n' t \<longrightarrow> length n' \<le> length n\<rbrakk> \<Longrightarrow>
   spvParseTargetEnv_loop (Some t) m = (True, e)"
proof (induction m)
  case (Cons x m)
  show ?case
  proof (cases "prefix (fst x) t")
    case True
    then have le: "length (fst x) \<le> length n" using Cons.prems(5) by (cases x) simp
    then have pre: "prefix (fst x) n" using True Cons.prems(4) by (metis prefix_length_prefix)
    have "x = (n, e)"
    proof (rule ccontr)
      assume "x \<noteq> (n, e)"
      then have "(n, e) \<in> set m" using Cons.prems(3) by auto
      moreover from this have "n \<in> fst ` set m" by (metis fst_conv image_eqI)
      then have "fst x \<noteq> n" using Cons.prems(2) by auto
      ultimately show False using pre Cons.prems(1) by (auto simp: strict_prefix_def)
    qed
    with True show ?thesis by (simp add: match_name_prefix)
  next
    case False
    with Cons show ?thesis by (auto simp: match_name_prefix)
  qed
qed simp

lemma parse_loop_none:
  "spvParseTargetEnv_loop (Some t) m = (False, SPV_ENV_UNIVERSAL_1_0)"
  if "\<forall>(n, e) \<in> set m. \<not> prefix n t"
  using that by (induction m) (auto simp: match_name_prefix)

lemma name_map_ordered:
  "sorted_wrt (\<lambda>x y. \<not> strict_prefix (fst x) (fst y)) spvTargetEnvNameMap"
  "distinct (map fst spvTargetEnvNameMap)"
  by code_simp+

lemma parse_loop_result:
  "fst (spvParseTargetEnv_loop s m) = (\<exists>(n, e) \<in> set m. match_name s n)"
  "\<not> fst (spvParseTargetEnv_loop s m) \<Longrightarrow> snd (spvParseTargetEnv_loop s m) = SPV_ENV_UNIVERSAL_1_0"
  "spvParseTargetEnv_loop s m = (True, e) \<Longrightarrow> e \<in> snd ` set m"
  by (induction m) (auto split: if_splits)

lemma valid_named: "spvIsValidEnv e \<longleftrightarrow> e \<in> snd ` set spvTargetEnvNameMap"
  by (cases e; simp add: spvIsValidEnv_def spvTargetEnvNameMap_def)

text \<open>Every name of the table, given alone, is found under itself.\<close>

lemma parse_loop_named:
  "e \<in> snd ` set spvTargetEnvNameMap \<Longrightarrow>
    \<exists>n. spvParseTargetEnv_loop (Some n) spvTargetEnvNameMap = (True, e)"
  using parse_loop_longest [OF name_map_ordered] prefix_length_le by fastforce

section \<open>Lemmas: Vulkan versions\<close>

lemma parse_vulkan_first:
  assumes "sorted_wrt (\<lambda>e f. vulkan_ver e \<le> vulkan_ver f \<and> spirv_ver e \<le> spirv_ver f) es"
  shows "case spvParseVulkanEnv_loop es vk spv of
     None \<Rightarrow> \<forall>e \<in> set es. vulkan_ver e < vk \<or> spirv_ver e < spv
   | Some env \<Rightarrow> \<exists>e \<in> set es. vulkan_env e = env \<and> vk \<le> vulkan_ver e \<and> spv \<le> spirv_ver e \<and>
       (\<forall>f \<in> set es. vk \<le> vulkan_ver f \<and> spv \<le> spirv_ver f \<longrightarrow>
          vulkan_ver e \<le> vulkan_ver f \<and> spirv_ver e \<le> spirv_ver f)"
  using assms
proof (induction es)
  case (Cons e es)
  then show ?case
    by (cases "vk \<le> vulkan_ver e \<and> spv \<le> spirv_ver e") (auto simp: not_le split: option.splits)
qed simp

lemma vulkan_envs_sorted:
  "sorted_wrt (\<lambda>e f. vulkan_ver e \<le> vulkan_ver f \<and> spirv_ver e \<le> spirv_ver f) ordered_vulkan_envs"
  by code_simp

lemma vulkan_envs_versions:
  "\<forall>e \<in> set ordered_vulkan_envs. spirv_ver e = spvVersionForTargetEnv (vulkan_env e) \<and>
     spvIsVulkanEnv (vulkan_env e)"
  by code_simp

lemma ordered_universal_envs_length: "length ordered_universal_envs = 7"
  by (simp add: ordered_universal_envs_def)

lemma universal_env_version:
  "d < 7 \<Longrightarrow> spvVersionForTargetEnv (ordered_universal_envs ! d) = SPV_SPIRV_VERSION_WORD 1 d"
  by (auto simp: less_Suc_eq numeral_eq_Suc ordered_universal_envs_def spvVersionForTargetEnv_def)

section \<open>Lemmas: the version comment\<close>

lemma match_prefix_char:
  assumes "j \<le> kPrefixLength" "r = match_prefix text i j"
  shows "j \<le> r \<and> r \<le> kPrefixLength \<and> (\<forall>k. j \<le> k \<and> k < r \<longrightarrow> kVersionPrefix ! k = text ! (i + k)) \<and>
    (r < kPrefixLength \<longrightarrow> kVersionPrefix ! r \<noteq> text ! (i + r))"
  using assms
proof (induction "text" i j arbitrary: r rule: match_prefix.induct)
  case (1 t i j)
  show ?case
  proof (cases "j < kPrefixLength \<and> kVersionPrefix ! j = t ! (i + j)")
    case True
    then have r: "r = match_prefix t i (j + 1)" using "1.prems"(2) by (simp add: match_prefix.simps)
    from True r "1.IH" [of r] have ih: "j + 1 \<le> r" "r \<le> kPrefixLength"
      "\<forall>k. j + 1 \<le> k \<and> k < r \<longrightarrow> kVersionPrefix ! k = t ! (i + k)"
      "r < kPrefixLength \<longrightarrow> kVersionPrefix ! r \<noteq> t ! (i + r)"
      by auto
    have "kVersionPrefix ! k = t ! (i + k)" if "j \<le> k" "k < r" for k
      using that ih(3) True by (cases "k = j") auto
    with ih show ?thesis by auto
  next
    case False
    then have "r = j" using "1.prems"(2) by (auto simp: match_prefix.simps [of t i j])
    with False "1.prems"(1) show ?thesis by auto
  qed
qed

lemma skip_line_eq:
  assumes "i \<le> k" "k < length text" "text ! k = CHR 0x0A"
    and "\<forall>m. i \<le> m \<and> m < k \<longrightarrow> text ! m \<noteq> CHR 0x0A"
  shows "skip_line text i = k"
  using assms
proof (induction "text" i rule: skip_line.induct)
  case (1 t i)
  show ?case
    by (subst skip_line.simps) (use 1 in \<open>cases "i = k"; simp\<close>)
qed

lemma match_prefix_shift: "match_prefix (pre @ s) (length pre + i) j = match_prefix s i j"
proof (induction s i j rule: match_prefix.induct)
  case (1 s i j)
  then show ?case
    by (simp add: match_prefix.simps [of "pre @ s" _ j] match_prefix.simps [of s i j]
        nth_append add.assoc)
qed

lemma skip_line_shift: "skip_line (pre @ s) (length pre + i) = length pre + skip_line s i"
proof (induction s i rule: skip_line.induct)
  case (1 s i)
  then show ?case
    by (simp add: skip_line.simps [of "pre @ s"] skip_line.simps [of s i] nth_append)
qed

lemma version_of_line_shift: "version_of_line (pre @ s) (length pre + i) = version_of_line s i"
  by (simp add: version_of_line_def Let_def nth_append)

lemma read_at_comment:
  assumes "i + kPrefixLength < length text" "text ! i = CHR '';''" "match_prefix text i 1 = j"
  shows "spvReadEnvironment_loop text i =
    (case (if j = kPrefixLength then version_of_line text (i + kPrefixLength) else None) of
       Some env \<Rightarrow> Some env
     | None \<Rightarrow> spvReadEnvironment_loop text (skip_line text (i + j) + 1))"
  using assms by (subst spvReadEnvironment_loop.simps) (simp add: Let_def)

lemma read_elsewhere:
  assumes "\<not> (i + kPrefixLength < length text \<and> text ! i = CHR '';'')"
  shows "spvReadEnvironment_loop text i =
    (if i < length text \<and> text ! i \<noteq> CHR '';'' \<and> isspace (text ! i)
     then spvReadEnvironment_loop text (i + 1) else None)"
  using assms by (subst spvReadEnvironment_loop.simps) (auto simp: Let_def)

lemma read_loop_shift:
  "spvReadEnvironment_loop (pre @ s) (length pre + i) = spvReadEnvironment_loop s i"
proof (induction s i rule: spvReadEnvironment_loop.induct)
  case (1 s i)
  show ?case
  proof (cases "i + kPrefixLength < length s \<and> s ! i = CHR '';''")
    case True
    then have comment: "i + kPrefixLength < length s" "s ! i = CHR '';''" "i < length s"
      "length pre + i + kPrefixLength < length (pre @ s)" "(pre @ s) ! (length pre + i) = CHR '';''"
      by auto
    define j where "j = match_prefix s i 1"
    have j: "match_prefix s i 1 = j" "match_prefix (pre @ s) (length pre + i) 1 = j"
      by (simp_all only: j_def match_prefix_shift)
    have eqs: "version_of_line (pre @ s) (length pre + i + kPrefixLength) =
        version_of_line s (i + kPrefixLength)"
      "skip_line (pre @ s) (length pre + i + j) + 1 = length pre + (skip_line s (i + j) + 1)"
      by (simp_all only: add.assoc version_of_line_shift skip_line_shift)
    have "spvReadEnvironment_loop (pre @ s) (length pre + (skip_line s (i + j) + 1)) =
        spvReadEnvironment_loop s (skip_line s (i + j) + 1)"
      if "(if j = kPrefixLength then version_of_line s (i + kPrefixLength) else None) = None"
      using "1.IH"(1) [OF comment(3) refl comment(2) refl _ _ _] comment(1) that by (simp add: j_def)
    then show ?thesis
      unfolding read_at_comment [OF comment(1,2) j(1)] read_at_comment [OF comment(4,5) j(2)] eqs
      by (auto split: option.split)
  next
    case False
    then have "\<not> (length pre + i + kPrefixLength < length (pre @ s) \<and>
        (pre @ s) ! (length pre + i) = CHR '';'')"
      by auto
    with False 1 show ?thesis by (simp add: read_elsewhere)
  qed
qed

lemma read_loop_suffix: "spvReadEnvironment_loop (pre @ s) (length pre) = spvReadEnvironment_loop s 0"
  using read_loop_shift [of pre s 0] by simp

text \<open>A comment line that is not the version line is skipped.\<close>

lemma read_skips_comment:
  assumes body: "CHR 0x0A \<notin> set body" and other: "take 12 body \<noteq> tl kVersionPrefix"
    and long: "kPrefixLength \<le> length s"
  shows "spvReadEnvironment_loop ((CHR '';'' # body) @ CHR 0x0A # s) 0 = spvReadEnvironment_loop s 0"
proof -
  let ?t = "(CHR '';'' # body) @ CHR 0x0A # s"
  define j where "j = match_prefix ?t 0 1"
  have j: "1 \<le> j" "j \<le> kPrefixLength"
    "\<And>k. 1 \<le> k \<Longrightarrow> k < j \<Longrightarrow> kVersionPrefix ! k = ?t ! k"
    using match_prefix_char [of 1 j ?t 0] by (auto simp: j_def kPrefixLength_def)
  have len: "length kVersionPrefix = 13" by (simp add: kVersionPrefix_def)
  have no_nl: "CHR 0x0A \<notin> set kVersionPrefix" by (simp add: kVersionPrefix_def)
  have j_le: "j \<le> Suc (length body)"
  proof (rule ccontr)
    assume "\<not> j \<le> Suc (length body)"
    then have "kVersionPrefix ! Suc (length body) = CHR 0x0A" "Suc (length body) < 13"
      using j(2,3) by (auto simp: kPrefixLength_def nth_append)
    then show False using no_nl len nth_mem by metis
  qed
  have "j \<noteq> kPrefixLength"
  proof
    assume eq: "j = kPrefixLength"
    have "take 12 body = tl kVersionPrefix"
    proof (rule nth_equalityI)
      show "length (take 12 body) = length (tl kVersionPrefix)"
        using j_le eq len by (simp add: kPrefixLength_def)
      fix i assume "i < length (take 12 body)"
      then show "take 12 body ! i = tl kVersionPrefix ! i"
        using j(3) [of "Suc i"] eq len by (simp add: kPrefixLength_def nth_append nth_tl)
    qed
    with other show False by simp
  qed
  moreover have "skip_line ?t j = Suc (length body)"
    using body j(1) j_le by (intro skip_line_eq) (auto simp: nth_append nth_Cons' set_conv_nth)
  moreover have "spvReadEnvironment_loop ?t (Suc (length body) + 1) = spvReadEnvironment_loop s 0"
    using read_loop_suffix [of "(CHR '';'' # body) @ [CHR 0x0A]" s] by simp
  ultimately show ?thesis
    using long read_at_comment [of 0 ?t j, OF _ _ j_def [symmetric]] by simp
qed

lemma read_version_line:
  assumes "d < 7" "rest = [] \<or> \<not> isdigit (hd rest)"
  shows "spvReadEnvironment_loop (kVersionPrefix @ char_of (48 + d :: nat) # rest) 0 =
    Some (ordered_universal_envs ! d)"
proof -
  let ?t = "kVersionPrefix @ char_of (48 + d :: nat) # rest"
  have len: "length kVersionPrefix = 13" by (simp add: kVersionPrefix_def)
  define j where "j = match_prefix ?t 0 1"
  have "j = 13"
    using match_prefix_char [of 1 j ?t 0] len
    by (auto simp: j_def kPrefixLength_def nth_append le_less)
  moreover have "?t ! 0 = CHR '';''" by (simp add: kVersionPrefix_def)
  moreover have "of_char (char_of (48 + d :: nat) :: char) = 48 + d" using assms(1) by simp
  then have "version_of_line ?t 13 = Some (ordered_universal_envs ! d)"
    using assms len
    by (auto simp: version_of_line_def Let_def nth_append isdigit_def ordered_universal_envs_def
        hd_conv_nth)
  ultimately show ?thesis
    using len by (subst read_at_comment [where j = 13]) (simp_all add: j_def kPrefixLength_def)
qed

lemma read_header:
  assumes "d < 7" "rest = [] \<or> \<not> isdigit (hd rest)"
  shows "\<forall>body \<in> set bodies. CHR 0x0A \<notin> set body \<and> take 12 body \<noteq> tl kVersionPrefix \<Longrightarrow>
    spvReadEnvironment_loop (concat (map (\<lambda>body. CHR '';'' # body @ [CHR 0x0A]) bodies) @
      kVersionPrefix @ char_of (48 + d :: nat) # rest) 0 = Some (ordered_universal_envs ! d)"
proof (induction bodies)
  case Nil
  then show ?case using read_version_line [OF assms] by simp
next
  case (Cons body bodies)
  let ?s = "concat (map (\<lambda>body. CHR '';'' # body @ [CHR 0x0A]) bodies) @
      kVersionPrefix @ char_of (48 + d :: nat) # rest"
  have "kPrefixLength \<le> length ?s" by (simp add: kPrefixLength_def kVersionPrefix_def)
  then show ?case using Cons read_skips_comment [of body ?s] by simp
qed

section \<open>Properties\<close>

text \<open>\<open>spvParseTargetEnv\<close> chooses the longest name of the table that the given string starts
  with, although it takes the first match; with no such name it reports failure and the universal
  1.0 environment, and a null string always fails.\<close>

theorem spvParseTargetEnv_longest:
  assumes "(name, env) \<in> set spvTargetEnvNameMap" "prefix name s"
    and "\<forall>(n, e) \<in> set spvTargetEnvNameMap. prefix n s \<longrightarrow> length n \<le> length name"
  shows "spvParseTargetEnv (Some s) = (True, env)"
  using parse_loop_longest [OF name_map_ordered assms(1,2)] assms(3) by (simp add: spvParseTargetEnv_def)

theorem spvParseTargetEnv_longest_witness:
  "spvParseTargetEnv (Some ''vulkan1.1spv1.4-extra'') = (True, SPV_ENV_VULKAN_1_1_SPIRV_1_4)"
  by (rule spvParseTargetEnv_longest [of "''vulkan1.1spv1.4''"]; code_simp)

text \<open>An environment is valid exactly when some string names it successfully, and a string that
  starts with no name of the table, like a null pointer, yields failure and the universal 1.0
  environment.\<close>

theorem spvParseTargetEnv_complete:
  "spvIsValidEnv env = (\<exists>name. spvParseTargetEnv (Some name) = (True, env)) \<and>
   (\<not> fst (spvParseTargetEnv s) \<longrightarrow> snd (spvParseTargetEnv s) = SPV_ENV_UNIVERSAL_1_0) \<and>
   (fst (spvParseTargetEnv s) =
     (\<exists>t. s = Some t \<and> (\<exists>(name, e) \<in> set spvTargetEnvNameMap. prefix name t)))"
proof (intro conjI)
  show "spvIsValidEnv env = (\<exists>name. spvParseTargetEnv (Some name) = (True, env))"
    using parse_loop_named [of env] by (auto simp: valid_named spvParseTargetEnv_def parse_loop_result)
qed ((cases s; auto simp: spvParseTargetEnv_def parse_loop_result match_name_prefix)+)

theorem spvParseTargetEnv_complete_witness:
  "snd (spvParseTargetEnv None) = SPV_ENV_UNIVERSAL_1_0"
  using spvParseTargetEnv_complete [where s = None] by (simp add: spvParseTargetEnv_def)

text \<open>\<open>spvParseVulkanEnv\<close> returns an environment that supports the requested Vulkan and SPIR-V
  versions and is the least such: every environment of the table that supports both has at least
  its Vulkan version and its SPIR-V version. It fails exactly when no environment supports both.\<close>

theorem spvParseVulkanEnv_least:
  "case spvParseVulkanEnv vk spv of
     None \<Rightarrow> \<forall>e \<in> set ordered_vulkan_envs. vulkan_ver e < vk \<or> spirv_ver e < spv
   | Some env \<Rightarrow> \<exists>e \<in> set ordered_vulkan_envs. vulkan_env e = env \<and> vk \<le> vulkan_ver e \<and>
       spv \<le> spirv_ver e \<and> spirv_ver e = spvVersionForTargetEnv env \<and> spvIsVulkanEnv env \<and>
       (\<forall>f \<in> set ordered_vulkan_envs. vk \<le> vulkan_ver f \<and> spv \<le> spirv_ver f \<longrightarrow>
          vulkan_ver e \<le> vulkan_ver f \<and> spirv_ver e \<le> spirv_ver f)"
  using parse_vulkan_first [OF vulkan_envs_sorted, of vk spv] vulkan_envs_versions
  by (fastforce simp: spvParseVulkanEnv_def split: option.splits)

theorem spvParseVulkanEnv_least_witness:
  "case spvParseVulkanEnv (VULKAN_VER 1 1) (SPIRV_VER 1 4) of None \<Rightarrow> False
   | Some env \<Rightarrow> spvIsVulkanEnv env \<and> SPIRV_VER 1 4 \<le> spvVersionForTargetEnv env"
  using spvParseVulkanEnv_least [of "VULKAN_VER 1 1" "SPIRV_VER 1 4"]
  by (auto simp: ordered_vulkan_envs_def VULKAN_VER_def SPIRV_VER_def split: option.splits)

text \<open>Every environment is in exactly one family: universal, Vulkan, OpenCL, OpenGL, or not
  valid; the name used in logs is that of the family, and the SPIR-V version has major part 1 and
  minor part at most 6 for the valid ones and is 0.0 for the others.\<close>

theorem env_families:
  "spvLogStringForEnv env =
     (if spvIsVulkanEnv env then ''Vulkan'' else if spvIsOpenCLEnv env then ''OpenCL''
      else if spvIsOpenGLEnv env then ''OpenGL''
      else if spvIsValidEnv env then ''Universal'' else ''Unknown'') \<and>
   (if spvIsVulkanEnv env then 1 else 0) + (if spvIsOpenCLEnv env then 1 else 0) +
     (if spvIsOpenGLEnv env then 1 else 0) + (if env \<in> set ordered_universal_envs then 1 else 0) =
     (if spvIsValidEnv env then 1 else 0 :: nat) \<and>
   spvVersionForTargetEnv env \<in>
     (if spvIsValidEnv env then SPV_SPIRV_VERSION_WORD 1 ` {0, 1, 2, 3, 4, 5, 6}
      else {SPV_SPIRV_VERSION_WORD 0 0}) \<and>
   (spvTargetEnvDescription env = []) = (\<not> spvIsValidEnv env)"
  by (cases env; simp add: env_simps spvTargetEnvDescription_def ordered_universal_envs_def)

text \<open>In an assembly text whose header is any sequence of comment lines that do not carry a
  version, followed by a comment line with version \<open>1.d\<close> (\<open>d\<close> one of the seven known minor
  versions, followed by no further digit), \<open>spvReadEnvironmentFromText\<close> finds that version and
  returns the universal environment for it, whose SPIR-V version is \<open>1.d\<close>.\<close>

theorem spvReadEnvironment_header:
  assumes "d < 7" "rest = [] \<or> \<not> isdigit (hd rest)"
    and "\<forall>body \<in> set bodies. CHR 0x0A \<notin> set body \<and> take 12 body \<noteq> tl kVersionPrefix"
  shows "\<exists>env. spvReadEnvironmentFromText
      (concat (map (\<lambda>body. CHR '';'' # body @ [CHR 0x0A]) bodies) @
        kVersionPrefix @ char_of (48 + d :: nat) # rest) = Some env \<and>
      env \<in> set ordered_universal_envs \<and> spvVersionForTargetEnv env = SPV_SPIRV_VERSION_WORD 1 d"
  using read_header [OF assms(1,2,3)] universal_env_version [OF assms(1)] assms(1)
  by (simp add: spvReadEnvironmentFromText_def nth_mem ordered_universal_envs_length)

theorem spvReadEnvironment_header_witness:
  "\<exists>env. spvReadEnvironmentFromText
     (concat (map (\<lambda>body. CHR '';'' # body @ [CHR 0x0A]) ['' SPIR-V'']) @
        kVersionPrefix @ char_of (48 + 3 :: nat) # [CHR 0x0A]) = Some env \<and>
     env \<in> set ordered_universal_envs \<and> spvVersionForTargetEnv env = SPV_SPIRV_VERSION_WORD 1 3"
  by (rule spvReadEnvironment_header; code_simp)

end
