(* ===== verification/Spirv_Ops.thy ===== *)
theory Spirv_Ops
  imports Prelude
begin

text \<open>
  The opcodes of \<open>src/ShaderCompiler/include/spirv/unified1/spirv.hpp11\<close> that the modelled code
  names. \<open>enum class Op : unsigned\<close> holds every 32-bit value, named or not (the binary parser casts
  any half word to it), so it is a word and the enumerators are names of numbers.
\<close>

type_synonym Op = uint32_t

abbreviation (input) OpNop :: Op where "OpNop \<equiv> 0"
abbreviation (input) OpUndef :: Op where "OpUndef \<equiv> 1"
abbreviation (input) OpSourceContinued :: Op where "OpSourceContinued \<equiv> 2"
abbreviation (input) OpSource :: Op where "OpSource \<equiv> 3"
abbreviation (input) OpSourceExtension :: Op where "OpSourceExtension \<equiv> 4"
abbreviation (input) OpName :: Op where "OpName \<equiv> 5"
abbreviation (input) OpMemberName :: Op where "OpMemberName \<equiv> 6"
abbreviation (input) OpString :: Op where "OpString \<equiv> 7"
abbreviation (input) OpLine :: Op where "OpLine \<equiv> 8"
abbreviation (input) OpExtension :: Op where "OpExtension \<equiv> 10"
abbreviation (input) OpExtInstImport :: Op where "OpExtInstImport \<equiv> 11"
abbreviation (input) OpExtInst :: Op where "OpExtInst \<equiv> 12"
abbreviation (input) OpMemoryModel :: Op where "OpMemoryModel \<equiv> 14"
abbreviation (input) OpEntryPoint :: Op where "OpEntryPoint \<equiv> 15"
abbreviation (input) OpExecutionMode :: Op where "OpExecutionMode \<equiv> 16"
abbreviation (input) OpCapability :: Op where "OpCapability \<equiv> 17"
abbreviation (input) OpTypeVoid :: Op where "OpTypeVoid \<equiv> 19"
abbreviation (input) OpTypeBool :: Op where "OpTypeBool \<equiv> 20"
abbreviation (input) OpTypeInt :: Op where "OpTypeInt \<equiv> 21"
abbreviation (input) OpTypeFloat :: Op where "OpTypeFloat \<equiv> 22"
abbreviation (input) OpTypeVector :: Op where "OpTypeVector \<equiv> 23"
abbreviation (input) OpTypeMatrix :: Op where "OpTypeMatrix \<equiv> 24"
abbreviation (input) OpTypeImage :: Op where "OpTypeImage \<equiv> 25"
abbreviation (input) OpTypeSampler :: Op where "OpTypeSampler \<equiv> 26"
abbreviation (input) OpTypeSampledImage :: Op where "OpTypeSampledImage \<equiv> 27"
abbreviation (input) OpTypeArray :: Op where "OpTypeArray \<equiv> 28"
abbreviation (input) OpTypeRuntimeArray :: Op where "OpTypeRuntimeArray \<equiv> 29"
abbreviation (input) OpTypeStruct :: Op where "OpTypeStruct \<equiv> 30"
abbreviation (input) OpTypeOpaque :: Op where "OpTypeOpaque \<equiv> 31"
abbreviation (input) OpTypePointer :: Op where "OpTypePointer \<equiv> 32"
abbreviation (input) OpTypeFunction :: Op where "OpTypeFunction \<equiv> 33"
abbreviation (input) OpTypeEvent :: Op where "OpTypeEvent \<equiv> 34"
abbreviation (input) OpTypeDeviceEvent :: Op where "OpTypeDeviceEvent \<equiv> 35"
abbreviation (input) OpTypeReserveId :: Op where "OpTypeReserveId \<equiv> 36"
abbreviation (input) OpTypeQueue :: Op where "OpTypeQueue \<equiv> 37"
abbreviation (input) OpTypePipe :: Op where "OpTypePipe \<equiv> 38"
abbreviation (input) OpTypeForwardPointer :: Op where "OpTypeForwardPointer \<equiv> 39"
abbreviation (input) OpConstantTrue :: Op where "OpConstantTrue \<equiv> 41"
abbreviation (input) OpConstantFalse :: Op where "OpConstantFalse \<equiv> 42"
abbreviation (input) OpConstant :: Op where "OpConstant \<equiv> 43"
abbreviation (input) OpConstantComposite :: Op where "OpConstantComposite \<equiv> 44"
abbreviation (input) OpConstantSampler :: Op where "OpConstantSampler \<equiv> 45"
abbreviation (input) OpConstantNull :: Op where "OpConstantNull \<equiv> 46"
abbreviation (input) OpSpecConstantTrue :: Op where "OpSpecConstantTrue \<equiv> 48"
abbreviation (input) OpSpecConstantFalse :: Op where "OpSpecConstantFalse \<equiv> 49"
abbreviation (input) OpSpecConstant :: Op where "OpSpecConstant \<equiv> 50"
abbreviation (input) OpSpecConstantComposite :: Op where "OpSpecConstantComposite \<equiv> 51"
abbreviation (input) OpSpecConstantOp :: Op where "OpSpecConstantOp \<equiv> 52"
abbreviation (input) OpFunction :: Op where "OpFunction \<equiv> 54"
abbreviation (input) OpFunctionParameter :: Op where "OpFunctionParameter \<equiv> 55"
abbreviation (input) OpFunctionEnd :: Op where "OpFunctionEnd \<equiv> 56"
abbreviation (input) OpFunctionCall :: Op where "OpFunctionCall \<equiv> 57"
abbreviation (input) OpVariable :: Op where "OpVariable \<equiv> 59"
abbreviation (input) OpImageTexelPointer :: Op where "OpImageTexelPointer \<equiv> 60"
abbreviation (input) OpLoad :: Op where "OpLoad \<equiv> 61"
abbreviation (input) OpStore :: Op where "OpStore \<equiv> 62"
abbreviation (input) OpCopyMemory :: Op where "OpCopyMemory \<equiv> 63"
abbreviation (input) OpCopyMemorySized :: Op where "OpCopyMemorySized \<equiv> 64"
abbreviation (input) OpAccessChain :: Op where "OpAccessChain \<equiv> 65"
abbreviation (input) OpInBoundsAccessChain :: Op where "OpInBoundsAccessChain \<equiv> 66"
abbreviation (input) OpPtrAccessChain :: Op where "OpPtrAccessChain \<equiv> 67"
abbreviation (input) OpArrayLength :: Op where "OpArrayLength \<equiv> 68"
abbreviation (input) OpGenericPtrMemSemantics :: Op where "OpGenericPtrMemSemantics \<equiv> 69"
abbreviation (input) OpInBoundsPtrAccessChain :: Op where "OpInBoundsPtrAccessChain \<equiv> 70"
abbreviation (input) OpDecorate :: Op where "OpDecorate \<equiv> 71"
abbreviation (input) OpMemberDecorate :: Op where "OpMemberDecorate \<equiv> 72"
abbreviation (input) OpDecorationGroup :: Op where "OpDecorationGroup \<equiv> 73"
abbreviation (input) OpGroupDecorate :: Op where "OpGroupDecorate \<equiv> 74"
abbreviation (input) OpGroupMemberDecorate :: Op where "OpGroupMemberDecorate \<equiv> 75"
abbreviation (input) OpVectorExtractDynamic :: Op where "OpVectorExtractDynamic \<equiv> 77"
abbreviation (input) OpVectorInsertDynamic :: Op where "OpVectorInsertDynamic \<equiv> 78"
abbreviation (input) OpVectorShuffle :: Op where "OpVectorShuffle \<equiv> 79"
abbreviation (input) OpCompositeConstruct :: Op where "OpCompositeConstruct \<equiv> 80"
abbreviation (input) OpCompositeExtract :: Op where "OpCompositeExtract \<equiv> 81"
abbreviation (input) OpCompositeInsert :: Op where "OpCompositeInsert \<equiv> 82"
abbreviation (input) OpCopyObject :: Op where "OpCopyObject \<equiv> 83"
abbreviation (input) OpTranspose :: Op where "OpTranspose \<equiv> 84"
abbreviation (input) OpSampledImage :: Op where "OpSampledImage \<equiv> 86"
abbreviation (input) OpImageSampleImplicitLod :: Op where "OpImageSampleImplicitLod \<equiv> 87"
abbreviation (input) OpImageSampleExplicitLod :: Op where "OpImageSampleExplicitLod \<equiv> 88"
abbreviation (input) OpImageSampleDrefImplicitLod :: Op where "OpImageSampleDrefImplicitLod \<equiv> 89"
abbreviation (input) OpImageSampleDrefExplicitLod :: Op where "OpImageSampleDrefExplicitLod \<equiv> 90"
abbreviation (input) OpImageSampleProjImplicitLod :: Op where "OpImageSampleProjImplicitLod \<equiv> 91"
abbreviation (input) OpImageSampleProjExplicitLod :: Op where "OpImageSampleProjExplicitLod \<equiv> 92"
abbreviation (input) OpImageSampleProjDrefImplicitLod :: Op where "OpImageSampleProjDrefImplicitLod \<equiv> 93"
abbreviation (input) OpImageSampleProjDrefExplicitLod :: Op where "OpImageSampleProjDrefExplicitLod \<equiv> 94"
abbreviation (input) OpImageFetch :: Op where "OpImageFetch \<equiv> 95"
abbreviation (input) OpImageGather :: Op where "OpImageGather \<equiv> 96"
abbreviation (input) OpImageDrefGather :: Op where "OpImageDrefGather \<equiv> 97"
abbreviation (input) OpImageRead :: Op where "OpImageRead \<equiv> 98"
abbreviation (input) OpImageWrite :: Op where "OpImageWrite \<equiv> 99"
abbreviation (input) OpImage :: Op where "OpImage \<equiv> 100"
abbreviation (input) OpImageQueryFormat :: Op where "OpImageQueryFormat \<equiv> 101"
abbreviation (input) OpImageQueryOrder :: Op where "OpImageQueryOrder \<equiv> 102"
abbreviation (input) OpImageQuerySizeLod :: Op where "OpImageQuerySizeLod \<equiv> 103"
abbreviation (input) OpImageQuerySize :: Op where "OpImageQuerySize \<equiv> 104"
abbreviation (input) OpImageQueryLod :: Op where "OpImageQueryLod \<equiv> 105"
abbreviation (input) OpImageQueryLevels :: Op where "OpImageQueryLevels \<equiv> 106"
abbreviation (input) OpImageQuerySamples :: Op where "OpImageQuerySamples \<equiv> 107"
abbreviation (input) OpConvertFToU :: Op where "OpConvertFToU \<equiv> 109"
abbreviation (input) OpConvertFToS :: Op where "OpConvertFToS \<equiv> 110"
abbreviation (input) OpConvertSToF :: Op where "OpConvertSToF \<equiv> 111"
abbreviation (input) OpConvertUToF :: Op where "OpConvertUToF \<equiv> 112"
abbreviation (input) OpUConvert :: Op where "OpUConvert \<equiv> 113"
abbreviation (input) OpSConvert :: Op where "OpSConvert \<equiv> 114"
abbreviation (input) OpFConvert :: Op where "OpFConvert \<equiv> 115"
abbreviation (input) OpQuantizeToF16 :: Op where "OpQuantizeToF16 \<equiv> 116"
abbreviation (input) OpConvertPtrToU :: Op where "OpConvertPtrToU \<equiv> 117"
abbreviation (input) OpSatConvertSToU :: Op where "OpSatConvertSToU \<equiv> 118"
abbreviation (input) OpSatConvertUToS :: Op where "OpSatConvertUToS \<equiv> 119"
abbreviation (input) OpConvertUToPtr :: Op where "OpConvertUToPtr \<equiv> 120"
abbreviation (input) OpPtrCastToGeneric :: Op where "OpPtrCastToGeneric \<equiv> 121"
abbreviation (input) OpGenericCastToPtr :: Op where "OpGenericCastToPtr \<equiv> 122"
abbreviation (input) OpGenericCastToPtrExplicit :: Op where "OpGenericCastToPtrExplicit \<equiv> 123"
abbreviation (input) OpBitcast :: Op where "OpBitcast \<equiv> 124"
abbreviation (input) OpSNegate :: Op where "OpSNegate \<equiv> 126"
abbreviation (input) OpFNegate :: Op where "OpFNegate \<equiv> 127"
abbreviation (input) OpIAdd :: Op where "OpIAdd \<equiv> 128"
abbreviation (input) OpFAdd :: Op where "OpFAdd \<equiv> 129"
abbreviation (input) OpISub :: Op where "OpISub \<equiv> 130"
abbreviation (input) OpFSub :: Op where "OpFSub \<equiv> 131"
abbreviation (input) OpIMul :: Op where "OpIMul \<equiv> 132"
abbreviation (input) OpFMul :: Op where "OpFMul \<equiv> 133"
abbreviation (input) OpUDiv :: Op where "OpUDiv \<equiv> 134"
abbreviation (input) OpSDiv :: Op where "OpSDiv \<equiv> 135"
abbreviation (input) OpFDiv :: Op where "OpFDiv \<equiv> 136"
abbreviation (input) OpUMod :: Op where "OpUMod \<equiv> 137"
abbreviation (input) OpSRem :: Op where "OpSRem \<equiv> 138"
abbreviation (input) OpSMod :: Op where "OpSMod \<equiv> 139"
abbreviation (input) OpFRem :: Op where "OpFRem \<equiv> 140"
abbreviation (input) OpFMod :: Op where "OpFMod \<equiv> 141"
abbreviation (input) OpVectorTimesScalar :: Op where "OpVectorTimesScalar \<equiv> 142"
abbreviation (input) OpMatrixTimesScalar :: Op where "OpMatrixTimesScalar \<equiv> 143"
abbreviation (input) OpVectorTimesMatrix :: Op where "OpVectorTimesMatrix \<equiv> 144"
abbreviation (input) OpMatrixTimesVector :: Op where "OpMatrixTimesVector \<equiv> 145"
abbreviation (input) OpMatrixTimesMatrix :: Op where "OpMatrixTimesMatrix \<equiv> 146"
abbreviation (input) OpOuterProduct :: Op where "OpOuterProduct \<equiv> 147"
abbreviation (input) OpDot :: Op where "OpDot \<equiv> 148"
abbreviation (input) OpIAddCarry :: Op where "OpIAddCarry \<equiv> 149"
abbreviation (input) OpISubBorrow :: Op where "OpISubBorrow \<equiv> 150"
abbreviation (input) OpUMulExtended :: Op where "OpUMulExtended \<equiv> 151"
abbreviation (input) OpSMulExtended :: Op where "OpSMulExtended \<equiv> 152"
abbreviation (input) OpAny :: Op where "OpAny \<equiv> 154"
abbreviation (input) OpAll :: Op where "OpAll \<equiv> 155"
abbreviation (input) OpIsNan :: Op where "OpIsNan \<equiv> 156"
abbreviation (input) OpIsInf :: Op where "OpIsInf \<equiv> 157"
abbreviation (input) OpIsFinite :: Op where "OpIsFinite \<equiv> 158"
abbreviation (input) OpIsNormal :: Op where "OpIsNormal \<equiv> 159"
abbreviation (input) OpSignBitSet :: Op where "OpSignBitSet \<equiv> 160"
abbreviation (input) OpLessOrGreater :: Op where "OpLessOrGreater \<equiv> 161"
abbreviation (input) OpOrdered :: Op where "OpOrdered \<equiv> 162"
abbreviation (input) OpUnordered :: Op where "OpUnordered \<equiv> 163"
abbreviation (input) OpLogicalEqual :: Op where "OpLogicalEqual \<equiv> 164"
abbreviation (input) OpLogicalNotEqual :: Op where "OpLogicalNotEqual \<equiv> 165"
abbreviation (input) OpLogicalOr :: Op where "OpLogicalOr \<equiv> 166"
abbreviation (input) OpLogicalAnd :: Op where "OpLogicalAnd \<equiv> 167"
abbreviation (input) OpLogicalNot :: Op where "OpLogicalNot \<equiv> 168"
abbreviation (input) OpSelect :: Op where "OpSelect \<equiv> 169"
abbreviation (input) OpIEqual :: Op where "OpIEqual \<equiv> 170"
abbreviation (input) OpINotEqual :: Op where "OpINotEqual \<equiv> 171"
abbreviation (input) OpUGreaterThan :: Op where "OpUGreaterThan \<equiv> 172"
abbreviation (input) OpSGreaterThan :: Op where "OpSGreaterThan \<equiv> 173"
abbreviation (input) OpUGreaterThanEqual :: Op where "OpUGreaterThanEqual \<equiv> 174"
abbreviation (input) OpSGreaterThanEqual :: Op where "OpSGreaterThanEqual \<equiv> 175"
abbreviation (input) OpULessThan :: Op where "OpULessThan \<equiv> 176"
abbreviation (input) OpSLessThan :: Op where "OpSLessThan \<equiv> 177"
abbreviation (input) OpULessThanEqual :: Op where "OpULessThanEqual \<equiv> 178"
abbreviation (input) OpSLessThanEqual :: Op where "OpSLessThanEqual \<equiv> 179"
abbreviation (input) OpFOrdEqual :: Op where "OpFOrdEqual \<equiv> 180"
abbreviation (input) OpFUnordEqual :: Op where "OpFUnordEqual \<equiv> 181"
abbreviation (input) OpFOrdNotEqual :: Op where "OpFOrdNotEqual \<equiv> 182"
abbreviation (input) OpFUnordNotEqual :: Op where "OpFUnordNotEqual \<equiv> 183"
abbreviation (input) OpFOrdLessThan :: Op where "OpFOrdLessThan \<equiv> 184"
abbreviation (input) OpFUnordLessThan :: Op where "OpFUnordLessThan \<equiv> 185"
abbreviation (input) OpFOrdGreaterThan :: Op where "OpFOrdGreaterThan \<equiv> 186"
abbreviation (input) OpFUnordGreaterThan :: Op where "OpFUnordGreaterThan \<equiv> 187"
abbreviation (input) OpFOrdLessThanEqual :: Op where "OpFOrdLessThanEqual \<equiv> 188"
abbreviation (input) OpFUnordLessThanEqual :: Op where "OpFUnordLessThanEqual \<equiv> 189"
abbreviation (input) OpFOrdGreaterThanEqual :: Op where "OpFOrdGreaterThanEqual \<equiv> 190"
abbreviation (input) OpFUnordGreaterThanEqual :: Op where "OpFUnordGreaterThanEqual \<equiv> 191"
abbreviation (input) OpShiftRightLogical :: Op where "OpShiftRightLogical \<equiv> 194"
abbreviation (input) OpShiftRightArithmetic :: Op where "OpShiftRightArithmetic \<equiv> 195"
abbreviation (input) OpShiftLeftLogical :: Op where "OpShiftLeftLogical \<equiv> 196"
abbreviation (input) OpBitwiseOr :: Op where "OpBitwiseOr \<equiv> 197"
abbreviation (input) OpBitwiseXor :: Op where "OpBitwiseXor \<equiv> 198"
abbreviation (input) OpBitwiseAnd :: Op where "OpBitwiseAnd \<equiv> 199"
abbreviation (input) OpNot :: Op where "OpNot \<equiv> 200"
abbreviation (input) OpBitFieldInsert :: Op where "OpBitFieldInsert \<equiv> 201"
abbreviation (input) OpBitFieldSExtract :: Op where "OpBitFieldSExtract \<equiv> 202"
abbreviation (input) OpBitFieldUExtract :: Op where "OpBitFieldUExtract \<equiv> 203"
abbreviation (input) OpBitReverse :: Op where "OpBitReverse \<equiv> 204"
abbreviation (input) OpBitCount :: Op where "OpBitCount \<equiv> 205"
abbreviation (input) OpDPdx :: Op where "OpDPdx \<equiv> 207"
abbreviation (input) OpDPdy :: Op where "OpDPdy \<equiv> 208"
abbreviation (input) OpFwidth :: Op where "OpFwidth \<equiv> 209"
abbreviation (input) OpDPdxFine :: Op where "OpDPdxFine \<equiv> 210"
abbreviation (input) OpDPdyFine :: Op where "OpDPdyFine \<equiv> 211"
abbreviation (input) OpFwidthFine :: Op where "OpFwidthFine \<equiv> 212"
abbreviation (input) OpDPdxCoarse :: Op where "OpDPdxCoarse \<equiv> 213"
abbreviation (input) OpDPdyCoarse :: Op where "OpDPdyCoarse \<equiv> 214"
abbreviation (input) OpFwidthCoarse :: Op where "OpFwidthCoarse \<equiv> 215"
abbreviation (input) OpEmitVertex :: Op where "OpEmitVertex \<equiv> 218"
abbreviation (input) OpEndPrimitive :: Op where "OpEndPrimitive \<equiv> 219"
abbreviation (input) OpEmitStreamVertex :: Op where "OpEmitStreamVertex \<equiv> 220"
abbreviation (input) OpEndStreamPrimitive :: Op where "OpEndStreamPrimitive \<equiv> 221"
abbreviation (input) OpControlBarrier :: Op where "OpControlBarrier \<equiv> 224"
abbreviation (input) OpMemoryBarrier :: Op where "OpMemoryBarrier \<equiv> 225"
abbreviation (input) OpAtomicLoad :: Op where "OpAtomicLoad \<equiv> 227"
abbreviation (input) OpAtomicStore :: Op where "OpAtomicStore \<equiv> 228"
abbreviation (input) OpAtomicExchange :: Op where "OpAtomicExchange \<equiv> 229"
abbreviation (input) OpAtomicCompareExchange :: Op where "OpAtomicCompareExchange \<equiv> 230"
abbreviation (input) OpAtomicCompareExchangeWeak :: Op where "OpAtomicCompareExchangeWeak \<equiv> 231"
abbreviation (input) OpAtomicIIncrement :: Op where "OpAtomicIIncrement \<equiv> 232"
abbreviation (input) OpAtomicIDecrement :: Op where "OpAtomicIDecrement \<equiv> 233"
abbreviation (input) OpAtomicIAdd :: Op where "OpAtomicIAdd \<equiv> 234"
abbreviation (input) OpAtomicISub :: Op where "OpAtomicISub \<equiv> 235"
abbreviation (input) OpAtomicSMin :: Op where "OpAtomicSMin \<equiv> 236"
abbreviation (input) OpAtomicUMin :: Op where "OpAtomicUMin \<equiv> 237"
abbreviation (input) OpAtomicSMax :: Op where "OpAtomicSMax \<equiv> 238"
abbreviation (input) OpAtomicUMax :: Op where "OpAtomicUMax \<equiv> 239"
abbreviation (input) OpAtomicAnd :: Op where "OpAtomicAnd \<equiv> 240"
abbreviation (input) OpAtomicOr :: Op where "OpAtomicOr \<equiv> 241"
abbreviation (input) OpAtomicXor :: Op where "OpAtomicXor \<equiv> 242"
abbreviation (input) OpPhi :: Op where "OpPhi \<equiv> 245"
abbreviation (input) OpLoopMerge :: Op where "OpLoopMerge \<equiv> 246"
abbreviation (input) OpSelectionMerge :: Op where "OpSelectionMerge \<equiv> 247"
abbreviation (input) OpLabel :: Op where "OpLabel \<equiv> 248"
abbreviation (input) OpBranch :: Op where "OpBranch \<equiv> 249"
abbreviation (input) OpBranchConditional :: Op where "OpBranchConditional \<equiv> 250"
abbreviation (input) OpSwitch :: Op where "OpSwitch \<equiv> 251"
abbreviation (input) OpKill :: Op where "OpKill \<equiv> 252"
abbreviation (input) OpReturn :: Op where "OpReturn \<equiv> 253"
abbreviation (input) OpReturnValue :: Op where "OpReturnValue \<equiv> 254"
abbreviation (input) OpUnreachable :: Op where "OpUnreachable \<equiv> 255"
abbreviation (input) OpLifetimeStart :: Op where "OpLifetimeStart \<equiv> 256"
abbreviation (input) OpLifetimeStop :: Op where "OpLifetimeStop \<equiv> 257"
abbreviation (input) OpGroupAsyncCopy :: Op where "OpGroupAsyncCopy \<equiv> 259"
abbreviation (input) OpGroupWaitEvents :: Op where "OpGroupWaitEvents \<equiv> 260"
abbreviation (input) OpGroupAll :: Op where "OpGroupAll \<equiv> 261"
abbreviation (input) OpGroupAny :: Op where "OpGroupAny \<equiv> 262"
abbreviation (input) OpGroupBroadcast :: Op where "OpGroupBroadcast \<equiv> 263"
abbreviation (input) OpGroupIAdd :: Op where "OpGroupIAdd \<equiv> 264"
abbreviation (input) OpGroupFAdd :: Op where "OpGroupFAdd \<equiv> 265"
abbreviation (input) OpGroupFMin :: Op where "OpGroupFMin \<equiv> 266"
abbreviation (input) OpGroupUMin :: Op where "OpGroupUMin \<equiv> 267"
abbreviation (input) OpGroupSMin :: Op where "OpGroupSMin \<equiv> 268"
abbreviation (input) OpGroupFMax :: Op where "OpGroupFMax \<equiv> 269"
abbreviation (input) OpGroupUMax :: Op where "OpGroupUMax \<equiv> 270"
abbreviation (input) OpGroupSMax :: Op where "OpGroupSMax \<equiv> 271"
abbreviation (input) OpReadPipe :: Op where "OpReadPipe \<equiv> 274"
abbreviation (input) OpWritePipe :: Op where "OpWritePipe \<equiv> 275"
abbreviation (input) OpReservedReadPipe :: Op where "OpReservedReadPipe \<equiv> 276"
abbreviation (input) OpReservedWritePipe :: Op where "OpReservedWritePipe \<equiv> 277"
abbreviation (input) OpReserveReadPipePackets :: Op where "OpReserveReadPipePackets \<equiv> 278"
abbreviation (input) OpReserveWritePipePackets :: Op where "OpReserveWritePipePackets \<equiv> 279"
abbreviation (input) OpCommitReadPipe :: Op where "OpCommitReadPipe \<equiv> 280"
abbreviation (input) OpCommitWritePipe :: Op where "OpCommitWritePipe \<equiv> 281"
abbreviation (input) OpIsValidReserveId :: Op where "OpIsValidReserveId \<equiv> 282"
abbreviation (input) OpGetNumPipePackets :: Op where "OpGetNumPipePackets \<equiv> 283"
abbreviation (input) OpGetMaxPipePackets :: Op where "OpGetMaxPipePackets \<equiv> 284"
abbreviation (input) OpGroupReserveReadPipePackets :: Op where "OpGroupReserveReadPipePackets \<equiv> 285"
abbreviation (input) OpGroupReserveWritePipePackets :: Op where "OpGroupReserveWritePipePackets \<equiv> 286"
abbreviation (input) OpGroupCommitReadPipe :: Op where "OpGroupCommitReadPipe \<equiv> 287"
abbreviation (input) OpGroupCommitWritePipe :: Op where "OpGroupCommitWritePipe \<equiv> 288"
abbreviation (input) OpEnqueueMarker :: Op where "OpEnqueueMarker \<equiv> 291"
abbreviation (input) OpEnqueueKernel :: Op where "OpEnqueueKernel \<equiv> 292"
abbreviation (input) OpGetKernelNDrangeSubGroupCount :: Op where "OpGetKernelNDrangeSubGroupCount \<equiv> 293"
abbreviation (input) OpGetKernelNDrangeMaxSubGroupSize :: Op where "OpGetKernelNDrangeMaxSubGroupSize \<equiv> 294"
abbreviation (input) OpGetKernelWorkGroupSize :: Op where "OpGetKernelWorkGroupSize \<equiv> 295"
abbreviation (input) OpGetKernelPreferredWorkGroupSizeMultiple :: Op where "OpGetKernelPreferredWorkGroupSizeMultiple \<equiv> 296"
abbreviation (input) OpRetainEvent :: Op where "OpRetainEvent \<equiv> 297"
abbreviation (input) OpReleaseEvent :: Op where "OpReleaseEvent \<equiv> 298"
abbreviation (input) OpCreateUserEvent :: Op where "OpCreateUserEvent \<equiv> 299"
abbreviation (input) OpIsValidEvent :: Op where "OpIsValidEvent \<equiv> 300"
abbreviation (input) OpSetUserEventStatus :: Op where "OpSetUserEventStatus \<equiv> 301"
abbreviation (input) OpCaptureEventProfilingInfo :: Op where "OpCaptureEventProfilingInfo \<equiv> 302"
abbreviation (input) OpGetDefaultQueue :: Op where "OpGetDefaultQueue \<equiv> 303"
abbreviation (input) OpBuildNDRange :: Op where "OpBuildNDRange \<equiv> 304"
abbreviation (input) OpImageSparseSampleImplicitLod :: Op where "OpImageSparseSampleImplicitLod \<equiv> 305"
abbreviation (input) OpImageSparseSampleExplicitLod :: Op where "OpImageSparseSampleExplicitLod \<equiv> 306"
abbreviation (input) OpImageSparseSampleDrefImplicitLod :: Op where "OpImageSparseSampleDrefImplicitLod \<equiv> 307"
abbreviation (input) OpImageSparseSampleDrefExplicitLod :: Op where "OpImageSparseSampleDrefExplicitLod \<equiv> 308"
abbreviation (input) OpImageSparseSampleProjImplicitLod :: Op where "OpImageSparseSampleProjImplicitLod \<equiv> 309"
abbreviation (input) OpImageSparseSampleProjExplicitLod :: Op where "OpImageSparseSampleProjExplicitLod \<equiv> 310"
abbreviation (input) OpImageSparseSampleProjDrefImplicitLod :: Op where "OpImageSparseSampleProjDrefImplicitLod \<equiv> 311"
abbreviation (input) OpImageSparseSampleProjDrefExplicitLod :: Op where "OpImageSparseSampleProjDrefExplicitLod \<equiv> 312"
abbreviation (input) OpImageSparseFetch :: Op where "OpImageSparseFetch \<equiv> 313"
abbreviation (input) OpImageSparseGather :: Op where "OpImageSparseGather \<equiv> 314"
abbreviation (input) OpImageSparseDrefGather :: Op where "OpImageSparseDrefGather \<equiv> 315"
abbreviation (input) OpImageSparseTexelsResident :: Op where "OpImageSparseTexelsResident \<equiv> 316"
abbreviation (input) OpNoLine :: Op where "OpNoLine \<equiv> 317"
abbreviation (input) OpAtomicFlagTestAndSet :: Op where "OpAtomicFlagTestAndSet \<equiv> 318"
abbreviation (input) OpAtomicFlagClear :: Op where "OpAtomicFlagClear \<equiv> 319"
abbreviation (input) OpImageSparseRead :: Op where "OpImageSparseRead \<equiv> 320"
abbreviation (input) OpSizeOf :: Op where "OpSizeOf \<equiv> 321"
abbreviation (input) OpTypePipeStorage :: Op where "OpTypePipeStorage \<equiv> 322"
abbreviation (input) OpConstantPipeStorage :: Op where "OpConstantPipeStorage \<equiv> 323"
abbreviation (input) OpCreatePipeFromPipeStorage :: Op where "OpCreatePipeFromPipeStorage \<equiv> 324"
abbreviation (input) OpGetKernelLocalSizeForSubgroupCount :: Op where "OpGetKernelLocalSizeForSubgroupCount \<equiv> 325"
abbreviation (input) OpGetKernelMaxNumSubgroups :: Op where "OpGetKernelMaxNumSubgroups \<equiv> 326"
abbreviation (input) OpTypeNamedBarrier :: Op where "OpTypeNamedBarrier \<equiv> 327"
abbreviation (input) OpNamedBarrierInitialize :: Op where "OpNamedBarrierInitialize \<equiv> 328"
abbreviation (input) OpMemoryNamedBarrier :: Op where "OpMemoryNamedBarrier \<equiv> 329"
abbreviation (input) OpModuleProcessed :: Op where "OpModuleProcessed \<equiv> 330"
abbreviation (input) OpExecutionModeId :: Op where "OpExecutionModeId \<equiv> 331"
abbreviation (input) OpDecorateId :: Op where "OpDecorateId \<equiv> 332"
abbreviation (input) OpGroupNonUniformElect :: Op where "OpGroupNonUniformElect \<equiv> 333"
abbreviation (input) OpGroupNonUniformAll :: Op where "OpGroupNonUniformAll \<equiv> 334"
abbreviation (input) OpGroupNonUniformAny :: Op where "OpGroupNonUniformAny \<equiv> 335"
abbreviation (input) OpGroupNonUniformAllEqual :: Op where "OpGroupNonUniformAllEqual \<equiv> 336"
abbreviation (input) OpGroupNonUniformBroadcast :: Op where "OpGroupNonUniformBroadcast \<equiv> 337"
abbreviation (input) OpGroupNonUniformBroadcastFirst :: Op where "OpGroupNonUniformBroadcastFirst \<equiv> 338"
abbreviation (input) OpGroupNonUniformBallot :: Op where "OpGroupNonUniformBallot \<equiv> 339"
abbreviation (input) OpGroupNonUniformInverseBallot :: Op where "OpGroupNonUniformInverseBallot \<equiv> 340"
abbreviation (input) OpGroupNonUniformBallotBitExtract :: Op where "OpGroupNonUniformBallotBitExtract \<equiv> 341"
abbreviation (input) OpGroupNonUniformBallotBitCount :: Op where "OpGroupNonUniformBallotBitCount \<equiv> 342"
abbreviation (input) OpGroupNonUniformBallotFindLSB :: Op where "OpGroupNonUniformBallotFindLSB \<equiv> 343"
abbreviation (input) OpGroupNonUniformBallotFindMSB :: Op where "OpGroupNonUniformBallotFindMSB \<equiv> 344"
abbreviation (input) OpGroupNonUniformShuffle :: Op where "OpGroupNonUniformShuffle \<equiv> 345"
abbreviation (input) OpGroupNonUniformShuffleXor :: Op where "OpGroupNonUniformShuffleXor \<equiv> 346"
abbreviation (input) OpGroupNonUniformShuffleUp :: Op where "OpGroupNonUniformShuffleUp \<equiv> 347"
abbreviation (input) OpGroupNonUniformShuffleDown :: Op where "OpGroupNonUniformShuffleDown \<equiv> 348"
abbreviation (input) OpGroupNonUniformIAdd :: Op where "OpGroupNonUniformIAdd \<equiv> 349"
abbreviation (input) OpGroupNonUniformFAdd :: Op where "OpGroupNonUniformFAdd \<equiv> 350"
abbreviation (input) OpGroupNonUniformIMul :: Op where "OpGroupNonUniformIMul \<equiv> 351"
abbreviation (input) OpGroupNonUniformFMul :: Op where "OpGroupNonUniformFMul \<equiv> 352"
abbreviation (input) OpGroupNonUniformSMin :: Op where "OpGroupNonUniformSMin \<equiv> 353"
abbreviation (input) OpGroupNonUniformUMin :: Op where "OpGroupNonUniformUMin \<equiv> 354"
abbreviation (input) OpGroupNonUniformFMin :: Op where "OpGroupNonUniformFMin \<equiv> 355"
abbreviation (input) OpGroupNonUniformSMax :: Op where "OpGroupNonUniformSMax \<equiv> 356"
abbreviation (input) OpGroupNonUniformUMax :: Op where "OpGroupNonUniformUMax \<equiv> 357"
abbreviation (input) OpGroupNonUniformFMax :: Op where "OpGroupNonUniformFMax \<equiv> 358"
abbreviation (input) OpGroupNonUniformBitwiseAnd :: Op where "OpGroupNonUniformBitwiseAnd \<equiv> 359"
abbreviation (input) OpGroupNonUniformBitwiseOr :: Op where "OpGroupNonUniformBitwiseOr \<equiv> 360"
abbreviation (input) OpGroupNonUniformBitwiseXor :: Op where "OpGroupNonUniformBitwiseXor \<equiv> 361"
abbreviation (input) OpGroupNonUniformLogicalAnd :: Op where "OpGroupNonUniformLogicalAnd \<equiv> 362"
abbreviation (input) OpGroupNonUniformLogicalOr :: Op where "OpGroupNonUniformLogicalOr \<equiv> 363"
abbreviation (input) OpGroupNonUniformLogicalXor :: Op where "OpGroupNonUniformLogicalXor \<equiv> 364"
abbreviation (input) OpGroupNonUniformQuadBroadcast :: Op where "OpGroupNonUniformQuadBroadcast \<equiv> 365"
abbreviation (input) OpGroupNonUniformQuadSwap :: Op where "OpGroupNonUniformQuadSwap \<equiv> 366"
abbreviation (input) OpCopyLogical :: Op where "OpCopyLogical \<equiv> 400"
abbreviation (input) OpPtrEqual :: Op where "OpPtrEqual \<equiv> 401"
abbreviation (input) OpPtrNotEqual :: Op where "OpPtrNotEqual \<equiv> 402"
abbreviation (input) OpPtrDiff :: Op where "OpPtrDiff \<equiv> 403"
abbreviation (input) OpColorAttachmentReadEXT :: Op where "OpColorAttachmentReadEXT \<equiv> 4160"
abbreviation (input) OpDepthAttachmentReadEXT :: Op where "OpDepthAttachmentReadEXT \<equiv> 4161"
abbreviation (input) OpStencilAttachmentReadEXT :: Op where "OpStencilAttachmentReadEXT \<equiv> 4162"
abbreviation (input) OpTypeTensorARM :: Op where "OpTypeTensorARM \<equiv> 4163"
abbreviation (input) OpTensorReadARM :: Op where "OpTensorReadARM \<equiv> 4164"
abbreviation (input) OpTensorWriteARM :: Op where "OpTensorWriteARM \<equiv> 4165"
abbreviation (input) OpTensorQuerySizeARM :: Op where "OpTensorQuerySizeARM \<equiv> 4166"
abbreviation (input) OpGraphConstantARM :: Op where "OpGraphConstantARM \<equiv> 4181"
abbreviation (input) OpGraphEntryPointARM :: Op where "OpGraphEntryPointARM \<equiv> 4182"
abbreviation (input) OpGraphARM :: Op where "OpGraphARM \<equiv> 4183"
abbreviation (input) OpGraphInputARM :: Op where "OpGraphInputARM \<equiv> 4184"
abbreviation (input) OpGraphSetOutputARM :: Op where "OpGraphSetOutputARM \<equiv> 4185"
abbreviation (input) OpGraphEndARM :: Op where "OpGraphEndARM \<equiv> 4186"
abbreviation (input) OpTypeGraphARM :: Op where "OpTypeGraphARM \<equiv> 4190"
abbreviation (input) OpTerminateInvocation :: Op where "OpTerminateInvocation \<equiv> 4416"
abbreviation (input) OpTypeUntypedPointerKHR :: Op where "OpTypeUntypedPointerKHR \<equiv> 4417"
abbreviation (input) OpUntypedVariableKHR :: Op where "OpUntypedVariableKHR \<equiv> 4418"
abbreviation (input) OpUntypedAccessChainKHR :: Op where "OpUntypedAccessChainKHR \<equiv> 4419"
abbreviation (input) OpUntypedInBoundsAccessChainKHR :: Op where "OpUntypedInBoundsAccessChainKHR \<equiv> 4420"
abbreviation (input) OpSubgroupBallotKHR :: Op where "OpSubgroupBallotKHR \<equiv> 4421"
abbreviation (input) OpSubgroupFirstInvocationKHR :: Op where "OpSubgroupFirstInvocationKHR \<equiv> 4422"
abbreviation (input) OpUntypedPtrAccessChainKHR :: Op where "OpUntypedPtrAccessChainKHR \<equiv> 4423"
abbreviation (input) OpUntypedInBoundsPtrAccessChainKHR :: Op where "OpUntypedInBoundsPtrAccessChainKHR \<equiv> 4424"
abbreviation (input) OpUntypedArrayLengthKHR :: Op where "OpUntypedArrayLengthKHR \<equiv> 4425"
abbreviation (input) OpUntypedPrefetchKHR :: Op where "OpUntypedPrefetchKHR \<equiv> 4426"
abbreviation (input) OpSubgroupAllKHR :: Op where "OpSubgroupAllKHR \<equiv> 4428"
abbreviation (input) OpSubgroupAnyKHR :: Op where "OpSubgroupAnyKHR \<equiv> 4429"
abbreviation (input) OpSubgroupAllEqualKHR :: Op where "OpSubgroupAllEqualKHR \<equiv> 4430"
abbreviation (input) OpGroupNonUniformRotateKHR :: Op where "OpGroupNonUniformRotateKHR \<equiv> 4431"
abbreviation (input) OpSubgroupReadInvocationKHR :: Op where "OpSubgroupReadInvocationKHR \<equiv> 4432"
abbreviation (input) OpExtInstWithForwardRefsKHR :: Op where "OpExtInstWithForwardRefsKHR \<equiv> 4433"
abbreviation (input) OpTraceRayKHR :: Op where "OpTraceRayKHR \<equiv> 4445"
abbreviation (input) OpExecuteCallableKHR :: Op where "OpExecuteCallableKHR \<equiv> 4446"
abbreviation (input) OpConvertUToAccelerationStructureKHR :: Op where "OpConvertUToAccelerationStructureKHR \<equiv> 4447"
abbreviation (input) OpIgnoreIntersectionKHR :: Op where "OpIgnoreIntersectionKHR \<equiv> 4448"
abbreviation (input) OpTerminateRayKHR :: Op where "OpTerminateRayKHR \<equiv> 4449"
abbreviation (input) OpSDot :: Op where "OpSDot \<equiv> 4450"
abbreviation (input) OpUDot :: Op where "OpUDot \<equiv> 4451"
abbreviation (input) OpSUDot :: Op where "OpSUDot \<equiv> 4452"
abbreviation (input) OpSDotAccSat :: Op where "OpSDotAccSat \<equiv> 4453"
abbreviation (input) OpUDotAccSat :: Op where "OpUDotAccSat \<equiv> 4454"
abbreviation (input) OpSUDotAccSat :: Op where "OpSUDotAccSat \<equiv> 4455"
abbreviation (input) OpTypeCooperativeMatrixKHR :: Op where "OpTypeCooperativeMatrixKHR \<equiv> 4456"
abbreviation (input) OpCooperativeMatrixLoadKHR :: Op where "OpCooperativeMatrixLoadKHR \<equiv> 4457"
abbreviation (input) OpCooperativeMatrixStoreKHR :: Op where "OpCooperativeMatrixStoreKHR \<equiv> 4458"
abbreviation (input) OpCooperativeMatrixMulAddKHR :: Op where "OpCooperativeMatrixMulAddKHR \<equiv> 4459"
abbreviation (input) OpCooperativeMatrixLengthKHR :: Op where "OpCooperativeMatrixLengthKHR \<equiv> 4460"
abbreviation (input) OpConstantCompositeReplicateEXT :: Op where "OpConstantCompositeReplicateEXT \<equiv> 4461"
abbreviation (input) OpSpecConstantCompositeReplicateEXT :: Op where "OpSpecConstantCompositeReplicateEXT \<equiv> 4462"
abbreviation (input) OpCompositeConstructReplicateEXT :: Op where "OpCompositeConstructReplicateEXT \<equiv> 4463"
abbreviation (input) OpTypeRayQueryKHR :: Op where "OpTypeRayQueryKHR \<equiv> 4472"
abbreviation (input) OpRayQueryInitializeKHR :: Op where "OpRayQueryInitializeKHR \<equiv> 4473"
abbreviation (input) OpRayQueryTerminateKHR :: Op where "OpRayQueryTerminateKHR \<equiv> 4474"
abbreviation (input) OpRayQueryGenerateIntersectionKHR :: Op where "OpRayQueryGenerateIntersectionKHR \<equiv> 4475"
abbreviation (input) OpRayQueryConfirmIntersectionKHR :: Op where "OpRayQueryConfirmIntersectionKHR \<equiv> 4476"
abbreviation (input) OpRayQueryProceedKHR :: Op where "OpRayQueryProceedKHR \<equiv> 4477"
abbreviation (input) OpRayQueryGetIntersectionTypeKHR :: Op where "OpRayQueryGetIntersectionTypeKHR \<equiv> 4479"
abbreviation (input) OpImageSampleWeightedQCOM :: Op where "OpImageSampleWeightedQCOM \<equiv> 4480"
abbreviation (input) OpImageBoxFilterQCOM :: Op where "OpImageBoxFilterQCOM \<equiv> 4481"
abbreviation (input) OpImageBlockMatchSSDQCOM :: Op where "OpImageBlockMatchSSDQCOM \<equiv> 4482"
abbreviation (input) OpImageBlockMatchSADQCOM :: Op where "OpImageBlockMatchSADQCOM \<equiv> 4483"
abbreviation (input) OpImageBlockMatchWindowSSDQCOM :: Op where "OpImageBlockMatchWindowSSDQCOM \<equiv> 4500"
abbreviation (input) OpImageBlockMatchWindowSADQCOM :: Op where "OpImageBlockMatchWindowSADQCOM \<equiv> 4501"
abbreviation (input) OpImageBlockMatchGatherSSDQCOM :: Op where "OpImageBlockMatchGatherSSDQCOM \<equiv> 4502"
abbreviation (input) OpImageBlockMatchGatherSADQCOM :: Op where "OpImageBlockMatchGatherSADQCOM \<equiv> 4503"
abbreviation (input) OpGroupIAddNonUniformAMD :: Op where "OpGroupIAddNonUniformAMD \<equiv> 5000"
abbreviation (input) OpGroupFAddNonUniformAMD :: Op where "OpGroupFAddNonUniformAMD \<equiv> 5001"
abbreviation (input) OpGroupFMinNonUniformAMD :: Op where "OpGroupFMinNonUniformAMD \<equiv> 5002"
abbreviation (input) OpGroupUMinNonUniformAMD :: Op where "OpGroupUMinNonUniformAMD \<equiv> 5003"
abbreviation (input) OpGroupSMinNonUniformAMD :: Op where "OpGroupSMinNonUniformAMD \<equiv> 5004"
abbreviation (input) OpGroupFMaxNonUniformAMD :: Op where "OpGroupFMaxNonUniformAMD \<equiv> 5005"
abbreviation (input) OpGroupUMaxNonUniformAMD :: Op where "OpGroupUMaxNonUniformAMD \<equiv> 5006"
abbreviation (input) OpGroupSMaxNonUniformAMD :: Op where "OpGroupSMaxNonUniformAMD \<equiv> 5007"
abbreviation (input) OpFragmentMaskFetchAMD :: Op where "OpFragmentMaskFetchAMD \<equiv> 5011"
abbreviation (input) OpFragmentFetchAMD :: Op where "OpFragmentFetchAMD \<equiv> 5012"
abbreviation (input) OpReadClockKHR :: Op where "OpReadClockKHR \<equiv> 5056"
abbreviation (input) OpAllocateNodePayloadsAMDX :: Op where "OpAllocateNodePayloadsAMDX \<equiv> 5074"
abbreviation (input) OpEnqueueNodePayloadsAMDX :: Op where "OpEnqueueNodePayloadsAMDX \<equiv> 5075"
abbreviation (input) OpTypeNodePayloadArrayAMDX :: Op where "OpTypeNodePayloadArrayAMDX \<equiv> 5076"
abbreviation (input) OpFinishWritingNodePayloadAMDX :: Op where "OpFinishWritingNodePayloadAMDX \<equiv> 5078"
abbreviation (input) OpNodePayloadArrayLengthAMDX :: Op where "OpNodePayloadArrayLengthAMDX \<equiv> 5090"
abbreviation (input) OpIsNodePayloadValidAMDX :: Op where "OpIsNodePayloadValidAMDX \<equiv> 5101"
abbreviation (input) OpConstantStringAMDX :: Op where "OpConstantStringAMDX \<equiv> 5103"
abbreviation (input) OpSpecConstantStringAMDX :: Op where "OpSpecConstantStringAMDX \<equiv> 5104"
abbreviation (input) OpGroupNonUniformQuadAllKHR :: Op where "OpGroupNonUniformQuadAllKHR \<equiv> 5110"
abbreviation (input) OpGroupNonUniformQuadAnyKHR :: Op where "OpGroupNonUniformQuadAnyKHR \<equiv> 5111"
abbreviation (input) OpHitObjectRecordHitMotionNV :: Op where "OpHitObjectRecordHitMotionNV \<equiv> 5249"
abbreviation (input) OpHitObjectRecordHitWithIndexMotionNV :: Op where "OpHitObjectRecordHitWithIndexMotionNV \<equiv> 5250"
abbreviation (input) OpHitObjectRecordMissMotionNV :: Op where "OpHitObjectRecordMissMotionNV \<equiv> 5251"
abbreviation (input) OpHitObjectGetWorldToObjectNV :: Op where "OpHitObjectGetWorldToObjectNV \<equiv> 5252"
abbreviation (input) OpHitObjectGetObjectToWorldNV :: Op where "OpHitObjectGetObjectToWorldNV \<equiv> 5253"
abbreviation (input) OpHitObjectGetObjectRayDirectionNV :: Op where "OpHitObjectGetObjectRayDirectionNV \<equiv> 5254"
abbreviation (input) OpHitObjectGetObjectRayOriginNV :: Op where "OpHitObjectGetObjectRayOriginNV \<equiv> 5255"
abbreviation (input) OpHitObjectTraceRayMotionNV :: Op where "OpHitObjectTraceRayMotionNV \<equiv> 5256"
abbreviation (input) OpHitObjectGetShaderRecordBufferHandleNV :: Op where "OpHitObjectGetShaderRecordBufferHandleNV \<equiv> 5257"
abbreviation (input) OpHitObjectGetShaderBindingTableRecordIndexNV :: Op where "OpHitObjectGetShaderBindingTableRecordIndexNV \<equiv> 5258"
abbreviation (input) OpHitObjectRecordEmptyNV :: Op where "OpHitObjectRecordEmptyNV \<equiv> 5259"
abbreviation (input) OpHitObjectTraceRayNV :: Op where "OpHitObjectTraceRayNV \<equiv> 5260"
abbreviation (input) OpHitObjectRecordHitNV :: Op where "OpHitObjectRecordHitNV \<equiv> 5261"
abbreviation (input) OpHitObjectRecordHitWithIndexNV :: Op where "OpHitObjectRecordHitWithIndexNV \<equiv> 5262"
abbreviation (input) OpHitObjectRecordMissNV :: Op where "OpHitObjectRecordMissNV \<equiv> 5263"
abbreviation (input) OpHitObjectExecuteShaderNV :: Op where "OpHitObjectExecuteShaderNV \<equiv> 5264"
abbreviation (input) OpHitObjectGetCurrentTimeNV :: Op where "OpHitObjectGetCurrentTimeNV \<equiv> 5265"
abbreviation (input) OpHitObjectGetAttributesNV :: Op where "OpHitObjectGetAttributesNV \<equiv> 5266"
abbreviation (input) OpHitObjectGetHitKindNV :: Op where "OpHitObjectGetHitKindNV \<equiv> 5267"
abbreviation (input) OpHitObjectGetPrimitiveIndexNV :: Op where "OpHitObjectGetPrimitiveIndexNV \<equiv> 5268"
abbreviation (input) OpHitObjectGetGeometryIndexNV :: Op where "OpHitObjectGetGeometryIndexNV \<equiv> 5269"
abbreviation (input) OpHitObjectGetInstanceIdNV :: Op where "OpHitObjectGetInstanceIdNV \<equiv> 5270"
abbreviation (input) OpHitObjectGetInstanceCustomIndexNV :: Op where "OpHitObjectGetInstanceCustomIndexNV \<equiv> 5271"
abbreviation (input) OpHitObjectGetWorldRayDirectionNV :: Op where "OpHitObjectGetWorldRayDirectionNV \<equiv> 5272"
abbreviation (input) OpHitObjectGetWorldRayOriginNV :: Op where "OpHitObjectGetWorldRayOriginNV \<equiv> 5273"
abbreviation (input) OpHitObjectGetRayTMaxNV :: Op where "OpHitObjectGetRayTMaxNV \<equiv> 5274"
abbreviation (input) OpHitObjectGetRayTMinNV :: Op where "OpHitObjectGetRayTMinNV \<equiv> 5275"
abbreviation (input) OpHitObjectIsEmptyNV :: Op where "OpHitObjectIsEmptyNV \<equiv> 5276"
abbreviation (input) OpHitObjectIsHitNV :: Op where "OpHitObjectIsHitNV \<equiv> 5277"
abbreviation (input) OpHitObjectIsMissNV :: Op where "OpHitObjectIsMissNV \<equiv> 5278"
abbreviation (input) OpReorderThreadWithHitObjectNV :: Op where "OpReorderThreadWithHitObjectNV \<equiv> 5279"
abbreviation (input) OpReorderThreadWithHintNV :: Op where "OpReorderThreadWithHintNV \<equiv> 5280"
abbreviation (input) OpTypeHitObjectNV :: Op where "OpTypeHitObjectNV \<equiv> 5281"
abbreviation (input) OpImageSampleFootprintNV :: Op where "OpImageSampleFootprintNV \<equiv> 5283"
abbreviation (input) OpTypeCooperativeVectorNV :: Op where "OpTypeCooperativeVectorNV \<equiv> 5288"
abbreviation (input) OpCooperativeVectorMatrixMulNV :: Op where "OpCooperativeVectorMatrixMulNV \<equiv> 5289"
abbreviation (input) OpCooperativeVectorOuterProductAccumulateNV :: Op where "OpCooperativeVectorOuterProductAccumulateNV \<equiv> 5290"
abbreviation (input) OpCooperativeVectorReduceSumAccumulateNV :: Op where "OpCooperativeVectorReduceSumAccumulateNV \<equiv> 5291"
abbreviation (input) OpCooperativeVectorMatrixMulAddNV :: Op where "OpCooperativeVectorMatrixMulAddNV \<equiv> 5292"
abbreviation (input) OpCooperativeMatrixConvertNV :: Op where "OpCooperativeMatrixConvertNV \<equiv> 5293"
abbreviation (input) OpEmitMeshTasksEXT :: Op where "OpEmitMeshTasksEXT \<equiv> 5294"
abbreviation (input) OpSetMeshOutputsEXT :: Op where "OpSetMeshOutputsEXT \<equiv> 5295"
abbreviation (input) OpGroupNonUniformPartitionNV :: Op where "OpGroupNonUniformPartitionNV \<equiv> 5296"
abbreviation (input) OpWritePackedPrimitiveIndices4x8NV :: Op where "OpWritePackedPrimitiveIndices4x8NV \<equiv> 5299"
abbreviation (input) OpFetchMicroTriangleVertexPositionNV :: Op where "OpFetchMicroTriangleVertexPositionNV \<equiv> 5300"
abbreviation (input) OpFetchMicroTriangleVertexBarycentricNV :: Op where "OpFetchMicroTriangleVertexBarycentricNV \<equiv> 5301"
abbreviation (input) OpCooperativeVectorLoadNV :: Op where "OpCooperativeVectorLoadNV \<equiv> 5302"
abbreviation (input) OpCooperativeVectorStoreNV :: Op where "OpCooperativeVectorStoreNV \<equiv> 5303"
abbreviation (input) OpReportIntersectionKHR :: Op where "OpReportIntersectionKHR \<equiv> 5334"
abbreviation (input) OpIgnoreIntersectionNV :: Op where "OpIgnoreIntersectionNV \<equiv> 5335"
abbreviation (input) OpTerminateRayNV :: Op where "OpTerminateRayNV \<equiv> 5336"
abbreviation (input) OpTraceNV :: Op where "OpTraceNV \<equiv> 5337"
abbreviation (input) OpTraceMotionNV :: Op where "OpTraceMotionNV \<equiv> 5338"
abbreviation (input) OpTraceRayMotionNV :: Op where "OpTraceRayMotionNV \<equiv> 5339"
abbreviation (input) OpRayQueryGetIntersectionTriangleVertexPositionsKHR :: Op where "OpRayQueryGetIntersectionTriangleVertexPositionsKHR \<equiv> 5340"
abbreviation (input) OpTypeAccelerationStructureKHR :: Op where "OpTypeAccelerationStructureKHR \<equiv> 5341"
abbreviation (input) OpTypeAccelerationStructureNV :: Op where "OpTypeAccelerationStructureNV \<equiv> 5341"
abbreviation (input) OpExecuteCallableNV :: Op where "OpExecuteCallableNV \<equiv> 5344"
abbreviation (input) OpRayQueryGetClusterIdNV :: Op where "OpRayQueryGetClusterIdNV \<equiv> 5345"
abbreviation (input) OpHitObjectGetClusterIdNV :: Op where "OpHitObjectGetClusterIdNV \<equiv> 5346"
abbreviation (input) OpTypeCooperativeMatrixNV :: Op where "OpTypeCooperativeMatrixNV \<equiv> 5358"
abbreviation (input) OpCooperativeMatrixLoadNV :: Op where "OpCooperativeMatrixLoadNV \<equiv> 5359"
abbreviation (input) OpCooperativeMatrixStoreNV :: Op where "OpCooperativeMatrixStoreNV \<equiv> 5360"
abbreviation (input) OpCooperativeMatrixMulAddNV :: Op where "OpCooperativeMatrixMulAddNV \<equiv> 5361"
abbreviation (input) OpCooperativeMatrixLengthNV :: Op where "OpCooperativeMatrixLengthNV \<equiv> 5362"
abbreviation (input) OpBeginInvocationInterlockEXT :: Op where "OpBeginInvocationInterlockEXT \<equiv> 5364"
abbreviation (input) OpEndInvocationInterlockEXT :: Op where "OpEndInvocationInterlockEXT \<equiv> 5365"
abbreviation (input) OpCooperativeMatrixReduceNV :: Op where "OpCooperativeMatrixReduceNV \<equiv> 5366"
abbreviation (input) OpCooperativeMatrixLoadTensorNV :: Op where "OpCooperativeMatrixLoadTensorNV \<equiv> 5367"
abbreviation (input) OpCooperativeMatrixStoreTensorNV :: Op where "OpCooperativeMatrixStoreTensorNV \<equiv> 5368"
abbreviation (input) OpCooperativeMatrixPerElementOpNV :: Op where "OpCooperativeMatrixPerElementOpNV \<equiv> 5369"
abbreviation (input) OpTypeTensorLayoutNV :: Op where "OpTypeTensorLayoutNV \<equiv> 5370"
abbreviation (input) OpTypeTensorViewNV :: Op where "OpTypeTensorViewNV \<equiv> 5371"
abbreviation (input) OpCreateTensorLayoutNV :: Op where "OpCreateTensorLayoutNV \<equiv> 5372"
abbreviation (input) OpTensorLayoutSetDimensionNV :: Op where "OpTensorLayoutSetDimensionNV \<equiv> 5373"
abbreviation (input) OpTensorLayoutSetStrideNV :: Op where "OpTensorLayoutSetStrideNV \<equiv> 5374"
abbreviation (input) OpTensorLayoutSliceNV :: Op where "OpTensorLayoutSliceNV \<equiv> 5375"
abbreviation (input) OpTensorLayoutSetClampValueNV :: Op where "OpTensorLayoutSetClampValueNV \<equiv> 5376"
abbreviation (input) OpCreateTensorViewNV :: Op where "OpCreateTensorViewNV \<equiv> 5377"
abbreviation (input) OpTensorViewSetDimensionNV :: Op where "OpTensorViewSetDimensionNV \<equiv> 5378"
abbreviation (input) OpTensorViewSetStrideNV :: Op where "OpTensorViewSetStrideNV \<equiv> 5379"
abbreviation (input) OpDemoteToHelperInvocation :: Op where "OpDemoteToHelperInvocation \<equiv> 5380"
abbreviation (input) OpIsHelperInvocationEXT :: Op where "OpIsHelperInvocationEXT \<equiv> 5381"
abbreviation (input) OpTensorViewSetClipNV :: Op where "OpTensorViewSetClipNV \<equiv> 5382"
abbreviation (input) OpTensorLayoutSetBlockSizeNV :: Op where "OpTensorLayoutSetBlockSizeNV \<equiv> 5384"
abbreviation (input) OpCooperativeMatrixTransposeNV :: Op where "OpCooperativeMatrixTransposeNV \<equiv> 5390"
abbreviation (input) OpConvertUToImageNV :: Op where "OpConvertUToImageNV \<equiv> 5391"
abbreviation (input) OpConvertUToSamplerNV :: Op where "OpConvertUToSamplerNV \<equiv> 5392"
abbreviation (input) OpConvertImageToUNV :: Op where "OpConvertImageToUNV \<equiv> 5393"
abbreviation (input) OpConvertSamplerToUNV :: Op where "OpConvertSamplerToUNV \<equiv> 5394"
abbreviation (input) OpConvertUToSampledImageNV :: Op where "OpConvertUToSampledImageNV \<equiv> 5395"
abbreviation (input) OpConvertSampledImageToUNV :: Op where "OpConvertSampledImageToUNV \<equiv> 5396"
abbreviation (input) OpSamplerImageAddressingModeNV :: Op where "OpSamplerImageAddressingModeNV \<equiv> 5397"
abbreviation (input) OpRawAccessChainNV :: Op where "OpRawAccessChainNV \<equiv> 5398"
abbreviation (input) OpRayQueryGetIntersectionSpherePositionNV :: Op where "OpRayQueryGetIntersectionSpherePositionNV \<equiv> 5427"
abbreviation (input) OpRayQueryGetIntersectionSphereRadiusNV :: Op where "OpRayQueryGetIntersectionSphereRadiusNV \<equiv> 5428"
abbreviation (input) OpRayQueryGetIntersectionLSSPositionsNV :: Op where "OpRayQueryGetIntersectionLSSPositionsNV \<equiv> 5429"
abbreviation (input) OpRayQueryGetIntersectionLSSRadiiNV :: Op where "OpRayQueryGetIntersectionLSSRadiiNV \<equiv> 5430"
abbreviation (input) OpRayQueryGetIntersectionLSSHitValueNV :: Op where "OpRayQueryGetIntersectionLSSHitValueNV \<equiv> 5431"
abbreviation (input) OpHitObjectGetSpherePositionNV :: Op where "OpHitObjectGetSpherePositionNV \<equiv> 5432"
abbreviation (input) OpHitObjectGetSphereRadiusNV :: Op where "OpHitObjectGetSphereRadiusNV \<equiv> 5433"
abbreviation (input) OpHitObjectGetLSSPositionsNV :: Op where "OpHitObjectGetLSSPositionsNV \<equiv> 5434"
abbreviation (input) OpHitObjectGetLSSRadiiNV :: Op where "OpHitObjectGetLSSRadiiNV \<equiv> 5435"
abbreviation (input) OpHitObjectIsSphereHitNV :: Op where "OpHitObjectIsSphereHitNV \<equiv> 5436"
abbreviation (input) OpHitObjectIsLSSHitNV :: Op where "OpHitObjectIsLSSHitNV \<equiv> 5437"
abbreviation (input) OpRayQueryIsSphereHitNV :: Op where "OpRayQueryIsSphereHitNV \<equiv> 5438"
abbreviation (input) OpRayQueryIsLSSHitNV :: Op where "OpRayQueryIsLSSHitNV \<equiv> 5439"
abbreviation (input) OpSubgroupShuffleINTEL :: Op where "OpSubgroupShuffleINTEL \<equiv> 5571"
abbreviation (input) OpSubgroupShuffleDownINTEL :: Op where "OpSubgroupShuffleDownINTEL \<equiv> 5572"
abbreviation (input) OpSubgroupShuffleUpINTEL :: Op where "OpSubgroupShuffleUpINTEL \<equiv> 5573"
abbreviation (input) OpSubgroupShuffleXorINTEL :: Op where "OpSubgroupShuffleXorINTEL \<equiv> 5574"
abbreviation (input) OpSubgroupBlockReadINTEL :: Op where "OpSubgroupBlockReadINTEL \<equiv> 5575"
abbreviation (input) OpSubgroupBlockWriteINTEL :: Op where "OpSubgroupBlockWriteINTEL \<equiv> 5576"
abbreviation (input) OpSubgroupImageBlockReadINTEL :: Op where "OpSubgroupImageBlockReadINTEL \<equiv> 5577"
abbreviation (input) OpSubgroupImageBlockWriteINTEL :: Op where "OpSubgroupImageBlockWriteINTEL \<equiv> 5578"
abbreviation (input) OpSubgroupImageMediaBlockReadINTEL :: Op where "OpSubgroupImageMediaBlockReadINTEL \<equiv> 5580"
abbreviation (input) OpSubgroupImageMediaBlockWriteINTEL :: Op where "OpSubgroupImageMediaBlockWriteINTEL \<equiv> 5581"
abbreviation (input) OpUCountLeadingZerosINTEL :: Op where "OpUCountLeadingZerosINTEL \<equiv> 5585"
abbreviation (input) OpUCountTrailingZerosINTEL :: Op where "OpUCountTrailingZerosINTEL \<equiv> 5586"
abbreviation (input) OpAbsISubINTEL :: Op where "OpAbsISubINTEL \<equiv> 5587"
abbreviation (input) OpAbsUSubINTEL :: Op where "OpAbsUSubINTEL \<equiv> 5588"
abbreviation (input) OpIAddSatINTEL :: Op where "OpIAddSatINTEL \<equiv> 5589"
abbreviation (input) OpUAddSatINTEL :: Op where "OpUAddSatINTEL \<equiv> 5590"
abbreviation (input) OpIAverageINTEL :: Op where "OpIAverageINTEL \<equiv> 5591"
abbreviation (input) OpUAverageINTEL :: Op where "OpUAverageINTEL \<equiv> 5592"
abbreviation (input) OpIAverageRoundedINTEL :: Op where "OpIAverageRoundedINTEL \<equiv> 5593"
abbreviation (input) OpUAverageRoundedINTEL :: Op where "OpUAverageRoundedINTEL \<equiv> 5594"
abbreviation (input) OpISubSatINTEL :: Op where "OpISubSatINTEL \<equiv> 5595"
abbreviation (input) OpUSubSatINTEL :: Op where "OpUSubSatINTEL \<equiv> 5596"
abbreviation (input) OpIMul32x16INTEL :: Op where "OpIMul32x16INTEL \<equiv> 5597"
abbreviation (input) OpUMul32x16INTEL :: Op where "OpUMul32x16INTEL \<equiv> 5598"
abbreviation (input) OpConstantFunctionPointerINTEL :: Op where "OpConstantFunctionPointerINTEL \<equiv> 5600"
abbreviation (input) OpFunctionPointerCallINTEL :: Op where "OpFunctionPointerCallINTEL \<equiv> 5601"
abbreviation (input) OpAsmTargetINTEL :: Op where "OpAsmTargetINTEL \<equiv> 5609"
abbreviation (input) OpAsmINTEL :: Op where "OpAsmINTEL \<equiv> 5610"
abbreviation (input) OpAsmCallINTEL :: Op where "OpAsmCallINTEL \<equiv> 5611"
abbreviation (input) OpAtomicFMinEXT :: Op where "OpAtomicFMinEXT \<equiv> 5614"
abbreviation (input) OpAtomicFMaxEXT :: Op where "OpAtomicFMaxEXT \<equiv> 5615"
abbreviation (input) OpAssumeTrueKHR :: Op where "OpAssumeTrueKHR \<equiv> 5630"
abbreviation (input) OpExpectKHR :: Op where "OpExpectKHR \<equiv> 5631"
abbreviation (input) OpDecorateString :: Op where "OpDecorateString \<equiv> 5632"
abbreviation (input) OpDecorateStringGOOGLE :: Op where "OpDecorateStringGOOGLE \<equiv> 5632"
abbreviation (input) OpMemberDecorateString :: Op where "OpMemberDecorateString \<equiv> 5633"
abbreviation (input) OpMemberDecorateStringGOOGLE :: Op where "OpMemberDecorateStringGOOGLE \<equiv> 5633"
abbreviation (input) OpVmeImageINTEL :: Op where "OpVmeImageINTEL \<equiv> 5699"
abbreviation (input) OpTypeVmeImageINTEL :: Op where "OpTypeVmeImageINTEL \<equiv> 5700"
abbreviation (input) OpTypeAvcImePayloadINTEL :: Op where "OpTypeAvcImePayloadINTEL \<equiv> 5701"
abbreviation (input) OpTypeAvcRefPayloadINTEL :: Op where "OpTypeAvcRefPayloadINTEL \<equiv> 5702"
abbreviation (input) OpTypeAvcSicPayloadINTEL :: Op where "OpTypeAvcSicPayloadINTEL \<equiv> 5703"
abbreviation (input) OpTypeAvcMcePayloadINTEL :: Op where "OpTypeAvcMcePayloadINTEL \<equiv> 5704"
abbreviation (input) OpTypeAvcMceResultINTEL :: Op where "OpTypeAvcMceResultINTEL \<equiv> 5705"
abbreviation (input) OpTypeAvcImeResultINTEL :: Op where "OpTypeAvcImeResultINTEL \<equiv> 5706"
abbreviation (input) OpTypeAvcImeResultSingleReferenceStreamoutINTEL :: Op where "OpTypeAvcImeResultSingleReferenceStreamoutINTEL \<equiv> 5707"
abbreviation (input) OpTypeAvcImeResultDualReferenceStreamoutINTEL :: Op where "OpTypeAvcImeResultDualReferenceStreamoutINTEL \<equiv> 5708"
abbreviation (input) OpTypeAvcImeSingleReferenceStreaminINTEL :: Op where "OpTypeAvcImeSingleReferenceStreaminINTEL \<equiv> 5709"
abbreviation (input) OpTypeAvcImeDualReferenceStreaminINTEL :: Op where "OpTypeAvcImeDualReferenceStreaminINTEL \<equiv> 5710"
abbreviation (input) OpTypeAvcRefResultINTEL :: Op where "OpTypeAvcRefResultINTEL \<equiv> 5711"
abbreviation (input) OpTypeAvcSicResultINTEL :: Op where "OpTypeAvcSicResultINTEL \<equiv> 5712"
abbreviation (input) OpSubgroupAvcMceGetDefaultInterBaseMultiReferencePenaltyINTEL :: Op where "OpSubgroupAvcMceGetDefaultInterBaseMultiReferencePenaltyINTEL \<equiv> 5713"
abbreviation (input) OpSubgroupAvcMceSetInterBaseMultiReferencePenaltyINTEL :: Op where "OpSubgroupAvcMceSetInterBaseMultiReferencePenaltyINTEL \<equiv> 5714"
abbreviation (input) OpSubgroupAvcMceGetDefaultInterShapePenaltyINTEL :: Op where "OpSubgroupAvcMceGetDefaultInterShapePenaltyINTEL \<equiv> 5715"
abbreviation (input) OpSubgroupAvcMceSetInterShapePenaltyINTEL :: Op where "OpSubgroupAvcMceSetInterShapePenaltyINTEL \<equiv> 5716"
abbreviation (input) OpSubgroupAvcMceGetDefaultInterDirectionPenaltyINTEL :: Op where "OpSubgroupAvcMceGetDefaultInterDirectionPenaltyINTEL \<equiv> 5717"
abbreviation (input) OpSubgroupAvcMceSetInterDirectionPenaltyINTEL :: Op where "OpSubgroupAvcMceSetInterDirectionPenaltyINTEL \<equiv> 5718"
abbreviation (input) OpSubgroupAvcMceGetDefaultIntraLumaShapePenaltyINTEL :: Op where "OpSubgroupAvcMceGetDefaultIntraLumaShapePenaltyINTEL \<equiv> 5719"
abbreviation (input) OpSubgroupAvcMceGetDefaultInterMotionVectorCostTableINTEL :: Op where "OpSubgroupAvcMceGetDefaultInterMotionVectorCostTableINTEL \<equiv> 5720"
abbreviation (input) OpSubgroupAvcMceGetDefaultHighPenaltyCostTableINTEL :: Op where "OpSubgroupAvcMceGetDefaultHighPenaltyCostTableINTEL \<equiv> 5721"
abbreviation (input) OpSubgroupAvcMceGetDefaultMediumPenaltyCostTableINTEL :: Op where "OpSubgroupAvcMceGetDefaultMediumPenaltyCostTableINTEL \<equiv> 5722"
abbreviation (input) OpSubgroupAvcMceGetDefaultLowPenaltyCostTableINTEL :: Op where "OpSubgroupAvcMceGetDefaultLowPenaltyCostTableINTEL \<equiv> 5723"
abbreviation (input) OpSubgroupAvcMceSetMotionVectorCostFunctionINTEL :: Op where "OpSubgroupAvcMceSetMotionVectorCostFunctionINTEL \<equiv> 5724"
abbreviation (input) OpSubgroupAvcMceGetDefaultIntraLumaModePenaltyINTEL :: Op where "OpSubgroupAvcMceGetDefaultIntraLumaModePenaltyINTEL \<equiv> 5725"
abbreviation (input) OpSubgroupAvcMceGetDefaultNonDcLumaIntraPenaltyINTEL :: Op where "OpSubgroupAvcMceGetDefaultNonDcLumaIntraPenaltyINTEL \<equiv> 5726"
abbreviation (input) OpSubgroupAvcMceGetDefaultIntraChromaModeBasePenaltyINTEL :: Op where "OpSubgroupAvcMceGetDefaultIntraChromaModeBasePenaltyINTEL \<equiv> 5727"
abbreviation (input) OpSubgroupAvcMceSetAcOnlyHaarINTEL :: Op where "OpSubgroupAvcMceSetAcOnlyHaarINTEL \<equiv> 5728"
abbreviation (input) OpSubgroupAvcMceSetSourceInterlacedFieldPolarityINTEL :: Op where "OpSubgroupAvcMceSetSourceInterlacedFieldPolarityINTEL \<equiv> 5729"
abbreviation (input) OpSubgroupAvcMceSetSingleReferenceInterlacedFieldPolarityINTEL :: Op where "OpSubgroupAvcMceSetSingleReferenceInterlacedFieldPolarityINTEL \<equiv> 5730"
abbreviation (input) OpSubgroupAvcMceSetDualReferenceInterlacedFieldPolaritiesINTEL :: Op where "OpSubgroupAvcMceSetDualReferenceInterlacedFieldPolaritiesINTEL \<equiv> 5731"
abbreviation (input) OpSubgroupAvcMceConvertToImePayloadINTEL :: Op where "OpSubgroupAvcMceConvertToImePayloadINTEL \<equiv> 5732"
abbreviation (input) OpSubgroupAvcMceConvertToImeResultINTEL :: Op where "OpSubgroupAvcMceConvertToImeResultINTEL \<equiv> 5733"
abbreviation (input) OpSubgroupAvcMceConvertToRefPayloadINTEL :: Op where "OpSubgroupAvcMceConvertToRefPayloadINTEL \<equiv> 5734"
abbreviation (input) OpSubgroupAvcMceConvertToRefResultINTEL :: Op where "OpSubgroupAvcMceConvertToRefResultINTEL \<equiv> 5735"
abbreviation (input) OpSubgroupAvcMceConvertToSicPayloadINTEL :: Op where "OpSubgroupAvcMceConvertToSicPayloadINTEL \<equiv> 5736"
abbreviation (input) OpSubgroupAvcMceConvertToSicResultINTEL :: Op where "OpSubgroupAvcMceConvertToSicResultINTEL \<equiv> 5737"
abbreviation (input) OpSubgroupAvcMceGetMotionVectorsINTEL :: Op where "OpSubgroupAvcMceGetMotionVectorsINTEL \<equiv> 5738"
abbreviation (input) OpSubgroupAvcMceGetInterDistortionsINTEL :: Op where "OpSubgroupAvcMceGetInterDistortionsINTEL \<equiv> 5739"
abbreviation (input) OpSubgroupAvcMceGetBestInterDistortionsINTEL :: Op where "OpSubgroupAvcMceGetBestInterDistortionsINTEL \<equiv> 5740"
abbreviation (input) OpSubgroupAvcMceGetInterMajorShapeINTEL :: Op where "OpSubgroupAvcMceGetInterMajorShapeINTEL \<equiv> 5741"
abbreviation (input) OpSubgroupAvcMceGetInterMinorShapeINTEL :: Op where "OpSubgroupAvcMceGetInterMinorShapeINTEL \<equiv> 5742"
abbreviation (input) OpSubgroupAvcMceGetInterDirectionsINTEL :: Op where "OpSubgroupAvcMceGetInterDirectionsINTEL \<equiv> 5743"
abbreviation (input) OpSubgroupAvcMceGetInterMotionVectorCountINTEL :: Op where "OpSubgroupAvcMceGetInterMotionVectorCountINTEL \<equiv> 5744"
abbreviation (input) OpSubgroupAvcMceGetInterReferenceIdsINTEL :: Op where "OpSubgroupAvcMceGetInterReferenceIdsINTEL \<equiv> 5745"
abbreviation (input) OpSubgroupAvcMceGetInterReferenceInterlacedFieldPolaritiesINTEL :: Op where "OpSubgroupAvcMceGetInterReferenceInterlacedFieldPolaritiesINTEL \<equiv> 5746"
abbreviation (input) OpSubgroupAvcImeInitializeINTEL :: Op where "OpSubgroupAvcImeInitializeINTEL \<equiv> 5747"
abbreviation (input) OpSubgroupAvcImeSetSingleReferenceINTEL :: Op where "OpSubgroupAvcImeSetSingleReferenceINTEL \<equiv> 5748"
abbreviation (input) OpSubgroupAvcImeSetDualReferenceINTEL :: Op where "OpSubgroupAvcImeSetDualReferenceINTEL \<equiv> 5749"
abbreviation (input) OpSubgroupAvcImeRefWindowSizeINTEL :: Op where "OpSubgroupAvcImeRefWindowSizeINTEL \<equiv> 5750"
abbreviation (input) OpSubgroupAvcImeAdjustRefOffsetINTEL :: Op where "OpSubgroupAvcImeAdjustRefOffsetINTEL \<equiv> 5751"
abbreviation (input) OpSubgroupAvcImeConvertToMcePayloadINTEL :: Op where "OpSubgroupAvcImeConvertToMcePayloadINTEL \<equiv> 5752"
abbreviation (input) OpSubgroupAvcImeSetMaxMotionVectorCountINTEL :: Op where "OpSubgroupAvcImeSetMaxMotionVectorCountINTEL \<equiv> 5753"
abbreviation (input) OpSubgroupAvcImeSetUnidirectionalMixDisableINTEL :: Op where "OpSubgroupAvcImeSetUnidirectionalMixDisableINTEL \<equiv> 5754"
abbreviation (input) OpSubgroupAvcImeSetEarlySearchTerminationThresholdINTEL :: Op where "OpSubgroupAvcImeSetEarlySearchTerminationThresholdINTEL \<equiv> 5755"
abbreviation (input) OpSubgroupAvcImeSetWeightedSadINTEL :: Op where "OpSubgroupAvcImeSetWeightedSadINTEL \<equiv> 5756"
abbreviation (input) OpSubgroupAvcImeEvaluateWithSingleReferenceINTEL :: Op where "OpSubgroupAvcImeEvaluateWithSingleReferenceINTEL \<equiv> 5757"
abbreviation (input) OpSubgroupAvcImeEvaluateWithDualReferenceINTEL :: Op where "OpSubgroupAvcImeEvaluateWithDualReferenceINTEL \<equiv> 5758"
abbreviation (input) OpSubgroupAvcImeEvaluateWithSingleReferenceStreaminINTEL :: Op where "OpSubgroupAvcImeEvaluateWithSingleReferenceStreaminINTEL \<equiv> 5759"
abbreviation (input) OpSubgroupAvcImeEvaluateWithDualReferenceStreaminINTEL :: Op where "OpSubgroupAvcImeEvaluateWithDualReferenceStreaminINTEL \<equiv> 5760"
abbreviation (input) OpSubgroupAvcImeEvaluateWithSingleReferenceStreamoutINTEL :: Op where "OpSubgroupAvcImeEvaluateWithSingleReferenceStreamoutINTEL \<equiv> 5761"
abbreviation (input) OpSubgroupAvcImeEvaluateWithDualReferenceStreamoutINTEL :: Op where "OpSubgroupAvcImeEvaluateWithDualReferenceStreamoutINTEL \<equiv> 5762"
abbreviation (input) OpSubgroupAvcImeEvaluateWithSingleReferenceStreaminoutINTEL :: Op where "OpSubgroupAvcImeEvaluateWithSingleReferenceStreaminoutINTEL \<equiv> 5763"
abbreviation (input) OpSubgroupAvcImeEvaluateWithDualReferenceStreaminoutINTEL :: Op where "OpSubgroupAvcImeEvaluateWithDualReferenceStreaminoutINTEL \<equiv> 5764"
abbreviation (input) OpSubgroupAvcImeConvertToMceResultINTEL :: Op where "OpSubgroupAvcImeConvertToMceResultINTEL \<equiv> 5765"
abbreviation (input) OpSubgroupAvcImeGetSingleReferenceStreaminINTEL :: Op where "OpSubgroupAvcImeGetSingleReferenceStreaminINTEL \<equiv> 5766"
abbreviation (input) OpSubgroupAvcImeGetDualReferenceStreaminINTEL :: Op where "OpSubgroupAvcImeGetDualReferenceStreaminINTEL \<equiv> 5767"
abbreviation (input) OpSubgroupAvcImeStripSingleReferenceStreamoutINTEL :: Op where "OpSubgroupAvcImeStripSingleReferenceStreamoutINTEL \<equiv> 5768"
abbreviation (input) OpSubgroupAvcImeStripDualReferenceStreamoutINTEL :: Op where "OpSubgroupAvcImeStripDualReferenceStreamoutINTEL \<equiv> 5769"
abbreviation (input) OpSubgroupAvcImeGetStreamoutSingleReferenceMajorShapeMotionVectorsINTEL :: Op where "OpSubgroupAvcImeGetStreamoutSingleReferenceMajorShapeMotionVectorsINTEL \<equiv> 5770"
abbreviation (input) OpSubgroupAvcImeGetStreamoutSingleReferenceMajorShapeDistortionsINTEL :: Op where "OpSubgroupAvcImeGetStreamoutSingleReferenceMajorShapeDistortionsINTEL \<equiv> 5771"
abbreviation (input) OpSubgroupAvcImeGetStreamoutSingleReferenceMajorShapeReferenceIdsINTEL :: Op where "OpSubgroupAvcImeGetStreamoutSingleReferenceMajorShapeReferenceIdsINTEL \<equiv> 5772"
abbreviation (input) OpSubgroupAvcImeGetStreamoutDualReferenceMajorShapeMotionVectorsINTEL :: Op where "OpSubgroupAvcImeGetStreamoutDualReferenceMajorShapeMotionVectorsINTEL \<equiv> 5773"
abbreviation (input) OpSubgroupAvcImeGetStreamoutDualReferenceMajorShapeDistortionsINTEL :: Op where "OpSubgroupAvcImeGetStreamoutDualReferenceMajorShapeDistortionsINTEL \<equiv> 5774"
abbreviation (input) OpSubgroupAvcImeGetStreamoutDualReferenceMajorShapeReferenceIdsINTEL :: Op where "OpSubgroupAvcImeGetStreamoutDualReferenceMajorShapeReferenceIdsINTEL \<equiv> 5775"
abbreviation (input) OpSubgroupAvcImeGetBorderReachedINTEL :: Op where "OpSubgroupAvcImeGetBorderReachedINTEL \<equiv> 5776"
abbreviation (input) OpSubgroupAvcImeGetTruncatedSearchIndicationINTEL :: Op where "OpSubgroupAvcImeGetTruncatedSearchIndicationINTEL \<equiv> 5777"
abbreviation (input) OpSubgroupAvcImeGetUnidirectionalEarlySearchTerminationINTEL :: Op where "OpSubgroupAvcImeGetUnidirectionalEarlySearchTerminationINTEL \<equiv> 5778"
abbreviation (input) OpSubgroupAvcImeGetWeightingPatternMinimumMotionVectorINTEL :: Op where "OpSubgroupAvcImeGetWeightingPatternMinimumMotionVectorINTEL \<equiv> 5779"
abbreviation (input) OpSubgroupAvcImeGetWeightingPatternMinimumDistortionINTEL :: Op where "OpSubgroupAvcImeGetWeightingPatternMinimumDistortionINTEL \<equiv> 5780"
abbreviation (input) OpSubgroupAvcFmeInitializeINTEL :: Op where "OpSubgroupAvcFmeInitializeINTEL \<equiv> 5781"
abbreviation (input) OpSubgroupAvcBmeInitializeINTEL :: Op where "OpSubgroupAvcBmeInitializeINTEL \<equiv> 5782"
abbreviation (input) OpSubgroupAvcRefConvertToMcePayloadINTEL :: Op where "OpSubgroupAvcRefConvertToMcePayloadINTEL \<equiv> 5783"
abbreviation (input) OpSubgroupAvcRefSetBidirectionalMixDisableINTEL :: Op where "OpSubgroupAvcRefSetBidirectionalMixDisableINTEL \<equiv> 5784"
abbreviation (input) OpSubgroupAvcRefSetBilinearFilterEnableINTEL :: Op where "OpSubgroupAvcRefSetBilinearFilterEnableINTEL \<equiv> 5785"
abbreviation (input) OpSubgroupAvcRefEvaluateWithSingleReferenceINTEL :: Op where "OpSubgroupAvcRefEvaluateWithSingleReferenceINTEL \<equiv> 5786"
abbreviation (input) OpSubgroupAvcRefEvaluateWithDualReferenceINTEL :: Op where "OpSubgroupAvcRefEvaluateWithDualReferenceINTEL \<equiv> 5787"
abbreviation (input) OpSubgroupAvcRefEvaluateWithMultiReferenceINTEL :: Op where "OpSubgroupAvcRefEvaluateWithMultiReferenceINTEL \<equiv> 5788"
abbreviation (input) OpSubgroupAvcRefEvaluateWithMultiReferenceInterlacedINTEL :: Op where "OpSubgroupAvcRefEvaluateWithMultiReferenceInterlacedINTEL \<equiv> 5789"
abbreviation (input) OpSubgroupAvcRefConvertToMceResultINTEL :: Op where "OpSubgroupAvcRefConvertToMceResultINTEL \<equiv> 5790"
abbreviation (input) OpSubgroupAvcSicInitializeINTEL :: Op where "OpSubgroupAvcSicInitializeINTEL \<equiv> 5791"
abbreviation (input) OpSubgroupAvcSicConfigureSkcINTEL :: Op where "OpSubgroupAvcSicConfigureSkcINTEL \<equiv> 5792"
abbreviation (input) OpSubgroupAvcSicConfigureIpeLumaINTEL :: Op where "OpSubgroupAvcSicConfigureIpeLumaINTEL \<equiv> 5793"
abbreviation (input) OpSubgroupAvcSicConfigureIpeLumaChromaINTEL :: Op where "OpSubgroupAvcSicConfigureIpeLumaChromaINTEL \<equiv> 5794"
abbreviation (input) OpSubgroupAvcSicGetMotionVectorMaskINTEL :: Op where "OpSubgroupAvcSicGetMotionVectorMaskINTEL \<equiv> 5795"
abbreviation (input) OpSubgroupAvcSicConvertToMcePayloadINTEL :: Op where "OpSubgroupAvcSicConvertToMcePayloadINTEL \<equiv> 5796"
abbreviation (input) OpSubgroupAvcSicSetIntraLumaShapePenaltyINTEL :: Op where "OpSubgroupAvcSicSetIntraLumaShapePenaltyINTEL \<equiv> 5797"
abbreviation (input) OpSubgroupAvcSicSetIntraLumaModeCostFunctionINTEL :: Op where "OpSubgroupAvcSicSetIntraLumaModeCostFunctionINTEL \<equiv> 5798"
abbreviation (input) OpSubgroupAvcSicSetIntraChromaModeCostFunctionINTEL :: Op where "OpSubgroupAvcSicSetIntraChromaModeCostFunctionINTEL \<equiv> 5799"
abbreviation (input) OpSubgroupAvcSicSetBilinearFilterEnableINTEL :: Op where "OpSubgroupAvcSicSetBilinearFilterEnableINTEL \<equiv> 5800"
abbreviation (input) OpSubgroupAvcSicSetSkcForwardTransformEnableINTEL :: Op where "OpSubgroupAvcSicSetSkcForwardTransformEnableINTEL \<equiv> 5801"
abbreviation (input) OpSubgroupAvcSicSetBlockBasedRawSkipSadINTEL :: Op where "OpSubgroupAvcSicSetBlockBasedRawSkipSadINTEL \<equiv> 5802"
abbreviation (input) OpSubgroupAvcSicEvaluateIpeINTEL :: Op where "OpSubgroupAvcSicEvaluateIpeINTEL \<equiv> 5803"
abbreviation (input) OpSubgroupAvcSicEvaluateWithSingleReferenceINTEL :: Op where "OpSubgroupAvcSicEvaluateWithSingleReferenceINTEL \<equiv> 5804"
abbreviation (input) OpSubgroupAvcSicEvaluateWithDualReferenceINTEL :: Op where "OpSubgroupAvcSicEvaluateWithDualReferenceINTEL \<equiv> 5805"
abbreviation (input) OpSubgroupAvcSicEvaluateWithMultiReferenceINTEL :: Op where "OpSubgroupAvcSicEvaluateWithMultiReferenceINTEL \<equiv> 5806"
abbreviation (input) OpSubgroupAvcSicEvaluateWithMultiReferenceInterlacedINTEL :: Op where "OpSubgroupAvcSicEvaluateWithMultiReferenceInterlacedINTEL \<equiv> 5807"
abbreviation (input) OpSubgroupAvcSicConvertToMceResultINTEL :: Op where "OpSubgroupAvcSicConvertToMceResultINTEL \<equiv> 5808"
abbreviation (input) OpSubgroupAvcSicGetIpeLumaShapeINTEL :: Op where "OpSubgroupAvcSicGetIpeLumaShapeINTEL \<equiv> 5809"
abbreviation (input) OpSubgroupAvcSicGetBestIpeLumaDistortionINTEL :: Op where "OpSubgroupAvcSicGetBestIpeLumaDistortionINTEL \<equiv> 5810"
abbreviation (input) OpSubgroupAvcSicGetBestIpeChromaDistortionINTEL :: Op where "OpSubgroupAvcSicGetBestIpeChromaDistortionINTEL \<equiv> 5811"
abbreviation (input) OpSubgroupAvcSicGetPackedIpeLumaModesINTEL :: Op where "OpSubgroupAvcSicGetPackedIpeLumaModesINTEL \<equiv> 5812"
abbreviation (input) OpSubgroupAvcSicGetIpeChromaModeINTEL :: Op where "OpSubgroupAvcSicGetIpeChromaModeINTEL \<equiv> 5813"
abbreviation (input) OpSubgroupAvcSicGetPackedSkcLumaCountThresholdINTEL :: Op where "OpSubgroupAvcSicGetPackedSkcLumaCountThresholdINTEL \<equiv> 5814"
abbreviation (input) OpSubgroupAvcSicGetPackedSkcLumaSumThresholdINTEL :: Op where "OpSubgroupAvcSicGetPackedSkcLumaSumThresholdINTEL \<equiv> 5815"
abbreviation (input) OpSubgroupAvcSicGetInterRawSadsINTEL :: Op where "OpSubgroupAvcSicGetInterRawSadsINTEL \<equiv> 5816"
abbreviation (input) OpVariableLengthArrayINTEL :: Op where "OpVariableLengthArrayINTEL \<equiv> 5818"
abbreviation (input) OpSaveMemoryINTEL :: Op where "OpSaveMemoryINTEL \<equiv> 5819"
abbreviation (input) OpRestoreMemoryINTEL :: Op where "OpRestoreMemoryINTEL \<equiv> 5820"
abbreviation (input) OpArbitraryFloatSinCosPiINTEL :: Op where "OpArbitraryFloatSinCosPiINTEL \<equiv> 5840"
abbreviation (input) OpArbitraryFloatCastINTEL :: Op where "OpArbitraryFloatCastINTEL \<equiv> 5841"
abbreviation (input) OpArbitraryFloatCastFromIntINTEL :: Op where "OpArbitraryFloatCastFromIntINTEL \<equiv> 5842"
abbreviation (input) OpArbitraryFloatCastToIntINTEL :: Op where "OpArbitraryFloatCastToIntINTEL \<equiv> 5843"
abbreviation (input) OpArbitraryFloatAddINTEL :: Op where "OpArbitraryFloatAddINTEL \<equiv> 5846"
abbreviation (input) OpArbitraryFloatSubINTEL :: Op where "OpArbitraryFloatSubINTEL \<equiv> 5847"
abbreviation (input) OpArbitraryFloatMulINTEL :: Op where "OpArbitraryFloatMulINTEL \<equiv> 5848"
abbreviation (input) OpArbitraryFloatDivINTEL :: Op where "OpArbitraryFloatDivINTEL \<equiv> 5849"
abbreviation (input) OpArbitraryFloatGTINTEL :: Op where "OpArbitraryFloatGTINTEL \<equiv> 5850"
abbreviation (input) OpArbitraryFloatGEINTEL :: Op where "OpArbitraryFloatGEINTEL \<equiv> 5851"
abbreviation (input) OpArbitraryFloatLTINTEL :: Op where "OpArbitraryFloatLTINTEL \<equiv> 5852"
abbreviation (input) OpArbitraryFloatLEINTEL :: Op where "OpArbitraryFloatLEINTEL \<equiv> 5853"
abbreviation (input) OpArbitraryFloatEQINTEL :: Op where "OpArbitraryFloatEQINTEL \<equiv> 5854"
abbreviation (input) OpArbitraryFloatRecipINTEL :: Op where "OpArbitraryFloatRecipINTEL \<equiv> 5855"
abbreviation (input) OpArbitraryFloatRSqrtINTEL :: Op where "OpArbitraryFloatRSqrtINTEL \<equiv> 5856"
abbreviation (input) OpArbitraryFloatCbrtINTEL :: Op where "OpArbitraryFloatCbrtINTEL \<equiv> 5857"
abbreviation (input) OpArbitraryFloatHypotINTEL :: Op where "OpArbitraryFloatHypotINTEL \<equiv> 5858"
abbreviation (input) OpArbitraryFloatSqrtINTEL :: Op where "OpArbitraryFloatSqrtINTEL \<equiv> 5859"
abbreviation (input) OpArbitraryFloatLogINTEL :: Op where "OpArbitraryFloatLogINTEL \<equiv> 5860"
abbreviation (input) OpArbitraryFloatLog2INTEL :: Op where "OpArbitraryFloatLog2INTEL \<equiv> 5861"
abbreviation (input) OpArbitraryFloatLog10INTEL :: Op where "OpArbitraryFloatLog10INTEL \<equiv> 5862"
abbreviation (input) OpArbitraryFloatLog1pINTEL :: Op where "OpArbitraryFloatLog1pINTEL \<equiv> 5863"
abbreviation (input) OpArbitraryFloatExpINTEL :: Op where "OpArbitraryFloatExpINTEL \<equiv> 5864"
abbreviation (input) OpArbitraryFloatExp2INTEL :: Op where "OpArbitraryFloatExp2INTEL \<equiv> 5865"
abbreviation (input) OpArbitraryFloatExp10INTEL :: Op where "OpArbitraryFloatExp10INTEL \<equiv> 5866"
abbreviation (input) OpArbitraryFloatExpm1INTEL :: Op where "OpArbitraryFloatExpm1INTEL \<equiv> 5867"
abbreviation (input) OpArbitraryFloatSinINTEL :: Op where "OpArbitraryFloatSinINTEL \<equiv> 5868"
abbreviation (input) OpArbitraryFloatCosINTEL :: Op where "OpArbitraryFloatCosINTEL \<equiv> 5869"
abbreviation (input) OpArbitraryFloatSinCosINTEL :: Op where "OpArbitraryFloatSinCosINTEL \<equiv> 5870"
abbreviation (input) OpArbitraryFloatSinPiINTEL :: Op where "OpArbitraryFloatSinPiINTEL \<equiv> 5871"
abbreviation (input) OpArbitraryFloatCosPiINTEL :: Op where "OpArbitraryFloatCosPiINTEL \<equiv> 5872"
abbreviation (input) OpArbitraryFloatASinINTEL :: Op where "OpArbitraryFloatASinINTEL \<equiv> 5873"
abbreviation (input) OpArbitraryFloatASinPiINTEL :: Op where "OpArbitraryFloatASinPiINTEL \<equiv> 5874"
abbreviation (input) OpArbitraryFloatACosINTEL :: Op where "OpArbitraryFloatACosINTEL \<equiv> 5875"
abbreviation (input) OpArbitraryFloatACosPiINTEL :: Op where "OpArbitraryFloatACosPiINTEL \<equiv> 5876"
abbreviation (input) OpArbitraryFloatATanINTEL :: Op where "OpArbitraryFloatATanINTEL \<equiv> 5877"
abbreviation (input) OpArbitraryFloatATanPiINTEL :: Op where "OpArbitraryFloatATanPiINTEL \<equiv> 5878"
abbreviation (input) OpArbitraryFloatATan2INTEL :: Op where "OpArbitraryFloatATan2INTEL \<equiv> 5879"
abbreviation (input) OpArbitraryFloatPowINTEL :: Op where "OpArbitraryFloatPowINTEL \<equiv> 5880"
abbreviation (input) OpArbitraryFloatPowRINTEL :: Op where "OpArbitraryFloatPowRINTEL \<equiv> 5881"
abbreviation (input) OpArbitraryFloatPowNINTEL :: Op where "OpArbitraryFloatPowNINTEL \<equiv> 5882"
abbreviation (input) OpLoopControlINTEL :: Op where "OpLoopControlINTEL \<equiv> 5887"
abbreviation (input) OpAliasDomainDeclINTEL :: Op where "OpAliasDomainDeclINTEL \<equiv> 5911"
abbreviation (input) OpAliasScopeDeclINTEL :: Op where "OpAliasScopeDeclINTEL \<equiv> 5912"
abbreviation (input) OpAliasScopeListDeclINTEL :: Op where "OpAliasScopeListDeclINTEL \<equiv> 5913"
abbreviation (input) OpFixedSqrtINTEL :: Op where "OpFixedSqrtINTEL \<equiv> 5923"
abbreviation (input) OpFixedRecipINTEL :: Op where "OpFixedRecipINTEL \<equiv> 5924"
abbreviation (input) OpFixedRsqrtINTEL :: Op where "OpFixedRsqrtINTEL \<equiv> 5925"
abbreviation (input) OpFixedSinINTEL :: Op where "OpFixedSinINTEL \<equiv> 5926"
abbreviation (input) OpFixedCosINTEL :: Op where "OpFixedCosINTEL \<equiv> 5927"
abbreviation (input) OpFixedSinCosINTEL :: Op where "OpFixedSinCosINTEL \<equiv> 5928"
abbreviation (input) OpFixedSinPiINTEL :: Op where "OpFixedSinPiINTEL \<equiv> 5929"
abbreviation (input) OpFixedCosPiINTEL :: Op where "OpFixedCosPiINTEL \<equiv> 5930"
abbreviation (input) OpFixedSinCosPiINTEL :: Op where "OpFixedSinCosPiINTEL \<equiv> 5931"
abbreviation (input) OpFixedLogINTEL :: Op where "OpFixedLogINTEL \<equiv> 5932"
abbreviation (input) OpFixedExpINTEL :: Op where "OpFixedExpINTEL \<equiv> 5933"
abbreviation (input) OpPtrCastToCrossWorkgroupINTEL :: Op where "OpPtrCastToCrossWorkgroupINTEL \<equiv> 5934"
abbreviation (input) OpCrossWorkgroupCastToPtrINTEL :: Op where "OpCrossWorkgroupCastToPtrINTEL \<equiv> 5938"
abbreviation (input) OpReadPipeBlockingINTEL :: Op where "OpReadPipeBlockingINTEL \<equiv> 5946"
abbreviation (input) OpWritePipeBlockingINTEL :: Op where "OpWritePipeBlockingINTEL \<equiv> 5947"
abbreviation (input) OpFPGARegINTEL :: Op where "OpFPGARegINTEL \<equiv> 5949"
abbreviation (input) OpRayQueryGetRayTMinKHR :: Op where "OpRayQueryGetRayTMinKHR \<equiv> 6016"
abbreviation (input) OpRayQueryGetRayFlagsKHR :: Op where "OpRayQueryGetRayFlagsKHR \<equiv> 6017"
abbreviation (input) OpRayQueryGetIntersectionTKHR :: Op where "OpRayQueryGetIntersectionTKHR \<equiv> 6018"
abbreviation (input) OpRayQueryGetIntersectionInstanceCustomIndexKHR :: Op where "OpRayQueryGetIntersectionInstanceCustomIndexKHR \<equiv> 6019"
abbreviation (input) OpRayQueryGetIntersectionInstanceIdKHR :: Op where "OpRayQueryGetIntersectionInstanceIdKHR \<equiv> 6020"
abbreviation (input) OpRayQueryGetIntersectionInstanceShaderBindingTableRecordOffsetKHR :: Op where "OpRayQueryGetIntersectionInstanceShaderBindingTableRecordOffsetKHR \<equiv> 6021"
abbreviation (input) OpRayQueryGetIntersectionGeometryIndexKHR :: Op where "OpRayQueryGetIntersectionGeometryIndexKHR \<equiv> 6022"
abbreviation (input) OpRayQueryGetIntersectionPrimitiveIndexKHR :: Op where "OpRayQueryGetIntersectionPrimitiveIndexKHR \<equiv> 6023"
abbreviation (input) OpRayQueryGetIntersectionBarycentricsKHR :: Op where "OpRayQueryGetIntersectionBarycentricsKHR \<equiv> 6024"
abbreviation (input) OpRayQueryGetIntersectionFrontFaceKHR :: Op where "OpRayQueryGetIntersectionFrontFaceKHR \<equiv> 6025"
abbreviation (input) OpRayQueryGetIntersectionCandidateAABBOpaqueKHR :: Op where "OpRayQueryGetIntersectionCandidateAABBOpaqueKHR \<equiv> 6026"
abbreviation (input) OpRayQueryGetIntersectionObjectRayDirectionKHR :: Op where "OpRayQueryGetIntersectionObjectRayDirectionKHR \<equiv> 6027"
abbreviation (input) OpRayQueryGetIntersectionObjectRayOriginKHR :: Op where "OpRayQueryGetIntersectionObjectRayOriginKHR \<equiv> 6028"
abbreviation (input) OpRayQueryGetWorldRayDirectionKHR :: Op where "OpRayQueryGetWorldRayDirectionKHR \<equiv> 6029"
abbreviation (input) OpRayQueryGetWorldRayOriginKHR :: Op where "OpRayQueryGetWorldRayOriginKHR \<equiv> 6030"
abbreviation (input) OpRayQueryGetIntersectionObjectToWorldKHR :: Op where "OpRayQueryGetIntersectionObjectToWorldKHR \<equiv> 6031"
abbreviation (input) OpRayQueryGetIntersectionWorldToObjectKHR :: Op where "OpRayQueryGetIntersectionWorldToObjectKHR \<equiv> 6032"
abbreviation (input) OpAtomicFAddEXT :: Op where "OpAtomicFAddEXT \<equiv> 6035"
abbreviation (input) OpTypeBufferSurfaceINTEL :: Op where "OpTypeBufferSurfaceINTEL \<equiv> 6086"
abbreviation (input) OpTypeStructContinuedINTEL :: Op where "OpTypeStructContinuedINTEL \<equiv> 6090"
abbreviation (input) OpConstantCompositeContinuedINTEL :: Op where "OpConstantCompositeContinuedINTEL \<equiv> 6091"
abbreviation (input) OpSpecConstantCompositeContinuedINTEL :: Op where "OpSpecConstantCompositeContinuedINTEL \<equiv> 6092"
abbreviation (input) OpCompositeConstructContinuedINTEL :: Op where "OpCompositeConstructContinuedINTEL \<equiv> 6096"
abbreviation (input) OpConvertFToBF16INTEL :: Op where "OpConvertFToBF16INTEL \<equiv> 6116"
abbreviation (input) OpConvertBF16ToFINTEL :: Op where "OpConvertBF16ToFINTEL \<equiv> 6117"
abbreviation (input) OpControlBarrierArriveINTEL :: Op where "OpControlBarrierArriveINTEL \<equiv> 6142"
abbreviation (input) OpControlBarrierWaitINTEL :: Op where "OpControlBarrierWaitINTEL \<equiv> 6143"
abbreviation (input) OpArithmeticFenceEXT :: Op where "OpArithmeticFenceEXT \<equiv> 6145"
abbreviation (input) OpTaskSequenceCreateINTEL :: Op where "OpTaskSequenceCreateINTEL \<equiv> 6163"
abbreviation (input) OpTaskSequenceAsyncINTEL :: Op where "OpTaskSequenceAsyncINTEL \<equiv> 6164"
abbreviation (input) OpTaskSequenceGetINTEL :: Op where "OpTaskSequenceGetINTEL \<equiv> 6165"
abbreviation (input) OpTaskSequenceReleaseINTEL :: Op where "OpTaskSequenceReleaseINTEL \<equiv> 6166"
abbreviation (input) OpTypeTaskSequenceINTEL :: Op where "OpTypeTaskSequenceINTEL \<equiv> 6199"
abbreviation (input) OpSubgroupBlockPrefetchINTEL :: Op where "OpSubgroupBlockPrefetchINTEL \<equiv> 6221"
abbreviation (input) OpSubgroup2DBlockLoadINTEL :: Op where "OpSubgroup2DBlockLoadINTEL \<equiv> 6231"
abbreviation (input) OpSubgroup2DBlockLoadTransformINTEL :: Op where "OpSubgroup2DBlockLoadTransformINTEL \<equiv> 6232"
abbreviation (input) OpSubgroup2DBlockLoadTransposeINTEL :: Op where "OpSubgroup2DBlockLoadTransposeINTEL \<equiv> 6233"
abbreviation (input) OpSubgroup2DBlockPrefetchINTEL :: Op where "OpSubgroup2DBlockPrefetchINTEL \<equiv> 6234"
abbreviation (input) OpSubgroup2DBlockStoreINTEL :: Op where "OpSubgroup2DBlockStoreINTEL \<equiv> 6235"
abbreviation (input) OpSubgroupMatrixMultiplyAccumulateINTEL :: Op where "OpSubgroupMatrixMultiplyAccumulateINTEL \<equiv> 6237"
abbreviation (input) OpBitwiseFunctionINTEL :: Op where "OpBitwiseFunctionINTEL \<equiv> 6242"
abbreviation (input) OpGroupIMulKHR :: Op where "OpGroupIMulKHR \<equiv> 6401"
abbreviation (input) OpGroupFMulKHR :: Op where "OpGroupFMulKHR \<equiv> 6402"
abbreviation (input) OpGroupBitwiseAndKHR :: Op where "OpGroupBitwiseAndKHR \<equiv> 6403"
abbreviation (input) OpGroupBitwiseOrKHR :: Op where "OpGroupBitwiseOrKHR \<equiv> 6404"
abbreviation (input) OpGroupBitwiseXorKHR :: Op where "OpGroupBitwiseXorKHR \<equiv> 6405"
abbreviation (input) OpGroupLogicalAndKHR :: Op where "OpGroupLogicalAndKHR \<equiv> 6406"
abbreviation (input) OpGroupLogicalOrKHR :: Op where "OpGroupLogicalOrKHR \<equiv> 6407"
abbreviation (input) OpGroupLogicalXorKHR :: Op where "OpGroupLogicalXorKHR \<equiv> 6408"
abbreviation (input) OpRoundFToTF32INTEL :: Op where "OpRoundFToTF32INTEL \<equiv> 6426"
abbreviation (input) OpMaskedGatherINTEL :: Op where "OpMaskedGatherINTEL \<equiv> 6428"
abbreviation (input) OpMaskedScatterINTEL :: Op where "OpMaskedScatterINTEL \<equiv> 6429"
abbreviation (input) OpConvertHandleToImageINTEL :: Op where "OpConvertHandleToImageINTEL \<equiv> 6529"
abbreviation (input) OpConvertHandleToSamplerINTEL :: Op where "OpConvertHandleToSamplerINTEL \<equiv> 6530"
abbreviation (input) OpConvertHandleToSampledImageINTEL :: Op where "OpConvertHandleToSampledImageINTEL \<equiv> 6531"

end
