(* ===== verification/Opcodes.thy ===== *)
theory Opcodes
  imports Spirv_Ops Endian
begin

text \<open>
  \<open>src/ShaderCompiler/src/spirv-tools/opcode.cpp\<close>: the first word of an instruction, the copy of
  an instruction in the machine's byte order, and the classes of opcodes. A \<open>switch\<close> with a default
  is a membership test. The vendor table \<open>generators.inc\<close> is generated by the build: it is the
  parameter \<open>vendor_tools\<close>, a list of generator numbers with their texts.
\<close>

section \<open>The first word of an instruction\<close>

definition spvGeneratorStr :: "(uint32_t \<times> string) list \<Rightarrow> uint32_t \<Rightarrow> string" where
  "spvGeneratorStr vendor_tools generator =
     (case find (\<lambda>vt. generator = fst vt) vendor_tools of
        Some vt \<Rightarrow> snd vt
      | None \<Rightarrow> ''Unknown'')"

definition spvOpcodeMake :: "uint16_t \<Rightarrow> Op \<Rightarrow> uint32_t" where
  "spvOpcodeMake wordCount opcode = opcode OR push_bit 16 (ucast wordCount)"

definition spvOpcodeSplit :: "uint32_t \<Rightarrow> uint16_t \<times> uint16_t" where
  "spvOpcodeSplit w = (ucast (drop_bit 16 (0xffff0000 AND w)), ucast (0x0000ffff AND w))"

record spv_instruction =
  inst_opcode :: Op
  inst_words :: "uint32_t list"

text \<open>\<open>spvInstructionCopy\<close>, the first \<open>wordCount\<close> words corrected one by one.\<close>

definition spvInstructionCopy ::
  "uint32_t \<Rightarrow> uint32_t list \<Rightarrow> Op \<Rightarrow> uint16_t \<Rightarrow> spv_endianness_t \<Rightarrow> spv_instruction" where
  "spvInstructionCopy host words opcode wordCount endian =
     \<lparr>inst_opcode = opcode,
      inst_words = map (\<lambda>wordIndex. spvFixWord host (words ! wordIndex) endian) [0..<unat wordCount]\<rparr>"

section \<open>Classes of opcodes\<close>

definition spvOpcodeIsScalarType :: "Op \<Rightarrow> bool" where
  "spvOpcodeIsScalarType opcode \<longleftrightarrow> opcode \<in>
     {OpTypeInt, OpTypeFloat, OpTypeBool}"

definition spvOpcodeIsSpecConstant :: "Op \<Rightarrow> bool" where
  "spvOpcodeIsSpecConstant opcode \<longleftrightarrow> opcode \<in>
     {OpSpecConstantTrue, OpSpecConstantFalse, OpSpecConstant, OpSpecConstantComposite,
      OpSpecConstantCompositeReplicateEXT, OpSpecConstantOp}"

definition spvOpcodeIsConstant :: "Op \<Rightarrow> bool" where
  "spvOpcodeIsConstant opcode \<longleftrightarrow> opcode \<in>
     {OpConstantTrue, OpConstantFalse, OpConstant, OpConstantComposite,
      OpConstantCompositeReplicateEXT, OpConstantSampler, OpConstantNull,
      OpConstantFunctionPointerINTEL, OpConstantStringAMDX, OpSpecConstantTrue,
      OpSpecConstantFalse, OpSpecConstant, OpSpecConstantComposite,
      OpSpecConstantCompositeReplicateEXT, OpSpecConstantOp, OpSpecConstantStringAMDX}"

definition spvOpcodeIsConstantOrUndef :: "Op \<Rightarrow> bool" where
  "spvOpcodeIsConstantOrUndef opcode \<longleftrightarrow> opcode = OpUndef \<or> spvOpcodeIsConstant opcode"

definition spvOpcodeIsScalarSpecConstant :: "Op \<Rightarrow> bool" where
  "spvOpcodeIsScalarSpecConstant opcode \<longleftrightarrow> opcode \<in>
     {OpSpecConstantTrue, OpSpecConstantFalse, OpSpecConstant}"

definition spvOpcodeIsComposite :: "Op \<Rightarrow> bool" where
  "spvOpcodeIsComposite opcode \<longleftrightarrow> opcode \<in>
     {OpTypeVector, OpTypeMatrix, OpTypeArray, OpTypeStruct, OpTypeRuntimeArray,
      OpTypeCooperativeMatrixNV, OpTypeCooperativeMatrixKHR, OpTypeCooperativeVectorNV}"

definition spvOpcodeReturnsLogicalVariablePointer :: "Op \<Rightarrow> bool" where
  "spvOpcodeReturnsLogicalVariablePointer opcode \<longleftrightarrow> opcode \<in>
     {OpVariable, OpUntypedVariableKHR, OpAccessChain, OpInBoundsAccessChain,
      OpUntypedAccessChainKHR, OpUntypedInBoundsAccessChainKHR, OpFunctionParameter,
      OpImageTexelPointer, OpCopyObject, OpAllocateNodePayloadsAMDX, OpSelect, OpPhi,
      OpFunctionCall, OpPtrAccessChain, OpUntypedPtrAccessChainKHR, OpLoad, OpConstantNull,
      OpRawAccessChainNV}"

definition spvOpcodeReturnsLogicalPointer :: "Op \<Rightarrow> bool" where
  "spvOpcodeReturnsLogicalPointer opcode \<longleftrightarrow> opcode \<in>
     {OpVariable, OpUntypedVariableKHR, OpAccessChain, OpInBoundsAccessChain,
      OpUntypedAccessChainKHR, OpUntypedInBoundsAccessChainKHR, OpFunctionParameter,
      OpImageTexelPointer, OpCopyObject, OpRawAccessChainNV, OpAllocateNodePayloadsAMDX}"

definition spvOpcodeGeneratesType :: "Op \<Rightarrow> bool" where
  "spvOpcodeGeneratesType opcode \<longleftrightarrow> opcode \<in>
     {OpTypeVoid, OpTypeBool, OpTypeInt, OpTypeFloat, OpTypeVector, OpTypeMatrix, OpTypeImage,
      OpTypeSampler, OpTypeSampledImage, OpTypeArray, OpTypeRuntimeArray, OpTypeStruct,
      OpTypeOpaque, OpTypePointer, OpTypeFunction, OpTypeEvent, OpTypeDeviceEvent,
      OpTypeReserveId, OpTypeQueue, OpTypePipe, OpTypePipeStorage, OpTypeNamedBarrier,
      OpTypeAccelerationStructureNV, OpTypeCooperativeMatrixNV, OpTypeCooperativeMatrixKHR,
      OpTypeCooperativeVectorNV, OpTypeRayQueryKHR, OpTypeHitObjectNV, OpTypeUntypedPointerKHR,
      OpTypeNodePayloadArrayAMDX, OpTypeTensorLayoutNV, OpTypeTensorViewNV, OpTypeTensorARM,
      OpTypeTaskSequenceINTEL}"

definition spvOpcodeIsDecoration :: "Op \<Rightarrow> bool" where
  "spvOpcodeIsDecoration opcode \<longleftrightarrow> opcode \<in>
     {OpDecorate, OpDecorateId, OpMemberDecorate, OpGroupDecorate, OpGroupMemberDecorate,
      OpDecorateStringGOOGLE, OpMemberDecorateStringGOOGLE}"

definition spvOpcodeIsLoad :: "Op \<Rightarrow> bool" where
  "spvOpcodeIsLoad opcode \<longleftrightarrow> opcode \<in>
     {OpLoad, OpImageSampleExplicitLod, OpImageSampleImplicitLod, OpImageSampleDrefImplicitLod,
      OpImageSampleDrefExplicitLod, OpImageSampleProjImplicitLod, OpImageSampleProjExplicitLod,
      OpImageSampleProjDrefImplicitLod, OpImageSampleProjDrefExplicitLod,
      OpImageSampleFootprintNV, OpImageFetch, OpImageGather, OpImageDrefGather, OpImageRead,
      OpImageSparseSampleImplicitLod, OpImageSparseSampleExplicitLod,
      OpImageSparseSampleDrefExplicitLod, OpImageSparseSampleDrefImplicitLod,
      OpImageSparseFetch, OpImageSparseGather, OpImageSparseDrefGather, OpImageSparseRead}"

definition spvOpcodeIsBranch :: "Op \<Rightarrow> bool" where
  "spvOpcodeIsBranch opcode \<longleftrightarrow> opcode \<in>
     {OpBranch, OpBranchConditional, OpSwitch}"

definition spvOpcodeIsAtomicWithLoad :: "Op \<Rightarrow> bool" where
  "spvOpcodeIsAtomicWithLoad opcode \<longleftrightarrow> opcode \<in>
     {OpAtomicLoad, OpAtomicExchange, OpAtomicCompareExchange, OpAtomicCompareExchangeWeak,
      OpAtomicIIncrement, OpAtomicIDecrement, OpAtomicIAdd, OpAtomicFAddEXT, OpAtomicISub,
      OpAtomicSMin, OpAtomicUMin, OpAtomicFMinEXT, OpAtomicSMax, OpAtomicUMax, OpAtomicFMaxEXT,
      OpAtomicAnd, OpAtomicOr, OpAtomicXor, OpAtomicFlagTestAndSet}"

definition spvOpcodeIsAtomicOp :: "Op \<Rightarrow> bool" where
  "spvOpcodeIsAtomicOp opcode \<longleftrightarrow>
     spvOpcodeIsAtomicWithLoad opcode \<or> opcode = OpAtomicStore \<or> opcode = OpAtomicFlagClear"

definition spvOpcodeIsReturn :: "Op \<Rightarrow> bool" where
  "spvOpcodeIsReturn opcode \<longleftrightarrow> opcode \<in>
     {OpReturn, OpReturnValue}"

definition spvOpcodeIsAbort :: "Op \<Rightarrow> bool" where
  "spvOpcodeIsAbort opcode \<longleftrightarrow> opcode \<in>
     {OpKill, OpUnreachable, OpTerminateInvocation, OpTerminateRayKHR, OpIgnoreIntersectionKHR,
      OpEmitMeshTasksEXT}"

definition spvOpcodeIsReturnOrAbort :: "Op \<Rightarrow> bool" where
  "spvOpcodeIsReturnOrAbort opcode \<longleftrightarrow> spvOpcodeIsReturn opcode \<or> spvOpcodeIsAbort opcode"

definition spvOpcodeIsBlockTerminator :: "Op \<Rightarrow> bool" where
  "spvOpcodeIsBlockTerminator opcode \<longleftrightarrow>
     spvOpcodeIsBranch opcode \<or> spvOpcodeIsReturnOrAbort opcode"

definition spvOpcodeIsBaseOpaqueType :: "Op \<Rightarrow> bool" where
  "spvOpcodeIsBaseOpaqueType opcode \<longleftrightarrow> opcode \<in>
     {OpTypeImage, OpTypeSampler, OpTypeSampledImage, OpTypeOpaque, OpTypeEvent,
      OpTypeDeviceEvent, OpTypeReserveId, OpTypeQueue, OpTypePipe, OpTypeForwardPointer,
      OpTypePipeStorage, OpTypeNamedBarrier}"

definition spvOpcodeIsNonUniformGroupOperation :: "Op \<Rightarrow> bool" where
  "spvOpcodeIsNonUniformGroupOperation opcode \<longleftrightarrow> opcode \<in>
     {OpGroupNonUniformElect, OpGroupNonUniformAll, OpGroupNonUniformAny,
      OpGroupNonUniformAllEqual, OpGroupNonUniformBroadcast, OpGroupNonUniformBroadcastFirst,
      OpGroupNonUniformBallot, OpGroupNonUniformInverseBallot,
      OpGroupNonUniformBallotBitExtract, OpGroupNonUniformBallotBitCount,
      OpGroupNonUniformBallotFindLSB, OpGroupNonUniformBallotFindMSB, OpGroupNonUniformShuffle,
      OpGroupNonUniformShuffleXor, OpGroupNonUniformShuffleUp, OpGroupNonUniformShuffleDown,
      OpGroupNonUniformIAdd, OpGroupNonUniformFAdd, OpGroupNonUniformIMul,
      OpGroupNonUniformFMul, OpGroupNonUniformSMin, OpGroupNonUniformUMin,
      OpGroupNonUniformFMin, OpGroupNonUniformSMax, OpGroupNonUniformUMax,
      OpGroupNonUniformFMax, OpGroupNonUniformBitwiseAnd, OpGroupNonUniformBitwiseOr,
      OpGroupNonUniformBitwiseXor, OpGroupNonUniformLogicalAnd, OpGroupNonUniformLogicalOr,
      OpGroupNonUniformLogicalXor, OpGroupNonUniformQuadBroadcast, OpGroupNonUniformQuadSwap,
      OpGroupNonUniformRotateKHR, OpGroupNonUniformQuadAllKHR, OpGroupNonUniformQuadAnyKHR}"

definition spvOpcodeIsScalarizable :: "Op \<Rightarrow> bool" where
  "spvOpcodeIsScalarizable opcode \<longleftrightarrow> opcode \<in>
     {OpPhi, OpCopyObject, OpConvertFToU, OpConvertFToS, OpConvertSToF, OpConvertUToF,
      OpUConvert, OpSConvert, OpFConvert, OpQuantizeToF16, OpVectorInsertDynamic, OpSNegate,
      OpFNegate, OpIAdd, OpFAdd, OpISub, OpFSub, OpIMul, OpFMul, OpUDiv, OpSDiv, OpFDiv, OpUMod,
      OpSRem, OpSMod, OpFRem, OpFMod, OpVectorTimesScalar, OpIAddCarry, OpISubBorrow,
      OpUMulExtended, OpSMulExtended, OpShiftRightLogical, OpShiftRightArithmetic,
      OpShiftLeftLogical, OpBitwiseOr, OpBitwiseAnd, OpNot, OpBitFieldInsert,
      OpBitFieldSExtract, OpBitFieldUExtract, OpBitReverse, OpBitCount, OpIsNan, OpIsInf,
      OpIsFinite, OpIsNormal, OpSignBitSet, OpLessOrGreater, OpOrdered, OpUnordered,
      OpLogicalEqual, OpLogicalNotEqual, OpLogicalOr, OpLogicalAnd, OpLogicalNot, OpSelect,
      OpIEqual, OpINotEqual, OpUGreaterThan, OpSGreaterThan, OpUGreaterThanEqual,
      OpSGreaterThanEqual, OpULessThan, OpSLessThan, OpULessThanEqual, OpSLessThanEqual,
      OpFOrdEqual, OpFUnordEqual, OpFOrdNotEqual, OpFUnordNotEqual, OpFOrdLessThan,
      OpFUnordLessThan, OpFOrdGreaterThan, OpFUnordGreaterThan, OpFOrdLessThanEqual,
      OpFUnordLessThanEqual, OpFOrdGreaterThanEqual, OpFUnordGreaterThanEqual}"

definition spvOpcodeIsDebug :: "Op \<Rightarrow> bool" where
  "spvOpcodeIsDebug opcode \<longleftrightarrow> opcode \<in>
     {OpName, OpMemberName, OpSource, OpSourceContinued, OpSourceExtension, OpString, OpLine,
      OpNoLine, OpModuleProcessed}"

definition spvOpcodeIsCommutativeBinaryOperator :: "Op \<Rightarrow> bool" where
  "spvOpcodeIsCommutativeBinaryOperator opcode \<longleftrightarrow> opcode \<in>
     {OpPtrEqual, OpPtrNotEqual, OpIAdd, OpFAdd, OpIMul, OpFMul, OpDot, OpIAddCarry,
      OpUMulExtended, OpSMulExtended, OpBitwiseOr, OpBitwiseXor, OpBitwiseAnd, OpOrdered,
      OpUnordered, OpLogicalEqual, OpLogicalNotEqual, OpLogicalOr, OpLogicalAnd, OpIEqual,
      OpINotEqual, OpFOrdEqual, OpFUnordEqual, OpFOrdNotEqual, OpFUnordNotEqual}"

definition spvOpcodeIsLinearAlgebra :: "Op \<Rightarrow> bool" where
  "spvOpcodeIsLinearAlgebra opcode \<longleftrightarrow> opcode \<in>
     {OpTranspose, OpVectorTimesScalar, OpMatrixTimesScalar, OpVectorTimesMatrix,
      OpMatrixTimesVector, OpMatrixTimesMatrix, OpOuterProduct, OpDot}"

definition spvOpcodeIsImageSample :: "Op \<Rightarrow> bool" where
  "spvOpcodeIsImageSample opcode \<longleftrightarrow> opcode \<in>
     {OpImageSampleImplicitLod, OpImageSampleExplicitLod, OpImageSampleDrefImplicitLod,
      OpImageSampleDrefExplicitLod, OpImageSampleProjImplicitLod, OpImageSampleProjExplicitLod,
      OpImageSampleProjDrefImplicitLod, OpImageSampleProjDrefExplicitLod,
      OpImageSparseSampleImplicitLod, OpImageSparseSampleExplicitLod,
      OpImageSparseSampleDrefImplicitLod, OpImageSparseSampleDrefExplicitLod,
      OpImageSampleFootprintNV}"

definition spvIsExtendedInstruction :: "Op \<Rightarrow> bool" where
  "spvIsExtendedInstruction opcode \<longleftrightarrow> opcode \<in>
     {OpExtInst, OpExtInstWithForwardRefsKHR}"

definition spvOpcodeMemorySemanticsOperandIndices :: "Op \<Rightarrow> nat list" where
  "spvOpcodeMemorySemanticsOperandIndices opcode =
     (if opcode = OpMemoryBarrier
      then [1]
      else if opcode \<in> {OpAtomicStore, OpControlBarrier, OpAtomicFlagClear, OpMemoryNamedBarrier}
      then [2]
      else if opcode \<in> {OpAtomicLoad, OpAtomicExchange, OpAtomicIIncrement, OpAtomicIDecrement,
            OpAtomicIAdd, OpAtomicFAddEXT, OpAtomicISub, OpAtomicSMin, OpAtomicUMin,
            OpAtomicSMax, OpAtomicUMax, OpAtomicAnd, OpAtomicOr, OpAtomicXor,
            OpAtomicFlagTestAndSet}
      then [4]
      else if opcode \<in> {OpAtomicCompareExchange, OpAtomicCompareExchangeWeak}
      then [4, 5]
      else [])"

definition spvOpcodeIsAccessChain :: "Op \<Rightarrow> bool" where
  "spvOpcodeIsAccessChain opcode \<longleftrightarrow> opcode \<in>
     {OpAccessChain, OpInBoundsAccessChain, OpPtrAccessChain, OpInBoundsPtrAccessChain,
      OpRawAccessChainNV}"

definition spvOpcodeIsBit :: "Op \<Rightarrow> bool" where
  "spvOpcodeIsBit opcode \<longleftrightarrow> opcode \<in>
     {OpShiftRightLogical, OpShiftRightArithmetic, OpShiftLeftLogical, OpBitwiseOr,
      OpBitwiseXor, OpBitwiseAnd, OpNot, OpBitReverse, OpBitCount}"

definition spvOpcodeGeneratesUntypedPointer :: "Op \<Rightarrow> bool" where
  "spvOpcodeGeneratesUntypedPointer opcode \<longleftrightarrow> opcode \<in>
     {OpUntypedVariableKHR, OpUntypedAccessChainKHR, OpUntypedInBoundsAccessChainKHR,
      OpUntypedPtrAccessChainKHR, OpUntypedInBoundsPtrAccessChainKHR}"

lemma opcode_masks: "(0xffff0000 :: uint32_t) = push_bit 16 (mask 16)" "(0x0000ffff :: uint32_t) = mask 16"
  by (simp_all add: mask_eq_exp_minus_1 push_bit_eq_mult)

lemma opcode_bits:
  fixes opcode :: Op
  assumes "opcode < 0x10000" "bit opcode i"
  shows "i < 16"
proof -
  have "bit (unat opcode) i" using assms(2) by (metis bit_set_unat mem_bit_set)
  then have "2 ^ i \<le> unat opcode" by (rule bit_imp_power_le)
  also have "\<dots> < 2 ^ 16" using assms(1) by (simp add: word_less_nat_alt)
  finally show ?thesis by (rule power_less_imp_less_exp [rotated]) simp
qed

lemma spvOpcodeSplit_make:
  assumes "opcode < 0x10000"
  shows "spvOpcodeSplit (spvOpcodeMake wordCount opcode) = (wordCount, ucast opcode)"
proof -
  have "ucast (drop_bit 16 (push_bit 16 (mask 16) AND spvOpcodeMake wordCount opcode)) = wordCount"
    by (rule bit_word_eqI) (auto simp: spvOpcodeMake_def bit_simps dest: opcode_bits [OF assms])
  moreover have "ucast (mask 16 AND spvOpcodeMake wordCount opcode) = (ucast opcode :: uint16_t)"
    by (rule bit_word_eqI) (auto simp: spvOpcodeMake_def bit_simps)
  ultimately show ?thesis by (simp add: spvOpcodeSplit_def opcode_masks)
qed

section \<open>Properties\<close>

text \<open>\<open>spvOpcodeMake\<close> and \<open>spvOpcodeSplit\<close> are inverse to each other: splitting a made word
  gives back the word count and the opcode whenever the opcode fits in 16 bits, and making the word
  from the parts of any word gives that word.\<close>

theorem spvOpcode_make_split:
  assumes "opcode < 0x10000"
  shows "spvOpcodeSplit (spvOpcodeMake wordCount opcode) = (wordCount, ucast opcode) \<and>
    ucast (ucast opcode :: uint16_t) = opcode \<and>
    (case spvOpcodeSplit w of (wc, op) \<Rightarrow> spvOpcodeMake wc (ucast op) = w)"
proof -
  have "ucast (ucast opcode :: uint16_t) = opcode"
    by (rule bit_word_eqI) (auto simp: bit_simps dest: opcode_bits [OF assms])
  moreover have "spvOpcodeMake (ucast (drop_bit 16 (push_bit 16 (mask 16) AND w)))
      (ucast (ucast (mask 16 AND w) :: uint16_t)) = w"
    by (rule bit_word_eqI) (auto simp: spvOpcodeMake_def bit_simps)
  ultimately show ?thesis
    using spvOpcodeSplit_make [OF assms] by (simp add: spvOpcodeSplit_def opcode_masks)
qed

theorem spvOpcode_make_split_witness:
  "spvOpcodeSplit (spvOpcodeMake 5 OpTypeInt) = (5, 21)"
  using spvOpcode_make_split [of OpTypeInt 5 0] by simp

text \<open>The classes of opcodes nest and exclude each other as the parser and the validator rely
  on: scalar specialization constants are specialization constants and these are constants, a
  logical pointer result is a logical variable pointer result, a block terminator is exactly one
  of branch, return and abort, and an opcode has memory semantics operands exactly when it is a
  barrier or an atomic operation, except for the two atomic float minimum and maximum operations,
  which have memory semantics but no entry.\<close>

theorem opcode_classes:
  "(spvOpcodeIsScalarSpecConstant op \<longrightarrow> spvOpcodeIsSpecConstant op) \<and>
   (spvOpcodeIsSpecConstant op \<longrightarrow> spvOpcodeIsConstant op) \<and>
   (spvOpcodeReturnsLogicalPointer op \<longrightarrow> spvOpcodeReturnsLogicalVariablePointer op) \<and>
   (spvOpcodeIsScalarType op \<longrightarrow> spvOpcodeGeneratesType op \<and> \<not> spvOpcodeIsComposite op) \<and>
   (spvOpcodeIsComposite op \<longrightarrow> spvOpcodeGeneratesType op) \<and>
   (if spvOpcodeIsBranch op then 1 else 0) + (if spvOpcodeIsReturn op then 1 else 0) +
     (if spvOpcodeIsAbort op then 1 else 0) = (if spvOpcodeIsBlockTerminator op then 1 else 0 :: nat) \<and>
   (spvOpcodeMemorySemanticsOperandIndices op \<noteq> [] \<longleftrightarrow>
     (spvOpcodeIsAtomicOp op \<and> op \<notin> {OpAtomicFMinEXT, OpAtomicFMaxEXT}) \<or>
     op \<in> {OpMemoryBarrier, OpControlBarrier, OpMemoryNamedBarrier})"
proof (intro conjI)
  show "(if spvOpcodeIsBranch op then 1 else 0) + (if spvOpcodeIsReturn op then 1 else 0) +
     (if spvOpcodeIsAbort op then 1 else 0) = (if spvOpcodeIsBlockTerminator op then 1 else 0 :: nat)"
    by (auto simp: spvOpcodeIsBlockTerminator_def spvOpcodeIsReturnOrAbort_def spvOpcodeIsBranch_def
        spvOpcodeIsReturn_def spvOpcodeIsAbort_def)
  show "spvOpcodeMemorySemanticsOperandIndices op \<noteq> [] \<longleftrightarrow>
     (spvOpcodeIsAtomicOp op \<and> op \<notin> {OpAtomicFMinEXT, OpAtomicFMaxEXT}) \<or>
     op \<in> {OpMemoryBarrier, OpControlBarrier, OpMemoryNamedBarrier}"
    by (auto simp: spvOpcodeMemorySemanticsOperandIndices_def spvOpcodeIsAtomicOp_def
        spvOpcodeIsAtomicWithLoad_def)
qed (auto simp: spvOpcodeIsScalarSpecConstant_def spvOpcodeIsSpecConstant_def spvOpcodeIsConstant_def
    spvOpcodeReturnsLogicalPointer_def spvOpcodeReturnsLogicalVariablePointer_def
    spvOpcodeIsScalarType_def spvOpcodeGeneratesType_def spvOpcodeIsComposite_def)

theorem opcode_classes_witness: "spvOpcodeIsConstant OpSpecConstantTrue"
  using opcode_classes [of OpSpecConstantTrue] by (simp add: spvOpcodeIsScalarSpecConstant_def)

end
