(* ===== verification/Operand_Types.thy ===== *)
theory Operand_Types
  imports Main
begin

text \<open>
  \<open>spv_operand_type_t\<close> of \<open>src/ShaderCompiler/include/spirv-tools/libspirv.h\<close>: the kinds of
  operands, concrete, optional and variable, in the order of the enumeration.
\<close>

datatype (plugins only: size) spv_operand_type_t =
    SPV_OPERAND_TYPE_NONE| SPV_OPERAND_TYPE_ID| SPV_OPERAND_TYPE_TYPE_ID|
    SPV_OPERAND_TYPE_RESULT_ID| SPV_OPERAND_TYPE_MEMORY_SEMANTICS_ID| SPV_OPERAND_TYPE_SCOPE_ID|
    SPV_OPERAND_TYPE_LITERAL_INTEGER| SPV_OPERAND_TYPE_EXTENSION_INSTRUCTION_NUMBER|
    SPV_OPERAND_TYPE_SPEC_CONSTANT_OP_NUMBER| SPV_OPERAND_TYPE_TYPED_LITERAL_NUMBER|
    SPV_OPERAND_TYPE_LITERAL_FLOAT| SPV_OPERAND_TYPE_LITERAL_STRING|
    SPV_OPERAND_TYPE_SOURCE_LANGUAGE| SPV_OPERAND_TYPE_EXECUTION_MODEL|
    SPV_OPERAND_TYPE_ADDRESSING_MODEL| SPV_OPERAND_TYPE_MEMORY_MODEL|
    SPV_OPERAND_TYPE_EXECUTION_MODE| SPV_OPERAND_TYPE_STORAGE_CLASS|
    SPV_OPERAND_TYPE_DIMENSIONALITY| SPV_OPERAND_TYPE_SAMPLER_ADDRESSING_MODE|
    SPV_OPERAND_TYPE_SAMPLER_FILTER_MODE| SPV_OPERAND_TYPE_SAMPLER_IMAGE_FORMAT|
    SPV_OPERAND_TYPE_IMAGE_CHANNEL_ORDER| SPV_OPERAND_TYPE_IMAGE_CHANNEL_DATA_TYPE|
    SPV_OPERAND_TYPE_FP_ROUNDING_MODE| SPV_OPERAND_TYPE_LINKAGE_TYPE|
    SPV_OPERAND_TYPE_ACCESS_QUALIFIER| SPV_OPERAND_TYPE_FUNCTION_PARAMETER_ATTRIBUTE|
    SPV_OPERAND_TYPE_DECORATION| SPV_OPERAND_TYPE_BUILT_IN| SPV_OPERAND_TYPE_GROUP_OPERATION|
    SPV_OPERAND_TYPE_KERNEL_ENQ_FLAGS| SPV_OPERAND_TYPE_KERNEL_PROFILING_INFO|
    SPV_OPERAND_TYPE_CAPABILITY| SPV_OPERAND_TYPE_FPENCODING| SPV_OPERAND_TYPE_IMAGE|
    SPV_OPERAND_TYPE_FP_FAST_MATH_MODE| SPV_OPERAND_TYPE_SELECTION_CONTROL|
    SPV_OPERAND_TYPE_LOOP_CONTROL| SPV_OPERAND_TYPE_FUNCTION_CONTROL|
    SPV_OPERAND_TYPE_MEMORY_ACCESS| SPV_OPERAND_TYPE_FRAGMENT_SHADING_RATE|
    SPV_OPERAND_TYPE_OPTIONAL_ID| SPV_OPERAND_TYPE_OPTIONAL_IMAGE|
    SPV_OPERAND_TYPE_OPTIONAL_MEMORY_ACCESS| SPV_OPERAND_TYPE_OPTIONAL_LITERAL_INTEGER|
    SPV_OPERAND_TYPE_OPTIONAL_LITERAL_NUMBER| SPV_OPERAND_TYPE_OPTIONAL_TYPED_LITERAL_INTEGER|
    SPV_OPERAND_TYPE_OPTIONAL_LITERAL_STRING| SPV_OPERAND_TYPE_OPTIONAL_ACCESS_QUALIFIER|
    SPV_OPERAND_TYPE_OPTIONAL_CIV| SPV_OPERAND_TYPE_OPTIONAL_FPENCODING|
    SPV_OPERAND_TYPE_VARIABLE_ID| SPV_OPERAND_TYPE_VARIABLE_LITERAL_INTEGER|
    SPV_OPERAND_TYPE_VARIABLE_LITERAL_INTEGER_ID| SPV_OPERAND_TYPE_VARIABLE_ID_LITERAL_INTEGER|
    SPV_OPERAND_TYPE_DEBUG_INFO_FLAGS| SPV_OPERAND_TYPE_DEBUG_BASE_TYPE_ATTRIBUTE_ENCODING|
    SPV_OPERAND_TYPE_DEBUG_COMPOSITE_TYPE| SPV_OPERAND_TYPE_DEBUG_TYPE_QUALIFIER|
    SPV_OPERAND_TYPE_DEBUG_OPERATION| SPV_OPERAND_TYPE_CLDEBUG100_DEBUG_INFO_FLAGS|
    SPV_OPERAND_TYPE_CLDEBUG100_DEBUG_BASE_TYPE_ATTRIBUTE_ENCODING|
    SPV_OPERAND_TYPE_CLDEBUG100_DEBUG_COMPOSITE_TYPE|
    SPV_OPERAND_TYPE_CLDEBUG100_DEBUG_TYPE_QUALIFIER|
    SPV_OPERAND_TYPE_CLDEBUG100_DEBUG_OPERATION|
    SPV_OPERAND_TYPE_CLDEBUG100_DEBUG_IMPORTED_ENTITY| SPV_OPERAND_TYPE_FPDENORM_MODE|
    SPV_OPERAND_TYPE_FPOPERATION_MODE| SPV_OPERAND_TYPE_QUANTIZATION_MODES|
    SPV_OPERAND_TYPE_OVERFLOW_MODES| SPV_OPERAND_TYPE_RAY_FLAGS|
    SPV_OPERAND_TYPE_RAY_QUERY_INTERSECTION|
    SPV_OPERAND_TYPE_RAY_QUERY_COMMITTED_INTERSECTION_TYPE|
    SPV_OPERAND_TYPE_RAY_QUERY_CANDIDATE_INTERSECTION_TYPE|
    SPV_OPERAND_TYPE_PACKED_VECTOR_FORMAT| SPV_OPERAND_TYPE_OPTIONAL_PACKED_VECTOR_FORMAT|
    SPV_OPERAND_TYPE_COOPERATIVE_MATRIX_OPERANDS|
    SPV_OPERAND_TYPE_OPTIONAL_COOPERATIVE_MATRIX_OPERANDS|
    SPV_OPERAND_TYPE_COOPERATIVE_MATRIX_LAYOUT| SPV_OPERAND_TYPE_COOPERATIVE_MATRIX_USE|
    SPV_OPERAND_TYPE_INITIALIZATION_MODE_QUALIFIER| SPV_OPERAND_TYPE_HOST_ACCESS_QUALIFIER|
    SPV_OPERAND_TYPE_LOAD_CACHE_CONTROL| SPV_OPERAND_TYPE_STORE_CACHE_CONTROL|
    SPV_OPERAND_TYPE_NAMED_MAXIMUM_NUMBER_OF_REGISTERS|
    SPV_OPERAND_TYPE_RAW_ACCESS_CHAIN_OPERANDS|
    SPV_OPERAND_TYPE_OPTIONAL_RAW_ACCESS_CHAIN_OPERANDS| SPV_OPERAND_TYPE_TENSOR_CLAMP_MODE|
    SPV_OPERAND_TYPE_COOPERATIVE_MATRIX_REDUCE| SPV_OPERAND_TYPE_TENSOR_ADDRESSING_OPERANDS|
    SPV_OPERAND_TYPE_MATRIX_MULTIPLY_ACCUMULATE_OPERANDS|
    SPV_OPERAND_TYPE_OPTIONAL_MATRIX_MULTIPLY_ACCUMULATE_OPERANDS|
    SPV_OPERAND_TYPE_COOPERATIVE_VECTOR_MATRIX_LAYOUT| SPV_OPERAND_TYPE_COMPONENT_TYPE|
    SPV_OPERAND_TYPE_KERNEL_PROPERTY_FLAGS| SPV_OPERAND_TYPE_SHDEBUG100_BUILD_IDENTIFIER_FLAGS|
    SPV_OPERAND_TYPE_SHDEBUG100_DEBUG_BASE_TYPE_ATTRIBUTE_ENCODING|
    SPV_OPERAND_TYPE_SHDEBUG100_DEBUG_COMPOSITE_TYPE|
    SPV_OPERAND_TYPE_SHDEBUG100_DEBUG_IMPORTED_ENTITY|
    SPV_OPERAND_TYPE_SHDEBUG100_DEBUG_INFO_FLAGS| SPV_OPERAND_TYPE_SHDEBUG100_DEBUG_OPERATION|
    SPV_OPERAND_TYPE_SHDEBUG100_DEBUG_TYPE_QUALIFIER| SPV_OPERAND_TYPE_TENSOR_OPERANDS|
    SPV_OPERAND_TYPE_OPTIONAL_TENSOR_OPERANDS| SPV_OPERAND_TYPE_NUM_OPERAND_TYPES

instantiation spv_operand_type_t :: equal
begin

definition equal_spv_operand_type_t :: "spv_operand_type_t \<Rightarrow> spv_operand_type_t \<Rightarrow> bool" where
  "equal_spv_operand_type_t s t \<longleftrightarrow> s = t"

instance by standard (simp add: equal_spv_operand_type_t_def)

end

end
