(* ===== verification/Grammar.thy ===== *)
theory Grammar
  imports Libspirv Target_Env Spirv_Ops Operand_Types "HOL-Library.List_Lexorder"
begin

text \<open>
  The lookups of \<open>src/ShaderCompiler/src/spirv-tools/table2.cpp\<close> in the compressed grammar tables.
  The tables are a record \<open>G\<close> with the arrays and functions that the comments of \<open>table2.cpp\<close>
  describe, an argument of every definition; \<open>grammar_ok\<close> is what those comments document: the order
  of each table and the shape of its strings. The tables by number that the repository ships are
  in \<open>Core_Tables\<close>, and \<open>Core_Grammar\<close> shows their order.
\<close>

section \<open>The tables\<close>

record IndexRange =
  ir_first :: nat
  ir_count :: nat

definition ir_empty :: "IndexRange \<Rightarrow> bool" where
  "ir_empty ir \<longleftrightarrow> ir_count ir = 0"

text \<open>\<open>IndexRange::apply\<close>: the span of \<open>count\<close> elements from \<open>first\<close>.\<close>

definition ir_apply :: "IndexRange \<Rightarrow> 'a list \<Rightarrow> 'a list" where
  "ir_apply ir base = take (ir_count ir) (drop (ir_first ir) base)"

record OperandDesc =
  od_value :: uint32_t
  od_operands_range :: IndexRange
  od_name_range :: IndexRange
  od_aliases_range :: IndexRange
  od_capabilities_range :: IndexRange
  od_extensions_range :: IndexRange
  od_minVersion :: uint32_t
  od_lastVersion :: uint32_t

record InstructionDesc =
  id_opcode :: Op
  id_hasResult :: bool
  id_hasType :: bool
  id_operands_range :: IndexRange
  id_name_range :: IndexRange
  id_aliases_range :: IndexRange
  id_capabilities_range :: IndexRange
  id_extensions_range :: IndexRange
  id_minVersion :: uint32_t
  id_lastVersion :: uint32_t

record ExtInstDesc =
  ed_value :: uint32_t
  ed_operands_range :: IndexRange
  ed_name_range :: IndexRange
  ed_capabilities_range :: IndexRange

record NameIndex =
  ni_name :: IndexRange
  ni_index :: nat

record NameValue =
  nv_name :: IndexRange
  nv_value :: uint32_t

record grammar =
  kOperandNames :: "NameIndex list"
  kOperandsByValue :: "OperandDesc list"
  kInstructionNames :: "NameIndex list"
  kInstructionDesc :: "InstructionDesc list"
  kExtInstNames :: "NameIndex list"
  kExtInstByValue :: "ExtInstDesc list"
  kExtensionNames :: "NameValue list"
  kStrings :: string
  kAliasSpans :: "IndexRange list"
  kCapabilitySpans :: "uint32_t list"
  kExtensionSpans :: "uint32_t list"
  kOperandSpans :: "spv_operand_type_t list"
  OperandNameRangeForKind :: "spv_operand_type_t \<Rightarrow> IndexRange"
  OperandByValueRangeForKind :: "spv_operand_type_t \<Rightarrow> IndexRange"
  ExtInstNameRangeForKind :: "spv_ext_inst_type_t \<Rightarrow> IndexRange"
  ExtInstByValueRangeForKind :: "spv_ext_inst_type_t \<Rightarrow> IndexRange"
  ExtensionToIndexRange :: "uint32_t \<Rightarrow> IndexRange"

section \<open>Strings\<close>

text \<open>A C string is what lies before the first zero byte. The comparisons are by unsigned bytes.\<close>

definition c_str :: "string \<Rightarrow> string" where
  "c_str s = takeWhile (\<lambda>c. c \<noteq> CHR 0x00) s"

definition bytes :: "string \<Rightarrow> nat list" where
  "bytes s = map of_char s"

definition strcmp :: "string \<Rightarrow> string \<Rightarrow> int" where
  "strcmp s t = (if bytes s < bytes t then -1 else if bytes s = bytes t then 0 else 1)"

definition strncmp :: "string \<Rightarrow> string \<Rightarrow> nat \<Rightarrow> int" where
  "strncmp s t n = strcmp (take n s) (take n t)"

definition getChars :: "'a grammar_scheme \<Rightarrow> IndexRange \<Rightarrow> string" where
  "getChars G ir = c_str (drop (ir_first ir) (kStrings G))"

section \<open>Spans of a description\<close>

definition OperandDesc_operands :: "'a grammar_scheme \<Rightarrow> OperandDesc \<Rightarrow> spv_operand_type_t list" where
  "OperandDesc_operands G d = ir_apply (od_operands_range d) (kOperandSpans G)"

definition OperandDesc_name :: "'a grammar_scheme \<Rightarrow> OperandDesc \<Rightarrow> string" where
  "OperandDesc_name G d = ir_apply (od_name_range d) (kStrings G)"

definition OperandDesc_aliases :: "'a grammar_scheme \<Rightarrow> OperandDesc \<Rightarrow> IndexRange list" where
  "OperandDesc_aliases G d = ir_apply (od_name_range d) (kAliasSpans G)"

definition OperandDesc_capabilities :: "'a grammar_scheme \<Rightarrow> OperandDesc \<Rightarrow> uint32_t list" where
  "OperandDesc_capabilities G d = ir_apply (od_capabilities_range d) (kCapabilitySpans G)"

definition OperandDesc_extensions :: "'a grammar_scheme \<Rightarrow> OperandDesc \<Rightarrow> uint32_t list" where
  "OperandDesc_extensions G d = ir_apply (od_extensions_range d) (kExtensionSpans G)"

definition InstructionDesc_operands ::
  "'a grammar_scheme \<Rightarrow> InstructionDesc \<Rightarrow> spv_operand_type_t list" where
  "InstructionDesc_operands G d = ir_apply (id_operands_range d) (kOperandSpans G)"

definition InstructionDesc_name :: "'a grammar_scheme \<Rightarrow> InstructionDesc \<Rightarrow> string" where
  "InstructionDesc_name G d = ir_apply (id_name_range d) (kStrings G)"

definition InstructionDesc_aliases :: "'a grammar_scheme \<Rightarrow> InstructionDesc \<Rightarrow> IndexRange list" where
  "InstructionDesc_aliases G d = ir_apply (id_name_range d) (kAliasSpans G)"

definition InstructionDesc_capabilities :: "'a grammar_scheme \<Rightarrow> InstructionDesc \<Rightarrow> uint32_t list" where
  "InstructionDesc_capabilities G d = ir_apply (id_capabilities_range d) (kCapabilitySpans G)"

definition InstructionDesc_extensions :: "'a grammar_scheme \<Rightarrow> InstructionDesc \<Rightarrow> uint32_t list" where
  "InstructionDesc_extensions G d = ir_apply (id_extensions_range d) (kExtensionSpans G)"

definition ExtInstDesc_operands :: "'a grammar_scheme \<Rightarrow> ExtInstDesc \<Rightarrow> spv_operand_type_t list" where
  "ExtInstDesc_operands G d = ir_apply (ed_operands_range d) (kOperandSpans G)"

definition ExtInstDesc_name :: "'a grammar_scheme \<Rightarrow> ExtInstDesc \<Rightarrow> string" where
  "ExtInstDesc_name G d = ir_apply (ed_name_range d) (kStrings G)"

definition ExtInstDesc_capabilities :: "'a grammar_scheme \<Rightarrow> ExtInstDesc \<Rightarrow> uint32_t list" where
  "ExtInstDesc_capabilities G d = ir_apply (ed_capabilities_range d) (kCapabilitySpans G)"

section \<open>\<open>std::lower_bound\<close>\<close>

text \<open>
  The library's binary search on the half-open range of \<open>count\<close> elements from \<open>first\<close>; \<open>below x\<close> is
  the comparison of an element with the needle. The result is an index, the length for the end.
\<close>

function lower_bound_loop :: "('a \<Rightarrow> bool) \<Rightarrow> 'a list \<Rightarrow> nat \<Rightarrow> nat \<Rightarrow> nat" where
  "lower_bound_loop below xs first count =
     (if count > 0 then
        let step = count div 2; it = first + step
        in if below (xs ! it) then lower_bound_loop below xs (it + 1) (count - (step + 1))
           else lower_bound_loop below xs first step
      else first)"
  by pat_completeness auto
termination
  by (relation "measure (\<lambda>(below, xs, first, count). count)") auto

declare lower_bound_loop.simps [simp del]

definition lower_bound :: "('a \<Rightarrow> bool) \<Rightarrow> 'a list \<Rightarrow> nat" where
  "lower_bound below xs = lower_bound_loop below xs 0 (length xs)"

section \<open>Lookups\<close>

definition LookupOpcode :: "'a grammar_scheme \<Rightarrow> Op \<Rightarrow> spv_result_t + InstructionDesc" where
  "LookupOpcode G opcode =
     (let tbl = kInstructionDesc G;
          pos = lower_bound (\<lambda>lhs. id_opcode lhs < opcode) tbl
      in if pos \<noteq> length tbl \<and> id_opcode (tbl ! pos) = opcode then Inr (tbl ! pos)
         else Inl SPV_ERROR_INVALID_LOOKUP)"

text \<open>
  In the lookups by name the needle is the entry with the sentinel index, so an element is compared
  through its own string.
\<close>

definition LookupOpcodeByName :: "'a grammar_scheme \<Rightarrow> string \<Rightarrow> spv_result_t + InstructionDesc" where
  "LookupOpcodeByName G name =
     (let tbl = kInstructionNames G;
          pos = lower_bound (\<lambda>lhs. strcmp (getChars G (ni_name lhs)) name < 0) tbl
      in if pos \<noteq> length tbl \<and> strcmp (getChars G (ni_name (tbl ! pos))) name = 0
         then Inr (kInstructionDesc G ! ni_index (tbl ! pos))
         else Inl SPV_ERROR_INVALID_LOOKUP)"

text \<open>\<open>LookupOpcodeForEnvInternal\<close>, given the result of the lookup by either key.\<close>

definition LookupOpcodeForEnvInternal ::
  "spv_target_env \<Rightarrow> spv_result_t + InstructionDesc \<Rightarrow> spv_result_t + InstructionDesc" where
  "LookupOpcodeForEnvInternal env found =
     (case found of
        Inl status \<Rightarrow> Inl status
      | Inr entry \<Rightarrow>
          let version = spvVersionForTargetEnv env
          in if (version \<ge> id_minVersion entry \<and> version \<le> id_lastVersion entry) \<or>
                ir_count (id_extensions_range entry) > 0 \<or>
                ir_count (id_capabilities_range entry) > 0
             then Inr entry
             else Inl SPV_ERROR_INVALID_LOOKUP)"

definition LookupOpcodeForEnv ::
  "'a grammar_scheme \<Rightarrow> spv_target_env \<Rightarrow> Op \<Rightarrow> spv_result_t + InstructionDesc" where
  "LookupOpcodeForEnv G env opcode = LookupOpcodeForEnvInternal env (LookupOpcode G opcode)"

definition LookupOpcodeForEnvByName ::
  "'a grammar_scheme \<Rightarrow> spv_target_env \<Rightarrow> string \<Rightarrow> spv_result_t + InstructionDesc" where
  "LookupOpcodeForEnvByName G env name =
     LookupOpcodeForEnvInternal env (LookupOpcodeByName G name)"

definition LookupOperand ::
  "'a grammar_scheme \<Rightarrow> spv_operand_type_t \<Rightarrow> uint32_t \<Rightarrow> spv_result_t + OperandDesc" where
  "LookupOperand G type value =
     (let ir = OperandByValueRangeForKind G type
      in if ir_empty ir then Inl SPV_ERROR_INVALID_LOOKUP
         else
           let span = ir_apply ir (kOperandsByValue G);
               pos = lower_bound (\<lambda>lhs. od_value lhs < value) span
           in if pos \<noteq> length span \<and> od_value (span ! pos) = value then Inr (span ! pos)
              else Inl SPV_ERROR_INVALID_LOOKUP)"

text \<open>
  \<open>name\<close> with \<open>name_len\<close> is the string of its first \<open>name_len\<close> characters, so \<open>name_len\<close> is the
  length of the argument here.
\<close>

definition operand_name_less :: "'a grammar_scheme \<Rightarrow> string \<Rightarrow> NameIndex \<Rightarrow> bool" where
  "operand_name_less G name lhs =
     (let content_cmp = strncmp (getChars G (ni_name lhs)) name (length name)
      in if content_cmp \<noteq> 0 then content_cmp < 0
         else ir_count (ni_name lhs) - 1 < length name)"

definition LookupOperandByName ::
  "'a grammar_scheme \<Rightarrow> spv_operand_type_t \<Rightarrow> string \<Rightarrow> spv_result_t + OperandDesc" where
  "LookupOperandByName G type name =
     (let ir = OperandNameRangeForKind G type
      in if ir_empty ir then Inl SPV_ERROR_INVALID_LOOKUP
         else
           let span = ir_apply ir (kOperandNames G);
               pos = lower_bound (operand_name_less G name) span
           in if pos \<noteq> length span \<and> ir_count (ni_name (span ! pos)) - 1 = length name \<and>
                 strncmp (getChars G (ni_name (span ! pos))) name (length name) = 0
              then Inr (kOperandsByValue G ! ni_index (span ! pos))
              else Inl SPV_ERROR_INVALID_LOOKUP)"

definition LookupExtInstByName ::
  "'a grammar_scheme \<Rightarrow> spv_ext_inst_type_t \<Rightarrow> string \<Rightarrow> spv_result_t + ExtInstDesc" where
  "LookupExtInstByName G type name =
     (let ir = ExtInstNameRangeForKind G type
      in if ir_empty ir then Inl SPV_ERROR_INVALID_LOOKUP
         else
           let span = ir_apply ir (kExtInstNames G);
               pos = lower_bound (\<lambda>lhs. strcmp (getChars G (ni_name lhs)) name < 0) span
           in if pos \<noteq> length span \<and> strcmp (getChars G (ni_name (span ! pos))) name = 0
              then Inr (kExtInstByValue G ! ni_index (span ! pos))
              else Inl SPV_ERROR_INVALID_LOOKUP)"

definition LookupExtInst ::
  "'a grammar_scheme \<Rightarrow> spv_ext_inst_type_t \<Rightarrow> uint32_t \<Rightarrow> spv_result_t + ExtInstDesc" where
  "LookupExtInst G type value =
     (let ir = ExtInstByValueRangeForKind G type
      in if ir_empty ir then Inl SPV_ERROR_INVALID_LOOKUP
         else
           let span = ir_apply ir (kExtInstByValue G);
               pos = lower_bound (\<lambda>lhs. ed_value lhs < value) span
           in if pos \<noteq> length span \<and> ed_value (span ! pos) = value then Inr (span ! pos)
              else Inl SPV_ERROR_INVALID_LOOKUP)"

definition ExtensionToString :: "'a grammar_scheme \<Rightarrow> uint32_t \<Rightarrow> string" where
  "ExtensionToString G extension = getChars G (ExtensionToIndexRange G extension)"

definition GetExtensionFromString :: "'a grammar_scheme \<Rightarrow> string \<Rightarrow> uint32_t option" where
  "GetExtensionFromString G name =
     (let tbl = kExtensionNames G;
          pos = lower_bound (\<lambda>lhs. strcmp (getChars G (nv_name lhs)) name < 0) tbl
      in if pos \<noteq> length tbl \<and> strcmp (getChars G (nv_name (tbl ! pos))) name = 0
         then Some (nv_value (tbl ! pos))
         else None)"

text \<open>\<open>spvOpcodeString\<close> of \<open>opcode.cpp\<close>: \<open>name().data()\<close> is read as a C string.\<close>

definition spvOpcodeString :: "'a grammar_scheme \<Rightarrow> Op \<Rightarrow> string" where
  "spvOpcodeString G opcode =
     (case LookupOpcode G opcode of
        Inl _ \<Rightarrow> ''unknown''
      | Inr desc \<Rightarrow> c_str (drop (ir_first (id_name_range desc)) (kStrings G)))"

section \<open>Comparing strings\<close>

lemma bytes_inject [simp]: "bytes s = bytes t \<longleftrightarrow> s = t"
  by (simp add: bytes_def inj_map_eq_map [OF inj_of_char_nat])

lemma strcmp_eq_0: "strcmp s t = 0 \<longleftrightarrow> s = t"
  by (auto simp: strcmp_def)

lemma strcmp_less_0: "strcmp s t < 0 \<longleftrightarrow> bytes s < bytes t"
  by (simp add: strcmp_def)

lemma take_less_iff:
  fixes a b :: "'a::linorder list"
  shows "take (length b) a \<noteq> b \<Longrightarrow> take (length b) a < b \<longleftrightarrow> a < b"
proof (induction b arbitrary: a)
  case (Cons x b)
  then show ?case by (cases a) (auto simp: less_list_code)
qed simp

lemma not_less_take:
  fixes a b :: "'a::linorder list"
  shows "take (length b) a = b \<Longrightarrow> \<not> a < b"
proof (induction b arbitrary: a)
  case (Cons x b)
  then show ?case by (cases a) (auto simp: less_list_code)
qed simp

section \<open>Binary search\<close>

lemma lower_bound_loop_unfold:
  "lower_bound_loop below xs first (Suc n) =
    (let it = first + Suc n div 2
     in if below (xs ! it) then lower_bound_loop below xs (Suc it) (n - Suc n div 2)
        else lower_bound_loop below xs first (Suc n div 2))"
  "lower_bound_loop below xs first 0 = first"
  by (simp_all add: lower_bound_loop.simps [of below xs first] Let_def)

lemma lower_bound_loop_le: "lower_bound_loop below xs first count \<le> first + count"
proof (induction count arbitrary: first rule: less_induct)
  case (less count)
  show ?case
  proof (cases count)
    case (Suc n)
    have "lower_bound_loop below xs (Suc (first + Suc n div 2)) (n - Suc n div 2) \<le>
        Suc (first + Suc n div 2) + (n - Suc n div 2)"
      by (rule less.IH) (use Suc in auto)
    moreover have "lower_bound_loop below xs first (Suc n div 2) \<le> first + Suc n div 2"
      by (rule less.IH) (use Suc in auto)
    moreover have "first + Suc n div 2 \<le> first + Suc n"
      "Suc (first + Suc n div 2) + (n - Suc n div 2) \<le> first + Suc n" by auto
    ultimately show ?thesis using Suc unfolding Suc lower_bound_loop_unfold(1) Let_def
      by (auto intro: order_trans)
  qed (simp add: lower_bound_loop_unfold)
qed

lemma lower_bound_le: "lower_bound below xs \<le> length xs"
  using lower_bound_loop_le [of below xs 0 "length xs"] by (simp add: lower_bound_def)

definition splits_at :: "('a \<Rightarrow> bool) \<Rightarrow> 'a list \<Rightarrow> nat \<Rightarrow> bool" where
  "splits_at below xs r \<longleftrightarrow> r \<le> length xs \<and> (\<forall>i<r. below (xs ! i)) \<and>
     (\<forall>i. r \<le> i \<and> i < length xs \<longrightarrow> \<not> below (xs ! i))"

lemma lower_bound_loop_correct:
  assumes mono: "\<And>i j. i \<le> j \<Longrightarrow> j < length xs \<Longrightarrow> below (xs ! j) \<Longrightarrow> below (xs ! i)"
  shows "\<lbrakk>first + count \<le> length xs; \<forall>i<first. below (xs ! i);
    \<forall>i. first + count \<le> i \<and> i < length xs \<longrightarrow> \<not> below (xs ! i)\<rbrakk> \<Longrightarrow>
    splits_at below xs (lower_bound_loop below xs first count)"
proof (induction count arbitrary: first rule: less_induct)
  case (less count)
  show ?case
  proof (cases count)
    case 0
    with less.prems show ?thesis by (simp add: lower_bound_loop_unfold splits_at_def)
  next
    case (Suc n)
    let ?it = "first + Suc n div 2"
    have it: "?it < length xs" "?it < first + count" using Suc less.prems(1) by auto
    show ?thesis
    proof (cases "below (xs ! ?it)")
      case True
      have "splits_at below xs (lower_bound_loop below xs (Suc ?it) (n - Suc n div 2))"
      proof (rule less.IH)
        have eq: "Suc ?it + (n - Suc n div 2) = first + count" using Suc by linarith
        show "Suc ?it + (n - Suc n div 2) \<le> length xs" using eq less.prems(1) by linarith
        show "\<forall>i. Suc ?it + (n - Suc n div 2) \<le> i \<and> i < length xs \<longrightarrow> \<not> below (xs ! i)"
          unfolding eq by (rule less.prems(3))
        show "\<forall>i < Suc ?it. below (xs ! i)"
          using mono [OF _ it(1) True] by (meson less_Suc_eq_le)
      qed (use Suc in linarith)
      with True Suc show ?thesis by (simp only: lower_bound_loop_unfold Let_def if_True)
    next
      case False
      have "splits_at below xs (lower_bound_loop below xs first (Suc n div 2))"
      proof (rule less.IH)
        show "\<forall>i. ?it \<le> i \<and> i < length xs \<longrightarrow> \<not> below (xs ! i)"
          using mono False by blast
      qed (use Suc less.prems(2) it in auto)
      with False Suc show ?thesis by (simp only: lower_bound_loop_unfold Let_def if_False)
    qed
  qed
qed

text \<open>The position found in a table sorted by a key, and the entry there.\<close>

lemma lower_bound_sorted:
  fixes key :: "'a \<Rightarrow> 'k::linorder"
  assumes sorted: "sorted (map key xs)" and p: "p = lower_bound below xs"
    and below: "\<And>x. x \<in> set xs \<Longrightarrow> below x \<longleftrightarrow> key x < k"
  shows "p \<noteq> length xs \<and> key (xs ! p) = k \<longleftrightarrow> k \<in> key ` set xs"
    and "p \<le> length xs"
proof -
  have le: "key (xs ! i) \<le> key (xs ! j)" if "i \<le> j" "j < length xs" for i j
    using sorted_nth_mono [OF sorted that(1)] that by simp
  have nth: "below (xs ! i) \<longleftrightarrow> key (xs ! i) < k" if "i < length xs" for i
    using below that by simp
  have "splits_at below xs (lower_bound_loop below xs 0 (length xs))"
  proof (rule lower_bound_loop_correct)
    fix i j assume "i \<le> j" "j < length xs" "below (xs ! j)"
    then show "below (xs ! i)" using le [of i j] nth [of j] nth [of i] by auto
  qed auto
  then have *: "p \<le> length xs" "\<forall>i<p. below (xs ! i)"
      "\<forall>i. p \<le> i \<and> i < length xs \<longrightarrow> \<not> below (xs ! i)"
    using p by (auto simp: splits_at_def lower_bound_def)
  then show "p \<le> length xs" by blast
  show "p \<noteq> length xs \<and> key (xs ! p) = k \<longleftrightarrow> k \<in> key ` set xs"
  proof
    assume "p \<noteq> length xs \<and> key (xs ! p) = k"
    then show "k \<in> key ` set xs" using * by (metis imageI le_neq_implies_less nth_mem)
  next
    assume "k \<in> key ` set xs"
    then obtain i where i: "i < length xs" "key (xs ! i) = k" by (auto simp: in_set_conv_nth)
    then have "\<not> i < p" using *(2) nth [of i] by auto
    then have "p \<le> i" "p < length xs" using i by simp_all
    moreover have "key (xs ! p) \<le> k" using le [OF \<open>p \<le> i\<close> i(1)] i(2) by simp
    moreover have "\<not> key (xs ! p) < k" using *(3) nth \<open>p < length xs\<close> by blast
    ultimately show "p \<noteq> length xs \<and> key (xs ! p) = k" by auto
  qed
qed

text \<open>A lookup that tests the entry at the lower bound finds an entry with the key if there is one.\<close>

definition find_by :: "('a \<Rightarrow> bool) \<Rightarrow> ('a \<Rightarrow> bool) \<Rightarrow> 'a list \<Rightarrow> 'a option" where
  "find_by below hit xs =
     (let p = lower_bound below xs in if p \<noteq> length xs \<and> hit (xs ! p) then Some (xs ! p) else None)"

lemma find_by_sorted:
  fixes key :: "'a \<Rightarrow> 'k::linorder"
  assumes "sorted (map key xs)" "\<And>x. x \<in> set xs \<Longrightarrow> below x \<longleftrightarrow> key x < k"
    and hit: "\<And>x. x \<in> set xs \<Longrightarrow> hit x \<longleftrightarrow> key x = k"
  shows "case find_by below hit xs of
      None \<Rightarrow> k \<notin> key ` set xs
    | Some x \<Rightarrow> x \<in> set xs \<and> key x = k"
proof -
  define p where "p = lower_bound below xs"
  note * = lower_bound_sorted [OF assms(1) p_def assms(2)]
  have "find_by below hit xs = (if p \<noteq> length xs \<and> hit (xs ! p) then Some (xs ! p) else None)"
    by (simp add: find_by_def p_def)
  moreover have "p < length xs \<Longrightarrow> hit (xs ! p) \<longleftrightarrow> key (xs ! p) = k" using hit by simp
  ultimately show ?thesis
    using * by (cases "p = length xs") auto
qed

section \<open>What the tables guarantee\<close>

definition names_ok :: "'a grammar_scheme \<Rightarrow> NameIndex list \<Rightarrow> nat \<Rightarrow> bool" where
  "names_ok G names n \<longleftrightarrow>
     sorted (map (\<lambda>e. bytes (getChars G (ni_name e))) names) \<and>
     (\<forall>e \<in> set names. ni_index e < n \<and> ir_count (ni_name e) = length (getChars G (ni_name e)) + 1)"

definition values_ok :: "'a grammar_scheme \<Rightarrow> bool" where
  "values_ok G \<longleftrightarrow>
     sorted (map id_opcode (kInstructionDesc G)) \<and>
     (\<forall>type. sorted (map od_value (ir_apply (OperandByValueRangeForKind G type) (kOperandsByValue G)))) \<and>
     (\<forall>type. sorted (map ed_value (ir_apply (ExtInstByValueRangeForKind G type) (kExtInstByValue G))))"

definition grammar_ok :: "'a grammar_scheme \<Rightarrow> bool" where
  "grammar_ok G \<longleftrightarrow> values_ok G \<and>
     names_ok G (kInstructionNames G) (length (kInstructionDesc G)) \<and>
     (\<forall>type. names_ok G (ir_apply (OperandNameRangeForKind G type) (kOperandNames G))
        (length (kOperandsByValue G))) \<and>
     (\<forall>type. names_ok G (ir_apply (ExtInstNameRangeForKind G type) (kExtInstNames G))
        (length (kExtInstByValue G)))"

lemma ir_apply_empty: "ir_empty ir \<Longrightarrow> ir_apply ir xs = []"
  by (simp add: ir_empty_def ir_apply_def)

lemma lower_bound_Nil [simp]: "lower_bound below [] = 0"
  by (simp add: lower_bound_def lower_bound_loop_unfold)

lemma find_by_Nil: "find_by below hit [] = None"
  by (simp add: find_by_def)

lemma LookupOpcode_find:
  "LookupOpcode G opcode = (case find_by (\<lambda>d. id_opcode d < opcode) (\<lambda>d. id_opcode d = opcode)
     (kInstructionDesc G) of None \<Rightarrow> Inl SPV_ERROR_INVALID_LOOKUP | Some d \<Rightarrow> Inr d)"
  by (simp add: LookupOpcode_def find_by_def Let_def)

lemma LookupOperand_find:
  "LookupOperand G t v = (case find_by (\<lambda>d. od_value d < v) (\<lambda>d. od_value d = v)
     (ir_apply (OperandByValueRangeForKind G t) (kOperandsByValue G)) of
       None \<Rightarrow> Inl SPV_ERROR_INVALID_LOOKUP | Some d \<Rightarrow> Inr d)"
  by (cases "ir_empty (OperandByValueRangeForKind G t)")
    (simp_all add: LookupOperand_def ir_apply_empty find_by_Nil find_by_def Let_def)

lemma LookupExtInst_find:
  "LookupExtInst G t v = (case find_by (\<lambda>d. ed_value d < v) (\<lambda>d. ed_value d = v)
     (ir_apply (ExtInstByValueRangeForKind G t) (kExtInstByValue G)) of
       None \<Rightarrow> Inl SPV_ERROR_INVALID_LOOKUP | Some d \<Rightarrow> Inr d)"
  by (cases "ir_empty (ExtInstByValueRangeForKind G t)")
    (simp_all add: LookupExtInst_def ir_apply_empty find_by_Nil find_by_def Let_def)

lemma find_by_index:
  assumes "names_ok G names n"
  shows "case find_by (\<lambda>e. bytes (getChars G (ni_name e)) < bytes name)
      (\<lambda>e. getChars G (ni_name e) = name) names of
      None \<Rightarrow> \<forall>e \<in> set names. getChars G (ni_name e) \<noteq> name
    | Some e \<Rightarrow> e \<in> set names \<and> getChars G (ni_name e) = name \<and> ni_index e < n"
proof -
  have "sorted (map (\<lambda>e. bytes (getChars G (ni_name e))) names)"
    using assms by (simp add: names_ok_def)
  from find_by_sorted [OF this, of "\<lambda>e. bytes (getChars G (ni_name e)) < bytes name" "bytes name"
      "\<lambda>e. getChars G (ni_name e) = name"]
  show ?thesis using assms by (auto simp: names_ok_def image_iff split: option.splits)
qed

lemma find_by_cong:
  assumes "\<And>x. x \<in> set xs \<Longrightarrow> below x = below' x" "\<And>x. x \<in> set xs \<Longrightarrow> hit x = hit' x"
  shows "find_by below hit xs = find_by below' hit' xs"
proof -
  have "lower_bound_loop below xs f c = lower_bound_loop below' xs f c" if "f + c \<le> length xs" for f c
    using that
  proof (induction c arbitrary: f rule: less_induct)
    case (less c)
    show ?case
    proof (cases c)
      case 0
      then show ?thesis by (simp add: lower_bound_loop_unfold)
    next
      case (Suc n)
      have "f + Suc n div 2 < length xs" using less.prems Suc by auto
      then have "below (xs ! (f + Suc n div 2)) = below' (xs ! (f + Suc n div 2))"
        using assms(1) by simp
      moreover have "lower_bound_loop below xs (Suc (f + Suc n div 2)) (n - Suc n div 2) =
          lower_bound_loop below' xs (Suc (f + Suc n div 2)) (n - Suc n div 2)"
        by (rule less.IH) (use Suc less.prems in auto)
      moreover have "lower_bound_loop below xs f (Suc n div 2) = lower_bound_loop below' xs f (Suc n div 2)"
        by (rule less.IH) (use Suc less.prems in auto)
      ultimately show ?thesis using Suc by (simp only: lower_bound_loop_unfold Let_def)
    qed
  qed
  then have "lower_bound below xs = lower_bound below' xs" by (simp add: lower_bound_def)
  moreover have "lower_bound below xs \<le> length xs" by (rule lower_bound_le)
  ultimately show ?thesis using assms(2) by (auto simp: find_by_def Let_def)
qed

definition by_name :: "'a grammar_scheme \<Rightarrow> NameIndex list \<Rightarrow> string \<Rightarrow> NameIndex option" where
  "by_name G names name = find_by (\<lambda>e. bytes (getChars G (ni_name e)) < bytes name)
     (\<lambda>e. getChars G (ni_name e) = name) names"

lemma LookupOpcodeByName_find:
  "LookupOpcodeByName G name = (case by_name G (kInstructionNames G) name of
     None \<Rightarrow> Inl SPV_ERROR_INVALID_LOOKUP | Some e \<Rightarrow> Inr (kInstructionDesc G ! ni_index e))"
  by (simp add: LookupOpcodeByName_def by_name_def find_by_def Let_def strcmp_eq_0 strcmp_less_0)

lemma LookupExtInstByName_find:
  "LookupExtInstByName G t name =
    (case by_name G (ir_apply (ExtInstNameRangeForKind G t) (kExtInstNames G)) name of
       None \<Rightarrow> Inl SPV_ERROR_INVALID_LOOKUP | Some e \<Rightarrow> Inr (kExtInstByValue G ! ni_index e))"
  by (cases "ir_empty (ExtInstNameRangeForKind G t)")
    (simp_all add: LookupExtInstByName_def ir_apply_empty by_name_def find_by_Nil find_by_def Let_def
      strcmp_eq_0 strcmp_less_0)

lemma operand_name_less_bytes:
  assumes "ir_count (ni_name e) = length (getChars G (ni_name e)) + 1"
  shows "operand_name_less G name e \<longleftrightarrow> bytes (getChars G (ni_name e)) < bytes name"
proof -
  let ?a = "getChars G (ni_name e)"
  have take: "take (length name) (bytes ?a) = bytes (take (length name) ?a)"
    by (simp add: bytes_def take_map)
  have len: "length (bytes name) = length name" by (simp add: bytes_def)
  show ?thesis
  proof (cases "take (length name) ?a = name")
    case True
    then have "\<not> length ?a < length name" by auto
    moreover have "\<not> bytes ?a < bytes name"
      using not_less_take [of "bytes name" "bytes ?a"] True take len by simp
    ultimately show ?thesis
      using True assms by (simp add: operand_name_less_def strncmp_def strcmp_eq_0)
  next
    case False
    then show ?thesis
      using take_less_iff [of "bytes name" "bytes ?a"] take len
      by (simp add: operand_name_less_def strncmp_def strcmp_eq_0 strcmp_less_0 Let_def)
  qed
qed

lemma LookupOperandByName_find:
  assumes "names_ok G (ir_apply (OperandNameRangeForKind G t) (kOperandNames G)) n"
  shows "LookupOperandByName G t name =
    (case by_name G (ir_apply (OperandNameRangeForKind G t) (kOperandNames G)) name of
       None \<Rightarrow> Inl SPV_ERROR_INVALID_LOOKUP | Some e \<Rightarrow> Inr (kOperandsByValue G ! ni_index e))"
proof -
  let ?span = "ir_apply (OperandNameRangeForKind G t) (kOperandNames G)"
  let ?hit = "\<lambda>e. ir_count (ni_name e) - 1 = length name \<and>
      strncmp (getChars G (ni_name e)) name (length name) = 0"
  have count: "ir_count (ni_name e) = length (getChars G (ni_name e)) + 1" if "e \<in> set ?span" for e
    using assms that by (simp add: names_ok_def)
  have "find_by (operand_name_less G name) ?hit ?span = by_name G ?span name"
    unfolding by_name_def
  proof (rule find_by_cong)
    fix e assume "e \<in> set ?span"
    note c = count [OF this]
    show "operand_name_less G name e = (bytes (getChars G (ni_name e)) < bytes name)"
      using c by (rule operand_name_less_bytes)
    show "?hit e = (getChars G (ni_name e) = name)"
      using c by (auto simp: strncmp_def strcmp_eq_0)
  qed
  moreover have "LookupOperandByName G t name = (case find_by (operand_name_less G name) ?hit ?span of
       None \<Rightarrow> Inl SPV_ERROR_INVALID_LOOKUP | Some e \<Rightarrow> Inr (kOperandsByValue G ! ni_index e))"
    by (cases "ir_empty (OperandNameRangeForKind G t)")
      (simp_all add: LookupOperandByName_def ir_apply_empty find_by_Nil find_by_def Let_def)
  ultimately show ?thesis by simp
qed

section \<open>Example tables\<close>

text \<open>Small tables in the shape of those the repository ships, used to show that the hypotheses can hold.\<close>

definition no_range :: IndexRange where
  "no_range = \<lparr>ir_first = 0, ir_count = 0\<rparr>"

definition small_grammar :: grammar where
  "small_grammar =
    \<lparr>kOperandNames = [\<lparr>ni_name = \<lparr>ir_first = 8, ir_count = 6\<rparr>, ni_index = 1\<rparr>,
        \<lparr>ni_name = \<lparr>ir_first = 14, ir_count = 7\<rparr>, ni_index = 0\<rparr>],
     kOperandsByValue = [
        \<lparr>od_value = 1, od_operands_range = no_range, od_name_range = \<lparr>ir_first = 14, ir_count = 7\<rparr>,
         od_aliases_range = no_range, od_capabilities_range = no_range,
         od_extensions_range = no_range, od_minVersion = 0x10000, od_lastVersion = 0xffffffff\<rparr>,
        \<lparr>od_value = 4, od_operands_range = \<lparr>ir_first = 4, ir_count = 1\<rparr>,
         od_name_range = \<lparr>ir_first = 8, ir_count = 6\<rparr>, od_aliases_range = no_range,
         od_capabilities_range = no_range, od_extensions_range = no_range,
         od_minVersion = 0x10600, od_lastVersion = 0xffffffff\<rparr>],
     kInstructionNames = [\<lparr>ni_name = \<lparr>ir_first = 0, ir_count = 4\<rparr>, ni_index = 0\<rparr>,
        \<lparr>ni_name = \<lparr>ir_first = 21, ir_count = 8\<rparr>, ni_index = 1\<rparr>],
     kInstructionDesc = [
        \<lparr>id_opcode = 0, id_hasResult = False, id_hasType = False,
         id_operands_range = no_range, id_name_range = \<lparr>ir_first = 0, ir_count = 4\<rparr>,
         id_aliases_range = no_range, id_capabilities_range = no_range,
         id_extensions_range = no_range, id_minVersion = 0x10000, id_lastVersion = 0xffffffff\<rparr>,
        \<lparr>id_opcode = OpTypeInt, id_hasResult = True, id_hasType = False,
         id_operands_range = \<lparr>ir_first = 0, ir_count = 3\<rparr>,
         id_name_range = \<lparr>ir_first = 21, ir_count = 8\<rparr>,
         id_aliases_range = no_range, id_capabilities_range = no_range,
         id_extensions_range = no_range, id_minVersion = 0x10000, id_lastVersion = 0xffffffff\<rparr>],
     kExtInstNames = [], kExtInstByValue = [], kExtensionNames = [],
     kStrings = ''Nop'' @ [CHR 0x00] @ ''   '' @ [CHR 0x00] @ ''Const'' @ [CHR 0x00] @
        ''Inline'' @ [CHR 0x00] @ ''TypeInt'' @ [CHR 0x00],
     kAliasSpans = [], kCapabilitySpans = [], kExtensionSpans = [],
     kOperandSpans = [SPV_OPERAND_TYPE_RESULT_ID, SPV_OPERAND_TYPE_LITERAL_INTEGER,
        SPV_OPERAND_TYPE_LITERAL_INTEGER, SPV_OPERAND_TYPE_NONE, SPV_OPERAND_TYPE_ID],
     OperandNameRangeForKind = (\<lambda>type.
        if type = SPV_OPERAND_TYPE_FUNCTION_CONTROL then \<lparr>ir_first = 0, ir_count = 2\<rparr> else no_range),
     OperandByValueRangeForKind = (\<lambda>type.
        if type = SPV_OPERAND_TYPE_FUNCTION_CONTROL then \<lparr>ir_first = 0, ir_count = 2\<rparr> else no_range),
     ExtInstNameRangeForKind = (\<lambda>_. no_range),
     ExtInstByValueRangeForKind = (\<lambda>_. no_range),
     ExtensionToIndexRange = (\<lambda>_. no_range)\<rparr>"

lemma small_grammar_chars:
  "getChars small_grammar \<lparr>ir_first = 8, ir_count = 6\<rparr> = ''Const''"
  "getChars small_grammar \<lparr>ir_first = 14, ir_count = 7\<rparr> = ''Inline''"
  "getChars small_grammar \<lparr>ir_first = 0, ir_count = 4\<rparr> = ''Nop''"
  "getChars small_grammar \<lparr>ir_first = 21, ir_count = 8\<rparr> = ''TypeInt''"
  by (simp_all add: getChars_def c_str_def small_grammar_def)

lemma small_grammar_function_control:
  "ir_apply (OperandNameRangeForKind small_grammar SPV_OPERAND_TYPE_FUNCTION_CONTROL)
     (kOperandNames small_grammar) =
   [\<lparr>ni_name = \<lparr>ir_first = 8, ir_count = 6\<rparr>, ni_index = 1\<rparr>,
    \<lparr>ni_name = \<lparr>ir_first = 14, ir_count = 7\<rparr>, ni_index = 0\<rparr>]"
  by (simp add: small_grammar_def ir_apply_def)

lemma small_grammar_names:
  "kInstructionNames small_grammar = [\<lparr>ni_name = \<lparr>ir_first = 0, ir_count = 4\<rparr>, ni_index = 0\<rparr>,
     \<lparr>ni_name = \<lparr>ir_first = 21, ir_count = 8\<rparr>, ni_index = 1\<rparr>]"
  by (simp add: small_grammar_def)

lemma small_grammar_ok: "grammar_ok small_grammar"
proof -
  have spans: "ir_apply (OperandNameRangeForKind small_grammar t) (kOperandNames small_grammar) =
      (if t = SPV_OPERAND_TYPE_FUNCTION_CONTROL
       then [\<lparr>ni_name = \<lparr>ir_first = 8, ir_count = 6\<rparr>, ni_index = 1\<rparr>,
             \<lparr>ni_name = \<lparr>ir_first = 14, ir_count = 7\<rparr>, ni_index = 0\<rparr>] else [])"
    "map od_value (ir_apply (OperandByValueRangeForKind small_grammar t) (kOperandsByValue small_grammar)) =
      (if t = SPV_OPERAND_TYPE_FUNCTION_CONTROL then [1, 4] else [])" for t
    by (simp_all add: small_grammar_def ir_apply_def no_range_def)
  have rest: "map id_opcode (kInstructionDesc small_grammar) = [0, OpTypeInt]"
    "length (kInstructionDesc small_grammar) = 2" "length (kOperandsByValue small_grammar) = 2"
    "ir_apply (ExtInstByValueRangeForKind small_grammar et) (kExtInstByValue small_grammar) = []"
    "ir_apply (ExtInstNameRangeForKind small_grammar et) (kExtInstNames small_grammar) = []" for et
    by (simp_all add: small_grammar_def ir_apply_def)
  show ?thesis
    unfolding grammar_ok_def values_ok_def names_ok_def rest spans small_grammar_names
    by (auto simp: small_grammar_chars bytes_def less_list_code less_eq_list_code)
qed

section \<open>Properties\<close>

lemma values_ok_LookupOpcode:
  assumes "values_ok G"
  shows "case LookupOpcode G opcode of
      Inl e \<Rightarrow> e = SPV_ERROR_INVALID_LOOKUP \<and> opcode \<notin> id_opcode ` set (kInstructionDesc G)
    | Inr d \<Rightarrow> d \<in> set (kInstructionDesc G) \<and> id_opcode d = opcode"
proof -
  have "sorted (map id_opcode (kInstructionDesc G))" using assms by (simp add: values_ok_def)
  from find_by_sorted [OF this, of "\<lambda>d. id_opcode d < opcode" opcode "\<lambda>d. id_opcode d = opcode"]
  show ?thesis by (auto simp: LookupOpcode_find split: option.splits)
qed

lemma values_ok_LookupOperand:
  assumes "values_ok G"
  shows "case LookupOperand G t v of
      Inl e \<Rightarrow> e = SPV_ERROR_INVALID_LOOKUP \<and>
        v \<notin> od_value ` set (ir_apply (OperandByValueRangeForKind G t) (kOperandsByValue G))
    | Inr d \<Rightarrow> d \<in> set (ir_apply (OperandByValueRangeForKind G t) (kOperandsByValue G)) \<and> od_value d = v"
proof -
  have "sorted (map od_value (ir_apply (OperandByValueRangeForKind G t) (kOperandsByValue G)))"
    using assms by (simp add: values_ok_def)
  from find_by_sorted [OF this, of "\<lambda>d. od_value d < v" v "\<lambda>d. od_value d = v"]
  show ?thesis by (auto simp: LookupOperand_find split: option.splits)
qed

lemma values_ok_LookupExtInst:
  assumes "values_ok G"
  shows "case LookupExtInst G et v of
      Inl e \<Rightarrow> e = SPV_ERROR_INVALID_LOOKUP \<and>
        v \<notin> ed_value ` set (ir_apply (ExtInstByValueRangeForKind G et) (kExtInstByValue G))
    | Inr d \<Rightarrow> d \<in> set (ir_apply (ExtInstByValueRangeForKind G et) (kExtInstByValue G)) \<and> ed_value d = v"
proof -
  have "sorted (map ed_value (ir_apply (ExtInstByValueRangeForKind G et) (kExtInstByValue G)))"
    using assms by (simp add: values_ok_def)
  from find_by_sorted [OF this, of "\<lambda>d. ed_value d < v" v "\<lambda>d. ed_value d = v"]
  show ?thesis by (auto simp: LookupExtInst_find split: option.splits)
qed

text \<open>C21: with the tables in the order their comments document, the lookup of an instruction, of an
  operand of a kind and of an extended instruction of a set by number returns a description with
  that number from the right part of the table whenever there is one, and reports an invalid lookup
  exactly when there is none.\<close>

theorem lookup_by_value:
  assumes "values_ok G"
  shows "(case LookupOpcode G opcode of
        Inl e \<Rightarrow> e = SPV_ERROR_INVALID_LOOKUP \<and> opcode \<notin> id_opcode ` set (kInstructionDesc G)
      | Inr d \<Rightarrow> d \<in> set (kInstructionDesc G) \<and> id_opcode d = opcode) \<and>
    (case LookupOperand G t v of
        Inl e \<Rightarrow> e = SPV_ERROR_INVALID_LOOKUP \<and>
          v \<notin> od_value ` set (ir_apply (OperandByValueRangeForKind G t) (kOperandsByValue G))
      | Inr d \<Rightarrow> d \<in> set (ir_apply (OperandByValueRangeForKind G t) (kOperandsByValue G)) \<and> od_value d = v) \<and>
    (case LookupExtInst G et v of
        Inl e \<Rightarrow> e = SPV_ERROR_INVALID_LOOKUP \<and>
          v \<notin> ed_value ` set (ir_apply (ExtInstByValueRangeForKind G et) (kExtInstByValue G))
      | Inr d \<Rightarrow> d \<in> set (ir_apply (ExtInstByValueRangeForKind G et) (kExtInstByValue G)) \<and> ed_value d = v)"
  using values_ok_LookupOpcode [OF assms] values_ok_LookupOperand [OF assms]
    values_ok_LookupExtInst [OF assms] by (intro conjI)

lemma small_values_ok: "values_ok small_grammar"
  using small_grammar_ok by (simp add: grammar_ok_def)

lemma small_grammar_has_TypeInt: "OpTypeInt \<in> id_opcode ` set (kInstructionDesc small_grammar)"
  by (simp add: small_grammar_def)

theorem lookup_by_value_witness:
  "case LookupOpcode small_grammar OpTypeInt of Inl _ \<Rightarrow> False | Inr d \<Rightarrow> id_opcode d = OpTypeInt"
  using lookup_by_value [OF small_values_ok, of OpTypeInt] small_grammar_has_TypeInt
  by (auto split: sum.splits)

text \<open>C24: with the tables in the order their comments document, the lookup of an instruction, of an
  operand of a kind (whose name is given with a length, and compared up to that length first) and
  of an extended instruction by name returns the description that the name's entry indexes, within
  the table of descriptions, and reports an invalid lookup exactly when no entry has the name.\<close>

theorem lookup_by_name:
  assumes "grammar_ok G"
  shows "(case LookupOpcodeByName G name of
        Inl e \<Rightarrow> e = SPV_ERROR_INVALID_LOOKUP \<and>
          (\<forall>n \<in> set (kInstructionNames G). getChars G (ni_name n) \<noteq> name)
      | Inr d \<Rightarrow> \<exists>n \<in> set (kInstructionNames G). getChars G (ni_name n) = name \<and>
          ni_index n < length (kInstructionDesc G) \<and> d = kInstructionDesc G ! ni_index n) \<and>
    (case LookupOperandByName G t name of
        Inl e \<Rightarrow> e = SPV_ERROR_INVALID_LOOKUP \<and>
          (\<forall>n \<in> set (ir_apply (OperandNameRangeForKind G t) (kOperandNames G)). getChars G (ni_name n) \<noteq> name)
      | Inr d \<Rightarrow> \<exists>n \<in> set (ir_apply (OperandNameRangeForKind G t) (kOperandNames G)).
          getChars G (ni_name n) = name \<and>
          ni_index n < length (kOperandsByValue G) \<and> d = kOperandsByValue G ! ni_index n) \<and>
    (case LookupExtInstByName G et name of
        Inl e \<Rightarrow> e = SPV_ERROR_INVALID_LOOKUP \<and>
          (\<forall>n \<in> set (ir_apply (ExtInstNameRangeForKind G et) (kExtInstNames G)). getChars G (ni_name n) \<noteq> name)
      | Inr d \<Rightarrow> \<exists>n \<in> set (ir_apply (ExtInstNameRangeForKind G et) (kExtInstNames G)).
          getChars G (ni_name n) = name \<and>
          ni_index n < length (kExtInstByValue G) \<and> d = kExtInstByValue G ! ni_index n)"
proof -
  have ok: "names_ok G (kInstructionNames G) (length (kInstructionDesc G))"
    "names_ok G (ir_apply (OperandNameRangeForKind G t) (kOperandNames G)) (length (kOperandsByValue G))"
    "names_ok G (ir_apply (ExtInstNameRangeForKind G et) (kExtInstNames G)) (length (kExtInstByValue G))"
    using assms by (auto simp: grammar_ok_def)
  show ?thesis
    using find_by_index [OF ok(1), of name] find_by_index [OF ok(2), of name]
      find_by_index [OF ok(3), of name]
    by (intro conjI; simp only: LookupOpcodeByName_find LookupOperandByName_find [OF ok(2)]
        LookupExtInstByName_find by_name_def [symmetric]) (auto split: option.splits)
qed

theorem lookup_by_name_witness:
  "case LookupOperandByName small_grammar SPV_OPERAND_TYPE_FUNCTION_CONTROL ''Inline'' of
     Inl _ \<Rightarrow> False
   | Inr d \<Rightarrow> d = kOperandsByValue small_grammar ! 0"
  using lookup_by_name [OF small_grammar_ok, where name = "''Inline''" and
      t = SPV_OPERAND_TYPE_FUNCTION_CONTROL and et = SPV_EXT_INST_TYPE_NONE]
  by (auto simp: small_grammar_function_control small_grammar_chars split: sum.splits)

end
