(* ===== verification/Operands.thy ===== *)
theory Operands
  imports Grammar Opcodes
begin

text \<open>
  \<open>src/ShaderCompiler/src/spirv-tools/operand.cpp\<close>: the classes of operand types, the stack of
  operand types the parsers still expect, and which operands may name an id before it is defined.
  A pattern is the vector of the code, so the operand expected next is its last element.
\<close>

declare push_bit_of_1 [simp del]

section \<open>Classes of operand types\<close>

text \<open>\<open>spvOperandTypeStr\<close>, its \<open>switch\<close> cut in two where the debug information types begin.\<close>

definition spvOperandTypeStr_rest :: "spv_operand_type_t \<Rightarrow> string" where
  "spvOperandTypeStr_rest type =
     (if type = SPV_OPERAND_TYPE_DEBUG_INFO_FLAGS
      then ''debug info flags''
      else if type = SPV_OPERAND_TYPE_DEBUG_BASE_TYPE_ATTRIBUTE_ENCODING
      then ''debug base type encoding''
      else if type = SPV_OPERAND_TYPE_DEBUG_COMPOSITE_TYPE
      then ''debug composite type''
      else if type = SPV_OPERAND_TYPE_DEBUG_TYPE_QUALIFIER
      then ''debug type qualifier''
      else if type = SPV_OPERAND_TYPE_DEBUG_OPERATION
      then ''debug operation''
      else if type = SPV_OPERAND_TYPE_CLDEBUG100_DEBUG_INFO_FLAGS
      then ''OpenCL.DebugInfo.100 debug info flags''
      else if type = SPV_OPERAND_TYPE_CLDEBUG100_DEBUG_BASE_TYPE_ATTRIBUTE_ENCODING
      then ''OpenCL.DebugInfo.100 debug base type encoding''
      else if type = SPV_OPERAND_TYPE_CLDEBUG100_DEBUG_COMPOSITE_TYPE
      then ''OpenCL.DebugInfo.100 debug composite type''
      else if type = SPV_OPERAND_TYPE_CLDEBUG100_DEBUG_TYPE_QUALIFIER
      then ''OpenCL.DebugInfo.100 debug type qualifier''
      else if type = SPV_OPERAND_TYPE_CLDEBUG100_DEBUG_OPERATION
      then ''OpenCL.DebugInfo.100 debug operation''
      else if type = SPV_OPERAND_TYPE_CLDEBUG100_DEBUG_IMPORTED_ENTITY
      then ''OpenCL.DebugInfo.100 debug imported entity''
      else if type \<in> {SPV_OPERAND_TYPE_FPENCODING, SPV_OPERAND_TYPE_OPTIONAL_FPENCODING}
      then ''FP encoding''
      else if type = SPV_OPERAND_TYPE_IMAGE_CHANNEL_ORDER
      then ''image channel order''
      else if type = SPV_OPERAND_TYPE_IMAGE_CHANNEL_DATA_TYPE
      then ''image channel data type''
      else if type = SPV_OPERAND_TYPE_FPDENORM_MODE
      then ''FP denorm mode''
      else if type = SPV_OPERAND_TYPE_FPOPERATION_MODE
      then ''FP operation mode''
      else if type = SPV_OPERAND_TYPE_QUANTIZATION_MODES
      then ''quantization mode''
      else if type = SPV_OPERAND_TYPE_OVERFLOW_MODES
      then ''overflow mode''
      else if type = SPV_OPERAND_TYPE_COOPERATIVE_VECTOR_MATRIX_LAYOUT
      then ''cooperative vector matrix layout''
      else if type = SPV_OPERAND_TYPE_COMPONENT_TYPE
      then ''component type''
      else if type = SPV_OPERAND_TYPE_KERNEL_PROPERTY_FLAGS
      then ''kernel property flags''
      else if type = SPV_OPERAND_TYPE_SHDEBUG100_BUILD_IDENTIFIER_FLAGS
      then ''NonSemantic.Shader.DebugInfo.100 debug build identifier flags''
      else if type = SPV_OPERAND_TYPE_SHDEBUG100_DEBUG_BASE_TYPE_ATTRIBUTE_ENCODING
      then ''NonSemantic.Shader.DebugInfo.100 debug base type attribute encoding''
      else if type = SPV_OPERAND_TYPE_SHDEBUG100_DEBUG_COMPOSITE_TYPE
      then ''NonSemantic.Shader.DebugInfo.100 debug composite type''
      else if type = SPV_OPERAND_TYPE_SHDEBUG100_DEBUG_IMPORTED_ENTITY
      then ''NonSemantic.Shader.DebugInfo.100 debug imported entity''
      else if type = SPV_OPERAND_TYPE_SHDEBUG100_DEBUG_INFO_FLAGS
      then ''NonSemantic.Shader.DebugInfo.100 debug info flags''
      else if type = SPV_OPERAND_TYPE_SHDEBUG100_DEBUG_OPERATION
      then ''NonSemantic.Shader.DebugInfo.100 debug operation''
      else if type = SPV_OPERAND_TYPE_SHDEBUG100_DEBUG_TYPE_QUALIFIER
      then ''NonSemantic.Shader.DebugInfo.100 debug type qualifier''
      else if type = SPV_OPERAND_TYPE_NONE
      then ''NONE''
      else ''unknown'')"

definition spvOperandTypeStr :: "spv_operand_type_t \<Rightarrow> string" where
  "spvOperandTypeStr type =
     (if type \<in> {SPV_OPERAND_TYPE_ID, SPV_OPERAND_TYPE_OPTIONAL_ID}
      then ''ID''
      else if type = SPV_OPERAND_TYPE_TYPE_ID
      then ''type ID''
      else if type = SPV_OPERAND_TYPE_RESULT_ID
      then ''result ID''
      else if type \<in> {SPV_OPERAND_TYPE_LITERAL_INTEGER, SPV_OPERAND_TYPE_OPTIONAL_LITERAL_INTEGER,
            SPV_OPERAND_TYPE_OPTIONAL_LITERAL_NUMBER, SPV_OPERAND_TYPE_LITERAL_FLOAT}
      then ''literal number''
      else if type = SPV_OPERAND_TYPE_OPTIONAL_TYPED_LITERAL_INTEGER
      then ''possibly multi-word literal integer''
      else if type = SPV_OPERAND_TYPE_TYPED_LITERAL_NUMBER
      then ''possibly multi-word literal number''
      else if type = SPV_OPERAND_TYPE_EXTENSION_INSTRUCTION_NUMBER
      then ''extension instruction number''
      else if type = SPV_OPERAND_TYPE_SPEC_CONSTANT_OP_NUMBER
      then ''OpSpecConstantOp opcode''
      else if type \<in> {SPV_OPERAND_TYPE_LITERAL_STRING, SPV_OPERAND_TYPE_OPTIONAL_LITERAL_STRING}
      then ''literal string''
      else if type = SPV_OPERAND_TYPE_SOURCE_LANGUAGE
      then ''source language''
      else if type = SPV_OPERAND_TYPE_EXECUTION_MODEL
      then ''execution model''
      else if type = SPV_OPERAND_TYPE_ADDRESSING_MODEL
      then ''addressing model''
      else if type = SPV_OPERAND_TYPE_MEMORY_MODEL
      then ''memory model''
      else if type = SPV_OPERAND_TYPE_EXECUTION_MODE
      then ''execution mode''
      else if type = SPV_OPERAND_TYPE_STORAGE_CLASS
      then ''storage class''
      else if type = SPV_OPERAND_TYPE_DIMENSIONALITY
      then ''dimensionality''
      else if type = SPV_OPERAND_TYPE_SAMPLER_ADDRESSING_MODE
      then ''sampler addressing mode''
      else if type = SPV_OPERAND_TYPE_SAMPLER_FILTER_MODE
      then ''sampler filter mode''
      else if type = SPV_OPERAND_TYPE_SAMPLER_IMAGE_FORMAT
      then ''image format''
      else if type = SPV_OPERAND_TYPE_FP_FAST_MATH_MODE
      then ''floating-point fast math mode''
      else if type = SPV_OPERAND_TYPE_FP_ROUNDING_MODE
      then ''floating-point rounding mode''
      else if type = SPV_OPERAND_TYPE_LINKAGE_TYPE
      then ''linkage type''
      else if type \<in> {SPV_OPERAND_TYPE_ACCESS_QUALIFIER, SPV_OPERAND_TYPE_OPTIONAL_ACCESS_QUALIFIER}
      then ''access qualifier''
      else if type = SPV_OPERAND_TYPE_FUNCTION_PARAMETER_ATTRIBUTE
      then ''function parameter attribute''
      else if type = SPV_OPERAND_TYPE_DECORATION
      then ''decoration''
      else if type = SPV_OPERAND_TYPE_BUILT_IN
      then ''built-in''
      else if type = SPV_OPERAND_TYPE_SELECTION_CONTROL
      then ''selection control''
      else if type = SPV_OPERAND_TYPE_LOOP_CONTROL
      then ''loop control''
      else if type = SPV_OPERAND_TYPE_FUNCTION_CONTROL
      then ''function control''
      else if type = SPV_OPERAND_TYPE_MEMORY_SEMANTICS_ID
      then ''memory semantics ID''
      else if type \<in> {SPV_OPERAND_TYPE_MEMORY_ACCESS, SPV_OPERAND_TYPE_OPTIONAL_MEMORY_ACCESS}
      then ''memory access''
      else if type = SPV_OPERAND_TYPE_FRAGMENT_SHADING_RATE
      then ''shading rate''
      else if type = SPV_OPERAND_TYPE_SCOPE_ID
      then ''scope ID''
      else if type = SPV_OPERAND_TYPE_GROUP_OPERATION
      then ''group operation''
      else if type = SPV_OPERAND_TYPE_KERNEL_ENQ_FLAGS
      then ''kernel enqeue flags''
      else if type = SPV_OPERAND_TYPE_KERNEL_PROFILING_INFO
      then ''kernel profiling info''
      else if type = SPV_OPERAND_TYPE_CAPABILITY
      then ''capability''
      else if type = SPV_OPERAND_TYPE_RAY_FLAGS
      then ''ray flags''
      else if type = SPV_OPERAND_TYPE_RAY_QUERY_INTERSECTION
      then ''ray query intersection''
      else if type = SPV_OPERAND_TYPE_RAY_QUERY_COMMITTED_INTERSECTION_TYPE
      then ''ray query committed intersection type''
      else if type = SPV_OPERAND_TYPE_RAY_QUERY_CANDIDATE_INTERSECTION_TYPE
      then ''ray query candidate intersection type''
      else if type \<in> {SPV_OPERAND_TYPE_PACKED_VECTOR_FORMAT,
            SPV_OPERAND_TYPE_OPTIONAL_PACKED_VECTOR_FORMAT}
      then ''packed vector format''
      else if type \<in> {SPV_OPERAND_TYPE_COOPERATIVE_MATRIX_OPERANDS,
            SPV_OPERAND_TYPE_OPTIONAL_COOPERATIVE_MATRIX_OPERANDS}
      then ''cooperative matrix operands''
      else if type = SPV_OPERAND_TYPE_COOPERATIVE_MATRIX_LAYOUT
      then ''cooperative matrix layout''
      else if type = SPV_OPERAND_TYPE_COOPERATIVE_MATRIX_USE
      then ''cooperative matrix use''
      else if type = SPV_OPERAND_TYPE_TENSOR_CLAMP_MODE
      then ''tensor clamp mode''
      else if type = SPV_OPERAND_TYPE_COOPERATIVE_MATRIX_REDUCE
      then ''cooperative matrix reduce''
      else if type = SPV_OPERAND_TYPE_TENSOR_ADDRESSING_OPERANDS
      then ''tensor addressing operands''
      else if type \<in> {SPV_OPERAND_TYPE_MATRIX_MULTIPLY_ACCUMULATE_OPERANDS,
            SPV_OPERAND_TYPE_OPTIONAL_MATRIX_MULTIPLY_ACCUMULATE_OPERANDS}
      then ''matrix multiply accumulate operands''
      else if type \<in> {SPV_OPERAND_TYPE_TENSOR_OPERANDS, SPV_OPERAND_TYPE_OPTIONAL_TENSOR_OPERANDS}
      then ''tensor operands''
      else if type = SPV_OPERAND_TYPE_INITIALIZATION_MODE_QUALIFIER
      then ''initialization mode qualifier''
      else if type = SPV_OPERAND_TYPE_HOST_ACCESS_QUALIFIER
      then ''host access qualifier''
      else if type = SPV_OPERAND_TYPE_LOAD_CACHE_CONTROL
      then ''load cache control''
      else if type = SPV_OPERAND_TYPE_STORE_CACHE_CONTROL
      then ''store cache control''
      else if type = SPV_OPERAND_TYPE_NAMED_MAXIMUM_NUMBER_OF_REGISTERS
      then ''named maximum number of registers''
      else if type \<in> {SPV_OPERAND_TYPE_RAW_ACCESS_CHAIN_OPERANDS,
            SPV_OPERAND_TYPE_OPTIONAL_RAW_ACCESS_CHAIN_OPERANDS}
      then ''raw access chain operands''
      else if type \<in> {SPV_OPERAND_TYPE_IMAGE, SPV_OPERAND_TYPE_OPTIONAL_IMAGE}
      then ''image''
      else if type = SPV_OPERAND_TYPE_OPTIONAL_CIV
      then ''context-insensitive value''
      else spvOperandTypeStr_rest type)"

definition spvIsIdType :: "spv_operand_type_t \<Rightarrow> bool" where
  "spvIsIdType type \<longleftrightarrow> type \<in>
     {SPV_OPERAND_TYPE_ID, SPV_OPERAND_TYPE_TYPE_ID, SPV_OPERAND_TYPE_RESULT_ID,
      SPV_OPERAND_TYPE_MEMORY_SEMANTICS_ID, SPV_OPERAND_TYPE_SCOPE_ID}"

definition spvIsInIdType :: "spv_operand_type_t \<Rightarrow> bool" where
  "spvIsInIdType type =
     (if \<not> spvIsIdType type then False
      else if type \<in> {SPV_OPERAND_TYPE_TYPE_ID, SPV_OPERAND_TYPE_RESULT_ID} then False
      else True)"

definition spvOperandIsConcreteMask :: "spv_operand_type_t \<Rightarrow> bool" where
  "spvOperandIsConcreteMask type \<longleftrightarrow> type \<in>
     {SPV_OPERAND_TYPE_IMAGE, SPV_OPERAND_TYPE_FP_FAST_MATH_MODE,
      SPV_OPERAND_TYPE_SELECTION_CONTROL, SPV_OPERAND_TYPE_LOOP_CONTROL,
      SPV_OPERAND_TYPE_FUNCTION_CONTROL, SPV_OPERAND_TYPE_MEMORY_ACCESS,
      SPV_OPERAND_TYPE_FRAGMENT_SHADING_RATE, SPV_OPERAND_TYPE_DEBUG_INFO_FLAGS,
      SPV_OPERAND_TYPE_CLDEBUG100_DEBUG_INFO_FLAGS,
      SPV_OPERAND_TYPE_COOPERATIVE_MATRIX_OPERANDS,
      SPV_OPERAND_TYPE_MATRIX_MULTIPLY_ACCUMULATE_OPERANDS,
      SPV_OPERAND_TYPE_RAW_ACCESS_CHAIN_OPERANDS, SPV_OPERAND_TYPE_COOPERATIVE_MATRIX_REDUCE,
      SPV_OPERAND_TYPE_TENSOR_ADDRESSING_OPERANDS, SPV_OPERAND_TYPE_TENSOR_OPERANDS}"

definition spvOperandIsConcrete :: "spv_operand_type_t \<Rightarrow> bool" where
  "spvOperandIsConcrete type =
     (if spvIsIdType type \<or> spvOperandIsConcreteMask type then True
      else type \<in> {SPV_OPERAND_TYPE_LITERAL_INTEGER, SPV_OPERAND_TYPE_LITERAL_FLOAT,
         SPV_OPERAND_TYPE_EXTENSION_INSTRUCTION_NUMBER,
         SPV_OPERAND_TYPE_SPEC_CONSTANT_OP_NUMBER, SPV_OPERAND_TYPE_TYPED_LITERAL_NUMBER,
         SPV_OPERAND_TYPE_LITERAL_STRING, SPV_OPERAND_TYPE_SOURCE_LANGUAGE,
         SPV_OPERAND_TYPE_EXECUTION_MODEL, SPV_OPERAND_TYPE_ADDRESSING_MODEL,
         SPV_OPERAND_TYPE_MEMORY_MODEL, SPV_OPERAND_TYPE_EXECUTION_MODE,
         SPV_OPERAND_TYPE_STORAGE_CLASS, SPV_OPERAND_TYPE_DIMENSIONALITY,
         SPV_OPERAND_TYPE_SAMPLER_ADDRESSING_MODE, SPV_OPERAND_TYPE_SAMPLER_FILTER_MODE,
         SPV_OPERAND_TYPE_SAMPLER_IMAGE_FORMAT, SPV_OPERAND_TYPE_IMAGE_CHANNEL_ORDER,
         SPV_OPERAND_TYPE_IMAGE_CHANNEL_DATA_TYPE, SPV_OPERAND_TYPE_FP_ROUNDING_MODE,
         SPV_OPERAND_TYPE_LINKAGE_TYPE, SPV_OPERAND_TYPE_ACCESS_QUALIFIER,
         SPV_OPERAND_TYPE_FUNCTION_PARAMETER_ATTRIBUTE, SPV_OPERAND_TYPE_DECORATION,
         SPV_OPERAND_TYPE_BUILT_IN, SPV_OPERAND_TYPE_GROUP_OPERATION,
         SPV_OPERAND_TYPE_KERNEL_ENQ_FLAGS, SPV_OPERAND_TYPE_KERNEL_PROFILING_INFO,
         SPV_OPERAND_TYPE_CAPABILITY, SPV_OPERAND_TYPE_RAY_FLAGS,
         SPV_OPERAND_TYPE_RAY_QUERY_INTERSECTION,
         SPV_OPERAND_TYPE_RAY_QUERY_COMMITTED_INTERSECTION_TYPE,
         SPV_OPERAND_TYPE_RAY_QUERY_CANDIDATE_INTERSECTION_TYPE,
         SPV_OPERAND_TYPE_DEBUG_BASE_TYPE_ATTRIBUTE_ENCODING,
         SPV_OPERAND_TYPE_DEBUG_COMPOSITE_TYPE, SPV_OPERAND_TYPE_DEBUG_TYPE_QUALIFIER,
         SPV_OPERAND_TYPE_DEBUG_OPERATION,
         SPV_OPERAND_TYPE_CLDEBUG100_DEBUG_BASE_TYPE_ATTRIBUTE_ENCODING,
         SPV_OPERAND_TYPE_CLDEBUG100_DEBUG_COMPOSITE_TYPE,
         SPV_OPERAND_TYPE_CLDEBUG100_DEBUG_TYPE_QUALIFIER,
         SPV_OPERAND_TYPE_CLDEBUG100_DEBUG_OPERATION,
         SPV_OPERAND_TYPE_CLDEBUG100_DEBUG_IMPORTED_ENTITY, SPV_OPERAND_TYPE_FPDENORM_MODE,
         SPV_OPERAND_TYPE_FPOPERATION_MODE, SPV_OPERAND_TYPE_QUANTIZATION_MODES,
         SPV_OPERAND_TYPE_OVERFLOW_MODES, SPV_OPERAND_TYPE_PACKED_VECTOR_FORMAT,
         SPV_OPERAND_TYPE_COOPERATIVE_MATRIX_LAYOUT, SPV_OPERAND_TYPE_COOPERATIVE_MATRIX_USE,
         SPV_OPERAND_TYPE_INITIALIZATION_MODE_QUALIFIER, SPV_OPERAND_TYPE_HOST_ACCESS_QUALIFIER,
         SPV_OPERAND_TYPE_LOAD_CACHE_CONTROL, SPV_OPERAND_TYPE_STORE_CACHE_CONTROL,
         SPV_OPERAND_TYPE_NAMED_MAXIMUM_NUMBER_OF_REGISTERS, SPV_OPERAND_TYPE_FPENCODING,
         SPV_OPERAND_TYPE_TENSOR_CLAMP_MODE, SPV_OPERAND_TYPE_COOPERATIVE_VECTOR_MATRIX_LAYOUT,
         SPV_OPERAND_TYPE_COMPONENT_TYPE, SPV_OPERAND_TYPE_KERNEL_PROPERTY_FLAGS,
         SPV_OPERAND_TYPE_SHDEBUG100_BUILD_IDENTIFIER_FLAGS,
         SPV_OPERAND_TYPE_SHDEBUG100_DEBUG_BASE_TYPE_ATTRIBUTE_ENCODING,
         SPV_OPERAND_TYPE_SHDEBUG100_DEBUG_COMPOSITE_TYPE,
         SPV_OPERAND_TYPE_SHDEBUG100_DEBUG_IMPORTED_ENTITY,
         SPV_OPERAND_TYPE_SHDEBUG100_DEBUG_INFO_FLAGS,
         SPV_OPERAND_TYPE_SHDEBUG100_DEBUG_OPERATION,
         SPV_OPERAND_TYPE_SHDEBUG100_DEBUG_TYPE_QUALIFIER})"

definition spvOperandIsVariable :: "spv_operand_type_t \<Rightarrow> bool" where
  "spvOperandIsVariable type \<longleftrightarrow> type \<in>
     {SPV_OPERAND_TYPE_VARIABLE_ID, SPV_OPERAND_TYPE_VARIABLE_LITERAL_INTEGER,
      SPV_OPERAND_TYPE_VARIABLE_LITERAL_INTEGER_ID, SPV_OPERAND_TYPE_VARIABLE_ID_LITERAL_INTEGER}"

definition spvOperandIsOptional :: "spv_operand_type_t \<Rightarrow> bool" where
  "spvOperandIsOptional type =
     (if type \<in> {SPV_OPERAND_TYPE_OPTIONAL_ID, SPV_OPERAND_TYPE_OPTIONAL_IMAGE,
         SPV_OPERAND_TYPE_OPTIONAL_MEMORY_ACCESS, SPV_OPERAND_TYPE_OPTIONAL_LITERAL_INTEGER,
         SPV_OPERAND_TYPE_OPTIONAL_LITERAL_NUMBER,
         SPV_OPERAND_TYPE_OPTIONAL_TYPED_LITERAL_INTEGER,
         SPV_OPERAND_TYPE_OPTIONAL_LITERAL_STRING, SPV_OPERAND_TYPE_OPTIONAL_ACCESS_QUALIFIER,
         SPV_OPERAND_TYPE_OPTIONAL_PACKED_VECTOR_FORMAT,
         SPV_OPERAND_TYPE_OPTIONAL_COOPERATIVE_MATRIX_OPERANDS,
         SPV_OPERAND_TYPE_OPTIONAL_MATRIX_MULTIPLY_ACCUMULATE_OPERANDS,
         SPV_OPERAND_TYPE_OPTIONAL_CIV, SPV_OPERAND_TYPE_OPTIONAL_RAW_ACCESS_CHAIN_OPERANDS,
         SPV_OPERAND_TYPE_OPTIONAL_FPENCODING, SPV_OPERAND_TYPE_OPTIONAL_TENSOR_OPERANDS}
      then True else spvOperandIsVariable type)"

section \<open>The stack of expected operands\<close>

type_synonym spv_operand_pattern_t = "spv_operand_type_t list"

text \<open>The array \<open>types\<close> ends at the first \<open>NONE\<close>; its elements are pushed last to first.\<close>

definition spvPushOperandTypes ::
  "spv_operand_type_t list \<Rightarrow> spv_operand_pattern_t \<Rightarrow> spv_operand_pattern_t" where
  "spvPushOperandTypes types pattern =
     (let endTypes = length (takeWhile (\<lambda>t. t \<noteq> SPV_OPERAND_TYPE_NONE) types)
      in foldl (\<lambda>pat i. pat @ [types ! i]) pattern (rev [0..<endTypes]))"

definition spvPushOperandTypesSpan ::
  "spv_operand_type_t list \<Rightarrow> spv_operand_pattern_t \<Rightarrow> spv_operand_pattern_t" where
  "spvPushOperandTypesSpan types pattern =
     (let n = length types
      in foldl (\<lambda>pat i. let type = types ! (n - 1 - i)
                        in if type \<noteq> SPV_OPERAND_TYPE_NONE then pat @ [type] else pat)
           pattern [0..<n])"

function spvPushOperandTypesForMask_loop ::
  "'a grammar_scheme \<Rightarrow> spv_operand_type_t \<Rightarrow> uint32_t \<Rightarrow> uint32_t \<Rightarrow> spv_operand_pattern_t \<Rightarrow>
   spv_operand_pattern_t" where
  "spvPushOperandTypesForMask_loop G type msk candidate_bit pattern =
     (if candidate_bit \<noteq> 0 then
        let pattern' =
              (if candidate_bit AND msk \<noteq> 0 then
                 (case LookupOperand G type candidate_bit of
                    Inr entry \<Rightarrow> spvPushOperandTypesSpan (OperandDesc_operands G entry) pattern
                  | Inl _ \<Rightarrow> pattern)
               else pattern)
        in spvPushOperandTypesForMask_loop G type msk (drop_bit 1 candidate_bit) pattern'
      else pattern)"
  by pat_completeness auto
termination
  by (relation "measure (\<lambda>(G, t, m, c, p). unat c)") (use drop_bit_1_less in auto)

declare spvPushOperandTypesForMask_loop.simps [simp del]

definition spvPushOperandTypesForMask ::
  "'a grammar_scheme \<Rightarrow> spv_operand_type_t \<Rightarrow> uint32_t \<Rightarrow> spv_operand_pattern_t \<Rightarrow>
   spv_operand_pattern_t" where
  "spvPushOperandTypesForMask G type msk pattern =
     spvPushOperandTypesForMask_loop G type msk (push_bit 31 1) pattern"

definition spvExpandOperandSequenceOnce ::
  "spv_operand_type_t \<Rightarrow> spv_operand_pattern_t \<Rightarrow> bool \<times> spv_operand_pattern_t" where
  "spvExpandOperandSequenceOnce type pattern =
     (if type = SPV_OPERAND_TYPE_VARIABLE_ID
      then (True, pattern @ [type, SPV_OPERAND_TYPE_OPTIONAL_ID])
      else if type = SPV_OPERAND_TYPE_VARIABLE_LITERAL_INTEGER
      then (True, pattern @ [type, SPV_OPERAND_TYPE_OPTIONAL_LITERAL_INTEGER])
      else if type = SPV_OPERAND_TYPE_VARIABLE_LITERAL_INTEGER_ID
      then (True, pattern @ [type, SPV_OPERAND_TYPE_ID,
                             SPV_OPERAND_TYPE_OPTIONAL_TYPED_LITERAL_INTEGER])
      else if type = SPV_OPERAND_TYPE_VARIABLE_ID_LITERAL_INTEGER
      then (True, pattern @ [type, SPV_OPERAND_TYPE_LITERAL_INTEGER, SPV_OPERAND_TYPE_OPTIONAL_ID])
      else (False, pattern))"

text \<open>
  The \<open>do\<close> loop ends because an expansion never puts a sequence on top. The function must not be
  called on an empty pattern; the model returns \<open>NONE\<close> then.
\<close>

lemma expand_decreases:
  "spvExpandOperandSequenceOnce (last p) r = (True, q) \<Longrightarrow>
    fst (spvExpandOperandSequenceOnce (last p) []) \<and> \<not> fst (spvExpandOperandSequenceOnce (last q) [])"
  by (auto simp: spvExpandOperandSequenceOnce_def split: if_splits)

function spvTakeFirstMatchableOperand ::
  "spv_operand_pattern_t \<Rightarrow> spv_operand_type_t \<times> spv_operand_pattern_t" where
  "spvTakeFirstMatchableOperand pattern =
     (if pattern = [] then (SPV_OPERAND_TYPE_NONE, [])
      else
        let result = last pattern
        in (case spvExpandOperandSequenceOnce result (butlast pattern) of
              (True, pattern') \<Rightarrow> spvTakeFirstMatchableOperand pattern'
            | (False, pattern') \<Rightarrow> (result, pattern')))"
  by pat_completeness auto
termination
  by (relation "measure (\<lambda>p. if fst (spvExpandOperandSequenceOnce (last p) []) then 1 else 0)")
    (auto dest!: expand_decreases sym [of "(True, _)"])

declare spvTakeFirstMatchableOperand.simps [simp del]

text \<open>\<open>std::find\<close> from the top of the pattern.\<close>

definition spvAlternatePatternFollowingImmediate ::
  "spv_operand_pattern_t \<Rightarrow> spv_operand_pattern_t" where
  "spvAlternatePatternFollowingImmediate pattern =
     (let it = length (takeWhile (\<lambda>t. t \<noteq> SPV_OPERAND_TYPE_RESULT_ID) (rev pattern))
      in if it \<noteq> length pattern
         then (replicate (it + 2) SPV_OPERAND_TYPE_OPTIONAL_CIV)[1 := SPV_OPERAND_TYPE_RESULT_ID]
         else [SPV_OPERAND_TYPE_OPTIONAL_CIV])"

section \<open>Forward references\<close>

definition spvOperandCanBeForwardDeclaredFunction :: "Op \<Rightarrow> nat \<Rightarrow> bool" where
  "spvOperandCanBeForwardDeclaredFunction opcode =
     (if spvOpcodeGeneratesType opcode then (\<lambda>_. True)
      else
      (if opcode \<in> {OpExecutionMode, OpExecutionModeId, OpEntryPoint, OpName, OpMemberName,
             OpSelectionMerge, OpDecorate, OpMemberDecorate, OpDecorateId,
             OpDecorateStringGOOGLE, OpMemberDecorateStringGOOGLE, OpBranch, OpLoopMerge}
       then (\<lambda>index. True)
       else if opcode \<in> {OpGroupDecorate, OpGroupMemberDecorate, OpBranchConditional, OpSwitch}
       then (\<lambda>index. index \<noteq> 0)
       else if opcode = OpFunctionCall
       then (\<lambda>index. index = 2)
       else if opcode = OpPhi
       then (\<lambda>index. index > 1)
       else if opcode = OpEnqueueKernel
       then (\<lambda>index. index = 8)
       else if opcode \<in> {OpGetKernelNDrangeSubGroupCount, OpGetKernelNDrangeMaxSubGroupSize}
       then (\<lambda>index. index = 3)
       else if opcode \<in> {OpGetKernelWorkGroupSize, OpGetKernelPreferredWorkGroupSizeMultiple}
       then (\<lambda>index. index = 2)
       else if opcode = OpTypeForwardPointer
       then (\<lambda>index. index = 0)
       else if opcode = OpTypeArray
       then (\<lambda>index. index = 1)
       else if opcode = OpCooperativeMatrixPerElementOpNV
       then (\<lambda>index. index = 3)
       else if opcode = OpCooperativeMatrixReduceNV
       then (\<lambda>index. index = 4)
       else if opcode = OpCooperativeMatrixLoadTensorNV
       then (\<lambda>index. index > 6)
       else (\<lambda>_. False)))"

definition OpenCLDebugInfo100DebugTypeComposite :: uint32_t where
  "OpenCLDebugInfo100DebugTypeComposite = 10"

definition OpenCLDebugInfo100DebugFunction :: uint32_t where
  "OpenCLDebugInfo100DebugFunction = 20"

definition DebugInfoDebugTypeComposite :: uint32_t where
  "DebugInfoDebugTypeComposite = 10"

definition DebugInfoDebugFunction :: uint32_t where
  "DebugInfoDebugFunction = 20"

definition spvDbgInfoExtOperandCanBeForwardDeclaredFunction ::
  "Op \<Rightarrow> spv_ext_inst_type_t \<Rightarrow> uint32_t \<Rightarrow> nat \<Rightarrow> bool" where
  "spvDbgInfoExtOperandCanBeForwardDeclaredFunction opcode ext_type key =
     (if ext_type = SPV_EXT_INST_TYPE_NONSEMANTIC_SHADER_DEBUGINFO_100
      then (\<lambda>_. opcode = OpExtInstWithForwardRefsKHR)
      else if ext_type = SPV_EXT_INST_TYPE_OPENCL_DEBUGINFO_100 then
        (if key = OpenCLDebugInfo100DebugFunction then (\<lambda>index. index = 13)
         else if key = OpenCLDebugInfo100DebugTypeComposite then (\<lambda>index. index \<ge> 13)
         else (\<lambda>_. False))
      else
        (if key = DebugInfoDebugFunction then (\<lambda>index. index = 13)
         else if key = DebugInfoDebugTypeComposite then (\<lambda>index. index \<ge> 12)
         else (\<lambda>_. False)))"

text \<open>\<open>spv::FPEncoding\<close> is an enumeration over unsigned numbers; other numbers are unknown.\<close>

definition spvFPEncodingFromOperandFPEncoding :: "uint32_t \<Rightarrow> spv_fp_encoding_t" where
  "spvFPEncodingFromOperandFPEncoding encoding =
     (if encoding = 0 then SPV_FP_ENCODING_BFLOAT16
      else if encoding = 4214 then SPV_FP_ENCODING_FLOAT8_E4M3
      else if encoding = 4215 then SPV_FP_ENCODING_FLOAT8_E5M2
      else SPV_FP_ENCODING_UNKNOWN)"

section \<open>Lemmas\<close>

lemma spvPushOperandTypes_eq:
  "spvPushOperandTypes types pattern =
    pattern @ rev (takeWhile (\<lambda>t. t \<noteq> SPV_OPERAND_TYPE_NONE) types)"
proof -
  have push: "foldl (\<lambda>pat i. pat @ [f i]) p is = p @ map f is" for f p and "is" :: "nat list"
    by (induction "is" arbitrary: p) auto
  have "map ((!) types) [0..<length (takeWhile P types)] = takeWhile P types" for P
    by (rule nth_equalityI) (auto simp: takeWhile_nth)
  then show ?thesis by (simp add: spvPushOperandTypes_def push rev_map [symmetric])
qed

lemma spvPushOperandTypesSpan_eq:
  "spvPushOperandTypesSpan types pattern =
    pattern @ rev (filter (\<lambda>t. t \<noteq> SPV_OPERAND_TYPE_NONE) types)"
proof -
  let ?P = "\<lambda>t. t \<noteq> SPV_OPERAND_TYPE_NONE"
  have push: "foldl (\<lambda>pat i. if ?P (f i) then pat @ [f i] else pat) p is = p @ filter ?P (map f is)"
    for f p and "is" :: "nat list"
    by (induction "is" arbitrary: p) auto
  have "map (\<lambda>i. types ! (length types - 1 - i)) [0..<length types] = rev types"
    by (rule nth_equalityI) (auto simp: rev_nth)
  then show ?thesis
    using push [of "\<lambda>i. types ! (length types - 1 - i)" pattern "[0..<length types]"]
    by (simp only: spvPushOperandTypesSpan_def Let_def rev_filter)
qed

text \<open>The operand types a single bit of a mask asks for.\<close>

definition mask_bit_operands ::
  "'a grammar_scheme \<Rightarrow> spv_operand_type_t \<Rightarrow> uint32_t \<Rightarrow> nat \<Rightarrow> spv_operand_type_t list" where
  "mask_bit_operands G type msk i =
     (if bit msk i then
        (case LookupOperand G type (push_bit i 1) of
           Inr entry \<Rightarrow> filter (\<lambda>t. t \<noteq> SPV_OPERAND_TYPE_NONE) (OperandDesc_operands G entry)
         | Inl _ \<Rightarrow> [])
      else [])"

lemma drop_bit_1_push_bit_Suc:
  "Suc k < LENGTH('a) \<Longrightarrow> drop_bit 1 (push_bit (Suc k) 1 :: 'a::len word) = push_bit k 1"
  by (rule bit_word_eqI) (auto simp: bit_simps)

lemma mask_loop_step:
  assumes "k < 32"
  shows "spvPushOperandTypesForMask_loop G type msk (push_bit k 1) pattern =
    spvPushOperandTypesForMask_loop G type msk (drop_bit 1 (push_bit k 1))
      (pattern @ rev (mask_bit_operands G type msk k))"
proof -
  have "push_bit k (1 :: uint32_t) \<noteq> 0" using assms by (simp add: push_bit_1_nonzero)
  moreover have "push_bit k 1 AND msk \<noteq> 0 \<longleftrightarrow> bit msk k"
    by (simp only: and.commute [of _ msk] word_and_push_bit_1_eq_0_iff not_not)
  ultimately show ?thesis
    unfolding spvPushOperandTypesForMask_loop.simps [of G type msk "push_bit k 1" pattern]
    by (simp add: mask_bit_operands_def spvPushOperandTypesSpan_eq Let_def split: sum.split
        del: One_nat_def)
qed

lemma mask_loop_eq:
  "k < 32 \<Longrightarrow> spvPushOperandTypesForMask_loop G type msk (push_bit k 1) pattern =
    pattern @ rev (concat (map (mask_bit_operands G type msk) [0..<Suc k]))"
proof (induction k arbitrary: pattern)
  case 0
  have "drop_bit 1 (push_bit 0 1 :: uint32_t) = 0" by simp
  then show ?case
    unfolding mask_loop_step [OF 0]
    by (simp only:) (simp add: spvPushOperandTypesForMask_loop.simps)
next
  case (Suc k)
  then have "drop_bit 1 (push_bit (Suc k) 1 :: uint32_t) = push_bit k 1"
    by (intro drop_bit_1_push_bit_Suc) simp
  then show ?case
    unfolding mask_loop_step [OF Suc.prems] using Suc by (simp del: push_bit_Suc)
qed

lemma take_first_single:
  assumes "pattern \<noteq> []" "\<not> fst (spvExpandOperandSequenceOnce (last pattern) [])"
  shows "spvTakeFirstMatchableOperand pattern = (last pattern, butlast pattern)"
proof -
  have "spvExpandOperandSequenceOnce (last pattern) (butlast pattern) = (False, butlast pattern)"
    using assms(2) by (auto simp: spvExpandOperandSequenceOnce_def split: if_splits)
  with assms(1) show ?thesis by (subst spvTakeFirstMatchableOperand.simps) simp
qed

lemma take_first_sequence:
  assumes "pattern \<noteq> []" "spvExpandOperandSequenceOnce (last pattern) (butlast pattern) = (True, q)"
  shows "spvTakeFirstMatchableOperand pattern = (last q, butlast q)"
proof -
  have "spvTakeFirstMatchableOperand pattern = spvTakeFirstMatchableOperand q"
    using assms by (subst spvTakeFirstMatchableOperand.simps) simp
  moreover have "q \<noteq> []" using assms(2)
    by (auto simp: spvExpandOperandSequenceOnce_def split: if_splits)
  ultimately show ?thesis using expand_decreases [OF assms(2)] by (simp add: take_first_single)
qed

lemma concrete_or_optional:
  "spvOperandIsConcrete t \<or> spvOperandIsOptional t \<or>
    t = SPV_OPERAND_TYPE_NONE \<or> t = SPV_OPERAND_TYPE_NUM_OPERAND_TYPES"
  by (cases t) (simp_all add: spvOperandIsConcrete_def spvIsIdType_def spvOperandIsConcreteMask_def
      spvOperandIsOptional_def spvOperandIsVariable_def)

lemma concrete_not_optional:
  "spvOperandIsOptional t \<or> t = SPV_OPERAND_TYPE_NONE \<or> t = SPV_OPERAND_TYPE_NUM_OPERAND_TYPES \<Longrightarrow>
    \<not> spvOperandIsConcrete t"
  unfolding spvOperandIsOptional_def spvOperandIsVariable_def
  by (elim disjE) (auto simp: spvOperandIsConcrete_def spvIsIdType_def spvOperandIsConcreteMask_def
      split: if_splits)

lemma sentinel_not_optional:
  "\<not> spvOperandIsOptional SPV_OPERAND_TYPE_NONE"
  "\<not> spvOperandIsOptional SPV_OPERAND_TYPE_NUM_OPERAND_TYPES"
  by (simp_all add: spvOperandIsOptional_def spvOperandIsVariable_def)

lemma mask_or_id_concrete:
  "spvOperandIsConcreteMask t \<or> spvIsIdType t \<Longrightarrow> spvOperandIsConcrete t"
  by (auto simp: spvOperandIsConcrete_def)

lemma variable_optional: "spvOperandIsVariable t \<Longrightarrow> spvOperandIsOptional t"
  by (simp add: spvOperandIsOptional_def)

lemma in_id_is_id: "spvIsInIdType t \<Longrightarrow> spvIsIdType t"
  by (simp add: spvIsInIdType_def split: if_splits)

text \<open>What one expansion puts above the sequence: at most one concrete type, then an optional one.\<close>

definition expansion :: "spv_operand_type_t \<Rightarrow> spv_operand_type_t list \<times> spv_operand_type_t" where
  "expansion v =
     (if v = SPV_OPERAND_TYPE_VARIABLE_ID then ([], SPV_OPERAND_TYPE_OPTIONAL_ID)
      else if v = SPV_OPERAND_TYPE_VARIABLE_LITERAL_INTEGER
      then ([], SPV_OPERAND_TYPE_OPTIONAL_LITERAL_INTEGER)
      else if v = SPV_OPERAND_TYPE_VARIABLE_LITERAL_INTEGER_ID
      then ([SPV_OPERAND_TYPE_ID], SPV_OPERAND_TYPE_OPTIONAL_TYPED_LITERAL_INTEGER)
      else ([SPV_OPERAND_TYPE_LITERAL_INTEGER], SPV_OPERAND_TYPE_OPTIONAL_ID))"

lemma expand_variable:
  "spvOperandIsVariable v \<Longrightarrow>
    spvExpandOperandSequenceOnce v p = (True, p @ [v] @ fst (expansion v) @ [snd (expansion v)])"
  by (auto simp: spvOperandIsVariable_def spvExpandOperandSequenceOnce_def expansion_def)

lemma expansion_types:
  "length (fst (expansion v)) \<le> 1 \<and> (\<forall>t \<in> set (fst (expansion v)). spvOperandIsConcrete t) \<and>
    spvOperandIsOptional (snd (expansion v)) \<and> \<not> spvOperandIsVariable (snd (expansion v))"
proof -
  have "spvOperandIsConcrete SPV_OPERAND_TYPE_ID" "spvOperandIsConcrete SPV_OPERAND_TYPE_LITERAL_INTEGER"
    by (simp_all add: spvOperandIsConcrete_def spvIsIdType_def)
  then show ?thesis
    by (simp add: expansion_def spvOperandIsOptional_def spvOperandIsVariable_def)
qed

section \<open>Properties\<close>

text \<open>Every operand type other than the two sentinels is exactly one of concrete and optional;
  the sequences are among the optional types, the masks and the ids among the concrete ones, and
  the ids an instruction reads among the ids.\<close>

theorem operand_type_classes:
  "(type \<in> {SPV_OPERAND_TYPE_NONE, SPV_OPERAND_TYPE_NUM_OPERAND_TYPES} \<or>
     spvOperandIsConcrete type \<noteq> spvOperandIsOptional type) \<and>
   (type \<in> {SPV_OPERAND_TYPE_NONE, SPV_OPERAND_TYPE_NUM_OPERAND_TYPES} \<longrightarrow>
     \<not> spvOperandIsConcrete type \<and> \<not> spvOperandIsOptional type) \<and>
   (spvOperandIsVariable type \<longrightarrow> spvOperandIsOptional type) \<and>
   (spvOperandIsConcreteMask type \<longrightarrow> spvOperandIsConcrete type) \<and>
   (spvIsInIdType type \<longrightarrow> spvIsIdType type) \<and> (spvIsIdType type \<longrightarrow> spvOperandIsConcrete type)"
  using concrete_or_optional [of type] concrete_not_optional [of type] sentinel_not_optional
    mask_or_id_concrete [of type] variable_optional [of type] in_id_is_id [of type]
  by blast

theorem operand_type_classes_witness:
  "spvOperandIsOptional SPV_OPERAND_TYPE_VARIABLE_ID \<and> \<not> spvOperandIsConcrete SPV_OPERAND_TYPE_VARIABLE_ID"
  using operand_type_classes [of SPV_OPERAND_TYPE_VARIABLE_ID] by (simp add: spvOperandIsVariable_def)

text \<open>C26: \<open>spvTakeFirstMatchableOperand\<close> always returns; on a non-empty pattern its result is never
  a sequence, a single operand type on top is taken as it is, and a sequence on top stays in the
  pattern below the rest of one repetition of it.\<close>

theorem take_first_matchable:
  assumes "pattern \<noteq> []"
  shows "case spvTakeFirstMatchableOperand pattern of (result, pattern') \<Rightarrow>
    \<not> spvOperandIsVariable result \<and>
    (if spvOperandIsVariable (last pattern)
     then spvOperandIsOptional result \<and>
       (\<exists>rest. length rest \<le> 1 \<and> pattern' = pattern @ rest \<and> (\<forall>t \<in> set rest. spvOperandIsConcrete t))
     else result = last pattern \<and> pattern' = butlast pattern)"
proof (cases "spvOperandIsVariable (last pattern)")
  case True
  let ?v = "last pattern"
  let ?q = "butlast pattern @ [?v] @ fst (expansion ?v) @ [snd (expansion ?v)]"
  have "spvExpandOperandSequenceOnce ?v (butlast pattern) = (True, ?q)"
    using True by (rule expand_variable)
  from take_first_sequence [OF assms this]
  have "spvTakeFirstMatchableOperand pattern = (snd (expansion ?v), pattern @ fst (expansion ?v))"
    using assms by (simp add: butlast_append)
  with True show ?thesis using expansion_types [of ?v] by auto
next
  case False
  then have "\<not> fst (spvExpandOperandSequenceOnce (last pattern) [])"
    by (auto simp: spvExpandOperandSequenceOnce_def spvOperandIsVariable_def)
  with False show ?thesis using take_first_single [OF assms] by simp
qed

theorem take_first_matchable_witness:
  "spvOperandIsOptional (fst (spvTakeFirstMatchableOperand
     [SPV_OPERAND_TYPE_ID, SPV_OPERAND_TYPE_VARIABLE_ID]))"
  using take_first_matchable [of "[SPV_OPERAND_TYPE_ID, SPV_OPERAND_TYPE_VARIABLE_ID]"]
  by (simp add: spvOperandIsVariable_def split_beta)

text \<open>The operands of a mask are expected in the order of its bits from the lowest up, each
  bit contributing the operand types of its table entry in their order and an unknown bit none, and
  all of them before what the pattern held.\<close>

theorem mask_operands_in_order:
  "rev (spvPushOperandTypesForMask G type msk pattern) =
    concat (map (\<lambda>i. if bit msk i then
        (case LookupOperand G type (push_bit i 1) of
           Inr entry \<Rightarrow> filter (\<lambda>t. t \<noteq> SPV_OPERAND_TYPE_NONE) (OperandDesc_operands G entry)
         | Inl _ \<Rightarrow> [])
        else []) [0..<32]) @ rev pattern"
  using mask_loop_eq [of 31 G type msk pattern]
  by (simp add: spvPushOperandTypesForMask_def mask_bit_operands_def [abs_def] del: push_bit_of_1)

text \<open>After an immediate operand the assembler expects context-insensitive values, except that a
  result id the pattern still expected stays expected after as many values as operands stood
  before it, with values after it.\<close>

theorem alternate_pattern:
  "rev (spvAlternatePatternFollowingImmediate pattern) =
    (if SPV_OPERAND_TYPE_RESULT_ID \<in> set pattern
     then replicate (length (takeWhile (\<lambda>t. t \<noteq> SPV_OPERAND_TYPE_RESULT_ID) (rev pattern)))
       SPV_OPERAND_TYPE_OPTIONAL_CIV @ [SPV_OPERAND_TYPE_RESULT_ID, SPV_OPERAND_TYPE_OPTIONAL_CIV]
     else [SPV_OPERAND_TYPE_OPTIONAL_CIV])"
proof -
  let ?it = "length (takeWhile (\<lambda>t. t \<noteq> SPV_OPERAND_TYPE_RESULT_ID) (rev pattern))"
  have "?it \<noteq> length pattern \<longleftrightarrow> SPV_OPERAND_TYPE_RESULT_ID \<in> set pattern"
  proof -
    have "?it = length pattern \<longleftrightarrow>
        takeWhile (\<lambda>t. t \<noteq> SPV_OPERAND_TYPE_RESULT_ID) (rev pattern) = rev pattern"
      by (metis length_rev order_refl take_all takeWhile_eq_take)
    then show ?thesis by (auto simp: takeWhile_eq_all_conv)
  qed
  moreover have "(replicate (n + 2) x)[1 := y] = [x, y] @ replicate n x" for n and x y :: 'c
    by (simp add: numeral_2_eq_2)
  ultimately show ?thesis
    by (simp add: spvAlternatePatternFollowingImmediate_def Let_def rev_replicate)
qed

end
