(* ===== verification/Assembly_Grammar.thy ===== *)
theory Assembly_Grammar
  imports Operands Enum_Set
begin

text \<open>
  \<open>src/ShaderCompiler/src/spirv-tools/assembly_grammar.cpp\<close>: mask expressions, the opcodes that
  \<open>OpSpecConstantOp\<close> allows, and the capabilities visible in a target environment. The grammar
  tables are the parameter \<open>G\<close> of \<open>Grammar\<close>.
\<close>

section \<open>Mask expressions\<close>

text \<open>
  The loop of \<open>spvTextParseMaskOperand\<close>; the pointer pair \<open>begin\<close>, \<open>text_end\<close> is the string that
  is left. A result is the error code or the value written.
\<close>

function parse_mask_loop ::
  "'a grammar_scheme \<Rightarrow> spv_operand_type_t \<Rightarrow> string \<Rightarrow> uint32_t \<Rightarrow> spv_result_t + uint32_t" where
  "parse_mask_loop G type begin value =
     (let word = takeWhile (\<lambda>c. c \<noteq> CHR ''|'') begin;
          at_end = drop (length word) begin
      in case LookupOperandByName G type word of
           Inl error \<Rightarrow> Inl error
         | Inr entry \<Rightarrow>
             let value' = value OR od_value entry
             in if at_end \<noteq> [] then parse_mask_loop G type (tl at_end) value' else Inr value')"
  by pat_completeness auto
termination
  by (relation "measure (\<lambda>(G, t, b, v). length b)") (auto simp: length_tl)

declare parse_mask_loop.simps [simp del]

definition spvTextParseMaskOperand ::
  "'a grammar_scheme \<Rightarrow> spv_operand_type_t \<Rightarrow> string option \<Rightarrow> spv_result_t + uint32_t" where
  "spvTextParseMaskOperand G type textValue =
     (case textValue of
        None \<Rightarrow> Inl SPV_ERROR_INVALID_TEXT
      | Some t \<Rightarrow> if length t = 0 then Inl SPV_ERROR_INVALID_TEXT else parse_mask_loop G type t 0)"

section \<open>Opcodes of specialization constant operations\<close>

definition kOpSpecConstantOpcodes :: "(Op \<times> string) list" where
  "kOpSpecConstantOpcodes =
     [(OpSConvert, ''SConvert''), (OpFConvert, ''FConvert''), (OpConvertFToS, ''ConvertFToS''),
      (OpConvertSToF, ''ConvertSToF''), (OpConvertFToU, ''ConvertFToU''),
      (OpConvertUToF, ''ConvertUToF''), (OpUConvert, ''UConvert''),
      (OpConvertPtrToU, ''ConvertPtrToU''), (OpConvertUToPtr, ''ConvertUToPtr''),
      (OpGenericCastToPtr, ''GenericCastToPtr''), (OpPtrCastToGeneric, ''PtrCastToGeneric''),
      (OpBitcast, ''Bitcast''), (OpQuantizeToF16, ''QuantizeToF16''), (OpSNegate, ''SNegate''),
      (OpNot, ''Not''), (OpIAdd, ''IAdd''), (OpISub, ''ISub''), (OpIMul, ''IMul''),
      (OpUDiv, ''UDiv''), (OpSDiv, ''SDiv''), (OpUMod, ''UMod''), (OpSRem, ''SRem''),
      (OpSMod, ''SMod''), (OpShiftRightLogical, ''ShiftRightLogical''),
      (OpShiftRightArithmetic, ''ShiftRightArithmetic''),
      (OpShiftLeftLogical, ''ShiftLeftLogical''), (OpBitwiseOr, ''BitwiseOr''),
      (OpBitwiseAnd, ''BitwiseAnd''), (OpBitwiseXor, ''BitwiseXor''), (OpFNegate, ''FNegate''),
      (OpFAdd, ''FAdd''), (OpFSub, ''FSub''), (OpFMul, ''FMul''), (OpFDiv, ''FDiv''),
      (OpFRem, ''FRem''), (OpFMod, ''FMod''), (OpVectorShuffle, ''VectorShuffle''),
      (OpCompositeExtract, ''CompositeExtract''), (OpCompositeInsert, ''CompositeInsert''),
      (OpLogicalOr, ''LogicalOr''), (OpLogicalAnd, ''LogicalAnd''),
      (OpLogicalNot, ''LogicalNot''), (OpLogicalEqual, ''LogicalEqual''),
      (OpLogicalNotEqual, ''LogicalNotEqual''), (OpSelect, ''Select''), (OpIEqual, ''IEqual''),
      (OpINotEqual, ''INotEqual''), (OpULessThan, ''ULessThan''), (OpSLessThan, ''SLessThan''),
      (OpUGreaterThan, ''UGreaterThan''), (OpSGreaterThan, ''SGreaterThan''),
      (OpULessThanEqual, ''ULessThanEqual''), (OpSLessThanEqual, ''SLessThanEqual''),
      (OpUGreaterThanEqual, ''UGreaterThanEqual''),
      (OpSGreaterThanEqual, ''SGreaterThanEqual''), (OpAccessChain, ''AccessChain''),
      (OpInBoundsAccessChain, ''InBoundsAccessChain''), (OpPtrAccessChain, ''PtrAccessChain''),
      (OpInBoundsPtrAccessChain, ''InBoundsPtrAccessChain''),
      (OpCooperativeMatrixLengthNV, ''CooperativeMatrixLengthNV''),
      (OpCooperativeMatrixLengthKHR, ''CooperativeMatrixLengthKHR'')]"

definition lookupSpecConstantOpcodeByName :: "string \<Rightarrow> spv_result_t + Op" where
  "lookupSpecConstantOpcodeByName name =
     (case find (\<lambda>entry. 0 = strcmp name (snd entry)) kOpSpecConstantOpcodes of
        None \<Rightarrow> Inl SPV_ERROR_INVALID_LOOKUP
      | Some found \<Rightarrow> Inr (fst found))"

definition lookupSpecConstantOpcode :: "Op \<Rightarrow> spv_result_t" where
  "lookupSpecConstantOpcode opcode =
     (case find (\<lambda>entry. opcode = fst entry) kOpSpecConstantOpcodes of
        None \<Rightarrow> SPV_ERROR_INVALID_LOOKUP
      | Some found \<Rightarrow> SPV_SUCCESS)"

section \<open>Capabilities and names\<close>

text \<open>
  A capability is its number. The element inserted is the number of the array, not of the entry.
\<close>

definition cap_visible :: "uint32_t \<Rightarrow> OperandDesc \<Rightarrow> bool" where
  "cap_visible version entry \<longleftrightarrow>
     (version \<ge> od_minVersion entry \<and> version \<le> od_lastVersion entry) \<or>
     ir_count (od_extensions_range entry) > 0 \<or> ir_count (od_capabilities_range entry) > 0"

definition filterCaps_step ::
  "'a grammar_scheme \<Rightarrow> uint32_t \<Rightarrow> uint32_t \<Rightarrow> enum_set \<Rightarrow> enum_set" where
  "filterCaps_step G version cap cap_set =
     (case LookupOperand G SPV_OPERAND_TYPE_CAPABILITY cap of
        Inl _ \<Rightarrow> cap_set
      | Inr entry \<Rightarrow> if cap_visible version entry then es_insert (unat cap) cap_set else cap_set)"

definition filterCapsAgainstTargetEnv ::
  "'a grammar_scheme \<Rightarrow> spv_target_env \<Rightarrow> uint32_t list \<Rightarrow> nat \<Rightarrow> enum_set" where
  "filterCapsAgainstTargetEnv G target_env cap_array count =
     (let version = spvVersionForTargetEnv target_env
      in fold (\<lambda>i. filterCaps_step G version (cap_array ! i)) [0..<count] es_empty)"

definition lookupOperandName :: "'a grammar_scheme \<Rightarrow> spv_operand_type_t \<Rightarrow> uint32_t \<Rightarrow> string" where
  "lookupOperandName G type operand =
     (case LookupOperand G type operand of
        Inl _ \<Rightarrow> ''Unknown''
      | Inr desc \<Rightarrow> c_str (drop (ir_first (od_name_range desc)) (kStrings G)))"

section \<open>Lemmas\<close>

text \<open>The terms of a mask expression one after the other, as the reference.\<close>

fun mask_terms ::
  "'a grammar_scheme \<Rightarrow> spv_operand_type_t \<Rightarrow> string list \<Rightarrow> uint32_t \<Rightarrow> spv_result_t + uint32_t" where
  "mask_terms G type [] value = Inr value"
| "mask_terms G type (w # ws) value =
     (case LookupOperandByName G type w of
        Inl error \<Rightarrow> Inl error
      | Inr entry \<Rightarrow> mask_terms G type ws (value OR od_value entry))"

fun join_bar :: "string list \<Rightarrow> string" where
  "join_bar [] = []"
| "join_bar [w] = w"
| "join_bar (w # ws) = w @ ''|'' @ join_bar ws"

lemma parse_mask_loop_terms:
  "ws \<noteq> [] \<Longrightarrow> \<forall>w \<in> set ws. CHR ''|'' \<notin> set w \<Longrightarrow>
    parse_mask_loop G type (join_bar ws) value = mask_terms G type ws value"
proof (induction ws arbitrary: "value" rule: join_bar.induct)
  case (2 w)
  then have w: "takeWhile (\<lambda>c. c \<noteq> CHR ''|'') w = w" by (auto simp: takeWhile_eq_all_conv)
  show ?case by (subst parse_mask_loop.simps) (simp only: join_bar.simps w Let_def, simp split: sum.split)
next
  case (3 w v ws)
  then have w: "takeWhile (\<lambda>c. c \<noteq> CHR ''|'') (w @ ''|'' @ join_bar (v # ws)) = w"
    by (subst takeWhile_append2) auto
  show ?case
    by (subst parse_mask_loop.simps) (simp only: join_bar.simps w Let_def, use 3 in \<open>simp split: sum.split\<close>)
qed simp

lemma filterCaps_steps:
  assumes "es_inv s"
  shows "es_inv (fold (filterCaps_step G version) caps s) \<and>
    es_elems (fold (filterCaps_step G version) caps s) = es_elems s \<union>
      unat ` {cap \<in> set caps. \<exists>entry. LookupOperand G SPV_OPERAND_TYPE_CAPABILITY cap = Inr entry \<and>
        cap_visible version entry}"
  using assms
proof (induction caps arbitrary: s)
  case (Cons cap caps)
  have "es_inv (filterCaps_step G version cap s) \<and>
      es_elems (filterCaps_step G version cap s) = es_elems s \<union>
        unat ` {c. c = cap \<and> (\<exists>entry. LookupOperand G SPV_OPERAND_TYPE_CAPABILITY cap = Inr entry \<and>
          cap_visible version entry)}"
    using Cons.prems
    by (auto simp: filterCaps_step_def es.inv_insrt es.elems_insrt split: sum.split)
  with Cons.IH show ?case by fastforce
qed simp

lemma filterCaps_fold:
  "count \<le> length cap_array \<Longrightarrow>
    fold (\<lambda>i. f (cap_array ! i)) [0..<count] s = fold f (take count cap_array) s"
proof (induction count)
  case (Suc n)
  then show ?case by (simp add: take_Suc_conv_app_nth)
qed simp

lemma spec_constant_opcodes_distinct:
  "distinct (map fst kOpSpecConstantOpcodes)" "distinct (map snd kOpSpecConstantOpcodes)"
  "length kOpSpecConstantOpcodes = 61"
  by (simp_all add: kOpSpecConstantOpcodes_def)

lemma find_key:
  "distinct (map k xs) \<Longrightarrow> find (\<lambda>y. c = k y) xs = Some x \<longleftrightarrow> x \<in> set xs \<and> k x = c"
  by (induction xs) (auto simp: image_iff)

lemma find_key_None: "find (\<lambda>y. c = k y) xs = None \<longleftrightarrow> c \<notin> k ` set xs"
  by (auto simp: find_None_iff)

lemma by_name_found:
  "lookupSpecConstantOpcodeByName n = Inr opcode \<longleftrightarrow> (opcode, n) \<in> set kOpSpecConstantOpcodes"
proof -
  have "(\<lambda>entry. 0 = strcmp n (snd entry)) = (\<lambda>entry :: Op \<times> string. n = snd entry)"
    using strcmp_eq_0 by (auto simp: fun_eq_iff eq_commute [of 0])
  then have eq: "lookupSpecConstantOpcodeByName n =
      (case find (\<lambda>entry. n = snd entry) kOpSpecConstantOpcodes of
         None \<Rightarrow> Inl SPV_ERROR_INVALID_LOOKUP | Some found \<Rightarrow> Inr (fst found))"
    by (simp add: lookupSpecConstantOpcodeByName_def)
  show ?thesis
  proof (cases "find (\<lambda>entry. n = snd entry) kOpSpecConstantOpcodes")
    case None
    then show ?thesis using find_key_None [of n snd kOpSpecConstantOpcodes] by (force simp: eq)
  next
    case (Some found)
    then have "found \<in> set kOpSpecConstantOpcodes" "snd found = n"
      using find_key [OF spec_constant_opcodes_distinct(2), of n] by auto
    moreover have "(opcode, n) \<in> set kOpSpecConstantOpcodes \<Longrightarrow> found = (opcode, n)"
      using Some find_key [OF spec_constant_opcodes_distinct(2), of n "(opcode, n)"] by simp
    moreover have "found = (fst found, n)" using calculation(2) by (metis prod.collapse)
    moreover have "lookupSpecConstantOpcodeByName n = Inr (fst found)" using Some by (simp add: eq)
    ultimately show ?thesis by (metis Inr_inject fst_conv)
  qed
qed

section \<open>Properties\<close>

text \<open>A mask expression, its terms joined by bars, is parsed term by term from the left: the
  value is the bitwise or of the values of all terms, and the first term that names no value of
  the operand type makes the whole expression fail with the error of its lookup. A null or empty
  text is an invalid text.\<close>

theorem parse_mask_expression:
  assumes "ws \<noteq> []" "\<forall>w \<in> set ws. CHR ''|'' \<notin> set w" "join_bar ws \<noteq> []"
  shows "spvTextParseMaskOperand G type (Some (join_bar ws)) = mask_terms G type ws 0 \<and>
    spvTextParseMaskOperand G type None = Inl SPV_ERROR_INVALID_TEXT \<and>
    spvTextParseMaskOperand G type (Some []) = Inl SPV_ERROR_INVALID_TEXT"
  using assms parse_mask_loop_terms [OF assms(1,2)] by (simp add: spvTextParseMaskOperand_def)

theorem parse_mask_expression_witness:
  "spvTextParseMaskOperand small_grammar SPV_OPERAND_TYPE_FUNCTION_CONTROL (Some ''Inline|Const'') =
     mask_terms small_grammar SPV_OPERAND_TYPE_FUNCTION_CONTROL [''Inline'', ''Const''] 0"
  using parse_mask_expression [of "[''Inline'', ''Const'']" small_grammar SPV_OPERAND_TYPE_FUNCTION_CONTROL]
  by simp

text \<open>The table of operations of specialization constants is a bijection between its 61 opcodes
  and names: both lookups succeed exactly on its entries, and the lookup of a name gives the opcode
  of that entry.\<close>

theorem spec_constant_opcodes:
  "(lookupSpecConstantOpcodeByName name = Inr opcode) = ((opcode, name) \<in> set kOpSpecConstantOpcodes) \<and>
   (lookupSpecConstantOpcode opcode = SPV_SUCCESS) =
     (\<exists>name. lookupSpecConstantOpcodeByName name = Inr opcode) \<and>
   card (set kOpSpecConstantOpcodes) = 61"
proof (intro conjI)
  show "(lookupSpecConstantOpcodeByName name = Inr opcode) = ((opcode, name) \<in> set kOpSpecConstantOpcodes)"
    by (rule by_name_found)
  show "(lookupSpecConstantOpcode opcode = SPV_SUCCESS) =
     (\<exists>name. lookupSpecConstantOpcodeByName name = Inr opcode)"
    using find_key_None [of opcode fst kOpSpecConstantOpcodes]
    by (force simp: by_name_found lookupSpecConstantOpcode_def image_iff split: option.splits)
  have "distinct kOpSpecConstantOpcodes"
    using spec_constant_opcodes_distinct(1) by (simp add: distinct_map)
  then show "card (set kOpSpecConstantOpcodes) = 61"
    using spec_constant_opcodes_distinct(3) by (simp add: distinct_card)
qed

text \<open>Filtering capabilities against a target environment yields a well-formed set that holds
  exactly the numbers among the first \<open>count\<close> of the array that the grammar knows and that are
  core in the environment's SPIR-V version or enabled by an extension or another capability.\<close>

theorem filterCaps_correct:
  assumes "count \<le> length cap_array"
  shows "es_inv (filterCapsAgainstTargetEnv G env cap_array count) \<and>
    (contains (filterCapsAgainstTargetEnv G env cap_array count) (unat cap) =
      (cap \<in> set (take count cap_array) \<and>
       (\<exists>entry. LookupOperand G SPV_OPERAND_TYPE_CAPABILITY cap = Inr entry \<and>
         cap_visible (spvVersionForTargetEnv env) entry)))"
  using filterCaps_steps [OF es.inv_empty, of G "spvVersionForTargetEnv env" "take count cap_array"]
  by (auto simp: filterCapsAgainstTargetEnv_def Let_def filterCaps_fold [OF assms] es.member_elems
      es.elems_empty unat_eq_word)

theorem filterCaps_correct_witness:
  "\<not> contains (filterCapsAgainstTargetEnv small_grammar SPV_ENV_VULKAN_1_0 [5, 6] 2) (unat (5 :: uint32_t))"
  using filterCaps_correct [of 2 "[5, 6]" small_grammar SPV_ENV_VULKAN_1_0 5]
  by (simp add: LookupOperand_def small_grammar_def no_range_def ir_empty_def)

end
