(* ===== verification/Ext_Inst.thy ===== *)
theory Ext_Inst
  imports Grammar
begin

text \<open>
  \<open>src/ShaderCompiler/src/spirv-tools/ext_inst.cpp\<close>: the extended instruction set an import names,
  and two classes of sets. \<open>name\<close> is the C string that the pointer argument designates.
\<close>

section \<open>Operations\<close>

definition spvExtInstImportTypeGet :: "string \<Rightarrow> spv_ext_inst_type_t" where
  "spvExtInstImportTypeGet name =
     (if strcmp ''GLSL.std.450'' name = 0 then SPV_EXT_INST_TYPE_GLSL_STD_450
      else if strcmp ''OpenCL.std'' name = 0 then SPV_EXT_INST_TYPE_OPENCL_STD
      else if strcmp ''SPV_AMD_shader_explicit_vertex_parameter'' name = 0
      then SPV_EXT_INST_TYPE_SPV_AMD_SHADER_EXPLICIT_VERTEX_PARAMETER
      else if strcmp ''SPV_AMD_shader_trinary_minmax'' name = 0
      then SPV_EXT_INST_TYPE_SPV_AMD_SHADER_TRINARY_MINMAX
      else if strcmp ''SPV_AMD_gcn_shader'' name = 0 then SPV_EXT_INST_TYPE_SPV_AMD_GCN_SHADER
      else if strcmp ''SPV_AMD_shader_ballot'' name = 0 then SPV_EXT_INST_TYPE_SPV_AMD_SHADER_BALLOT
      else if strcmp ''DebugInfo'' name = 0 then SPV_EXT_INST_TYPE_DEBUGINFO
      else if strcmp ''OpenCL.DebugInfo.100'' name = 0 then SPV_EXT_INST_TYPE_OPENCL_DEBUGINFO_100
      else if strcmp ''NonSemantic.Shader.DebugInfo.100'' name = 0
      then SPV_EXT_INST_TYPE_NONSEMANTIC_SHADER_DEBUGINFO_100
      else if strncmp ''NonSemantic.ClspvReflection.'' name 28 = 0
      then SPV_EXT_INST_TYPE_NONSEMANTIC_CLSPVREFLECTION
      else if strncmp ''NonSemantic.VkspReflection.'' name 27 = 0
      then SPV_EXT_INST_TYPE_NONSEMANTIC_VKSPREFLECTION
      else if strcmp ''TOSA.001000.1'' name = 0 then SPV_EXT_INST_TYPE_TOSA_001000_1
      else if strncmp ''NonSemantic.'' name 12 = 0 then SPV_EXT_INST_TYPE_NONSEMANTIC_UNKNOWN
      else SPV_EXT_INST_TYPE_NONE)"

definition spvExtInstIsNonSemantic :: "spv_ext_inst_type_t \<Rightarrow> bool" where
  "spvExtInstIsNonSemantic type \<longleftrightarrow>
     type = SPV_EXT_INST_TYPE_NONSEMANTIC_UNKNOWN \<or>
     type = SPV_EXT_INST_TYPE_NONSEMANTIC_SHADER_DEBUGINFO_100 \<or>
     type = SPV_EXT_INST_TYPE_NONSEMANTIC_CLSPVREFLECTION \<or>
     type = SPV_EXT_INST_TYPE_NONSEMANTIC_VKSPREFLECTION"

definition spvExtInstIsDebugInfo :: "spv_ext_inst_type_t \<Rightarrow> bool" where
  "spvExtInstIsDebugInfo type \<longleftrightarrow>
     type = SPV_EXT_INST_TYPE_OPENCL_DEBUGINFO_100 \<or>
     type = SPV_EXT_INST_TYPE_NONSEMANTIC_SHADER_DEBUGINFO_100 \<or>
     type = SPV_EXT_INST_TYPE_DEBUGINFO"

section \<open>Names and prefixes\<close>

definition semantic_set_names :: "string list" where
  "semantic_set_names =
     [''GLSL.std.450'', ''OpenCL.std'', ''SPV_AMD_shader_explicit_vertex_parameter'',
      ''SPV_AMD_shader_trinary_minmax'', ''SPV_AMD_gcn_shader'', ''SPV_AMD_shader_ballot'',
      ''DebugInfo'', ''OpenCL.DebugInfo.100'', ''TOSA.001000.1'']"

lemma strncmp_prefix:
  "length p = n \<Longrightarrow> strncmp p name n = 0 \<longleftrightarrow> take n name = p"
  by (auto simp: strncmp_def strcmp_eq_0)

lemma take_longer_prefix:
  assumes "take n name = p" "take k p = q" "k \<le> n"
  shows "take k name = q"
  using assms by (metis min.absorb1 take_take)

lemma strcmp_eq_0_sym: "strcmp p name = 0 \<longleftrightarrow> name = p"
  by (auto simp: strcmp_eq_0)

lemma nonsemantic_not_semantic:
  assumes "take 12 name = ''NonSemantic.''"
  shows "name \<notin> set semantic_set_names"
proof
  assume "name \<in> set semantic_set_names"
  then have "take 12 name \<in> take 12 ` set semantic_set_names" by (rule imageI)
  then show False unfolding assms by (simp add: semantic_set_names_def)
qed

lemma nonsemantic_prefixes:
  "name = ''NonSemantic.Shader.DebugInfo.100'' \<Longrightarrow> take 12 name = ''NonSemantic.''"
  "take 28 name = ''NonSemantic.ClspvReflection.'' \<Longrightarrow> take 12 name = ''NonSemantic.''"
  "take 27 name = ''NonSemantic.VkspReflection.'' \<Longrightarrow> take 12 name = ''NonSemantic.''"
  by (simp, (erule take_longer_prefix, simp, simp)+)

lemma import_prefix_tests:
  "strncmp ''NonSemantic.ClspvReflection.'' name 28 = 0 \<longleftrightarrow>
    take 28 name = ''NonSemantic.ClspvReflection.''"
  "strncmp ''NonSemantic.VkspReflection.'' name 27 = 0 \<longleftrightarrow>
    take 27 name = ''NonSemantic.VkspReflection.''"
  "strncmp ''NonSemantic.'' name 12 = 0 \<longleftrightarrow> take 12 name = ''NonSemantic.''"
  by (rule strncmp_prefix, simp)+

text \<open>The chain of tests over any truth values, with what the prefixes imply of each other.\<close>

lemma import_chain:
  assumes "p9 \<or> p10 \<or> p11 \<Longrightarrow> p13"
    and "p13 \<Longrightarrow> \<not> (p1 \<or> p2 \<or> p3 \<or> p4 \<or> p5 \<or> p6 \<or> p7 \<or> p8 \<or> p12)"
    and "t = (if p1 then SPV_EXT_INST_TYPE_GLSL_STD_450
      else if p2 then SPV_EXT_INST_TYPE_OPENCL_STD
      else if p3 then SPV_EXT_INST_TYPE_SPV_AMD_SHADER_EXPLICIT_VERTEX_PARAMETER
      else if p4 then SPV_EXT_INST_TYPE_SPV_AMD_SHADER_TRINARY_MINMAX
      else if p5 then SPV_EXT_INST_TYPE_SPV_AMD_GCN_SHADER
      else if p6 then SPV_EXT_INST_TYPE_SPV_AMD_SHADER_BALLOT
      else if p7 then SPV_EXT_INST_TYPE_DEBUGINFO
      else if p8 then SPV_EXT_INST_TYPE_OPENCL_DEBUGINFO_100
      else if p9 then SPV_EXT_INST_TYPE_NONSEMANTIC_SHADER_DEBUGINFO_100
      else if p10 then SPV_EXT_INST_TYPE_NONSEMANTIC_CLSPVREFLECTION
      else if p11 then SPV_EXT_INST_TYPE_NONSEMANTIC_VKSPREFLECTION
      else if p12 then SPV_EXT_INST_TYPE_TOSA_001000_1
      else if p13 then SPV_EXT_INST_TYPE_NONSEMANTIC_UNKNOWN
      else SPV_EXT_INST_TYPE_NONE)"
  shows "(t \<noteq> SPV_EXT_INST_TYPE_NONE) =
      ((p1 \<or> p2 \<or> p3 \<or> p4 \<or> p5 \<or> p6 \<or> p7 \<or> p8 \<or> p12) \<or> p13) \<and> spvExtInstIsNonSemantic t = p13"
  using assms(1,2) unfolding assms(3) spvExtInstIsNonSemantic_def by (simp split: if_split)

lemma semantic_set_names_iff:
  "name \<in> set semantic_set_names \<longleftrightarrow>
    name = ''GLSL.std.450'' \<or> name = ''OpenCL.std'' \<or>
    name = ''SPV_AMD_shader_explicit_vertex_parameter'' \<or>
    name = ''SPV_AMD_shader_trinary_minmax'' \<or> name = ''SPV_AMD_gcn_shader'' \<or>
    name = ''SPV_AMD_shader_ballot'' \<or> name = ''DebugInfo'' \<or> name = ''OpenCL.DebugInfo.100'' \<or>
    name = ''TOSA.001000.1''"
  by (simp only: semantic_set_names_def list.set insert_iff empty_iff simp_thms)

lemma known_set_tests:
  assumes "spvExtInstImportTypeGet name \<noteq> SPV_EXT_INST_TYPE_NONE"
  shows "name \<in> set semantic_set_names \<or> take 12 name = ''NonSemantic.''"
  using assms unfolding spvExtInstImportTypeGet_def strcmp_eq_0_sym import_prefix_tests semantic_set_names_iff
  by (auto dest: nonsemantic_prefixes split: if_splits)

text \<open>No known set has a name whose first four characters are those of a known set in reverse.\<close>

lemma known_set_head:
  assumes "spvExtInstImportTypeGet name \<noteq> SPV_EXT_INST_TYPE_NONE"
  shows "take 4 name \<in> {''GLSL'', ''Open'', ''SPV_'', ''Debu'', ''TOSA'', ''NonS''}"
proof -
  have "take 4 name = ''NonS''" if "take 12 name = ''NonSemantic.''"
    by (rule take_longer_prefix [OF that]) simp_all
  then show ?thesis
    using known_set_tests [OF assms] by (auto simp: semantic_set_names_def)
qed

lemma known_set_reversed:
  assumes "spvExtInstImportTypeGet name \<noteq> SPV_EXT_INST_TYPE_NONE" "take 4 name' = rev (take 4 name)"
  shows "spvExtInstImportTypeGet name' = SPV_EXT_INST_TYPE_NONE"
proof (rule ccontr)
  assume "spvExtInstImportTypeGet name' \<noteq> SPV_EXT_INST_TYPE_NONE"
  from known_set_head [OF this] known_set_head [OF assms(1)] assms(2) show False by auto
qed

lemma known_set_long:
  assumes "spvExtInstImportTypeGet name \<noteq> SPV_EXT_INST_TYPE_NONE"
  shows "4 \<le> length name"
proof -
  have "length (take 4 name) = 4" using known_set_head [OF assms] by (auto simp del: length_take)
  then show ?thesis by simp
qed

section \<open>Properties\<close>

text \<open>An import is accepted exactly when it is one of nine names or begins with
  \<open>NonSemantic.\<close>, and the sets whose unknown instructions may be skipped are exactly those whose
  name begins so.\<close>

theorem import_type_classes:
  "(spvExtInstImportTypeGet name \<noteq> SPV_EXT_INST_TYPE_NONE) =
     (name \<in> set semantic_set_names \<or> take 12 name = ''NonSemantic.'') \<and>
   spvExtInstIsNonSemantic (spvExtInstImportTypeGet name) = (take 12 name = ''NonSemantic.'')"
  unfolding semantic_set_names_iff
proof (rule import_chain [OF _ _ spvExtInstImportTypeGet_def [unfolded strcmp_eq_0_sym import_prefix_tests]])
  show "name = ''NonSemantic.Shader.DebugInfo.100'' \<or> take 28 name = ''NonSemantic.ClspvReflection.'' \<or>
    take 27 name = ''NonSemantic.VkspReflection.'' \<Longrightarrow> take 12 name = ''NonSemantic.''"
    using nonsemantic_prefixes by blast
  show "take 12 name = ''NonSemantic.'' \<Longrightarrow> \<not> (name = ''GLSL.std.450'' \<or> name = ''OpenCL.std'' \<or>
    name = ''SPV_AMD_shader_explicit_vertex_parameter'' \<or>
    name = ''SPV_AMD_shader_trinary_minmax'' \<or> name = ''SPV_AMD_gcn_shader'' \<or>
    name = ''SPV_AMD_shader_ballot'' \<or> name = ''DebugInfo'' \<or> name = ''OpenCL.DebugInfo.100'' \<or>
    name = ''TOSA.001000.1'')"
    using nonsemantic_not_semantic unfolding semantic_set_names_iff .
qed

end
