(* ===== verification/Binary_Operand.thy ===== *)
theory Binary_Operand
  imports Endian Str_Utils Opcodes Operands Ext_Inst Assembly_Grammar
begin

text \<open>
  The parser of binary modules, \<open>src/ShaderCompiler/src/spirv-tools/binary.cpp\<close>: its data, the
  header and the parser of one operand. A parser is the
  record of its immutable members (grammar, callbacks, and the byte order of the host); the state
  of a module parse is the record \<open>Parser_State\<close>. The data the callbacks work on, behind
  \<open>user_data\<close>, is a value of type \<open>'u\<close> that they return updated. An error is its result code; the
  text of the diagnostics is not modelled. A method that returns a result code and updates the
  state returns the code on failure, where \<open>parse\<close> drops the state, and the new state otherwise.
\<close>

declare push_bit_of_1 [simp del]

section \<open>Data\<close>

record NumberType =
  nt_type :: spv_number_kind_t
  nt_bit_width :: uint32_t
  nt_encoding :: spv_fp_encoding_t

text \<open>\<open>fp_encoding\<close> is left uninitialised for most operands: \<open>None\<close>.\<close>

record spv_parsed_operand_t =
  po_offset :: uint16_t
  po_num_words :: uint16_t
  po_type :: spv_operand_type_t
  po_number_kind :: spv_number_kind_t
  po_number_bit_width :: uint32_t
  po_fp_encoding :: "spv_fp_encoding_t option"

text \<open>The pointers to the words and to the operands are the lists of what they point to.\<close>

record spv_parsed_instruction_t =
  pi_words :: "uint32_t list"
  pi_num_words :: uint16_t
  pi_opcode :: uint16_t
  pi_ext_inst_type :: spv_ext_inst_type_t
  pi_type_id :: uint32_t
  pi_result_id :: uint32_t
  pi_operands :: "spv_parsed_operand_t list"
  pi_num_operands :: uint16_t

record spv_header_t =
  h_magic :: uint32_t
  h_version :: uint32_t
  h_generator :: uint32_t
  h_bound :: uint32_t
  h_schema :: uint32_t
  h_instructions :: "uint32_t list"

record Parser_State =
  st_words :: "uint32_t list"
  st_word_index :: nat
  st_instruction_count :: nat
  st_endian :: spv_endianness_t
  st_requires_endian_conversion :: bool
  st_id_to_type_id :: "uint32_t \<rightharpoonup> uint32_t"
  st_type_id_to_number_type_info :: "uint32_t \<rightharpoonup> NumberType"
  st_import_id_to_ext_inst_type :: "uint32_t \<rightharpoonup> spv_ext_inst_type_t"
  st_operands :: "spv_parsed_operand_t list"
  st_endian_converted_words :: "uint32_t list"
  st_expected_operands :: spv_operand_pattern_t

definition initial_State :: "uint32_t list \<Rightarrow> Parser_State" where
  "initial_State words_arg =
     \<lparr>st_words = words_arg, st_word_index = 0, st_instruction_count = 0,
      st_endian = SPV_ENDIANNESS_LITTLE, st_requires_endian_conversion = False,
      st_id_to_type_id = Map.empty, st_type_id_to_number_type_info = Map.empty,
      st_import_id_to_ext_inst_type = Map.empty, st_operands = [], st_endian_converted_words = [],
      st_expected_operands = []\<rparr>"

type_synonym 'u parsed_header_fn =
  "'u \<Rightarrow> spv_endianness_t \<Rightarrow> uint32_t \<Rightarrow> uint32_t \<Rightarrow> uint32_t \<Rightarrow> uint32_t \<Rightarrow> uint32_t \<Rightarrow> 'u \<times> spv_result_t"
type_synonym 'u parsed_instruction_fn = "'u \<Rightarrow> spv_parsed_instruction_t \<Rightarrow> 'u \<times> spv_result_t"

record 'u Parser =
  p_grammar :: grammar
  p_host_order :: uint32_t
  p_parsed_header_fn :: "'u parsed_header_fn option"
  p_parsed_instruction_fn :: "'u parsed_instruction_fn option"

section \<open>The header\<close>

definition SPV_INDEX_INSTRUCTION :: nat where "SPV_INDEX_INSTRUCTION = 5"

definition SPV_VERSION :: uint32_t where "SPV_VERSION = 0x10600"

definition spvBinaryHeaderGet ::
  "uint32_t \<Rightarrow> uint32_t list option \<Rightarrow> spv_endianness_t \<Rightarrow> bool \<Rightarrow> spv_result_t + spv_header_t" where
  "spvBinaryHeaderGet host code endian pHeader_null =
     (case code of
        None \<Rightarrow> Inl SPV_ERROR_INVALID_BINARY
      | Some ws \<Rightarrow>
          if length ws < SPV_INDEX_INSTRUCTION then Inl SPV_ERROR_INVALID_BINARY
          else if pHeader_null then Inl SPV_ERROR_INVALID_POINTER
          else
            let version = spvFixWord host (ws ! 1) endian
            in if version AND 0x000000ff \<noteq> 0 \<or> version AND 0xff000000 \<noteq> 0
               then Inl SPV_ERROR_INVALID_BINARY
               else if version < SPV_SPIRV_VERSION_WORD 1 0 \<or> version > SPV_VERSION
               then Inl SPV_ERROR_INVALID_BINARY
               else Inr \<lparr>h_magic = spvFixWord host (ws ! 0) endian, h_version = version,
                         h_generator = spvFixWord host (ws ! 2) endian,
                         h_bound = spvFixWord host (ws ! 3) endian,
                         h_schema = spvFixWord host (ws ! 4) endian,
                         h_instructions = drop SPV_INDEX_INSTRUCTION ws\<rparr>)"

definition spvDecodeLiteralStringOperand :: "spv_parsed_instruction_t \<Rightarrow> uint16_t \<Rightarrow> string" where
  "spvDecodeLiteralStringOperand inst operand_index =
     (let operand = pi_operands inst ! unat operand_index
      in MakeString (take (unat (po_num_words operand)) (drop (unat (po_offset operand)) (pi_words inst))))"

section \<open>Reading words\<close>

definition peekAt :: "'u Parser \<Rightarrow> Parser_State \<Rightarrow> nat \<Rightarrow> uint32_t" where
  "peekAt P st index = spvFixWord (p_host_order P) (st_words st ! index) (st_endian st)"

definition peek :: "'u Parser \<Rightarrow> Parser_State \<Rightarrow> uint32_t" where
  "peek P st = peekAt P st (st_word_index st)"

section \<open>Numeric types\<close>

definition setNumericTypeInfoForType ::
  "Parser_State \<Rightarrow> spv_parsed_operand_t \<Rightarrow> uint32_t \<Rightarrow> spv_result_t + spv_parsed_operand_t" where
  "setNumericTypeInfoForType st parsed_operand type_id =
     (case st_type_id_to_number_type_info st type_id of
        None \<Rightarrow> Inl SPV_ERROR_INVALID_BINARY
      | Some info \<Rightarrow>
          if nt_type info = SPV_NUMBER_NONE then Inl SPV_ERROR_INVALID_BINARY
          else Inr (parsed_operand
            \<lparr>po_number_kind := nt_type info, po_number_bit_width := nt_bit_width info,
             po_fp_encoding := Some (nt_encoding info),
             po_num_words := ucast ((nt_bit_width info + 31) div 32)\<rparr>))"

definition recordNumberType ::
  "'u Parser \<Rightarrow> nat \<Rightarrow> spv_parsed_instruction_t \<Rightarrow> Parser_State \<Rightarrow> Parser_State" where
  "recordNumberType P inst_offset inst st =
     (let opcode = ucast (pi_opcode inst) :: Op
      in if spvOpcodeGeneratesType opcode then
           let info = \<lparr>nt_type = SPV_NUMBER_NONE, nt_bit_width = 0, nt_encoding = SPV_FP_ENCODING_UNKNOWN\<rparr>;
               info =
                 (if OpTypeInt = opcode then
                    info \<lparr>nt_type := (if peekAt P st (inst_offset + 3) \<noteq> 0 then SPV_NUMBER_SIGNED_INT
                                      else SPV_NUMBER_UNSIGNED_INT),
                          nt_bit_width := peekAt P st (inst_offset + 2)\<rparr>
                  else if OpTypeFloat = opcode then
                    let info = info \<lparr>nt_type := SPV_NUMBER_FLOATING,
                                     nt_bit_width := peekAt P st (inst_offset + 2)\<rparr>
                    in if pi_num_words inst \<ge> 4 then
                         (case LookupOperand (p_grammar P) SPV_OPERAND_TYPE_FPENCODING
                                 (peekAt P st (inst_offset + 3)) of
                            Inr desc \<Rightarrow>
                              info \<lparr>nt_encoding := spvFPEncodingFromOperandFPEncoding (od_value desc)\<rparr>
                          | Inl status \<Rightarrow> info \<lparr>nt_encoding := SPV_FP_ENCODING_UNKNOWN\<rparr>)
                       else info
                  else info)
           in st \<lparr>st_type_id_to_number_type_info :=
                    (st_type_id_to_number_type_info st)(pi_result_id inst \<mapsto> info)\<rparr>
         else st)"

section \<open>The cases of an operand\<close>

text \<open>
  One definition per group of cases of the switch of \<open>parseOperand\<close>; each takes the word at the
  current position and the state, the instruction and the operand built so far.
\<close>

type_synonym operand_state = "Parser_State \<times> spv_parsed_instruction_t \<times> spv_parsed_operand_t"

definition parse_type_id :: "uint32_t \<Rightarrow> operand_state \<Rightarrow> spv_result_t + operand_state" where
  "parse_type_id word = (\<lambda>(st, inst, po).
     if word = 0 then Inl SPV_ERROR_INVALID_ID
     else Inr (st, inst\<lparr>pi_type_id := word\<rparr>, po))"

definition parse_result_id :: "uint32_t \<Rightarrow> operand_state \<Rightarrow> spv_result_t + operand_state" where
  "parse_result_id word = (\<lambda>(st, inst, po).
     if word = 0 then Inl SPV_ERROR_INVALID_ID
     else
       let inst = inst\<lparr>pi_result_id := word\<rparr>
       in if st_id_to_type_id st (pi_result_id inst) \<noteq> None then Inl SPV_ERROR_INVALID_ID
          else Inr (st\<lparr>st_id_to_type_id := (st_id_to_type_id st)(pi_result_id inst \<mapsto>
                        (if spvOpcodeGeneratesType (ucast (pi_opcode inst)) then pi_result_id inst
                         else pi_type_id inst))\<rparr>, inst, po))"

definition parse_id :: "uint32_t \<Rightarrow> operand_state \<Rightarrow> spv_result_t + operand_state" where
  "parse_id word = (\<lambda>(st, inst, po).
     if word = 0 then Inl SPV_ERROR_INVALID_ID
     else
       let po = po\<lparr>po_type := SPV_OPERAND_TYPE_ID\<rparr>
       in if spvIsExtendedInstruction (ucast (pi_opcode inst)) \<and> po_offset po = 3 then
            (case st_import_id_to_ext_inst_type st word of
               None \<Rightarrow> Inl SPV_ERROR_INVALID_ID
             | Some t \<Rightarrow> Inr (st, inst\<lparr>pi_ext_inst_type := t\<rparr>, po))
          else Inr (st, inst, po))"

definition parse_scope_id :: "uint32_t \<Rightarrow> operand_state \<Rightarrow> spv_result_t + operand_state" where
  "parse_scope_id word = (\<lambda>(st, inst, po).
     if word = 0 then Inl SPV_ERROR_INVALID_BINARY else Inr (st, inst, po))"

definition parse_ext_inst_number ::
  "grammar \<Rightarrow> uint32_t \<Rightarrow> operand_state \<Rightarrow> spv_result_t + operand_state" where
  "parse_ext_inst_number G word = (\<lambda>(st, inst, po).
     case LookupExtInst G (pi_ext_inst_type inst) word of
       Inr desc \<Rightarrow>
         Inr (st\<lparr>st_expected_operands :=
                   spvPushOperandTypesSpan (ExtInstDesc_operands G desc) (st_expected_operands st)\<rparr>,
              inst, po)
     | Inl _ \<Rightarrow>
         if \<not> spvExtInstIsNonSemantic (pi_ext_inst_type inst) then Inl SPV_ERROR_INVALID_BINARY
         else Inr (st\<lparr>st_expected_operands := st_expected_operands st @ [SPV_OPERAND_TYPE_VARIABLE_ID]\<rparr>,
                   inst, po))"

definition parse_spec_constant_op ::
  "grammar \<Rightarrow> uint32_t \<Rightarrow> operand_state \<Rightarrow> spv_result_t + operand_state" where
  "parse_spec_constant_op G word = (\<lambda>(st, inst, po).
     if word > 0x7fffffff \<or> lookupSpecConstantOpcode word \<noteq> SPV_SUCCESS
     then Inl SPV_ERROR_INVALID_BINARY
     else
       case LookupOpcode G word of
         Inl _ \<Rightarrow> Inl SPV_ERROR_INTERNAL
       | Inr opcode_entry \<Rightarrow>
           Inr (st\<lparr>st_expected_operands :=
                     spvPushOperandTypesSpan (drop 2 (InstructionDesc_operands G opcode_entry))
                       (st_expected_operands st)\<rparr>, inst, po))"

definition parse_literal_integer :: "operand_state \<Rightarrow> spv_result_t + operand_state" where
  "parse_literal_integer = (\<lambda>(st, inst, po).
     Inr (st, inst, po\<lparr>po_type := SPV_OPERAND_TYPE_LITERAL_INTEGER,
                       po_number_kind := SPV_NUMBER_UNSIGNED_INT, po_number_bit_width := 32\<rparr>))"

definition parse_literal_float :: "operand_state \<Rightarrow> spv_result_t + operand_state" where
  "parse_literal_float = (\<lambda>(st, inst, po).
     Inr (st, inst, po\<lparr>po_type := SPV_OPERAND_TYPE_LITERAL_FLOAT,
                       po_number_kind := SPV_NUMBER_FLOATING, po_number_bit_width := 32\<rparr>))"

definition parse_typed_literal ::
  "'u Parser \<Rightarrow> nat \<Rightarrow> operand_state \<Rightarrow> spv_result_t + operand_state" where
  "parse_typed_literal P inst_offset = (\<lambda>(st, inst, po).
     let po = po\<lparr>po_type := SPV_OPERAND_TYPE_TYPED_LITERAL_NUMBER\<rparr>
     in if ucast (pi_opcode inst) = OpSwitch then
          let selector_id = peekAt P st (inst_offset + 1)
          in (case st_id_to_type_id st selector_id of
                None \<Rightarrow> Inl SPV_ERROR_INVALID_BINARY
              | Some type_id \<Rightarrow>
                  if type_id = 0 then Inl SPV_ERROR_INVALID_BINARY
                  else if selector_id = type_id then Inl SPV_ERROR_INVALID_BINARY
                  else
                    case setNumericTypeInfoForType st po type_id of
                      Inl error \<Rightarrow> Inl error
                    | Inr po \<Rightarrow>
                        if po_number_kind po \<noteq> SPV_NUMBER_UNSIGNED_INT \<and>
                           po_number_kind po \<noteq> SPV_NUMBER_SIGNED_INT
                        then Inl SPV_ERROR_INVALID_BINARY
                        else Inr (st, inst, po))
        else
          case setNumericTypeInfoForType st po (pi_type_id inst) of
            Inl error \<Rightarrow> Inl error
          | Inr po \<Rightarrow> Inr (st, inst, po))"

definition parse_literal_string :: "operand_state \<Rightarrow> spv_result_t + operand_state" where
  "parse_literal_string = (\<lambda>(st, inst, po).
     let max_words = length (st_words st) - st_word_index st;
         str = MakeString (take max_words (drop (st_word_index st) (st_words st)))
     in if length str = max_words * 4 then Inl SPV_ERROR_INVALID_BINARY
        else
          let string_num_words = length str div 4 + 1
          in if string_num_words > 65535 then Inl SPV_ERROR_INVALID_BINARY
             else
               let po = po\<lparr>po_num_words := of_nat string_num_words,
                           po_type := SPV_OPERAND_TYPE_LITERAL_STRING\<rparr>
               in if OpExtInstImport = ucast (pi_opcode inst) then
                    let ext_inst_type = spvExtInstImportTypeGet str
                    in if SPV_EXT_INST_TYPE_NONE = ext_inst_type then Inl SPV_ERROR_INVALID_BINARY
                       else Inr (st\<lparr>st_import_id_to_ext_inst_type :=
                              (st_import_id_to_ext_inst_type st)(pi_result_id inst \<mapsto> ext_inst_type)\<rparr>,
                            inst, po)
                  else Inr (st, inst, po))"

text \<open>An operand type that the switch treats as a plain enumerant.\<close>

definition enum_operand_types :: "spv_operand_type_t list" where
  "enum_operand_types =
     [SPV_OPERAND_TYPE_CAPABILITY, SPV_OPERAND_TYPE_EXECUTION_MODEL,
        SPV_OPERAND_TYPE_ADDRESSING_MODEL, SPV_OPERAND_TYPE_MEMORY_MODEL,
        SPV_OPERAND_TYPE_EXECUTION_MODE, SPV_OPERAND_TYPE_STORAGE_CLASS,
        SPV_OPERAND_TYPE_DIMENSIONALITY, SPV_OPERAND_TYPE_SAMPLER_ADDRESSING_MODE,
        SPV_OPERAND_TYPE_SAMPLER_FILTER_MODE, SPV_OPERAND_TYPE_SAMPLER_IMAGE_FORMAT,
        SPV_OPERAND_TYPE_FP_ROUNDING_MODE, SPV_OPERAND_TYPE_LINKAGE_TYPE,
        SPV_OPERAND_TYPE_ACCESS_QUALIFIER, SPV_OPERAND_TYPE_OPTIONAL_ACCESS_QUALIFIER,
        SPV_OPERAND_TYPE_FUNCTION_PARAMETER_ATTRIBUTE, SPV_OPERAND_TYPE_DECORATION,
        SPV_OPERAND_TYPE_BUILT_IN, SPV_OPERAND_TYPE_GROUP_OPERATION,
        SPV_OPERAND_TYPE_KERNEL_ENQ_FLAGS, SPV_OPERAND_TYPE_KERNEL_PROFILING_INFO,
        SPV_OPERAND_TYPE_RAY_FLAGS, SPV_OPERAND_TYPE_RAY_QUERY_INTERSECTION,
        SPV_OPERAND_TYPE_RAY_QUERY_COMMITTED_INTERSECTION_TYPE,
        SPV_OPERAND_TYPE_RAY_QUERY_CANDIDATE_INTERSECTION_TYPE,
        SPV_OPERAND_TYPE_DEBUG_BASE_TYPE_ATTRIBUTE_ENCODING, SPV_OPERAND_TYPE_DEBUG_COMPOSITE_TYPE,
        SPV_OPERAND_TYPE_DEBUG_TYPE_QUALIFIER, SPV_OPERAND_TYPE_DEBUG_OPERATION,
        SPV_OPERAND_TYPE_CLDEBUG100_DEBUG_BASE_TYPE_ATTRIBUTE_ENCODING,
        SPV_OPERAND_TYPE_CLDEBUG100_DEBUG_COMPOSITE_TYPE,
        SPV_OPERAND_TYPE_CLDEBUG100_DEBUG_TYPE_QUALIFIER,
        SPV_OPERAND_TYPE_CLDEBUG100_DEBUG_OPERATION,
        SPV_OPERAND_TYPE_CLDEBUG100_DEBUG_IMPORTED_ENTITY, SPV_OPERAND_TYPE_FPDENORM_MODE,
        SPV_OPERAND_TYPE_FPOPERATION_MODE, SPV_OPERAND_TYPE_QUANTIZATION_MODES,
        SPV_OPERAND_TYPE_OVERFLOW_MODES, SPV_OPERAND_TYPE_PACKED_VECTOR_FORMAT,
        SPV_OPERAND_TYPE_OPTIONAL_PACKED_VECTOR_FORMAT, SPV_OPERAND_TYPE_FPENCODING,
        SPV_OPERAND_TYPE_OPTIONAL_FPENCODING, SPV_OPERAND_TYPE_HOST_ACCESS_QUALIFIER,
        SPV_OPERAND_TYPE_LOAD_CACHE_CONTROL, SPV_OPERAND_TYPE_STORE_CACHE_CONTROL,
        SPV_OPERAND_TYPE_NAMED_MAXIMUM_NUMBER_OF_REGISTERS]"

definition parse_enum ::
  "grammar \<Rightarrow> spv_operand_type_t \<Rightarrow> uint32_t \<Rightarrow> operand_state \<Rightarrow> spv_result_t + operand_state" where
  "parse_enum G type word = (\<lambda>(st, inst, po).
     let po = (if type = SPV_OPERAND_TYPE_OPTIONAL_ACCESS_QUALIFIER
               then po\<lparr>po_type := SPV_OPERAND_TYPE_ACCESS_QUALIFIER\<rparr> else po);
         po = (if type = SPV_OPERAND_TYPE_OPTIONAL_PACKED_VECTOR_FORMAT
               then po\<lparr>po_type := SPV_OPERAND_TYPE_PACKED_VECTOR_FORMAT\<rparr> else po);
         po = (if type = SPV_OPERAND_TYPE_OPTIONAL_FPENCODING
               then po\<lparr>po_type := SPV_OPERAND_TYPE_FPENCODING\<rparr> else po)
     in case LookupOperand G type word of
          Inl _ \<Rightarrow> Inl SPV_ERROR_INVALID_BINARY
        | Inr entry \<Rightarrow>
            Inr (st\<lparr>st_expected_operands :=
                      spvPushOperandTypesSpan (OperandDesc_operands G entry) (st_expected_operands st)\<rparr>,
                 inst, po))"

definition parse_source_language ::
  "grammar \<Rightarrow> spv_operand_type_t \<Rightarrow> uint32_t \<Rightarrow> operand_state \<Rightarrow> spv_result_t + operand_state" where
  "parse_source_language G type word = (\<lambda>(st, inst, po).
     case LookupOperand G type word of
       Inl _ \<Rightarrow> Inl SPV_ERROR_INVALID_BINARY
     | Inr entry \<Rightarrow>
         Inr (st\<lparr>st_expected_operands :=
                   spvPushOperandTypesSpan (OperandDesc_operands G entry) (st_expected_operands st)\<rparr>,
              inst, po))"

definition mask_operand_types :: "spv_operand_type_t list" where
  "mask_operand_types =
     [SPV_OPERAND_TYPE_FP_FAST_MATH_MODE, SPV_OPERAND_TYPE_FUNCTION_CONTROL,
        SPV_OPERAND_TYPE_LOOP_CONTROL, SPV_OPERAND_TYPE_IMAGE, SPV_OPERAND_TYPE_OPTIONAL_IMAGE,
        SPV_OPERAND_TYPE_MEMORY_ACCESS, SPV_OPERAND_TYPE_TENSOR_OPERANDS,
        SPV_OPERAND_TYPE_OPTIONAL_TENSOR_OPERANDS, SPV_OPERAND_TYPE_OPTIONAL_MEMORY_ACCESS,
        SPV_OPERAND_TYPE_OPTIONAL_RAW_ACCESS_CHAIN_OPERANDS, SPV_OPERAND_TYPE_SELECTION_CONTROL,
        SPV_OPERAND_TYPE_CLDEBUG100_DEBUG_INFO_FLAGS, SPV_OPERAND_TYPE_DEBUG_INFO_FLAGS,
        SPV_OPERAND_TYPE_COOPERATIVE_MATRIX_OPERANDS,
        SPV_OPERAND_TYPE_OPTIONAL_COOPERATIVE_MATRIX_OPERANDS,
        SPV_OPERAND_TYPE_COOPERATIVE_MATRIX_REDUCE, SPV_OPERAND_TYPE_TENSOR_ADDRESSING_OPERANDS,
        SPV_OPERAND_TYPE_MATRIX_MULTIPLY_ACCUMULATE_OPERANDS,
        SPV_OPERAND_TYPE_OPTIONAL_MATRIX_MULTIPLY_ACCUMULATE_OPERANDS]"

text \<open>
  The loop over the bits of a mask from the highest down. It runs while bits remain; \<open>bit_mask\<close>
  becomes 0 only when none do.
\<close>

function mask_bits_loop ::
  "grammar \<Rightarrow> spv_operand_type_t \<Rightarrow> uint32_t \<Rightarrow> uint32_t \<Rightarrow> spv_operand_pattern_t \<Rightarrow>
   spv_result_t + spv_operand_pattern_t" where
  "mask_bits_loop G type remaining_word bit_mask expected =
     (if remaining_word = 0 \<or> bit_mask = 0 then Inr expected
      else if remaining_word AND bit_mask \<noteq> 0 then
        (case LookupOperand G type bit_mask of
           Inl _ \<Rightarrow> Inl SPV_ERROR_INVALID_BINARY
         | Inr entry \<Rightarrow>
             mask_bits_loop G type (remaining_word XOR bit_mask) (drop_bit 1 bit_mask)
               (spvPushOperandTypesSpan (OperandDesc_operands G entry) expected))
      else mask_bits_loop G type remaining_word (drop_bit 1 bit_mask) expected)"
  by pat_completeness auto
termination
  by (relation "measure (\<lambda>(G, t, r, m, e). unat m)") (use drop_bit_1_less in auto)

declare mask_bits_loop.simps [simp del]

definition parse_mask ::
  "grammar \<Rightarrow> spv_operand_type_t \<Rightarrow> uint32_t \<Rightarrow> operand_state \<Rightarrow> spv_result_t + operand_state" where
  "parse_mask G type word = (\<lambda>(st, inst, po).
     let po = (if type = SPV_OPERAND_TYPE_OPTIONAL_IMAGE
               then po\<lparr>po_type := SPV_OPERAND_TYPE_IMAGE\<rparr> else po);
         po = (if type = SPV_OPERAND_TYPE_OPTIONAL_MEMORY_ACCESS
               then po\<lparr>po_type := SPV_OPERAND_TYPE_MEMORY_ACCESS\<rparr> else po);
         po = (if type = SPV_OPERAND_TYPE_OPTIONAL_COOPERATIVE_MATRIX_OPERANDS
               then po\<lparr>po_type := SPV_OPERAND_TYPE_COOPERATIVE_MATRIX_OPERANDS\<rparr> else po);
         po = (if type = SPV_OPERAND_TYPE_OPTIONAL_RAW_ACCESS_CHAIN_OPERANDS
               then po\<lparr>po_type := SPV_OPERAND_TYPE_RAW_ACCESS_CHAIN_OPERANDS\<rparr> else po);
         po = (if type = SPV_OPERAND_TYPE_OPTIONAL_MATRIX_MULTIPLY_ACCUMULATE_OPERANDS
               then po\<lparr>po_type := SPV_OPERAND_TYPE_MATRIX_MULTIPLY_ACCUMULATE_OPERANDS\<rparr> else po);
         po = (if type = SPV_OPERAND_TYPE_OPTIONAL_TENSOR_OPERANDS
               then po\<lparr>po_type := SPV_OPERAND_TYPE_TENSOR_OPERANDS\<rparr> else po)
     in case mask_bits_loop G type word (push_bit 31 1) (st_expected_operands st) of
          Inl error \<Rightarrow> Inl error
        | Inr expected \<Rightarrow>
            let expected =
                  (if word = 0 then
                     (case LookupOperand G type 0 of
                        Inr entry \<Rightarrow> spvPushOperandTypesSpan (OperandDesc_operands G entry) expected
                      | Inl _ \<Rightarrow> expected)
                   else expected)
            in Inr (st\<lparr>st_expected_operands := expected\<rparr>, inst, po))"

section \<open>An operand\<close>

definition parse_operand_switch ::
  "'u Parser \<Rightarrow> nat \<Rightarrow> spv_operand_type_t \<Rightarrow> uint32_t \<Rightarrow> operand_state \<Rightarrow> spv_result_t + operand_state"
  where
  "parse_operand_switch P inst_offset type word os =
     (if type = SPV_OPERAND_TYPE_TYPE_ID then parse_type_id word os
      else if type = SPV_OPERAND_TYPE_RESULT_ID then parse_result_id word os
      else if type \<in> {SPV_OPERAND_TYPE_ID, SPV_OPERAND_TYPE_OPTIONAL_ID} then parse_id word os
      else if type \<in> {SPV_OPERAND_TYPE_SCOPE_ID, SPV_OPERAND_TYPE_MEMORY_SEMANTICS_ID}
      then parse_scope_id word os
      else if type = SPV_OPERAND_TYPE_EXTENSION_INSTRUCTION_NUMBER
      then parse_ext_inst_number (p_grammar P) word os
      else if type = SPV_OPERAND_TYPE_SPEC_CONSTANT_OP_NUMBER
      then parse_spec_constant_op (p_grammar P) word os
      else if type \<in> {SPV_OPERAND_TYPE_LITERAL_INTEGER, SPV_OPERAND_TYPE_OPTIONAL_LITERAL_INTEGER}
      then parse_literal_integer os
      else if type = SPV_OPERAND_TYPE_LITERAL_FLOAT then parse_literal_float os
      else if type \<in> {SPV_OPERAND_TYPE_TYPED_LITERAL_NUMBER,
                      SPV_OPERAND_TYPE_OPTIONAL_TYPED_LITERAL_INTEGER}
      then parse_typed_literal P inst_offset os
      else if type \<in> {SPV_OPERAND_TYPE_LITERAL_STRING, SPV_OPERAND_TYPE_OPTIONAL_LITERAL_STRING}
      then parse_literal_string os
      else if type \<in> set enum_operand_types then parse_enum (p_grammar P) type word os
      else if type = SPV_OPERAND_TYPE_SOURCE_LANGUAGE
      then parse_source_language (p_grammar P) type word os
      else if type \<in> set mask_operand_types then parse_mask (p_grammar P) type word os
      else Inl SPV_ERROR_INVALID_BINARY)"

text \<open>What follows the switch; \<open>convert_operand_endianness\<close> is true on every path.\<close>

definition finish_operand :: "'u Parser \<Rightarrow> operand_state \<Rightarrow> spv_result_t + Parser_State \<times> spv_parsed_instruction_t"
  where
  "finish_operand P = (\<lambda>(st, inst, po).
     let st = st\<lparr>st_operands := st_operands st @ [po]\<rparr>;
         index_after_operand = st_word_index st + unat (po_num_words po)
     in if length (st_words st) < index_after_operand then Inl SPV_ERROR_INVALID_BINARY
        else
          let st = (if st_requires_endian_conversion st then
                      st\<lparr>st_endian_converted_words := st_endian_converted_words st @
                        map (\<lambda>raw_word. spvFixWord (p_host_order P) raw_word (st_endian st))
                          (take (unat (po_num_words po)) (drop (st_word_index st) (st_words st)))\<rparr>
                    else st)
          in Inr (st\<lparr>st_word_index := index_after_operand\<rparr>, inst))"

definition parseOperand ::
  "'u Parser \<Rightarrow> nat \<Rightarrow> spv_operand_type_t \<Rightarrow> Parser_State \<times> spv_parsed_instruction_t \<Rightarrow>
   spv_result_t + Parser_State \<times> spv_parsed_instruction_t" where
  "parseOperand P inst_offset type = (\<lambda>(st, inst).
     let parsed_operand =
           \<lparr>po_offset = of_nat (st_word_index st - inst_offset), po_num_words = 1, po_type = type,
            po_number_kind = SPV_NUMBER_NONE, po_number_bit_width = 0, po_fp_encoding = None\<rparr>
     in if st_word_index st \<ge> length (st_words st) then Inl SPV_ERROR_INVALID_BINARY
        else
          case parse_operand_switch P inst_offset type (peek P st) (st, inst, parsed_operand) of
            Inl error \<Rightarrow> Inl error
          | Inr os \<Rightarrow> finish_operand P os)"

section \<open>What an operand leaves alone\<close>

text \<open>
  The cases of the switch change only the maps, the expected operands, the scalar members of the
  instruction and the operand; all but two groups leave the word count of the operand at one.
\<close>

definition typed_literal :: "spv_operand_type_t \<Rightarrow> bool" where
  "typed_literal type \<longleftrightarrow>
     type = SPV_OPERAND_TYPE_TYPED_LITERAL_NUMBER \<or> type = SPV_OPERAND_TYPE_OPTIONAL_TYPED_LITERAL_INTEGER"

definition same_position :: "Parser_State \<Rightarrow> Parser_State \<Rightarrow> bool" where
  "same_position st st' \<longleftrightarrow>
     st_words st' = st_words st \<and> st_word_index st' = st_word_index st \<and>
     st_instruction_count st' = st_instruction_count st \<and> st_endian st' = st_endian st \<and>
     st_requires_endian_conversion st' = st_requires_endian_conversion st \<and>
     st_operands st' = st_operands st \<and>
     st_endian_converted_words st' = st_endian_converted_words st \<and>
     st_type_id_to_number_type_info st' = st_type_id_to_number_type_info st"

definition operand_frame :: "operand_state \<Rightarrow> operand_state \<Rightarrow> bool" where
  "operand_frame = (\<lambda>(st, inst, po) (st', inst', po').
     same_position st st' \<and> pi_opcode inst' = pi_opcode inst \<and> po_offset po' = po_offset po)"

definition ids_kept :: "operand_state \<Rightarrow> operand_state \<Rightarrow> bool" where
  "ids_kept = (\<lambda>(st, inst, po) (st', inst', po').
     st_id_to_type_id st' = st_id_to_type_id st \<and> pi_result_id inst' = pi_result_id inst)"

definition one_word :: "operand_state \<Rightarrow> operand_state \<Rightarrow> bool" where
  "one_word = (\<lambda>(st, inst, po) (st', inst', po'). po_num_words po' = po_num_words po)"

lemmas frame_defs = operand_frame_def same_position_def ids_kept_def one_word_def

lemma parse_type_id_frame:
  "parse_type_id w os = Inr os' \<Longrightarrow> operand_frame os os' \<and> ids_kept os os' \<and> one_word os os'"
  by (auto simp: parse_type_id_def frame_defs split: prod.splits if_splits)

lemma parse_result_id_frame:
  "parse_result_id w os = Inr os' \<Longrightarrow> operand_frame os os' \<and> one_word os os'"
  by (auto simp: parse_result_id_def Let_def frame_defs split: prod.splits if_splits)

lemma parse_result_id_new:
  "parse_result_id w (st, inst, po) = Inr (st', inst', po') \<Longrightarrow>
    w \<noteq> 0 \<and> pi_result_id inst' = w \<and> st_id_to_type_id st w = None \<and>
    st_id_to_type_id st' = (st_id_to_type_id st)(w \<mapsto>
      (if spvOpcodeGeneratesType (ucast (pi_opcode inst)) then w else pi_type_id inst))"
  by (auto simp: parse_result_id_def Let_def split: if_splits)

lemma parse_id_frame:
  "parse_id w os = Inr os' \<Longrightarrow> operand_frame os os' \<and> ids_kept os os' \<and> one_word os os'"
  by (auto simp: parse_id_def Let_def frame_defs split: prod.splits if_splits option.splits)

lemma parse_scope_id_frame:
  "parse_scope_id w os = Inr os' \<Longrightarrow> operand_frame os os' \<and> ids_kept os os' \<and> one_word os os'"
  by (auto simp: parse_scope_id_def frame_defs split: prod.splits if_splits)

lemma parse_ext_inst_number_frame:
  "parse_ext_inst_number G w os = Inr os' \<Longrightarrow> operand_frame os os' \<and> ids_kept os os' \<and> one_word os os'"
  by (auto simp: parse_ext_inst_number_def frame_defs split: prod.splits if_splits sum.splits)

lemma parse_spec_constant_op_frame:
  "parse_spec_constant_op G w os = Inr os' \<Longrightarrow> operand_frame os os' \<and> ids_kept os os' \<and> one_word os os'"
  by (auto simp: parse_spec_constant_op_def frame_defs split: prod.splits if_splits sum.splits)

lemma parse_literal_frame:
  "parse_literal_integer os = Inr os' \<Longrightarrow> operand_frame os os' \<and> ids_kept os os' \<and> one_word os os'"
  "parse_literal_float os = Inr os' \<Longrightarrow> operand_frame os os' \<and> ids_kept os os' \<and> one_word os os'"
  by (auto simp: parse_literal_integer_def parse_literal_float_def frame_defs split: prod.splits)

lemma numeric_type_frame:
  "setNumericTypeInfoForType st po t = Inr po' \<Longrightarrow> po_offset po' = po_offset po"
  by (auto simp: setNumericTypeInfoForType_def split: option.splits if_splits)

lemma parse_typed_literal_frame:
  "parse_typed_literal P off (st, inst, po) = Inr (st', inst', po') \<Longrightarrow>
    st' = st \<and> inst' = inst \<and> po_offset po' = po_offset po"
  by (auto simp: parse_typed_literal_def Let_def dest!: numeric_type_frame
      split: if_splits option.splits sum.splits)

lemma parse_literal_string_frame:
  "parse_literal_string os = Inr os' \<Longrightarrow> operand_frame os os' \<and> ids_kept os os'"
  by (auto simp: parse_literal_string_def Let_def frame_defs split: prod.splits if_splits)

lemma parse_literal_string_words:
  assumes "parse_literal_string (st, inst, po) = Inr (st', inst', po')"
  shows "unat (po_num_words po') =
    length (MakeString (take (length (st_words st) - st_word_index st) (drop (st_word_index st) (st_words st)))) div 4 + 1"
proof -
  let ?n = "length (MakeString (take (length (st_words st) - st_word_index st) (drop (st_word_index st) (st_words st)))) div 4 + 1"
  have "po_num_words po' = of_nat ?n \<and> ?n \<le> 65535"
    using assms by (auto simp: parse_literal_string_def Let_def not_less split: if_splits)
  then show ?thesis by (simp add: unat_of_nat take_bit_nat_eq_self del: of_nat_add of_nat_Suc)
qed

lemma parse_enum_frame:
  "parse_enum G type w os = Inr os' \<Longrightarrow> operand_frame os os' \<and> ids_kept os os' \<and> one_word os os'"
  by (auto simp: parse_enum_def Let_def frame_defs split: prod.splits sum.splits)

lemma parse_source_language_frame:
  "parse_source_language G type w os = Inr os' \<Longrightarrow>
    operand_frame os os' \<and> ids_kept os os' \<and> one_word os os'"
  by (auto simp: parse_source_language_def frame_defs split: prod.splits sum.splits)

lemma parse_mask_frame:
  "parse_mask G type w os = Inr os' \<Longrightarrow> operand_frame os os' \<and> ids_kept os os' \<and> one_word os os'"
  by (auto simp: parse_mask_def Let_def frame_defs split: prod.splits sum.splits)

lemmas case_frames = parse_type_id_frame parse_result_id_frame parse_id_frame parse_scope_id_frame
  parse_ext_inst_number_frame parse_spec_constant_op_frame parse_literal_frame
  parse_literal_string_frame parse_enum_frame parse_source_language_frame parse_mask_frame

lemma switch_frame:
  assumes "parse_operand_switch P off type w os = Inr os'"
  shows "operand_frame os os'"
proof (cases "typed_literal type")
  case True
  then have "parse_typed_literal P off os = Inr os'"
    using assms by (auto simp: parse_operand_switch_def typed_literal_def)
  then show ?thesis
    by (cases os; cases os') (auto simp: frame_defs dest!: parse_typed_literal_frame)
next
  case False
  then show ?thesis
    using assms unfolding parse_operand_switch_def typed_literal_def
    by (auto dest: case_frames split: if_split_asm)
qed

lemma switch_words:
  assumes "parse_operand_switch P off type w (st, inst, po) = Inr (st', inst', po')"
    and "po_num_words po = 1"
  shows "0 < unat (po_num_words po') \<or> typed_literal type \<and> st' = st \<and> inst' = inst"
proof (cases "typed_literal type")
  case True
  then have "parse_typed_literal P off (st, inst, po) = Inr (st', inst', po')"
    using assms by (auto simp: parse_operand_switch_def typed_literal_def)
  with True show ?thesis by (auto dest: parse_typed_literal_frame)
next
  case typed: False
  show ?thesis
  proof (cases "type \<in> {SPV_OPERAND_TYPE_LITERAL_STRING, SPV_OPERAND_TYPE_OPTIONAL_LITERAL_STRING}")
    case True
    then have "parse_literal_string (st, inst, po) = Inr (st', inst', po')"
      using assms by (auto simp: parse_operand_switch_def)
    then show ?thesis by (simp add: parse_literal_string_words)
  next
    case False
    with typed assms(1) have "one_word (st, inst, po) (st', inst', po')"
      unfolding parse_operand_switch_def typed_literal_def
      by (auto dest: case_frames split: if_split_asm)
    then show ?thesis using assms(2) by (simp add: one_word_def)
  qed
qed

lemma switch_ids:
  assumes "parse_operand_switch P off type w (st, inst, po) = Inr (st', inst', po')"
  shows "if type = SPV_OPERAND_TYPE_RESULT_ID
    then w \<noteq> 0 \<and> pi_result_id inst' = w \<and> st_id_to_type_id st w = None \<and>
      st_id_to_type_id st' = (st_id_to_type_id st)(w \<mapsto>
        (if spvOpcodeGeneratesType (ucast (pi_opcode inst)) then w else pi_type_id inst))
    else st_id_to_type_id st' = st_id_to_type_id st \<and> pi_result_id inst' = pi_result_id inst"
proof (cases "type = SPV_OPERAND_TYPE_RESULT_ID")
  case True
  then show ?thesis using assms by (auto simp: parse_operand_switch_def dest: parse_result_id_new)
next
  case result: False
  show ?thesis
  proof (cases "typed_literal type")
    case True
    then have "parse_typed_literal P off (st, inst, po) = Inr (st', inst', po')"
      using assms by (auto simp: parse_operand_switch_def typed_literal_def)
    with result show ?thesis by (auto dest: parse_typed_literal_frame)
  next
    case False
    with result assms have "ids_kept (st, inst, po) (st', inst', po')"
      unfolding parse_operand_switch_def typed_literal_def
      by (auto dest: case_frames split: if_split_asm)
    with result show ?thesis by (simp add: ids_kept_def)
  qed
qed

text \<open>The words an operand takes up, as the code reports them in native byte order.\<close>

definition native_words :: "'u Parser \<Rightarrow> Parser_State \<Rightarrow> uint32_t list" where
  "native_words P st = map (\<lambda>w. spvFixWord (p_host_order P) w (st_endian st)) (st_words st)"

text \<open>One operand: what it consumes, where it is recorded, what it leaves alone.\<close>

lemma parseOperand_effect:
  assumes "parseOperand P off type (st, inst) = Inr (st', inst')"
  obtains po where
    "st_operands st' = st_operands st @ [po]" "po_offset po = of_nat (st_word_index st - off)"
    "st_word_index st' = st_word_index st + unat (po_num_words po)"
    "st_word_index st < length (st_words st)" "st_word_index st' \<le> length (st_words st)"
    "0 < unat (po_num_words po) \<or>
      typed_literal type \<and> st_expected_operands st' = st_expected_operands st"
    "st_words st' = st_words st" "st_endian st' = st_endian st"
    "st_instruction_count st' = st_instruction_count st"
    "st_requires_endian_conversion st' = st_requires_endian_conversion st"
    "st_type_id_to_number_type_info st' = st_type_id_to_number_type_info st"
    "pi_opcode inst' = pi_opcode inst"
    "st_endian_converted_words st' = st_endian_converted_words st @
      (if st_requires_endian_conversion st
       then take (unat (po_num_words po)) (drop (st_word_index st) (native_words P st)) else [])"
proof -
  let ?po = "\<lparr>po_offset = of_nat (st_word_index st - off), po_num_words = 1, po_type = type,
    po_number_kind = SPV_NUMBER_NONE, po_number_bit_width = 0, po_fp_encoding = None\<rparr>"
  obtain st1 inst1 po where
    switch: "parse_operand_switch P off type (peek P st) (st, inst, ?po) = Inr (st1, inst1, po)"
    and finish: "finish_operand P (st1, inst1, po) = Inr (st', inst')"
    and room: "st_word_index st < length (st_words st)"
    using assms by (auto simp: parseOperand_def Let_def split: if_splits sum.splits)
  have frame: "same_position st st1" "pi_opcode inst1 = pi_opcode inst"
    "po_offset po = of_nat (st_word_index st - off)"
    using switch_frame [OF switch] by (simp_all add: operand_frame_def)
  have "0 < unat (po_num_words po) \<or> typed_literal type \<and> st1 = st \<and> inst1 = inst"
    using switch_words [OF switch] by simp
  with frame finish room show ?thesis
    by (intro that [of po])
      (auto simp: finish_operand_def Let_def same_position_def native_words_def take_map drop_map
        split: if_splits)
qed

lemma parseOperand_ids:
  assumes "parseOperand P off type (st, inst) = Inr (st', inst')"
  shows "if type = SPV_OPERAND_TYPE_RESULT_ID
    then pi_result_id inst' \<noteq> 0 \<and> pi_result_id inst' \<notin> dom (st_id_to_type_id st) \<and>
      dom (st_id_to_type_id st') = insert (pi_result_id inst') (dom (st_id_to_type_id st))
    else st_id_to_type_id st' = st_id_to_type_id st \<and> pi_result_id inst' = pi_result_id inst"
proof -
  let ?po = "\<lparr>po_offset = of_nat (st_word_index st - off), po_num_words = 1, po_type = type,
    po_number_kind = SPV_NUMBER_NONE, po_number_bit_width = 0, po_fp_encoding = None\<rparr>"
  obtain st1 inst1 po where
    switch: "parse_operand_switch P off type (peek P st) (st, inst, ?po) = Inr (st1, inst1, po)"
    and finish: "finish_operand P (st1, inst1, po) = Inr (st', inst')"
    using assms by (auto simp: parseOperand_def Let_def split: if_splits sum.splits)
  have "st_id_to_type_id st' = st_id_to_type_id st1" "inst' = inst1"
    using finish by (auto simp: finish_operand_def Let_def split: if_splits)
  then show ?thesis using switch_ids [OF switch] by (auto split: if_splits)
qed

end
