(* ===== verification/Binary_Parser.thy ===== *)
theory Binary_Parser
  imports Binary_Operand
begin

text \<open>
  The parser of binary modules, \<open>src/ShaderCompiler/src/spirv-tools/binary.cpp\<close>: one instruction,
  the module, and what the parser promises to its callbacks. The loops are total functions; the
  measures are the words that remain and, for literals of types of width zero, the operands that
  can be taken from the pattern without a word.
\<close>

declare push_bit_of_1 [simp del]

section \<open>The operands of an instruction\<close>

text \<open>
  The number of operands of no words that the pattern can yield in a row: the typed literals on
  top, and one more if a sequence of literal and id pairs lies below them.
\<close>

definition zero_word_operands :: "spv_operand_pattern_t \<Rightarrow> nat" where
  "zero_word_operands pattern =
     length (takeWhile typed_literal (rev pattern)) +
     (case dropWhile typed_literal (rev pattern) of
        [] \<Rightarrow> 0 | t # _ \<Rightarrow> if t = SPV_OPERAND_TYPE_VARIABLE_LITERAL_INTEGER_ID then 1 else 0)"

lemma typed_literal_not_sequence:
  "typed_literal t \<Longrightarrow> \<not> fst (spvExpandOperandSequenceOnce t [])"
  by (auto simp: typed_literal_def spvExpandOperandSequenceOnce_def)

lemma zero_word_operands_decrease:
  assumes "pattern \<noteq> []" "spvTakeFirstMatchableOperand pattern = (type, pattern')"
    and "typed_literal type"
  shows "zero_word_operands pattern' < zero_word_operands pattern"
proof (cases "spvOperandIsVariable (last pattern)")
  case True
  let ?v = "last pattern"
  let ?q = "butlast pattern @ [?v] @ fst (expansion ?v) @ [snd (expansion ?v)]"
  have "spvTakeFirstMatchableOperand pattern = (snd (expansion ?v), pattern @ fst (expansion ?v))"
    using take_first_sequence [OF assms(1) expand_variable [OF True]] assms(1)
    by (simp add: butlast_append)
  with assms(2,3) have "typed_literal (snd (expansion ?v))" "pattern' = pattern @ fst (expansion ?v)"
    by auto
  then have v: "?v = SPV_OPERAND_TYPE_VARIABLE_LITERAL_INTEGER_ID" "pattern' = pattern @ [SPV_OPERAND_TYPE_ID]"
    by (auto simp: expansion_def typed_literal_def split: if_splits)
  obtain below where "pattern = below @ [?v]" using assms(1) by (metis append_butlast_last_id)
  then have "rev pattern = SPV_OPERAND_TYPE_VARIABLE_LITERAL_INTEGER_ID # rev below"
    using v(1) by (metis rev_append rev_singleton_conv append_Cons append_Nil)
  then show ?thesis by (simp add: v(2) zero_word_operands_def typed_literal_def)
next
  case False
  then have "\<not> fst (spvExpandOperandSequenceOnce (last pattern) [])"
    by (auto simp: spvExpandOperandSequenceOnce_def spvOperandIsVariable_def)
  from take_first_single [OF assms(1) this] assms(2)
  have "type = last pattern" "pattern' = butlast pattern" by auto
  moreover obtain below where "pattern = below @ [last pattern]"
    using assms(1) by (metis append_butlast_last_id)
  ultimately have p: "type = last pattern" "pattern' = below" "rev pattern = last pattern # rev below"
    by (metis butlast_snoc rev.simps(2) rev_append rev_singleton_conv append_Cons append_Nil)+
  have "typed_literal (last pattern)" using assms(3) p(1) by simp
  then show ?thesis unfolding zero_word_operands_def p(2,3) by simp
qed

lemma parseOperand_progress:
  assumes "parseOperand P off type (st, inst) = Inr (st', inst')"
  shows "st_word_index st < st_word_index st' \<or>
    typed_literal type \<and> st_word_index st' = st_word_index st \<and>
    st_expected_operands st' = st_expected_operands st"
  using parseOperand_effect [OF assms] by (metis add.right_neutral less_add_same_cancel1 neq0_conv)

function parse_operands_loop ::
  "'u Parser \<Rightarrow> nat \<Rightarrow> uint16_t \<Rightarrow> Parser_State \<Rightarrow> spv_parsed_instruction_t \<Rightarrow>
   spv_result_t + Parser_State \<times> spv_parsed_instruction_t" where
  "parse_operands_loop P inst_offset inst_word_count st inst =
     (if st_word_index st < inst_offset + unat inst_word_count then
        if st_expected_operands st = [] then Inl SPV_ERROR_INVALID_BINARY
        else
          (case spvTakeFirstMatchableOperand (st_expected_operands st) of
             (type, expected) \<Rightarrow>
               (case parseOperand P inst_offset type (st\<lparr>st_expected_operands := expected\<rparr>, inst) of
                  Inl error \<Rightarrow> Inl error
                | Inr (st, inst) \<Rightarrow> parse_operands_loop P inst_offset inst_word_count st inst))
      else Inr (st, inst))"
  by pat_completeness auto
termination
proof (relation "measures [\<lambda>(P, off, wc, st, inst). off + unat wc - st_word_index st,
    \<lambda>(P, off, wc, st, inst). zero_word_operands (st_expected_operands st)]")
  fix P :: "'u Parser" and off wc st inst type expected st' inst' y p
  assume more: "st_word_index st < off + unat wc" "st_expected_operands st \<noteq> []"
    and type: "(type, expected) = spvTakeFirstMatchableOperand (st_expected_operands st)"
    and operand: "parseOperand P off type (st\<lparr>st_expected_operands := expected\<rparr>, inst) = Inr p"
    and p: "(st', inst') = p"
  show "((P, off, wc, st', inst'), (P, off, wc, st, inst)) \<in>
    measures [\<lambda>(P, off, wc, st, inst). off + unat wc - st_word_index st,
      \<lambda>(P, off, wc, st, inst). zero_word_operands (st_expected_operands st)]"
    using parseOperand_progress [OF operand [folded p]] more
      zero_word_operands_decrease [OF more(2) type [symmetric]]
    by auto
qed simp

declare parse_operands_loop.simps [simp del]

lemma parse_operands_loop_done:
  "\<not> st_word_index st < off + unat wc \<Longrightarrow> parse_operands_loop P off wc st inst = Inr (st, inst)"
  by (subst parse_operands_loop.simps) simp

text \<open>One turn of the loop, for an expected operand that is not a sequence of others.\<close>

lemma parse_operands_loop_next:
  assumes "parse_operands_loop P off wc st inst = Inr (st', inst')" "st_word_index st < off + unat wc"
    and "st_expected_operands st = expected @ [type]" "\<not> fst (spvExpandOperandSequenceOnce type [])"
  obtains st1 inst1 where
    "parseOperand P off type (st\<lparr>st_expected_operands := expected\<rparr>, inst) = Inr (st1, inst1)"
    "parse_operands_loop P off wc st1 inst1 = Inr (st', inst')"
proof -
  have "spvTakeFirstMatchableOperand (st_expected_operands st) = (type, expected)"
    using assms(3,4) by (simp add: take_first_single)
  then show ?thesis
    using assms(1-3) that by (subst (asm) parse_operands_loop.simps) (auto split: sum.splits)
qed

section \<open>An instruction\<close>

text \<open>
  \<open>parseInstruction\<close> up to its callback: the instruction as the callback will see it.
\<close>

definition decode_instruction ::
  "'u Parser \<Rightarrow> Parser_State \<Rightarrow> spv_result_t + Parser_State \<times> spv_parsed_instruction_t" where
  "decode_instruction P st =
     (let st = st\<lparr>st_instruction_count := st_instruction_count st + 1\<rparr>;
          inst = \<lparr>pi_words = [], pi_num_words = 0, pi_opcode = 0,
                  pi_ext_inst_type = SPV_EXT_INST_TYPE_NONE, pi_type_id = 0, pi_result_id = 0,
                  pi_operands = [], pi_num_operands = 0\<rparr>;
          first_word = peek P st;
          st = st\<lparr>st_endian_converted_words := [first_word], st_operands := []\<rparr>;
          (inst_word_count, opcode) = spvOpcodeSplit first_word;
          inst = inst\<lparr>pi_opcode := opcode\<rparr>
      in if inst_word_count < 1 then Inl SPV_ERROR_INVALID_BINARY
         else
           case LookupOpcode (p_grammar P) (ucast opcode) of
             Inl _ \<Rightarrow> Inl SPV_ERROR_INVALID_BINARY
           | Inr opcode_desc \<Rightarrow>
               let inst_offset = st_word_index st;
                   st = st\<lparr>st_word_index := st_word_index st + 1,
                           st_expected_operands :=
                             spvPushOperandTypesSpan (InstructionDesc_operands (p_grammar P) opcode_desc) []\<rparr>
               in case parse_operands_loop P inst_offset inst_word_count st inst of
                    Inl error \<Rightarrow> Inl error
                  | Inr (st, inst) \<Rightarrow>
                      if st_expected_operands st \<noteq> [] \<and>
                         \<not> spvOperandIsOptional (last (st_expected_operands st))
                      then Inl SPV_ERROR_INVALID_BINARY
                      else if inst_offset + unat inst_word_count \<noteq> st_word_index st
                      then Inl SPV_ERROR_INVALID_BINARY
                      else
                        let inst = inst\<lparr>pi_words :=
                              (if st_requires_endian_conversion st then st_endian_converted_words st
                               else take (unat inst_word_count) (drop inst_offset (st_words st))),
                              pi_num_words := inst_word_count\<rparr>;
                            st = recordNumberType P inst_offset inst st
                        in Inr (st, inst\<lparr>pi_operands := st_operands st,
                                        pi_num_operands := of_nat (length (st_operands st))\<rparr>))"

definition parseInstruction ::
  "'u Parser \<Rightarrow> 'u \<times> Parser_State \<Rightarrow> (spv_result_t \<times> 'u) + 'u \<times> Parser_State" where
  "parseInstruction P = (\<lambda>(u, st).
     case decode_instruction P st of
       Inl error \<Rightarrow> Inl (error, u)
     | Inr (st, inst) \<Rightarrow>
         (case p_parsed_instruction_fn P of
            None \<Rightarrow> Inr (u, st)
          | Some fn \<Rightarrow>
              let (u, error) = fn u inst
              in if error \<noteq> SPV_SUCCESS then Inl (error, u) else Inr (u, st)))"

section \<open>What one instruction does\<close>

text \<open>The operands lie one behind the other from word \<open>a\<close> to word \<open>b\<close> of the instruction.\<close>

fun operands_tile :: "nat \<Rightarrow> spv_parsed_operand_t list \<Rightarrow> nat \<Rightarrow> bool" where
  "operands_tile a [] b \<longleftrightarrow> a = b"
| "operands_tile a (po # pos) b \<longleftrightarrow>
     unat (po_offset po) = a \<and> operands_tile (a + unat (po_num_words po)) pos b"

lemma operands_tile_snoc:
  "operands_tile a (pos @ [po]) b \<longleftrightarrow>
    (\<exists>m. operands_tile a pos m \<and> unat (po_offset po) = m \<and> b = m + unat (po_num_words po))"
  by (induction pos arbitrary: a) auto

text \<open>
  The state between two operands of the instruction at \<open>off\<close>, against the state \<open>st0\<close> in which
  the instruction began.
\<close>

definition in_instruction ::
  "'u Parser \<Rightarrow> nat \<Rightarrow> Parser_State \<Rightarrow> Parser_State \<times> spv_parsed_instruction_t \<Rightarrow> bool" where
  "in_instruction P off st0 = (\<lambda>(st, inst).
     st_words st = st_words st0 \<and> st_endian st = st_endian st0 \<and>
     st_requires_endian_conversion st = st_requires_endian_conversion st0 \<and>
     st_instruction_count st = Suc (st_instruction_count st0) \<and>
     off < st_word_index st \<and> st_word_index st \<le> length (st_words st) \<and>
     operands_tile 1 (st_operands st) (st_word_index st - off) \<and>
     (st_requires_endian_conversion st \<longrightarrow>
        st_endian_converted_words st = take (st_word_index st - off) (drop off (native_words P st0))))"

definition ids_in_instruction ::
  "Parser_State \<Rightarrow> Parser_State \<times> spv_parsed_instruction_t \<Rightarrow> bool" where
  "ids_in_instruction st0 = (\<lambda>(st, inst).
     dom (st_id_to_type_id st0) \<subseteq> dom (st_id_to_type_id st) \<and>
     0 \<notin> dom (st_id_to_type_id st) - dom (st_id_to_type_id st0) \<and>
     (if pi_result_id inst = 0 then dom (st_id_to_type_id st) = dom (st_id_to_type_id st0)
      else pi_result_id inst \<in> dom (st_id_to_type_id st) - dom (st_id_to_type_id st0)))"


lemma native_words_cong:
  "st_words st = st_words st' \<Longrightarrow> st_endian st = st_endian st' \<Longrightarrow> native_words P st = native_words P st'"
  by (simp add: native_words_def)

lemma take_take_drop:
  assumes "off \<le> i"
  shows "take (i - off) (drop off xs) @ take k (drop i xs) = take (i + k - off) (drop off xs)"
proof -
  have "drop i xs = drop (i - off) (drop off xs)" using assms by simp
  moreover have "i + k - off = (i - off) + k" using assms by simp
  ultimately show ?thesis by (simp only: take_add)
qed

lemma in_instruction_step:
  assumes inv: "in_instruction P off st0 (st, inst)"
    and more: "st_word_index st < off + unat (wc :: uint16_t)"
    and operand: "parseOperand P off type (st\<lparr>st_expected_operands := e\<rparr>, inst) = Inr (st', inst')"
  shows "in_instruction P off st0 (st', inst') \<and> pi_opcode inst' = pi_opcode inst \<and>
    st_type_id_to_number_type_info st' = st_type_id_to_number_type_info st"
proof -
  from operand obtain po where e:
    "st_operands st' = st_operands st @ [po]" "po_offset po = of_nat (st_word_index st - off)"
    "st_word_index st' = st_word_index st + unat (po_num_words po)"
    "st_word_index st' \<le> length (st_words st)"
    "st_words st' = st_words st" "st_endian st' = st_endian st"
    "st_instruction_count st' = st_instruction_count st"
    "st_requires_endian_conversion st' = st_requires_endian_conversion st"
    "st_type_id_to_number_type_info st' = st_type_id_to_number_type_info st"
    "pi_opcode inst' = pi_opcode inst"
    "st_endian_converted_words st' = st_endian_converted_words st @
      (if st_requires_endian_conversion st
       then take (unat (po_num_words po)) (drop (st_word_index st) (native_words P st)) else [])"
    by (rule parseOperand_effect) (simp add: native_words_def)
  have "st_word_index st - off < 65536"
  proof -
    have "unat wc < 2 ^ LENGTH(16)" by (rule unsigned_less)
    with more show ?thesis by simp
  qed
  then have offset: "unat (po_offset po) = st_word_index st - off"
    by (simp add: e(2) unat_of_nat take_bit_nat_eq_self)
  have native: "native_words P st = native_words P st0"
    using inv by (intro native_words_cong) (simp_all add: in_instruction_def)
  show ?thesis
    using inv e offset
    by (auto simp: in_instruction_def operands_tile_snoc native take_take_drop)
qed

lemma ids_in_instruction_step:
  assumes "ids_in_instruction st0 (st, inst)"
    and "parseOperand P off type (st\<lparr>st_expected_operands := e\<rparr>, inst) = Inr (st', inst')"
  shows "ids_in_instruction st0 (st', inst')"
  using parseOperand_ids [OF assms(2)] assms(1)
  by (auto simp: ids_in_instruction_def split: if_splits)

lemma parse_operands_loop_inv:
  "parse_operands_loop P off wc st inst = Inr (st', inst') \<Longrightarrow>
    in_instruction P off st0 (st, inst) \<Longrightarrow> ids_in_instruction st0 (st, inst) \<Longrightarrow>
    in_instruction P off st0 (st', inst') \<and> ids_in_instruction st0 (st', inst') \<and>
    pi_opcode inst' = pi_opcode inst \<and>
    st_type_id_to_number_type_info st' = st_type_id_to_number_type_info st"
proof (induction P off wc st inst rule: parse_operands_loop.induct)
  case (1 P off wc st inst)
  show ?case
  proof (cases "st_word_index st < off + unat wc")
    case False
    then show ?thesis using "1.prems" by (subst (asm) parse_operands_loop.simps) auto
  next
    case True
    then have "st_expected_operands st \<noteq> []"
      using "1.prems"(1) by (subst (asm) parse_operands_loop.simps) (auto split: if_splits)
    moreover obtain type expected where
      type: "spvTakeFirstMatchableOperand (st_expected_operands st) = (type, expected)"
      by fastforce
    moreover from True calculation "1.prems"(1) obtain st1 inst1 where
      operand: "parseOperand P off type (st\<lparr>st_expected_operands := expected\<rparr>, inst) = Inr (st1, inst1)"
      and rest: "parse_operands_loop P off wc st1 inst1 = Inr (st', inst')"
      by (subst (asm) parse_operands_loop.simps) (auto split: sum.splits)
    ultimately have IH: "in_instruction P off st0 (st1, inst1) \<Longrightarrow> ids_in_instruction st0 (st1, inst1) \<Longrightarrow>
        in_instruction P off st0 (st', inst') \<and> ids_in_instruction st0 (st', inst') \<and>
        pi_opcode inst' = pi_opcode inst1 \<and>
        st_type_id_to_number_type_info st' = st_type_id_to_number_type_info st1"
      using "1.IH" [OF True _ type [symmetric] operand refl rest] by simp
    show ?thesis
      using IH in_instruction_step [OF "1.prems"(2) True operand]
        ids_in_instruction_step [OF "1.prems"(3) operand] by auto
  qed
qed

text \<open>
  What \<open>decode_instruction\<close> reports and how it advances: the words of the instruction, converted
  if the module needs it and tiled by its operands, and at most one new id, the result id it reports.
\<close>

definition instruction_reported ::
  "'u Parser \<Rightarrow> Parser_State \<Rightarrow> Parser_State \<Rightarrow> spv_parsed_instruction_t \<Rightarrow> bool" where
  "instruction_reported P st st' inst \<longleftrightarrow>
     0 < unat (pi_num_words inst) \<and>
     spvOpcodeSplit (native_words P st ! st_word_index st) = (pi_num_words inst, pi_opcode inst) \<and>
     pi_words inst = take (unat (pi_num_words inst)) (drop (st_word_index st)
       (if st_requires_endian_conversion st then native_words P st else st_words st)) \<and>
     length (pi_words inst) = unat (pi_num_words inst) \<and>
     operands_tile 1 (pi_operands inst) (unat (pi_num_words inst)) \<and>
     pi_num_operands inst = of_nat (length (pi_operands inst)) \<and>
     st_word_index st' = st_word_index st + unat (pi_num_words inst) \<and>
     st_word_index st' \<le> length (st_words st) \<and> ids_in_instruction st (st', inst) \<and>
     st_words st' = st_words st \<and> st_endian st' = st_endian st \<and>
     st_requires_endian_conversion st' = st_requires_endian_conversion st \<and>
     st_instruction_count st' = Suc (st_instruction_count st)"

lemma recordNumberType_frame:
  "\<exists>m. recordNumberType P off inst st = st\<lparr>st_type_id_to_number_type_info := m\<rparr>"
proof (cases "spvOpcodeGeneratesType (ucast (pi_opcode inst))")
  case False
  then have "recordNumberType P off inst st =
      st\<lparr>st_type_id_to_number_type_info := st_type_id_to_number_type_info st\<rparr>"
    by (simp add: recordNumberType_def)
  then show ?thesis by blast
qed (auto simp: recordNumberType_def Let_def)


definition endian_ok :: "'u Parser \<Rightarrow> Parser_State \<Rightarrow> bool" where
  "endian_ok P st \<longleftrightarrow> p_host_order P \<in> {I32_ENDIAN_LITTLE, I32_ENDIAN_BIG} \<and>
     st_requires_endian_conversion st = (\<not> spvIsHostEndian (p_host_order P) (st_endian st))"

lemma native_words_host:
  assumes "endian_ok P st" "\<not> st_requires_endian_conversion st"
  shows "native_words P st = st_words st"
proof -
  have "spvFixWord (p_host_order P) w (st_endian st) = w" for w
    using assms by (auto simp: endian_ok_def spvIsHostEndian_def spvFixWord_def
        I32_ENDIAN_LITTLE_def I32_ENDIAN_BIG_def)
  then show ?thesis by (simp add: native_words_def)
qed

lemma peek_native: "st_word_index st < length (st_words st) \<Longrightarrow> peek P st = native_words P st ! st_word_index st"
  by (simp add: peek_def peekAt_def native_words_def)

lemma length_native_words [simp]: "length (native_words P st) = length (st_words st)"
  by (simp add: native_words_def)

lemma peek_count [simp]: "peek P (st\<lparr>st_instruction_count := n\<rparr>) = peek P st"
  by (simp add: peek_def peekAt_def)

lemma decode_instruction_reported:
  assumes decode: "decode_instruction P st = Inr (st', inst')"
    and room: "st_word_index st < length (st_words st)"
  shows "instruction_reported P st st' inst'"
proof -
  let ?off = "st_word_index st"
  obtain wc opcode where split: "spvOpcodeSplit (peek P st) = (wc, opcode)" by fastforce
  define inst0 where "inst0 = \<lparr>pi_words = [], pi_num_words = 0, pi_opcode = opcode,
    pi_ext_inst_type = SPV_EXT_INST_TYPE_NONE, pi_type_id = 0, pi_result_id = 0,
    pi_operands = [], pi_num_operands = 0\<rparr>"
  obtain desc where lookup: "LookupOpcode (p_grammar P) (ucast opcode) = Inr desc"
    using decode by (auto simp: decode_instruction_def Let_def split split: if_splits sum.splits)
  define st0 where "st0 = st\<lparr>st_instruction_count := st_instruction_count st + 1,
    st_endian_converted_words := [peek P st], st_operands := [], st_word_index := ?off + 1,
    st_expected_operands := spvPushOperandTypesSpan (InstructionDesc_operands (p_grammar P) desc) []\<rparr>"
  obtain st1 inst1 where loop: "parse_operands_loop P ?off wc st0 inst0 = Inr (st1, inst1)"
    using decode lookup unfolding decode_instruction_def inst0_def st0_def
    by (auto simp: Let_def split split: if_splits sum.splits)
  define inst2 where "inst2 = inst1\<lparr>pi_words :=
    (if st_requires_endian_conversion st1 then st_endian_converted_words st1
     else take (unat wc) (drop ?off (st_words st1))), pi_num_words := wc\<rparr>"
  have wc: "wc \<noteq> 0" and final: "?off + unat wc = st_word_index st1"
    and st': "st' = recordNumberType P ?off inst2 st1"
    and inst': "inst' = inst2\<lparr>pi_operands := st_operands st',
      pi_num_operands := of_nat (length (st_operands st'))\<rparr>"
    using decode lookup loop unfolding decode_instruction_def inst0_def st0_def inst2_def
    by (auto simp: Let_def split split: if_split_asm)
  have native: "native_words P st \<noteq> []" "drop ?off (native_words P st) \<noteq> []"
    using room by (auto simp: native_words_def)
  have "in_instruction P ?off st (st0, inst0)"
    using room native by (simp add: in_instruction_def st0_def peek_native take_Suc hd_drop_conv_nth)
  moreover have "ids_in_instruction st (st0, inst0)"
    by (simp add: ids_in_instruction_def st0_def inst0_def)
  ultimately have inv: "in_instruction P ?off st (st1, inst1)" "ids_in_instruction st (st1, inst1)"
    and opcode: "pi_opcode inst1 = opcode"
    using parse_operands_loop_inv [OF loop] by (auto simp: inst0_def)
  obtain m where rec: "st' = st1\<lparr>st_type_id_to_number_type_info := m\<rparr>"
    using recordNumberType_frame st' by blast
  have n: "st_word_index st1 - ?off = unat wc" using final by simp
  have ids: "ids_in_instruction st (st', inst')"
    using inv(2) by (simp add: ids_in_instruction_def inst' inst2_def rec split: if_splits)
  have "pi_words inst' = take (unat wc) (drop ?off
      (if st_requires_endian_conversion st then native_words P st else st_words st))"
    using inv(1) by (auto simp: inst' inst2_def in_instruction_def n)
  moreover have "?off + unat wc \<le> length (st_words st)"
    using inv(1) final by (auto simp: in_instruction_def)
  moreover have "0 < unat wc" using wc by (simp add: unat_gt_0)
  ultimately show ?thesis
    using inv(1) ids final opcode split room n
    unfolding instruction_reported_def
    by (auto simp: in_instruction_def inst' inst2_def rec peek_native)
qed

section \<open>The module\<close>

lemma parseInstruction_Inr:
  assumes "parseInstruction P (u, st) = Inr (u', st')"
  obtains inst where "decode_instruction P st = Inr (st', inst)"
    "u' = (case p_parsed_instruction_fn P of None \<Rightarrow> u | Some fn \<Rightarrow> fst (fn u inst))"
  using assms by (auto simp: parseInstruction_def Let_def split: sum.splits option.splits prod.splits if_splits)

lemma parseInstruction_progress:
  assumes "parseInstruction P (u, st) = Inr (u', st')" "st_word_index st < length (st_words st)"
  shows "st_word_index st < st_word_index st' \<and> st_words st' = st_words st"
proof -
  obtain inst where "decode_instruction P st = Inr (st', inst)"
    using assms(1) by (rule parseInstruction_Inr)
  from decode_instruction_reported [OF this assms(2)] show ?thesis
    by (simp add: instruction_reported_def)
qed

function parse_instructions_loop ::
  "'u Parser \<Rightarrow> 'u \<Rightarrow> Parser_State \<Rightarrow> (spv_result_t \<times> 'u) + 'u \<times> Parser_State" where
  "parse_instructions_loop P u st =
     (if st_word_index st < length (st_words st) then
        (case parseInstruction P (u, st) of
           Inl error \<Rightarrow> Inl error
         | Inr (u, st) \<Rightarrow> parse_instructions_loop P u st)
      else Inr (u, st))"
  by pat_completeness auto
termination
proof (relation "measure (\<lambda>(P, u, st). length (st_words st) - st_word_index st)")
  fix P :: "'u Parser" and u st p u' st'
  assume "st_word_index st < length (st_words st)" "parseInstruction P (u, st) = Inr p" "(u', st') = p"
  then show "((P, u', st'), (P, u, st)) \<in> measure (\<lambda>(P, u, st). length (st_words st) - st_word_index st)"
    using parseInstruction_progress [of P u st u' st'] by auto
qed simp

declare parse_instructions_loop.simps [simp del]

definition parseModule :: "'u Parser \<Rightarrow> 'u \<Rightarrow> uint32_t list option \<Rightarrow> 'u \<times> spv_result_t" where
  "parseModule P u words =
     (case words of
        None \<Rightarrow> (u, SPV_ERROR_INVALID_BINARY)
      | Some ws \<Rightarrow>
          if length ws < SPV_INDEX_INSTRUCTION then (u, SPV_ERROR_INVALID_BINARY)
          else
            case spvBinaryEndianness (p_host_order P) words False of
              Inl _ \<Rightarrow> (u, SPV_ERROR_INVALID_BINARY)
            | Inr endian \<Rightarrow>
                let st = (initial_State ws)\<lparr>st_endian := endian,
                      st_requires_endian_conversion := \<not> spvIsHostEndian (p_host_order P) endian\<rparr>
                in case spvBinaryHeaderGet (p_host_order P) words endian False of
                     Inl _ \<Rightarrow> (u, SPV_ERROR_INTERNAL)
                   | Inr header \<Rightarrow>
                       let (u, error) =
                             (case p_parsed_header_fn P of
                                None \<Rightarrow> (u, SPV_SUCCESS)
                              | Some fn \<Rightarrow> fn u endian (h_magic header) (h_version header)
                                  (h_generator header) (h_bound header) (h_schema header))
                       in if error \<noteq> SPV_SUCCESS then (u, error)
                          else
                            let st = st\<lparr>st_word_index := SPV_INDEX_INSTRUCTION\<rparr>
                            in case parse_instructions_loop P u st of
                                 Inl (error, u) \<Rightarrow> (u, error)
                               | Inr (u, st) \<Rightarrow> (u, SPV_SUCCESS))"

text \<open>
  \<open>parse\<close> runs \<open>parseModule\<close> on a fresh state that it drops afterwards, so it is \<open>parseModule\<close>;
  \<open>spvBinaryParse\<close> builds the parser from the context and the callbacks.
\<close>

definition spvBinaryParse ::
  "grammar \<Rightarrow> uint32_t \<Rightarrow> 'u \<Rightarrow> uint32_t list option \<Rightarrow> 'u parsed_header_fn option \<Rightarrow>
   'u parsed_instruction_fn option \<Rightarrow> 'u \<times> spv_result_t" where
  "spvBinaryParse G host user_data code parsed_header parsed_instruction =
     parseModule \<lparr>p_grammar = G, p_host_order = host, p_parsed_header_fn = parsed_header,
       p_parsed_instruction_fn = parsed_instruction\<rparr> user_data code"

section \<open>Invariants of a module parse\<close>

text \<open>What every successful instruction keeps holds when the module has been parsed.\<close>

locale instruction_invariant =
  fixes P :: "'u Parser" and inv :: "'u \<Rightarrow> Parser_State \<Rightarrow> bool"
  assumes step: "inv u st \<Longrightarrow> st_word_index st < length (st_words st) \<Longrightarrow>
    decode_instruction P st = Inr (st', inst) \<Longrightarrow> instruction_reported P st st' inst \<Longrightarrow>
    inv (case p_parsed_instruction_fn P of None \<Rightarrow> u | Some fn \<Rightarrow> fst (fn u inst)) st'"
begin

lemma instruction:
  assumes "inv u st" "st_word_index st < length (st_words st)" "parseInstruction P (u, st) = Inr (u', st')"
  shows "inv u' st'"
proof -
  obtain inst where "decode_instruction P st = Inr (st', inst)"
    "u' = (case p_parsed_instruction_fn P of None \<Rightarrow> u | Some fn \<Rightarrow> fst (fn u inst))"
    using assms(3) by (rule parseInstruction_Inr)
  then show ?thesis using step [OF assms(1,2)] decode_instruction_reported assms(2) by blast
qed

lemma module:
  "inv u st \<Longrightarrow> parse_instructions_loop P u st = Inr (u', st') \<Longrightarrow>
    inv u' st' \<and> length (st_words st') \<le> st_word_index st'"
proof (induction "length (st_words st) - st_word_index st" arbitrary: u st rule: less_induct)
  case less
  show ?case
  proof (cases "st_word_index st < length (st_words st)")
    case False
    then show ?thesis using less.prems by (subst (asm) parse_instructions_loop.simps) auto
  next
    case True
    then obtain u1 st1 where one: "parseInstruction P (u, st) = Inr (u1, st1)"
      and rest: "parse_instructions_loop P u1 st1 = Inr (u', st')"
      using less.prems(2) by (subst (asm) parse_instructions_loop.simps) (auto split: sum.splits)
    have "length (st_words st1) - st_word_index st1 < length (st_words st) - st_word_index st"
      using parseInstruction_progress [OF one True] True by auto
    then show ?thesis using less.hyps instruction [OF less.prems(1) True one] rest by blast
  qed
qed

text \<open>Where a parse stops: at an instruction that is not one, or in the callback.\<close>

lemma stopped:
  "inv u st \<Longrightarrow> parse_instructions_loop P u st = Inl (error, u') \<Longrightarrow>
    \<exists>st'. inv u' st' \<and>
      (st_word_index st' < length (st_words st') \<and> decode_instruction P st' = Inl error \<or>
       (\<exists>fn v inst. p_parsed_instruction_fn P = Some fn \<and> fn v inst = (u', error) \<and> error \<noteq> SPV_SUCCESS))"
proof (induction "length (st_words st) - st_word_index st" arbitrary: u st rule: less_induct)
  case less
  have room: "st_word_index st < length (st_words st)"
    using less.prems(2) by (subst (asm) parse_instructions_loop.simps) (simp split: if_splits)
  show ?case
  proof (cases "parseInstruction P (u, st)")
    case (Inr p)
    then obtain u1 st1 where one: "parseInstruction P (u, st) = Inr (u1, st1)" by (cases p) auto
    have "parse_instructions_loop P u1 st1 = Inl (error, u')"
      using less.prems(2) room one by (subst (asm) parse_instructions_loop.simps) simp
    moreover have "length (st_words st1) - st_word_index st1 < length (st_words st) - st_word_index st"
      using parseInstruction_progress [OF one room] room by auto
    ultimately show ?thesis using less.hyps instruction [OF less.prems(1) room one] by blast
  next
    case (Inl p)
    then have failed: "parseInstruction P (u, st) = Inl (error, u')"
      using less.prems(2) room by (subst (asm) parse_instructions_loop.simps) simp
    show ?thesis
    proof (cases "decode_instruction P st")
      case (Inl error')
      then show ?thesis using failed less.prems(1) room by (auto simp: parseInstruction_def)
    next
      case (Inr r)
      then obtain st1 inst where decoded: "decode_instruction P st = Inr (st1, inst)" by (cases r) auto
      then obtain fn where fn: "p_parsed_instruction_fn P = Some fn" "fn u inst = (u', error)" "error \<noteq> SPV_SUCCESS"
        using failed by (auto simp: parseInstruction_def Let_def split: option.splits prod.splits if_splits)
      have "inv u' st1"
        using step [OF less.prems(1) room decoded decode_instruction_reported [OF decoded room]] fn by simp
      with fn show ?thesis by blast
    qed
  qed
qed

end

end
