(* ===== verification/Binary_Module.thy ===== *)
theory Binary_Module
  imports Binary_Parser
begin

text \<open>
  What \<open>spvBinaryParse\<close> of \<open>src/ShaderCompiler/src/spirv-tools/binary.cpp\<close> promises about a whole
  module: the instructions it reports are the module, cut into instructions and these into
  operands, and as far as it is read when it fails; the callbacks see the header and the instructions in
  order and can stop the parse; ids are defined once; the header is accepted for exactly the known versions.
\<close>

declare push_bit_of_1 [simp del]

section \<open>The instructions reported\<close>

text \<open>A client that records what it is told.\<close>

definition recorder :: "grammar \<Rightarrow> uint32_t \<Rightarrow> spv_parsed_instruction_t list Parser" where
  "recorder G host = \<lparr>p_grammar = G, p_host_order = host, p_parsed_header_fn = None,
     p_parsed_instruction_fn = Some (\<lambda>us inst. (us @ [inst], SPV_SUCCESS))\<rparr>"

text \<open>An instruction as the interface documents it.\<close>

definition well_formed_instruction :: "spv_parsed_instruction_t \<Rightarrow> bool" where
  "well_formed_instruction inst \<longleftrightarrow>
     0 < unat (pi_num_words inst) \<and> length (pi_words inst) = unat (pi_num_words inst) \<and>
     spvOpcodeSplit (hd (pi_words inst)) = (pi_num_words inst, pi_opcode inst) \<and>
     operands_tile 1 (pi_operands inst) (unat (pi_num_words inst)) \<and>
     pi_num_operands inst = of_nat (length (pi_operands inst))"

definition result_ids :: "spv_parsed_instruction_t list \<Rightarrow> uint32_t list" where
  "result_ids insts = filter (\<lambda>i. i \<noteq> 0) (map pi_result_id insts)"

definition recorded ::
  "uint32_t \<Rightarrow> spv_endianness_t \<Rightarrow> uint32_t list \<Rightarrow> spv_parsed_instruction_t list \<Rightarrow> Parser_State \<Rightarrow> bool" where
  "recorded host e ws us st \<longleftrightarrow>
     host \<in> {I32_ENDIAN_LITTLE, I32_ENDIAN_BIG} \<and> st_words st = ws \<and> st_endian st = e \<and>
     st_requires_endian_conversion st = (\<not> spvIsHostEndian host e) \<and>
     5 \<le> st_word_index st \<and> st_word_index st \<le> length ws \<and>
     concat (map pi_words us) =
       take (st_word_index st - 5) (drop 5 (map (\<lambda>w. spvFixWord host w e) ws)) \<and>
     (\<forall>inst \<in> set us. well_formed_instruction inst) \<and>
     distinct (result_ids us) \<and> set (result_ids us) \<subseteq> dom (st_id_to_type_id st) \<and>
     0 \<notin> dom (st_id_to_type_id st) \<and> st_instruction_count st = length us"

lemma recorded_reported_words:
  assumes "recorded host e ws us st" "p_host_order P = host" "instruction_reported P st st' inst"
  shows "pi_words inst = take (unat (pi_num_words inst))
    (drop (st_word_index st) (map (\<lambda>w. spvFixWord host w e) ws))"
proof -
  have "native_words P st = map (\<lambda>w. spvFixWord host w e) ws"
    using assms(1,2) by (simp add: native_words_def recorded_def)
  moreover have "endian_ok P st" using assms(1,2) by (simp add: endian_ok_def recorded_def)
  ultimately show ?thesis
    using assms(3) native_words_host [of P st] by (auto simp: instruction_reported_def)
qed

lemma recorded_step:
  assumes rec: "recorded host e ws us st" and room: "st_word_index st < length (st_words st)"
    and inst: "instruction_reported P st st' inst" and host: "p_host_order P = host"
  shows "recorded host e ws (us @ [inst]) st'"
proof -
  let ?ws = "map (\<lambda>w. spvFixWord host w e) ws" and ?i = "st_word_index st" and ?n = "unat (pi_num_words inst)"
  have w: "pi_words inst = take ?n (drop ?i ?ws)"
    by (rule recorded_reported_words [OF rec host inst])
  have i: "5 \<le> ?i" "?i < length ws" using rec room by (simp_all add: recorded_def)
  have "concat (map pi_words (us @ [inst])) = take (?i - 5) (drop 5 ?ws) @ take ?n (drop ?i ?ws)"
    using rec w by (simp add: recorded_def)
  also have "\<dots> = take (?i + ?n - 5) (drop 5 ?ws)" using i(1) by (rule take_take_drop)
  finally have words: "concat (map pi_words (us @ [inst])) = take (st_word_index st' - 5) (drop 5 ?ws)"
    using inst by (simp add: instruction_reported_def)
  have "native_words P st = ?ws" using rec host by (simp add: native_words_def recorded_def)
  moreover have "0 < ?n" using inst by (simp add: instruction_reported_def)
  then have "hd (pi_words inst) = ?ws ! ?i"
    unfolding w using i(2) by (simp only: hd_take) (simp add: hd_drop_conv_nth)
  ultimately have "hd (pi_words inst) = native_words P st ! ?i" by simp
  then have wf: "well_formed_instruction inst"
    using inst unfolding instruction_reported_def well_formed_instruction_def by metis
  have ids: "ids_in_instruction st (st', inst)" using inst by (simp add: instruction_reported_def)
  have "distinct (result_ids (us @ [inst])) \<and>
      set (result_ids (us @ [inst])) \<subseteq> dom (st_id_to_type_id st') \<and> 0 \<notin> dom (st_id_to_type_id st')"
    using rec ids unfolding recorded_def ids_in_instruction_def result_ids_def
    by (cases "pi_result_id inst = 0") (simp_all, blast+)
  with words wf rec inst i show ?thesis
    by (auto simp: recorded_def instruction_reported_def)
qed

interpretation recording: instruction_invariant "recorder G host" "recorded host e ws"
  for G host e ws
  by unfold_locales (simp add: recorder_def recorded_step)

section \<open>Errors\<close>

definition parse_errors :: "spv_result_t set" where
  "parse_errors = {SPV_ERROR_INVALID_BINARY, SPV_ERROR_INVALID_ID, SPV_ERROR_INTERNAL}"

lemma mask_bits_loop_error: "mask_bits_loop G type r m e = Inl error \<Longrightarrow> error \<in> parse_errors"
proof (induction G type r m e rule: mask_bits_loop.induct)
  case (1 G type r m e)
  show ?case
    using "1.prems" "1.IH" by (subst (asm) mask_bits_loop.simps) (auto simp: parse_errors_def split: if_splits sum.splits)
qed

lemma case_errors:
  "parse_type_id w os = Inl error \<Longrightarrow> error \<in> parse_errors"
  "parse_result_id w os = Inl error \<Longrightarrow> error \<in> parse_errors"
  "parse_id w os = Inl error \<Longrightarrow> error \<in> parse_errors"
  "parse_scope_id w os = Inl error \<Longrightarrow> error \<in> parse_errors"
  "parse_ext_inst_number G w os = Inl error \<Longrightarrow> error \<in> parse_errors"
  "parse_spec_constant_op G w os = Inl error \<Longrightarrow> error \<in> parse_errors"
  "parse_literal_integer os = Inl error \<Longrightarrow> error \<in> parse_errors"
  "parse_literal_float os = Inl error \<Longrightarrow> error \<in> parse_errors"
  "parse_literal_string os = Inl error \<Longrightarrow> error \<in> parse_errors"
  "parse_enum G type w os = Inl error \<Longrightarrow> error \<in> parse_errors"
  "parse_source_language G type w os = Inl error \<Longrightarrow> error \<in> parse_errors"
  by (auto simp: parse_type_id_def parse_result_id_def parse_id_def parse_scope_id_def
      parse_ext_inst_number_def parse_spec_constant_op_def parse_literal_integer_def
      parse_literal_float_def parse_literal_string_def parse_enum_def parse_source_language_def
      parse_errors_def Let_def split: prod.splits if_splits option.splits sum.splits)

lemma parse_mask_error: "parse_mask G type w os = Inl error \<Longrightarrow> error \<in> parse_errors"
  by (auto simp: parse_mask_def Let_def split: prod.splits sum.splits dest: mask_bits_loop_error)

lemma numeric_type_error: "setNumericTypeInfoForType st po t = Inl error \<Longrightarrow> error \<in> parse_errors"
  by (auto simp: setNumericTypeInfoForType_def parse_errors_def split: option.splits if_splits)

lemma parse_typed_literal_error: "parse_typed_literal P off os = Inl error \<Longrightarrow> error \<in> parse_errors"
  by (auto simp: parse_typed_literal_def Let_def dest: numeric_type_error
      split: prod.splits if_splits option.splits sum.splits) (simp_all add: parse_errors_def)

lemma parseOperand_error: "parseOperand P off type si = Inl error \<Longrightarrow> error \<in> parse_errors"
proof (cases si)
  case (Pair st inst)
  assume error: "parseOperand P off type si = Inl error"
  have "parse_operand_switch P off type w os = Inl error \<Longrightarrow> error \<in> parse_errors" for w os
    unfolding parse_operand_switch_def
    by (auto dest: case_errors parse_mask_error parse_typed_literal_error split: if_split_asm)
      (simp add: parse_errors_def)
  with error Pair show ?thesis
    by (auto simp: parseOperand_def finish_operand_def Let_def parse_errors_def split: if_splits sum.splits)
qed

lemma parse_operands_loop_error:
  "parse_operands_loop P off wc st inst = Inl error \<Longrightarrow> error \<in> parse_errors"
proof (induction P off wc st inst rule: parse_operands_loop.induct)
  case (1 P off wc st inst)
  obtain type expected where "spvTakeFirstMatchableOperand (st_expected_operands st) = (type, expected)"
    by fastforce
  with 1 show ?case
    by (subst (asm) (2) parse_operands_loop.simps)
      (auto simp: parse_errors_def [THEN arg_cong [where f = "\<lambda>S. SPV_ERROR_INVALID_BINARY \<in> S"]]
        dest: parseOperand_error split: if_splits sum.splits)
qed

lemma decode_instruction_error: "decode_instruction P st = Inl error \<Longrightarrow> error \<in> parse_errors"
  by (auto simp: decode_instruction_def Let_def parse_errors_def split: prod.splits if_splits sum.splits
      dest: parse_operands_loop_error)

lemma parseInstruction_error: "parseInstruction P (u, st) = Inl (error, u') \<Longrightarrow> error \<noteq> SPV_SUCCESS"
  by (auto simp: parseInstruction_def Let_def parse_errors_def dest!: decode_instruction_error
      split: sum.splits option.splits prod.splits if_splits)

lemma parse_instructions_loop_error:
  "parse_instructions_loop P u st = Inl (error, u') \<Longrightarrow> error \<noteq> SPV_SUCCESS"
proof (induction P u st rule: parse_instructions_loop.induct)
  case (1 P u st)
  show ?case
  proof (cases "st_word_index st < length (st_words st)")
    case True
    with 1 show ?thesis
      by (subst (asm) (2) parse_instructions_loop.simps)
        (cases "parseInstruction P (u, st)", auto dest: parseInstruction_error)
  next
    case False
    with "1.prems" show ?thesis by (subst (asm) parse_instructions_loop.simps) simp
  qed
qed

text \<open>The state in which the first instruction is parsed.\<close>

definition module_start :: "uint32_t \<Rightarrow> spv_endianness_t \<Rightarrow> uint32_t list \<Rightarrow> Parser_State" where
  "module_start host e ws = (initial_State ws)\<lparr>st_endian := e,
     st_requires_endian_conversion := \<not> spvIsHostEndian host e, st_word_index := SPV_INDEX_INSTRUCTION\<rparr>"

lemma parseModule_success:
  assumes "parseModule P u code = (u', SPV_SUCCESS)" "p_parsed_header_fn P = None"
  obtains ws e h st where "code = Some ws" "5 \<le> length ws"
    "spvBinaryEndianness (p_host_order P) (Some ws) False = Inr e"
    "spvBinaryHeaderGet (p_host_order P) (Some ws) e False = Inr h"
    "parse_instructions_loop P u (module_start (p_host_order P) e ws) = Inr (u', st)"
  using assms
  by (auto simp: parseModule_def module_start_def Let_def SPV_INDEX_INSTRUCTION_def not_less
      dest: parse_instructions_loop_error split: option.splits if_splits sum.splits prod.splits)

lemma recorded_start:
  assumes "host \<in> {I32_ENDIAN_LITTLE, I32_ENDIAN_BIG}" "5 \<le> length ws"
  shows "recorded host e ws [] (module_start host e ws)"
  using assms by (simp add: recorded_def module_start_def initial_State_def SPV_INDEX_INSTRUCTION_def result_ids_def)

section \<open>Parsers that differ in their callbacks only\<close>

lemma peekAt_cong: "p_host_order P = p_host_order Q \<Longrightarrow> peekAt P = peekAt Q"
  by (simp add: peekAt_def fun_eq_iff)

lemma parseOperand_cong:
  assumes "p_grammar P = p_grammar Q" "p_host_order P = p_host_order Q"
  shows "parseOperand P off type si = parseOperand Q off type si"
proof -
  have "parse_typed_literal P = parse_typed_literal Q"
    by (intro ext) (simp only: parse_typed_literal_def peekAt_cong [OF assms(2)])
  then have "parse_operand_switch P off type = parse_operand_switch Q off type"
    by (intro ext) (simp only: parse_operand_switch_def assms(1))
  moreover have "finish_operand P = finish_operand Q"
    unfolding finish_operand_def assms(2) by (rule refl)
  ultimately show ?thesis
    unfolding parseOperand_def peek_def peekAt_cong [OF assms(2)] by (simp only:)
qed

lemma parse_operands_loop_cong:
  assumes "p_grammar P = p_grammar Q" "p_host_order P = p_host_order Q"
  shows "parse_operands_loop P off wc st inst = parse_operands_loop Q off wc st inst"
  using assms
proof (induction P off wc st inst rule: parse_operands_loop.induct)
  case (1 P off wc st inst)
  obtain type expected where type: "spvTakeFirstMatchableOperand (st_expected_operands st) = (type, expected)"
    by fastforce
  have "parseOperand P off type si = parseOperand Q off type si" for si
    using "1.prems" by (rule parseOperand_cong)
  then show ?case
    using "1.IH" "1.prems" type
    by (subst (1 2) parse_operands_loop.simps) (auto split: sum.splits)
qed

lemma decode_instruction_cong:
  assumes "p_grammar P = p_grammar Q" "p_host_order P = p_host_order Q"
  shows "decode_instruction P st = decode_instruction Q st"
proof -
  have "recordNumberType P off inst st = recordNumberType Q off inst st" for off inst st
    unfolding recordNumberType_def assms(1) peekAt_cong [OF assms(2)] by (rule refl)
  then show ?thesis
    unfolding decode_instruction_def assms(1) peek_def peekAt_cong [OF assms(2)]
      parse_operands_loop_cong [OF assms] by (simp only:)
qed

text \<open>A client with callback \<open>fn\<close> that is told of the instructions one after the other.\<close>

fun run_callbacks ::
  "'u parsed_instruction_fn \<Rightarrow> 'u \<Rightarrow> spv_parsed_instruction_t list \<Rightarrow> 'u \<times> spv_result_t" where
  "run_callbacks fn u [] = (u, SPV_SUCCESS)"
| "run_callbacks fn u (inst # insts) =
     (let (u, error) = fn u inst
      in if error \<noteq> SPV_SUCCESS then (u, error) else run_callbacks fn u insts)"

text \<open>A client may have no callback, for the instructions as well as for the header.\<close>

definition instruction_client :: "'u parsed_instruction_fn option \<Rightarrow> 'u parsed_instruction_fn" where
  "instruction_client fn = (case fn of None \<Rightarrow> (\<lambda>u inst. (u, SPV_SUCCESS)) | Some fn \<Rightarrow> fn)"

type_synonym header_words = "spv_endianness_t \<times> uint32_t \<times> uint32_t \<times> uint32_t \<times> uint32_t \<times> uint32_t"

definition header_client ::
  "'u parsed_header_fn option \<Rightarrow> 'u \<Rightarrow> header_words option \<Rightarrow> 'u \<times> spv_result_t" where
  "header_client fn u header =
     (case (fn, header) of
        (Some fn, Some (endian, magic, version, generator, id_bound, schema)) \<Rightarrow>
          fn u endian magic version generator id_bound schema
      | _ \<Rightarrow> (u, SPV_SUCCESS))"

text \<open>The outcome of a loop for that client, given the outcome for the recorder.\<close>

definition replay ::
  "'u parsed_instruction_fn \<Rightarrow> 'u \<Rightarrow> spv_parsed_instruction_t list \<Rightarrow> spv_result_t \<Rightarrow> 'u \<times> spv_result_t" where
  "replay fn u insts result =
     (let (u, error) = run_callbacks fn u insts in (u, if error \<noteq> SPV_SUCCESS then error else result))"

definition loop_outcome :: "(spv_result_t \<times> 'u) + 'u \<times> Parser_State \<Rightarrow> 'u \<times> spv_result_t" where
  "loop_outcome r = (case r of Inl (error, u) \<Rightarrow> (u, error) | Inr (u, st) \<Rightarrow> (u, SPV_SUCCESS))"

lemma replay_Cons:
  "replay fn u (inst # insts) r =
    (if snd (fn u inst) \<noteq> SPV_SUCCESS then fn u inst else replay fn (fst (fn u inst)) insts r)"
  by (auto simp: replay_def Let_def split: prod.splits)

lemma loop_replay:
  assumes P: "p_grammar P = G" "p_host_order P = host"
  shows "\<exists>insts. fst (loop_outcome (parse_instructions_loop (recorder G host) us st)) = us @ insts \<and>
    loop_outcome (parse_instructions_loop P u st) =
      replay (instruction_client (p_parsed_instruction_fn P)) u insts
        (snd (loop_outcome (parse_instructions_loop (recorder G host) us st)))"
proof (induction "length (st_words st) - st_word_index st" arbitrary: us u st rule: less_induct)
  case less
  let ?R = "recorder G host" and ?fn = "instruction_client (p_parsed_instruction_fn P)"
  have same: "decode_instruction P st = decode_instruction ?R st"
    using P by (intro decode_instruction_cong) (simp_all add: recorder_def)
  show ?case
  proof (cases "st_word_index st < length (st_words st)")
    case False
    then show ?thesis
      by (subst (1 2 3) parse_instructions_loop.simps) (simp add: loop_outcome_def replay_def)
  next
    case True
    show ?thesis
    proof (cases "decode_instruction ?R st")
      case (Inl error)
      then show ?thesis using True same
        by (subst (1 2 3) parse_instructions_loop.simps)
          (simp add: parseInstruction_def loop_outcome_def replay_def)
    next
      case (Inr r)
      then obtain st' inst where step: "decode_instruction ?R st = Inr (st', inst)" by (cases r) auto
      from decode_instruction_reported [OF step True]
      have "length (st_words st') - st_word_index st' < length (st_words st) - st_word_index st"
        using True by (simp add: instruction_reported_def) linarith
      from less.hyps [OF this, where us = "us @ [inst]" and u = "fst (?fn u inst)"]
      obtain insts where insts:
        "fst (loop_outcome (parse_instructions_loop ?R (us @ [inst]) st')) = us @ inst # insts"
        "loop_outcome (parse_instructions_loop P (fst (?fn u inst)) st') =
          replay ?fn (fst (?fn u inst)) insts
            (snd (loop_outcome (parse_instructions_loop ?R (us @ [inst]) st')))" by auto
      have R: "parse_instructions_loop ?R us st = parse_instructions_loop ?R (us @ [inst]) st'"
        using True step by (subst parse_instructions_loop.simps) (simp add: parseInstruction_def recorder_def)
      have "loop_outcome (parse_instructions_loop P u st) =
          (if snd (?fn u inst) \<noteq> SPV_SUCCESS then ?fn u inst
           else loop_outcome (parse_instructions_loop P (fst (?fn u inst)) st'))"
        using True step same
        by (subst parse_instructions_loop.simps)
          (auto simp: parseInstruction_def instruction_client_def loop_outcome_def split: prod.splits option.splits)
      with insts R show ?thesis by (intro exI [of _ "inst # insts"]) (simp add: replay_Cons)
    qed
  qed
qed

text \<open>The parse from the header callback on.\<close>

definition parse_from_header ::
  "'u Parser \<Rightarrow> 'u \<Rightarrow> spv_endianness_t \<Rightarrow> spv_header_t \<Rightarrow> uint32_t list \<Rightarrow> 'u \<times> spv_result_t" where
  "parse_from_header P u e h ws =
     (let (u, error) = header_client (p_parsed_header_fn P) u
            (Some (e, h_magic h, h_version h, h_generator h, h_bound h, h_schema h))
      in if error \<noteq> SPV_SUCCESS then (u, error)
         else loop_outcome (parse_instructions_loop P u (module_start (p_host_order P) e ws)))"

lemma parseModule_outcome:
  "parseModule P u code =
    (case code of
       None \<Rightarrow> (u, SPV_ERROR_INVALID_BINARY)
     | Some ws \<Rightarrow>
         if length ws < 5 then (u, SPV_ERROR_INVALID_BINARY)
         else case spvBinaryEndianness (p_host_order P) code False of
           Inl _ \<Rightarrow> (u, SPV_ERROR_INVALID_BINARY)
         | Inr e \<Rightarrow>
             (case spvBinaryHeaderGet (p_host_order P) code e False of
                Inl _ \<Rightarrow> (u, SPV_ERROR_INTERNAL)
              | Inr h \<Rightarrow> parse_from_header P u e h ws))"
  by (simp add: parseModule_def parse_from_header_def header_client_def loop_outcome_def module_start_def SPV_INDEX_INSTRUCTION_def
      Let_def split_beta split: option.splits sum.splits)

text \<open>A client that records the header and the instructions, and what a parse is for it.\<close>

definition observer :: "grammar \<Rightarrow> uint32_t \<Rightarrow> (header_words option \<times> spv_parsed_instruction_t list) Parser" where
  "observer G host = \<lparr>p_grammar = G, p_host_order = host,
     p_parsed_header_fn = Some (\<lambda>(h, insts) endian magic version generator id_bound schema.
       ((Some (endian, magic, version, generator, id_bound, schema), insts), SPV_SUCCESS)),
     p_parsed_instruction_fn = Some (\<lambda>(h, insts) inst. ((h, insts @ [inst]), SPV_SUCCESS))\<rparr>"

lemma run_observer:
  "run_callbacks (\<lambda>(h, us) inst. ((h, us @ [inst]), SPV_SUCCESS)) (h, us) insts = ((h, us @ insts), SPV_SUCCESS)"
  by (induction insts arbitrary: us) auto

lemma observer_loop:
  "loop_outcome (parse_instructions_loop (observer G host) (h, []) st) =
    (let (insts, result) = loop_outcome (parse_instructions_loop (recorder G host) [] st) in ((h, insts), result))"
  using loop_replay [of "observer G host" G host "[]" st "(h, [])"]
  by (auto simp: observer_def instruction_client_def replay_def run_observer split_beta)

text \<open>What a client makes of an observed parse.\<close>

definition replay_observed ::
  "'u Parser \<Rightarrow> 'u \<Rightarrow> (header_words option \<times> spv_parsed_instruction_t list) \<times> spv_result_t \<Rightarrow> 'u \<times> spv_result_t" where
  "replay_observed P u = (\<lambda>((header, insts), result).
     let (u', error) = header_client (p_parsed_header_fn P) u header
     in if error \<noteq> SPV_SUCCESS then (u', error)
        else replay (instruction_client (p_parsed_instruction_fn P)) u' insts result)"

lemma replay_observed_none: "replay_observed P u ((None, []), result) = (u, result)"
  by (simp add: replay_observed_def header_client_def replay_def split: option.splits)

lemma parse_from_header_observed:
  assumes "p_grammar P = G" "p_host_order P = host"
  shows "parse_from_header P u e h ws = replay_observed P u (parse_from_header (observer G host) (None, []) e h ws)"
proof -
  let ?st = "module_start host e ws" and ?h = "(e, h_magic h, h_version h, h_generator h, h_bound h, h_schema h)"
  obtain insts result where rec: "loop_outcome (parse_instructions_loop (recorder G host) [] ?st) = (insts, result)"
    by fastforce
  then have "parse_from_header (observer G host) (None, []) e h ws = ((Some ?h, insts), result)"
    using observer_loop [of G host "Some ?h" ?st]
    by (simp add: parse_from_header_def header_client_def observer_def)
  moreover have "loop_outcome (parse_instructions_loop P v (module_start (p_host_order P) e ws)) =
      replay (instruction_client (p_parsed_instruction_fn P)) v insts result" for v
    using loop_replay [OF assms, of "[]" ?st v] rec assms(2) by auto
  ultimately show ?thesis
    unfolding parse_from_header_def [of P] by (simp add: replay_observed_def split_beta)
qed

lemma parseModule_observed:
  assumes "p_grammar P = G" "p_host_order P = host"
  shows "parseModule P u code = replay_observed P u (parseModule (observer G host) (None, []) code)"
proof -
  have "p_host_order (observer G host) = host" by (simp add: observer_def)
  then show ?thesis
    unfolding parseModule_outcome using assms
    by (simp add: replay_observed_none parse_from_header_observed [OF assms] split: option.split sum.split)
qed

section \<open>The versions of the header\<close>

lemma version_words:
  "(\<lambda>minor. SPV_SPIRV_VERSION_WORD 1 minor) ` {0, 1, 2, 3, 4, 5, 6} =
    {0x10000, 0x10100, 0x10200, 0x10300, 0x10400, 0x10500, 0x10600}"
  by (simp add: SPV_SPIRV_VERSION_WORD_def push_bit_of_1)

lemma version_1_0: "0x10000 \<in> SPV_SPIRV_VERSION_WORD 1 ` {0, 1, 2, 3, 4, 5, 6}"
  unfolding version_words by simp

lemma version_checks:
  fixes v :: uint32_t
  shows "v AND 0x000000ff = 0 \<and> v AND 0xff000000 = 0 \<and> 0x10000 \<le> v \<and> v \<le> 0x10600 \<longleftrightarrow>
    v \<in> {0x10000, 0x10100, 0x10200, 0x10300, 0x10400, 0x10500, 0x10600}"
proof
  assume v: "v AND 0x000000ff = 0 \<and> v AND 0xff000000 = 0 \<and> 0x10000 \<le> v \<and> v \<le> 0x10600"
  have "(0x000000ff :: uint32_t) = mask 8" by (simp add: mask_eq_exp_minus_1)
  then have "take_bit 8 v = 0" using v by (simp add: take_bit_eq_mask)
  then have "take_bit 8 (unat v) = 0" by (metis unsigned_take_bit_eq unsigned_0)
  then have "unat v mod 256 = 0" by (simp add: take_bit_eq_mod)
  then obtain k where k: "unat v = 256 * k" by (metis mod_0_imp_dvd dvdE)
  have "0x10000 \<le> unat v" "unat v \<le> 0x10600" using v by (simp_all add: word_le_nat_alt)
  with k have "k = 256 \<or> k = 257 \<or> k = 258 \<or> k = 259 \<or> k = 260 \<or> k = 261 \<or> k = 262" by linarith
  with k have "unat v \<in> {0x10000, 0x10100, 0x10200, 0x10300, 0x10400, 0x10500, 0x10600}"
    by auto
  then show "v \<in> {0x10000, 0x10100, 0x10200, 0x10300, 0x10400, 0x10500, 0x10600}"
    by (auto simp: word_unat_eq_iff)
qed auto

lemma header_accepted:
  assumes "5 \<le> length ws"
  shows "spvBinaryHeaderGet host (Some ws) e False =
    (if spvFixWord host (ws ! 1) e \<in> SPV_SPIRV_VERSION_WORD 1 ` {0, 1, 2, 3, 4, 5, 6}
     then Inr \<lparr>h_magic = spvFixWord host (ws ! 0) e, h_version = spvFixWord host (ws ! 1) e,
       h_generator = spvFixWord host (ws ! 2) e, h_bound = spvFixWord host (ws ! 3) e,
       h_schema = spvFixWord host (ws ! 4) e, h_instructions = drop 5 ws\<rparr>
     else Inl SPV_ERROR_INVALID_BINARY)"
proof -
  have "SPV_SPIRV_VERSION_WORD 1 0 = 0x10000" by (simp add: SPV_SPIRV_VERSION_WORD_def push_bit_of_1)
  then show ?thesis
    using assms unfolding version_words version_checks [symmetric]
    by (auto simp: spvBinaryHeaderGet_def SPV_INDEX_INSTRUCTION_def SPV_VERSION_def Let_def not_le not_less)
qed

text \<open>A parse for the recorder, whether it succeeds or not, once the header is accepted.\<close>

lemma recorder_outcome:
  assumes "5 \<le> length ws" "spvBinaryEndianness host (Some ws) False = Inr e"
    and "spvFixWord host (ws ! 1) e \<in> SPV_SPIRV_VERSION_WORD 1 ` {0, 1, 2, 3, 4, 5, 6}"
  shows "spvBinaryParse G host [] (Some ws) None (Some (\<lambda>us inst. (us @ [inst], SPV_SUCCESS))) =
    loop_outcome (parse_instructions_loop (recorder G host) [] (module_start host e ws))"
  using assms unfolding spvBinaryParse_def recorder_def [symmetric]
  by (subst parseModule_outcome)
    (simp add: recorder_def parse_from_header_def header_client_def header_accepted del: image_insert)

text \<open>How the state looks where the parse ends, and that it is not the end of the module after an error.\<close>

definition parse_ended ::
  "grammar \<Rightarrow> uint32_t \<Rightarrow> uint32_t list \<Rightarrow> spv_result_t \<Rightarrow> Parser_State \<Rightarrow> bool" where
  "parse_ended G host ws result st \<longleftrightarrow>
     (if result = SPV_SUCCESS then length ws \<le> st_word_index st
      else st_word_index st < length ws \<and> decode_instruction (recorder G host) st = Inl result)"

lemma recorder_ended:
  assumes "loop_outcome (parse_instructions_loop (recorder G host) [] st0) = (insts, result)"
    and start: "recorded host e ws [] st0"
  shows "\<exists>st. recorded host e ws insts st \<and> parse_ended G host ws result st"
proof (cases "parse_instructions_loop (recorder G host) [] st0")
  case (Inr r)
  then obtain st where "parse_instructions_loop (recorder G host) [] st0 = Inr (insts, st)" "result = SPV_SUCCESS"
    using assms(1) by (cases r) (auto simp: loop_outcome_def)
  with recording.module [OF start] show ?thesis
    by (intro exI [of _ st]) (auto simp: parse_ended_def recorded_def)
next
  case (Inl p)
  then have "parse_instructions_loop (recorder G host) [] st0 = Inl (result, insts)"
    using assms(1) by (cases p) (auto simp: loop_outcome_def)
  from recording.stopped [OF start this] parse_instructions_loop_error [OF this] show ?thesis
    by (auto simp: parse_ended_def recorded_def recorder_def)
qed

lemma recorder_reached:
  assumes "spvBinaryParse G host [] (Some ws) None (Some (\<lambda>us inst. (us @ [inst], SPV_SUCCESS))) = (insts, result)"
    and "spvBinaryEndianness host (Some ws) False = Inr e" "insts \<noteq> []"
  shows "5 \<le> length ws \<and>
    loop_outcome (parse_instructions_loop (recorder G host) [] (module_start host e ws)) = (insts, result)"
  using assms unfolding spvBinaryParse_def recorder_def [symmetric] parseModule_outcome
  by (auto simp: recorder_def parse_from_header_def header_client_def split: if_splits sum.splits)

context instruction_invariant
begin

lemma outcome:
  assumes "inv u st" "loop_outcome (parse_instructions_loop P u st) = (u', result)"
  shows "\<exists>st'. inv u' st'"
proof (cases "parse_instructions_loop P u st")
  case (Inl p)
  then show ?thesis using stopped [OF assms(1), of result u'] assms(2) by (cases p) (auto simp: loop_outcome_def)
next
  case (Inr p)
  then show ?thesis using module [OF assms(1)] assms(2) by (cases p) (auto simp: loop_outcome_def)
qed

end

lemma recorded_rest:
  assumes "recorded host e ws insts st"
  shows "concat (map pi_words insts) @ drop (st_word_index st) (map (\<lambda>w. spvFixWord host w e) ws) =
    drop 5 (map (\<lambda>w. spvFixWord host w e) ws)"
proof -
  have "drop (st_word_index st) xs = drop (st_word_index st - 5) (drop 5 xs)" for xs :: "uint32_t list"
    using assms by (simp add: recorded_def)
  with assms show ?thesis by (simp only: recorded_def append_take_drop_id)
qed

lemma decode_no_instruction:
  assumes "spvOpcodeSplit (peek P st) = (wc, opcode)"
    and "wc = 0 \<or> (\<forall>d. LookupOpcode (p_grammar P) (ucast opcode) \<noteq> Inr d)"
  shows "decode_instruction P st = Inl SPV_ERROR_INVALID_BINARY"
  using assms by (cases "LookupOpcode (p_grammar P) (ucast opcode)") (auto simp: decode_instruction_def Let_def word_less_1)

section \<open>Example modules\<close>

text \<open>A module with one integer type, and how its only instruction is reported.\<close>

definition small_module :: "uint32_t list" where
  "small_module = [0x07230203, 0x00010000, 0, 2, 0, 0x00040015, 1, 32, 0]"

definition small_operand ::
  "uint16_t \<Rightarrow> spv_operand_type_t \<Rightarrow> spv_number_kind_t \<Rightarrow> uint32_t \<Rightarrow> spv_parsed_operand_t" where
  "small_operand off t k w = \<lparr>po_offset = off, po_num_words = 1, po_type = t, po_number_kind = k,
     po_number_bit_width = w, po_fp_encoding = None\<rparr>"

definition small_instruction :: spv_parsed_instruction_t where
  "small_instruction = \<lparr>pi_words = [0x00040015, 1, 32, 0], pi_num_words = 4, pi_opcode = 21,
     pi_ext_inst_type = SPV_EXT_INST_TYPE_NONE, pi_type_id = 0, pi_result_id = 1,
     pi_operands = [small_operand 1 SPV_OPERAND_TYPE_RESULT_ID SPV_NUMBER_NONE 0,
       small_operand 2 SPV_OPERAND_TYPE_LITERAL_INTEGER SPV_NUMBER_UNSIGNED_INT 32,
       small_operand 3 SPV_OPERAND_TYPE_LITERAL_INTEGER SPV_NUMBER_UNSIGNED_INT 32],
     pi_num_operands = 3\<rparr>"

lemma host_little [simp]:
  "spvFixWord I32_ENDIAN_LITTLE w SPV_ENDIANNESS_LITTLE = w"
  "spvIsHostEndian I32_ENDIAN_LITTLE SPV_ENDIANNESS_LITTLE"
  "\<not> spvIsHostEndian I32_ENDIAN_LITTLE SPV_ENDIANNESS_BIG"
  by (simp_all add: spvFixWord_def spvIsHostEndian_def I32_ENDIAN_LITTLE_def I32_ENDIAN_BIG_def)

lemma small_lookup:
  obtains desc where "LookupOpcode small_grammar 21 = Inr desc"
    "InstructionDesc_operands small_grammar desc =
      [SPV_OPERAND_TYPE_RESULT_ID, SPV_OPERAND_TYPE_LITERAL_INTEGER, SPV_OPERAND_TYPE_LITERAL_INTEGER]"
proof
  show "LookupOpcode small_grammar 21 = Inr (kInstructionDesc small_grammar ! 1)"
    by (simp add: LookupOpcode_def lower_bound_def lower_bound_loop.simps small_grammar_def Let_def)
  show "InstructionDesc_operands small_grammar (kInstructionDesc small_grammar ! 1) =
      [SPV_OPERAND_TYPE_RESULT_ID, SPV_OPERAND_TYPE_LITERAL_INTEGER, SPV_OPERAND_TYPE_LITERAL_INTEGER]"
    by (simp add: InstructionDesc_operands_def ir_apply_def small_grammar_def)
qed

text \<open>Rules that run the parser on known words.\<close>

lemmas run_decode = decode_instruction_def module_start_def initial_State_def peek_def peekAt_def
  SPV_INDEX_INSTRUCTION_def Let_def spvPushOperandTypesSpan_eq
lemmas run_operands = parse_operands_loop.simps take_first_single spvExpandOperandSequenceOnce_def
  parseOperand_def Let_def parse_operand_switch_def finish_operand_def peek_def peekAt_def
  recordNumberType_def spvOpcodeGeneratesType_def

lemma small_decode:
  "\<exists>st. decode_instruction (recorder small_grammar I32_ENDIAN_LITTLE)
      (module_start I32_ENDIAN_LITTLE SPV_ENDIANNESS_LITTLE small_module) = Inr (st, small_instruction) \<and>
    st_word_index st = 9 \<and> st_words st = small_module"
proof -
  obtain desc where desc: "LookupOpcode small_grammar 21 = Inr desc"
    "InstructionDesc_operands small_grammar desc =
      [SPV_OPERAND_TYPE_RESULT_ID, SPV_OPERAND_TYPE_LITERAL_INTEGER, SPV_OPERAND_TYPE_LITERAL_INTEGER]"
    by (rule small_lookup)
  have "spvOpcodeSplit 0x00040015 = (4, 21)" by (simp add: spvOpcodeSplit_def)
  then show ?thesis
    by (simp add: run_decode desc recorder_def small_module_def)
      (simp add: run_operands parse_result_id_def parse_literal_integer_def small_instruction_def
        small_operand_def)
qed

lemma small_header:
  "spvBinaryEndianness I32_ENDIAN_LITTLE (Some small_module) False = Inr SPV_ENDIANNESS_LITTLE"
  by code_simp

lemma recorder_parse:
  "spvBinaryParse G host [] code None (Some (\<lambda>us inst. (us @ [inst], SPV_SUCCESS))) =
    parseModule (recorder G host) [] code"
  by (simp add: spvBinaryParse_def recorder_def)

lemma module_start_fields:
  "st_word_index (module_start host e ws) = 5" "st_words (module_start host e ws) = ws"
  by (simp_all add: module_start_def initial_State_def SPV_INDEX_INSTRUCTION_def)

text \<open>A module of one instruction.\<close>

lemma parse_single:
  assumes "decode_instruction (recorder G host) (module_start host e ws) = Inr (st, inst)"
    and "st_word_index st = length ws" "st_words st = ws" "5 < length ws"
    and "spvBinaryEndianness host (Some ws) False = Inr e"
      "spvFixWord host (ws ! 1) e \<in> SPV_SPIRV_VERSION_WORD 1 ` {0, 1, 2, 3, 4, 5, 6}"
  shows "parseModule (recorder G host) [] (Some ws) = ([inst], SPV_SUCCESS)"
proof -
  have "parseInstruction (recorder G host) ([], module_start host e ws) = Inr ([inst], st)"
    using assms(1) by (simp add: parseInstruction_def recorder_def)
  moreover have "parse_instructions_loop (recorder G host) [inst] st = Inr ([inst], st)"
    using assms(2,3) by (subst parse_instructions_loop.simps) simp
  ultimately have "parse_instructions_loop (recorder G host) [] (module_start host e ws) = Inr ([inst], st)"
    using assms(4) by (subst parse_instructions_loop.simps) (simp add: module_start_fields)
  then show ?thesis
    using assms(4-6) by (subst parseModule_outcome) (simp_all add: recorder_def parse_from_header_def header_client_def header_accepted
          loop_outcome_def
        del: image_insert)
qed

lemma parse_single_error:
  assumes "decode_instruction (recorder G host) (module_start host e ws) = Inl error" "5 < length ws"
    and "spvBinaryEndianness host (Some ws) False = Inr e"
      "spvFixWord host (ws ! 1) e \<in> SPV_SPIRV_VERSION_WORD 1 ` {0, 1, 2, 3, 4, 5, 6}"
  shows "parseModule (recorder G host) [] (Some ws) = ([], error)"
proof -
  have "parse_instructions_loop (recorder G host) [] (module_start host e ws) = Inl (error, [])"
    using assms(1,2) by (subst parse_instructions_loop.simps) (simp add: module_start_fields parseInstruction_def)
  then show ?thesis
    using assms(2-4) by (subst parseModule_outcome) (simp_all add: recorder_def parse_from_header_def header_client_def header_accepted
          loop_outcome_def
        del: image_insert)
qed

lemma small_parse:
  "spvBinaryParse small_grammar I32_ENDIAN_LITTLE [] (Some small_module) None
     (Some (\<lambda>us inst. (us @ [inst], SPV_SUCCESS))) = ([small_instruction], SPV_SUCCESS)"
proof -
  obtain st where "decode_instruction (recorder small_grammar I32_ENDIAN_LITTLE)
      (module_start I32_ENDIAN_LITTLE SPV_ENDIANNESS_LITTLE small_module) = Inr (st, small_instruction)"
    "st_word_index st = 9" "st_words st = small_module" using small_decode by blast
  then show ?thesis
    unfolding recorder_parse using small_header version_1_0
    by (intro parse_single) (assumption | simp add: small_module_def del: One_nat_def)+
qed

text \<open>The module with a word behind it that is not an instruction.\<close>

lemma truncated_header:
  "spvBinaryEndianness I32_ENDIAN_LITTLE (Some (small_module @ [0])) False = Inr SPV_ENDIANNESS_LITTLE"
  by code_simp

lemma truncated_decode:
  "\<exists>st. decode_instruction (recorder small_grammar I32_ENDIAN_LITTLE)
      (module_start I32_ENDIAN_LITTLE SPV_ENDIANNESS_LITTLE (small_module @ [0])) = Inr (st, small_instruction) \<and>
    st_word_index st = 9 \<and> st_words st = small_module @ [0]"
proof -
  obtain desc where desc: "LookupOpcode small_grammar 21 = Inr desc"
    "InstructionDesc_operands small_grammar desc =
      [SPV_OPERAND_TYPE_RESULT_ID, SPV_OPERAND_TYPE_LITERAL_INTEGER, SPV_OPERAND_TYPE_LITERAL_INTEGER]"
    by (rule small_lookup)
  have "spvOpcodeSplit 0x00040015 = (4, 21)" by (simp add: spvOpcodeSplit_def)
  then show ?thesis
    by (simp add: run_decode desc recorder_def small_module_def)
      (simp add: run_operands parse_result_id_def parse_literal_integer_def small_instruction_def
        small_operand_def)
qed

lemma truncated_parse:
  "spvBinaryParse small_grammar I32_ENDIAN_LITTLE [] (Some (small_module @ [0])) None
     (Some (\<lambda>us inst. (us @ [inst], SPV_SUCCESS))) = ([small_instruction], SPV_ERROR_INVALID_BINARY)"
proof -
  let ?P = "recorder small_grammar I32_ENDIAN_LITTLE"
  let ?st0 = "module_start I32_ENDIAN_LITTLE SPV_ENDIANNESS_LITTLE (small_module @ [0])"
  obtain st where st: "decode_instruction ?P ?st0 = Inr (st, small_instruction)"
    "st_word_index st = 9" "st_words st = small_module @ [0]" using truncated_decode by blast
  have "peek ?P st = 0"
    by (simp add: peek_def peekAt_def st(2,3) small_module_def spvFixWord_def)
  then have error: "decode_instruction ?P st = Inl SPV_ERROR_INVALID_BINARY"
    by (intro decode_no_instruction [of ?P st 0 0]) (simp_all add: spvOpcodeSplit_def)
  have "parse_instructions_loop ?P [] ?st0 = Inl (SPV_ERROR_INVALID_BINARY, [small_instruction])"
    using st error
    by (subst parse_instructions_loop.simps, simp add: parseInstruction_def module_start_fields recorder_def small_module_def)
      (subst parse_instructions_loop.simps, simp add: parseInstruction_def)
  then show ?thesis
    using version_1_0
    by (subst recorder_outcome [OF _ truncated_header])
      (simp_all add: small_module_def loop_outcome_def del: image_insert)
qed

section \<open>Properties\<close>

text \<open>C1: when \<open>spvBinaryParse\<close> succeeds, the instructions it reported are, one after the other, the
  words of the module behind the five header words in the byte order of the host, whatever the
  byte order of the module; each has its own word count and opcode in its first word, as many words
  as it says, and operands that lie one behind the other from its second word to its last; and no
  two report the same result id.\<close>

theorem parse_reports_module:
  assumes "host \<in> {I32_ENDIAN_LITTLE, I32_ENDIAN_BIG}"
    and "spvBinaryParse G host [] (Some ws) None (Some (\<lambda>us inst. (us @ [inst], SPV_SUCCESS))) =
      (insts, SPV_SUCCESS)"
  shows "\<exists>e. spvBinaryEndianness host (Some ws) False = Inr e \<and>
    concat (map pi_words insts) = drop 5 (map (\<lambda>w. spvFixWord host w e) ws) \<and>
    (\<forall>inst \<in> set insts. well_formed_instruction inst) \<and>
    distinct (filter (\<lambda>id. id \<noteq> 0) (map pi_result_id insts))"
proof -
  have "parseModule (recorder G host) [] (Some ws) = (insts, SPV_SUCCESS)"
    using assms(2) by (simp add: spvBinaryParse_def recorder_def)
  then obtain e h st where e: "5 \<le> length ws" "spvBinaryEndianness host (Some ws) False = Inr e"
    and loop: "parse_instructions_loop (recorder G host) [] (module_start host e ws) = Inr (insts, st)"
    by (rule parseModule_success) (simp_all add: recorder_def)
  have "recorded host e ws insts st \<and> length (st_words st) \<le> st_word_index st"
    using recording.module [OF recorded_start [OF assms(1) e(1)] loop] .
  then show ?thesis using e(2) by (auto simp: recorded_def result_ids_def)
qed

theorem parse_reports_module_witness:
  "concat (map pi_words [small_instruction]) = [0x00040015, 1, 32, 0] \<and>
   well_formed_instruction small_instruction"
  using parse_reports_module [OF _ small_parse] small_header by (auto simp: small_module_def)

text \<open>C2: the outcome of a parse for any client, with or without a callback for the header and one for the
  instructions, is determined by what is reported to a client that only records the header and the
  instructions: the client's header callback runs on that header if one was reached, its instruction
  callback on exactly these instructions in order, the first error of a callback ends the parse with
  that error and no further call, and otherwise the parse ends as it did for the recording client.\<close>

theorem parse_callbacks:
  "spvBinaryParse G host u code header_fn instruction_fn =
    (let ((header, insts), result) = spvBinaryParse G host (None, []) code
           (Some (\<lambda>(h, us) endian magic version generator id_bound schema.
             ((Some (endian, magic, version, generator, id_bound, schema), us), SPV_SUCCESS)))
           (Some (\<lambda>(h, us) inst. ((h, us @ [inst]), SPV_SUCCESS)));
         (u', error) = header_client header_fn u header
     in if error \<noteq> SPV_SUCCESS then (u', error)
        else let (u'', error') = run_callbacks (instruction_client instruction_fn) u' insts
             in (u'', if error' \<noteq> SPV_SUCCESS then error' else result))"
proof -
  define P where "P = \<lparr>p_grammar = G, p_host_order = host, p_parsed_header_fn = header_fn,
    p_parsed_instruction_fn = instruction_fn\<rparr>"
  have P: "p_grammar P = G" "p_host_order P = host" by (simp_all add: P_def)
  have "spvBinaryParse G host u code header_fn instruction_fn =
      replay_observed P u (parseModule (observer G host) (None, []) code)"
    unfolding parseModule_observed [OF P, symmetric] by (simp add: spvBinaryParse_def P_def)
  then show ?thesis
    by (simp add: spvBinaryParse_def observer_def replay_observed_def replay_def P_def split_beta Let_def)
qed

text \<open>C3: with enough words and a recognised magic number, the parse reaches the header callback, with
  the five header words in native order, exactly for the seven version words 1.0 to 1.6, and a
  callback that refuses ends the parse; for any other version word the parse ends with an internal
  error before any callback, although the comment in the code says that this cannot be triggered.\<close>

theorem parse_header:
  assumes "5 \<le> length ws" "spvBinaryEndianness host (Some ws) False = Inr e"
    and "snd (header_fn u e (spvFixWord host (ws ! 0) e) (spvFixWord host (ws ! 1) e)
      (spvFixWord host (ws ! 2) e) (spvFixWord host (ws ! 3) e) (spvFixWord host (ws ! 4) e)) \<noteq> SPV_SUCCESS"
  shows "spvBinaryParse G host u (Some ws) (Some header_fn) instruction_fn =
    (if spvFixWord host (ws ! 1) e \<in> SPV_SPIRV_VERSION_WORD 1 ` {0, 1, 2, 3, 4, 5, 6}
     then header_fn u e (spvFixWord host (ws ! 0) e) (spvFixWord host (ws ! 1) e)
       (spvFixWord host (ws ! 2) e) (spvFixWord host (ws ! 3) e) (spvFixWord host (ws ! 4) e)
     else (u, SPV_ERROR_INTERNAL))"
  using assms
  by (simp add: spvBinaryParse_def parseModule_def SPV_INDEX_INSTRUCTION_def header_accepted split_beta Let_def
      del: image_insert)

theorem parse_header_witness:
  "spvBinaryParse small_grammar I32_ENDIAN_LITTLE (0 :: uint32_t) (Some small_module)
     (Some (\<lambda>u e m v g b s. (b, SPV_REQUESTED_TERMINATION))) None = (2, SPV_REQUESTED_TERMINATION)"
  using parse_header [OF _ small_header, where u = "0 :: uint32_t" and G = small_grammar and
      instruction_fn = None and header_fn = "\<lambda>u e m v g b s. (b, SPV_REQUESTED_TERMINATION)"]
  unfolding version_words by (simp add: small_module_def)

text \<open>C28: also when a parse fails behind the header, the instructions reported before are the first ones
  of the module, well formed and with distinct result ids; a parse that has reported all words of the
  module succeeds and every other one ends with an invalid binary, an invalid id or an internal error,
  namely an invalid binary where the next word has no length or no opcode of the grammar.\<close>

theorem parse_stops:
  assumes "host \<in> {I32_ENDIAN_LITTLE, I32_ENDIAN_BIG}"
    and "5 \<le> length ws" "spvBinaryEndianness host (Some ws) False = Inr e"
      "spvFixWord host (ws ! 1) e \<in> SPV_SPIRV_VERSION_WORD 1 ` {0, 1, 2, 3, 4, 5, 6}"
    and "spvBinaryParse G host [] (Some ws) None (Some (\<lambda>us inst. (us @ [inst], SPV_SUCCESS))) =
      (insts, result)"
  shows "\<exists>rest. concat (map pi_words insts) @ rest = drop 5 (map (\<lambda>w. spvFixWord host w e) ws) \<and>
    (\<forall>inst \<in> set insts. well_formed_instruction inst) \<and>
    distinct (filter (\<lambda>id. id \<noteq> 0) (map pi_result_id insts)) \<and>
    (case rest of
       [] \<Rightarrow> result = SPV_SUCCESS
     | word # _ \<Rightarrow>
         let (count, opcode) = spvOpcodeSplit word
         in if count = 0 \<or> (\<forall>d. LookupOpcode G (ucast opcode) \<noteq> Inr d) then result = SPV_ERROR_INVALID_BINARY
            else result \<in> {SPV_ERROR_INVALID_BINARY, SPV_ERROR_INVALID_ID, SPV_ERROR_INTERNAL})"
proof -
  let ?ws = "map (\<lambda>w. spvFixWord host w e) ws" and ?P = "recorder G host"
  obtain st where rec: "recorded host e ws insts st" and ended: "parse_ended G host ws result st"
    using recorder_ended [OF _ recorded_start] recorder_outcome [OF assms(2-4)] assms(1,2,5) by metis
  have "case drop (st_word_index st) ?ws of
      [] \<Rightarrow> result = SPV_SUCCESS
    | word # _ \<Rightarrow>
        let (count, opcode) = spvOpcodeSplit word
        in if count = 0 \<or> (\<forall>d. LookupOpcode G (ucast opcode) \<noteq> Inr d) then result = SPV_ERROR_INVALID_BINARY
           else result \<in> {SPV_ERROR_INVALID_BINARY, SPV_ERROR_INVALID_ID, SPV_ERROR_INTERNAL}"
  proof (cases "st_word_index st < length ws")
    case False
    with ended show ?thesis by (simp add: parse_ended_def split: if_splits)
  next
    case True
    with ended have error: "decode_instruction ?P st = Inl result"
      by (simp add: parse_ended_def split: if_splits)
    have "peek ?P st = ?ws ! st_word_index st"
      using rec True by (simp add: peek_def peekAt_def recorded_def recorder_def)
    moreover have "drop (st_word_index st) ?ws = ?ws ! st_word_index st # drop (Suc (st_word_index st)) ?ws"
      by (rule Cons_nth_drop_Suc [symmetric]) (simp add: True)
    ultimately show ?thesis
      using error decode_instruction_error [OF error] decode_no_instruction [of ?P st]
      by (auto simp: Let_def parse_errors_def recorder_def split: prod.splits)
  qed
  moreover have "(\<forall>inst \<in> set insts. well_formed_instruction inst) \<and>
      distinct (filter (\<lambda>id. id \<noteq> 0) (map pi_result_id insts))"
    using rec by (simp add: recorded_def result_ids_def)
  ultimately show ?thesis using recorded_rest [OF rec] by blast
qed

text \<open>Behind the first instruction a word that is not one.\<close>

theorem parse_stops_witness:
  "\<exists>rest. [0x00040015, 1, 32, 0] @ rest = drop 5 (small_module @ [0]) \<and> rest = [0] \<and>
    spvBinaryParse small_grammar I32_ENDIAN_LITTLE [] (Some (small_module @ [0])) None
      (Some (\<lambda>us inst. (us @ [inst], SPV_SUCCESS))) = ([small_instruction], SPV_ERROR_INVALID_BINARY)"
proof -
  obtain rest where "concat (map pi_words [small_instruction]) @ rest =
      drop 5 (map (\<lambda>w. spvFixWord I32_ENDIAN_LITTLE w SPV_ENDIANNESS_LITTLE) (small_module @ [0]))"
    using parse_stops [OF _ _ truncated_header _ truncated_parse] version_1_0
    by (auto simp: small_module_def simp del: image_insert)
  then show ?thesis using truncated_parse by (simp add: small_module_def small_instruction_def)
qed

text \<open>C18: once an instruction that declares an integer type has been recorded, a literal of that type
  gets its width and signedness and takes the width in words, rounded up, for every width of at
  least one bit that a 16-bit word count can express.\<close>

theorem integer_literal_words:
  assumes "pi_opcode inst = 21" "0 < unat (peekAt P st (off + 2))" "unat (peekAt P st (off + 2)) \<le> 65535 * 32"
  shows "\<exists>po'. setNumericTypeInfoForType (recordNumberType P off inst st) po (pi_result_id inst) = Inr po' \<and>
    po_number_kind po' = (if peekAt P st (off + 3) = 0 then SPV_NUMBER_UNSIGNED_INT else SPV_NUMBER_SIGNED_INT) \<and>
    po_number_bit_width po' = peekAt P st (off + 2) \<and>
    unat (po_num_words po') = (unat (peekAt P st (off + 2)) + 31) div 32 \<and> 0 < unat (po_num_words po')"
proof -
  let ?w = "peekAt P st (off + 2)"
  have "unat (?w + 31) = unat ?w + 31"
    using assms(3) by (subst unat_add_lem [THEN iffD1]) simp_all
  then have "unat (ucast ((?w + 31) div 32) :: uint16_t) = (unat ?w + 31) div 32 mod 65536"
    by (simp add: unsigned_ucast_eq take_bit_eq_mod unat_div)
  moreover have "(unat ?w + 31) div 32 < 65536" "0 < (unat ?w + 31) div 32"
    using assms(2,3) by linarith+
  ultimately show ?thesis
    using assms(1)
    by (auto simp: setNumericTypeInfoForType_def recordNumberType_def spvOpcodeGeneratesType_def Let_def)
qed

theorem integer_literal_words_witness:
  "\<exists>po'. setNumericTypeInfoForType
     (recordNumberType (recorder small_grammar I32_ENDIAN_LITTLE) 5 small_instruction
       (module_start I32_ENDIAN_LITTLE SPV_ENDIANNESS_LITTLE small_module))
     (small_operand 3 SPV_OPERAND_TYPE_TYPED_LITERAL_NUMBER SPV_NUMBER_NONE 0) 1 = Inr po' \<and>
     unat (po_num_words po') = 1"
  using integer_literal_words [of small_instruction "recorder small_grammar I32_ENDIAN_LITTLE"
      "module_start I32_ENDIAN_LITTLE SPV_ENDIANNESS_LITTLE small_module" 5
      "small_operand 3 SPV_OPERAND_TYPE_TYPED_LITERAL_NUMBER SPV_NUMBER_NONE 0"]
  by (auto simp: small_instruction_def peekAt_def module_start_def initial_State_def recorder_def small_module_def)

end
