(* ===== verification/Core_Tables.thy ===== *)
theory Core_Tables
  imports Grammar
begin

text \<open>
  The tables of \<open>src/ShaderCompiler/include/core_tables_body.inc\<close> that the lookups by number read:
  the descriptions of operands, instructions and extended instructions, the ranges of each kind,
  and the spans of operand types. They are written as the file has them, in pieces; \<open>OpD\<close>, \<open>InD\<close>
  and \<open>ExD\<close> are the constructors of \<open>table2.h\<close> (the printing class of an instruction, which only
  the disassembler reads, is left out).
\<close>

definition IR :: "nat \<Rightarrow> nat \<Rightarrow> IndexRange" where
  "IR first count = \<lparr>ir_first = first, ir_count = count\<rparr>"

definition OpD :: "uint32_t \<Rightarrow> IndexRange \<Rightarrow> IndexRange \<Rightarrow> IndexRange \<Rightarrow> IndexRange \<Rightarrow> IndexRange \<Rightarrow>
    uint32_t \<Rightarrow> uint32_t \<Rightarrow> OperandDesc" where
  "OpD v op n a c e mv lv =
     \<lparr>od_value = v, od_operands_range = op, od_name_range = n, od_aliases_range = a,
      od_capabilities_range = c, od_extensions_range = e, od_minVersion = mv, od_lastVersion = lv\<rparr>"

definition InD :: "Op \<Rightarrow> bool \<Rightarrow> bool \<Rightarrow> IndexRange \<Rightarrow> IndexRange \<Rightarrow> IndexRange \<Rightarrow> IndexRange \<Rightarrow> IndexRange \<Rightarrow>
    uint32_t \<Rightarrow> uint32_t \<Rightarrow> InstructionDesc" where
  "InD oc hr ht op n a c e mv lv =
     \<lparr>id_opcode = oc, id_hasResult = hr, id_hasType = ht, id_operands_range = op, id_name_range = n,
      id_aliases_range = a, id_capabilities_range = c, id_extensions_range = e, id_minVersion = mv,
      id_lastVersion = lv\<rparr>"

definition ExD :: "uint32_t \<Rightarrow> IndexRange \<Rightarrow> IndexRange \<Rightarrow> IndexRange \<Rightarrow> ExtInstDesc" where
  "ExD v op n c = \<lparr>ed_value = v, ed_operands_range = op, ed_name_range = n, ed_capabilities_range = c\<rparr>"

section \<open>Operands\<close>

definition core_OperandsByValue_0 :: "OperandDesc list" where
  "core_OperandsByValue_0 = [
    OpD 0 (IR 0 0) (IR 4554 9) (IR 0 0) (IR 0 1) (IR 0 0) (SPV_SPIRV_VERSION_WORD 1 0) 0xffffffff,
    OpD 1 (IR 0 0) (IR 4570 10) (IR 0 0) (IR 0 1) (IR 0 0) (SPV_SPIRV_VERSION_WORD 1 0) 0xffffffff,
    OpD 2 (IR 0 0) (IR 4580 10) (IR 0 0) (IR 0 1) (IR 0 0) (SPV_SPIRV_VERSION_WORD 1 0) 0xffffffff,
    OpD 0 (IR 0 0) (IR 4590 8) (IR 0 0) (IR 1 0) (IR 0 0) (SPV_SPIRV_VERSION_WORD 1 0) 0xffffffff,
    OpD 1 (IR 0 0) (IR 4598 11) (IR 0 0) (IR 1 1) (IR 0 0) (SPV_SPIRV_VERSION_WORD 1 0) 0xffffffff,
    OpD 2 (IR 0 0) (IR 4619 11) (IR 0 0) (IR 1 1) (IR 0 0) (SPV_SPIRV_VERSION_WORD 1 0) 0xffffffff,
    OpD 5348 (IR 0 0) (IR 4630 24) (IR 0 1) (IR 2 1) (IR 0 2) (SPV_SPIRV_VERSION_WORD 1 5) 0xffffffff,
    OpD 0 (IR 0 0) (IR 4712 9) (IR 0 0) (IR 3 1) (IR 0 0) (SPV_SPIRV_VERSION_WORD 1 0) 0xffffffff,
    OpD 1 (IR 0 0) (IR 4728 10) (IR 0 0) (IR 3 1) (IR 0 0) (SPV_SPIRV_VERSION_WORD 1 0) 0xffffffff,
    OpD 3 (IR 0 0) (IR 4738 13) (IR 0 0) (IR 4 1) (IR 0 0) (SPV_SPIRV_VERSION_WORD 1 0) 0xffffffff,
    OpD 4 (IR 0 0) (IR 4751 13) (IR 0 0) (IR 5 1) (IR 0 0) (SPV_SPIRV_VERSION_WORD 1 0) 0xffffffff,
    OpD 5 (IR 0 0) (IR 4764 9) (IR 0 0) (IR 3 1) (IR 0 0) (SPV_SPIRV_VERSION_WORD 1 0) 0xffffffff,
    OpD 6 (IR 0 0) (IR 4773 11) (IR 0 0) (IR 3 1) (IR 0 0) (SPV_SPIRV_VERSION_WORD 1 0) 0xffffffff,
    OpD 7 (IR 0 0) (IR 4784 12) (IR 0 0) (IR 6 6) (IR 0 0) (SPV_SPIRV_VERSION_WORD 1 0) 0xffffffff,
    OpD 8 (IR 0 0) (IR 4874 13) (IR 0 0) (IR 12 2) (IR 0 0) (SPV_SPIRV_VERSION_WORD 1 0) 0xffffffff,
    OpD 9 (IR 0 0) (IR 4887 6) (IR 0 0) (IR 14 5) (IR 0 0) (SPV_SPIRV_VERSION_WORD 1 0) 0xffffffff,
    OpD 10 (IR 0 0) (IR 4933 14) (IR 0 0) (IR 19 5) (IR 0 0) (SPV_SPIRV_VERSION_WORD 1 0) 0xffffffff,
    OpD 11 (IR 0 0) (IR 4981 15) (IR 0 0) (IR 24 1) (IR 0 0) (SPV_SPIRV_VERSION_WORD 1 0) 0xffffffff,
    OpD 12 (IR 0 0) (IR 4996 15) (IR 0 0) (IR 24 1) (IR 0 0) (SPV_SPIRV_VERSION_WORD 1 0) 0xffffffff,
    OpD 13 (IR 0 0) (IR 5011 10) (IR 0 0) (IR 24 1) (IR 0 0) (SPV_SPIRV_VERSION_WORD 1 0) 0xffffffff,
    OpD 14 (IR 0 0) (IR 5021 14) (IR 0 0) (IR 24 1) (IR 0 0) (SPV_SPIRV_VERSION_WORD 1 0) 0xffffffff,
    OpD 15 (IR 0 0) (IR 5035 10) (IR 0 0) (IR 3 1) (IR 0 0) (SPV_SPIRV_VERSION_WORD 1 0) 0xffffffff,
    OpD 16 (IR 0 0) (IR 5045 11) (IR 0 0) (IR 3 1) (IR 0 0) (SPV_SPIRV_VERSION_WORD 1 0) 0xffffffff,
    OpD 17 (IR 0 0) (IR 5056 12) (IR 0 0) (IR 3 1) (IR 0 0) (SPV_SPIRV_VERSION_WORD 1 0) 0xffffffff,
    OpD 18 (IR 0 0) (IR 5068 9) (IR 0 0) (IR 25 1) (IR 0 0) (SPV_SPIRV_VERSION_WORD 1 0) 0xffffffff,
    OpD 19 (IR 0 0) (IR 5095 15) (IR 0 0) (IR 25 1) (IR 0 0) (SPV_SPIRV_VERSION_WORD 1 0) 0xffffffff,
    OpD 20 (IR 0 0) (IR 5110 11) (IR 0 0) (IR 3 1) (IR 0 0) (SPV_SPIRV_VERSION_WORD 1 0) 0xffffffff,
    OpD 22 (IR 0 0) (IR 5121 10) (IR 0 0) (IR 3 1) (IR 0 0) (SPV_SPIRV_VERSION_WORD 1 0) 0xffffffff,
    OpD 23 (IR 0 0) (IR 5131 17) (IR 0 0) (IR 3 1) (IR 0 0) (SPV_SPIRV_VERSION_WORD 1 0) 0xffffffff,
    OpD 24 (IR 0 0) (IR 5148 14) (IR 0 0) (IR 1 0) (IR 0 0) (SPV_SPIRV_VERSION_WORD 1 0) 0xffffffff,
    OpD 25 (IR 0 0) (IR 5162 14) (IR 0 0) (IR 1 0) (IR 0 0) (SPV_SPIRV_VERSION_WORD 1 0) 0xffffffff,
    OpD 26 (IR 0 0) (IR 5176 12) (IR 0 0) (IR 1 0) (IR 0 0) (SPV_SPIRV_VERSION_WORD 1 0) 0xffffffff,
    OpD 27 (IR 0 0) (IR 5188 18) (IR 0 0) (IR 1 0) (IR 0 0) (SPV_SPIRV_VERSION_WORD 1 0) 0xffffffff,
    OpD 28 (IR 0 0) (IR 5206 19) (IR 0 0) (IR 1 0) (IR 0 0) (SPV_SPIRV_VERSION_WORD 1 0) 0xffffffff,
    OpD 29 (IR 0 0) (IR 5225 21) (IR 0 0) (IR 1 0) (IR 0 0) (SPV_SPIRV_VERSION_WORD 1 0) 0xffffffff,
    OpD 30 (IR 0 0) (IR 5246 8) (IR 0 0) (IR 0 1) (IR 0 0) (SPV_SPIRV_VERSION_WORD 1 0) 0xffffffff,
    OpD 31 (IR 0 0) (IR 5254 11) (IR 0 0) (IR 0 1) (IR 0 0) (SPV_SPIRV_VERSION_WORD 1 0) 0xffffffff,
    OpD 32 (IR 0 0) (IR 5265 22) (IR 0 0) (IR 0 1) (IR 0 0) (SPV_SPIRV_VERSION_WORD 1 0) 0xffffffff,
    OpD 33 (IR 0 0) (IR 5287 13) (IR 0 0) (IR 0 1) (IR 0 0) (SPV_SPIRV_VERSION_WORD 1 0) 0xffffffff,
    OpD 34 (IR 0 0) (IR 5300 15) (IR 0 0) (IR 0 1) (IR 0 0) (SPV_SPIRV_VERSION_WORD 1 0) 0xffffffff,
    OpD 36 (IR 0 0) (IR 5315 13) (IR 0 0) (IR 26 3) (IR 0 0) (SPV_SPIRV_VERSION_WORD 1 0) 0xffffffff,
    OpD 37 (IR 0 0) (IR 5362 16) (IR 0 0) (IR 0 1) (IR 0 0) (SPV_SPIRV_VERSION_WORD 1 0) 0xffffffff,
    OpD 38 (IR 0 0) (IR 5378 13) (IR 0 0) (IR 29 2) (IR 0 0) (SPV_SPIRV_VERSION_WORD 1 0) 0xffffffff,
    OpD 39 (IR 0 0) (IR 5391 21) (IR 0 0) (IR 0 1) (IR 0 0) (SPV_SPIRV_VERSION_WORD 1 0) 0xffffffff,
    OpD 40 (IR 0 0) (IR 5412 11) (IR 0 0) (IR 29 2) (IR 0 0) (SPV_SPIRV_VERSION_WORD 1 0) 0xffffffff,
    OpD 41 (IR 0 0) (IR 5423 26) (IR 0 0) (IR 26 3) (IR 0 0) (SPV_SPIRV_VERSION_WORD 1 0) 0xffffffff,
    OpD 42 (IR 0 0) (IR 5449 12) (IR 0 0) (IR 3 1) (IR 0 0) (SPV_SPIRV_VERSION_WORD 1 0) 0xffffffff,
    OpD 43 (IR 0 0) (IR 5461 14) (IR 0 0) (IR 3 1) (IR 0 0) (SPV_SPIRV_VERSION_WORD 1 0) 0xffffffff,
    OpD 4160 (IR 0 0) (IR 5475 10) (IR 0 0) (IR 31 1) (IR 0 0) (SPV_SPIRV_VERSION_WORD 1 0) 0xffffffff,
    OpD 4161 (IR 0 0) (IR 5501 13) (IR 0 0) (IR 31 1) (IR 0 0) (SPV_SPIRV_VERSION_WORD 1 0) 0xffffffff,
    OpD 4162 (IR 0 0) (IR 5514 13) (IR 0 0) (IR 31 1) (IR 0 0) (SPV_SPIRV_VERSION_WORD 1 0) 0xffffffff,
    OpD 4163 (IR 0 0) (IR 5527 10) (IR 0 0) (IR 31 1) (IR 0 0) (SPV_SPIRV_VERSION_WORD 1 0) 0xffffffff,
    OpD 4164 (IR 0 0) (IR 5537 13) (IR 0 0) (IR 31 1) (IR 0 0) (SPV_SPIRV_VERSION_WORD 1 0) 0xffffffff,
    OpD 4416 (IR 0 0) (IR 5550 15) (IR 1 1) (IR 32 2) (IR 2 1) (SPV_SPIRV_VERSION_WORD 1 3) 0xffffffff,
    OpD 4417 (IR 0 0) (IR 5605 15) (IR 2 1) (IR 32 2) (IR 2 1) (SPV_SPIRV_VERSION_WORD 1 3) 0xffffffff,
    OpD 4418 (IR 0 0) (IR 5638 15) (IR 3 1) (IR 32 2) (IR 2 1) (SPV_SPIRV_VERSION_WORD 1 3) 0xffffffff,
    OpD 4419 (IR 0 0) (IR 5671 15) (IR 4 1) (IR 32 2) (IR 2 1) (SPV_SPIRV_VERSION_WORD 1 3) 0xffffffff,
    OpD 4420 (IR 0 0) (IR 5704 15) (IR 5 1) (IR 32 2) (IR 2 1) (SPV_SPIRV_VERSION_WORD 1 3) 0xffffffff,
    OpD 4424 (IR 0 0) (IR 5737 11) (IR 0 0) (IR 34 1) (IR 3 1) (SPV_SPIRV_VERSION_WORD 1 3) 0xffffffff,
    OpD 4425 (IR 0 0) (IR 5763 13) (IR 0 0) (IR 34 1) (IR 3 1) (SPV_SPIRV_VERSION_WORD 1 3) 0xffffffff,
    OpD 4426 (IR 0 0) (IR 5776 10) (IR 0 0) (IR 35 3) (IR 4 3) (SPV_SPIRV_VERSION_WORD 1 3) 0xffffffff,
    OpD 4432 (IR 0 0) (IR 5786 24) (IR 0 0) (IR 38 1) (IR 7 1) 0xffffffff 0xffffffff,
    OpD 4438 (IR 0 0) (IR 5833 12) (IR 0 0) (IR 39 1) (IR 8 1) (SPV_SPIRV_VERSION_WORD 1 3) 0xffffffff,
    OpD 4440 (IR 0 0) (IR 5857 10) (IR 0 0) (IR 40 1) (IR 9 1) (SPV_SPIRV_VERSION_WORD 1 3) 0xffffffff,
    OpD 4444 (IR 0 0) (IR 5877 15) (IR 0 0) (IR 38 1) (IR 7 1) 0xffffffff 0xffffffff,
    OpD 4492 (IR 0 0) (IR 5892 15) (IR 0 0) (IR 41 1) (IR 0 0) 0xffffffff 0xffffffff,
    OpD 4493 (IR 0 0) (IR 5923 18) (IR 0 0) (IR 41 1) (IR 0 0) 0xffffffff 0xffffffff,
    OpD 4494 (IR 0 0) (IR 5941 18) (IR 0 0) (IR 41 1) (IR 0 0) 0xffffffff 0xffffffff,
    OpD 4992 (IR 0 0) (IR 5959 20) (IR 0 0) (IR 1 0) (IR 10 1) 0xffffffff 0xffffffff,
    OpD 4993 (IR 0 0) (IR 5979 28) (IR 0 0) (IR 1 0) (IR 10 1) 0xffffffff 0xffffffff,
    OpD 4994 (IR 0 0) (IR 6007 26) (IR 0 0) (IR 1 0) (IR 10 1) 0xffffffff 0xffffffff,
    OpD 4995 (IR 0 0) (IR 6033 19) (IR 0 0) (IR 1 0) (IR 10 1) 0xffffffff 0xffffffff,
    OpD 4996 (IR 0 0) (IR 6052 27) (IR 0 0) (IR 1 0) (IR 10 1) 0xffffffff 0xffffffff,
    OpD 4997 (IR 0 0) (IR 6079 25) (IR 0 0) (IR 1 0) (IR 10 1) 0xffffffff 0xffffffff,
    OpD 4998 (IR 0 0) (IR 6104 22) (IR 0 0) (IR 1 0) (IR 10 1) 0xffffffff 0xffffffff,
    OpD 5014 (IR 0 0) (IR 6126 18) (IR 0 0) (IR 42 1) (IR 11 1) 0xffffffff 0xffffffff,
    OpD 5021 (IR 0 0) (IR 6161 29) (IR 0 0) (IR 43 1) (IR 0 0) 0xffffffff 0xffffffff,
    OpD 5073 (IR 0 0) (IR 6208 16) (IR 0 0) (IR 43 1) (IR 0 0) 0xffffffff 0xffffffff,
    OpD 5253 (IR 0 0) (IR 6224 15) (IR 0 0) (IR 44 2) (IR 12 2) 0xffffffff 0xffffffff,
    OpD 5257 (IR 0 0) (IR 6260 20) (IR 0 0) (IR 46 1) (IR 14 1) 0xffffffff 0xffffffff,
    OpD 5258 (IR 0 0) (IR 6299 24) (IR 0 0) (IR 46 1) (IR 14 1) 0xffffffff 0xffffffff,
    OpD 5261 (IR 0 0) (IR 6323 18) (IR 0 0) (IR 47 2) (IR 15 2) 0xffffffff 0xffffffff,
    OpD 5262 (IR 0 0) (IR 6361 22) (IR 0 0) (IR 47 2) (IR 15 2) 0xffffffff 0xffffffff,
    OpD 5264 (IR 0 0) (IR 6383 16) (IR 0 0) (IR 49 1) (IR 17 1) 0xffffffff 0xffffffff,
    OpD 5274 (IR 0 0) (IR 6423 12) (IR 0 0) (IR 50 1) (IR 18 1) 0xffffffff 0xffffffff,
    OpD 5275 (IR 0 0) (IR 6435 17) (IR 0 0) (IR 50 1) (IR 18 1) 0xffffffff 0xffffffff,
    OpD 5276 (IR 0 0) (IR 6452 19) (IR 0 0) (IR 50 1) (IR 18 1) 0xffffffff 0xffffffff,
    OpD 5277 (IR 0 0) (IR 6471 22) (IR 0 0) (IR 50 1) (IR 18 1) 0xffffffff 0xffffffff,
    OpD 5278 (IR 0 0) (IR 6493 22) (IR 0 0) (IR 50 1) (IR 18 1) 0xffffffff 0xffffffff,
    OpD 5279 (IR 0 0) (IR 6515 15) (IR 0 0) (IR 50 1) (IR 18 1) 0xffffffff 0xffffffff,
    OpD 5280 (IR 0 0) (IR 6530 16) (IR 0 0) (IR 50 1) (IR 18 1) 0xffffffff 0xffffffff,
    OpD 5281 (IR 0 0) (IR 6546 18) (IR 0 0) (IR 50 1) (IR 18 1) 0xffffffff 0xffffffff,
    OpD 5286 (IR 0 0) (IR 6564 13) (IR 6 1) (IR 51 1) (IR 19 2) 0xffffffff 0xffffffff,
    OpD 5287 (IR 0 0) (IR 6612 20) (IR 7 1) (IR 51 1) (IR 19 2) 0xffffffff 0xffffffff,
    OpD 5292 (IR 0 0) (IR 6651 12) (IR 8 1) (IR 52 1) (IR 21 2) 0xffffffff 0xffffffff,
    OpD 5293 (IR 0 0) (IR 6697 23) (IR 9 1) (IR 52 1) (IR 21 2) 0xffffffff 0xffffffff,
    OpD 5294 (IR 0 0) (IR 6742 25) (IR 0 0) (IR 53 1) (IR 23 1) 0xffffffff 0xffffffff,
    OpD 5295 (IR 0 0) (IR 6767 24) (IR 0 0) (IR 53 1) (IR 23 1) 0xffffffff 0xffffffff,
    OpD 5296 (IR 0 0) (IR 6791 28) (IR 0 0) (IR 53 1) (IR 23 1) 0xffffffff 0xffffffff,
    OpD 5299 (IR 0 0) (IR 6819 17) (IR 0 0) (IR 53 1) (IR 23 1) 0xffffffff 0xffffffff]"

definition core_OperandsByValue_1 :: "OperandDesc list" where
  "core_OperandsByValue_1 = [
    OpD 5319 (IR 0 0) (IR 6836 12) (IR 10 1) (IR 54 2) (IR 24 2) 0xffffffff 0xffffffff,
    OpD 5320 (IR 0 0) (IR 6859 14) (IR 11 1) (IR 54 2) (IR 24 2) 0xffffffff 0xffffffff,
    OpD 5321 (IR 0 0) (IR 6886 18) (IR 12 1) (IR 54 2) (IR 24 2) 0xffffffff 0xffffffff,
    OpD 5322 (IR 0 0) (IR 6921 21) (IR 13 1) (IR 54 2) (IR 24 2) 0xffffffff 0xffffffff,
    OpD 5323 (IR 0 0) (IR 6962 19) (IR 14 1) (IR 54 2) (IR 24 2) 0xffffffff 0xffffffff,
    OpD 5324 (IR 0 0) (IR 6999 22) (IR 15 1) (IR 54 2) (IR 24 2) 0xffffffff 0xffffffff,
    OpD 5325 (IR 0 0) (IR 7042 11) (IR 16 1) (IR 54 2) (IR 24 2) 0xffffffff 0xffffffff,
    OpD 5326 (IR 0 0) (IR 7063 11) (IR 17 1) (IR 54 2) (IR 24 2) 0xffffffff 0xffffffff,
    OpD 5327 (IR 0 0) (IR 7084 23) (IR 18 1) (IR 54 2) (IR 24 2) 0xffffffff 0xffffffff,
    OpD 5330 (IR 0 0) (IR 7129 17) (IR 19 1) (IR 54 2) (IR 24 2) 0xffffffff 0xffffffff,
    OpD 5331 (IR 0 0) (IR 7162 17) (IR 20 1) (IR 54 2) (IR 24 2) 0xffffffff 0xffffffff,
    OpD 5332 (IR 0 0) (IR 7195 7) (IR 0 0) (IR 56 1) (IR 26 1) 0xffffffff 0xffffffff,
    OpD 5333 (IR 0 0) (IR 7202 11) (IR 21 1) (IR 54 2) (IR 24 2) 0xffffffff 0xffffffff,
    OpD 5334 (IR 0 0) (IR 7223 17) (IR 0 0) (IR 57 1) (IR 27 1) 0xffffffff 0xffffffff,
    OpD 5335 (IR 0 0) (IR 7263 30) (IR 0 0) (IR 58 1) (IR 0 0) 0xffffffff 0xffffffff,
    OpD 5337 (IR 0 0) (IR 7320 34) (IR 0 0) (IR 59 1) (IR 0 0) 0xffffffff 0xffffffff,
    OpD 5344 (IR 0 0) (IR 7387 37) (IR 0 0) (IR 59 1) (IR 0 0) 0xffffffff 0xffffffff,
    OpD 5351 (IR 0 0) (IR 7424 20) (IR 22 1) (IR 54 2) (IR 24 2) 0xffffffff 0xffffffff,
    OpD 5352 (IR 0 0) (IR 7463 20) (IR 0 0) (IR 60 1) (IR 28 1) 0xffffffff 0xffffffff,
    OpD 5359 (IR 0 0) (IR 7483 14) (IR 0 0) (IR 61 1) (IR 29 1) 0xffffffff 0xffffffff,
    OpD 5360 (IR 0 0) (IR 7525 11) (IR 0 0) (IR 62 1) (IR 29 1) 0xffffffff 0xffffffff,
    OpD 5361 (IR 0 0) (IR 7575 20) (IR 0 0) (IR 61 1) (IR 29 1) 0xffffffff 0xffffffff,
    OpD 5374 (IR 0 0) (IR 7595 13) (IR 0 0) (IR 63 1) (IR 30 1) 0xffffffff 0xffffffff,
    OpD 5375 (IR 0 0) (IR 7627 10) (IR 0 0) (IR 63 1) (IR 30 1) 0xffffffff 0xffffffff,
    OpD 5376 (IR 0 0) (IR 7637 9) (IR 0 0) (IR 63 1) (IR 30 1) 0xffffffff 0xffffffff,
    OpD 5377 (IR 0 0) (IR 7646 7) (IR 0 0) (IR 63 1) (IR 30 1) 0xffffffff 0xffffffff,
    OpD 5396 (IR 0 0) (IR 7653 18) (IR 0 0) (IR 62 1) (IR 29 1) 0xffffffff 0xffffffff,
    OpD 5405 (IR 0 0) (IR 7671 34) (IR 0 0) (IR 59 1) (IR 0 0) 0xffffffff 0xffffffff,
    OpD 5406 (IR 0 0) (IR 7705 33) (IR 0 0) (IR 59 1) (IR 0 0) 0xffffffff 0xffffffff,
    OpD 5420 (IR 0 0) (IR 7738 18) (IR 0 0) (IR 61 1) (IR 29 1) 0xffffffff 0xffffffff,
    OpD 5421 (IR 0 0) (IR 7756 14) (IR 0 0) (IR 62 1) (IR 29 1) 0xffffffff 0xffffffff,
    OpD 5436 (IR 0 0) (IR 7770 12) (IR 0 0) (IR 64 1) (IR 31 1) 0xffffffff 0xffffffff,
    OpD 6021 (IR 0 0) (IR 7823 12) (IR 0 0) (IR 65 1) (IR 32 1) 0xffffffff 0xffffffff,
    OpD 0 (IR 0 0) (IR 7850 7) (IR 0 0) (IR 1 0) (IR 0 0) (SPV_SPIRV_VERSION_WORD 1 0) 0xffffffff,
    OpD 1 (IR 0 0) (IR 4721 7) (IR 0 0) (IR 66 1) (IR 0 0) (SPV_SPIRV_VERSION_WORD 1 0) 0xffffffff,
    OpD 2 (IR 0 0) (IR 4796 9) (IR 0 0) (IR 3 1) (IR 0 0) (SPV_SPIRV_VERSION_WORD 1 0) 0xffffffff,
    OpD 3 (IR 0 0) (IR 4805 13) (IR 0 0) (IR 3 1) (IR 0 0) (SPV_SPIRV_VERSION_WORD 1 0) 0xffffffff,
    OpD 4 (IR 0 0) (IR 4609 10) (IR 0 0) (IR 1 0) (IR 0 0) (SPV_SPIRV_VERSION_WORD 1 0) 0xffffffff,
    OpD 5 (IR 0 0) (IR 7857 8) (IR 0 0) (IR 1 0) (IR 0 0) (SPV_SPIRV_VERSION_WORD 1 0) 0xffffffff,
    OpD 6 (IR 0 0) (IR 4563 7) (IR 0 0) (IR 1 0) (IR 0 0) (SPV_SPIRV_VERSION_WORD 1 0) 0xffffffff,
    OpD 7 (IR 0 0) (IR 7865 9) (IR 0 0) (IR 0 1) (IR 0 0) (SPV_SPIRV_VERSION_WORD 1 0) 0xffffffff,
    OpD 8 (IR 0 0) (IR 7874 14) (IR 0 0) (IR 0 1) (IR 0 0) (SPV_SPIRV_VERSION_WORD 1 0) 0xffffffff,
    OpD 9 (IR 0 0) (IR 7888 8) (IR 0 0) (IR 1 0) (IR 0 0) (SPV_SPIRV_VERSION_WORD 1 0) 0xffffffff,
    OpD 10 (IR 0 0) (IR 7896 8) (IR 0 0) (IR 1 0) (IR 0 0) (SPV_SPIRV_VERSION_WORD 1 0) 0xffffffff,
    OpD 11 (IR 0 0) (IR 7904 6) (IR 0 0) (IR 1 0) (IR 0 0) (SPV_SPIRV_VERSION_WORD 1 0) 0xffffffff,
    OpD 12 (IR 0 0) (IR 7910 13) (IR 0 0) (IR 67 1) (IR 0 0) (SPV_SPIRV_VERSION_WORD 1 0) 0xffffffff,
    OpD 13 (IR 0 0) (IR 7923 11) (IR 0 0) (IR 0 1) (IR 0 0) (SPV_SPIRV_VERSION_WORD 1 0) 0xffffffff,
    OpD 14 (IR 0 0) (IR 7934 15) (IR 0 0) (IR 68 1) (IR 0 0) (SPV_SPIRV_VERSION_WORD 1 0) 0xffffffff,
    OpD 15 (IR 0 0) (IR 7949 12) (IR 0 0) (IR 68 1) (IR 0 0) (SPV_SPIRV_VERSION_WORD 1 0) 0xffffffff,
    OpD 17 (IR 0 0) (IR 7961 6) (IR 0 0) (IR 0 1) (IR 0 0) (SPV_SPIRV_VERSION_WORD 1 0) 0xffffffff,
    OpD 18 (IR 0 0) (IR 7967 7) (IR 0 0) (IR 1 0) (IR 33 1) (SPV_SPIRV_VERSION_WORD 1 0) 0xffffffff,
    OpD 19 (IR 0 0) (IR 7974 14) (IR 0 0) (IR 0 1) (IR 0 0) (SPV_SPIRV_VERSION_WORD 1 0) 0xffffffff,
    OpD 20 (IR 0 0) (IR 7988 15) (IR 0 0) (IR 0 1) (IR 0 0) (SPV_SPIRV_VERSION_WORD 1 0) 0xffffffff,
    OpD 21 (IR 0 0) (IR 8003 14) (IR 0 0) (IR 3 1) (IR 0 0) (SPV_SPIRV_VERSION_WORD 1 0) 0xffffffff,
    OpD 22 (IR 0 0) (IR 8017 6) (IR 0 0) (IR 1 0) (IR 0 0) (SPV_SPIRV_VERSION_WORD 1 0) 0xffffffff,
    OpD 23 (IR 0 0) (IR 8023 22) (IR 0 0) (IR 24 1) (IR 0 0) (SPV_SPIRV_VERSION_WORD 1 0) 0xffffffff,
    OpD 24 (IR 0 0) (IR 8045 18) (IR 0 0) (IR 69 1) (IR 0 0) (SPV_SPIRV_VERSION_WORD 1 0) 0xffffffff,
    OpD 25 (IR 0 0) (IR 8063 20) (IR 0 0) (IR 3 1) (IR 0 0) (SPV_SPIRV_VERSION_WORD 1 0) 0xffffffff,
    OpD 27 (IR 0 0) (IR 8083 24) (IR 0 0) (IR 3 1) (IR 0 0) (SPV_SPIRV_VERSION_WORD 1 0) 0xffffffff,
    OpD 28 (IR 0 0) (IR 8107 34) (IR 0 0) (IR 3 1) (IR 0 0) (SPV_SPIRV_VERSION_WORD 1 0) 0xffffffff,
    OpD 29 (IR 0 0) (IR 8141 33) (IR 0 0) (IR 3 1) (IR 0 0) (SPV_SPIRV_VERSION_WORD 1 0) 0xffffffff,
    OpD 30 (IR 0 0) (IR 8174 34) (IR 0 0) (IR 3 1) (IR 0 0) (SPV_SPIRV_VERSION_WORD 1 0) 0xffffffff,
    OpD 31 (IR 0 0) (IR 8208 33) (IR 0 0) (IR 3 1) (IR 0 0) (SPV_SPIRV_VERSION_WORD 1 0) 0xffffffff,
    OpD 32 (IR 0 0) (IR 4738 13) (IR 0 0) (IR 3 1) (IR 0 0) (SPV_SPIRV_VERSION_WORD 1 0) 0xffffffff,
    OpD 33 (IR 0 0) (IR 4751 13) (IR 0 0) (IR 3 1) (IR 0 0) (SPV_SPIRV_VERSION_WORD 1 0) 0xffffffff,
    OpD 34 (IR 0 0) (IR 8241 15) (IR 0 0) (IR 70 1) (IR 0 0) (SPV_SPIRV_VERSION_WORD 1 0) 0xffffffff,
    OpD 35 (IR 0 0) (IR 5077 18) (IR 0 0) (IR 3 1) (IR 0 0) (SPV_SPIRV_VERSION_WORD 1 0) 0xffffffff,
    OpD 36 (IR 0 0) (IR 8273 10) (IR 0 0) (IR 71 1) (IR 0 0) (SPV_SPIRV_VERSION_WORD 1 0) 0xffffffff,
    OpD 37 (IR 0 0) (IR 8283 12) (IR 0 0) (IR 3 1) (IR 0 0) (SPV_SPIRV_VERSION_WORD 1 0) 0xffffffff,
    OpD 38 (IR 0 0) (IR 8295 15) (IR 0 0) (IR 1 1) (IR 0 0) (SPV_SPIRV_VERSION_WORD 1 0) 0xffffffff,
    OpD 39 (IR 0 0) (IR 8310 5) (IR 0 0) (IR 1 0) (IR 0 0) (SPV_SPIRV_VERSION_WORD 1 0) 0xffffffff,
    OpD 40 (IR 0 0) (IR 8315 16) (IR 0 0) (IR 3 1) (IR 0 0) (SPV_SPIRV_VERSION_WORD 1 0) 0xffffffff,
    OpD 41 (IR 0 0) (IR 8331 16) (IR 0 0) (IR 3 1) (IR 0 0) (SPV_SPIRV_VERSION_WORD 1 0) 0xffffffff,
    OpD 42 (IR 0 0) (IR 8347 7) (IR 0 0) (IR 3 1) (IR 0 0) (SPV_SPIRV_VERSION_WORD 1 0) 0xffffffff,
    OpD 43 (IR 0 0) (IR 8354 10) (IR 0 0) (IR 1 0) (IR 0 0) (SPV_SPIRV_VERSION_WORD 1 0) 0xffffffff,
    OpD 44 (IR 0 0) (IR 8364 8) (IR 0 0) (IR 72 1) (IR 0 0) (SPV_SPIRV_VERSION_WORD 1 0) 0xffffffff,
    OpD 45 (IR 0 0) (IR 8256 17) (IR 0 0) (IR 3 1) (IR 0 0) (SPV_SPIRV_VERSION_WORD 1 0) 0xffffffff,
    OpD 46 (IR 0 0) (IR 8372 14) (IR 0 0) (IR 1 0) (IR 0 0) (SPV_SPIRV_VERSION_WORD 1 0) 0xffffffff,
    OpD 47 (IR 0 0) (IR 8386 12) (IR 0 0) (IR 73 1) (IR 0 0) (SPV_SPIRV_VERSION_WORD 1 0) 0xffffffff,
    OpD 48 (IR 0 0) (IR 8398 13) (IR 0 0) (IR 3 1) (IR 0 0) (SPV_SPIRV_VERSION_WORD 1 0) 0xffffffff,
    OpD 49 (IR 0 0) (IR 8411 28) (IR 0 0) (IR 3 1) (IR 0 0) (SPV_SPIRV_VERSION_WORD 1 0) 0xffffffff,
    OpD 50 (IR 0 0) (IR 8439 11) (IR 0 0) (IR 3 1) (IR 0 0) (SPV_SPIRV_VERSION_WORD 1 0) 0xffffffff,
    OpD 51 (IR 0 0) (IR 8450 18) (IR 0 0) (IR 3 1) (IR 0 0) (SPV_SPIRV_VERSION_WORD 1 0) 0xffffffff,
    OpD 52 (IR 0 0) (IR 8468 22) (IR 0 0) (IR 3 1) (IR 0 0) (SPV_SPIRV_VERSION_WORD 1 0) 0xffffffff,
    OpD 53 (IR 0 0) (IR 8490 18) (IR 0 0) (IR 3 1) (IR 0 0) (SPV_SPIRV_VERSION_WORD 1 0) 0xffffffff,
    OpD 54 (IR 0 0) (IR 8508 16) (IR 0 0) (IR 69 1) (IR 0 0) (SPV_SPIRV_VERSION_WORD 1 0) 0xffffffff,
    OpD 55 (IR 0 0) (IR 8524 30) (IR 0 0) (IR 3 1) (IR 0 0) (SPV_SPIRV_VERSION_WORD 1 0) 0xffffffff,
    OpD 56 (IR 0 0) (IR 8554 31) (IR 0 0) (IR 3 1) (IR 0 0) (SPV_SPIRV_VERSION_WORD 1 0) 0xffffffff,
    OpD 57 (IR 0 0) (IR 4947 14) (IR 0 0) (IR 69 1) (IR 0 0) (SPV_SPIRV_VERSION_WORD 1 0) 0xffffffff,
    OpD 58 (IR 0 0) (IR 8585 17) (IR 0 0) (IR 74 1) (IR 0 0) (SPV_SPIRV_VERSION_WORD 1 1) 0xffffffff,
    OpD 59 (IR 0 0) (IR 8602 13) (IR 0 0) (IR 0 1) (IR 0 0) (SPV_SPIRV_VERSION_WORD 1 1) 0xffffffff,
    OpD 60 (IR 0 0) (IR 8615 12) (IR 0 0) (IR 75 1) (IR 0 0) (SPV_SPIRV_VERSION_WORD 1 1) 0xffffffff,
    OpD 61 (IR 0 0) (IR 5328 16) (IR 0 0) (IR 1 0) (IR 0 0) (SPV_SPIRV_VERSION_WORD 1 3) 0xffffffff,
    OpD 62 (IR 0 0) (IR 8627 20) (IR 0 0) (IR 76 1) (IR 0 0) (SPV_SPIRV_VERSION_WORD 1 3) 0xffffffff,
    OpD 63 (IR 0 0) (IR 8647 26) (IR 0 0) (IR 76 1) (IR 0 0) (SPV_SPIRV_VERSION_WORD 1 3) 0xffffffff,
    OpD 64 (IR 0 0) (IR 5583 22) (IR 0 0) (IR 76 1) (IR 0 0) (SPV_SPIRV_VERSION_WORD 1 3) 0xffffffff,
    OpD 65 (IR 0 0) (IR 8673 23) (IR 0 0) (IR 76 1) (IR 0 0) (SPV_SPIRV_VERSION_WORD 1 3) 0xffffffff,
    OpD 66 (IR 0 0) (IR 8696 31) (IR 0 0) (IR 76 1) (IR 0 0) (SPV_SPIRV_VERSION_WORD 1 3) 0xffffffff,
    OpD 67 (IR 0 0) (IR 8727 25) (IR 0 0) (IR 76 1) (IR 0 0) (SPV_SPIRV_VERSION_WORD 1 3) 0xffffffff,
    OpD 68 (IR 0 0) (IR 8752 20) (IR 0 0) (IR 76 1) (IR 0 0) (SPV_SPIRV_VERSION_WORD 1 3) 0xffffffff]"

definition core_OperandsByValue_2 :: "OperandDesc list" where
  "core_OperandsByValue_2 = [
    OpD 69 (IR 0 0) (IR 4893 12) (IR 0 0) (IR 1 0) (IR 0 0) (SPV_SPIRV_VERSION_WORD 1 5) 0xffffffff,
    OpD 70 (IR 0 0) (IR 4961 20) (IR 0 0) (IR 1 0) (IR 0 0) (SPV_SPIRV_VERSION_WORD 1 5) 0xffffffff,
    OpD 71 (IR 0 0) (IR 8772 18) (IR 0 0) (IR 1 0) (IR 0 0) (SPV_SPIRV_VERSION_WORD 1 6) 0xffffffff,
    OpD 4165 (IR 0 0) (IR 5485 16) (IR 0 0) (IR 1 0) (IR 34 1) 0xffffffff 0xffffffff,
    OpD 4166 (IR 0 0) (IR 8790 28) (IR 0 0) (IR 1 0) (IR 35 1) 0xffffffff 0xffffffff,
    OpD 4167 (IR 0 0) (IR 8818 28) (IR 0 0) (IR 1 0) (IR 35 1) 0xffffffff 0xffffffff,
    OpD 4168 (IR 0 0) (IR 8846 30) (IR 0 0) (IR 1 0) (IR 35 1) 0xffffffff 0xffffffff,
    OpD 4174 (IR 0 0) (IR 8876 11) (IR 0 0) (IR 1 0) (IR 36 1) 0xffffffff 0xffffffff,
    OpD 4175 (IR 0 0) (IR 8887 37) (IR 0 0) (IR 1 0) (IR 36 1) 0xffffffff 0xffffffff,
    OpD 4176 (IR 0 0) (IR 8924 40) (IR 0 0) (IR 1 0) (IR 36 1) 0xffffffff 0xffffffff,
    OpD 4191 (IR 0 0) (IR 8964 9) (IR 0 0) (IR 1 0) (IR 37 1) 0xffffffff 0xffffffff,
    OpD 4201 (IR 0 0) (IR 8973 28) (IR 0 0) (IR 1 0) (IR 38 1) 0xffffffff 0xffffffff,
    OpD 4212 (IR 0 0) (IR 9001 10) (IR 0 0) (IR 1 0) (IR 39 1) 0xffffffff 0xffffffff,
    OpD 4213 (IR 0 0) (IR 9011 27) (IR 0 0) (IR 77 2) (IR 39 1) 0xffffffff 0xffffffff,
    OpD 4422 (IR 0 0) (IR 5810 23) (IR 0 0) (IR 3 1) (IR 7 1) 0xffffffff 0xffffffff,
    OpD 4423 (IR 0 0) (IR 5344 18) (IR 0 0) (IR 1 0) (IR 2 1) 0xffffffff 0xffffffff,
    OpD 4427 (IR 0 0) (IR 5748 15) (IR 0 0) (IR 3 1) (IR 3 1) (SPV_SPIRV_VERSION_WORD 1 3) 0xffffffff,
    OpD 4428 (IR 0 0) (IR 9059 33) (IR 0 0) (IR 3 1) (IR 40 1) 0xffffffff 0xffffffff,
    OpD 4429 (IR 0 0) (IR 9092 43) (IR 0 0) (IR 79 1) (IR 40 1) 0xffffffff 0xffffffff,
    OpD 4430 (IR 0 0) (IR 9135 44) (IR 0 0) (IR 79 1) (IR 40 1) 0xffffffff 0xffffffff,
    OpD 4431 (IR 0 0) (IR 9179 16) (IR 0 0) (IR 1 0) (IR 41 1) 0xffffffff 0xffffffff,
    OpD 4433 (IR 0 0) (IR 9195 25) (IR 23 1) (IR 1 0) (IR 42 1) (SPV_SPIRV_VERSION_WORD 1 3) 0xffffffff,
    OpD 4434 (IR 0 0) (IR 9248 35) (IR 24 1) (IR 80 1) (IR 42 1) (SPV_SPIRV_VERSION_WORD 1 3) 0xffffffff,
    OpD 4435 (IR 0 0) (IR 9300 22) (IR 0 0) (IR 1 0) (IR 42 1) (SPV_SPIRV_VERSION_WORD 1 3) 0xffffffff,
    OpD 4436 (IR 0 0) (IR 9322 21) (IR 0 0) (IR 1 0) (IR 42 1) (SPV_SPIRV_VERSION_WORD 1 3) 0xffffffff,
    OpD 4437 (IR 0 0) (IR 5845 12) (IR 0 0) (IR 1 0) (IR 8 1) (SPV_SPIRV_VERSION_WORD 1 3) 0xffffffff,
    OpD 4439 (IR 0 0) (IR 5867 10) (IR 0 0) (IR 3 1) (IR 9 1) (SPV_SPIRV_VERSION_WORD 1 3) 0xffffffff,
    OpD 4441 (IR 0 0) (IR 9343 30) (IR 0 0) (IR 3 1) (IR 43 1) (SPV_SPIRV_VERSION_WORD 1 3) 0xffffffff,
    OpD 4442 (IR 0 0) (IR 9373 17) (IR 0 0) (IR 81 1) (IR 43 1) (SPV_SPIRV_VERSION_WORD 1 3) 0xffffffff,
    OpD 4445 (IR 0 0) (IR 9390 17) (IR 0 0) (IR 82 1) (IR 44 1) 0xffffffff 0xffffffff,
    OpD 4447 (IR 0 0) (IR 9407 28) (IR 0 0) (IR 1 0) (IR 45 1) 0xffffffff 0xffffffff,
    OpD 4448 (IR 0 0) (IR 9435 24) (IR 0 0) (IR 1 0) (IR 46 1) (SPV_SPIRV_VERSION_WORD 1 5) 0xffffffff,
    OpD 4449 (IR 0 0) (IR 9459 34) (IR 0 0) (IR 83 1) (IR 46 1) (SPV_SPIRV_VERSION_WORD 1 5) 0xffffffff,
    OpD 4450 (IR 0 0) (IR 9493 21) (IR 0 0) (IR 1 0) (IR 46 1) (SPV_SPIRV_VERSION_WORD 1 5) 0xffffffff,
    OpD 4464 (IR 0 0) (IR 9514 15) (IR 0 0) (IR 1 0) (IR 47 1) (SPV_SPIRV_VERSION_WORD 1 4) 0xffffffff,
    OpD 4465 (IR 0 0) (IR 9529 18) (IR 0 0) (IR 1 0) (IR 47 1) (SPV_SPIRV_VERSION_WORD 1 4) 0xffffffff,
    OpD 4466 (IR 0 0) (IR 9547 25) (IR 0 0) (IR 1 0) (IR 47 1) (SPV_SPIRV_VERSION_WORD 1 4) 0xffffffff,
    OpD 4467 (IR 0 0) (IR 9572 16) (IR 0 0) (IR 1 0) (IR 47 1) (SPV_SPIRV_VERSION_WORD 1 4) 0xffffffff,
    OpD 4468 (IR 0 0) (IR 9588 16) (IR 0 0) (IR 1 0) (IR 47 1) (SPV_SPIRV_VERSION_WORD 1 4) 0xffffffff,
    OpD 4471 (IR 0 0) (IR 9604 23) (IR 0 0) (IR 3 1) (IR 48 1) 0xffffffff 0xffffffff,
    OpD 4472 (IR 0 0) (IR 9627 12) (IR 0 0) (IR 3 1) (IR 48 1) 0xffffffff 0xffffffff,
    OpD 4473 (IR 0 0) (IR 9639 19) (IR 0 0) (IR 1 0) (IR 49 1) 0xffffffff 0xffffffff,
    OpD 4478 (IR 0 0) (IR 9658 32) (IR 0 0) (IR 84 2) (IR 50 2) 0xffffffff 0xffffffff,
    OpD 4479 (IR 0 0) (IR 4831 14) (IR 0 0) (IR 3 1) (IR 28 1) 0xffffffff 0xffffffff,
    OpD 4484 (IR 0 0) (IR 9690 26) (IR 0 0) (IR 1 0) (IR 52 1) 0xffffffff 0xffffffff,
    OpD 4485 (IR 0 0) (IR 9716 21) (IR 0 0) (IR 1 0) (IR 52 1) 0xffffffff 0xffffffff,
    OpD 4486 (IR 0 0) (IR 9737 22) (IR 0 0) (IR 1 0) (IR 52 1) 0xffffffff 0xffffffff,
    OpD 4495 (IR 0 0) (IR 5907 16) (IR 0 0) (IR 3 1) (IR 53 1) 0xffffffff 0xffffffff,
    OpD 4498 (IR 0 0) (IR 9759 23) (IR 0 0) (IR 1 0) (IR 54 1) 0xffffffff 0xffffffff,
    OpD 5008 (IR 0 0) (IR 9782 16) (IR 0 0) (IR 3 1) (IR 55 1) 0xffffffff 0xffffffff,
    OpD 5009 (IR 0 0) (IR 9798 22) (IR 0 0) (IR 3 1) (IR 56 1) 0xffffffff 0xffffffff,
    OpD 5010 (IR 0 0) (IR 9820 16) (IR 0 0) (IR 3 1) (IR 57 1) 0xffffffff 0xffffffff,
    OpD 5013 (IR 0 0) (IR 6144 17) (IR 0 0) (IR 3 1) (IR 11 1) 0xffffffff 0xffffffff,
    OpD 5015 (IR 0 0) (IR 9836 21) (IR 0 0) (IR 3 1) (IR 58 1) 0xffffffff 0xffffffff,
    OpD 5016 (IR 0 0) (IR 9857 14) (IR 0 0) (IR 3 1) (IR 59 1) 0xffffffff 0xffffffff,
    OpD 5055 (IR 0 0) (IR 9871 15) (IR 0 0) (IR 1 0) (IR 60 1) 0xffffffff 0xffffffff,
    OpD 5067 (IR 0 0) (IR 6190 18) (IR 0 0) (IR 3 1) (IR 61 1) 0xffffffff 0xffffffff,
    OpD 5087 (IR 0 0) (IR 9886 15) (IR 0 0) (IR 1 0) (IR 62 1) 0xffffffff 0xffffffff,
    OpD 5112 (IR 0 0) (IR 9901 14) (IR 0 0) (IR 1 0) (IR 63 1) 0xffffffff 0xffffffff,
    OpD 5114 (IR 0 0) (IR 9915 27) (IR 0 0) (IR 86 2) (IR 63 1) 0xffffffff 0xffffffff,
    OpD 5116 (IR 0 0) (IR 9942 16) (IR 0 0) (IR 1 0) (IR 64 1) 0xffffffff 0xffffffff,
    OpD 5117 (IR 0 0) (IR 9958 22) (IR 0 0) (IR 88 1) (IR 64 1) 0xffffffff 0xffffffff,
    OpD 5118 (IR 0 0) (IR 9980 29) (IR 0 0) (IR 89 2) (IR 64 1) 0xffffffff 0xffffffff,
    OpD 5249 (IR 0 0) (IR 10009 29) (IR 0 0) (IR 25 1) (IR 65 1) 0xffffffff 0xffffffff,
    OpD 5251 (IR 0 0) (IR 10038 28) (IR 0 0) (IR 69 1) (IR 66 1) 0xffffffff 0xffffffff,
    OpD 5254 (IR 0 0) (IR 4905 28) (IR 25 1) (IR 91 1) (IR 67 2) 0xffffffff 0xffffffff,
    OpD 5255 (IR 0 0) (IR 6239 21) (IR 0 0) (IR 92 1) (IR 69 1) 0xffffffff 0xffffffff,
    OpD 5259 (IR 0 0) (IR 6280 19) (IR 0 0) (IR 93 1) (IR 14 1) 0xffffffff 0xffffffff,
    OpD 5260 (IR 0 0) (IR 6341 20) (IR 0 0) (IR 40 1) (IR 70 1) 0xffffffff 0xffffffff,
    OpD 5265 (IR 0 0) (IR 6399 24) (IR 0 0) (IR 3 1) (IR 17 1) 0xffffffff 0xffffffff,
    OpD 5266 (IR 0 0) (IR 4845 14) (IR 0 0) (IR 3 1) (IR 18 1) 0xffffffff 0xffffffff,
    OpD 5282 (IR 0 0) (IR 10093 17) (IR 0 0) (IR 1 0) (IR 71 1) 0xffffffff 0xffffffff,
    OpD 5283 (IR 0 0) (IR 4859 15) (IR 0 0) (IR 3 1) (IR 23 1) 0xffffffff 0xffffffff,
    OpD 5284 (IR 0 0) (IR 6589 23) (IR 26 1) (IR 1 0) (IR 19 2) 0xffffffff 0xffffffff,
    OpD 5288 (IR 0 0) (IR 10132 31) (IR 27 1) (IR 3 1) (IR 72 2) 0xffffffff 0xffffffff,
    OpD 5291 (IR 0 0) (IR 6678 19) (IR 28 1) (IR 3 1) (IR 21 2) 0xffffffff 0xffffffff,
    OpD 5297 (IR 0 0) (IR 10207 29) (IR 0 0) (IR 1 0) (IR 74 1) 0xffffffff 0xffffffff,
    OpD 5301 (IR 0 0) (IR 10236 17) (IR 29 1) (IR 3 1) (IR 75 1) (SPV_SPIRV_VERSION_WORD 1 5) 0xffffffff,
    OpD 5302 (IR 0 0) (IR 10273 23) (IR 30 1) (IR 3 1) (IR 75 1) (SPV_SPIRV_VERSION_WORD 1 5) 0xffffffff,
    OpD 5303 (IR 0 0) (IR 10322 36) (IR 31 1) (IR 94 1) (IR 75 1) (SPV_SPIRV_VERSION_WORD 1 5) 0xffffffff,
    OpD 5304 (IR 0 0) (IR 10397 39) (IR 32 1) (IR 73 1) (IR 75 1) (SPV_SPIRV_VERSION_WORD 1 5) 0xffffffff,
    OpD 5305 (IR 0 0) (IR 10478 39) (IR 33 1) (IR 95 1) (IR 75 1) (SPV_SPIRV_VERSION_WORD 1 5) 0xffffffff,
    OpD 5306 (IR 0 0) (IR 10559 37) (IR 34 1) (IR 96 1) (IR 75 1) (SPV_SPIRV_VERSION_WORD 1 5) 0xffffffff,
    OpD 5307 (IR 0 0) (IR 10636 36) (IR 35 1) (IR 96 1) (IR 75 1) (SPV_SPIRV_VERSION_WORD 1 5) 0xffffffff,
    OpD 5308 (IR 0 0) (IR 10711 37) (IR 36 1) (IR 96 1) (IR 75 1) (SPV_SPIRV_VERSION_WORD 1 5) 0xffffffff,
    OpD 5309 (IR 0 0) (IR 10788 36) (IR 37 1) (IR 96 1) (IR 75 1) (SPV_SPIRV_VERSION_WORD 1 5) 0xffffffff,
    OpD 5310 (IR 0 0) (IR 10863 39) (IR 38 1) (IR 97 2) (IR 75 1) (SPV_SPIRV_VERSION_WORD 1 5) 0xffffffff,
    OpD 5311 (IR 0 0) (IR 10944 42) (IR 39 1) (IR 99 2) (IR 75 1) (SPV_SPIRV_VERSION_WORD 1 5) 0xffffffff,
    OpD 5312 (IR 0 0) (IR 11031 42) (IR 40 1) (IR 101 2) (IR 75 1) (SPV_SPIRV_VERSION_WORD 1 5) 0xffffffff,
    OpD 5336 (IR 0 0) (IR 7293 27) (IR 0 0) (IR 3 1) (IR 76 1) 0xffffffff 0xffffffff,
    OpD 5340 (IR 0 0) (IR 4818 13) (IR 0 0) (IR 3 1) (IR 26 1) 0xffffffff 0xffffffff,
    OpD 5341 (IR 0 0) (IR 7240 23) (IR 0 0) (IR 3 1) (IR 27 1) 0xffffffff 0xffffffff,
    OpD 5345 (IR 0 0) (IR 11118 18) (IR 41 1) (IR 1 0) (IR 77 1) (SPV_SPIRV_VERSION_WORD 1 5) 0xffffffff,
    OpD 5346 (IR 0 0) (IR 11157 29) (IR 42 1) (IR 1 0) (IR 77 1) (SPV_SPIRV_VERSION_WORD 1 5) 0xffffffff,
    OpD 5347 (IR 0 0) (IR 4681 31) (IR 43 1) (IR 3 1) (IR 0 2) (SPV_SPIRV_VERSION_WORD 1 5) 0xffffffff,
    OpD 5350 (IR 0 0) (IR 11252 32) (IR 44 1) (IR 3 1) (IR 72 2) 0xffffffff 0xffffffff,
    OpD 5353 (IR 0 0) (IR 11315 25) (IR 0 0) (IR 3 1) (IR 28 1) 0xffffffff 0xffffffff,
    OpD 5357 (IR 0 0) (IR 11340 20) (IR 0 0) (IR 3 1) (IR 78 1) 0xffffffff 0xffffffff,
    OpD 5363 (IR 0 0) (IR 11360 33) (IR 0 0) (IR 3 1) (IR 79 1) 0xffffffff 0xffffffff,
    OpD 5372 (IR 0 0) (IR 11393 38) (IR 0 0) (IR 3 1) (IR 79 1) 0xffffffff 0xffffffff]"

definition core_OperandsByValue_3 :: "OperandDesc list" where
  "core_OperandsByValue_3 = [
    OpD 5373 (IR 0 0) (IR 7608 19) (IR 0 0) (IR 3 1) (IR 30 1) 0xffffffff 0xffffffff,
    OpD 5378 (IR 0 0) (IR 11431 32) (IR 0 0) (IR 3 1) (IR 79 1) 0xffffffff 0xffffffff,
    OpD 5379 (IR 0 0) (IR 11463 25) (IR 45 1) (IR 3 1) (IR 80 1) (SPV_SPIRV_VERSION_WORD 1 6) 0xffffffff,
    OpD 5380 (IR 0 0) (IR 11516 23) (IR 0 0) (IR 3 1) (IR 81 1) 0xffffffff 0xffffffff,
    OpD 5381 (IR 0 0) (IR 11539 29) (IR 0 0) (IR 3 1) (IR 82 1) 0xffffffff 0xffffffff,
    OpD 5383 (IR 0 0) (IR 11568 26) (IR 0 0) (IR 60 1) (IR 83 1) 0xffffffff 0xffffffff,
    OpD 5390 (IR 0 0) (IR 11594 18) (IR 0 0) (IR 1 0) (IR 84 1) 0xffffffff 0xffffffff,
    OpD 5391 (IR 0 0) (IR 11612 25) (IR 0 0) (IR 3 1) (IR 76 1) 0xffffffff 0xffffffff,
    OpD 5394 (IR 0 0) (IR 11637 20) (IR 0 0) (IR 1 0) (IR 85 1) 0xffffffff 0xffffffff,
    OpD 5404 (IR 0 0) (IR 11657 22) (IR 0 0) (IR 1 0) (IR 86 1) 0xffffffff 0xffffffff,
    OpD 5409 (IR 0 0) (IR 7354 33) (IR 0 0) (IR 60 1) (IR 81 1) 0xffffffff 0xffffffff,
    OpD 5414 (IR 0 0) (IR 11679 18) (IR 0 0) (IR 1 0) (IR 87 1) 0xffffffff 0xffffffff,
    OpD 5418 (IR 0 0) (IR 7497 28) (IR 0 0) (IR 1 0) (IR 29 1) 0xffffffff 0xffffffff,
    OpD 5419 (IR 0 0) (IR 7536 39) (IR 0 0) (IR 1 0) (IR 29 1) 0xffffffff 0xffffffff,
    OpD 5430 (IR 0 0) (IR 11697 30) (IR 0 0) (IR 1 0) (IR 88 1) 0xffffffff 0xffffffff,
    OpD 5431 (IR 0 0) (IR 11727 31) (IR 0 0) (IR 1 0) (IR 88 1) 0xffffffff 0xffffffff,
    OpD 5432 (IR 0 0) (IR 11758 40) (IR 0 0) (IR 1 0) (IR 88 1) 0xffffffff 0xffffffff,
    OpD 5433 (IR 0 0) (IR 11798 36) (IR 0 0) (IR 1 0) (IR 88 1) 0xffffffff 0xffffffff,
    OpD 5434 (IR 0 0) (IR 11834 30) (IR 0 0) (IR 1 0) (IR 88 1) 0xffffffff 0xffffffff,
    OpD 5435 (IR 0 0) (IR 11864 28) (IR 0 0) (IR 1 0) (IR 85 1) 0xffffffff 0xffffffff,
    OpD 5437 (IR 0 0) (IR 7782 41) (IR 0 0) (IR 60 1) (IR 31 1) 0xffffffff 0xffffffff,
    OpD 5439 (IR 0 0) (IR 11892 19) (IR 0 0) (IR 1 0) (IR 89 1) 0xffffffff 0xffffffff,
    OpD 5568 (IR 0 0) (IR 11911 21) (IR 0 0) (IR 1 0) (IR 90 1) 0xffffffff 0xffffffff,
    OpD 5569 (IR 0 0) (IR 11932 27) (IR 0 0) (IR 1 0) (IR 90 1) 0xffffffff 0xffffffff,
    OpD 5570 (IR 0 0) (IR 11959 26) (IR 0 0) (IR 1 0) (IR 90 1) 0xffffffff 0xffffffff,
    OpD 5579 (IR 0 0) (IR 11985 31) (IR 0 0) (IR 1 0) (IR 91 1) 0xffffffff 0xffffffff,
    OpD 5582 (IR 0 0) (IR 12016 21) (IR 0 0) (IR 1 0) (IR 92 1) 0xffffffff 0xffffffff,
    OpD 5583 (IR 0 0) (IR 12037 23) (IR 0 0) (IR 1 0) (IR 92 1) 0xffffffff 0xffffffff,
    OpD 5584 (IR 0 0) (IR 12060 23) (IR 0 0) (IR 1 0) (IR 93 1) 0xffffffff 0xffffffff,
    OpD 5603 (IR 0 0) (IR 12083 22) (IR 0 0) (IR 1 0) (IR 94 1) 0xffffffff 0xffffffff,
    OpD 5604 (IR 0 0) (IR 12105 24) (IR 0 0) (IR 1 0) (IR 94 1) 0xffffffff 0xffffffff,
    OpD 5606 (IR 0 0) (IR 12129 9) (IR 0 0) (IR 1 0) (IR 95 1) 0xffffffff 0xffffffff,
    OpD 5612 (IR 0 0) (IR 12138 23) (IR 0 0) (IR 1 0) (IR 96 1) 0xffffffff 0xffffffff,
    OpD 5613 (IR 0 0) (IR 12161 23) (IR 0 0) (IR 1 0) (IR 96 1) 0xffffffff 0xffffffff,
    OpD 5616 (IR 0 0) (IR 12184 23) (IR 0 0) (IR 1 0) (IR 96 1) 0xffffffff 0xffffffff,
    OpD 5617 (IR 0 0) (IR 12207 19) (IR 0 0) (IR 103 1) (IR 97 1) 0xffffffff 0xffffffff,
    OpD 5619 (IR 0 0) (IR 12226 15) (IR 0 0) (IR 1 0) (IR 97 1) 0xffffffff 0xffffffff,
    OpD 5629 (IR 0 0) (IR 12241 16) (IR 0 0) (IR 1 0) (IR 98 1) 0xffffffff 0xffffffff,
    OpD 5696 (IR 0 0) (IR 12257 33) (IR 0 0) (IR 1 0) (IR 99 1) 0xffffffff 0xffffffff,
    OpD 5697 (IR 0 0) (IR 12290 38) (IR 0 0) (IR 1 0) (IR 99 1) 0xffffffff 0xffffffff,
    OpD 5698 (IR 0 0) (IR 12328 39) (IR 0 0) (IR 1 0) (IR 99 1) 0xffffffff 0xffffffff,
    OpD 5817 (IR 0 0) (IR 12367 25) (IR 0 0) (IR 1 0) (IR 100 1) 0xffffffff 0xffffffff,
    OpD 5821 (IR 0 0) (IR 12392 26) (IR 0 0) (IR 1 0) (IR 92 1) 0xffffffff 0xffffffff,
    OpD 5824 (IR 0 0) (IR 12418 26) (IR 0 0) (IR 1 0) (IR 101 1) 0xffffffff 0xffffffff,
    OpD 5837 (IR 0 0) (IR 12444 20) (IR 0 0) (IR 0 1) (IR 102 1) 0xffffffff 0xffffffff,
    OpD 5844 (IR 0 0) (IR 12464 32) (IR 0 0) (IR 1 0) (IR 103 1) 0xffffffff 0xffffffff,
    OpD 5845 (IR 0 0) (IR 12496 37) (IR 0 0) (IR 1 0) (IR 104 1) 0xffffffff 0xffffffff,
    OpD 5886 (IR 0 0) (IR 12533 30) (IR 0 0) (IR 1 0) (IR 105 1) 0xffffffff 0xffffffff,
    OpD 5888 (IR 0 0) (IR 12563 22) (IR 0 0) (IR 1 0) (IR 106 1) 0xffffffff 0xffffffff,
    OpD 5892 (IR 0 0) (IR 12585 22) (IR 0 0) (IR 1 0) (IR 107 1) 0xffffffff 0xffffffff,
    OpD 5897 (IR 0 0) (IR 12607 26) (IR 0 0) (IR 1 0) (IR 107 1) 0xffffffff 0xffffffff,
    OpD 5898 (IR 0 0) (IR 12633 24) (IR 0 0) (IR 1 0) (IR 108 1) 0xffffffff 0xffffffff,
    OpD 5904 (IR 0 0) (IR 12657 27) (IR 0 0) (IR 1 0) (IR 109 1) 0xffffffff 0xffffffff,
    OpD 5906 (IR 0 0) (IR 12684 14) (IR 0 0) (IR 1 0) (IR 110 1) 0xffffffff 0xffffffff,
    OpD 5908 (IR 0 0) (IR 12698 20) (IR 0 0) (IR 1 0) (IR 111 1) 0xffffffff 0xffffffff,
    OpD 5910 (IR 0 0) (IR 12718 26) (IR 0 0) (IR 1 0) (IR 112 1) 0xffffffff 0xffffffff,
    OpD 5916 (IR 0 0) (IR 12744 40) (IR 0 0) (IR 1 0) (IR 113 1) 0xffffffff 0xffffffff,
    OpD 5920 (IR 0 0) (IR 12784 24) (IR 0 0) (IR 1 0) (IR 114 1) 0xffffffff 0xffffffff,
    OpD 5922 (IR 0 0) (IR 12808 34) (IR 0 0) (IR 1 0) (IR 115 1) 0xffffffff 0xffffffff,
    OpD 5935 (IR 0 0) (IR 12842 23) (IR 0 0) (IR 1 0) (IR 116 1) 0xffffffff 0xffffffff,
    OpD 5939 (IR 0 0) (IR 12865 29) (IR 0 0) (IR 1 0) (IR 117 1) 0xffffffff 0xffffffff,
    OpD 5943 (IR 0 0) (IR 12894 13) (IR 0 0) (IR 1 0) (IR 118 1) 0xffffffff 0xffffffff,
    OpD 5945 (IR 0 0) (IR 12907 19) (IR 0 0) (IR 1 0) (IR 119 1) 0xffffffff 0xffffffff,
    OpD 5948 (IR 0 0) (IR 12926 13) (IR 0 0) (IR 1 0) (IR 120 1) 0xffffffff 0xffffffff,
    OpD 6016 (IR 0 0) (IR 12939 19) (IR 46 1) (IR 1 0) (IR 121 1) (SPV_SPIRV_VERSION_WORD 1 6) 0xffffffff,
    OpD 6017 (IR 0 0) (IR 12980 22) (IR 47 1) (IR 104 1) (IR 121 1) (SPV_SPIRV_VERSION_WORD 1 6) 0xffffffff,
    OpD 6018 (IR 0 0) (IR 13027 28) (IR 48 1) (IR 1 0) (IR 121 1) (SPV_SPIRV_VERSION_WORD 1 6) 0xffffffff,
    OpD 6019 (IR 0 0) (IR 13086 11) (IR 49 1) (IR 1 0) (IR 121 1) (SPV_SPIRV_VERSION_WORD 1 6) 0xffffffff,
    OpD 6020 (IR 0 0) (IR 7835 15) (IR 0 0) (IR 1 0) (IR 32 1) 0xffffffff 0xffffffff,
    OpD 6022 (IR 0 0) (IR 9038 21) (IR 0 0) (IR 1 0) (IR 122 1) 0xffffffff 0xffffffff,
    OpD 6024 (IR 0 0) (IR 13111 24) (IR 0 0) (IR 1 0) (IR 123 1) 0xffffffff 0xffffffff,
    OpD 6025 (IR 0 0) (IR 13135 16) (IR 0 0) (IR 1 0) (IR 124 1) 0xffffffff 0xffffffff,
    OpD 6026 (IR 0 0) (IR 13151 25) (IR 0 0) (IR 76 1) (IR 125 1) 0xffffffff 0xffffffff,
    OpD 6029 (IR 0 0) (IR 13176 15) (IR 0 0) (IR 1 0) (IR 126 1) 0xffffffff 0xffffffff,
    OpD 6033 (IR 0 0) (IR 13191 20) (IR 0 0) (IR 1 0) (IR 127 1) 0xffffffff 0xffffffff,
    OpD 6034 (IR 0 0) (IR 13211 20) (IR 0 0) (IR 1 0) (IR 127 1) 0xffffffff 0xffffffff,
    OpD 6089 (IR 0 0) (IR 13231 20) (IR 0 0) (IR 1 0) (IR 128 1) 0xffffffff 0xffffffff,
    OpD 6094 (IR 0 0) (IR 13251 11) (IR 50 1) (IR 1 0) (IR 129 2) 0xffffffff 0xffffffff,
    OpD 6095 (IR 0 0) (IR 13275 20) (IR 0 0) (IR 1 0) (IR 131 1) 0xffffffff 0xffffffff,
    OpD 6114 (IR 0 0) (IR 13295 21) (IR 0 0) (IR 1 0) (IR 132 1) 0xffffffff 0xffffffff,
    OpD 6115 (IR 0 0) (IR 13316 24) (IR 0 0) (IR 1 0) (IR 133 1) 0xffffffff 0xffffffff,
    OpD 6141 (IR 0 0) (IR 13340 18) (IR 0 0) (IR 1 0) (IR 134 1) 0xffffffff 0xffffffff,
    OpD 6144 (IR 0 0) (IR 13358 19) (IR 0 0) (IR 1 0) (IR 135 1) 0xffffffff 0xffffffff,
    OpD 6150 (IR 0 0) (IR 13377 29) (IR 0 0) (IR 105 1) (IR 109 1) 0xffffffff 0xffffffff,
    OpD 6161 (IR 0 0) (IR 13406 28) (IR 0 0) (IR 106 1) (IR 107 1) 0xffffffff 0xffffffff,
    OpD 6162 (IR 0 0) (IR 13434 18) (IR 0 0) (IR 1 0) (IR 136 1) 0xffffffff 0xffffffff,
    OpD 6169 (IR 0 0) (IR 13452 16) (IR 0 0) (IR 1 0) (IR 137 1) 0xffffffff 0xffffffff,
    OpD 6171 (IR 0 0) (IR 13468 24) (IR 0 0) (IR 1 0) (IR 138 1) 0xffffffff 0xffffffff,
    OpD 6174 (IR 0 0) (IR 13492 28) (IR 0 0) (IR 1 0) (IR 139 1) 0xffffffff 0xffffffff,
    OpD 6187 (IR 0 0) (IR 13520 30) (IR 0 0) (IR 1 0) (IR 140 1) 0xffffffff 0xffffffff,
    OpD 6189 (IR 0 0) (IR 13550 35) (IR 0 0) (IR 1 0) (IR 141 1) 0xffffffff 0xffffffff,
    OpD 6220 (IR 0 0) (IR 13585 28) (IR 0 0) (IR 1 0) (IR 142 1) 0xffffffff 0xffffffff,
    OpD 6228 (IR 0 0) (IR 13613 23) (IR 0 0) (IR 1 0) (IR 143 1) 0xffffffff 0xffffffff,
    OpD 6229 (IR 0 0) (IR 13636 30) (IR 0 0) (IR 107 1) (IR 143 1) 0xffffffff 0xffffffff,
    OpD 6230 (IR 0 0) (IR 13666 30) (IR 0 0) (IR 107 1) (IR 143 1) 0xffffffff 0xffffffff,
    OpD 6236 (IR 0 0) (IR 13696 38) (IR 0 0) (IR 1 0) (IR 144 1) 0xffffffff 0xffffffff,
    OpD 6241 (IR 0 0) (IR 13734 28) (IR 0 0) (IR 1 0) (IR 145 1) 0xffffffff 0xffffffff,
    OpD 6400 (IR 0 0) (IR 13762 26) (IR 0 0) (IR 1 0) (IR 146 1) 0xffffffff 0xffffffff,
    OpD 6425 (IR 0 0) (IR 13788 27) (IR 0 0) (IR 1 0) (IR 147 1) 0xffffffff 0xffffffff,
    OpD 6427 (IR 0 0) (IR 13815 25) (IR 0 0) (IR 1 0) (IR 148 1) 0xffffffff 0xffffffff]"

definition core_OperandsByValue_4 :: "OperandDesc list" where
  "core_OperandsByValue_4 = [
    OpD 6441 (IR 0 0) (IR 13840 19) (IR 0 0) (IR 1 0) (IR 149 1) 0xffffffff 0xffffffff,
    OpD 6460 (IR 0 0) (IR 13859 20) (IR 0 0) (IR 1 0) (IR 150 1) 0xffffffff 0xffffffff,
    OpD 6528 (IR 0 0) (IR 13879 20) (IR 0 0) (IR 1 0) (IR 151 1) 0xffffffff 0xffffffff,
    OpD 0 (IR 0 0) (IR 13899 12) (IR 0 0) (IR 1 0) (IR 0 0) (SPV_SPIRV_VERSION_WORD 1 0) 0xffffffff,
    OpD 1 (IR 0 0) (IR 13911 8) (IR 0 0) (IR 1 0) (IR 0 0) (SPV_SPIRV_VERSION_WORD 1 0) 0xffffffff,
    OpD 2 (IR 0 0) (IR 13919 8) (IR 0 0) (IR 1 0) (IR 0 0) (SPV_SPIRV_VERSION_WORD 1 0) 0xffffffff,
    OpD 3 (IR 0 0) (IR 13927 6) (IR 0 0) (IR 1 0) (IR 0 0) (SPV_SPIRV_VERSION_WORD 1 0) 0xffffffff,
    OpD 4 (IR 0 0) (IR 13933 7) (IR 0 0) (IR 1 0) (IR 0 0) (SPV_SPIRV_VERSION_WORD 1 0) 0xffffffff,
    OpD 5 (IR 0 0) (IR 13940 11) (IR 0 0) (IR 1 0) (IR 0 0) (SPV_SPIRV_VERSION_WORD 1 0) 0xffffffff,
    OpD 6 (IR 0 0) (IR 13951 9) (IR 0 0) (IR 1 0) (IR 0 0) (SPV_SPIRV_VERSION_WORD 1 0) 0xffffffff,
    OpD 7 (IR 0 0) (IR 13960 13) (IR 0 0) (IR 1 0) (IR 0 0) (SPV_SPIRV_VERSION_WORD 1 0) 0xffffffff,
    OpD 0 (IR 0 0) (IR 13973 6) (IR 0 0) (IR 1 0) (IR 0 0) (SPV_SPIRV_VERSION_WORD 1 0) 0xffffffff,
    OpD 1 (IR 0 0) (IR 13979 10) (IR 0 0) (IR 1 0) (IR 0 0) (SPV_SPIRV_VERSION_WORD 1 0) 0xffffffff,
    OpD 2 (IR 0 0) (IR 13989 6) (IR 0 0) (IR 1 0) (IR 0 0) (SPV_SPIRV_VERSION_WORD 1 0) 0xffffffff,
    OpD 0 (IR 0 0) (IR 13995 15) (IR 0 0) (IR 1 0) (IR 0 0) (SPV_SPIRV_VERSION_WORD 1 0) 0xffffffff,
    OpD 1 (IR 0 0) (IR 14010 20) (IR 0 0) (IR 1 0) (IR 0 0) (SPV_SPIRV_VERSION_WORD 1 0) 0xffffffff,
    OpD 0 (IR 0 0) (IR 14030 5) (IR 0 0) (IR 1 0) (IR 0 0) (SPV_SPIRV_VERSION_WORD 1 0) 0xffffffff,
    OpD 1 (IR 0 0) (IR 14035 16) (IR 0 0) (IR 1 0) (IR 0 0) (SPV_SPIRV_VERSION_WORD 1 0) 0xffffffff,
    OpD 2 (IR 0 0) (IR 14051 14) (IR 0 0) (IR 1 0) (IR 0 0) (SPV_SPIRV_VERSION_WORD 1 0) 0xffffffff,
    OpD 3 (IR 0 0) (IR 14065 13) (IR 0 0) (IR 1 0) (IR 0 0) (SPV_SPIRV_VERSION_WORD 1 0) 0xffffffff,
    OpD 4 (IR 0 0) (IR 14078 12) (IR 0 0) (IR 1 0) (IR 0 0) (SPV_SPIRV_VERSION_WORD 1 0) 0xffffffff,
    OpD 8 (IR 0 0) (IR 14090 17) (IR 0 0) (IR 1 0) (IR 0 0) (SPV_SPIRV_VERSION_WORD 1 0) 0xffffffff,
    OpD 16 (IR 0 0) (IR 14107 12) (IR 0 0) (IR 1 0) (IR 0 0) (SPV_SPIRV_VERSION_WORD 1 0) 0xffffffff,
    OpD 32 (IR 0 0) (IR 14119 15) (IR 0 0) (IR 1 0) (IR 0 0) (SPV_SPIRV_VERSION_WORD 1 0) 0xffffffff,
    OpD 64 (IR 0 0) (IR 14134 13) (IR 0 0) (IR 1 0) (IR 0 0) (SPV_SPIRV_VERSION_WORD 1 0) 0xffffffff,
    OpD 128 (IR 0 0) (IR 14147 15) (IR 0 0) (IR 1 0) (IR 0 0) (SPV_SPIRV_VERSION_WORD 1 0) 0xffffffff,
    OpD 256 (IR 0 0) (IR 14162 18) (IR 0 0) (IR 1 0) (IR 0 0) (SPV_SPIRV_VERSION_WORD 1 0) 0xffffffff,
    OpD 512 (IR 0 0) (IR 14180 17) (IR 0 0) (IR 1 0) (IR 0 0) (SPV_SPIRV_VERSION_WORD 1 0) 0xffffffff,
    OpD 1024 (IR 0 0) (IR 14197 21) (IR 0 0) (IR 1 0) (IR 0 0) (SPV_SPIRV_VERSION_WORD 1 0) 0xffffffff,
    OpD 2048 (IR 0 0) (IR 14218 20) (IR 0 0) (IR 1 0) (IR 0 0) (SPV_SPIRV_VERSION_WORD 1 0) 0xffffffff,
    OpD 4096 (IR 0 0) (IR 14238 20) (IR 0 0) (IR 1 0) (IR 0 0) (SPV_SPIRV_VERSION_WORD 1 0) 0xffffffff,
    OpD 8192 (IR 0 0) (IR 14258 16) (IR 0 0) (IR 1 0) (IR 0 0) (SPV_SPIRV_VERSION_WORD 1 0) 0xffffffff,
    OpD 16384 (IR 0 0) (IR 14274 16) (IR 0 0) (IR 1 0) (IR 0 0) (SPV_SPIRV_VERSION_WORD 1 0) 0xffffffff,
    OpD 32768 (IR 0 0) (IR 14290 20) (IR 0 0) (IR 1 0) (IR 0 0) (SPV_SPIRV_VERSION_WORD 1 0) 0xffffffff,
    OpD 65536 (IR 0 0) (IR 14310 24) (IR 0 0) (IR 1 0) (IR 0 0) (SPV_SPIRV_VERSION_WORD 1 0) 0xffffffff,
    OpD 0 (IR 0 0) (IR 14334 6) (IR 0 0) (IR 1 0) (IR 0 0) (SPV_SPIRV_VERSION_WORD 1 0) 0xffffffff,
    OpD 1 (IR 0 0) (IR 14340 5) (IR 0 0) (IR 1 0) (IR 0 0) (SPV_SPIRV_VERSION_WORD 1 0) 0xffffffff,
    OpD 2 (IR 0 0) (IR 14345 6) (IR 0 0) (IR 1 0) (IR 0 0) (SPV_SPIRV_VERSION_WORD 1 0) 0xffffffff,
    OpD 3 (IR 0 1) (IR 14384 11) (IR 0 0) (IR 1 0) (IR 0 0) (SPV_SPIRV_VERSION_WORD 1 0) 0xffffffff,
    OpD 4 (IR 1 2) (IR 14395 9) (IR 0 0) (IR 1 0) (IR 0 0) (SPV_SPIRV_VERSION_WORD 1 0) 0xffffffff,
    OpD 5 (IR 0 0) (IR 14404 5) (IR 0 0) (IR 1 0) (IR 0 0) (SPV_SPIRV_VERSION_WORD 1 0) 0xffffffff,
    OpD 6 (IR 0 0) (IR 14409 7) (IR 0 0) (IR 1 0) (IR 0 0) (SPV_SPIRV_VERSION_WORD 1 0) 0xffffffff,
    OpD 7 (IR 0 0) (IR 14416 11) (IR 0 0) (IR 1 0) (IR 0 0) (SPV_SPIRV_VERSION_WORD 1 0) 0xffffffff,
    OpD 8 (IR 0 1) (IR 14427 7) (IR 0 0) (IR 1 0) (IR 0 0) (SPV_SPIRV_VERSION_WORD 1 0) 0xffffffff,
    OpD 9 (IR 1 2) (IR 14434 9) (IR 0 0) (IR 1 0) (IR 0 0) (SPV_SPIRV_VERSION_WORD 1 0) 0xffffffff,
    OpD 0 (IR 0 0) (IR 14443 10) (IR 0 0) (IR 1 0) (IR 0 0) (SPV_SPIRV_VERSION_WORD 1 0) 0xffffffff,
    OpD 1 (IR 0 0) (IR 14453 13) (IR 0 0) (IR 1 0) (IR 0 0) (SPV_SPIRV_VERSION_WORD 1 0) 0xffffffff,
    OpD 2 (IR 0 0) (IR 14466 13) (IR 0 0) (IR 1 0) (IR 0 0) (SPV_SPIRV_VERSION_WORD 1 0) 0xffffffff,
    OpD 3 (IR 0 0) (IR 14479 11) (IR 0 0) (IR 1 0) (IR 0 0) (SPV_SPIRV_VERSION_WORD 1 0) 0xffffffff,
    OpD 0 (IR 0 0) (IR 14490 10) (IR 0 0) (IR 1 0) (IR 0 0) 0xffffffff 0xffffffff,
    OpD 1 (IR 0 0) (IR 14500 10) (IR 0 0) (IR 1 0) (IR 0 0) 0xffffffff 0xffffffff,
    OpD 2 (IR 0 0) (IR 14510 10) (IR 0 0) (IR 1 0) (IR 0 0) 0xffffffff 0xffffffff,
    OpD 3 (IR 0 0) (IR 14520 13) (IR 0 0) (IR 1 0) (IR 0 0) 0xffffffff 0xffffffff,
    OpD 4 (IR 0 0) (IR 14533 14) (IR 0 0) (IR 1 0) (IR 0 0) 0xffffffff 0xffffffff,
    OpD 5 (IR 0 0) (IR 14547 14) (IR 0 0) (IR 1 0) (IR 0 0) 0xffffffff 0xffffffff,
    OpD 6 (IR 0 0) (IR 14561 14) (IR 0 0) (IR 1 0) (IR 0 0) 0xffffffff 0xffffffff,
    OpD 7 (IR 0 0) (IR 14575 15) (IR 0 0) (IR 1 0) (IR 0 0) 0xffffffff 0xffffffff,
    OpD 8 (IR 0 0) (IR 14590 16) (IR 0 0) (IR 1 0) (IR 0 0) 0xffffffff 0xffffffff,
    OpD 9 (IR 0 0) (IR 14606 16) (IR 0 0) (IR 1 0) (IR 0 0) 0xffffffff 0xffffffff,
    OpD 10 (IR 0 0) (IR 14622 16) (IR 0 0) (IR 1 0) (IR 0 0) 0xffffffff 0xffffffff,
    OpD 1000491000 (IR 0 0) (IR 14638 19) (IR 0 0) (IR 1 0) (IR 0 0) 0xffffffff 0xffffffff,
    OpD 1000491001 (IR 0 0) (IR 14657 21) (IR 0 0) (IR 1 0) (IR 0 0) 0xffffffff 0xffffffff,
    OpD 1000491002 (IR 0 0) (IR 14678 12) (IR 0 0) (IR 1 0) (IR 0 0) 0xffffffff 0xffffffff,
    OpD 1000491003 (IR 0 0) (IR 14690 12) (IR 0 0) (IR 1 0) (IR 0 0) 0xffffffff 0xffffffff,
    OpD 0 (IR 0 0) (IR 14702 12) (IR 0 0) (IR 1 0) (IR 0 0) 0xffffffff 0xffffffff,
    OpD 1 (IR 0 0) (IR 14714 15) (IR 0 0) (IR 1 0) (IR 0 0) 0xffffffff 0xffffffff,
    OpD 4202 (IR 0 0) (IR 14729 25) (IR 0 0) (IR 1 0) (IR 0 0) 0xffffffff 0xffffffff,
    OpD 4203 (IR 0 0) (IR 14754 28) (IR 0 0) (IR 1 0) (IR 0 0) 0xffffffff 0xffffffff,
    OpD 0 (IR 0 0) (IR 14782 8) (IR 0 0) (IR 1 0) (IR 0 0) 0xffffffff 0xffffffff,
    OpD 1 (IR 0 0) (IR 14790 27) (IR 0 0) (IR 1 0) (IR 0 0) 0xffffffff 0xffffffff,
    OpD 2 (IR 0 0) (IR 14817 27) (IR 0 0) (IR 1 0) (IR 0 0) 0xffffffff 0xffffffff,
    OpD 4 (IR 0 0) (IR 14844 27) (IR 0 0) (IR 1 0) (IR 0 0) 0xffffffff 0xffffffff,
    OpD 8 (IR 0 0) (IR 14871 32) (IR 0 0) (IR 1 0) (IR 0 0) 0xffffffff 0xffffffff,
    OpD 16 (IR 0 0) (IR 14903 26) (IR 0 0) (IR 1 0) (IR 0 0) 0xffffffff 0xffffffff,
    OpD 1 (IR 0 0) (IR 14929 4) (IR 0 0) (IR 1 0) (IR 0 0) 0xffffffff 0xffffffff,
    OpD 2 (IR 0 0) (IR 14933 7) (IR 0 0) (IR 1 0) (IR 0 0) 0xffffffff 0xffffffff,
    OpD 4 (IR 0 0) (IR 14940 4) (IR 0 0) (IR 1 0) (IR 0 0) 0xffffffff 0xffffffff,
    OpD 0 (IR 0 0) (IR 14944 11) (IR 0 0) (IR 1 0) (IR 0 0) 0xffffffff 0xffffffff,
    OpD 1 (IR 0 0) (IR 14955 11) (IR 0 0) (IR 1 0) (IR 0 0) 0xffffffff 0xffffffff,
    OpD 2 (IR 0 0) (IR 14966 21) (IR 0 0) (IR 1 0) (IR 0 0) 0xffffffff 0xffffffff,
    OpD 0 (IR 0 0) (IR 14987 11) (IR 0 0) (IR 1 0) (IR 0 0) 0xffffffff 0xffffffff,
    OpD 1 (IR 0 0) (IR 14998 14) (IR 0 0) (IR 1 0) (IR 0 0) 0xffffffff 0xffffffff,
    OpD 2 (IR 0 0) (IR 15012 21) (IR 0 0) (IR 1 0) (IR 0 0) 0xffffffff 0xffffffff,
    OpD 3 (IR 0 0) (IR 15033 18) (IR 0 0) (IR 1 0) (IR 0 0) 0xffffffff 0xffffffff,
    OpD 0 (IR 0 0) (IR 13899 12) (IR 0 0) (IR 1 0) (IR 0 0) (SPV_SPIRV_VERSION_WORD 1 0) 0xffffffff,
    OpD 1 (IR 0 0) (IR 13911 8) (IR 0 0) (IR 1 0) (IR 0 0) (SPV_SPIRV_VERSION_WORD 1 0) 0xffffffff,
    OpD 2 (IR 0 0) (IR 13919 8) (IR 0 0) (IR 1 0) (IR 0 0) (SPV_SPIRV_VERSION_WORD 1 0) 0xffffffff,
    OpD 4 (IR 0 0) (IR 13927 6) (IR 0 0) (IR 1 0) (IR 0 0) (SPV_SPIRV_VERSION_WORD 1 0) 0xffffffff,
    OpD 5 (IR 0 0) (IR 13933 7) (IR 0 0) (IR 1 0) (IR 0 0) (SPV_SPIRV_VERSION_WORD 1 0) 0xffffffff,
    OpD 6 (IR 0 0) (IR 13940 11) (IR 0 0) (IR 1 0) (IR 0 0) (SPV_SPIRV_VERSION_WORD 1 0) 0xffffffff,
    OpD 7 (IR 0 0) (IR 13951 9) (IR 0 0) (IR 1 0) (IR 0 0) (SPV_SPIRV_VERSION_WORD 1 0) 0xffffffff,
    OpD 8 (IR 0 0) (IR 13960 13) (IR 0 0) (IR 1 0) (IR 0 0) (SPV_SPIRV_VERSION_WORD 1 0) 0xffffffff,
    OpD 0 (IR 0 0) (IR 13973 6) (IR 0 0) (IR 1 0) (IR 0 0) (SPV_SPIRV_VERSION_WORD 1 0) 0xffffffff,
    OpD 1 (IR 0 0) (IR 13979 10) (IR 0 0) (IR 1 0) (IR 0 0) (SPV_SPIRV_VERSION_WORD 1 0) 0xffffffff,
    OpD 2 (IR 0 0) (IR 13989 6) (IR 0 0) (IR 1 0) (IR 0 0) (SPV_SPIRV_VERSION_WORD 1 0) 0xffffffff,
    OpD 0 (IR 0 0) (IR 14030 5) (IR 0 0) (IR 1 0) (IR 0 0) (SPV_SPIRV_VERSION_WORD 1 0) 0xffffffff,
    OpD 1 (IR 0 0) (IR 14035 16) (IR 0 0) (IR 1 0) (IR 0 0) (SPV_SPIRV_VERSION_WORD 1 0) 0xffffffff,
    OpD 2 (IR 0 0) (IR 14051 14) (IR 0 0) (IR 1 0) (IR 0 0) (SPV_SPIRV_VERSION_WORD 1 0) 0xffffffff,
    OpD 3 (IR 0 0) (IR 14065 13) (IR 0 0) (IR 1 0) (IR 0 0) (SPV_SPIRV_VERSION_WORD 1 0) 0xffffffff,
    OpD 4 (IR 0 0) (IR 14078 12) (IR 0 0) (IR 1 0) (IR 0 0) (SPV_SPIRV_VERSION_WORD 1 0) 0xffffffff]"

definition core_OperandsByValue_5 :: "OperandDesc list" where
  "core_OperandsByValue_5 = [
    OpD 8 (IR 0 0) (IR 14090 17) (IR 0 0) (IR 1 0) (IR 0 0) (SPV_SPIRV_VERSION_WORD 1 0) 0xffffffff,
    OpD 16 (IR 0 0) (IR 14107 12) (IR 0 0) (IR 1 0) (IR 0 0) (SPV_SPIRV_VERSION_WORD 1 0) 0xffffffff,
    OpD 32 (IR 0 0) (IR 14119 15) (IR 0 0) (IR 1 0) (IR 0 0) (SPV_SPIRV_VERSION_WORD 1 0) 0xffffffff,
    OpD 64 (IR 0 0) (IR 14134 13) (IR 0 0) (IR 1 0) (IR 0 0) (SPV_SPIRV_VERSION_WORD 1 0) 0xffffffff,
    OpD 128 (IR 0 0) (IR 14147 15) (IR 0 0) (IR 1 0) (IR 0 0) (SPV_SPIRV_VERSION_WORD 1 0) 0xffffffff,
    OpD 256 (IR 0 0) (IR 14162 18) (IR 0 0) (IR 1 0) (IR 0 0) (SPV_SPIRV_VERSION_WORD 1 0) 0xffffffff,
    OpD 512 (IR 0 0) (IR 14180 17) (IR 0 0) (IR 1 0) (IR 0 0) (SPV_SPIRV_VERSION_WORD 1 0) 0xffffffff,
    OpD 1024 (IR 0 0) (IR 14197 21) (IR 0 0) (IR 1 0) (IR 0 0) (SPV_SPIRV_VERSION_WORD 1 0) 0xffffffff,
    OpD 2048 (IR 0 0) (IR 14218 20) (IR 0 0) (IR 1 0) (IR 0 0) (SPV_SPIRV_VERSION_WORD 1 0) 0xffffffff,
    OpD 4096 (IR 0 0) (IR 14238 20) (IR 0 0) (IR 1 0) (IR 0 0) (SPV_SPIRV_VERSION_WORD 1 0) 0xffffffff,
    OpD 8192 (IR 0 0) (IR 14258 16) (IR 0 0) (IR 1 0) (IR 0 0) (SPV_SPIRV_VERSION_WORD 1 0) 0xffffffff,
    OpD 0 (IR 0 0) (IR 14334 6) (IR 0 0) (IR 1 0) (IR 0 0) (SPV_SPIRV_VERSION_WORD 1 0) 0xffffffff,
    OpD 1 (IR 0 0) (IR 14340 5) (IR 0 0) (IR 1 0) (IR 0 0) (SPV_SPIRV_VERSION_WORD 1 0) 0xffffffff,
    OpD 2 (IR 0 0) (IR 14345 6) (IR 0 0) (IR 1 0) (IR 0 0) (SPV_SPIRV_VERSION_WORD 1 0) 0xffffffff,
    OpD 3 (IR 0 1) (IR 14384 11) (IR 0 0) (IR 1 0) (IR 0 0) (SPV_SPIRV_VERSION_WORD 1 0) 0xffffffff,
    OpD 4 (IR 1 2) (IR 14395 9) (IR 0 0) (IR 1 0) (IR 0 0) (SPV_SPIRV_VERSION_WORD 1 0) 0xffffffff,
    OpD 5 (IR 0 0) (IR 14404 5) (IR 0 0) (IR 1 0) (IR 0 0) (SPV_SPIRV_VERSION_WORD 1 0) 0xffffffff,
    OpD 6 (IR 0 0) (IR 14409 7) (IR 0 0) (IR 1 0) (IR 0 0) (SPV_SPIRV_VERSION_WORD 1 0) 0xffffffff,
    OpD 7 (IR 0 0) (IR 14416 11) (IR 0 0) (IR 1 0) (IR 0 0) (SPV_SPIRV_VERSION_WORD 1 0) 0xffffffff,
    OpD 8 (IR 0 1) (IR 14427 7) (IR 0 0) (IR 1 0) (IR 0 0) (SPV_SPIRV_VERSION_WORD 1 0) 0xffffffff,
    OpD 0 (IR 0 0) (IR 14443 10) (IR 0 0) (IR 1 0) (IR 0 0) (SPV_SPIRV_VERSION_WORD 1 0) 0xffffffff,
    OpD 1 (IR 0 0) (IR 14453 13) (IR 0 0) (IR 1 0) (IR 0 0) (SPV_SPIRV_VERSION_WORD 1 0) 0xffffffff,
    OpD 2 (IR 0 0) (IR 14466 13) (IR 0 0) (IR 1 0) (IR 0 0) (SPV_SPIRV_VERSION_WORD 1 0) 0xffffffff,
    OpD 0 (IR 0 0) (IR 15051 17) (IR 0 0) (IR 3 1) (IR 0 0) (SPV_SPIRV_VERSION_WORD 1 0) 0xffffffff,
    OpD 1 (IR 0 1) (IR 15068 7) (IR 0 0) (IR 108 2) (IR 0 0) (SPV_SPIRV_VERSION_WORD 1 0) 0xffffffff,
    OpD 2 (IR 0 0) (IR 15075 6) (IR 0 0) (IR 3 1) (IR 0 0) (SPV_SPIRV_VERSION_WORD 1 0) 0xffffffff,
    OpD 3 (IR 0 0) (IR 15081 12) (IR 0 0) (IR 3 1) (IR 0 0) (SPV_SPIRV_VERSION_WORD 1 0) (SPV_SPIRV_VERSION_WORD 1 3),
    OpD 4 (IR 0 0) (IR 15093 9) (IR 0 0) (IR 66 1) (IR 0 0) (SPV_SPIRV_VERSION_WORD 1 0) 0xffffffff,
    OpD 5 (IR 0 0) (IR 15102 9) (IR 0 0) (IR 66 1) (IR 0 0) (SPV_SPIRV_VERSION_WORD 1 0) 0xffffffff,
    OpD 6 (IR 0 1) (IR 15111 12) (IR 0 0) (IR 3 1) (IR 0 0) (SPV_SPIRV_VERSION_WORD 1 0) 0xffffffff,
    OpD 7 (IR 0 1) (IR 15123 13) (IR 0 0) (IR 66 1) (IR 0 0) (SPV_SPIRV_VERSION_WORD 1 0) 0xffffffff,
    OpD 8 (IR 0 0) (IR 15136 11) (IR 0 0) (IR 3 1) (IR 0 0) (SPV_SPIRV_VERSION_WORD 1 0) 0xffffffff,
    OpD 9 (IR 0 0) (IR 15147 11) (IR 0 0) (IR 3 1) (IR 0 0) (SPV_SPIRV_VERSION_WORD 1 0) 0xffffffff,
    OpD 10 (IR 0 0) (IR 15158 8) (IR 0 0) (IR 0 1) (IR 0 0) (SPV_SPIRV_VERSION_WORD 1 0) 0xffffffff,
    OpD 11 (IR 3 1) (IR 15192 8) (IR 0 0) (IR 1 0) (IR 0 0) (SPV_SPIRV_VERSION_WORD 1 0) 0xffffffff,
    OpD 13 (IR 0 0) (IR 15200 14) (IR 0 0) (IR 3 1) (IR 0 0) (SPV_SPIRV_VERSION_WORD 1 0) 0xffffffff,
    OpD 14 (IR 0 0) (IR 15214 5) (IR 0 0) (IR 3 1) (IR 0 0) (SPV_SPIRV_VERSION_WORD 1 0) 0xffffffff,
    OpD 15 (IR 0 0) (IR 15219 6) (IR 0 0) (IR 24 1) (IR 0 0) (SPV_SPIRV_VERSION_WORD 1 0) 0xffffffff,
    OpD 16 (IR 0 0) (IR 15225 9) (IR 0 0) (IR 3 1) (IR 0 0) (SPV_SPIRV_VERSION_WORD 1 0) 0xffffffff,
    OpD 17 (IR 0 0) (IR 15234 7) (IR 0 0) (IR 25 1) (IR 0 0) (SPV_SPIRV_VERSION_WORD 1 0) 0xffffffff,
    OpD 18 (IR 0 0) (IR 15241 10) (IR 0 0) (IR 3 1) (IR 0 0) (SPV_SPIRV_VERSION_WORD 1 0) 0xffffffff,
    OpD 19 (IR 0 0) (IR 15251 9) (IR 0 0) (IR 1 0) (IR 0 0) (SPV_SPIRV_VERSION_WORD 1 0) 0xffffffff,
    OpD 20 (IR 0 0) (IR 15260 8) (IR 0 0) (IR 1 0) (IR 0 0) (SPV_SPIRV_VERSION_WORD 1 0) 0xffffffff,
    OpD 21 (IR 0 0) (IR 15268 9) (IR 0 0) (IR 1 0) (IR 0 0) (SPV_SPIRV_VERSION_WORD 1 0) 0xffffffff,
    OpD 22 (IR 0 0) (IR 15277 9) (IR 0 0) (IR 0 1) (IR 0 0) (SPV_SPIRV_VERSION_WORD 1 0) 0xffffffff,
    OpD 23 (IR 0 0) (IR 15286 9) (IR 0 0) (IR 1 0) (IR 0 0) (SPV_SPIRV_VERSION_WORD 1 0) 0xffffffff,
    OpD 24 (IR 0 0) (IR 15295 12) (IR 0 0) (IR 1 0) (IR 0 0) (SPV_SPIRV_VERSION_WORD 1 0) 0xffffffff,
    OpD 25 (IR 0 0) (IR 15307 12) (IR 0 0) (IR 1 0) (IR 0 0) (SPV_SPIRV_VERSION_WORD 1 0) 0xffffffff,
    OpD 26 (IR 0 0) (IR 15319 8) (IR 0 0) (IR 110 2) (IR 0 0) (SPV_SPIRV_VERSION_WORD 1 0) 0xffffffff,
    OpD 27 (IR 4 1) (IR 15353 10) (IR 0 0) (IR 110 2) (IR 0 0) (SPV_SPIRV_VERSION_WORD 1 4) 0xffffffff,
    OpD 28 (IR 0 0) (IR 15363 20) (IR 0 0) (IR 0 1) (IR 0 0) (SPV_SPIRV_VERSION_WORD 1 0) 0xffffffff,
    OpD 29 (IR 0 1) (IR 15383 7) (IR 0 0) (IR 112 1) (IR 0 0) (SPV_SPIRV_VERSION_WORD 1 0) 0xffffffff,
    OpD 30 (IR 0 1) (IR 15390 9) (IR 0 0) (IR 3 1) (IR 0 0) (SPV_SPIRV_VERSION_WORD 1 0) 0xffffffff,
    OpD 31 (IR 0 1) (IR 15399 10) (IR 0 0) (IR 3 1) (IR 0 0) (SPV_SPIRV_VERSION_WORD 1 0) 0xffffffff,
    OpD 32 (IR 0 1) (IR 15409 6) (IR 0 0) (IR 3 1) (IR 0 0) (SPV_SPIRV_VERSION_WORD 1 0) 0xffffffff,
    OpD 33 (IR 0 1) (IR 15415 8) (IR 0 0) (IR 3 1) (IR 0 0) (SPV_SPIRV_VERSION_WORD 1 0) 0xffffffff,
    OpD 34 (IR 0 1) (IR 15423 14) (IR 0 0) (IR 3 1) (IR 0 0) (SPV_SPIRV_VERSION_WORD 1 0) 0xffffffff,
    OpD 35 (IR 0 1) (IR 15437 7) (IR 0 0) (IR 3 1) (IR 0 0) (SPV_SPIRV_VERSION_WORD 1 0) 0xffffffff,
    OpD 36 (IR 0 1) (IR 15444 10) (IR 0 0) (IR 113 1) (IR 0 0) (SPV_SPIRV_VERSION_WORD 1 0) 0xffffffff,
    OpD 37 (IR 0 1) (IR 15454 10) (IR 0 0) (IR 113 1) (IR 0 0) (SPV_SPIRV_VERSION_WORD 1 0) 0xffffffff,
    OpD 38 (IR 5 1) (IR 15510 14) (IR 0 0) (IR 0 1) (IR 0 0) (SPV_SPIRV_VERSION_WORD 1 0) 0xffffffff,
    OpD 39 (IR 6 1) (IR 15558 15) (IR 0 0) (IR 1 0) (IR 0 0) (SPV_SPIRV_VERSION_WORD 1 0) 0xffffffff,
    OpD 40 (IR 7 1) (IR 15608 15) (IR 0 0) (IR 114 2) (IR 0 0) (SPV_SPIRV_VERSION_WORD 1 0) 0xffffffff,
    OpD 41 (IR 8 2) (IR 15685 18) (IR 0 0) (IR 116 1) (IR 0 0) (SPV_SPIRV_VERSION_WORD 1 0) 0xffffffff,
    OpD 42 (IR 0 0) (IR 15703 14) (IR 0 0) (IR 3 1) (IR 0 0) (SPV_SPIRV_VERSION_WORD 1 0) 0xffffffff,
    OpD 43 (IR 0 1) (IR 15717 21) (IR 0 0) (IR 94 1) (IR 0 0) (SPV_SPIRV_VERSION_WORD 1 0) 0xffffffff,
    OpD 44 (IR 0 1) (IR 15738 10) (IR 0 0) (IR 0 1) (IR 0 0) (SPV_SPIRV_VERSION_WORD 1 0) 0xffffffff,
    OpD 45 (IR 0 1) (IR 15748 14) (IR 0 0) (IR 1 1) (IR 0 0) (SPV_SPIRV_VERSION_WORD 1 1) 0xffffffff,
    OpD 46 (IR 10 1) (IR 15782 12) (IR 0 0) (IR 0 1) (IR 0 0) (SPV_SPIRV_VERSION_WORD 1 2) 0xffffffff,
    OpD 47 (IR 10 1) (IR 15794 16) (IR 0 0) (IR 1 1) (IR 0 0) (SPV_SPIRV_VERSION_WORD 1 2) 0xffffffff,
    OpD 4216 (IR 0 0) (IR 15810 44) (IR 0 0) (IR 117 1) (IR 0 0) 0xffffffff 0xffffffff,
    OpD 4469 (IR 0 0) (IR 15854 13) (IR 0 0) (IR 1 0) (IR 152 1) (SPV_SPIRV_VERSION_WORD 1 4) 0xffffffff,
    OpD 4470 (IR 0 0) (IR 15867 15) (IR 0 0) (IR 1 0) (IR 152 1) (SPV_SPIRV_VERSION_WORD 1 4) 0xffffffff,
    OpD 4487 (IR 0 0) (IR 15882 18) (IR 0 0) (IR 1 0) (IR 52 1) 0xffffffff 0xffffffff,
    OpD 4488 (IR 0 0) (IR 15900 22) (IR 0 0) (IR 1 0) (IR 52 1) 0xffffffff 0xffffffff,
    OpD 4499 (IR 0 0) (IR 15922 22) (IR 0 0) (IR 1 0) (IR 54 1) 0xffffffff 0xffffffff,
    OpD 4999 (IR 0 0) (IR 15944 18) (IR 0 0) (IR 1 0) (IR 10 1) 0xffffffff 0xffffffff,
    OpD 5019 (IR 10 1) (IR 15962 32) (IR 0 0) (IR 43 1) (IR 0 0) 0xffffffff 0xffffffff,
    OpD 5020 (IR 10 1) (IR 15994 20) (IR 0 0) (IR 43 1) (IR 0 0) 0xffffffff 0xffffffff,
    OpD 5078 (IR 0 0) (IR 16014 23) (IR 0 0) (IR 43 1) (IR 0 0) 0xffffffff 0xffffffff,
    OpD 5091 (IR 10 1) (IR 16037 20) (IR 0 0) (IR 43 1) (IR 0 0) 0xffffffff 0xffffffff,
    OpD 5098 (IR 10 1) (IR 16057 25) (IR 0 0) (IR 43 1) (IR 0 0) 0xffffffff 0xffffffff,
    OpD 5099 (IR 0 0) (IR 16082 27) (IR 0 0) (IR 43 1) (IR 0 0) 0xffffffff 0xffffffff,
    OpD 5100 (IR 10 1) (IR 16109 25) (IR 0 0) (IR 43 1) (IR 0 0) 0xffffffff 0xffffffff,
    OpD 5105 (IR 0 0) (IR 16134 28) (IR 0 0) (IR 43 1) (IR 0 0) 0xffffffff 0xffffffff,
    OpD 5248 (IR 0 0) (IR 16162 19) (IR 0 0) (IR 118 1) (IR 65 1) 0xffffffff 0xffffffff,
    OpD 5250 (IR 0 0) (IR 16181 14) (IR 0 0) (IR 119 1) (IR 66 1) 0xffffffff 0xffffffff,
    OpD 5252 (IR 0 0) (IR 16195 19) (IR 0 0) (IR 93 1) (IR 0 0) 0xffffffff 0xffffffff,
    OpD 5256 (IR 0 1) (IR 16214 28) (IR 0 0) (IR 46 1) (IR 14 1) 0xffffffff 0xffffffff,
    OpD 5271 (IR 0 0) (IR 16242 16) (IR 51 1) (IR 120 2) (IR 153 2) 0xffffffff 0xffffffff,
    OpD 5272 (IR 0 0) (IR 16273 10) (IR 0 0) (IR 50 1) (IR 18 1) 0xffffffff 0xffffffff,
    OpD 5273 (IR 0 0) (IR 16283 10) (IR 0 0) (IR 50 1) (IR 18 1) 0xffffffff 0xffffffff,
    OpD 5285 (IR 0 0) (IR 16293 13) (IR 52 1) (IR 51 1) (IR 19 2) 0xffffffff 0xffffffff,
    OpD 5300 (IR 0 0) (IR 16318 11) (IR 53 1) (IR 96 1) (IR 75 1) (SPV_SPIRV_VERSION_WORD 1 5) 0xffffffff,
    OpD 5355 (IR 0 0) (IR 16343 16) (IR 54 1) (IR 2 1) (IR 0 2) (SPV_SPIRV_VERSION_WORD 1 5) 0xffffffff,
    OpD 5356 (IR 0 0) (IR 16378 15) (IR 55 1) (IR 2 1) (IR 0 2) (SPV_SPIRV_VERSION_WORD 1 5) 0xffffffff,
    OpD 5386 (IR 0 0) (IR 16411 30) (IR 0 0) (IR 122 1) (IR 0 0) 0xffffffff 0xffffffff,
    OpD 5398 (IR 0 0) (IR 16441 18) (IR 0 0) (IR 123 1) (IR 0 0) 0xffffffff 0xffffffff,
    OpD 5399 (IR 0 0) (IR 16459 16) (IR 0 0) (IR 123 1) (IR 0 0) 0xffffffff 0xffffffff,
    OpD 5400 (IR 0 0) (IR 16475 15) (IR 0 0) (IR 123 1) (IR 0 0) 0xffffffff 0xffffffff]"

definition core_OperandsByValue_6 :: "OperandDesc list" where
  "core_OperandsByValue_6 = [
    OpD 5401 (IR 0 0) (IR 16490 13) (IR 0 0) (IR 123 1) (IR 0 0) 0xffffffff 0xffffffff,
    OpD 5599 (IR 0 1) (IR 16503 14) (IR 0 0) (IR 124 1) (IR 0 0) 0xffffffff 0xffffffff,
    OpD 5602 (IR 0 0) (IR 16517 26) (IR 0 0) (IR 125 1) (IR 94 1) 0xffffffff 0xffffffff,
    OpD 5607 (IR 11 1) (IR 16543 13) (IR 0 0) (IR 126 1) (IR 0 0) 0xffffffff 0xffffffff,
    OpD 5608 (IR 0 0) (IR 16556 17) (IR 0 0) (IR 126 1) (IR 0 0) 0xffffffff 0xffffffff,
    OpD 5624 (IR 0 0) (IR 16573 27) (IR 0 0) (IR 124 1) (IR 0 0) 0xffffffff 0xffffffff,
    OpD 5625 (IR 0 1) (IR 16600 21) (IR 0 0) (IR 124 1) (IR 0 0) 0xffffffff 0xffffffff,
    OpD 5626 (IR 0 0) (IR 16621 27) (IR 0 0) (IR 124 1) (IR 0 0) 0xffffffff 0xffffffff,
    OpD 5627 (IR 0 0) (IR 16648 15) (IR 0 0) (IR 124 1) (IR 0 0) 0xffffffff 0xffffffff,
    OpD 5628 (IR 0 1) (IR 16663 26) (IR 0 0) (IR 124 1) (IR 0 0) 0xffffffff 0xffffffff,
    OpD 5634 (IR 10 1) (IR 16689 14) (IR 56 1) (IR 1 0) (IR 155 1) (SPV_SPIRV_VERSION_WORD 1 4) 0xffffffff,
    OpD 5635 (IR 11 1) (IR 16727 13) (IR 57 1) (IR 1 0) (IR 155 1) (SPV_SPIRV_VERSION_WORD 1 4) 0xffffffff,
    OpD 5636 (IR 11 1) (IR 16759 15) (IR 0 0) (IR 1 0) (IR 156 1) 0xffffffff 0xffffffff,
    OpD 5822 (IR 12 2) (IR 16774 26) (IR 0 0) (IR 127 1) (IR 0 0) 0xffffffff 0xffffffff,
    OpD 5823 (IR 14 2) (IR 16831 24) (IR 0 0) (IR 127 1) (IR 0 0) 0xffffffff 0xffffffff,
    OpD 5825 (IR 0 0) (IR 16855 14) (IR 0 0) (IR 128 1) (IR 101 1) 0xffffffff 0xffffffff,
    OpD 5826 (IR 11 1) (IR 16869 12) (IR 0 0) (IR 128 1) (IR 101 1) 0xffffffff 0xffffffff,
    OpD 5827 (IR 0 1) (IR 16881 14) (IR 0 0) (IR 128 1) (IR 101 1) 0xffffffff 0xffffffff,
    OpD 5828 (IR 0 1) (IR 16895 15) (IR 0 0) (IR 128 1) (IR 101 1) 0xffffffff 0xffffffff,
    OpD 5829 (IR 0 1) (IR 16910 22) (IR 0 0) (IR 128 1) (IR 101 1) 0xffffffff 0xffffffff,
    OpD 5830 (IR 0 0) (IR 16932 16) (IR 0 0) (IR 128 1) (IR 101 1) 0xffffffff 0xffffffff,
    OpD 5831 (IR 0 0) (IR 16948 16) (IR 0 0) (IR 128 1) (IR 101 1) 0xffffffff 0xffffffff,
    OpD 5832 (IR 0 1) (IR 16964 19) (IR 0 0) (IR 128 1) (IR 101 1) 0xffffffff 0xffffffff,
    OpD 5833 (IR 0 0) (IR 16983 20) (IR 0 0) (IR 128 1) (IR 101 1) 0xffffffff 0xffffffff,
    OpD 5834 (IR 16 2) (IR 17003 11) (IR 0 0) (IR 128 1) (IR 101 1) 0xffffffff 0xffffffff,
    OpD 5835 (IR 18 1) (IR 17056 14) (IR 0 0) (IR 128 1) (IR 101 1) 0xffffffff 0xffffffff,
    OpD 5836 (IR 0 1) (IR 17070 20) (IR 0 0) (IR 128 1) (IR 101 1) 0xffffffff 0xffffffff,
    OpD 5883 (IR 0 1) (IR 17090 16) (IR 0 0) (IR 128 1) (IR 0 0) 0xffffffff 0xffffffff,
    OpD 5884 (IR 0 1) (IR 17106 14) (IR 0 0) (IR 128 1) (IR 0 0) 0xffffffff 0xffffffff,
    OpD 5885 (IR 0 0) (IR 17120 18) (IR 0 0) (IR 128 1) (IR 0 0) 0xffffffff 0xffffffff,
    OpD 5899 (IR 0 0) (IR 17138 19) (IR 0 0) (IR 129 1) (IR 0 0) 0xffffffff 0xffffffff,
    OpD 5900 (IR 0 1) (IR 17157 15) (IR 0 0) (IR 129 1) (IR 0 0) 0xffffffff 0xffffffff,
    OpD 5901 (IR 0 0) (IR 17172 28) (IR 0 0) (IR 129 1) (IR 0 0) 0xffffffff 0xffffffff,
    OpD 5902 (IR 0 1) (IR 17200 14) (IR 0 0) (IR 129 1) (IR 0 0) 0xffffffff 0xffffffff,
    OpD 5905 (IR 0 0) (IR 17214 17) (IR 0 0) (IR 105 1) (IR 0 0) 0xffffffff 0xffffffff,
    OpD 5907 (IR 0 0) (IR 17231 25) (IR 0 0) (IR 130 1) (IR 0 0) 0xffffffff 0xffffffff,
    OpD 5909 (IR 1 2) (IR 17256 19) (IR 0 0) (IR 131 1) (IR 0 0) 0xffffffff 0xffffffff,
    OpD 5914 (IR 10 1) (IR 17275 16) (IR 0 0) (IR 132 1) (IR 0 0) 0xffffffff 0xffffffff,
    OpD 5915 (IR 10 1) (IR 17291 13) (IR 0 0) (IR 132 1) (IR 0 0) 0xffffffff 0xffffffff,
    OpD 5917 (IR 0 1) (IR 17304 24) (IR 0 0) (IR 133 1) (IR 0 0) 0xffffffff 0xffffffff,
    OpD 5918 (IR 0 1) (IR 17328 20) (IR 0 0) (IR 133 1) (IR 0 0) 0xffffffff 0xffffffff,
    OpD 5919 (IR 0 1) (IR 17348 20) (IR 0 0) (IR 133 1) (IR 0 0) 0xffffffff 0xffffffff,
    OpD 5921 (IR 0 1) (IR 17368 20) (IR 0 0) (IR 134 1) (IR 0 0) 0xffffffff 0xffffffff,
    OpD 5944 (IR 0 1) (IR 17388 19) (IR 0 0) (IR 135 1) (IR 0 0) 0xffffffff 0xffffffff,
    OpD 6080 (IR 19 2) (IR 17441 31) (IR 0 0) (IR 127 1) (IR 0 0) 0xffffffff 0xffffffff,
    OpD 6085 (IR 0 0) (IR 17472 25) (IR 0 0) (IR 124 1) (IR 0 0) 0xffffffff 0xffffffff,
    OpD 6087 (IR 0 0) (IR 17497 35) (IR 0 0) (IR 124 1) (IR 0 0) 0xffffffff 0xffffffff,
    OpD 6140 (IR 0 0) (IR 17532 18) (IR 0 0) (IR 124 1) (IR 0 0) 0xffffffff 0xffffffff,
    OpD 6151 (IR 0 0) (IR 17550 15) (IR 0 0) (IR 136 1) (IR 0 0) 0xffffffff 0xffffffff,
    OpD 6170 (IR 21 1) (IR 17596 26) (IR 0 0) (IR 137 1) (IR 0 0) 0xffffffff 0xffffffff,
    OpD 6172 (IR 0 1) (IR 17622 25) (IR 0 0) (IR 138 1) (IR 0 0) 0xffffffff 0xffffffff,
    OpD 6173 (IR 22 3) (IR 17647 30) (IR 0 0) (IR 138 1) (IR 0 0) 0xffffffff 0xffffffff,
    OpD 6175 (IR 0 0) (IR 17677 27) (IR 0 0) (IR 139 1) (IR 0 0) 0xffffffff 0xffffffff,
    OpD 6176 (IR 0 0) (IR 17704 31) (IR 0 0) (IR 139 1) (IR 0 0) 0xffffffff 0xffffffff,
    OpD 6177 (IR 0 1) (IR 17735 33) (IR 0 0) (IR 139 1) (IR 0 0) 0xffffffff 0xffffffff,
    OpD 6178 (IR 0 1) (IR 17768 30) (IR 0 0) (IR 139 1) (IR 0 0) 0xffffffff 0xffffffff,
    OpD 6179 (IR 0 1) (IR 17798 28) (IR 0 0) (IR 139 1) (IR 0 0) 0xffffffff 0xffffffff,
    OpD 6180 (IR 25 1) (IR 17860 34) (IR 0 0) (IR 139 1) (IR 0 0) 0xffffffff 0xffffffff,
    OpD 6181 (IR 0 1) (IR 17894 29) (IR 0 0) (IR 139 1) (IR 0 0) 0xffffffff 0xffffffff,
    OpD 6182 (IR 0 1) (IR 17923 32) (IR 0 0) (IR 139 1) (IR 0 0) 0xffffffff 0xffffffff,
    OpD 6183 (IR 0 0) (IR 17955 26) (IR 0 0) (IR 139 1) (IR 0 0) 0xffffffff 0xffffffff,
    OpD 6188 (IR 26 2) (IR 18020 16) (IR 0 0) (IR 140 1) (IR 0 0) 0xffffffff 0xffffffff,
    OpD 6190 (IR 28 1) (IR 18083 14) (IR 0 0) (IR 141 1) (IR 0 0) 0xffffffff 0xffffffff,
    OpD 6191 (IR 0 1) (IR 18097 28) (IR 0 0) (IR 141 1) (IR 0 0) 0xffffffff 0xffffffff,
    OpD 6442 (IR 29 2) (IR 18161 22) (IR 0 0) (IR 142 1) (IR 0 0) 0xffffffff 0xffffffff,
    OpD 6443 (IR 31 2) (IR 18220 23) (IR 0 0) (IR 142 1) (IR 0 0) 0xffffffff 0xffffffff,
    OpD 0 (IR 0 0) (IR 18243 3) (IR 0 0) (IR 72 1) (IR 0 0) (SPV_SPIRV_VERSION_WORD 1 0) 0xffffffff,
    OpD 1 (IR 0 0) (IR 18246 3) (IR 0 0) (IR 1 0) (IR 0 0) (SPV_SPIRV_VERSION_WORD 1 0) 0xffffffff,
    OpD 2 (IR 0 0) (IR 18249 3) (IR 0 0) (IR 1 0) (IR 0 0) (SPV_SPIRV_VERSION_WORD 1 0) 0xffffffff,
    OpD 3 (IR 0 0) (IR 18252 5) (IR 0 0) (IR 3 1) (IR 0 0) (SPV_SPIRV_VERSION_WORD 1 0) 0xffffffff,
    OpD 4 (IR 0 0) (IR 18257 5) (IR 0 0) (IR 71 1) (IR 0 0) (SPV_SPIRV_VERSION_WORD 1 0) 0xffffffff,
    OpD 5 (IR 0 0) (IR 18262 7) (IR 0 0) (IR 73 1) (IR 0 0) (SPV_SPIRV_VERSION_WORD 1 0) 0xffffffff,
    OpD 6 (IR 0 0) (IR 18269 12) (IR 0 0) (IR 94 1) (IR 0 0) (SPV_SPIRV_VERSION_WORD 1 0) 0xffffffff,
    OpD 4173 (IR 0 0) (IR 18281 17) (IR 0 0) (IR 143 1) (IR 0 0) 0xffffffff 0xffffffff,
    OpD 0 (IR 0 1) (IR 18298 12) (IR 0 0) (IR 69 1) (IR 0 0) (SPV_SPIRV_VERSION_WORD 1 0) 0xffffffff,
    OpD 1 (IR 0 0) (IR 18310 13) (IR 0 0) (IR 24 1) (IR 0 0) (SPV_SPIRV_VERSION_WORD 1 0) 0xffffffff,
    OpD 2 (IR 0 0) (IR 18323 22) (IR 0 0) (IR 24 1) (IR 0 0) (SPV_SPIRV_VERSION_WORD 1 0) 0xffffffff,
    OpD 3 (IR 0 0) (IR 18345 21) (IR 0 0) (IR 24 1) (IR 0 0) (SPV_SPIRV_VERSION_WORD 1 0) 0xffffffff,
    OpD 4 (IR 0 0) (IR 18366 14) (IR 0 0) (IR 24 1) (IR 0 0) (SPV_SPIRV_VERSION_WORD 1 0) 0xffffffff,
    OpD 5 (IR 0 0) (IR 18380 15) (IR 0 0) (IR 24 1) (IR 0 0) (SPV_SPIRV_VERSION_WORD 1 0) 0xffffffff,
    OpD 6 (IR 0 0) (IR 18395 19) (IR 0 0) (IR 3 1) (IR 0 0) (SPV_SPIRV_VERSION_WORD 1 0) 0xffffffff,
    OpD 7 (IR 0 0) (IR 18414 16) (IR 0 0) (IR 3 1) (IR 0 0) (SPV_SPIRV_VERSION_WORD 1 0) 0xffffffff,
    OpD 8 (IR 0 0) (IR 18430 16) (IR 0 0) (IR 3 1) (IR 0 0) (SPV_SPIRV_VERSION_WORD 1 0) 0xffffffff,
    OpD 9 (IR 0 0) (IR 18446 19) (IR 0 0) (IR 3 1) (IR 0 0) (SPV_SPIRV_VERSION_WORD 1 0) 0xffffffff,
    OpD 10 (IR 0 0) (IR 18465 10) (IR 0 0) (IR 24 1) (IR 0 0) (SPV_SPIRV_VERSION_WORD 1 0) 0xffffffff,
    OpD 11 (IR 0 0) (IR 18475 4) (IR 0 0) (IR 113 1) (IR 0 0) (SPV_SPIRV_VERSION_WORD 1 0) 0xffffffff,
    OpD 12 (IR 0 0) (IR 18479 15) (IR 0 0) (IR 3 1) (IR 0 0) (SPV_SPIRV_VERSION_WORD 1 0) 0xffffffff,
    OpD 14 (IR 0 0) (IR 18494 13) (IR 0 0) (IR 3 1) (IR 0 0) (SPV_SPIRV_VERSION_WORD 1 0) 0xffffffff,
    OpD 15 (IR 0 0) (IR 18507 10) (IR 0 0) (IR 3 1) (IR 0 0) (SPV_SPIRV_VERSION_WORD 1 0) 0xffffffff,
    OpD 16 (IR 0 0) (IR 18517 15) (IR 0 0) (IR 3 1) (IR 0 0) (SPV_SPIRV_VERSION_WORD 1 0) 0xffffffff,
    OpD 17 (IR 22 3) (IR 18532 10) (IR 0 0) (IR 1 0) (IR 0 0) (SPV_SPIRV_VERSION_WORD 1 0) 0xffffffff,
    OpD 18 (IR 22 3) (IR 18542 14) (IR 0 0) (IR 0 1) (IR 0 0) (SPV_SPIRV_VERSION_WORD 1 0) 0xffffffff,
    OpD 19 (IR 0 0) (IR 18556 12) (IR 0 0) (IR 69 1) (IR 0 0) (SPV_SPIRV_VERSION_WORD 1 0) 0xffffffff,
    OpD 20 (IR 0 0) (IR 18568 11) (IR 0 0) (IR 69 1) (IR 0 0) (SPV_SPIRV_VERSION_WORD 1 0) 0xffffffff,
    OpD 21 (IR 0 0) (IR 18579 20) (IR 0 0) (IR 69 1) (IR 0 0) (SPV_SPIRV_VERSION_WORD 1 0) 0xffffffff,
    OpD 22 (IR 0 0) (IR 18599 10) (IR 0 0) (IR 12 2) (IR 0 0) (SPV_SPIRV_VERSION_WORD 1 0) 0xffffffff,
    OpD 23 (IR 0 0) (IR 18609 24) (IR 0 0) (IR 69 1) (IR 0 0) (SPV_SPIRV_VERSION_WORD 1 0) 0xffffffff,
    OpD 24 (IR 0 0) (IR 18633 6) (IR 0 0) (IR 24 1) (IR 0 0) (SPV_SPIRV_VERSION_WORD 1 0) 0xffffffff,
    OpD 25 (IR 0 0) (IR 18639 9) (IR 0 0) (IR 24 1) (IR 0 0) (SPV_SPIRV_VERSION_WORD 1 0) 0xffffffff,
    OpD 26 (IR 0 1) (IR 18648 15) (IR 0 0) (IR 144 4) (IR 0 0) (SPV_SPIRV_VERSION_WORD 1 0) 0xffffffff]"

definition core_OperandsByValue_7 :: "OperandDesc list" where
  "core_OperandsByValue_7 = [
    OpD 27 (IR 0 0) (IR 18663 13) (IR 0 0) (IR 148 3) (IR 0 0) (SPV_SPIRV_VERSION_WORD 1 0) 0xffffffff,
    OpD 28 (IR 0 0) (IR 18676 16) (IR 0 0) (IR 69 1) (IR 0 0) (SPV_SPIRV_VERSION_WORD 1 0) 0xffffffff,
    OpD 29 (IR 0 0) (IR 18692 20) (IR 0 0) (IR 69 1) (IR 0 0) (SPV_SPIRV_VERSION_WORD 1 0) 0xffffffff,
    OpD 30 (IR 0 1) (IR 18712 12) (IR 0 0) (IR 0 1) (IR 0 0) (SPV_SPIRV_VERSION_WORD 1 0) 0xffffffff,
    OpD 31 (IR 0 0) (IR 18724 15) (IR 0 0) (IR 0 1) (IR 0 0) (SPV_SPIRV_VERSION_WORD 1 0) 0xffffffff,
    OpD 33 (IR 0 0) (IR 18739 12) (IR 0 0) (IR 0 1) (IR 0 0) (SPV_SPIRV_VERSION_WORD 1 1) 0xffffffff,
    OpD 34 (IR 0 0) (IR 18751 10) (IR 0 0) (IR 0 1) (IR 0 0) (SPV_SPIRV_VERSION_WORD 1 1) 0xffffffff,
    OpD 35 (IR 0 1) (IR 5315 13) (IR 0 0) (IR 151 1) (IR 0 0) (SPV_SPIRV_VERSION_WORD 1 1) 0xffffffff,
    OpD 36 (IR 0 1) (IR 18761 22) (IR 0 0) (IR 151 1) (IR 0 0) (SPV_SPIRV_VERSION_WORD 1 1) 0xffffffff,
    OpD 37 (IR 10 1) (IR 18783 24) (IR 0 0) (IR 151 1) (IR 0 0) (SPV_SPIRV_VERSION_WORD 1 2) 0xffffffff,
    OpD 38 (IR 33 3) (IR 18807 12) (IR 0 0) (IR 1 0) (IR 0 0) (SPV_SPIRV_VERSION_WORD 1 2) 0xffffffff,
    OpD 39 (IR 33 3) (IR 18819 16) (IR 0 0) (IR 0 1) (IR 0 0) (SPV_SPIRV_VERSION_WORD 1 2) 0xffffffff,
    OpD 4169 (IR 0 0) (IR 18835 34) (IR 0 0) (IR 143 1) (IR 0 0) 0xffffffff 0xffffffff,
    OpD 4170 (IR 0 0) (IR 18869 34) (IR 0 0) (IR 152 1) (IR 0 0) 0xffffffff 0xffffffff,
    OpD 4171 (IR 0 0) (IR 18903 36) (IR 0 0) (IR 153 1) (IR 0 0) 0xffffffff 0xffffffff,
    OpD 4421 (IR 0 0) (IR 18939 30) (IR 0 0) (IR 3 1) (IR 157 1) 0xffffffff 0xffffffff,
    OpD 4446 (IR 0 0) (IR 18969 18) (IR 0 0) (IR 154 1) (IR 45 1) 0xffffffff 0xffffffff,
    OpD 4459 (IR 0 1) (IR 9514 15) (IR 0 0) (IR 155 1) (IR 47 1) (SPV_SPIRV_VERSION_WORD 1 4) 0xffffffff,
    OpD 4460 (IR 0 1) (IR 9529 18) (IR 0 0) (IR 156 1) (IR 47 1) (SPV_SPIRV_VERSION_WORD 1 4) 0xffffffff,
    OpD 4461 (IR 0 1) (IR 9547 25) (IR 0 0) (IR 157 1) (IR 47 1) (SPV_SPIRV_VERSION_WORD 1 4) 0xffffffff,
    OpD 4462 (IR 0 1) (IR 9572 16) (IR 0 0) (IR 158 1) (IR 47 1) (SPV_SPIRV_VERSION_WORD 1 4) 0xffffffff,
    OpD 4463 (IR 0 1) (IR 9588 16) (IR 0 0) (IR 159 1) (IR 47 1) (SPV_SPIRV_VERSION_WORD 1 4) 0xffffffff,
    OpD 4489 (IR 0 0) (IR 18987 34) (IR 0 0) (IR 41 1) (IR 0 0) 0xffffffff 0xffffffff,
    OpD 4490 (IR 22 3) (IR 19021 20) (IR 0 0) (IR 41 1) (IR 0 0) 0xffffffff 0xffffffff,
    OpD 5017 (IR 0 0) (IR 19041 29) (IR 0 0) (IR 3 1) (IR 158 1) 0xffffffff 0xffffffff,
    OpD 5027 (IR 0 0) (IR 19070 23) (IR 0 0) (IR 42 1) (IR 11 1) 0xffffffff 0xffffffff,
    OpD 5069 (IR 0 0) (IR 19093 15) (IR 0 0) (IR 43 1) (IR 0 0) 0xffffffff 0xffffffff,
    OpD 5070 (IR 10 1) (IR 19108 15) (IR 0 0) (IR 43 1) (IR 0 0) 0xffffffff 0xffffffff,
    OpD 5071 (IR 10 1) (IR 19123 21) (IR 0 0) (IR 43 1) (IR 0 0) 0xffffffff 0xffffffff,
    OpD 5072 (IR 33 3) (IR 19144 24) (IR 0 0) (IR 43 1) (IR 0 0) 0xffffffff 0xffffffff,
    OpD 5073 (IR 10 1) (IR 6208 16) (IR 0 0) (IR 43 1) (IR 0 0) 0xffffffff 0xffffffff,
    OpD 5077 (IR 33 3) (IR 19168 21) (IR 0 0) (IR 43 1) (IR 0 0) 0xffffffff 0xffffffff,
    OpD 5079 (IR 0 0) (IR 19189 28) (IR 0 0) (IR 42 1) (IR 159 2) 0xffffffff 0xffffffff,
    OpD 5080 (IR 0 0) (IR 19217 26) (IR 0 0) (IR 42 1) (IR 159 2) 0xffffffff 0xffffffff,
    OpD 5081 (IR 0 0) (IR 19243 23) (IR 0 0) (IR 42 1) (IR 159 2) 0xffffffff 0xffffffff,
    OpD 5082 (IR 0 0) (IR 19266 27) (IR 0 0) (IR 42 1) (IR 159 2) 0xffffffff 0xffffffff,
    OpD 5083 (IR 0 0) (IR 19293 25) (IR 0 0) (IR 42 1) (IR 159 2) 0xffffffff 0xffffffff,
    OpD 5084 (IR 0 0) (IR 19318 22) (IR 0 0) (IR 42 1) (IR 159 2) 0xffffffff 0xffffffff,
    OpD 5088 (IR 0 0) (IR 19340 19) (IR 0 0) (IR 160 1) (IR 0 0) 0xffffffff 0xffffffff,
    OpD 5089 (IR 0 0) (IR 19359 20) (IR 0 0) (IR 160 1) (IR 0 0) 0xffffffff 0xffffffff,
    OpD 5102 (IR 36 2) (IR 19379 20) (IR 0 0) (IR 43 1) (IR 0 0) 0xffffffff 0xffffffff,
    OpD 5269 (IR 0 0) (IR 19399 15) (IR 58 1) (IR 120 2) (IR 153 2) 0xffffffff 0xffffffff,
    OpD 5270 (IR 0 1) (IR 19428 20) (IR 59 1) (IR 120 2) (IR 153 2) 0xffffffff 0xffffffff,
    OpD 5289 (IR 0 0) (IR 19467 24) (IR 60 1) (IR 161 2) (IR 72 2) 0xffffffff 0xffffffff,
    OpD 5290 (IR 0 0) (IR 19514 25) (IR 61 1) (IR 163 2) (IR 72 2) 0xffffffff 0xffffffff,
    OpD 5298 (IR 0 0) (IR 19563 19) (IR 62 1) (IR 120 2) (IR 153 2) 0xffffffff 0xffffffff,
    OpD 5366 (IR 0 0) (IR 19600 25) (IR 0 0) (IR 165 1) (IR 79 1) 0xffffffff 0xffffffff,
    OpD 5367 (IR 0 0) (IR 19625 27) (IR 0 0) (IR 165 1) (IR 79 1) 0xffffffff 0xffffffff,
    OpD 5368 (IR 0 0) (IR 19652 26) (IR 0 0) (IR 166 1) (IR 79 1) 0xffffffff 0xffffffff,
    OpD 5369 (IR 0 0) (IR 19678 28) (IR 0 0) (IR 166 1) (IR 79 1) 0xffffffff 0xffffffff,
    OpD 5370 (IR 0 0) (IR 19706 31) (IR 0 0) (IR 167 1) (IR 79 1) 0xffffffff 0xffffffff,
    OpD 5371 (IR 0 0) (IR 19737 33) (IR 0 0) (IR 167 1) (IR 79 1) 0xffffffff 0xffffffff,
    OpD 5618 (IR 0 1) (IR 19770 27) (IR 0 0) (IR 124 1) (IR 0 0) 0xffffffff 0xffffffff,
    OpD 5620 (IR 0 1) (IR 19797 21) (IR 0 0) (IR 168 1) (IR 0 0) 0xffffffff 0xffffffff,
    OpD 5621 (IR 0 1) (IR 19818 21) (IR 0 0) (IR 168 1) (IR 0 0) 0xffffffff 0xffffffff,
    OpD 5622 (IR 0 1) (IR 19839 26) (IR 0 0) (IR 168 1) (IR 0 0) 0xffffffff 0xffffffff,
    OpD 5623 (IR 0 1) (IR 19865 27) (IR 0 0) (IR 168 1) (IR 0 0) 0xffffffff 0xffffffff,
    OpD 5893 (IR 22 3) (IR 19892 22) (IR 0 0) (IR 169 1) (IR 107 1) 0xffffffff 0xffffffff,
    OpD 5894 (IR 0 1) (IR 19914 16) (IR 0 0) (IR 169 1) (IR 107 1) 0xffffffff 0xffffffff,
    OpD 5895 (IR 0 0) (IR 19930 20) (IR 0 0) (IR 169 1) (IR 107 1) 0xffffffff 0xffffffff,
    OpD 5896 (IR 0 1) (IR 19950 22) (IR 0 0) (IR 106 1) (IR 107 1) 0xffffffff 0xffffffff,
    OpD 5903 (IR 0 1) (IR 19972 28) (IR 0 0) (IR 106 1) (IR 0 0) 0xffffffff 0xffffffff,
    OpD 6023 (IR 0 0) (IR 20000 24) (IR 0 0) (IR 3 1) (IR 161 1) 0xffffffff 0xffffffff,
    OpD 6028 (IR 36 2) (IR 20024 18) (IR 0 0) (IR 170 1) (IR 0 0) 0xffffffff 0xffffffff,
    OpD 6154 (IR 0 1) (IR 20042 24) (IR 0 0) (IR 106 1) (IR 0 0) 0xffffffff 0xffffffff,
    OpD 6160 (IR 0 1) (IR 20066 26) (IR 0 0) (IR 171 1) (IR 0 0) 0xffffffff 0xffffffff,
    OpD 6417 (IR 0 1) (IR 20092 23) (IR 0 0) (IR 124 1) (IR 0 0) 0xffffffff 0xffffffff,
    OpD 6461 (IR 0 1) (IR 20115 22) (IR 0 0) (IR 172 1) (IR 0 0) 0xffffffff 0xffffffff,
    OpD 6462 (IR 10 1) (IR 20137 24) (IR 0 0) (IR 172 1) (IR 0 0) 0xffffffff 0xffffffff,
    OpD 6463 (IR 38 1) (IR 20212 27) (IR 0 0) (IR 172 1) (IR 0 0) 0xffffffff 0xffffffff,
    OpD 0 (IR 0 0) (IR 20239 7) (IR 0 0) (IR 3 1) (IR 0 0) (SPV_SPIRV_VERSION_WORD 1 0) 0xffffffff,
    OpD 1 (IR 0 0) (IR 20246 20) (IR 0 0) (IR 24 1) (IR 0 0) (SPV_SPIRV_VERSION_WORD 1 0) 0xffffffff,
    OpD 2 (IR 0 0) (IR 20266 23) (IR 0 0) (IR 24 1) (IR 0 0) (SPV_SPIRV_VERSION_WORD 1 0) 0xffffffff,
    OpD 3 (IR 0 0) (IR 4796 9) (IR 0 0) (IR 69 1) (IR 0 0) (SPV_SPIRV_VERSION_WORD 1 0) 0xffffffff,
    OpD 4 (IR 0 0) (IR 14434 9) (IR 0 0) (IR 3 1) (IR 0 0) (SPV_SPIRV_VERSION_WORD 1 0) 0xffffffff,
    OpD 5 (IR 0 0) (IR 20289 10) (IR 0 0) (IR 3 1) (IR 0 0) (SPV_SPIRV_VERSION_WORD 1 0) 0xffffffff,
    OpD 6 (IR 0 0) (IR 4563 7) (IR 0 0) (IR 0 1) (IR 0 0) (SPV_SPIRV_VERSION_WORD 1 0) 0xffffffff,
    OpD 5267 (IR 0 0) (IR 20299 7) (IR 0 0) (IR 50 1) (IR 0 0) 0xffffffff 0xffffffff,
    OpD 5268 (IR 0 0) (IR 20306 7) (IR 0 0) (IR 50 1) (IR 0 0) 0xffffffff 0xffffffff,
    OpD 5313 (IR 0 0) (IR 20313 17) (IR 63 1) (IR 54 2) (IR 0 0) 0xffffffff 0xffffffff,
    OpD 5314 (IR 0 0) (IR 20346 16) (IR 64 1) (IR 54 2) (IR 0 0) 0xffffffff 0xffffffff,
    OpD 5315 (IR 0 0) (IR 20377 10) (IR 65 1) (IR 54 2) (IR 0 0) 0xffffffff 0xffffffff,
    OpD 5316 (IR 0 0) (IR 20396 14) (IR 66 1) (IR 54 2) (IR 0 0) 0xffffffff 0xffffffff,
    OpD 5317 (IR 0 0) (IR 20423 8) (IR 67 1) (IR 54 2) (IR 0 0) 0xffffffff 0xffffffff,
    OpD 5318 (IR 0 0) (IR 20438 12) (IR 68 1) (IR 54 2) (IR 0 0) 0xffffffff 0xffffffff,
    OpD 5364 (IR 0 0) (IR 20461 8) (IR 0 0) (IR 53 1) (IR 0 0) 0xffffffff 0xffffffff,
    OpD 5365 (IR 0 0) (IR 20469 8) (IR 0 0) (IR 53 1) (IR 0 0) 0xffffffff 0xffffffff,
    OpD 0 (IR 0 0) (IR 20477 9) (IR 0 0) (IR 127 1) (IR 0 0) 0xffffffff 0xffffffff,
    OpD 1 (IR 0 0) (IR 20486 12) (IR 0 0) (IR 127 1) (IR 0 0) 0xffffffff 0xffffffff,
    OpD 0 (IR 0 0) (IR 20498 12) (IR 0 0) (IR 88 1) (IR 0 0) 0xffffffff 0xffffffff,
    OpD 4214 (IR 0 0) (IR 20510 14) (IR 0 0) (IR 117 1) (IR 0 0) 0xffffffff 0xffffffff,
    OpD 4215 (IR 0 0) (IR 20524 14) (IR 0 0) (IR 117 1) (IR 0 0) 0xffffffff 0xffffffff,
    OpD 0 (IR 0 0) (IR 20538 5) (IR 0 0) (IR 127 1) (IR 0 0) 0xffffffff 0xffffffff,
    OpD 1 (IR 0 0) (IR 20543 4) (IR 0 0) (IR 127 1) (IR 0 0) 0xffffffff 0xffffffff,
    OpD 0 (IR 0 0) (IR 14030 5) (IR 0 0) (IR 1 0) (IR 0 0) (SPV_SPIRV_VERSION_WORD 1 0) 0xffffffff,
    OpD 1 (IR 0 0) (IR 20547 7) (IR 0 0) (IR 1 0) (IR 0 0) (SPV_SPIRV_VERSION_WORD 1 0) 0xffffffff,
    OpD 2 (IR 0 0) (IR 20554 7) (IR 0 0) (IR 1 0) (IR 0 0) (SPV_SPIRV_VERSION_WORD 1 0) 0xffffffff,
    OpD 4 (IR 0 0) (IR 20561 4) (IR 0 0) (IR 1 0) (IR 0 0) (SPV_SPIRV_VERSION_WORD 1 0) 0xffffffff,
    OpD 8 (IR 0 0) (IR 20565 11) (IR 0 0) (IR 1 0) (IR 0 0) (SPV_SPIRV_VERSION_WORD 1 0) 0xffffffff,
    OpD 16 (IR 0 0) (IR 20576 5) (IR 0 0) (IR 1 0) (IR 0 0) (SPV_SPIRV_VERSION_WORD 1 0) 0xffffffff]"

definition core_OperandsByValue_8 :: "OperandDesc list" where
  "core_OperandsByValue_8 = [
    OpD 65536 (IR 0 0) (IR 20581 14) (IR 69 1) (IR 173 2) (IR 0 0) 0xffffffff 0xffffffff,
    OpD 131072 (IR 0 0) (IR 20618 13) (IR 70 1) (IR 173 2) (IR 0 0) 0xffffffff 0xffffffff,
    OpD 262144 (IR 0 0) (IR 20649 15) (IR 0 0) (IR 170 1) (IR 0 0) 0xffffffff 0xffffffff,
    OpD 0 (IR 0 0) (IR 20664 4) (IR 0 0) (IR 1 0) (IR 0 0) (SPV_SPIRV_VERSION_WORD 1 0) 0xffffffff,
    OpD 1 (IR 0 0) (IR 20668 4) (IR 0 0) (IR 1 0) (IR 0 0) (SPV_SPIRV_VERSION_WORD 1 0) 0xffffffff,
    OpD 2 (IR 0 0) (IR 20672 4) (IR 0 0) (IR 1 0) (IR 0 0) (SPV_SPIRV_VERSION_WORD 1 0) 0xffffffff,
    OpD 3 (IR 0 0) (IR 20676 4) (IR 0 0) (IR 1 0) (IR 0 0) (SPV_SPIRV_VERSION_WORD 1 0) 0xffffffff,
    OpD 1 (IR 0 0) (IR 20680 16) (IR 0 0) (IR 38 1) (IR 0 0) 0xffffffff 0xffffffff,
    OpD 2 (IR 0 0) (IR 20696 16) (IR 0 0) (IR 38 1) (IR 0 0) 0xffffffff 0xffffffff,
    OpD 4 (IR 0 0) (IR 20712 18) (IR 0 0) (IR 38 1) (IR 0 0) 0xffffffff 0xffffffff,
    OpD 8 (IR 0 0) (IR 20730 18) (IR 0 0) (IR 38 1) (IR 0 0) 0xffffffff 0xffffffff,
    OpD 0 (IR 0 0) (IR 14030 5) (IR 0 0) (IR 1 0) (IR 0 0) (SPV_SPIRV_VERSION_WORD 1 0) 0xffffffff,
    OpD 1 (IR 0 0) (IR 20748 7) (IR 0 0) (IR 1 0) (IR 0 0) (SPV_SPIRV_VERSION_WORD 1 0) 0xffffffff,
    OpD 2 (IR 0 0) (IR 20755 11) (IR 0 0) (IR 1 0) (IR 0 0) (SPV_SPIRV_VERSION_WORD 1 0) 0xffffffff,
    OpD 4 (IR 0 0) (IR 20766 5) (IR 0 0) (IR 1 0) (IR 0 0) (SPV_SPIRV_VERSION_WORD 1 0) 0xffffffff,
    OpD 8 (IR 0 0) (IR 20771 6) (IR 0 0) (IR 1 0) (IR 0 0) (SPV_SPIRV_VERSION_WORD 1 0) 0xffffffff,
    OpD 65536 (IR 0 0) (IR 13251 11) (IR 50 1) (IR 175 1) (IR 0 0) 0xffffffff 0xffffffff,
    OpD 0 (IR 0 0) (IR 20777 5) (IR 0 0) (IR 0 1) (IR 0 0) (SPV_SPIRV_VERSION_WORD 1 0) 0xffffffff,
    OpD 1 (IR 0 0) (IR 20782 5) (IR 0 0) (IR 0 1) (IR 0 0) (SPV_SPIRV_VERSION_WORD 1 0) 0xffffffff,
    OpD 2 (IR 0 0) (IR 20787 6) (IR 0 0) (IR 0 1) (IR 0 0) (SPV_SPIRV_VERSION_WORD 1 0) 0xffffffff,
    OpD 3 (IR 0 0) (IR 20793 5) (IR 0 0) (IR 0 1) (IR 0 0) (SPV_SPIRV_VERSION_WORD 1 0) 0xffffffff,
    OpD 4 (IR 0 0) (IR 20798 8) (IR 0 0) (IR 0 1) (IR 0 0) (SPV_SPIRV_VERSION_WORD 1 0) 0xffffffff,
    OpD 5 (IR 0 0) (IR 20806 10) (IR 0 0) (IR 0 1) (IR 0 0) (SPV_SPIRV_VERSION_WORD 1 0) 0xffffffff,
    OpD 6 (IR 0 0) (IR 20816 8) (IR 0 0) (IR 0 1) (IR 0 0) (SPV_SPIRV_VERSION_WORD 1 0) 0xffffffff,
    OpD 7 (IR 0 0) (IR 20824 12) (IR 0 0) (IR 0 1) (IR 0 0) (SPV_SPIRV_VERSION_WORD 1 0) 0xffffffff,
    OpD 5940 (IR 0 0) (IR 20836 20) (IR 0 0) (IR 176 1) (IR 0 0) (SPV_SPIRV_VERSION_WORD 1 0) 0xffffffff,
    OpD 0 (IR 0 0) (IR 20856 7) (IR 0 0) (IR 177 3) (IR 0 0) (SPV_SPIRV_VERSION_WORD 1 0) 0xffffffff,
    OpD 1 (IR 0 0) (IR 20863 14) (IR 0 0) (IR 177 3) (IR 0 0) (SPV_SPIRV_VERSION_WORD 1 0) 0xffffffff,
    OpD 2 (IR 0 0) (IR 20877 14) (IR 0 0) (IR 177 3) (IR 0 0) (SPV_SPIRV_VERSION_WORD 1 0) 0xffffffff,
    OpD 3 (IR 0 0) (IR 20891 16) (IR 0 0) (IR 180 1) (IR 0 0) (SPV_SPIRV_VERSION_WORD 1 3) 0xffffffff,
    OpD 6 (IR 0 0) (IR 20907 20) (IR 0 0) (IR 181 1) (IR 74 1) 0xffffffff 0xffffffff,
    OpD 7 (IR 0 0) (IR 20927 27) (IR 0 0) (IR 181 1) (IR 74 1) 0xffffffff 0xffffffff,
    OpD 8 (IR 0 0) (IR 20954 27) (IR 0 0) (IR 181 1) (IR 74 1) 0xffffffff 0xffffffff,
    OpD 0 (IR 0 0) (IR 20981 10) (IR 0 0) (IR 140 1) (IR 0 0) 0xffffffff 0xffffffff,
    OpD 1 (IR 0 0) (IR 20991 10) (IR 0 0) (IR 140 1) (IR 0 0) 0xffffffff 0xffffffff,
    OpD 2 (IR 0 0) (IR 21001 11) (IR 0 0) (IR 140 1) (IR 0 0) 0xffffffff 0xffffffff,
    OpD 3 (IR 0 0) (IR 21012 15) (IR 0 0) (IR 140 1) (IR 0 0) 0xffffffff 0xffffffff,
    OpD 0 (IR 0 0) (IR 14030 5) (IR 0 0) (IR 1 0) (IR 0 0) (SPV_SPIRV_VERSION_WORD 1 0) 0xffffffff,
    OpD 1 (IR 10 1) (IR 21027 5) (IR 0 0) (IR 3 1) (IR 0 0) (SPV_SPIRV_VERSION_WORD 1 0) 0xffffffff,
    OpD 2 (IR 10 1) (IR 21032 4) (IR 0 0) (IR 1 0) (IR 0 0) (SPV_SPIRV_VERSION_WORD 1 0) 0xffffffff,
    OpD 4 (IR 36 2) (IR 21036 5) (IR 0 0) (IR 1 0) (IR 0 0) (SPV_SPIRV_VERSION_WORD 1 0) 0xffffffff,
    OpD 8 (IR 10 1) (IR 21041 12) (IR 0 0) (IR 1 0) (IR 0 0) (SPV_SPIRV_VERSION_WORD 1 0) 0xffffffff,
    OpD 16 (IR 10 1) (IR 15437 7) (IR 0 0) (IR 182 1) (IR 0 0) (SPV_SPIRV_VERSION_WORD 1 0) 0xffffffff,
    OpD 32 (IR 10 1) (IR 21053 13) (IR 0 0) (IR 182 1) (IR 0 0) (SPV_SPIRV_VERSION_WORD 1 0) 0xffffffff,
    OpD 64 (IR 10 1) (IR 15234 7) (IR 0 0) (IR 1 0) (IR 0 0) (SPV_SPIRV_VERSION_WORD 1 0) 0xffffffff,
    OpD 128 (IR 10 1) (IR 8347 7) (IR 0 0) (IR 183 1) (IR 0 0) (SPV_SPIRV_VERSION_WORD 1 0) 0xffffffff,
    OpD 256 (IR 4 1) (IR 21066 19) (IR 71 1) (IR 184 1) (IR 77 1) (SPV_SPIRV_VERSION_WORD 1 5) 0xffffffff,
    OpD 512 (IR 4 1) (IR 21107 17) (IR 72 1) (IR 184 1) (IR 77 1) (SPV_SPIRV_VERSION_WORD 1 5) 0xffffffff,
    OpD 1024 (IR 0 0) (IR 21144 16) (IR 73 1) (IR 184 1) (IR 77 1) (SPV_SPIRV_VERSION_WORD 1 5) 0xffffffff,
    OpD 2048 (IR 0 0) (IR 21179 14) (IR 74 1) (IR 184 1) (IR 77 1) (SPV_SPIRV_VERSION_WORD 1 5) 0xffffffff,
    OpD 4096 (IR 0 0) (IR 21210 11) (IR 0 0) (IR 1 0) (IR 0 0) (SPV_SPIRV_VERSION_WORD 1 4) 0xffffffff,
    OpD 8192 (IR 0 0) (IR 21221 11) (IR 0 0) (IR 1 0) (IR 0 0) (SPV_SPIRV_VERSION_WORD 1 4) 0xffffffff,
    OpD 16384 (IR 0 0) (IR 21232 12) (IR 0 0) (IR 1 0) (IR 0 0) (SPV_SPIRV_VERSION_WORD 1 6) 0xffffffff,
    OpD 65536 (IR 10 1) (IR 21244 8) (IR 0 0) (IR 1 0) (IR 0 0) (SPV_SPIRV_VERSION_WORD 1 0) 0xffffffff,
    OpD 0 (IR 0 0) (IR 21252 10) (IR 0 0) (IR 1 0) (IR 0 0) (SPV_SPIRV_VERSION_WORD 1 0) 0xffffffff,
    OpD 1 (IR 0 0) (IR 21262 11) (IR 0 0) (IR 1 0) (IR 0 0) (SPV_SPIRV_VERSION_WORD 1 0) 0xffffffff,
    OpD 2 (IR 0 0) (IR 21273 10) (IR 0 0) (IR 1 0) (IR 0 0) (SPV_SPIRV_VERSION_WORD 1 0) 0xffffffff,
    OpD 3 (IR 0 0) (IR 21283 11) (IR 0 0) (IR 1 0) (IR 0 0) (SPV_SPIRV_VERSION_WORD 1 0) 0xffffffff,
    OpD 4 (IR 0 0) (IR 21294 14) (IR 0 0) (IR 1 0) (IR 0 0) (SPV_SPIRV_VERSION_WORD 1 0) 0xffffffff,
    OpD 5 (IR 0 0) (IR 21308 14) (IR 0 0) (IR 1 0) (IR 0 0) (SPV_SPIRV_VERSION_WORD 1 0) 0xffffffff,
    OpD 6 (IR 0 0) (IR 21322 15) (IR 0 0) (IR 1 0) (IR 0 0) (SPV_SPIRV_VERSION_WORD 1 0) 0xffffffff,
    OpD 7 (IR 0 0) (IR 21337 11) (IR 0 0) (IR 1 0) (IR 0 0) (SPV_SPIRV_VERSION_WORD 1 0) 0xffffffff,
    OpD 8 (IR 0 0) (IR 21348 12) (IR 0 0) (IR 1 0) (IR 0 0) (SPV_SPIRV_VERSION_WORD 1 0) 0xffffffff,
    OpD 9 (IR 0 0) (IR 21360 12) (IR 0 0) (IR 1 0) (IR 0 0) (SPV_SPIRV_VERSION_WORD 1 0) 0xffffffff,
    OpD 10 (IR 0 0) (IR 21372 13) (IR 0 0) (IR 1 0) (IR 0 0) (SPV_SPIRV_VERSION_WORD 1 0) 0xffffffff,
    OpD 11 (IR 0 0) (IR 21385 14) (IR 0 0) (IR 1 0) (IR 0 0) (SPV_SPIRV_VERSION_WORD 1 0) 0xffffffff,
    OpD 12 (IR 0 0) (IR 21399 14) (IR 0 0) (IR 1 0) (IR 0 0) (SPV_SPIRV_VERSION_WORD 1 0) 0xffffffff,
    OpD 13 (IR 0 0) (IR 21413 10) (IR 0 0) (IR 1 0) (IR 0 0) (SPV_SPIRV_VERSION_WORD 1 0) 0xffffffff,
    OpD 14 (IR 0 0) (IR 13927 6) (IR 0 0) (IR 1 0) (IR 0 0) (SPV_SPIRV_VERSION_WORD 1 0) 0xffffffff,
    OpD 15 (IR 0 0) (IR 21423 11) (IR 0 0) (IR 1 0) (IR 0 0) (SPV_SPIRV_VERSION_WORD 1 0) 0xffffffff,
    OpD 16 (IR 0 0) (IR 21434 17) (IR 0 0) (IR 1 0) (IR 0 0) (SPV_SPIRV_VERSION_WORD 1 0) 0xffffffff,
    OpD 17 (IR 0 0) (IR 21451 16) (IR 0 0) (IR 1 0) (IR 0 0) (SPV_SPIRV_VERSION_WORD 1 0) 0xffffffff,
    OpD 19 (IR 0 0) (IR 21467 20) (IR 0 0) (IR 1 0) (IR 0 0) (SPV_SPIRV_VERSION_WORD 1 0) 0xffffffff,
    OpD 20 (IR 0 0) (IR 21487 20) (IR 0 0) (IR 1 0) (IR 0 0) (SPV_SPIRV_VERSION_WORD 1 0) 0xffffffff,
    OpD 21 (IR 0 0) (IR 21507 20) (IR 0 0) (IR 1 0) (IR 0 0) (SPV_SPIRV_VERSION_WORD 1 0) 0xffffffff,
    OpD 22 (IR 0 0) (IR 21527 19) (IR 0 0) (IR 1 0) (IR 0 0) (SPV_SPIRV_VERSION_WORD 1 0) 0xffffffff,
    OpD 23 (IR 0 0) (IR 21546 19) (IR 0 0) (IR 1 0) (IR 0 0) (SPV_SPIRV_VERSION_WORD 1 0) 0xffffffff,
    OpD 24 (IR 0 0) (IR 21565 19) (IR 0 0) (IR 1 0) (IR 0 0) (SPV_SPIRV_VERSION_WORD 1 0) 0xffffffff,
    OpD 25 (IR 0 0) (IR 21584 16) (IR 0 0) (IR 1 0) (IR 0 0) (SPV_SPIRV_VERSION_WORD 1 0) 0xffffffff,
    OpD 26 (IR 0 0) (IR 21600 16) (IR 0 0) (IR 1 0) (IR 0 0) (SPV_SPIRV_VERSION_WORD 1 0) 0xffffffff,
    OpD 0 (IR 0 0) (IR 21616 2) (IR 0 0) (IR 1 0) (IR 0 0) (SPV_SPIRV_VERSION_WORD 1 0) 0xffffffff,
    OpD 1 (IR 0 0) (IR 21618 2) (IR 0 0) (IR 1 0) (IR 0 0) (SPV_SPIRV_VERSION_WORD 1 0) 0xffffffff,
    OpD 2 (IR 0 0) (IR 21620 3) (IR 0 0) (IR 1 0) (IR 0 0) (SPV_SPIRV_VERSION_WORD 1 0) 0xffffffff,
    OpD 3 (IR 0 0) (IR 21623 3) (IR 0 0) (IR 1 0) (IR 0 0) (SPV_SPIRV_VERSION_WORD 1 0) 0xffffffff,
    OpD 4 (IR 0 0) (IR 21626 4) (IR 0 0) (IR 1 0) (IR 0 0) (SPV_SPIRV_VERSION_WORD 1 0) 0xffffffff,
    OpD 5 (IR 0 0) (IR 21630 5) (IR 0 0) (IR 1 0) (IR 0 0) (SPV_SPIRV_VERSION_WORD 1 0) 0xffffffff,
    OpD 6 (IR 0 0) (IR 21635 5) (IR 0 0) (IR 1 0) (IR 0 0) (SPV_SPIRV_VERSION_WORD 1 0) 0xffffffff,
    OpD 7 (IR 0 0) (IR 21640 5) (IR 0 0) (IR 1 0) (IR 0 0) (SPV_SPIRV_VERSION_WORD 1 0) 0xffffffff,
    OpD 8 (IR 0 0) (IR 21645 10) (IR 0 0) (IR 1 0) (IR 0 0) (SPV_SPIRV_VERSION_WORD 1 0) 0xffffffff,
    OpD 9 (IR 0 0) (IR 21655 10) (IR 0 0) (IR 1 0) (IR 0 0) (SPV_SPIRV_VERSION_WORD 1 0) 0xffffffff,
    OpD 10 (IR 0 0) (IR 21665 3) (IR 0 0) (IR 1 0) (IR 0 0) (SPV_SPIRV_VERSION_WORD 1 0) 0xffffffff,
    OpD 11 (IR 0 0) (IR 21668 4) (IR 0 0) (IR 1 0) (IR 0 0) (SPV_SPIRV_VERSION_WORD 1 0) 0xffffffff,
    OpD 12 (IR 0 0) (IR 21672 5) (IR 0 0) (IR 1 0) (IR 0 0) (SPV_SPIRV_VERSION_WORD 1 0) 0xffffffff,
    OpD 13 (IR 0 0) (IR 21677 6) (IR 0 0) (IR 1 0) (IR 0 0) (SPV_SPIRV_VERSION_WORD 1 0) 0xffffffff,
    OpD 14 (IR 0 0) (IR 21683 13) (IR 0 0) (IR 1 0) (IR 0 0) (SPV_SPIRV_VERSION_WORD 1 0) 0xffffffff,
    OpD 15 (IR 0 0) (IR 21696 5) (IR 0 0) (IR 1 0) (IR 0 0) (SPV_SPIRV_VERSION_WORD 1 0) 0xffffffff,
    OpD 16 (IR 0 0) (IR 21701 6) (IR 0 0) (IR 1 0) (IR 0 0) (SPV_SPIRV_VERSION_WORD 1 0) 0xffffffff,
    OpD 17 (IR 0 0) (IR 21707 6) (IR 0 0) (IR 1 0) (IR 0 0) (SPV_SPIRV_VERSION_WORD 1 0) 0xffffffff,
    OpD 18 (IR 0 0) (IR 21713 6) (IR 0 0) (IR 1 0) (IR 0 0) (SPV_SPIRV_VERSION_WORD 1 0) 0xffffffff,
    OpD 19 (IR 0 0) (IR 21719 5) (IR 0 0) (IR 1 0) (IR 0 0) (SPV_SPIRV_VERSION_WORD 1 0) 0xffffffff]"

definition core_OperandsByValue_9 :: "OperandDesc list" where
  "core_OperandsByValue_9 = [
    OpD 0 (IR 0 0) (IR 21724 27) (IR 0 0) (IR 141 1) (IR 0 0) 0xffffffff 0xffffffff,
    OpD 1 (IR 0 0) (IR 21751 23) (IR 0 0) (IR 141 1) (IR 0 0) 0xffffffff 0xffffffff,
    OpD 0 (IR 0 0) (IR 21774 7) (IR 0 0) (IR 0 1) (IR 0 0) (SPV_SPIRV_VERSION_WORD 1 0) 0xffffffff,
    OpD 1 (IR 0 0) (IR 21781 11) (IR 0 0) (IR 0 1) (IR 0 0) (SPV_SPIRV_VERSION_WORD 1 0) 0xffffffff,
    OpD 2 (IR 0 0) (IR 21792 14) (IR 0 0) (IR 0 1) (IR 0 0) (SPV_SPIRV_VERSION_WORD 1 0) 0xffffffff,
    OpD 0 (IR 0 0) (IR 14030 5) (IR 0 0) (IR 1 0) (IR 0 0) (SPV_SPIRV_VERSION_WORD 1 0) 0xffffffff,
    OpD 1 (IR 0 0) (IR 21806 12) (IR 0 0) (IR 0 1) (IR 0 0) (SPV_SPIRV_VERSION_WORD 1 0) 0xffffffff,
    OpD 0 (IR 0 0) (IR 14030 5) (IR 0 0) (IR 1 0) (IR 0 0) (SPV_SPIRV_VERSION_WORD 1 0) 0xffffffff,
    OpD 1 (IR 0 0) (IR 21818 13) (IR 0 0) (IR 1 0) (IR 0 0) (SPV_SPIRV_VERSION_WORD 1 0) 0xffffffff,
    OpD 0 (IR 0 0) (IR 21831 7) (IR 0 0) (IR 116 1) (IR 0 0) (SPV_SPIRV_VERSION_WORD 1 0) 0xffffffff,
    OpD 1 (IR 0 0) (IR 21838 7) (IR 0 0) (IR 116 1) (IR 0 0) (SPV_SPIRV_VERSION_WORD 1 0) 0xffffffff,
    OpD 2 (IR 0 0) (IR 21845 12) (IR 0 0) (IR 116 1) (IR 162 1) 0xffffffff 0xffffffff,
    OpD 0 (IR 0 0) (IR 21857 14) (IR 0 0) (IR 142 1) (IR 0 0) 0xffffffff 0xffffffff,
    OpD 1 (IR 0 0) (IR 21871 12) (IR 0 0) (IR 142 1) (IR 0 0) 0xffffffff 0xffffffff,
    OpD 2 (IR 0 0) (IR 21883 15) (IR 0 0) (IR 142 1) (IR 0 0) 0xffffffff 0xffffffff,
    OpD 3 (IR 0 0) (IR 21898 25) (IR 0 0) (IR 142 1) (IR 0 0) 0xffffffff 0xffffffff,
    OpD 4 (IR 0 0) (IR 21923 17) (IR 0 0) (IR 142 1) (IR 0 0) 0xffffffff 0xffffffff,
    OpD 0 (IR 0 0) (IR 14030 5) (IR 0 0) (IR 1 0) (IR 0 0) (SPV_SPIRV_VERSION_WORD 1 0) 0xffffffff,
    OpD 1 (IR 0 0) (IR 21940 7) (IR 0 0) (IR 1 0) (IR 0 0) (SPV_SPIRV_VERSION_WORD 1 0) 0xffffffff,
    OpD 2 (IR 0 0) (IR 21947 11) (IR 0 0) (IR 1 0) (IR 0 0) (SPV_SPIRV_VERSION_WORD 1 0) 0xffffffff,
    OpD 4 (IR 0 0) (IR 21958 19) (IR 0 0) (IR 1 0) (IR 0 0) (SPV_SPIRV_VERSION_WORD 1 1) 0xffffffff,
    OpD 8 (IR 0 1) (IR 21977 17) (IR 0 0) (IR 1 0) (IR 0 0) (SPV_SPIRV_VERSION_WORD 1 1) 0xffffffff,
    OpD 16 (IR 0 1) (IR 21994 14) (IR 0 0) (IR 1 0) (IR 0 0) (SPV_SPIRV_VERSION_WORD 1 4) 0xffffffff,
    OpD 32 (IR 0 1) (IR 22008 14) (IR 0 0) (IR 1 0) (IR 0 0) (SPV_SPIRV_VERSION_WORD 1 4) 0xffffffff,
    OpD 64 (IR 0 1) (IR 22022 18) (IR 0 0) (IR 1 0) (IR 0 0) (SPV_SPIRV_VERSION_WORD 1 4) 0xffffffff,
    OpD 128 (IR 0 1) (IR 22040 10) (IR 0 0) (IR 1 0) (IR 0 0) (SPV_SPIRV_VERSION_WORD 1 4) 0xffffffff,
    OpD 256 (IR 0 1) (IR 22050 13) (IR 0 0) (IR 1 0) (IR 0 0) (SPV_SPIRV_VERSION_WORD 1 4) 0xffffffff,
    OpD 65536 (IR 0 1) (IR 17304 24) (IR 0 0) (IR 185 1) (IR 0 0) 0xffffffff 0xffffffff,
    OpD 131072 (IR 0 1) (IR 17328 20) (IR 0 0) (IR 185 1) (IR 0 0) 0xffffffff 0xffffffff,
    OpD 262144 (IR 0 1) (IR 22063 21) (IR 0 0) (IR 185 1) (IR 0 0) 0xffffffff 0xffffffff,
    OpD 524288 (IR 0 1) (IR 17348 20) (IR 0 0) (IR 185 1) (IR 0 0) 0xffffffff 0xffffffff,
    OpD 1048576 (IR 0 1) (IR 22084 18) (IR 0 0) (IR 185 1) (IR 0 0) 0xffffffff 0xffffffff,
    OpD 2097152 (IR 0 1) (IR 22102 21) (IR 0 0) (IR 185 1) (IR 0 0) 0xffffffff 0xffffffff,
    OpD 4194304 (IR 0 1) (IR 22123 26) (IR 0 0) (IR 185 1) (IR 0 0) 0xffffffff 0xffffffff,
    OpD 8388608 (IR 0 0) (IR 22149 14) (IR 0 0) (IR 185 1) (IR 0 0) 0xffffffff 0xffffffff,
    OpD 16777216 (IR 0 1) (IR 22163 15) (IR 0 0) (IR 185 1) (IR 0 0) 0xffffffff 0xffffffff,
    OpD 33554432 (IR 0 1) (IR 22178 26) (IR 0 0) (IR 185 1) (IR 0 0) 0xffffffff 0xffffffff,
    OpD 0 (IR 0 0) (IR 14030 5) (IR 0 0) (IR 1 0) (IR 0 0) 0xffffffff 0xffffffff,
    OpD 1 (IR 0 0) (IR 22204 29) (IR 0 0) (IR 1 0) (IR 0 0) 0xffffffff 0xffffffff,
    OpD 2 (IR 0 0) (IR 22233 29) (IR 0 0) (IR 1 0) (IR 0 0) 0xffffffff 0xffffffff,
    OpD 4 (IR 0 0) (IR 22262 21) (IR 0 0) (IR 1 0) (IR 0 0) 0xffffffff 0xffffffff,
    OpD 8 (IR 0 0) (IR 22283 26) (IR 0 0) (IR 1 0) (IR 0 0) 0xffffffff 0xffffffff,
    OpD 16 (IR 0 0) (IR 22309 23) (IR 0 0) (IR 1 0) (IR 0 0) 0xffffffff 0xffffffff,
    OpD 32 (IR 0 0) (IR 22332 23) (IR 0 0) (IR 1 0) (IR 0 0) 0xffffffff 0xffffffff,
    OpD 64 (IR 0 0) (IR 22355 23) (IR 0 0) (IR 1 0) (IR 0 0) 0xffffffff 0xffffffff,
    OpD 128 (IR 0 0) (IR 22378 23) (IR 0 0) (IR 1 0) (IR 0 0) 0xffffffff 0xffffffff,
    OpD 256 (IR 0 0) (IR 22401 17) (IR 0 0) (IR 1 0) (IR 0 0) 0xffffffff 0xffffffff,
    OpD 512 (IR 0 0) (IR 22418 17) (IR 0 0) (IR 1 0) (IR 0 0) 0xffffffff 0xffffffff,
    OpD 1024 (IR 0 0) (IR 22435 26) (IR 0 0) (IR 1 0) (IR 0 0) 0xffffffff 0xffffffff,
    OpD 2048 (IR 0 0) (IR 22461 26) (IR 0 0) (IR 1 0) (IR 0 0) 0xffffffff 0xffffffff,
    OpD 4096 (IR 0 0) (IR 22487 27) (IR 0 0) (IR 1 0) (IR 0 0) 0xffffffff 0xffffffff,
    OpD 8192 (IR 0 0) (IR 22514 27) (IR 0 0) (IR 1 0) (IR 0 0) 0xffffffff 0xffffffff,
    OpD 0 (IR 0 0) (IR 14030 5) (IR 0 0) (IR 1 0) (IR 0 0) (SPV_SPIRV_VERSION_WORD 1 0) 0xffffffff,
    OpD 1 (IR 0 0) (IR 15268 9) (IR 0 0) (IR 1 0) (IR 0 0) (SPV_SPIRV_VERSION_WORD 1 0) 0xffffffff,
    OpD 2 (IR 0 1) (IR 22541 8) (IR 0 0) (IR 1 0) (IR 0 0) (SPV_SPIRV_VERSION_WORD 1 0) 0xffffffff,
    OpD 4 (IR 0 0) (IR 21232 12) (IR 0 0) (IR 1 0) (IR 0 0) (SPV_SPIRV_VERSION_WORD 1 0) 0xffffffff,
    OpD 8 (IR 4 1) (IR 22549 21) (IR 75 1) (IR 184 1) (IR 77 1) (SPV_SPIRV_VERSION_WORD 1 5) 0xffffffff,
    OpD 16 (IR 4 1) (IR 22594 19) (IR 76 1) (IR 184 1) (IR 77 1) (SPV_SPIRV_VERSION_WORD 1 5) 0xffffffff,
    OpD 32 (IR 0 0) (IR 22635 18) (IR 77 1) (IR 184 1) (IR 77 1) (SPV_SPIRV_VERSION_WORD 1 5) 0xffffffff,
    OpD 65536 (IR 10 1) (IR 22674 20) (IR 0 0) (IR 132 1) (IR 112 1) 0xffffffff 0xffffffff,
    OpD 131072 (IR 10 1) (IR 22694 17) (IR 0 0) (IR 132 1) (IR 112 1) 0xffffffff 0xffffffff,
    OpD 0 (IR 0 0) (IR 22711 7) (IR 0 0) (IR 3 1) (IR 0 0) (SPV_SPIRV_VERSION_WORD 1 0) 0xffffffff,
    OpD 1 (IR 0 0) (IR 22718 8) (IR 0 0) (IR 3 1) (IR 0 0) (SPV_SPIRV_VERSION_WORD 1 0) 0xffffffff,
    OpD 2 (IR 0 0) (IR 22726 7) (IR 0 0) (IR 0 1) (IR 0 0) (SPV_SPIRV_VERSION_WORD 1 0) 0xffffffff,
    OpD 3 (IR 0 0) (IR 22733 7) (IR 78 1) (IR 184 1) (IR 77 1) (SPV_SPIRV_VERSION_WORD 1 5) 0xffffffff,
    OpD 0 (IR 0 0) (IR 22750 8) (IR 79 1) (IR 1 0) (IR 0 0) (SPV_SPIRV_VERSION_WORD 1 0) 0xffffffff,
    OpD 2 (IR 0 0) (IR 22758 8) (IR 0 0) (IR 1 0) (IR 0 0) (SPV_SPIRV_VERSION_WORD 1 0) 0xffffffff,
    OpD 4 (IR 0 0) (IR 22766 8) (IR 0 0) (IR 1 0) (IR 0 0) (SPV_SPIRV_VERSION_WORD 1 0) 0xffffffff,
    OpD 8 (IR 0 0) (IR 22774 15) (IR 0 0) (IR 1 0) (IR 0 0) (SPV_SPIRV_VERSION_WORD 1 0) 0xffffffff,
    OpD 16 (IR 0 0) (IR 22789 23) (IR 0 0) (IR 1 0) (IR 0 0) (SPV_SPIRV_VERSION_WORD 1 0) 0xffffffff,
    OpD 64 (IR 0 0) (IR 22812 14) (IR 0 0) (IR 3 1) (IR 0 0) (SPV_SPIRV_VERSION_WORD 1 0) 0xffffffff,
    OpD 128 (IR 0 0) (IR 22826 15) (IR 0 0) (IR 1 0) (IR 0 0) (SPV_SPIRV_VERSION_WORD 1 0) 0xffffffff,
    OpD 256 (IR 0 0) (IR 22841 16) (IR 0 0) (IR 1 0) (IR 0 0) (SPV_SPIRV_VERSION_WORD 1 0) 0xffffffff,
    OpD 512 (IR 0 0) (IR 22857 21) (IR 0 0) (IR 1 0) (IR 0 0) (SPV_SPIRV_VERSION_WORD 1 0) 0xffffffff,
    OpD 1024 (IR 0 0) (IR 22878 20) (IR 0 0) (IR 82 1) (IR 0 0) (SPV_SPIRV_VERSION_WORD 1 0) 0xffffffff,
    OpD 2048 (IR 0 0) (IR 22898 12) (IR 0 0) (IR 1 0) (IR 0 0) (SPV_SPIRV_VERSION_WORD 1 0) 0xffffffff,
    OpD 4096 (IR 0 0) (IR 22910 13) (IR 80 1) (IR 184 1) (IR 77 1) (SPV_SPIRV_VERSION_WORD 1 5) 0xffffffff,
    OpD 8192 (IR 0 0) (IR 22939 14) (IR 81 1) (IR 184 1) (IR 77 1) (SPV_SPIRV_VERSION_WORD 1 5) 0xffffffff,
    OpD 16384 (IR 0 0) (IR 22970 12) (IR 82 1) (IR 184 1) (IR 77 1) (SPV_SPIRV_VERSION_WORD 1 5) 0xffffffff,
    OpD 32768 (IR 0 0) (IR 15268 9) (IR 0 0) (IR 184 1) (IR 77 1) (SPV_SPIRV_VERSION_WORD 1 5) 0xffffffff,
    OpD 0 (IR 0 0) (IR 22997 10) (IR 0 0) (IR 172 1) (IR 0 0) 0xffffffff 0xffffffff,
    OpD 0 (IR 0 0) (IR 23007 5) (IR 0 0) (IR 186 1) (IR 0 0) 0xffffffff 0xffffffff,
    OpD 1 (IR 0 0) (IR 23012 4) (IR 0 0) (IR 186 1) (IR 0 0) 0xffffffff 0xffffffff,
    OpD 2 (IR 0 0) (IR 23016 9) (IR 0 0) (IR 186 1) (IR 0 0) 0xffffffff 0xffffffff,
    OpD 3 (IR 0 0) (IR 23025 8) (IR 0 0) (IR 186 1) (IR 0 0) 0xffffffff 0xffffffff,
    OpD 0 (IR 0 0) (IR 23033 25) (IR 83 1) (IR 1 0) (IR 121 1) (SPV_SPIRV_VERSION_WORD 1 6) 0xffffffff,
    OpD 0 (IR 0 0) (IR 23086 4) (IR 0 0) (IR 186 1) (IR 0 0) 0xffffffff 0xffffffff,
    OpD 1 (IR 0 0) (IR 23090 9) (IR 0 0) (IR 186 1) (IR 0 0) 0xffffffff 0xffffffff,
    OpD 2 (IR 0 0) (IR 23099 4) (IR 0 0) (IR 186 1) (IR 0 0) 0xffffffff 0xffffffff,
    OpD 3 (IR 0 0) (IR 23103 9) (IR 0 0) (IR 186 1) (IR 0 0) 0xffffffff 0xffffffff,
    OpD 4 (IR 0 0) (IR 23112 8) (IR 0 0) (IR 186 1) (IR 0 0) 0xffffffff 0xffffffff,
    OpD 5 (IR 0 0) (IR 23120 12) (IR 0 0) (IR 186 1) (IR 0 0) 0xffffffff 0xffffffff,
    OpD 6 (IR 0 0) (IR 23132 9) (IR 0 0) (IR 186 1) (IR 0 0) 0xffffffff 0xffffffff,
    OpD 7 (IR 0 0) (IR 23141 13) (IR 0 0) (IR 186 1) (IR 0 0) 0xffffffff 0xffffffff,
    OpD 0 (IR 0 0) (IR 14030 5) (IR 0 0) (IR 1 0) (IR 0 0) (SPV_SPIRV_VERSION_WORD 1 0) 0xffffffff,
    OpD 1 (IR 0 0) (IR 23154 25) (IR 0 0) (IR 187 1) (IR 0 0) 0xffffffff 0xffffffff,
    OpD 2 (IR 0 0) (IR 23179 23) (IR 0 0) (IR 187 1) (IR 0 0) 0xffffffff 0xffffffff,
    OpD 0 (IR 0 0) (IR 14782 8) (IR 0 0) (IR 84 2) (IR 0 0) 0xffffffff 0xffffffff,
    OpD 1 (IR 0 0) (IR 23202 10) (IR 0 0) (IR 84 2) (IR 0 0) 0xffffffff 0xffffffff,
    OpD 2 (IR 0 0) (IR 23212 12) (IR 0 0) (IR 84 2) (IR 0 0) 0xffffffff 0xffffffff]"

definition core_OperandsByValue_10 :: "OperandDesc list" where
  "core_OperandsByValue_10 = [
    OpD 4 (IR 0 0) (IR 23224 23) (IR 0 0) (IR 84 2) (IR 0 0) 0xffffffff 0xffffffff,
    OpD 8 (IR 0 0) (IR 23247 24) (IR 0 0) (IR 84 2) (IR 0 0) 0xffffffff 0xffffffff,
    OpD 16 (IR 0 0) (IR 23271 27) (IR 0 0) (IR 84 2) (IR 0 0) 0xffffffff 0xffffffff,
    OpD 32 (IR 0 0) (IR 23298 28) (IR 0 0) (IR 84 2) (IR 0 0) 0xffffffff 0xffffffff,
    OpD 64 (IR 0 0) (IR 23326 14) (IR 0 0) (IR 84 2) (IR 0 0) 0xffffffff 0xffffffff,
    OpD 128 (IR 0 0) (IR 23340 16) (IR 0 0) (IR 84 2) (IR 0 0) 0xffffffff 0xffffffff,
    OpD 256 (IR 0 0) (IR 23356 17) (IR 84 1) (IR 188 1) (IR 0 0) 0xffffffff 0xffffffff,
    OpD 512 (IR 0 0) (IR 23397 13) (IR 0 0) (IR 188 1) (IR 0 0) 0xffffffff 0xffffffff,
    OpD 1024 (IR 0 0) (IR 23410 30) (IR 0 0) (IR 189 1) (IR 0 0) 0xffffffff 0xffffffff,
    OpD 0 (IR 0 0) (IR 23440 41) (IR 0 0) (IR 190 1) (IR 0 0) 0xffffffff 0xffffffff,
    OpD 1 (IR 0 0) (IR 23481 37) (IR 0 0) (IR 190 1) (IR 0 0) 0xffffffff 0xffffffff,
    OpD 0 (IR 0 0) (IR 23518 37) (IR 0 0) (IR 190 1) (IR 0 0) 0xffffffff 0xffffffff,
    OpD 1 (IR 0 0) (IR 23555 41) (IR 0 0) (IR 190 1) (IR 0 0) 0xffffffff 0xffffffff,
    OpD 2 (IR 0 0) (IR 23596 42) (IR 0 0) (IR 190 1) (IR 0 0) 0xffffffff 0xffffffff,
    OpD 0 (IR 0 0) (IR 23638 33) (IR 0 0) (IR 190 1) (IR 0 0) 0xffffffff 0xffffffff,
    OpD 1 (IR 0 0) (IR 23671 33) (IR 0 0) (IR 190 1) (IR 0 0) 0xffffffff 0xffffffff,
    OpD 0 (IR 0 0) (IR 14030 5) (IR 0 0) (IR 1 0) (IR 0 0) (SPV_SPIRV_VERSION_WORD 1 0) 0xffffffff,
    OpD 1 (IR 0 0) (IR 23704 12) (IR 0 0) (IR 1 0) (IR 0 0) (SPV_SPIRV_VERSION_WORD 1 0) 0xffffffff,
    OpD 2 (IR 0 0) (IR 23716 6) (IR 0 0) (IR 1 0) (IR 0 0) (SPV_SPIRV_VERSION_WORD 1 0) 0xffffffff,
    OpD 3 (IR 0 0) (IR 23722 7) (IR 0 0) (IR 1 0) (IR 0 0) (SPV_SPIRV_VERSION_WORD 1 0) 0xffffffff,
    OpD 4 (IR 0 0) (IR 23729 15) (IR 0 0) (IR 1 0) (IR 0 0) (SPV_SPIRV_VERSION_WORD 1 0) 0xffffffff,
    OpD 0 (IR 0 0) (IR 23744 8) (IR 0 0) (IR 1 0) (IR 0 0) (SPV_SPIRV_VERSION_WORD 1 0) 0xffffffff,
    OpD 1 (IR 0 0) (IR 23752 7) (IR 0 0) (IR 1 0) (IR 0 0) (SPV_SPIRV_VERSION_WORD 1 0) 0xffffffff,
    OpD 0 (IR 0 0) (IR 23759 8) (IR 0 0) (IR 1 0) (IR 0 0) (SPV_SPIRV_VERSION_WORD 1 0) 0xffffffff,
    OpD 1 (IR 0 0) (IR 23767 8) (IR 0 0) (IR 3 1) (IR 0 0) (SPV_SPIRV_VERSION_WORD 1 0) 0xffffffff,
    OpD 2 (IR 0 0) (IR 23775 8) (IR 0 0) (IR 3 1) (IR 0 0) (SPV_SPIRV_VERSION_WORD 1 0) 0xffffffff,
    OpD 3 (IR 0 0) (IR 23783 5) (IR 0 0) (IR 3 1) (IR 0 0) (SPV_SPIRV_VERSION_WORD 1 0) 0xffffffff,
    OpD 4 (IR 0 0) (IR 23788 6) (IR 0 0) (IR 3 1) (IR 0 0) (SPV_SPIRV_VERSION_WORD 1 0) 0xffffffff,
    OpD 5 (IR 0 0) (IR 23794 11) (IR 0 0) (IR 3 1) (IR 0 0) (SPV_SPIRV_VERSION_WORD 1 0) 0xffffffff,
    OpD 6 (IR 0 0) (IR 23805 6) (IR 0 0) (IR 191 1) (IR 0 0) (SPV_SPIRV_VERSION_WORD 1 0) 0xffffffff,
    OpD 7 (IR 0 0) (IR 23811 6) (IR 0 0) (IR 191 1) (IR 0 0) (SPV_SPIRV_VERSION_WORD 1 0) 0xffffffff,
    OpD 8 (IR 0 0) (IR 23817 13) (IR 0 0) (IR 191 1) (IR 0 0) (SPV_SPIRV_VERSION_WORD 1 0) 0xffffffff,
    OpD 9 (IR 0 0) (IR 23830 5) (IR 0 0) (IR 191 1) (IR 0 0) (SPV_SPIRV_VERSION_WORD 1 0) 0xffffffff,
    OpD 10 (IR 0 0) (IR 23835 7) (IR 0 0) (IR 191 1) (IR 0 0) (SPV_SPIRV_VERSION_WORD 1 0) 0xffffffff,
    OpD 11 (IR 0 0) (IR 23842 8) (IR 0 0) (IR 191 1) (IR 0 0) (SPV_SPIRV_VERSION_WORD 1 0) 0xffffffff,
    OpD 12 (IR 0 0) (IR 23850 5) (IR 0 0) (IR 191 1) (IR 0 0) (SPV_SPIRV_VERSION_WORD 1 0) 0xffffffff,
    OpD 13 (IR 0 0) (IR 23855 4) (IR 0 0) (IR 191 1) (IR 0 0) (SPV_SPIRV_VERSION_WORD 1 0) 0xffffffff,
    OpD 14 (IR 0 0) (IR 23859 4) (IR 0 0) (IR 191 1) (IR 0 0) (SPV_SPIRV_VERSION_WORD 1 0) 0xffffffff,
    OpD 15 (IR 0 0) (IR 23863 3) (IR 0 0) (IR 191 1) (IR 0 0) (SPV_SPIRV_VERSION_WORD 1 0) 0xffffffff,
    OpD 16 (IR 0 0) (IR 23866 12) (IR 0 0) (IR 191 1) (IR 0 0) (SPV_SPIRV_VERSION_WORD 1 0) 0xffffffff,
    OpD 17 (IR 0 0) (IR 23878 10) (IR 0 0) (IR 191 1) (IR 0 0) (SPV_SPIRV_VERSION_WORD 1 0) 0xffffffff,
    OpD 18 (IR 0 0) (IR 23888 9) (IR 0 0) (IR 191 1) (IR 0 0) (SPV_SPIRV_VERSION_WORD 1 0) 0xffffffff,
    OpD 19 (IR 0 0) (IR 23897 9) (IR 0 0) (IR 191 1) (IR 0 0) (SPV_SPIRV_VERSION_WORD 1 0) 0xffffffff,
    OpD 20 (IR 0 0) (IR 23906 8) (IR 0 0) (IR 191 1) (IR 0 0) (SPV_SPIRV_VERSION_WORD 1 0) 0xffffffff,
    OpD 21 (IR 0 0) (IR 23914 8) (IR 0 0) (IR 3 1) (IR 0 0) (SPV_SPIRV_VERSION_WORD 1 0) 0xffffffff,
    OpD 22 (IR 0 0) (IR 23922 8) (IR 0 0) (IR 3 1) (IR 0 0) (SPV_SPIRV_VERSION_WORD 1 0) 0xffffffff,
    OpD 23 (IR 0 0) (IR 23930 7) (IR 0 0) (IR 3 1) (IR 0 0) (SPV_SPIRV_VERSION_WORD 1 0) 0xffffffff,
    OpD 24 (IR 0 0) (IR 23937 5) (IR 0 0) (IR 3 1) (IR 0 0) (SPV_SPIRV_VERSION_WORD 1 0) 0xffffffff,
    OpD 25 (IR 0 0) (IR 23942 6) (IR 0 0) (IR 191 1) (IR 0 0) (SPV_SPIRV_VERSION_WORD 1 0) 0xffffffff,
    OpD 26 (IR 0 0) (IR 23948 6) (IR 0 0) (IR 191 1) (IR 0 0) (SPV_SPIRV_VERSION_WORD 1 0) 0xffffffff,
    OpD 27 (IR 0 0) (IR 23954 5) (IR 0 0) (IR 191 1) (IR 0 0) (SPV_SPIRV_VERSION_WORD 1 0) 0xffffffff,
    OpD 28 (IR 0 0) (IR 23959 5) (IR 0 0) (IR 191 1) (IR 0 0) (SPV_SPIRV_VERSION_WORD 1 0) 0xffffffff,
    OpD 29 (IR 0 0) (IR 23964 4) (IR 0 0) (IR 191 1) (IR 0 0) (SPV_SPIRV_VERSION_WORD 1 0) 0xffffffff,
    OpD 30 (IR 0 0) (IR 23968 9) (IR 0 0) (IR 3 1) (IR 0 0) (SPV_SPIRV_VERSION_WORD 1 0) 0xffffffff,
    OpD 31 (IR 0 0) (IR 23977 9) (IR 0 0) (IR 3 1) (IR 0 0) (SPV_SPIRV_VERSION_WORD 1 0) 0xffffffff,
    OpD 32 (IR 0 0) (IR 23986 8) (IR 0 0) (IR 3 1) (IR 0 0) (SPV_SPIRV_VERSION_WORD 1 0) 0xffffffff,
    OpD 33 (IR 0 0) (IR 23994 6) (IR 0 0) (IR 3 1) (IR 0 0) (SPV_SPIRV_VERSION_WORD 1 0) 0xffffffff,
    OpD 34 (IR 0 0) (IR 24000 10) (IR 0 0) (IR 191 1) (IR 0 0) (SPV_SPIRV_VERSION_WORD 1 0) 0xffffffff,
    OpD 35 (IR 0 0) (IR 24010 7) (IR 0 0) (IR 191 1) (IR 0 0) (SPV_SPIRV_VERSION_WORD 1 0) 0xffffffff,
    OpD 36 (IR 0 0) (IR 24017 7) (IR 0 0) (IR 191 1) (IR 0 0) (SPV_SPIRV_VERSION_WORD 1 0) 0xffffffff,
    OpD 37 (IR 0 0) (IR 24024 6) (IR 0 0) (IR 191 1) (IR 0 0) (SPV_SPIRV_VERSION_WORD 1 0) 0xffffffff,
    OpD 38 (IR 0 0) (IR 24030 6) (IR 0 0) (IR 191 1) (IR 0 0) (SPV_SPIRV_VERSION_WORD 1 0) 0xffffffff,
    OpD 39 (IR 0 0) (IR 24036 5) (IR 0 0) (IR 191 1) (IR 0 0) (SPV_SPIRV_VERSION_WORD 1 0) 0xffffffff,
    OpD 40 (IR 0 0) (IR 24041 6) (IR 0 0) (IR 192 1) (IR 0 0) (SPV_SPIRV_VERSION_WORD 1 0) 0xffffffff,
    OpD 41 (IR 0 0) (IR 24047 5) (IR 0 0) (IR 192 1) (IR 0 0) (SPV_SPIRV_VERSION_WORD 1 0) 0xffffffff,
    OpD 0 (IR 0 0) (IR 24052 12) (IR 0 0) (IR 1 0) (IR 0 0) (SPV_SPIRV_VERSION_WORD 1 0) 0xffffffff,
    OpD 1 (IR 0 0) (IR 24064 7) (IR 0 0) (IR 1 0) (IR 0 0) (SPV_SPIRV_VERSION_WORD 1 0) 0xffffffff,
    OpD 2 (IR 0 0) (IR 24071 10) (IR 0 0) (IR 1 0) (IR 0 0) (SPV_SPIRV_VERSION_WORD 1 0) 0xffffffff,
    OpD 3 (IR 0 0) (IR 24081 9) (IR 0 0) (IR 1 0) (IR 0 0) (SPV_SPIRV_VERSION_WORD 1 0) 0xffffffff,
    OpD 4 (IR 0 0) (IR 24090 11) (IR 0 0) (IR 1 0) (IR 0 0) (SPV_SPIRV_VERSION_WORD 1 0) 0xffffffff,
    OpD 5 (IR 0 0) (IR 24101 12) (IR 85 1) (IR 184 1) (IR 0 0) (SPV_SPIRV_VERSION_WORD 1 5) 0xffffffff,
    OpD 6 (IR 0 0) (IR 24128 14) (IR 0 0) (IR 60 1) (IR 0 0) 0xffffffff 0xffffffff,
    OpD 0 (IR 0 0) (IR 14030 5) (IR 0 0) (IR 1 0) (IR 0 0) (SPV_SPIRV_VERSION_WORD 1 0) 0xffffffff,
    OpD 1 (IR 0 0) (IR 24142 8) (IR 0 0) (IR 1 0) (IR 0 0) (SPV_SPIRV_VERSION_WORD 1 0) 0xffffffff,
    OpD 2 (IR 0 0) (IR 24150 12) (IR 0 0) (IR 1 0) (IR 0 0) (SPV_SPIRV_VERSION_WORD 1 0) 0xffffffff,
    OpD 1 (IR 0 0) (IR 24162 29) (IR 0 0) (IR 1 0) (IR 0 0) (SPV_SPIRV_VERSION_WORD 1 0) 0xffffffff,
    OpD 0 (IR 0 0) (IR 13899 12) (IR 0 0) (IR 1 0) (IR 0 0) (SPV_SPIRV_VERSION_WORD 1 0) 0xffffffff,
    OpD 1 (IR 0 0) (IR 13911 8) (IR 0 0) (IR 1 0) (IR 0 0) (SPV_SPIRV_VERSION_WORD 1 0) 0xffffffff,
    OpD 2 (IR 0 0) (IR 13919 8) (IR 0 0) (IR 1 0) (IR 0 0) (SPV_SPIRV_VERSION_WORD 1 0) 0xffffffff,
    OpD 3 (IR 0 0) (IR 13927 6) (IR 0 0) (IR 1 0) (IR 0 0) (SPV_SPIRV_VERSION_WORD 1 0) 0xffffffff,
    OpD 4 (IR 0 0) (IR 13933 7) (IR 0 0) (IR 1 0) (IR 0 0) (SPV_SPIRV_VERSION_WORD 1 0) 0xffffffff,
    OpD 5 (IR 0 0) (IR 13940 11) (IR 0 0) (IR 1 0) (IR 0 0) (SPV_SPIRV_VERSION_WORD 1 0) 0xffffffff,
    OpD 6 (IR 0 0) (IR 13951 9) (IR 0 0) (IR 1 0) (IR 0 0) (SPV_SPIRV_VERSION_WORD 1 0) 0xffffffff,
    OpD 7 (IR 0 0) (IR 13960 13) (IR 0 0) (IR 1 0) (IR 0 0) (SPV_SPIRV_VERSION_WORD 1 0) 0xffffffff,
    OpD 0 (IR 0 0) (IR 13973 6) (IR 0 0) (IR 1 0) (IR 0 0) (SPV_SPIRV_VERSION_WORD 1 0) 0xffffffff,
    OpD 1 (IR 0 0) (IR 13979 10) (IR 0 0) (IR 1 0) (IR 0 0) (SPV_SPIRV_VERSION_WORD 1 0) 0xffffffff,
    OpD 2 (IR 0 0) (IR 13989 6) (IR 0 0) (IR 1 0) (IR 0 0) (SPV_SPIRV_VERSION_WORD 1 0) 0xffffffff,
    OpD 0 (IR 0 0) (IR 13995 15) (IR 0 0) (IR 1 0) (IR 0 0) (SPV_SPIRV_VERSION_WORD 1 0) 0xffffffff,
    OpD 1 (IR 0 0) (IR 14010 20) (IR 0 0) (IR 1 0) (IR 0 0) (SPV_SPIRV_VERSION_WORD 1 0) 0xffffffff,
    OpD 0 (IR 0 0) (IR 14030 5) (IR 0 0) (IR 1 0) (IR 0 0) (SPV_SPIRV_VERSION_WORD 1 0) 0xffffffff,
    OpD 1 (IR 0 0) (IR 14035 16) (IR 0 0) (IR 1 0) (IR 0 0) (SPV_SPIRV_VERSION_WORD 1 0) 0xffffffff,
    OpD 2 (IR 0 0) (IR 14051 14) (IR 0 0) (IR 1 0) (IR 0 0) (SPV_SPIRV_VERSION_WORD 1 0) 0xffffffff,
    OpD 3 (IR 0 0) (IR 14065 13) (IR 0 0) (IR 1 0) (IR 0 0) (SPV_SPIRV_VERSION_WORD 1 0) 0xffffffff,
    OpD 4 (IR 0 0) (IR 14078 12) (IR 0 0) (IR 1 0) (IR 0 0) (SPV_SPIRV_VERSION_WORD 1 0) 0xffffffff,
    OpD 8 (IR 0 0) (IR 14090 17) (IR 0 0) (IR 1 0) (IR 0 0) (SPV_SPIRV_VERSION_WORD 1 0) 0xffffffff,
    OpD 16 (IR 0 0) (IR 14107 12) (IR 0 0) (IR 1 0) (IR 0 0) (SPV_SPIRV_VERSION_WORD 1 0) 0xffffffff,
    OpD 32 (IR 0 0) (IR 14119 15) (IR 0 0) (IR 1 0) (IR 0 0) (SPV_SPIRV_VERSION_WORD 1 0) 0xffffffff,
    OpD 64 (IR 0 0) (IR 14134 13) (IR 0 0) (IR 1 0) (IR 0 0) (SPV_SPIRV_VERSION_WORD 1 0) 0xffffffff,
    OpD 128 (IR 0 0) (IR 14147 15) (IR 0 0) (IR 1 0) (IR 0 0) (SPV_SPIRV_VERSION_WORD 1 0) 0xffffffff,
    OpD 256 (IR 0 0) (IR 14162 18) (IR 0 0) (IR 1 0) (IR 0 0) (SPV_SPIRV_VERSION_WORD 1 0) 0xffffffff]"

definition core_OperandsByValue_11 :: "OperandDesc list" where
  "core_OperandsByValue_11 = [
    OpD 512 (IR 0 0) (IR 14180 17) (IR 0 0) (IR 1 0) (IR 0 0) (SPV_SPIRV_VERSION_WORD 1 0) 0xffffffff,
    OpD 1024 (IR 0 0) (IR 14197 21) (IR 0 0) (IR 1 0) (IR 0 0) (SPV_SPIRV_VERSION_WORD 1 0) 0xffffffff,
    OpD 2048 (IR 0 0) (IR 14218 20) (IR 0 0) (IR 1 0) (IR 0 0) (SPV_SPIRV_VERSION_WORD 1 0) 0xffffffff,
    OpD 4096 (IR 0 0) (IR 14238 20) (IR 0 0) (IR 1 0) (IR 0 0) (SPV_SPIRV_VERSION_WORD 1 0) 0xffffffff,
    OpD 8192 (IR 0 0) (IR 14258 16) (IR 0 0) (IR 1 0) (IR 0 0) (SPV_SPIRV_VERSION_WORD 1 0) 0xffffffff,
    OpD 16384 (IR 0 0) (IR 14274 16) (IR 0 0) (IR 1 0) (IR 0 0) (SPV_SPIRV_VERSION_WORD 1 0) 0xffffffff,
    OpD 32768 (IR 0 0) (IR 14290 20) (IR 0 0) (IR 1 0) (IR 0 0) (SPV_SPIRV_VERSION_WORD 1 0) 0xffffffff,
    OpD 65536 (IR 0 0) (IR 14310 24) (IR 0 0) (IR 1 0) (IR 0 0) (SPV_SPIRV_VERSION_WORD 1 0) 0xffffffff,
    OpD 131072 (IR 0 0) (IR 24191 26) (IR 0 0) (IR 1 0) (IR 0 0) (SPV_SPIRV_VERSION_WORD 1 0) 0xffffffff,
    OpD 0 (IR 0 0) (IR 14334 6) (IR 0 0) (IR 1 0) (IR 0 0) (SPV_SPIRV_VERSION_WORD 1 0) 0xffffffff,
    OpD 1 (IR 0 0) (IR 14340 5) (IR 0 0) (IR 1 0) (IR 0 0) (SPV_SPIRV_VERSION_WORD 1 0) 0xffffffff,
    OpD 2 (IR 0 0) (IR 14345 6) (IR 0 0) (IR 1 0) (IR 0 0) (SPV_SPIRV_VERSION_WORD 1 0) 0xffffffff,
    OpD 3 (IR 10 1) (IR 14384 11) (IR 0 0) (IR 1 0) (IR 0 0) (SPV_SPIRV_VERSION_WORD 1 0) 0xffffffff,
    OpD 4 (IR 36 2) (IR 14395 9) (IR 0 0) (IR 1 0) (IR 0 0) (SPV_SPIRV_VERSION_WORD 1 0) 0xffffffff,
    OpD 5 (IR 0 0) (IR 14404 5) (IR 0 0) (IR 1 0) (IR 0 0) (SPV_SPIRV_VERSION_WORD 1 0) 0xffffffff,
    OpD 6 (IR 0 0) (IR 14409 7) (IR 0 0) (IR 1 0) (IR 0 0) (SPV_SPIRV_VERSION_WORD 1 0) 0xffffffff,
    OpD 7 (IR 0 0) (IR 14416 11) (IR 0 0) (IR 1 0) (IR 0 0) (SPV_SPIRV_VERSION_WORD 1 0) 0xffffffff,
    OpD 8 (IR 10 1) (IR 14427 7) (IR 0 0) (IR 1 0) (IR 0 0) (SPV_SPIRV_VERSION_WORD 1 0) 0xffffffff,
    OpD 9 (IR 36 2) (IR 14434 9) (IR 0 0) (IR 1 0) (IR 0 0) (SPV_SPIRV_VERSION_WORD 1 0) 0xffffffff,
    OpD 0 (IR 0 0) (IR 14443 10) (IR 0 0) (IR 1 0) (IR 0 0) (SPV_SPIRV_VERSION_WORD 1 0) 0xffffffff,
    OpD 1 (IR 0 0) (IR 14453 13) (IR 0 0) (IR 1 0) (IR 0 0) (SPV_SPIRV_VERSION_WORD 1 0) 0xffffffff,
    OpD 2 (IR 0 0) (IR 14466 13) (IR 0 0) (IR 1 0) (IR 0 0) (SPV_SPIRV_VERSION_WORD 1 0) 0xffffffff,
    OpD 3 (IR 0 0) (IR 14479 11) (IR 0 0) (IR 1 0) (IR 0 0) (SPV_SPIRV_VERSION_WORD 1 0) 0xffffffff,
    OpD 0 (IR 0 0) (IR 23759 8) (IR 0 0) (IR 1 0) (IR 0 0) (SPV_SPIRV_VERSION_WORD 1 0) 0xffffffff,
    OpD 1 (IR 0 0) (IR 24217 5) (IR 0 0) (IR 1 0) (IR 0 0) (SPV_SPIRV_VERSION_WORD 1 0) 0xffffffff,
    OpD 2 (IR 0 0) (IR 24222 5) (IR 0 0) (IR 1 0) (IR 0 0) (SPV_SPIRV_VERSION_WORD 1 0) 0xffffffff,
    OpD 3 (IR 0 0) (IR 24227 9) (IR 0 0) (IR 1 0) (IR 0 0) (SPV_SPIRV_VERSION_WORD 1 0) 0xffffffff,
    OpD 4 (IR 0 0) (IR 24236 11) (IR 0 0) (IR 1 0) (IR 0 0) (SPV_SPIRV_VERSION_WORD 1 0) 0xffffffff,
    OpD 5 (IR 0 0) (IR 24247 5) (IR 0 0) (IR 1 0) (IR 0 0) (SPV_SPIRV_VERSION_WORD 1 0) 0xffffffff,
    OpD 6 (IR 0 0) (IR 24252 15) (IR 0 0) (IR 1 0) (IR 0 0) (SPV_SPIRV_VERSION_WORD 1 0) 0xffffffff,
    OpD 7 (IR 0 0) (IR 24267 5) (IR 0 0) (IR 1 0) (IR 0 0) (SPV_SPIRV_VERSION_WORD 1 0) 0xffffffff,
    OpD 8 (IR 0 0) (IR 24272 7) (IR 0 0) (IR 1 0) (IR 0 0) (SPV_SPIRV_VERSION_WORD 1 0) 0xffffffff,
    OpD 9 (IR 0 0) (IR 24279 5) (IR 0 0) (IR 1 0) (IR 0 0) (SPV_SPIRV_VERSION_WORD 1 0) 0xffffffff,
    OpD 10 (IR 0 0) (IR 24284 5) (IR 0 0) (IR 1 0) (IR 0 0) (SPV_SPIRV_VERSION_WORD 1 0) 0xffffffff,
    OpD 11 (IR 0 0) (IR 24289 6) (IR 0 0) (IR 1 0) (IR 0 0) (SPV_SPIRV_VERSION_WORD 1 0) 0xffffffff,
    OpD 12 (IR 0 0) (IR 24295 4) (IR 0 0) (IR 1 0) (IR 0 0) (SPV_SPIRV_VERSION_WORD 1 0) 0xffffffff,
    OpD 13 (IR 0 0) (IR 24299 5) (IR 0 0) (IR 1 0) (IR 0 0) (SPV_SPIRV_VERSION_WORD 1 0) 0xffffffff,
    OpD 0 (IR 0 0) (IR 24304 16) (IR 0 0) (IR 1 0) (IR 0 0) (SPV_SPIRV_VERSION_WORD 1 0) 0xffffffff,
    OpD 1 (IR 0 0) (IR 24320 6) (IR 0 0) (IR 1 0) (IR 0 0) (SPV_SPIRV_VERSION_WORD 1 0) 0xffffffff,
    OpD 2 (IR 0 0) (IR 15319 8) (IR 0 0) (IR 3 1) (IR 0 0) (SPV_SPIRV_VERSION_WORD 1 0) 0xffffffff,
    OpD 3 (IR 0 0) (IR 24326 7) (IR 0 0) (IR 3 1) (IR 0 0) (SPV_SPIRV_VERSION_WORD 1 0) 0xffffffff,
    OpD 4 (IR 0 0) (IR 24071 10) (IR 0 0) (IR 1 0) (IR 0 0) (SPV_SPIRV_VERSION_WORD 1 0) 0xffffffff,
    OpD 5 (IR 0 0) (IR 24333 15) (IR 0 0) (IR 1 0) (IR 0 0) (SPV_SPIRV_VERSION_WORD 1 0) 0xffffffff,
    OpD 6 (IR 0 0) (IR 24348 8) (IR 0 0) (IR 193 2) (IR 0 0) (SPV_SPIRV_VERSION_WORD 1 0) 0xffffffff,
    OpD 7 (IR 0 0) (IR 24356 9) (IR 0 0) (IR 1 0) (IR 0 0) (SPV_SPIRV_VERSION_WORD 1 0) 0xffffffff,
    OpD 8 (IR 0 0) (IR 24365 8) (IR 0 0) (IR 195 1) (IR 0 0) (SPV_SPIRV_VERSION_WORD 1 0) 0xffffffff,
    OpD 9 (IR 0 0) (IR 24373 13) (IR 0 0) (IR 3 1) (IR 0 0) (SPV_SPIRV_VERSION_WORD 1 0) 0xffffffff,
    OpD 10 (IR 0 0) (IR 24386 14) (IR 0 0) (IR 82 1) (IR 0 0) (SPV_SPIRV_VERSION_WORD 1 0) 0xffffffff,
    OpD 11 (IR 0 0) (IR 24400 6) (IR 0 0) (IR 1 0) (IR 0 0) (SPV_SPIRV_VERSION_WORD 1 0) 0xffffffff,
    OpD 12 (IR 0 0) (IR 24406 14) (IR 0 0) (IR 3 1) (IR 163 2) (SPV_SPIRV_VERSION_WORD 1 3) 0xffffffff,
    OpD 4172 (IR 0 0) (IR 24420 13) (IR 0 0) (IR 143 1) (IR 0 0) 0xffffffff 0xffffffff,
    OpD 4491 (IR 0 0) (IR 24433 19) (IR 0 0) (IR 41 1) (IR 0 0) 0xffffffff 0xffffffff,
    OpD 5068 (IR 0 0) (IR 24452 16) (IR 0 0) (IR 43 1) (IR 0 0) 0xffffffff 0xffffffff,
    OpD 5328 (IR 0 0) (IR 24468 16) (IR 86 1) (IR 54 2) (IR 24 2) 0xffffffff 0xffffffff,
    OpD 5329 (IR 0 0) (IR 24499 24) (IR 87 1) (IR 54 2) (IR 24 2) 0xffffffff 0xffffffff,
    OpD 5338 (IR 0 0) (IR 24546 14) (IR 88 1) (IR 54 2) (IR 24 2) 0xffffffff 0xffffffff,
    OpD 5339 (IR 0 0) (IR 24573 16) (IR 89 1) (IR 54 2) (IR 24 2) 0xffffffff 0xffffffff,
    OpD 5342 (IR 0 0) (IR 24604 22) (IR 90 1) (IR 54 2) (IR 24 2) 0xffffffff 0xffffffff,
    OpD 5343 (IR 0 0) (IR 24647 22) (IR 91 1) (IR 54 2) (IR 24 2) 0xffffffff 0xffffffff,
    OpD 5349 (IR 0 0) (IR 24690 22) (IR 92 1) (IR 2 1) (IR 0 2) (SPV_SPIRV_VERSION_WORD 1 5) 0xffffffff,
    OpD 5385 (IR 0 0) (IR 24737 21) (IR 0 0) (IR 122 1) (IR 0 0) 0xffffffff 0xffffffff,
    OpD 5402 (IR 0 0) (IR 24758 24) (IR 0 0) (IR 53 1) (IR 23 1) (SPV_SPIRV_VERSION_WORD 1 4) 0xffffffff,
    OpD 5605 (IR 0 0) (IR 24782 17) (IR 0 0) (IR 196 1) (IR 94 1) 0xffffffff 0xffffffff,
    OpD 5936 (IR 0 0) (IR 24799 16) (IR 0 0) (IR 197 1) (IR 116 1) 0xffffffff 0xffffffff,
    OpD 5937 (IR 0 0) (IR 24815 14) (IR 0 0) (IR 197 1) (IR 116 1) 0xffffffff 0xffffffff,
    OpD 0 (IR 0 0) (IR 21857 14) (IR 0 0) (IR 142 1) (IR 0 0) 0xffffffff 0xffffffff,
    OpD 1 (IR 0 0) (IR 24829 18) (IR 0 0) (IR 142 1) (IR 0 0) 0xffffffff 0xffffffff,
    OpD 2 (IR 0 0) (IR 24847 15) (IR 0 0) (IR 142 1) (IR 0 0) 0xffffffff 0xffffffff,
    OpD 3 (IR 0 0) (IR 21883 15) (IR 0 0) (IR 142 1) (IR 0 0) 0xffffffff 0xffffffff,
    OpD 0 (IR 0 0) (IR 14030 5) (IR 0 0) (IR 1 0) (IR 0 0) 0xffffffff 0xffffffff,
    OpD 1 (IR 10 1) (IR 24862 11) (IR 0 0) (IR 198 1) (IR 0 0) 0xffffffff 0xffffffff,
    OpD 2 (IR 10 1) (IR 24873 11) (IR 0 0) (IR 199 1) (IR 0 0) 0xffffffff 0xffffffff,
    OpD 0 (IR 0 0) (IR 24884 10) (IR 0 0) (IR 1 0) (IR 0 0) 0xffffffff 0xffffffff,
    OpD 1 (IR 0 0) (IR 15277 9) (IR 0 0) (IR 1 0) (IR 0 0) 0xffffffff 0xffffffff,
    OpD 2 (IR 0 0) (IR 23704 12) (IR 0 0) (IR 1 0) (IR 0 0) 0xffffffff 0xffffffff,
    OpD 3 (IR 0 0) (IR 23722 7) (IR 0 0) (IR 1 0) (IR 0 0) 0xffffffff 0xffffffff,
    OpD 4 (IR 0 0) (IR 23729 15) (IR 0 0) (IR 1 0) (IR 0 0) 0xffffffff 0xffffffff,
    OpD 0 (IR 0 0) (IR 24894 8) (IR 0 0) (IR 200 1) (IR 0 0) 0xffffffff 0xffffffff,
    OpD 1 (IR 0 0) (IR 24902 15) (IR 0 0) (IR 200 1) (IR 0 0) 0xffffffff 0xffffffff,
    OpD 2 (IR 10 1) (IR 24917 20) (IR 0 0) (IR 200 1) (IR 0 0) 0xffffffff 0xffffffff,
    OpD 4 (IR 10 1) (IR 24937 24) (IR 0 0) (IR 200 1) (IR 0 0) 0xffffffff 0xffffffff,
    OpD 8 (IR 10 1) (IR 24961 22) (IR 0 0) (IR 200 1) (IR 0 0) 0xffffffff 0xffffffff,
    OpD 16 (IR 0 0) (IR 24983 21) (IR 0 0) (IR 200 1) (IR 0 0) 0xffffffff 0xffffffff]"

definition core_OperandsByValue :: "OperandDesc list" where
  "core_OperandsByValue =
     core_OperandsByValue_0 @
     core_OperandsByValue_1 @
     core_OperandsByValue_2 @
     core_OperandsByValue_3 @
     core_OperandsByValue_4 @
     core_OperandsByValue_5 @
     core_OperandsByValue_6 @
     core_OperandsByValue_7 @
     core_OperandsByValue_8 @
     core_OperandsByValue_9 @
     core_OperandsByValue_10 @
     core_OperandsByValue_11"

definition core_OperandByValueRangeForKind :: "spv_operand_type_t \<Rightarrow> IndexRange" where
  "core_OperandByValueRangeForKind type =
     (if type = SPV_OPERAND_TYPE_ACCESS_QUALIFIER then (IR 0 3)
      else if type = SPV_OPERAND_TYPE_ADDRESSING_MODEL then (IR 3 4)
      else if type = SPV_OPERAND_TYPE_BUILT_IN then (IR 7 126)
      else if type = SPV_OPERAND_TYPE_CAPABILITY then (IR 133 270)
      else if type = SPV_OPERAND_TYPE_CLDEBUG100_DEBUG_BASE_TYPE_ATTRIBUTE_ENCODING then (IR 403 8)
      else if type = SPV_OPERAND_TYPE_CLDEBUG100_DEBUG_COMPOSITE_TYPE then (IR 411 3)
      else if type = SPV_OPERAND_TYPE_CLDEBUG100_DEBUG_IMPORTED_ENTITY then (IR 414 2)
      else if type = SPV_OPERAND_TYPE_CLDEBUG100_DEBUG_INFO_FLAGS then (IR 416 19)
      else if type = SPV_OPERAND_TYPE_CLDEBUG100_DEBUG_OPERATION then (IR 435 10)
      else if type = SPV_OPERAND_TYPE_CLDEBUG100_DEBUG_TYPE_QUALIFIER then (IR 445 4)
      else if type = SPV_OPERAND_TYPE_COMPONENT_TYPE then (IR 449 15)
      else if type = SPV_OPERAND_TYPE_COOPERATIVE_MATRIX_LAYOUT then (IR 464 4)
      else if type = SPV_OPERAND_TYPE_COOPERATIVE_MATRIX_OPERANDS then (IR 468 6)
      else if type = SPV_OPERAND_TYPE_COOPERATIVE_MATRIX_REDUCE then (IR 474 3)
      else if type = SPV_OPERAND_TYPE_COOPERATIVE_MATRIX_USE then (IR 477 3)
      else if type = SPV_OPERAND_TYPE_COOPERATIVE_VECTOR_MATRIX_LAYOUT then (IR 480 4)
      else if type = SPV_OPERAND_TYPE_DEBUG_BASE_TYPE_ATTRIBUTE_ENCODING then (IR 484 8)
      else if type = SPV_OPERAND_TYPE_DEBUG_COMPOSITE_TYPE then (IR 492 3)
      else if type = SPV_OPERAND_TYPE_DEBUG_INFO_FLAGS then (IR 495 16)
      else if type = SPV_OPERAND_TYPE_DEBUG_OPERATION then (IR 511 9)
      else if type = SPV_OPERAND_TYPE_DEBUG_TYPE_QUALIFIER then (IR 520 3)
      else if type = SPV_OPERAND_TYPE_DECORATION then (IR 523 143)
      else if type = SPV_OPERAND_TYPE_DIMENSIONALITY then (IR 666 8)
      else if type = SPV_OPERAND_TYPE_EXECUTION_MODE then (IR 674 96)
      else if type = SPV_OPERAND_TYPE_EXECUTION_MODEL then (IR 770 17)
      else if type = SPV_OPERAND_TYPE_FPDENORM_MODE then (IR 787 2)
      else if type = SPV_OPERAND_TYPE_FPENCODING then (IR 789 3)
      else if type = SPV_OPERAND_TYPE_FPOPERATION_MODE then (IR 792 2)
      else if type = SPV_OPERAND_TYPE_FP_FAST_MATH_MODE then (IR 794 9)
      else if type = SPV_OPERAND_TYPE_FP_ROUNDING_MODE then (IR 803 4)
      else if type = SPV_OPERAND_TYPE_FRAGMENT_SHADING_RATE then (IR 807 4)
      else if type = SPV_OPERAND_TYPE_FUNCTION_CONTROL then (IR 811 6)
      else if type = SPV_OPERAND_TYPE_FUNCTION_PARAMETER_ATTRIBUTE then (IR 817 9)
      else if type = SPV_OPERAND_TYPE_GROUP_OPERATION then (IR 826 7)
      else if type = SPV_OPERAND_TYPE_HOST_ACCESS_QUALIFIER then (IR 833 4)
      else if type = SPV_OPERAND_TYPE_IMAGE then (IR 837 17)
      else if type = SPV_OPERAND_TYPE_IMAGE_CHANNEL_DATA_TYPE then (IR 854 26)
      else if type = SPV_OPERAND_TYPE_IMAGE_CHANNEL_ORDER then (IR 880 20)
      else if type = SPV_OPERAND_TYPE_INITIALIZATION_MODE_QUALIFIER then (IR 900 2)
      else if type = SPV_OPERAND_TYPE_KERNEL_ENQ_FLAGS then (IR 902 3)
      else if type = SPV_OPERAND_TYPE_KERNEL_PROFILING_INFO then (IR 905 2)
      else if type = SPV_OPERAND_TYPE_KERNEL_PROPERTY_FLAGS then (IR 907 2)
      else if type = SPV_OPERAND_TYPE_LINKAGE_TYPE then (IR 909 3)
      else if type = SPV_OPERAND_TYPE_LOAD_CACHE_CONTROL then (IR 912 5)
      else if type = SPV_OPERAND_TYPE_LOOP_CONTROL then (IR 917 20)
      else if type = SPV_OPERAND_TYPE_MATRIX_MULTIPLY_ACCUMULATE_OPERANDS then (IR 937 15)
      else if type = SPV_OPERAND_TYPE_MEMORY_ACCESS then (IR 952 9)
      else if type = SPV_OPERAND_TYPE_MEMORY_MODEL then (IR 961 4)
      else if type = SPV_OPERAND_TYPE_MEMORY_SEMANTICS_ID then (IR 965 15)
      else if type = SPV_OPERAND_TYPE_NAMED_MAXIMUM_NUMBER_OF_REGISTERS then (IR 980 1)
      else if type = SPV_OPERAND_TYPE_OVERFLOW_MODES then (IR 981 4)
      else if type = SPV_OPERAND_TYPE_PACKED_VECTOR_FORMAT then (IR 985 1)
      else if type = SPV_OPERAND_TYPE_QUANTIZATION_MODES then (IR 986 8)
      else if type = SPV_OPERAND_TYPE_RAW_ACCESS_CHAIN_OPERANDS then (IR 994 3)
      else if type = SPV_OPERAND_TYPE_RAY_FLAGS then (IR 997 12)
      else if type = SPV_OPERAND_TYPE_RAY_QUERY_CANDIDATE_INTERSECTION_TYPE then (IR 1009 2)
      else if type = SPV_OPERAND_TYPE_RAY_QUERY_COMMITTED_INTERSECTION_TYPE then (IR 1011 3)
      else if type = SPV_OPERAND_TYPE_RAY_QUERY_INTERSECTION then (IR 1014 2)
      else if type = SPV_OPERAND_TYPE_SAMPLER_ADDRESSING_MODE then (IR 1016 5)
      else if type = SPV_OPERAND_TYPE_SAMPLER_FILTER_MODE then (IR 1021 2)
      else if type = SPV_OPERAND_TYPE_SAMPLER_IMAGE_FORMAT then (IR 1023 42)
      else if type = SPV_OPERAND_TYPE_SCOPE_ID then (IR 1065 7)
      else if type = SPV_OPERAND_TYPE_SELECTION_CONTROL then (IR 1072 3)
      else if type = SPV_OPERAND_TYPE_SHDEBUG100_BUILD_IDENTIFIER_FLAGS then (IR 1075 1)
      else if type = SPV_OPERAND_TYPE_SHDEBUG100_DEBUG_BASE_TYPE_ATTRIBUTE_ENCODING then (IR 1076 8)
      else if type = SPV_OPERAND_TYPE_SHDEBUG100_DEBUG_COMPOSITE_TYPE then (IR 1084 3)
      else if type = SPV_OPERAND_TYPE_SHDEBUG100_DEBUG_IMPORTED_ENTITY then (IR 1087 2)
      else if type = SPV_OPERAND_TYPE_SHDEBUG100_DEBUG_INFO_FLAGS then (IR 1089 20)
      else if type = SPV_OPERAND_TYPE_SHDEBUG100_DEBUG_OPERATION then (IR 1109 10)
      else if type = SPV_OPERAND_TYPE_SHDEBUG100_DEBUG_TYPE_QUALIFIER then (IR 1119 4)
      else if type = SPV_OPERAND_TYPE_SOURCE_LANGUAGE then (IR 1123 14)
      else if type = SPV_OPERAND_TYPE_STORAGE_CLASS then (IR 1137 28)
      else if type = SPV_OPERAND_TYPE_STORE_CACHE_CONTROL then (IR 1165 4)
      else if type = SPV_OPERAND_TYPE_TENSOR_ADDRESSING_OPERANDS then (IR 1169 3)
      else if type = SPV_OPERAND_TYPE_TENSOR_CLAMP_MODE then (IR 1172 5)
      else if type = SPV_OPERAND_TYPE_TENSOR_OPERANDS then (IR 1177 6)
      else if type = SPV_OPERAND_TYPE_OPTIONAL_IMAGE then (IR 837 17)
      else if type = SPV_OPERAND_TYPE_OPTIONAL_ACCESS_QUALIFIER then (IR 0 3)
      else if type = SPV_OPERAND_TYPE_OPTIONAL_MEMORY_ACCESS then (IR 952 9)
      else if type = SPV_OPERAND_TYPE_OPTIONAL_PACKED_VECTOR_FORMAT then (IR 985 1)
      else if type = SPV_OPERAND_TYPE_OPTIONAL_COOPERATIVE_MATRIX_OPERANDS then (IR 468 6)
      else if type = SPV_OPERAND_TYPE_OPTIONAL_MATRIX_MULTIPLY_ACCUMULATE_OPERANDS then (IR 937 15)
      else if type = SPV_OPERAND_TYPE_OPTIONAL_RAW_ACCESS_CHAIN_OPERANDS then (IR 994 3)
      else if type = SPV_OPERAND_TYPE_OPTIONAL_FPENCODING then (IR 789 3)
      else if type = SPV_OPERAND_TYPE_OPTIONAL_TENSOR_OPERANDS then (IR 1177 6)
      else IR 0 0)"

section \<open>Instructions\<close>

definition core_InstructionDesc_0 :: "InstructionDesc list" where
  "core_InstructionDesc_0 = [
    InD OpNop False False (IR 0 0) (IR 25004 4) (IR 0 0) (IR 1 0) (IR 0 0) (SPV_SPIRV_VERSION_WORD 1 0) 0xffffffff,
    InD OpUndef True True (IR 39 2) (IR 25060 6) (IR 0 0) (IR 1 0) (IR 0 0) (SPV_SPIRV_VERSION_WORD 1 0) 0xffffffff,
    InD OpSourceContinued False False (IR 11 1) (IR 25066 16) (IR 0 0) (IR 1 0) (IR 0 0) (SPV_SPIRV_VERSION_WORD 1 0) 0xffffffff,
    InD OpSource False False (IR 41 4) (IR 25185 7) (IR 0 0) (IR 1 0) (IR 0 0) (SPV_SPIRV_VERSION_WORD 1 0) 0xffffffff,
    InD OpSourceExtension False False (IR 11 1) (IR 25192 16) (IR 0 0) (IR 1 0) (IR 0 0) (SPV_SPIRV_VERSION_WORD 1 0) 0xffffffff,
    InD OpName False False (IR 45 2) (IR 25208 5) (IR 0 0) (IR 1 0) (IR 0 0) (SPV_SPIRV_VERSION_WORD 1 0) 0xffffffff,
    InD OpMemberName False False (IR 47 3) (IR 25213 11) (IR 0 0) (IR 1 0) (IR 0 0) (SPV_SPIRV_VERSION_WORD 1 0) 0xffffffff,
    InD OpString True False (IR 50 2) (IR 25224 7) (IR 0 0) (IR 1 0) (IR 0 0) (SPV_SPIRV_VERSION_WORD 1 0) 0xffffffff,
    InD OpLine False False (IR 52 3) (IR 25231 5) (IR 0 0) (IR 1 0) (IR 0 0) (SPV_SPIRV_VERSION_WORD 1 0) 0xffffffff,
    InD OpExtension False False (IR 11 1) (IR 25236 10) (IR 0 0) (IR 1 0) (IR 0 0) (SPV_SPIRV_VERSION_WORD 1 0) 0xffffffff,
    InD OpExtInstImport True False (IR 50 2) (IR 25246 14) (IR 0 0) (IR 1 0) (IR 0 0) (SPV_SPIRV_VERSION_WORD 1 0) 0xffffffff,
    InD OpExtInst True True (IR 55 4) (IR 25306 8) (IR 0 0) (IR 1 0) (IR 0 0) (SPV_SPIRV_VERSION_WORD 1 0) 0xffffffff,
    InD OpMemoryModel False False (IR 59 2) (IR 25378 12) (IR 0 0) (IR 1 0) (IR 0 0) (SPV_SPIRV_VERSION_WORD 1 0) 0xffffffff,
    InD OpEntryPoint False False (IR 61 4) (IR 25452 11) (IR 0 0) (IR 1 0) (IR 0 0) (SPV_SPIRV_VERSION_WORD 1 0) 0xffffffff,
    InD OpExecutionMode False False (IR 65 2) (IR 25495 14) (IR 0 0) (IR 1 0) (IR 0 0) (SPV_SPIRV_VERSION_WORD 1 0) 0xffffffff,
    InD OpCapability False False (IR 67 1) (IR 25537 11) (IR 0 0) (IR 1 0) (IR 0 0) (SPV_SPIRV_VERSION_WORD 1 0) 0xffffffff,
    InD OpTypeVoid True False (IR 68 1) (IR 25548 9) (IR 0 0) (IR 1 0) (IR 0 0) (SPV_SPIRV_VERSION_WORD 1 0) 0xffffffff,
    InD OpTypeBool True False (IR 68 1) (IR 25557 9) (IR 0 0) (IR 1 0) (IR 0 0) (SPV_SPIRV_VERSION_WORD 1 0) 0xffffffff,
    InD OpTypeInt True False (IR 69 3) (IR 25566 8) (IR 0 0) (IR 1 0) (IR 0 0) (SPV_SPIRV_VERSION_WORD 1 0) 0xffffffff,
    InD OpTypeFloat True False (IR 72 3) (IR 25611 10) (IR 0 0) (IR 1 0) (IR 0 0) (SPV_SPIRV_VERSION_WORD 1 0) 0xffffffff,
    InD OpTypeVector True False (IR 75 3) (IR 25621 11) (IR 0 0) (IR 1 0) (IR 0 0) (SPV_SPIRV_VERSION_WORD 1 0) 0xffffffff,
    InD OpTypeMatrix True False (IR 75 3) (IR 25632 11) (IR 0 0) (IR 66 1) (IR 0 0) (SPV_SPIRV_VERSION_WORD 1 0) 0xffffffff,
    InD OpTypeImage True False (IR 78 9) (IR 25756 10) (IR 0 0) (IR 1 0) (IR 0 0) (SPV_SPIRV_VERSION_WORD 1 0) 0xffffffff,
    InD OpTypeSampler True False (IR 68 1) (IR 25766 12) (IR 0 0) (IR 1 0) (IR 0 0) (SPV_SPIRV_VERSION_WORD 1 0) 0xffffffff,
    InD OpTypeSampledImage True False (IR 87 2) (IR 25778 17) (IR 0 0) (IR 1 0) (IR 0 0) (SPV_SPIRV_VERSION_WORD 1 0) 0xffffffff,
    InD OpTypeArray True False (IR 89 3) (IR 25795 10) (IR 0 0) (IR 1 0) (IR 0 0) (SPV_SPIRV_VERSION_WORD 1 0) 0xffffffff,
    InD OpTypeRuntimeArray True False (IR 87 2) (IR 25805 17) (IR 0 0) (IR 3 1) (IR 0 0) (SPV_SPIRV_VERSION_WORD 1 0) 0xffffffff,
    InD OpTypeStruct True False (IR 92 2) (IR 25822 11) (IR 0 0) (IR 1 0) (IR 0 0) (SPV_SPIRV_VERSION_WORD 1 0) 0xffffffff,
    InD OpTypeOpaque True False (IR 50 2) (IR 25833 11) (IR 0 0) (IR 0 1) (IR 0 0) (SPV_SPIRV_VERSION_WORD 1 0) 0xffffffff,
    InD OpTypePointer True False (IR 94 3) (IR 25875 12) (IR 0 0) (IR 1 0) (IR 0 0) (SPV_SPIRV_VERSION_WORD 1 0) 0xffffffff,
    InD OpTypeFunction True False (IR 97 3) (IR 25887 13) (IR 0 0) (IR 1 0) (IR 0 0) (SPV_SPIRV_VERSION_WORD 1 0) 0xffffffff,
    InD OpTypeEvent True False (IR 68 1) (IR 25900 10) (IR 0 0) (IR 0 1) (IR 0 0) (SPV_SPIRV_VERSION_WORD 1 0) 0xffffffff,
    InD OpTypeDeviceEvent True False (IR 68 1) (IR 25910 16) (IR 0 0) (IR 74 1) (IR 0 0) (SPV_SPIRV_VERSION_WORD 1 0) 0xffffffff,
    InD OpTypeReserveId True False (IR 68 1) (IR 25926 14) (IR 0 0) (IR 75 1) (IR 0 0) (SPV_SPIRV_VERSION_WORD 1 0) 0xffffffff,
    InD OpTypeQueue True False (IR 68 1) (IR 25940 10) (IR 0 0) (IR 74 1) (IR 0 0) (SPV_SPIRV_VERSION_WORD 1 0) 0xffffffff,
    InD OpTypePipe True False (IR 100 2) (IR 25950 9) (IR 0 0) (IR 75 1) (IR 0 0) (SPV_SPIRV_VERSION_WORD 1 0) 0xffffffff,
    InD OpTypeForwardPointer False False (IR 102 2) (IR 25959 19) (IR 0 0) (IR 201 2) (IR 0 0) (SPV_SPIRV_VERSION_WORD 1 0) 0xffffffff,
    InD OpConstantTrue True True (IR 39 2) (IR 25978 13) (IR 0 0) (IR 1 0) (IR 0 0) (SPV_SPIRV_VERSION_WORD 1 0) 0xffffffff,
    InD OpConstantFalse True True (IR 39 2) (IR 25991 14) (IR 0 0) (IR 1 0) (IR 0 0) (SPV_SPIRV_VERSION_WORD 1 0) 0xffffffff,
    InD OpConstant True True (IR 104 3) (IR 15277 9) (IR 0 0) (IR 1 0) (IR 0 0) (SPV_SPIRV_VERSION_WORD 1 0) 0xffffffff,
    InD OpConstantComposite True True (IR 107 3) (IR 26043 18) (IR 0 0) (IR 1 0) (IR 0 0) (SPV_SPIRV_VERSION_WORD 1 0) 0xffffffff,
    InD OpConstantSampler True True (IR 110 5) (IR 26139 16) (IR 0 0) (IR 203 1) (IR 0 0) (SPV_SPIRV_VERSION_WORD 1 0) 0xffffffff,
    InD OpConstantNull True True (IR 39 2) (IR 26155 13) (IR 0 0) (IR 1 0) (IR 0 0) (SPV_SPIRV_VERSION_WORD 1 0) 0xffffffff,
    InD OpSpecConstantTrue True True (IR 39 2) (IR 26168 17) (IR 0 0) (IR 1 0) (IR 0 0) (SPV_SPIRV_VERSION_WORD 1 0) 0xffffffff,
    InD OpSpecConstantFalse True True (IR 39 2) (IR 26185 18) (IR 0 0) (IR 1 0) (IR 0 0) (SPV_SPIRV_VERSION_WORD 1 0) 0xffffffff,
    InD OpSpecConstant True True (IR 104 3) (IR 26203 13) (IR 0 0) (IR 1 0) (IR 0 0) (SPV_SPIRV_VERSION_WORD 1 0) 0xffffffff,
    InD OpSpecConstantComposite True True (IR 107 3) (IR 26216 22) (IR 0 0) (IR 1 0) (IR 0 0) (SPV_SPIRV_VERSION_WORD 1 0) 0xffffffff,
    InD OpSpecConstantOp True True (IR 115 3) (IR 26279 15) (IR 0 0) (IR 1 0) (IR 0 0) (SPV_SPIRV_VERSION_WORD 1 0) 0xffffffff,
    InD OpFunction True True (IR 118 4) (IR 24356 9) (IR 0 0) (IR 1 0) (IR 0 0) (SPV_SPIRV_VERSION_WORD 1 0) 0xffffffff,
    InD OpFunctionParameter True True (IR 39 2) (IR 26328 18) (IR 0 0) (IR 1 0) (IR 0 0) (SPV_SPIRV_VERSION_WORD 1 0) 0xffffffff,
    InD OpFunctionEnd False False (IR 0 0) (IR 26346 12) (IR 0 0) (IR 1 0) (IR 0 0) (SPV_SPIRV_VERSION_WORD 1 0) 0xffffffff,
    InD OpFunctionCall True True (IR 122 4) (IR 26358 13) (IR 0 0) (IR 1 0) (IR 0 0) (SPV_SPIRV_VERSION_WORD 1 0) 0xffffffff,
    InD OpVariable True True (IR 126 4) (IR 26371 9) (IR 0 0) (IR 1 0) (IR 0 0) (SPV_SPIRV_VERSION_WORD 1 0) 0xffffffff,
    InD OpImageTexelPointer True True (IR 130 5) (IR 26380 18) (IR 0 0) (IR 1 0) (IR 0 0) (SPV_SPIRV_VERSION_WORD 1 0) 0xffffffff,
    InD OpLoad True True (IR 135 4) (IR 26438 5) (IR 0 0) (IR 1 0) (IR 0 0) (SPV_SPIRV_VERSION_WORD 1 0) 0xffffffff,
    InD OpStore False False (IR 139 3) (IR 26443 6) (IR 0 0) (IR 1 0) (IR 0 0) (SPV_SPIRV_VERSION_WORD 1 0) 0xffffffff,
    InD OpCopyMemory False False (IR 142 4) (IR 26449 11) (IR 0 0) (IR 1 0) (IR 0 0) (SPV_SPIRV_VERSION_WORD 1 0) 0xffffffff,
    InD OpCopyMemorySized False False (IR 146 5) (IR 26460 16) (IR 0 0) (IR 204 2) (IR 0 0) (SPV_SPIRV_VERSION_WORD 1 0) 0xffffffff,
    InD OpAccessChain True True (IR 122 4) (IR 26476 12) (IR 0 0) (IR 1 0) (IR 0 0) (SPV_SPIRV_VERSION_WORD 1 0) 0xffffffff,
    InD OpInBoundsAccessChain True True (IR 122 4) (IR 26488 20) (IR 0 0) (IR 1 0) (IR 0 0) (SPV_SPIRV_VERSION_WORD 1 0) 0xffffffff,
    InD OpPtrAccessChain True True (IR 151 5) (IR 26508 15) (IR 0 0) (IR 206 4) (IR 0 0) (SPV_SPIRV_VERSION_WORD 1 0) 0xffffffff,
    InD OpArrayLength True True (IR 156 4) (IR 26523 12) (IR 0 0) (IR 3 1) (IR 0 0) (SPV_SPIRV_VERSION_WORD 1 0) 0xffffffff,
    InD OpGenericPtrMemSemantics True True (IR 160 3) (IR 26535 23) (IR 0 0) (IR 0 1) (IR 0 0) (SPV_SPIRV_VERSION_WORD 1 0) 0xffffffff,
    InD OpInBoundsPtrAccessChain True True (IR 151 5) (IR 26558 23) (IR 0 0) (IR 1 1) (IR 0 0) (SPV_SPIRV_VERSION_WORD 1 0) 0xffffffff,
    InD OpDecorate False False (IR 163 2) (IR 26609 9) (IR 0 0) (IR 1 0) (IR 0 0) (SPV_SPIRV_VERSION_WORD 1 0) 0xffffffff,
    InD OpMemberDecorate False False (IR 165 3) (IR 26618 15) (IR 0 0) (IR 1 0) (IR 0 0) (SPV_SPIRV_VERSION_WORD 1 0) 0xffffffff,
    InD OpDecorationGroup True False (IR 68 1) (IR 26633 16) (IR 0 0) (IR 1 0) (IR 0 0) (SPV_SPIRV_VERSION_WORD 1 0) 0xffffffff,
    InD OpGroupDecorate False False (IR 168 2) (IR 26649 14) (IR 0 0) (IR 1 0) (IR 0 0) (SPV_SPIRV_VERSION_WORD 1 0) 0xffffffff,
    InD OpGroupMemberDecorate False False (IR 170 2) (IR 26708 20) (IR 0 0) (IR 1 0) (IR 0 0) (SPV_SPIRV_VERSION_WORD 1 0) 0xffffffff,
    InD OpVectorExtractDynamic True True (IR 172 4) (IR 26728 21) (IR 0 0) (IR 1 0) (IR 0 0) (SPV_SPIRV_VERSION_WORD 1 0) 0xffffffff,
    InD OpVectorInsertDynamic True True (IR 130 5) (IR 26749 20) (IR 0 0) (IR 1 0) (IR 0 0) (SPV_SPIRV_VERSION_WORD 1 0) 0xffffffff,
    InD OpVectorShuffle True True (IR 176 5) (IR 26769 14) (IR 0 0) (IR 1 0) (IR 0 0) (SPV_SPIRV_VERSION_WORD 1 0) 0xffffffff,
    InD OpCompositeConstruct True True (IR 107 3) (IR 26783 19) (IR 0 0) (IR 1 0) (IR 0 0) (SPV_SPIRV_VERSION_WORD 1 0) 0xffffffff,
    InD OpCompositeExtract True True (IR 181 4) (IR 26802 17) (IR 0 0) (IR 1 0) (IR 0 0) (SPV_SPIRV_VERSION_WORD 1 0) 0xffffffff,
    InD OpCompositeInsert True True (IR 176 5) (IR 26819 16) (IR 0 0) (IR 1 0) (IR 0 0) (SPV_SPIRV_VERSION_WORD 1 0) 0xffffffff,
    InD OpCopyObject True True (IR 160 3) (IR 26835 11) (IR 0 0) (IR 1 0) (IR 0 0) (SPV_SPIRV_VERSION_WORD 1 0) 0xffffffff,
    InD OpTranspose True True (IR 160 3) (IR 26846 10) (IR 0 0) (IR 66 1) (IR 0 0) (SPV_SPIRV_VERSION_WORD 1 0) 0xffffffff,
    InD OpSampledImage True True (IR 172 4) (IR 26856 13) (IR 0 0) (IR 1 0) (IR 0 0) (SPV_SPIRV_VERSION_WORD 1 0) 0xffffffff,
    InD OpImageSampleImplicitLod True True (IR 185 5) (IR 26901 23) (IR 0 0) (IR 3 1) (IR 0 0) (SPV_SPIRV_VERSION_WORD 1 0) 0xffffffff,
    InD OpImageSampleExplicitLod True True (IR 190 5) (IR 26947 23) (IR 0 0) (IR 1 0) (IR 0 0) (SPV_SPIRV_VERSION_WORD 1 0) 0xffffffff,
    InD OpImageSampleDrefImplicitLod True True (IR 195 6) (IR 26970 27) (IR 0 0) (IR 3 1) (IR 0 0) (SPV_SPIRV_VERSION_WORD 1 0) 0xffffffff,
    InD OpImageSampleDrefExplicitLod True True (IR 201 6) (IR 26997 27) (IR 0 0) (IR 3 1) (IR 0 0) (SPV_SPIRV_VERSION_WORD 1 0) 0xffffffff,
    InD OpImageSampleProjImplicitLod True True (IR 185 5) (IR 27024 27) (IR 0 0) (IR 3 1) (IR 0 0) (SPV_SPIRV_VERSION_WORD 1 0) 0xffffffff,
    InD OpImageSampleProjExplicitLod True True (IR 190 5) (IR 27051 27) (IR 0 0) (IR 3 1) (IR 0 0) (SPV_SPIRV_VERSION_WORD 1 0) 0xffffffff,
    InD OpImageSampleProjDrefImplicitLod True True (IR 195 6) (IR 27078 31) (IR 0 0) (IR 3 1) (IR 0 0) (SPV_SPIRV_VERSION_WORD 1 0) 0xffffffff,
    InD OpImageSampleProjDrefExplicitLod True True (IR 201 6) (IR 27109 31) (IR 0 0) (IR 3 1) (IR 0 0) (SPV_SPIRV_VERSION_WORD 1 0) 0xffffffff,
    InD OpImageFetch True True (IR 185 5) (IR 27140 11) (IR 0 0) (IR 1 0) (IR 0 0) (SPV_SPIRV_VERSION_WORD 1 0) 0xffffffff,
    InD OpImageGather True True (IR 195 6) (IR 27151 12) (IR 0 0) (IR 3 1) (IR 0 0) (SPV_SPIRV_VERSION_WORD 1 0) 0xffffffff,
    InD OpImageDrefGather True True (IR 195 6) (IR 27163 16) (IR 0 0) (IR 3 1) (IR 0 0) (SPV_SPIRV_VERSION_WORD 1 0) 0xffffffff,
    InD OpImageRead True True (IR 185 5) (IR 27179 10) (IR 0 0) (IR 1 0) (IR 0 0) (SPV_SPIRV_VERSION_WORD 1 0) 0xffffffff,
    InD OpImageWrite False False (IR 207 4) (IR 27189 11) (IR 0 0) (IR 1 0) (IR 0 0) (SPV_SPIRV_VERSION_WORD 1 0) 0xffffffff,
    InD OpImage True True (IR 160 3) (IR 24400 6) (IR 0 0) (IR 1 0) (IR 0 0) (SPV_SPIRV_VERSION_WORD 1 0) 0xffffffff,
    InD OpImageQueryFormat True True (IR 160 3) (IR 27200 17) (IR 0 0) (IR 0 1) (IR 0 0) (SPV_SPIRV_VERSION_WORD 1 0) 0xffffffff,
    InD OpImageQueryOrder True True (IR 160 3) (IR 27217 16) (IR 0 0) (IR 0 1) (IR 0 0) (SPV_SPIRV_VERSION_WORD 1 0) 0xffffffff,
    InD OpImageQuerySizeLod True True (IR 172 4) (IR 27233 18) (IR 0 0) (IR 210 2) (IR 0 0) (SPV_SPIRV_VERSION_WORD 1 0) 0xffffffff,
    InD OpImageQuerySize True True (IR 160 3) (IR 27251 15) (IR 0 0) (IR 210 2) (IR 0 0) (SPV_SPIRV_VERSION_WORD 1 0) 0xffffffff,
    InD OpImageQueryLod True True (IR 172 4) (IR 27266 14) (IR 0 0) (IR 212 1) (IR 0 0) (SPV_SPIRV_VERSION_WORD 1 0) 0xffffffff,
    InD OpImageQueryLevels True True (IR 160 3) (IR 27280 17) (IR 0 0) (IR 210 2) (IR 0 0) (SPV_SPIRV_VERSION_WORD 1 0) 0xffffffff,
    InD OpImageQuerySamples True True (IR 160 3) (IR 27297 18) (IR 0 0) (IR 210 2) (IR 0 0) (SPV_SPIRV_VERSION_WORD 1 0) 0xffffffff,
    InD OpConvertFToU True True (IR 160 3) (IR 27315 12) (IR 0 0) (IR 1 0) (IR 0 0) (SPV_SPIRV_VERSION_WORD 1 0) 0xffffffff]"

definition core_InstructionDesc_1 :: "InstructionDesc list" where
  "core_InstructionDesc_1 = [
    InD OpConvertFToS True True (IR 160 3) (IR 27327 12) (IR 0 0) (IR 1 0) (IR 0 0) (SPV_SPIRV_VERSION_WORD 1 0) 0xffffffff,
    InD OpConvertSToF True True (IR 160 3) (IR 27339 12) (IR 0 0) (IR 1 0) (IR 0 0) (SPV_SPIRV_VERSION_WORD 1 0) 0xffffffff,
    InD OpConvertUToF True True (IR 160 3) (IR 27351 12) (IR 0 0) (IR 1 0) (IR 0 0) (SPV_SPIRV_VERSION_WORD 1 0) 0xffffffff,
    InD OpUConvert True True (IR 160 3) (IR 27363 9) (IR 0 0) (IR 1 0) (IR 0 0) (SPV_SPIRV_VERSION_WORD 1 0) 0xffffffff,
    InD OpSConvert True True (IR 160 3) (IR 27372 9) (IR 0 0) (IR 1 0) (IR 0 0) (SPV_SPIRV_VERSION_WORD 1 0) 0xffffffff,
    InD OpFConvert True True (IR 160 3) (IR 27381 9) (IR 0 0) (IR 1 0) (IR 0 0) (SPV_SPIRV_VERSION_WORD 1 0) 0xffffffff,
    InD OpQuantizeToF16 True True (IR 160 3) (IR 27390 14) (IR 0 0) (IR 1 0) (IR 0 0) (SPV_SPIRV_VERSION_WORD 1 0) 0xffffffff,
    InD OpConvertPtrToU True True (IR 160 3) (IR 27404 14) (IR 0 0) (IR 201 2) (IR 0 0) (SPV_SPIRV_VERSION_WORD 1 0) 0xffffffff,
    InD OpSatConvertSToU True True (IR 160 3) (IR 27418 15) (IR 0 0) (IR 0 1) (IR 0 0) (SPV_SPIRV_VERSION_WORD 1 0) 0xffffffff,
    InD OpSatConvertUToS True True (IR 160 3) (IR 27433 15) (IR 0 0) (IR 0 1) (IR 0 0) (SPV_SPIRV_VERSION_WORD 1 0) 0xffffffff,
    InD OpConvertUToPtr True True (IR 160 3) (IR 27448 14) (IR 0 0) (IR 201 2) (IR 0 0) (SPV_SPIRV_VERSION_WORD 1 0) 0xffffffff,
    InD OpPtrCastToGeneric True True (IR 160 3) (IR 27462 17) (IR 0 0) (IR 0 1) (IR 0 0) (SPV_SPIRV_VERSION_WORD 1 0) 0xffffffff,
    InD OpGenericCastToPtr True True (IR 160 3) (IR 27479 17) (IR 0 0) (IR 0 1) (IR 0 0) (SPV_SPIRV_VERSION_WORD 1 0) 0xffffffff,
    InD OpGenericCastToPtrExplicit True True (IR 211 4) (IR 27496 25) (IR 0 0) (IR 0 1) (IR 0 0) (SPV_SPIRV_VERSION_WORD 1 0) 0xffffffff,
    InD OpBitcast True True (IR 160 3) (IR 27521 8) (IR 0 0) (IR 1 0) (IR 0 0) (SPV_SPIRV_VERSION_WORD 1 0) 0xffffffff,
    InD OpSNegate True True (IR 160 3) (IR 27529 8) (IR 0 0) (IR 1 0) (IR 0 0) (SPV_SPIRV_VERSION_WORD 1 0) 0xffffffff,
    InD OpFNegate True True (IR 160 3) (IR 27537 8) (IR 0 0) (IR 1 0) (IR 0 0) (SPV_SPIRV_VERSION_WORD 1 0) 0xffffffff,
    InD OpIAdd True True (IR 172 4) (IR 27545 5) (IR 0 0) (IR 1 0) (IR 0 0) (SPV_SPIRV_VERSION_WORD 1 0) 0xffffffff,
    InD OpFAdd True True (IR 172 4) (IR 27550 5) (IR 0 0) (IR 1 0) (IR 0 0) (SPV_SPIRV_VERSION_WORD 1 0) 0xffffffff,
    InD OpISub True True (IR 172 4) (IR 27555 5) (IR 0 0) (IR 1 0) (IR 0 0) (SPV_SPIRV_VERSION_WORD 1 0) 0xffffffff,
    InD OpFSub True True (IR 172 4) (IR 27560 5) (IR 0 0) (IR 1 0) (IR 0 0) (SPV_SPIRV_VERSION_WORD 1 0) 0xffffffff,
    InD OpIMul True True (IR 172 4) (IR 27565 5) (IR 0 0) (IR 1 0) (IR 0 0) (SPV_SPIRV_VERSION_WORD 1 0) 0xffffffff,
    InD OpFMul True True (IR 172 4) (IR 27570 5) (IR 0 0) (IR 1 0) (IR 0 0) (SPV_SPIRV_VERSION_WORD 1 0) 0xffffffff,
    InD OpUDiv True True (IR 172 4) (IR 27575 5) (IR 0 0) (IR 1 0) (IR 0 0) (SPV_SPIRV_VERSION_WORD 1 0) 0xffffffff,
    InD OpSDiv True True (IR 172 4) (IR 27580 5) (IR 0 0) (IR 1 0) (IR 0 0) (SPV_SPIRV_VERSION_WORD 1 0) 0xffffffff,
    InD OpFDiv True True (IR 172 4) (IR 27585 5) (IR 0 0) (IR 1 0) (IR 0 0) (SPV_SPIRV_VERSION_WORD 1 0) 0xffffffff,
    InD OpUMod True True (IR 172 4) (IR 27590 5) (IR 0 0) (IR 1 0) (IR 0 0) (SPV_SPIRV_VERSION_WORD 1 0) 0xffffffff,
    InD OpSRem True True (IR 172 4) (IR 27595 5) (IR 0 0) (IR 1 0) (IR 0 0) (SPV_SPIRV_VERSION_WORD 1 0) 0xffffffff,
    InD OpSMod True True (IR 172 4) (IR 27600 5) (IR 0 0) (IR 1 0) (IR 0 0) (SPV_SPIRV_VERSION_WORD 1 0) 0xffffffff,
    InD OpFRem True True (IR 172 4) (IR 27605 5) (IR 0 0) (IR 1 0) (IR 0 0) (SPV_SPIRV_VERSION_WORD 1 0) 0xffffffff,
    InD OpFMod True True (IR 172 4) (IR 27610 5) (IR 0 0) (IR 1 0) (IR 0 0) (SPV_SPIRV_VERSION_WORD 1 0) 0xffffffff,
    InD OpVectorTimesScalar True True (IR 172 4) (IR 27615 18) (IR 0 0) (IR 1 0) (IR 0 0) (SPV_SPIRV_VERSION_WORD 1 0) 0xffffffff,
    InD OpMatrixTimesScalar True True (IR 172 4) (IR 27633 18) (IR 0 0) (IR 66 1) (IR 0 0) (SPV_SPIRV_VERSION_WORD 1 0) 0xffffffff,
    InD OpVectorTimesMatrix True True (IR 172 4) (IR 27651 18) (IR 0 0) (IR 66 1) (IR 0 0) (SPV_SPIRV_VERSION_WORD 1 0) 0xffffffff,
    InD OpMatrixTimesVector True True (IR 172 4) (IR 27669 18) (IR 0 0) (IR 66 1) (IR 0 0) (SPV_SPIRV_VERSION_WORD 1 0) 0xffffffff,
    InD OpMatrixTimesMatrix True True (IR 172 4) (IR 27687 18) (IR 0 0) (IR 66 1) (IR 0 0) (SPV_SPIRV_VERSION_WORD 1 0) 0xffffffff,
    InD OpOuterProduct True True (IR 172 4) (IR 27705 13) (IR 0 0) (IR 66 1) (IR 0 0) (SPV_SPIRV_VERSION_WORD 1 0) 0xffffffff,
    InD OpDot True True (IR 172 4) (IR 27718 4) (IR 0 0) (IR 1 0) (IR 0 0) (SPV_SPIRV_VERSION_WORD 1 0) 0xffffffff,
    InD OpIAddCarry True True (IR 172 4) (IR 27722 10) (IR 0 0) (IR 1 0) (IR 0 0) (SPV_SPIRV_VERSION_WORD 1 0) 0xffffffff,
    InD OpISubBorrow True True (IR 172 4) (IR 27732 11) (IR 0 0) (IR 1 0) (IR 0 0) (SPV_SPIRV_VERSION_WORD 1 0) 0xffffffff,
    InD OpUMulExtended True True (IR 172 4) (IR 27743 13) (IR 0 0) (IR 1 0) (IR 0 0) (SPV_SPIRV_VERSION_WORD 1 0) 0xffffffff,
    InD OpSMulExtended True True (IR 172 4) (IR 27756 13) (IR 0 0) (IR 1 0) (IR 0 0) (SPV_SPIRV_VERSION_WORD 1 0) 0xffffffff,
    InD OpAny True True (IR 160 3) (IR 27769 4) (IR 0 0) (IR 1 0) (IR 0 0) (SPV_SPIRV_VERSION_WORD 1 0) 0xffffffff,
    InD OpAll True True (IR 160 3) (IR 27773 4) (IR 0 0) (IR 1 0) (IR 0 0) (SPV_SPIRV_VERSION_WORD 1 0) 0xffffffff,
    InD OpIsNan True True (IR 160 3) (IR 27777 6) (IR 0 0) (IR 1 0) (IR 0 0) (SPV_SPIRV_VERSION_WORD 1 0) 0xffffffff,
    InD OpIsInf True True (IR 160 3) (IR 27783 6) (IR 0 0) (IR 1 0) (IR 0 0) (SPV_SPIRV_VERSION_WORD 1 0) 0xffffffff,
    InD OpIsFinite True True (IR 160 3) (IR 27789 9) (IR 0 0) (IR 0 1) (IR 0 0) (SPV_SPIRV_VERSION_WORD 1 0) 0xffffffff,
    InD OpIsNormal True True (IR 160 3) (IR 27798 9) (IR 0 0) (IR 0 1) (IR 0 0) (SPV_SPIRV_VERSION_WORD 1 0) 0xffffffff,
    InD OpSignBitSet True True (IR 160 3) (IR 27807 11) (IR 0 0) (IR 0 1) (IR 0 0) (SPV_SPIRV_VERSION_WORD 1 0) 0xffffffff,
    InD OpLessOrGreater True True (IR 172 4) (IR 27818 14) (IR 0 0) (IR 0 1) (IR 0 0) (SPV_SPIRV_VERSION_WORD 1 0) (SPV_SPIRV_VERSION_WORD 1 5),
    InD OpOrdered True True (IR 172 4) (IR 27832 8) (IR 0 0) (IR 0 1) (IR 0 0) (SPV_SPIRV_VERSION_WORD 1 0) 0xffffffff,
    InD OpUnordered True True (IR 172 4) (IR 27840 10) (IR 0 0) (IR 0 1) (IR 0 0) (SPV_SPIRV_VERSION_WORD 1 0) 0xffffffff,
    InD OpLogicalEqual True True (IR 172 4) (IR 27850 13) (IR 0 0) (IR 1 0) (IR 0 0) (SPV_SPIRV_VERSION_WORD 1 0) 0xffffffff,
    InD OpLogicalNotEqual True True (IR 172 4) (IR 27863 16) (IR 0 0) (IR 1 0) (IR 0 0) (SPV_SPIRV_VERSION_WORD 1 0) 0xffffffff,
    InD OpLogicalOr True True (IR 172 4) (IR 27879 10) (IR 0 0) (IR 1 0) (IR 0 0) (SPV_SPIRV_VERSION_WORD 1 0) 0xffffffff,
    InD OpLogicalAnd True True (IR 172 4) (IR 27889 11) (IR 0 0) (IR 1 0) (IR 0 0) (SPV_SPIRV_VERSION_WORD 1 0) 0xffffffff,
    InD OpLogicalNot True True (IR 160 3) (IR 27900 11) (IR 0 0) (IR 1 0) (IR 0 0) (SPV_SPIRV_VERSION_WORD 1 0) 0xffffffff,
    InD OpSelect True True (IR 130 5) (IR 27911 7) (IR 0 0) (IR 1 0) (IR 0 0) (SPV_SPIRV_VERSION_WORD 1 0) 0xffffffff,
    InD OpIEqual True True (IR 172 4) (IR 27918 7) (IR 0 0) (IR 1 0) (IR 0 0) (SPV_SPIRV_VERSION_WORD 1 0) 0xffffffff,
    InD OpINotEqual True True (IR 172 4) (IR 27925 10) (IR 0 0) (IR 1 0) (IR 0 0) (SPV_SPIRV_VERSION_WORD 1 0) 0xffffffff,
    InD OpUGreaterThan True True (IR 172 4) (IR 27935 13) (IR 0 0) (IR 1 0) (IR 0 0) (SPV_SPIRV_VERSION_WORD 1 0) 0xffffffff,
    InD OpSGreaterThan True True (IR 172 4) (IR 27948 13) (IR 0 0) (IR 1 0) (IR 0 0) (SPV_SPIRV_VERSION_WORD 1 0) 0xffffffff,
    InD OpUGreaterThanEqual True True (IR 172 4) (IR 27961 18) (IR 0 0) (IR 1 0) (IR 0 0) (SPV_SPIRV_VERSION_WORD 1 0) 0xffffffff,
    InD OpSGreaterThanEqual True True (IR 172 4) (IR 27979 18) (IR 0 0) (IR 1 0) (IR 0 0) (SPV_SPIRV_VERSION_WORD 1 0) 0xffffffff,
    InD OpULessThan True True (IR 172 4) (IR 27997 10) (IR 0 0) (IR 1 0) (IR 0 0) (SPV_SPIRV_VERSION_WORD 1 0) 0xffffffff,
    InD OpSLessThan True True (IR 172 4) (IR 28007 10) (IR 0 0) (IR 1 0) (IR 0 0) (SPV_SPIRV_VERSION_WORD 1 0) 0xffffffff,
    InD OpULessThanEqual True True (IR 172 4) (IR 28017 15) (IR 0 0) (IR 1 0) (IR 0 0) (SPV_SPIRV_VERSION_WORD 1 0) 0xffffffff,
    InD OpSLessThanEqual True True (IR 172 4) (IR 28032 15) (IR 0 0) (IR 1 0) (IR 0 0) (SPV_SPIRV_VERSION_WORD 1 0) 0xffffffff,
    InD OpFOrdEqual True True (IR 172 4) (IR 28047 10) (IR 0 0) (IR 1 0) (IR 0 0) (SPV_SPIRV_VERSION_WORD 1 0) 0xffffffff,
    InD OpFUnordEqual True True (IR 172 4) (IR 28057 12) (IR 0 0) (IR 1 0) (IR 0 0) (SPV_SPIRV_VERSION_WORD 1 0) 0xffffffff,
    InD OpFOrdNotEqual True True (IR 172 4) (IR 28069 13) (IR 0 0) (IR 1 0) (IR 0 0) (SPV_SPIRV_VERSION_WORD 1 0) 0xffffffff,
    InD OpFUnordNotEqual True True (IR 172 4) (IR 28082 15) (IR 0 0) (IR 1 0) (IR 0 0) (SPV_SPIRV_VERSION_WORD 1 0) 0xffffffff,
    InD OpFOrdLessThan True True (IR 172 4) (IR 28097 13) (IR 0 0) (IR 1 0) (IR 0 0) (SPV_SPIRV_VERSION_WORD 1 0) 0xffffffff,
    InD OpFUnordLessThan True True (IR 172 4) (IR 28110 15) (IR 0 0) (IR 1 0) (IR 0 0) (SPV_SPIRV_VERSION_WORD 1 0) 0xffffffff,
    InD OpFOrdGreaterThan True True (IR 172 4) (IR 28125 16) (IR 0 0) (IR 1 0) (IR 0 0) (SPV_SPIRV_VERSION_WORD 1 0) 0xffffffff,
    InD OpFUnordGreaterThan True True (IR 172 4) (IR 28141 18) (IR 0 0) (IR 1 0) (IR 0 0) (SPV_SPIRV_VERSION_WORD 1 0) 0xffffffff,
    InD OpFOrdLessThanEqual True True (IR 172 4) (IR 28159 18) (IR 0 0) (IR 1 0) (IR 0 0) (SPV_SPIRV_VERSION_WORD 1 0) 0xffffffff,
    InD OpFUnordLessThanEqual True True (IR 172 4) (IR 28177 20) (IR 0 0) (IR 1 0) (IR 0 0) (SPV_SPIRV_VERSION_WORD 1 0) 0xffffffff,
    InD OpFOrdGreaterThanEqual True True (IR 172 4) (IR 28197 21) (IR 0 0) (IR 1 0) (IR 0 0) (SPV_SPIRV_VERSION_WORD 1 0) 0xffffffff,
    InD OpFUnordGreaterThanEqual True True (IR 172 4) (IR 28218 23) (IR 0 0) (IR 1 0) (IR 0 0) (SPV_SPIRV_VERSION_WORD 1 0) 0xffffffff,
    InD OpShiftRightLogical True True (IR 172 4) (IR 28241 18) (IR 0 0) (IR 1 0) (IR 0 0) (SPV_SPIRV_VERSION_WORD 1 0) 0xffffffff,
    InD OpShiftRightArithmetic True True (IR 172 4) (IR 28259 21) (IR 0 0) (IR 1 0) (IR 0 0) (SPV_SPIRV_VERSION_WORD 1 0) 0xffffffff,
    InD OpShiftLeftLogical True True (IR 172 4) (IR 28280 17) (IR 0 0) (IR 1 0) (IR 0 0) (SPV_SPIRV_VERSION_WORD 1 0) 0xffffffff,
    InD OpBitwiseOr True True (IR 172 4) (IR 28297 10) (IR 0 0) (IR 1 0) (IR 0 0) (SPV_SPIRV_VERSION_WORD 1 0) 0xffffffff,
    InD OpBitwiseXor True True (IR 172 4) (IR 28307 11) (IR 0 0) (IR 1 0) (IR 0 0) (SPV_SPIRV_VERSION_WORD 1 0) 0xffffffff,
    InD OpBitwiseAnd True True (IR 172 4) (IR 28318 11) (IR 0 0) (IR 1 0) (IR 0 0) (SPV_SPIRV_VERSION_WORD 1 0) 0xffffffff,
    InD OpNot True True (IR 160 3) (IR 28329 4) (IR 0 0) (IR 1 0) (IR 0 0) (SPV_SPIRV_VERSION_WORD 1 0) 0xffffffff,
    InD OpBitFieldInsert True True (IR 215 6) (IR 28333 15) (IR 0 0) (IR 213 2) (IR 0 0) (SPV_SPIRV_VERSION_WORD 1 0) 0xffffffff,
    InD OpBitFieldSExtract True True (IR 130 5) (IR 28348 17) (IR 0 0) (IR 213 2) (IR 0 0) (SPV_SPIRV_VERSION_WORD 1 0) 0xffffffff,
    InD OpBitFieldUExtract True True (IR 130 5) (IR 28365 17) (IR 0 0) (IR 213 2) (IR 0 0) (SPV_SPIRV_VERSION_WORD 1 0) 0xffffffff,
    InD OpBitReverse True True (IR 160 3) (IR 28382 11) (IR 0 0) (IR 213 2) (IR 0 0) (SPV_SPIRV_VERSION_WORD 1 0) 0xffffffff,
    InD OpBitCount True True (IR 160 3) (IR 28393 9) (IR 0 0) (IR 1 0) (IR 0 0) (SPV_SPIRV_VERSION_WORD 1 0) 0xffffffff,
    InD OpDPdx True True (IR 160 3) (IR 28402 5) (IR 0 0) (IR 3 1) (IR 0 0) (SPV_SPIRV_VERSION_WORD 1 0) 0xffffffff,
    InD OpDPdy True True (IR 160 3) (IR 28407 5) (IR 0 0) (IR 3 1) (IR 0 0) (SPV_SPIRV_VERSION_WORD 1 0) 0xffffffff,
    InD OpFwidth True True (IR 160 3) (IR 28412 7) (IR 0 0) (IR 3 1) (IR 0 0) (SPV_SPIRV_VERSION_WORD 1 0) 0xffffffff,
    InD OpDPdxFine True True (IR 160 3) (IR 28419 9) (IR 0 0) (IR 215 1) (IR 0 0) (SPV_SPIRV_VERSION_WORD 1 0) 0xffffffff,
    InD OpDPdyFine True True (IR 160 3) (IR 28428 9) (IR 0 0) (IR 215 1) (IR 0 0) (SPV_SPIRV_VERSION_WORD 1 0) 0xffffffff,
    InD OpFwidthFine True True (IR 160 3) (IR 28437 11) (IR 0 0) (IR 215 1) (IR 0 0) (SPV_SPIRV_VERSION_WORD 1 0) 0xffffffff,
    InD OpDPdxCoarse True True (IR 160 3) (IR 28448 11) (IR 0 0) (IR 215 1) (IR 0 0) (SPV_SPIRV_VERSION_WORD 1 0) 0xffffffff,
    InD OpDPdyCoarse True True (IR 160 3) (IR 28459 11) (IR 0 0) (IR 215 1) (IR 0 0) (SPV_SPIRV_VERSION_WORD 1 0) 0xffffffff]"

definition core_InstructionDesc_2 :: "InstructionDesc list" where
  "core_InstructionDesc_2 = [
    InD OpFwidthCoarse True True (IR 160 3) (IR 28470 13) (IR 0 0) (IR 215 1) (IR 0 0) (SPV_SPIRV_VERSION_WORD 1 0) 0xffffffff,
    InD OpEmitVertex False False (IR 0 0) (IR 28483 11) (IR 0 0) (IR 69 1) (IR 0 0) (SPV_SPIRV_VERSION_WORD 1 0) 0xffffffff,
    InD OpEndPrimitive False False (IR 0 0) (IR 28494 13) (IR 0 0) (IR 69 1) (IR 0 0) (SPV_SPIRV_VERSION_WORD 1 0) 0xffffffff,
    InD OpEmitStreamVertex False False (IR 10 1) (IR 28507 17) (IR 0 0) (IR 112 1) (IR 0 0) (SPV_SPIRV_VERSION_WORD 1 0) 0xffffffff,
    InD OpEndStreamPrimitive False False (IR 10 1) (IR 28524 19) (IR 0 0) (IR 112 1) (IR 0 0) (SPV_SPIRV_VERSION_WORD 1 0) 0xffffffff,
    InD OpControlBarrier False False (IR 221 3) (IR 28580 15) (IR 0 0) (IR 1 0) (IR 0 0) (SPV_SPIRV_VERSION_WORD 1 0) 0xffffffff,
    InD OpMemoryBarrier False False (IR 224 2) (IR 28595 14) (IR 0 0) (IR 1 0) (IR 0 0) (SPV_SPIRV_VERSION_WORD 1 0) 0xffffffff,
    InD OpAtomicLoad True True (IR 226 5) (IR 28609 11) (IR 0 0) (IR 1 0) (IR 0 0) (SPV_SPIRV_VERSION_WORD 1 0) 0xffffffff,
    InD OpAtomicStore False False (IR 231 4) (IR 28620 12) (IR 0 0) (IR 1 0) (IR 0 0) (SPV_SPIRV_VERSION_WORD 1 0) 0xffffffff,
    InD OpAtomicExchange True True (IR 235 6) (IR 28632 15) (IR 0 0) (IR 1 0) (IR 0 0) (SPV_SPIRV_VERSION_WORD 1 0) 0xffffffff,
    InD OpAtomicCompareExchange True True (IR 241 8) (IR 28647 22) (IR 0 0) (IR 1 0) (IR 0 0) (SPV_SPIRV_VERSION_WORD 1 0) 0xffffffff,
    InD OpAtomicCompareExchangeWeak True True (IR 241 8) (IR 28669 26) (IR 0 0) (IR 0 1) (IR 0 0) (SPV_SPIRV_VERSION_WORD 1 0) (SPV_SPIRV_VERSION_WORD 1 3),
    InD OpAtomicIIncrement True True (IR 226 5) (IR 28695 17) (IR 0 0) (IR 1 0) (IR 0 0) (SPV_SPIRV_VERSION_WORD 1 0) 0xffffffff,
    InD OpAtomicIDecrement True True (IR 226 5) (IR 28712 17) (IR 0 0) (IR 1 0) (IR 0 0) (SPV_SPIRV_VERSION_WORD 1 0) 0xffffffff,
    InD OpAtomicIAdd True True (IR 235 6) (IR 28729 11) (IR 0 0) (IR 1 0) (IR 0 0) (SPV_SPIRV_VERSION_WORD 1 0) 0xffffffff,
    InD OpAtomicISub True True (IR 235 6) (IR 28740 11) (IR 0 0) (IR 1 0) (IR 0 0) (SPV_SPIRV_VERSION_WORD 1 0) 0xffffffff,
    InD OpAtomicSMin True True (IR 235 6) (IR 28751 11) (IR 0 0) (IR 1 0) (IR 0 0) (SPV_SPIRV_VERSION_WORD 1 0) 0xffffffff,
    InD OpAtomicUMin True True (IR 235 6) (IR 28762 11) (IR 0 0) (IR 1 0) (IR 0 0) (SPV_SPIRV_VERSION_WORD 1 0) 0xffffffff,
    InD OpAtomicSMax True True (IR 235 6) (IR 28773 11) (IR 0 0) (IR 1 0) (IR 0 0) (SPV_SPIRV_VERSION_WORD 1 0) 0xffffffff,
    InD OpAtomicUMax True True (IR 235 6) (IR 28784 11) (IR 0 0) (IR 1 0) (IR 0 0) (SPV_SPIRV_VERSION_WORD 1 0) 0xffffffff,
    InD OpAtomicAnd True True (IR 235 6) (IR 28795 10) (IR 0 0) (IR 1 0) (IR 0 0) (SPV_SPIRV_VERSION_WORD 1 0) 0xffffffff,
    InD OpAtomicOr True True (IR 235 6) (IR 28805 9) (IR 0 0) (IR 1 0) (IR 0 0) (SPV_SPIRV_VERSION_WORD 1 0) 0xffffffff,
    InD OpAtomicXor True True (IR 235 6) (IR 28814 10) (IR 0 0) (IR 1 0) (IR 0 0) (SPV_SPIRV_VERSION_WORD 1 0) 0xffffffff,
    InD OpPhi True True (IR 107 3) (IR 28824 4) (IR 0 0) (IR 1 0) (IR 0 0) (SPV_SPIRV_VERSION_WORD 1 0) 0xffffffff,
    InD OpLoopMerge False False (IR 249 3) (IR 28858 10) (IR 0 0) (IR 1 0) (IR 0 0) (SPV_SPIRV_VERSION_WORD 1 0) 0xffffffff,
    InD OpSelectionMerge False False (IR 252 2) (IR 28903 15) (IR 0 0) (IR 1 0) (IR 0 0) (SPV_SPIRV_VERSION_WORD 1 0) 0xffffffff,
    InD OpLabel True False (IR 68 1) (IR 28918 6) (IR 0 0) (IR 1 0) (IR 0 0) (SPV_SPIRV_VERSION_WORD 1 0) 0xffffffff,
    InD OpBranch False False (IR 10 1) (IR 28924 7) (IR 0 0) (IR 1 0) (IR 0 0) (SPV_SPIRV_VERSION_WORD 1 0) 0xffffffff,
    InD OpBranchConditional False False (IR 254 4) (IR 28931 18) (IR 0 0) (IR 1 0) (IR 0 0) (SPV_SPIRV_VERSION_WORD 1 0) 0xffffffff,
    InD OpSwitch False False (IR 258 3) (IR 28994 7) (IR 0 0) (IR 1 0) (IR 0 0) (SPV_SPIRV_VERSION_WORD 1 0) 0xffffffff,
    InD OpKill False False (IR 0 0) (IR 29001 5) (IR 0 0) (IR 3 1) (IR 0 0) (SPV_SPIRV_VERSION_WORD 1 0) 0xffffffff,
    InD OpReturn False False (IR 0 0) (IR 29006 7) (IR 0 0) (IR 1 0) (IR 0 0) (SPV_SPIRV_VERSION_WORD 1 0) 0xffffffff,
    InD OpReturnValue False False (IR 10 1) (IR 29013 12) (IR 0 0) (IR 1 0) (IR 0 0) (SPV_SPIRV_VERSION_WORD 1 0) 0xffffffff,
    InD OpUnreachable False False (IR 0 0) (IR 29025 12) (IR 0 0) (IR 1 0) (IR 0 0) (SPV_SPIRV_VERSION_WORD 1 0) 0xffffffff,
    InD OpLifetimeStart False False (IR 261 2) (IR 29037 14) (IR 0 0) (IR 0 1) (IR 0 0) (SPV_SPIRV_VERSION_WORD 1 0) 0xffffffff,
    InD OpLifetimeStop False False (IR 261 2) (IR 29051 13) (IR 0 0) (IR 0 1) (IR 0 0) (SPV_SPIRV_VERSION_WORD 1 0) 0xffffffff,
    InD OpGroupAsyncCopy True True (IR 263 8) (IR 29064 15) (IR 0 0) (IR 0 1) (IR 0 0) (SPV_SPIRV_VERSION_WORD 1 0) 0xffffffff,
    InD OpGroupWaitEvents False False (IR 271 3) (IR 29079 16) (IR 0 0) (IR 0 1) (IR 0 0) (SPV_SPIRV_VERSION_WORD 1 0) 0xffffffff,
    InD OpGroupAll True True (IR 274 4) (IR 29095 9) (IR 0 0) (IR 216 1) (IR 0 0) (SPV_SPIRV_VERSION_WORD 1 0) 0xffffffff,
    InD OpGroupAny True True (IR 274 4) (IR 29104 9) (IR 0 0) (IR 216 1) (IR 0 0) (SPV_SPIRV_VERSION_WORD 1 0) 0xffffffff,
    InD OpGroupBroadcast True True (IR 278 5) (IR 29113 15) (IR 0 0) (IR 216 1) (IR 0 0) (SPV_SPIRV_VERSION_WORD 1 0) 0xffffffff,
    InD OpGroupIAdd True True (IR 283 5) (IR 29161 10) (IR 0 0) (IR 216 1) (IR 0 0) (SPV_SPIRV_VERSION_WORD 1 0) 0xffffffff,
    InD OpGroupFAdd True True (IR 283 5) (IR 29171 10) (IR 0 0) (IR 216 1) (IR 0 0) (SPV_SPIRV_VERSION_WORD 1 0) 0xffffffff,
    InD OpGroupFMin True True (IR 283 5) (IR 29181 10) (IR 0 0) (IR 216 1) (IR 0 0) (SPV_SPIRV_VERSION_WORD 1 0) 0xffffffff,
    InD OpGroupUMin True True (IR 283 5) (IR 29191 10) (IR 0 0) (IR 216 1) (IR 0 0) (SPV_SPIRV_VERSION_WORD 1 0) 0xffffffff,
    InD OpGroupSMin True True (IR 283 5) (IR 29201 10) (IR 0 0) (IR 216 1) (IR 0 0) (SPV_SPIRV_VERSION_WORD 1 0) 0xffffffff,
    InD OpGroupFMax True True (IR 283 5) (IR 29211 10) (IR 0 0) (IR 216 1) (IR 0 0) (SPV_SPIRV_VERSION_WORD 1 0) 0xffffffff,
    InD OpGroupUMax True True (IR 283 5) (IR 29221 10) (IR 0 0) (IR 216 1) (IR 0 0) (SPV_SPIRV_VERSION_WORD 1 0) 0xffffffff,
    InD OpGroupSMax True True (IR 283 5) (IR 29231 10) (IR 0 0) (IR 216 1) (IR 0 0) (SPV_SPIRV_VERSION_WORD 1 0) 0xffffffff,
    InD OpReadPipe True True (IR 215 6) (IR 29241 9) (IR 0 0) (IR 75 1) (IR 0 0) (SPV_SPIRV_VERSION_WORD 1 0) 0xffffffff,
    InD OpWritePipe True True (IR 215 6) (IR 29250 10) (IR 0 0) (IR 75 1) (IR 0 0) (SPV_SPIRV_VERSION_WORD 1 0) 0xffffffff,
    InD OpReservedReadPipe True True (IR 288 8) (IR 29260 17) (IR 0 0) (IR 75 1) (IR 0 0) (SPV_SPIRV_VERSION_WORD 1 0) 0xffffffff,
    InD OpReservedWritePipe True True (IR 288 8) (IR 29277 18) (IR 0 0) (IR 75 1) (IR 0 0) (SPV_SPIRV_VERSION_WORD 1 0) 0xffffffff,
    InD OpReserveReadPipePackets True True (IR 215 6) (IR 29295 23) (IR 0 0) (IR 75 1) (IR 0 0) (SPV_SPIRV_VERSION_WORD 1 0) 0xffffffff,
    InD OpReserveWritePipePackets True True (IR 215 6) (IR 29318 24) (IR 0 0) (IR 75 1) (IR 0 0) (SPV_SPIRV_VERSION_WORD 1 0) 0xffffffff,
    InD OpCommitReadPipe False False (IR 296 4) (IR 29342 15) (IR 0 0) (IR 75 1) (IR 0 0) (SPV_SPIRV_VERSION_WORD 1 0) 0xffffffff,
    InD OpCommitWritePipe False False (IR 296 4) (IR 29357 16) (IR 0 0) (IR 75 1) (IR 0 0) (SPV_SPIRV_VERSION_WORD 1 0) 0xffffffff,
    InD OpIsValidReserveId True True (IR 160 3) (IR 29373 17) (IR 0 0) (IR 75 1) (IR 0 0) (SPV_SPIRV_VERSION_WORD 1 0) 0xffffffff,
    InD OpGetNumPipePackets True True (IR 130 5) (IR 29390 18) (IR 0 0) (IR 75 1) (IR 0 0) (SPV_SPIRV_VERSION_WORD 1 0) 0xffffffff,
    InD OpGetMaxPipePackets True True (IR 130 5) (IR 29408 18) (IR 0 0) (IR 75 1) (IR 0 0) (SPV_SPIRV_VERSION_WORD 1 0) 0xffffffff,
    InD OpGroupReserveReadPipePackets True True (IR 300 7) (IR 29426 28) (IR 0 0) (IR 75 1) (IR 0 0) (SPV_SPIRV_VERSION_WORD 1 0) 0xffffffff,
    InD OpGroupReserveWritePipePackets True True (IR 300 7) (IR 29454 29) (IR 0 0) (IR 75 1) (IR 0 0) (SPV_SPIRV_VERSION_WORD 1 0) 0xffffffff,
    InD OpGroupCommitReadPipe False False (IR 307 5) (IR 29483 20) (IR 0 0) (IR 75 1) (IR 0 0) (SPV_SPIRV_VERSION_WORD 1 0) 0xffffffff,
    InD OpGroupCommitWritePipe False False (IR 307 5) (IR 29503 21) (IR 0 0) (IR 75 1) (IR 0 0) (SPV_SPIRV_VERSION_WORD 1 0) 0xffffffff,
    InD OpEnqueueMarker True True (IR 215 6) (IR 29524 14) (IR 0 0) (IR 74 1) (IR 0 0) (SPV_SPIRV_VERSION_WORD 1 0) 0xffffffff,
    InD OpEnqueueKernel True True (IR 312 13) (IR 29538 14) (IR 0 0) (IR 74 1) (IR 0 0) (SPV_SPIRV_VERSION_WORD 1 0) 0xffffffff,
    InD OpGetKernelNDrangeSubGroupCount True True (IR 325 7) (IR 29552 30) (IR 0 0) (IR 74 1) (IR 0 0) (SPV_SPIRV_VERSION_WORD 1 0) 0xffffffff,
    InD OpGetKernelNDrangeMaxSubGroupSize True True (IR 325 7) (IR 29582 32) (IR 0 0) (IR 74 1) (IR 0 0) (SPV_SPIRV_VERSION_WORD 1 0) 0xffffffff,
    InD OpGetKernelWorkGroupSize True True (IR 215 6) (IR 29614 23) (IR 0 0) (IR 74 1) (IR 0 0) (SPV_SPIRV_VERSION_WORD 1 0) 0xffffffff,
    InD OpGetKernelPreferredWorkGroupSizeMultiple True True (IR 215 6) (IR 29637 40) (IR 0 0) (IR 74 1) (IR 0 0) (SPV_SPIRV_VERSION_WORD 1 0) 0xffffffff,
    InD OpRetainEvent False False (IR 10 1) (IR 29677 12) (IR 0 0) (IR 74 1) (IR 0 0) (SPV_SPIRV_VERSION_WORD 1 0) 0xffffffff,
    InD OpReleaseEvent False False (IR 10 1) (IR 29689 13) (IR 0 0) (IR 74 1) (IR 0 0) (SPV_SPIRV_VERSION_WORD 1 0) 0xffffffff,
    InD OpCreateUserEvent True True (IR 39 2) (IR 29702 16) (IR 0 0) (IR 74 1) (IR 0 0) (SPV_SPIRV_VERSION_WORD 1 0) 0xffffffff,
    InD OpIsValidEvent True True (IR 160 3) (IR 29718 13) (IR 0 0) (IR 74 1) (IR 0 0) (SPV_SPIRV_VERSION_WORD 1 0) 0xffffffff,
    InD OpSetUserEventStatus False False (IR 36 2) (IR 29731 19) (IR 0 0) (IR 74 1) (IR 0 0) (SPV_SPIRV_VERSION_WORD 1 0) 0xffffffff,
    InD OpCaptureEventProfilingInfo False False (IR 33 3) (IR 29750 26) (IR 0 0) (IR 74 1) (IR 0 0) (SPV_SPIRV_VERSION_WORD 1 0) 0xffffffff,
    InD OpGetDefaultQueue True True (IR 39 2) (IR 29776 16) (IR 0 0) (IR 74 1) (IR 0 0) (SPV_SPIRV_VERSION_WORD 1 0) 0xffffffff,
    InD OpBuildNDRange True True (IR 130 5) (IR 29792 13) (IR 0 0) (IR 74 1) (IR 0 0) (SPV_SPIRV_VERSION_WORD 1 0) 0xffffffff,
    InD OpImageSparseSampleImplicitLod True True (IR 185 5) (IR 29805 29) (IR 0 0) (IR 217 1) (IR 0 0) (SPV_SPIRV_VERSION_WORD 1 0) 0xffffffff,
    InD OpImageSparseSampleExplicitLod True True (IR 190 5) (IR 29834 29) (IR 0 0) (IR 217 1) (IR 0 0) (SPV_SPIRV_VERSION_WORD 1 0) 0xffffffff,
    InD OpImageSparseSampleDrefImplicitLod True True (IR 195 6) (IR 29863 33) (IR 0 0) (IR 217 1) (IR 0 0) (SPV_SPIRV_VERSION_WORD 1 0) 0xffffffff,
    InD OpImageSparseSampleDrefExplicitLod True True (IR 201 6) (IR 29896 33) (IR 0 0) (IR 217 1) (IR 0 0) (SPV_SPIRV_VERSION_WORD 1 0) 0xffffffff,
    InD OpImageSparseSampleProjImplicitLod True True (IR 185 5) (IR 29929 33) (IR 0 0) (IR 217 1) (IR 0 0) 0xffffffff 0xffffffff,
    InD OpImageSparseSampleProjExplicitLod True True (IR 190 5) (IR 29962 33) (IR 0 0) (IR 217 1) (IR 0 0) 0xffffffff 0xffffffff,
    InD OpImageSparseSampleProjDrefImplicitLod True True (IR 195 6) (IR 29995 37) (IR 0 0) (IR 217 1) (IR 0 0) 0xffffffff 0xffffffff,
    InD OpImageSparseSampleProjDrefExplicitLod True True (IR 201 6) (IR 30032 37) (IR 0 0) (IR 217 1) (IR 0 0) 0xffffffff 0xffffffff,
    InD OpImageSparseFetch True True (IR 185 5) (IR 30069 17) (IR 0 0) (IR 217 1) (IR 0 0) (SPV_SPIRV_VERSION_WORD 1 0) 0xffffffff,
    InD OpImageSparseGather True True (IR 195 6) (IR 30086 18) (IR 0 0) (IR 217 1) (IR 0 0) (SPV_SPIRV_VERSION_WORD 1 0) 0xffffffff,
    InD OpImageSparseDrefGather True True (IR 195 6) (IR 30104 22) (IR 0 0) (IR 217 1) (IR 0 0) (SPV_SPIRV_VERSION_WORD 1 0) 0xffffffff,
    InD OpImageSparseTexelsResident True True (IR 160 3) (IR 30126 26) (IR 0 0) (IR 217 1) (IR 0 0) (SPV_SPIRV_VERSION_WORD 1 0) 0xffffffff,
    InD OpNoLine False False (IR 0 0) (IR 30152 7) (IR 0 0) (IR 1 0) (IR 0 0) (SPV_SPIRV_VERSION_WORD 1 0) 0xffffffff,
    InD OpAtomicFlagTestAndSet True True (IR 226 5) (IR 30159 21) (IR 0 0) (IR 0 1) (IR 0 0) (SPV_SPIRV_VERSION_WORD 1 0) 0xffffffff,
    InD OpAtomicFlagClear False False (IR 332 3) (IR 30180 16) (IR 0 0) (IR 0 1) (IR 0 0) (SPV_SPIRV_VERSION_WORD 1 0) 0xffffffff,
    InD OpImageSparseRead True True (IR 185 5) (IR 30196 16) (IR 0 0) (IR 217 1) (IR 0 0) (SPV_SPIRV_VERSION_WORD 1 0) 0xffffffff,
    InD OpSizeOf True True (IR 160 3) (IR 30212 7) (IR 0 0) (IR 1 1) (IR 0 0) (SPV_SPIRV_VERSION_WORD 1 1) 0xffffffff,
    InD OpTypePipeStorage True False (IR 68 1) (IR 30219 16) (IR 0 0) (IR 218 1) (IR 0 0) (SPV_SPIRV_VERSION_WORD 1 1) 0xffffffff,
    InD OpConstantPipeStorage True True (IR 335 5) (IR 30235 20) (IR 0 0) (IR 218 1) (IR 0 0) (SPV_SPIRV_VERSION_WORD 1 1) 0xffffffff,
    InD OpCreatePipeFromPipeStorage True True (IR 160 3) (IR 30255 26) (IR 0 0) (IR 218 1) (IR 0 0) (SPV_SPIRV_VERSION_WORD 1 1) 0xffffffff,
    InD OpGetKernelLocalSizeForSubgroupCount True True (IR 325 7) (IR 30281 35) (IR 0 0) (IR 151 1) (IR 0 0) (SPV_SPIRV_VERSION_WORD 1 1) 0xffffffff,
    InD OpGetKernelMaxNumSubgroups True True (IR 215 6) (IR 30316 25) (IR 0 0) (IR 151 1) (IR 0 0) (SPV_SPIRV_VERSION_WORD 1 1) 0xffffffff]"

definition core_InstructionDesc_3 :: "InstructionDesc list" where
  "core_InstructionDesc_3 = [
    InD OpTypeNamedBarrier True False (IR 68 1) (IR 30341 17) (IR 0 0) (IR 219 1) (IR 0 0) (SPV_SPIRV_VERSION_WORD 1 1) 0xffffffff,
    InD OpNamedBarrierInitialize True True (IR 160 3) (IR 30358 23) (IR 0 0) (IR 219 1) (IR 0 0) (SPV_SPIRV_VERSION_WORD 1 1) 0xffffffff,
    InD OpMemoryNamedBarrier False False (IR 332 3) (IR 30381 19) (IR 0 0) (IR 219 1) (IR 0 0) (SPV_SPIRV_VERSION_WORD 1 1) 0xffffffff,
    InD OpModuleProcessed False False (IR 11 1) (IR 30400 16) (IR 0 0) (IR 1 0) (IR 0 0) (SPV_SPIRV_VERSION_WORD 1 1) 0xffffffff,
    InD OpExecutionModeId False False (IR 65 2) (IR 30416 16) (IR 0 0) (IR 1 0) (IR 0 0) (SPV_SPIRV_VERSION_WORD 1 2) 0xffffffff,
    InD OpDecorateId False False (IR 163 2) (IR 30432 11) (IR 0 0) (IR 1 0) (IR 155 1) (SPV_SPIRV_VERSION_WORD 1 2) 0xffffffff,
    InD OpGroupNonUniformElect True True (IR 340 3) (IR 30443 21) (IR 0 0) (IR 76 1) (IR 0 0) (SPV_SPIRV_VERSION_WORD 1 3) 0xffffffff,
    InD OpGroupNonUniformAll True True (IR 274 4) (IR 30464 19) (IR 0 0) (IR 220 1) (IR 0 0) (SPV_SPIRV_VERSION_WORD 1 3) 0xffffffff,
    InD OpGroupNonUniformAny True True (IR 274 4) (IR 30483 19) (IR 0 0) (IR 220 1) (IR 0 0) (SPV_SPIRV_VERSION_WORD 1 3) 0xffffffff,
    InD OpGroupNonUniformAllEqual True True (IR 274 4) (IR 30502 24) (IR 0 0) (IR 220 1) (IR 0 0) (SPV_SPIRV_VERSION_WORD 1 3) 0xffffffff,
    InD OpGroupNonUniformBroadcast True True (IR 278 5) (IR 30526 25) (IR 0 0) (IR 221 1) (IR 0 0) (SPV_SPIRV_VERSION_WORD 1 3) 0xffffffff,
    InD OpGroupNonUniformBroadcastFirst True True (IR 274 4) (IR 30551 30) (IR 0 0) (IR 221 1) (IR 0 0) (SPV_SPIRV_VERSION_WORD 1 3) 0xffffffff,
    InD OpGroupNonUniformBallot True True (IR 274 4) (IR 5583 22) (IR 0 0) (IR 221 1) (IR 0 0) (SPV_SPIRV_VERSION_WORD 1 3) 0xffffffff,
    InD OpGroupNonUniformInverseBallot True True (IR 274 4) (IR 30581 29) (IR 0 0) (IR 221 1) (IR 0 0) (SPV_SPIRV_VERSION_WORD 1 3) 0xffffffff,
    InD OpGroupNonUniformBallotBitExtract True True (IR 278 5) (IR 30610 32) (IR 0 0) (IR 221 1) (IR 0 0) (SPV_SPIRV_VERSION_WORD 1 3) 0xffffffff,
    InD OpGroupNonUniformBallotBitCount True True (IR 283 5) (IR 30642 30) (IR 0 0) (IR 221 1) (IR 0 0) (SPV_SPIRV_VERSION_WORD 1 3) 0xffffffff,
    InD OpGroupNonUniformBallotFindLSB True True (IR 274 4) (IR 30672 29) (IR 0 0) (IR 221 1) (IR 0 0) (SPV_SPIRV_VERSION_WORD 1 3) 0xffffffff,
    InD OpGroupNonUniformBallotFindMSB True True (IR 274 4) (IR 30701 29) (IR 0 0) (IR 221 1) (IR 0 0) (SPV_SPIRV_VERSION_WORD 1 3) 0xffffffff,
    InD OpGroupNonUniformShuffle True True (IR 278 5) (IR 8673 23) (IR 0 0) (IR 222 1) (IR 0 0) (SPV_SPIRV_VERSION_WORD 1 3) 0xffffffff,
    InD OpGroupNonUniformShuffleXor True True (IR 278 5) (IR 30730 26) (IR 0 0) (IR 222 1) (IR 0 0) (SPV_SPIRV_VERSION_WORD 1 3) 0xffffffff,
    InD OpGroupNonUniformShuffleUp True True (IR 278 5) (IR 30756 25) (IR 0 0) (IR 223 1) (IR 0 0) (SPV_SPIRV_VERSION_WORD 1 3) 0xffffffff,
    InD OpGroupNonUniformShuffleDown True True (IR 278 5) (IR 30781 27) (IR 0 0) (IR 223 1) (IR 0 0) (SPV_SPIRV_VERSION_WORD 1 3) 0xffffffff,
    InD OpGroupNonUniformIAdd True True (IR 343 6) (IR 30808 20) (IR 0 0) (IR 224 3) (IR 0 0) (SPV_SPIRV_VERSION_WORD 1 3) 0xffffffff,
    InD OpGroupNonUniformFAdd True True (IR 343 6) (IR 30828 20) (IR 0 0) (IR 224 3) (IR 0 0) (SPV_SPIRV_VERSION_WORD 1 3) 0xffffffff,
    InD OpGroupNonUniformIMul True True (IR 343 6) (IR 30848 20) (IR 0 0) (IR 224 3) (IR 0 0) (SPV_SPIRV_VERSION_WORD 1 3) 0xffffffff,
    InD OpGroupNonUniformFMul True True (IR 343 6) (IR 30868 20) (IR 0 0) (IR 224 3) (IR 0 0) (SPV_SPIRV_VERSION_WORD 1 3) 0xffffffff,
    InD OpGroupNonUniformSMin True True (IR 343 6) (IR 30888 20) (IR 0 0) (IR 224 3) (IR 0 0) (SPV_SPIRV_VERSION_WORD 1 3) 0xffffffff,
    InD OpGroupNonUniformUMin True True (IR 343 6) (IR 30908 20) (IR 0 0) (IR 224 3) (IR 0 0) (SPV_SPIRV_VERSION_WORD 1 3) 0xffffffff,
    InD OpGroupNonUniformFMin True True (IR 343 6) (IR 30928 20) (IR 0 0) (IR 224 3) (IR 0 0) (SPV_SPIRV_VERSION_WORD 1 3) 0xffffffff,
    InD OpGroupNonUniformSMax True True (IR 343 6) (IR 30948 20) (IR 0 0) (IR 224 3) (IR 0 0) (SPV_SPIRV_VERSION_WORD 1 3) 0xffffffff,
    InD OpGroupNonUniformUMax True True (IR 343 6) (IR 30968 20) (IR 0 0) (IR 224 3) (IR 0 0) (SPV_SPIRV_VERSION_WORD 1 3) 0xffffffff,
    InD OpGroupNonUniformFMax True True (IR 343 6) (IR 30988 20) (IR 0 0) (IR 224 3) (IR 0 0) (SPV_SPIRV_VERSION_WORD 1 3) 0xffffffff,
    InD OpGroupNonUniformBitwiseAnd True True (IR 343 6) (IR 31008 26) (IR 0 0) (IR 224 3) (IR 0 0) (SPV_SPIRV_VERSION_WORD 1 3) 0xffffffff,
    InD OpGroupNonUniformBitwiseOr True True (IR 343 6) (IR 31034 25) (IR 0 0) (IR 224 3) (IR 0 0) (SPV_SPIRV_VERSION_WORD 1 3) 0xffffffff,
    InD OpGroupNonUniformBitwiseXor True True (IR 343 6) (IR 31059 26) (IR 0 0) (IR 224 3) (IR 0 0) (SPV_SPIRV_VERSION_WORD 1 3) 0xffffffff,
    InD OpGroupNonUniformLogicalAnd True True (IR 343 6) (IR 31085 26) (IR 0 0) (IR 224 3) (IR 0 0) (SPV_SPIRV_VERSION_WORD 1 3) 0xffffffff,
    InD OpGroupNonUniformLogicalOr True True (IR 343 6) (IR 31111 25) (IR 0 0) (IR 224 3) (IR 0 0) (SPV_SPIRV_VERSION_WORD 1 3) 0xffffffff,
    InD OpGroupNonUniformLogicalXor True True (IR 343 6) (IR 31136 26) (IR 0 0) (IR 224 3) (IR 0 0) (SPV_SPIRV_VERSION_WORD 1 3) 0xffffffff,
    InD OpGroupNonUniformQuadBroadcast True True (IR 278 5) (IR 31162 29) (IR 0 0) (IR 227 1) (IR 0 0) (SPV_SPIRV_VERSION_WORD 1 3) 0xffffffff,
    InD OpGroupNonUniformQuadSwap True True (IR 278 5) (IR 31191 24) (IR 0 0) (IR 227 1) (IR 0 0) (SPV_SPIRV_VERSION_WORD 1 3) 0xffffffff,
    InD OpCopyLogical True True (IR 160 3) (IR 31215 12) (IR 0 0) (IR 1 0) (IR 0 0) (SPV_SPIRV_VERSION_WORD 1 4) 0xffffffff,
    InD OpPtrEqual True True (IR 172 4) (IR 31227 9) (IR 0 0) (IR 1 0) (IR 0 0) (SPV_SPIRV_VERSION_WORD 1 4) 0xffffffff,
    InD OpPtrNotEqual True True (IR 172 4) (IR 31236 12) (IR 0 0) (IR 1 0) (IR 0 0) (SPV_SPIRV_VERSION_WORD 1 4) 0xffffffff,
    InD OpPtrDiff True True (IR 172 4) (IR 31248 8) (IR 0 0) (IR 228 3) (IR 0 0) (SPV_SPIRV_VERSION_WORD 1 4) 0xffffffff,
    InD OpColorAttachmentReadEXT True True (IR 349 4) (IR 31256 23) (IR 0 0) (IR 143 1) (IR 0 0) 0xffffffff 0xffffffff,
    InD OpDepthAttachmentReadEXT True True (IR 353 3) (IR 31279 23) (IR 0 0) (IR 152 1) (IR 0 0) 0xffffffff 0xffffffff,
    InD OpStencilAttachmentReadEXT True True (IR 353 3) (IR 31302 25) (IR 0 0) (IR 153 1) (IR 0 0) 0xffffffff 0xffffffff,
    InD OpTypeTensorARM True False (IR 356 4) (IR 31327 14) (IR 0 0) (IR 200 1) (IR 0 0) 0xffffffff 0xffffffff,
    InD OpTensorReadARM True True (IR 360 5) (IR 31383 14) (IR 0 0) (IR 200 1) (IR 0 0) 0xffffffff 0xffffffff,
    InD OpTensorWriteARM False False (IR 365 4) (IR 31397 15) (IR 0 0) (IR 200 1) (IR 0 0) 0xffffffff 0xffffffff,
    InD OpTensorQuerySizeARM True True (IR 172 4) (IR 31412 19) (IR 0 0) (IR 200 1) (IR 0 0) 0xffffffff 0xffffffff,
    InD OpGraphConstantARM True True (IR 369 3) (IR 31431 17) (IR 0 0) (IR 231 1) (IR 0 0) 0xffffffff 0xffffffff,
    InD OpGraphEntryPointARM False False (IR 372 3) (IR 31448 19) (IR 0 0) (IR 231 1) (IR 0 0) 0xffffffff 0xffffffff,
    InD OpGraphARM True True (IR 39 2) (IR 8964 9) (IR 0 0) (IR 231 1) (IR 0 0) 0xffffffff 0xffffffff,
    InD OpGraphInputARM True True (IR 122 4) (IR 31467 14) (IR 0 0) (IR 231 1) (IR 0 0) 0xffffffff 0xffffffff,
    InD OpGraphSetOutputARM False False (IR 375 3) (IR 31481 18) (IR 0 0) (IR 231 1) (IR 0 0) 0xffffffff 0xffffffff,
    InD OpGraphEndARM False False (IR 0 0) (IR 31499 12) (IR 0 0) (IR 231 1) (IR 0 0) 0xffffffff 0xffffffff,
    InD OpTypeGraphARM True False (IR 378 3) (IR 31511 13) (IR 0 0) (IR 231 1) (IR 0 0) 0xffffffff 0xffffffff,
    InD OpTerminateInvocation False False (IR 0 0) (IR 31524 20) (IR 0 0) (IR 3 1) (IR 165 1) (SPV_SPIRV_VERSION_WORD 1 6) 0xffffffff,
    InD OpTypeUntypedPointerKHR True False (IR 381 2) (IR 31544 22) (IR 0 0) (IR 232 1) (IR 0 0) 0xffffffff 0xffffffff,
    InD OpUntypedVariableKHR True True (IR 383 5) (IR 31566 19) (IR 0 0) (IR 232 1) (IR 0 0) 0xffffffff 0xffffffff,
    InD OpUntypedAccessChainKHR True True (IR 151 5) (IR 31585 22) (IR 0 0) (IR 232 1) (IR 0 0) 0xffffffff 0xffffffff,
    InD OpUntypedInBoundsAccessChainKHR True True (IR 151 5) (IR 31607 30) (IR 0 0) (IR 232 1) (IR 0 0) 0xffffffff 0xffffffff,
    InD OpSubgroupBallotKHR True True (IR 160 3) (IR 5344 18) (IR 0 0) (IR 233 1) (IR 2 1) 0xffffffff 0xffffffff,
    InD OpSubgroupFirstInvocationKHR True True (IR 160 3) (IR 31637 27) (IR 0 0) (IR 233 1) (IR 2 1) 0xffffffff 0xffffffff,
    InD OpUntypedPtrAccessChainKHR True True (IR 388 6) (IR 31664 25) (IR 0 0) (IR 232 1) (IR 0 0) 0xffffffff 0xffffffff,
    InD OpUntypedInBoundsPtrAccessChainKHR True True (IR 388 6) (IR 31689 33) (IR 0 0) (IR 232 1) (IR 0 0) 0xffffffff 0xffffffff,
    InD OpUntypedArrayLengthKHR True True (IR 394 5) (IR 31722 22) (IR 0 0) (IR 232 1) (IR 0 0) 0xffffffff 0xffffffff,
    InD OpUntypedPrefetchKHR False False (IR 399 5) (IR 31744 19) (IR 0 0) (IR 232 1) (IR 0 0) 0xffffffff 0xffffffff,
    InD OpSubgroupAllKHR True True (IR 160 3) (IR 31763 15) (IR 0 0) (IR 234 1) (IR 41 1) 0xffffffff 0xffffffff,
    InD OpSubgroupAnyKHR True True (IR 160 3) (IR 31778 15) (IR 0 0) (IR 234 1) (IR 41 1) 0xffffffff 0xffffffff,
    InD OpSubgroupAllEqualKHR True True (IR 160 3) (IR 31793 20) (IR 0 0) (IR 234 1) (IR 41 1) 0xffffffff 0xffffffff,
    InD OpGroupNonUniformRotateKHR True True (IR 404 6) (IR 13151 25) (IR 0 0) (IR 235 1) (IR 0 0) 0xffffffff 0xffffffff,
    InD OpSubgroupReadInvocationKHR True True (IR 172 4) (IR 31813 26) (IR 0 0) (IR 233 1) (IR 2 1) 0xffffffff 0xffffffff,
    InD OpExtInstWithForwardRefsKHR True True (IR 410 5) (IR 31839 26) (IR 0 0) (IR 1 0) (IR 166 1) 0xffffffff 0xffffffff,
    InD OpTraceRayKHR False False (IR 415 11) (IR 31865 12) (IR 0 0) (IR 60 1) (IR 28 1) 0xffffffff 0xffffffff,
    InD OpExecuteCallableKHR False False (IR 36 2) (IR 31877 19) (IR 0 0) (IR 60 1) (IR 28 1) 0xffffffff 0xffffffff,
    InD OpConvertUToAccelerationStructureKHR True True (IR 160 3) (IR 31896 35) (IR 0 0) (IR 236 2) (IR 167 2) 0xffffffff 0xffffffff,
    InD OpIgnoreIntersectionKHR False False (IR 0 0) (IR 31931 22) (IR 0 0) (IR 60 1) (IR 28 1) 0xffffffff 0xffffffff,
    InD OpTerminateRayKHR False False (IR 0 0) (IR 31953 16) (IR 0 0) (IR 60 1) (IR 28 1) 0xffffffff 0xffffffff,
    InD OpSDot True True (IR 426 5) (IR 32016 5) (IR 93 1) (IR 238 1) (IR 121 1) (SPV_SPIRV_VERSION_WORD 1 6) 0xffffffff,
    InD OpUDot True True (IR 426 5) (IR 32029 5) (IR 94 1) (IR 238 1) (IR 121 1) (SPV_SPIRV_VERSION_WORD 1 6) 0xffffffff,
    InD OpSUDot True True (IR 426 5) (IR 32042 6) (IR 95 1) (IR 238 1) (IR 121 1) (SPV_SPIRV_VERSION_WORD 1 6) 0xffffffff,
    InD OpSDotAccSat True True (IR 431 6) (IR 32057 11) (IR 96 1) (IR 238 1) (IR 121 1) (SPV_SPIRV_VERSION_WORD 1 6) 0xffffffff,
    InD OpUDotAccSat True True (IR 431 6) (IR 32082 11) (IR 97 1) (IR 238 1) (IR 121 1) (SPV_SPIRV_VERSION_WORD 1 6) 0xffffffff,
    InD OpSUDotAccSat True True (IR 431 6) (IR 32107 12) (IR 98 1) (IR 238 1) (IR 121 1) (SPV_SPIRV_VERSION_WORD 1 6) 0xffffffff,
    InD OpTypeCooperativeMatrixKHR True False (IR 437 6) (IR 32134 25) (IR 0 0) (IR 239 1) (IR 0 0) 0xffffffff 0xffffffff,
    InD OpCooperativeMatrixLoadKHR True True (IR 443 6) (IR 32159 25) (IR 0 0) (IR 239 1) (IR 0 0) 0xffffffff 0xffffffff,
    InD OpCooperativeMatrixStoreKHR False False (IR 449 5) (IR 32184 26) (IR 0 0) (IR 239 1) (IR 0 0) 0xffffffff 0xffffffff,
    InD OpCooperativeMatrixMulAddKHR True True (IR 454 6) (IR 32264 27) (IR 0 0) (IR 239 1) (IR 0 0) 0xffffffff 0xffffffff,
    InD OpCooperativeMatrixLengthKHR True True (IR 160 3) (IR 32291 27) (IR 0 0) (IR 239 1) (IR 0 0) 0xffffffff 0xffffffff,
    InD OpConstantCompositeReplicateEXT True True (IR 160 3) (IR 32318 30) (IR 0 0) (IR 240 1) (IR 0 0) 0xffffffff 0xffffffff,
    InD OpSpecConstantCompositeReplicateEXT True True (IR 160 3) (IR 32348 34) (IR 0 0) (IR 240 1) (IR 0 0) 0xffffffff 0xffffffff,
    InD OpCompositeConstructReplicateEXT True True (IR 160 3) (IR 32382 31) (IR 0 0) (IR 240 1) (IR 0 0) 0xffffffff 0xffffffff,
    InD OpTypeRayQueryKHR True False (IR 68 1) (IR 32413 16) (IR 0 0) (IR 190 1) (IR 48 1) 0xffffffff 0xffffffff,
    InD OpRayQueryInitializeKHR False False (IR 460 8) (IR 32429 22) (IR 0 0) (IR 190 1) (IR 48 1) 0xffffffff 0xffffffff,
    InD OpRayQueryTerminateKHR False False (IR 10 1) (IR 32451 21) (IR 0 0) (IR 190 1) (IR 48 1) 0xffffffff 0xffffffff,
    InD OpRayQueryGenerateIntersectionKHR False False (IR 36 2) (IR 32472 32) (IR 0 0) (IR 190 1) (IR 48 1) 0xffffffff 0xffffffff,
    InD OpRayQueryConfirmIntersectionKHR False False (IR 10 1) (IR 32504 31) (IR 0 0) (IR 190 1) (IR 48 1) 0xffffffff 0xffffffff,
    InD OpRayQueryProceedKHR True True (IR 160 3) (IR 32535 19) (IR 0 0) (IR 190 1) (IR 48 1) 0xffffffff 0xffffffff]"

definition core_InstructionDesc_4 :: "InstructionDesc list" where
  "core_InstructionDesc_4 = [
    InD OpRayQueryGetIntersectionTypeKHR True True (IR 172 4) (IR 32554 31) (IR 0 0) (IR 190 1) (IR 48 1) 0xffffffff 0xffffffff,
    InD OpImageSampleWeightedQCOM True True (IR 130 5) (IR 32585 24) (IR 0 0) (IR 241 1) (IR 0 0) 0xffffffff 0xffffffff,
    InD OpImageBoxFilterQCOM True True (IR 130 5) (IR 32609 19) (IR 0 0) (IR 242 1) (IR 0 0) 0xffffffff 0xffffffff,
    InD OpImageBlockMatchSSDQCOM True True (IR 325 7) (IR 32628 23) (IR 0 0) (IR 243 1) (IR 0 0) 0xffffffff 0xffffffff,
    InD OpImageBlockMatchSADQCOM True True (IR 325 7) (IR 32651 23) (IR 0 0) (IR 243 1) (IR 0 0) 0xffffffff 0xffffffff,
    InD OpImageBlockMatchWindowSSDQCOM True True (IR 325 7) (IR 32674 29) (IR 0 0) (IR 244 1) (IR 0 0) 0xffffffff 0xffffffff,
    InD OpImageBlockMatchWindowSADQCOM True True (IR 325 7) (IR 32703 29) (IR 0 0) (IR 244 1) (IR 0 0) 0xffffffff 0xffffffff,
    InD OpImageBlockMatchGatherSSDQCOM True True (IR 325 7) (IR 32732 29) (IR 0 0) (IR 244 1) (IR 0 0) 0xffffffff 0xffffffff,
    InD OpImageBlockMatchGatherSADQCOM True True (IR 325 7) (IR 32761 29) (IR 0 0) (IR 244 1) (IR 0 0) 0xffffffff 0xffffffff,
    InD OpGroupIAddNonUniformAMD True True (IR 283 5) (IR 32790 23) (IR 0 0) (IR 216 1) (IR 33 1) 0xffffffff 0xffffffff,
    InD OpGroupFAddNonUniformAMD True True (IR 283 5) (IR 32813 23) (IR 0 0) (IR 216 1) (IR 33 1) 0xffffffff 0xffffffff,
    InD OpGroupFMinNonUniformAMD True True (IR 283 5) (IR 32836 23) (IR 0 0) (IR 216 1) (IR 33 1) 0xffffffff 0xffffffff,
    InD OpGroupUMinNonUniformAMD True True (IR 283 5) (IR 32859 23) (IR 0 0) (IR 216 1) (IR 33 1) 0xffffffff 0xffffffff,
    InD OpGroupSMinNonUniformAMD True True (IR 283 5) (IR 32882 23) (IR 0 0) (IR 216 1) (IR 33 1) 0xffffffff 0xffffffff,
    InD OpGroupFMaxNonUniformAMD True True (IR 283 5) (IR 32905 23) (IR 0 0) (IR 216 1) (IR 33 1) 0xffffffff 0xffffffff,
    InD OpGroupUMaxNonUniformAMD True True (IR 283 5) (IR 32928 23) (IR 0 0) (IR 216 1) (IR 33 1) 0xffffffff 0xffffffff,
    InD OpGroupSMaxNonUniformAMD True True (IR 283 5) (IR 32951 23) (IR 0 0) (IR 216 1) (IR 33 1) 0xffffffff 0xffffffff,
    InD OpFragmentMaskFetchAMD True True (IR 172 4) (IR 32974 21) (IR 0 0) (IR 245 1) (IR 57 1) 0xffffffff 0xffffffff,
    InD OpFragmentFetchAMD True True (IR 130 5) (IR 32995 17) (IR 0 0) (IR 245 1) (IR 57 1) 0xffffffff 0xffffffff,
    InD OpReadClockKHR True True (IR 340 3) (IR 33012 13) (IR 0 0) (IR 246 1) (IR 0 0) 0xffffffff 0xffffffff,
    InD OpAllocateNodePayloadsAMDX True True (IR 278 5) (IR 33025 25) (IR 0 0) (IR 43 1) (IR 0 0) 0xffffffff 0xffffffff,
    InD OpEnqueueNodePayloadsAMDX False False (IR 10 1) (IR 33050 24) (IR 0 0) (IR 43 1) (IR 0 0) 0xffffffff 0xffffffff,
    InD OpTypeNodePayloadArrayAMDX True False (IR 87 2) (IR 33074 25) (IR 0 0) (IR 43 1) (IR 0 0) 0xffffffff 0xffffffff,
    InD OpFinishWritingNodePayloadAMDX True True (IR 160 3) (IR 33099 29) (IR 0 0) (IR 43 1) (IR 0 0) 0xffffffff 0xffffffff,
    InD OpNodePayloadArrayLengthAMDX True True (IR 160 3) (IR 33128 27) (IR 0 0) (IR 43 1) (IR 0 0) 0xffffffff 0xffffffff,
    InD OpIsNodePayloadValidAMDX True True (IR 172 4) (IR 33155 23) (IR 0 0) (IR 43 1) (IR 0 0) 0xffffffff 0xffffffff,
    InD OpConstantStringAMDX True False (IR 50 2) (IR 33178 19) (IR 0 0) (IR 43 1) (IR 0 0) 0xffffffff 0xffffffff,
    InD OpSpecConstantStringAMDX True False (IR 50 2) (IR 33197 23) (IR 0 0) (IR 43 1) (IR 0 0) 0xffffffff 0xffffffff,
    InD OpGroupNonUniformQuadAllKHR True True (IR 160 3) (IR 33220 26) (IR 0 0) (IR 160 1) (IR 0 0) 0xffffffff 0xffffffff,
    InD OpGroupNonUniformQuadAnyKHR True True (IR 160 3) (IR 33246 26) (IR 0 0) (IR 160 1) (IR 0 0) 0xffffffff 0xffffffff,
    InD OpHitObjectRecordHitMotionNV False False (IR 468 14) (IR 33272 27) (IR 0 0) (IR 247 2) (IR 0 0) 0xffffffff 0xffffffff,
    InD OpHitObjectRecordHitWithIndexMotionNV False False (IR 482 13) (IR 33299 36) (IR 0 0) (IR 247 2) (IR 0 0) 0xffffffff 0xffffffff,
    InD OpHitObjectRecordMissMotionNV False False (IR 495 7) (IR 33335 28) (IR 0 0) (IR 247 2) (IR 0 0) 0xffffffff 0xffffffff,
    InD OpHitObjectGetWorldToObjectNV True True (IR 160 3) (IR 33363 28) (IR 0 0) (IR 122 1) (IR 0 0) 0xffffffff 0xffffffff,
    InD OpHitObjectGetObjectToWorldNV True True (IR 160 3) (IR 33391 28) (IR 0 0) (IR 122 1) (IR 0 0) 0xffffffff 0xffffffff,
    InD OpHitObjectGetObjectRayDirectionNV True True (IR 160 3) (IR 33419 33) (IR 0 0) (IR 122 1) (IR 0 0) 0xffffffff 0xffffffff,
    InD OpHitObjectGetObjectRayOriginNV True True (IR 160 3) (IR 33452 30) (IR 0 0) (IR 122 1) (IR 0 0) 0xffffffff 0xffffffff,
    InD OpHitObjectTraceRayMotionNV False False (IR 482 13) (IR 33482 26) (IR 0 0) (IR 247 2) (IR 0 0) 0xffffffff 0xffffffff,
    InD OpHitObjectGetShaderRecordBufferHandleNV True True (IR 160 3) (IR 33508 39) (IR 0 0) (IR 122 1) (IR 0 0) 0xffffffff 0xffffffff,
    InD OpHitObjectGetShaderBindingTableRecordIndexNV True True (IR 160 3) (IR 33547 44) (IR 0 0) (IR 122 1) (IR 0 0) 0xffffffff 0xffffffff,
    InD OpHitObjectRecordEmptyNV False False (IR 10 1) (IR 33591 23) (IR 0 0) (IR 122 1) (IR 0 0) 0xffffffff 0xffffffff,
    InD OpHitObjectTraceRayNV False False (IR 502 12) (IR 33614 20) (IR 0 0) (IR 122 1) (IR 0 0) 0xffffffff 0xffffffff,
    InD OpHitObjectRecordHitNV False False (IR 482 13) (IR 33634 21) (IR 0 0) (IR 122 1) (IR 0 0) 0xffffffff 0xffffffff,
    InD OpHitObjectRecordHitWithIndexNV False False (IR 502 12) (IR 33655 30) (IR 0 0) (IR 122 1) (IR 0 0) 0xffffffff 0xffffffff,
    InD OpHitObjectRecordMissNV False False (IR 514 6) (IR 33685 22) (IR 0 0) (IR 122 1) (IR 0 0) 0xffffffff 0xffffffff,
    InD OpHitObjectExecuteShaderNV False False (IR 36 2) (IR 33707 25) (IR 0 0) (IR 122 1) (IR 0 0) 0xffffffff 0xffffffff,
    InD OpHitObjectGetCurrentTimeNV True True (IR 160 3) (IR 33732 26) (IR 0 0) (IR 122 1) (IR 0 0) 0xffffffff 0xffffffff,
    InD OpHitObjectGetAttributesNV False False (IR 36 2) (IR 33758 25) (IR 0 0) (IR 122 1) (IR 0 0) 0xffffffff 0xffffffff,
    InD OpHitObjectGetHitKindNV True True (IR 160 3) (IR 33783 22) (IR 0 0) (IR 122 1) (IR 0 0) 0xffffffff 0xffffffff,
    InD OpHitObjectGetPrimitiveIndexNV True True (IR 160 3) (IR 33805 29) (IR 0 0) (IR 122 1) (IR 0 0) 0xffffffff 0xffffffff,
    InD OpHitObjectGetGeometryIndexNV True True (IR 160 3) (IR 33834 28) (IR 0 0) (IR 122 1) (IR 0 0) 0xffffffff 0xffffffff,
    InD OpHitObjectGetInstanceIdNV True True (IR 160 3) (IR 33862 25) (IR 0 0) (IR 122 1) (IR 0 0) 0xffffffff 0xffffffff,
    InD OpHitObjectGetInstanceCustomIndexNV True True (IR 160 3) (IR 33887 34) (IR 0 0) (IR 122 1) (IR 0 0) 0xffffffff 0xffffffff,
    InD OpHitObjectGetWorldRayDirectionNV True True (IR 160 3) (IR 33921 32) (IR 0 0) (IR 122 1) (IR 0 0) 0xffffffff 0xffffffff,
    InD OpHitObjectGetWorldRayOriginNV True True (IR 160 3) (IR 33953 29) (IR 0 0) (IR 122 1) (IR 0 0) 0xffffffff 0xffffffff,
    InD OpHitObjectGetRayTMaxNV True True (IR 160 3) (IR 33982 22) (IR 0 0) (IR 122 1) (IR 0 0) 0xffffffff 0xffffffff,
    InD OpHitObjectGetRayTMinNV True True (IR 160 3) (IR 34004 22) (IR 0 0) (IR 122 1) (IR 0 0) 0xffffffff 0xffffffff,
    InD OpHitObjectIsEmptyNV True True (IR 160 3) (IR 34026 19) (IR 0 0) (IR 122 1) (IR 0 0) 0xffffffff 0xffffffff,
    InD OpHitObjectIsHitNV True True (IR 160 3) (IR 34045 17) (IR 0 0) (IR 122 1) (IR 0 0) 0xffffffff 0xffffffff,
    InD OpHitObjectIsMissNV True True (IR 160 3) (IR 34062 18) (IR 0 0) (IR 122 1) (IR 0 0) 0xffffffff 0xffffffff,
    InD OpReorderThreadWithHitObjectNV False False (IR 520 3) (IR 34080 29) (IR 0 0) (IR 122 1) (IR 0 0) 0xffffffff 0xffffffff,
    InD OpReorderThreadWithHintNV False False (IR 36 2) (IR 34109 24) (IR 0 0) (IR 122 1) (IR 0 0) 0xffffffff 0xffffffff,
    InD OpTypeHitObjectNV True False (IR 68 1) (IR 34133 16) (IR 0 0) (IR 122 1) (IR 0 0) 0xffffffff 0xffffffff,
    InD OpImageSampleFootprintNV True True (IR 523 7) (IR 34149 23) (IR 0 0) (IR 249 1) (IR 71 1) 0xffffffff 0xffffffff,
    InD OpTypeCooperativeVectorNV True False (IR 89 3) (IR 34172 24) (IR 0 0) (IR 250 1) (IR 0 0) 0xffffffff 0xffffffff,
    InD OpCooperativeVectorMatrixMulNV True True (IR 530 13) (IR 34196 29) (IR 0 0) (IR 250 1) (IR 0 0) 0xffffffff 0xffffffff,
    InD OpCooperativeVectorOuterProductAccumulateNV False False (IR 543 7) (IR 34225 42) (IR 0 0) (IR 251 1) (IR 0 0) 0xffffffff 0xffffffff,
    InD OpCooperativeVectorReduceSumAccumulateNV False False (IR 33 3) (IR 34267 39) (IR 0 0) (IR 251 1) (IR 0 0) 0xffffffff 0xffffffff,
    InD OpCooperativeVectorMatrixMulAddNV True True (IR 550 16) (IR 34306 32) (IR 0 0) (IR 250 1) (IR 0 0) 0xffffffff 0xffffffff,
    InD OpCooperativeMatrixConvertNV True True (IR 160 3) (IR 34338 27) (IR 0 0) (IR 252 1) (IR 0 0) 0xffffffff 0xffffffff,
    InD OpEmitMeshTasksEXT False False (IR 566 4) (IR 34365 17) (IR 0 0) (IR 53 1) (IR 0 0) 0xffffffff 0xffffffff,
    InD OpSetMeshOutputsEXT False False (IR 36 2) (IR 34382 18) (IR 0 0) (IR 53 1) (IR 0 0) 0xffffffff 0xffffffff,
    InD OpGroupNonUniformPartitionNV True True (IR 160 3) (IR 34400 27) (IR 0 0) (IR 181 1) (IR 74 1) 0xffffffff 0xffffffff,
    InD OpWritePackedPrimitiveIndices4x8NV False False (IR 36 2) (IR 34427 33) (IR 0 0) (IR 50 1) (IR 18 1) 0xffffffff 0xffffffff,
    InD OpFetchMicroTriangleVertexPositionNV True True (IR 325 7) (IR 34460 35) (IR 0 0) (IR 253 1) (IR 0 0) 0xffffffff 0xffffffff,
    InD OpFetchMicroTriangleVertexBarycentricNV True True (IR 325 7) (IR 34495 38) (IR 0 0) (IR 253 1) (IR 0 0) 0xffffffff 0xffffffff,
    InD OpCooperativeVectorLoadNV True True (IR 570 5) (IR 34533 24) (IR 0 0) (IR 250 1) (IR 0 0) 0xffffffff 0xffffffff,
    InD OpCooperativeVectorStoreNV False False (IR 575 4) (IR 34557 25) (IR 0 0) (IR 250 1) (IR 0 0) 0xffffffff 0xffffffff,
    InD OpReportIntersectionKHR True True (IR 172 4) (IR 34582 22) (IR 99 1) (IR 54 2) (IR 24 2) 0xffffffff 0xffffffff,
    InD OpIgnoreIntersectionNV False False (IR 0 0) (IR 34625 21) (IR 0 0) (IR 56 1) (IR 26 1) 0xffffffff 0xffffffff,
    InD OpTerminateRayNV False False (IR 0 0) (IR 34646 15) (IR 0 0) (IR 56 1) (IR 26 1) 0xffffffff 0xffffffff,
    InD OpTraceNV False False (IR 415 11) (IR 34661 8) (IR 0 0) (IR 56 1) (IR 26 1) 0xffffffff 0xffffffff,
    InD OpTraceMotionNV False False (IR 502 12) (IR 34669 14) (IR 0 0) (IR 57 1) (IR 27 1) 0xffffffff 0xffffffff,
    InD OpTraceRayMotionNV False False (IR 502 12) (IR 34683 17) (IR 0 0) (IR 57 1) (IR 27 1) 0xffffffff 0xffffffff,
    InD OpRayQueryGetIntersectionTriangleVertexPositionsKHR True True (IR 172 4) (IR 34700 50) (IR 0 0) (IR 254 1) (IR 0 0) 0xffffffff 0xffffffff,
    InD OpTypeAccelerationStructureKHR True False (IR 68 1) (IR 34750 29) (IR 100 1) (IR 255 4) (IR 169 4) 0xffffffff 0xffffffff,
    InD OpExecuteCallableNV False False (IR 36 2) (IR 34807 18) (IR 0 0) (IR 56 1) (IR 26 1) 0xffffffff 0xffffffff,
    InD OpRayQueryGetClusterIdNV True True (IR 172 4) (IR 34825 23) (IR 0 0) (IR 64 1) (IR 0 0) 0xffffffff 0xffffffff,
    InD OpHitObjectGetClusterIdNV True True (IR 160 3) (IR 34848 24) (IR 0 0) (IR 64 1) (IR 0 0) 0xffffffff 0xffffffff,
    InD OpTypeCooperativeMatrixNV True False (IR 579 5) (IR 34872 24) (IR 0 0) (IR 259 1) (IR 78 1) 0xffffffff 0xffffffff,
    InD OpCooperativeMatrixLoadNV True True (IR 584 6) (IR 34896 24) (IR 0 0) (IR 259 1) (IR 78 1) 0xffffffff 0xffffffff,
    InD OpCooperativeMatrixStoreNV False False (IR 590 5) (IR 34920 25) (IR 0 0) (IR 259 1) (IR 78 1) 0xffffffff 0xffffffff,
    InD OpCooperativeMatrixMulAddNV True True (IR 130 5) (IR 34945 26) (IR 0 0) (IR 259 1) (IR 78 1) 0xffffffff 0xffffffff,
    InD OpCooperativeMatrixLengthNV True True (IR 160 3) (IR 34971 26) (IR 0 0) (IR 259 1) (IR 78 1) 0xffffffff 0xffffffff,
    InD OpBeginInvocationInterlockEXT False False (IR 0 0) (IR 34997 28) (IR 0 0) (IR 260 3) (IR 79 1) 0xffffffff 0xffffffff,
    InD OpEndInvocationInterlockEXT False False (IR 0 0) (IR 35025 26) (IR 0 0) (IR 260 3) (IR 79 1) 0xffffffff 0xffffffff,
    InD OpCooperativeMatrixReduceNV True True (IR 595 5) (IR 35094 26) (IR 0 0) (IR 263 1) (IR 0 0) 0xffffffff 0xffffffff,
    InD OpCooperativeMatrixLoadTensorNV True True (IR 600 7) (IR 35195 30) (IR 0 0) (IR 198 1) (IR 0 0) 0xffffffff 0xffffffff,
    InD OpCooperativeMatrixStoreTensorNV False False (IR 607 5) (IR 35225 31) (IR 0 0) (IR 198 1) (IR 0 0) 0xffffffff 0xffffffff,
    InD OpCooperativeMatrixPerElementOpNV True True (IR 151 5) (IR 35256 32) (IR 0 0) (IR 264 1) (IR 0 0) 0xffffffff 0xffffffff]"

definition core_InstructionDesc_5 :: "InstructionDesc list" where
  "core_InstructionDesc_5 = [
    InD OpTypeTensorLayoutNV True False (IR 89 3) (IR 35288 19) (IR 0 0) (IR 265 1) (IR 0 0) 0xffffffff 0xffffffff,
    InD OpTypeTensorViewNV True False (IR 612 4) (IR 35307 17) (IR 0 0) (IR 265 1) (IR 0 0) 0xffffffff 0xffffffff,
    InD OpCreateTensorLayoutNV True True (IR 39 2) (IR 35324 21) (IR 0 0) (IR 265 1) (IR 0 0) 0xffffffff 0xffffffff,
    InD OpTensorLayoutSetDimensionNV True True (IR 122 4) (IR 35345 27) (IR 0 0) (IR 265 1) (IR 0 0) 0xffffffff 0xffffffff,
    InD OpTensorLayoutSetStrideNV True True (IR 122 4) (IR 35372 24) (IR 0 0) (IR 265 1) (IR 0 0) 0xffffffff 0xffffffff,
    InD OpTensorLayoutSliceNV True True (IR 122 4) (IR 35396 20) (IR 0 0) (IR 265 1) (IR 0 0) 0xffffffff 0xffffffff,
    InD OpTensorLayoutSetClampValueNV True True (IR 172 4) (IR 35416 28) (IR 0 0) (IR 265 1) (IR 0 0) 0xffffffff 0xffffffff,
    InD OpCreateTensorViewNV True True (IR 39 2) (IR 35444 19) (IR 0 0) (IR 265 1) (IR 0 0) 0xffffffff 0xffffffff,
    InD OpTensorViewSetDimensionNV True True (IR 122 4) (IR 35463 25) (IR 0 0) (IR 265 1) (IR 0 0) 0xffffffff 0xffffffff,
    InD OpTensorViewSetStrideNV True True (IR 122 4) (IR 35488 22) (IR 0 0) (IR 265 1) (IR 0 0) 0xffffffff 0xffffffff,
    InD OpDemoteToHelperInvocation False False (IR 0 0) (IR 11463 25) (IR 45 1) (IR 266 1) (IR 0 0) (SPV_SPIRV_VERSION_WORD 1 6) 0xffffffff,
    InD OpIsHelperInvocationEXT True True (IR 39 2) (IR 35510 22) (IR 0 0) (IR 266 1) (IR 80 1) 0xffffffff 0xffffffff,
    InD OpTensorViewSetClipNV True True (IR 325 7) (IR 35532 20) (IR 0 0) (IR 265 1) (IR 0 0) 0xffffffff 0xffffffff,
    InD OpTensorLayoutSetBlockSizeNV True True (IR 122 4) (IR 35552 27) (IR 0 0) (IR 265 1) (IR 0 0) 0xffffffff 0xffffffff,
    InD OpCooperativeMatrixTransposeNV True True (IR 160 3) (IR 35579 29) (IR 0 0) (IR 252 1) (IR 0 0) 0xffffffff 0xffffffff,
    InD OpConvertUToImageNV True True (IR 160 3) (IR 35608 18) (IR 0 0) (IR 123 1) (IR 0 0) 0xffffffff 0xffffffff,
    InD OpConvertUToSamplerNV True True (IR 160 3) (IR 35626 20) (IR 0 0) (IR 123 1) (IR 0 0) 0xffffffff 0xffffffff,
    InD OpConvertImageToUNV True True (IR 160 3) (IR 35646 18) (IR 0 0) (IR 123 1) (IR 0 0) 0xffffffff 0xffffffff,
    InD OpConvertSamplerToUNV True True (IR 160 3) (IR 35664 20) (IR 0 0) (IR 123 1) (IR 0 0) 0xffffffff 0xffffffff,
    InD OpConvertUToSampledImageNV True True (IR 160 3) (IR 35684 25) (IR 0 0) (IR 123 1) (IR 0 0) 0xffffffff 0xffffffff,
    InD OpConvertSampledImageToUNV True True (IR 160 3) (IR 35709 25) (IR 0 0) (IR 123 1) (IR 0 0) 0xffffffff 0xffffffff,
    InD OpSamplerImageAddressingModeNV False False (IR 0 1) (IR 35734 29) (IR 0 0) (IR 123 1) (IR 0 0) 0xffffffff 0xffffffff,
    InD OpRawAccessChainNV True True (IR 616 7) (IR 35815 17) (IR 0 0) (IR 187 1) (IR 0 0) 0xffffffff 0xffffffff,
    InD OpRayQueryGetIntersectionSpherePositionNV True True (IR 172 4) (IR 35832 40) (IR 0 0) (IR 61 1) (IR 0 0) 0xffffffff 0xffffffff,
    InD OpRayQueryGetIntersectionSphereRadiusNV True True (IR 172 4) (IR 35872 38) (IR 0 0) (IR 61 1) (IR 0 0) 0xffffffff 0xffffffff,
    InD OpRayQueryGetIntersectionLSSPositionsNV True True (IR 172 4) (IR 35910 38) (IR 0 0) (IR 62 1) (IR 0 0) 0xffffffff 0xffffffff,
    InD OpRayQueryGetIntersectionLSSRadiiNV True True (IR 172 4) (IR 35948 34) (IR 0 0) (IR 62 1) (IR 0 0) 0xffffffff 0xffffffff,
    InD OpRayQueryGetIntersectionLSSHitValueNV True True (IR 172 4) (IR 35982 37) (IR 0 0) (IR 62 1) (IR 0 0) 0xffffffff 0xffffffff,
    InD OpHitObjectGetSpherePositionNV True True (IR 160 3) (IR 36019 29) (IR 0 0) (IR 61 1) (IR 0 0) 0xffffffff 0xffffffff,
    InD OpHitObjectGetSphereRadiusNV True True (IR 160 3) (IR 36048 27) (IR 0 0) (IR 61 1) (IR 0 0) 0xffffffff 0xffffffff,
    InD OpHitObjectGetLSSPositionsNV True True (IR 160 3) (IR 36075 27) (IR 0 0) (IR 62 1) (IR 0 0) 0xffffffff 0xffffffff,
    InD OpHitObjectGetLSSRadiiNV True True (IR 160 3) (IR 36102 23) (IR 0 0) (IR 62 1) (IR 0 0) 0xffffffff 0xffffffff,
    InD OpHitObjectIsSphereHitNV True True (IR 160 3) (IR 36125 23) (IR 0 0) (IR 61 1) (IR 0 0) 0xffffffff 0xffffffff,
    InD OpHitObjectIsLSSHitNV True True (IR 160 3) (IR 36148 20) (IR 0 0) (IR 62 1) (IR 0 0) 0xffffffff 0xffffffff,
    InD OpRayQueryIsSphereHitNV True True (IR 172 4) (IR 36168 22) (IR 0 0) (IR 61 1) (IR 0 0) 0xffffffff 0xffffffff,
    InD OpRayQueryIsLSSHitNV True True (IR 172 4) (IR 36190 19) (IR 0 0) (IR 62 1) (IR 0 0) 0xffffffff 0xffffffff,
    InD OpSubgroupShuffleINTEL True True (IR 172 4) (IR 11911 21) (IR 0 0) (IR 267 1) (IR 0 0) 0xffffffff 0xffffffff,
    InD OpSubgroupShuffleDownINTEL True True (IR 130 5) (IR 36209 25) (IR 0 0) (IR 267 1) (IR 0 0) 0xffffffff 0xffffffff,
    InD OpSubgroupShuffleUpINTEL True True (IR 130 5) (IR 36234 23) (IR 0 0) (IR 267 1) (IR 0 0) 0xffffffff 0xffffffff,
    InD OpSubgroupShuffleXorINTEL True True (IR 172 4) (IR 36257 24) (IR 0 0) (IR 267 1) (IR 0 0) 0xffffffff 0xffffffff,
    InD OpSubgroupBlockReadINTEL True True (IR 160 3) (IR 36281 23) (IR 0 0) (IR 268 1) (IR 0 0) 0xffffffff 0xffffffff,
    InD OpSubgroupBlockWriteINTEL False False (IR 36 2) (IR 36304 24) (IR 0 0) (IR 268 1) (IR 0 0) 0xffffffff 0xffffffff,
    InD OpSubgroupImageBlockReadINTEL True True (IR 172 4) (IR 36328 28) (IR 0 0) (IR 269 1) (IR 0 0) 0xffffffff 0xffffffff,
    InD OpSubgroupImageBlockWriteINTEL False False (IR 33 3) (IR 36356 29) (IR 0 0) (IR 269 1) (IR 0 0) 0xffffffff 0xffffffff,
    InD OpSubgroupImageMediaBlockReadINTEL True True (IR 215 6) (IR 36385 33) (IR 0 0) (IR 270 1) (IR 0 0) 0xffffffff 0xffffffff,
    InD OpSubgroupImageMediaBlockWriteINTEL False False (IR 623 5) (IR 36418 34) (IR 0 0) (IR 270 1) (IR 0 0) 0xffffffff 0xffffffff,
    InD OpUCountLeadingZerosINTEL True True (IR 160 3) (IR 36452 24) (IR 0 0) (IR 271 1) (IR 0 0) 0xffffffff 0xffffffff,
    InD OpUCountTrailingZerosINTEL True True (IR 160 3) (IR 36476 25) (IR 0 0) (IR 271 1) (IR 0 0) 0xffffffff 0xffffffff,
    InD OpAbsISubINTEL True True (IR 172 4) (IR 36501 13) (IR 0 0) (IR 271 1) (IR 0 0) 0xffffffff 0xffffffff,
    InD OpAbsUSubINTEL True True (IR 172 4) (IR 36514 13) (IR 0 0) (IR 271 1) (IR 0 0) 0xffffffff 0xffffffff,
    InD OpIAddSatINTEL True True (IR 172 4) (IR 36527 13) (IR 0 0) (IR 271 1) (IR 0 0) 0xffffffff 0xffffffff,
    InD OpUAddSatINTEL True True (IR 172 4) (IR 36540 13) (IR 0 0) (IR 271 1) (IR 0 0) 0xffffffff 0xffffffff,
    InD OpIAverageINTEL True True (IR 172 4) (IR 36553 14) (IR 0 0) (IR 271 1) (IR 0 0) 0xffffffff 0xffffffff,
    InD OpUAverageINTEL True True (IR 172 4) (IR 36567 14) (IR 0 0) (IR 271 1) (IR 0 0) 0xffffffff 0xffffffff,
    InD OpIAverageRoundedINTEL True True (IR 172 4) (IR 36581 21) (IR 0 0) (IR 271 1) (IR 0 0) 0xffffffff 0xffffffff,
    InD OpUAverageRoundedINTEL True True (IR 172 4) (IR 36602 21) (IR 0 0) (IR 271 1) (IR 0 0) 0xffffffff 0xffffffff,
    InD OpISubSatINTEL True True (IR 172 4) (IR 36623 13) (IR 0 0) (IR 271 1) (IR 0 0) 0xffffffff 0xffffffff,
    InD OpUSubSatINTEL True True (IR 172 4) (IR 36636 13) (IR 0 0) (IR 271 1) (IR 0 0) 0xffffffff 0xffffffff,
    InD OpIMul32x16INTEL True True (IR 172 4) (IR 36649 15) (IR 0 0) (IR 271 1) (IR 0 0) 0xffffffff 0xffffffff,
    InD OpUMul32x16INTEL True True (IR 172 4) (IR 36664 15) (IR 0 0) (IR 271 1) (IR 0 0) 0xffffffff 0xffffffff,
    InD OpConstantFunctionPointerINTEL True True (IR 160 3) (IR 36679 29) (IR 0 0) (IR 196 1) (IR 94 1) 0xffffffff 0xffffffff,
    InD OpFunctionPointerCallINTEL True True (IR 107 3) (IR 36708 25) (IR 0 0) (IR 196 1) (IR 94 1) 0xffffffff 0xffffffff,
    InD OpAsmTargetINTEL True False (IR 50 2) (IR 36733 15) (IR 0 0) (IR 126 1) (IR 0 0) 0xffffffff 0xffffffff,
    InD OpAsmINTEL True True (IR 628 6) (IR 12129 9) (IR 0 0) (IR 126 1) (IR 0 0) 0xffffffff 0xffffffff,
    InD OpAsmCallINTEL True True (IR 122 4) (IR 36748 13) (IR 0 0) (IR 126 1) (IR 0 0) 0xffffffff 0xffffffff,
    InD OpAtomicFMinEXT True True (IR 235 6) (IR 36761 14) (IR 0 0) (IR 272 4) (IR 0 0) 0xffffffff 0xffffffff,
    InD OpAtomicFMaxEXT True True (IR 235 6) (IR 36775 14) (IR 0 0) (IR 272 4) (IR 0 0) 0xffffffff 0xffffffff,
    InD OpAssumeTrueKHR False False (IR 10 1) (IR 36789 14) (IR 0 0) (IR 276 1) (IR 98 1) 0xffffffff 0xffffffff,
    InD OpExpectKHR True True (IR 172 4) (IR 36803 10) (IR 0 0) (IR 276 1) (IR 98 1) 0xffffffff 0xffffffff,
    InD OpDecorateString False False (IR 163 2) (IR 36813 15) (IR 101 1) (IR 1 0) (IR 173 2) (SPV_SPIRV_VERSION_WORD 1 4) 0xffffffff,
    InD OpMemberDecorateString False False (IR 165 3) (IR 36849 21) (IR 102 1) (IR 1 0) (IR 173 2) (SPV_SPIRV_VERSION_WORD 1 4) 0xffffffff,
    InD OpVmeImageINTEL True True (IR 172 4) (IR 36897 14) (IR 0 0) (IR 277 1) (IR 0 0) 0xffffffff 0xffffffff,
    InD OpTypeVmeImageINTEL True False (IR 87 2) (IR 36911 18) (IR 0 0) (IR 277 1) (IR 0 0) 0xffffffff 0xffffffff,
    InD OpTypeAvcImePayloadINTEL True False (IR 68 1) (IR 36929 23) (IR 0 0) (IR 277 1) (IR 0 0) 0xffffffff 0xffffffff,
    InD OpTypeAvcRefPayloadINTEL True False (IR 68 1) (IR 36952 23) (IR 0 0) (IR 277 1) (IR 0 0) 0xffffffff 0xffffffff,
    InD OpTypeAvcSicPayloadINTEL True False (IR 68 1) (IR 36975 23) (IR 0 0) (IR 277 1) (IR 0 0) 0xffffffff 0xffffffff,
    InD OpTypeAvcMcePayloadINTEL True False (IR 68 1) (IR 36998 23) (IR 0 0) (IR 277 1) (IR 0 0) 0xffffffff 0xffffffff,
    InD OpTypeAvcMceResultINTEL True False (IR 68 1) (IR 37021 22) (IR 0 0) (IR 277 1) (IR 0 0) 0xffffffff 0xffffffff,
    InD OpTypeAvcImeResultINTEL True False (IR 68 1) (IR 37043 22) (IR 0 0) (IR 277 1) (IR 0 0) 0xffffffff 0xffffffff,
    InD OpTypeAvcImeResultSingleReferenceStreamoutINTEL True False (IR 68 1) (IR 37065 46) (IR 0 0) (IR 277 1) (IR 0 0) 0xffffffff 0xffffffff,
    InD OpTypeAvcImeResultDualReferenceStreamoutINTEL True False (IR 68 1) (IR 37111 44) (IR 0 0) (IR 277 1) (IR 0 0) 0xffffffff 0xffffffff,
    InD OpTypeAvcImeSingleReferenceStreaminINTEL True False (IR 68 1) (IR 37155 39) (IR 0 0) (IR 277 1) (IR 0 0) 0xffffffff 0xffffffff,
    InD OpTypeAvcImeDualReferenceStreaminINTEL True False (IR 68 1) (IR 37194 37) (IR 0 0) (IR 277 1) (IR 0 0) 0xffffffff 0xffffffff,
    InD OpTypeAvcRefResultINTEL True False (IR 68 1) (IR 37231 22) (IR 0 0) (IR 277 1) (IR 0 0) 0xffffffff 0xffffffff,
    InD OpTypeAvcSicResultINTEL True False (IR 68 1) (IR 37253 22) (IR 0 0) (IR 277 1) (IR 0 0) 0xffffffff 0xffffffff,
    InD OpSubgroupAvcMceGetDefaultInterBaseMultiReferencePenaltyINTEL True True (IR 172 4) (IR 37275 60) (IR 0 0) (IR 277 1) (IR 0 0) 0xffffffff 0xffffffff,
    InD OpSubgroupAvcMceSetInterBaseMultiReferencePenaltyINTEL True True (IR 172 4) (IR 37335 53) (IR 0 0) (IR 277 1) (IR 0 0) 0xffffffff 0xffffffff,
    InD OpSubgroupAvcMceGetDefaultInterShapePenaltyINTEL True True (IR 172 4) (IR 37388 47) (IR 0 0) (IR 277 1) (IR 0 0) 0xffffffff 0xffffffff,
    InD OpSubgroupAvcMceSetInterShapePenaltyINTEL True True (IR 172 4) (IR 37435 40) (IR 0 0) (IR 277 1) (IR 0 0) 0xffffffff 0xffffffff,
    InD OpSubgroupAvcMceGetDefaultInterDirectionPenaltyINTEL True True (IR 172 4) (IR 37475 51) (IR 0 0) (IR 277 1) (IR 0 0) 0xffffffff 0xffffffff,
    InD OpSubgroupAvcMceSetInterDirectionPenaltyINTEL True True (IR 172 4) (IR 37526 44) (IR 0 0) (IR 277 1) (IR 0 0) 0xffffffff 0xffffffff,
    InD OpSubgroupAvcMceGetDefaultIntraLumaShapePenaltyINTEL True True (IR 172 4) (IR 37570 51) (IR 0 0) (IR 278 2) (IR 0 0) 0xffffffff 0xffffffff,
    InD OpSubgroupAvcMceGetDefaultInterMotionVectorCostTableINTEL True True (IR 172 4) (IR 37621 56) (IR 0 0) (IR 277 1) (IR 0 0) 0xffffffff 0xffffffff,
    InD OpSubgroupAvcMceGetDefaultHighPenaltyCostTableINTEL True True (IR 39 2) (IR 37677 50) (IR 0 0) (IR 277 1) (IR 0 0) 0xffffffff 0xffffffff,
    InD OpSubgroupAvcMceGetDefaultMediumPenaltyCostTableINTEL True True (IR 39 2) (IR 37727 52) (IR 0 0) (IR 277 1) (IR 0 0) 0xffffffff 0xffffffff,
    InD OpSubgroupAvcMceGetDefaultLowPenaltyCostTableINTEL True True (IR 39 2) (IR 37779 49) (IR 0 0) (IR 277 1) (IR 0 0) 0xffffffff 0xffffffff,
    InD OpSubgroupAvcMceSetMotionVectorCostFunctionINTEL True True (IR 215 6) (IR 37828 47) (IR 0 0) (IR 277 1) (IR 0 0) 0xffffffff 0xffffffff,
    InD OpSubgroupAvcMceGetDefaultIntraLumaModePenaltyINTEL True True (IR 172 4) (IR 37875 50) (IR 0 0) (IR 278 2) (IR 0 0) 0xffffffff 0xffffffff,
    InD OpSubgroupAvcMceGetDefaultNonDcLumaIntraPenaltyINTEL True True (IR 39 2) (IR 37925 51) (IR 0 0) (IR 278 2) (IR 0 0) 0xffffffff 0xffffffff,
    InD OpSubgroupAvcMceGetDefaultIntraChromaModeBasePenaltyINTEL True True (IR 39 2) (IR 37976 56) (IR 0 0) (IR 280 2) (IR 0 0) 0xffffffff 0xffffffff]"

definition core_InstructionDesc_6 :: "InstructionDesc list" where
  "core_InstructionDesc_6 = [
    InD OpSubgroupAvcMceSetAcOnlyHaarINTEL True True (IR 160 3) (IR 38032 33) (IR 0 0) (IR 277 1) (IR 0 0) 0xffffffff 0xffffffff,
    InD OpSubgroupAvcMceSetSourceInterlacedFieldPolarityINTEL True True (IR 172 4) (IR 38065 52) (IR 0 0) (IR 277 1) (IR 0 0) 0xffffffff 0xffffffff,
    InD OpSubgroupAvcMceSetSingleReferenceInterlacedFieldPolarityINTEL True True (IR 172 4) (IR 38117 61) (IR 0 0) (IR 277 1) (IR 0 0) 0xffffffff 0xffffffff,
    InD OpSubgroupAvcMceSetDualReferenceInterlacedFieldPolaritiesINTEL True True (IR 130 5) (IR 38178 61) (IR 0 0) (IR 277 1) (IR 0 0) 0xffffffff 0xffffffff,
    InD OpSubgroupAvcMceConvertToImePayloadINTEL True True (IR 160 3) (IR 38239 39) (IR 0 0) (IR 277 1) (IR 0 0) 0xffffffff 0xffffffff,
    InD OpSubgroupAvcMceConvertToImeResultINTEL True True (IR 160 3) (IR 38278 38) (IR 0 0) (IR 277 1) (IR 0 0) 0xffffffff 0xffffffff,
    InD OpSubgroupAvcMceConvertToRefPayloadINTEL True True (IR 160 3) (IR 38316 39) (IR 0 0) (IR 277 1) (IR 0 0) 0xffffffff 0xffffffff,
    InD OpSubgroupAvcMceConvertToRefResultINTEL True True (IR 160 3) (IR 38355 38) (IR 0 0) (IR 277 1) (IR 0 0) 0xffffffff 0xffffffff,
    InD OpSubgroupAvcMceConvertToSicPayloadINTEL True True (IR 160 3) (IR 38393 39) (IR 0 0) (IR 277 1) (IR 0 0) 0xffffffff 0xffffffff,
    InD OpSubgroupAvcMceConvertToSicResultINTEL True True (IR 160 3) (IR 38432 38) (IR 0 0) (IR 277 1) (IR 0 0) 0xffffffff 0xffffffff,
    InD OpSubgroupAvcMceGetMotionVectorsINTEL True True (IR 160 3) (IR 38470 36) (IR 0 0) (IR 277 1) (IR 0 0) 0xffffffff 0xffffffff,
    InD OpSubgroupAvcMceGetInterDistortionsINTEL True True (IR 160 3) (IR 38506 39) (IR 0 0) (IR 277 1) (IR 0 0) 0xffffffff 0xffffffff,
    InD OpSubgroupAvcMceGetBestInterDistortionsINTEL True True (IR 160 3) (IR 38545 43) (IR 0 0) (IR 277 1) (IR 0 0) 0xffffffff 0xffffffff,
    InD OpSubgroupAvcMceGetInterMajorShapeINTEL True True (IR 160 3) (IR 38588 38) (IR 0 0) (IR 277 1) (IR 0 0) 0xffffffff 0xffffffff,
    InD OpSubgroupAvcMceGetInterMinorShapeINTEL True True (IR 160 3) (IR 38626 38) (IR 0 0) (IR 277 1) (IR 0 0) 0xffffffff 0xffffffff,
    InD OpSubgroupAvcMceGetInterDirectionsINTEL True True (IR 160 3) (IR 38664 38) (IR 0 0) (IR 277 1) (IR 0 0) 0xffffffff 0xffffffff,
    InD OpSubgroupAvcMceGetInterMotionVectorCountINTEL True True (IR 160 3) (IR 38702 45) (IR 0 0) (IR 277 1) (IR 0 0) 0xffffffff 0xffffffff,
    InD OpSubgroupAvcMceGetInterReferenceIdsINTEL True True (IR 160 3) (IR 38747 40) (IR 0 0) (IR 277 1) (IR 0 0) 0xffffffff 0xffffffff,
    InD OpSubgroupAvcMceGetInterReferenceInterlacedFieldPolaritiesINTEL True True (IR 130 5) (IR 38787 62) (IR 0 0) (IR 277 1) (IR 0 0) 0xffffffff 0xffffffff,
    InD OpSubgroupAvcImeInitializeINTEL True True (IR 130 5) (IR 38849 30) (IR 0 0) (IR 277 1) (IR 0 0) 0xffffffff 0xffffffff,
    InD OpSubgroupAvcImeSetSingleReferenceINTEL True True (IR 130 5) (IR 38879 38) (IR 0 0) (IR 277 1) (IR 0 0) 0xffffffff 0xffffffff,
    InD OpSubgroupAvcImeSetDualReferenceINTEL True True (IR 215 6) (IR 38917 36) (IR 0 0) (IR 277 1) (IR 0 0) 0xffffffff 0xffffffff,
    InD OpSubgroupAvcImeRefWindowSizeINTEL True True (IR 172 4) (IR 38953 33) (IR 0 0) (IR 277 1) (IR 0 0) 0xffffffff 0xffffffff,
    InD OpSubgroupAvcImeAdjustRefOffsetINTEL True True (IR 215 6) (IR 38986 35) (IR 0 0) (IR 277 1) (IR 0 0) 0xffffffff 0xffffffff,
    InD OpSubgroupAvcImeConvertToMcePayloadINTEL True True (IR 160 3) (IR 39021 39) (IR 0 0) (IR 277 1) (IR 0 0) 0xffffffff 0xffffffff,
    InD OpSubgroupAvcImeSetMaxMotionVectorCountINTEL True True (IR 172 4) (IR 39060 43) (IR 0 0) (IR 277 1) (IR 0 0) 0xffffffff 0xffffffff,
    InD OpSubgroupAvcImeSetUnidirectionalMixDisableINTEL True True (IR 160 3) (IR 39103 47) (IR 0 0) (IR 277 1) (IR 0 0) 0xffffffff 0xffffffff,
    InD OpSubgroupAvcImeSetEarlySearchTerminationThresholdINTEL True True (IR 172 4) (IR 39150 54) (IR 0 0) (IR 277 1) (IR 0 0) 0xffffffff 0xffffffff,
    InD OpSubgroupAvcImeSetWeightedSadINTEL True True (IR 172 4) (IR 39204 34) (IR 0 0) (IR 277 1) (IR 0 0) 0xffffffff 0xffffffff,
    InD OpSubgroupAvcImeEvaluateWithSingleReferenceINTEL True True (IR 130 5) (IR 39238 47) (IR 0 0) (IR 277 1) (IR 0 0) 0xffffffff 0xffffffff,
    InD OpSubgroupAvcImeEvaluateWithDualReferenceINTEL True True (IR 215 6) (IR 39285 45) (IR 0 0) (IR 277 1) (IR 0 0) 0xffffffff 0xffffffff,
    InD OpSubgroupAvcImeEvaluateWithSingleReferenceStreaminINTEL True True (IR 215 6) (IR 39330 55) (IR 0 0) (IR 277 1) (IR 0 0) 0xffffffff 0xffffffff,
    InD OpSubgroupAvcImeEvaluateWithDualReferenceStreaminINTEL True True (IR 325 7) (IR 39385 53) (IR 0 0) (IR 277 1) (IR 0 0) 0xffffffff 0xffffffff,
    InD OpSubgroupAvcImeEvaluateWithSingleReferenceStreamoutINTEL True True (IR 130 5) (IR 39438 56) (IR 0 0) (IR 277 1) (IR 0 0) 0xffffffff 0xffffffff,
    InD OpSubgroupAvcImeEvaluateWithDualReferenceStreamoutINTEL True True (IR 215 6) (IR 39494 54) (IR 0 0) (IR 277 1) (IR 0 0) 0xffffffff 0xffffffff,
    InD OpSubgroupAvcImeEvaluateWithSingleReferenceStreaminoutINTEL True True (IR 215 6) (IR 39548 58) (IR 0 0) (IR 277 1) (IR 0 0) 0xffffffff 0xffffffff,
    InD OpSubgroupAvcImeEvaluateWithDualReferenceStreaminoutINTEL True True (IR 325 7) (IR 39606 56) (IR 0 0) (IR 277 1) (IR 0 0) 0xffffffff 0xffffffff,
    InD OpSubgroupAvcImeConvertToMceResultINTEL True True (IR 160 3) (IR 39662 38) (IR 0 0) (IR 277 1) (IR 0 0) 0xffffffff 0xffffffff,
    InD OpSubgroupAvcImeGetSingleReferenceStreaminINTEL True True (IR 160 3) (IR 39700 46) (IR 0 0) (IR 277 1) (IR 0 0) 0xffffffff 0xffffffff,
    InD OpSubgroupAvcImeGetDualReferenceStreaminINTEL True True (IR 160 3) (IR 39746 44) (IR 0 0) (IR 277 1) (IR 0 0) 0xffffffff 0xffffffff,
    InD OpSubgroupAvcImeStripSingleReferenceStreamoutINTEL True True (IR 160 3) (IR 39790 49) (IR 0 0) (IR 277 1) (IR 0 0) 0xffffffff 0xffffffff,
    InD OpSubgroupAvcImeStripDualReferenceStreamoutINTEL True True (IR 160 3) (IR 39839 47) (IR 0 0) (IR 277 1) (IR 0 0) 0xffffffff 0xffffffff,
    InD OpSubgroupAvcImeGetStreamoutSingleReferenceMajorShapeMotionVectorsINTEL True True (IR 172 4) (IR 39886 70) (IR 0 0) (IR 277 1) (IR 0 0) 0xffffffff 0xffffffff,
    InD OpSubgroupAvcImeGetStreamoutSingleReferenceMajorShapeDistortionsINTEL True True (IR 172 4) (IR 39956 68) (IR 0 0) (IR 277 1) (IR 0 0) 0xffffffff 0xffffffff,
    InD OpSubgroupAvcImeGetStreamoutSingleReferenceMajorShapeReferenceIdsINTEL True True (IR 172 4) (IR 40024 69) (IR 0 0) (IR 277 1) (IR 0 0) 0xffffffff 0xffffffff,
    InD OpSubgroupAvcImeGetStreamoutDualReferenceMajorShapeMotionVectorsINTEL True True (IR 130 5) (IR 40093 68) (IR 0 0) (IR 277 1) (IR 0 0) 0xffffffff 0xffffffff,
    InD OpSubgroupAvcImeGetStreamoutDualReferenceMajorShapeDistortionsINTEL True True (IR 130 5) (IR 40161 66) (IR 0 0) (IR 277 1) (IR 0 0) 0xffffffff 0xffffffff,
    InD OpSubgroupAvcImeGetStreamoutDualReferenceMajorShapeReferenceIdsINTEL True True (IR 130 5) (IR 40227 67) (IR 0 0) (IR 277 1) (IR 0 0) 0xffffffff 0xffffffff,
    InD OpSubgroupAvcImeGetBorderReachedINTEL True True (IR 172 4) (IR 40294 36) (IR 0 0) (IR 277 1) (IR 0 0) 0xffffffff 0xffffffff,
    InD OpSubgroupAvcImeGetTruncatedSearchIndicationINTEL True True (IR 160 3) (IR 40330 48) (IR 0 0) (IR 277 1) (IR 0 0) 0xffffffff 0xffffffff,
    InD OpSubgroupAvcImeGetUnidirectionalEarlySearchTerminationINTEL True True (IR 160 3) (IR 40378 59) (IR 0 0) (IR 277 1) (IR 0 0) 0xffffffff 0xffffffff,
    InD OpSubgroupAvcImeGetWeightingPatternMinimumMotionVectorINTEL True True (IR 160 3) (IR 40437 58) (IR 0 0) (IR 277 1) (IR 0 0) 0xffffffff 0xffffffff,
    InD OpSubgroupAvcImeGetWeightingPatternMinimumDistortionINTEL True True (IR 160 3) (IR 40495 56) (IR 0 0) (IR 277 1) (IR 0 0) 0xffffffff 0xffffffff,
    InD OpSubgroupAvcFmeInitializeINTEL True True (IR 634 9) (IR 40551 30) (IR 0 0) (IR 277 1) (IR 0 0) 0xffffffff 0xffffffff,
    InD OpSubgroupAvcBmeInitializeINTEL True True (IR 643 10) (IR 40581 30) (IR 0 0) (IR 277 1) (IR 0 0) 0xffffffff 0xffffffff,
    InD OpSubgroupAvcRefConvertToMcePayloadINTEL True True (IR 160 3) (IR 40611 39) (IR 0 0) (IR 277 1) (IR 0 0) 0xffffffff 0xffffffff,
    InD OpSubgroupAvcRefSetBidirectionalMixDisableINTEL True True (IR 160 3) (IR 40650 46) (IR 0 0) (IR 277 1) (IR 0 0) 0xffffffff 0xffffffff,
    InD OpSubgroupAvcRefSetBilinearFilterEnableINTEL True True (IR 160 3) (IR 40696 43) (IR 0 0) (IR 277 1) (IR 0 0) 0xffffffff 0xffffffff,
    InD OpSubgroupAvcRefEvaluateWithSingleReferenceINTEL True True (IR 130 5) (IR 40739 47) (IR 0 0) (IR 277 1) (IR 0 0) 0xffffffff 0xffffffff,
    InD OpSubgroupAvcRefEvaluateWithDualReferenceINTEL True True (IR 215 6) (IR 40786 45) (IR 0 0) (IR 277 1) (IR 0 0) 0xffffffff 0xffffffff,
    InD OpSubgroupAvcRefEvaluateWithMultiReferenceINTEL True True (IR 130 5) (IR 40831 46) (IR 0 0) (IR 277 1) (IR 0 0) 0xffffffff 0xffffffff,
    InD OpSubgroupAvcRefEvaluateWithMultiReferenceInterlacedINTEL True True (IR 215 6) (IR 40877 56) (IR 0 0) (IR 277 1) (IR 0 0) 0xffffffff 0xffffffff,
    InD OpSubgroupAvcRefConvertToMceResultINTEL True True (IR 160 3) (IR 40933 38) (IR 0 0) (IR 277 1) (IR 0 0) 0xffffffff 0xffffffff,
    InD OpSubgroupAvcSicInitializeINTEL True True (IR 160 3) (IR 40971 30) (IR 0 0) (IR 277 1) (IR 0 0) 0xffffffff 0xffffffff,
    InD OpSubgroupAvcSicConfigureSkcINTEL True True (IR 288 8) (IR 41001 32) (IR 0 0) (IR 277 1) (IR 0 0) 0xffffffff 0xffffffff,
    InD OpSubgroupAvcSicConfigureIpeLumaINTEL True True (IR 643 10) (IR 41033 36) (IR 0 0) (IR 278 2) (IR 0 0) 0xffffffff 0xffffffff,
    InD OpSubgroupAvcSicConfigureIpeLumaChromaINTEL True True (IR 653 13) (IR 41069 42) (IR 0 0) (IR 280 2) (IR 0 0) 0xffffffff 0xffffffff,
    InD OpSubgroupAvcSicGetMotionVectorMaskINTEL True True (IR 172 4) (IR 41111 39) (IR 0 0) (IR 277 1) (IR 0 0) 0xffffffff 0xffffffff,
    InD OpSubgroupAvcSicConvertToMcePayloadINTEL True True (IR 160 3) (IR 41150 39) (IR 0 0) (IR 277 1) (IR 0 0) 0xffffffff 0xffffffff,
    InD OpSubgroupAvcSicSetIntraLumaShapePenaltyINTEL True True (IR 172 4) (IR 41189 44) (IR 0 0) (IR 277 1) (IR 0 0) 0xffffffff 0xffffffff,
    InD OpSubgroupAvcSicSetIntraLumaModeCostFunctionINTEL True True (IR 215 6) (IR 41233 48) (IR 0 0) (IR 278 2) (IR 0 0) 0xffffffff 0xffffffff,
    InD OpSubgroupAvcSicSetIntraChromaModeCostFunctionINTEL True True (IR 172 4) (IR 41281 50) (IR 0 0) (IR 280 2) (IR 0 0) 0xffffffff 0xffffffff,
    InD OpSubgroupAvcSicSetBilinearFilterEnableINTEL True True (IR 160 3) (IR 41331 43) (IR 0 0) (IR 277 1) (IR 0 0) 0xffffffff 0xffffffff,
    InD OpSubgroupAvcSicSetSkcForwardTransformEnableINTEL True True (IR 172 4) (IR 41374 48) (IR 0 0) (IR 277 1) (IR 0 0) 0xffffffff 0xffffffff,
    InD OpSubgroupAvcSicSetBlockBasedRawSkipSadINTEL True True (IR 172 4) (IR 41422 43) (IR 0 0) (IR 277 1) (IR 0 0) 0xffffffff 0xffffffff,
    InD OpSubgroupAvcSicEvaluateIpeINTEL True True (IR 172 4) (IR 41465 31) (IR 0 0) (IR 278 2) (IR 0 0) 0xffffffff 0xffffffff,
    InD OpSubgroupAvcSicEvaluateWithSingleReferenceINTEL True True (IR 130 5) (IR 41496 47) (IR 0 0) (IR 277 1) (IR 0 0) 0xffffffff 0xffffffff,
    InD OpSubgroupAvcSicEvaluateWithDualReferenceINTEL True True (IR 215 6) (IR 41543 45) (IR 0 0) (IR 277 1) (IR 0 0) 0xffffffff 0xffffffff,
    InD OpSubgroupAvcSicEvaluateWithMultiReferenceINTEL True True (IR 130 5) (IR 41588 46) (IR 0 0) (IR 277 1) (IR 0 0) 0xffffffff 0xffffffff,
    InD OpSubgroupAvcSicEvaluateWithMultiReferenceInterlacedINTEL True True (IR 215 6) (IR 41634 56) (IR 0 0) (IR 277 1) (IR 0 0) 0xffffffff 0xffffffff,
    InD OpSubgroupAvcSicConvertToMceResultINTEL True True (IR 160 3) (IR 41690 38) (IR 0 0) (IR 277 1) (IR 0 0) 0xffffffff 0xffffffff,
    InD OpSubgroupAvcSicGetIpeLumaShapeINTEL True True (IR 160 3) (IR 41728 35) (IR 0 0) (IR 278 2) (IR 0 0) 0xffffffff 0xffffffff,
    InD OpSubgroupAvcSicGetBestIpeLumaDistortionINTEL True True (IR 160 3) (IR 41763 44) (IR 0 0) (IR 278 2) (IR 0 0) 0xffffffff 0xffffffff,
    InD OpSubgroupAvcSicGetBestIpeChromaDistortionINTEL True True (IR 160 3) (IR 41807 46) (IR 0 0) (IR 277 1) (IR 0 0) 0xffffffff 0xffffffff,
    InD OpSubgroupAvcSicGetPackedIpeLumaModesINTEL True True (IR 160 3) (IR 41853 41) (IR 0 0) (IR 278 2) (IR 0 0) 0xffffffff 0xffffffff,
    InD OpSubgroupAvcSicGetIpeChromaModeINTEL True True (IR 160 3) (IR 41894 36) (IR 0 0) (IR 280 2) (IR 0 0) 0xffffffff 0xffffffff,
    InD OpSubgroupAvcSicGetPackedSkcLumaCountThresholdINTEL True True (IR 160 3) (IR 41930 50) (IR 0 0) (IR 278 2) (IR 0 0) 0xffffffff 0xffffffff,
    InD OpSubgroupAvcSicGetPackedSkcLumaSumThresholdINTEL True True (IR 160 3) (IR 41980 48) (IR 0 0) (IR 278 2) (IR 0 0) 0xffffffff 0xffffffff,
    InD OpSubgroupAvcSicGetInterRawSadsINTEL True True (IR 160 3) (IR 42028 35) (IR 0 0) (IR 277 1) (IR 0 0) 0xffffffff 0xffffffff,
    InD OpVariableLengthArrayINTEL True True (IR 160 3) (IR 12367 25) (IR 0 0) (IR 282 1) (IR 0 0) 0xffffffff 0xffffffff,
    InD OpSaveMemoryINTEL True True (IR 39 2) (IR 42063 16) (IR 0 0) (IR 282 1) (IR 0 0) 0xffffffff 0xffffffff,
    InD OpRestoreMemoryINTEL False False (IR 10 1) (IR 42079 19) (IR 0 0) (IR 282 1) (IR 0 0) 0xffffffff 0xffffffff,
    InD OpArbitraryFloatSinCosPiINTEL True True (IR 666 8) (IR 42098 28) (IR 0 0) (IR 283 1) (IR 0 0) 0xffffffff 0xffffffff,
    InD OpArbitraryFloatCastINTEL True True (IR 666 8) (IR 42126 24) (IR 0 0) (IR 283 1) (IR 0 0) 0xffffffff 0xffffffff,
    InD OpArbitraryFloatCastFromIntINTEL True True (IR 666 8) (IR 42150 31) (IR 0 0) (IR 283 1) (IR 0 0) 0xffffffff 0xffffffff,
    InD OpArbitraryFloatCastToIntINTEL True True (IR 666 8) (IR 42181 29) (IR 0 0) (IR 283 1) (IR 0 0) 0xffffffff 0xffffffff,
    InD OpArbitraryFloatAddINTEL True True (IR 674 10) (IR 42210 23) (IR 0 0) (IR 283 1) (IR 0 0) 0xffffffff 0xffffffff,
    InD OpArbitraryFloatSubINTEL True True (IR 674 10) (IR 42233 23) (IR 0 0) (IR 283 1) (IR 0 0) 0xffffffff 0xffffffff,
    InD OpArbitraryFloatMulINTEL True True (IR 674 10) (IR 42256 23) (IR 0 0) (IR 283 1) (IR 0 0) 0xffffffff 0xffffffff,
    InD OpArbitraryFloatDivINTEL True True (IR 674 10) (IR 42279 23) (IR 0 0) (IR 283 1) (IR 0 0) 0xffffffff 0xffffffff]"

definition core_InstructionDesc_7 :: "InstructionDesc list" where
  "core_InstructionDesc_7 = [
    InD OpArbitraryFloatGTINTEL True True (IR 684 6) (IR 42302 22) (IR 0 0) (IR 283 1) (IR 0 0) 0xffffffff 0xffffffff,
    InD OpArbitraryFloatGEINTEL True True (IR 684 6) (IR 42324 22) (IR 0 0) (IR 283 1) (IR 0 0) 0xffffffff 0xffffffff,
    InD OpArbitraryFloatLTINTEL True True (IR 684 6) (IR 42346 22) (IR 0 0) (IR 283 1) (IR 0 0) 0xffffffff 0xffffffff,
    InD OpArbitraryFloatLEINTEL True True (IR 684 6) (IR 42368 22) (IR 0 0) (IR 283 1) (IR 0 0) 0xffffffff 0xffffffff,
    InD OpArbitraryFloatEQINTEL True True (IR 684 6) (IR 42390 22) (IR 0 0) (IR 283 1) (IR 0 0) 0xffffffff 0xffffffff,
    InD OpArbitraryFloatRecipINTEL True True (IR 666 8) (IR 42412 25) (IR 0 0) (IR 283 1) (IR 0 0) 0xffffffff 0xffffffff,
    InD OpArbitraryFloatRSqrtINTEL True True (IR 666 8) (IR 42437 25) (IR 0 0) (IR 283 1) (IR 0 0) 0xffffffff 0xffffffff,
    InD OpArbitraryFloatCbrtINTEL True True (IR 666 8) (IR 42462 24) (IR 0 0) (IR 283 1) (IR 0 0) 0xffffffff 0xffffffff,
    InD OpArbitraryFloatHypotINTEL True True (IR 674 10) (IR 42486 25) (IR 0 0) (IR 283 1) (IR 0 0) 0xffffffff 0xffffffff,
    InD OpArbitraryFloatSqrtINTEL True True (IR 666 8) (IR 42511 24) (IR 0 0) (IR 283 1) (IR 0 0) 0xffffffff 0xffffffff,
    InD OpArbitraryFloatLogINTEL True True (IR 666 8) (IR 42535 23) (IR 0 0) (IR 283 1) (IR 0 0) 0xffffffff 0xffffffff,
    InD OpArbitraryFloatLog2INTEL True True (IR 666 8) (IR 42558 24) (IR 0 0) (IR 283 1) (IR 0 0) 0xffffffff 0xffffffff,
    InD OpArbitraryFloatLog10INTEL True True (IR 666 8) (IR 42582 25) (IR 0 0) (IR 283 1) (IR 0 0) 0xffffffff 0xffffffff,
    InD OpArbitraryFloatLog1pINTEL True True (IR 666 8) (IR 42607 25) (IR 0 0) (IR 283 1) (IR 0 0) 0xffffffff 0xffffffff,
    InD OpArbitraryFloatExpINTEL True True (IR 666 8) (IR 42632 23) (IR 0 0) (IR 283 1) (IR 0 0) 0xffffffff 0xffffffff,
    InD OpArbitraryFloatExp2INTEL True True (IR 666 8) (IR 42655 24) (IR 0 0) (IR 283 1) (IR 0 0) 0xffffffff 0xffffffff,
    InD OpArbitraryFloatExp10INTEL True True (IR 666 8) (IR 42679 25) (IR 0 0) (IR 283 1) (IR 0 0) 0xffffffff 0xffffffff,
    InD OpArbitraryFloatExpm1INTEL True True (IR 666 8) (IR 42704 25) (IR 0 0) (IR 283 1) (IR 0 0) 0xffffffff 0xffffffff,
    InD OpArbitraryFloatSinINTEL True True (IR 666 8) (IR 42729 23) (IR 0 0) (IR 283 1) (IR 0 0) 0xffffffff 0xffffffff,
    InD OpArbitraryFloatCosINTEL True True (IR 666 8) (IR 42752 23) (IR 0 0) (IR 283 1) (IR 0 0) 0xffffffff 0xffffffff,
    InD OpArbitraryFloatSinCosINTEL True True (IR 666 8) (IR 42775 26) (IR 0 0) (IR 283 1) (IR 0 0) 0xffffffff 0xffffffff,
    InD OpArbitraryFloatSinPiINTEL True True (IR 666 8) (IR 42801 25) (IR 0 0) (IR 283 1) (IR 0 0) 0xffffffff 0xffffffff,
    InD OpArbitraryFloatCosPiINTEL True True (IR 666 8) (IR 42826 25) (IR 0 0) (IR 283 1) (IR 0 0) 0xffffffff 0xffffffff,
    InD OpArbitraryFloatASinINTEL True True (IR 666 8) (IR 42851 24) (IR 0 0) (IR 283 1) (IR 0 0) 0xffffffff 0xffffffff,
    InD OpArbitraryFloatASinPiINTEL True True (IR 666 8) (IR 42875 26) (IR 0 0) (IR 283 1) (IR 0 0) 0xffffffff 0xffffffff,
    InD OpArbitraryFloatACosINTEL True True (IR 666 8) (IR 42901 24) (IR 0 0) (IR 283 1) (IR 0 0) 0xffffffff 0xffffffff,
    InD OpArbitraryFloatACosPiINTEL True True (IR 666 8) (IR 42925 26) (IR 0 0) (IR 283 1) (IR 0 0) 0xffffffff 0xffffffff,
    InD OpArbitraryFloatATanINTEL True True (IR 666 8) (IR 42951 24) (IR 0 0) (IR 283 1) (IR 0 0) 0xffffffff 0xffffffff,
    InD OpArbitraryFloatATanPiINTEL True True (IR 666 8) (IR 42975 26) (IR 0 0) (IR 283 1) (IR 0 0) 0xffffffff 0xffffffff,
    InD OpArbitraryFloatATan2INTEL True True (IR 674 10) (IR 43001 25) (IR 0 0) (IR 283 1) (IR 0 0) 0xffffffff 0xffffffff,
    InD OpArbitraryFloatPowINTEL True True (IR 674 10) (IR 43026 23) (IR 0 0) (IR 283 1) (IR 0 0) 0xffffffff 0xffffffff,
    InD OpArbitraryFloatPowRINTEL True True (IR 674 10) (IR 43049 24) (IR 0 0) (IR 283 1) (IR 0 0) 0xffffffff 0xffffffff,
    InD OpArbitraryFloatPowNINTEL True True (IR 674 10) (IR 43073 24) (IR 0 0) (IR 283 1) (IR 0 0) 0xffffffff 0xffffffff,
    InD OpLoopControlINTEL False False (IR 18 1) (IR 43097 17) (IR 0 0) (IR 284 1) (IR 105 1) 0xffffffff 0xffffffff,
    InD OpAliasDomainDeclINTEL True False (IR 690 2) (IR 43114 21) (IR 0 0) (IR 132 1) (IR 112 1) 0xffffffff 0xffffffff,
    InD OpAliasScopeDeclINTEL True False (IR 692 3) (IR 43135 20) (IR 0 0) (IR 132 1) (IR 112 1) 0xffffffff 0xffffffff,
    InD OpAliasScopeListDeclINTEL True False (IR 92 2) (IR 43155 24) (IR 0 0) (IR 132 1) (IR 112 1) 0xffffffff 0xffffffff,
    InD OpFixedSqrtINTEL True True (IR 666 8) (IR 43179 15) (IR 0 0) (IR 186 1) (IR 0 0) 0xffffffff 0xffffffff,
    InD OpFixedRecipINTEL True True (IR 666 8) (IR 43194 16) (IR 0 0) (IR 186 1) (IR 0 0) 0xffffffff 0xffffffff,
    InD OpFixedRsqrtINTEL True True (IR 666 8) (IR 43210 16) (IR 0 0) (IR 186 1) (IR 0 0) 0xffffffff 0xffffffff,
    InD OpFixedSinINTEL True True (IR 666 8) (IR 43226 14) (IR 0 0) (IR 186 1) (IR 0 0) 0xffffffff 0xffffffff,
    InD OpFixedCosINTEL True True (IR 666 8) (IR 43240 14) (IR 0 0) (IR 186 1) (IR 0 0) 0xffffffff 0xffffffff,
    InD OpFixedSinCosINTEL True True (IR 666 8) (IR 43254 17) (IR 0 0) (IR 186 1) (IR 0 0) 0xffffffff 0xffffffff,
    InD OpFixedSinPiINTEL True True (IR 666 8) (IR 43271 16) (IR 0 0) (IR 186 1) (IR 0 0) 0xffffffff 0xffffffff,
    InD OpFixedCosPiINTEL True True (IR 666 8) (IR 43287 16) (IR 0 0) (IR 186 1) (IR 0 0) 0xffffffff 0xffffffff,
    InD OpFixedSinCosPiINTEL True True (IR 666 8) (IR 43303 19) (IR 0 0) (IR 186 1) (IR 0 0) 0xffffffff 0xffffffff,
    InD OpFixedLogINTEL True True (IR 666 8) (IR 43322 14) (IR 0 0) (IR 186 1) (IR 0 0) 0xffffffff 0xffffffff,
    InD OpFixedExpINTEL True True (IR 666 8) (IR 43336 14) (IR 0 0) (IR 186 1) (IR 0 0) 0xffffffff 0xffffffff,
    InD OpPtrCastToCrossWorkgroupINTEL True True (IR 160 3) (IR 43350 29) (IR 0 0) (IR 197 1) (IR 0 0) 0xffffffff 0xffffffff,
    InD OpCrossWorkgroupCastToPtrINTEL True True (IR 160 3) (IR 43379 29) (IR 0 0) (IR 197 1) (IR 0 0) 0xffffffff 0xffffffff,
    InD OpReadPipeBlockingINTEL True True (IR 172 4) (IR 43408 22) (IR 0 0) (IR 285 1) (IR 119 1) 0xffffffff 0xffffffff,
    InD OpWritePipeBlockingINTEL True True (IR 172 4) (IR 43430 23) (IR 0 0) (IR 285 1) (IR 119 1) 0xffffffff 0xffffffff,
    InD OpFPGARegINTEL True True (IR 160 3) (IR 12926 13) (IR 0 0) (IR 286 1) (IR 120 1) 0xffffffff 0xffffffff,
    InD OpRayQueryGetRayTMinKHR True True (IR 160 3) (IR 43453 22) (IR 0 0) (IR 190 1) (IR 48 1) 0xffffffff 0xffffffff,
    InD OpRayQueryGetRayFlagsKHR True True (IR 160 3) (IR 43475 23) (IR 0 0) (IR 190 1) (IR 48 1) 0xffffffff 0xffffffff,
    InD OpRayQueryGetIntersectionTKHR True True (IR 172 4) (IR 43498 28) (IR 0 0) (IR 190 1) (IR 48 1) 0xffffffff 0xffffffff,
    InD OpRayQueryGetIntersectionInstanceCustomIndexKHR True True (IR 172 4) (IR 43526 46) (IR 0 0) (IR 190 1) (IR 48 1) 0xffffffff 0xffffffff,
    InD OpRayQueryGetIntersectionInstanceIdKHR True True (IR 172 4) (IR 43572 37) (IR 0 0) (IR 190 1) (IR 48 1) 0xffffffff 0xffffffff,
    InD OpRayQueryGetIntersectionInstanceShaderBindingTableRecordOffsetKHR True True (IR 172 4) (IR 43609 65) (IR 0 0) (IR 190 1) (IR 48 1) 0xffffffff 0xffffffff,
    InD OpRayQueryGetIntersectionGeometryIndexKHR True True (IR 172 4) (IR 43674 40) (IR 0 0) (IR 190 1) (IR 48 1) 0xffffffff 0xffffffff,
    InD OpRayQueryGetIntersectionPrimitiveIndexKHR True True (IR 172 4) (IR 43714 41) (IR 0 0) (IR 190 1) (IR 48 1) 0xffffffff 0xffffffff,
    InD OpRayQueryGetIntersectionBarycentricsKHR True True (IR 172 4) (IR 43755 39) (IR 0 0) (IR 190 1) (IR 48 1) 0xffffffff 0xffffffff,
    InD OpRayQueryGetIntersectionFrontFaceKHR True True (IR 172 4) (IR 43794 36) (IR 0 0) (IR 190 1) (IR 48 1) 0xffffffff 0xffffffff,
    InD OpRayQueryGetIntersectionCandidateAABBOpaqueKHR True True (IR 160 3) (IR 43830 46) (IR 0 0) (IR 190 1) (IR 48 1) 0xffffffff 0xffffffff,
    InD OpRayQueryGetIntersectionObjectRayDirectionKHR True True (IR 172 4) (IR 43876 45) (IR 0 0) (IR 190 1) (IR 48 1) 0xffffffff 0xffffffff,
    InD OpRayQueryGetIntersectionObjectRayOriginKHR True True (IR 172 4) (IR 43921 42) (IR 0 0) (IR 190 1) (IR 48 1) 0xffffffff 0xffffffff,
    InD OpRayQueryGetWorldRayDirectionKHR True True (IR 160 3) (IR 43963 32) (IR 0 0) (IR 190 1) (IR 48 1) 0xffffffff 0xffffffff,
    InD OpRayQueryGetWorldRayOriginKHR True True (IR 160 3) (IR 43995 29) (IR 0 0) (IR 190 1) (IR 48 1) 0xffffffff 0xffffffff,
    InD OpRayQueryGetIntersectionObjectToWorldKHR True True (IR 172 4) (IR 44024 40) (IR 0 0) (IR 190 1) (IR 48 1) 0xffffffff 0xffffffff,
    InD OpRayQueryGetIntersectionWorldToObjectKHR True True (IR 172 4) (IR 44064 40) (IR 0 0) (IR 190 1) (IR 48 1) 0xffffffff 0xffffffff,
    InD OpAtomicFAddEXT True True (IR 235 6) (IR 44104 14) (IR 0 0) (IR 287 4) (IR 127 1) 0xffffffff 0xffffffff,
    InD OpTypeBufferSurfaceINTEL True False (IR 100 2) (IR 44118 23) (IR 0 0) (IR 124 1) (IR 0 0) 0xffffffff 0xffffffff,
    InD OpTypeStructContinuedINTEL False False (IR 695 1) (IR 44141 25) (IR 0 0) (IR 291 1) (IR 0 0) 0xffffffff 0xffffffff,
    InD OpConstantCompositeContinuedINTEL False False (IR 695 1) (IR 44166 32) (IR 0 0) (IR 291 1) (IR 0 0) 0xffffffff 0xffffffff,
    InD OpSpecConstantCompositeContinuedINTEL False False (IR 695 1) (IR 44198 36) (IR 0 0) (IR 291 1) (IR 0 0) 0xffffffff 0xffffffff,
    InD OpCompositeConstructContinuedINTEL True True (IR 107 3) (IR 44234 33) (IR 0 0) (IR 291 1) (IR 0 0) 0xffffffff 0xffffffff,
    InD OpConvertFToBF16INTEL True True (IR 160 3) (IR 44267 20) (IR 0 0) (IR 292 1) (IR 0 0) 0xffffffff 0xffffffff,
    InD OpConvertBF16ToFINTEL True True (IR 160 3) (IR 44287 20) (IR 0 0) (IR 292 1) (IR 0 0) 0xffffffff 0xffffffff,
    InD OpControlBarrierArriveINTEL False False (IR 221 3) (IR 44307 26) (IR 0 0) (IR 293 1) (IR 0 0) 0xffffffff 0xffffffff,
    InD OpControlBarrierWaitINTEL False False (IR 221 3) (IR 44333 24) (IR 0 0) (IR 293 1) (IR 0 0) 0xffffffff 0xffffffff,
    InD OpArithmeticFenceEXT True True (IR 160 3) (IR 13358 19) (IR 0 0) (IR 294 1) (IR 0 0) 0xffffffff 0xffffffff,
    InD OpTaskSequenceCreateINTEL True True (IR 696 7) (IR 44357 24) (IR 0 0) (IR 295 1) (IR 0 0) 0xffffffff 0xffffffff,
    InD OpTaskSequenceAsyncINTEL False False (IR 168 2) (IR 44381 23) (IR 0 0) (IR 295 1) (IR 0 0) 0xffffffff 0xffffffff,
    InD OpTaskSequenceGetINTEL True True (IR 160 3) (IR 44404 21) (IR 0 0) (IR 295 1) (IR 0 0) 0xffffffff 0xffffffff,
    InD OpTaskSequenceReleaseINTEL False False (IR 10 1) (IR 44425 25) (IR 0 0) (IR 295 1) (IR 0 0) 0xffffffff 0xffffffff,
    InD OpTypeTaskSequenceINTEL True False (IR 68 1) (IR 44450 22) (IR 0 0) (IR 295 1) (IR 0 0) 0xffffffff 0xffffffff,
    InD OpSubgroupBlockPrefetchINTEL False False (IR 139 3) (IR 44472 27) (IR 0 0) (IR 296 1) (IR 0 0) 0xffffffff 0xffffffff,
    InD OpSubgroup2DBlockLoadINTEL False False (IR 703 10) (IR 44499 25) (IR 0 0) (IR 107 1) (IR 0 0) 0xffffffff 0xffffffff,
    InD OpSubgroup2DBlockLoadTransformINTEL False False (IR 703 10) (IR 44524 34) (IR 0 0) (IR 297 1) (IR 0 0) 0xffffffff 0xffffffff,
    InD OpSubgroup2DBlockLoadTransposeINTEL False False (IR 703 10) (IR 44558 34) (IR 0 0) (IR 298 1) (IR 0 0) 0xffffffff 0xffffffff,
    InD OpSubgroup2DBlockPrefetchINTEL False False (IR 713 9) (IR 44592 29) (IR 0 0) (IR 107 1) (IR 0 0) 0xffffffff 0xffffffff,
    InD OpSubgroup2DBlockStoreINTEL False False (IR 703 10) (IR 44621 26) (IR 0 0) (IR 107 1) (IR 0 0) 0xffffffff 0xffffffff,
    InD OpSubgroupMatrixMultiplyAccumulateINTEL True True (IR 722 7) (IR 13696 38) (IR 0 0) (IR 299 1) (IR 0 0) 0xffffffff 0xffffffff,
    InD OpBitwiseFunctionINTEL True True (IR 215 6) (IR 44709 21) (IR 0 0) (IR 300 1) (IR 0 0) 0xffffffff 0xffffffff,
    InD OpGroupIMulKHR True True (IR 283 5) (IR 44730 13) (IR 0 0) (IR 301 1) (IR 0 0) 0xffffffff 0xffffffff,
    InD OpGroupFMulKHR True True (IR 283 5) (IR 44743 13) (IR 0 0) (IR 301 1) (IR 0 0) 0xffffffff 0xffffffff,
    InD OpGroupBitwiseAndKHR True True (IR 283 5) (IR 44756 19) (IR 0 0) (IR 301 1) (IR 0 0) 0xffffffff 0xffffffff,
    InD OpGroupBitwiseOrKHR True True (IR 283 5) (IR 44775 18) (IR 0 0) (IR 301 1) (IR 0 0) 0xffffffff 0xffffffff,
    InD OpGroupBitwiseXorKHR True True (IR 283 5) (IR 44793 19) (IR 0 0) (IR 301 1) (IR 0 0) 0xffffffff 0xffffffff,
    InD OpGroupLogicalAndKHR True True (IR 283 5) (IR 44812 19) (IR 0 0) (IR 301 1) (IR 0 0) 0xffffffff 0xffffffff]"

definition core_InstructionDesc_8 :: "InstructionDesc list" where
  "core_InstructionDesc_8 = [
    InD OpGroupLogicalOrKHR True True (IR 283 5) (IR 44831 18) (IR 0 0) (IR 301 1) (IR 0 0) 0xffffffff 0xffffffff,
    InD OpGroupLogicalXorKHR True True (IR 283 5) (IR 44849 19) (IR 0 0) (IR 301 1) (IR 0 0) 0xffffffff 0xffffffff,
    InD OpRoundFToTF32INTEL True True (IR 160 3) (IR 44868 18) (IR 0 0) (IR 302 1) (IR 0 0) 0xffffffff 0xffffffff,
    InD OpMaskedGatherINTEL True True (IR 729 6) (IR 44886 18) (IR 0 0) (IR 303 1) (IR 0 0) 0xffffffff 0xffffffff,
    InD OpMaskedScatterINTEL False False (IR 735 4) (IR 44904 19) (IR 0 0) (IR 303 1) (IR 0 0) 0xffffffff 0xffffffff,
    InD OpConvertHandleToImageINTEL True True (IR 160 3) (IR 44923 26) (IR 0 0) (IR 304 1) (IR 0 0) 0xffffffff 0xffffffff,
    InD OpConvertHandleToSamplerINTEL True True (IR 160 3) (IR 44949 28) (IR 0 0) (IR 304 1) (IR 0 0) 0xffffffff 0xffffffff,
    InD OpConvertHandleToSampledImageINTEL True True (IR 160 3) (IR 44977 33) (IR 0 0) (IR 304 1) (IR 0 0) 0xffffffff 0xffffffff]"

definition core_InstructionDesc :: "InstructionDesc list" where
  "core_InstructionDesc =
     core_InstructionDesc_0 @
     core_InstructionDesc_1 @
     core_InstructionDesc_2 @
     core_InstructionDesc_3 @
     core_InstructionDesc_4 @
     core_InstructionDesc_5 @
     core_InstructionDesc_6 @
     core_InstructionDesc_7 @
     core_InstructionDesc_8"

section \<open>Extended instructions\<close>

definition core_ExtInstByValue_0 :: "ExtInstDesc list" where
  "core_ExtInstByValue_0 = [
    ExD 0 (IR 0 0) (IR 45010 14) (IR 1 0),
    ExD 1 (IR 52 3) (IR 45024 21) (IR 1 0),
    ExD 2 (IR 739 3) (IR 45097 15) (IR 1 0),
    ExD 3 (IR 742 3) (IR 45146 17) (IR 1 0),
    ExD 4 (IR 745 2) (IR 45201 19) (IR 1 0),
    ExD 5 (IR 168 2) (IR 45220 15) (IR 1 0),
    ExD 6 (IR 261 2) (IR 45235 16) (IR 1 0),
    ExD 7 (IR 747 6) (IR 45251 13) (IR 1 0),
    ExD 8 (IR 168 2) (IR 45264 18) (IR 1 0),
    ExD 9 (IR 753 9) (IR 45282 14) (IR 1 0),
    ExD 10 (IR 762 9) (IR 45334 19) (IR 1 0),
    ExD 11 (IR 771 10) (IR 45353 16) (IR 1 0),
    ExD 12 (IR 781 5) (IR 45369 21) (IR 1 0),
    ExD 13 (IR 36 2) (IR 45390 21) (IR 1 0),
    ExD 14 (IR 168 2) (IR 45411 18) (IR 1 0),
    ExD 15 (IR 786 6) (IR 45429 27) (IR 1 0),
    ExD 16 (IR 792 5) (IR 45456 35) (IR 1 0),
    ExD 17 (IR 797 5) (IR 45491 31) (IR 1 0),
    ExD 18 (IR 771 10) (IR 45522 20) (IR 1 0),
    ExD 19 (IR 802 8) (IR 45542 25) (IR 1 0),
    ExD 20 (IR 810 11) (IR 45567 14) (IR 1 0),
    ExD 21 (IR 821 5) (IR 45581 18) (IR 1 0),
    ExD 22 (IR 826 3) (IR 45599 31) (IR 1 0),
    ExD 23 (IR 829 2) (IR 45630 11) (IR 1 0),
    ExD 24 (IR 0 0) (IR 45641 13) (IR 1 0),
    ExD 25 (IR 831 3) (IR 45654 15) (IR 1 0),
    ExD 26 (IR 834 7) (IR 45711 19) (IR 1 0),
    ExD 27 (IR 36 2) (IR 45730 21) (IR 1 0),
    ExD 28 (IR 33 3) (IR 45751 13) (IR 1 0),
    ExD 29 (IR 375 3) (IR 45764 11) (IR 1 0),
    ExD 30 (IR 841 2) (IR 45808 15) (IR 1 0),
    ExD 31 (IR 695 1) (IR 45823 16) (IR 1 0),
    ExD 32 (IR 843 4) (IR 45839 14) (IR 1 0),
    ExD 33 (IR 826 3) (IR 45853 16) (IR 1 0),
    ExD 1 (IR 10 1) (IR 45869 6) (IR 1 0),
    ExD 2 (IR 10 1) (IR 45875 10) (IR 1 0),
    ExD 3 (IR 10 1) (IR 45885 6) (IR 1 0),
    ExD 4 (IR 10 1) (IR 45891 5) (IR 1 0),
    ExD 5 (IR 10 1) (IR 45896 5) (IR 1 0),
    ExD 6 (IR 10 1) (IR 45901 6) (IR 1 0),
    ExD 7 (IR 10 1) (IR 45907 6) (IR 1 0),
    ExD 8 (IR 10 1) (IR 45913 6) (IR 1 0),
    ExD 9 (IR 10 1) (IR 45919 5) (IR 1 0),
    ExD 10 (IR 10 1) (IR 45924 6) (IR 1 0),
    ExD 11 (IR 10 1) (IR 45930 8) (IR 1 0),
    ExD 12 (IR 10 1) (IR 45938 8) (IR 1 0),
    ExD 13 (IR 10 1) (IR 45946 4) (IR 1 0),
    ExD 14 (IR 10 1) (IR 45950 4) (IR 1 0),
    ExD 15 (IR 10 1) (IR 45954 4) (IR 1 0),
    ExD 16 (IR 10 1) (IR 45958 5) (IR 1 0),
    ExD 17 (IR 10 1) (IR 45963 5) (IR 1 0),
    ExD 18 (IR 10 1) (IR 45968 5) (IR 1 0),
    ExD 19 (IR 10 1) (IR 45973 5) (IR 1 0),
    ExD 20 (IR 10 1) (IR 45978 5) (IR 1 0),
    ExD 21 (IR 10 1) (IR 45983 5) (IR 1 0),
    ExD 22 (IR 10 1) (IR 45988 6) (IR 1 0),
    ExD 23 (IR 10 1) (IR 45994 6) (IR 1 0),
    ExD 24 (IR 10 1) (IR 46000 6) (IR 1 0),
    ExD 25 (IR 36 2) (IR 46006 6) (IR 1 0),
    ExD 26 (IR 36 2) (IR 46012 4) (IR 1 0),
    ExD 27 (IR 10 1) (IR 46016 4) (IR 1 0),
    ExD 28 (IR 10 1) (IR 46020 4) (IR 1 0),
    ExD 29 (IR 10 1) (IR 46024 5) (IR 1 0),
    ExD 30 (IR 10 1) (IR 46029 5) (IR 1 0),
    ExD 31 (IR 10 1) (IR 46034 5) (IR 1 0),
    ExD 32 (IR 10 1) (IR 46039 12) (IR 1 0),
    ExD 33 (IR 10 1) (IR 46051 12) (IR 1 0),
    ExD 34 (IR 10 1) (IR 46063 14) (IR 1 0),
    ExD 35 (IR 36 2) (IR 46077 5) (IR 1 0),
    ExD 36 (IR 10 1) (IR 46082 11) (IR 1 0),
    ExD 37 (IR 36 2) (IR 46093 5) (IR 1 0),
    ExD 38 (IR 36 2) (IR 46098 5) (IR 1 0),
    ExD 39 (IR 36 2) (IR 46103 5) (IR 1 0),
    ExD 40 (IR 36 2) (IR 46108 5) (IR 1 0),
    ExD 41 (IR 36 2) (IR 46113 5) (IR 1 0),
    ExD 42 (IR 36 2) (IR 46118 5) (IR 1 0),
    ExD 43 (IR 33 3) (IR 46123 7) (IR 1 0),
    ExD 44 (IR 33 3) (IR 46130 7) (IR 1 0),
    ExD 45 (IR 33 3) (IR 46137 7) (IR 1 0),
    ExD 46 (IR 33 3) (IR 46144 5) (IR 1 0),
    ExD 47 (IR 33 3) (IR 46149 5) (IR 1 0),
    ExD 48 (IR 36 2) (IR 46154 5) (IR 1 0),
    ExD 49 (IR 33 3) (IR 46159 11) (IR 1 0),
    ExD 50 (IR 33 3) (IR 46170 4) (IR 1 0),
    ExD 51 (IR 36 2) (IR 46174 6) (IR 1 0),
    ExD 52 (IR 10 1) (IR 46180 12) (IR 1 0),
    ExD 53 (IR 36 2) (IR 46192 6) (IR 1 0),
    ExD 54 (IR 10 1) (IR 46198 13) (IR 1 0),
    ExD 55 (IR 10 1) (IR 46211 13) (IR 1 0),
    ExD 56 (IR 10 1) (IR 46224 14) (IR 1 0),
    ExD 57 (IR 10 1) (IR 46238 14) (IR 1 0),
    ExD 58 (IR 10 1) (IR 46252 13) (IR 1 0),
    ExD 59 (IR 10 1) (IR 46265 15) (IR 305 1),
    ExD 60 (IR 10 1) (IR 46280 16) (IR 1 0),
    ExD 61 (IR 10 1) (IR 46296 16) (IR 1 0),
    ExD 62 (IR 10 1) (IR 46312 15) (IR 1 0),
    ExD 63 (IR 10 1) (IR 46327 15) (IR 1 0),
    ExD 64 (IR 10 1) (IR 46342 15) (IR 1 0),
    ExD 65 (IR 10 1) (IR 46357 17) (IR 305 1),
    ExD 66 (IR 10 1) (IR 46374 7) (IR 1 0)]"

definition core_ExtInstByValue_1 :: "ExtInstDesc list" where
  "core_ExtInstByValue_1 = [
    ExD 67 (IR 36 2) (IR 46381 9) (IR 1 0),
    ExD 68 (IR 36 2) (IR 46390 6) (IR 1 0),
    ExD 69 (IR 10 1) (IR 46396 10) (IR 1 0),
    ExD 70 (IR 33 3) (IR 46406 12) (IR 1 0),
    ExD 71 (IR 36 2) (IR 46418 8) (IR 1 0),
    ExD 72 (IR 33 3) (IR 46426 8) (IR 1 0),
    ExD 73 (IR 10 1) (IR 46434 9) (IR 1 0),
    ExD 74 (IR 10 1) (IR 46443 9) (IR 1 0),
    ExD 75 (IR 10 1) (IR 46452 9) (IR 1 0),
    ExD 76 (IR 10 1) (IR 46461 22) (IR 306 1),
    ExD 77 (IR 36 2) (IR 46483 20) (IR 306 1),
    ExD 78 (IR 36 2) (IR 46503 20) (IR 306 1),
    ExD 79 (IR 36 2) (IR 46523 5) (IR 1 0),
    ExD 80 (IR 36 2) (IR 46528 5) (IR 1 0),
    ExD 81 (IR 33 3) (IR 46533 7) (IR 1 0),
    ExD 1 (IR 399 5) (IR 4563 7) (IR 1 0),
    ExD 2 (IR 847 5) (IR 46540 13) (IR 1 0),
    ExD 3 (IR 852 5) (IR 46553 22) (IR 1 0),
    ExD 4 (IR 852 5) (IR 46575 16) (IR 1 0),
    ExD 5 (IR 543 7) (IR 46591 25) (IR 1 0),
    ExD 6 (IR 543 7) (IR 46616 19) (IR 1 0),
    ExD 7 (IR 852 5) (IR 46635 24) (IR 1 0),
    ExD 8 (IR 852 5) (IR 46659 21) (IR 1 0),
    ExD 9 (IR 852 5) (IR 46680 21) (IR 1 0),
    ExD 10 (IR 852 5) (IR 46701 16) (IR 1 0),
    ExD 11 (IR 852 5) (IR 46717 18) (IR 1 0),
    ExD 12 (IR 33 3) (IR 46735 26) (IR 1 0),
    ExD 13 (IR 33 3) (IR 46761 25) (IR 1 0),
    ExD 14 (IR 10 1) (IR 46786 20) (IR 1 0),
    ExD 15 (IR 36 2) (IR 46806 25) (IR 1 0),
    ExD 16 (IR 36 2) (IR 46831 30) (IR 1 0),
    ExD 17 (IR 36 2) (IR 46861 23) (IR 1 0),
    ExD 18 (IR 36 2) (IR 46884 25) (IR 1 0),
    ExD 19 (IR 36 2) (IR 46909 26) (IR 1 0),
    ExD 20 (IR 36 2) (IR 46935 30) (IR 1 0),
    ExD 21 (IR 33 3) (IR 46965 26) (IR 1 0),
    ExD 22 (IR 33 3) (IR 46991 20) (IR 1 0),
    ExD 23 (IR 33 3) (IR 7988 15) (IR 1 0),
    ExD 24 (IR 296 4) (IR 47011 30) (IR 1 0),
    ExD 25 (IR 10 1) (IR 47041 28) (IR 1 0),
    ExD 26 (IR 852 5) (IR 47069 28) (IR 1 0),
    ExD 27 (IR 543 7) (IR 47097 23) (IR 1 0),
    ExD 28 (IR 33 3) (IR 47120 35) (IR 1 0),
    ExD 29 (IR 33 3) (IR 47155 38) (IR 1 0),
    ExD 30 (IR 296 4) (IR 47193 42) (IR 1 0),
    ExD 31 (IR 296 4) (IR 47235 45) (IR 1 0),
    ExD 32 (IR 514 6) (IR 47280 37) (IR 1 0),
    ExD 33 (IR 514 6) (IR 47317 40) (IR 1 0),
    ExD 34 (IR 852 5) (IR 47357 27) (IR 1 0),
    ExD 35 (IR 852 5) (IR 47384 27) (IR 1 0),
    ExD 36 (IR 33 3) (IR 47411 32) (IR 1 0),
    ExD 37 (IR 33 3) (IR 47443 40) (IR 1 0),
    ExD 38 (IR 375 3) (IR 47483 11) (IR 1 0),
    ExD 39 (IR 33 3) (IR 47494 26) (IR 1 0),
    ExD 40 (IR 33 3) (IR 47520 32) (IR 1 0),
    ExD 41 (IR 296 4) (IR 47552 34) (IR 1 0),
    ExD 42 (IR 36 2) (IR 47586 22) (IR 1 0),
    ExD 0 (IR 0 0) (IR 45010 14) (IR 1 0),
    ExD 1 (IR 296 4) (IR 45024 21) (IR 1 0),
    ExD 2 (IR 296 4) (IR 45097 15) (IR 1 0),
    ExD 3 (IR 33 3) (IR 45146 17) (IR 1 0),
    ExD 4 (IR 36 2) (IR 45201 19) (IR 1 0),
    ExD 5 (IR 168 2) (IR 45220 15) (IR 1 0),
    ExD 6 (IR 36 2) (IR 45235 16) (IR 1 0),
    ExD 7 (IR 514 6) (IR 45251 13) (IR 1 0),
    ExD 8 (IR 375 3) (IR 45264 18) (IR 1 0),
    ExD 9 (IR 857 9) (IR 45282 14) (IR 1 0),
    ExD 10 (IR 866 10) (IR 45334 19) (IR 1 0),
    ExD 11 (IR 876 9) (IR 45353 16) (IR 1 0),
    ExD 12 (IR 296 4) (IR 45369 21) (IR 1 0),
    ExD 13 (IR 36 2) (IR 45390 21) (IR 1 0),
    ExD 14 (IR 168 2) (IR 45411 18) (IR 1 0),
    ExD 15 (IR 514 6) (IR 45429 27) (IR 1 0),
    ExD 16 (IR 623 5) (IR 45456 35) (IR 1 0),
    ExD 17 (IR 885 5) (IR 45491 31) (IR 1 0),
    ExD 18 (IR 890 10) (IR 45522 20) (IR 1 0),
    ExD 19 (IR 460 8) (IR 45542 25) (IR 1 0),
    ExD 20 (IR 890 10) (IR 45567 14) (IR 1 0),
    ExD 21 (IR 852 5) (IR 45581 18) (IR 1 0),
    ExD 22 (IR 33 3) (IR 45599 31) (IR 1 0),
    ExD 23 (IR 829 2) (IR 45630 11) (IR 1 0),
    ExD 24 (IR 0 0) (IR 45641 13) (IR 1 0),
    ExD 25 (IR 900 3) (IR 45654 15) (IR 1 0),
    ExD 26 (IR 903 8) (IR 45711 19) (IR 1 0),
    ExD 27 (IR 36 2) (IR 45730 21) (IR 1 0),
    ExD 28 (IR 911 4) (IR 45751 13) (IR 1 0),
    ExD 29 (IR 911 4) (IR 45764 11) (IR 1 0),
    ExD 30 (IR 168 2) (IR 45808 15) (IR 1 0),
    ExD 31 (IR 695 1) (IR 45823 16) (IR 1 0),
    ExD 32 (IR 566 4) (IR 45839 14) (IR 1 0),
    ExD 33 (IR 33 3) (IR 45853 16) (IR 1 0),
    ExD 34 (IR 495 7) (IR 47608 20) (IR 1 0),
    ExD 35 (IR 829 2) (IR 47628 12) (IR 1 0),
    ExD 101 (IR 36 2) (IR 47640 24) (IR 1 0),
    ExD 102 (IR 10 1) (IR 47664 21) (IR 1 0),
    ExD 103 (IR 623 5) (IR 47685 10) (IR 1 0),
    ExD 104 (IR 0 0) (IR 47695 12) (IR 1 0),
    ExD 105 (IR 36 2) (IR 47707 21) (IR 1 0),
    ExD 106 (IR 10 1) (IR 47728 17) (IR 1 0),
    ExD 107 (IR 296 4) (IR 47745 16) (IR 1 0)]"

definition core_ExtInstByValue_2 :: "ExtInstDesc list" where
  "core_ExtInstByValue_2 = [
    ExD 108 (IR 33 3) (IR 47761 16) (IR 1 0),
    ExD 1 (IR 713 9) (IR 47777 14) (IR 1 0),
    ExD 2 (IR 10 1) (IR 47791 13) (IR 1 0),
    ExD 3 (IR 10 1) (IR 47804 12) (IR 1 0),
    ExD 4 (IR 296 4) (IR 47816 14) (IR 1 0),
    ExD 5 (IR 33 3) (IR 47830 23) (IR 1 0),
    ExD 6 (IR 915 15) (IR 47853 20) (IR 1 0),
    ExD 7 (IR 930 33) (IR 47873 19) (IR 1 0),
    ExD 8 (IR 963 19) (IR 47892 21) (IR 1 0),
    ExD 0 (IR 0 0) (IR 45010 14) (IR 1 0),
    ExD 1 (IR 982 4) (IR 45024 21) (IR 1 0),
    ExD 2 (IR 986 3) (IR 45097 15) (IR 1 0),
    ExD 3 (IR 989 3) (IR 45146 17) (IR 1 0),
    ExD 4 (IR 992 2) (IR 45201 19) (IR 1 0),
    ExD 5 (IR 168 2) (IR 45220 15) (IR 1 0),
    ExD 6 (IR 261 2) (IR 45235 16) (IR 1 0),
    ExD 7 (IR 747 6) (IR 45251 13) (IR 1 0),
    ExD 8 (IR 994 3) (IR 45264 18) (IR 1 0),
    ExD 9 (IR 997 9) (IR 45282 14) (IR 1 0),
    ExD 10 (IR 1006 10) (IR 45334 19) (IR 1 0),
    ExD 11 (IR 1016 10) (IR 45353 16) (IR 1 0),
    ExD 12 (IR 1026 5) (IR 45369 21) (IR 1 0),
    ExD 13 (IR 36 2) (IR 45390 21) (IR 1 0),
    ExD 14 (IR 168 2) (IR 45411 18) (IR 1 0),
    ExD 15 (IR 786 6) (IR 45429 27) (IR 1 0),
    ExD 16 (IR 792 5) (IR 45456 35) (IR 1 0),
    ExD 17 (IR 797 5) (IR 45491 31) (IR 1 0),
    ExD 18 (IR 1016 10) (IR 45522 20) (IR 1 0),
    ExD 19 (IR 1031 8) (IR 45542 25) (IR 1 0),
    ExD 20 (IR 1039 11) (IR 45567 14) (IR 1 0),
    ExD 21 (IR 821 5) (IR 45581 18) (IR 1 0),
    ExD 22 (IR 826 3) (IR 45599 31) (IR 1 0),
    ExD 23 (IR 829 2) (IR 45630 11) (IR 1 0),
    ExD 24 (IR 0 0) (IR 45641 13) (IR 1 0),
    ExD 25 (IR 831 3) (IR 45654 15) (IR 1 0),
    ExD 26 (IR 1050 8) (IR 45711 19) (IR 1 0),
    ExD 27 (IR 36 2) (IR 45730 21) (IR 1 0),
    ExD 28 (IR 33 3) (IR 45751 13) (IR 1 0),
    ExD 29 (IR 911 4) (IR 45764 11) (IR 1 0),
    ExD 30 (IR 1058 2) (IR 45808 15) (IR 1 0),
    ExD 31 (IR 695 1) (IR 45823 16) (IR 1 0),
    ExD 32 (IR 843 4) (IR 45839 14) (IR 1 0),
    ExD 33 (IR 826 3) (IR 45853 16) (IR 1 0),
    ExD 34 (IR 1060 7) (IR 47608 20) (IR 1 0),
    ExD 35 (IR 829 2) (IR 47628 12) (IR 1 0),
    ExD 36 (IR 1067 8) (IR 48213 17) (IR 1 0),
    ExD 0 (IR 10 1) (IR 48230 5) (IR 1 0),
    ExD 1 (IR 10 1) (IR 48235 6) (IR 1 0),
    ExD 2 (IR 10 1) (IR 48241 7) (IR 1 0),
    ExD 3 (IR 10 1) (IR 48248 5) (IR 1 0),
    ExD 4 (IR 10 1) (IR 48253 6) (IR 1 0),
    ExD 5 (IR 10 1) (IR 48259 7) (IR 1 0),
    ExD 6 (IR 10 1) (IR 48266 5) (IR 1 0),
    ExD 7 (IR 36 2) (IR 48271 6) (IR 1 0),
    ExD 8 (IR 10 1) (IR 48277 6) (IR 1 0),
    ExD 9 (IR 10 1) (IR 48283 7) (IR 1 0),
    ExD 10 (IR 36 2) (IR 48290 8) (IR 1 0),
    ExD 11 (IR 10 1) (IR 48298 5) (IR 1 0),
    ExD 12 (IR 10 1) (IR 48303 5) (IR 1 0),
    ExD 13 (IR 36 2) (IR 48308 9) (IR 1 0),
    ExD 14 (IR 10 1) (IR 48317 4) (IR 1 0),
    ExD 15 (IR 10 1) (IR 48321 5) (IR 1 0),
    ExD 16 (IR 10 1) (IR 48326 6) (IR 1 0),
    ExD 17 (IR 10 1) (IR 48332 5) (IR 1 0),
    ExD 18 (IR 10 1) (IR 48337 4) (IR 1 0),
    ExD 19 (IR 10 1) (IR 48341 4) (IR 1 0),
    ExD 20 (IR 10 1) (IR 48345 5) (IR 1 0),
    ExD 21 (IR 10 1) (IR 48350 6) (IR 1 0),
    ExD 22 (IR 10 1) (IR 48356 6) (IR 1 0),
    ExD 23 (IR 10 1) (IR 48362 5) (IR 1 0),
    ExD 24 (IR 36 2) (IR 48367 5) (IR 1 0),
    ExD 25 (IR 10 1) (IR 48372 6) (IR 1 0),
    ExD 26 (IR 33 3) (IR 48378 4) (IR 1 0),
    ExD 27 (IR 36 2) (IR 48382 5) (IR 1 0),
    ExD 28 (IR 36 2) (IR 48387 5) (IR 1 0),
    ExD 29 (IR 36 2) (IR 48392 5) (IR 1 0),
    ExD 30 (IR 36 2) (IR 48397 6) (IR 1 0),
    ExD 31 (IR 36 2) (IR 48403 6) (IR 1 0),
    ExD 32 (IR 36 2) (IR 48409 6) (IR 1 0),
    ExD 33 (IR 10 1) (IR 48415 6) (IR 1 0),
    ExD 34 (IR 36 2) (IR 48421 6) (IR 1 0),
    ExD 35 (IR 10 1) (IR 48427 7) (IR 1 0),
    ExD 36 (IR 36 2) (IR 48434 9) (IR 1 0),
    ExD 37 (IR 10 1) (IR 48443 4) (IR 1 0),
    ExD 38 (IR 10 1) (IR 48447 5) (IR 1 0),
    ExD 39 (IR 10 1) (IR 48452 6) (IR 1 0),
    ExD 40 (IR 10 1) (IR 48458 6) (IR 1 0),
    ExD 41 (IR 10 1) (IR 48464 5) (IR 1 0),
    ExD 42 (IR 33 3) (IR 48469 4) (IR 1 0),
    ExD 43 (IR 36 2) (IR 48473 7) (IR 1 0),
    ExD 44 (IR 36 2) (IR 48480 7) (IR 1 0),
    ExD 45 (IR 36 2) (IR 48487 5) (IR 1 0),
    ExD 46 (IR 10 1) (IR 48492 4) (IR 1 0),
    ExD 47 (IR 36 2) (IR 48496 10) (IR 1 0),
    ExD 48 (IR 36 2) (IR 48506 4) (IR 1 0),
    ExD 49 (IR 36 2) (IR 48510 5) (IR 1 0),
    ExD 50 (IR 36 2) (IR 48515 5) (IR 1 0),
    ExD 51 (IR 36 2) (IR 48520 10) (IR 1 0),
    ExD 52 (IR 33 3) (IR 48530 7) (IR 1 0),
    ExD 53 (IR 10 1) (IR 48537 5) (IR 1 0)]"

definition core_ExtInstByValue_3 :: "ExtInstDesc list" where
  "core_ExtInstByValue_3 = [
    ExD 54 (IR 36 2) (IR 48542 6) (IR 1 0),
    ExD 55 (IR 10 1) (IR 48548 6) (IR 1 0),
    ExD 56 (IR 10 1) (IR 48554 6) (IR 1 0),
    ExD 57 (IR 10 1) (IR 48560 4) (IR 1 0),
    ExD 58 (IR 36 2) (IR 48564 7) (IR 1 0),
    ExD 59 (IR 10 1) (IR 48571 5) (IR 1 0),
    ExD 60 (IR 10 1) (IR 48576 6) (IR 1 0),
    ExD 61 (IR 10 1) (IR 48582 5) (IR 1 0),
    ExD 62 (IR 10 1) (IR 48587 4) (IR 1 0),
    ExD 63 (IR 10 1) (IR 48591 5) (IR 1 0),
    ExD 64 (IR 10 1) (IR 48596 6) (IR 1 0),
    ExD 65 (IR 10 1) (IR 48602 7) (IR 1 0),
    ExD 66 (IR 10 1) (IR 48609 6) (IR 1 0),
    ExD 67 (IR 10 1) (IR 48615 9) (IR 1 0),
    ExD 68 (IR 36 2) (IR 48624 12) (IR 1 0),
    ExD 69 (IR 10 1) (IR 48636 9) (IR 1 0),
    ExD 70 (IR 10 1) (IR 48645 10) (IR 1 0),
    ExD 71 (IR 10 1) (IR 48655 11) (IR 1 0),
    ExD 72 (IR 10 1) (IR 48666 9) (IR 1 0),
    ExD 73 (IR 10 1) (IR 48675 10) (IR 1 0),
    ExD 74 (IR 10 1) (IR 48685 11) (IR 1 0),
    ExD 75 (IR 36 2) (IR 48696 10) (IR 1 0),
    ExD 76 (IR 10 1) (IR 48706 11) (IR 1 0),
    ExD 77 (IR 10 1) (IR 48717 11) (IR 1 0),
    ExD 78 (IR 10 1) (IR 48728 9) (IR 1 0),
    ExD 79 (IR 10 1) (IR 48737 10) (IR 1 0),
    ExD 80 (IR 10 1) (IR 48747 9) (IR 1 0),
    ExD 81 (IR 10 1) (IR 48756 11) (IR 1 0),
    ExD 82 (IR 36 2) (IR 48767 14) (IR 1 0),
    ExD 83 (IR 10 1) (IR 48781 11) (IR 1 0),
    ExD 84 (IR 10 1) (IR 48792 12) (IR 1 0),
    ExD 85 (IR 10 1) (IR 48804 13) (IR 1 0),
    ExD 86 (IR 10 1) (IR 48817 11) (IR 1 0),
    ExD 87 (IR 10 1) (IR 48828 12) (IR 1 0),
    ExD 88 (IR 10 1) (IR 48840 13) (IR 1 0),
    ExD 89 (IR 36 2) (IR 48853 12) (IR 1 0),
    ExD 90 (IR 10 1) (IR 48865 13) (IR 1 0),
    ExD 91 (IR 10 1) (IR 48878 13) (IR 1 0),
    ExD 92 (IR 10 1) (IR 48891 11) (IR 1 0),
    ExD 93 (IR 10 1) (IR 48902 12) (IR 1 0),
    ExD 94 (IR 10 1) (IR 48914 11) (IR 1 0),
    ExD 95 (IR 33 3) (IR 48925 7) (IR 1 0),
    ExD 96 (IR 10 1) (IR 48932 8) (IR 1 0),
    ExD 97 (IR 36 2) (IR 48940 12) (IR 1 0),
    ExD 98 (IR 36 2) (IR 48952 12) (IR 1 0),
    ExD 99 (IR 33 3) (IR 48964 4) (IR 1 0),
    ExD 100 (IR 10 1) (IR 48968 8) (IR 1 0),
    ExD 101 (IR 36 2) (IR 48976 5) (IR 1 0),
    ExD 102 (IR 33 3) (IR 48981 11) (IR 1 0),
    ExD 103 (IR 10 1) (IR 48992 5) (IR 1 0),
    ExD 104 (IR 36 2) (IR 48997 6) (IR 1 0),
    ExD 105 (IR 36 2) (IR 49003 9) (IR 1 0),
    ExD 106 (IR 10 1) (IR 49012 7) (IR 1 0),
    ExD 107 (IR 10 1) (IR 49019 10) (IR 1 0),
    ExD 108 (IR 36 2) (IR 49029 14) (IR 1 0),
    ExD 109 (IR 10 1) (IR 49043 12) (IR 1 0),
    ExD 110 (IR 10 1) (IR 49055 15) (IR 1 0),
    ExD 141 (IR 10 1) (IR 49070 6) (IR 1 0),
    ExD 142 (IR 36 2) (IR 49076 11) (IR 1 0),
    ExD 143 (IR 36 2) (IR 49087 10) (IR 1 0),
    ExD 144 (IR 36 2) (IR 49097 10) (IR 1 0),
    ExD 145 (IR 36 2) (IR 49107 7) (IR 1 0),
    ExD 146 (IR 36 2) (IR 49114 7) (IR 1 0),
    ExD 147 (IR 36 2) (IR 49121 8) (IR 1 0),
    ExD 148 (IR 36 2) (IR 49129 8) (IR 1 0),
    ExD 149 (IR 33 3) (IR 49137 8) (IR 1 0),
    ExD 150 (IR 33 3) (IR 49145 8) (IR 1 0),
    ExD 151 (IR 10 1) (IR 49153 4) (IR 1 0),
    ExD 152 (IR 10 1) (IR 49157 4) (IR 1 0),
    ExD 153 (IR 33 3) (IR 49161 9) (IR 1 0),
    ExD 154 (IR 33 3) (IR 49170 10) (IR 1 0),
    ExD 155 (IR 33 3) (IR 49180 10) (IR 1 0),
    ExD 156 (IR 36 2) (IR 49190 6) (IR 1 0),
    ExD 157 (IR 36 2) (IR 49196 6) (IR 1 0),
    ExD 158 (IR 36 2) (IR 49202 6) (IR 1 0),
    ExD 159 (IR 36 2) (IR 49208 6) (IR 1 0),
    ExD 160 (IR 36 2) (IR 49214 9) (IR 1 0),
    ExD 161 (IR 36 2) (IR 49223 7) (IR 1 0),
    ExD 162 (IR 36 2) (IR 49230 10) (IR 1 0),
    ExD 163 (IR 36 2) (IR 49240 10) (IR 1 0),
    ExD 164 (IR 36 2) (IR 49250 11) (IR 1 0),
    ExD 165 (IR 36 2) (IR 49261 11) (IR 1 0),
    ExD 166 (IR 10 1) (IR 49272 9) (IR 1 0),
    ExD 167 (IR 33 3) (IR 49281 8) (IR 1 0),
    ExD 168 (IR 33 3) (IR 49289 8) (IR 1 0),
    ExD 169 (IR 36 2) (IR 49297 8) (IR 1 0),
    ExD 170 (IR 36 2) (IR 49305 8) (IR 1 0),
    ExD 171 (IR 1075 3) (IR 49313 7) (IR 1 0),
    ExD 172 (IR 33 3) (IR 49320 8) (IR 1 0),
    ExD 173 (IR 36 2) (IR 49328 11) (IR 1 0),
    ExD 174 (IR 1075 3) (IR 49339 12) (IR 1 0),
    ExD 175 (IR 33 3) (IR 49351 12) (IR 1 0),
    ExD 176 (IR 1078 4) (IR 49363 14) (IR 1 0),
    ExD 177 (IR 33 3) (IR 49377 13) (IR 1 0),
    ExD 178 (IR 1078 4) (IR 49390 15) (IR 1 0),
    ExD 179 (IR 1075 3) (IR 49405 13) (IR 1 0),
    ExD 180 (IR 33 3) (IR 49418 14) (IR 1 0),
    ExD 181 (IR 1078 4) (IR 49432 16) (IR 1 0),
    ExD 182 (IR 36 2) (IR 49448 8) (IR 1 0),
    ExD 183 (IR 33 3) (IR 49456 9) (IR 1 0)]"

definition core_ExtInstByValue_4 :: "ExtInstDesc list" where
  "core_ExtInstByValue_4 = [
    ExD 184 (IR 168 2) (IR 49465 7) (IR 1 0),
    ExD 185 (IR 36 2) (IR 49472 9) (IR 1 0),
    ExD 186 (IR 33 3) (IR 49481 10) (IR 1 0),
    ExD 187 (IR 33 3) (IR 49491 7) (IR 1 0),
    ExD 201 (IR 10 1) (IR 49498 6) (IR 1 0),
    ExD 202 (IR 36 2) (IR 49504 11) (IR 1 0),
    ExD 203 (IR 36 2) (IR 49515 9) (IR 1 0),
    ExD 204 (IR 33 3) (IR 49524 9) (IR 1 0),
    ExD 1 (IR 10 1) (IR 49533 17) (IR 1 0),
    ExD 2 (IR 10 1) (IR 49550 17) (IR 1 0),
    ExD 3 (IR 0 0) (IR 49567 8) (IR 1 0),
    ExD 1 (IR 36 2) (IR 49575 22) (IR 1 0),
    ExD 2 (IR 36 2) (IR 49597 28) (IR 1 0),
    ExD 3 (IR 33 3) (IR 49625 19) (IR 1 0),
    ExD 4 (IR 10 1) (IR 49644 9) (IR 1 0),
    ExD 1 (IR 36 2) (IR 49653 23) (IR 1 0),
    ExD 1 (IR 33 3) (IR 49676 9) (IR 1 0),
    ExD 2 (IR 33 3) (IR 49685 9) (IR 1 0),
    ExD 3 (IR 33 3) (IR 49694 9) (IR 1 0),
    ExD 4 (IR 33 3) (IR 49703 9) (IR 1 0),
    ExD 5 (IR 33 3) (IR 49712 9) (IR 1 0),
    ExD 6 (IR 33 3) (IR 49721 9) (IR 1 0),
    ExD 7 (IR 33 3) (IR 49730 9) (IR 1 0),
    ExD 8 (IR 33 3) (IR 49739 9) (IR 1 0),
    ExD 9 (IR 33 3) (IR 49748 9) (IR 1 0),
    ExD 0 (IR 33 3) (IR 49757 7) (IR 1 0),
    ExD 1 (IR 495 7) (IR 49764 11) (IR 1 0),
    ExD 2 (IR 703 10) (IR 49775 7) (IR 1 0),
    ExD 3 (IR 703 10) (IR 49782 7) (IR 1 0),
    ExD 4 (IR 703 10) (IR 49789 17) (IR 1 0),
    ExD 5 (IR 296 4) (IR 49806 6) (IR 1 0),
    ExD 6 (IR 296 4) (IR 49812 7) (IR 1 0),
    ExD 7 (IR 623 5) (IR 49819 11) (IR 1 0),
    ExD 8 (IR 36 2) (IR 49830 7) (IR 1 0),
    ExD 9 (IR 713 9) (IR 49837 17) (IR 1 0),
    ExD 10 (IR 296 4) (IR 49854 6) (IR 1 0),
    ExD 11 (IR 10 1) (IR 49860 4) (IR 1 0),
    ExD 12 (IR 10 1) (IR 49864 8) (IR 1 0),
    ExD 13 (IR 10 1) (IR 49872 5) (IR 1 0),
    ExD 14 (IR 36 2) (IR 49877 4) (IR 1 0),
    ExD 15 (IR 33 3) (IR 49881 23) (IR 1 0),
    ExD 16 (IR 36 2) (IR 49904 12) (IR 1 0),
    ExD 17 (IR 36 2) (IR 49916 11) (IR 1 0),
    ExD 18 (IR 36 2) (IR 49927 12) (IR 1 0),
    ExD 19 (IR 36 2) (IR 49939 7) (IR 1 0),
    ExD 20 (IR 36 2) (IR 49946 12) (IR 1 0),
    ExD 21 (IR 36 2) (IR 49958 19) (IR 1 0),
    ExD 22 (IR 36 2) (IR 49977 20) (IR 1 0),
    ExD 23 (IR 36 2) (IR 49997 11) (IR 1 0),
    ExD 24 (IR 36 2) (IR 50008 12) (IR 1 0),
    ExD 25 (IR 33 3) (IR 50020 8) (IR 1 0),
    ExD 26 (IR 33 3) (IR 50028 8) (IR 1 0),
    ExD 27 (IR 33 3) (IR 50036 4) (IR 1 0),
    ExD 28 (IR 36 2) (IR 50040 4) (IR 1 0),
    ExD 29 (IR 36 2) (IR 50044 4) (IR 1 0),
    ExD 30 (IR 36 2) (IR 50048 6) (IR 1 0),
    ExD 31 (IR 10 1) (IR 50054 4) (IR 1 0),
    ExD 32 (IR 10 1) (IR 50058 12) (IR 1 0),
    ExD 33 (IR 10 1) (IR 50070 5) (IR 1 0),
    ExD 34 (IR 10 1) (IR 50075 4) (IR 1 0),
    ExD 35 (IR 10 1) (IR 50079 4) (IR 1 0),
    ExD 36 (IR 10 1) (IR 50083 4) (IR 1 0),
    ExD 37 (IR 10 1) (IR 50087 6) (IR 1 0),
    ExD 38 (IR 10 1) (IR 50093 4) (IR 1 0),
    ExD 39 (IR 10 1) (IR 50097 12) (IR 1 0),
    ExD 40 (IR 33 3) (IR 50109 7) (IR 1 0),
    ExD 41 (IR 10 1) (IR 50116 11) (IR 1 0),
    ExD 42 (IR 10 1) (IR 50127 6) (IR 1 0),
    ExD 43 (IR 10 1) (IR 50133 4) (IR 1 0),
    ExD 44 (IR 33 3) (IR 50137 7) (IR 1 0),
    ExD 45 (IR 36 2) (IR 50144 6) (IR 1 0),
    ExD 46 (IR 36 2) (IR 50150 8) (IR 1 0),
    ExD 47 (IR 36 2) (IR 50158 14) (IR 1 0),
    ExD 48 (IR 36 2) (IR 50172 11) (IR 1 0),
    ExD 49 (IR 36 2) (IR 50183 11) (IR 1 0),
    ExD 50 (IR 33 3) (IR 50194 11) (IR 1 0),
    ExD 51 (IR 33 3) (IR 50205 11) (IR 1 0),
    ExD 52 (IR 36 2) (IR 50216 15) (IR 1 0),
    ExD 53 (IR 36 2) (IR 50231 11) (IR 1 0),
    ExD 54 (IR 168 2) (IR 50242 7) (IR 1 0),
    ExD 55 (IR 33 3) (IR 50249 4) (IR 1 0),
    ExD 56 (IR 36 2) (IR 50253 8) (IR 1 0),
    ExD 57 (IR 36 2) (IR 50261 8) (IR 1 0),
    ExD 58 (IR 33 3) (IR 50269 6) (IR 1 0),
    ExD 59 (IR 36 2) (IR 50275 5) (IR 1 0),
    ExD 60 (IR 36 2) (IR 50280 10) (IR 1 0),
    ExD 61 (IR 36 2) (IR 50290 7) (IR 1 0),
    ExD 62 (IR 33 3) (IR 50297 8) (IR 1 0),
    ExD 63 (IR 623 5) (IR 50305 7) (IR 1 0),
    ExD 64 (IR 10 1) (IR 50312 5) (IR 1 0),
    ExD 65 (IR 703 10) (IR 50317 8) (IR 1 0)]"

definition core_ExtInstByValue :: "ExtInstDesc list" where
  "core_ExtInstByValue =
     core_ExtInstByValue_0 @
     core_ExtInstByValue_1 @
     core_ExtInstByValue_2 @
     core_ExtInstByValue_3 @
     core_ExtInstByValue_4"

definition core_ExtInstByValueRangeForKind :: "spv_ext_inst_type_t \<Rightarrow> IndexRange" where
  "core_ExtInstByValueRangeForKind type =
     (if type = SPV_EXT_INST_TYPE_DEBUGINFO then (IR 0 34)
      else if type = SPV_EXT_INST_TYPE_GLSL_STD_450 then (IR 34 81)
      else if type = SPV_EXT_INST_TYPE_NONSEMANTIC_CLSPVREFLECTION then (IR 115 42)
      else if type = SPV_EXT_INST_TYPE_NONSEMANTIC_SHADER_DEBUGINFO_100 then (IR 157 44)
      else if type = SPV_EXT_INST_TYPE_NONSEMANTIC_VKSPREFLECTION then (IR 201 8)
      else if type = SPV_EXT_INST_TYPE_OPENCL_DEBUGINFO_100 then (IR 209 37)
      else if type = SPV_EXT_INST_TYPE_OPENCL_STD then (IR 246 162)
      else if type = SPV_EXT_INST_TYPE_SPV_AMD_GCN_SHADER then (IR 408 3)
      else if type = SPV_EXT_INST_TYPE_SPV_AMD_SHADER_BALLOT then (IR 411 4)
      else if type = SPV_EXT_INST_TYPE_SPV_AMD_SHADER_EXPLICIT_VERTEX_PARAMETER then (IR 415 1)
      else if type = SPV_EXT_INST_TYPE_SPV_AMD_SHADER_TRINARY_MINMAX then (IR 416 9)
      else if type = SPV_EXT_INST_TYPE_TOSA_001000_1 then (IR 425 66)
      else IR 0 0)"

section \<open>Spans of operand types\<close>

definition core_OperandSpans_0 :: "spv_operand_type_t list" where
  "core_OperandSpans_0 = [
    SPV_OPERAND_TYPE_LITERAL_INTEGER, SPV_OPERAND_TYPE_LITERAL_INTEGER,
    SPV_OPERAND_TYPE_LITERAL_INTEGER, SPV_OPERAND_TYPE_BUILT_IN, SPV_OPERAND_TYPE_SCOPE_ID,
    SPV_OPERAND_TYPE_FUNCTION_PARAMETER_ATTRIBUTE, SPV_OPERAND_TYPE_FP_ROUNDING_MODE,
    SPV_OPERAND_TYPE_FP_FAST_MATH_MODE, SPV_OPERAND_TYPE_LITERAL_STRING,
    SPV_OPERAND_TYPE_LINKAGE_TYPE, SPV_OPERAND_TYPE_ID, SPV_OPERAND_TYPE_LITERAL_STRING,
    SPV_OPERAND_TYPE_LITERAL_INTEGER, SPV_OPERAND_TYPE_FP_ROUNDING_MODE,
    SPV_OPERAND_TYPE_LITERAL_INTEGER, SPV_OPERAND_TYPE_FPDENORM_MODE,
    SPV_OPERAND_TYPE_LITERAL_STRING, SPV_OPERAND_TYPE_LITERAL_STRING,
    SPV_OPERAND_TYPE_VARIABLE_LITERAL_INTEGER, SPV_OPERAND_TYPE_LITERAL_INTEGER,
    SPV_OPERAND_TYPE_FPOPERATION_MODE, SPV_OPERAND_TYPE_LITERAL_FLOAT,
    SPV_OPERAND_TYPE_LITERAL_INTEGER, SPV_OPERAND_TYPE_LITERAL_INTEGER,
    SPV_OPERAND_TYPE_LITERAL_INTEGER, SPV_OPERAND_TYPE_ACCESS_QUALIFIER,
    SPV_OPERAND_TYPE_HOST_ACCESS_QUALIFIER, SPV_OPERAND_TYPE_LITERAL_STRING,
    SPV_OPERAND_TYPE_INITIALIZATION_MODE_QUALIFIER, SPV_OPERAND_TYPE_LITERAL_INTEGER,
    SPV_OPERAND_TYPE_LOAD_CACHE_CONTROL, SPV_OPERAND_TYPE_LITERAL_INTEGER]"

definition core_OperandSpans_1 :: "spv_operand_type_t list" where
  "core_OperandSpans_1 = [
    SPV_OPERAND_TYPE_STORE_CACHE_CONTROL, SPV_OPERAND_TYPE_ID, SPV_OPERAND_TYPE_ID,
    SPV_OPERAND_TYPE_ID, SPV_OPERAND_TYPE_ID, SPV_OPERAND_TYPE_ID,
    SPV_OPERAND_TYPE_NAMED_MAXIMUM_NUMBER_OF_REGISTERS, SPV_OPERAND_TYPE_TYPE_ID,
    SPV_OPERAND_TYPE_RESULT_ID, SPV_OPERAND_TYPE_SOURCE_LANGUAGE,
    SPV_OPERAND_TYPE_LITERAL_INTEGER, SPV_OPERAND_TYPE_OPTIONAL_ID,
    SPV_OPERAND_TYPE_OPTIONAL_LITERAL_STRING, SPV_OPERAND_TYPE_ID,
    SPV_OPERAND_TYPE_LITERAL_STRING, SPV_OPERAND_TYPE_ID, SPV_OPERAND_TYPE_LITERAL_INTEGER,
    SPV_OPERAND_TYPE_LITERAL_STRING, SPV_OPERAND_TYPE_RESULT_ID, SPV_OPERAND_TYPE_LITERAL_STRING,
    SPV_OPERAND_TYPE_ID, SPV_OPERAND_TYPE_LITERAL_INTEGER, SPV_OPERAND_TYPE_LITERAL_INTEGER,
    SPV_OPERAND_TYPE_TYPE_ID, SPV_OPERAND_TYPE_RESULT_ID, SPV_OPERAND_TYPE_ID,
    SPV_OPERAND_TYPE_EXTENSION_INSTRUCTION_NUMBER, SPV_OPERAND_TYPE_ADDRESSING_MODEL,
    SPV_OPERAND_TYPE_MEMORY_MODEL, SPV_OPERAND_TYPE_EXECUTION_MODEL, SPV_OPERAND_TYPE_ID,
    SPV_OPERAND_TYPE_LITERAL_STRING]"

definition core_OperandSpans_2 :: "spv_operand_type_t list" where
  "core_OperandSpans_2 = [
    SPV_OPERAND_TYPE_VARIABLE_ID, SPV_OPERAND_TYPE_ID, SPV_OPERAND_TYPE_EXECUTION_MODE,
    SPV_OPERAND_TYPE_CAPABILITY, SPV_OPERAND_TYPE_RESULT_ID, SPV_OPERAND_TYPE_RESULT_ID,
    SPV_OPERAND_TYPE_LITERAL_INTEGER, SPV_OPERAND_TYPE_LITERAL_INTEGER,
    SPV_OPERAND_TYPE_RESULT_ID, SPV_OPERAND_TYPE_LITERAL_INTEGER,
    SPV_OPERAND_TYPE_OPTIONAL_FPENCODING, SPV_OPERAND_TYPE_RESULT_ID, SPV_OPERAND_TYPE_ID,
    SPV_OPERAND_TYPE_LITERAL_INTEGER, SPV_OPERAND_TYPE_RESULT_ID, SPV_OPERAND_TYPE_ID,
    SPV_OPERAND_TYPE_DIMENSIONALITY, SPV_OPERAND_TYPE_LITERAL_INTEGER,
    SPV_OPERAND_TYPE_LITERAL_INTEGER, SPV_OPERAND_TYPE_LITERAL_INTEGER,
    SPV_OPERAND_TYPE_LITERAL_INTEGER, SPV_OPERAND_TYPE_SAMPLER_IMAGE_FORMAT,
    SPV_OPERAND_TYPE_OPTIONAL_ACCESS_QUALIFIER, SPV_OPERAND_TYPE_RESULT_ID, SPV_OPERAND_TYPE_ID,
    SPV_OPERAND_TYPE_RESULT_ID, SPV_OPERAND_TYPE_ID, SPV_OPERAND_TYPE_ID,
    SPV_OPERAND_TYPE_RESULT_ID, SPV_OPERAND_TYPE_VARIABLE_ID, SPV_OPERAND_TYPE_RESULT_ID,
    SPV_OPERAND_TYPE_STORAGE_CLASS]"

definition core_OperandSpans_3 :: "spv_operand_type_t list" where
  "core_OperandSpans_3 = [
    SPV_OPERAND_TYPE_ID, SPV_OPERAND_TYPE_RESULT_ID, SPV_OPERAND_TYPE_ID,
    SPV_OPERAND_TYPE_VARIABLE_ID, SPV_OPERAND_TYPE_RESULT_ID, SPV_OPERAND_TYPE_ACCESS_QUALIFIER,
    SPV_OPERAND_TYPE_ID, SPV_OPERAND_TYPE_STORAGE_CLASS, SPV_OPERAND_TYPE_TYPE_ID,
    SPV_OPERAND_TYPE_RESULT_ID, SPV_OPERAND_TYPE_TYPED_LITERAL_NUMBER, SPV_OPERAND_TYPE_TYPE_ID,
    SPV_OPERAND_TYPE_RESULT_ID, SPV_OPERAND_TYPE_VARIABLE_ID, SPV_OPERAND_TYPE_TYPE_ID,
    SPV_OPERAND_TYPE_RESULT_ID, SPV_OPERAND_TYPE_SAMPLER_ADDRESSING_MODE,
    SPV_OPERAND_TYPE_LITERAL_INTEGER, SPV_OPERAND_TYPE_SAMPLER_FILTER_MODE,
    SPV_OPERAND_TYPE_TYPE_ID, SPV_OPERAND_TYPE_RESULT_ID,
    SPV_OPERAND_TYPE_SPEC_CONSTANT_OP_NUMBER, SPV_OPERAND_TYPE_TYPE_ID,
    SPV_OPERAND_TYPE_RESULT_ID, SPV_OPERAND_TYPE_FUNCTION_CONTROL, SPV_OPERAND_TYPE_ID,
    SPV_OPERAND_TYPE_TYPE_ID, SPV_OPERAND_TYPE_RESULT_ID, SPV_OPERAND_TYPE_ID,
    SPV_OPERAND_TYPE_VARIABLE_ID, SPV_OPERAND_TYPE_TYPE_ID, SPV_OPERAND_TYPE_RESULT_ID]"

definition core_OperandSpans_4 :: "spv_operand_type_t list" where
  "core_OperandSpans_4 = [
    SPV_OPERAND_TYPE_STORAGE_CLASS, SPV_OPERAND_TYPE_OPTIONAL_ID, SPV_OPERAND_TYPE_TYPE_ID,
    SPV_OPERAND_TYPE_RESULT_ID, SPV_OPERAND_TYPE_ID, SPV_OPERAND_TYPE_ID, SPV_OPERAND_TYPE_ID,
    SPV_OPERAND_TYPE_TYPE_ID, SPV_OPERAND_TYPE_RESULT_ID, SPV_OPERAND_TYPE_ID,
    SPV_OPERAND_TYPE_OPTIONAL_MEMORY_ACCESS, SPV_OPERAND_TYPE_ID, SPV_OPERAND_TYPE_ID,
    SPV_OPERAND_TYPE_OPTIONAL_MEMORY_ACCESS, SPV_OPERAND_TYPE_ID, SPV_OPERAND_TYPE_ID,
    SPV_OPERAND_TYPE_OPTIONAL_MEMORY_ACCESS, SPV_OPERAND_TYPE_OPTIONAL_MEMORY_ACCESS,
    SPV_OPERAND_TYPE_ID, SPV_OPERAND_TYPE_ID, SPV_OPERAND_TYPE_ID,
    SPV_OPERAND_TYPE_OPTIONAL_MEMORY_ACCESS, SPV_OPERAND_TYPE_OPTIONAL_MEMORY_ACCESS,
    SPV_OPERAND_TYPE_TYPE_ID, SPV_OPERAND_TYPE_RESULT_ID, SPV_OPERAND_TYPE_ID,
    SPV_OPERAND_TYPE_ID, SPV_OPERAND_TYPE_VARIABLE_ID, SPV_OPERAND_TYPE_TYPE_ID,
    SPV_OPERAND_TYPE_RESULT_ID, SPV_OPERAND_TYPE_ID, SPV_OPERAND_TYPE_LITERAL_INTEGER]"

definition core_OperandSpans_5 :: "spv_operand_type_t list" where
  "core_OperandSpans_5 = [
    SPV_OPERAND_TYPE_TYPE_ID, SPV_OPERAND_TYPE_RESULT_ID, SPV_OPERAND_TYPE_ID,
    SPV_OPERAND_TYPE_ID, SPV_OPERAND_TYPE_DECORATION, SPV_OPERAND_TYPE_ID,
    SPV_OPERAND_TYPE_LITERAL_INTEGER, SPV_OPERAND_TYPE_DECORATION, SPV_OPERAND_TYPE_ID,
    SPV_OPERAND_TYPE_VARIABLE_ID, SPV_OPERAND_TYPE_ID,
    SPV_OPERAND_TYPE_VARIABLE_ID_LITERAL_INTEGER, SPV_OPERAND_TYPE_TYPE_ID,
    SPV_OPERAND_TYPE_RESULT_ID, SPV_OPERAND_TYPE_ID, SPV_OPERAND_TYPE_ID,
    SPV_OPERAND_TYPE_TYPE_ID, SPV_OPERAND_TYPE_RESULT_ID, SPV_OPERAND_TYPE_ID,
    SPV_OPERAND_TYPE_ID, SPV_OPERAND_TYPE_VARIABLE_LITERAL_INTEGER, SPV_OPERAND_TYPE_TYPE_ID,
    SPV_OPERAND_TYPE_RESULT_ID, SPV_OPERAND_TYPE_ID, SPV_OPERAND_TYPE_VARIABLE_LITERAL_INTEGER,
    SPV_OPERAND_TYPE_TYPE_ID, SPV_OPERAND_TYPE_RESULT_ID, SPV_OPERAND_TYPE_ID,
    SPV_OPERAND_TYPE_ID, SPV_OPERAND_TYPE_OPTIONAL_IMAGE, SPV_OPERAND_TYPE_TYPE_ID,
    SPV_OPERAND_TYPE_RESULT_ID]"

definition core_OperandSpans_6 :: "spv_operand_type_t list" where
  "core_OperandSpans_6 = [
    SPV_OPERAND_TYPE_ID, SPV_OPERAND_TYPE_ID, SPV_OPERAND_TYPE_IMAGE, SPV_OPERAND_TYPE_TYPE_ID,
    SPV_OPERAND_TYPE_RESULT_ID, SPV_OPERAND_TYPE_ID, SPV_OPERAND_TYPE_ID, SPV_OPERAND_TYPE_ID,
    SPV_OPERAND_TYPE_OPTIONAL_IMAGE, SPV_OPERAND_TYPE_TYPE_ID, SPV_OPERAND_TYPE_RESULT_ID,
    SPV_OPERAND_TYPE_ID, SPV_OPERAND_TYPE_ID, SPV_OPERAND_TYPE_ID, SPV_OPERAND_TYPE_IMAGE,
    SPV_OPERAND_TYPE_ID, SPV_OPERAND_TYPE_ID, SPV_OPERAND_TYPE_ID,
    SPV_OPERAND_TYPE_OPTIONAL_IMAGE, SPV_OPERAND_TYPE_TYPE_ID, SPV_OPERAND_TYPE_RESULT_ID,
    SPV_OPERAND_TYPE_ID, SPV_OPERAND_TYPE_STORAGE_CLASS, SPV_OPERAND_TYPE_TYPE_ID,
    SPV_OPERAND_TYPE_RESULT_ID, SPV_OPERAND_TYPE_ID, SPV_OPERAND_TYPE_ID, SPV_OPERAND_TYPE_ID,
    SPV_OPERAND_TYPE_ID, SPV_OPERAND_TYPE_SCOPE_ID, SPV_OPERAND_TYPE_SCOPE_ID,
    SPV_OPERAND_TYPE_MEMORY_SEMANTICS_ID]"

definition core_OperandSpans_7 :: "spv_operand_type_t list" where
  "core_OperandSpans_7 = [
    SPV_OPERAND_TYPE_SCOPE_ID, SPV_OPERAND_TYPE_MEMORY_SEMANTICS_ID, SPV_OPERAND_TYPE_TYPE_ID,
    SPV_OPERAND_TYPE_RESULT_ID, SPV_OPERAND_TYPE_ID, SPV_OPERAND_TYPE_SCOPE_ID,
    SPV_OPERAND_TYPE_MEMORY_SEMANTICS_ID, SPV_OPERAND_TYPE_ID, SPV_OPERAND_TYPE_SCOPE_ID,
    SPV_OPERAND_TYPE_MEMORY_SEMANTICS_ID, SPV_OPERAND_TYPE_ID, SPV_OPERAND_TYPE_TYPE_ID,
    SPV_OPERAND_TYPE_RESULT_ID, SPV_OPERAND_TYPE_ID, SPV_OPERAND_TYPE_SCOPE_ID,
    SPV_OPERAND_TYPE_MEMORY_SEMANTICS_ID, SPV_OPERAND_TYPE_ID, SPV_OPERAND_TYPE_TYPE_ID,
    SPV_OPERAND_TYPE_RESULT_ID, SPV_OPERAND_TYPE_ID, SPV_OPERAND_TYPE_SCOPE_ID,
    SPV_OPERAND_TYPE_MEMORY_SEMANTICS_ID, SPV_OPERAND_TYPE_MEMORY_SEMANTICS_ID,
    SPV_OPERAND_TYPE_ID, SPV_OPERAND_TYPE_ID, SPV_OPERAND_TYPE_ID, SPV_OPERAND_TYPE_ID,
    SPV_OPERAND_TYPE_LOOP_CONTROL, SPV_OPERAND_TYPE_ID, SPV_OPERAND_TYPE_SELECTION_CONTROL,
    SPV_OPERAND_TYPE_ID, SPV_OPERAND_TYPE_ID]"

definition core_OperandSpans_8 :: "spv_operand_type_t list" where
  "core_OperandSpans_8 = [
    SPV_OPERAND_TYPE_ID, SPV_OPERAND_TYPE_VARIABLE_LITERAL_INTEGER, SPV_OPERAND_TYPE_ID,
    SPV_OPERAND_TYPE_ID, SPV_OPERAND_TYPE_VARIABLE_LITERAL_INTEGER_ID, SPV_OPERAND_TYPE_ID,
    SPV_OPERAND_TYPE_LITERAL_INTEGER, SPV_OPERAND_TYPE_TYPE_ID, SPV_OPERAND_TYPE_RESULT_ID,
    SPV_OPERAND_TYPE_SCOPE_ID, SPV_OPERAND_TYPE_ID, SPV_OPERAND_TYPE_ID, SPV_OPERAND_TYPE_ID,
    SPV_OPERAND_TYPE_ID, SPV_OPERAND_TYPE_ID, SPV_OPERAND_TYPE_SCOPE_ID, SPV_OPERAND_TYPE_ID,
    SPV_OPERAND_TYPE_ID, SPV_OPERAND_TYPE_TYPE_ID, SPV_OPERAND_TYPE_RESULT_ID,
    SPV_OPERAND_TYPE_SCOPE_ID, SPV_OPERAND_TYPE_ID, SPV_OPERAND_TYPE_TYPE_ID,
    SPV_OPERAND_TYPE_RESULT_ID, SPV_OPERAND_TYPE_SCOPE_ID, SPV_OPERAND_TYPE_ID,
    SPV_OPERAND_TYPE_ID, SPV_OPERAND_TYPE_TYPE_ID, SPV_OPERAND_TYPE_RESULT_ID,
    SPV_OPERAND_TYPE_SCOPE_ID, SPV_OPERAND_TYPE_GROUP_OPERATION, SPV_OPERAND_TYPE_ID]"

definition core_OperandSpans_9 :: "spv_operand_type_t list" where
  "core_OperandSpans_9 = [
    SPV_OPERAND_TYPE_TYPE_ID, SPV_OPERAND_TYPE_RESULT_ID, SPV_OPERAND_TYPE_ID,
    SPV_OPERAND_TYPE_ID, SPV_OPERAND_TYPE_ID, SPV_OPERAND_TYPE_ID, SPV_OPERAND_TYPE_ID,
    SPV_OPERAND_TYPE_ID, SPV_OPERAND_TYPE_ID, SPV_OPERAND_TYPE_ID, SPV_OPERAND_TYPE_ID,
    SPV_OPERAND_TYPE_ID, SPV_OPERAND_TYPE_TYPE_ID, SPV_OPERAND_TYPE_RESULT_ID,
    SPV_OPERAND_TYPE_SCOPE_ID, SPV_OPERAND_TYPE_ID, SPV_OPERAND_TYPE_ID, SPV_OPERAND_TYPE_ID,
    SPV_OPERAND_TYPE_ID, SPV_OPERAND_TYPE_SCOPE_ID, SPV_OPERAND_TYPE_ID, SPV_OPERAND_TYPE_ID,
    SPV_OPERAND_TYPE_ID, SPV_OPERAND_TYPE_ID, SPV_OPERAND_TYPE_TYPE_ID,
    SPV_OPERAND_TYPE_RESULT_ID, SPV_OPERAND_TYPE_ID, SPV_OPERAND_TYPE_ID, SPV_OPERAND_TYPE_ID,
    SPV_OPERAND_TYPE_ID, SPV_OPERAND_TYPE_ID, SPV_OPERAND_TYPE_ID]"

definition core_OperandSpans_10 :: "spv_operand_type_t list" where
  "core_OperandSpans_10 = [
    SPV_OPERAND_TYPE_ID, SPV_OPERAND_TYPE_ID, SPV_OPERAND_TYPE_ID, SPV_OPERAND_TYPE_ID,
    SPV_OPERAND_TYPE_VARIABLE_ID, SPV_OPERAND_TYPE_TYPE_ID, SPV_OPERAND_TYPE_RESULT_ID,
    SPV_OPERAND_TYPE_ID, SPV_OPERAND_TYPE_ID, SPV_OPERAND_TYPE_ID, SPV_OPERAND_TYPE_ID,
    SPV_OPERAND_TYPE_ID, SPV_OPERAND_TYPE_ID, SPV_OPERAND_TYPE_SCOPE_ID,
    SPV_OPERAND_TYPE_MEMORY_SEMANTICS_ID, SPV_OPERAND_TYPE_TYPE_ID, SPV_OPERAND_TYPE_RESULT_ID,
    SPV_OPERAND_TYPE_LITERAL_INTEGER, SPV_OPERAND_TYPE_LITERAL_INTEGER,
    SPV_OPERAND_TYPE_LITERAL_INTEGER, SPV_OPERAND_TYPE_TYPE_ID, SPV_OPERAND_TYPE_RESULT_ID,
    SPV_OPERAND_TYPE_SCOPE_ID, SPV_OPERAND_TYPE_TYPE_ID, SPV_OPERAND_TYPE_RESULT_ID,
    SPV_OPERAND_TYPE_SCOPE_ID, SPV_OPERAND_TYPE_GROUP_OPERATION, SPV_OPERAND_TYPE_ID,
    SPV_OPERAND_TYPE_OPTIONAL_ID, SPV_OPERAND_TYPE_TYPE_ID, SPV_OPERAND_TYPE_RESULT_ID,
    SPV_OPERAND_TYPE_ID]"

definition core_OperandSpans_11 :: "spv_operand_type_t list" where
  "core_OperandSpans_11 = [
    SPV_OPERAND_TYPE_OPTIONAL_ID, SPV_OPERAND_TYPE_TYPE_ID, SPV_OPERAND_TYPE_RESULT_ID,
    SPV_OPERAND_TYPE_OPTIONAL_ID, SPV_OPERAND_TYPE_RESULT_ID, SPV_OPERAND_TYPE_ID,
    SPV_OPERAND_TYPE_OPTIONAL_ID, SPV_OPERAND_TYPE_OPTIONAL_ID, SPV_OPERAND_TYPE_TYPE_ID,
    SPV_OPERAND_TYPE_RESULT_ID, SPV_OPERAND_TYPE_ID, SPV_OPERAND_TYPE_ID,
    SPV_OPERAND_TYPE_OPTIONAL_TENSOR_OPERANDS, SPV_OPERAND_TYPE_ID, SPV_OPERAND_TYPE_ID,
    SPV_OPERAND_TYPE_ID, SPV_OPERAND_TYPE_OPTIONAL_TENSOR_OPERANDS, SPV_OPERAND_TYPE_TYPE_ID,
    SPV_OPERAND_TYPE_RESULT_ID, SPV_OPERAND_TYPE_LITERAL_INTEGER, SPV_OPERAND_TYPE_ID,
    SPV_OPERAND_TYPE_LITERAL_STRING, SPV_OPERAND_TYPE_VARIABLE_ID, SPV_OPERAND_TYPE_ID,
    SPV_OPERAND_TYPE_ID, SPV_OPERAND_TYPE_VARIABLE_ID, SPV_OPERAND_TYPE_RESULT_ID,
    SPV_OPERAND_TYPE_LITERAL_INTEGER, SPV_OPERAND_TYPE_VARIABLE_ID, SPV_OPERAND_TYPE_RESULT_ID,
    SPV_OPERAND_TYPE_STORAGE_CLASS, SPV_OPERAND_TYPE_TYPE_ID]"

definition core_OperandSpans_12 :: "spv_operand_type_t list" where
  "core_OperandSpans_12 = [
    SPV_OPERAND_TYPE_RESULT_ID, SPV_OPERAND_TYPE_STORAGE_CLASS, SPV_OPERAND_TYPE_OPTIONAL_ID,
    SPV_OPERAND_TYPE_OPTIONAL_ID, SPV_OPERAND_TYPE_TYPE_ID, SPV_OPERAND_TYPE_RESULT_ID,
    SPV_OPERAND_TYPE_ID, SPV_OPERAND_TYPE_ID, SPV_OPERAND_TYPE_ID, SPV_OPERAND_TYPE_VARIABLE_ID,
    SPV_OPERAND_TYPE_TYPE_ID, SPV_OPERAND_TYPE_RESULT_ID, SPV_OPERAND_TYPE_ID,
    SPV_OPERAND_TYPE_ID, SPV_OPERAND_TYPE_LITERAL_INTEGER, SPV_OPERAND_TYPE_ID,
    SPV_OPERAND_TYPE_ID, SPV_OPERAND_TYPE_OPTIONAL_ID, SPV_OPERAND_TYPE_OPTIONAL_ID,
    SPV_OPERAND_TYPE_OPTIONAL_ID, SPV_OPERAND_TYPE_TYPE_ID, SPV_OPERAND_TYPE_RESULT_ID,
    SPV_OPERAND_TYPE_SCOPE_ID, SPV_OPERAND_TYPE_ID, SPV_OPERAND_TYPE_ID,
    SPV_OPERAND_TYPE_OPTIONAL_ID, SPV_OPERAND_TYPE_TYPE_ID, SPV_OPERAND_TYPE_RESULT_ID,
    SPV_OPERAND_TYPE_ID, SPV_OPERAND_TYPE_EXTENSION_INSTRUCTION_NUMBER,
    SPV_OPERAND_TYPE_VARIABLE_ID, SPV_OPERAND_TYPE_ID]"

definition core_OperandSpans_13 :: "spv_operand_type_t list" where
  "core_OperandSpans_13 = [
    SPV_OPERAND_TYPE_ID, SPV_OPERAND_TYPE_ID, SPV_OPERAND_TYPE_ID, SPV_OPERAND_TYPE_ID,
    SPV_OPERAND_TYPE_ID, SPV_OPERAND_TYPE_ID, SPV_OPERAND_TYPE_ID, SPV_OPERAND_TYPE_ID,
    SPV_OPERAND_TYPE_ID, SPV_OPERAND_TYPE_ID, SPV_OPERAND_TYPE_TYPE_ID,
    SPV_OPERAND_TYPE_RESULT_ID, SPV_OPERAND_TYPE_ID, SPV_OPERAND_TYPE_ID,
    SPV_OPERAND_TYPE_OPTIONAL_PACKED_VECTOR_FORMAT, SPV_OPERAND_TYPE_TYPE_ID,
    SPV_OPERAND_TYPE_RESULT_ID, SPV_OPERAND_TYPE_ID, SPV_OPERAND_TYPE_ID, SPV_OPERAND_TYPE_ID,
    SPV_OPERAND_TYPE_OPTIONAL_PACKED_VECTOR_FORMAT, SPV_OPERAND_TYPE_RESULT_ID,
    SPV_OPERAND_TYPE_ID, SPV_OPERAND_TYPE_SCOPE_ID, SPV_OPERAND_TYPE_ID, SPV_OPERAND_TYPE_ID,
    SPV_OPERAND_TYPE_ID, SPV_OPERAND_TYPE_TYPE_ID, SPV_OPERAND_TYPE_RESULT_ID,
    SPV_OPERAND_TYPE_ID, SPV_OPERAND_TYPE_ID, SPV_OPERAND_TYPE_OPTIONAL_ID]"

definition core_OperandSpans_14 :: "spv_operand_type_t list" where
  "core_OperandSpans_14 = [
    SPV_OPERAND_TYPE_OPTIONAL_MEMORY_ACCESS, SPV_OPERAND_TYPE_ID, SPV_OPERAND_TYPE_ID,
    SPV_OPERAND_TYPE_ID, SPV_OPERAND_TYPE_OPTIONAL_ID, SPV_OPERAND_TYPE_OPTIONAL_MEMORY_ACCESS,
    SPV_OPERAND_TYPE_TYPE_ID, SPV_OPERAND_TYPE_RESULT_ID, SPV_OPERAND_TYPE_ID,
    SPV_OPERAND_TYPE_ID, SPV_OPERAND_TYPE_ID,
    SPV_OPERAND_TYPE_OPTIONAL_COOPERATIVE_MATRIX_OPERANDS, SPV_OPERAND_TYPE_ID,
    SPV_OPERAND_TYPE_ID, SPV_OPERAND_TYPE_ID, SPV_OPERAND_TYPE_ID, SPV_OPERAND_TYPE_ID,
    SPV_OPERAND_TYPE_ID, SPV_OPERAND_TYPE_ID, SPV_OPERAND_TYPE_ID, SPV_OPERAND_TYPE_ID,
    SPV_OPERAND_TYPE_ID, SPV_OPERAND_TYPE_ID, SPV_OPERAND_TYPE_ID, SPV_OPERAND_TYPE_ID,
    SPV_OPERAND_TYPE_ID, SPV_OPERAND_TYPE_ID, SPV_OPERAND_TYPE_ID, SPV_OPERAND_TYPE_ID,
    SPV_OPERAND_TYPE_ID, SPV_OPERAND_TYPE_ID, SPV_OPERAND_TYPE_ID]"

definition core_OperandSpans_15 :: "spv_operand_type_t list" where
  "core_OperandSpans_15 = [
    SPV_OPERAND_TYPE_ID, SPV_OPERAND_TYPE_ID, SPV_OPERAND_TYPE_ID, SPV_OPERAND_TYPE_ID,
    SPV_OPERAND_TYPE_ID, SPV_OPERAND_TYPE_ID, SPV_OPERAND_TYPE_ID, SPV_OPERAND_TYPE_ID,
    SPV_OPERAND_TYPE_ID, SPV_OPERAND_TYPE_ID, SPV_OPERAND_TYPE_ID, SPV_OPERAND_TYPE_ID,
    SPV_OPERAND_TYPE_ID, SPV_OPERAND_TYPE_ID, SPV_OPERAND_TYPE_ID, SPV_OPERAND_TYPE_ID,
    SPV_OPERAND_TYPE_ID, SPV_OPERAND_TYPE_ID, SPV_OPERAND_TYPE_ID, SPV_OPERAND_TYPE_ID,
    SPV_OPERAND_TYPE_ID, SPV_OPERAND_TYPE_ID, SPV_OPERAND_TYPE_ID, SPV_OPERAND_TYPE_ID,
    SPV_OPERAND_TYPE_ID, SPV_OPERAND_TYPE_ID, SPV_OPERAND_TYPE_ID, SPV_OPERAND_TYPE_ID,
    SPV_OPERAND_TYPE_ID, SPV_OPERAND_TYPE_ID, SPV_OPERAND_TYPE_ID, SPV_OPERAND_TYPE_ID]"

definition core_OperandSpans_16 :: "spv_operand_type_t list" where
  "core_OperandSpans_16 = [
    SPV_OPERAND_TYPE_ID, SPV_OPERAND_TYPE_ID, SPV_OPERAND_TYPE_ID, SPV_OPERAND_TYPE_ID,
    SPV_OPERAND_TYPE_ID, SPV_OPERAND_TYPE_ID, SPV_OPERAND_TYPE_ID, SPV_OPERAND_TYPE_ID,
    SPV_OPERAND_TYPE_ID, SPV_OPERAND_TYPE_OPTIONAL_ID, SPV_OPERAND_TYPE_OPTIONAL_ID,
    SPV_OPERAND_TYPE_TYPE_ID, SPV_OPERAND_TYPE_RESULT_ID, SPV_OPERAND_TYPE_ID,
    SPV_OPERAND_TYPE_ID, SPV_OPERAND_TYPE_ID, SPV_OPERAND_TYPE_ID,
    SPV_OPERAND_TYPE_OPTIONAL_IMAGE, SPV_OPERAND_TYPE_TYPE_ID, SPV_OPERAND_TYPE_RESULT_ID,
    SPV_OPERAND_TYPE_ID, SPV_OPERAND_TYPE_ID, SPV_OPERAND_TYPE_ID, SPV_OPERAND_TYPE_ID,
    SPV_OPERAND_TYPE_ID, SPV_OPERAND_TYPE_ID, SPV_OPERAND_TYPE_ID, SPV_OPERAND_TYPE_ID,
    SPV_OPERAND_TYPE_ID, SPV_OPERAND_TYPE_OPTIONAL_ID,
    SPV_OPERAND_TYPE_OPTIONAL_COOPERATIVE_MATRIX_OPERANDS, SPV_OPERAND_TYPE_ID]"

definition core_OperandSpans_17 :: "spv_operand_type_t list" where
  "core_OperandSpans_17 = [
    SPV_OPERAND_TYPE_ID, SPV_OPERAND_TYPE_ID, SPV_OPERAND_TYPE_ID, SPV_OPERAND_TYPE_ID,
    SPV_OPERAND_TYPE_ID, SPV_OPERAND_TYPE_OPTIONAL_ID, SPV_OPERAND_TYPE_TYPE_ID,
    SPV_OPERAND_TYPE_RESULT_ID, SPV_OPERAND_TYPE_ID, SPV_OPERAND_TYPE_ID, SPV_OPERAND_TYPE_ID,
    SPV_OPERAND_TYPE_ID, SPV_OPERAND_TYPE_ID, SPV_OPERAND_TYPE_ID, SPV_OPERAND_TYPE_ID,
    SPV_OPERAND_TYPE_ID, SPV_OPERAND_TYPE_ID, SPV_OPERAND_TYPE_ID, SPV_OPERAND_TYPE_ID,
    SPV_OPERAND_TYPE_ID, SPV_OPERAND_TYPE_OPTIONAL_ID,
    SPV_OPERAND_TYPE_OPTIONAL_COOPERATIVE_MATRIX_OPERANDS, SPV_OPERAND_TYPE_ID,
    SPV_OPERAND_TYPE_ID, SPV_OPERAND_TYPE_ID, SPV_OPERAND_TYPE_OPTIONAL_ID,
    SPV_OPERAND_TYPE_TYPE_ID, SPV_OPERAND_TYPE_RESULT_ID, SPV_OPERAND_TYPE_ID,
    SPV_OPERAND_TYPE_ID, SPV_OPERAND_TYPE_OPTIONAL_MEMORY_ACCESS, SPV_OPERAND_TYPE_ID]"

definition core_OperandSpans_18 :: "spv_operand_type_t list" where
  "core_OperandSpans_18 = [
    SPV_OPERAND_TYPE_ID, SPV_OPERAND_TYPE_ID, SPV_OPERAND_TYPE_OPTIONAL_MEMORY_ACCESS,
    SPV_OPERAND_TYPE_RESULT_ID, SPV_OPERAND_TYPE_ID, SPV_OPERAND_TYPE_SCOPE_ID,
    SPV_OPERAND_TYPE_ID, SPV_OPERAND_TYPE_ID, SPV_OPERAND_TYPE_TYPE_ID,
    SPV_OPERAND_TYPE_RESULT_ID, SPV_OPERAND_TYPE_ID, SPV_OPERAND_TYPE_ID, SPV_OPERAND_TYPE_ID,
    SPV_OPERAND_TYPE_OPTIONAL_MEMORY_ACCESS, SPV_OPERAND_TYPE_ID, SPV_OPERAND_TYPE_ID,
    SPV_OPERAND_TYPE_ID, SPV_OPERAND_TYPE_ID, SPV_OPERAND_TYPE_OPTIONAL_MEMORY_ACCESS,
    SPV_OPERAND_TYPE_TYPE_ID, SPV_OPERAND_TYPE_RESULT_ID, SPV_OPERAND_TYPE_ID,
    SPV_OPERAND_TYPE_COOPERATIVE_MATRIX_REDUCE, SPV_OPERAND_TYPE_ID, SPV_OPERAND_TYPE_TYPE_ID,
    SPV_OPERAND_TYPE_RESULT_ID, SPV_OPERAND_TYPE_ID, SPV_OPERAND_TYPE_ID, SPV_OPERAND_TYPE_ID,
    SPV_OPERAND_TYPE_MEMORY_ACCESS, SPV_OPERAND_TYPE_TENSOR_ADDRESSING_OPERANDS,
    SPV_OPERAND_TYPE_ID]"

definition core_OperandSpans_19 :: "spv_operand_type_t list" where
  "core_OperandSpans_19 = [
    SPV_OPERAND_TYPE_ID, SPV_OPERAND_TYPE_ID, SPV_OPERAND_TYPE_MEMORY_ACCESS,
    SPV_OPERAND_TYPE_TENSOR_ADDRESSING_OPERANDS, SPV_OPERAND_TYPE_RESULT_ID, SPV_OPERAND_TYPE_ID,
    SPV_OPERAND_TYPE_ID, SPV_OPERAND_TYPE_VARIABLE_ID, SPV_OPERAND_TYPE_TYPE_ID,
    SPV_OPERAND_TYPE_RESULT_ID, SPV_OPERAND_TYPE_ID, SPV_OPERAND_TYPE_ID, SPV_OPERAND_TYPE_ID,
    SPV_OPERAND_TYPE_ID, SPV_OPERAND_TYPE_OPTIONAL_RAW_ACCESS_CHAIN_OPERANDS, SPV_OPERAND_TYPE_ID,
    SPV_OPERAND_TYPE_ID, SPV_OPERAND_TYPE_ID, SPV_OPERAND_TYPE_ID, SPV_OPERAND_TYPE_ID,
    SPV_OPERAND_TYPE_TYPE_ID, SPV_OPERAND_TYPE_RESULT_ID, SPV_OPERAND_TYPE_ID,
    SPV_OPERAND_TYPE_ID, SPV_OPERAND_TYPE_LITERAL_STRING, SPV_OPERAND_TYPE_LITERAL_STRING,
    SPV_OPERAND_TYPE_TYPE_ID, SPV_OPERAND_TYPE_RESULT_ID, SPV_OPERAND_TYPE_ID,
    SPV_OPERAND_TYPE_ID, SPV_OPERAND_TYPE_ID, SPV_OPERAND_TYPE_ID]"

definition core_OperandSpans_20 :: "spv_operand_type_t list" where
  "core_OperandSpans_20 = [
    SPV_OPERAND_TYPE_ID, SPV_OPERAND_TYPE_ID, SPV_OPERAND_TYPE_ID, SPV_OPERAND_TYPE_TYPE_ID,
    SPV_OPERAND_TYPE_RESULT_ID, SPV_OPERAND_TYPE_ID, SPV_OPERAND_TYPE_ID, SPV_OPERAND_TYPE_ID,
    SPV_OPERAND_TYPE_ID, SPV_OPERAND_TYPE_ID, SPV_OPERAND_TYPE_ID, SPV_OPERAND_TYPE_ID,
    SPV_OPERAND_TYPE_ID, SPV_OPERAND_TYPE_TYPE_ID, SPV_OPERAND_TYPE_RESULT_ID,
    SPV_OPERAND_TYPE_ID, SPV_OPERAND_TYPE_ID, SPV_OPERAND_TYPE_ID, SPV_OPERAND_TYPE_ID,
    SPV_OPERAND_TYPE_ID, SPV_OPERAND_TYPE_ID, SPV_OPERAND_TYPE_ID, SPV_OPERAND_TYPE_ID,
    SPV_OPERAND_TYPE_ID, SPV_OPERAND_TYPE_ID, SPV_OPERAND_TYPE_ID, SPV_OPERAND_TYPE_TYPE_ID,
    SPV_OPERAND_TYPE_RESULT_ID, SPV_OPERAND_TYPE_ID, SPV_OPERAND_TYPE_LITERAL_INTEGER,
    SPV_OPERAND_TYPE_LITERAL_INTEGER, SPV_OPERAND_TYPE_LITERAL_INTEGER]"

definition core_OperandSpans_21 :: "spv_operand_type_t list" where
  "core_OperandSpans_21 = [
    SPV_OPERAND_TYPE_LITERAL_INTEGER, SPV_OPERAND_TYPE_LITERAL_INTEGER, SPV_OPERAND_TYPE_TYPE_ID,
    SPV_OPERAND_TYPE_RESULT_ID, SPV_OPERAND_TYPE_ID, SPV_OPERAND_TYPE_LITERAL_INTEGER,
    SPV_OPERAND_TYPE_ID, SPV_OPERAND_TYPE_LITERAL_INTEGER, SPV_OPERAND_TYPE_LITERAL_INTEGER,
    SPV_OPERAND_TYPE_LITERAL_INTEGER, SPV_OPERAND_TYPE_LITERAL_INTEGER,
    SPV_OPERAND_TYPE_LITERAL_INTEGER, SPV_OPERAND_TYPE_TYPE_ID, SPV_OPERAND_TYPE_RESULT_ID,
    SPV_OPERAND_TYPE_ID, SPV_OPERAND_TYPE_LITERAL_INTEGER, SPV_OPERAND_TYPE_ID,
    SPV_OPERAND_TYPE_LITERAL_INTEGER, SPV_OPERAND_TYPE_RESULT_ID, SPV_OPERAND_TYPE_OPTIONAL_ID,
    SPV_OPERAND_TYPE_RESULT_ID, SPV_OPERAND_TYPE_ID, SPV_OPERAND_TYPE_OPTIONAL_ID,
    SPV_OPERAND_TYPE_VARIABLE_ID, SPV_OPERAND_TYPE_TYPE_ID, SPV_OPERAND_TYPE_RESULT_ID,
    SPV_OPERAND_TYPE_ID, SPV_OPERAND_TYPE_LITERAL_INTEGER, SPV_OPERAND_TYPE_LITERAL_INTEGER,
    SPV_OPERAND_TYPE_LITERAL_INTEGER, SPV_OPERAND_TYPE_LITERAL_INTEGER, SPV_OPERAND_TYPE_ID]"

definition core_OperandSpans_22 :: "spv_operand_type_t list" where
  "core_OperandSpans_22 = [
    SPV_OPERAND_TYPE_ID, SPV_OPERAND_TYPE_ID, SPV_OPERAND_TYPE_ID, SPV_OPERAND_TYPE_ID,
    SPV_OPERAND_TYPE_ID, SPV_OPERAND_TYPE_ID, SPV_OPERAND_TYPE_ID, SPV_OPERAND_TYPE_ID,
    SPV_OPERAND_TYPE_ID, SPV_OPERAND_TYPE_ID, SPV_OPERAND_TYPE_ID, SPV_OPERAND_TYPE_ID,
    SPV_OPERAND_TYPE_ID, SPV_OPERAND_TYPE_ID, SPV_OPERAND_TYPE_ID, SPV_OPERAND_TYPE_ID,
    SPV_OPERAND_TYPE_ID, SPV_OPERAND_TYPE_ID, SPV_OPERAND_TYPE_TYPE_ID,
    SPV_OPERAND_TYPE_RESULT_ID, SPV_OPERAND_TYPE_ID, SPV_OPERAND_TYPE_ID, SPV_OPERAND_TYPE_ID,
    SPV_OPERAND_TYPE_ID, SPV_OPERAND_TYPE_OPTIONAL_MATRIX_MULTIPLY_ACCUMULATE_OPERANDS,
    SPV_OPERAND_TYPE_TYPE_ID, SPV_OPERAND_TYPE_RESULT_ID, SPV_OPERAND_TYPE_ID,
    SPV_OPERAND_TYPE_LITERAL_INTEGER, SPV_OPERAND_TYPE_ID, SPV_OPERAND_TYPE_ID,
    SPV_OPERAND_TYPE_ID]"

definition core_OperandSpans_23 :: "spv_operand_type_t list" where
  "core_OperandSpans_23 = [
    SPV_OPERAND_TYPE_ID, SPV_OPERAND_TYPE_LITERAL_INTEGER, SPV_OPERAND_TYPE_ID,
    SPV_OPERAND_TYPE_ID, SPV_OPERAND_TYPE_ID, SPV_OPERAND_TYPE_DEBUG_BASE_TYPE_ATTRIBUTE_ENCODING,
    SPV_OPERAND_TYPE_ID, SPV_OPERAND_TYPE_STORAGE_CLASS, SPV_OPERAND_TYPE_DEBUG_INFO_FLAGS,
    SPV_OPERAND_TYPE_ID, SPV_OPERAND_TYPE_DEBUG_TYPE_QUALIFIER, SPV_OPERAND_TYPE_ID,
    SPV_OPERAND_TYPE_ID, SPV_OPERAND_TYPE_ID, SPV_OPERAND_TYPE_LITERAL_INTEGER,
    SPV_OPERAND_TYPE_LITERAL_INTEGER, SPV_OPERAND_TYPE_ID, SPV_OPERAND_TYPE_ID,
    SPV_OPERAND_TYPE_ID, SPV_OPERAND_TYPE_ID, SPV_OPERAND_TYPE_LITERAL_INTEGER,
    SPV_OPERAND_TYPE_LITERAL_INTEGER, SPV_OPERAND_TYPE_ID, SPV_OPERAND_TYPE_ID,
    SPV_OPERAND_TYPE_DEBUG_INFO_FLAGS, SPV_OPERAND_TYPE_VARIABLE_ID, SPV_OPERAND_TYPE_ID,
    SPV_OPERAND_TYPE_DEBUG_COMPOSITE_TYPE, SPV_OPERAND_TYPE_ID, SPV_OPERAND_TYPE_LITERAL_INTEGER,
    SPV_OPERAND_TYPE_LITERAL_INTEGER, SPV_OPERAND_TYPE_ID]"

definition core_OperandSpans_24 :: "spv_operand_type_t list" where
  "core_OperandSpans_24 = [
    SPV_OPERAND_TYPE_ID, SPV_OPERAND_TYPE_DEBUG_INFO_FLAGS, SPV_OPERAND_TYPE_VARIABLE_ID,
    SPV_OPERAND_TYPE_ID, SPV_OPERAND_TYPE_ID, SPV_OPERAND_TYPE_ID,
    SPV_OPERAND_TYPE_LITERAL_INTEGER, SPV_OPERAND_TYPE_LITERAL_INTEGER, SPV_OPERAND_TYPE_ID,
    SPV_OPERAND_TYPE_ID, SPV_OPERAND_TYPE_ID, SPV_OPERAND_TYPE_DEBUG_INFO_FLAGS,
    SPV_OPERAND_TYPE_OPTIONAL_ID, SPV_OPERAND_TYPE_ID, SPV_OPERAND_TYPE_ID, SPV_OPERAND_TYPE_ID,
    SPV_OPERAND_TYPE_ID, SPV_OPERAND_TYPE_DEBUG_INFO_FLAGS, SPV_OPERAND_TYPE_ID,
    SPV_OPERAND_TYPE_ID, SPV_OPERAND_TYPE_ID, SPV_OPERAND_TYPE_ID,
    SPV_OPERAND_TYPE_LITERAL_INTEGER, SPV_OPERAND_TYPE_LITERAL_INTEGER, SPV_OPERAND_TYPE_ID,
    SPV_OPERAND_TYPE_ID, SPV_OPERAND_TYPE_ID, SPV_OPERAND_TYPE_LITERAL_INTEGER,
    SPV_OPERAND_TYPE_LITERAL_INTEGER, SPV_OPERAND_TYPE_ID, SPV_OPERAND_TYPE_ID,
    SPV_OPERAND_TYPE_LITERAL_INTEGER]"

definition core_OperandSpans_25 :: "spv_operand_type_t list" where
  "core_OperandSpans_25 = [
    SPV_OPERAND_TYPE_LITERAL_INTEGER, SPV_OPERAND_TYPE_VARIABLE_ID, SPV_OPERAND_TYPE_ID,
    SPV_OPERAND_TYPE_ID, SPV_OPERAND_TYPE_ID, SPV_OPERAND_TYPE_LITERAL_INTEGER,
    SPV_OPERAND_TYPE_LITERAL_INTEGER, SPV_OPERAND_TYPE_ID, SPV_OPERAND_TYPE_ID,
    SPV_OPERAND_TYPE_DEBUG_INFO_FLAGS, SPV_OPERAND_TYPE_ID, SPV_OPERAND_TYPE_ID,
    SPV_OPERAND_TYPE_ID, SPV_OPERAND_TYPE_LITERAL_INTEGER, SPV_OPERAND_TYPE_LITERAL_INTEGER,
    SPV_OPERAND_TYPE_ID, SPV_OPERAND_TYPE_ID, SPV_OPERAND_TYPE_DEBUG_INFO_FLAGS,
    SPV_OPERAND_TYPE_LITERAL_INTEGER, SPV_OPERAND_TYPE_ID, SPV_OPERAND_TYPE_OPTIONAL_ID,
    SPV_OPERAND_TYPE_ID, SPV_OPERAND_TYPE_LITERAL_INTEGER, SPV_OPERAND_TYPE_LITERAL_INTEGER,
    SPV_OPERAND_TYPE_ID, SPV_OPERAND_TYPE_OPTIONAL_ID, SPV_OPERAND_TYPE_ID,
    SPV_OPERAND_TYPE_LITERAL_INTEGER, SPV_OPERAND_TYPE_ID, SPV_OPERAND_TYPE_ID,
    SPV_OPERAND_TYPE_OPTIONAL_ID, SPV_OPERAND_TYPE_LITERAL_INTEGER]"

definition core_OperandSpans_26 :: "spv_operand_type_t list" where
  "core_OperandSpans_26 = [
    SPV_OPERAND_TYPE_ID, SPV_OPERAND_TYPE_OPTIONAL_ID, SPV_OPERAND_TYPE_ID, SPV_OPERAND_TYPE_ID,
    SPV_OPERAND_TYPE_ID, SPV_OPERAND_TYPE_LITERAL_INTEGER, SPV_OPERAND_TYPE_LITERAL_INTEGER,
    SPV_OPERAND_TYPE_ID, SPV_OPERAND_TYPE_OPTIONAL_LITERAL_INTEGER,
    SPV_OPERAND_TYPE_DEBUG_OPERATION, SPV_OPERAND_TYPE_VARIABLE_LITERAL_INTEGER,
    SPV_OPERAND_TYPE_ID, SPV_OPERAND_TYPE_LITERAL_INTEGER, SPV_OPERAND_TYPE_ID,
    SPV_OPERAND_TYPE_OPTIONAL_ID, SPV_OPERAND_TYPE_ID, SPV_OPERAND_TYPE_OPTIONAL_ID,
    SPV_OPERAND_TYPE_OPTIONAL_ID, SPV_OPERAND_TYPE_OPTIONAL_ID, SPV_OPERAND_TYPE_OPTIONAL_ID,
    SPV_OPERAND_TYPE_ID, SPV_OPERAND_TYPE_ID, SPV_OPERAND_TYPE_ID, SPV_OPERAND_TYPE_ID,
    SPV_OPERAND_TYPE_OPTIONAL_ID, SPV_OPERAND_TYPE_ID, SPV_OPERAND_TYPE_ID, SPV_OPERAND_TYPE_ID,
    SPV_OPERAND_TYPE_ID, SPV_OPERAND_TYPE_ID, SPV_OPERAND_TYPE_ID, SPV_OPERAND_TYPE_ID]"

definition core_OperandSpans_27 :: "spv_operand_type_t list" where
  "core_OperandSpans_27 = [
    SPV_OPERAND_TYPE_ID, SPV_OPERAND_TYPE_VARIABLE_ID, SPV_OPERAND_TYPE_ID, SPV_OPERAND_TYPE_ID,
    SPV_OPERAND_TYPE_ID, SPV_OPERAND_TYPE_ID, SPV_OPERAND_TYPE_ID, SPV_OPERAND_TYPE_ID,
    SPV_OPERAND_TYPE_ID, SPV_OPERAND_TYPE_ID, SPV_OPERAND_TYPE_ID, SPV_OPERAND_TYPE_VARIABLE_ID,
    SPV_OPERAND_TYPE_ID, SPV_OPERAND_TYPE_ID, SPV_OPERAND_TYPE_ID, SPV_OPERAND_TYPE_ID,
    SPV_OPERAND_TYPE_ID, SPV_OPERAND_TYPE_ID, SPV_OPERAND_TYPE_ID, SPV_OPERAND_TYPE_ID,
    SPV_OPERAND_TYPE_OPTIONAL_ID, SPV_OPERAND_TYPE_ID, SPV_OPERAND_TYPE_ID, SPV_OPERAND_TYPE_ID,
    SPV_OPERAND_TYPE_ID, SPV_OPERAND_TYPE_VARIABLE_ID, SPV_OPERAND_TYPE_ID, SPV_OPERAND_TYPE_ID,
    SPV_OPERAND_TYPE_ID, SPV_OPERAND_TYPE_ID, SPV_OPERAND_TYPE_ID, SPV_OPERAND_TYPE_ID]"

definition core_OperandSpans_28 :: "spv_operand_type_t list" where
  "core_OperandSpans_28 = [
    SPV_OPERAND_TYPE_ID, SPV_OPERAND_TYPE_ID, SPV_OPERAND_TYPE_ID, SPV_OPERAND_TYPE_OPTIONAL_ID,
    SPV_OPERAND_TYPE_ID, SPV_OPERAND_TYPE_ID, SPV_OPERAND_TYPE_OPTIONAL_ID, SPV_OPERAND_TYPE_ID,
    SPV_OPERAND_TYPE_ID, SPV_OPERAND_TYPE_ID, SPV_OPERAND_TYPE_ID, SPV_OPERAND_TYPE_ID,
    SPV_OPERAND_TYPE_ID, SPV_OPERAND_TYPE_ID, SPV_OPERAND_TYPE_OPTIONAL_ID, SPV_OPERAND_TYPE_ID,
    SPV_OPERAND_TYPE_ID, SPV_OPERAND_TYPE_ID, SPV_OPERAND_TYPE_VARIABLE_ID, SPV_OPERAND_TYPE_ID,
    SPV_OPERAND_TYPE_ID, SPV_OPERAND_TYPE_ID, SPV_OPERAND_TYPE_ID, SPV_OPERAND_TYPE_ID,
    SPV_OPERAND_TYPE_ID, SPV_OPERAND_TYPE_ID, SPV_OPERAND_TYPE_ID, SPV_OPERAND_TYPE_ID,
    SPV_OPERAND_TYPE_ID, SPV_OPERAND_TYPE_ID, SPV_OPERAND_TYPE_ID, SPV_OPERAND_TYPE_ID]"

definition core_OperandSpans_29 :: "spv_operand_type_t list" where
  "core_OperandSpans_29 = [
    SPV_OPERAND_TYPE_ID, SPV_OPERAND_TYPE_ID, SPV_OPERAND_TYPE_ID, SPV_OPERAND_TYPE_ID,
    SPV_OPERAND_TYPE_ID, SPV_OPERAND_TYPE_ID, SPV_OPERAND_TYPE_ID, SPV_OPERAND_TYPE_ID,
    SPV_OPERAND_TYPE_ID, SPV_OPERAND_TYPE_ID, SPV_OPERAND_TYPE_ID, SPV_OPERAND_TYPE_ID,
    SPV_OPERAND_TYPE_ID, SPV_OPERAND_TYPE_ID, SPV_OPERAND_TYPE_ID, SPV_OPERAND_TYPE_ID,
    SPV_OPERAND_TYPE_ID, SPV_OPERAND_TYPE_ID, SPV_OPERAND_TYPE_ID, SPV_OPERAND_TYPE_ID,
    SPV_OPERAND_TYPE_ID, SPV_OPERAND_TYPE_ID, SPV_OPERAND_TYPE_ID, SPV_OPERAND_TYPE_ID,
    SPV_OPERAND_TYPE_ID, SPV_OPERAND_TYPE_ID, SPV_OPERAND_TYPE_ID, SPV_OPERAND_TYPE_ID,
    SPV_OPERAND_TYPE_ID, SPV_OPERAND_TYPE_ID, SPV_OPERAND_TYPE_ID, SPV_OPERAND_TYPE_ID]"

definition core_OperandSpans_30 :: "spv_operand_type_t list" where
  "core_OperandSpans_30 = [
    SPV_OPERAND_TYPE_ID, SPV_OPERAND_TYPE_ID, SPV_OPERAND_TYPE_ID, SPV_OPERAND_TYPE_ID,
    SPV_OPERAND_TYPE_ID, SPV_OPERAND_TYPE_ID, SPV_OPERAND_TYPE_ID, SPV_OPERAND_TYPE_ID,
    SPV_OPERAND_TYPE_ID, SPV_OPERAND_TYPE_ID, SPV_OPERAND_TYPE_ID, SPV_OPERAND_TYPE_ID,
    SPV_OPERAND_TYPE_ID, SPV_OPERAND_TYPE_ID, SPV_OPERAND_TYPE_ID, SPV_OPERAND_TYPE_ID,
    SPV_OPERAND_TYPE_ID, SPV_OPERAND_TYPE_ID, SPV_OPERAND_TYPE_ID, SPV_OPERAND_TYPE_ID,
    SPV_OPERAND_TYPE_ID, SPV_OPERAND_TYPE_ID, SPV_OPERAND_TYPE_LITERAL_INTEGER,
    SPV_OPERAND_TYPE_LITERAL_INTEGER, SPV_OPERAND_TYPE_ID, SPV_OPERAND_TYPE_SOURCE_LANGUAGE,
    SPV_OPERAND_TYPE_ID, SPV_OPERAND_TYPE_ID,
    SPV_OPERAND_TYPE_CLDEBUG100_DEBUG_BASE_TYPE_ATTRIBUTE_ENCODING, SPV_OPERAND_TYPE_ID,
    SPV_OPERAND_TYPE_STORAGE_CLASS, SPV_OPERAND_TYPE_CLDEBUG100_DEBUG_INFO_FLAGS]"

definition core_OperandSpans_31 :: "spv_operand_type_t list" where
  "core_OperandSpans_31 = [
    SPV_OPERAND_TYPE_ID, SPV_OPERAND_TYPE_CLDEBUG100_DEBUG_TYPE_QUALIFIER,
    SPV_OPERAND_TYPE_CLDEBUG100_DEBUG_INFO_FLAGS, SPV_OPERAND_TYPE_ID,
    SPV_OPERAND_TYPE_VARIABLE_ID, SPV_OPERAND_TYPE_ID, SPV_OPERAND_TYPE_ID, SPV_OPERAND_TYPE_ID,
    SPV_OPERAND_TYPE_LITERAL_INTEGER, SPV_OPERAND_TYPE_LITERAL_INTEGER, SPV_OPERAND_TYPE_ID,
    SPV_OPERAND_TYPE_ID, SPV_OPERAND_TYPE_CLDEBUG100_DEBUG_INFO_FLAGS,
    SPV_OPERAND_TYPE_VARIABLE_ID, SPV_OPERAND_TYPE_ID,
    SPV_OPERAND_TYPE_CLDEBUG100_DEBUG_COMPOSITE_TYPE, SPV_OPERAND_TYPE_ID,
    SPV_OPERAND_TYPE_LITERAL_INTEGER, SPV_OPERAND_TYPE_LITERAL_INTEGER, SPV_OPERAND_TYPE_ID,
    SPV_OPERAND_TYPE_ID, SPV_OPERAND_TYPE_ID, SPV_OPERAND_TYPE_CLDEBUG100_DEBUG_INFO_FLAGS,
    SPV_OPERAND_TYPE_VARIABLE_ID, SPV_OPERAND_TYPE_ID, SPV_OPERAND_TYPE_ID, SPV_OPERAND_TYPE_ID,
    SPV_OPERAND_TYPE_LITERAL_INTEGER, SPV_OPERAND_TYPE_LITERAL_INTEGER, SPV_OPERAND_TYPE_ID,
    SPV_OPERAND_TYPE_ID, SPV_OPERAND_TYPE_ID]"

definition core_OperandSpans_32 :: "spv_operand_type_t list" where
  "core_OperandSpans_32 = [
    SPV_OPERAND_TYPE_CLDEBUG100_DEBUG_INFO_FLAGS, SPV_OPERAND_TYPE_OPTIONAL_ID,
    SPV_OPERAND_TYPE_ID, SPV_OPERAND_TYPE_ID, SPV_OPERAND_TYPE_ID, SPV_OPERAND_TYPE_ID,
    SPV_OPERAND_TYPE_CLDEBUG100_DEBUG_INFO_FLAGS, SPV_OPERAND_TYPE_ID, SPV_OPERAND_TYPE_ID,
    SPV_OPERAND_TYPE_ID, SPV_OPERAND_TYPE_LITERAL_INTEGER, SPV_OPERAND_TYPE_LITERAL_INTEGER,
    SPV_OPERAND_TYPE_ID, SPV_OPERAND_TYPE_ID, SPV_OPERAND_TYPE_CLDEBUG100_DEBUG_INFO_FLAGS,
    SPV_OPERAND_TYPE_ID, SPV_OPERAND_TYPE_ID, SPV_OPERAND_TYPE_ID,
    SPV_OPERAND_TYPE_LITERAL_INTEGER, SPV_OPERAND_TYPE_LITERAL_INTEGER, SPV_OPERAND_TYPE_ID,
    SPV_OPERAND_TYPE_ID, SPV_OPERAND_TYPE_CLDEBUG100_DEBUG_INFO_FLAGS,
    SPV_OPERAND_TYPE_LITERAL_INTEGER, SPV_OPERAND_TYPE_ID, SPV_OPERAND_TYPE_OPTIONAL_ID,
    SPV_OPERAND_TYPE_ID, SPV_OPERAND_TYPE_ID, SPV_OPERAND_TYPE_ID,
    SPV_OPERAND_TYPE_LITERAL_INTEGER, SPV_OPERAND_TYPE_LITERAL_INTEGER, SPV_OPERAND_TYPE_ID]"

definition core_OperandSpans_33 :: "spv_operand_type_t list" where
  "core_OperandSpans_33 = [
    SPV_OPERAND_TYPE_CLDEBUG100_DEBUG_INFO_FLAGS, SPV_OPERAND_TYPE_OPTIONAL_LITERAL_INTEGER,
    SPV_OPERAND_TYPE_CLDEBUG100_DEBUG_OPERATION, SPV_OPERAND_TYPE_VARIABLE_LITERAL_INTEGER,
    SPV_OPERAND_TYPE_ID, SPV_OPERAND_TYPE_CLDEBUG100_DEBUG_IMPORTED_ENTITY, SPV_OPERAND_TYPE_ID,
    SPV_OPERAND_TYPE_ID, SPV_OPERAND_TYPE_LITERAL_INTEGER, SPV_OPERAND_TYPE_LITERAL_INTEGER,
    SPV_OPERAND_TYPE_ID, SPV_OPERAND_TYPE_ID, SPV_OPERAND_TYPE_ID, SPV_OPERAND_TYPE_ID,
    SPV_OPERAND_TYPE_LITERAL_INTEGER, SPV_OPERAND_TYPE_ID, SPV_OPERAND_TYPE_ID,
    SPV_OPERAND_TYPE_ID, SPV_OPERAND_TYPE_LITERAL_INTEGER, SPV_OPERAND_TYPE_ID,
    SPV_OPERAND_TYPE_ID, SPV_OPERAND_TYPE_LITERAL_INTEGER, SPV_OPERAND_TYPE_ID,
    SPV_OPERAND_TYPE_ID, SPV_OPERAND_TYPE_ID, SPV_OPERAND_TYPE_FP_ROUNDING_MODE]"

definition core_OperandSpans :: "spv_operand_type_t list" where
  "core_OperandSpans =
     core_OperandSpans_0 @ core_OperandSpans_1 @ core_OperandSpans_2 @ core_OperandSpans_3 @
     core_OperandSpans_4 @ core_OperandSpans_5 @ core_OperandSpans_6 @ core_OperandSpans_7 @
     core_OperandSpans_8 @ core_OperandSpans_9 @ core_OperandSpans_10 @ core_OperandSpans_11 @
     core_OperandSpans_12 @ core_OperandSpans_13 @ core_OperandSpans_14 @ core_OperandSpans_15 @
     core_OperandSpans_16 @ core_OperandSpans_17 @ core_OperandSpans_18 @ core_OperandSpans_19 @
     core_OperandSpans_20 @ core_OperandSpans_21 @ core_OperandSpans_22 @ core_OperandSpans_23 @
     core_OperandSpans_24 @ core_OperandSpans_25 @ core_OperandSpans_26 @ core_OperandSpans_27 @
     core_OperandSpans_28 @ core_OperandSpans_29 @ core_OperandSpans_30 @ core_OperandSpans_31 @
     core_OperandSpans_32 @ core_OperandSpans_33"

section \<open>The grammar\<close>

text \<open>
  The grammar with these tables; the strings, the tables of names and the spans of capabilities and
  extensions, which nothing the binary parser does depends on, are those of the argument.
\<close>

definition core_grammar :: "grammar \<Rightarrow> grammar" where
  "core_grammar names = names
     \<lparr>kOperandsByValue := core_OperandsByValue, kInstructionDesc := core_InstructionDesc,
      kExtInstByValue := core_ExtInstByValue, kOperandSpans := core_OperandSpans,
      OperandByValueRangeForKind := core_OperandByValueRangeForKind,
      ExtInstByValueRangeForKind := core_ExtInstByValueRangeForKind\<rparr>"

end
