(* ===== verification/Core_Grammar.thy ===== *)
theory Core_Grammar
  imports Core_Tables Binary_Module
begin

text \<open>
  What the binary parser needs of the tables it is shipped with: each is in the order the lookups
  search it in, the operations of specialization constants are in step with the table of
  instructions, and the parser handles every operand type the grammar uses but one.
\<close>

declare push_bit_of_1 [simp del]

lemmas OperandsByValue_defs = core_OperandsByValue_def core_OperandsByValue_0_def core_OperandsByValue_1_def
  core_OperandsByValue_2_def core_OperandsByValue_3_def core_OperandsByValue_4_def
  core_OperandsByValue_5_def core_OperandsByValue_6_def core_OperandsByValue_7_def
  core_OperandsByValue_8_def core_OperandsByValue_9_def core_OperandsByValue_10_def
  core_OperandsByValue_11_def

lemmas ExtInstByValue_defs = core_ExtInstByValue_def core_ExtInstByValue_0_def core_ExtInstByValue_1_def
  core_ExtInstByValue_2_def core_ExtInstByValue_3_def core_ExtInstByValue_4_def

lemmas InstructionDesc_defs = core_InstructionDesc_def core_InstructionDesc_0_def core_InstructionDesc_1_def
  core_InstructionDesc_2_def core_InstructionDesc_3_def core_InstructionDesc_4_def
  core_InstructionDesc_5_def core_InstructionDesc_6_def core_InstructionDesc_7_def
  core_InstructionDesc_8_def

lemmas OperandSpans_defs = core_OperandSpans_def core_OperandSpans_0_def core_OperandSpans_1_def core_OperandSpans_2_def
  core_OperandSpans_3_def core_OperandSpans_4_def core_OperandSpans_5_def core_OperandSpans_6_def
  core_OperandSpans_7_def core_OperandSpans_8_def core_OperandSpans_9_def core_OperandSpans_10_def
  core_OperandSpans_11_def core_OperandSpans_12_def core_OperandSpans_13_def
  core_OperandSpans_14_def core_OperandSpans_15_def core_OperandSpans_16_def
  core_OperandSpans_17_def core_OperandSpans_18_def core_OperandSpans_19_def
  core_OperandSpans_20_def core_OperandSpans_21_def core_OperandSpans_22_def
  core_OperandSpans_23_def core_OperandSpans_24_def core_OperandSpans_25_def
  core_OperandSpans_26_def core_OperandSpans_27_def core_OperandSpans_28_def
  core_OperandSpans_29_def core_OperandSpans_30_def core_OperandSpans_31_def
  core_OperandSpans_32_def core_OperandSpans_33_def

section \<open>Order\<close>

fun ascending :: "'a::linorder list \<Rightarrow> bool" where
  "ascending (x # y # zs) \<longleftrightarrow> x < y \<and> ascending (y # zs)"
| "ascending _ \<longleftrightarrow> True"

lemma ascending_sorted: "ascending xs \<Longrightarrow> sorted xs"
  by (induction xs rule: ascending.induct) auto

text \<open>The positions and lengths of the pieces of a list.\<close>

fun slices :: "nat \<Rightarrow> 'a list list \<Rightarrow> (nat \<times> nat) list" where
  "slices n [] = []"
| "slices n (xs # xss) = (n, length xs) # slices (n + length xs) xss"

lemma slices_ascending:
  "(first, count) \<in> set (slices (length pre) xss) \<Longrightarrow> list_all ascending xss \<Longrightarrow>
    ascending (take count (drop first (pre @ concat xss)))"
proof (induction xss arbitrary: pre)
  case (Cons xs xss)
  then show ?case using Cons.IH [of "pre @ xs"] by auto
qed simp

definition operand_values :: "uint32_t list list" where
  "operand_values =
  [[0, 1, 2],
   [0, 1, 2, 5348],
   [0, 1, 3, 4, 5, 6, 7, 8, 9, 10, 11, 12, 13, 14, 15, 16, 17, 18, 19, 20, 22, 23, 24, 25, 26,
     27, 28, 29, 30, 31, 32, 33, 34, 36, 37, 38, 39, 40, 41, 42, 43, 4160, 4161, 4162, 4163, 4164,
     4416, 4417, 4418, 4419, 4420, 4424, 4425, 4426, 4432, 4438, 4440, 4444, 4492, 4493, 4494,
     4992, 4993, 4994, 4995, 4996, 4997, 4998, 5014, 5021, 5073, 5253, 5257, 5258, 5261, 5262,
     5264, 5274, 5275, 5276, 5277, 5278, 5279, 5280, 5281, 5286, 5287, 5292, 5293, 5294, 5295,
     5296, 5299, 5319, 5320, 5321, 5322, 5323, 5324, 5325, 5326, 5327, 5330, 5331, 5332, 5333,
     5334, 5335, 5337, 5344, 5351, 5352, 5359, 5360, 5361, 5374, 5375, 5376, 5377, 5396, 5405,
     5406, 5420, 5421, 5436, 6021],
   [0, 1, 2, 3, 4, 5, 6, 7, 8, 9, 10, 11, 12, 13, 14, 15, 17, 18, 19, 20, 21, 22, 23, 24, 25, 27,
     28, 29, 30, 31, 32, 33, 34, 35, 36, 37, 38, 39, 40, 41, 42, 43, 44, 45, 46, 47, 48, 49, 50,
     51, 52, 53, 54, 55, 56, 57, 58, 59, 60, 61, 62, 63, 64, 65, 66, 67, 68, 69, 70, 71, 4165,
     4166, 4167, 4168, 4174, 4175, 4176, 4191, 4201, 4212, 4213, 4422, 4423, 4427, 4428, 4429,
     4430, 4431, 4433, 4434, 4435, 4436, 4437, 4439, 4441, 4442, 4445, 4447, 4448, 4449, 4450,
     4464, 4465, 4466, 4467, 4468, 4471, 4472, 4473, 4478, 4479, 4484, 4485, 4486, 4495, 4498,
     5008, 5009, 5010, 5013, 5015, 5016, 5055, 5067, 5087, 5112, 5114, 5116, 5117, 5118, 5249,
     5251, 5254, 5255, 5259, 5260, 5265, 5266, 5282, 5283, 5284, 5288, 5291, 5297, 5301, 5302,
     5303, 5304, 5305, 5306, 5307, 5308, 5309, 5310, 5311, 5312, 5336, 5340, 5341, 5345, 5346,
     5347, 5350, 5353, 5357, 5363, 5372, 5373, 5378, 5379, 5380, 5381, 5383, 5390, 5391, 5394,
     5404, 5409, 5414, 5418, 5419, 5430, 5431, 5432, 5433, 5434, 5435, 5437, 5439, 5568, 5569,
     5570, 5579, 5582, 5583, 5584, 5603, 5604, 5606, 5612, 5613, 5616, 5617, 5619, 5629, 5696,
     5697, 5698, 5817, 5821, 5824, 5837, 5844, 5845, 5886, 5888, 5892, 5897, 5898, 5904, 5906,
     5908, 5910, 5916, 5920, 5922, 5935, 5939, 5943, 5945, 5948, 6016, 6017, 6018, 6019, 6020,
     6022, 6024, 6025, 6026, 6029, 6033, 6034, 6089, 6094, 6095, 6114, 6115, 6141, 6144, 6150,
     6161, 6162, 6169, 6171, 6174, 6187, 6189, 6220, 6228, 6229, 6230, 6236, 6241, 6400, 6425,
     6427, 6441, 6460, 6528],
   [0, 1, 2, 3, 4, 5, 6, 7],
   [0, 1, 2],
   [0, 1],
   [0, 1, 2, 3, 4, 8, 16, 32, 64, 128, 256, 512, 1024, 2048, 4096, 8192, 16384, 32768, 65536],
   [0, 1, 2, 3, 4, 5, 6, 7, 8, 9],
   [0, 1, 2, 3],
   [0, 1, 2, 3, 4, 5, 6, 7, 8, 9, 10, 1000491000, 1000491001, 1000491002, 1000491003],
   [0, 1, 4202, 4203],
   [0, 1, 2, 4, 8, 16],
   [1, 2, 4],
   [0, 1, 2],
   [0, 1, 2, 3],
   [0, 1, 2, 4, 5, 6, 7, 8],
   [0, 1, 2],
   [0, 1, 2, 3, 4, 8, 16, 32, 64, 128, 256, 512, 1024, 2048, 4096, 8192],
   [0, 1, 2, 3, 4, 5, 6, 7, 8],
   [0, 1, 2],
   [0, 1, 2, 3, 4, 5, 6, 7, 8, 9, 10, 11, 13, 14, 15, 16, 17, 18, 19, 20, 21, 22, 23, 24, 25, 26,
     27, 28, 29, 30, 31, 32, 33, 34, 35, 36, 37, 38, 39, 40, 41, 42, 43, 44, 45, 46, 47, 4216,
     4469, 4470, 4487, 4488, 4499, 4999, 5019, 5020, 5078, 5091, 5098, 5099, 5100, 5105, 5248,
     5250, 5252, 5256, 5271, 5272, 5273, 5285, 5300, 5355, 5356, 5386, 5398, 5399, 5400, 5401,
     5599, 5602, 5607, 5608, 5624, 5625, 5626, 5627, 5628, 5634, 5635, 5636, 5822, 5823, 5825,
     5826, 5827, 5828, 5829, 5830, 5831, 5832, 5833, 5834, 5835, 5836, 5883, 5884, 5885, 5899,
     5900, 5901, 5902, 5905, 5907, 5909, 5914, 5915, 5917, 5918, 5919, 5921, 5944, 6080, 6085,
     6087, 6140, 6151, 6170, 6172, 6173, 6175, 6176, 6177, 6178, 6179, 6180, 6181, 6182, 6183,
     6188, 6190, 6191, 6442, 6443],
   [0, 1, 2, 3, 4, 5, 6, 4173],
   [0, 1, 2, 3, 4, 5, 6, 7, 8, 9, 10, 11, 12, 14, 15, 16, 17, 18, 19, 20, 21, 22, 23, 24, 25, 26,
     27, 28, 29, 30, 31, 33, 34, 35, 36, 37, 38, 39, 4169, 4170, 4171, 4421, 4446, 4459, 4460,
     4461, 4462, 4463, 4489, 4490, 5017, 5027, 5069, 5070, 5071, 5072, 5073, 5077, 5079, 5080,
     5081, 5082, 5083, 5084, 5088, 5089, 5102, 5269, 5270, 5289, 5290, 5298, 5366, 5367, 5368,
     5369, 5370, 5371, 5618, 5620, 5621, 5622, 5623, 5893, 5894, 5895, 5896, 5903, 6023, 6028,
     6154, 6160, 6417, 6461, 6462, 6463],
   [0, 1, 2, 3, 4, 5, 6, 5267, 5268, 5313, 5314, 5315, 5316, 5317, 5318, 5364, 5365],
   [0, 1],
   [0, 4214, 4215],
   [0, 1],
   [0, 1, 2, 4, 8, 16, 65536, 131072, 262144],
   [0, 1, 2, 3],
   [1, 2, 4, 8],
   [0, 1, 2, 4, 8, 65536],
   [0, 1, 2, 3, 4, 5, 6, 7, 5940],
   [0, 1, 2, 3, 6, 7, 8],
   [0, 1, 2, 3],
   [0, 1, 2, 4, 8, 16, 32, 64, 128, 256, 512, 1024, 2048, 4096, 8192, 16384, 65536],
   [0, 1, 2, 3, 4, 5, 6, 7, 8, 9, 10, 11, 12, 13, 14, 15, 16, 17, 19, 20, 21, 22, 23, 24, 25, 26],
   [0, 1, 2, 3, 4, 5, 6, 7, 8, 9, 10, 11, 12, 13, 14, 15, 16, 17, 18, 19],
   [0, 1],
   [0, 1, 2],
   [0, 1],
   [0, 1],
   [0, 1, 2],
   [0, 1, 2, 3, 4],
   [0, 1, 2, 4, 8, 16, 32, 64, 128, 256, 65536, 131072, 262144, 524288, 1048576, 2097152,
     4194304, 8388608, 16777216, 33554432],
   [0, 1, 2, 4, 8, 16, 32, 64, 128, 256, 512, 1024, 2048, 4096, 8192],
   [0, 1, 2, 4, 8, 16, 32, 65536, 131072],
   [0, 1, 2, 3],
   [0, 2, 4, 8, 16, 64, 128, 256, 512, 1024, 2048, 4096, 8192, 16384, 32768],
   [0],
   [0, 1, 2, 3],
   [0],
   [0, 1, 2, 3, 4, 5, 6, 7],
   [0, 1, 2],
   [0, 1, 2, 4, 8, 16, 32, 64, 128, 256, 512, 1024],
   [0, 1],
   [0, 1, 2],
   [0, 1],
   [0, 1, 2, 3, 4],
   [0, 1],
   [0, 1, 2, 3, 4, 5, 6, 7, 8, 9, 10, 11, 12, 13, 14, 15, 16, 17, 18, 19, 20, 21, 22, 23, 24, 25,
     26, 27, 28, 29, 30, 31, 32, 33, 34, 35, 36, 37, 38, 39, 40, 41],
   [0, 1, 2, 3, 4, 5, 6],
   [0, 1, 2],
   [1],
   [0, 1, 2, 3, 4, 5, 6, 7],
   [0, 1, 2],
   [0, 1],
   [0, 1, 2, 3, 4, 8, 16, 32, 64, 128, 256, 512, 1024, 2048, 4096, 8192, 16384, 32768, 65536,
     131072],
   [0, 1, 2, 3, 4, 5, 6, 7, 8, 9],
   [0, 1, 2, 3],
   [0, 1, 2, 3, 4, 5, 6, 7, 8, 9, 10, 11, 12, 13],
   [0, 1, 2, 3, 4, 5, 6, 7, 8, 9, 10, 11, 12, 4172, 4491, 5068, 5328, 5329, 5338, 5339, 5342,
     5343, 5349, 5385, 5402, 5605, 5936, 5937],
   [0, 1, 2, 3],
   [0, 1, 2],
   [0, 1, 2, 3, 4],
   [0, 1, 2, 4, 8, 16]]"

definition ext_inst_values :: "uint32_t list list" where
  "ext_inst_values =
  [[0, 1, 2, 3, 4, 5, 6, 7, 8, 9, 10, 11, 12, 13, 14, 15, 16, 17, 18, 19, 20, 21, 22, 23, 24, 25,
     26, 27, 28, 29, 30, 31, 32, 33],
   [1, 2, 3, 4, 5, 6, 7, 8, 9, 10, 11, 12, 13, 14, 15, 16, 17, 18, 19, 20, 21, 22, 23, 24, 25,
     26, 27, 28, 29, 30, 31, 32, 33, 34, 35, 36, 37, 38, 39, 40, 41, 42, 43, 44, 45, 46, 47, 48,
     49, 50, 51, 52, 53, 54, 55, 56, 57, 58, 59, 60, 61, 62, 63, 64, 65, 66, 67, 68, 69, 70, 71,
     72, 73, 74, 75, 76, 77, 78, 79, 80, 81],
   [1, 2, 3, 4, 5, 6, 7, 8, 9, 10, 11, 12, 13, 14, 15, 16, 17, 18, 19, 20, 21, 22, 23, 24, 25,
     26, 27, 28, 29, 30, 31, 32, 33, 34, 35, 36, 37, 38, 39, 40, 41, 42],
   [0, 1, 2, 3, 4, 5, 6, 7, 8, 9, 10, 11, 12, 13, 14, 15, 16, 17, 18, 19, 20, 21, 22, 23, 24, 25,
     26, 27, 28, 29, 30, 31, 32, 33, 34, 35, 101, 102, 103, 104, 105, 106, 107, 108],
   [1, 2, 3, 4, 5, 6, 7, 8],
   [0, 1, 2, 3, 4, 5, 6, 7, 8, 9, 10, 11, 12, 13, 14, 15, 16, 17, 18, 19, 20, 21, 22, 23, 24, 25,
     26, 27, 28, 29, 30, 31, 32, 33, 34, 35, 36],
   [0, 1, 2, 3, 4, 5, 6, 7, 8, 9, 10, 11, 12, 13, 14, 15, 16, 17, 18, 19, 20, 21, 22, 23, 24, 25,
     26, 27, 28, 29, 30, 31, 32, 33, 34, 35, 36, 37, 38, 39, 40, 41, 42, 43, 44, 45, 46, 47, 48,
     49, 50, 51, 52, 53, 54, 55, 56, 57, 58, 59, 60, 61, 62, 63, 64, 65, 66, 67, 68, 69, 70, 71,
     72, 73, 74, 75, 76, 77, 78, 79, 80, 81, 82, 83, 84, 85, 86, 87, 88, 89, 90, 91, 92, 93, 94,
     95, 96, 97, 98, 99, 100, 101, 102, 103, 104, 105, 106, 107, 108, 109, 110, 141, 142, 143,
     144, 145, 146, 147, 148, 149, 150, 151, 152, 153, 154, 155, 156, 157, 158, 159, 160, 161,
     162, 163, 164, 165, 166, 167, 168, 169, 170, 171, 172, 173, 174, 175, 176, 177, 178, 179,
     180, 181, 182, 183, 184, 185, 186, 187, 201, 202, 203, 204],
   [1, 2, 3],
   [1, 2, 3, 4],
   [1],
   [1, 2, 3, 4, 5, 6, 7, 8, 9],
   [0, 1, 2, 3, 4, 5, 6, 7, 8, 9, 10, 11, 12, 13, 14, 15, 16, 17, 18, 19, 20, 21, 22, 23, 24, 25,
     26, 27, 28, 29, 30, 31, 32, 33, 34, 35, 36, 37, 38, 39, 40, 41, 42, 43, 44, 45, 46, 47, 48,
     49, 50, 51, 52, 53, 54, 55, 56, 57, 58, 59, 60, 61, 62, 63, 64, 65]]"

lemma core_instructions_ascending: "ascending (map id_opcode core_InstructionDesc)"
  by (simp add: InstructionDesc_defs InD_def)

lemma core_operand_values: "map od_value core_OperandsByValue = concat operand_values"
  by (simp add: OperandsByValue_defs OpD_def operand_values_def)

lemma core_ext_inst_values: "map ed_value core_ExtInstByValue = concat ext_inst_values"
  by (simp add: ExtInstByValue_defs ExD_def ext_inst_values_def)

section \<open>Spans of operand types\<close>

lemma length_spans:
  "length core_OperandSpans_0 = 32"
  "length core_OperandSpans_1 = 32"
  "length core_OperandSpans_2 = 32"
  "length core_OperandSpans_3 = 32"
  "length core_OperandSpans_4 = 32"
  "length core_OperandSpans_5 = 32"
  "length core_OperandSpans_6 = 32"
  "length core_OperandSpans_7 = 32"
  "length core_OperandSpans_8 = 32"
  "length core_OperandSpans_9 = 32"
  "length core_OperandSpans_10 = 32"
  "length core_OperandSpans_11 = 32"
  "length core_OperandSpans_12 = 32"
  "length core_OperandSpans_13 = 32"
  "length core_OperandSpans_14 = 32"
  "length core_OperandSpans_15 = 32"
  "length core_OperandSpans_16 = 32"
  "length core_OperandSpans_17 = 32"
  "length core_OperandSpans_18 = 32"
  "length core_OperandSpans_19 = 32"
  "length core_OperandSpans_20 = 32"
  "length core_OperandSpans_21 = 32"
  "length core_OperandSpans_22 = 32"
  "length core_OperandSpans_23 = 32"
  "length core_OperandSpans_24 = 32"
  "length core_OperandSpans_25 = 32"
  "length core_OperandSpans_26 = 32"
  "length core_OperandSpans_27 = 32"
  "length core_OperandSpans_28 = 32"
  "length core_OperandSpans_29 = 32"
  "length core_OperandSpans_30 = 32"
  "length core_OperandSpans_31 = 32"
  "length core_OperandSpans_32 = 32"
  by (simp_all add: core_OperandSpans_0_def core_OperandSpans_1_def core_OperandSpans_2_def
    core_OperandSpans_3_def core_OperandSpans_4_def core_OperandSpans_5_def
    core_OperandSpans_6_def core_OperandSpans_7_def core_OperandSpans_8_def
    core_OperandSpans_9_def core_OperandSpans_10_def core_OperandSpans_11_def
    core_OperandSpans_12_def core_OperandSpans_13_def core_OperandSpans_14_def
    core_OperandSpans_15_def core_OperandSpans_16_def core_OperandSpans_17_def
    core_OperandSpans_18_def core_OperandSpans_19_def core_OperandSpans_20_def
    core_OperandSpans_21_def core_OperandSpans_22_def core_OperandSpans_23_def
    core_OperandSpans_24_def core_OperandSpans_25_def core_OperandSpans_26_def
    core_OperandSpans_27_def core_OperandSpans_28_def core_OperandSpans_29_def
    core_OperandSpans_30_def core_OperandSpans_31_def core_OperandSpans_32_def)

lemma skip_spans:
  "32 \<le> n \<Longrightarrow> drop n (core_OperandSpans_0 @ r) = drop (n - 32) r"
  "32 \<le> n \<Longrightarrow> drop n (core_OperandSpans_1 @ r) = drop (n - 32) r"
  "32 \<le> n \<Longrightarrow> drop n (core_OperandSpans_2 @ r) = drop (n - 32) r"
  "32 \<le> n \<Longrightarrow> drop n (core_OperandSpans_3 @ r) = drop (n - 32) r"
  "32 \<le> n \<Longrightarrow> drop n (core_OperandSpans_4 @ r) = drop (n - 32) r"
  "32 \<le> n \<Longrightarrow> drop n (core_OperandSpans_5 @ r) = drop (n - 32) r"
  "32 \<le> n \<Longrightarrow> drop n (core_OperandSpans_6 @ r) = drop (n - 32) r"
  "32 \<le> n \<Longrightarrow> drop n (core_OperandSpans_7 @ r) = drop (n - 32) r"
  "32 \<le> n \<Longrightarrow> drop n (core_OperandSpans_8 @ r) = drop (n - 32) r"
  "32 \<le> n \<Longrightarrow> drop n (core_OperandSpans_9 @ r) = drop (n - 32) r"
  "32 \<le> n \<Longrightarrow> drop n (core_OperandSpans_10 @ r) = drop (n - 32) r"
  "32 \<le> n \<Longrightarrow> drop n (core_OperandSpans_11 @ r) = drop (n - 32) r"
  "32 \<le> n \<Longrightarrow> drop n (core_OperandSpans_12 @ r) = drop (n - 32) r"
  "32 \<le> n \<Longrightarrow> drop n (core_OperandSpans_13 @ r) = drop (n - 32) r"
  "32 \<le> n \<Longrightarrow> drop n (core_OperandSpans_14 @ r) = drop (n - 32) r"
  "32 \<le> n \<Longrightarrow> drop n (core_OperandSpans_15 @ r) = drop (n - 32) r"
  "32 \<le> n \<Longrightarrow> drop n (core_OperandSpans_16 @ r) = drop (n - 32) r"
  "32 \<le> n \<Longrightarrow> drop n (core_OperandSpans_17 @ r) = drop (n - 32) r"
  "32 \<le> n \<Longrightarrow> drop n (core_OperandSpans_18 @ r) = drop (n - 32) r"
  "32 \<le> n \<Longrightarrow> drop n (core_OperandSpans_19 @ r) = drop (n - 32) r"
  "32 \<le> n \<Longrightarrow> drop n (core_OperandSpans_20 @ r) = drop (n - 32) r"
  "32 \<le> n \<Longrightarrow> drop n (core_OperandSpans_21 @ r) = drop (n - 32) r"
  "32 \<le> n \<Longrightarrow> drop n (core_OperandSpans_22 @ r) = drop (n - 32) r"
  "32 \<le> n \<Longrightarrow> drop n (core_OperandSpans_23 @ r) = drop (n - 32) r"
  "32 \<le> n \<Longrightarrow> drop n (core_OperandSpans_24 @ r) = drop (n - 32) r"
  "32 \<le> n \<Longrightarrow> drop n (core_OperandSpans_25 @ r) = drop (n - 32) r"
  "32 \<le> n \<Longrightarrow> drop n (core_OperandSpans_26 @ r) = drop (n - 32) r"
  "32 \<le> n \<Longrightarrow> drop n (core_OperandSpans_27 @ r) = drop (n - 32) r"
  "32 \<le> n \<Longrightarrow> drop n (core_OperandSpans_28 @ r) = drop (n - 32) r"
  "32 \<le> n \<Longrightarrow> drop n (core_OperandSpans_29 @ r) = drop (n - 32) r"
  "32 \<le> n \<Longrightarrow> drop n (core_OperandSpans_30 @ r) = drop (n - 32) r"
  "32 \<le> n \<Longrightarrow> drop n (core_OperandSpans_31 @ r) = drop (n - 32) r"
  "32 \<le> n \<Longrightarrow> drop n (core_OperandSpans_32 @ r) = drop (n - 32) r"
  by (simp_all add: length_spans)

lemma stop_spans:
  "n < 32 \<Longrightarrow> drop n (core_OperandSpans_0 @ r) = drop n core_OperandSpans_0 @ r"
  "n < 32 \<Longrightarrow> drop n (core_OperandSpans_1 @ r) = drop n core_OperandSpans_1 @ r"
  "n < 32 \<Longrightarrow> drop n (core_OperandSpans_2 @ r) = drop n core_OperandSpans_2 @ r"
  "n < 32 \<Longrightarrow> drop n (core_OperandSpans_3 @ r) = drop n core_OperandSpans_3 @ r"
  "n < 32 \<Longrightarrow> drop n (core_OperandSpans_4 @ r) = drop n core_OperandSpans_4 @ r"
  "n < 32 \<Longrightarrow> drop n (core_OperandSpans_5 @ r) = drop n core_OperandSpans_5 @ r"
  "n < 32 \<Longrightarrow> drop n (core_OperandSpans_6 @ r) = drop n core_OperandSpans_6 @ r"
  "n < 32 \<Longrightarrow> drop n (core_OperandSpans_7 @ r) = drop n core_OperandSpans_7 @ r"
  "n < 32 \<Longrightarrow> drop n (core_OperandSpans_8 @ r) = drop n core_OperandSpans_8 @ r"
  "n < 32 \<Longrightarrow> drop n (core_OperandSpans_9 @ r) = drop n core_OperandSpans_9 @ r"
  "n < 32 \<Longrightarrow> drop n (core_OperandSpans_10 @ r) = drop n core_OperandSpans_10 @ r"
  "n < 32 \<Longrightarrow> drop n (core_OperandSpans_11 @ r) = drop n core_OperandSpans_11 @ r"
  "n < 32 \<Longrightarrow> drop n (core_OperandSpans_12 @ r) = drop n core_OperandSpans_12 @ r"
  "n < 32 \<Longrightarrow> drop n (core_OperandSpans_13 @ r) = drop n core_OperandSpans_13 @ r"
  "n < 32 \<Longrightarrow> drop n (core_OperandSpans_14 @ r) = drop n core_OperandSpans_14 @ r"
  "n < 32 \<Longrightarrow> drop n (core_OperandSpans_15 @ r) = drop n core_OperandSpans_15 @ r"
  "n < 32 \<Longrightarrow> drop n (core_OperandSpans_16 @ r) = drop n core_OperandSpans_16 @ r"
  "n < 32 \<Longrightarrow> drop n (core_OperandSpans_17 @ r) = drop n core_OperandSpans_17 @ r"
  "n < 32 \<Longrightarrow> drop n (core_OperandSpans_18 @ r) = drop n core_OperandSpans_18 @ r"
  "n < 32 \<Longrightarrow> drop n (core_OperandSpans_19 @ r) = drop n core_OperandSpans_19 @ r"
  "n < 32 \<Longrightarrow> drop n (core_OperandSpans_20 @ r) = drop n core_OperandSpans_20 @ r"
  "n < 32 \<Longrightarrow> drop n (core_OperandSpans_21 @ r) = drop n core_OperandSpans_21 @ r"
  "n < 32 \<Longrightarrow> drop n (core_OperandSpans_22 @ r) = drop n core_OperandSpans_22 @ r"
  "n < 32 \<Longrightarrow> drop n (core_OperandSpans_23 @ r) = drop n core_OperandSpans_23 @ r"
  "n < 32 \<Longrightarrow> drop n (core_OperandSpans_24 @ r) = drop n core_OperandSpans_24 @ r"
  "n < 32 \<Longrightarrow> drop n (core_OperandSpans_25 @ r) = drop n core_OperandSpans_25 @ r"
  "n < 32 \<Longrightarrow> drop n (core_OperandSpans_26 @ r) = drop n core_OperandSpans_26 @ r"
  "n < 32 \<Longrightarrow> drop n (core_OperandSpans_27 @ r) = drop n core_OperandSpans_27 @ r"
  "n < 32 \<Longrightarrow> drop n (core_OperandSpans_28 @ r) = drop n core_OperandSpans_28 @ r"
  "n < 32 \<Longrightarrow> drop n (core_OperandSpans_29 @ r) = drop n core_OperandSpans_29 @ r"
  "n < 32 \<Longrightarrow> drop n (core_OperandSpans_30 @ r) = drop n core_OperandSpans_30 @ r"
  "n < 32 \<Longrightarrow> drop n (core_OperandSpans_31 @ r) = drop n core_OperandSpans_31 @ r"
  "n < 32 \<Longrightarrow> drop n (core_OperandSpans_32 @ r) = drop n core_OperandSpans_32 @ r"
  by (simp_all add: length_spans)

lemmas drop_spans =
  core_OperandSpans_0_def [THEN arg_cong [where f = "drop n"]]
  core_OperandSpans_1_def [THEN arg_cong [where f = "drop n"]]
  core_OperandSpans_2_def [THEN arg_cong [where f = "drop n"]]
  core_OperandSpans_3_def [THEN arg_cong [where f = "drop n"]]
  core_OperandSpans_4_def [THEN arg_cong [where f = "drop n"]]
  core_OperandSpans_5_def [THEN arg_cong [where f = "drop n"]]
  core_OperandSpans_6_def [THEN arg_cong [where f = "drop n"]]
  core_OperandSpans_7_def [THEN arg_cong [where f = "drop n"]]
  core_OperandSpans_8_def [THEN arg_cong [where f = "drop n"]]
  core_OperandSpans_9_def [THEN arg_cong [where f = "drop n"]]
  core_OperandSpans_10_def [THEN arg_cong [where f = "drop n"]]
  core_OperandSpans_11_def [THEN arg_cong [where f = "drop n"]]
  core_OperandSpans_12_def [THEN arg_cong [where f = "drop n"]]
  core_OperandSpans_13_def [THEN arg_cong [where f = "drop n"]]
  core_OperandSpans_14_def [THEN arg_cong [where f = "drop n"]]
  core_OperandSpans_15_def [THEN arg_cong [where f = "drop n"]]
  core_OperandSpans_16_def [THEN arg_cong [where f = "drop n"]]
  core_OperandSpans_17_def [THEN arg_cong [where f = "drop n"]]
  core_OperandSpans_18_def [THEN arg_cong [where f = "drop n"]]
  core_OperandSpans_19_def [THEN arg_cong [where f = "drop n"]]
  core_OperandSpans_20_def [THEN arg_cong [where f = "drop n"]]
  core_OperandSpans_21_def [THEN arg_cong [where f = "drop n"]]
  core_OperandSpans_22_def [THEN arg_cong [where f = "drop n"]]
  core_OperandSpans_23_def [THEN arg_cong [where f = "drop n"]]
  core_OperandSpans_24_def [THEN arg_cong [where f = "drop n"]]
  core_OperandSpans_25_def [THEN arg_cong [where f = "drop n"]]
  core_OperandSpans_26_def [THEN arg_cong [where f = "drop n"]]
  core_OperandSpans_27_def [THEN arg_cong [where f = "drop n"]]
  core_OperandSpans_28_def [THEN arg_cong [where f = "drop n"]]
  core_OperandSpans_29_def [THEN arg_cong [where f = "drop n"]]
  core_OperandSpans_30_def [THEN arg_cong [where f = "drop n"]]
  core_OperandSpans_31_def [THEN arg_cong [where f = "drop n"]]
  core_OperandSpans_32_def [THEN arg_cong [where f = "drop n"]]
  core_OperandSpans_33_def [THEN arg_cong [where f = "drop n"]]
  for n

lemmas take_spans =
  core_OperandSpans_0_def [THEN arg_cong [where f = "take n"]]
  core_OperandSpans_1_def [THEN arg_cong [where f = "take n"]]
  core_OperandSpans_2_def [THEN arg_cong [where f = "take n"]]
  core_OperandSpans_3_def [THEN arg_cong [where f = "take n"]]
  core_OperandSpans_4_def [THEN arg_cong [where f = "take n"]]
  core_OperandSpans_5_def [THEN arg_cong [where f = "take n"]]
  core_OperandSpans_6_def [THEN arg_cong [where f = "take n"]]
  core_OperandSpans_7_def [THEN arg_cong [where f = "take n"]]
  core_OperandSpans_8_def [THEN arg_cong [where f = "take n"]]
  core_OperandSpans_9_def [THEN arg_cong [where f = "take n"]]
  core_OperandSpans_10_def [THEN arg_cong [where f = "take n"]]
  core_OperandSpans_11_def [THEN arg_cong [where f = "take n"]]
  core_OperandSpans_12_def [THEN arg_cong [where f = "take n"]]
  core_OperandSpans_13_def [THEN arg_cong [where f = "take n"]]
  core_OperandSpans_14_def [THEN arg_cong [where f = "take n"]]
  core_OperandSpans_15_def [THEN arg_cong [where f = "take n"]]
  core_OperandSpans_16_def [THEN arg_cong [where f = "take n"]]
  core_OperandSpans_17_def [THEN arg_cong [where f = "take n"]]
  core_OperandSpans_18_def [THEN arg_cong [where f = "take n"]]
  core_OperandSpans_19_def [THEN arg_cong [where f = "take n"]]
  core_OperandSpans_20_def [THEN arg_cong [where f = "take n"]]
  core_OperandSpans_21_def [THEN arg_cong [where f = "take n"]]
  core_OperandSpans_22_def [THEN arg_cong [where f = "take n"]]
  core_OperandSpans_23_def [THEN arg_cong [where f = "take n"]]
  core_OperandSpans_24_def [THEN arg_cong [where f = "take n"]]
  core_OperandSpans_25_def [THEN arg_cong [where f = "take n"]]
  core_OperandSpans_26_def [THEN arg_cong [where f = "take n"]]
  core_OperandSpans_27_def [THEN arg_cong [where f = "take n"]]
  core_OperandSpans_28_def [THEN arg_cong [where f = "take n"]]
  core_OperandSpans_29_def [THEN arg_cong [where f = "take n"]]
  core_OperandSpans_30_def [THEN arg_cong [where f = "take n"]]
  core_OperandSpans_31_def [THEN arg_cong [where f = "take n"]]
  core_OperandSpans_32_def [THEN arg_cong [where f = "take n"]]
  core_OperandSpans_33_def [THEN arg_cong [where f = "take n"]]
  for n

lemma core_spans_0:
   "ir_apply (IR 0 0) core_OperandSpans = []"
   "ir_apply (IR 0 1) core_OperandSpans = [SPV_OPERAND_TYPE_LITERAL_INTEGER]"
   "ir_apply (IR 10 1) core_OperandSpans = [SPV_OPERAND_TYPE_ID]"
   "ir_apply (IR 11 1) core_OperandSpans = [SPV_OPERAND_TYPE_LITERAL_STRING]"
   "ir_apply (IR 18 1) core_OperandSpans = [SPV_OPERAND_TYPE_VARIABLE_LITERAL_INTEGER]"
   "ir_apply (IR 28 1) core_OperandSpans = [SPV_OPERAND_TYPE_INITIALIZATION_MODE_QUALIFIER]"
   "ir_apply (IR 33 3) core_OperandSpans = [SPV_OPERAND_TYPE_ID, SPV_OPERAND_TYPE_ID,
    SPV_OPERAND_TYPE_ID]"
   "ir_apply (IR 36 2) core_OperandSpans = [SPV_OPERAND_TYPE_ID, SPV_OPERAND_TYPE_ID]"
   "ir_apply (IR 39 2) core_OperandSpans = [SPV_OPERAND_TYPE_TYPE_ID,
    SPV_OPERAND_TYPE_RESULT_ID]"
   "ir_apply (IR 41 4) core_OperandSpans = [SPV_OPERAND_TYPE_SOURCE_LANGUAGE,
    SPV_OPERAND_TYPE_LITERAL_INTEGER, SPV_OPERAND_TYPE_OPTIONAL_ID,
    SPV_OPERAND_TYPE_OPTIONAL_LITERAL_STRING]"
   "ir_apply (IR 45 2) core_OperandSpans = [SPV_OPERAND_TYPE_ID,
    SPV_OPERAND_TYPE_LITERAL_STRING]"
   "ir_apply (IR 47 3) core_OperandSpans = [SPV_OPERAND_TYPE_ID,
    SPV_OPERAND_TYPE_LITERAL_INTEGER, SPV_OPERAND_TYPE_LITERAL_STRING]"
   "ir_apply (IR 50 2) core_OperandSpans = [SPV_OPERAND_TYPE_RESULT_ID,
    SPV_OPERAND_TYPE_LITERAL_STRING]"
   "ir_apply (IR 52 3) core_OperandSpans = [SPV_OPERAND_TYPE_ID,
    SPV_OPERAND_TYPE_LITERAL_INTEGER, SPV_OPERAND_TYPE_LITERAL_INTEGER]"
   "ir_apply (IR 55 4) core_OperandSpans = [SPV_OPERAND_TYPE_TYPE_ID, SPV_OPERAND_TYPE_RESULT_ID,
    SPV_OPERAND_TYPE_ID, SPV_OPERAND_TYPE_EXTENSION_INSTRUCTION_NUMBER]"
   "ir_apply (IR 59 2) core_OperandSpans = [SPV_OPERAND_TYPE_ADDRESSING_MODEL,
    SPV_OPERAND_TYPE_MEMORY_MODEL]"
   "ir_apply (IR 61 4) core_OperandSpans = [SPV_OPERAND_TYPE_EXECUTION_MODEL,
    SPV_OPERAND_TYPE_ID, SPV_OPERAND_TYPE_LITERAL_STRING, SPV_OPERAND_TYPE_VARIABLE_ID]"
   "ir_apply (IR 65 2) core_OperandSpans = [SPV_OPERAND_TYPE_ID,
    SPV_OPERAND_TYPE_EXECUTION_MODE]"
   "ir_apply (IR 67 1) core_OperandSpans = [SPV_OPERAND_TYPE_CAPABILITY]"
   "ir_apply (IR 68 1) core_OperandSpans = [SPV_OPERAND_TYPE_RESULT_ID]"
   "ir_apply (IR 69 3) core_OperandSpans = [SPV_OPERAND_TYPE_RESULT_ID,
    SPV_OPERAND_TYPE_LITERAL_INTEGER, SPV_OPERAND_TYPE_LITERAL_INTEGER]"
   "ir_apply (IR 72 3) core_OperandSpans = [SPV_OPERAND_TYPE_RESULT_ID,
    SPV_OPERAND_TYPE_LITERAL_INTEGER, SPV_OPERAND_TYPE_OPTIONAL_FPENCODING]"
   "ir_apply (IR 75 3) core_OperandSpans = [SPV_OPERAND_TYPE_RESULT_ID, SPV_OPERAND_TYPE_ID,
    SPV_OPERAND_TYPE_LITERAL_INTEGER]"
   "ir_apply (IR 78 9) core_OperandSpans = [SPV_OPERAND_TYPE_RESULT_ID, SPV_OPERAND_TYPE_ID,
    SPV_OPERAND_TYPE_DIMENSIONALITY, SPV_OPERAND_TYPE_LITERAL_INTEGER,
    SPV_OPERAND_TYPE_LITERAL_INTEGER, SPV_OPERAND_TYPE_LITERAL_INTEGER,
    SPV_OPERAND_TYPE_LITERAL_INTEGER, SPV_OPERAND_TYPE_SAMPLER_IMAGE_FORMAT,
    SPV_OPERAND_TYPE_OPTIONAL_ACCESS_QUALIFIER]"
   "ir_apply (IR 87 2) core_OperandSpans = [SPV_OPERAND_TYPE_RESULT_ID, SPV_OPERAND_TYPE_ID]"
   "ir_apply (IR 89 3) core_OperandSpans = [SPV_OPERAND_TYPE_RESULT_ID, SPV_OPERAND_TYPE_ID,
    SPV_OPERAND_TYPE_ID]"
   "ir_apply (IR 92 2) core_OperandSpans = [SPV_OPERAND_TYPE_RESULT_ID,
    SPV_OPERAND_TYPE_VARIABLE_ID]"
   "ir_apply (IR 94 3) core_OperandSpans = [SPV_OPERAND_TYPE_RESULT_ID,
    SPV_OPERAND_TYPE_STORAGE_CLASS, SPV_OPERAND_TYPE_ID]"
   "ir_apply (IR 97 3) core_OperandSpans = [SPV_OPERAND_TYPE_RESULT_ID, SPV_OPERAND_TYPE_ID,
    SPV_OPERAND_TYPE_VARIABLE_ID]"
   "ir_apply (IR 100 2) core_OperandSpans = [SPV_OPERAND_TYPE_RESULT_ID,
    SPV_OPERAND_TYPE_ACCESS_QUALIFIER]"
   "ir_apply (IR 102 2) core_OperandSpans = [SPV_OPERAND_TYPE_ID,
    SPV_OPERAND_TYPE_STORAGE_CLASS]"
   "ir_apply (IR 104 3) core_OperandSpans = [SPV_OPERAND_TYPE_TYPE_ID,
    SPV_OPERAND_TYPE_RESULT_ID, SPV_OPERAND_TYPE_TYPED_LITERAL_NUMBER]"
   "ir_apply (IR 107 3) core_OperandSpans = [SPV_OPERAND_TYPE_TYPE_ID,
    SPV_OPERAND_TYPE_RESULT_ID, SPV_OPERAND_TYPE_VARIABLE_ID]"
   "ir_apply (IR 110 5) core_OperandSpans = [SPV_OPERAND_TYPE_TYPE_ID,
    SPV_OPERAND_TYPE_RESULT_ID, SPV_OPERAND_TYPE_SAMPLER_ADDRESSING_MODE,
    SPV_OPERAND_TYPE_LITERAL_INTEGER, SPV_OPERAND_TYPE_SAMPLER_FILTER_MODE]"
   "ir_apply (IR 115 3) core_OperandSpans = [SPV_OPERAND_TYPE_TYPE_ID,
    SPV_OPERAND_TYPE_RESULT_ID, SPV_OPERAND_TYPE_SPEC_CONSTANT_OP_NUMBER]"
   "ir_apply (IR 118 4) core_OperandSpans = [SPV_OPERAND_TYPE_TYPE_ID,
    SPV_OPERAND_TYPE_RESULT_ID, SPV_OPERAND_TYPE_FUNCTION_CONTROL, SPV_OPERAND_TYPE_ID]"
   "ir_apply (IR 122 4) core_OperandSpans = [SPV_OPERAND_TYPE_TYPE_ID,
    SPV_OPERAND_TYPE_RESULT_ID, SPV_OPERAND_TYPE_ID, SPV_OPERAND_TYPE_VARIABLE_ID]"
   "ir_apply (IR 126 4) core_OperandSpans = [SPV_OPERAND_TYPE_TYPE_ID,
    SPV_OPERAND_TYPE_RESULT_ID, SPV_OPERAND_TYPE_STORAGE_CLASS, SPV_OPERAND_TYPE_OPTIONAL_ID]"
   "ir_apply (IR 130 5) core_OperandSpans = [SPV_OPERAND_TYPE_TYPE_ID,
    SPV_OPERAND_TYPE_RESULT_ID, SPV_OPERAND_TYPE_ID, SPV_OPERAND_TYPE_ID, SPV_OPERAND_TYPE_ID]"
   "ir_apply (IR 135 4) core_OperandSpans = [SPV_OPERAND_TYPE_TYPE_ID,
    SPV_OPERAND_TYPE_RESULT_ID, SPV_OPERAND_TYPE_ID, SPV_OPERAND_TYPE_OPTIONAL_MEMORY_ACCESS]"
  by (simp_all add: ir_apply_def IR_def core_OperandSpans_def skip_spans stop_spans
    length_spans drop_spans take_spans del: drop_append)

lemma core_spans_1:
   "ir_apply (IR 139 3) core_OperandSpans = [SPV_OPERAND_TYPE_ID, SPV_OPERAND_TYPE_ID,
    SPV_OPERAND_TYPE_OPTIONAL_MEMORY_ACCESS]"
   "ir_apply (IR 142 4) core_OperandSpans = [SPV_OPERAND_TYPE_ID, SPV_OPERAND_TYPE_ID,
    SPV_OPERAND_TYPE_OPTIONAL_MEMORY_ACCESS, SPV_OPERAND_TYPE_OPTIONAL_MEMORY_ACCESS]"
   "ir_apply (IR 146 5) core_OperandSpans = [SPV_OPERAND_TYPE_ID, SPV_OPERAND_TYPE_ID,
    SPV_OPERAND_TYPE_ID, SPV_OPERAND_TYPE_OPTIONAL_MEMORY_ACCESS,
    SPV_OPERAND_TYPE_OPTIONAL_MEMORY_ACCESS]"
   "ir_apply (IR 151 5) core_OperandSpans = [SPV_OPERAND_TYPE_TYPE_ID,
    SPV_OPERAND_TYPE_RESULT_ID, SPV_OPERAND_TYPE_ID, SPV_OPERAND_TYPE_ID,
    SPV_OPERAND_TYPE_VARIABLE_ID]"
   "ir_apply (IR 156 4) core_OperandSpans = [SPV_OPERAND_TYPE_TYPE_ID,
    SPV_OPERAND_TYPE_RESULT_ID, SPV_OPERAND_TYPE_ID, SPV_OPERAND_TYPE_LITERAL_INTEGER]"
   "ir_apply (IR 160 3) core_OperandSpans = [SPV_OPERAND_TYPE_TYPE_ID,
    SPV_OPERAND_TYPE_RESULT_ID, SPV_OPERAND_TYPE_ID]"
   "ir_apply (IR 163 2) core_OperandSpans = [SPV_OPERAND_TYPE_ID, SPV_OPERAND_TYPE_DECORATION]"
   "ir_apply (IR 165 3) core_OperandSpans = [SPV_OPERAND_TYPE_ID,
    SPV_OPERAND_TYPE_LITERAL_INTEGER, SPV_OPERAND_TYPE_DECORATION]"
   "ir_apply (IR 168 2) core_OperandSpans = [SPV_OPERAND_TYPE_ID, SPV_OPERAND_TYPE_VARIABLE_ID]"
   "ir_apply (IR 170 2) core_OperandSpans = [SPV_OPERAND_TYPE_ID,
    SPV_OPERAND_TYPE_VARIABLE_ID_LITERAL_INTEGER]"
   "ir_apply (IR 172 4) core_OperandSpans = [SPV_OPERAND_TYPE_TYPE_ID,
    SPV_OPERAND_TYPE_RESULT_ID, SPV_OPERAND_TYPE_ID, SPV_OPERAND_TYPE_ID]"
   "ir_apply (IR 176 5) core_OperandSpans = [SPV_OPERAND_TYPE_TYPE_ID,
    SPV_OPERAND_TYPE_RESULT_ID, SPV_OPERAND_TYPE_ID, SPV_OPERAND_TYPE_ID,
    SPV_OPERAND_TYPE_VARIABLE_LITERAL_INTEGER]"
   "ir_apply (IR 181 4) core_OperandSpans = [SPV_OPERAND_TYPE_TYPE_ID,
    SPV_OPERAND_TYPE_RESULT_ID, SPV_OPERAND_TYPE_ID, SPV_OPERAND_TYPE_VARIABLE_LITERAL_INTEGER]"
   "ir_apply (IR 185 5) core_OperandSpans = [SPV_OPERAND_TYPE_TYPE_ID,
    SPV_OPERAND_TYPE_RESULT_ID, SPV_OPERAND_TYPE_ID, SPV_OPERAND_TYPE_ID,
    SPV_OPERAND_TYPE_OPTIONAL_IMAGE]"
   "ir_apply (IR 190 5) core_OperandSpans = [SPV_OPERAND_TYPE_TYPE_ID,
    SPV_OPERAND_TYPE_RESULT_ID, SPV_OPERAND_TYPE_ID, SPV_OPERAND_TYPE_ID, SPV_OPERAND_TYPE_IMAGE]"
   "ir_apply (IR 195 6) core_OperandSpans = [SPV_OPERAND_TYPE_TYPE_ID,
    SPV_OPERAND_TYPE_RESULT_ID, SPV_OPERAND_TYPE_ID, SPV_OPERAND_TYPE_ID, SPV_OPERAND_TYPE_ID,
    SPV_OPERAND_TYPE_OPTIONAL_IMAGE]"
   "ir_apply (IR 201 6) core_OperandSpans = [SPV_OPERAND_TYPE_TYPE_ID,
    SPV_OPERAND_TYPE_RESULT_ID, SPV_OPERAND_TYPE_ID, SPV_OPERAND_TYPE_ID, SPV_OPERAND_TYPE_ID,
    SPV_OPERAND_TYPE_IMAGE]"
   "ir_apply (IR 207 4) core_OperandSpans = [SPV_OPERAND_TYPE_ID, SPV_OPERAND_TYPE_ID,
    SPV_OPERAND_TYPE_ID, SPV_OPERAND_TYPE_OPTIONAL_IMAGE]"
   "ir_apply (IR 211 4) core_OperandSpans = [SPV_OPERAND_TYPE_TYPE_ID,
    SPV_OPERAND_TYPE_RESULT_ID, SPV_OPERAND_TYPE_ID, SPV_OPERAND_TYPE_STORAGE_CLASS]"
   "ir_apply (IR 215 6) core_OperandSpans = [SPV_OPERAND_TYPE_TYPE_ID,
    SPV_OPERAND_TYPE_RESULT_ID, SPV_OPERAND_TYPE_ID, SPV_OPERAND_TYPE_ID, SPV_OPERAND_TYPE_ID,
    SPV_OPERAND_TYPE_ID]"
   "ir_apply (IR 221 3) core_OperandSpans = [SPV_OPERAND_TYPE_SCOPE_ID,
    SPV_OPERAND_TYPE_SCOPE_ID, SPV_OPERAND_TYPE_MEMORY_SEMANTICS_ID]"
   "ir_apply (IR 224 2) core_OperandSpans = [SPV_OPERAND_TYPE_SCOPE_ID,
    SPV_OPERAND_TYPE_MEMORY_SEMANTICS_ID]"
   "ir_apply (IR 226 5) core_OperandSpans = [SPV_OPERAND_TYPE_TYPE_ID,
    SPV_OPERAND_TYPE_RESULT_ID, SPV_OPERAND_TYPE_ID, SPV_OPERAND_TYPE_SCOPE_ID,
    SPV_OPERAND_TYPE_MEMORY_SEMANTICS_ID]"
   "ir_apply (IR 231 4) core_OperandSpans = [SPV_OPERAND_TYPE_ID, SPV_OPERAND_TYPE_SCOPE_ID,
    SPV_OPERAND_TYPE_MEMORY_SEMANTICS_ID, SPV_OPERAND_TYPE_ID]"
   "ir_apply (IR 235 6) core_OperandSpans = [SPV_OPERAND_TYPE_TYPE_ID,
    SPV_OPERAND_TYPE_RESULT_ID, SPV_OPERAND_TYPE_ID, SPV_OPERAND_TYPE_SCOPE_ID,
    SPV_OPERAND_TYPE_MEMORY_SEMANTICS_ID, SPV_OPERAND_TYPE_ID]"
   "ir_apply (IR 241 8) core_OperandSpans = [SPV_OPERAND_TYPE_TYPE_ID,
    SPV_OPERAND_TYPE_RESULT_ID, SPV_OPERAND_TYPE_ID, SPV_OPERAND_TYPE_SCOPE_ID,
    SPV_OPERAND_TYPE_MEMORY_SEMANTICS_ID, SPV_OPERAND_TYPE_MEMORY_SEMANTICS_ID,
    SPV_OPERAND_TYPE_ID, SPV_OPERAND_TYPE_ID]"
   "ir_apply (IR 249 3) core_OperandSpans = [SPV_OPERAND_TYPE_ID, SPV_OPERAND_TYPE_ID,
    SPV_OPERAND_TYPE_LOOP_CONTROL]"
   "ir_apply (IR 252 2) core_OperandSpans = [SPV_OPERAND_TYPE_ID,
    SPV_OPERAND_TYPE_SELECTION_CONTROL]"
   "ir_apply (IR 254 4) core_OperandSpans = [SPV_OPERAND_TYPE_ID, SPV_OPERAND_TYPE_ID,
    SPV_OPERAND_TYPE_ID, SPV_OPERAND_TYPE_VARIABLE_LITERAL_INTEGER]"
   "ir_apply (IR 258 3) core_OperandSpans = [SPV_OPERAND_TYPE_ID, SPV_OPERAND_TYPE_ID,
    SPV_OPERAND_TYPE_VARIABLE_LITERAL_INTEGER_ID]"
   "ir_apply (IR 261 2) core_OperandSpans = [SPV_OPERAND_TYPE_ID,
    SPV_OPERAND_TYPE_LITERAL_INTEGER]"
   "ir_apply (IR 263 8) core_OperandSpans = [SPV_OPERAND_TYPE_TYPE_ID,
    SPV_OPERAND_TYPE_RESULT_ID, SPV_OPERAND_TYPE_SCOPE_ID, SPV_OPERAND_TYPE_ID,
    SPV_OPERAND_TYPE_ID, SPV_OPERAND_TYPE_ID, SPV_OPERAND_TYPE_ID, SPV_OPERAND_TYPE_ID]"
   "ir_apply (IR 271 3) core_OperandSpans = [SPV_OPERAND_TYPE_SCOPE_ID, SPV_OPERAND_TYPE_ID,
    SPV_OPERAND_TYPE_ID]"
   "ir_apply (IR 274 4) core_OperandSpans = [SPV_OPERAND_TYPE_TYPE_ID,
    SPV_OPERAND_TYPE_RESULT_ID, SPV_OPERAND_TYPE_SCOPE_ID, SPV_OPERAND_TYPE_ID]"
   "ir_apply (IR 278 5) core_OperandSpans = [SPV_OPERAND_TYPE_TYPE_ID,
    SPV_OPERAND_TYPE_RESULT_ID, SPV_OPERAND_TYPE_SCOPE_ID, SPV_OPERAND_TYPE_ID,
    SPV_OPERAND_TYPE_ID]"
   "ir_apply (IR 283 5) core_OperandSpans = [SPV_OPERAND_TYPE_TYPE_ID,
    SPV_OPERAND_TYPE_RESULT_ID, SPV_OPERAND_TYPE_SCOPE_ID, SPV_OPERAND_TYPE_GROUP_OPERATION,
    SPV_OPERAND_TYPE_ID]"
   "ir_apply (IR 288 8) core_OperandSpans = [SPV_OPERAND_TYPE_TYPE_ID,
    SPV_OPERAND_TYPE_RESULT_ID, SPV_OPERAND_TYPE_ID, SPV_OPERAND_TYPE_ID, SPV_OPERAND_TYPE_ID,
    SPV_OPERAND_TYPE_ID, SPV_OPERAND_TYPE_ID, SPV_OPERAND_TYPE_ID]"
   "ir_apply (IR 296 4) core_OperandSpans = [SPV_OPERAND_TYPE_ID, SPV_OPERAND_TYPE_ID,
    SPV_OPERAND_TYPE_ID, SPV_OPERAND_TYPE_ID]"
   "ir_apply (IR 300 7) core_OperandSpans = [SPV_OPERAND_TYPE_TYPE_ID,
    SPV_OPERAND_TYPE_RESULT_ID, SPV_OPERAND_TYPE_SCOPE_ID, SPV_OPERAND_TYPE_ID,
    SPV_OPERAND_TYPE_ID, SPV_OPERAND_TYPE_ID, SPV_OPERAND_TYPE_ID]"
   "ir_apply (IR 307 5) core_OperandSpans = [SPV_OPERAND_TYPE_SCOPE_ID, SPV_OPERAND_TYPE_ID,
    SPV_OPERAND_TYPE_ID, SPV_OPERAND_TYPE_ID, SPV_OPERAND_TYPE_ID]"
  by (simp_all add: ir_apply_def IR_def core_OperandSpans_def skip_spans stop_spans
    length_spans drop_spans take_spans del: drop_append)

lemma core_spans_2:
   "ir_apply (IR 312 13) core_OperandSpans = [SPV_OPERAND_TYPE_TYPE_ID,
    SPV_OPERAND_TYPE_RESULT_ID, SPV_OPERAND_TYPE_ID, SPV_OPERAND_TYPE_ID, SPV_OPERAND_TYPE_ID,
    SPV_OPERAND_TYPE_ID, SPV_OPERAND_TYPE_ID, SPV_OPERAND_TYPE_ID, SPV_OPERAND_TYPE_ID,
    SPV_OPERAND_TYPE_ID, SPV_OPERAND_TYPE_ID, SPV_OPERAND_TYPE_ID, SPV_OPERAND_TYPE_VARIABLE_ID]"
   "ir_apply (IR 325 7) core_OperandSpans = [SPV_OPERAND_TYPE_TYPE_ID,
    SPV_OPERAND_TYPE_RESULT_ID, SPV_OPERAND_TYPE_ID, SPV_OPERAND_TYPE_ID, SPV_OPERAND_TYPE_ID,
    SPV_OPERAND_TYPE_ID, SPV_OPERAND_TYPE_ID]"
   "ir_apply (IR 332 3) core_OperandSpans = [SPV_OPERAND_TYPE_ID, SPV_OPERAND_TYPE_SCOPE_ID,
    SPV_OPERAND_TYPE_MEMORY_SEMANTICS_ID]"
   "ir_apply (IR 335 5) core_OperandSpans = [SPV_OPERAND_TYPE_TYPE_ID,
    SPV_OPERAND_TYPE_RESULT_ID, SPV_OPERAND_TYPE_LITERAL_INTEGER,
    SPV_OPERAND_TYPE_LITERAL_INTEGER, SPV_OPERAND_TYPE_LITERAL_INTEGER]"
   "ir_apply (IR 340 3) core_OperandSpans = [SPV_OPERAND_TYPE_TYPE_ID,
    SPV_OPERAND_TYPE_RESULT_ID, SPV_OPERAND_TYPE_SCOPE_ID]"
   "ir_apply (IR 343 6) core_OperandSpans = [SPV_OPERAND_TYPE_TYPE_ID,
    SPV_OPERAND_TYPE_RESULT_ID, SPV_OPERAND_TYPE_SCOPE_ID, SPV_OPERAND_TYPE_GROUP_OPERATION,
    SPV_OPERAND_TYPE_ID, SPV_OPERAND_TYPE_OPTIONAL_ID]"
   "ir_apply (IR 349 4) core_OperandSpans = [SPV_OPERAND_TYPE_TYPE_ID,
    SPV_OPERAND_TYPE_RESULT_ID, SPV_OPERAND_TYPE_ID, SPV_OPERAND_TYPE_OPTIONAL_ID]"
   "ir_apply (IR 353 3) core_OperandSpans = [SPV_OPERAND_TYPE_TYPE_ID,
    SPV_OPERAND_TYPE_RESULT_ID, SPV_OPERAND_TYPE_OPTIONAL_ID]"
   "ir_apply (IR 356 4) core_OperandSpans = [SPV_OPERAND_TYPE_RESULT_ID, SPV_OPERAND_TYPE_ID,
    SPV_OPERAND_TYPE_OPTIONAL_ID, SPV_OPERAND_TYPE_OPTIONAL_ID]"
   "ir_apply (IR 360 5) core_OperandSpans = [SPV_OPERAND_TYPE_TYPE_ID,
    SPV_OPERAND_TYPE_RESULT_ID, SPV_OPERAND_TYPE_ID, SPV_OPERAND_TYPE_ID,
    SPV_OPERAND_TYPE_OPTIONAL_TENSOR_OPERANDS]"
   "ir_apply (IR 365 4) core_OperandSpans = [SPV_OPERAND_TYPE_ID, SPV_OPERAND_TYPE_ID,
    SPV_OPERAND_TYPE_ID, SPV_OPERAND_TYPE_OPTIONAL_TENSOR_OPERANDS]"
   "ir_apply (IR 369 3) core_OperandSpans = [SPV_OPERAND_TYPE_TYPE_ID,
    SPV_OPERAND_TYPE_RESULT_ID, SPV_OPERAND_TYPE_LITERAL_INTEGER]"
   "ir_apply (IR 372 3) core_OperandSpans = [SPV_OPERAND_TYPE_ID,
    SPV_OPERAND_TYPE_LITERAL_STRING, SPV_OPERAND_TYPE_VARIABLE_ID]"
   "ir_apply (IR 375 3) core_OperandSpans = [SPV_OPERAND_TYPE_ID, SPV_OPERAND_TYPE_ID,
    SPV_OPERAND_TYPE_VARIABLE_ID]"
   "ir_apply (IR 378 3) core_OperandSpans = [SPV_OPERAND_TYPE_RESULT_ID,
    SPV_OPERAND_TYPE_LITERAL_INTEGER, SPV_OPERAND_TYPE_VARIABLE_ID]"
   "ir_apply (IR 381 2) core_OperandSpans = [SPV_OPERAND_TYPE_RESULT_ID,
    SPV_OPERAND_TYPE_STORAGE_CLASS]"
   "ir_apply (IR 383 5) core_OperandSpans = [SPV_OPERAND_TYPE_TYPE_ID,
    SPV_OPERAND_TYPE_RESULT_ID, SPV_OPERAND_TYPE_STORAGE_CLASS, SPV_OPERAND_TYPE_OPTIONAL_ID,
    SPV_OPERAND_TYPE_OPTIONAL_ID]"
   "ir_apply (IR 388 6) core_OperandSpans = [SPV_OPERAND_TYPE_TYPE_ID,
    SPV_OPERAND_TYPE_RESULT_ID, SPV_OPERAND_TYPE_ID, SPV_OPERAND_TYPE_ID, SPV_OPERAND_TYPE_ID,
    SPV_OPERAND_TYPE_VARIABLE_ID]"
   "ir_apply (IR 394 5) core_OperandSpans = [SPV_OPERAND_TYPE_TYPE_ID,
    SPV_OPERAND_TYPE_RESULT_ID, SPV_OPERAND_TYPE_ID, SPV_OPERAND_TYPE_ID,
    SPV_OPERAND_TYPE_LITERAL_INTEGER]"
   "ir_apply (IR 399 5) core_OperandSpans = [SPV_OPERAND_TYPE_ID, SPV_OPERAND_TYPE_ID,
    SPV_OPERAND_TYPE_OPTIONAL_ID, SPV_OPERAND_TYPE_OPTIONAL_ID, SPV_OPERAND_TYPE_OPTIONAL_ID]"
   "ir_apply (IR 404 6) core_OperandSpans = [SPV_OPERAND_TYPE_TYPE_ID,
    SPV_OPERAND_TYPE_RESULT_ID, SPV_OPERAND_TYPE_SCOPE_ID, SPV_OPERAND_TYPE_ID,
    SPV_OPERAND_TYPE_ID, SPV_OPERAND_TYPE_OPTIONAL_ID]"
   "ir_apply (IR 410 5) core_OperandSpans = [SPV_OPERAND_TYPE_TYPE_ID,
    SPV_OPERAND_TYPE_RESULT_ID, SPV_OPERAND_TYPE_ID,
    SPV_OPERAND_TYPE_EXTENSION_INSTRUCTION_NUMBER, SPV_OPERAND_TYPE_VARIABLE_ID]"
   "ir_apply (IR 415 11) core_OperandSpans = [SPV_OPERAND_TYPE_ID, SPV_OPERAND_TYPE_ID,
    SPV_OPERAND_TYPE_ID, SPV_OPERAND_TYPE_ID, SPV_OPERAND_TYPE_ID, SPV_OPERAND_TYPE_ID,
    SPV_OPERAND_TYPE_ID, SPV_OPERAND_TYPE_ID, SPV_OPERAND_TYPE_ID, SPV_OPERAND_TYPE_ID,
    SPV_OPERAND_TYPE_ID]"
   "ir_apply (IR 426 5) core_OperandSpans = [SPV_OPERAND_TYPE_TYPE_ID,
    SPV_OPERAND_TYPE_RESULT_ID, SPV_OPERAND_TYPE_ID, SPV_OPERAND_TYPE_ID,
    SPV_OPERAND_TYPE_OPTIONAL_PACKED_VECTOR_FORMAT]"
   "ir_apply (IR 431 6) core_OperandSpans = [SPV_OPERAND_TYPE_TYPE_ID,
    SPV_OPERAND_TYPE_RESULT_ID, SPV_OPERAND_TYPE_ID, SPV_OPERAND_TYPE_ID, SPV_OPERAND_TYPE_ID,
    SPV_OPERAND_TYPE_OPTIONAL_PACKED_VECTOR_FORMAT]"
   "ir_apply (IR 437 6) core_OperandSpans = [SPV_OPERAND_TYPE_RESULT_ID, SPV_OPERAND_TYPE_ID,
    SPV_OPERAND_TYPE_SCOPE_ID, SPV_OPERAND_TYPE_ID, SPV_OPERAND_TYPE_ID, SPV_OPERAND_TYPE_ID]"
   "ir_apply (IR 443 6) core_OperandSpans = [SPV_OPERAND_TYPE_TYPE_ID,
    SPV_OPERAND_TYPE_RESULT_ID, SPV_OPERAND_TYPE_ID, SPV_OPERAND_TYPE_ID,
    SPV_OPERAND_TYPE_OPTIONAL_ID, SPV_OPERAND_TYPE_OPTIONAL_MEMORY_ACCESS]"
   "ir_apply (IR 449 5) core_OperandSpans = [SPV_OPERAND_TYPE_ID, SPV_OPERAND_TYPE_ID,
    SPV_OPERAND_TYPE_ID, SPV_OPERAND_TYPE_OPTIONAL_ID, SPV_OPERAND_TYPE_OPTIONAL_MEMORY_ACCESS]"
   "ir_apply (IR 454 6) core_OperandSpans = [SPV_OPERAND_TYPE_TYPE_ID,
    SPV_OPERAND_TYPE_RESULT_ID, SPV_OPERAND_TYPE_ID, SPV_OPERAND_TYPE_ID, SPV_OPERAND_TYPE_ID,
    SPV_OPERAND_TYPE_OPTIONAL_COOPERATIVE_MATRIX_OPERANDS]"
   "ir_apply (IR 460 8) core_OperandSpans = [SPV_OPERAND_TYPE_ID, SPV_OPERAND_TYPE_ID,
    SPV_OPERAND_TYPE_ID, SPV_OPERAND_TYPE_ID, SPV_OPERAND_TYPE_ID, SPV_OPERAND_TYPE_ID,
    SPV_OPERAND_TYPE_ID, SPV_OPERAND_TYPE_ID]"
   "ir_apply (IR 468 14) core_OperandSpans = [SPV_OPERAND_TYPE_ID, SPV_OPERAND_TYPE_ID,
    SPV_OPERAND_TYPE_ID, SPV_OPERAND_TYPE_ID, SPV_OPERAND_TYPE_ID, SPV_OPERAND_TYPE_ID,
    SPV_OPERAND_TYPE_ID, SPV_OPERAND_TYPE_ID, SPV_OPERAND_TYPE_ID, SPV_OPERAND_TYPE_ID,
    SPV_OPERAND_TYPE_ID, SPV_OPERAND_TYPE_ID, SPV_OPERAND_TYPE_ID, SPV_OPERAND_TYPE_ID]"
   "ir_apply (IR 482 13) core_OperandSpans = [SPV_OPERAND_TYPE_ID, SPV_OPERAND_TYPE_ID,
    SPV_OPERAND_TYPE_ID, SPV_OPERAND_TYPE_ID, SPV_OPERAND_TYPE_ID, SPV_OPERAND_TYPE_ID,
    SPV_OPERAND_TYPE_ID, SPV_OPERAND_TYPE_ID, SPV_OPERAND_TYPE_ID, SPV_OPERAND_TYPE_ID,
    SPV_OPERAND_TYPE_ID, SPV_OPERAND_TYPE_ID, SPV_OPERAND_TYPE_ID]"
   "ir_apply (IR 495 7) core_OperandSpans = [SPV_OPERAND_TYPE_ID, SPV_OPERAND_TYPE_ID,
    SPV_OPERAND_TYPE_ID, SPV_OPERAND_TYPE_ID, SPV_OPERAND_TYPE_ID, SPV_OPERAND_TYPE_ID,
    SPV_OPERAND_TYPE_ID]"
   "ir_apply (IR 502 12) core_OperandSpans = [SPV_OPERAND_TYPE_ID, SPV_OPERAND_TYPE_ID,
    SPV_OPERAND_TYPE_ID, SPV_OPERAND_TYPE_ID, SPV_OPERAND_TYPE_ID, SPV_OPERAND_TYPE_ID,
    SPV_OPERAND_TYPE_ID, SPV_OPERAND_TYPE_ID, SPV_OPERAND_TYPE_ID, SPV_OPERAND_TYPE_ID,
    SPV_OPERAND_TYPE_ID, SPV_OPERAND_TYPE_ID]"
   "ir_apply (IR 514 6) core_OperandSpans = [SPV_OPERAND_TYPE_ID, SPV_OPERAND_TYPE_ID,
    SPV_OPERAND_TYPE_ID, SPV_OPERAND_TYPE_ID, SPV_OPERAND_TYPE_ID, SPV_OPERAND_TYPE_ID]"
   "ir_apply (IR 520 3) core_OperandSpans = [SPV_OPERAND_TYPE_ID, SPV_OPERAND_TYPE_OPTIONAL_ID,
    SPV_OPERAND_TYPE_OPTIONAL_ID]"
   "ir_apply (IR 523 7) core_OperandSpans = [SPV_OPERAND_TYPE_TYPE_ID,
    SPV_OPERAND_TYPE_RESULT_ID, SPV_OPERAND_TYPE_ID, SPV_OPERAND_TYPE_ID, SPV_OPERAND_TYPE_ID,
    SPV_OPERAND_TYPE_ID, SPV_OPERAND_TYPE_OPTIONAL_IMAGE]"
   "ir_apply (IR 530 13) core_OperandSpans = [SPV_OPERAND_TYPE_TYPE_ID,
    SPV_OPERAND_TYPE_RESULT_ID, SPV_OPERAND_TYPE_ID, SPV_OPERAND_TYPE_ID, SPV_OPERAND_TYPE_ID,
    SPV_OPERAND_TYPE_ID, SPV_OPERAND_TYPE_ID, SPV_OPERAND_TYPE_ID, SPV_OPERAND_TYPE_ID,
    SPV_OPERAND_TYPE_ID, SPV_OPERAND_TYPE_ID, SPV_OPERAND_TYPE_OPTIONAL_ID,
    SPV_OPERAND_TYPE_OPTIONAL_COOPERATIVE_MATRIX_OPERANDS]"
   "ir_apply (IR 543 7) core_OperandSpans = [SPV_OPERAND_TYPE_ID, SPV_OPERAND_TYPE_ID,
    SPV_OPERAND_TYPE_ID, SPV_OPERAND_TYPE_ID, SPV_OPERAND_TYPE_ID, SPV_OPERAND_TYPE_ID,
    SPV_OPERAND_TYPE_OPTIONAL_ID]"
   "ir_apply (IR 550 16) core_OperandSpans = [SPV_OPERAND_TYPE_TYPE_ID,
    SPV_OPERAND_TYPE_RESULT_ID, SPV_OPERAND_TYPE_ID, SPV_OPERAND_TYPE_ID, SPV_OPERAND_TYPE_ID,
    SPV_OPERAND_TYPE_ID, SPV_OPERAND_TYPE_ID, SPV_OPERAND_TYPE_ID, SPV_OPERAND_TYPE_ID,
    SPV_OPERAND_TYPE_ID, SPV_OPERAND_TYPE_ID, SPV_OPERAND_TYPE_ID, SPV_OPERAND_TYPE_ID,
    SPV_OPERAND_TYPE_ID, SPV_OPERAND_TYPE_OPTIONAL_ID,
    SPV_OPERAND_TYPE_OPTIONAL_COOPERATIVE_MATRIX_OPERANDS]"
  by (simp_all add: ir_apply_def IR_def core_OperandSpans_def skip_spans stop_spans
    length_spans drop_spans take_spans del: drop_append)

lemma core_spans_3:
   "ir_apply (IR 566 4) core_OperandSpans = [SPV_OPERAND_TYPE_ID, SPV_OPERAND_TYPE_ID,
    SPV_OPERAND_TYPE_ID, SPV_OPERAND_TYPE_OPTIONAL_ID]"
   "ir_apply (IR 570 5) core_OperandSpans = [SPV_OPERAND_TYPE_TYPE_ID,
    SPV_OPERAND_TYPE_RESULT_ID, SPV_OPERAND_TYPE_ID, SPV_OPERAND_TYPE_ID,
    SPV_OPERAND_TYPE_OPTIONAL_MEMORY_ACCESS]"
   "ir_apply (IR 575 4) core_OperandSpans = [SPV_OPERAND_TYPE_ID, SPV_OPERAND_TYPE_ID,
    SPV_OPERAND_TYPE_ID, SPV_OPERAND_TYPE_OPTIONAL_MEMORY_ACCESS]"
   "ir_apply (IR 579 5) core_OperandSpans = [SPV_OPERAND_TYPE_RESULT_ID, SPV_OPERAND_TYPE_ID,
    SPV_OPERAND_TYPE_SCOPE_ID, SPV_OPERAND_TYPE_ID, SPV_OPERAND_TYPE_ID]"
   "ir_apply (IR 584 6) core_OperandSpans = [SPV_OPERAND_TYPE_TYPE_ID,
    SPV_OPERAND_TYPE_RESULT_ID, SPV_OPERAND_TYPE_ID, SPV_OPERAND_TYPE_ID, SPV_OPERAND_TYPE_ID,
    SPV_OPERAND_TYPE_OPTIONAL_MEMORY_ACCESS]"
   "ir_apply (IR 590 5) core_OperandSpans = [SPV_OPERAND_TYPE_ID, SPV_OPERAND_TYPE_ID,
    SPV_OPERAND_TYPE_ID, SPV_OPERAND_TYPE_ID, SPV_OPERAND_TYPE_OPTIONAL_MEMORY_ACCESS]"
   "ir_apply (IR 595 5) core_OperandSpans = [SPV_OPERAND_TYPE_TYPE_ID,
    SPV_OPERAND_TYPE_RESULT_ID, SPV_OPERAND_TYPE_ID, SPV_OPERAND_TYPE_COOPERATIVE_MATRIX_REDUCE,
    SPV_OPERAND_TYPE_ID]"
   "ir_apply (IR 600 7) core_OperandSpans = [SPV_OPERAND_TYPE_TYPE_ID,
    SPV_OPERAND_TYPE_RESULT_ID, SPV_OPERAND_TYPE_ID, SPV_OPERAND_TYPE_ID, SPV_OPERAND_TYPE_ID,
    SPV_OPERAND_TYPE_MEMORY_ACCESS, SPV_OPERAND_TYPE_TENSOR_ADDRESSING_OPERANDS]"
   "ir_apply (IR 607 5) core_OperandSpans = [SPV_OPERAND_TYPE_ID, SPV_OPERAND_TYPE_ID,
    SPV_OPERAND_TYPE_ID, SPV_OPERAND_TYPE_MEMORY_ACCESS,
    SPV_OPERAND_TYPE_TENSOR_ADDRESSING_OPERANDS]"
   "ir_apply (IR 612 4) core_OperandSpans = [SPV_OPERAND_TYPE_RESULT_ID, SPV_OPERAND_TYPE_ID,
    SPV_OPERAND_TYPE_ID, SPV_OPERAND_TYPE_VARIABLE_ID]"
   "ir_apply (IR 616 7) core_OperandSpans = [SPV_OPERAND_TYPE_TYPE_ID,
    SPV_OPERAND_TYPE_RESULT_ID, SPV_OPERAND_TYPE_ID, SPV_OPERAND_TYPE_ID, SPV_OPERAND_TYPE_ID,
    SPV_OPERAND_TYPE_ID, SPV_OPERAND_TYPE_OPTIONAL_RAW_ACCESS_CHAIN_OPERANDS]"
   "ir_apply (IR 623 5) core_OperandSpans = [SPV_OPERAND_TYPE_ID, SPV_OPERAND_TYPE_ID,
    SPV_OPERAND_TYPE_ID, SPV_OPERAND_TYPE_ID, SPV_OPERAND_TYPE_ID]"
   "ir_apply (IR 628 6) core_OperandSpans = [SPV_OPERAND_TYPE_TYPE_ID,
    SPV_OPERAND_TYPE_RESULT_ID, SPV_OPERAND_TYPE_ID, SPV_OPERAND_TYPE_ID,
    SPV_OPERAND_TYPE_LITERAL_STRING, SPV_OPERAND_TYPE_LITERAL_STRING]"
   "ir_apply (IR 634 9) core_OperandSpans = [SPV_OPERAND_TYPE_TYPE_ID,
    SPV_OPERAND_TYPE_RESULT_ID, SPV_OPERAND_TYPE_ID, SPV_OPERAND_TYPE_ID, SPV_OPERAND_TYPE_ID,
    SPV_OPERAND_TYPE_ID, SPV_OPERAND_TYPE_ID, SPV_OPERAND_TYPE_ID, SPV_OPERAND_TYPE_ID]"
   "ir_apply (IR 643 10) core_OperandSpans = [SPV_OPERAND_TYPE_TYPE_ID,
    SPV_OPERAND_TYPE_RESULT_ID, SPV_OPERAND_TYPE_ID, SPV_OPERAND_TYPE_ID, SPV_OPERAND_TYPE_ID,
    SPV_OPERAND_TYPE_ID, SPV_OPERAND_TYPE_ID, SPV_OPERAND_TYPE_ID, SPV_OPERAND_TYPE_ID,
    SPV_OPERAND_TYPE_ID]"
   "ir_apply (IR 653 13) core_OperandSpans = [SPV_OPERAND_TYPE_TYPE_ID,
    SPV_OPERAND_TYPE_RESULT_ID, SPV_OPERAND_TYPE_ID, SPV_OPERAND_TYPE_ID, SPV_OPERAND_TYPE_ID,
    SPV_OPERAND_TYPE_ID, SPV_OPERAND_TYPE_ID, SPV_OPERAND_TYPE_ID, SPV_OPERAND_TYPE_ID,
    SPV_OPERAND_TYPE_ID, SPV_OPERAND_TYPE_ID, SPV_OPERAND_TYPE_ID, SPV_OPERAND_TYPE_ID]"
   "ir_apply (IR 666 8) core_OperandSpans = [SPV_OPERAND_TYPE_TYPE_ID,
    SPV_OPERAND_TYPE_RESULT_ID, SPV_OPERAND_TYPE_ID, SPV_OPERAND_TYPE_LITERAL_INTEGER,
    SPV_OPERAND_TYPE_LITERAL_INTEGER, SPV_OPERAND_TYPE_LITERAL_INTEGER,
    SPV_OPERAND_TYPE_LITERAL_INTEGER, SPV_OPERAND_TYPE_LITERAL_INTEGER]"
   "ir_apply (IR 674 10) core_OperandSpans = [SPV_OPERAND_TYPE_TYPE_ID,
    SPV_OPERAND_TYPE_RESULT_ID, SPV_OPERAND_TYPE_ID, SPV_OPERAND_TYPE_LITERAL_INTEGER,
    SPV_OPERAND_TYPE_ID, SPV_OPERAND_TYPE_LITERAL_INTEGER, SPV_OPERAND_TYPE_LITERAL_INTEGER,
    SPV_OPERAND_TYPE_LITERAL_INTEGER, SPV_OPERAND_TYPE_LITERAL_INTEGER,
    SPV_OPERAND_TYPE_LITERAL_INTEGER]"
   "ir_apply (IR 684 6) core_OperandSpans = [SPV_OPERAND_TYPE_TYPE_ID,
    SPV_OPERAND_TYPE_RESULT_ID, SPV_OPERAND_TYPE_ID, SPV_OPERAND_TYPE_LITERAL_INTEGER,
    SPV_OPERAND_TYPE_ID, SPV_OPERAND_TYPE_LITERAL_INTEGER]"
   "ir_apply (IR 690 2) core_OperandSpans = [SPV_OPERAND_TYPE_RESULT_ID,
    SPV_OPERAND_TYPE_OPTIONAL_ID]"
   "ir_apply (IR 692 3) core_OperandSpans = [SPV_OPERAND_TYPE_RESULT_ID, SPV_OPERAND_TYPE_ID,
    SPV_OPERAND_TYPE_OPTIONAL_ID]"
   "ir_apply (IR 695 1) core_OperandSpans = [SPV_OPERAND_TYPE_VARIABLE_ID]"
   "ir_apply (IR 696 7) core_OperandSpans = [SPV_OPERAND_TYPE_TYPE_ID,
    SPV_OPERAND_TYPE_RESULT_ID, SPV_OPERAND_TYPE_ID, SPV_OPERAND_TYPE_LITERAL_INTEGER,
    SPV_OPERAND_TYPE_LITERAL_INTEGER, SPV_OPERAND_TYPE_LITERAL_INTEGER,
    SPV_OPERAND_TYPE_LITERAL_INTEGER]"
   "ir_apply (IR 703 10) core_OperandSpans = [SPV_OPERAND_TYPE_ID, SPV_OPERAND_TYPE_ID,
    SPV_OPERAND_TYPE_ID, SPV_OPERAND_TYPE_ID, SPV_OPERAND_TYPE_ID, SPV_OPERAND_TYPE_ID,
    SPV_OPERAND_TYPE_ID, SPV_OPERAND_TYPE_ID, SPV_OPERAND_TYPE_ID, SPV_OPERAND_TYPE_ID]"
   "ir_apply (IR 713 9) core_OperandSpans = [SPV_OPERAND_TYPE_ID, SPV_OPERAND_TYPE_ID,
    SPV_OPERAND_TYPE_ID, SPV_OPERAND_TYPE_ID, SPV_OPERAND_TYPE_ID, SPV_OPERAND_TYPE_ID,
    SPV_OPERAND_TYPE_ID, SPV_OPERAND_TYPE_ID, SPV_OPERAND_TYPE_ID]"
   "ir_apply (IR 722 7) core_OperandSpans = [SPV_OPERAND_TYPE_TYPE_ID,
    SPV_OPERAND_TYPE_RESULT_ID, SPV_OPERAND_TYPE_ID, SPV_OPERAND_TYPE_ID, SPV_OPERAND_TYPE_ID,
    SPV_OPERAND_TYPE_ID, SPV_OPERAND_TYPE_OPTIONAL_MATRIX_MULTIPLY_ACCUMULATE_OPERANDS]"
   "ir_apply (IR 729 6) core_OperandSpans = [SPV_OPERAND_TYPE_TYPE_ID,
    SPV_OPERAND_TYPE_RESULT_ID, SPV_OPERAND_TYPE_ID, SPV_OPERAND_TYPE_LITERAL_INTEGER,
    SPV_OPERAND_TYPE_ID, SPV_OPERAND_TYPE_ID]"
   "ir_apply (IR 735 4) core_OperandSpans = [SPV_OPERAND_TYPE_ID, SPV_OPERAND_TYPE_ID,
    SPV_OPERAND_TYPE_LITERAL_INTEGER, SPV_OPERAND_TYPE_ID]"
  by (simp_all add: ir_apply_def IR_def core_OperandSpans_def skip_spans stop_spans
    length_spans drop_spans take_spans del: drop_append)

lemmas core_spans = core_spans_0 core_spans_1 core_spans_2 core_spans_3


section \<open>The lookups\<close>

lemma core_values_ascending:
  "list_all ascending operand_values" "list_all ascending ext_inst_values"
  by (simp_all add: operand_values_def ext_inst_values_def)

lemma if_memberI: "a \<in> S \<Longrightarrow> b \<in> S \<Longrightarrow> (if c then a else b) \<in> S"
  by simp

lemma operand_slices:
  "slices 0 operand_values =
    [(0, 3), (3, 4), (7, 126), (133, 270), (403, 8), (411, 3), (414, 2), (416, 19), (435, 10),
     (445, 4), (449, 15), (464, 4), (468, 6), (474, 3), (477, 3), (480, 4), (484, 8), (492, 3),
     (495, 16), (511, 9), (520, 3), (523, 143), (666, 8), (674, 96), (770, 17), (787, 2), (789,
     3), (792, 2), (794, 9), (803, 4), (807, 4), (811, 6), (817, 9), (826, 7), (833, 4), (837,
     17), (854, 26), (880, 20), (900, 2), (902, 3), (905, 2), (907, 2), (909, 3), (912, 5), (917,
     20), (937, 15), (952, 9), (961, 4), (965, 15), (980, 1), (981, 4), (985, 1), (986, 8), (994,
     3), (997, 12), (1009, 2), (1011, 3), (1014, 2), (1016, 5), (1021, 2), (1023, 42), (1065, 7),
     (1072, 3), (1075, 1), (1076, 8), (1084, 3), (1087, 2), (1089, 20), (1109, 10), (1119, 4),
     (1123, 14), (1137, 28), (1165, 4), (1169, 3), (1172, 5), (1177, 6)]"
  by (simp add: operand_values_def)

lemma ext_inst_slices:
  "slices 0 ext_inst_values =
    [(0, 34), (34, 81), (115, 42), (157, 44), (201, 8), (209, 37), (246, 162), (408, 3), (411, 4),
     (415, 1), (416, 9), (425, 66)]"
  by (simp add: ext_inst_values_def)

lemma core_operand_range:
  "core_OperandByValueRangeForKind t \<in> insert (IR 0 0) ((\<lambda>(a, b). IR a b) ` set (slices 0 operand_values))"
  unfolding core_OperandByValueRangeForKind_def operand_slices
  by (intro if_memberI) (simp_all add: IR_def)

lemma core_ext_inst_range:
  "core_ExtInstByValueRangeForKind t \<in> insert (IR 0 0) ((\<lambda>(a, b). IR a b) ` set (slices 0 ext_inst_values))"
  unfolding core_ExtInstByValueRangeForKind_def ext_inst_slices
  by (intro if_memberI) (simp_all add: IR_def)

lemma ascending_range:
  assumes "r \<in> insert (IR 0 0) ((\<lambda>(a, b). IR a b) ` set (slices 0 xss))" "list_all ascending xss"
  shows "ascending (ir_apply r (concat xss))"
  using assms slices_ascending [of _ _ "[]" xss] by (auto simp: ir_apply_def IR_def)

lemma map_ir_apply: "map f (ir_apply r xs) = ir_apply r (map f xs)"
  by (simp add: ir_apply_def take_map drop_map)

lemma core_operands_ascending:
  "ascending (map od_value (ir_apply (core_OperandByValueRangeForKind t) core_OperandsByValue))"
  unfolding map_ir_apply core_operand_values
  by (rule ascending_range [OF core_operand_range core_values_ascending(1)])

lemma core_ext_insts_ascending:
  "ascending (map ed_value (ir_apply (core_ExtInstByValueRangeForKind t) core_ExtInstByValue))"
  unfolding map_ir_apply core_ext_inst_values
  by (rule ascending_range [OF core_ext_inst_range core_values_ascending(2)])

lemma core_grammar_fields [simp]:
  "kOperandsByValue (core_grammar names) = core_OperandsByValue"
  "kInstructionDesc (core_grammar names) = core_InstructionDesc"
  "kExtInstByValue (core_grammar names) = core_ExtInstByValue"
  "kOperandSpans (core_grammar names) = core_OperandSpans"
  "OperandByValueRangeForKind (core_grammar names) = core_OperandByValueRangeForKind"
  "ExtInstByValueRangeForKind (core_grammar names) = core_ExtInstByValueRangeForKind"
  by (simp_all add: core_grammar_def)

lemma core_values_ok: "values_ok (core_grammar names)"
  using core_instructions_ascending core_operands_ascending core_ext_insts_ascending
  by (simp add: values_ok_def ascending_sorted)

lemma ascending_distinct: "ascending xs \<Longrightarrow> distinct xs"
proof (induction xs rule: ascending.induct)
  case (1 x y zs)
  then have "sorted (y # zs)" by (simp only: ascending.simps ascending_sorted)
  with 1 show ?case by auto
qed auto

lemma core_LookupOpcode:
  assumes "d \<in> set core_InstructionDesc"
  shows "LookupOpcode (core_grammar names) (id_opcode d) = Inr d"
proof -
  have "inj_on id_opcode (set core_InstructionDesc)"
    using ascending_distinct [OF core_instructions_ascending] by (simp add: distinct_map)
  moreover have "case LookupOpcode (core_grammar names) (id_opcode d) of
      Inl e \<Rightarrow> id_opcode d \<notin> id_opcode ` set core_InstructionDesc
    | Inr d' \<Rightarrow> d' \<in> set core_InstructionDesc \<and> id_opcode d' = id_opcode d"
    using values_ok_LookupOpcode [OF core_values_ok [of names], of "id_opcode d"] by (auto split: sum.splits)
  ultimately show ?thesis using assms by (auto simp: inj_on_def split: sum.splits)
qed

lemma core_LookupOpcode_Inr:
  assumes "LookupOpcode (core_grammar names) opcode = Inr d"
  shows "d \<in> set core_InstructionDesc \<and> id_opcode d = opcode"
  using values_ok_LookupOpcode [OF core_values_ok [of names], of opcode] assms by simp

section \<open>The ids of an instruction\<close>

text \<open>
  The flags of an instruction agree with its operands: a type id if there is one, then a result id
  if there is one, and neither anywhere else.
\<close>

definition ids_first :: "InstructionDesc \<Rightarrow> bool" where
  "ids_first d \<longleftrightarrow>
     (let ops = ir_apply (id_operands_range d) core_OperandSpans;
          ids = (if id_hasType d then [SPV_OPERAND_TYPE_TYPE_ID] else []) @
                (if id_hasResult d then [SPV_OPERAND_TYPE_RESULT_ID] else [])
      in take (length ids) ops = ids \<and>
         list_all (\<lambda>t. t \<noteq> SPV_OPERAND_TYPE_TYPE_ID \<and> t \<noteq> SPV_OPERAND_TYPE_RESULT_ID)
           (drop (length ids) ops))"

lemma ids_first_InD:
  "ids_first (InD oc hr ht op n a c e mv lv) \<longleftrightarrow>
     (let ops = ir_apply op core_OperandSpans;
          ids = (if ht then [SPV_OPERAND_TYPE_TYPE_ID] else []) @
                (if hr then [SPV_OPERAND_TYPE_RESULT_ID] else [])
      in take (length ids) ops = ids \<and>
         list_all (\<lambda>t. t \<noteq> SPV_OPERAND_TYPE_TYPE_ID \<and> t \<noteq> SPV_OPERAND_TYPE_RESULT_ID)
           (drop (length ids) ops))"
  by (simp add: ids_first_def InD_def)

lemma core_ids_first_0: "list_all ids_first core_InstructionDesc_0"
  by (simp add: core_InstructionDesc_0_def ids_first_InD core_spans del: One_nat_def)

lemma core_ids_first_1: "list_all ids_first core_InstructionDesc_1"
  by (simp add: core_InstructionDesc_1_def ids_first_InD core_spans del: One_nat_def)

lemma core_ids_first_2: "list_all ids_first core_InstructionDesc_2"
  by (simp add: core_InstructionDesc_2_def ids_first_InD core_spans del: One_nat_def)

lemma core_ids_first_3: "list_all ids_first core_InstructionDesc_3"
  by (simp add: core_InstructionDesc_3_def ids_first_InD core_spans del: One_nat_def)

lemma core_ids_first_4: "list_all ids_first core_InstructionDesc_4"
  by (simp add: core_InstructionDesc_4_def ids_first_InD core_spans del: One_nat_def)

lemma core_ids_first_5: "list_all ids_first core_InstructionDesc_5"
  by (simp add: core_InstructionDesc_5_def ids_first_InD core_spans del: One_nat_def)

lemma core_ids_first_6: "list_all ids_first core_InstructionDesc_6"
  by (simp add: core_InstructionDesc_6_def ids_first_InD core_spans del: One_nat_def)

lemma core_ids_first_7: "list_all ids_first core_InstructionDesc_7"
  by (simp add: core_InstructionDesc_7_def ids_first_InD core_spans del: One_nat_def)

lemma core_ids_first_8: "list_all ids_first core_InstructionDesc_8"
  by (simp add: core_InstructionDesc_8_def ids_first_InD core_spans del: One_nat_def)

lemmas core_ids_first_pieces =
  core_ids_first_0 core_ids_first_1 core_ids_first_2 core_ids_first_3 core_ids_first_4
  core_ids_first_5 core_ids_first_6 core_ids_first_7 core_ids_first_8

lemma core_ids_first: "list_all ids_first core_InstructionDesc"
  by (simp add: core_InstructionDesc_def core_ids_first_pieces)

end
