(* ===== verification/Core_Parser.thy ===== *)
theory Core_Parser
  imports Core_Grammar
begin

text \<open>
  The binary parser on the tables it is shipped with: which instructions and operands the lookups
  find, that the operations of specialization constants are instructions with a type and a result,
  the one operand type of the tables that \<open>parseOperand\<close> has no case for, and the imports that are
  accepted in either byte order.
\<close>

section \<open>Entries of the tables\<close>

lemma core_LookupOperand:
  assumes "d \<in> set (ir_apply (core_OperandByValueRangeForKind t) core_OperandsByValue)"
  shows "LookupOperand (core_grammar names) t (od_value d) = Inr d"
proof -
  let ?range = "set (ir_apply (core_OperandByValueRangeForKind t) core_OperandsByValue)"
  have "inj_on od_value ?range"
    using ascending_distinct [OF core_operands_ascending] by (simp add: distinct_map)
  moreover have "case LookupOperand (core_grammar names) t (od_value d) of
      Inl e \<Rightarrow> od_value d \<notin> od_value ` ?range
    | Inr d' \<Rightarrow> d' \<in> ?range \<and> od_value d' = od_value d"
    using values_ok_LookupOperand [OF core_values_ok [of names], of "od_value d" t]
    by (auto split: sum.splits)
  ultimately show ?thesis using assms by (auto simp: inj_on_def split: sum.splits)
qed

lemma core_LookupExtInst:
  assumes "d \<in> set (ir_apply (core_ExtInstByValueRangeForKind et) core_ExtInstByValue)"
  shows "LookupExtInst (core_grammar names) et (ed_value d) = Inr d"
proof -
  let ?range = "set (ir_apply (core_ExtInstByValueRangeForKind et) core_ExtInstByValue)"
  have "inj_on ed_value ?range"
    using ascending_distinct [OF core_ext_insts_ascending] by (simp add: distinct_map)
  moreover have "case LookupExtInst (core_grammar names) et (ed_value d) of
      Inl e \<Rightarrow> ed_value d \<notin> ed_value ` ?range
    | Inr d' \<Rightarrow> d' \<in> ?range \<and> ed_value d' = ed_value d"
    using values_ok_LookupExtInst [OF core_values_ok [of names], of "ed_value d" et]
    by (auto split: sum.splits)
  ultimately show ?thesis using assms by (auto simp: inj_on_def split: sum.splits)
qed






section \<open>Specialization constants\<close>

definition spec_operation :: "InstructionDesc \<Rightarrow> bool" where
  "spec_operation d \<longleftrightarrow> id_hasType d \<and> id_hasResult d \<and>
          take 2 (ir_apply (id_operands_range d) core_OperandSpans) =
            [SPV_OPERAND_TYPE_TYPE_ID, SPV_OPERAND_TYPE_RESULT_ID]"

lemma spec_operation_InD:
  "spec_operation (InD oc hr ht op n a c e mv lv) \<longleftrightarrow> ht \<and> hr \<and>
    take 2 (ir_apply op core_OperandSpans) = [SPV_OPERAND_TYPE_TYPE_ID, SPV_OPERAND_TYPE_RESULT_ID]"
  by (simp add: spec_operation_def InD_def)

text \<open>The instructions of \<open>kOpSpecConstantOpcodes\<close>, in its order.\<close>

definition spec_descs :: "InstructionDesc list" where
  "spec_descs =
    [InD OpSConvert True True (IR 160 3) (IR 27372 9) (IR 0 0) (IR 1 0) (IR 0 0)
        (SPV_SPIRV_VERSION_WORD 1 0) 0xffffffff,
     InD OpFConvert True True (IR 160 3) (IR 27381 9) (IR 0 0) (IR 1 0) (IR 0 0)
        (SPV_SPIRV_VERSION_WORD 1 0) 0xffffffff,
     InD OpConvertFToS True True (IR 160 3) (IR 27327 12) (IR 0 0) (IR 1 0) (IR 0 0)
        (SPV_SPIRV_VERSION_WORD 1 0) 0xffffffff,
     InD OpConvertSToF True True (IR 160 3) (IR 27339 12) (IR 0 0) (IR 1 0) (IR 0 0)
        (SPV_SPIRV_VERSION_WORD 1 0) 0xffffffff,
     InD OpConvertFToU True True (IR 160 3) (IR 27315 12) (IR 0 0) (IR 1 0) (IR 0 0)
        (SPV_SPIRV_VERSION_WORD 1 0) 0xffffffff,
     InD OpConvertUToF True True (IR 160 3) (IR 27351 12) (IR 0 0) (IR 1 0) (IR 0 0)
        (SPV_SPIRV_VERSION_WORD 1 0) 0xffffffff,
     InD OpUConvert True True (IR 160 3) (IR 27363 9) (IR 0 0) (IR 1 0) (IR 0 0)
        (SPV_SPIRV_VERSION_WORD 1 0) 0xffffffff,
     InD OpConvertPtrToU True True (IR 160 3) (IR 27404 14) (IR 0 0) (IR 201 2) (IR 0 0)
        (SPV_SPIRV_VERSION_WORD 1 0) 0xffffffff,
     InD OpConvertUToPtr True True (IR 160 3) (IR 27448 14) (IR 0 0) (IR 201 2) (IR 0 0)
        (SPV_SPIRV_VERSION_WORD 1 0) 0xffffffff,
     InD OpGenericCastToPtr True True (IR 160 3) (IR 27479 17) (IR 0 0) (IR 0 1) (IR 0 0)
        (SPV_SPIRV_VERSION_WORD 1 0) 0xffffffff,
     InD OpPtrCastToGeneric True True (IR 160 3) (IR 27462 17) (IR 0 0) (IR 0 1) (IR 0 0)
        (SPV_SPIRV_VERSION_WORD 1 0) 0xffffffff,
     InD OpBitcast True True (IR 160 3) (IR 27521 8) (IR 0 0) (IR 1 0) (IR 0 0)
        (SPV_SPIRV_VERSION_WORD 1 0) 0xffffffff,
     InD OpQuantizeToF16 True True (IR 160 3) (IR 27390 14) (IR 0 0) (IR 1 0) (IR 0 0)
        (SPV_SPIRV_VERSION_WORD 1 0) 0xffffffff,
     InD OpSNegate True True (IR 160 3) (IR 27529 8) (IR 0 0) (IR 1 0) (IR 0 0)
        (SPV_SPIRV_VERSION_WORD 1 0) 0xffffffff,
     InD OpNot True True (IR 160 3) (IR 28329 4) (IR 0 0) (IR 1 0) (IR 0 0)
        (SPV_SPIRV_VERSION_WORD 1 0) 0xffffffff,
     InD OpIAdd True True (IR 172 4) (IR 27545 5) (IR 0 0) (IR 1 0) (IR 0 0)
        (SPV_SPIRV_VERSION_WORD 1 0) 0xffffffff,
     InD OpISub True True (IR 172 4) (IR 27555 5) (IR 0 0) (IR 1 0) (IR 0 0)
        (SPV_SPIRV_VERSION_WORD 1 0) 0xffffffff,
     InD OpIMul True True (IR 172 4) (IR 27565 5) (IR 0 0) (IR 1 0) (IR 0 0)
        (SPV_SPIRV_VERSION_WORD 1 0) 0xffffffff,
     InD OpUDiv True True (IR 172 4) (IR 27575 5) (IR 0 0) (IR 1 0) (IR 0 0)
        (SPV_SPIRV_VERSION_WORD 1 0) 0xffffffff,
     InD OpSDiv True True (IR 172 4) (IR 27580 5) (IR 0 0) (IR 1 0) (IR 0 0)
        (SPV_SPIRV_VERSION_WORD 1 0) 0xffffffff,
     InD OpUMod True True (IR 172 4) (IR 27590 5) (IR 0 0) (IR 1 0) (IR 0 0)
        (SPV_SPIRV_VERSION_WORD 1 0) 0xffffffff,
     InD OpSRem True True (IR 172 4) (IR 27595 5) (IR 0 0) (IR 1 0) (IR 0 0)
        (SPV_SPIRV_VERSION_WORD 1 0) 0xffffffff,
     InD OpSMod True True (IR 172 4) (IR 27600 5) (IR 0 0) (IR 1 0) (IR 0 0)
        (SPV_SPIRV_VERSION_WORD 1 0) 0xffffffff,
     InD OpShiftRightLogical True True (IR 172 4) (IR 28241 18) (IR 0 0) (IR 1 0) (IR 0 0)
        (SPV_SPIRV_VERSION_WORD 1 0) 0xffffffff,
     InD OpShiftRightArithmetic True True (IR 172 4) (IR 28259 21) (IR 0 0) (IR 1 0) (IR 0 0)
        (SPV_SPIRV_VERSION_WORD 1 0) 0xffffffff,
     InD OpShiftLeftLogical True True (IR 172 4) (IR 28280 17) (IR 0 0) (IR 1 0) (IR 0 0)
        (SPV_SPIRV_VERSION_WORD 1 0) 0xffffffff,
     InD OpBitwiseOr True True (IR 172 4) (IR 28297 10) (IR 0 0) (IR 1 0) (IR 0 0)
        (SPV_SPIRV_VERSION_WORD 1 0) 0xffffffff,
     InD OpBitwiseAnd True True (IR 172 4) (IR 28318 11) (IR 0 0) (IR 1 0) (IR 0 0)
        (SPV_SPIRV_VERSION_WORD 1 0) 0xffffffff,
     InD OpBitwiseXor True True (IR 172 4) (IR 28307 11) (IR 0 0) (IR 1 0) (IR 0 0)
        (SPV_SPIRV_VERSION_WORD 1 0) 0xffffffff,
     InD OpFNegate True True (IR 160 3) (IR 27537 8) (IR 0 0) (IR 1 0) (IR 0 0)
        (SPV_SPIRV_VERSION_WORD 1 0) 0xffffffff,
     InD OpFAdd True True (IR 172 4) (IR 27550 5) (IR 0 0) (IR 1 0) (IR 0 0)
        (SPV_SPIRV_VERSION_WORD 1 0) 0xffffffff,
     InD OpFSub True True (IR 172 4) (IR 27560 5) (IR 0 0) (IR 1 0) (IR 0 0)
        (SPV_SPIRV_VERSION_WORD 1 0) 0xffffffff,
     InD OpFMul True True (IR 172 4) (IR 27570 5) (IR 0 0) (IR 1 0) (IR 0 0)
        (SPV_SPIRV_VERSION_WORD 1 0) 0xffffffff,
     InD OpFDiv True True (IR 172 4) (IR 27585 5) (IR 0 0) (IR 1 0) (IR 0 0)
        (SPV_SPIRV_VERSION_WORD 1 0) 0xffffffff,
     InD OpFRem True True (IR 172 4) (IR 27605 5) (IR 0 0) (IR 1 0) (IR 0 0)
        (SPV_SPIRV_VERSION_WORD 1 0) 0xffffffff,
     InD OpFMod True True (IR 172 4) (IR 27610 5) (IR 0 0) (IR 1 0) (IR 0 0)
        (SPV_SPIRV_VERSION_WORD 1 0) 0xffffffff,
     InD OpVectorShuffle True True (IR 176 5) (IR 26769 14) (IR 0 0) (IR 1 0) (IR 0 0)
        (SPV_SPIRV_VERSION_WORD 1 0) 0xffffffff,
     InD OpCompositeExtract True True (IR 181 4) (IR 26802 17) (IR 0 0) (IR 1 0) (IR 0 0)
        (SPV_SPIRV_VERSION_WORD 1 0) 0xffffffff,
     InD OpCompositeInsert True True (IR 176 5) (IR 26819 16) (IR 0 0) (IR 1 0) (IR 0 0)
        (SPV_SPIRV_VERSION_WORD 1 0) 0xffffffff,
     InD OpLogicalOr True True (IR 172 4) (IR 27879 10) (IR 0 0) (IR 1 0) (IR 0 0)
        (SPV_SPIRV_VERSION_WORD 1 0) 0xffffffff,
     InD OpLogicalAnd True True (IR 172 4) (IR 27889 11) (IR 0 0) (IR 1 0) (IR 0 0)
        (SPV_SPIRV_VERSION_WORD 1 0) 0xffffffff,
     InD OpLogicalNot True True (IR 160 3) (IR 27900 11) (IR 0 0) (IR 1 0) (IR 0 0)
        (SPV_SPIRV_VERSION_WORD 1 0) 0xffffffff,
     InD OpLogicalEqual True True (IR 172 4) (IR 27850 13) (IR 0 0) (IR 1 0) (IR 0 0)
        (SPV_SPIRV_VERSION_WORD 1 0) 0xffffffff,
     InD OpLogicalNotEqual True True (IR 172 4) (IR 27863 16) (IR 0 0) (IR 1 0) (IR 0 0)
        (SPV_SPIRV_VERSION_WORD 1 0) 0xffffffff,
     InD OpSelect True True (IR 130 5) (IR 27911 7) (IR 0 0) (IR 1 0) (IR 0 0)
        (SPV_SPIRV_VERSION_WORD 1 0) 0xffffffff,
     InD OpIEqual True True (IR 172 4) (IR 27918 7) (IR 0 0) (IR 1 0) (IR 0 0)
        (SPV_SPIRV_VERSION_WORD 1 0) 0xffffffff,
     InD OpINotEqual True True (IR 172 4) (IR 27925 10) (IR 0 0) (IR 1 0) (IR 0 0)
        (SPV_SPIRV_VERSION_WORD 1 0) 0xffffffff,
     InD OpULessThan True True (IR 172 4) (IR 27997 10) (IR 0 0) (IR 1 0) (IR 0 0)
        (SPV_SPIRV_VERSION_WORD 1 0) 0xffffffff,
     InD OpSLessThan True True (IR 172 4) (IR 28007 10) (IR 0 0) (IR 1 0) (IR 0 0)
        (SPV_SPIRV_VERSION_WORD 1 0) 0xffffffff,
     InD OpUGreaterThan True True (IR 172 4) (IR 27935 13) (IR 0 0) (IR 1 0) (IR 0 0)
        (SPV_SPIRV_VERSION_WORD 1 0) 0xffffffff,
     InD OpSGreaterThan True True (IR 172 4) (IR 27948 13) (IR 0 0) (IR 1 0) (IR 0 0)
        (SPV_SPIRV_VERSION_WORD 1 0) 0xffffffff,
     InD OpULessThanEqual True True (IR 172 4) (IR 28017 15) (IR 0 0) (IR 1 0) (IR 0 0)
        (SPV_SPIRV_VERSION_WORD 1 0) 0xffffffff,
     InD OpSLessThanEqual True True (IR 172 4) (IR 28032 15) (IR 0 0) (IR 1 0) (IR 0 0)
        (SPV_SPIRV_VERSION_WORD 1 0) 0xffffffff,
     InD OpUGreaterThanEqual True True (IR 172 4) (IR 27961 18) (IR 0 0) (IR 1 0) (IR 0 0)
        (SPV_SPIRV_VERSION_WORD 1 0) 0xffffffff,
     InD OpSGreaterThanEqual True True (IR 172 4) (IR 27979 18) (IR 0 0) (IR 1 0) (IR 0 0)
        (SPV_SPIRV_VERSION_WORD 1 0) 0xffffffff,
     InD OpAccessChain True True (IR 122 4) (IR 26476 12) (IR 0 0) (IR 1 0) (IR 0 0)
        (SPV_SPIRV_VERSION_WORD 1 0) 0xffffffff,
     InD OpInBoundsAccessChain True True (IR 122 4) (IR 26488 20) (IR 0 0) (IR 1 0) (IR 0 0)
        (SPV_SPIRV_VERSION_WORD 1 0) 0xffffffff,
     InD OpPtrAccessChain True True (IR 151 5) (IR 26508 15) (IR 0 0) (IR 206 4) (IR 0 0)
        (SPV_SPIRV_VERSION_WORD 1 0) 0xffffffff,
     InD OpInBoundsPtrAccessChain True True (IR 151 5) (IR 26558 23) (IR 0 0) (IR 1 1) (IR 0 0)
        (SPV_SPIRV_VERSION_WORD 1 0) 0xffffffff,
     InD OpCooperativeMatrixLengthNV True True (IR 160 3) (IR 34971 26) (IR 0 0) (IR 259 1)
        (IR 78 1) 0xffffffff 0xffffffff,
     InD OpCooperativeMatrixLengthKHR True True (IR 160 3) (IR 32291 27) (IR 0 0) (IR 239 1)
        (IR 0 0) 0xffffffff 0xffffffff]"

lemma spec_descs_0:
  "InD OpConvertFToU True True (IR 160 3) (IR 27315 12) (IR 0 0) (IR 1 0) (IR 0 0)
        (SPV_SPIRV_VERSION_WORD 1 0) 0xffffffff \<in> set core_InstructionDesc_0"
  "InD OpVectorShuffle True True (IR 176 5) (IR 26769 14) (IR 0 0) (IR 1 0) (IR 0 0)
        (SPV_SPIRV_VERSION_WORD 1 0) 0xffffffff \<in> set core_InstructionDesc_0"
  "InD OpCompositeExtract True True (IR 181 4) (IR 26802 17) (IR 0 0) (IR 1 0) (IR 0 0)
        (SPV_SPIRV_VERSION_WORD 1 0) 0xffffffff \<in> set core_InstructionDesc_0"
  "InD OpCompositeInsert True True (IR 176 5) (IR 26819 16) (IR 0 0) (IR 1 0) (IR 0 0)
        (SPV_SPIRV_VERSION_WORD 1 0) 0xffffffff \<in> set core_InstructionDesc_0"
  "InD OpAccessChain True True (IR 122 4) (IR 26476 12) (IR 0 0) (IR 1 0) (IR 0 0)
        (SPV_SPIRV_VERSION_WORD 1 0) 0xffffffff \<in> set core_InstructionDesc_0"
  "InD OpInBoundsAccessChain True True (IR 122 4) (IR 26488 20) (IR 0 0) (IR 1 0) (IR 0 0)
        (SPV_SPIRV_VERSION_WORD 1 0) 0xffffffff \<in> set core_InstructionDesc_0"
  "InD OpPtrAccessChain True True (IR 151 5) (IR 26508 15) (IR 0 0) (IR 206 4) (IR 0 0)
        (SPV_SPIRV_VERSION_WORD 1 0) 0xffffffff \<in> set core_InstructionDesc_0"
  "InD OpInBoundsPtrAccessChain True True (IR 151 5) (IR 26558 23) (IR 0 0) (IR 1 1) (IR 0 0)
        (SPV_SPIRV_VERSION_WORD 1 0) 0xffffffff \<in> set core_InstructionDesc_0"
  by (simp_all add: core_InstructionDesc_0_def del: One_nat_def)

lemma spec_descs_1:
  "InD OpSConvert True True (IR 160 3) (IR 27372 9) (IR 0 0) (IR 1 0) (IR 0 0)
        (SPV_SPIRV_VERSION_WORD 1 0) 0xffffffff \<in> set core_InstructionDesc_1"
  "InD OpFConvert True True (IR 160 3) (IR 27381 9) (IR 0 0) (IR 1 0) (IR 0 0)
        (SPV_SPIRV_VERSION_WORD 1 0) 0xffffffff \<in> set core_InstructionDesc_1"
  "InD OpConvertFToS True True (IR 160 3) (IR 27327 12) (IR 0 0) (IR 1 0) (IR 0 0)
        (SPV_SPIRV_VERSION_WORD 1 0) 0xffffffff \<in> set core_InstructionDesc_1"
  "InD OpConvertSToF True True (IR 160 3) (IR 27339 12) (IR 0 0) (IR 1 0) (IR 0 0)
        (SPV_SPIRV_VERSION_WORD 1 0) 0xffffffff \<in> set core_InstructionDesc_1"
  "InD OpConvertUToF True True (IR 160 3) (IR 27351 12) (IR 0 0) (IR 1 0) (IR 0 0)
        (SPV_SPIRV_VERSION_WORD 1 0) 0xffffffff \<in> set core_InstructionDesc_1"
  "InD OpUConvert True True (IR 160 3) (IR 27363 9) (IR 0 0) (IR 1 0) (IR 0 0)
        (SPV_SPIRV_VERSION_WORD 1 0) 0xffffffff \<in> set core_InstructionDesc_1"
  "InD OpConvertPtrToU True True (IR 160 3) (IR 27404 14) (IR 0 0) (IR 201 2) (IR 0 0)
        (SPV_SPIRV_VERSION_WORD 1 0) 0xffffffff \<in> set core_InstructionDesc_1"
  "InD OpConvertUToPtr True True (IR 160 3) (IR 27448 14) (IR 0 0) (IR 201 2) (IR 0 0)
        (SPV_SPIRV_VERSION_WORD 1 0) 0xffffffff \<in> set core_InstructionDesc_1"
  "InD OpGenericCastToPtr True True (IR 160 3) (IR 27479 17) (IR 0 0) (IR 0 1) (IR 0 0)
        (SPV_SPIRV_VERSION_WORD 1 0) 0xffffffff \<in> set core_InstructionDesc_1"
  "InD OpPtrCastToGeneric True True (IR 160 3) (IR 27462 17) (IR 0 0) (IR 0 1) (IR 0 0)
        (SPV_SPIRV_VERSION_WORD 1 0) 0xffffffff \<in> set core_InstructionDesc_1"
  "InD OpBitcast True True (IR 160 3) (IR 27521 8) (IR 0 0) (IR 1 0) (IR 0 0)
        (SPV_SPIRV_VERSION_WORD 1 0) 0xffffffff \<in> set core_InstructionDesc_1"
  "InD OpQuantizeToF16 True True (IR 160 3) (IR 27390 14) (IR 0 0) (IR 1 0) (IR 0 0)
        (SPV_SPIRV_VERSION_WORD 1 0) 0xffffffff \<in> set core_InstructionDesc_1"
  "InD OpSNegate True True (IR 160 3) (IR 27529 8) (IR 0 0) (IR 1 0) (IR 0 0)
        (SPV_SPIRV_VERSION_WORD 1 0) 0xffffffff \<in> set core_InstructionDesc_1"
  "InD OpNot True True (IR 160 3) (IR 28329 4) (IR 0 0) (IR 1 0) (IR 0 0)
        (SPV_SPIRV_VERSION_WORD 1 0) 0xffffffff \<in> set core_InstructionDesc_1"
  "InD OpIAdd True True (IR 172 4) (IR 27545 5) (IR 0 0) (IR 1 0) (IR 0 0)
        (SPV_SPIRV_VERSION_WORD 1 0) 0xffffffff \<in> set core_InstructionDesc_1"
  "InD OpISub True True (IR 172 4) (IR 27555 5) (IR 0 0) (IR 1 0) (IR 0 0)
        (SPV_SPIRV_VERSION_WORD 1 0) 0xffffffff \<in> set core_InstructionDesc_1"
  "InD OpIMul True True (IR 172 4) (IR 27565 5) (IR 0 0) (IR 1 0) (IR 0 0)
        (SPV_SPIRV_VERSION_WORD 1 0) 0xffffffff \<in> set core_InstructionDesc_1"
  "InD OpUDiv True True (IR 172 4) (IR 27575 5) (IR 0 0) (IR 1 0) (IR 0 0)
        (SPV_SPIRV_VERSION_WORD 1 0) 0xffffffff \<in> set core_InstructionDesc_1"
  "InD OpSDiv True True (IR 172 4) (IR 27580 5) (IR 0 0) (IR 1 0) (IR 0 0)
        (SPV_SPIRV_VERSION_WORD 1 0) 0xffffffff \<in> set core_InstructionDesc_1"
  "InD OpUMod True True (IR 172 4) (IR 27590 5) (IR 0 0) (IR 1 0) (IR 0 0)
        (SPV_SPIRV_VERSION_WORD 1 0) 0xffffffff \<in> set core_InstructionDesc_1"
  "InD OpSRem True True (IR 172 4) (IR 27595 5) (IR 0 0) (IR 1 0) (IR 0 0)
        (SPV_SPIRV_VERSION_WORD 1 0) 0xffffffff \<in> set core_InstructionDesc_1"
  "InD OpSMod True True (IR 172 4) (IR 27600 5) (IR 0 0) (IR 1 0) (IR 0 0)
        (SPV_SPIRV_VERSION_WORD 1 0) 0xffffffff \<in> set core_InstructionDesc_1"
  "InD OpShiftRightLogical True True (IR 172 4) (IR 28241 18) (IR 0 0) (IR 1 0) (IR 0 0)
        (SPV_SPIRV_VERSION_WORD 1 0) 0xffffffff \<in> set core_InstructionDesc_1"
  "InD OpShiftRightArithmetic True True (IR 172 4) (IR 28259 21) (IR 0 0) (IR 1 0) (IR 0 0)
        (SPV_SPIRV_VERSION_WORD 1 0) 0xffffffff \<in> set core_InstructionDesc_1"
  "InD OpShiftLeftLogical True True (IR 172 4) (IR 28280 17) (IR 0 0) (IR 1 0) (IR 0 0)
        (SPV_SPIRV_VERSION_WORD 1 0) 0xffffffff \<in> set core_InstructionDesc_1"
  "InD OpBitwiseOr True True (IR 172 4) (IR 28297 10) (IR 0 0) (IR 1 0) (IR 0 0)
        (SPV_SPIRV_VERSION_WORD 1 0) 0xffffffff \<in> set core_InstructionDesc_1"
  "InD OpBitwiseAnd True True (IR 172 4) (IR 28318 11) (IR 0 0) (IR 1 0) (IR 0 0)
        (SPV_SPIRV_VERSION_WORD 1 0) 0xffffffff \<in> set core_InstructionDesc_1"
  "InD OpBitwiseXor True True (IR 172 4) (IR 28307 11) (IR 0 0) (IR 1 0) (IR 0 0)
        (SPV_SPIRV_VERSION_WORD 1 0) 0xffffffff \<in> set core_InstructionDesc_1"
  "InD OpFNegate True True (IR 160 3) (IR 27537 8) (IR 0 0) (IR 1 0) (IR 0 0)
        (SPV_SPIRV_VERSION_WORD 1 0) 0xffffffff \<in> set core_InstructionDesc_1"
  "InD OpFAdd True True (IR 172 4) (IR 27550 5) (IR 0 0) (IR 1 0) (IR 0 0)
        (SPV_SPIRV_VERSION_WORD 1 0) 0xffffffff \<in> set core_InstructionDesc_1"
  "InD OpFSub True True (IR 172 4) (IR 27560 5) (IR 0 0) (IR 1 0) (IR 0 0)
        (SPV_SPIRV_VERSION_WORD 1 0) 0xffffffff \<in> set core_InstructionDesc_1"
  "InD OpFMul True True (IR 172 4) (IR 27570 5) (IR 0 0) (IR 1 0) (IR 0 0)
        (SPV_SPIRV_VERSION_WORD 1 0) 0xffffffff \<in> set core_InstructionDesc_1"
  "InD OpFDiv True True (IR 172 4) (IR 27585 5) (IR 0 0) (IR 1 0) (IR 0 0)
        (SPV_SPIRV_VERSION_WORD 1 0) 0xffffffff \<in> set core_InstructionDesc_1"
  "InD OpFRem True True (IR 172 4) (IR 27605 5) (IR 0 0) (IR 1 0) (IR 0 0)
        (SPV_SPIRV_VERSION_WORD 1 0) 0xffffffff \<in> set core_InstructionDesc_1"
  "InD OpFMod True True (IR 172 4) (IR 27610 5) (IR 0 0) (IR 1 0) (IR 0 0)
        (SPV_SPIRV_VERSION_WORD 1 0) 0xffffffff \<in> set core_InstructionDesc_1"
  "InD OpLogicalOr True True (IR 172 4) (IR 27879 10) (IR 0 0) (IR 1 0) (IR 0 0)
        (SPV_SPIRV_VERSION_WORD 1 0) 0xffffffff \<in> set core_InstructionDesc_1"
  "InD OpLogicalAnd True True (IR 172 4) (IR 27889 11) (IR 0 0) (IR 1 0) (IR 0 0)
        (SPV_SPIRV_VERSION_WORD 1 0) 0xffffffff \<in> set core_InstructionDesc_1"
  "InD OpLogicalNot True True (IR 160 3) (IR 27900 11) (IR 0 0) (IR 1 0) (IR 0 0)
        (SPV_SPIRV_VERSION_WORD 1 0) 0xffffffff \<in> set core_InstructionDesc_1"
  "InD OpLogicalEqual True True (IR 172 4) (IR 27850 13) (IR 0 0) (IR 1 0) (IR 0 0)
        (SPV_SPIRV_VERSION_WORD 1 0) 0xffffffff \<in> set core_InstructionDesc_1"
  "InD OpLogicalNotEqual True True (IR 172 4) (IR 27863 16) (IR 0 0) (IR 1 0) (IR 0 0)
        (SPV_SPIRV_VERSION_WORD 1 0) 0xffffffff \<in> set core_InstructionDesc_1"
  "InD OpSelect True True (IR 130 5) (IR 27911 7) (IR 0 0) (IR 1 0) (IR 0 0)
        (SPV_SPIRV_VERSION_WORD 1 0) 0xffffffff \<in> set core_InstructionDesc_1"
  "InD OpIEqual True True (IR 172 4) (IR 27918 7) (IR 0 0) (IR 1 0) (IR 0 0)
        (SPV_SPIRV_VERSION_WORD 1 0) 0xffffffff \<in> set core_InstructionDesc_1"
  "InD OpINotEqual True True (IR 172 4) (IR 27925 10) (IR 0 0) (IR 1 0) (IR 0 0)
        (SPV_SPIRV_VERSION_WORD 1 0) 0xffffffff \<in> set core_InstructionDesc_1"
  "InD OpULessThan True True (IR 172 4) (IR 27997 10) (IR 0 0) (IR 1 0) (IR 0 0)
        (SPV_SPIRV_VERSION_WORD 1 0) 0xffffffff \<in> set core_InstructionDesc_1"
  "InD OpSLessThan True True (IR 172 4) (IR 28007 10) (IR 0 0) (IR 1 0) (IR 0 0)
        (SPV_SPIRV_VERSION_WORD 1 0) 0xffffffff \<in> set core_InstructionDesc_1"
  "InD OpUGreaterThan True True (IR 172 4) (IR 27935 13) (IR 0 0) (IR 1 0) (IR 0 0)
        (SPV_SPIRV_VERSION_WORD 1 0) 0xffffffff \<in> set core_InstructionDesc_1"
  "InD OpSGreaterThan True True (IR 172 4) (IR 27948 13) (IR 0 0) (IR 1 0) (IR 0 0)
        (SPV_SPIRV_VERSION_WORD 1 0) 0xffffffff \<in> set core_InstructionDesc_1"
  "InD OpULessThanEqual True True (IR 172 4) (IR 28017 15) (IR 0 0) (IR 1 0) (IR 0 0)
        (SPV_SPIRV_VERSION_WORD 1 0) 0xffffffff \<in> set core_InstructionDesc_1"
  "InD OpSLessThanEqual True True (IR 172 4) (IR 28032 15) (IR 0 0) (IR 1 0) (IR 0 0)
        (SPV_SPIRV_VERSION_WORD 1 0) 0xffffffff \<in> set core_InstructionDesc_1"
  "InD OpUGreaterThanEqual True True (IR 172 4) (IR 27961 18) (IR 0 0) (IR 1 0) (IR 0 0)
        (SPV_SPIRV_VERSION_WORD 1 0) 0xffffffff \<in> set core_InstructionDesc_1"
  "InD OpSGreaterThanEqual True True (IR 172 4) (IR 27979 18) (IR 0 0) (IR 1 0) (IR 0 0)
        (SPV_SPIRV_VERSION_WORD 1 0) 0xffffffff \<in> set core_InstructionDesc_1"
  by (simp_all add: core_InstructionDesc_1_def del: One_nat_def)

lemma spec_descs_3:
  "InD OpCooperativeMatrixLengthKHR True True (IR 160 3) (IR 32291 27) (IR 0 0) (IR 239 1)
        (IR 0 0) 0xffffffff 0xffffffff \<in> set core_InstructionDesc_3"
  by (simp_all add: core_InstructionDesc_3_def del: One_nat_def)

lemma spec_descs_4:
  "InD OpCooperativeMatrixLengthNV True True (IR 160 3) (IR 34971 26) (IR 0 0) (IR 259 1)
        (IR 78 1) 0xffffffff 0xffffffff \<in> set core_InstructionDesc_4"
  by (simp_all add: core_InstructionDesc_4_def del: One_nat_def)

lemma spec_descs_listed: "set spec_descs \<subseteq> set core_InstructionDesc"
  by (simp add: spec_descs_def core_InstructionDesc_def spec_descs_0 spec_descs_1 spec_descs_3 spec_descs_4 del: One_nat_def)

lemma InD_opcode: "id_opcode (InD oc hr ht op n a c e mv lv) = oc"
  by (simp add: InD_def)

lemma spec_descs_opcodes: "map id_opcode spec_descs = map fst kOpSpecConstantOpcodes"
  by (simp add: spec_descs_def kOpSpecConstantOpcodes_def InD_opcode)

lemma spec_descs_operation: "list_all spec_operation spec_descs"
  by (simp add: spec_descs_def spec_operation_InD core_spans del: One_nat_def)

lemma spec_constant_entry:
  assumes "lookupSpecConstantOpcode opcode = SPV_SUCCESS"
  obtains d where "LookupOpcode (core_grammar names) opcode = Inr d" "d \<in> set spec_descs"
    "spec_operation d"
proof -
  have "opcode \<in> set (map fst kOpSpecConstantOpcodes)"
    using assms find_key_None [of opcode fst kOpSpecConstantOpcodes]
    by (auto simp: lookupSpecConstantOpcode_def image_iff split: option.splits)
  then obtain d where d: "d \<in> set spec_descs" "id_opcode d = opcode"
    unfolding spec_descs_opcodes [symmetric] by auto
  then have "LookupOpcode (core_grammar names) opcode = Inr d"
    using core_LookupOpcode [of d names] spec_descs_listed by blast
  then show ?thesis using that d spec_descs_operation by (auto simp: list_all_iff)
qed

lemma spec_constant_opcodes_small: "list_all (\<lambda>entry. fst entry \<le> 0x7fffffff) kOpSpecConstantOpcodes"
  by (simp add: kOpSpecConstantOpcodes_def)

lemma spec_constant_opcode_small:
  assumes "lookupSpecConstantOpcode opcode = SPV_SUCCESS"
  shows "opcode \<le> 0x7fffffff"
  using assms find_key_None [of opcode fst kOpSpecConstantOpcodes] spec_constant_opcodes_small
  by (auto simp: lookupSpecConstantOpcode_def list_all_iff split: option.splits)

lemma take_2_eq: "take 2 xs = [a, b] \<Longrightarrow> \<exists>rest. xs = a # b # rest"
  by (cases xs; cases "tl xs") auto

section \<open>A decoration the parser has no case for\<close>




section \<open>Imports in either byte order\<close>

lemma op_import:
  obtains d where "LookupOpcode (core_grammar names) OpExtInstImport = Inr d"
    "InstructionDesc_operands (core_grammar names) d = [SPV_OPERAND_TYPE_RESULT_ID, SPV_OPERAND_TYPE_LITERAL_STRING]"
proof -
  let ?d = "InD OpExtInstImport True False (IR 50 2) (IR 25246 14) (IR 0 0) (IR 1 0) (IR 0 0)
    (SPV_SPIRV_VERSION_WORD 1 0) 0xffffffff"
  have "?d \<in> set core_InstructionDesc_0" by (simp add: core_InstructionDesc_0_def del: One_nat_def)
  then have "?d \<in> set core_InstructionDesc" by (simp add: core_InstructionDesc_def)
  moreover have "id_opcode ?d = OpExtInstImport" by (simp add: InD_def)
  ultimately have "LookupOpcode (core_grammar names) OpExtInstImport = Inr ?d"
    using core_LookupOpcode [of ?d names] by simp
  moreover have "InstructionDesc_operands (core_grammar names) ?d =
      [SPV_OPERAND_TYPE_RESULT_ID, SPV_OPERAND_TYPE_LITERAL_STRING]"
    by (simp add: InstructionDesc_operands_def InD_def core_spans del: One_nat_def)
  ultimately show ?thesis by (rule that)
qed

text \<open>The two operands of an import.\<close>

lemma import_result_operand:
  assumes "parseOperand P off SPV_OPERAND_TYPE_RESULT_ID (st, inst) = Inr (st', inst')"
  shows "st_word_index st' = st_word_index st + 1 \<and> st_words st' = st_words st \<and>
    st_expected_operands st' = st_expected_operands st \<and> pi_opcode inst' = pi_opcode inst"
  using assms
  by (auto simp: parseOperand_def parse_operand_switch_def parse_result_id_def finish_operand_def Let_def
      split: if_splits)

lemma import_string_operand:
  assumes "parseOperand P off SPV_OPERAND_TYPE_LITERAL_STRING (st, inst) = Inr (st', inst')"
    and "pi_opcode inst = 11"
  shows "spvExtInstImportTypeGet (MakeString (drop (st_word_index st) (st_words st))) \<noteq> SPV_EXT_INST_TYPE_NONE \<and>
    st_word_index st' = st_word_index st + (length (MakeString (drop (st_word_index st) (st_words st))) div 4 + 1) \<and>
    st_expected_operands st' = st_expected_operands st"
proof -
  let ?str = "MakeString (drop (st_word_index st) (st_words st))"
  have "take (length (st_words st) - st_word_index st) (drop (st_word_index st) (st_words st)) =
      drop (st_word_index st) (st_words st)" by simp
  moreover have "unat (1 + word_of_nat k :: uint16_t) = Suc k" if "Suc k \<le> 65535" for k
  proof -
    have "unat (word_of_nat (Suc k) :: uint16_t) = Suc k" using that by (simp only: unat_of_nat) (simp add: take_bit_nat_eq_self)
    then show ?thesis by simp
  qed
  ultimately show ?thesis
    using assms
    by (auto simp: parseOperand_def parse_operand_switch_def parse_literal_string_def finish_operand_def Let_def
        split: if_splits)
qed

text \<open>An import that is decoded names a known set by the words as they lie in the module.\<close>

lemma import_decoded:
  assumes decode: "decode_instruction P st = Inr (st', inst)" and "pi_opcode inst = 11"
    and G: "p_grammar P = core_grammar names" and room: "st_word_index st < length (st_words st)"
  shows "\<exists>str. str = MakeString (drop (st_word_index st + 2) (st_words st)) \<and>
    spvExtInstImportTypeGet str \<noteq> SPV_EXT_INST_TYPE_NONE \<and>
    unat (pi_num_words inst) = 2 + (length str div 4 + 1)"
proof -
  let ?off = "st_word_index st" and ?required = "\<lambda>ts. ts = [] \<or> spvOperandIsOptional (last ts)"
  obtain wc opcode where split: "spvOpcodeSplit (peek P st) = (wc, opcode)" by fastforce
  obtain desc st0 inst0 st3 inst3 where loop: "parse_operands_loop P ?off wc st0 inst0 = Inr (st3, inst3)"
    and st0: "st_words st0 = st_words st" "st_word_index st0 = ?off + 1"
      "st_expected_operands st0 = spvPushOperandTypesSpan (InstructionDesc_operands (p_grammar P) desc) []"
    and opcode: "LookupOpcode (p_grammar P) (ucast opcode) = Inr desc" "pi_opcode inst0 = opcode"
    and final: "?required (st_expected_operands st3)" "?off + unat wc = st_word_index st3" "pi_num_words inst = wc"
    using decode
    by (fastforce simp: decode_instruction_def Let_def split split: if_splits sum.splits)
  have "opcode = 11"
    using decode_instruction_reported [OF decode room] split assms(2)
    by (simp add: instruction_reported_def peek_native [OF room])
  then have expected: "st_expected_operands st0 = [SPV_OPERAND_TYPE_LITERAL_STRING, SPV_OPERAND_TYPE_RESULT_ID]"
  proof -
    obtain d where "LookupOpcode (core_grammar names) OpExtInstImport = Inr d"
      "InstructionDesc_operands (core_grammar names) d = [SPV_OPERAND_TYPE_RESULT_ID, SPV_OPERAND_TYPE_LITERAL_STRING]"
      by (rule op_import)
    with opcode(1) st0(3) \<open>opcode = 11\<close> show ?thesis by (simp add: G spvPushOperandTypesSpan_eq)
  qed
  then have expected': "st_expected_operands st0 = [SPV_OPERAND_TYPE_LITERAL_STRING] @ [SPV_OPERAND_TYPE_RESULT_ID]" by simp
  have more: "?off + 1 < ?off + unat wc"
  proof (rule ccontr)
    assume "\<not> ?thesis"
    then have "st3 = st0" using loop st0(2) parse_operands_loop_done [of st0 ?off wc P inst0] by simp
    with final(1) expected show False by (simp add: spvOperandIsOptional_def spvOperandIsVariable_def)
  qed
  obtain st1 inst1 where first: "parseOperand P ?off SPV_OPERAND_TYPE_RESULT_ID
      (st0\<lparr>st_expected_operands := [SPV_OPERAND_TYPE_LITERAL_STRING]\<rparr>, inst0) = Inr (st1, inst1)"
    and loop1: "parse_operands_loop P ?off wc st1 inst1 = Inr (st3, inst3)"
    using loop more [folded st0(2)] expected'
    by (rule parse_operands_loop_next) (simp add: spvExpandOperandSequenceOnce_def)
  note st1 = import_result_operand [OF first]
  then have expected1: "st_expected_operands st1 = [] @ [SPV_OPERAND_TYPE_LITERAL_STRING]" by simp
  have more: "st_word_index st1 < ?off + unat wc"
  proof (rule ccontr)
    assume "\<not> ?thesis"
    then have "st3 = st1" using loop1 parse_operands_loop_done [of st1 ?off wc P inst1] by simp
    with final(1) expected1 show False by (simp add: spvOperandIsOptional_def spvOperandIsVariable_def)
  qed
  obtain st2 inst2 where second: "parseOperand P ?off SPV_OPERAND_TYPE_LITERAL_STRING
      (st1\<lparr>st_expected_operands := []\<rparr>, inst1) = Inr (st2, inst2)"
    and loop2: "parse_operands_loop P ?off wc st2 inst2 = Inr (st3, inst3)"
    using loop1 more expected1
    by (rule parse_operands_loop_next) (simp add: spvExpandOperandSequenceOnce_def)
  have "pi_opcode inst1 = 11" using st1 opcode(2) \<open>opcode = 11\<close> by simp
  note st2 = import_string_operand [OF second this]
  have "\<not> st_word_index st2 < ?off + unat wc"
  proof
    assume less: "st_word_index st2 < ?off + unat wc"
    have "st_expected_operands st2 = []" using st2 by simp
    then have "parse_operands_loop P ?off wc st2 inst2 = Inl SPV_ERROR_INVALID_BINARY"
      using less by (subst parse_operands_loop.simps) simp
    with loop2 show False by simp
  qed
  then have "st3 = st2" using loop2 parse_operands_loop_done [of st2 ?off wc P inst2] by simp
  then show ?thesis using st2 st1 st0(1,2) final(2,3) by simp
qed

definition import_named :: "bool \<Rightarrow> spv_parsed_instruction_t \<Rightarrow> bool" where
  "import_named native inst \<longleftrightarrow>
     (pi_opcode inst = 11 \<longrightarrow>
        (spvExtInstImportTypeGet (MakeString (drop 2 (pi_words inst))) \<noteq> SPV_EXT_INST_TYPE_NONE) = native)"

lemma word_byte_byte_of: "word_byte k w = char_of (unat (byte_of k w))"
proof -
  have "(0xFF :: uint32_t) = mask 8" by (simp add: mask_eq_exp_minus_1)
  then have "drop_bit (8 * k) w AND 0xFF = take_bit 8 (drop_bit (8 * k) w)" by (simp only: take_bit_eq_mask)
  then show ?thesis by (simp only: word_byte_def byte_of_def unsigned_ucast_eq unsigned_take_bit_eq) simp
qed

lemma word_string_swapped: "word_string (swapped w) = rev (word_string w)"
  by (simp add: word_string_def word_byte_byte_of bytes_of_swapped [unfolded One_nat_def])

text \<open>A string of at least four characters in the other byte order begins with these in reverse.\<close>

lemma MakeString_swapped:
  assumes "4 \<le> length (MakeString ws)" "0 < n"
  shows "take 4 (MakeString (map swapped (take n ws))) = rev (take 4 (MakeString ws))"
proof (cases ws)
  case Nil
  with assms(1) show ?thesis by (simp add: MakeString_def)
next
  case (Cons w rest)
  then have "CHR 0x00 \<notin> set (word_string w)" using MakeString_head_zero assms(1) by blast
  moreover from this have "CHR 0x00 \<notin> set (word_string (swapped w))" by (simp add: word_string_swapped)
  ultimately show ?thesis
    using assms(2) by (cases n) (simp_all add: Cons MakeString_head word_string_swapped)
qed

lemma import_named_step:
  assumes decode: "decode_instruction P st = Inr (st', inst)" and G: "p_grammar P = core_grammar names"
    and room: "st_word_index st < length (st_words st)"
    and rec: "recorded host e ws us st" and host: "p_host_order P = host"
  shows "import_named (spvIsHostEndian host e) inst"
  unfolding import_named_def
proof
  assume "pi_opcode inst = 11"
  let ?raw = "drop (st_word_index st + 2) ws"
  let ?n = "length (MakeString ?raw) div 4 + 1"
  have known: "spvExtInstImportTypeGet (MakeString ?raw) \<noteq> SPV_EXT_INST_TYPE_NONE"
    and n: "unat (pi_num_words inst) = 2 + ?n"
    using import_decoded [OF decode \<open>pi_opcode inst = 11\<close> G room] rec by (auto simp: recorded_def)
  have "drop 2 (pi_words inst) = take ?n (map (\<lambda>w. spvFixWord host w e) ?raw)"
    unfolding recorded_reported_words [OF rec host decode_instruction_reported [OF decode room]] n
    by (simp only: drop_take drop_drop drop_map) (simp add: add.commute)
  then have words: "drop 2 (pi_words inst) = (if spvIsHostEndian host e then take ?n ?raw else map swapped (take ?n ?raw))"
    using rec by (simp add: recorded_def spvFixWord_swapped take_map)
  show "(spvExtInstImportTypeGet (MakeString (drop 2 (pi_words inst))) \<noteq> SPV_EXT_INST_TYPE_NONE) =
      spvIsHostEndian host e"
  proof (cases "spvIsHostEndian host e")
    case True
    then show ?thesis using known words by (simp add: MakeString_take del: One_nat_def Suc_eq_plus1_left add_Suc_right)
  next
    case False
    have "take 4 (MakeString (map swapped (take ?n ?raw))) = rev (take 4 (MakeString ?raw))"
      using known_set_long [OF known] by (intro MakeString_swapped) simp_all
    from known_set_reversed [OF known this] False words show ?thesis by simp
  qed
qed

interpretation import_order: instruction_invariant "recorder (core_grammar names) host"
  "\<lambda>us st. recorded host e ws us st \<and> list_all (import_named (spvIsHostEndian host e)) us"
  for names host e ws
  by unfold_locales (auto simp: recorder_def recorded_step intro: import_named_step)

text \<open>A module in the other byte order whose import is accepted: its raw words are \<open>GLSL.std.450\<close>.\<close>

definition mirrored_import :: "uint32_t list" where
  "mirrored_import = [0x03022307, 0x00000100, 0, 0x02000000, 0, 0x0b000600, 0x01000000,
     0x4c534c47, 0x6474732e, 0x3035342e, 0]"

lemma mirrored_header:
  "spvBinaryEndianness I32_ENDIAN_LITTLE (Some mirrored_import) False = Inr SPV_ENDIANNESS_BIG"
  "spvFixWord I32_ENDIAN_LITTLE (mirrored_import ! 1) SPV_ENDIANNESS_BIG = 0x10000"
  by code_simp+

lemma mirrored_words:
  "spvFixWord I32_ENDIAN_LITTLE 0x0b000600 SPV_ENDIANNESS_BIG = 0x0006000b"
  "spvFixWord I32_ENDIAN_LITTLE 0x01000000 SPV_ENDIANNESS_BIG = 1"
  "spvFixWord I32_ENDIAN_LITTLE 0x4c534c47 SPV_ENDIANNESS_BIG = 0x474c534c"
  "spvFixWord I32_ENDIAN_LITTLE 0x6474732e SPV_ENDIANNESS_BIG = 0x2e737464"
  "spvFixWord I32_ENDIAN_LITTLE 0x3035342e SPV_ENDIANNESS_BIG = 0x2e343530"
  "spvFixWord I32_ENDIAN_LITTLE 0 SPV_ENDIANNESS_BIG = 0"
  by code_simp+

lemma mirrored_strings:
  "MakeString [0x4c534c47, 0x6474732e, 0x3035342e, 0] = ''GLSL.std.450''"
  "MakeString [0x474c534c, 0x2e737464, 0x2e343530, 0] = ''LSLGdts.054.''"
  "spvExtInstImportTypeGet ''GLSL.std.450'' = SPV_EXT_INST_TYPE_GLSL_STD_450"
  by code_simp+

lemma mirrored_decode:
  "\<exists>st inst. decode_instruction (recorder (core_grammar names) I32_ENDIAN_LITTLE)
      (module_start I32_ENDIAN_LITTLE SPV_ENDIANNESS_BIG mirrored_import) = Inr (st, inst) \<and>
    st_word_index st = 11 \<and> st_words st = mirrored_import \<and> pi_opcode inst = 11 \<and>
    drop 2 (pi_words inst) = [0x474c534c, 0x2e737464, 0x2e343530, 0]"
proof -
  obtain desc where desc: "LookupOpcode (core_grammar names) OpExtInstImport = Inr desc"
    "InstructionDesc_operands (core_grammar names) desc = [SPV_OPERAND_TYPE_RESULT_ID, SPV_OPERAND_TYPE_LITERAL_STRING]"
    by (rule op_import)
  have "spvOpcodeSplit 0x0006000b = (6, 11)" by (simp add: spvOpcodeSplit_def)
  then show ?thesis
    by (simp add: run_decode desc recorder_def mirrored_import_def mirrored_words)
      (simp add: run_operands parse_result_id_def parse_literal_string_def mirrored_strings mirrored_words)
qed

lemma mirrored_parse:
  "\<exists>inst. spvBinaryParse (core_grammar names) I32_ENDIAN_LITTLE [] (Some mirrored_import) None
      (Some (\<lambda>us inst. (us @ [inst], SPV_SUCCESS))) = ([inst], SPV_SUCCESS) \<and>
    pi_opcode inst = 11 \<and> drop 2 (pi_words inst) = [0x474c534c, 0x2e737464, 0x2e343530, 0]"
proof -
  obtain st inst where st: "decode_instruction (recorder (core_grammar names) I32_ENDIAN_LITTLE)
      (module_start I32_ENDIAN_LITTLE SPV_ENDIANNESS_BIG mirrored_import) = Inr (st, inst)"
    "st_word_index st = 11" "st_words st = mirrored_import" "pi_opcode inst = 11"
    "drop 2 (pi_words inst) = [0x474c534c, 0x2e737464, 0x2e343530, 0]" using mirrored_decode by blast
  then have "parseModule (recorder (core_grammar names) I32_ENDIAN_LITTLE) [] (Some mirrored_import) = ([inst], SPV_SUCCESS)"
    using mirrored_header version_1_0
    by (intro parse_single) (assumption | simp add: mirrored_import_def del: One_nat_def)+
  with st(4,5) show ?thesis unfolding recorder_parse by blast
qed

section \<open>Properties\<close>

text \<open>C25: the lookups by number in the shipped tables are exact: an instruction, an operand of a
  type or an extended instruction of a set is found if and only if the table has an entry with its
  number in the range of its kind, and the entry found is that entry.\<close>

theorem core_lookups:
  "(LookupOpcode (core_grammar names) opcode = Inr d) =
     (d \<in> set core_InstructionDesc \<and> id_opcode d = opcode) \<and>
   (LookupOperand (core_grammar names) type value = Inr od) =
     (od \<in> set (ir_apply (core_OperandByValueRangeForKind type) core_OperandsByValue) \<and>
      od_value od = value) \<and>
   (LookupExtInst (core_grammar names) ext_type number = Inr ed) =
     (ed \<in> set (ir_apply (core_ExtInstByValueRangeForKind ext_type) core_ExtInstByValue) \<and>
      ed_value ed = number)"
proof (intro conjI)
  show "(LookupOpcode (core_grammar names) opcode = Inr d) =
      (d \<in> set core_InstructionDesc \<and> id_opcode d = opcode)"
    using core_LookupOpcode_Inr core_LookupOpcode by blast
  show "(LookupOperand (core_grammar names) type value = Inr od) =
      (od \<in> set (ir_apply (core_OperandByValueRangeForKind type) core_OperandsByValue) \<and>
       od_value od = value)"
    using values_ok_LookupOperand [OF core_values_ok [of names], of "value" "type"] core_LookupOperand
    by auto
  show "(LookupExtInst (core_grammar names) ext_type number = Inr ed) =
      (ed \<in> set (ir_apply (core_ExtInstByValueRangeForKind ext_type) core_ExtInstByValue) \<and>
       ed_value ed = number)"
    using values_ok_LookupExtInst [OF core_values_ok [of names], of number ext_type] core_LookupExtInst
    by auto
qed

text \<open>C27: an instruction found in the shipped tables has its type id as its first operand if it
  has a type, then its result id if it has a result, and neither kind of id anywhere else, as the
  parser needs to know the type of a result before it records it.\<close>

theorem core_ids_come_first:
  "case LookupOpcode (core_grammar names) opcode of
     Inl error \<Rightarrow> opcode \<notin> id_opcode ` set core_InstructionDesc
   | Inr d \<Rightarrow>
       (let operands = InstructionDesc_operands (core_grammar names) d;
            ids = (if id_hasType d then [SPV_OPERAND_TYPE_TYPE_ID] else []) @
                  (if id_hasResult d then [SPV_OPERAND_TYPE_RESULT_ID] else [])
        in take (length ids) operands = ids \<and>
           list_all (\<lambda>t. t \<noteq> SPV_OPERAND_TYPE_TYPE_ID \<and> t \<noteq> SPV_OPERAND_TYPE_RESULT_ID)
             (drop (length ids) operands))"
proof (cases "LookupOpcode (core_grammar names) opcode")
  case (Inl error)
  then show ?thesis using values_ok_LookupOpcode [OF core_values_ok [of names], of opcode] by simp
next
  case (Inr d)
  then have "ids_first d" using core_LookupOpcode_Inr core_ids_first by (auto simp: list_all_iff)
  then show ?thesis by (simp add: Inr ids_first_def InstructionDesc_operands_def)
qed

text \<open>C15: every opcode that \<open>lookupSpecConstantOpcode\<close> accepts is an instruction of the shipped
  tables with a type and a result, whose operands start with the two ids, so the parser never
  reports the internal error of \<open>OpSpecConstantOp\<close> and the operands it expects next are exactly those
  of the operation behind its two ids.\<close>

theorem core_spec_constants:
  assumes "lookupSpecConstantOpcode opcode = SPV_SUCCESS"
  shows "\<exists>d rest. LookupOpcode (core_grammar names) opcode = Inr d \<and> id_hasType d \<and> id_hasResult d \<and>
    InstructionDesc_operands (core_grammar names) d =
      SPV_OPERAND_TYPE_TYPE_ID # SPV_OPERAND_TYPE_RESULT_ID # rest \<and>
    parse_spec_constant_op (core_grammar names) opcode (st, inst, po) =
      Inr (st\<lparr>st_expected_operands := spvPushOperandTypesSpan rest (st_expected_operands st)\<rparr>, inst, po)"
proof -
  obtain d where d: "LookupOpcode (core_grammar names) opcode = Inr d" "spec_operation d"
    using assms by (rule spec_constant_entry)
  then obtain rest where "InstructionDesc_operands (core_grammar names) d =
      SPV_OPERAND_TYPE_TYPE_ID # SPV_OPERAND_TYPE_RESULT_ID # rest"
    by (auto simp: spec_operation_def InstructionDesc_operands_def dest!: take_2_eq)
  with d show ?thesis using assms spec_constant_opcode_small [OF assms]
    by (intro exI [of _ d] exI [of _ rest])
      (auto simp: parse_spec_constant_op_def spec_operation_def)
qed

theorem core_spec_constants_witness:
  "\<exists>d rest. LookupOpcode (core_grammar small_grammar) OpIAdd = Inr d \<and> id_hasType d \<and> id_hasResult d \<and>
    InstructionDesc_operands (core_grammar small_grammar) d =
      SPV_OPERAND_TYPE_TYPE_ID # SPV_OPERAND_TYPE_RESULT_ID # rest \<and>
    parse_spec_constant_op (core_grammar small_grammar) OpIAdd (initial_State [], small_instruction,
        small_operand 1 SPV_OPERAND_TYPE_RESULT_ID SPV_NUMBER_NONE 0) =
      Inr ((initial_State [])\<lparr>st_expected_operands := spvPushOperandTypesSpan rest (st_expected_operands (initial_State []))\<rparr>,
        small_instruction, small_operand 1 SPV_OPERAND_TYPE_RESULT_ID SPV_NUMBER_NONE 0)"
  using core_spec_constants [of OpIAdd small_grammar "initial_State []" small_instruction
      "small_operand 1 SPV_OPERAND_TYPE_RESULT_ID SPV_NUMBER_NONE 0"]
  by (simp add: lookupSpecConstantOpcode_def kOpSpecConstantOpcodes_def)


text \<open>C11: strings are decoded from the words as they lie in the module, whatever its byte order. So the
  imports that a parse reports are of known instruction sets when the module is in the byte order of the host,
  and never when it is in the other one: there every import of a known set ends the parse with an
  error, as the name that is looked up has the characters of each word in reverse.\<close>

theorem imports_by_byte_order:
  assumes "host \<in> {I32_ENDIAN_LITTLE, I32_ENDIAN_BIG}"
    and "spvBinaryEndianness host (Some ws) False = Inr e"
    and "spvBinaryParse (core_grammar names) host [] (Some ws) None
      (Some (\<lambda>us inst. (us @ [inst], SPV_SUCCESS))) = (insts, result)"
    and "inst \<in> set insts" "pi_opcode inst = 11"
  shows "(spvExtInstImportTypeGet (MakeString (drop 2 (pi_words inst))) \<noteq> SPV_EXT_INST_TYPE_NONE) =
    spvIsHostEndian host e"
proof -
  have "5 \<le> length ws \<and> loop_outcome (parse_instructions_loop (recorder (core_grammar names) host) []
      (module_start host e ws)) = (insts, result)"
    using recorder_reached [OF assms(3,2)] assms(4) by (cases insts) simp_all
  then have "list_all (import_named (spvIsHostEndian host e)) insts"
    using import_order.outcome [of host e ws "[]" "module_start host e ws" names insts result] recorded_start [OF assms(1)]
    by auto
  with assms(4,5) show ?thesis by (auto simp: list_all_iff import_named_def)
qed

text \<open>The import of a name that is not a set and is read as one.\<close>

theorem imports_by_byte_order_witness:
  "\<exists>inst. spvBinaryParse (core_grammar small_grammar) I32_ENDIAN_LITTLE [] (Some mirrored_import) None
      (Some (\<lambda>us inst. (us @ [inst], SPV_SUCCESS))) = ([inst], SPV_SUCCESS) \<and>
    MakeString (drop 2 (pi_words inst)) = ''LSLGdts.054.'' \<and>
    spvExtInstImportTypeGet ''LSLGdts.054.'' = SPV_EXT_INST_TYPE_NONE"
proof -
  obtain inst where inst: "spvBinaryParse (core_grammar small_grammar) I32_ENDIAN_LITTLE [] (Some mirrored_import) None
      (Some (\<lambda>us inst. (us @ [inst], SPV_SUCCESS))) = ([inst], SPV_SUCCESS)"
    "pi_opcode inst = 11" "drop 2 (pi_words inst) = [0x474c534c, 0x2e737464, 0x2e343530, 0]"
    using mirrored_parse by blast
  then show ?thesis
    using imports_by_byte_order [OF _ mirrored_header(1) inst(1)] mirrored_strings(2) by simp
qed

end
