(* ===== verification/String_Piece.thy ===== *)
theory String_Piece
  imports Prelude "HOL-Library.Sublist"
begin

text \<open>
  \<open>src/ShaderCompiler/include/libshaderc_util/string_piece.h\<close>. A piece is the text it views; the
  piece of two null pointers and an empty piece behave alike in every operation, so both are the
  empty string. \<open>npos\<close> is \<open>None\<close>. A position is an index into the piece.
\<close>

section \<open>Parts\<close>

text \<open>\<open>substr\<close> asserts \<open>pos + len \<le> size()\<close> for a given \<open>len\<close>.\<close>

definition sp_substr :: "string \<Rightarrow> nat \<Rightarrow> nat option \<Rightarrow> string" where
  "sp_substr s pos len =
     (case len of None \<Rightarrow> drop pos s | Some n \<Rightarrow> take n (drop pos s))"

section \<open>Searches\<close>

text \<open>The loops of the searches: \<open>i\<close> is the index of the first character of the rest.\<close>

fun scan :: "(char \<Rightarrow> bool) \<Rightarrow> nat \<Rightarrow> string \<Rightarrow> nat option" where
  "scan P i [] = None"
| "scan P i (c # cs) = (if P c then Some i else scan P (Suc i) cs)"

definition find_first_not_matching :: "string \<Rightarrow> (char \<Rightarrow> bool) \<Rightarrow> nat option" where
  "find_first_not_matching s callee = scan (\<lambda>c. \<not> callee c) 0 s"

definition find_first_of :: "string \<Rightarrow> string \<Rightarrow> nat \<Rightarrow> nat option" where
  "find_first_of s to_search pos =
     (if pos \<ge> length s then None else scan (\<lambda>c. c \<in> set to_search) pos (drop pos s))"

definition find_first_not_of :: "string \<Rightarrow> string \<Rightarrow> nat \<Rightarrow> nat option" where
  "find_first_not_of s to_search pos =
     (if pos \<ge> length s then None
      else scan (\<lambda>c. find_first_of to_search [c] 0 = None) pos (drop pos s))"

text \<open>
  The searches from the right start at \<open>begin_ + pos + 1\<close> and step back before they read, so with
  \<open>pos\<close> at \<open>size()\<close>, which is what \<open>npos\<close> becomes, the first character they read is the one behind the
  piece; it is the argument \<open>behind\<close>.
\<close>

fun scan_back :: "(char \<Rightarrow> bool) \<Rightarrow> string \<Rightarrow> nat \<Rightarrow> nat option" where
  "scan_back P s 0 = (if P (s ! 0) then Some 0 else None)"
| "scan_back P s (Suc i) = (if P (s ! Suc i) then Some (Suc i) else scan_back P s i)"

definition find_last_of :: "char \<Rightarrow> string \<Rightarrow> string \<Rightarrow> nat option \<Rightarrow> nat option" where
  "find_last_of behind s to_search pos =
     (if s = [] then None
      else
        let pos = (case pos of None \<Rightarrow> length s | Some p \<Rightarrow> if p \<ge> length s then length s else p)
        in scan_back (\<lambda>c. find_first_of to_search [c] 0 \<noteq> None) (s @ [behind]) pos)"

definition find_last_not_of :: "char \<Rightarrow> string \<Rightarrow> string \<Rightarrow> nat option \<Rightarrow> nat option" where
  "find_last_not_of behind s to_search pos =
     (if s = [] then None
      else
        let pos = (case pos of None \<Rightarrow> length s | Some p \<Rightarrow> if p \<ge> length s then length s else p)
        in scan_back (\<lambda>c. find_first_of to_search [c] 0 = None) (s @ [behind]) pos)"

section \<open>Stripping\<close>

definition lstrip :: "string \<Rightarrow> string \<Rightarrow> string" where
  "lstrip s chars_to_strip = dropWhile (\<lambda>c. find_first_of chars_to_strip [c] 0 \<noteq> None) s"

definition rstrip :: "string \<Rightarrow> string \<Rightarrow> string" where
  "rstrip s chars_to_strip = rev (dropWhile (\<lambda>c. find_first_of chars_to_strip [c] 0 \<noteq> None) (rev s))"

definition strip :: "string \<Rightarrow> string \<Rightarrow> string" where
  "strip s chars_to_strip = rstrip (lstrip s chars_to_strip) chars_to_strip"

definition whitespace :: string where
  "whitespace = [CHR '' '', CHR 0x09, CHR 0x0A, CHR 0x0D, CHR 0x0C, CHR 0x0B]"

definition strip_whitespace :: "string \<Rightarrow> string" where
  "strip_whitespace s = strip s whitespace"

section \<open>Comparisons\<close>

fun sp_starts_with :: "string \<Rightarrow> string \<Rightarrow> bool" where
  "sp_starts_with (c # cs) (d # ds) = (c = d \<and> sp_starts_with cs ds)"
| "sp_starts_with _ other = (other = [])"

text \<open>\<open>find\<close> tries the positions from \<open>pos\<close> on as long as the rest is as long as the text sought.\<close>

fun find_loop :: "string \<Rightarrow> nat \<Rightarrow> string \<Rightarrow> nat option" where
  "find_loop sub i [] = (if length sub \<le> 0 then Some i else None)"
| "find_loop sub i (c # cs) =
     (if length sub \<le> length (c # cs) then
        if sp_starts_with (c # cs) sub then Some i else find_loop sub (Suc i) cs
      else None)"

definition sp_find :: "string \<Rightarrow> string \<Rightarrow> nat \<Rightarrow> nat option" where
  "sp_find s sub pos =
     (if s = [] then None
      else if pos \<ge> length s then None
      else if sub = [] then Some 0
      else find_loop sub pos (drop pos s))"

section \<open>Fields\<close>

lemma scan_Some_bounds: "scan P i s = Some j \<Longrightarrow> i \<le> j \<and> j < i + length s"
proof (induction s arbitrary: i)
  case (Cons c s)
  show ?case
  proof (cases "P c")
    case False
    with Cons.prems have "scan P (Suc i) s = Some j" by simp
    from Cons.IH [OF this] show ?thesis by simp
  qed (use Cons.prems in simp)
qed simp

lemma find_first_of_bounds: "find_first_of s cs pos = Some j \<Longrightarrow> pos \<le> j \<and> j < length s"
  by (auto simp: find_first_of_def dest!: scan_Some_bounds split: if_splits)

function fields_loop :: "string \<Rightarrow> char \<Rightarrow> bool \<Rightarrow> nat \<Rightarrow> string list" where
  "fields_loop s delimiter keep_delimiter first =
     (case find_first_of s [delimiter] first of
        Some field_break \<Rightarrow>
          sp_substr s first (Some (field_break - first + (if keep_delimiter then 1 else 0))) #
          fields_loop s delimiter keep_delimiter (field_break + 1)
      | None \<Rightarrow>
          if length s - first > 0 then [sp_substr s first (Some (length s - first))] else [])"
  by pat_completeness auto
termination
  by (relation "measure (\<lambda>(s, d, k, first). length s - first)")
    (auto dest: find_first_of_bounds)

declare fields_loop.simps [simp del]

definition get_fields :: "string \<Rightarrow> char \<Rightarrow> bool \<Rightarrow> string list" where
  "get_fields s delimiter keep_delimiter = fields_loop s delimiter keep_delimiter 0"

section \<open>The searches\<close>

lemma scan_takeWhile:
  "scan P i s = (if list_ex P s then Some (i + length (takeWhile (\<lambda>c. \<not> P c) s)) else None)"
  by (induction s arbitrary: i) auto

lemma find_first_of_char [simp]: "find_first_of to_search [c] 0 = None \<longleftrightarrow> c \<notin> set to_search"
  by (cases to_search) (auto simp: find_first_of_def scan_takeWhile list_ex_iff)

lemma scan_Some_iff:
  "scan P i s = Some j \<longleftrightarrow> i \<le> j \<and> j - i < length s \<and> P (s ! (j - i)) \<and> (\<forall>k < j - i. \<not> P (s ! k))"
proof (induction s arbitrary: i)
  case (Cons c s)
  show ?case
  proof (cases "P c")
    case True
    then show ?thesis by (cases "j - i") force+
  next
    case False
    then have "scan P i (c # s) = Some j \<longleftrightarrow> scan P (Suc i) s = Some j" by simp
    also have "\<dots> \<longleftrightarrow> Suc i \<le> j \<and> j - Suc i < length s \<and> P (s ! (j - Suc i)) \<and> (\<forall>k < j - Suc i. \<not> P (s ! k))"
      by (rule Cons.IH)
    also have "\<dots> \<longleftrightarrow> i \<le> j \<and> j - i < length (c # s) \<and> P ((c # s) ! (j - i)) \<and> (\<forall>k < j - i. \<not> P ((c # s) ! k))"
    proof (cases "Suc i \<le> j")
      case True
      then have "j - i = Suc (j - Suc i)" by simp
      then show ?thesis using True False by (simp add: All_less_Suc2)
    next
      case no: False
      then have "j - i = 0" by simp
      then show ?thesis using no False by simp
    qed
    finally show ?thesis .
  qed
qed simp

lemma scan_None_iff: "scan P i s = None \<longleftrightarrow> list_all (\<lambda>c. \<not> P c) s"
  by (induction s arbitrary: i) auto

lemma scan_drop_Some:
  "scan P p (drop p s) = Some j \<longleftrightarrow> p \<le> j \<and> j < length s \<and> P (s ! j) \<and> (\<forall>i. p \<le> i \<and> i < j \<longrightarrow> \<not> P (s ! i))"
proof
  assume "scan P p (drop p s) = Some j"
  then have "p \<le> j" "j < length s" "P (s ! j)" and no: "\<And>k. k < j - p \<Longrightarrow> \<not> P (drop p s ! k)"
    by (auto simp: scan_Some_iff)
  moreover have "\<not> P (s ! i)" if "p \<le> i \<and> i < j" for i
    using no [of "i - p"] that \<open>j < length s\<close> by (simp add: diff_less_mono)
  ultimately show "p \<le> j \<and> j < length s \<and> P (s ! j) \<and> (\<forall>i. p \<le> i \<and> i < j \<longrightarrow> \<not> P (s ! i))" by blast
qed (auto simp: scan_Some_iff)

lemma find_first_of_Some:
  "find_first_of s cs p = Some j \<longleftrightarrow> p \<le> j \<and> j < length s \<and> s ! j \<in> set cs \<and>
    (\<forall>i. p \<le> i \<and> i < j \<longrightarrow> s ! i \<notin> set cs)"
  unfolding find_first_of_def by (auto simp: scan_drop_Some)

lemma find_first_of_None:
  "find_first_of s cs p = None \<longleftrightarrow> (\<forall>i. p \<le> i \<and> i < length s \<longrightarrow> s ! i \<notin> set cs)"
proof -
  have "list_all (\<lambda>c. c \<notin> set cs) (drop p s) \<longleftrightarrow> (\<forall>i. p \<le> i \<and> i < length s \<longrightarrow> s ! i \<notin> set cs)"
  proof
    assume all: "list_all (\<lambda>c. c \<notin> set cs) (drop p s)"
    show "\<forall>i. p \<le> i \<and> i < length s \<longrightarrow> s ! i \<notin> set cs"
    proof (intro allI impI)
      fix i assume i: "p \<le> i \<and> i < length s"
      then have "drop p s ! (i - p) \<in> set (drop p s)" by (intro nth_mem) (simp add: diff_less_mono)
      with all i show "s ! i \<notin> set cs" by (auto simp: list_all_iff)
    qed
  qed (auto simp: list_all_length)
  then show ?thesis by (auto simp: find_first_of_def scan_None_iff)
qed

lemma find_first_not_of_Some:
  "find_first_not_of s cs p = Some j \<longleftrightarrow> p \<le> j \<and> j < length s \<and> s ! j \<notin> set cs \<and>
    (\<forall>i. p \<le> i \<and> i < j \<longrightarrow> s ! i \<in> set cs)"
  unfolding find_first_not_of_def by (auto simp: scan_drop_Some)

lemma find_first_of_single:
  "find_first_of s [d] pos = (if d \<in> set (drop pos s)
     then Some (pos + length (takeWhile (\<lambda>c. c \<noteq> d) (drop pos s))) else None)"
  by (auto simp: find_first_of_def scan_takeWhile list_ex_iff)

lemma sp_starts_with_prefix: "sp_starts_with s p \<longleftrightarrow> prefix p s"
  by (induction s p rule: sp_starts_with.induct) auto

lemma sp_substr_all: "sp_substr s pos None = drop pos s"
  by (simp add: sp_substr_def)

lemma sp_substr_len: "sp_substr s pos (Some n) = take n (drop pos s)"
  by (simp add: sp_substr_def)

lemma lstrip_dropWhile: "lstrip s cs = dropWhile (\<lambda>c. c \<in> set cs) s"
  by (simp add: lstrip_def)

lemma rstrip_dropWhile: "rstrip s cs = rev (dropWhile (\<lambda>c. c \<in> set cs) (rev s))"
  by (simp add: rstrip_def)

lemma rstrip_last: "rstrip s cs \<noteq> [] \<Longrightarrow> last (rstrip s cs) \<notin> set cs"
  using hd_dropWhile [of "\<lambda>c. c \<in> set cs" "rev s"]
  by (auto simp: rstrip_dropWhile last_rev dropWhile_eq_Nil_conv)

lemma strip_last: "strip s cs \<noteq> [] \<Longrightarrow> last (strip s cs) \<notin> set cs"
  by (simp add: strip_def rstrip_last)

section \<open>Fields as a recursion on the text\<close>

lemma dropWhile_found: "d \<in> set s \<Longrightarrow> dropWhile (\<lambda>c. c \<noteq> d) s = d # tl (dropWhile (\<lambda>c. c \<noteq> d) s)"
  by (induction s) auto

lemma split_found:
  assumes "d \<in> set s"
  shows "takeWhile (\<lambda>c. c \<noteq> d) s @ d # tl (dropWhile (\<lambda>c. c \<noteq> d) s) = s"
  unfolding dropWhile_found [OF assms, symmetric] by simp

function split_fields :: "char \<Rightarrow> bool \<Rightarrow> string \<Rightarrow> string list" where
  "split_fields d keep s =
     (if s = [] then []
      else if d \<in> set s then
        (takeWhile (\<lambda>c. c \<noteq> d) s @ (if keep then [d] else [])) #
        split_fields d keep (tl (dropWhile (\<lambda>c. c \<noteq> d) s))
      else [s])"
  by pat_completeness auto
termination
proof (relation "measure (\<lambda>(d, k, s). length s)")
  fix d and keep :: bool and s :: string
  assume "s \<noteq> []"
  then have "length (tl (dropWhile (\<lambda>c. c \<noteq> d) s)) < length s"
    using length_dropWhile_le [of "\<lambda>c. c \<noteq> d" s] by (cases s) auto
  then show "((d, keep, tl (dropWhile (\<lambda>c. c \<noteq> d) s)), (d, keep, s)) \<in> measure (\<lambda>(d, k, s). length s)"
    by simp
qed simp

declare split_fields.simps [simp del]

lemma fields_loop_split: "fields_loop s d keep first = split_fields d keep (drop first s)"
proof (induction s d keep first rule: fields_loop.induct)
  case (1 s d keep first)
  let ?r = "drop first s"
  show ?case
  proof (cases "d \<in> set ?r")
    case True
    let ?k = "length (takeWhile (\<lambda>c. c \<noteq> d) ?r)"
    have found: "find_first_of s [d] first = Some (first + ?k)" using True by (simp add: find_first_of_single)
    have split: "takeWhile (\<lambda>c. c \<noteq> d) ?r @ d # tl (dropWhile (\<lambda>c. c \<noteq> d) ?r) = ?r"
      using True by (rule split_found)
    have "drop (?k + 1) (takeWhile (\<lambda>c. c \<noteq> d) ?r @ d # tl (dropWhile (\<lambda>c. c \<noteq> d) ?r)) =
        tl (dropWhile (\<lambda>c. c \<noteq> d) ?r)" by simp
    then have rest: "drop (first + ?k + 1) s = tl (dropWhile (\<lambda>c. c \<noteq> d) ?r)"
      unfolding split by (simp add: ac_simps)
    have "take (?k + n) (takeWhile (\<lambda>c. c \<noteq> d) ?r @ d # tl (dropWhile (\<lambda>c. c \<noteq> d) ?r)) =
        takeWhile (\<lambda>c. c \<noteq> d) ?r @ take n (d # tl (dropWhile (\<lambda>c. c \<noteq> d) ?r))" for n
      by simp
    then have field: "take (?k + n) ?r =
        takeWhile (\<lambda>c. c \<noteq> d) ?r @ take n (d # tl (dropWhile (\<lambda>c. c \<noteq> d) ?r))" for n
      unfolding split .
    from True have "?r \<noteq> []" by auto
    then show ?thesis
      using 1 [OF found] rest field [of 0] field [of 1] True found
      by (subst fields_loop.simps, subst split_fields.simps) (simp add: sp_substr_len)
  next
    case False
    then have "find_first_of s [d] first = None" by (simp add: find_first_of_single)
    then show ?thesis using False
      by (subst fields_loop.simps, subst split_fields.simps) (auto simp: sp_substr_len)
  qed
qed

lemma get_fields_split: "get_fields s d keep = split_fields d keep s"
  by (simp add: get_fields_def fields_loop_split)

lemma concat_split_fields: "concat (split_fields d True s) = s"
proof (induction d True s rule: split_fields.induct)
  case (1 d s)
  show ?case
  proof (cases "d \<in> set s")
    case True
    then have "takeWhile (\<lambda>c. c \<noteq> d) s @ d # tl (dropWhile (\<lambda>c. c \<noteq> d) s) = s" by (rule split_found)
    with 1 True show ?thesis by (subst split_fields.simps) auto
  qed (subst split_fields.simps, simp)
qed

lemma split_fields_free: "f \<in> set (split_fields d False s) \<Longrightarrow> d \<notin> set f"
proof (induction d False s arbitrary: f rule: split_fields.induct)
  case (1 d s)
  show ?case
  proof (cases "d \<in> set s")
    case True
    then have "split_fields d False s =
        takeWhile (\<lambda>c. c \<noteq> d) s # split_fields d False (tl (dropWhile (\<lambda>c. c \<noteq> d) s))"
      by (subst split_fields.simps) auto
    moreover from True have "s \<noteq> []" by auto
    ultimately show ?thesis using 1 True by (auto dest: set_takeWhileD)
  next
    case False
    then have "split_fields d False s = (if s = [] then [] else [s])" by (subst split_fields.simps) auto
    with 1 False show ?thesis by (auto split: if_splits)
  qed
qed

lemma split_fields_keep: "split_fields d False s = map (takeWhile (\<lambda>c. c \<noteq> d)) (split_fields d True s)"
proof (induction d True s rule: split_fields.induct)
  case (1 d s)
  have "takeWhile (\<lambda>c. c \<noteq> d) (takeWhile (\<lambda>c. c \<noteq> d) s @ [d]) = takeWhile (\<lambda>c. c \<noteq> d) s"
    by (induction s) auto
  moreover have "s = takeWhile (\<lambda>c. c \<noteq> d) s" if "d \<notin> set s" using that by (induction s) auto
  ultimately show ?case
    using 1 by (subst split_fields.simps, subst (2) split_fields.simps) auto
qed

text \<open>A search from the right without a position finds the character behind the piece.\<close>

lemma find_last_of_behind: "find_last_of c (x # s) [c] None = Some (length (x # s))"
  by (simp add: find_last_of_def nth_append)

section \<open>Properties\<close>

text \<open>Splitting a text at a delimiter loses nothing: the fields with their delimiters put together
  are the text, the fields without delimiters are the same fields up to the first delimiter, and
  none of those contains one.\<close>

theorem get_fields_roundtrip:
  "concat (get_fields s d True) = s \<and>
   get_fields s d False = map (takeWhile (\<lambda>c. c \<noteq> d)) (get_fields s d True) \<and>
   list_all (\<lambda>f. d \<notin> set f) (get_fields s d False)"
  using concat_split_fields split_fields_keep split_fields_free
  by (auto simp: get_fields_split list_all_iff)

end
