(* ===== verification/Version_Profile.thy ===== *)
theory Version_Profile
  imports String_Piece Str_Utils
begin

text \<open>
  Versions, profiles and stages: \<open>version_profile.h\<close>, \<open>version_profile.cc\<close> and \<open>shader_stage.cc\<close> of
  \<open>libshaderc_util\<close>, with the enumerations of glslang they store.
\<close>

section \<open>Stages\<close>

text \<open>
  \<open>EShLanguage\<close> of \<open>glslang/Public/ShaderLang.h\<close>; the enumerators with \<open>NV\<close> are the same values.
  \<open>EShLangCount\<close> stands for no stage.
\<close>

datatype EShLanguage = EShLangVertex | EShLangTessControl | EShLangTessEvaluation | EShLangGeometry
  | EShLangFragment | EShLangCompute | EShLangRayGen | EShLangIntersect | EShLangAnyHit
  | EShLangClosestHit | EShLangMiss | EShLangCallable | EShLangTask | EShLangMesh | EShLangCount

definition EShLanguage_list :: "EShLanguage list" where
  "EShLanguage_list = [EShLangVertex, EShLangTessControl, EShLangTessEvaluation, EShLangGeometry,
     EShLangFragment, EShLangCompute, EShLangRayGen, EShLangIntersect, EShLangAnyHit,
     EShLangClosestHit, EShLangMiss, EShLangCallable, EShLangTask, EShLangMesh]"

definition string_to_stage :: "(string \<times> EShLanguage) list" where
  "string_to_stage =
     [(''vertex'', EShLangVertex), (''fragment'', EShLangFragment),
      (''tesscontrol'', EShLangTessControl), (''tesseval'', EShLangTessEvaluation),
      (''geometry'', EShLangGeometry), (''compute'', EShLangCompute), (''raygen'', EShLangRayGen),
      (''intersect'', EShLangIntersect), (''anyhit'', EShLangAnyHit),
      (''closest'', EShLangClosestHit), (''miss'', EShLangMiss), (''callable'', EShLangCallable),
      (''task'', EShLangTask), (''mesh'', EShLangMesh)]"

definition MapStageNameToLanguage :: "string \<Rightarrow> EShLanguage" where
  "MapStageNameToLanguage stage_name =
     (case find (\<lambda>entry. stage_name = fst entry) string_to_stage of
        Some entry \<Rightarrow> snd entry
      | None \<Rightarrow> EShLangCount)"

section \<open>Versions and profiles\<close>

text \<open>\<open>EProfile\<close> of \<open>glslang/MachineIndependent/Versions.h\<close>, without the marker of its end.\<close>

datatype EProfile = EBadProfile | ENoProfile | ECoreProfile | ECompatibilityProfile | EEsProfile

definition IsKnownVersion :: "int \<Rightarrow> bool" where
  "IsKnownVersion version \<longleftrightarrow>
     version \<in> {100, 110, 120, 130, 140, 150, 300, 310, 320, 330, 400, 410, 420, 430, 440, 450, 460}"

definition kVersionNumberLength :: nat where "kVersionNumberLength = 3"
definition kMaxProfileLength :: nat where "kMaxProfileLength = 13"
definition kMaxVersionProfileLength :: nat where
  "kMaxVersionProfileLength = kVersionNumberLength + kMaxProfileLength"
definition kMinVersionProfileLength :: nat where
  "kMinVersionProfileLength = kVersionNumberLength"

definition is_digit :: "char \<Rightarrow> bool" where
  "is_digit c \<longleftrightarrow> c \<in> set ''0123456789''"

definition is_space :: "char \<Rightarrow> bool" where
  "is_space c \<longleftrightarrow> c \<in> set whitespace"

definition digits_value :: "string \<Rightarrow> int" where
  "digits_value ds = foldl (\<lambda>n c. 10 * n + (of_char c - 48)) 0 ds"

text \<open>
  Reading an \<open>int\<close> and then a \<open>std::string\<close> from a string stream whose text starts with a digit. A
  number that does not fit an \<open>int\<close> is read as the greatest one and makes the stream fail, so the
  string stays empty.
\<close>

definition read_int_string :: "string \<Rightarrow> int \<times> string" where
  "read_int_string s =
     (let digits = takeWhile is_digit s;
          rest = dropWhile is_digit s;
          n = digits_value digits
      in if n > 2147483647 then (2147483647, [])
         else (n, takeWhile (\<lambda>c. \<not> is_space c) (dropWhile is_space rest)))"

definition ParseVersionProfile :: "string \<Rightarrow> (int \<times> EProfile) option" where
  "ParseVersionProfile version_profile =
     (if length version_profile < kMinVersionProfileLength \<or>
         length version_profile > kMaxVersionProfileLength \<or> \<not> is_digit (hd version_profile)
      then None
      else
        let (version, profile_string) = read_int_string version_profile
        in if \<not> IsKnownVersion version then None
           else if profile_string = [] then Some (version, ENoProfile)
           else if profile_string = ''core'' then Some (version, ECoreProfile)
           else if profile_string = ''es'' then Some (version, EEsProfile)
           else if profile_string = ''compatibility'' then Some (version, ECompatibilityProfile)
           else None)"

section \<open>Properties\<close>

definition profile_names :: "(string \<times> EProfile) list" where
  "profile_names = [('''', ENoProfile), (''core'', ECoreProfile), (''es'', EEsProfile),
     (''compatibility'', ECompatibilityProfile)]"

definition known_versions :: "nat list" where
  "known_versions = [100, 110, 120, 130, 140, 150, 300, 310, 320, 330, 400, 410, 420, 430, 440, 450, 460]"

lemma ParseVersionProfile_Some:
  "ParseVersionProfile s = Some (v, p) \<Longrightarrow> IsKnownVersion v \<and> p \<noteq> EBadProfile"
  by (auto simp: ParseVersionProfile_def Let_def split: if_splits prod.splits)

declare ToString.simps [simp del]

lemma digits_value_snoc: "digits_value (ds @ [c]) = 10 * digits_value ds + (of_char c - 48)"
  by (simp add: digits_value_def)

lemma ToString_digits: "list_all is_digit (ToString n) \<and> digits_value (ToString n) = int n"
proof (induction n rule: ToString.induct)
  case (1 n)
  have digit: "is_digit (char_of (48 + d)) \<and> of_char (char_of (48 + d) :: char) - 48 = int d" if "d < 10" for d :: nat
  proof -
    from that have mem: "d \<in> {0, 1, 2, 3, 4, 5, 6, 7, 8, 9}" by auto
    have "\<forall>d \<in> {0, 1, 2, 3, 4, 5, 6, 7, 8, 9 :: nat}.
        is_digit (char_of (48 + d)) \<and> of_char (char_of (48 + d) :: char) - 48 = int d"
      by code_simp
    from bspec [OF this mem] show ?thesis .
  qed
  show ?case
  proof (cases "n < 10")
    case True
    then show ?thesis using digit [of n] by (subst (1 2) ToString.simps) (simp add: digits_value_def)
  next
    case False
    have "10 * int (n div 10) + int (n mod 10) = int n"
      by (metis mult_div_mod_eq of_nat_add of_nat_mult of_nat_numeral)
    then show ?thesis using 1 False digit [of "n mod 10"]
      by (subst (1 2) ToString.simps) (simp add: digits_value_snoc)
  qed
qed

lemma read_int_string_ToString:
  assumes "n \<le> 2147483647" "name = [] \<or> \<not> is_digit (hd name)"
  shows "read_int_string (ToString n @ name) =
    (int n, takeWhile (\<lambda>c. \<not> is_space c) (dropWhile is_space name))"
proof -
  have "takeWhile is_digit (ToString n @ name) = ToString n" "dropWhile is_digit (ToString n @ name) = name"
    using assms(2) ToString_digits [of n]
    by (cases name; simp add: list_all_iff takeWhile_append dropWhile_append)+
  then show ?thesis using assms(1) ToString_digits [of n] by (simp add: read_int_string_def)
qed

lemma profile_names_read:
  "list_all (\<lambda>(name, p). (name = [] \<or> \<not> is_digit (hd name)) \<and> length name \<le> 13 \<and>
     takeWhile (\<lambda>c. \<not> is_space c) (dropWhile is_space name) = name) profile_names"
  by code_simp

lemma known_versions_length: "list_all (\<lambda>v. length (ToString v) = 3 \<and> v \<le> 460) known_versions"
  by code_simp

lemma ParseVersionProfile_known:
  assumes "v \<in> set known_versions" "(name, p) \<in> set profile_names"
  shows "ParseVersionProfile (ToString v @ name) = Some (int v, p)"
proof -
  have v: "length (ToString v) = 3" "v \<le> 460" "IsKnownVersion (int v)"
    using assms(1) known_versions_length by (auto simp: list_all_iff IsKnownVersion_def known_versions_def)
  have name: "name = [] \<or> \<not> is_digit (hd name)" "length name \<le> 13"
    "takeWhile (\<lambda>c. \<not> is_space c) (dropWhile is_space name) = name"
    using assms(2) profile_names_read by (auto simp: list_all_iff)
  have "is_digit (hd (ToString v @ name))"
    using v(1) ToString_digits [of v] by (cases "ToString v") auto
  moreover have "read_int_string (ToString v @ name) = (int v, name)"
    using read_int_string_ToString [of v name] v(2) name by simp
  ultimately show ?thesis using v name assms(2)
    by (auto simp: ParseVersionProfile_def kMinVersionProfileLength_def kVersionNumberLength_def
        kMaxVersionProfileLength_def kMaxProfileLength_def profile_names_def)
qed

text \<open>Every known version followed by the name of a profile is parsed back, and only known versions
  and proper profiles are ever parsed.\<close>

theorem ParseVersionProfile_roundtrip:
  "list_all (\<lambda>v. list_all (\<lambda>(name, p). ParseVersionProfile (ToString v @ name) = Some (int v, p))
     profile_names) known_versions \<and>
   set (map int known_versions) = {v. IsKnownVersion v} \<and>
   (case ParseVersionProfile s of None \<Rightarrow> True | Some (v, p) \<Rightarrow> IsKnownVersion v \<and> p \<noteq> EBadProfile)"
proof (intro conjI)
  show "list_all (\<lambda>v. list_all (\<lambda>(name, p). ParseVersionProfile (ToString v @ name) = Some (int v, p))
     profile_names) known_versions"
    using ParseVersionProfile_known by (auto simp: list_all_iff)
  show "set (map int known_versions) = {v. IsKnownVersion v}"
    by (auto simp: known_versions_def IsKnownVersion_def)
  show "case ParseVersionProfile s of None \<Rightarrow> True | Some (v, p) \<Rightarrow> IsKnownVersion v \<and> p \<noteq> EBadProfile"
    using ParseVersionProfile_Some by (auto split: option.splits)
qed

text \<open>The names of the stages and the stages correspond one to one, and every other text gives no
  stage.\<close>

theorem MapStageNameToLanguage_bijection:
  "map (\<lambda>entry. MapStageNameToLanguage (fst entry)) string_to_stage = map snd string_to_stage \<and>
   distinct (map fst string_to_stage) \<and> distinct (map snd string_to_stage) \<and>
   set (map snd string_to_stage) = UNIV - {EShLangCount} \<and>
   (MapStageNameToLanguage name = EShLangCount) = (name \<notin> set (map fst string_to_stage))"
proof (intro conjI)
  have "x \<in> set (map snd string_to_stage) \<longleftrightarrow> x \<noteq> EShLangCount" for x
    by (cases x) (simp_all add: string_to_stage_def)
  then show stages: "set (map snd string_to_stage) = UNIV - {EShLangCount}" by blast
  show "(MapStageNameToLanguage name = EShLangCount) = (name \<notin> set (map fst string_to_stage))"
  proof (cases "find (\<lambda>entry. name = fst entry) string_to_stage")
    case None
    then have "name \<notin> set (map fst string_to_stage)" by (auto simp: find_None_iff)
    with None show ?thesis by (simp add: MapStageNameToLanguage_def)
  next
    case (Some entry)
    then have "entry \<in> set string_to_stage" "fst entry = name"
      by (auto simp: find_Some_iff)
    then show ?thesis using Some stages by (force simp: MapStageNameToLanguage_def)
  qed
qed (code_simp | simp add: string_to_stage_def)+

end
