(* ===== verification/Parse_Number.thy ===== *)
theory Parse_Number
  imports Libspirv Str_Utils Target_Env
begin

text \<open>
  \<open>util/parse_number.h\<close>, \<open>util/parse_number.cpp\<close>, and \<open>ParseUint32\<close> of \<open>libshaderc_util/args.cc\<close>: numbers
  from text, their ranges, and their words. Reading an integer from a string stream is the standard
  library's \<open>operator>>\<close> in the C locale with base 0, written out here. Reading a floating point number
  (\<open>util/hex_float.h\<close>) is an argument that gives the bits of the number.
\<close>

section \<open>Integers of a string stream\<close>

definition digit_value :: "char \<Rightarrow> nat option" where
  "digit_value c =
     (let n = of_char c
      in if 48 \<le> n \<and> n \<le> 57 then Some (n - 48)
         else if 97 \<le> n \<and> n \<le> 102 then Some (n - 87)
         else if 65 \<le> n \<and> n \<le> 70 then Some (n - 55)
         else None)"

fun scan_digits :: "nat \<Rightarrow> nat \<Rightarrow> string \<Rightarrow> nat \<times> string" where
  "scan_digits base acc [] = (acc, [])"
| "scan_digits base acc (c # s) =
     (case digit_value c of
        Some d \<Rightarrow> if d < base then scan_digits base (acc * base + d) s else (acc, c # s)
      | None \<Rightarrow> (acc, c # s))"

text \<open>
  The digits after the sign, with the prefixes of base 0, and what is left of the stream; \<open>None\<close> when
  there is no digit.
\<close>

definition scan_magnitude :: "string \<Rightarrow> (nat \<times> string) option" where
  "scan_magnitude s =
     (if starts_with s ''0x'' \<or> starts_with s ''0X'' then
        (let (n, rest) = scan_digits 16 0 (drop 2 s)
         in if rest = drop 2 s then None else Some (n, rest))
      else if starts_with s ''0'' then Some (scan_digits 8 0 (drop 1 s))
      else (let (n, rest) = scan_digits 10 0 s in if rest = s then None else Some (n, rest)))"

definition scan_integer :: "string \<Rightarrow> (bool \<times> nat \<times> string) option" where
  "scan_integer str =
     (let s = dropWhile isspace str;
          negative = starts_with s ''-'';
          s = (if negative \<or> starts_with s ''+'' then drop 1 s else s)
      in map_option (Pair negative) (scan_magnitude s))"

text \<open>
  A number out of the range of the type makes the stream fail. A negative number of an unsigned type
  is its negation.
\<close>

definition extract_unsigned :: "string \<Rightarrow> ('a::len word \<times> string) option" where
  "extract_unsigned s =
     (case scan_integer s of
        None \<Rightarrow> None
      | Some (negative, n, rest) \<Rightarrow>
          if n \<ge> 2 ^ LENGTH('a) then None
          else Some (if negative then - of_nat n else of_nat n, rest))"

definition extract_signed :: "string \<Rightarrow> ('a::len word \<times> string) option" where
  "extract_signed s =
     (case scan_integer s of
        None \<Rightarrow> None
      | Some (negative, n, rest) \<Rightarrow>
          if (if negative then n > 2 ^ (LENGTH('a) - 1) else n \<ge> 2 ^ (LENGTH('a) - 1)) then None
          else Some (if negative then - of_nat n else of_nat n, rest))"

section \<open>Parsing a whole text\<close>

definition Clamp :: "'a::len word \<Rightarrow> bool \<times> 'a word" where
  "Clamp value_pointer = (if value_pointer \<noteq> 0 then (True, 0) else (False, value_pointer))"

definition ParseNumber :: "string \<Rightarrow> 'a::len word option" where
  "ParseNumber txt =
     (case extract_unsigned txt of
        None \<Rightarrow> None
      | Some (v, rest) \<Rightarrow>
          let ok = (txt \<noteq> '''' \<and> rest = '''')
          in if ok \<and> starts_with txt ''-'' then
               (case Clamp v of (clamped, v) \<Rightarrow> if clamped then None else Some v)
             else if ok then Some v else None)"

text \<open>For a signed type nothing is clamped.\<close>

definition ParseSignedNumber :: "string \<Rightarrow> 'a::len word option" where
  "ParseSignedNumber txt =
     (case extract_signed txt of
        None \<Rightarrow> None
      | Some (v, rest) \<Rightarrow> if txt \<noteq> '''' \<and> rest = '''' then Some v else None)"

text \<open>For a floating point type the stream reads the bits of the number, or fails.\<close>

definition ParseFloat :: "(string \<Rightarrow> uint64_t option) \<Rightarrow> string \<Rightarrow> uint64_t option" where
  "ParseFloat read txt = (if txt \<noteq> '''' then read txt else None)"

definition ParseUint32 :: "string \<Rightarrow> uint32_t option" where
  "ParseUint32 str =
     (case extract_unsigned str of
        None \<Rightarrow> None
      | Some (v, rest) \<Rightarrow>
          if str \<noteq> '''' \<and> rest = '''' \<and> \<not> starts_with str ''-'' then Some v else None)"

section \<open>Types of numbers\<close>

record utils_NumberType =
  nt_bitwidth :: uint32_t
  nt_kind :: spv_number_kind_t
  nt_encoding :: spv_fp_encoding_t

definition IsIntegral :: "utils_NumberType \<Rightarrow> bool" where
  "IsIntegral type \<longleftrightarrow> nt_kind type = SPV_NUMBER_UNSIGNED_INT \<or> nt_kind type = SPV_NUMBER_SIGNED_INT"

definition IsFloating :: "utils_NumberType \<Rightarrow> bool" where
  "IsFloating type \<longleftrightarrow> nt_kind type = SPV_NUMBER_FLOATING"

definition IsSigned :: "utils_NumberType \<Rightarrow> bool" where
  "IsSigned type \<longleftrightarrow> nt_kind type = SPV_NUMBER_FLOATING \<or> nt_kind type = SPV_NUMBER_SIGNED_INT"

definition IsUnknown :: "utils_NumberType \<Rightarrow> bool" where
  "IsUnknown type \<longleftrightarrow> nt_kind type = SPV_NUMBER_NONE"

definition AssumedBitWidth :: "utils_NumberType \<Rightarrow> uint32_t" where
  "AssumedBitWidth type =
     (if nt_kind type \<in> {SPV_NUMBER_SIGNED_INT, SPV_NUMBER_UNSIGNED_INT, SPV_NUMBER_FLOATING}
      then nt_bitwidth type else 0)"

text \<open>
  The template is used for \<open>int64_t\<close> and \<open>uint64_t\<close>; whether \<open>value < 0\<close> depends on which and is given by
  the caller, all other operations are on the 64 bits.
\<close>

definition CheckRangeAndIfHexThenSignExtend ::
  "bool \<Rightarrow> uint64_t \<Rightarrow> utils_NumberType \<Rightarrow> bool \<Rightarrow> uint64_t option" where
  "CheckRangeAndIfHexThenSignExtend negative value type is_hex =
     (let bit_width = unat (AssumedBitWidth type);
          magnitude_mask = (if bit_width = 64 then - 1 else push_bit bit_width 1 - 1 :: uint64_t);
          sign_mask = 0 :: uint64_t;
          overflow_mask = NOT magnitude_mask;
          (magnitude_mask, sign_mask) =
            (if negative \<or> IsSigned type
             then (drop_bit 1 magnitude_mask, drop_bit 1 magnitude_mask + 1)
             else (magnitude_mask, sign_mask));
          failed =
            (if negative then
               value AND overflow_mask \<noteq> overflow_mask \<or> value AND sign_mask \<noteq> sign_mask
             else if is_hex then value AND overflow_mask \<noteq> 0
             else value AND magnitude_mask \<noteq> value)
      in if failed then None
         else if is_hex \<and> value AND sign_mask \<noteq> 0 then Some (value OR overflow_mask)
         else Some value)"

section \<open>Encoding\<close>

datatype EncodeNumberStatus = kSuccess | kUnsupported | kInvalidUsage | kInvalidText

text \<open>The words a successful encoding emits, or the status of one that fails.\<close>

definition two_words :: "uint64_t \<Rightarrow> uint32_t list" where
  "two_words bits =
     [ucast (0x00000000ffffffff AND bits), ucast (drop_bit 32 (0xffffffff00000000 AND bits))]"

definition ParseAndEncodeIntegerNumber ::
  "string option \<Rightarrow> utils_NumberType \<Rightarrow> EncodeNumberStatus + uint32_t list" where
  "ParseAndEncodeIntegerNumber txt type =
     (case txt of
        None \<Rightarrow> Inl kInvalidText
      | Some txt \<Rightarrow>
          if \<not> IsIntegral type then Inl kInvalidUsage
          else
            let bit_width = AssumedBitWidth type
            in if bit_width > 64 then Inl kUnsupported
               else
                 let is_negative = starts_with txt ''-'';
                     can_be_signed = IsSigned type
                 in if is_negative \<and> \<not> can_be_signed then Inl kInvalidUsage
                    else
                      let is_hex = starts_with txt ''0x'' \<or> starts_with txt ''0X'';
                          decoded =
                            (if is_negative then
                               (case (ParseSignedNumber txt :: uint64_t option) of
                                  None \<Rightarrow> None
                                | Some v \<Rightarrow> CheckRangeAndIfHexThenSignExtend (sint v < 0) v type is_hex)
                             else
                               (case (ParseNumber txt :: uint64_t option) of
                                  None \<Rightarrow> None
                                | Some v \<Rightarrow> CheckRangeAndIfHexThenSignExtend False v type is_hex))
                      in case decoded of
                           None \<Rightarrow> Inl kInvalidText
                         | Some decoded_bits \<Rightarrow>
                             if bit_width > 32 then Inr (two_words decoded_bits)
                             else Inr [ucast decoded_bits])"

definition DeduceEncoding :: "utils_NumberType \<Rightarrow> spv_fp_encoding_t" where
  "DeduceEncoding type =
     (if nt_encoding type \<noteq> SPV_FP_ENCODING_UNKNOWN then nt_encoding type
      else if nt_bitwidth type = 16 then SPV_FP_ENCODING_IEEE754_BINARY16
      else if nt_bitwidth type = 32 then SPV_FP_ENCODING_IEEE754_BINARY32
      else if nt_bitwidth type = 64 then SPV_FP_ENCODING_IEEE754_BINARY64
      else SPV_FP_ENCODING_UNKNOWN)"

text \<open>The formats of floating point numbers.\<close>

datatype float_format = FP_Float16 | FP_float | FP_double | FP_Float8_E4M3 | FP_Float8_E5M2

definition ParseAndEncodeFloatingPointNumber ::
  "(float_format \<Rightarrow> string \<Rightarrow> uint64_t option) \<Rightarrow> string option \<Rightarrow> utils_NumberType \<Rightarrow>
   EncodeNumberStatus + uint32_t list" where
  "ParseAndEncodeFloatingPointNumber parse_float txt type =
     (case txt of
        None \<Rightarrow> Inl kInvalidText
      | Some txt \<Rightarrow>
          if \<not> IsFloating type then Inl kInvalidUsage
          else
            let one = (\<lambda>format. case ParseFloat (parse_float format) txt of
                         None \<Rightarrow> Inl kInvalidText | Some bits \<Rightarrow> Inr [ucast bits])
            in case DeduceEncoding type of
                 SPV_FP_ENCODING_FLOAT8_E4M3 \<Rightarrow> one FP_Float8_E4M3
               | SPV_FP_ENCODING_FLOAT8_E5M2 \<Rightarrow> one FP_Float8_E5M2
               | SPV_FP_ENCODING_BFLOAT16 \<Rightarrow> one FP_Float16
               | SPV_FP_ENCODING_IEEE754_BINARY16 \<Rightarrow> one FP_Float16
               | SPV_FP_ENCODING_IEEE754_BINARY32 \<Rightarrow> one FP_float
               | SPV_FP_ENCODING_IEEE754_BINARY64 \<Rightarrow>
                   (case ParseFloat (parse_float FP_double) txt of
                      None \<Rightarrow> Inl kInvalidText | Some bits \<Rightarrow> Inr (two_words bits))
               | _ \<Rightarrow> Inl kUnsupported)"

definition ParseAndEncodeNumber ::
  "(float_format \<Rightarrow> string \<Rightarrow> uint64_t option) \<Rightarrow> string option \<Rightarrow> utils_NumberType \<Rightarrow>
   EncodeNumberStatus + uint32_t list" where
  "ParseAndEncodeNumber parse_float txt type =
     (case txt of
        None \<Rightarrow> Inl kInvalidText
      | Some _ \<Rightarrow>
          if IsUnknown type then Inl kInvalidUsage
          else if IsFloating type then ParseAndEncodeFloatingPointNumber parse_float txt type
          else ParseAndEncodeIntegerNumber txt type)"

section \<open>Masks as ranges\<close>

lemma word_eq_bits: "v = w \<longleftrightarrow> (\<forall>i<LENGTH('a). bit v i \<longleftrightarrow> bit w i)" for v w :: "'a::len word"
  by (auto intro: bit_word_eqI)

lemma and_mask_self: "v AND mask k = v \<longleftrightarrow> unat v < 2 ^ k" for v :: "'a::len word"
proof -
  have "v AND mask k = v \<longleftrightarrow> take_bit k v = v" by (simp add: take_bit_eq_mask)
  also have "\<dots> \<longleftrightarrow> take_bit k (unat v) = unat v"
    by (metis unsigned_take_bit_eq word_unat_eq_iff)
  finally show ?thesis by (simp add: take_bit_nat_eq_self_iff)
qed

lemma and_not_mask_0: "v AND NOT (mask k) = 0 \<longleftrightarrow> unat v < 2 ^ k" for v :: "'a::len word"
proof -
  have "v AND NOT (mask k) = 0 \<longleftrightarrow> v AND mask k = v"
    by (auto simp: word_eq_bits bit_and_iff bit_not_iff)
  then show ?thesis by (simp add: and_mask_self)
qed

lemma magnitude_mask:
  "k \<le> LENGTH('a) \<Longrightarrow> (if k = LENGTH('a) then - 1 else push_bit k 1 - 1) = (mask k :: 'a::len word)"
  by (auto simp: mask_eq_exp_minus_1 push_bit_of_1)

lemma drop_bit_mask: "k \<le> LENGTH('a) \<Longrightarrow> drop_bit 1 (mask k) = (mask (k - 1) :: 'a::len word)"
  by (auto simp: word_eq_bits bit_drop_bit_eq bit_mask_iff)

lemma mask_plus_1: "mask k + 1 = (2 ^ k :: 'a::len word)"
  by (simp add: mask_eq_exp_minus_1)

text \<open>The top bits of a negative number are all set exactly when it is in range.\<close>

lemma negative_in_range:
  fixes v :: "'a::len word"
  assumes "sint v < 0" "k \<le> LENGTH('a)"
  shows "v AND NOT (mask k) = NOT (mask k) \<and> v AND push_bit (k - 1) 1 = push_bit (k - 1) 1 \<longleftrightarrow>
    - (2 ^ (k - 1)) \<le> sint v"
proof -
  have "v AND NOT (mask k) = NOT (mask k) \<and> v AND push_bit (k - 1) 1 = push_bit (k - 1) 1 \<longleftrightarrow>
      NOT v AND NOT (mask (k - 1)) = 0"
  proof (cases k)
    case 0
    then show ?thesis using len_gt_0 [where 'a = 'a]
      by (auto simp: word_eq_bits bit_and_iff bit_not_iff bit_mask_iff bit_push_bit_iff)
  next
    case (Suc j)
    have "(\<forall>i<LENGTH('a). i \<ge> Suc j \<longrightarrow> bit v i) \<and> bit v j \<longleftrightarrow> (\<forall>i<LENGTH('a). i \<ge> j \<longrightarrow> bit v i)"
      using assms(2) Suc by (metis Suc_le_eq le_neq_implies_less less_or_eq_imp_le)
    moreover have "v AND push_bit j 1 = push_bit j 1 \<longleftrightarrow> bit v j"
      using assms(2) Suc by (auto simp: word_eq_bits bit_and_iff bit_exp_iff push_bit_of_1 dest: spec [of _ j])
    ultimately show ?thesis using Suc
      by (auto simp: word_eq_bits bit_and_iff bit_not_iff bit_mask_iff)
  qed
  also have "\<dots> \<longleftrightarrow> unat (NOT v) < 2 ^ (k - 1)" by (rule and_not_mask_0)
  also have "\<dots> \<longleftrightarrow> - (2 ^ (k - 1)) \<le> sint v"
  proof -
    have "- (2 ^ (LENGTH('a) - 1)) \<le> sint v" "sint v < 2 ^ (LENGTH('a) - 1)"
      using sint_greater_eq [of v] sint_less [of v] by simp_all
    moreover have "(2 :: int) ^ (LENGTH('a) - 1) \<le> 2 ^ LENGTH('a)" by (rule power_increasing) auto
    ultimately have "- (2 ^ LENGTH('a)) \<le> - sint v - 1" "- sint v - 1 < 2 ^ LENGTH('a)" by linarith+
    then have "sint (NOT v) = - sint v - 1"
      by (simp only: signed_not_eq not_int_def signed_take_bit_int_eq_self diff_minus_eq_add)
    then have "uint (NOT v) = take_bit LENGTH('a) (- sint v - 1)" by (simp add: uint_sint)
    also have "\<dots> = - sint v - 1"
      using assms(1) \<open>- sint v - 1 < 2 ^ LENGTH('a)\<close> by (intro take_bit_int_eq_self) linarith+
    finally have "int (unat (NOT v)) = - sint v - 1" by simp
    moreover have "unat (NOT v) < 2 ^ (k - 1) \<longleftrightarrow> int (unat (NOT v)) < 2 ^ (k - 1)"
      by (metis of_nat_less_iff of_nat_numeral of_nat_power)
    ultimately show ?thesis by linarith
  qed
  finally show ?thesis .
qed

section \<open>The range check\<close>

definition in_range :: "nat \<Rightarrow> bool \<Rightarrow> bool \<Rightarrow> int \<Rightarrow> bool" where
  "in_range width is_signed is_hex x \<longleftrightarrow>
     (if is_signed \<and> (x < 0 \<or> \<not> is_hex) then - (2 ^ (width - 1)) \<le> x \<and> x < 2 ^ (width - 1)
      else 0 \<le> x \<and> x < 2 ^ width)"

lemma int_unat_less: "unat v < 2 ^ k \<longleftrightarrow> uint v < 2 ^ k"
  using of_nat_less_iff [of "unat v" "2 ^ k", where 'a = int] by simp

lemma CheckRange_masks:
  assumes "unat (nt_bitwidth type) = w" "w \<le> 64" "IsIntegral type"
    "is_signed \<longleftrightarrow> nt_kind type = SPV_NUMBER_SIGNED_INT"
  shows "CheckRangeAndIfHexThenSignExtend negative v type is_hex =
    (if (if negative then v AND NOT (mask w) = NOT (mask w) \<and> v AND push_bit (w - 1) 1 = push_bit (w - 1) 1
         else if is_hex then v AND NOT (mask w) = 0
         else v AND mask (if is_signed then w - 1 else w) = v)
     then Some (if is_hex \<and> (negative \<or> is_signed) \<and> bit v (w - 1) then v OR NOT (mask w) else v)
     else None)"
proof -
  have mask: "(if w = 64 then - 1 else push_bit w 1 - 1) = (mask w :: uint64_t)"
    using magnitude_mask [of w, where 'a = 64] assms(2) by simp
  have sign: "drop_bit 1 (mask w) = (mask (w - 1) :: uint64_t)" "mask (w - 1) + 1 = push_bit (w - 1) (1 :: uint64_t)"
    using drop_bit_mask [of w, where 'a = 64] assms(2) by (simp_all add: mask_plus_1 push_bit_of_1)
  have width: "AssumedBitWidth type = nt_bitwidth type" "IsSigned type = is_signed"
    using assms(3,4) by (auto simp: AssumedBitWidth_def IsSigned_def IsIntegral_def)
  have len: "w - 1 < 64" using assms(2) by simp
  have bit: "v AND push_bit (w - 1) 1 = 0 \<longleftrightarrow> \<not> bit v (w - 1)"
    by (rule word_and_push_bit_1_eq_0_iff)
  have set_bit: "v AND push_bit (w - 1) 1 = push_bit (w - 1) 1 \<longleftrightarrow> bit v (w - 1)"
    using len by (auto simp: word_eq_bits bit_and_iff bit_exp_iff push_bit_of_1)
  show ?thesis
    unfolding CheckRangeAndIfHexThenSignExtend_def width assms(1) Let_def mask sign split_def fst_conv snd_conv
    using bit set_bit sign len by (cases "negative \<or> is_signed"; cases negative; cases is_hex) (simp_all del: One_nat_def)
qed

lemma CheckRange_negative:
  assumes "sint v < 0" "unat (nt_bitwidth type) \<le> 64" "nt_kind type = SPV_NUMBER_SIGNED_INT"
  shows "CheckRangeAndIfHexThenSignExtend True v type False =
    (if in_range (unat (nt_bitwidth type)) True False (sint v) then Some v else None)"
proof -
  have "sint v < 2 ^ k" for k using assms(1) by (rule less_le_trans) simp
  moreover have "IsIntegral type" using assms(3) by (simp add: IsIntegral_def)
  ultimately show ?thesis
    using negative_in_range [OF assms(1), of "unat (nt_bitwidth type)"] assms(2)
    by (subst CheckRange_masks [OF refl _ _ refl]) (auto simp: in_range_def)
qed

text \<open>The sign bit of a number below \<open>2 ^ w\<close>.\<close>

lemma top_bit:
  assumes "uint v < 2 ^ w"
  shows "bit v (w - 1) \<longleftrightarrow> 2 ^ (w - 1) \<le> uint v"
proof (cases w)
  case 0
  then have "uint v < 1" using assms by simp
  then have "uint v = 0" using uint_ge_0 [of v] by linarith
  then have "v = 0" by (simp add: word_uint_eq_iff)
  with 0 show ?thesis by simp
next
  case (Suc k)
  have "unat v < 2 ^ w" using assms by (simp add: int_unat_less)
  then have "unat v div 2 ^ k < 2" using Suc by (simp add: div_less_iff_less_mult)
  moreover have "1 \<le> unat v div 2 ^ k \<longleftrightarrow> 2 ^ k \<le> unat v" by (simp add: less_eq_div_iff_mult_less_eq)
  ultimately have "odd (unat v div 2 ^ k) \<longleftrightarrow> 2 ^ k \<le> unat v"
    by (cases "unat v div 2 ^ k") auto
  moreover have "bit v k \<longleftrightarrow> bit (unat v) k" by (auto simp: bit_unsigned_iff dest: bit_imp_le_length)
  ultimately show ?thesis using Suc int_unat_less [of v k] by (simp add: bit_iff_odd not_less [symmetric])
qed

lemma sign_extended:
  fixes v :: "'a::len word"
  assumes "uint v < 2 ^ w"
  shows "v OR NOT (mask w) = word_of_int (uint v - 2 ^ w)"
proof -
  have "v AND NOT (mask w) = 0" using assms by (simp add: and_not_mask_0 int_unat_less)
  then have "v OR NOT (mask w) = v + NOT (mask w)" by (rule disjunctive_add_eq_or [symmetric])
  moreover have "NOT (mask w) = - (2 ^ w :: 'a word)" by (simp add: mask_eq_exp_minus_1 not_eq_complement)
  then have "v + NOT (mask w) = v + - (2 ^ w)" by (simp only:)
  moreover have "word_of_int (uint v - 2 ^ w) = v + - (2 ^ w)" by simp
  ultimately show ?thesis by (simp only:)
qed

lemma CheckRange_plain:
  assumes "unat (nt_bitwidth type) = w" "w \<le> 64" "IsIntegral type"
    "is_signed \<longleftrightarrow> nt_kind type = SPV_NUMBER_SIGNED_INT"
  shows "CheckRangeAndIfHexThenSignExtend False v type is_hex =
    (if in_range w is_signed is_hex (uint v)
     then Some (if is_hex \<and> is_signed \<and> 2 ^ (w - 1) \<le> uint v then word_of_int (uint v - 2 ^ w) else v)
     else None)"
proof -
  have "- (2 ^ (w - 1)) \<le> uint v" by (rule order_trans [of _ 0]) simp_all
  then show ?thesis
    by (subst CheckRange_masks [OF assms])
      (auto simp: in_range_def and_mask_self and_not_mask_0 int_unat_less top_bit sign_extended simp del: One_nat_def)
qed

section \<open>The integer a text stands for\<close>

definition integer_literal :: "string \<Rightarrow> int option" where
  "integer_literal s =
     (case scan_integer s of
        Some (negative, n, '''') \<Rightarrow> Some (if negative then - int n else int n)
      | _ \<Rightarrow> None)"

definition literal_words :: "nat \<Rightarrow> int \<Rightarrow> uint32_t list" where
  "literal_words width x =
     (if width > 32 then [word_of_int x, word_of_int (x div 2 ^ 32)] else [word_of_int x])"

lemma ucast_word_of_int: "(ucast (word_of_int x :: uint64_t) :: uint32_t) = word_of_int x"
  by (rule bit_word_eqI) (simp add: bit_unsigned_iff bit_word_of_int_iff)

lemma two_words_of_int: "two_words (word_of_int x) = [word_of_int x, word_of_int (x div 2 ^ 32)]"
proof -
  have low: "(ucast (0x00000000ffffffff AND (word_of_int x :: uint64_t)) :: uint32_t) = word_of_int x"
  proof (rule bit_word_eqI)
    fix n assume n: "n < LENGTH(32)"
    have "bit (mask 32 :: uint64_t) n" using n by (simp add: bit_mask_iff)
    moreover have "(0xffffffff :: uint64_t) = mask 32" by (simp add: mask_eq_exp_minus_1)
    ultimately have "bit (0xffffffff :: uint64_t) n" by (simp only:)
    then show "bit (ucast (0x00000000ffffffff AND (word_of_int x :: uint64_t)) :: uint32_t) n =
        bit (word_of_int x :: uint32_t) n"
      using n by (simp add: bit_unsigned_iff bit_and_iff bit_mask_iff bit_word_of_int_iff)
  qed
  have high: "(ucast (drop_bit 32 (0xffffffff00000000 AND (word_of_int x :: uint64_t))) :: uint32_t) =
      word_of_int (x div 2 ^ 32)"
  proof (rule bit_word_eqI)
    fix n assume n: "n < LENGTH(32)"
    have "bit (push_bit 32 (mask 32) :: uint64_t) (32 + n)"
      using n by (simp add: bit_push_bit_iff bit_mask_iff)
    moreover have "(0xffffffff00000000 :: uint64_t) = push_bit 32 (mask 32)"
      by (simp add: mask_eq_exp_minus_1 push_bit_eq_mult)
    ultimately have "bit (0xffffffff00000000 :: uint64_t) (32 + n)" by (simp only:)
    moreover have "bit (x div 2 ^ 32) n \<longleftrightarrow> bit x (32 + n)"
      by (simp only: drop_bit_eq_div [symmetric] bit_drop_bit_eq comp_def)
    moreover have half: "bit (ucast (drop_bit 32 (c AND y)) :: uint32_t) n \<longleftrightarrow> bit c (32 + n) \<and> bit y (32 + n)"
      for c y :: uint64_t
      using n by (simp add: bit_unsigned_iff bit_and_iff bit_drop_bit_eq)
    ultimately show "bit (ucast (drop_bit 32 (0xffffffff00000000 AND (word_of_int x :: uint64_t))) :: uint32_t) n =
        bit (word_of_int (x div 2 ^ 32) :: uint32_t) n"
      using n by (simp only: half) (simp add: bit_word_of_int_iff)
  qed
  show ?thesis by (simp only: two_words_def low high)
qed

text \<open>What the two parses of a text give, for a text without leading spaces.\<close>

lemma scan_integer_sign:
  assumes "s = '''' \<or> \<not> isspace (hd s)"
  shows "scan_integer s = map_option (Pair (starts_with s ''-''))
    (scan_magnitude (if starts_with s ''-'' \<or> starts_with s ''+'' then drop 1 s else s))"
proof -
  have "dropWhile isspace s = s" using assms by (cases s) auto
  then show ?thesis by (simp add: scan_integer_def Let_def)
qed

lemma scan_magnitude_empty: "scan_magnitude '''' = None"
  by code_simp

lemma ParseNumber_literal:
  assumes "s = '''' \<or> \<not> isspace (hd s)" "\<not> starts_with s ''-''"
  shows "ParseNumber s = (case integer_literal s of
     Some x \<Rightarrow> if x < 2 ^ LENGTH('a) then Some (word_of_int x :: 'a::len word) else None | None \<Rightarrow> None)"
proof -
  have "integer_literal s = Some x \<Longrightarrow> 0 \<le> x" for x
    using assms by (auto simp: integer_literal_def scan_integer_sign split: option.splits list.splits)
  then show ?thesis
    using assms scan_magnitude_empty
    by (auto simp: starts_with_def ParseNumber_def extract_unsigned_def integer_literal_def scan_integer_sign Let_def
        split: option.splits list.splits)
qed

lemma ParseSignedNumber_literal:
  assumes "s = '''' \<or> \<not> isspace (hd s)" "starts_with s ''-''"
  shows "ParseSignedNumber s = (case integer_literal s of
     Some x \<Rightarrow> if - (2 ^ (LENGTH('a) - 1)) \<le> x then Some (word_of_int x :: 'a::len word) else None
   | None \<Rightarrow> None) \<and> (\<forall>x. integer_literal s = Some x \<longrightarrow> x \<le> 0)"
  using assms scan_magnitude_empty
  by (auto simp: starts_with_def ParseSignedNumber_def extract_signed_def integer_literal_def scan_integer_sign Let_def
        split: option.splits list.splits)

lemma uint_word_of_int_below: "0 \<le> x \<Longrightarrow> x < 2 ^ LENGTH('a) \<Longrightarrow> uint (word_of_int x :: 'a::len word) = x"
  by (simp add: uint_word_of_int take_bit_int_eq_self flip: take_bit_eq_mod)

lemma sint_word_of_int_range:
  assumes "- (2 ^ (LENGTH('a) - 1)) \<le> x" "x < 2 ^ (LENGTH('a) - 1)"
  shows "sint (word_of_int x :: 'a::len word) = x"
  using assms by (simp add: signed_of_int signed_take_bit_int_eq_self)

lemma in_range_64:
  "in_range w signd hex x \<Longrightarrow> w \<le> 64 \<Longrightarrow> x < 2 ^ 64"
  "in_range w signd hex x \<Longrightarrow> w \<le> 64 \<Longrightarrow> x < 0 \<Longrightarrow> - (2 ^ 63) \<le> x"
proof -
  assume r: "in_range w signd hex x" and w: "w \<le> 64"
  have "(2 :: int) ^ (w - 1) \<le> 2 ^ 63" "(2 :: int) ^ w \<le> 2 ^ 64"
    using w by (auto intro!: power_increasing simp del: power_numeral)
  moreover have "(2 :: int) ^ 63 < 2 ^ 64" by simp
  ultimately show "x < 2 ^ 64" "x < 0 \<Longrightarrow> - (2 ^ 63) \<le> x"
    using r unfolding in_range_def by (smt (verit) zero_le_power)+
qed

lemma integer_literal_nonneg:
  assumes "s = '''' \<or> \<not> isspace (hd s)" "\<not> starts_with s ''-''" "integer_literal s = Some x"
  shows "0 \<le> x"
  using assms by (auto simp: integer_literal_def scan_integer_sign split: option.splits list.splits)

lemma decode_plain:
  assumes "unat (nt_bitwidth type) = w" "w \<le> 64" "IsIntegral type"
    "signd \<longleftrightarrow> nt_kind type = SPV_NUMBER_SIGNED_INT"
    "txt = '''' \<or> \<not> isspace (hd txt)" "\<not> starts_with txt ''-''"
  shows "(case (ParseNumber txt :: uint64_t option) of
      None \<Rightarrow> None | Some v \<Rightarrow> CheckRangeAndIfHexThenSignExtend False v type hex) =
    (case integer_literal txt of None \<Rightarrow> None
     | Some x \<Rightarrow> if in_range w signd hex x
         then Some (word_of_int (if hex \<and> signd \<and> 2 ^ (w - 1) \<le> x then x - 2 ^ w else x)) else None)"
proof (cases "integer_literal txt")
  case None
  then show ?thesis using ParseNumber_literal [OF assms(5,6), where 'a = 64] by simp
next
  case (Some x)
  have "0 \<le> x" using integer_literal_nonneg [OF assms(5,6) Some] .
  show ?thesis
  proof (cases "x < 2 ^ 64")
    case True
    then have "uint (word_of_int x :: uint64_t) = x"
      using \<open>0 \<le> x\<close> by (intro uint_word_of_int_below) simp_all
    then show ?thesis
      using Some True ParseNumber_literal [OF assms(5,6), where 'a = 64]
        CheckRange_plain [OF assms(1-4), of "word_of_int x" hex] by simp
  next
    case False
    then have "\<not> in_range w signd hex x" using in_range_64(1) assms(2) by blast
    then show ?thesis using Some False ParseNumber_literal [OF assms(5,6), where 'a = 64] by simp
  qed
qed

lemma decode_negative:
  assumes "unat (nt_bitwidth type) = w" "w \<le> 64" "nt_kind type = SPV_NUMBER_SIGNED_INT"
    "txt = '''' \<or> \<not> isspace (hd txt)" "starts_with txt ''-''"
  shows "(case (ParseSignedNumber txt :: uint64_t option) of
      None \<Rightarrow> None | Some v \<Rightarrow> CheckRangeAndIfHexThenSignExtend (sint v < 0) v type False) =
    (case integer_literal txt of None \<Rightarrow> None
     | Some x \<Rightarrow> if in_range w True False x then Some (word_of_int x) else None)"
proof (cases "integer_literal txt")
  case None
  then show ?thesis using ParseSignedNumber_literal [OF assms(4,5), where 'a = 64] by simp
next
  case (Some x)
  then have x: "x \<le> 0" and parse: "ParseSignedNumber txt =
      (if - (2 ^ 63) \<le> x then Some (word_of_int x :: uint64_t) else None)"
    using ParseSignedNumber_literal [OF assms(4,5), where 'a = 64] by simp_all
  consider "x = 0" | "x < 0" "- (2 ^ 63) \<le> x" | "x < - (2 ^ 63)" using x by linarith
  then show ?thesis
  proof cases
    case 1
    have "IsIntegral type" using assms(3) by (simp add: IsIntegral_def)
    then show ?thesis
      using Some parse 1 CheckRange_plain [OF assms(1,2) _ refl, of 0 False] assms(3) by simp
  next
    case 2
    then have sint: "sint (word_of_int x :: uint64_t) = x"
      by (intro sint_word_of_int_range) simp_all
    then show ?thesis
      using Some parse 2 assms(1,2,3) CheckRange_negative [of "word_of_int x" type] by simp
  next
    case 3
    have "x < 0" using 3 by (rule less_le_trans) simp
    moreover have "\<not> - (2 ^ 63) \<le> x" using 3 by simp
    ultimately have "\<not> in_range w True False x" using in_range_64(2) [OF _ assms(2), of True False x] by blast
    then show ?thesis using Some parse 3 by simp
  qed
qed

section \<open>The text of a number\<close>

lemma digit_value_char: "d < 10 \<Longrightarrow> digit_value (char_of (48 + d)) = Some d"
proof -
  have "list_all (\<lambda>d. digit_value (char_of (48 + d)) = Some d) [0..<10]" by code_simp
  then show "d < 10 \<Longrightarrow> digit_value (char_of (48 + d)) = Some d" by (simp add: list_all_iff)
qed

lemma scan_digits_append:
  "scan_digits base acc s = (n, []) \<Longrightarrow> scan_digits base acc (s @ t) = scan_digits base n t"
  by (induction base acc s rule: scan_digits.induct) (auto split: option.splits if_splits)

lemma scan_digits_ToString: "scan_digits 10 0 (ToString n) = (n, [])"
proof (induction n rule: ToString.induct)
  case (1 n)
  show ?case
  proof (cases "n < 10")
    case True
    then show ?thesis by (subst ToString.simps) (simp add: digit_value_char)
  next
    case False
    then show ?thesis using 1
      by (subst ToString.simps) (simp add: scan_digits_append digit_value_char)
  qed
qed

text \<open>A number other than zero starts with a digit other than zero.\<close>

lemma hd_ToString: "\<exists>(d :: nat) s. ToString n = char_of (48 + d) # s \<and> d < 10 \<and> (d = 0 \<longrightarrow> n = 0 \<and> s = '''')"
proof (induction n rule: ToString.induct)
  case (1 n)
  show ?case
  proof (cases "n < 10")
    case True
    then show ?thesis by (subst ToString.simps) (auto intro: exI [of _ n])
  next
    case False
    with 1 obtain d :: nat and s where d: "ToString (n div 10) = char_of (48 + d) # s" "d < 10"
      "d = 0 \<longrightarrow> n div 10 = 0 \<and> s = ''''" by blast
    moreover have "n div 10 \<noteq> 0" using False by simp
    ultimately show ?thesis using False by (subst ToString.simps) (auto intro: exI [of _ d])
  qed
qed

lemma first_digit:
  fixes d :: nat
  assumes "d < 10"
  shows "\<not> isspace (char_of (48 + d))" "char_of (48 + d) \<noteq> CHR ''-''" "char_of (48 + d) \<noteq> CHR ''+''"
    "char_of (48 + d) = CHR ''0'' \<longleftrightarrow> d = 0"
proof -
  have "list_all (\<lambda>d. \<not> isspace (char_of (48 + d)) \<and> char_of (48 + d) \<noteq> CHR ''-'' \<and>
      char_of (48 + d) \<noteq> CHR ''+'' \<and> (char_of (48 + d) = CHR ''0'' \<longleftrightarrow> d = 0)) [0..<10]"
    by code_simp
  with assms show "\<not> isspace (char_of (48 + d))" "char_of (48 + d) \<noteq> CHR ''-''"
    "char_of (48 + d) \<noteq> CHR ''+''" "char_of (48 + d) = CHR ''0'' \<longleftrightarrow> d = 0"
    by (auto simp: list_all_iff)
qed

lemma scan_magnitude_ToString: "scan_magnitude (ToString n) = Some (n, [])"
proof -
  obtain d :: nat and s where s: "ToString n = char_of (48 + d) # s" "d < 10" "d = 0 \<longrightarrow> n = 0 \<and> s = ''''"
    using hd_ToString by blast
  show ?thesis
  proof (cases "d = 0")
    case True
    moreover have "scan_magnitude ''0'' = Some (0, [])" by code_simp
    moreover have "ToString 0 = ''0''" by code_simp
    then have "ToString n = ''0''" using s True by simp
    ultimately show ?thesis using s by simp
  next
    case False
    then show ?thesis using s first_digit(4) [OF s(2)] scan_digits_ToString [of n]
      by (auto simp: scan_magnitude_def starts_with_def)
  qed
qed

lemma int_string_plain:
  "\<not> isspace (hd (int_string x))" "int_string x \<noteq> ''''"
  "\<not> starts_with (int_string x) ''0x''" "\<not> starts_with (int_string x) ''0X''"
  "starts_with (int_string x) ''-'' \<longleftrightarrow> x < 0" "\<not> starts_with (int_string x) ''+''"
proof -
  obtain d :: nat and s where s: "ToString (nat x) = char_of (48 + d) # s" "d < 10" "d = 0 \<longrightarrow> nat x = 0 \<and> s = ''''"
    using hd_ToString by blast
  have space: "\<not> isspace (CHR ''-'')" by code_simp
  show "\<not> isspace (hd (int_string x))" "int_string x \<noteq> ''''"
    "\<not> starts_with (int_string x) ''0x''" "\<not> starts_with (int_string x) ''0X''"
    "starts_with (int_string x) ''-'' \<longleftrightarrow> x < 0" "\<not> starts_with (int_string x) ''+''"
    using s first_digit [OF s(2)] space by (auto simp: int_string_def starts_with_def)
qed

lemma integer_literal_int_string: "integer_literal (int_string x) = Some x"
proof -
  have "scan_integer (int_string x) = Some (x < 0, nat \<bar>x\<bar>, [])"
    using int_string_plain [of x] by (subst scan_integer_sign) (auto simp: int_string_def scan_magnitude_ToString)
  then show ?thesis by (auto simp: integer_literal_def)
qed

text \<open>What is encoded, given the number a text stands for.\<close>

lemma integer_number:
  assumes "IsIntegral type" "txt = '''' \<or> \<not> isspace (hd txt)"
  shows "ParseAndEncodeIntegerNumber (Some txt) type =
    (let w = unat (nt_bitwidth type);
         signd = (nt_kind type = SPV_NUMBER_SIGNED_INT);
         hex = (starts_with txt ''0x'' \<or> starts_with txt ''0X'')
     in if w > 64 then Inl kUnsupported
        else if starts_with txt ''-'' \<and> \<not> signd then Inl kInvalidUsage
        else case integer_literal txt of
               None \<Rightarrow> Inl kInvalidText
             | Some x \<Rightarrow>
                 if in_range w signd hex x
                 then Inr (literal_words w (if hex \<and> signd \<and> 2 ^ (w - 1) \<le> x then x - 2 ^ w else x))
                 else Inl kInvalidText)"
proof -
  define w where "w = unat (nt_bitwidth type)"
  define signd where "signd = (nt_kind type = SPV_NUMBER_SIGNED_INT)"
  define hex where "hex = (starts_with txt ''0x'' \<or> starts_with txt ''0X'')"
  have signed: "IsSigned type = signd" "AssumedBitWidth type = nt_bitwidth type"
    using assms(1) by (auto simp: IsSigned_def IsIntegral_def AssumedBitWidth_def signd_def)
  have wide: "nt_bitwidth type > 64 \<longleftrightarrow> w > 64" "nt_bitwidth type > 32 \<longleftrightarrow> w > 32"
    by (simp_all add: w_def word_less_nat_alt)
  have emit: "(if w > 32 then Inr (two_words (word_of_int x)) else Inr [ucast (word_of_int x :: uint64_t)]) =
      (Inr (literal_words w x) :: EncodeNumberStatus + uint32_t list)" for x
    by (simp add: literal_words_def two_words_of_int ucast_word_of_int)
  show ?thesis
  proof (cases "w > 64 \<or> starts_with txt ''-'' \<and> \<not> signd")
    case True
    then show ?thesis
      using assms(1) by (auto simp: ParseAndEncodeIntegerNumber_def signed wide Let_def w_def signd_def)
  next
    case False
    then have w: "w \<le> 64" by simp
    have hex: "\<not> hex" if "starts_with txt ''-''"
      using that by (cases "txt") (auto simp: hex_def starts_with_def)
    define bits where "bits = (case integer_literal txt of None \<Rightarrow> None
      | Some x \<Rightarrow> if in_range w signd hex x
          then Some (word_of_int (if hex \<and> signd \<and> 2 ^ (w - 1) \<le> x then x - 2 ^ w else x) :: uint64_t) else None)"
    have bits: "(if starts_with txt ''-'' then
        (case ParseSignedNumber txt of
           None \<Rightarrow> None | Some v \<Rightarrow> CheckRangeAndIfHexThenSignExtend (sint v < 0) v type hex)
      else
        (case ParseNumber txt of
           None \<Rightarrow> None | Some v \<Rightarrow> CheckRangeAndIfHexThenSignExtend False v type hex)) = bits"
    proof (cases "starts_with txt ''-''")
      case True
      then have eqs: "hex = False" "signd = True" and kind: "nt_kind type = SPV_NUMBER_SIGNED_INT"
        using hex False by (auto simp: signd_def)
      then show ?thesis
        using True decode_negative [OF w_def [symmetric] w kind assms(2) True] unfolding eqs bits_def by (simp cong: option.case_cong if_cong)
    next
      case plain: False
      then show ?thesis
        using decode_plain [OF w_def [symmetric] w assms(1) signd_def assms(2) plain, of hex]
        unfolding bits_def by simp
    qed
    show ?thesis
      using False assms(1) emit
      unfolding ParseAndEncodeIntegerNumber_def option.case signed wide Let_def w_def [symmetric]
        signd_def [symmetric] hex_def [symmetric] bits
      by (auto simp: bits_def split: option.splits)
  qed
qed

section \<open>Properties\<close>

text \<open>C16: an integer literal of a type of at most 64 bits is encoded exactly when its text is a whole
  number in the range of the type, where a hexadecimal one may set the sign bit; the words are those of
  the number in two's complement, extended with its sign, low word first. A sign in front of an unsigned
  literal is an invalid use, any other failure an invalid text, a wider type unsupported.\<close>

theorem integer_number_encoding:
  assumes "IsIntegral type" "txt = '''' \<or> \<not> isspace (hd txt)"
  shows "ParseAndEncodeIntegerNumber (Some txt) type =
    (let w = unat (nt_bitwidth type);
         signd = (nt_kind type = SPV_NUMBER_SIGNED_INT);
         hex = (starts_with txt ''0x'' \<or> starts_with txt ''0X'')
     in if w > 64 then Inl kUnsupported
        else if starts_with txt ''-'' \<and> \<not> signd then Inl kInvalidUsage
        else case integer_literal txt of
               None \<Rightarrow> Inl kInvalidText
             | Some x \<Rightarrow>
                 if in_range w signd hex x
                 then Inr (literal_words w (if hex \<and> signd \<and> 2 ^ (w - 1) \<le> x then x - 2 ^ w else x))
                 else Inl kInvalidText)"
  using assms by (rule integer_number)

text \<open>A hexadecimal literal of a signed type of 8 bits that sets the sign bit.\<close>

theorem integer_number_encoding_witness:
  "ParseAndEncodeIntegerNumber (Some ''0xFF'')
    \<lparr>nt_bitwidth = 8, nt_kind = SPV_NUMBER_SIGNED_INT, nt_encoding = SPV_FP_ENCODING_UNKNOWN\<rparr> = Inr [0xFFFFFFFF]"
proof -
  let ?type = "\<lparr>nt_bitwidth = 8, nt_kind = SPV_NUMBER_SIGNED_INT, nt_encoding = SPV_FP_ENCODING_UNKNOWN\<rparr>"
  have "IsIntegral ?type" "\<not> isspace (hd ''0xFF'')" by code_simp+
  moreover have "integer_literal ''0xFF'' = Some 255" "starts_with ''0xFF'' ''0x''" "\<not> starts_with ''0xFF'' ''-''"
    by code_simp+
  ultimately show ?thesis
    using integer_number_encoding [of ?type "''0xFF''"] by (simp add: in_range_def literal_words_def Let_def)
qed

end
