(* ===== verification/Name_Mapper.thy ===== *)
theory Name_Mapper
  imports Binary_Module Version_Profile Parse_Number
begin

text \<open>
  \<open>name_mapper.cpp\<close> with \<open>to_string.cpp\<close> and \<open>parsed_operand.cpp\<close>: friendly names for the ids of a
  module. The mapper is a client of the binary parser; it keeps the name of each id and the set of the
  names that are taken, and finds a free name for every new id. The printing of floating point numbers
  (\<open>util/hex_float.h\<close>) is an argument.
\<close>

section \<open>Numbers as text\<close>

lemma unat_drop_digit: "unat ((n - n mod 10) div 10 :: uint32_t) = unat n div 10"
proof -
  have "n mod 10 \<le> n" by (simp add: word_le_nat_alt unat_mod)
  then have "unat (n - n mod 10) = unat n - unat n mod 10" by (simp add: unat_sub unat_mod)
  then show ?thesis by (simp add: unat_div minus_mod_eq_mult_div)
qed

function to_string_loop :: "uint32_t \<Rightarrow> string \<Rightarrow> string" where
  "to_string_loop n buf =
     (if n > 0 then
        let units = n mod 10
        in to_string_loop ((n - units) div 10) (''0123456789'' ! unat units # buf)
      else buf)"
  by pat_completeness auto
termination
proof (relation "measure (\<lambda>(n, buf). unat n)")
  fix n units :: uint32_t and buf
  assume "n > 0" "units = n mod 10"
  moreover have "unat n div 10 < unat n" using \<open>n > 0\<close> by (simp add: word_less_nat_alt)
  ultimately show "(((n - units) div 10, ''0123456789'' ! unat units # buf), n, buf) \<in> measure (\<lambda>(n, buf). unat n)"
    using unat_drop_digit [of n] by simp
qed simp

declare to_string_loop.simps [simp del]

definition max_digits :: nat where "max_digits = 10"

definition to_string :: "uint32_t \<Rightarrow> string" where
  "to_string n = (if n = 0 then ''0'' else to_string_loop n [])"

definition EmitNumericLiteral ::
  "(float_format \<Rightarrow> uint64_t \<Rightarrow> string) \<Rightarrow> spv_parsed_instruction_t \<Rightarrow> spv_parsed_operand_t \<Rightarrow> string" where
  "EmitNumericLiteral print_float inst operand =
     (if po_type operand \<notin> {SPV_OPERAND_TYPE_LITERAL_INTEGER, SPV_OPERAND_TYPE_LITERAL_FLOAT,
           SPV_OPERAND_TYPE_TYPED_LITERAL_NUMBER, SPV_OPERAND_TYPE_OPTIONAL_LITERAL_INTEGER,
           SPV_OPERAND_TYPE_OPTIONAL_TYPED_LITERAL_INTEGER} then ''''
      else if po_num_words operand < 1 then ''''
      else if po_num_words operand > 2 then ''''
      else
        let word = pi_words inst ! unat (po_offset operand)
        in if po_num_words operand = 1 then
             (case po_number_kind operand of
                SPV_NUMBER_SIGNED_INT \<Rightarrow> int_string (sint word)
              | SPV_NUMBER_UNSIGNED_INT \<Rightarrow> ToString (unat word)
              | SPV_NUMBER_FLOATING \<Rightarrow>
                  (case po_fp_encoding operand of
                     Some SPV_FP_ENCODING_IEEE754_BINARY16 \<Rightarrow> print_float FP_Float16 (ucast (word AND 0xFFFF))
                   | Some SPV_FP_ENCODING_IEEE754_BINARY32 \<Rightarrow> print_float FP_float (ucast word)
                   | Some SPV_FP_ENCODING_FLOAT8_E4M3 \<Rightarrow> print_float FP_Float8_E4M3 (ucast (word AND 0xFF))
                   | Some SPV_FP_ENCODING_FLOAT8_E5M2 \<Rightarrow> print_float FP_Float8_E5M2 (ucast (word AND 0xFF))
                   | Some SPV_FP_ENCODING_UNKNOWN \<Rightarrow>
                       if po_number_bit_width operand = 16 then print_float FP_Float16 (ucast (word AND 0xFFFF))
                       else if po_number_bit_width operand = 32 then print_float FP_float (ucast word)
                       else ''''
                   | _ \<Rightarrow> '''')
              | _ \<Rightarrow> '''')
           else
             let bits = ucast word OR push_bit 32 (ucast (pi_words inst ! (unat (po_offset operand) + 1)) :: uint64_t)
             in case po_number_kind operand of
                  SPV_NUMBER_SIGNED_INT \<Rightarrow> int_string (sint bits)
                | SPV_NUMBER_UNSIGNED_INT \<Rightarrow> ToString (unat bits)
                | SPV_NUMBER_FLOATING \<Rightarrow> print_float FP_double bits
                | _ \<Rightarrow> '''')"

section \<open>Saving names\<close>

record name_mapper =
  name_for_id :: "uint32_t \<rightharpoonup> string"
  used_names :: "string set"

definition empty_mapper :: name_mapper where
  "empty_mapper = \<lparr>name_for_id = Map.empty, used_names = {}\<rparr>"

definition NameForId :: "name_mapper \<Rightarrow> uint32_t \<Rightarrow> string" where
  "NameForId this i = (case name_for_id this i of None \<Rightarrow> to_string i | Some name \<Rightarrow> name)"

definition GetTrivialNameMapper :: "uint32_t \<Rightarrow> string" where
  "GetTrivialNameMapper = (\<lambda>i. to_string i)"

definition valid_characters :: string where
  "valid_characters =
     ''abcdefghijklmnopqrstuvwxyz'' @ ''ABCDEFGHIJKLMNOPQRSTUVWXYZ'' @ ''_0123456789''"

definition Sanitize :: "string \<Rightarrow> string" where
  "Sanitize suggested_name =
     (if suggested_name = '''' then ''_''
      else map (\<lambda>c. if c \<notin> set valid_characters then CHR ''_'' else c) suggested_name)"

text \<open>The search for a free name has no bound; \<open>None\<close> would be a search without end.\<close>

partial_function (option) free_name_loop :: "string \<Rightarrow> string set \<Rightarrow> uint32_t \<Rightarrow> string option" where
  "free_name_loop base_name used index =
     (let name = base_name @ to_string index
      in if name \<notin> used then Some name else free_name_loop base_name used (index + 1))"

definition SaveName :: "uint32_t \<Rightarrow> string \<Rightarrow> name_mapper \<Rightarrow> name_mapper option" where
  "SaveName i suggested_name this =
     (if name_for_id this i \<noteq> None then Some this
      else
        let sanitized_suggested_name = Sanitize suggested_name;
            found = (if sanitized_suggested_name \<notin> used_names this then Some sanitized_suggested_name
                     else free_name_loop (sanitized_suggested_name @ ''_'') (used_names this) 0)
        in case found of
             None \<Rightarrow> None
           | Some name \<Rightarrow> Some (this\<lparr>used_names := insert name (used_names this),
                                    name_for_id := (name_for_id this)(i \<mapsto> name)\<rparr>))"

text \<open>The names of the built-in variables.\<close>

definition BuiltInNames :: "(uint32_t \<times> string) list" where
  "BuiltInNames =
    [(0, ''gl_Position''), (1, ''gl_PointSize''), (3, ''gl_ClipDistance''),
     (4, ''gl_CullDistance''), (5, ''gl_VertexID''), (6, ''gl_InstanceID''),
     (7, ''gl_PrimitiveID''), (8, ''gl_InvocationID''), (9, ''gl_Layer''),
     (10, ''gl_ViewportIndex''), (11, ''gl_TessLevelOuter''), (12, ''gl_TessLevelInner''),
     (13, ''gl_TessCoord''), (14, ''gl_PatchVertices''), (15, ''gl_FragCoord''),
     (16, ''gl_PointCoord''), (17, ''gl_FrontFacing''), (18, ''gl_SampleID''),
     (19, ''gl_SamplePosition''), (20, ''gl_SampleMask''), (22, ''gl_FragDepth''),
     (23, ''gl_HelperInvocation''), (24, ''gl_NumWorkGroups''), (25, ''gl_WorkGroupSize''),
     (26, ''gl_WorkGroupID''), (27, ''gl_LocalInvocationID''), (28, ''gl_GlobalInvocationID''),
     (29, ''gl_LocalInvocationIndex''), (30, ''WorkDim''), (31, ''GlobalSize''),
     (32, ''EnqueuedWorkgroupSize''), (33, ''GlobalOffset''), (34, ''GlobalLinearId''),
     (36, ''SubgroupSize''), (37, ''SubgroupMaxSize''), (38, ''NumSubgroups''),
     (39, ''NumEnqueuedSubgroups''), (40, ''SubgroupId''), (41, ''SubgroupLocalInvocationId''),
     (42, ''gl_VertexIndex''), (43, ''gl_InstanceIndex''), (4425, ''gl_BaseInstance''),
     (4416, ''SubgroupEqMaskKHR''), (4417, ''SubgroupGeMaskKHR''), (4418, ''SubgroupGtMaskKHR''),
     (4419, ''SubgroupLeMaskKHR''), (4420, ''SubgroupLtMaskKHR'')]"

definition SaveBuiltInName :: "uint32_t \<Rightarrow> uint32_t \<Rightarrow> name_mapper \<Rightarrow> name_mapper option" where
  "SaveBuiltInName target_id built_in this =
     (case map_of BuiltInNames built_in of
        Some name \<Rightarrow> SaveName target_id name this
      | None \<Rightarrow> Some this)"

section \<open>Instructions\<close>

definition NameForEnumOperand :: "grammar \<Rightarrow> spv_operand_type_t \<Rightarrow> uint32_t \<Rightarrow> string" where
  "NameForEnumOperand G type word =
     (case LookupOperand G type word of
        Inr desc \<Rightarrow> getChars G (od_name_range desc)
      | Inl _ \<Rightarrow> ''StorageClass'' @ to_string word)"

definition DecorationBuiltIn :: uint32_t where "DecorationBuiltIn = 11"
definition FPEncodingBFloat16KHR :: uint32_t where "FPEncodingBFloat16KHR = 0"
definition FPEncodingFloat8E4M3EXT :: uint32_t where "FPEncodingFloat8E4M3EXT = 4214"
definition FPEncodingFloat8E5M2EXT :: uint32_t where "FPEncodingFloat8E5M2EXT = 4215"

definition int_type_name :: "uint32_t \<Rightarrow> uint32_t \<Rightarrow> string" where
  "int_type_name bit_width signedness_word =
     (let (signedness, root) =
            (if bit_width = 8 then ('''', ''char'') else if bit_width = 16 then ('''', ''short'')
             else if bit_width = 32 then ('''', ''int'') else if bit_width = 64 then ('''', ''long'')
             else (''i'', to_string bit_width));
          signedness = (if 0 = signedness_word then ''u'' else signedness)
      in signedness @ root)"

definition float_type_name :: "uint16_t \<Rightarrow> uint32_t list \<Rightarrow> string" where
  "float_type_name num_words words =
     (let bit_width = words ! 2
      in if num_words > 3 \<and> words ! 3 = FPEncodingBFloat16KHR then ''bfloat16''
         else if num_words > 3 \<and> words ! 3 = FPEncodingFloat8E4M3EXT then ''fp8e4m3''
         else if num_words > 3 \<and> words ! 3 = FPEncodingFloat8E5M2EXT then ''fp8e5m2''
         else if bit_width = 16 then ''half'' else if bit_width = 32 then ''float''
         else if bit_width = 64 then ''double'' else ''fp'' @ to_string bit_width)"

text \<open>The names of results whose instructions have a case of their own.\<close>

definition suggested_name ::
  "grammar \<Rightarrow> (float_format \<Rightarrow> uint64_t \<Rightarrow> string) \<Rightarrow> name_mapper \<Rightarrow> spv_parsed_instruction_t \<Rightarrow> string option" where
  "suggested_name G print_float this inst =
     (let opcode = (ucast (pi_opcode inst) :: Op);
          words = pi_words inst
      in if opcode = OpTypeVoid then Some ''void''
         else if opcode = OpTypeBool then Some ''bool''
         else if opcode = OpTypeInt then Some (int_type_name (words ! 2) (words ! 3))
         else if opcode = OpTypeFloat then Some (float_type_name (pi_num_words inst) words)
         else if opcode = OpTypeVector then Some (''v'' @ to_string (words ! 3) @ NameForId this (words ! 2))
         else if opcode = OpTypeMatrix then Some (''mat'' @ to_string (words ! 3) @ NameForId this (words ! 2))
         else if opcode = OpTypeArray then
           Some (''_arr_'' @ NameForId this (words ! 2) @ ''_'' @ NameForId this (words ! 3))
         else if opcode = OpTypeRuntimeArray then Some (''_runtimearr_'' @ NameForId this (words ! 2))
         else if opcode = OpTypeNodePayloadArrayAMDX then Some (''_payloadarr_'' @ NameForId this (words ! 2))
         else if opcode = OpTypePointer then
           Some (''_ptr_'' @ NameForEnumOperand G SPV_OPERAND_TYPE_STORAGE_CLASS (words ! 2) @ ''_'' @
             NameForId this (words ! 3))
         else if opcode = OpTypeUntypedPointerKHR then
           Some (''_ptr_'' @ NameForEnumOperand G SPV_OPERAND_TYPE_STORAGE_CLASS (words ! 2))
         else if opcode = OpTypePipe then
           Some (''Pipe'' @ NameForEnumOperand G SPV_OPERAND_TYPE_ACCESS_QUALIFIER (words ! 2))
         else if opcode = OpTypeEvent then Some ''Event''
         else if opcode = OpTypeDeviceEvent then Some ''DeviceEvent''
         else if opcode = OpTypeReserveId then Some ''ReserveId''
         else if opcode = OpTypeQueue then Some ''Queue''
         else if opcode = OpTypeOpaque then
           Some (''Opaque_'' @ Sanitize (spvDecodeLiteralStringOperand inst 1))
         else if opcode = OpTypePipeStorage then Some ''PipeStorage''
         else if opcode = OpTypeNamedBarrier then Some ''NamedBarrier''
         else if opcode = OpTypeStruct then Some (''_struct_'' @ to_string (pi_result_id inst))
         else if opcode = OpConstantTrue then Some ''true''
         else if opcode = OpConstantFalse then Some ''false''
         else if opcode = OpConstant then
           Some (NameForId this (pi_type_id inst) @ ''_'' @
             map (\<lambda>c. if c = CHR ''-'' then CHR ''n'' else c)
               (EmitNumericLiteral print_float inst (pi_operands inst ! 2)))
         else None)"

definition ParseInstruction ::
  "grammar \<Rightarrow> (float_format \<Rightarrow> uint64_t \<Rightarrow> string) \<Rightarrow> name_mapper \<Rightarrow> spv_parsed_instruction_t \<Rightarrow> name_mapper option" where
  "ParseInstruction G print_float this inst =
     (let opcode = (ucast (pi_opcode inst) :: Op);
          result_id = pi_result_id inst;
          words = pi_words inst
      in if opcode = OpName then SaveName (words ! 1) (spvDecodeLiteralStringOperand inst 1) this
         else if opcode = OpDecorate then
           if words ! 2 = DecorationBuiltIn then SaveBuiltInName (words ! 1) (words ! 3) this else Some this
         else
           case suggested_name G print_float this inst of
             Some name \<Rightarrow> SaveName result_id name this
           | None \<Rightarrow>
               if result_id \<noteq> 0 \<and> name_for_id this result_id = None
               then SaveName result_id (to_string result_id) this else Some this)"

definition ParseInstructionForwarder ::
  "grammar \<Rightarrow> (float_format \<Rightarrow> uint64_t \<Rightarrow> string) \<Rightarrow> name_mapper option parsed_instruction_fn" where
  "ParseInstructionForwarder G print_float user_data inst =
     (case user_data of None \<Rightarrow> None | Some this \<Rightarrow> ParseInstruction G print_float this inst, SPV_SUCCESS)"

definition FriendlyNameMapper ::
  "grammar \<Rightarrow> uint32_t \<Rightarrow> (float_format \<Rightarrow> uint64_t \<Rightarrow> string) \<Rightarrow> uint32_t list option \<Rightarrow> name_mapper option" where
  "FriendlyNameMapper G host print_float code =
     fst (spvBinaryParse G host (Some empty_mapper) code None (Some (ParseInstructionForwarder G print_float)))"

section \<open>The text of a number\<close>

lemma digit_char: "d < 10 \<Longrightarrow> ''0123456789'' ! d = char_of (48 + d)"
proof -
  have "list_all (\<lambda>d. ''0123456789'' ! d = char_of (48 + d)) [0..<10]" by code_simp
  then show "d < 10 \<Longrightarrow> ''0123456789'' ! d = char_of (48 + d)" by (simp add: list_all_iff)
qed

lemma to_string_loop_ToString:
  "n \<noteq> 0 \<Longrightarrow> to_string_loop n buf = ToString (unat n) @ buf"
proof (induction n buf rule: to_string_loop.induct)
  case (1 n buf)
  have digit: "''0123456789'' ! unat (n mod 10) = char_of (48 + unat n mod 10)"
    by (simp add: digit_char unat_mod)
  have pos: "n > 0" using 1(2) by (simp add: word_neq_0_conv)
  show ?case
  proof (cases "unat n < 10")
    case True
    then have "(n - n mod 10) div 10 = 0" using unat_drop_digit [of n] by (simp add: unat_eq_zero)
    then show ?thesis using True digit pos
      by (subst to_string_loop.simps) (simp add: Let_def to_string_loop.simps [of 0] ToString.simps)
  next
    case False
    then have "unat ((n - n mod 10) div 10) \<noteq> 0" unfolding unat_drop_digit by simp
    then have "(n - n mod 10) div 10 \<noteq> 0" by (metis unat_0)
    with 1(1) [OF pos refl] show ?thesis using False digit pos
      by (subst to_string_loop.simps, subst ToString.simps) (simp add: Let_def unat_drop_digit)
  qed
qed

lemma to_string_ToString: "to_string n = ToString (unat n)"
proof -
  have "ToString 0 = ''0''" by code_simp
  then show ?thesis by (simp add: to_string_def to_string_loop_ToString)
qed

lemma ToString_length: "n < 10 ^ Suc k \<Longrightarrow> length (ToString n) \<le> Suc k"
proof (induction k arbitrary: n)
  case (Suc k)
  then have "n div 10 < 10 ^ Suc k" by (simp add: less_mult_imp_div_less)
  from Suc.IH [OF this] show ?case by (subst ToString.simps) simp
qed (simp add: ToString.simps)

lemma ToString_inj: "ToString m = ToString n \<longleftrightarrow> m = n"
  using ToString_digits [of m] ToString_digits [of n] by (metis of_nat_eq_iff)

lemma to_string_inj: "to_string m = to_string n \<longleftrightarrow> m = n"
  by (simp add: to_string_ToString ToString_inj word_unat_eq_iff)

section \<open>Valid names\<close>

definition valid_name :: "string \<Rightarrow> bool" where
  "valid_name s \<longleftrightarrow> s \<noteq> '''' \<and> set s \<subseteq> set valid_characters"

lemma Sanitize_valid: "valid_name (Sanitize s)"
proof -
  have "CHR ''_'' \<in> set valid_characters" by (simp add: valid_characters_def)
  then show ?thesis by (auto simp: Sanitize_def valid_name_def)
qed

lemma digits_valid: "set (to_string n) \<subseteq> set valid_characters"
proof -
  have valid: "list_all (\<lambda>d. char_of (48 + d) \<in> set valid_characters) [0..<10]" by code_simp
  have digits: "list_all (\<lambda>c. \<exists>d < 10. c = char_of (48 + d :: nat)) (ToString k)" for k
  proof (induction k rule: ToString.induct)
    case (1 k)
    then show ?case by (subst ToString.simps) (auto intro: exI [of _ "k mod 10"])
  qed
  show ?thesis
    unfolding to_string_ToString using digits [of "unat n"] valid by (fastforce simp: list_all_iff)
qed

lemma Sanitize_id: "valid_name s \<Longrightarrow> Sanitize s = s"
  by (auto simp: Sanitize_def valid_name_def subset_iff intro!: map_idI)

section \<open>A free name is found\<close>

lemma free_name_from:
  assumes "base @ to_string (of_nat k) \<notin> used" "j \<le> k"
    "\<And>i. i < k \<Longrightarrow> base @ to_string (of_nat i) \<in> used"
  shows "free_name_loop base used (of_nat j) = Some (base @ to_string (of_nat k))"
  using assms(2)
proof (induction "k - j" arbitrary: j)
  case 0
  then show ?case using assms(1) by (subst free_name_loop.simps) simp
next
  case (Suc d)
  then have "base @ to_string (of_nat j) \<in> used" using assms(3) by simp
  moreover have "free_name_loop base used (of_nat (Suc j)) = Some (base @ to_string (of_nat k))"
    using Suc.hyps(1) [of "Suc j"] Suc.hyps(2) by simp
  ultimately show ?case by (subst free_name_loop.simps) (simp add: add.commute)
qed

lemma free_name_found:
  assumes "finite used" "card used < 2 ^ 32"
  shows "\<exists>n. free_name_loop base used 0 = Some (base @ to_string n) \<and> base @ to_string n \<notin> used"
proof -
  have "\<exists>n. base @ to_string n \<notin> used"
  proof (rule ccontr)
    assume "\<not> (\<exists>n. base @ to_string n \<notin> used)"
    then have "range (\<lambda>n. base @ to_string n) \<subseteq> used" by blast
    then have "card (range (\<lambda>n. base @ to_string n)) \<le> card used" using assms(1) by (rule card_mono [rotated])
    moreover have "card (range (\<lambda>n. base @ to_string n)) = 2 ^ 32"
      by (subst card_image) (auto simp: inj_def to_string_inj card_word)
    ultimately show False using assms(2) by simp
  qed
  then obtain n where "base @ to_string n \<notin> used" by blast
  then have ex: "base @ to_string (of_nat (unat n)) \<notin> used" by simp
  define k where "k = (LEAST k. base @ to_string (of_nat k) \<notin> used)"
  have "base @ to_string (of_nat k) \<notin> used" unfolding k_def using ex by (rule LeastI)
  moreover have "base @ to_string (of_nat i) \<in> used" if "i < k" for i
    using not_less_Least [of i "\<lambda>k. base @ to_string (of_nat k) \<notin> used"] that unfolding k_def by blast
  ultimately show ?thesis using free_name_from [of base k used 0] by auto
qed

section \<open>The names of a mapper\<close>

text \<open>The names taken are those given, no two ids share a name, and all names are valid.\<close>

definition mapper_ok :: "name_mapper \<Rightarrow> bool" where
  "mapper_ok m \<longleftrightarrow> used_names m = ran (name_for_id m) \<and> inj_on (name_for_id m) (dom (name_for_id m)) \<and>
     (\<forall>name \<in> used_names m. valid_name name)"

lemma mapper_ok_empty: "mapper_ok empty_mapper"
  by (simp add: mapper_ok_def empty_mapper_def)

lemma used_card:
  assumes "mapper_ok m" "name_for_id m i = None"
  shows "finite (used_names m)" "card (used_names m) < 2 ^ 32"
proof -
  have used: "used_names m = (\<lambda>i. the (name_for_id m i)) ` dom (name_for_id m)"
    using assms(1) by (force simp: mapper_ok_def ran_def image_iff dom_def)
  show "finite (used_names m)" unfolding used by simp
  have "card (used_names m) \<le> card (dom (name_for_id m))" unfolding used by (rule card_image_le) simp
  also have "dom (name_for_id m) \<subset> UNIV" using assms(2) by auto
  then have "card (dom (name_for_id m)) < card (UNIV :: uint32_t set)" by (rule psubset_card_mono [rotated]) simp
  also have "\<dots> = 2 ^ 32" by (simp add: card_word)
  finally show "card (used_names m) < 2 ^ 32" .
qed

lemma SaveName_ok:
  assumes "mapper_ok m"
  shows "\<exists>m'. SaveName i s m = Some m' \<and> mapper_ok m' \<and> dom (name_for_id m') = insert i (dom (name_for_id m)) \<and>
    name_for_id m \<subseteq>\<^sub>m name_for_id m'"
proof (cases "name_for_id m i")
  case (Some name)
  then show ?thesis using assms by (auto simp: SaveName_def)
next
  case None
  have "\<exists>name. valid_name name \<and> name \<notin> used_names m \<and>
      SaveName i s m = Some (m\<lparr>used_names := insert name (used_names m),
        name_for_id := (name_for_id m)(i \<mapsto> name)\<rparr>)"
  proof (cases "Sanitize s \<in> used_names m")
    case True
    obtain n where n: "free_name_loop (Sanitize s @ ''_'') (used_names m) 0 = Some ((Sanitize s @ ''_'') @ to_string n)"
      "(Sanitize s @ ''_'') @ to_string n \<notin> used_names m"
      using free_name_found [OF used_card [OF assms None]] by blast
    moreover have "valid_name ((Sanitize s @ ''_'') @ to_string n)"
      using Sanitize_valid [of s] digits_valid [of n] by (auto simp: valid_name_def valid_characters_def)
    ultimately show ?thesis using True None
      by (intro exI [of _ "(Sanitize s @ ''_'') @ to_string n"]) (simp add: SaveName_def Let_def)
  next
    case False
    then show ?thesis using None Sanitize_valid
      by (intro exI [of _ "Sanitize s"]) (simp add: SaveName_def Let_def)
  qed
  then obtain name where name: "valid_name name" "name \<notin> used_names m"
    "SaveName i s m = Some (m\<lparr>used_names := insert name (used_names m), name_for_id := (name_for_id m)(i \<mapsto> name)\<rparr>)"
    by blast
  have "inj_on ((name_for_id m)(i \<mapsto> name)) (dom ((name_for_id m)(i \<mapsto> name)))"
    using assms name(2) None by (auto simp: mapper_ok_def inj_on_def ran_def dom_def split: if_splits)
  moreover have "ran ((name_for_id m)(i \<mapsto> name)) = insert name (ran (name_for_id m))"
    using None by (rule ran_map_upd)
  ultimately show ?thesis using assms name None
    by (auto simp: mapper_ok_def map_le_def)
qed

lemma ParseInstruction_ok:
  assumes "mapper_ok m"
  shows "\<exists>m'. ParseInstruction G pf m inst = Some m' \<and> mapper_ok m' \<and> name_for_id m \<subseteq>\<^sub>m name_for_id m' \<and>
    (pi_result_id inst \<noteq> 0 \<and> (ucast (pi_opcode inst) :: Op) \<notin> {OpName, OpDecorate} \<longrightarrow>
      pi_result_id inst \<in> dom (name_for_id m'))"
proof -
  have save: "\<exists>m'. SaveName i s m = Some m' \<and> mapper_ok m' \<and> name_for_id m \<subseteq>\<^sub>m name_for_id m' \<and>
      i \<in> dom (name_for_id m')" for i s
    using SaveName_ok [OF assms, of i s] by blast
  have named: "\<exists>m'. SaveBuiltInName i b m = Some m' \<and> mapper_ok m' \<and> name_for_id m \<subseteq>\<^sub>m name_for_id m'" for i b
  proof (cases "map_of BuiltInNames b")
    case None
    then show ?thesis using assms by (simp add: SaveBuiltInName_def)
  next
    case (Some s)
    then show ?thesis using save [of i s] by (auto simp: SaveBuiltInName_def)
  qed
  let ?op = "ucast (pi_opcode inst) :: Op"
  consider (name) "?op = OpName" | (built_in) "?op = OpDecorate" "pi_words inst ! 2 = DecorationBuiltIn"
    | (decorate) "?op = OpDecorate" "pi_words inst ! 2 \<noteq> DecorationBuiltIn"
    | (suggested) s where "?op \<notin> {OpName, OpDecorate}" "suggested_name G pf m inst = Some s"
    | (plain) "?op \<notin> {OpName, OpDecorate}" "suggested_name G pf m inst = None"
    by blast
  then show ?thesis
  proof cases
    case name
    then show ?thesis using save [of "pi_words inst ! 1"] by (auto simp: ParseInstruction_def)
  next
    case built_in
    then show ?thesis using named [of "pi_words inst ! 1" "pi_words inst ! 3"] by (auto simp: ParseInstruction_def)
  next
    case decorate
    then show ?thesis using assms by (simp add: ParseInstruction_def)
  next
    case (suggested s)
    then show ?thesis using save [of "pi_result_id inst" s] by (auto simp: ParseInstruction_def Let_def)
  next
    case plain
    then show ?thesis using save [of "pi_result_id inst" "to_string (pi_result_id inst)"] assms
      by (auto simp: ParseInstruction_def Let_def)
  qed
qed

text \<open>The instructions the mapper takes a name of the result from.\<close>

definition naming :: "spv_parsed_instruction_t list \<Rightarrow> spv_parsed_instruction_t list" where
  "naming insts = filter (\<lambda>inst. (ucast (pi_opcode inst) :: Op) \<notin> {OpName, OpDecorate}) insts"

lemma ParseInstructionForwarder_Some [simp]:
  "ParseInstructionForwarder G pf (Some m) inst = (ParseInstruction G pf m inst, SPV_SUCCESS)"
  by (simp add: ParseInstructionForwarder_def)

lemma run_mapper:
  assumes "mapper_ok m"
  shows "\<exists>m'. fst (run_callbacks (ParseInstructionForwarder G pf) (Some m) insts) = Some m' \<and> mapper_ok m' \<and>
    name_for_id m \<subseteq>\<^sub>m name_for_id m' \<and> set (result_ids (naming insts)) \<subseteq> dom (name_for_id m')"
  using assms
proof (induction insts arbitrary: m)
  case Nil
  then show ?case by (simp add: result_ids_def naming_def)
next
  case (Cons inst insts)
  obtain m1 where m1: "ParseInstruction G pf m inst = Some m1" "mapper_ok m1" "name_for_id m \<subseteq>\<^sub>m name_for_id m1"
    "pi_result_id inst \<noteq> 0 \<and> (ucast (pi_opcode inst) :: Op) \<notin> {OpName, OpDecorate} \<Longrightarrow>
      pi_result_id inst \<in> dom (name_for_id m1)"
    using ParseInstruction_ok [OF Cons.prems, of G pf inst] by blast
  obtain m' where m': "fst (run_callbacks (ParseInstructionForwarder G pf) (Some m1) insts) = Some m'" "mapper_ok m'"
    "name_for_id m1 \<subseteq>\<^sub>m name_for_id m'" "set (result_ids (naming insts)) \<subseteq> dom (name_for_id m')"
    using Cons.IH [OF m1(2)] by blast
  have "dom (name_for_id m1) \<subseteq> dom (name_for_id m')" using m'(3) by (rule map_le_implies_dom_le)
  then have "set (result_ids (naming (inst # insts))) \<subseteq> dom (name_for_id m')"
    using m1(4) m'(4) by (auto simp: result_ids_def naming_def)
  moreover have "name_for_id m \<subseteq>\<^sub>m name_for_id m'" using m1(3) m'(3) by (rule map_le_trans)
  ultimately show ?case using m1(1) m'(1,2) by simp
qed

text \<open>A client is told of the instructions a recording client is told of.\<close>

lemma parse_runs_callbacks:
  "fst (spvBinaryParse G host u code None (Some fn)) =
    fst (run_callbacks fn u (fst (spvBinaryParse G host [] code None (Some (\<lambda>us inst. (us @ [inst], SPV_SUCCESS))))))"
proof -
  let ?P = "\<lparr>p_grammar = G, p_host_order = host, p_parsed_header_fn = None, p_parsed_instruction_fn = Some fn\<rparr>"
  have loop: "fst (loop_outcome (parse_instructions_loop ?P u st)) =
      fst (run_callbacks fn u (fst (loop_outcome (parse_instructions_loop (recorder G host) [] st))))" for st
    using loop_replay [where P = ?P and G = G and host = host and us = "[]" and u = u and st = st]
    by (auto simp: replay_def instruction_client_def Let_def split: prod.splits)
  have "parseModule (recorder G host) [] code = spvBinaryParse G host [] code None (Some (\<lambda>us inst. (us @ [inst], SPV_SUCCESS)))"
    by (simp add: spvBinaryParse_def recorder_def)
  then show ?thesis
    using loop parseModule_outcome [of ?P u code] parseModule_outcome [of "recorder G host" "[]" code]
    by (auto simp: spvBinaryParse_def recorder_def parse_from_header_def header_client_def split: option.splits sum.splits)
qed

section \<open>Literals read back\<close>

lemma two_words_bits:
  "two_words (ucast lo OR push_bit 32 (ucast hi)) = [lo, hi]" (is "two_words ?b = _")
proof -
  have "(ucast (0x00000000ffffffff AND ?b) :: uint32_t) = lo"
  proof (rule bit_word_eqI)
    fix n assume n: "n < LENGTH(32)"
    have "bit (mask 32 :: uint64_t) n" using n by (simp add: bit_mask_iff)
    moreover have "(0xffffffff :: uint64_t) = mask 32" by (simp add: mask_eq_exp_minus_1)
    ultimately have "bit (0xffffffff :: uint64_t) n" by (simp only:)
    then show "bit (ucast (0x00000000ffffffff AND ?b) :: uint32_t) n = bit lo n"
      using n by (simp add: bit_unsigned_iff bit_and_iff bit_or_iff bit_push_bit_iff)
  qed
  moreover have "(ucast (drop_bit 32 (0xffffffff00000000 AND ?b)) :: uint32_t) = hi"
  proof (rule bit_word_eqI)
    fix n assume n: "n < LENGTH(32)"
    have "bit (push_bit 32 (mask 32) :: uint64_t) (32 + n)"
      using n by (simp add: bit_push_bit_iff bit_mask_iff)
    moreover have "(0xffffffff00000000 :: uint64_t) = push_bit 32 (mask 32)"
      by (simp add: mask_eq_exp_minus_1 push_bit_eq_mult)
    ultimately have "bit (0xffffffff00000000 :: uint64_t) (32 + n)" by (simp only:)
    moreover have half: "bit (ucast (drop_bit 32 (c AND y)) :: uint32_t) n \<longleftrightarrow> bit c (32 + n) \<and> bit y (32 + n)"
      for c y :: uint64_t
      using n by (simp add: bit_unsigned_iff bit_and_iff bit_drop_bit_eq)
    moreover have "\<not> bit lo (32 + n)" using bit_imp_le_length [of lo "32 + n"] by auto
    ultimately show "bit (ucast (drop_bit 32 (0xffffffff00000000 AND ?b)) :: uint32_t) n = bit hi n"
      using n by (simp only: half) (simp add: bit_unsigned_iff bit_or_iff bit_push_bit_iff)
  qed
  ultimately show ?thesis by (simp only: two_words_def)
qed

lemma literal_words_two: "32 < w \<Longrightarrow> literal_words w x = two_words (word_of_int x)"
  by (simp add: literal_words_def two_words_of_int)

lemma encode_int_string:
  assumes "kind \<in> {SPV_NUMBER_SIGNED_INT, SPV_NUMBER_UNSIGNED_INT}" "unat width \<le> 64"
    "in_range (unat width) (kind = SPV_NUMBER_SIGNED_INT) False x"
  shows "ParseAndEncodeNumber pf (Some (int_string x)) \<lparr>nt_bitwidth = width, nt_kind = kind, nt_encoding = enc\<rparr> =
    Inr (literal_words (unat width) x)"
proof -
  let ?type = "\<lparr>nt_bitwidth = width, nt_kind = kind, nt_encoding = enc\<rparr>"
  have kind: "IsIntegral ?type" "\<not> IsUnknown ?type" "\<not> IsFloating ?type"
    using assms(1) by (auto simp: IsIntegral_def IsUnknown_def IsFloating_def)
  have "0 \<le> x" if "kind \<noteq> SPV_NUMBER_SIGNED_INT" using assms(3) that by (simp add: in_range_def)
  then show ?thesis
    using kind assms integer_number [OF kind(1), of "int_string x"] int_string_plain [of x]
    by (auto simp: ParseAndEncodeNumber_def integer_literal_int_string Let_def)
qed

section \<open>Properties\<close>

text \<open>C23: the mapper of any module, parsable or not, comes to an end; every result of an instruction the
  parser reports has a name of its own, no two ids share a name, and all names are non-empty words of
  letters, digits and underscores.\<close>

theorem friendly_names:
  "(let insts = fst (spvBinaryParse G host [] code None (Some (\<lambda>us inst. (us @ [inst], SPV_SUCCESS))))
    in case FriendlyNameMapper G host print_float code of
         None \<Rightarrow> False
       | Some m \<Rightarrow>
           set (result_ids (filter (\<lambda>inst. (ucast (pi_opcode inst) :: Op) \<notin> {OpName, OpDecorate}) insts)) \<subseteq>
             dom (name_for_id m) \<and>
           inj_on (NameForId m) (dom (name_for_id m)) \<and>
           used_names m = NameForId m ` dom (name_for_id m) \<and>
           '''' \<notin> used_names m \<and> \<Union> (set ` used_names m) \<subseteq> set valid_characters)"
proof -
  obtain m where m: "FriendlyNameMapper G host print_float code = Some m" "mapper_ok m"
    "set (result_ids (naming (fst (spvBinaryParse G host [] code None (Some (\<lambda>us inst. (us @ [inst], SPV_SUCCESS))))))) \<subseteq>
      dom (name_for_id m)"
    unfolding FriendlyNameMapper_def parse_runs_callbacks [of _ _ "Some empty_mapper"]
    using run_mapper [OF mapper_ok_empty] by blast
  have "inj_on (NameForId m) (dom (name_for_id m))" "used_names m = NameForId m ` dom (name_for_id m)"
    using m(2) by (auto simp: mapper_ok_def NameForId_def inj_on_def ran_def dom_def image_def)
  moreover have "'''' \<notin> used_names m" "\<Union> (set ` used_names m) \<subseteq> set valid_characters"
    using m(2) by (auto simp: mapper_ok_def valid_name_def)
  ultimately show ?thesis using m(1,3) by (simp add: naming_def Let_def)
qed

text \<open>The digits of a number are its decimal text and never more than the buffer holds.\<close>

theorem to_string_bounds:
  "to_string n = ToString (unat n) \<and> length (to_string n) \<le> max_digits"
proof -
  have "unat n < 10 ^ Suc 9" using unsigned_less [of n, where 'a = nat] by simp
  then show ?thesis using ToString_length [of "unat n" 9] by (simp add: to_string_ToString max_digits_def)
qed

text \<open>C20: an integer literal that is printed is read back as the same words, for every width up to 64
  bits, both signs, and both one and two words, provided the words hold a number of that width.\<close>

theorem numeric_literal_roundtrip:
  assumes "po_type operand \<in> {SPV_OPERAND_TYPE_LITERAL_INTEGER, SPV_OPERAND_TYPE_LITERAL_FLOAT,
      SPV_OPERAND_TYPE_TYPED_LITERAL_NUMBER, SPV_OPERAND_TYPE_OPTIONAL_LITERAL_INTEGER,
      SPV_OPERAND_TYPE_OPTIONAL_TYPED_LITERAL_INTEGER}"
    and "po_number_kind operand \<in> {SPV_NUMBER_SIGNED_INT, SPV_NUMBER_UNSIGNED_INT}"
    and "unat (po_number_bit_width operand) \<le> 64"
    and "drop (unat (po_offset operand)) (pi_words inst) =
      (if unat (po_number_bit_width operand) > 32 then [lo, hi] else [lo]) @ rest"
    and "po_num_words operand = (if unat (po_number_bit_width operand) > 32 then 2 else 1)"
    and "in_range (unat (po_number_bit_width operand)) (po_number_kind operand = SPV_NUMBER_SIGNED_INT) False
      (if unat (po_number_bit_width operand) > 32
       then let bits = ucast lo OR push_bit 32 (ucast hi) :: uint64_t
            in if po_number_kind operand = SPV_NUMBER_SIGNED_INT then sint bits else uint bits
       else if po_number_kind operand = SPV_NUMBER_SIGNED_INT then sint lo else uint lo)"
  shows "ParseAndEncodeNumber parse_float (Some (EmitNumericLiteral print_float inst operand))
      \<lparr>nt_bitwidth = po_number_bit_width operand, nt_kind = po_number_kind operand, nt_encoding = enc\<rparr> =
    Inr (if unat (po_number_bit_width operand) > 32 then [lo, hi] else [lo])"
proof -
  let ?o = "unat (po_offset operand)" and ?w = "unat (po_number_bit_width operand)"
  have nth: "pi_words inst ! (?o + i) = drop ?o (pi_words inst) ! i" if "i < length (drop ?o (pi_words inst))" for i
    using that by simp
  have uns: "ToString (unat v) = int_string (uint v)" for v :: "'a::len word"
    by (simp add: int_string_def flip: unat_eq_nat_uint)
  show ?thesis
  proof (cases "?w > 32")
    case True
    then have words: "pi_words inst ! ?o = lo" "pi_words inst ! Suc ?o = hi"
      using nth [of 0] nth [of 1] assms(4) by auto
    show ?thesis
      using True assms words encode_int_string [OF assms(2,3)]
      by (auto simp: EmitNumericLiteral_def uns literal_words_two two_words_bits Let_def)
  next
    case False
    then have "pi_words inst ! ?o = lo" using nth [of 0] assms(4) by auto
    then show ?thesis
      using False assms encode_int_string [OF assms(2,3)]
      by (auto simp: EmitNumericLiteral_def uns literal_words_def Let_def)
  qed
qed

text \<open>The literal -2 of a type of 64 bits.\<close>

theorem numeric_literal_roundtrip_witness:
  "let operand = \<lparr>po_offset = 3, po_num_words = 2, po_type = SPV_OPERAND_TYPE_TYPED_LITERAL_NUMBER,
        po_number_kind = SPV_NUMBER_SIGNED_INT, po_number_bit_width = 64, po_fp_encoding = None\<rparr>;
      inst = \<lparr>pi_words = [0x0005002B, 1, 2, 0xFFFFFFFE, 0xFFFFFFFF], pi_num_words = 5, pi_opcode = 43,
        pi_ext_inst_type = SPV_EXT_INST_TYPE_NONE, pi_type_id = 1, pi_result_id = 2,
        pi_operands = [], pi_num_operands = 0\<rparr>
   in ParseAndEncodeNumber (\<lambda>_ _. None) (Some (EmitNumericLiteral (\<lambda>_ _. '''') inst operand))
        \<lparr>nt_bitwidth = 64, nt_kind = SPV_NUMBER_SIGNED_INT, nt_encoding = SPV_FP_ENCODING_UNKNOWN\<rparr> =
      Inr [0xFFFFFFFE, 0xFFFFFFFF]"
proof -
  let ?operand = "\<lparr>po_offset = 3, po_num_words = 2, po_type = SPV_OPERAND_TYPE_TYPED_LITERAL_NUMBER,
        po_number_kind = SPV_NUMBER_SIGNED_INT, po_number_bit_width = 64, po_fp_encoding = None\<rparr>"
  let ?inst = "\<lparr>pi_words = [0x0005002B, 1, 2, 0xFFFFFFFE, 0xFFFFFFFF], pi_num_words = 5, pi_opcode = 43,
        pi_ext_inst_type = SPV_EXT_INST_TYPE_NONE, pi_type_id = 1, pi_result_id = 2,
        pi_operands = [], pi_num_operands = 0\<rparr>"
  have "sint (ucast (0xFFFFFFFE :: uint32_t) OR push_bit 32 (ucast (0xFFFFFFFF :: uint32_t)) :: uint64_t) = - 2"
    by code_simp
  then show ?thesis
    using numeric_literal_roundtrip [of ?operand ?inst "0xFFFFFFFE" "0xFFFFFFFF" "[]"
        "\<lambda>_ _. None" "\<lambda>_ _. ''''" SPV_FP_ENCODING_UNKNOWN]
    by (simp add: in_range_def Let_def)
qed

end
