(* ===== verification/Text_Context.thy ===== *)
theory Text_Context
  imports Parse_Number Ext_Inst Operands
begin

text \<open>
  \<open>text_handler.h\<close> and \<open>text_handler.cpp\<close>: the reader of an assembly text and the context of an assembly.
  A position holds the line, the column and the index in the text. The context holds the names of ids,
  the types of ids, the imports of extended instructions and the numbers of ids that are kept. A null
  text is refused before anything reads it, so the text is a string here.
\<close>

section \<open>Positions\<close>

record spv_position_t =
  pos_line :: nat
  pos_column :: nat
  pos_index :: nat

definition start_position :: spv_position_t where
  "start_position = \<lparr>pos_line = 0, pos_column = 0, pos_index = 0\<rparr>"

definition step_column :: "spv_position_t \<Rightarrow> spv_position_t" where
  "step_column position =
     position\<lparr>pos_column := pos_column position + 1, pos_index := pos_index position + 1\<rparr>"

definition step_line :: "spv_position_t \<Rightarrow> spv_position_t" where
  "step_line position =
     position\<lparr>pos_column := 0, pos_line := pos_line position + 1, pos_index := pos_index position + 1\<rparr>"

lemma pos_index_steps [simp]:
  "pos_index (step_column p) = Suc (pos_index p)" "pos_index (step_line p) = Suc (pos_index p)"
  by (simp_all add: step_column_def step_line_def)

function advanceLine :: "string \<Rightarrow> spv_position_t \<Rightarrow> spv_result_t \<times> spv_position_t" where
  "advanceLine str position =
     (if pos_index position \<ge> length str then (SPV_END_OF_STREAM, position)
      else let ch = str ! pos_index position
           in if ch = CHR 0x00 then (SPV_END_OF_STREAM, position)
              else if ch = CHR 0x0A then (SPV_SUCCESS, step_line position)
              else advanceLine str (step_column position))"
  by pat_completeness auto
termination
  by (relation "measure (\<lambda>(str, p). length str - pos_index p)") auto

declare advanceLine.simps [simp del]

lemma advanceLine_index: "pos_index p \<le> pos_index (snd (advanceLine str p))"
proof (induction str p rule: advanceLine.induct)
  case (1 str p)
  then show ?case by (subst advanceLine.simps) (fastforce simp: Let_def)
qed

lemma advanceLine_comment:
  assumes "pos_index p < length str" "str ! pos_index p = CHR '';''"
  shows "Suc (pos_index p) \<le> pos_index (snd (advanceLine str p))"
proof -
  have "advanceLine str p = advanceLine str (step_column p)"
    using assms by (subst advanceLine.simps) (simp add: Let_def)
  then show ?thesis using advanceLine_index [of "step_column p" str] by simp
qed

text \<open>
  At a comment the line is skipped; the loop goes on behind it, which is further on because the
  comment has at least its semicolon.
\<close>

function advance :: "string \<Rightarrow> spv_position_t \<Rightarrow> spv_result_t \<times> spv_position_t" where
  "advance str position =
     (if pos_index position \<ge> length str then (SPV_END_OF_STREAM, position)
      else let ch = str ! pos_index position
           in if ch = CHR 0x00 then (SPV_END_OF_STREAM, position)
              else if ch = CHR '';'' then
                (case advanceLine str position of
                   (error, position') \<Rightarrow>
                     if error \<noteq> SPV_SUCCESS then (error, position') else advance str position')
              else if ch \<in> {CHR '' '', CHR 0x09, CHR 0x0D} then advance str (step_column position)
              else if ch = CHR 0x0A then advance str (step_line position)
              else (SPV_SUCCESS, position))"
  by pat_completeness auto
termination
proof (relation "measure (\<lambda>(str, p). length str - pos_index p)")
  fix str and position position' :: spv_position_t and ch error
  assume a: "\<not> length str \<le> pos_index position" "ch = str ! pos_index position" "ch \<noteq> CHR 0x00"
    "ch = CHR '';''" "(error, position') = advanceLine str position"
  then have "Suc (pos_index position) \<le> pos_index position'"
    using advanceLine_comment [of position str] by (metis not_le snd_conv)
  then show "((str, position'), str, position) \<in> measure (\<lambda>(str, p). length str - pos_index p)"
    using a by simp
qed auto

declare advance.simps [simp del]

section \<open>Words\<close>

definition isWordEnd :: "char \<Rightarrow> bool" where
  "isWordEnd ch \<longleftrightarrow> ch \<in> {CHR '' '', CHR '';'', CHR '','', CHR ''('', CHR '')'', CHR 0x09, CHR 0x0A, CHR 0x0D}"

function getWord_loop :: "string \<Rightarrow> bool \<Rightarrow> bool \<Rightarrow> spv_position_t \<Rightarrow> spv_position_t" where
  "getWord_loop str quoting escaping position =
     (if pos_index position \<ge> length str then position
      else let ch = str ! pos_index position
           in if ch = CHR 0x5C then getWord_loop str quoting (\<not> escaping) (step_column position)
              else if ch = CHR 0x22 then
                getWord_loop str (if \<not> escaping then \<not> quoting else quoting) False (step_column position)
              else if isWordEnd ch \<and> \<not> (escaping \<or> quoting) then position
              else if ch = CHR 0x00 then position
              else getWord_loop str quoting False (step_column position))"
  by pat_completeness auto
termination
  by (relation "measure (\<lambda>(str, q, e, p). length str - pos_index p)") auto

declare getWord_loop.simps [simp del]

definition getWord :: "string \<Rightarrow> spv_position_t \<Rightarrow> spv_result_t + string \<times> spv_position_t" where
  "getWord str position =
     (if str = '''' then Inl SPV_ERROR_INVALID_TEXT
      else
        let end_position = getWord_loop str False False position
        in Inr (take (pos_index end_position - pos_index position) (drop (pos_index position) str), end_position))"

definition startsWithOp :: "string \<Rightarrow> spv_position_t \<Rightarrow> bool" where
  "startsWithOp str position =
     (if length str < pos_index position + 3 then False
      else
        let ch0 = str ! pos_index position;
            ch1 = str ! (pos_index position + 1);
            ch2 = str ! (pos_index position + 2)
        in CHR ''O'' = ch0 \<and> CHR ''p'' = ch1 \<and> (65 \<le> (of_char ch2 :: nat) \<and> (of_char ch2 :: nat) \<le> 90))"

section \<open>The context\<close>

datatype IdTypeClass = kBottom | kScalarIntegerType | kScalarFloatType | kOtherType

record IdType =
  it_bitwidth :: uint32_t
  it_isSigned :: bool
  it_type_class :: IdTypeClass
  it_encoding :: spv_fp_encoding_t

text \<open>\<open>operator==\<close> leaves the encoding out.\<close>

definition IdType_eq :: "IdType \<Rightarrow> IdType \<Rightarrow> bool" where
  "IdType_eq first second \<longleftrightarrow>
     it_bitwidth first = it_bitwidth second \<and> it_isSigned first = it_isSigned second \<and>
     it_type_class first = it_type_class second"

definition IdType_neq :: "IdType \<Rightarrow> IdType \<Rightarrow> bool" where
  "IdType_neq first second \<longleftrightarrow> \<not> IdType_eq first second"

definition make_type :: "uint32_t \<Rightarrow> bool \<Rightarrow> IdTypeClass \<Rightarrow> IdType" where
  "make_type bitwidth isSigned cls =
     \<lparr>it_bitwidth = bitwidth, it_isSigned = isSigned, it_type_class = cls,
      it_encoding = SPV_FP_ENCODING_UNKNOWN\<rparr>"

definition kUnknownType :: IdType where
  "kUnknownType = make_type 0 False kBottom"

definition isScalarIntegral :: "IdType \<Rightarrow> bool" where
  "isScalarIntegral type \<longleftrightarrow> it_type_class type = kScalarIntegerType"

definition isScalarFloating :: "IdType \<Rightarrow> bool" where
  "isScalarFloating type \<longleftrightarrow> it_type_class type = kScalarFloatType"

definition assumedBitWidth :: "IdType \<Rightarrow> uint32_t" where
  "assumedBitWidth type =
     (case it_type_class type of
        kBottom \<Rightarrow> 32
      | kScalarIntegerType \<Rightarrow> it_bitwidth type
      | kScalarFloatType \<Rightarrow> it_bitwidth type
      | kOtherType \<Rightarrow> 0)"

text \<open>The table of names keeps the order of the insertions, the newest first; no name occurs twice.\<close>

record AssemblyContext =
  named_ids :: "(string \<times> uint32_t) list"
  types_of_ids :: "uint32_t \<rightharpoonup> IdType"
  value_types :: "uint32_t \<rightharpoonup> uint32_t"
  import_id_to_ext_inst_type :: "uint32_t \<rightharpoonup> spv_ext_inst_type_t"
  current_position :: spv_position_t
  ac_text :: string
  id_bound :: uint32_t
  next_id :: uint32_t
  ids_to_preserve :: "uint32_t set"

definition new_AssemblyContext :: "string \<Rightarrow> uint32_t set \<Rightarrow> AssemblyContext" where
  "new_AssemblyContext str preserve =
     \<lparr>named_ids = [], types_of_ids = Map.empty, value_types = Map.empty,
      import_id_to_ext_inst_type = Map.empty, current_position = start_position, ac_text = str,
      id_bound = 1, next_id = 1, ids_to_preserve = preserve\<rparr>"

text \<open>The search for a number that is not kept; \<open>None\<close> is a search without end, when all are kept.\<close>

partial_function (option) next_free_id ::
  "uint32_t set \<Rightarrow> uint32_t \<Rightarrow> uint32_t \<Rightarrow> (uint32_t \<times> uint32_t) option" where
  "next_free_id preserve i nxt =
     (if i \<in> preserve then next_free_id preserve nxt (nxt + 1) else Some (i, nxt))"

definition spvNamedIdAssignOrGet ::
  "AssemblyContext \<Rightarrow> string \<Rightarrow> (uint32_t \<times> AssemblyContext) option" where
  "spvNamedIdAssignOrGet this textValue =
     (let kept = (if ids_to_preserve this \<noteq> {} then
                    (case ParseNumber textValue of
                       Some i \<Rightarrow> if i \<in> ids_to_preserve this then Some i else None
                     | None \<Rightarrow> None)
                  else None)
      in case kept of
           Some i \<Rightarrow> Some (i, this\<lparr>id_bound := max (id_bound this) (i + 1)\<rparr>)
         | None \<Rightarrow>
             (case map_of (named_ids this) textValue of
                Some i \<Rightarrow> Some (i, this)
              | None \<Rightarrow>
                  (case next_free_id (ids_to_preserve this) (next_id this) (next_id this + 1) of
                     None \<Rightarrow> None
                   | Some (i, nxt) \<Rightarrow>
                       Some (i, this\<lparr>next_id := nxt, named_ids := (textValue, i) # named_ids this,
                                     id_bound := max (id_bound this) (i + 1)\<rparr>))))"

definition getBound :: "AssemblyContext \<Rightarrow> uint32_t" where
  "getBound this = id_bound this"

definition context_advance :: "AssemblyContext \<Rightarrow> spv_result_t \<times> AssemblyContext" where
  "context_advance this =
     (case advance (ac_text this) (current_position this) of
        (result, position) \<Rightarrow> (result, this\<lparr>current_position := position\<rparr>))"

definition context_getWord :: "AssemblyContext \<Rightarrow> spv_result_t + string \<times> spv_position_t" where
  "context_getWord this = getWord (ac_text this) (current_position this)"

definition context_startsWithOp :: "AssemblyContext \<Rightarrow> bool" where
  "context_startsWithOp this = startsWithOp (ac_text this) (current_position this)"

text \<open>\<open>word.front()\<close> of an empty word is its terminating zero.\<close>

definition front :: "string \<Rightarrow> char" where
  "front word = (if word = '''' then CHR 0x00 else hd word)"

definition isStartOfNewInst :: "AssemblyContext \<Rightarrow> bool" where
  "isStartOfNewInst this =
     (let str = ac_text this
      in case advance str (current_position this) of
           (error, pos) \<Rightarrow>
             if error \<noteq> SPV_SUCCESS then False
             else if startsWithOp str pos then True
             else case getWord str (current_position this) of
                    Inl _ \<Rightarrow> False
                  | Inr (word, pos) \<Rightarrow>
                      if CHR ''%'' \<noteq> front word then False
                      else (case advance str pos of
                              (error, pos) \<Rightarrow>
                                if error \<noteq> SPV_SUCCESS then False
                                else case getWord str pos of
                                       Inl _ \<Rightarrow> False
                                     | Inr (word, pos) \<Rightarrow>
                                         if ''='' \<noteq> word then False
                                         else (case advance str pos of
                                                 (error, pos) \<Rightarrow>
                                                   if error \<noteq> SPV_SUCCESS then False else startsWithOp str pos)))"

definition context_peek :: "AssemblyContext \<Rightarrow> char" where
  "context_peek this = ac_text this ! pos_index (current_position this)"

definition hasText :: "AssemblyContext \<Rightarrow> bool" where
  "hasText this \<longleftrightarrow> length (ac_text this) > pos_index (current_position this)"

definition seekForward :: "nat \<Rightarrow> AssemblyContext \<Rightarrow> AssemblyContext" where
  "seekForward n this =
     (let pos = current_position this
      in this\<lparr>current_position := pos\<lparr>pos_index := pos_index pos + n, pos_column := pos_column pos + n\<rparr>\<rparr>)"

definition setPosition :: "spv_position_t \<Rightarrow> AssemblyContext \<Rightarrow> AssemblyContext" where
  "setPosition newPosition this = this\<lparr>current_position := newPosition\<rparr>"

section \<open>Instructions\<close>

record spv_instruction_t =
  si_opcode :: Op
  si_extInstType :: spv_ext_inst_type_t
  si_resultTypeId :: uint32_t
  si_words :: "uint32_t list"

definition SPV_LIMIT_INSTRUCTION_WORD_COUNT_MAX :: nat where
  "SPV_LIMIT_INSTRUCTION_WORD_COUNT_MAX = 0xffff"

definition SPV_LIMIT_LITERAL_STRING_BYTES_MAX :: nat where
  "SPV_LIMIT_LITERAL_STRING_BYTES_MAX = 0xffff * 4"

definition spvInstructionAddWord :: "uint32_t \<Rightarrow> spv_instruction_t \<Rightarrow> spv_instruction_t" where
  "spvInstructionAddWord v inst = inst\<lparr>si_words := si_words inst @ [v]\<rparr>"

definition binaryEncodeU32 :: "uint32_t \<Rightarrow> spv_instruction_t \<Rightarrow> spv_result_t \<times> spv_instruction_t" where
  "binaryEncodeU32 v pInst = (SPV_SUCCESS, pInst\<lparr>si_words := si_words pInst @ [v]\<rparr>)"

text \<open>The type a literal is parsed for, when there is one.\<close>

definition literal_number_type :: "string \<Rightarrow> IdType \<Rightarrow> utils_NumberType option" where
  "literal_number_type val type =
     (case it_type_class type of
        kOtherType \<Rightarrow> None
      | kScalarIntegerType \<Rightarrow>
          if it_isSigned type
          then Some \<lparr>nt_bitwidth = it_bitwidth type, nt_kind = SPV_NUMBER_SIGNED_INT, nt_encoding = it_encoding type\<rparr>
          else Some \<lparr>nt_bitwidth = it_bitwidth type, nt_kind = SPV_NUMBER_UNSIGNED_INT, nt_encoding = it_encoding type\<rparr>
      | kScalarFloatType \<Rightarrow>
          Some \<lparr>nt_bitwidth = it_bitwidth type, nt_kind = SPV_NUMBER_FLOATING, nt_encoding = it_encoding type\<rparr>
      | kBottom \<Rightarrow>
          let bitwidth = assumedBitWidth type
          in if CHR ''.'' \<in> set val
             then Some \<lparr>nt_bitwidth = bitwidth, nt_kind = SPV_NUMBER_FLOATING, nt_encoding = it_encoding type\<rparr>
             else if it_isSigned type \<or> starts_with val ''-''
             then Some \<lparr>nt_bitwidth = bitwidth, nt_kind = SPV_NUMBER_SIGNED_INT, nt_encoding = it_encoding type\<rparr>
             else Some \<lparr>nt_bitwidth = bitwidth, nt_kind = SPV_NUMBER_UNSIGNED_INT, nt_encoding = it_encoding type\<rparr>)"

definition binaryEncodeNumericLiteral ::
  "(float_format \<Rightarrow> string \<Rightarrow> uint64_t option) \<Rightarrow> string \<Rightarrow> spv_result_t \<Rightarrow> IdType \<Rightarrow> spv_instruction_t \<Rightarrow>
   spv_result_t \<times> spv_instruction_t" where
  "binaryEncodeNumericLiteral parse_float val error_code type pInst =
     (case literal_number_type val type of
        None \<Rightarrow> (SPV_ERROR_INTERNAL, pInst)
      | Some number_type \<Rightarrow>
          (case ParseAndEncodeNumber parse_float (Some val) number_type of
             Inr emitted \<Rightarrow> (SPV_SUCCESS, pInst\<lparr>si_words := si_words pInst @ emitted\<rparr>)
           | Inl kInvalidText \<Rightarrow> (error_code, pInst)
           | Inl kUnsupported \<Rightarrow> (SPV_ERROR_INTERNAL, pInst)
           | Inl kInvalidUsage \<Rightarrow> (SPV_ERROR_INVALID_TEXT, pInst)
           | Inl kSuccess \<Rightarrow> (SPV_SUCCESS, pInst)))"

definition binaryEncodeString :: "string \<Rightarrow> spv_instruction_t \<Rightarrow> spv_result_t \<times> spv_instruction_t" where
  "binaryEncodeString v pInst =
     (let wordCount = length v div 4 + 1;
          oldWordCount = length (si_words pInst);
          newWordCount = oldWordCount + wordCount
      in if newWordCount > SPV_LIMIT_INSTRUCTION_WORD_COUNT_MAX then (SPV_ERROR_INVALID_TEXT, pInst)
         else (SPV_SUCCESS, pInst\<lparr>si_words := AppendToVector v (si_words pInst)\<rparr>))"

section \<open>Types and imports\<close>

definition recordTypeDefinition ::
  "'a grammar_scheme \<Rightarrow> spv_instruction_t \<Rightarrow> AssemblyContext \<Rightarrow> spv_result_t \<times> AssemblyContext" where
  "recordTypeDefinition G pInst this =
     (let words = si_words pInst; v = words ! 1;
          put = (\<lambda>type. (SPV_SUCCESS, this\<lparr>types_of_ids := (types_of_ids this)(v \<mapsto> type)\<rparr>));
          failure = (SPV_ERROR_INVALID_TEXT, this)
      in if types_of_ids this v \<noteq> None then failure
         else if si_opcode pInst = OpTypeInt then
           if length words \<noteq> 4 then failure
           else put (make_type (words ! 2) (words ! 3 \<noteq> 0) kScalarIntegerType)
         else if si_opcode pInst = OpTypeFloat then
           if length words \<noteq> 3 \<and> length words \<noteq> 4 then failure
           else if length words \<ge> 4 then
             (case LookupOperand G SPV_OPERAND_TYPE_FPENCODING (words ! 3) of
                Inr desc \<Rightarrow> put ((make_type (words ! 2) False kScalarFloatType)
                  \<lparr>it_encoding := spvFPEncodingFromOperandFPEncoding (od_value desc)\<rparr>)
              | Inl _ \<Rightarrow> failure)
           else put (make_type (words ! 2) False kScalarFloatType)
         else put (make_type 0 False kOtherType))"

definition getTypeOfTypeGeneratingValue :: "AssemblyContext \<Rightarrow> uint32_t \<Rightarrow> IdType" where
  "getTypeOfTypeGeneratingValue this v =
     (case types_of_ids this v of None \<Rightarrow> kUnknownType | Some type \<Rightarrow> type)"

definition getTypeOfValueInstruction :: "AssemblyContext \<Rightarrow> uint32_t \<Rightarrow> IdType" where
  "getTypeOfValueInstruction this v =
     (case value_types this v of
        None \<Rightarrow> make_type 0 False kBottom
      | Some type_id \<Rightarrow> getTypeOfTypeGeneratingValue this type_id)"

text \<open>\<open>insert\<close> of a map leaves an entry that is there alone.\<close>

definition recordTypeIdForValue ::
  "uint32_t \<Rightarrow> uint32_t \<Rightarrow> AssemblyContext \<Rightarrow> spv_result_t \<times> AssemblyContext" where
  "recordTypeIdForValue v type_id this =
     (if value_types this v \<noteq> None then (SPV_ERROR_INVALID_TEXT, this)
      else (SPV_SUCCESS, this\<lparr>value_types := (value_types this)(v \<mapsto> type_id)\<rparr>))"

definition recordIdAsExtInstImport ::
  "uint32_t \<Rightarrow> spv_ext_inst_type_t \<Rightarrow> AssemblyContext \<Rightarrow> spv_result_t \<times> AssemblyContext" where
  "recordIdAsExtInstImport i type this =
     (if import_id_to_ext_inst_type this i \<noteq> None then (SPV_ERROR_INVALID_TEXT, this)
      else (SPV_SUCCESS,
            this\<lparr>import_id_to_ext_inst_type := (import_id_to_ext_inst_type this)(i \<mapsto> type)\<rparr>))"

definition getExtInstTypeForId :: "AssemblyContext \<Rightarrow> uint32_t \<Rightarrow> spv_ext_inst_type_t" where
  "getExtInstTypeForId this i =
     (case import_id_to_ext_inst_type this i of None \<Rightarrow> SPV_EXT_INST_TYPE_NONE | Some type \<Rightarrow> type)"

definition context_GetNumericIds :: "AssemblyContext \<Rightarrow> uint32_t set" where
  "context_GetNumericIds this = set (List.map_filter (\<lambda>kv. ParseNumber (fst kv)) (named_ids this))"

section \<open>What the reader skips\<close>

text \<open>A step of the reader goes on in the text and ends with one of two codes.\<close>

definition goes_on :: "string \<Rightarrow> spv_position_t \<Rightarrow> spv_result_t \<times> spv_position_t \<Rightarrow> bool" where
  "goes_on str p r \<longleftrightarrow> pos_index p \<le> pos_index (snd r) \<and> pos_index (snd r) \<le> length str \<and>
     fst r \<in> {SPV_SUCCESS, SPV_END_OF_STREAM}"

lemma goes_on_trans: "goes_on str q r \<Longrightarrow> pos_index p \<le> pos_index q \<Longrightarrow> goes_on str p r"
  by (simp add: goes_on_def)

lemma advanceLine_goes_on: "pos_index p \<le> length str \<Longrightarrow> goes_on str p (advanceLine str p)"
proof (induction str p rule: advanceLine.induct)
  case (1 str p)
  consider "pos_index p = length str" | "pos_index p < length str" "str ! pos_index p \<in> {CHR 0x00, CHR 0x0A}"
    | "pos_index p < length str" "str ! pos_index p \<noteq> CHR 0x00" "str ! pos_index p \<noteq> CHR 0x0A"
    using "1.prems" by fastforce
  then show ?case
  proof cases
    case 3
    then have "goes_on str (step_column p) (advanceLine str (step_column p))" using "1.IH" by simp
    from goes_on_trans [OF this, of p] show ?thesis
      using 3 by (subst advanceLine.simps) (simp add: Let_def)
  qed (subst advanceLine.simps; auto simp: goes_on_def Let_def)+
qed

definition significant :: "char \<Rightarrow> bool" where
  "significant ch \<longleftrightarrow> ch \<notin> {CHR 0x00, CHR '';'', CHR '' '', CHR 0x09, CHR 0x0D, CHR 0x0A}"

definition stops_at_word :: "string \<Rightarrow> spv_result_t \<times> spv_position_t \<Rightarrow> bool" where
  "stops_at_word str r \<longleftrightarrow> (if fst r = SPV_SUCCESS
     then pos_index (snd r) < length str \<and> significant (str ! pos_index (snd r)) else True)"

lemma advance_goes_on:
  "pos_index p \<le> length str \<Longrightarrow> goes_on str p (advance str p) \<and> stops_at_word str (advance str p)"
proof (induction str p rule: advance.induct)
  case (1 str p)
  have step: "goes_on str p (advance str q) \<and> stops_at_word str (advance str q)"
    if "goes_on str q (advance str q) \<and> stops_at_word str (advance str q)" "pos_index p \<le> pos_index q" for q
    using that goes_on_trans by blast
  consider (ended) "pos_index p = length str"
    | (zero) "pos_index p < length str" "str ! pos_index p = CHR 0x00"
    | (comment) "pos_index p < length str" "str ! pos_index p = CHR '';''"
    | (blank) "pos_index p < length str" "str ! pos_index p \<in> {CHR '' '', CHR 0x09, CHR 0x0D}"
    | (newline) "pos_index p < length str" "str ! pos_index p = CHR 0x0A"
    | (word) "pos_index p < length str" "significant (str ! pos_index p)"
    using "1.prems" by (fastforce simp: significant_def)
  then show ?case
  proof cases
    case comment
    obtain error q where q: "advanceLine str p = (error, q)" by fastforce
    have line: "goes_on str p (error, q)" using advanceLine_goes_on [OF "1.prems"] q by simp
    have eq: "advance str p = (if error \<noteq> SPV_SUCCESS then (error, q) else advance str q)"
      using comment q by (subst advance.simps) (simp add: Let_def)
    show ?thesis
    proof (cases "error = SPV_SUCCESS")
      case True
      then have "goes_on str q (advance str q) \<and> stops_at_word str (advance str q)"
        using 1(1) [OF _ refl _ _ q [symmetric]] comment line by (simp add: goes_on_def)
      then show ?thesis using step line eq True by (simp add: goes_on_def)
    qed (use line eq in \<open>simp add: stops_at_word_def\<close>)
  next
    case blank
    then have "goes_on str (step_column p) (advance str (step_column p)) \<and>
        stops_at_word str (advance str (step_column p))" using 1(2) [OF _ refl] by auto
    then show ?thesis using blank step by (subst (1 2) advance.simps) (auto simp: Let_def)
  next
    case newline
    then have "goes_on str (step_line p) (advance str (step_line p)) \<and>
        stops_at_word str (advance str (step_line p))" using 1(3) [OF _ refl] by auto
    then show ?thesis using newline step by (subst (1 2) advance.simps) (auto simp: Let_def)
  qed (subst (1 2) advance.simps; auto simp: goes_on_def stops_at_word_def significant_def Let_def)+
qed

lemma advance_stays:
  "pos_index p < length str \<Longrightarrow> significant (str ! pos_index p) \<Longrightarrow> advance str p = (SPV_SUCCESS, p)"
  by (subst advance.simps) (simp add: Let_def significant_def)

definition stays_in :: "string \<Rightarrow> nat \<Rightarrow> spv_position_t \<Rightarrow> bool" where
  "stays_in str i q \<longleftrightarrow> i \<le> pos_index q \<and> pos_index q \<le> length str"

lemma stays_in_Suc: "stays_in str (Suc i) q \<Longrightarrow> stays_in str i q"
  by (simp add: stays_in_def)

lemma getWord_loop_stays: "pos_index p \<le> length str \<Longrightarrow> stays_in str (pos_index p) (getWord_loop str q e p)"
proof (induction str q e p rule: getWord_loop.induct)
  case (1 str q e p)
  show ?case
  proof (cases "pos_index p < length str")
    case True
    then have "stays_in str (pos_index p) (getWord_loop str q' e' (step_column p))"
      if "stays_in str (Suc (pos_index p)) (getWord_loop str q' e' (step_column p))" for q' e'
      using that stays_in_Suc by blast
    moreover have "stays_in str (pos_index p) p" using True by (simp add: stays_in_def)
    ultimately show ?thesis
      using True 1(1) [OF _ refl] 1(2) [OF _ refl] 1(3) [OF _ refl]
      by (subst getWord_loop.simps) (simp add: Let_def)
  next
    case False
    then show ?thesis using "1.prems" by (subst getWord_loop.simps) (simp add: stays_in_def)
  qed
qed

lemmas getWord_loop_index = getWord_loop_stays [unfolded stays_in_def]

lemma getWord_word:
  assumes "getWord str p = Inr (w, p')" "pos_index p \<le> length str"
  shows "pos_index p' = pos_index p + length w" "pos_index p' \<le> length str"
    "w = take (length w) (drop (pos_index p) str)"
  using assms getWord_loop_index [of p str False False]
  by (auto simp: getWord_def Let_def min_def split: if_splits)

text \<open>A word is empty only at a separator, a zero byte or the end.\<close>

lemma getWord_nonempty:
  assumes "getWord str p = Inr (w, p')" "pos_index p < length str"
    "\<not> isWordEnd (str ! pos_index p)" "str ! pos_index p \<noteq> CHR 0x00"
  shows "w \<noteq> ''''" "hd w = str ! pos_index p"
proof -
  have "Suc (pos_index p) \<le> pos_index (getWord_loop str q e (step_column p))" for q e
    using getWord_loop_index [of "step_column p" str] assms(2) by simp
  then have "pos_index p < pos_index (getWord_loop str False False p)"
    using assms(2-) by (subst getWord_loop.simps) (auto simp: Let_def Suc_le_eq)
  then have "w \<noteq> '''' \<and> hd w = str ! pos_index p"
    using assms(1,2) by (auto simp: getWord_def Let_def hd_drop_conv_nth hd_conv_nth split: if_splits)
  then show "w \<noteq> ''''" "hd w = str ! pos_index p" by auto
qed

section \<open>Lines and columns\<close>

text \<open>The line and the column of an index, counted in the text before it.\<close>

definition true_line :: "string \<Rightarrow> spv_position_t \<Rightarrow> nat" where
  "true_line str p = length (filter (\<lambda>c. c = CHR 0x0A) (take (pos_index p) str))"

definition true_column :: "string \<Rightarrow> spv_position_t \<Rightarrow> nat" where
  "true_column str p = length (takeWhile (\<lambda>c. c \<noteq> CHR 0x0A) (rev (take (pos_index p) str)))"

definition position_ok :: "string \<Rightarrow> spv_position_t \<Rightarrow> bool" where
  "position_ok str p \<longleftrightarrow> pos_line p = true_line str p \<and> pos_column p = true_column str p"

lemma position_ok_start: "position_ok str start_position"
  by (simp add: position_ok_def start_position_def true_line_def true_column_def)

lemma position_ok_steps:
  assumes "position_ok str p" "pos_index p < length str"
  shows "str ! pos_index p \<noteq> CHR 0x0A \<Longrightarrow> position_ok str (step_column p)"
    "str ! pos_index p = CHR 0x0A \<Longrightarrow> position_ok str (step_line p)"
  using assms
  by (auto simp: position_ok_def true_line_def true_column_def step_column_def step_line_def take_Suc_conv_app_nth)

lemma advanceLine_position:
  "position_ok str p \<Longrightarrow> position_ok str (snd (advanceLine str p))"
proof (induction str p rule: advanceLine.induct)
  case (1 str p)
  then show ?case
    using position_ok_steps [of str p] by (subst advanceLine.simps) (auto simp: Let_def)
qed

lemma advance_position: "position_ok str p \<Longrightarrow> position_ok str (snd (advance str p))"
proof (induction str p rule: advance.induct)
  case (1 str p)
  show ?case
  proof (cases "pos_index p < length str \<and> str ! pos_index p = CHR '';''")
    case True
    obtain error q where q: "advanceLine str p = (error, q)" by fastforce
    then have "position_ok str q" using advanceLine_position [OF "1.prems"] by simp
    then show ?thesis
      using True q 1(1) [OF _ refl _ _ q [symmetric]] by (subst advance.simps) (auto simp: Let_def)
  next
    case False
    then show ?thesis
      using 1(2) [OF _ refl] 1(3) [OF _ refl] "1.prems" position_ok_steps [of str p]
      by (subst advance.simps) (auto simp: Let_def)
  qed
qed

lemma getWord_loop_line: "pos_line (getWord_loop str q e p) = pos_line p"
  by (induction str q e p rule: getWord_loop.induct)
    (subst getWord_loop.simps, auto simp: Let_def step_column_def)

definition same_line :: "spv_position_t \<Rightarrow> spv_position_t \<Rightarrow> bool" where
  "same_line p q \<longleftrightarrow> pos_column q + pos_index p = pos_column p + pos_index q"

lemma same_line_step: "same_line (step_column p) q \<Longrightarrow> same_line p q"
  by (simp add: same_line_def step_column_def)

lemma getWord_loop_column: "same_line p (getWord_loop str q e p)"
proof (induction str q e p rule: getWord_loop.induct)
  case (1 str q e p)
  have step: "same_line p (getWord_loop str q' e' (step_column p))"
    if "same_line (step_column p) (getWord_loop str q' e' (step_column p))" for q' e'
    using that by (rule same_line_step)
  have "same_line p p" by (simp add: same_line_def)
  with step show ?case
    using 1(1) [OF _ refl] 1(2) [OF _ refl] 1(3) [OF _ refl]
    by (subst getWord_loop.simps) (simp add: Let_def)
qed

lemma getWord_lines:
  assumes "getWord str p = Inr (w, q)" "pos_index p \<le> length str" "position_ok str p"
  shows "true_line str q = pos_line q + length (filter (\<lambda>c. c = CHR 0x0A) w)"
    "CHR 0x0A \<notin> set w \<Longrightarrow> position_ok str q"
proof -
  note word = getWord_word [OF assms(1,2)]
  have q: "q = getWord_loop str False False p"
    using assms(1) by (auto simp: getWord_def Let_def split: if_splits)
  have take: "take (pos_index q) str = take (pos_index p) str @ w"
    using word by (metis take_add)
  have line: "pos_line q = pos_line p" unfolding q by (rule getWord_loop_line)
  show lines: "true_line str q = pos_line q + length (filter (\<lambda>c. c = CHR 0x0A) w)"
    using assms(3) line by (simp add: position_ok_def true_line_def take)
  have "pos_column q = pos_column p + length w"
    using getWord_loop_column [of p str False False] word(1) unfolding q same_line_def by simp
  then show "position_ok str q" if "CHR 0x0A \<notin> set w"
    using that lines line assms(3) by (auto simp: position_ok_def true_column_def take takeWhile_append filter_empty_conv)
qed

section \<open>The numbers of ids\<close>

text \<open>The number a name keeps, and the numbers of a sequence of names.\<close>

definition kept_number :: "uint32_t set \<Rightarrow> string \<Rightarrow> uint32_t option" where
  "kept_number S name = (case ParseNumber name of Some i \<Rightarrow> if i \<in> S then Some i else None | None \<Rightarrow> None)"

primrec assign_all :: "string list \<Rightarrow> AssemblyContext \<Rightarrow> (uint32_t list \<times> AssemblyContext) option" where
  "assign_all [] c = Some ([], c)"
| "assign_all (name # names) c =
     Option.bind (spvNamedIdAssignOrGet c name)
       (\<lambda>(i, c). map_option (\<lambda>(ids, c). (i # ids, c)) (assign_all names c))"

lemma spvNamedIdAssignOrGet_kept:
  "kept_number (ids_to_preserve c) name = Some i \<Longrightarrow>
    spvNamedIdAssignOrGet c name = Some (i, c\<lparr>id_bound := max (id_bound c) (i + 1)\<rparr>)"
  by (auto simp: spvNamedIdAssignOrGet_def kept_number_def split: option.splits if_splits)

lemma spvNamedIdAssignOrGet_other:
  assumes "kept_number (ids_to_preserve c) name = None"
  shows "spvNamedIdAssignOrGet c name =
    (case map_of (named_ids c) name of
       Some i \<Rightarrow> Some (i, c)
     | None \<Rightarrow>
         (case next_free_id (ids_to_preserve c) (next_id c) (next_id c + 1) of
            None \<Rightarrow> None
          | Some (i, nxt) \<Rightarrow>
              Some (i, c\<lparr>next_id := nxt, named_ids := (name, i) # named_ids c,
                         id_bound := max (id_bound c) (i + 1)\<rparr>)))"
  using assms
  by (auto simp: spvNamedIdAssignOrGet_def kept_number_def Let_def split: option.splits if_splits)

text \<open>The numbers below the next one are those that are taken and those that are kept.\<close>

definition ids_inv :: "uint32_t set \<Rightarrow> AssemblyContext \<Rightarrow> bool" where
  "ids_inv S c \<longleftrightarrow> ids_to_preserve c = S \<and> distinct (map fst (named_ids c)) \<and>
     distinct (map snd (named_ids c)) \<and> 1 \<le> unat (next_id c) \<and>
     set (map snd (named_ids c)) \<union> {w \<in> S. 1 \<le> unat w \<and> unat w < unat (next_id c)} =
       {w. 1 \<le> unat w \<and> unat w < unat (next_id c)} \<and>
     set (map snd (named_ids c)) \<inter> S = {} \<and>
     (\<forall>i \<in> set (map snd (named_ids c)). i < id_bound c)"

lemma card_words_below:
  assumes "m < 2 ^ 32"
  shows "card {w :: uint32_t. 1 \<le> unat w \<and> unat w < m} = m - 1"
proof -
  have "unat ` {w :: uint32_t. 1 \<le> unat w \<and> unat w < m} = {1..<m}"
  proof
    show "{1..<m} \<subseteq> unat ` {w :: uint32_t. 1 \<le> unat w \<and> unat w < m}"
    proof
      fix k assume k: "k \<in> {1..<m}"
      then have "unat (of_nat k :: uint32_t) = k" using assms by (simp add: unat_of_nat take_bit_nat_eq_self)
      then show "k \<in> unat ` {w :: uint32_t. 1 \<le> unat w \<and> unat w < m}"
        using k by (intro image_eqI [of _ _ "of_nat k"]) auto
    qed
  qed auto
  moreover have "inj_on unat {w :: uint32_t. 1 \<le> unat w \<and> unat w < m}" by (simp add: inj_on_def word_unat_eq_iff)
  then have "card (unat ` {w :: uint32_t. 1 \<le> unat w \<and> unat w < m}) = card {w :: uint32_t. 1 \<le> unat w \<and> unat w < m}"
    by (rule card_image)
  ultimately show ?thesis by simp
qed

lemma next_id_small:
  assumes "ids_inv S c"
  shows "unat (next_id c) \<le> length (named_ids c) + card S + 1"
proof -
  have fin: "finite S" by simp
  have "unat (next_id c) < 2 ^ 32" using unsigned_less [of "next_id c", where 'a = nat] by simp
  then have "unat (next_id c) - 1 = card (set (map snd (named_ids c)) \<union>
      {w \<in> S. 1 \<le> unat w \<and> unat w < unat (next_id c)})"
    using assms card_words_below by (simp add: ids_inv_def)
  also have "\<dots> \<le> card (set (map snd (named_ids c))) + card {w \<in> S. 1 \<le> unat w \<and> unat w < unat (next_id c)}"
    by (rule card_Un_le)
  also have "\<dots> \<le> length (named_ids c) + card S"
    using card_length [of "map snd (named_ids c)"] card_mono [OF fin, of "{w \<in> S. 1 \<le> unat w \<and> unat w < unat (next_id c)}"]
    by (intro add_mono) auto
  finally show ?thesis by simp
qed

text \<open>The search finds the next number that is not kept.\<close>

lemma next_free_id_found:
  assumes "i + of_nat k \<notin> S" "\<And>j. j < k \<Longrightarrow> i + of_nat j \<in> S"
  shows "next_free_id S i (i + 1) = Some (i + of_nat k, i + of_nat k + 1)"
  using assms
proof (induction k arbitrary: i)
  case 0
  then show ?case by (subst next_free_id.simps) simp
next
  case (Suc k)
  have "i \<in> S" using Suc.prems(2) [of 0] by simp
  moreover have "next_free_id S (i + 1) (i + 1 + 1) = Some (i + 1 + of_nat k, i + 1 + of_nat k + 1)"
    using Suc.prems(1) Suc.prems(2) [of "Suc _"] by (intro Suc.IH) (auto simp: add_ac)
  ultimately show ?case by (subst next_free_id.simps) (simp add: add_ac)
qed

lemma next_free_id_exists:
  fixes i :: uint32_t
  assumes "unat i + card S < 2 ^ 32 - 1"
  shows "\<exists>k. i + of_nat k \<notin> S \<and> (\<forall>j<k. i + of_nat j \<in> S) \<and> k \<le> card S"
proof -
  have unat: "unat (i + of_nat j) = unat i + j" if "j \<le> card S" for j
  proof -
    have "unat (of_nat j :: uint32_t) = j" using that assms by (simp add: unat_of_nat take_bit_nat_eq_self)
    then show ?thesis using that assms by (subst unat_add_lem [THEN iffD1]) auto
  qed
  have "\<exists>k \<le> card S. i + of_nat k \<notin> S"
  proof (rule ccontr)
    assume "\<not> (\<exists>k \<le> card S. i + of_nat k \<notin> S)"
    then have "(\<lambda>k. i + of_nat k) ` {..card S} \<subseteq> S" by auto
    then have "card ((\<lambda>k. i + of_nat k) ` {..card S}) \<le> card S" by (intro card_mono) auto
    moreover have "inj_on (\<lambda>k. i + of_nat k) {..card S}"
    proof (rule inj_onI)
      fix a b assume ab: "a \<in> {..card S}" "b \<in> {..card S}" "i + of_nat a = i + of_nat b"
      have "unat i + a = unat i + b"
        using arg_cong [OF ab(3), of unat] unat [of a] unat [of b] ab(1,2) unfolding atMost_iff by presburger
      then show "a = b" by (rule add_left_imp_eq)
    qed
    then have "card ((\<lambda>k. i + of_nat k) ` {..card S}) = Suc (card S)" by (simp only: card_image card_atMost)
    ultimately show False by linarith
  qed
  then obtain k where "k \<le> card S" "i + of_nat k \<notin> S" by blast
  then have "(LEAST k. i + of_nat k \<notin> S) \<le> card S" by (meson Least_le le_trans)
  moreover have "i + of_nat (LEAST k. i + of_nat k \<notin> S) \<notin> S"
    using \<open>i + of_nat k \<notin> S\<close> by (rule LeastI)
  ultimately show ?thesis using not_less_Least by blast
qed

lemma fresh_number_inv:
  fixes S :: "uint32_t set"
  assumes inv: "ids_inv S c" and fresh: "name \<notin> fst ` set (named_ids c)"
    and k: "next_id c + of_nat k \<notin> S" "\<forall>j<k. next_id c + of_nat j \<in> S"
    and room: "unat (next_id c) + k < 2 ^ 32 - 1"
  shows "ids_inv S (c\<lparr>next_id := next_id c + of_nat k + 1, named_ids := (name, next_id c + of_nat k) # named_ids c,
    id_bound := max (id_bound c) (next_id c + of_nat k + 1)\<rparr>)"
proof -
  let ?i = "next_id c + of_nat k"
  have unat: "unat (next_id c + of_nat j) = unat (next_id c) + j" if "j \<le> k" for j
  proof -
    have "unat (of_nat j :: uint32_t) = j" using that room by (simp add: unat_of_nat take_bit_nat_eq_self)
    then show ?thesis using that room by (subst unat_add_lem [THEN iffD1]) auto
  qed
  have i: "unat ?i = unat (next_id c) + k" using unat [of k] by simp
  have nxt: "unat (?i + 1) = unat (next_id c) + k + 1"
    using room i by (subst unat_add_lem [THEN iffD1]) auto
  have between: "w \<in> S" if "unat (next_id c) \<le> unat w" "unat w < unat ?i" for w :: uint32_t
  proof -
    have "w = next_id c + of_nat (unat w - unat (next_id c))"
      using that i unat [of "unat w - unat (next_id c)"] by (simp add: word_unat_eq_iff)
    moreover have "unat w - unat (next_id c) < k" using that i by linarith
    then have "next_id c + of_nat (unat w - unat (next_id c)) \<in> S" using k(2) by blast
    ultimately show ?thesis by (simp only:)
  qed
  let ?vals = "set (map snd (named_ids c))"
  have vals: "?vals \<union> {w \<in> S. 1 \<le> unat w \<and> unat w < unat (next_id c)} = {w. 1 \<le> unat w \<and> unat w < unat (next_id c)}"
    and disj: "?vals \<inter> S = {}" and bound: "\<forall>i \<in> ?vals. i < id_bound c" and one: "1 \<le> unat (next_id c)"
    using inv by (auto simp: ids_inv_def)
  have "?i \<notin> ?vals"
  proof
    assume "?i \<in> ?vals"
    then have "unat ?i < unat (next_id c)" using vals by blast
    then show False using i by simp
  qed
  moreover have "insert ?i ?vals \<union> {w \<in> S. 1 \<le> unat w \<and> unat w < unat (?i + 1)} =
      {w. 1 \<le> unat w \<and> unat w < unat (?i + 1)}" (is "?L = ?R")
  proof
    have "?vals \<subseteq> {w. 1 \<le> unat w \<and> unat w < unat (next_id c)}" using vals by blast
    then show "?L \<subseteq> ?R" using nxt i one by fastforce
    show "?R \<subseteq> ?L"
    proof
      fix w assume "w \<in> ?R"
      then have w: "1 \<le> unat w" "unat w \<le> unat ?i" using nxt i by auto
      consider "unat w < unat (next_id c)" | "unat (next_id c) \<le> unat w" "unat w < unat ?i" | "w = ?i"
        using w(2) word_unat_eq_iff [of w ?i] by linarith
      then show "w \<in> ?L"
      proof cases
        case 1
        then have "w \<in> ?vals \<union> {w \<in> S. 1 \<le> unat w \<and> unat w < unat (next_id c)}" using vals w(1) by blast
        then show ?thesis using nxt by auto
      next
        case 2
        then show ?thesis using between [of w] w(1) nxt i by auto
      qed simp
    qed
  qed
  moreover have "?i < ?i + 1" using nxt i by (simp add: word_less_nat_alt)
  moreover have "\<forall>i \<in> ?vals. i < max (id_bound c) (?i + 1)" using bound by (auto simp: less_max_iff_disj)
  ultimately show ?thesis
    using inv fresh k(1) disj nxt by (auto simp: ids_inv_def less_max_iff_disj image_iff)
qed

lemma assign_step:
  assumes inv: "ids_inv S c" and room: "length (named_ids c) + 2 * card S < 2 ^ 32 - 2"
  shows "\<exists>i c'. spvNamedIdAssignOrGet c name = Some (i, c') \<and> ids_inv S c' \<and>
    length (named_ids c') \<le> Suc (length (named_ids c)) \<and> map_of (named_ids c) \<subseteq>\<^sub>m map_of (named_ids c') \<and>
    id_bound c \<le> id_bound c' \<and> (i \<noteq> - 1 \<longrightarrow> i < id_bound c') \<and>
    (case kept_number S name of Some k \<Rightarrow> i = k | None \<Rightarrow> map_of (named_ids c') name = Some i)"
proof -
  have S: "ids_to_preserve c = S" using inv by (simp add: ids_inv_def)
  have above: "i < max b (i + 1)" if "i \<noteq> - 1" for i b :: uint32_t
  proof -
    have "i + 1 \<noteq> 0" using that by (simp add: eq_neg_iff_add_eq_0)
    then have "unat (i + 1) = Suc (unat i)" by (simp add: unatSuc add.commute [of i 1])
    then have "i < i + 1" by (simp add: word_less_nat_alt)
    then show ?thesis by (simp add: less_max_iff_disj)
  qed
  show ?thesis
  proof (cases "kept_number S name")
    case (Some i)
    have "ids_inv S (c\<lparr>id_bound := max (id_bound c) (i + 1)\<rparr>)"
      using inv by (auto simp: ids_inv_def less_max_iff_disj)
    then show ?thesis using Some S spvNamedIdAssignOrGet_kept [of c name i] above by (simp add: map_le_def)
  next
    case None
    show ?thesis
    proof (cases "map_of (named_ids c) name")
      case (Some i)
      then have "i < id_bound c" using inv by (fastforce simp: ids_inv_def dest: map_of_SomeD)
      then show ?thesis using None Some S inv spvNamedIdAssignOrGet_other [of c name] by simp
    next
      case fresh: None
      have "unat (next_id c) + card S < 2 ^ 32 - 1" using next_id_small [OF inv] room by linarith
      then obtain k where k: "next_id c + of_nat k \<notin> S" "\<forall>j<k. next_id c + of_nat j \<in> S" "k \<le> card S"
        using next_free_id_exists [of "next_id c" S] by blast
      have "unat (next_id c) + k < 2 ^ 32 - 1"
        using k(3) \<open>unat (next_id c) + card S < 2 ^ 32 - 1\<close> by linarith
      moreover have "name \<notin> fst ` set (named_ids c)" using fresh by (simp add: map_of_eq_None_iff)
      ultimately show ?thesis
        using None fresh S fresh_number_inv [OF inv _ k(1,2)] next_free_id_found [OF k(1)] k(2)
          spvNamedIdAssignOrGet_other [of c name] above
        by (auto simp: map_le_def)
    qed
  qed
qed

text \<open>The number of a name, once names are assigned.\<close>

definition number_of :: "AssemblyContext \<Rightarrow> string \<Rightarrow> uint32_t" where
  "number_of c name = (case kept_number (ids_to_preserve c) name of
     Some k \<Rightarrow> k | None \<Rightarrow> the (map_of (named_ids c) name))"

lemma assign_all_ids:
  assumes "ids_inv S c" "length (named_ids c) + length names + 2 * card S < 2 ^ 32 - 2"
  shows "\<exists>c'. assign_all names c = Some (map (number_of c') names, c') \<and> ids_inv S c' \<and>
    map_of (named_ids c) \<subseteq>\<^sub>m map_of (named_ids c') \<and> id_bound c \<le> id_bound c' \<and>
    (\<forall>name \<in> set names. kept_number S name = None \<longrightarrow> name \<in> dom (map_of (named_ids c'))) \<and>
    (\<forall>name \<in> set names. number_of c' name \<noteq> - 1 \<longrightarrow> number_of c' name < id_bound c')"
  using assms
proof (induction names arbitrary: c)
  case Nil
  then show ?case by simp
next
  case (Cons name names)
  obtain i c1 where c1: "spvNamedIdAssignOrGet c name = Some (i, c1)" "ids_inv S c1"
    "length (named_ids c1) \<le> Suc (length (named_ids c))" "map_of (named_ids c) \<subseteq>\<^sub>m map_of (named_ids c1)"
    "id_bound c \<le> id_bound c1" "i \<noteq> - 1 \<longrightarrow> i < id_bound c1"
    "case kept_number S name of Some k \<Rightarrow> i = k | None \<Rightarrow> map_of (named_ids c1) name = Some i"
    using assign_step [OF Cons.prems(1), of name] Cons.prems(2) by auto
  have "length (named_ids c1) + length names + 2 * card S < 2 ^ 32 - 2" using c1(3) Cons.prems(2) by simp
  from Cons.IH [OF c1(2) this] obtain c' where
    c': "assign_all names c1 = Some (map (number_of c') names, c')" "ids_inv S c'"
      "map_of (named_ids c1) \<subseteq>\<^sub>m map_of (named_ids c')" "id_bound c1 \<le> id_bound c'"
      "\<forall>name \<in> set names. kept_number S name = None \<longrightarrow> name \<in> dom (map_of (named_ids c'))"
      "\<forall>name \<in> set names. number_of c' name \<noteq> - 1 \<longrightarrow> number_of c' name < id_bound c'"
    by blast
  have S: "ids_to_preserve c' = S" using c'(2) by (simp add: ids_inv_def)
  have later: "map_of (named_ids c') name = Some i" if "kept_number S name = None"
    using c1(7) that c'(3) by (auto simp: map_le_def dom_def)
  have "number_of c' name = i"
    using c1(7) later S by (cases "kept_number S name") (simp_all add: number_of_def)
  moreover have "map_of (named_ids c) \<subseteq>\<^sub>m map_of (named_ids c')" using c1(4) c'(3) by (rule map_le_trans)
  ultimately show ?case using c1 c' later by auto
qed

section \<open>Properties\<close>

text \<open>C30: skipping blanks and comments and reading words keep the line and the column of the position, with
  one exception: a line break inside a word, which a quoted string may hold, is not counted, so that the
  line is too small by the line breaks of the word from then on.\<close>

theorem reader_positions:
  assumes "position_ok str p" "pos_index p \<le> length str"
  shows "position_ok str (snd (advance str p)) \<and>
    (case getWord str p of
       Inl _ \<Rightarrow> str = ''''
     | Inr (word, q) \<Rightarrow>
         true_line str q = pos_line q + length (filter (\<lambda>c. c = CHR 0x0A) word) \<and>
         (if CHR 0x0A \<notin> set word then position_ok str q else \<not> position_ok str q))"
proof (cases "getWord str p")
  case (Inl e)
  then have "str = ''''" by (auto simp: getWord_def Let_def split: if_splits)
  then show ?thesis using Inl assms(1) advance_position by simp
next
  case (Inr r)
  obtain word q where r: "r = (word, q)" by fastforce
  note lines = getWord_lines [OF Inr [unfolded r] assms(2,1)]
  have "\<not> position_ok str q" if "CHR 0x0A \<in> set word"
    using that lines(1) by (auto simp: position_ok_def filter_empty_conv)
  then show ?thesis using Inr r lines assms(1) advance_position by auto
qed

text \<open>A quoted string with a line break, behind a blank.\<close>

theorem reader_positions_witness:
  "position_ok '' x'' (snd (advance '' x'' start_position)) \<and>
   (let str = [CHR 0x22, CHR 0x0A, CHR 0x22]
    in case getWord str start_position of
         Inl _ \<Rightarrow> False
       | Inr (word, q) \<Rightarrow> word = str \<and> true_line str q = 1 \<and> \<not> position_ok str q)"
proof -
  let ?str = "[CHR 0x22, CHR 0x0A, CHR 0x22]"
  have "pos_index start_position = 0" by (simp add: start_position_def)
  moreover have "getWord ?str start_position =
      Inr (?str, \<lparr>pos_line = 0, pos_column = 3, pos_index = 3\<rparr>)" by code_simp
  ultimately show ?thesis
    using reader_positions [OF position_ok_start, of "'' x''"] reader_positions [OF position_ok_start, of ?str]
    by simp
qed

text \<open>C17: names of ids get their numbers as documented: a name that is a kept number keeps it; all others
  get numbers other than zero that are not kept, the same number for the same name and different ones
  for different names, and, unless the greatest number is kept, all numbers are below the bound.\<close>

theorem ids_assigned:
  fixes S :: "uint32_t set"
  assumes "length names + 2 * card S < 2 ^ 32 - 2"
  shows "\<exists>number c. assign_all names (new_AssemblyContext str S) = Some (map number names, c) \<and>
    (\<forall>name \<in> set names. case kept_number S name of
       Some k \<Rightarrow> number name = k
     | None \<Rightarrow> number name \<noteq> 0 \<and> number name \<notin> S) \<and>
    inj_on number {name \<in> set names. kept_number S name = None} \<and>
    (\<forall>name \<in> set names. number name = 0xFFFFFFFF \<or> number name < getBound c)"
proof -
  have start: "ids_inv S (new_AssemblyContext str S)"
    by (auto simp: ids_inv_def new_AssemblyContext_def)
  have "length (named_ids (new_AssemblyContext str S)) + length names + 2 * card S < 2 ^ 32 - 2"
    using assms by (simp add: new_AssemblyContext_def)
  from assign_all_ids [OF start this] obtain c where
    c: "assign_all names (new_AssemblyContext str S) = Some (map (number_of c) names, c)" "ids_inv S c"
      "\<forall>name \<in> set names. kept_number S name = None \<longrightarrow> name \<in> dom (map_of (named_ids c))"
      "\<forall>name \<in> set names. number_of c name \<noteq> - 1 \<longrightarrow> number_of c name < id_bound c"
    by blast
  have S: "ids_to_preserve c = S" and dist: "distinct (map snd (named_ids c))" "distinct (map fst (named_ids c))"
    and vals: "set (map snd (named_ids c)) \<subseteq> {w. 1 \<le> unat w} - S"
    using c(2) by (auto simp: ids_inv_def)
  have entry: "(name, number_of c name) \<in> set (named_ids c)"
    if "name \<in> set names" "kept_number S name = None" for name
    using that c(3) S by (force simp: number_of_def dom_def dest: map_of_SomeD)
  have "inj_on (number_of c) {name \<in> set names. kept_number S name = None}"
  proof (rule inj_onI, clarify)
    fix a b assume ab: "a \<in> set names" "b \<in> set names" "kept_number S a = None" "kept_number S b = None"
      "number_of c a = number_of c b"
    then show "a = b" using entry [of a] entry [of b] dist(1) by (metis distinct_map fst_conv inj_on_eq_iff snd_conv)
  qed
  moreover have "case kept_number S name of Some k \<Rightarrow> number_of c name = k
      | None \<Rightarrow> number_of c name \<noteq> 0 \<and> number_of c name \<notin> S" if "name \<in> set names" for name
  proof (cases "kept_number S name")
    case None
    then have "number_of c name \<in> {w. 1 \<le> unat w} - S" using entry [OF that None] vals by (force simp: image_iff)
    then show ?thesis using None by auto
  qed (simp add: number_of_def S)
  ultimately show ?thesis using c(1,4) by (intro exI [of _ "number_of c"] exI [of _ c]) (auto simp: getBound_def)
qed

text \<open>The names 5, x, 1 and x again, when 1 and 5 are kept.\<close>

theorem ids_assigned_witness:
  "\<exists>number c. assign_all [''5'', ''x'', ''1'', ''x''] (new_AssemblyContext '''' {1, 5}) =
      Some (map number [''5'', ''x'', ''1'', ''x''], c) \<and> number ''5'' = 5 \<and> number ''1'' = 1 \<and> number ''x'' \<notin> {0, 1, 5}"
proof -
  let ?names = "[''5'', ''x'', ''1'', ''x'']"
  have "scan_integer ''5'' = Some (False, 5, [])" "scan_integer ''1'' = Some (False, 1, [])" "scan_integer ''x'' = None"
    by code_simp+
  then have "kept_number {1, 5} ''5'' = Some 5" "kept_number {1, 5} ''1'' = Some 1" "kept_number {1, 5} ''x'' = None"
    by (simp_all add: kept_number_def ParseNumber_def extract_unsigned_def starts_with_def)
  moreover have "length ?names + 2 * card {1, 5 :: uint32_t} < 2 ^ 32 - 2" by simp
  ultimately show ?thesis
    using ids_assigned [of ?names "{1, 5}" "''''"] by fastforce
qed

end
