(* ===== verification/Text_Operand.thy ===== *)
theory Text_Operand
  imports Text_Context Assembly_Grammar
begin

text \<open>
  \<open>text.cpp\<close> up to the operands: literals, immediates and the encoding of one operand. The state is the
  context, the instruction under construction and the operands that are still expected. A result \<open>None\<close>
  is a call that does not return; the only loop that may do so is the search for a free id. What the
  code does with floating point numbers is the record \<open>float_ops\<close>. The texts of the diagnostics are left
  out: a diagnostic is the code it returns. Words of a text hold no zero bytes, so \<open>strlen\<close> is \<open>length\<close>.
\<close>

section \<open>Names and literals\<close>

definition isalnum :: "char \<Rightarrow> bool" where
  "isalnum c \<longleftrightarrow> (let n = of_char c :: nat
     in 48 \<le> n \<and> n \<le> 57 \<or> 65 \<le> n \<and> n \<le> 90 \<or> 97 \<le> n \<and> n \<le> 122)"

definition spvIsValidIDCharacter :: "char \<Rightarrow> bool" where
  "spvIsValidIDCharacter v \<longleftrightarrow> v = CHR ''_'' \<or> isalnum v"

definition spvIsValidID :: "string \<Rightarrow> bool" where
  "spvIsValidID textValue \<longleftrightarrow> (\<forall>c \<in> set textValue. spvIsValidIDCharacter c) \<and> textValue \<noteq> ''''"

record float_ops =
  fo_parse :: "float_format \<Rightarrow> string \<Rightarrow> uint64_t option"
  fo_strtod :: "string \<Rightarrow> uint64_t"
  fo_to_float :: "uint64_t \<Rightarrow> uint32_t"
  fo_to_double :: "uint32_t \<Rightarrow> uint64_t"
  fo_eq :: "uint64_t \<Rightarrow> uint64_t \<Rightarrow> bool"

datatype spv_literal_t =
    LITERAL_INT_32 uint32_t | LITERAL_INT_64 uint64_t | LITERAL_UINT_32 uint32_t | LITERAL_UINT_64 uint64_t
  | LITERAL_FLOAT_32 uint32_t | LITERAL_FLOAT_64 uint64_t | LITERAL_STRING string

text \<open>The loop over the characters: \<open>isSigned\<close>, \<open>numPeriods\<close> and \<open>isString\<close>.\<close>

fun literal_scan :: "nat \<Rightarrow> string \<Rightarrow> bool \<times> nat \<times> bool \<Rightarrow> bool \<times> nat \<times> bool" where
  "literal_scan index [] st = st"
| "literal_scan index (c # s) (isSigned, numPeriods, isString) =
     (if isdigit c then literal_scan (index + 1) s (isSigned, numPeriods, isString)
      else if c = CHR ''.'' then literal_scan (index + 1) s (isSigned, numPeriods + 1, isString)
      else if c = CHR ''-'' then
        if index = 0 then literal_scan (index + 1) s (True, numPeriods, isString)
        else literal_scan (index + 1) s (isSigned, numPeriods, True)
      else (isSigned, numPeriods, True))"

fun unescape :: "string \<Rightarrow> bool \<Rightarrow> string \<Rightarrow> spv_result_t + string" where
  "unescape [] escaping str = Inr str"
| "unescape (c # s) escaping str =
     (if c = CHR 0x5C \<and> \<not> escaping then unescape s True str
      else if length str \<ge> SPV_LIMIT_LITERAL_STRING_BYTES_MAX then Inl SPV_ERROR_OUT_OF_MEMORY
      else unescape s False (str @ [c]))"

text \<open>\<open>strtoll\<close> and \<open>strtoull\<close> of digits, the first with a sign; they stop at the ends of their types.\<close>

definition decimal :: "string \<Rightarrow> nat" where
  "decimal s = fst (scan_digits 10 0 s)"

definition strtoll :: "string \<Rightarrow> uint64_t" where
  "strtoll s = - of_nat (min (decimal (drop 1 s)) (2 ^ 63))"

definition strtoull :: "string \<Rightarrow> uint64_t" where
  "strtoull s = of_nat (min (decimal s) (2 ^ 64 - 1))"

definition spvTextToLiteral :: "float_ops \<Rightarrow> string \<Rightarrow> spv_result_t + spv_literal_t" where
  "spvTextToLiteral fl textValue =
     (let len = length textValue
      in if len = 0 then Inl SPV_FAILED_MATCH
         else
           let (isSigned, numPeriods, isString) = literal_scan 0 textValue (False, 0, False)
           in if isString \<or> numPeriods > 1 \<or> isSigned \<and> len = 1 then
                if len < 2 \<or> hd textValue \<noteq> CHR 0x22 \<or> last textValue \<noteq> CHR 0x22 then Inl SPV_FAILED_MATCH
                else map_sum (\<lambda>error. error) LITERAL_STRING (unescape (butlast (tl textValue)) False '''')
              else if numPeriods = 1 then
                let d = fo_strtod fl textValue; f = fo_to_float fl d
                in if fo_eq fl d (fo_to_double fl f) then Inr (LITERAL_FLOAT_32 f) else Inr (LITERAL_FLOAT_64 d)
              else if isSigned then
                let i64 = strtoll textValue; i32 = ucast i64 :: uint32_t
                in if i64 = scast i32 then Inr (LITERAL_INT_32 i32) else Inr (LITERAL_INT_64 i64)
              else
                let u64 = strtoull textValue; u32 = ucast u64 :: uint32_t
                in if u64 = ucast u32 then Inr (LITERAL_UINT_32 u32) else Inr (LITERAL_UINT_64 u64))"

section \<open>The state of an encoding\<close>

record encoding =
  en_context :: AssemblyContext
  en_inst :: spv_instruction_t
  en_expected :: spv_operand_pattern_t

definition on_inst :: "spv_result_t \<times> spv_instruction_t \<Rightarrow> encoding \<Rightarrow> spv_result_t \<times> encoding" where
  "on_inst r e = (fst r, e\<lparr>en_inst := snd r\<rparr>)"

definition encodeImmediate :: "string \<Rightarrow> encoding \<Rightarrow> spv_result_t \<times> encoding" where
  "encodeImmediate textValue e =
     (case (ParseNumber (drop 1 textValue) :: uint32_t option) of
        None \<Rightarrow> (SPV_ERROR_INVALID_TEXT, e)
      | Some parse_result \<Rightarrow>
          (SPV_SUCCESS,
           e\<lparr>en_inst := snd (binaryEncodeU32 parse_result (en_inst e)),
             en_context := seekForward (length textValue) (en_context e)\<rparr>))"

section \<open>Operands by their type\<close>

definition encode_id :: "spv_operand_type_t \<Rightarrow> string \<Rightarrow> encoding \<Rightarrow> (spv_result_t \<times> encoding) option" where
  "encode_id type textValue e =
     (if \<not> starts_with textValue ''%'' then Some (SPV_ERROR_INVALID_TEXT, e)
      else
        let textValue = drop 1 textValue
        in if \<not> spvIsValidID textValue then Some (SPV_ERROR_INVALID_TEXT, e)
           else case spvNamedIdAssignOrGet (en_context e) textValue of
                  None \<Rightarrow> None
                | Some (i, context) \<Rightarrow>
                    let inst = en_inst e;
                        inst = (if type = SPV_OPERAND_TYPE_TYPE_ID then inst\<lparr>si_resultTypeId := i\<rparr> else inst);
                        inst = spvInstructionAddWord i inst;
                        e = e\<lparr>en_context := context, en_inst := inst\<rparr>
                    in if spvIsExtendedInstruction (si_opcode inst) \<and> length (si_words inst) = 4 then
                         let ext_inst_type = getExtInstTypeForId context (si_words inst ! 3)
                         in if ext_inst_type = SPV_EXT_INST_TYPE_NONE then Some (SPV_ERROR_INVALID_TEXT, e)
                            else Some (SPV_SUCCESS, e\<lparr>en_inst := inst\<lparr>si_extInstType := ext_inst_type\<rparr>\<rparr>)
                       else Some (SPV_SUCCESS, e))"

definition encode_ext_inst_number ::
  "'a grammar_scheme \<Rightarrow> float_ops \<Rightarrow> string \<Rightarrow> encoding \<Rightarrow> spv_result_t \<times> encoding" where
  "encode_ext_inst_number G fl textValue e =
     (let inst = en_inst e
      in case LookupExtInstByName G (si_extInstType inst) textValue of
           Inr desc \<Rightarrow>
             (SPV_SUCCESS, e\<lparr>en_inst := spvInstructionAddWord (ed_value desc) inst,
                             en_expected := spvPushOperandTypesSpan (ExtInstDesc_operands G desc) (en_expected e)\<rparr>)
         | Inl _ \<Rightarrow>
             if \<not> spvExtInstIsNonSemantic (si_extInstType inst) then (SPV_ERROR_INVALID_TEXT, e)
             else case spvTextToLiteral fl textValue of
                    Inr (LITERAL_UINT_32 u32) \<Rightarrow>
                      (SPV_SUCCESS, e\<lparr>en_inst := spvInstructionAddWord u32 inst,
                                      en_expected := en_expected e @ [SPV_OPERAND_TYPE_VARIABLE_ID]\<rparr>)
                  | _ \<Rightarrow> (SPV_ERROR_INVALID_TEXT, e))"

definition encode_spec_constant_op ::
  "'a grammar_scheme \<Rightarrow> spv_target_env \<Rightarrow> string \<Rightarrow> encoding \<Rightarrow> spv_result_t \<times> encoding" where
  "encode_spec_constant_op G env textValue e =
     (case lookupSpecConstantOpcodeByName textValue of
        Inl _ \<Rightarrow> (SPV_ERROR_INVALID_TEXT, e)
      | Inr opcode \<Rightarrow>
          (case LookupOpcodeForEnv G env opcode of
             Inl _ \<Rightarrow> (SPV_ERROR_INTERNAL, e)
           | Inr opcodeEntry \<Rightarrow>
               (SPV_SUCCESS,
                e\<lparr>en_inst := spvInstructionAddWord (id_opcode opcodeEntry) (en_inst e),
                  en_expected := spvPushOperandTypesSpan (drop 2 (InstructionDesc_operands G opcodeEntry)) (en_expected e)\<rparr>)))"

definition encode_number ::
  "float_ops \<Rightarrow> spv_operand_type_t \<Rightarrow> string \<Rightarrow> IdType \<Rightarrow> encoding \<Rightarrow> spv_result_t \<times> encoding" where
  "encode_number fl type textValue expected_type e =
     (let error_code_for_literals =
            (if spvOperandIsOptional type then SPV_FAILED_MATCH else SPV_ERROR_INVALID_TEXT)
      in on_inst (binaryEncodeNumericLiteral (fo_parse fl) textValue error_code_for_literals expected_type (en_inst e)) e)"

definition encode_typed_number ::
  "float_ops \<Rightarrow> spv_operand_type_t \<Rightarrow> string \<Rightarrow> encoding \<Rightarrow> spv_result_t \<times> encoding" where
  "encode_typed_number fl type textValue e =
     (let inst = en_inst e
      in if si_opcode inst = OpConstant \<or> si_opcode inst = OpSpecConstant then
           let expected_type = getTypeOfTypeGeneratingValue (en_context e) (si_resultTypeId inst)
           in if \<not> isScalarFloating expected_type \<and> \<not> isScalarIntegral expected_type
              then (SPV_ERROR_INVALID_TEXT, e)
              else encode_number fl type textValue expected_type e
         else if si_opcode inst = OpSwitch then
           let expected_type = getTypeOfValueInstruction (en_context e) (si_words inst ! 1)
           in if \<not> isScalarIntegral expected_type then (SPV_ERROR_INVALID_TEXT, e)
              else encode_number fl type textValue expected_type e
         else encode_number fl type textValue kUnknownType e)"

definition encode_literal_string ::
  "float_ops \<Rightarrow> spv_operand_type_t \<Rightarrow> string \<Rightarrow> encoding \<Rightarrow> spv_result_t \<times> encoding" where
  "encode_literal_string fl type textValue e =
     (let error_code_for_literals =
            (if spvOperandIsOptional type then SPV_FAILED_MATCH else SPV_ERROR_INVALID_TEXT);
          encode = (\<lambda>str e.
            (case binaryEncodeString str (en_inst e) of
               (error, inst) \<Rightarrow>
                 if error \<noteq> SPV_SUCCESS then (SPV_ERROR_INVALID_TEXT, e)
                 else (SPV_SUCCESS, e\<lparr>en_inst := inst\<rparr>)))
      in case spvTextToLiteral fl textValue of
           Inl SPV_ERROR_OUT_OF_MEMORY \<Rightarrow> (SPV_ERROR_OUT_OF_MEMORY, e)
         | Inl _ \<Rightarrow> (error_code_for_literals, e)
         | Inr (LITERAL_STRING str) \<Rightarrow>
             if si_opcode (en_inst e) = OpExtInstImport then
               let ext_inst_type = spvExtInstImportTypeGet str
               in if ext_inst_type = SPV_EXT_INST_TYPE_NONE then (SPV_ERROR_INVALID_TEXT, e)
                  else case recordIdAsExtInstImport (si_words (en_inst e) ! 1) ext_inst_type (en_context e) of
                         (error, context) \<Rightarrow>
                           if error \<noteq> SPV_SUCCESS then (error, e)
                           else encode str (e\<lparr>en_context := context\<rparr>)
             else encode str e
         | Inr _ \<Rightarrow> (SPV_ERROR_INVALID_TEXT, e))"

definition encode_mask ::
  "'a grammar_scheme \<Rightarrow> spv_operand_type_t \<Rightarrow> string \<Rightarrow> encoding \<Rightarrow> spv_result_t \<times> encoding" where
  "encode_mask G type textValue e =
     (case spvTextParseMaskOperand G type (Some textValue) of
        Inl error \<Rightarrow> (error, e)
      | Inr v \<Rightarrow>
          (SPV_SUCCESS,
           e\<lparr>en_inst := snd (binaryEncodeU32 v (en_inst e)),
             en_expected := spvPushOperandTypesForMask G type v (en_expected e)\<rparr>))"

definition encode_enumerant ::
  "'a grammar_scheme \<Rightarrow> spv_operand_type_t \<Rightarrow> string \<Rightarrow> encoding \<Rightarrow> spv_result_t \<times> encoding" where
  "encode_enumerant G type textValue e =
     (case LookupOperandByName G type textValue of
        Inl _ \<Rightarrow> (SPV_ERROR_INVALID_TEXT, e)
      | Inr entry \<Rightarrow>
          (SPV_SUCCESS,
           e\<lparr>en_inst := snd (binaryEncodeU32 (od_value entry) (en_inst e)),
             en_expected := spvPushOperandTypesSpan (OperandDesc_operands G entry) (en_expected e)\<rparr>))"

end
