(* ===== verification/Text_Assembler.thy ===== *)
theory Text_Assembler
  imports Text_Operand
begin

text \<open>
  The rest of \<open>text.cpp\<close>: an operand of any type, instructions, and whole texts. The loops over operands
  and instructions are partial functions to \<open>option\<close>; \<open>None\<close> is a call that does not return.
\<close>

section \<open>One operand\<close>

definition text_mask_types :: "spv_operand_type_t set" where
  "text_mask_types =
     {SPV_OPERAND_TYPE_FP_FAST_MATH_MODE, SPV_OPERAND_TYPE_FUNCTION_CONTROL, SPV_OPERAND_TYPE_LOOP_CONTROL,
      SPV_OPERAND_TYPE_IMAGE, SPV_OPERAND_TYPE_OPTIONAL_IMAGE, SPV_OPERAND_TYPE_TENSOR_OPERANDS,
      SPV_OPERAND_TYPE_OPTIONAL_TENSOR_OPERANDS, SPV_OPERAND_TYPE_OPTIONAL_MEMORY_ACCESS,
      SPV_OPERAND_TYPE_OPTIONAL_RAW_ACCESS_CHAIN_OPERANDS, SPV_OPERAND_TYPE_SELECTION_CONTROL,
      SPV_OPERAND_TYPE_DEBUG_INFO_FLAGS, SPV_OPERAND_TYPE_CLDEBUG100_DEBUG_INFO_FLAGS,
      SPV_OPERAND_TYPE_OPTIONAL_COOPERATIVE_MATRIX_OPERANDS, SPV_OPERAND_TYPE_TENSOR_ADDRESSING_OPERANDS,
      SPV_OPERAND_TYPE_COOPERATIVE_MATRIX_REDUCE,
      SPV_OPERAND_TYPE_OPTIONAL_MATRIX_MULTIPLY_ACCUMULATE_OPERANDS}"

text \<open>The switch over the type, for every type but \<open>OPTIONAL_CIV\<close>.\<close>

definition encode_switch ::
  "'a grammar_scheme \<Rightarrow> spv_target_env \<Rightarrow> float_ops \<Rightarrow> spv_operand_type_t \<Rightarrow> string \<Rightarrow> encoding \<Rightarrow>
   (spv_result_t \<times> encoding) option" where
  "encode_switch G env fl type textValue e =
     (if type \<in> {SPV_OPERAND_TYPE_ID, SPV_OPERAND_TYPE_TYPE_ID, SPV_OPERAND_TYPE_RESULT_ID,
           SPV_OPERAND_TYPE_MEMORY_SEMANTICS_ID, SPV_OPERAND_TYPE_SCOPE_ID, SPV_OPERAND_TYPE_OPTIONAL_ID}
      then encode_id type textValue e
      else if type = SPV_OPERAND_TYPE_EXTENSION_INSTRUCTION_NUMBER
      then Some (encode_ext_inst_number G fl textValue e)
      else if type = SPV_OPERAND_TYPE_SPEC_CONSTANT_OP_NUMBER
      then Some (encode_spec_constant_op G env textValue e)
      else if type \<in> {SPV_OPERAND_TYPE_LITERAL_INTEGER, SPV_OPERAND_TYPE_OPTIONAL_LITERAL_INTEGER}
      then Some (encode_number fl type textValue (make_type 32 False kScalarIntegerType) e)
      else if type = SPV_OPERAND_TYPE_LITERAL_FLOAT
      then Some (encode_number fl type textValue (make_type 32 False kScalarFloatType) e)
      else if type = SPV_OPERAND_TYPE_OPTIONAL_LITERAL_NUMBER
      then Some (encode_number fl type textValue kUnknownType e)
      else if type \<in> {SPV_OPERAND_TYPE_OPTIONAL_TYPED_LITERAL_INTEGER, SPV_OPERAND_TYPE_TYPED_LITERAL_NUMBER}
      then Some (encode_typed_number fl type textValue e)
      else if type \<in> {SPV_OPERAND_TYPE_LITERAL_STRING, SPV_OPERAND_TYPE_OPTIONAL_LITERAL_STRING}
      then Some (encode_literal_string fl type textValue e)
      else if type \<in> text_mask_types then Some (encode_mask G type textValue e)
      else Some (encode_enumerant G type textValue e))"

text \<open>
  A word behind an immediate: a number, a string or an id, in this order. A later attempt is made only
  when the one before fails to match.
\<close>

definition encode_civ ::
  "'a grammar_scheme \<Rightarrow> spv_target_env \<Rightarrow> float_ops \<Rightarrow> string \<Rightarrow> encoding \<Rightarrow> (spv_result_t \<times> encoding) option" where
  "encode_civ G env fl textValue e =
     (let attempt = (\<lambda>type r. Option.bind r (\<lambda>(error, e).
            if error = SPV_FAILED_MATCH then encode_switch G env fl type textValue e else Some (error, e)))
      in map_option
           (\<lambda>(error, e).
              if error \<noteq> SPV_SUCCESS then (error, e)
              else if en_expected e = [] then (SPV_SUCCESS, e\<lparr>en_expected := [SPV_OPERAND_TYPE_OPTIONAL_CIV]\<rparr>)
              else (SPV_SUCCESS, e))
           (attempt SPV_OPERAND_TYPE_OPTIONAL_ID
             (attempt SPV_OPERAND_TYPE_OPTIONAL_LITERAL_STRING
               (encode_switch G env fl SPV_OPERAND_TYPE_OPTIONAL_LITERAL_NUMBER textValue e))))"

definition spvTextEncodeOperand ::
  "'a grammar_scheme \<Rightarrow> spv_target_env \<Rightarrow> float_ops \<Rightarrow> spv_operand_type_t \<Rightarrow> string \<Rightarrow> encoding \<Rightarrow>
   (spv_result_t \<times> encoding) option" where
  "spvTextEncodeOperand G env fl type textValue e =
     (if starts_with textValue ''!'' then
        Some (case encodeImmediate textValue e of
                (error, e) \<Rightarrow>
                  if error \<noteq> SPV_SUCCESS then (error, e)
                  else (SPV_SUCCESS, e\<lparr>en_expected := spvAlternatePatternFollowingImmediate (en_expected e)\<rparr>))
      else if type = SPV_OPERAND_TYPE_OPTIONAL_CIV then encode_civ G env fl textValue e
      else encode_switch G env fl type textValue e)"

section \<open>Steps on the context\<close>

definition on_context :: "(AssemblyContext \<Rightarrow> AssemblyContext) \<Rightarrow> encoding \<Rightarrow> encoding" where
  "on_context f e = e\<lparr>en_context := f (en_context e)\<rparr>"

definition en_advance :: "encoding \<Rightarrow> spv_result_t \<times> encoding" where
  "en_advance e = (case context_advance (en_context e) of (error, context) \<Rightarrow> (error, e\<lparr>en_context := context\<rparr>))"

text \<open>Advancing to a given character and over it; the result is an error or the state behind it.\<close>

definition expect_char :: "char \<Rightarrow> encoding \<Rightarrow> spv_result_t + encoding" where
  "expect_char ch e =
     (case en_advance e of
        (error, e) \<Rightarrow>
          if error \<noteq> SPV_SUCCESS then Inl SPV_ERROR_INVALID_TEXT
          else if ch \<noteq> context_peek (en_context e) then Inl SPV_ERROR_INVALID_TEXT
          else Inr (on_context (seekForward 1) e))"

text \<open>Advancing to a 16-bit number and over it.\<close>

definition expect_number :: "encoding \<Rightarrow> spv_result_t + uint16_t \<times> encoding" where
  "expect_number e =
     (case en_advance e of
        (error, e) \<Rightarrow>
          if error \<noteq> SPV_SUCCESS then Inl SPV_ERROR_INVALID_TEXT
          else case context_getWord (en_context e) of
                 Inl error \<Rightarrow> Inl error
               | Inr (word, nextPosition) \<Rightarrow>
                   (case (ParseNumber word :: uint16_t option) of
                      None \<Rightarrow> Inl SPV_ERROR_INVALID_TEXT
                    | Some n \<Rightarrow> Inr (n, on_context (setPosition nextPosition) e)))"

text \<open>The word at the position, encoded as a word behind an immediate, and the position behind it.\<close>

definition encode_next_civ ::
  "'a grammar_scheme \<Rightarrow> spv_target_env \<Rightarrow> float_ops \<Rightarrow> encoding \<Rightarrow> (spv_result_t \<times> encoding) option" where
  "encode_next_civ G env fl e =
     (case context_getWord (en_context e) of
        Inl error \<Rightarrow> Some (error, e)
      | Inr (operandValue, nextPosition) \<Rightarrow>
          if operandValue = ''='' then Some (SPV_ERROR_INVALID_TEXT, e)
          else
            map_option
              (\<lambda>(error, e). if error \<noteq> SPV_SUCCESS then (error, e)
                            else (SPV_SUCCESS, on_context (setPosition nextPosition) e))
              (spvTextEncodeOperand G env fl SPV_OPERAND_TYPE_OPTIONAL_CIV operandValue (e\<lparr>en_expected := []\<rparr>)))"

section \<open>Instructions without a known opcode\<close>

definition Error_bind :: "'e + 'a \<Rightarrow> ('a \<Rightarrow> 'e + 'b) \<Rightarrow> 'e + 'b" where
  "Error_bind r f = (case r of Inl error \<Rightarrow> Inl error | Inr x \<Rightarrow> f x)"

partial_function (option) immediate_loop ::
  "'a grammar_scheme \<Rightarrow> spv_target_env \<Rightarrow> float_ops \<Rightarrow> encoding \<Rightarrow> (spv_result_t \<times> encoding) option" where
  "immediate_loop G env fl e =
     (let (error, e) = en_advance e
      in if error = SPV_END_OF_STREAM then Some (SPV_SUCCESS, e)
         else if isStartOfNewInst (en_context e) then Some (SPV_SUCCESS, e)
         else Option.bind (encode_next_civ G env fl e)
                (\<lambda>(error, e). if error \<noteq> SPV_SUCCESS then Some (error, e) else immediate_loop G env fl e))"

definition encodeInstructionStartingWithImmediate ::
  "'a grammar_scheme \<Rightarrow> spv_target_env \<Rightarrow> float_ops \<Rightarrow> encoding \<Rightarrow> (spv_result_t \<times> encoding) option" where
  "encodeInstructionStartingWithImmediate G env fl e =
     (case context_getWord (en_context e) of
        Inl error \<Rightarrow> Some (error, e)
      | Inr (firstWord, nextPosition) \<Rightarrow>
          (case encodeImmediate firstWord e of
             (error, e) \<Rightarrow> if error \<noteq> SPV_SUCCESS then Some (error, e) else immediate_loop G env fl e))"

text \<open>The loop counts the words that are left down to zero.\<close>

primrec unknown_loop ::
  "'a grammar_scheme \<Rightarrow> spv_target_env \<Rightarrow> float_ops \<Rightarrow> nat \<Rightarrow> encoding \<Rightarrow> (spv_result_t \<times> encoding) option" where
  "unknown_loop G env fl 0 e = Some (SPV_SUCCESS, e)"
| "unknown_loop G env fl (Suc wordCount) e =
     (let (error, e) = en_advance e
      in if error = SPV_END_OF_STREAM then Some (SPV_ERROR_INVALID_TEXT, e)
         else if isStartOfNewInst (en_context e) then Some (SPV_ERROR_INVALID_TEXT, e)
         else Option.bind (encode_next_civ G env fl e)
                (\<lambda>(error, e). if error \<noteq> SPV_SUCCESS then Some (error, e)
                              else unknown_loop G env fl wordCount e))"

definition encodeInstructionStartingWithOpUnknown ::
  "'a grammar_scheme \<Rightarrow> spv_target_env \<Rightarrow> float_ops \<Rightarrow> encoding \<Rightarrow> (spv_result_t \<times> encoding) option" where
  "encodeInstructionStartingWithOpUnknown G env fl e =
     (let header =
            Error_bind (expect_char (CHR ''('') e) (\<lambda>e.
            Error_bind (expect_number e) (\<lambda>(opcode, e).
            Error_bind (expect_char (CHR '','') e) (\<lambda>e.
            Error_bind (expect_number e) (\<lambda>(wordCount, e).
            if wordCount = 0 then Inl SPV_ERROR_INVALID_TEXT
            else Error_bind (expect_char (CHR '')'') e) (\<lambda>e. Inr (opcode, wordCount, e))))))
      in case header of
           Inl error \<Rightarrow> Some (error, e)
         | Inr (opcode, wordCount, e) \<Rightarrow>
             let inst = (en_inst e)\<lparr>si_opcode := ucast opcode\<rparr>;
                 inst = snd (binaryEncodeU32 (spvOpcodeMake wordCount (si_opcode inst)) inst)
             in unknown_loop G env fl (unat wordCount - 1) (e\<lparr>en_inst := inst\<rparr>))"

section \<open>Instructions\<close>

text \<open>
  The loop over the expected operands. \<open>Inr\<close> is a loop that has ended, \<open>Inl\<close> a return from the whole
  function with that code.
\<close>

partial_function (option) operands_loop ::
  "'a grammar_scheme \<Rightarrow> spv_target_env \<Rightarrow> float_ops \<Rightarrow> string \<Rightarrow> encoding \<Rightarrow>
   (spv_result_t \<times> encoding + encoding) option" where
  "operands_loop G env fl result_id e =
     (if en_expected e = [] then Some (Inr e)
      else
        let type = last (en_expected e);
            (expanded, pattern) = spvExpandOperandSequenceOnce type (butlast (en_expected e));
            e = e\<lparr>en_expected := pattern\<rparr>
        in if expanded then operands_loop G env fl result_id e
           else if type = SPV_OPERAND_TYPE_RESULT_ID \<and> result_id \<noteq> '''' then
             Option.bind (spvTextEncodeOperand G env fl SPV_OPERAND_TYPE_RESULT_ID result_id e)
               (\<lambda>(error, e').
                  let e' = on_context (setPosition (current_position (en_context e))) e'
                  in if error \<noteq> SPV_SUCCESS then Some (Inl (error, e')) else operands_loop G env fl result_id e')
           else
             let (error, e) = en_advance e
             in if error = SPV_END_OF_STREAM then
                  if spvOperandIsOptional type then Some (Inr e) else Some (Inl (SPV_ERROR_INVALID_TEXT, e))
                else if isStartOfNewInst (en_context e) then
                  if spvOperandIsOptional type then Some (Inr e) else Some (Inl (SPV_ERROR_INVALID_TEXT, e))
                else case context_getWord (en_context e) of
                       Inl error \<Rightarrow> Some (Inl (error, e))
                     | Inr (operandValue, nextPosition) \<Rightarrow>
                         Option.bind (spvTextEncodeOperand G env fl type operandValue e)
                           (\<lambda>(error, e).
                              if error = SPV_FAILED_MATCH \<and> spvOperandIsOptional type
                              then Some (Inl (SPV_SUCCESS, e))
                              else if error \<noteq> SPV_SUCCESS then Some (Inl (error, e))
                              else operands_loop G env fl result_id (on_context (setPosition nextPosition) e)))"

text \<open>The result id, if there is one, the name of the opcode, and the position behind it.\<close>

definition instruction_start ::
  "encoding \<Rightarrow> spv_result_t + string \<times> string \<times> spv_position_t \<times> encoding" where
  "instruction_start e =
     (case context_getWord (en_context e) of
        Inl error \<Rightarrow> Inl SPV_ERROR_INVALID_TEXT
      | Inr (firstWord, nextPosition) \<Rightarrow>
          if context_startsWithOp (en_context e) then Inr ('''', firstWord, nextPosition, e)
          else if CHR ''%'' \<noteq> front firstWord then Inl SPV_ERROR_INVALID_TEXT
          else
            (case en_advance (on_context (setPosition nextPosition) e) of
               (error, e) \<Rightarrow>
                 if error \<noteq> SPV_SUCCESS then Inl SPV_ERROR_INVALID_TEXT
                 else case context_getWord (en_context e) of
                        Inl error \<Rightarrow> Inl SPV_ERROR_INVALID_TEXT
                      | Inr (equal_sign, nextPosition) \<Rightarrow>
                          if ''='' \<noteq> equal_sign then Inl SPV_ERROR_INVALID_TEXT
                          else
                            (case en_advance (on_context (setPosition nextPosition) e) of
                               (error, e) \<Rightarrow>
                                 if error \<noteq> SPV_SUCCESS then Inl SPV_ERROR_INVALID_TEXT
                                 else case context_getWord (en_context e) of
                                        Inl error \<Rightarrow> Inl error
                                      | Inr (opcodeName, nextPosition) \<Rightarrow>
                                          if \<not> context_startsWithOp (en_context e) then Inl SPV_ERROR_INVALID_TEXT
                                          else Inr (firstWord, opcodeName, nextPosition, e))))"

text \<open>What is left to do for an instruction whose operands are encoded.\<close>

definition finish_instruction ::
  "'a grammar_scheme \<Rightarrow> InstructionDesc \<Rightarrow> encoding \<Rightarrow> spv_result_t \<times> encoding" where
  "finish_instruction G opcodeEntry e =
     (let inst = en_inst e;
          finish = (\<lambda>e.
            if length (si_words inst) > SPV_LIMIT_INSTRUCTION_WORD_COUNT_MAX then (SPV_ERROR_INVALID_TEXT, e)
            else (SPV_SUCCESS, e\<lparr>en_inst := inst\<lparr>si_words :=
              (si_words inst)[0 := spvOpcodeMake (of_nat (length (si_words inst))) (id_opcode opcodeEntry)]\<rparr>\<rparr>))
      in if spvOpcodeGeneratesType (si_opcode inst) then
           (case recordTypeDefinition G inst (en_context e) of
              (error, context) \<Rightarrow>
                if error \<noteq> SPV_SUCCESS then (SPV_ERROR_INVALID_TEXT, e) else finish (e\<lparr>en_context := context\<rparr>))
         else if id_hasType opcodeEntry then
           finish (on_context (\<lambda>c. snd (recordTypeIdForValue (si_words inst ! 2) (si_words inst ! 1) c)) e)
         else finish e)"

definition spvTextEncodeOpcode ::
  "'a grammar_scheme \<Rightarrow> spv_target_env \<Rightarrow> float_ops \<Rightarrow> encoding \<Rightarrow> (spv_result_t \<times> encoding) option" where
  "spvTextEncodeOpcode G env fl e =
     (if CHR ''!'' = context_peek (en_context e) then encodeInstructionStartingWithImmediate G env fl e
      else
        case instruction_start e of
          Inl error \<Rightarrow> Some (error, e)
        | Inr (result_id, opcodeName, nextPosition, e) \<Rightarrow>
            if opcodeName = ''OpUnknown'' then
              if result_id \<noteq> '''' then Some (SPV_ERROR_INVALID_TEXT, e)
              else encodeInstructionStartingWithOpUnknown G env fl (on_context (setPosition nextPosition) e)
            else
              (case LookupOpcodeForEnvByName G env (drop 2 opcodeName) of
                 Inl error \<Rightarrow> Some (error, e)
               | Inr opcodeEntry \<Rightarrow>
                   if id_hasResult opcodeEntry \<and> result_id = '''' then Some (SPV_ERROR_INVALID_TEXT, e)
                   else if \<not> id_hasResult opcodeEntry \<and> result_id \<noteq> '''' then Some (SPV_ERROR_INVALID_TEXT, e)
                   else
                     let inst = spvInstructionAddWord 0 ((en_inst e)\<lparr>si_opcode := id_opcode opcodeEntry\<rparr>);
                         e = on_context (setPosition nextPosition)
                               (e\<lparr>en_inst := inst, en_expected := rev (InstructionDesc_operands G opcodeEntry)\<rparr>)
                     in map_option
                          (\<lambda>r. case r of Inl returned \<Rightarrow> returned | Inr e \<Rightarrow> finish_instruction G opcodeEntry e)
                          (operands_loop G env fl result_id e)))"

section \<open>Texts\<close>

definition empty_instruction :: "Op \<Rightarrow> spv_instruction_t" where
  "empty_instruction opcode =
     \<lparr>si_opcode = opcode, si_extInstType = SPV_EXT_INST_TYPE_NONE, si_resultTypeId = 0, si_words = []\<rparr>"

definition Op_Max :: Op where "Op_Max = 0x7fffffff"

definition kAssemblerVersion :: uint32_t where "kAssemblerVersion = 0"

definition SPV_GENERATOR_KHRONOS_ASSEMBLER :: uint32_t where "SPV_GENERATOR_KHRONOS_ASSEMBLER = 7"

definition SPV_GENERATOR_WORD :: "uint32_t \<Rightarrow> uint32_t \<Rightarrow> uint32_t" where
  "SPV_GENERATOR_WORD tool misc = push_bit 16 (tool AND 0xffff) OR (misc AND 0xffff)"

definition SetHeader :: "spv_target_env \<Rightarrow> uint32_t \<Rightarrow> uint32_t list" where
  "SetHeader env bound =
     [0x07230203, spvVersionForTargetEnv env,
      SPV_GENERATOR_WORD SPV_GENERATOR_KHRONOS_ASSEMBLER kAssemblerVersion, bound, 0]"

text \<open>
  The loop over the instructions, of the translation and of its dry run, which differ in the opcode of
  a fresh instruction. The result is the instructions and the context, or the error code.
\<close>

partial_function (option) instructions_loop ::
  "'a grammar_scheme \<Rightarrow> spv_target_env \<Rightarrow> float_ops \<Rightarrow> Op \<Rightarrow> spv_instruction_t list \<Rightarrow> AssemblyContext \<Rightarrow>
   (spv_result_t + spv_instruction_t list \<times> AssemblyContext) option" where
  "instructions_loop G env fl opcode instructions context =
     (if \<not> hasText context then Some (Inr (instructions, context))
      else
        Option.bind
          (spvTextEncodeOpcode G env fl
             \<lparr>en_context = context, en_inst = empty_instruction opcode, en_expected = []\<rparr>)
          (\<lambda>(error, e).
             if error \<noteq> SPV_SUCCESS then Some (Inl error)
             else
               let instructions = instructions @ [en_inst e];
                   (error, context) = context_advance (en_context e)
               in if error \<noteq> SPV_SUCCESS then Some (Inr (instructions, context))
                  else instructions_loop G env fl opcode instructions context))"

definition GetNumericIds ::
  "'a grammar_scheme \<Rightarrow> spv_target_env \<Rightarrow> float_ops \<Rightarrow> string option \<Rightarrow> (spv_result_t + uint32_t set) option" where
  "GetNumericIds G env fl text_str =
     (case text_str of
        None \<Rightarrow> Some (Inl SPV_ERROR_INVALID_TEXT)
      | Some str \<Rightarrow>
          map_option
            (\<lambda>r. case r of Inl _ \<Rightarrow> Inl SPV_ERROR_INVALID_TEXT
                         | Inr (_, context) \<Rightarrow> Inr (context_GetNumericIds context))
            (instructions_loop G env fl Op_Max [] (snd (context_advance (new_AssemblyContext str {})))))"

definition SPV_TEXT_TO_BINARY_OPTION_NONE :: uint32_t where "SPV_TEXT_TO_BINARY_OPTION_NONE = 1"
definition SPV_TEXT_TO_BINARY_OPTION_PRESERVE_NUMERIC_IDS :: uint32_t where
  "SPV_TEXT_TO_BINARY_OPTION_PRESERVE_NUMERIC_IDS = 2"

definition spvTextToBinaryInternal ::
  "'a grammar_scheme \<Rightarrow> spv_target_env \<Rightarrow> float_ops \<Rightarrow> string option \<Rightarrow> uint32_t \<Rightarrow>
   (spv_result_t + uint32_t list) option" where
  "spvTextToBinaryInternal G env fl text_str flags =
     Option.bind
       (if flags AND SPV_TEXT_TO_BINARY_OPTION_PRESERVE_NUMERIC_IDS \<noteq> 0
        then GetNumericIds G env fl text_str else Some (Inr {}))
       (\<lambda>r. case r of
          Inl error \<Rightarrow> Some (Inl error)
        | Inr preserve \<Rightarrow>
            (case text_str of
               None \<Rightarrow> Some (Inl SPV_ERROR_INVALID_TEXT)
             | Some str \<Rightarrow>
                 map_option
                   (\<lambda>r. case r of
                      Inl error \<Rightarrow> Inl error
                    | Inr (instructions, context) \<Rightarrow>
                        Inr (SetHeader env (getBound context) @ concat (map si_words instructions)))
                   (instructions_loop G env fl OpNop []
                     (snd (context_advance (new_AssemblyContext str preserve))))))"

definition spvTextToBinaryWithOptions ::
  "'a grammar_scheme \<Rightarrow> spv_target_env \<Rightarrow> float_ops \<Rightarrow> string option \<Rightarrow> uint32_t \<Rightarrow>
   (spv_result_t + uint32_t list) option" where
  "spvTextToBinaryWithOptions G env fl text_str flags = spvTextToBinaryInternal G env fl text_str flags"

definition spvTextToBinary ::
  "'a grammar_scheme \<Rightarrow> spv_target_env \<Rightarrow> float_ops \<Rightarrow> string option \<Rightarrow> (spv_result_t + uint32_t list) option" where
  "spvTextToBinary G env fl text_str =
     spvTextToBinaryWithOptions G env fl text_str SPV_TEXT_TO_BINARY_OPTION_NONE"

end
