(* ===== verification/Text_Steps.thy ===== *)
theory Text_Steps
  imports Text_Assembler "HOL-Library.Sublist"
begin

text \<open>
  What the steps of the assembler keep of the context. Two locales hold it for any property of the context:
  an operand touches the ids and the imports only, an instruction the types and the position as well. The
  loop over the operands has an induction rule with a case for each way it goes on or ends.
\<close>

lemmas immediate_loop_induct = immediate_loop.raw_induct [rotated, consumes 1, case_names step]
lemmas operands_loop_induct = operands_loop.raw_induct [rotated, consumes 1, case_names step]
lemmas instructions_loop_induct = instructions_loop.raw_induct [rotated, consumes 1, case_names step]

section \<open>The loop over the operands as a relation\<close>

definition popped :: "encoding \<Rightarrow> encoding" where
  "popped e = e\<lparr>en_expected := butlast (en_expected e)\<rparr>"

definition pops :: "encoding \<Rightarrow> spv_operand_type_t \<Rightarrow> bool" where
  "pops e type \<longleftrightarrow> en_expected e \<noteq> [] \<and> type = last (en_expected e) \<and>
     \<not> fst (spvExpandOperandSequenceOnce type (butlast (en_expected e)))"

text \<open>The word for an operand that is not the result id, and the encoding before it.\<close>

definition operand_word :: "string \<Rightarrow> encoding \<Rightarrow> spv_operand_type_t \<Rightarrow> string \<Rightarrow> spv_position_t \<Rightarrow> encoding \<Rightarrow> bool" where
  "operand_word result_id e type w q e1 \<longleftrightarrow>
     pops e type \<and> (type = SPV_OPERAND_TYPE_RESULT_ID \<longrightarrow> result_id = '''') \<and>
     en_advance (popped e) = (SPV_SUCCESS, e1) \<and> \<not> isStartOfNewInst (en_context e1) \<and>
     context_getWord (en_context e1) = Inr (w, q)"

lemma current_popped: "current_position (en_context (popped e)) = current_position (en_context e)"
  by (simp add: popped_def)

lemma Error_bind_Inr: "Error_bind r f = Inr y \<longleftrightarrow> (\<exists>x. r = Inr x \<and> f x = Inr y)"
  by (auto simp: Error_bind_def split: sum.splits)

lemma not_expanded: "\<not> fst (spvExpandOperandSequenceOnce type p) \<Longrightarrow> spvExpandOperandSequenceOnce type p = (False, p)"
  by (auto simp: spvExpandOperandSequenceOnce_def split: if_splits)

lemma context_getWord_error: "context_getWord c = Inl error \<Longrightarrow> error = SPV_ERROR_INVALID_TEXT"
  by (auto simp: context_getWord_def getWord_def Let_def split: if_splits)

lemma advance_codes: "fst (advance str p) = SPV_SUCCESS \<or> fst (advance str p) = SPV_END_OF_STREAM"
proof (induction str p rule: advance.induct)
  case (1 str p)
  have line: "fst (advanceLine str q) = SPV_SUCCESS \<or> fst (advanceLine str q) = SPV_END_OF_STREAM" for q
    by (induction str q rule: advanceLine.induct) (subst (1 2) advanceLine.simps, auto simp: Let_def)
  show ?case
    using 1(1) [OF _ refl] 1(2) [OF _ refl] 1(3) [OF _ refl] line [of p]
    by (subst (1 2) advance.simps) (auto simp: Let_def split: prod.splits)
qed

lemma en_advance_codes: "en_advance e = (error, e1) \<Longrightarrow> error = SPV_SUCCESS \<or> error = SPV_END_OF_STREAM"
  using advance_codes [of "ac_text (en_context e)" "current_position (en_context e)"]
  by (auto simp: en_advance_def context_advance_def split: prod.splits)

definition reset :: "spv_position_t \<Rightarrow> encoding \<Rightarrow> encoding" where
  "reset p e = on_context (setPosition p) e"

lemma operands_loop_rule [consumes 1, case_names ended expand result_fails result optional missing unmatched fails word]:
  assumes "operands_loop G env fl result_id e = Some r"
    and ended: "\<And>e. en_expected e = [] \<Longrightarrow> Q e (Inr e)"
    and expand: "\<And>e p r. en_expected e \<noteq> [] \<Longrightarrow>
      spvExpandOperandSequenceOnce (last (en_expected e)) (butlast (en_expected e)) = (True, p) \<Longrightarrow>
      Q (e\<lparr>en_expected := p\<rparr>) r \<Longrightarrow> Q e r"
    and result_fails: "\<And>e err e2. pops e SPV_OPERAND_TYPE_RESULT_ID \<Longrightarrow> result_id \<noteq> '''' \<Longrightarrow>
      spvTextEncodeOperand G env fl SPV_OPERAND_TYPE_RESULT_ID result_id (popped e) = Some (err, e2) \<Longrightarrow>
      err \<noteq> SPV_SUCCESS \<Longrightarrow> Q e (Inl (err, reset (current_position (en_context e)) e2))"
    and result: "\<And>e e2 r. pops e SPV_OPERAND_TYPE_RESULT_ID \<Longrightarrow> result_id \<noteq> '''' \<Longrightarrow>
      spvTextEncodeOperand G env fl SPV_OPERAND_TYPE_RESULT_ID result_id (popped e) = Some (SPV_SUCCESS, e2) \<Longrightarrow>
      Q (reset (current_position (en_context e)) e2) r \<Longrightarrow> Q e r"
    and optional: "\<And>e type error e1. pops e type \<Longrightarrow> en_advance (popped e) = (error, e1) \<Longrightarrow>
      spvOperandIsOptional type \<Longrightarrow> Q e (Inr e1)"
    and missing: "\<And>e type error e1. pops e type \<Longrightarrow> en_advance (popped e) = (error, e1) \<Longrightarrow>
      Q e (Inl (SPV_ERROR_INVALID_TEXT, e1))"
    and unmatched: "\<And>e type w q e1 e2. operand_word result_id e type w q e1 \<Longrightarrow>
      spvTextEncodeOperand G env fl type w e1 = Some (SPV_FAILED_MATCH, e2) \<Longrightarrow> Q e (Inl (SPV_SUCCESS, e2))"
    and fails: "\<And>e type w q e1 err e2. operand_word result_id e type w q e1 \<Longrightarrow>
      spvTextEncodeOperand G env fl type w e1 = Some (err, e2) \<Longrightarrow> err \<noteq> SPV_SUCCESS \<Longrightarrow> Q e (Inl (err, e2))"
    and word: "\<And>e type w q e1 e2 r. operand_word result_id e type w q e1 \<Longrightarrow>
      spvTextEncodeOperand G env fl type w e1 = Some (SPV_SUCCESS, e2) \<Longrightarrow> Q (reset q e2) r \<Longrightarrow> Q e r"
  shows "Q e r"
proof -
  have "(G', env', fl', result_id') = (G, env, fl, result_id) \<longrightarrow> Q e r"
    if "operands_loop G' env' fl' result_id' e = Some r" for G' env' fl' result_id' e r
    using that
  proof (induction rule: operands_loop_induct)
    case (step loop G' env' fl' result_id' e r)
    show ?case
    proof
      assume same: "(G', env', fl', result_id') = (G, env, fl, result_id)"
      have IH: "Q e r" if "loop G env fl result_id e = Some r" for e r
        using step(1) that by blast
      have eqs: "G' = G" "env' = env" "fl' = fl" "result_id' = result_id" using same by auto
      note loop = step(2) [unfolded eqs]
      let ?type = "last (en_expected e)"
      obtain expanded p where ex: "spvExpandOperandSequenceOnce ?type (butlast (en_expected e)) = (expanded, p)"
        by fastforce
      note body = loop [unfolded Let_def ex prod.case]
      show "Q e r"
      proof (cases "en_expected e = [] \<or> expanded")
        case True
        then show ?thesis
        proof (cases "en_expected e = []")
          case False
          then have "loop G env fl result_id (e\<lparr>en_expected := p\<rparr>) = Some r" using body True by simp
          from expand [OF False _ IH [OF this]] show ?thesis using True False ex by simp
        qed (use body ended in auto)
      next
        case False
        have pops: "pops e ?type" using False ex by (simp add: pops_def)
        have p: "e\<lparr>en_expected := p\<rparr> = popped e" using False ex not_expanded [of ?type "butlast (en_expected e)"] by (auto simp: popped_def)
        show ?thesis
        proof (cases "?type = SPV_OPERAND_TYPE_RESULT_ID \<and> result_id \<noteq> ''''")
          case True
          let ?reset = "reset (current_position (en_context e))"
          have "Option.bind (spvTextEncodeOperand G env fl SPV_OPERAND_TYPE_RESULT_ID result_id (popped e))
              (\<lambda>(err, e2). if err \<noteq> SPV_SUCCESS then Some (Inl (err, ?reset e2)) else loop G env fl result_id (?reset e2)) = Some r"
            using body [unfolded p current_popped] False True unfolding reset_def by simp
          then obtain err e2 where e2: "spvTextEncodeOperand G env fl SPV_OPERAND_TYPE_RESULT_ID result_id (popped e) = Some (err, e2)"
            and rest: "(if err \<noteq> SPV_SUCCESS then Some (Inl (err, ?reset e2)) else loop G env fl result_id (?reset e2)) = Some r"
            by (fastforce simp: bind_eq_Some_conv)
          show ?thesis
          proof (cases "err = SPV_SUCCESS")
            case ok: True
            with rest have "loop G env fl result_id (reset (current_position (en_context e)) e2) = Some r" by simp
            from result [OF _ _ _ IH [OF this]] show ?thesis using pops True e2 ok by simp
          next
            case False
            then show ?thesis using rest result_fails [OF _ _ e2] pops True by simp
          qed
        next
          case other: False
          obtain error e1 where e1: "en_advance (popped e) = (error, e1)" by fastforce
          note body = body [unfolded p e1 prod.case if_not_P [OF other]]
          show ?thesis
          proof (cases "error = SPV_END_OF_STREAM \<or> isStartOfNewInst (en_context e1)")
            case True
            then have "r = (if spvOperandIsOptional ?type then Inr e1 else Inl (SPV_ERROR_INVALID_TEXT, e1))"
              using body False other by (auto split: if_splits)
            then show ?thesis using optional [OF pops e1] missing [OF pops e1] by simp
          next
            case here: False
            show ?thesis
            proof (cases "context_getWord (en_context e1)")
              case (Inl code)
              then have "r = Inl (SPV_ERROR_INVALID_TEXT, e1)"
                using body False other here Inl context_getWord_error [OF Inl] by auto
              then show ?thesis using missing [OF pops e1] by simp
            next
              case (Inr wq)
              then obtain w q where w: "context_getWord (en_context e1) = Inr (w, q)" by fastforce
              have "error = SPV_SUCCESS" using en_advance_codes [OF e1] here by simp
              then have at_word: "operand_word result_id e ?type w q e1"
                using pops other e1 here w by (simp add: operand_word_def)
              have "Option.bind (spvTextEncodeOperand G env fl ?type w e1) (\<lambda>(err, e2).
                  if err = SPV_FAILED_MATCH \<and> spvOperandIsOptional ?type then Some (Inl (SPV_SUCCESS, e2))
                  else if err \<noteq> SPV_SUCCESS then Some (Inl (err, e2))
                  else loop G env fl result_id (reset q e2)) = Some r"
                using body False other here w unfolding reset_def by simp
              then obtain err e2 where e2: "spvTextEncodeOperand G env fl ?type w e1 = Some (err, e2)"
                and rest: "(if err = SPV_FAILED_MATCH \<and> spvOperandIsOptional ?type then Some (Inl (SPV_SUCCESS, e2))
                  else if err \<noteq> SPV_SUCCESS then Some (Inl (err, e2))
                  else loop G env fl result_id (reset q e2)) = Some r"
                by (fastforce simp: bind_eq_Some_conv)
              show ?thesis
                using rest unmatched [OF at_word] fails [OF at_word e2] word [OF at_word _ IH] e2
                by (auto split: if_splits)
            qed
          qed
        qed
      qed
    qed
  qed
  then show ?thesis using assms(1) by blast
qed

lemma finish_context:
  "finish_instruction G entry e = (r, e') \<Longrightarrow>
    en_context e' = en_context e \<or> en_context e' = snd (recordTypeDefinition G (en_inst e) (en_context e)) \<or>
    en_context e' = snd (recordTypeIdForValue (si_words (en_inst e) ! 2) (si_words (en_inst e) ! 1) (en_context e))"
  unfolding finish_instruction_def Let_def on_context_def by (auto split: if_splits prod.splits)

section \<open>Instructions with a known opcode\<close>

definition known_opcode :: "encoding \<Rightarrow> string \<Rightarrow> string \<Rightarrow> spv_position_t \<Rightarrow> encoding \<Rightarrow> bool" where
  "known_opcode e result_id name q e1 \<longleftrightarrow> CHR ''!'' \<noteq> context_peek (en_context e) \<and>
     instruction_start e = Inr (result_id, name, q, e1) \<and> name \<noteq> ''OpUnknown''"

definition at_operands :: "'a grammar_scheme \<Rightarrow> InstructionDesc \<Rightarrow> spv_position_t \<Rightarrow> encoding \<Rightarrow> encoding" where
  "at_operands G entry q e =
     on_context (setPosition q)
       (e\<lparr>en_inst := spvInstructionAddWord 0 ((en_inst e)\<lparr>si_opcode := id_opcode entry\<rparr>),
          en_expected := rev (InstructionDesc_operands G entry)\<rparr>)"

lemma lookup_opcode_error: "LookupOpcodeForEnvByName G env name = Inl error \<Longrightarrow> error \<noteq> SPV_SUCCESS"
  by (auto simp: LookupOpcodeForEnvByName_def LookupOpcodeForEnvInternal_def LookupOpcodeByName_def Let_def
      split: sum.splits if_splits)

lemma known_opcode_cases:
  assumes "spvTextEncodeOpcode G env fl e = Some (r, e')" "known_opcode e result_id name q e1"
  obtains (refused) "r \<noteq> SPV_SUCCESS" "e' = e1"
  | (operands) entry r' where "LookupOpcodeForEnvByName G env (drop 2 name) = Inr entry"
      "operands_loop G env fl result_id (at_operands G entry q e1) = Some r'"
      "(r, e') = (case r' of Inl returned \<Rightarrow> returned | Inr e2 \<Rightarrow> finish_instruction G entry e2)"
proof (cases "LookupOpcodeForEnvByName G env (drop 2 name)")
  case (Inl error)
  then show thesis
    using assms lookup_opcode_error [OF Inl] refused by (simp add: spvTextEncodeOpcode_def known_opcode_def)
next
  case (Inr entry)
  show thesis
  proof (cases "id_hasResult entry \<longleftrightarrow> result_id \<noteq> ''''")
    case True
    then have "map_option (\<lambda>r. case r of Inl returned \<Rightarrow> returned | Inr e \<Rightarrow> finish_instruction G entry e)
        (operands_loop G env fl result_id (at_operands G entry q e1)) = Some (r, e')"
      using assms Inr by (auto simp: spvTextEncodeOpcode_def known_opcode_def at_operands_def)
    then show thesis using operands [OF Inr] by auto
  next
    case False
    then show thesis
      using assms Inr refused by (auto simp: spvTextEncodeOpcode_def known_opcode_def split: if_splits)
  qed
qed

section \<open>What a step keeps\<close>

definition keeps :: "(AssemblyContext \<Rightarrow> bool) \<Rightarrow> encoding \<Rightarrow> encoding \<Rightarrow> bool" where
  "keeps P e e' \<longleftrightarrow> (P (en_context e) \<longrightarrow> P (en_context e')) \<and>
     prefix (si_words (en_inst e)) (si_words (en_inst e')) \<and> si_opcode (en_inst e') = si_opcode (en_inst e)"

lemma keeps_refl [intro]: "keeps P e e"
  by (simp add: keeps_def)

lemma keeps_trans: "keeps P e e' \<Longrightarrow> keeps P e' e'' \<Longrightarrow> keeps P e e''"
  by (auto simp: keeps_def intro: prefix_order.trans)

lemma keeps_expected [simp]:
  "keeps P (e\<lparr>en_expected := x\<rparr>) e' = keeps P e e'" "keeps P e (e'\<lparr>en_expected := x\<rparr>) = keeps P e e'"
  by (simp_all add: keeps_def)

lemma keeps_context: "(P (en_context e) \<Longrightarrow> P c) \<Longrightarrow> keeps P e (e\<lparr>en_context := c\<rparr>)"
  by (simp add: keeps_def)

lemma binaryEncodeNumericLiteral_words:
  "binaryEncodeNumericLiteral pf val code type inst = (r, inst') \<Longrightarrow>
    prefix (si_words inst) (si_words inst') \<and> si_opcode inst' = si_opcode inst"
  by (auto simp: binaryEncodeNumericLiteral_def split: option.splits sum.splits EncodeNumberStatus.splits)

lemma binaryEncodeString_words:
  "binaryEncodeString v inst = (r, inst') \<Longrightarrow>
    prefix (si_words inst) (si_words inst') \<and> si_opcode inst' = si_opcode inst"
  by (auto simp: binaryEncodeString_def Let_def AppendToVector_encode split: if_splits)

lemma encode_number_keeps: "encode_number fl type w t e = (r, e') \<Longrightarrow> keeps P e e'"
  unfolding encode_number_def on_inst_def Let_def
  using binaryEncodeNumericLiteral_words [OF prod.collapse [symmetric]] by (auto simp: keeps_def)

lemma encode_typed_number_keeps: "encode_typed_number fl type w e = (r, e') \<Longrightarrow> keeps P e e'"
  by (auto simp: encode_typed_number_def Let_def dest: encode_number_keeps split: if_splits)

lemma encode_words_keeps:
  "encode_ext_inst_number G fl w e = (r, e') \<Longrightarrow> keeps P e e'"
  "encode_spec_constant_op G env w e = (r, e') \<Longrightarrow> keeps P e e'"
  "encode_mask G type w e = (r, e') \<Longrightarrow> keeps P e e'"
  "encode_enumerant G type w e = (r, e') \<Longrightarrow> keeps P e e'"
  by (auto simp: encode_ext_inst_number_def encode_spec_constant_op_def encode_mask_def encode_enumerant_def
      Let_def keeps_def spvInstructionAddWord_def binaryEncodeU32_def
      split: sum.splits if_splits spv_literal_t.splits)

section \<open>Operands\<close>

locale operand_invariant =
  fixes P :: "AssemblyContext \<Rightarrow> bool"
  assumes assign_kept: "P c \<Longrightarrow> spvNamedIdAssignOrGet c s = Some (i, c') \<Longrightarrow> P c'"
    and imports_kept: "P c \<Longrightarrow> P (c\<lparr>import_id_to_ext_inst_type := m\<rparr>)"
begin

lemma id_keeps:
  assumes "encode_id type w e = Some (r, e')"
  shows "keeps P e e'"
proof (cases "spvNamedIdAssignOrGet (en_context e) (drop 1 w)")
  case None
  then show ?thesis using assms by (auto simp: encode_id_def Let_def split: if_splits)
next
  case (Some ic)
  then obtain i c where c: "spvNamedIdAssignOrGet (en_context e) (drop 1 w) = Some (i, c)" by fastforce
  then have "P (en_context e) \<Longrightarrow> P c" using assign_kept by blast
  then show ?thesis
    using assms c by (auto simp: encode_id_def Let_def keeps_def spvInstructionAddWord_def split: if_splits)
qed

lemma literal_string_keeps: "encode_literal_string fl type w e = (r, e') \<Longrightarrow> keeps P e e'"
  by (auto simp: encode_literal_string_def Let_def keeps_def recordIdAsExtInstImport_def
      dest!: binaryEncodeString_words intro: imports_kept
      split: sum.splits spv_result_t.splits spv_literal_t.splits if_splits prod.splits)

lemma switch_keeps: "encode_switch G env fl type w e = Some (r, e') \<Longrightarrow> keeps P e e'"
  unfolding encode_switch_def
  by (auto split: if_splits dest: id_keeps literal_string_keeps encode_words_keeps encode_number_keeps
      encode_typed_number_keeps)

lemma civ_keeps: "encode_civ G env fl w e = Some (r, e') \<Longrightarrow> keeps P e e'"
  by (auto simp: encode_civ_def Let_def bind_eq_Some_conv split: if_splits prod.splits
      dest!: switch_keeps intro: keeps_trans)

end

text \<open>Positions and texts are no concern of an operand that is not an immediate.\<close>

interpretation at_position:
  operand_invariant "\<lambda>c. current_position c = p \<and> ac_text c = str \<and> ids_to_preserve c = S" for p str S
  by unfold_locales
    (auto simp: spvNamedIdAssignOrGet_def Let_def split: option.splits if_splits)

section \<open>Instructions and texts\<close>

locale assembly_invariant = operand_invariant +
  assumes types_kept: "P c \<Longrightarrow> P (c\<lparr>types_of_ids := t\<rparr>)"
    and values_kept: "P c \<Longrightarrow> P (c\<lparr>value_types := v\<rparr>)"
    and position_kept: "P c \<Longrightarrow> P (c\<lparr>current_position := p\<rparr>)"
begin

lemma setPosition_kept: "P c \<Longrightarrow> P (setPosition p c)"
  by (simp add: setPosition_def position_kept)

lemma seekForward_kept: "P c \<Longrightarrow> P (seekForward n c)"
  by (simp add: seekForward_def Let_def position_kept)

lemma advance_kept: "P c \<Longrightarrow> context_advance c = (r, c') \<Longrightarrow> P c'"
  by (auto simp: context_advance_def position_kept split: prod.splits)

lemma on_context_keeps:
  "keeps P e (on_context (setPosition p) e)" "keeps P e (on_context (seekForward n) e)"
  by (simp_all add: on_context_def keeps_def setPosition_kept seekForward_kept)

lemma en_advance_keeps: "en_advance e = (r, e') \<Longrightarrow> keeps P e e'"
  by (auto simp: en_advance_def keeps_def advance_kept split: prod.splits)

lemma encodeImmediate_keeps: "encodeImmediate w e = (r, e') \<Longrightarrow> keeps P e e'"
  by (auto simp: encodeImmediate_def keeps_def binaryEncodeU32_def seekForward_kept split: option.splits)

lemma operand_keeps: "spvTextEncodeOperand G env fl type w e = Some (r, e') \<Longrightarrow> keeps P e e'"
  by (auto simp: spvTextEncodeOperand_def split: if_splits prod.splits
      dest: encodeImmediate_keeps switch_keeps civ_keeps)

lemma expect_char_keeps: "expect_char ch e = Inr e' \<Longrightarrow> keeps P e e'"
  by (auto simp: expect_char_def split: prod.splits if_splits
      dest: en_advance_keeps intro: keeps_trans on_context_keeps)

lemma expect_number_keeps: "expect_number e = Inr (n, e') \<Longrightarrow> keeps P e e'"
  by (auto simp: expect_number_def split: prod.splits if_splits sum.splits option.splits
      dest: en_advance_keeps intro: keeps_trans on_context_keeps)

lemma encode_next_civ_keeps: "encode_next_civ G env fl e = Some (r, e') \<Longrightarrow> keeps P e e'"
  by (auto simp: encode_next_civ_def split: sum.splits if_splits prod.splits
      dest!: operand_keeps intro: keeps_trans on_context_keeps)

lemmas advance_trans = keeps_trans [OF en_advance_keeps]
lemmas next_civ_trans = keeps_trans [OF encode_next_civ_keeps]

lemma unknown_loop_keeps: "unknown_loop G env fl n e = Some re \<Longrightarrow> keeps P e (snd re)"
proof (induction n arbitrary: e)
  case (Suc n)
  obtain error e1 where e1: "en_advance e = (error, e1)" by fastforce
  have "keeps P e1 (snd re)"
    using Suc.prems e1
    by (auto simp: bind_eq_Some_conv split: if_splits dest: encode_next_civ_keeps Suc.IH intro: next_civ_trans)
  with e1 show ?case by (rule advance_trans)
qed auto

lemma immediate_loop_keeps: "immediate_loop G env fl e = Some re \<Longrightarrow> keeps P e (snd re)"
proof (induction rule: immediate_loop_induct)
  case (step loop G env fl e re)
  obtain error e1 where e1: "en_advance e = (error, e1)" by fastforce
  have "keeps P e1 (snd re)"
    using step(2) e1
    by (auto simp: bind_eq_Some_conv split: if_splits dest: encode_next_civ_keeps step(1) intro: next_civ_trans)
  with e1 show ?case by (rule advance_trans)
qed

lemma popped_keeps [simp]: "keeps P (popped e) e' = keeps P e e'"
  by (simp add: popped_def)

lemma reset_keeps: "keeps P e e' \<Longrightarrow> keeps P e (reset p e')"
  using keeps_trans on_context_keeps(1) unfolding reset_def by blast

lemma operand_word_keeps: "operand_word result_id e type w q e1 \<Longrightarrow> keeps P e e1"
  by (auto simp: operand_word_def dest: en_advance_keeps)

lemma operands_loop_keeps:
  "operands_loop G env fl result_id e = Some r \<Longrightarrow> keeps P e (case r of Inl re \<Rightarrow> snd re | Inr e' \<Rightarrow> e')"
proof (induction rule: operands_loop_rule)
  case (result e e2 r)
  from operand_keeps [OF result(3)] have "keeps P e (reset (current_position (en_context e)) e2)"
    by (simp add: reset_keeps)
  then show ?case using result.IH by (rule keeps_trans)
next
  case (word e type w q e1 e2 r)
  from operand_word_keeps [OF word(1)] operand_keeps [OF word(2)] have "keeps P e e2" by (rule keeps_trans)
  from reset_keeps [OF this] word.IH show ?case by (rule keeps_trans)
next
  case (unmatched e type w q e1 e2)
  from operand_word_keeps [OF unmatched(1)] operand_keeps [OF unmatched(2)] show ?case
    by (auto intro: keeps_trans)
next
  case (fails e type w q e1 err e2)
  from operand_word_keeps [OF fails(1)] operand_keeps [OF fails(2)] show ?case by (auto intro: keeps_trans)
next
  case (result_fails e err e2)
  from operand_keeps [OF result_fails(3)] show ?case by (simp add: reset_keeps)
qed (auto dest: en_advance_keeps)

lemma at_position_trans: "keeps P (on_context (setPosition p) e) e' \<Longrightarrow> keeps P e e'"
  using on_context_keeps(1) by (rule keeps_trans)

lemma instruction_start_keeps: "instruction_start e = Inr (result_id, name, q, e1) \<Longrightarrow> keeps P e e1"
  by (auto simp: instruction_start_def split: sum.splits if_splits prod.splits
      dest!: en_advance_keeps intro: keeps_trans at_position_trans)

lemma finish_kept:
  assumes "finish_instruction G entry e = (r, e')" "P (en_context e)"
  shows "P (en_context e')"
proof -
  have "P (snd (recordTypeDefinition G inst c))" if "P c" for inst c
    using that types_kept by (auto simp: recordTypeDefinition_def Let_def split: sum.splits)
  moreover have "P (snd (recordTypeIdForValue v t c))" if "P c" for v t c
    using that values_kept by (auto simp: recordTypeIdForValue_def)
  ultimately show ?thesis using finish_context [OF assms(1)] assms(2) by auto
qed

lemma unknown_kept:
  assumes "encodeInstructionStartingWithOpUnknown G env fl e = Some (r, e')" "P (en_context e)"
  shows "P (en_context e')"
proof -
  show ?thesis
    using assms
    by (auto simp: encodeInstructionStartingWithOpUnknown_def Let_def Error_bind_Inr
        split: sum.splits if_splits prod.splits
        dest!: expect_char_keeps expect_number_keeps unknown_loop_keeps) (simp add: keeps_def)
qed

lemma opcode_kept:
  assumes "spvTextEncodeOpcode G env fl e = Some (r, e')" "P (en_context e)"
  shows "P (en_context e')"
proof (cases "CHR ''!'' = context_peek (en_context e)")
  case True
  then show ?thesis
    using assms
    by (auto simp: spvTextEncodeOpcode_def encodeInstructionStartingWithImmediate_def keeps_def
        split: sum.splits prod.splits if_splits dest!: immediate_loop_keeps encodeImmediate_keeps)
next
  case False
  show ?thesis
  proof (cases "instruction_start e")
    case (Inr s)
    then obtain result_id name q e1 where start: "instruction_start e = Inr (result_id, name, q, e1)"
      by (metis prod_cases4)
    have e1: "P (en_context e1)" using instruction_start_keeps [OF start] assms(2) by (simp add: keeps_def)
    show ?thesis
    proof (cases "name = ''OpUnknown''")
      case True
      have "P (en_context (on_context (setPosition q) e1))" using e1 setPosition_kept by (simp add: on_context_def)
      then show ?thesis
        using True assms start False unknown_kept e1 by (auto simp: spvTextEncodeOpcode_def split: if_splits)
    next
      case known: False
      have at: "P (en_context (at_operands G entry q e1))" for entry
        using e1 setPosition_kept by (simp add: at_operands_def on_context_def)
      have "known_opcode e result_id name q e1" using False start known by (simp add: known_opcode_def)
      with assms(1) show ?thesis
      proof (cases rule: known_opcode_cases)
        case (operands entry r')
        have "keeps P (at_operands G entry q e1) (case r' of Inl re \<Rightarrow> snd re | Inr e' \<Rightarrow> e')"
          using operands(2) by (rule operands_loop_keeps)
        then show ?thesis using operands(3) at by (cases r') (auto simp: keeps_def dest: finish_kept [OF sym])
      qed (use e1 in simp)
    qed
  qed (use assms False in \<open>auto simp: spvTextEncodeOpcode_def\<close>)
qed

lemma instructions_loop_kept:
  "instructions_loop G env fl opcode instructions c = Some r \<Longrightarrow> P c \<Longrightarrow>
    case r of Inl _ \<Rightarrow> True | Inr (_, c') \<Rightarrow> P c'"
proof (induction rule: instructions_loop_induct)
  case (step loop G env fl opcode instructions c r)
  show ?case
  proof (cases "hasText c")
    case True
    let ?e = "\<lparr>en_context = c, en_inst = empty_instruction opcode, en_expected = []\<rparr>"
    obtain error e where e: "spvTextEncodeOpcode G env fl ?e = Some (error, e)"
      using step(2) True by (cases "spvTextEncodeOpcode G env fl ?e") auto
    obtain error' c' where c': "context_advance (en_context e) = (error', c')" by fastforce
    have "P c'" using opcode_kept [OF e] step(3) advance_kept [OF _ c'] by simp
    then show ?thesis using step(1) [of G env fl opcode "instructions @ [en_inst e]" c' r] step(2) True e c'
      by (auto simp: Let_def split: if_splits)
  qed (use step(2,3) in auto)
qed

end

text \<open>The text and the kept numbers are fixed.\<close>

interpretation frame: assembly_invariant "\<lambda>c. ac_text c = str \<and> ids_to_preserve c = S" for str S
  by unfold_locales (auto simp: spvNamedIdAssignOrGet_def Let_def split: option.splits if_splits)

end
