(* ===== verification/Text_Binary.thy ===== *)
theory Text_Binary
  imports Text_Steps
begin

text \<open>
  What assembling a text gives: it comes to an end, and the binary is a header with the instructions, each
  with its length and opcode in its first word.
\<close>

section \<open>Positions in the text\<close>

definition further :: "string \<Rightarrow> nat \<Rightarrow> AssemblyContext \<Rightarrow> bool" where
  "further str p c \<longleftrightarrow> ac_text c = str \<and> p \<le> pos_index (current_position c) \<and>
     pos_index (current_position c) \<le> length str"

text \<open>At a word that does not start an instruction.\<close>

definition stuck :: "string \<Rightarrow> AssemblyContext \<Rightarrow> bool" where
  "stuck str c \<longleftrightarrow> ac_text c = str \<and> pos_index (current_position c) < length str \<and>
     significant (str ! pos_index (current_position c)) \<and> \<not> isStartOfNewInst c"

lemma operand_frame:
  assumes "spvTextEncodeOperand G env fl type w e = Some (r, e')"
  shows "ac_text (en_context e') = ac_text (en_context e)"
    "ids_to_preserve (en_context e') = ids_to_preserve (en_context e)"
  using frame.operand_keeps [OF assms, of "ac_text (en_context e)" "ids_to_preserve (en_context e)"]
  by (simp_all add: keeps_def)

lemma advance_further:
  assumes "en_advance e = (error, e1)" "further str p (en_context e)"
  shows "further str p (en_context e1)"
    "error = SPV_SUCCESS \<Longrightarrow> pos_index (current_position (en_context e1)) < length str \<and>
      significant (str ! pos_index (current_position (en_context e1)))"
  using assms advance_goes_on [of "current_position (en_context e)" str]
  by (auto simp: en_advance_def context_advance_def further_def goes_on_def stops_at_word_def split: prod.splits)

lemma word_further:
  assumes "context_getWord c = Inr (w, q)" "further str p c"
  shows "further str (p + length w) (setPosition q c)" "sublist w str"
proof -
  have "getWord str (current_position c) = Inr (w, q)" and len: "pos_index (current_position c) \<le> length str"
    using assms by (auto simp: context_getWord_def further_def)
  note word = getWord_word [OF this]
  show "further str (p + length w) (setPosition q c)"
    using word assms(2) by (simp add: further_def setPosition_def)
  show "sublist w str" using word(3) by (metis append_take_drop_id sublist_def)
qed

lemma reset_further: "further str p (setPosition q (en_context e)) \<Longrightarrow> further str p (en_context (reset q e))"
  by (simp add: reset_def on_context_def)

lemma setPosition_further:
  "ac_text c = ac_text c' \<Longrightarrow> further str p (setPosition q c') \<Longrightarrow> further str p (setPosition q c)"
  by (simp add: further_def setPosition_def)

lemma isStartOfNewInst_cong:
  "ac_text c = ac_text c' \<Longrightarrow> current_position c = current_position c' \<Longrightarrow> isStartOfNewInst c = isStartOfNewInst c'"
  by (simp add: isStartOfNewInst_def)

text \<open>An operand that fails to match leaves the position.\<close>

lemma unmatched_position:
  assumes "spvTextEncodeOperand G env fl type w e = Some (SPV_FAILED_MATCH, e')"
  shows "current_position (en_context e') = current_position (en_context e)"
proof -
  have "\<not> starts_with w ''!''"
    using assms by (auto simp: spvTextEncodeOperand_def encodeImmediate_def split: option.splits if_splits)
  then have "keeps (\<lambda>c. current_position c = current_position (en_context e) \<and> ac_text c = ac_text (en_context e) \<and>
      ids_to_preserve c = ids_to_preserve (en_context e)) e e'"
    using assms at_position.switch_keeps at_position.civ_keeps
    by (auto simp: spvTextEncodeOperand_def split: if_splits)
  then show ?thesis by (simp add: keeps_def)
qed

lemma operands_loop_further:
  assumes "operands_loop G env fl result_id e = Some r" "further str p (en_context e)"
  shows "case r of Inl (code, e') \<Rightarrow> code = SPV_SUCCESS \<longrightarrow> further str p (en_context e') \<and> stuck str (en_context e')
    | Inr e' \<Rightarrow> further str p (en_context e')"
  using assms
proof (induction rule: operands_loop_rule)
  case (result e e2 r)
  have "further str p (en_context (reset (current_position (en_context e)) e2))"
    using result(5) operand_frame(1) [OF result(3)]
    by (auto simp: reset_def on_context_def further_def setPosition_def popped_def)
  then show ?case by (rule result.IH)
next
  case (word e type w q e1 e2 r)
  have "en_advance (popped e) = (SPV_SUCCESS, e1)" "context_getWord (en_context e1) = Inr (w, q)"
    using word(1) by (auto simp: operand_word_def)
  then have "further str (p + length w) (setPosition q (en_context e1))"
    using word(4) advance_further(1) word_further(1) by (fastforce simp: popped_def)
  then have "further str p (en_context (reset q e2))"
    using operand_frame(1) [OF word(2)] by (auto simp: reset_def on_context_def further_def setPosition_def)
  then show ?case by (rule word.IH)
next
  case (unmatched e type w q e1 e2)
  have e1: "en_advance (popped e) = (SPV_SUCCESS, e1)" "\<not> isStartOfNewInst (en_context e1)"
    using unmatched(1) by (auto simp: operand_word_def)
  have "further str p (en_context (popped e))" using unmatched(3) by (simp add: popped_def)
  note adv = advance_further [OF e1(1) this]
  show ?case
    using adv e1(2) operand_frame(1) [OF unmatched(2)] unmatched_position [OF unmatched(2)]
      isStartOfNewInst_cong [of "en_context e1" "en_context e2"]
    by (auto simp: further_def stuck_def)
next
  case (optional e type error e1)
  then show ?case using advance_further(1) [OF optional(2)] by (simp add: popped_def)
qed auto

section \<open>The start of an instruction\<close>

lemma op_word:
  assumes "context_startsWithOp c" "context_getWord c = Inr (w, q)" "further str p c"
  shows "w \<noteq> ''''" "context_peek c = CHR ''O''"
proof -
  let ?i = "pos_index (current_position c)"
  have i: "?i < length str" "str ! ?i = CHR ''O''"
    using assms(1,3) by (auto simp: context_startsWithOp_def startsWithOp_def further_def Let_def split: if_splits)
  then show "context_peek c = CHR ''O''" using assms(3) by (simp add: context_peek_def further_def)
  show "w \<noteq> ''''"
    using getWord_nonempty(1) [of str "current_position c" w q] assms(2,3) i
    by (simp add: context_getWord_def further_def isWordEnd_def)
qed

lemma next_word_further:
  assumes "further str p (en_context e)" "context_getWord (en_context e) = Inr (w, q)"
    "en_advance (on_context (setPosition q) e) = (error, e')"
  shows "further str p (en_context e')"
  using advance_further(1) [OF assms(3), of str p] word_further(1) [OF assms(2,1)]
  by (auto simp: on_context_def further_def)

lemma instruction_start_further:
  assumes "instruction_start e = Inr (result_id, name, q, e1)" "further str p (en_context e)"
  shows "further str (Suc p) (setPosition q (en_context e1))" "sublist name str"
    "ids_to_preserve (en_context e1) = ids_to_preserve (en_context e)"
    "result_id = '''' \<or> front result_id = CHR ''%''"
proof -
  have "\<exists>p'. context_getWord (en_context e1) = Inr (name, q) \<and> context_startsWithOp (en_context e1) \<and>
      further str p (en_context e1)"
    using assms by (auto simp: instruction_start_def split: sum.splits if_splits prod.splits dest: next_word_further)
  then have e1: "context_getWord (en_context e1) = Inr (name, q)" "context_startsWithOp (en_context e1)"
    "further str p (en_context e1)" by auto
  have "name \<noteq> ''''" using op_word(1) [OF e1(2,1,3)] .
  then have "Suc p \<le> p + length name" by (cases name) auto
  then show "further str (Suc p) (setPosition q (en_context e1))"
    using word_further(1) [OF e1(1,3)] by (auto simp: further_def)
  show "sublist name str" using word_further(2) [OF e1(1,3)] .
  show "ids_to_preserve (en_context e1) = ids_to_preserve (en_context e)"
    using frame.instruction_start_keeps [OF assms(1), of "ac_text (en_context e)" "ids_to_preserve (en_context e)"]
    by (simp add: keeps_def)
  show "result_id = '''' \<or> front result_id = CHR ''%''"
    using assms(1) by (auto simp: instruction_start_def split: sum.splits if_splits prod.splits)
qed

lemma instruction_start_error: "instruction_start e = Inl error \<Longrightarrow> error \<noteq> SPV_SUCCESS"
  using context_getWord_error by (fastforce simp: instruction_start_def split: sum.splits if_splits prod.splits)

lemma stuck_instruction:
  assumes "stuck str (en_context e)"
  shows "instruction_start e = Inl SPV_ERROR_INVALID_TEXT"
proof -
  let ?p = "current_position (en_context e)"
  have str: "ac_text (en_context e) = str" "str \<noteq> ''''" and here: "advance str ?p = (SPV_SUCCESS, ?p)"
    and not_start: "\<not> isStartOfNewInst (en_context e)"
    using assms advance_stays by (auto simp: stuck_def)
  have word: "\<exists>w q. getWord str p = Inr (w, q)" for p using str(2) by (simp add: getWord_def Let_def)
  obtain w q where w: "getWord str ?p = Inr (w, q)" using word by blast
  obtain err q1 where q1: "advance str q = (err, q1)" by fastforce
  obtain w2 q2 where w2: "getWord str q1 = Inr (w2, q2)" using word by blast
  obtain err3 q3 where q3: "advance str q2 = (err3, q3)" by fastforce
  obtain w4 q4 where w4: "getWord str q3 = Inr (w4, q4)" using word by blast
  note defs = context_startsWithOp_def context_getWord_def en_advance_def context_advance_def on_context_def
    setPosition_def str(1) w q1 w2 q3 w4
  have not_op: "\<not> startsWithOp str ?p"
    using not_start by (simp add: isStartOfNewInst_def here str(1) split: if_splits)
  have rest: "\<not> startsWithOp str q3"
    if "front w = CHR ''%''" "err = SPV_SUCCESS" "w2 = ''=''" "err3 = SPV_SUCCESS"
    using not_start not_op that by (simp add: isStartOfNewInst_def here str(1) w q1 w2 q3)
  consider "front w \<noteq> CHR ''%''" | "front w = CHR ''%''" "err \<noteq> SPV_SUCCESS"
    | "front w = CHR ''%''" "err = SPV_SUCCESS" "w2 \<noteq> ''=''"
    | "front w = CHR ''%''" "err = SPV_SUCCESS" "w2 = ''=''" "err3 \<noteq> SPV_SUCCESS"
    | "front w = CHR ''%''" "err = SPV_SUCCESS" "w2 = ''=''" "err3 = SPV_SUCCESS" by blast
  then show ?thesis
  proof cases
    case 5
    then show ?thesis using not_op rest by (simp add: instruction_start_def defs)
  qed (use not_op in \<open>auto simp: instruction_start_def defs\<close>)
qed

section \<open>The words of an instruction\<close>

text \<open>An instruction in a binary: its first word has its length and an opcode of the grammar.\<close>

definition instruction_words :: "'a grammar_scheme \<Rightarrow> spv_target_env \<Rightarrow> uint32_t list \<Rightarrow> bool" where
  "instruction_words G env words \<longleftrightarrow> 0 < length words \<and> length words \<le> SPV_LIMIT_INSTRUCTION_WORD_COUNT_MAX \<and>
     (\<exists>name entry. LookupOpcodeForEnvByName G env name = Inr entry \<and>
        hd words = spvOpcodeMake (of_nat (length words)) (id_opcode entry))"

lemma finish_words:
  assumes "finish_instruction G entry e = (SPV_SUCCESS, e')" "si_words (en_inst e) \<noteq> []"
  shows "\<exists>words. si_words (en_inst e') = words \<and> 0 < length words \<and> length words \<le> SPV_LIMIT_INSTRUCTION_WORD_COUNT_MAX \<and>
    hd words = spvOpcodeMake (of_nat (length words)) (id_opcode entry)"
proof -
  have hd: "hd ((si_words (en_inst e))[0 := w]) = w" for w using assms(2) by (cases "si_words (en_inst e)") auto
  show ?thesis
    using assms unfolding finish_instruction_def Let_def on_context_def
    by (auto simp: hd split: if_splits prod.splits)
qed

lemma finish_further:
  assumes "finish_instruction G entry e = (r, e')" "further str p (en_context e)"
  shows "further str p (en_context e')"
proof -
  have "further str p (snd (recordTypeDefinition G inst c))" if "further str p c" for inst c
    using that by (auto simp: recordTypeDefinition_def Let_def further_def split: sum.splits)
  moreover have "further str p (snd (recordTypeIdForValue v t c))" if "further str p c" for v t c
    using that by (auto simp: recordTypeIdForValue_def further_def)
  ultimately show ?thesis using finish_context [OF assms(1)] assms(2) by auto
qed

lemma known_instruction:
  assumes "spvTextEncodeOpcode G env fl e = Some (SPV_SUCCESS, e')" "known_opcode e result_id name q e1"
    "further str p (en_context e)"
  shows "further str (Suc p) (en_context e') \<and>
    (stuck str (en_context e') \<or> instruction_words G env (si_words (en_inst e')))"
  using assms(1,2)
proof (cases rule: known_opcode_cases)
  case (operands entry r')
  have start: "instruction_start e = Inr (result_id, name, q, e1)" using assms(2) by (simp add: known_opcode_def)
  have "further str (Suc p) (en_context (at_operands G entry q e1))"
    using instruction_start_further(1) [OF start assms(3)] by (simp add: at_operands_def on_context_def)
  note f = operands_loop_further [OF operands(2) this]
  have "keeps (\<lambda>c. ac_text c = '''' \<and> ids_to_preserve c = {}) (at_operands G entry q e1)
      (case r' of Inl re \<Rightarrow> snd re | Inr e' \<Rightarrow> e')"
    using operands(2) by (rule frame.operands_loop_keeps)
  then have words: "si_words (en_inst e2) \<noteq> []" if "r' = Inr e2" for e2
    using that by (auto simp: keeps_def at_operands_def on_context_def spvInstructionAddWord_def prefix_def)
  show ?thesis
  proof (cases r')
    case (Inl re)
    then show ?thesis using f operands(3) by (cases re) auto
  next
    case (Inr e2)
    then have "finish_instruction G entry e2 = (SPV_SUCCESS, e')" using operands(3) by simp
    then show ?thesis
      using finish_words [OF _ words [OF Inr]] finish_further f Inr operands(1)
      by (fastforce simp: instruction_words_def)
  qed
qed simp

section \<open>The instructions of a text\<close>

text \<open>Texts without immediates and unknown opcodes.\<close>

definition plain :: "string \<Rightarrow> bool" where
  "plain str \<longleftrightarrow> CHR ''!'' \<notin> set str \<and> \<not> sublist ''OpUnknown'' str"

lemma plain_instruction:
  assumes "spvTextEncodeOpcode G env fl e = Some (SPV_SUCCESS, e')" "further str p (en_context e)"
    "hasText (en_context e)" "plain str"
  shows "further str (Suc p) (en_context e') \<and>
    (stuck str (en_context e') \<or> instruction_words G env (si_words (en_inst e'))) \<and> \<not> stuck str (en_context e)"
proof -
  have "context_peek (en_context e) \<in> set str"
    using assms(2,3) by (auto simp: context_peek_def hasText_def further_def)
  then have context_peek: "CHR ''!'' \<noteq> context_peek (en_context e)" using assms(4) by (auto simp: plain_def)
  show ?thesis
  proof (cases "instruction_start e")
    case (Inr s)
    then obtain result_id name q e1 where start: "instruction_start e = Inr (result_id, name, q, e1)"
      by (metis prod_cases4)
    have "known_opcode e result_id name q e1"
      using context_peek start instruction_start_further(2) [OF start assms(2)] assms(4)
      by (auto simp: known_opcode_def plain_def)
    from known_instruction [OF assms(1) this assms(2)] show ?thesis using start stuck_instruction by auto
  next
    case (Inl error)
    then show ?thesis using assms(1) context_peek instruction_start_error [OF Inl] by (simp add: spvTextEncodeOpcode_def)
  qed
qed

lemma stuck_advance:
  assumes "stuck str c"
  shows "context_advance c = (SPV_SUCCESS, c)" "hasText c"
  using assms advance_stays [of "current_position c" str]
  by (auto simp: stuck_def context_advance_def hasText_def)

lemma context_advance_further: "further str p c \<Longrightarrow> context_advance c = (error, c') \<Longrightarrow> further str p c'"
  using advance_goes_on [of "current_position c" str]
  by (auto simp: context_advance_def further_def goes_on_def split: prod.splits)

lemma plain_loop:
  assumes "instructions_loop G env fl opcode instructions c = Some r" "plain str" "further str 0 c"
    "(\<forall>i \<in> set instructions. instruction_words G env (si_words i)) \<or> stuck str c"
  shows "case r of Inl _ \<Rightarrow> True | Inr (instructions', _) \<Rightarrow> \<forall>i \<in> set instructions'. instruction_words G env (si_words i)"
  using assms
proof (induction rule: instructions_loop_induct)
  case (step loop G env fl opcode instructions c r)
  show ?case
  proof (cases "hasText c")
    case False
    then show ?thesis using step(2,5) stuck_advance(2) by auto
  next
    case True
    let ?e = "\<lparr>en_context = c, en_inst = empty_instruction opcode, en_expected = []\<rparr>"
    obtain error e where e: "spvTextEncodeOpcode G env fl ?e = Some (error, e)"
      using step(2) True by (cases "spvTextEncodeOpcode G env fl ?e") auto
    show ?thesis
    proof (cases "error = SPV_SUCCESS")
      case ok: True
      let ?new = "instructions @ [en_inst e]"
      note inst = plain_instruction [OF e [unfolded ok], of str 0]
      have new: "further str 0 (en_context e)" "(\<forall>i \<in> set ?new. instruction_words G env (si_words i)) \<or> stuck str (en_context e)"
        using inst step(3-5) True by (auto simp: further_def)
      obtain error' c' where c': "context_advance (en_context e) = (error', c')" by fastforce
      have c'_ok: "further str 0 c'" "(\<forall>i \<in> set ?new. instruction_words G env (si_words i)) \<or> error' = SPV_SUCCESS \<and> stuck str c'"
        using new context_advance_further [OF new(1) c'] stuck_advance(1) c' by auto
      show ?thesis
        using step(1) [of G env fl opcode ?new c' r] step(2,3) True e ok c' c'_ok by (auto simp: Let_def split: if_splits)
    qed (use step(2) True e in auto)
  qed
qed

section \<open>The binary as instructions\<close>

text \<open>Reading a sequence of words as instructions, each as long as its first word says.\<close>

function split_instructions :: "uint32_t list \<Rightarrow> uint32_t list list option" where
  "split_instructions words =
     (if words = [] then Some []
      else
        let n = unat (fst (spvOpcodeSplit (hd words)))
        in if n = 0 \<or> n > length words then None
           else map_option ((#) (take n words)) (split_instructions (drop n words)))"
  by pat_completeness auto
termination
  by (relation "measure length") auto

declare split_instructions.simps [simp del]

definition small_opcodes :: "'a grammar_scheme \<Rightarrow> spv_target_env \<Rightarrow> bool" where
  "small_opcodes G env \<longleftrightarrow> (\<forall>name. case LookupOpcodeForEnvByName G env name of
     Inl _ \<Rightarrow> True | Inr entry \<Rightarrow> id_opcode entry < 0x10000)"

lemma split_instructions_concat:
  assumes "small_opcodes G env" "\<forall>words \<in> set wss. instruction_words G env words"
  shows "split_instructions (concat wss) = Some wss"
  using assms(2)
proof (induction wss)
  case Nil
  then show ?case by (simp add: split_instructions.simps)
next
  case (Cons words wss)
  then obtain name entry where words: "words \<noteq> []" "length words \<le> 0xffff"
    "LookupOpcodeForEnvByName G env name = Inr entry"
    "hd words = spvOpcodeMake (of_nat (length words)) (id_opcode entry)"
    by (auto simp: instruction_words_def SPV_LIMIT_INSTRUCTION_WORD_COUNT_MAX_def)
  have "id_opcode entry < 0x10000"
    using assms(1) words(3) unfolding small_opcodes_def by (metis sum.case(2))
  from spvOpcodeSplit_make [OF this] have "unat (fst (spvOpcodeSplit (hd words))) = length words"
    using words(2) by (simp add: words(4) unat_of_nat take_bit_nat_eq_self)
  then show ?case
    using words(1) Cons by (subst split_instructions.simps) (simp add: Let_def)
qed

lemma assembled_loop:
  assumes "spvTextToBinaryInternal G env fl (Some str) flags = Some (Inr binary)"
  obtains S instructions c where
    "instructions_loop G env fl OpNop [] (snd (context_advance (new_AssemblyContext str S))) = Some (Inr (instructions, c))"
    "binary = SetHeader env (getBound c) @ concat (map si_words instructions)"
proof -
  obtain kept where "(case kept of Inl error \<Rightarrow> Some (Inl error) | Inr preserve \<Rightarrow>
      map_option (\<lambda>r. case r of Inl error \<Rightarrow> Inl error
        | Inr (instructions, context) \<Rightarrow> Inr (SetHeader env (getBound context) @ concat (map si_words instructions)))
      (instructions_loop G env fl OpNop [] (snd (context_advance (new_AssemblyContext str preserve))))) =
    Some (Inr binary)"
    using assms unfolding spvTextToBinaryInternal_def bind_eq_Some_conv option.case by blast
  then obtain S r where "kept = Inr S"
    "instructions_loop G env fl OpNop [] (snd (context_advance (new_AssemblyContext str S))) = Some r"
    "(case r of Inl error \<Rightarrow> Inl error
        | Inr (instructions, context) \<Rightarrow> Inr (SetHeader env (getBound context) @ concat (map si_words instructions))) = Inr binary"
    by (cases kept) auto
  then show thesis using that by (cases r) auto
qed

section \<open>A small text\<close>

text \<open>No text is a floating point number.\<close>

definition no_floats :: float_ops where
  "no_floats = \<lparr>fo_parse = (\<lambda>_ _. None), fo_strtod = (\<lambda>_. 0), fo_to_float = ucast, fo_to_double = ucast, fo_eq = (=)\<rparr>"

definition two_nops :: string where "two_nops = ''OpNop OpNop''"

lemma two_nops_read:
  "advance two_nops start_position = (SPV_SUCCESS, start_position)"
  "getWord two_nops start_position = Inr (''OpNop'', \<lparr>pos_line = 0, pos_column = 5, pos_index = 5\<rparr>)"
  "startsWithOp two_nops start_position"
  "advance two_nops \<lparr>pos_line = 0, pos_column = 5, pos_index = 5\<rparr> = (SPV_SUCCESS, \<lparr>pos_line = 0, pos_column = 6, pos_index = 6\<rparr>)"
  "getWord two_nops \<lparr>pos_line = 0, pos_column = 6, pos_index = 6\<rparr> = Inr (''OpNop'', \<lparr>pos_line = 0, pos_column = 11, pos_index = 11\<rparr>)"
  "startsWithOp two_nops \<lparr>pos_line = 0, pos_column = 6, pos_index = 6\<rparr>"
  "advance two_nops \<lparr>pos_line = 0, pos_column = 11, pos_index = 11\<rparr> = (SPV_END_OF_STREAM, \<lparr>pos_line = 0, pos_column = 11, pos_index = 11\<rparr>)"
  by code_simp+

lemma lower_bound_two: "lower_bound below [a, b] = (if below b then 2 else if below a then 1 else 0)"
  by (simp add: lower_bound_def numeral_2_eq_2 lower_bound_loop_unfold Let_def)

lemma small_instruction_names:
  "kInstructionNames small_grammar = [\<lparr>ni_name = \<lparr>ir_first = 0, ir_count = 4\<rparr>, ni_index = 0\<rparr>,
    \<lparr>ni_name = \<lparr>ir_first = 21, ir_count = 8\<rparr>, ni_index = 1\<rparr>]"
  by (simp add: small_grammar_def)

lemma nop_lookup:
  "LookupOpcodeForEnvByName small_grammar SPV_ENV_UNIVERSAL_1_0 ''Nop'' = Inr (kInstructionDesc small_grammar ! 0)"
  "InstructionDesc_operands small_grammar (kInstructionDesc small_grammar ! 0) = []"
  "id_opcode (kInstructionDesc small_grammar ! 0) = 0" "\<not> id_hasResult (kInstructionDesc small_grammar ! 0)"
  "\<not> id_hasType (kInstructionDesc small_grammar ! 0)"
proof -
  have chars: "getChars small_grammar \<lparr>ir_first = 0, ir_count = 4\<rparr> = ''Nop''"
    "getChars small_grammar \<lparr>ir_first = 21, ir_count = 8\<rparr> = ''TypeInt''"
    by (simp_all add: getChars_def small_grammar_def c_str_def)
  have cmp: "strcmp ''Nop'' ''Nop'' = 0" "\<not> strcmp ''TypeInt'' ''Nop'' < 0" by code_simp+
  have "LookupOpcodeByName small_grammar ''Nop'' = Inr (kInstructionDesc small_grammar ! 0)"
    by (simp add: LookupOpcodeByName_def lower_bound_two small_instruction_names chars cmp Let_def)
  moreover have "id_minVersion (kInstructionDesc small_grammar ! 0) = 0x10000"
    "id_lastVersion (kInstructionDesc small_grammar ! 0) = 0xffffffff" by (simp_all add: small_grammar_def)
  moreover have "spvVersionForTargetEnv SPV_ENV_UNIVERSAL_1_0 = 0x10000"
    by (simp add: spvVersionForTargetEnv_def SPV_SPIRV_VERSION_WORD_def)
  ultimately show "LookupOpcodeForEnvByName small_grammar SPV_ENV_UNIVERSAL_1_0 ''Nop'' = Inr (kInstructionDesc small_grammar ! 0)"
    by (simp add: LookupOpcodeForEnvByName_def LookupOpcodeForEnvInternal_def Let_def)
qed (simp_all add: InstructionDesc_operands_def ir_apply_def small_grammar_def no_range_def)

lemma nop_encoded:
  assumes "ac_text c = str" "startsWithOp str (current_position c)" "getWord str (current_position c) = Inr (''OpNop'', q)"
    "context_peek c = CHR ''O''"
  shows "spvTextEncodeOpcode small_grammar SPV_ENV_UNIVERSAL_1_0 fl
      \<lparr>en_context = c, en_inst = empty_instruction OpNop, en_expected = []\<rparr> =
    Some (SPV_SUCCESS, \<lparr>en_context = setPosition q c, en_inst = (empty_instruction OpNop)\<lparr>si_words := [0x00010000]\<rparr>, en_expected = []\<rparr>)"
proof -
  have ended: "operands_loop G env fl result_id e = Some (Inr e)" if "en_expected e = []"
    for G :: "unit grammar_scheme" and env result_id e
    using that by (subst operands_loop.simps) simp
  have "spvOpcodeMake 1 0 = 0x00010000" by (simp add: spvOpcodeMake_def)
  moreover have "\<not> spvOpcodeGeneratesType 0" by (simp add: spvOpcodeGeneratesType_def)
  ultimately show ?thesis
    using assms nop_lookup ended
    by (simp add: spvTextEncodeOpcode_def instruction_start_def context_getWord_def context_startsWithOp_def on_context_def
        finish_instruction_def spvInstructionAddWord_def empty_instruction_def SPV_LIMIT_INSTRUCTION_WORD_COUNT_MAX_def Let_def)
qed

lemma small_opcodes_small: "small_opcodes small_grammar env"
proof -
  have "id_opcode (kInstructionDesc small_grammar ! 0) < 0x10000" "id_opcode (kInstructionDesc small_grammar ! 1) < 0x10000"
    by (simp_all add: small_grammar_def)
  then show ?thesis
    by (auto simp: small_opcodes_def LookupOpcodeForEnvByName_def LookupOpcodeForEnvInternal_def LookupOpcodeByName_def
        lower_bound_two small_instruction_names Let_def split: sum.splits if_splits)
qed

lemma plain_two_nops: "plain two_nops"
  by code_simp

lemma two_nops_assembled:
  "spvTextToBinaryWithOptions small_grammar SPV_ENV_UNIVERSAL_1_0 fl (Some two_nops) SPV_TEXT_TO_BINARY_OPTION_NONE =
    Some (Inr [0x07230203, 0x00010000, 0x00070000, 1, 0, 0x00010000, 0x00010000])"
proof -
  let ?c = "\<lambda>i. (new_AssemblyContext two_nops {})\<lparr>current_position := \<lparr>pos_line = 0, pos_column = i, pos_index = i\<rparr>\<rparr>"
  let ?nop = "(empty_instruction OpNop)\<lparr>si_words := [0x00010000]\<rparr>"
  have nops: "length two_nops = 11" "two_nops ! 0 = CHR ''O''" "two_nops ! 6 = CHR ''O''" by (simp_all add: two_nops_def)
  have first: "spvTextEncodeOpcode small_grammar SPV_ENV_UNIVERSAL_1_0 fl
      \<lparr>en_context = ?c 0, en_inst = empty_instruction OpNop, en_expected = []\<rparr> =
    Some (SPV_SUCCESS, \<lparr>en_context = ?c 5, en_inst = ?nop, en_expected = []\<rparr>)"
    using two_nops_read nops
    by (subst nop_encoded [where str = two_nops and q = "\<lparr>pos_line = 0, pos_column = 5, pos_index = 5\<rparr>"])
      (simp_all add: start_position_def new_AssemblyContext_def context_peek_def setPosition_def)
  have second: "spvTextEncodeOpcode small_grammar SPV_ENV_UNIVERSAL_1_0 fl
      \<lparr>en_context = ?c 6, en_inst = empty_instruction OpNop, en_expected = []\<rparr> =
    Some (SPV_SUCCESS, \<lparr>en_context = ?c 11, en_inst = ?nop, en_expected = []\<rparr>)"
    using two_nops_read nops
    by (subst nop_encoded [where str = two_nops and q = "\<lparr>pos_line = 0, pos_column = 11, pos_index = 11\<rparr>"])
      (simp_all add: start_position_def new_AssemblyContext_def context_peek_def setPosition_def)
  have moves: "context_advance (new_AssemblyContext two_nops {}) = (SPV_SUCCESS, ?c 0)"
    "context_advance (?c 5) = (SPV_SUCCESS, ?c 6)" "context_advance (?c 11) = (SPV_END_OF_STREAM, ?c 11)"
    using two_nops_read by (simp_all add: context_advance_def new_AssemblyContext_def start_position_def)
  have "hasText (?c 0)" "hasText (?c 6)" using nops by (simp_all add: hasText_def new_AssemblyContext_def)
  then have "instructions_loop small_grammar SPV_ENV_UNIVERSAL_1_0 fl OpNop [] (?c 0) = Some (Inr ([?nop, ?nop], ?c 11))"
    using first second moves
    by (subst instructions_loop.simps, simp add: Let_def, subst instructions_loop.simps, simp add: Let_def)
  moreover have "SPV_TEXT_TO_BINARY_OPTION_NONE AND SPV_TEXT_TO_BINARY_OPTION_PRESERVE_NUMERIC_IDS = 0"
    by (simp add: SPV_TEXT_TO_BINARY_OPTION_NONE_def SPV_TEXT_TO_BINARY_OPTION_PRESERVE_NUMERIC_IDS_def)
  moreover have "SetHeader SPV_ENV_UNIVERSAL_1_0 1 = [0x07230203, 0x00010000, 0x00070000, 1, 0]"
    by (simp add: SetHeader_def spvVersionForTargetEnv_def SPV_SPIRV_VERSION_WORD_def SPV_GENERATOR_WORD_def
        SPV_GENERATOR_KHRONOS_ASSEMBLER_def kAssemblerVersion_def)
  moreover have "getBound (?c 11) = 1" by (simp add: getBound_def new_AssemblyContext_def)
  ultimately show ?thesis
    using moves(1) by (simp add: spvTextToBinaryWithOptions_def spvTextToBinaryInternal_def)
qed

section \<open>Properties\<close>

text \<open>C5: assembling a text without immediates and unknown opcodes gives a well formed binary: the header and
  behind it instructions, each of them at most as long as the format allows, with its length and an opcode of
  the grammar in its first word, so that reading the words by these lengths gives back the instructions.\<close>

theorem assembled_binary:
  assumes "spvTextToBinaryWithOptions G env fl (Some str) flags = Some (Inr binary)"
    "plain str" "small_opcodes G env"
  shows "\<exists>bound instructions. binary = SetHeader env bound @ concat instructions \<and>
    (\<forall>words \<in> set instructions. instruction_words G env words) \<and>
    split_instructions (drop 5 binary) = Some instructions"
proof -
  obtain S instructions c where loop: "instructions_loop G env fl OpNop []
      (snd (context_advance (new_AssemblyContext str S))) = Some (Inr (instructions, c))"
    and binary: "binary = SetHeader env (getBound c) @ concat (map si_words instructions)"
    using assms(1) unfolding spvTextToBinaryWithOptions_def by (rule assembled_loop)
  have "further str 0 (new_AssemblyContext str S)"
    by (simp add: further_def new_AssemblyContext_def start_position_def)
  then have "further str 0 (snd (context_advance (new_AssemblyContext str S)))"
    using context_advance_further prod.collapse by metis
  from plain_loop [OF loop assms(2) this] have all: "\<forall>words \<in> set (map si_words instructions). instruction_words G env words"
    by auto
  with split_instructions_concat [OF assms(3) this] binary show ?thesis by (auto simp: SetHeader_def)
qed

text \<open>Two instructions without operands.\<close>

theorem assembled_binary_witness:
  "\<exists>binary. spvTextToBinary small_grammar SPV_ENV_UNIVERSAL_1_0 no_floats (Some two_nops) = Some (Inr binary) \<and>
    binary = [0x07230203, 0x00010000, 0x00070000, 1, 0, 0x00010000, 0x00010000] \<and>
    split_instructions (drop 5 binary) = Some [[0x00010000], [0x00010000]] \<and>
    instruction_words small_grammar SPV_ENV_UNIVERSAL_1_0 [0x00010000]"
proof -
  let ?binary = "[0x07230203, 0x00010000, 0x00070000, 1, 0, 0x00010000, 0x00010000] :: uint32_t list"
  have split: "split_instructions [0x00010000, 0x00010000] = Some [[0x00010000], [0x00010000]]"
    by (simp add: split_instructions.simps spvOpcodeSplit_def)
  obtain instructions where "\<forall>words \<in> set instructions. instruction_words small_grammar SPV_ENV_UNIVERSAL_1_0 words"
    "split_instructions (drop 5 ?binary) = Some instructions"
    using assembled_binary [OF two_nops_assembled plain_two_nops small_opcodes_small] by blast
  with split show ?thesis using two_nops_assembled [of no_floats] by (auto simp: spvTextToBinary_def)
qed

end
