(* ===== verification/Text_Termination.thy ===== *)
theory Text_Termination
  imports Text_Binary
begin

text \<open>
  Assembling a text comes to an end. A word of a text is not empty when it is accepted as an operand,
  so that each operand moves the position on; what is expanded or pushed back in between is bounded by
  the pattern of the operands.
\<close>

section \<open>Numbers for ids\<close>

definition able :: "AssemblyContext \<Rightarrow> bool" where
  "able c \<longleftrightarrow> ids_to_preserve c \<noteq> UNIV"

lemma next_free_id_returns:
  assumes "S \<noteq> UNIV"
  shows "next_free_id S i (i + 1) \<noteq> None"
proof -
  obtain x where "x \<notin> S" using assms by blast
  then have "i + of_nat (unat (x - i)) \<notin> S" by simp
  then have "i + of_nat (LEAST k. i + of_nat k \<notin> S) \<notin> S" by (rule LeastI)
  then show ?thesis using next_free_id_found [of i "LEAST k. i + of_nat k \<notin> S" S] not_less_Least by force
qed

lemma assign_returns: "able c \<Longrightarrow> spvNamedIdAssignOrGet c name \<noteq> None"
  using next_free_id_returns [of "ids_to_preserve c" "next_id c"]
  by (auto simp: spvNamedIdAssignOrGet_def able_def Let_def split: option.splits if_splits)

section \<open>Operands\<close>

lemma switch_returns: "able (en_context e) \<Longrightarrow> encode_switch G env fl type w e \<noteq> None"
  using assign_returns [of "en_context e" "drop 1 w"]
  by (auto simp: encode_switch_def encode_id_def Let_def split: option.splits if_splits)

lemma able_frame:
  "ids_to_preserve c = ids_to_preserve c' \<Longrightarrow> able c = able c'"
  by (simp add: able_def)

lemma switch_able: "encode_switch G env fl type w e = Some (r, e') \<Longrightarrow> able (en_context e') = able (en_context e)"
  using frame.switch_keeps [of G env fl type w e r e' "ac_text (en_context e)" "ids_to_preserve (en_context e)"]
  by (simp add: keeps_def able_def)

lemma civ_returns:
  assumes "able (en_context e)"
  shows "encode_civ G env fl w e \<noteq> None"
proof -
  let ?again = "\<lambda>type (error, e). if error = SPV_FAILED_MATCH then encode_switch G env fl type w e else Some (error, e)"
  obtain r1 e1 where 1: "encode_switch G env fl SPV_OPERAND_TYPE_OPTIONAL_LITERAL_NUMBER w e = Some (r1, e1)"
    using switch_returns [OF assms] by fastforce
  then have able1: "able (en_context e1)" using switch_able assms by blast
  obtain r2 e2 where 2: "?again SPV_OPERAND_TYPE_OPTIONAL_LITERAL_STRING (r1, e1) = Some (r2, e2)"
    using switch_returns [OF able1] by (cases "r1 = SPV_FAILED_MATCH") fastforce+
  then have able2: "able (en_context e2)" using able1 by (auto split: if_splits dest: switch_able)
  have "?again SPV_OPERAND_TYPE_OPTIONAL_ID (r2, e2) \<noteq> None"
    using switch_returns [OF able2] by auto
  then show ?thesis using 1 2 unfolding encode_civ_def Let_def by simp
qed

lemma operand_returns:
  assumes "able (en_context e)"
  obtains r e' where "spvTextEncodeOperand G env fl type w e = Some (r, e')"
proof -
  have "spvTextEncodeOperand G env fl type w e \<noteq> None"
    using switch_returns [OF assms] civ_returns [OF assms] unfolding spvTextEncodeOperand_def by auto
  then show thesis using that by fastforce
qed

lemma operand_able:
  "spvTextEncodeOperand G env fl type w e = Some (r, e') \<Longrightarrow> able (en_context e') = able (en_context e)"
  unfolding able_def by (simp only: operand_frame(2))

text \<open>No name is empty, so that an empty word is refused.\<close>

definition no_empty_names :: "'a grammar_scheme \<Rightarrow> bool" where
  "no_empty_names G \<longleftrightarrow> (\<forall>type. LookupOperandByName G type '''' = Inl SPV_ERROR_INVALID_LOOKUP) \<and>
     (\<forall>type. LookupExtInstByName G type '''' = Inl SPV_ERROR_INVALID_LOOKUP)"

lemma empty_number: "\<exists>x. ParseAndEncodeNumber pf (Some '''') type = Inl x \<and> x \<noteq> kSuccess"
proof -
  have "ParseNumber '''' = (None :: uint64_t option)" by (auto simp: ParseNumber_def split: option.splits)
  then show ?thesis
    by (auto simp: ParseAndEncodeNumber_def ParseAndEncodeFloatingPointNumber_def ParseAndEncodeIntegerNumber_def
        ParseFloat_def starts_with_def Let_def split: spv_fp_encoding_t.splits)
qed

lemma empty_literal:
  assumes "binaryEncodeNumericLiteral pf '''' code type inst = (r, inst')" "code \<noteq> SPV_SUCCESS"
  shows "r \<noteq> SPV_SUCCESS"
proof (cases "literal_number_type '''' type")
  case (Some t)
  then show ?thesis
    using assms empty_number [of pf t] by (auto simp: binaryEncodeNumericLiteral_def split: EncodeNumberStatus.splits)
qed (use assms in \<open>auto simp: binaryEncodeNumericLiteral_def\<close>)

lemma empty_encode_number: "encode_number fl type '''' t e = (r, e') \<Longrightarrow> r \<noteq> SPV_SUCCESS"
  using empty_literal [OF prod.collapse [symmetric]] by (fastforce simp: encode_number_def on_inst_def Let_def)

lemma empty_typed_number: "encode_typed_number fl type '''' e = (r, e') \<Longrightarrow> r \<noteq> SPV_SUCCESS"
  by (auto simp: encode_typed_number_def Let_def dest: empty_encode_number split: if_splits)

lemma empty_spec_constant_op: "lookupSpecConstantOpcodeByName '''' = Inl SPV_ERROR_INVALID_LOOKUP"
  by code_simp

lemma switch_empty:
  assumes "no_empty_names G" "encode_switch G env fl type '''' e = Some (r, e')"
  shows "r \<noteq> SPV_SUCCESS"
proof -
  have "encode_id type '''' e = Some (SPV_ERROR_INVALID_TEXT, e)" by (simp add: encode_id_def starts_with_def)
  moreover have "encode_ext_inst_number G fl '''' e = (SPV_ERROR_INVALID_TEXT, e)"
    using assms(1) by (simp add: encode_ext_inst_number_def no_empty_names_def spvTextToLiteral_def Let_def)
  moreover have "encode_spec_constant_op G env '''' e = (SPV_ERROR_INVALID_TEXT, e)"
    by (simp add: encode_spec_constant_op_def empty_spec_constant_op)
  moreover have "fst (encode_literal_string fl type '''' e) \<noteq> SPV_SUCCESS"
    by (simp add: encode_literal_string_def spvTextToLiteral_def)
  moreover have "encode_mask G type '''' e = (SPV_ERROR_INVALID_TEXT, e)"
    by (simp add: encode_mask_def spvTextParseMaskOperand_def)
  moreover have "encode_enumerant G type '''' e = (SPV_ERROR_INVALID_TEXT, e)"
    using assms(1) by (simp add: encode_enumerant_def no_empty_names_def)
  ultimately show ?thesis
    using assms(2) empty_encode_number empty_typed_number unfolding encode_switch_def
    by (auto split: if_splits)
qed

lemma operand_empty:
  assumes "no_empty_names G" "spvTextEncodeOperand G env fl type '''' e = Some (r, e')"
  shows "r \<noteq> SPV_SUCCESS"
proof (cases "type = SPV_OPERAND_TYPE_OPTIONAL_CIV")
  case True
  then have "encode_civ G env fl '''' e = Some (r, e')" using assms(2) by (simp add: spvTextEncodeOperand_def starts_with_def)
  moreover have "encode_switch G env fl t '''' e \<noteq> Some (SPV_SUCCESS, e')" for t e e'
    using switch_empty [OF assms(1)] by blast
  ultimately show ?thesis
    by (auto simp: encode_civ_def Let_def bind_eq_Some_conv split: if_splits prod.splits)
next
  case False
  then show ?thesis
    using assms(2) switch_empty [OF assms(1), of env fl type e r e'] by (simp add: spvTextEncodeOperand_def starts_with_def)
qed

section \<open>Words behind immediates\<close>

text \<open>A step returns, and when it succeeds it is further on in the text by \<open>n\<close> characters at least.\<close>

definition returns :: "string \<Rightarrow> nat \<Rightarrow> (spv_result_t \<times> encoding) option \<Rightarrow> bool" where
  "returns str p x \<longleftrightarrow> (\<exists>r e. x = Some (r, e) \<and>
     (r = SPV_SUCCESS \<longrightarrow> further str p (en_context e) \<and> able (en_context e)))"

lemma returnsE:
  assumes "returns str p x"
  obtains (success) e where "x = Some (SPV_SUCCESS, e)" "further str p (en_context e)" "able (en_context e)"
  | (failure) r e where "x = Some (r, e)" "r \<noteq> SPV_SUCCESS"
  using assms by (auto simp: returns_def)

lemma further_mono: "further str p c \<Longrightarrow> q \<le> p \<Longrightarrow> further str q c"
  by (simp add: further_def)

lemma returns_mono: "returns str p x \<Longrightarrow> q \<le> p \<Longrightarrow> returns str q x"
  unfolding returns_def using further_mono by blast

lemma advance_able: "en_advance e = (error, e1) \<Longrightarrow> able (en_context e1) = able (en_context e)"
  by (auto simp: en_advance_def context_advance_def able_def split: prod.splits)

lemma operand_word_returns:
  assumes "no_empty_names G" "further str p (en_context e)" "able (en_context e)"
    "context_getWord (en_context e) = Inr (w, q)" "x = spvTextEncodeOperand G env fl type w e'"
    "en_context e' = en_context e"
  shows "returns str (Suc p) (map_option (\<lambda>(r, e). (r, reset q e)) x)"
proof -
  have "able (en_context e')" using assms(3,6) by simp
  then obtain r e2 where e2: "spvTextEncodeOperand G env fl type w e' = Some (r, e2)" by (rule operand_returns)
  show ?thesis
  proof (cases "r = SPV_SUCCESS")
    case True
    then have "w \<noteq> ''''" using operand_empty [OF assms(1)] e2 by blast
    then have "Suc p \<le> p + length w" by (cases w) auto
    moreover have "further str (p + length w) (en_context (reset q e2))"
      using word_further(1) [OF assms(4,2)] operand_frame(1) [OF e2] assms(6)
      by (simp add: reset_def on_context_def further_def setPosition_def)
    moreover have "able (en_context (reset q e2))"
      using operand_able [OF e2] assms(3,6) by (simp add: reset_def on_context_def setPosition_def able_def)
    ultimately show ?thesis using e2 assms(5) further_mono by (auto simp: returns_def)
  qed (simp add: returns_def assms(5) e2)
qed

lemma next_civ_returns:
  assumes "no_empty_names G" "further str p (en_context e)" "able (en_context e)"
  shows "returns str (Suc p) (encode_next_civ G env fl e)"
proof (cases "context_getWord (en_context e)")
  case (Inl error)
  then show ?thesis using context_getWord_error [OF Inl] by (simp add: encode_next_civ_def returns_def)
next
  case (Inr wq)
  then obtain w q where w: "context_getWord (en_context e) = Inr (w, q)" by fastforce
  let ?x = "spvTextEncodeOperand G env fl SPV_OPERAND_TYPE_OPTIONAL_CIV w (e\<lparr>en_expected := []\<rparr>)"
  have "returns str (Suc p) (map_option (\<lambda>(r, e). (r, reset q e)) ?x)"
    using operand_word_returns [OF assms w refl] by simp
  moreover obtain r e2 where "?x = Some (r, e2)"
    by (rule operand_returns [of "e\<lparr>en_expected := []\<rparr>"]) (simp_all add: assms(3))
  ultimately show ?thesis
    using w by (cases "r = SPV_SUCCESS") (auto simp: encode_next_civ_def returns_def reset_def)
qed

lemma immediate_loop_returns:
  assumes "no_empty_names G" "further str p (en_context e)" "able (en_context e)"
  shows "returns str p (immediate_loop G env fl e)"
  using assms(2,3)
proof (induction "length str - p" arbitrary: p e rule: less_induct)
  case less
  obtain error e1 where e1: "en_advance e = (error, e1)" by fastforce
  have e1_ok: "further str p (en_context e1)" "able (en_context e1)"
    using advance_further(1) [OF e1 less.prems(1)] advance_able [OF e1] less.prems(2) by simp_all
  show ?case
  proof (cases "error = SPV_END_OF_STREAM \<or> isStartOfNewInst (en_context e1)")
    case True
    then have "immediate_loop G env fl e = Some (SPV_SUCCESS, e1)"
      using e1 by (subst immediate_loop.simps) (auto simp: Let_def)
    then show ?thesis using e1_ok by (simp add: returns_def)
  next
    case False
    then have eq: "immediate_loop G env fl e = Option.bind (encode_next_civ G env fl e1)
        (\<lambda>(error, e). if error \<noteq> SPV_SUCCESS then Some (error, e) else immediate_loop G env fl e)"
      using e1 by (subst immediate_loop.simps) (simp add: Let_def)
    from next_civ_returns [OF assms(1) e1_ok, of env fl] show ?thesis
    proof (cases rule: returnsE)
      case (success e2)
      then have "length str - Suc p < length str - p" unfolding further_def by linarith
      from less.hyps [OF this success(2,3)] show ?thesis
        using eq success(1) returns_mono by fastforce
    qed (use eq in \<open>simp add: returns_def\<close>)
  qed
qed

lemma unknown_loop_returns:
  assumes "no_empty_names G" "further str p (en_context e)" "able (en_context e)"
  shows "returns str p (unknown_loop G env fl n e)"
  using assms(2,3)
proof (induction n arbitrary: e)
  case 0
  then show ?case by (simp add: returns_def)
next
  case (Suc n)
  obtain error e1 where e1: "en_advance e = (error, e1)" by fastforce
  have e1_ok: "further str p (en_context e1)" "able (en_context e1)"
    using advance_further(1) [OF e1 Suc.prems(1)] advance_able [OF e1] Suc.prems(2) by simp_all
  from next_civ_returns [OF assms(1) e1_ok, of env fl] show ?case
  proof (cases rule: returnsE)
    case (success e2)
    have "further str p (en_context e2)" using success(2) by (rule further_mono) simp
    from Suc.IH [OF this success(3)] show ?thesis using e1 success(1) by (auto simp: Let_def returns_def)
  qed (use e1 in \<open>auto simp: returns_def\<close>)
qed

lemma expect_char_further:
  assumes "expect_char ch e = Inr e'" "further str p (en_context e)" "able (en_context e)"
  shows "further str p (en_context e')" "able (en_context e')"
proof -
  obtain e1 where e1: "en_advance e = (SPV_SUCCESS, e1)" and e': "e' = on_context (seekForward 1) e1"
    using assms(1) by (auto simp: expect_char_def split: prod.splits if_splits)
  note adv = advance_further [OF e1 assms(2)]
  show "further str p (en_context e')"
    using adv by (simp add: e' on_context_def seekForward_def further_def Let_def)
  show "able (en_context e')"
    using advance_able [OF e1] assms(3) by (simp add: e' on_context_def seekForward_def Let_def able_def)
qed

lemma expect_number_further:
  assumes "expect_number e = Inr (n, e')" "further str p (en_context e)" "able (en_context e)"
  shows "further str p (en_context e')" "able (en_context e')"
proof -
  obtain e1 w q where e1: "en_advance e = (SPV_SUCCESS, e1)" and w: "context_getWord (en_context e1) = Inr (w, q)"
    and e': "e' = on_context (setPosition q) e1"
    using assms(1) by (auto simp: expect_number_def split: prod.splits if_splits sum.splits option.splits)
  show "further str p (en_context e')"
    using word_further(1) [OF w advance_further(1) [OF e1 assms(2)]] further_mono by (simp add: e' on_context_def)
  show "able (en_context e')"
    using advance_able [OF e1] assms(3) by (simp add: e' on_context_def setPosition_def able_def)
qed

lemma expect_errors:
  "expect_char ch e = Inl error \<Longrightarrow> error = SPV_ERROR_INVALID_TEXT"
  "expect_number e = Inl error \<Longrightarrow> error = SPV_ERROR_INVALID_TEXT"
  using context_getWord_error
  by (auto simp: expect_char_def expect_number_def split: prod.splits if_splits sum.splits option.splits)

lemma Error_bind_Inl: "Error_bind r f = Inl x \<longleftrightarrow> r = Inl x \<or> (\<exists>y. r = Inr y \<and> f y = Inl x)"
  by (auto simp: Error_bind_def split: sum.splits)

lemma unknown_returns:
  assumes "no_empty_names G" "further str p (en_context e)" "able (en_context e)"
  shows "returns str p (encodeInstructionStartingWithOpUnknown G env fl e)"
proof -
  define header where "header =
      Error_bind (expect_char (CHR ''('') e) (\<lambda>e.
      Error_bind (expect_number e) (\<lambda>(opcode, e).
      Error_bind (expect_char (CHR '','') e) (\<lambda>e.
      Error_bind (expect_number e) (\<lambda>(wordCount, e).
      if wordCount = 0 then Inl SPV_ERROR_INVALID_TEXT
      else Error_bind (expect_char (CHR '')'') e) (\<lambda>e. Inr (opcode, wordCount, e))))))"
  note unfold = encodeInstructionStartingWithOpUnknown_def Let_def header_def [symmetric]
  show ?thesis
  proof (cases header)
    case (Inl error)
    then have "error = SPV_ERROR_INVALID_TEXT"
      by (auto simp: header_def Error_bind_Inl split: if_splits prod.splits dest: expect_errors)
    then show ?thesis using Inl unfolding unfold by (simp add: returns_def)
  next
    case (Inr h)
    then obtain opcode wordCount e5 where h: "header = Inr (opcode, wordCount, e5)" by (metis prod_cases3)
    obtain e1 e2 e3 e4 n where steps: "expect_char (CHR ''('') e = Inr e1" "expect_number e1 = Inr (n, e2)"
      "expect_char (CHR '','') e2 = Inr e3" "expect_number e3 = Inr (wordCount, e4)" "expect_char (CHR '')'') e4 = Inr e5"
      using h by (auto simp: header_def Error_bind_Inr split: if_splits prod.splits)
    note 1 = expect_char_further [OF steps(1) assms(2,3)]
    note 2 = expect_number_further [OF steps(2) 1]
    note 3 = expect_char_further [OF steps(3) 2]
    note 4 = expect_number_further [OF steps(4) 3]
    note 5 = expect_char_further [OF steps(5) 4]
    show ?thesis unfolding unfold h sum.case prod.case by (rule unknown_loop_returns) (simp_all add: assms(1) 5)
  qed
qed

lemma immediate_returns:
  assumes "no_empty_names G" "further str p (en_context e)" "able (en_context e)" "hasText (en_context e)"
    "CHR ''!'' = context_peek (en_context e)"
  shows "returns str (Suc p) (encodeInstructionStartingWithImmediate G env fl e)"
proof (cases "context_getWord (en_context e)")
  case (Inl error)
  then show ?thesis
    using context_getWord_error [OF Inl] by (simp add: encodeInstructionStartingWithImmediate_def returns_def)
next
  case (Inr wq)
  then obtain w q where w: "context_getWord (en_context e) = Inr (w, q)" by fastforce
  have "w \<noteq> ''''"
    using getWord_nonempty(1) [of str "current_position (en_context e)" w q] w assms(2,4) assms(5) [symmetric]
    by (simp add: context_getWord_def further_def hasText_def context_peek_def isWordEnd_def)
  then have "Suc p \<le> p + length w" by (cases w) auto
  moreover have "further str (p + length w) (setPosition q (en_context e))" using word_further(1) [OF w assms(2)] .
  moreover have "pos_index q = pos_index (current_position (en_context e)) + length w"
    using getWord_word(1) [of str "current_position (en_context e)" w q] w assms(2)
    by (simp add: context_getWord_def further_def)
  ultimately have "further str (Suc p) (seekForward (length w) (en_context e))"
    by (simp add: further_def seekForward_def setPosition_def Let_def)
  moreover have "able (seekForward (length w) (en_context e))"
    using assms(3) by (simp add: seekForward_def able_def Let_def)
  ultimately show ?thesis
    using w immediate_loop_returns [OF assms(1)]
    by (auto simp: encodeInstructionStartingWithImmediate_def encodeImmediate_def returns_def split: option.splits)
qed

section \<open>The operands of an instruction\<close>

text \<open>What bounds the loop: the text that is left, the result ids expected, and an expansion that is due.\<close>

definition operands_order :: "(encoding \<times> encoding) set" where
  "operands_order = measures
     [\<lambda>e. length (ac_text (en_context e)) - pos_index (current_position (en_context e)),
      \<lambda>e. count_list (en_expected e) SPV_OPERAND_TYPE_RESULT_ID,
      \<lambda>e. of_bool (en_expected e \<noteq> [] \<and> fst (spvExpandOperandSequenceOnce (last (en_expected e)) []))]"

lemma wf_operands_order: "wf operands_order"
  by (simp add: operands_order_def)

lemma count_list_last:
  "xs \<noteq> [] \<Longrightarrow> count_list xs x = count_list (butlast xs) x + of_bool (last xs = x)"
  by (cases xs rule: rev_cases) auto

lemma expand_order:
  assumes "en_expected e \<noteq> []"
    "spvExpandOperandSequenceOnce (last (en_expected e)) (butlast (en_expected e)) = (True, p)"
  shows "(e\<lparr>en_expected := p\<rparr>, e) \<in> operands_order"
  using assms count_list_last [of "en_expected e" SPV_OPERAND_TYPE_RESULT_ID]
  by (auto simp: operands_order_def spvExpandOperandSequenceOnce_def split: if_splits)

lemma result_order:
  assumes "pops e SPV_OPERAND_TYPE_RESULT_ID" "en_expected e' = butlast (en_expected e)"
    "ac_text (en_context e') = ac_text (en_context e)" "current_position (en_context e') = current_position (en_context e)"
  shows "(e', e) \<in> operands_order"
  using assms count_list_last [of "en_expected e" SPV_OPERAND_TYPE_RESULT_ID]
  by (auto simp: operands_order_def pops_def)

text \<open>The result id pushes nothing.\<close>

lemma result_id_pattern:
  assumes "spvTextEncodeOperand G env fl SPV_OPERAND_TYPE_RESULT_ID result_id e = Some (r, e')"
    "front result_id = CHR ''%''"
  shows "en_expected e' = en_expected e"
proof -
  have "\<not> starts_with result_id ''!''" using assms(2) by (cases result_id) (auto simp: starts_with_def front_def)
  then show ?thesis
    using assms(1)
    by (auto simp: spvTextEncodeOperand_def encode_switch_def encode_id_def Let_def split: if_splits option.splits)
qed

lemma operands_loop_returns:
  assumes names: "no_empty_names G" and result_id: "result_id = '''' \<or> front result_id = CHR ''%''"
  shows "further str 0 (en_context e) \<Longrightarrow> able (en_context e) \<Longrightarrow> operands_loop G env fl result_id e \<noteq> None"
proof (induction e rule: wf_induct_rule [OF wf_operands_order])
  case (1 e)
  let ?type = "last (en_expected e)"
  obtain expanded p where ex: "spvExpandOperandSequenceOnce ?type (butlast (en_expected e)) = (expanded, p)"
    by fastforce
  note body = operands_loop.simps [of G env fl result_id e, unfolded Let_def ex prod.case]
  show ?case
  proof (cases "en_expected e = [] \<or> expanded")
    case True
    then show ?thesis
      using body ex 1(1) [OF expand_order] 1(2,3) by (cases "en_expected e = []") auto
  next
    case False
    have pops: "pops e ?type" using False ex by (simp add: pops_def)
    have p: "e\<lparr>en_expected := p\<rparr> = popped e"
      using False ex not_expanded [of ?type "butlast (en_expected e)"] by (auto simp: popped_def)
    have popped_ok: "further str 0 (en_context (popped e))" "able (en_context (popped e))"
      using 1(2,3) by (simp_all add: popped_def)
    show ?thesis
    proof (cases "?type = SPV_OPERAND_TYPE_RESULT_ID \<and> result_id \<noteq> ''''")
      case True
      let ?reset = "reset (current_position (en_context e))"
      obtain err e2 where e2: "spvTextEncodeOperand G env fl SPV_OPERAND_TYPE_RESULT_ID result_id (popped e) = Some (err, e2)"
        using operand_returns [OF popped_ok(2)] by blast
      have same_text: "ac_text (en_context e2) = ac_text (en_context e)" and able2: "able (en_context e2)"
        using operand_frame(1) [OF e2] operand_able [OF e2] popped_ok(2) by (simp_all add: popped_def)
      have "en_expected (?reset e2) = butlast (en_expected e)"
        using result_id_pattern [OF e2] result_id True by (simp add: reset_def on_context_def popped_def)
      then have "(?reset e2, e) \<in> operands_order"
        using result_order [of e "?reset e2"] pops True same_text by (simp add: reset_def on_context_def setPosition_def)
      from 1(1) [OF this] have "operands_loop G env fl result_id (?reset e2) \<noteq> None"
        using 1(2) same_text able2 by (simp add: reset_def on_context_def setPosition_def further_def able_def)
      then show ?thesis
        using body [unfolded p current_popped] False True e2 by (simp add: reset_def)
    next
      case other: False
      obtain error e1 where e1: "en_advance (popped e) = (error, e1)" by fastforce
      note body = body [unfolded p e1 prod.case if_not_P [OF other]]
      show ?thesis
      proof (cases "error = SPV_END_OF_STREAM \<or> isStartOfNewInst (en_context e1) \<or> (\<exists>x. context_getWord (en_context e1) = Inl x)")
        case True
        then show ?thesis using body False by (auto split: if_splits)
      next
        case here: False
        then obtain w q where w: "context_getWord (en_context e1) = Inr (w, q)"
          by (cases "context_getWord (en_context e1)") auto
        define here_index where "here_index = pos_index (current_position (en_context e))"
        have "further str here_index (en_context (popped e))" using 1(2) by (simp add: further_def here_index_def popped_def)
        note e1_ok = advance_further(1) [OF e1 this] advance_able [OF e1]
        let ?x = "spvTextEncodeOperand G env fl ?type w e1"
        have able: "able (en_context e1)" using e1_ok(2) popped_ok(2) by simp
        obtain err e2 where e2: "?x = Some (err, e2)" using operand_returns [OF able] by blast
        have "operands_loop G env fl result_id (reset q e2) \<noteq> None" if "err = SPV_SUCCESS"
        proof (rule 1(1))
          have "further str (Suc here_index) (en_context (reset q e2)) \<and> able (en_context (reset q e2))"
            using operand_word_returns [OF names e1_ok(1) able w refl refl, where env = env and fl = fl and type = ?type] e2 that
            by (simp add: returns_def)
          then show "further str 0 (en_context (reset q e2))" "able (en_context (reset q e2))"
            "(reset q e2, e) \<in> operands_order"
            using 1(2) by (auto simp: further_def operands_order_def here_index_def)
        qed
        then show ?thesis using body False here w e2 by (simp add: reset_def)
      qed
    qed
  qed
qed

section \<open>Instructions and texts\<close>

lemma known_returns:
  assumes "no_empty_names G" "further str p (en_context e)" "able (en_context e)" "known_opcode e result_id name q e1"
  shows "spvTextEncodeOpcode G env fl e \<noteq> None"
proof -
  have start: "instruction_start e = Inr (result_id, name, q, e1)" using assms(4) by (simp add: known_opcode_def)
  note s = instruction_start_further [OF start assms(2)]
  have "operands_loop G env fl result_id (at_operands G entry q e1) \<noteq> None" for entry
  proof (rule operands_loop_returns [OF assms(1) s(4)])
    show "further str 0 (en_context (at_operands G entry q e1))"
      using further_mono [OF s(1)] by (simp add: at_operands_def on_context_def)
    show "able (en_context (at_operands G entry q e1))"
      using s(3) assms(3) by (simp add: at_operands_def on_context_def setPosition_def able_def)
  qed
  then show ?thesis
    using assms(4) by (cases "LookupOpcodeForEnvByName G env (drop 2 name)")
      (simp_all add: spvTextEncodeOpcode_def known_opcode_def at_operands_def Let_def del: not_None_eq)
qed

lemma opcode_able:
  "spvTextEncodeOpcode G env fl e = Some (r, e') \<Longrightarrow> able (en_context e') = able (en_context e)"
  using frame.opcode_kept [of G env fl e r e' "ac_text (en_context e)" "ids_to_preserve (en_context e)"]
  by (simp add: able_def)

lemma opcode_returns:
  assumes "no_empty_names G" "further str p (en_context e)" "able (en_context e)" "hasText (en_context e)"
  shows "returns str (Suc p) (spvTextEncodeOpcode G env fl e)"
proof (cases "CHR ''!'' = context_peek (en_context e)")
  case True
  then show ?thesis using immediate_returns [OF assms True] by (simp add: spvTextEncodeOpcode_def)
next
  case context_peek: False
  show ?thesis
  proof (cases "instruction_start e")
    case (Inl error)
    then show ?thesis using context_peek instruction_start_error [OF Inl] by (simp add: spvTextEncodeOpcode_def returns_def)
  next
    case (Inr s)
    then obtain result_id name q e1 where start: "instruction_start e = Inr (result_id, name, q, e1)"
      by (metis prod_cases4)
    note s = instruction_start_further [OF start assms(2)]
    show ?thesis
    proof (cases "name = ''OpUnknown''")
      case True
      have "returns str (Suc p) (encodeInstructionStartingWithOpUnknown G env fl (on_context (setPosition q) e1))"
        using s(1,3) assms(3) by (intro unknown_returns [OF assms(1)]) (simp_all add: on_context_def able_def setPosition_def)
      then show ?thesis using context_peek start True by (simp add: spvTextEncodeOpcode_def returns_def)
    next
      case False
      have known: "known_opcode e result_id name q e1" using context_peek start False by (simp add: known_opcode_def)
      obtain r e' where r: "spvTextEncodeOpcode G env fl e = Some (r, e')"
        using known_returns [OF assms(1-3) known, of env fl] by fastforce
      show ?thesis
        using r known_instruction [OF _ known assms(2)] opcode_able [OF r] assms(3)
        by (cases "r = SPV_SUCCESS") (auto simp: returns_def)
    qed
  qed
qed

lemma instructions_loop_returns:
  assumes "no_empty_names G"
  shows "further str p c \<Longrightarrow> able c \<Longrightarrow> instructions_loop G env fl opcode instructions c \<noteq> None"
proof (induction "length str - p" arbitrary: p c instructions rule: less_induct)
  case less
  let ?e = "\<lparr>en_context = c, en_inst = empty_instruction opcode, en_expected = []\<rparr>"
  show ?case
  proof (cases "hasText c")
    case False
    then show ?thesis by (subst instructions_loop.simps) simp
  next
    case True
    have "returns str (Suc p) (spvTextEncodeOpcode G env fl ?e)"
      by (rule opcode_returns [OF assms]) (simp_all add: less.prems True)
    then show ?thesis
    proof (cases rule: returnsE)
      case (success e)
      obtain error c' where c': "context_advance (en_context e) = (error, c')" by fastforce
      have "further str (Suc p) c'" "able c'"
        using context_advance_further [OF success(2) c'] success(3) c'
        by (auto simp: context_advance_def able_def split: prod.splits)
      moreover have "length str - Suc p < length str - p" using success(2) unfolding further_def by linarith
      ultimately have "instructions_loop G env fl opcode (instructions @ [en_inst e]) c' \<noteq> None"
        by (intro less.hyps)
      then show ?thesis using True success(1) c' by (subst instructions_loop.simps) (simp add: Let_def)
    qed (use True in \<open>subst instructions_loop.simps, auto\<close>)
  qed
qed

lemma start_further:
  "further str 0 (snd (context_advance (new_AssemblyContext str S)))"
  "able (snd (context_advance (new_AssemblyContext str S))) \<longleftrightarrow> S \<noteq> UNIV"
proof -
  obtain error c where c: "context_advance (new_AssemblyContext str S) = (error, c)" by fastforce
  have "further str 0 (new_AssemblyContext str S)"
    by (simp add: further_def new_AssemblyContext_def start_position_def)
  from context_advance_further [OF this c] show "further str 0 (snd (context_advance (new_AssemblyContext str S)))"
    by (simp add: c)
  show "able (snd (context_advance (new_AssemblyContext str S))) \<longleftrightarrow> S \<noteq> UNIV"
    by (auto simp: context_advance_def new_AssemblyContext_def able_def split: prod.splits)
qed

section \<open>Properties\<close>

text \<open>C6: assembling a text comes to an end, with any grammar that has no empty names. When numeric ids are
  kept the only exception is a text whose ids are all the numbers of 32 bits, where no number is left for
  a name.\<close>

theorem assembling_ends:
  assumes "no_empty_names G"
  shows "(\<exists>r. spvTextToBinary G env fl text_str = Some r) \<and>
    ((\<exists>r. spvTextToBinaryWithOptions G env fl text_str flags = Some r) \<or>
     GetNumericIds G env fl text_str = Some (Inr UNIV))"
proof -
  have loop: "instructions_loop G env fl opcode [] (snd (context_advance (new_AssemblyContext str S))) \<noteq> None"
    if "S \<noteq> UNIV" for opcode str S
    using that start_further by (intro instructions_loop_returns [OF assms]) auto
  have empty: "({} :: uint32_t set) \<noteq> UNIV" by simp
  have ids: "GetNumericIds G env fl text_str \<noteq> None"
    using loop [OF empty] by (cases text_str) (simp_all add: GetNumericIds_def del: not_None_eq)
  have second: "spvTextToBinaryInternal G env fl text_str flags \<noteq> None"
    if "kept = (if flags AND SPV_TEXT_TO_BINARY_OPTION_PRESERVE_NUMERIC_IDS \<noteq> 0
        then GetNumericIds G env fl text_str else Some (Inr {}))" "kept \<noteq> Some (Inr UNIV)" for flags kept
  proof -
    have "kept \<noteq> None" using that(1) ids by simp
    then obtain r where r: "kept = Some r" by blast
    show ?thesis
      unfolding spvTextToBinaryInternal_def that(1) [symmetric] r Option.bind.simps
      using loop that(2) r by (cases r; cases text_str) (simp_all del: not_None_eq)
  qed
  have "SPV_TEXT_TO_BINARY_OPTION_NONE AND SPV_TEXT_TO_BINARY_OPTION_PRESERVE_NUMERIC_IDS = 0"
    by (simp add: SPV_TEXT_TO_BINARY_OPTION_NONE_def SPV_TEXT_TO_BINARY_OPTION_PRESERVE_NUMERIC_IDS_def)
  then have "spvTextToBinary G env fl text_str \<noteq> None"
    using second [OF refl, of SPV_TEXT_TO_BINARY_OPTION_NONE] empty
    by (simp add: spvTextToBinary_def spvTextToBinaryWithOptions_def del: not_None_eq)
  moreover have "spvTextToBinaryWithOptions G env fl text_str flags \<noteq> None \<or> GetNumericIds G env fl text_str = Some (Inr UNIV)"
  proof (cases "flags AND SPV_TEXT_TO_BINARY_OPTION_PRESERVE_NUMERIC_IDS = 0")
    case True
    then show ?thesis using second [OF refl, of flags] empty by (simp add: spvTextToBinaryWithOptions_def del: not_None_eq)
  next
    case False
    then show ?thesis using second [OF refl, of flags] by (auto simp: spvTextToBinaryWithOptions_def simp del: not_None_eq)
  qed
  ultimately show ?thesis by auto
qed

lemma small_grammar_no_empty: "no_empty_names small_grammar"
proof -
  have "LookupOperandByName small_grammar type '''' = Inl SPV_ERROR_INVALID_LOOKUP" for type
    by (simp add: LookupOperandByName_def small_grammar_def no_range_def ir_empty_def ir_apply_def lower_bound_def
        lower_bound_loop.simps operand_name_less_def strncmp_def Let_def)
  moreover have "LookupExtInstByName small_grammar type '''' = Inl SPV_ERROR_INVALID_LOOKUP" for type
    by (simp add: LookupExtInstByName_def small_grammar_def no_range_def ir_empty_def)
  ultimately show ?thesis by (simp add: no_empty_names_def)
qed

text \<open>A text where a bracket stands for an operand, which is an empty word.\<close>

theorem assembling_ends_witness:
  "\<exists>r. spvTextToBinary small_grammar SPV_ENV_UNIVERSAL_1_0 no_floats (Some ''%i = OpTypeInt ('') = Some r"
  using assembling_ends [OF small_grammar_no_empty] by blast

end
