(* ===== verification/Glslang_Initializer.thy ===== *)
theory Glslang_Initializer
  imports Prelude
begin

text \<open>
  \<open>shaderc_util::GlslangInitializer\<close> of \<open>libshaderc_util/compiler.cc\<close>: objects that are constructed and
  destroyed by any threads count the users of glslang under a mutex, so that glslang is initialized
  before the first of them and finalized after the last. The threads interleave at the points the code
  can be interrupted; a run is a sequence of steps of the objects.
\<close>

section \<open>States and steps\<close>

text \<open>How far the constructor or the destructor of an object has come.\<close>

datatype initializer_pc = Unborn | FirstLocked | MutexThere | CtorStart | CtorLocked
  | CtorInitialized | CtorCounted | Alive | DtorLocked | DtorCounted | DtorFinalized | Gone

datatype process_call = InitializeProcess | FinalizeProcess

text \<open>
  \<open>glslang_mutex_\<close> is \<open>None\<close> for a null pointer, \<open>Some None\<close> for a mutex that is free; a mutex that is
  held names its holder.
\<close>

record initializer_state =
  initializer_pcs :: "initializer_pc list"
  first_call_mutex :: "nat option"
  glslang_mutex :: "nat option option"
  initialize_count :: uint32_t
  process_calls :: "process_call list"

definition initializer_start :: "nat \<Rightarrow> initializer_state" where
  "initializer_start n = \<lparr>initializer_pcs = replicate n Unborn, first_call_mutex = None,
     glslang_mutex = None, initialize_count = 0, process_calls = []\<rparr>"

definition pc_of :: "initializer_state \<Rightarrow> nat \<Rightarrow> initializer_pc option" where
  "pc_of s i = (if i < length (initializer_pcs s) then Some (initializer_pcs s ! i) else None)"

definition goto :: "nat \<Rightarrow> initializer_pc \<Rightarrow> initializer_state \<Rightarrow> initializer_state" where
  "goto i pc s = s\<lparr>initializer_pcs := (initializer_pcs s)[i := pc]\<rparr>"

inductive initializer_step :: "nat \<Rightarrow> initializer_state \<Rightarrow> initializer_state \<Rightarrow> bool" where
  lock_first: "pc_of s i = Some Unborn \<Longrightarrow> first_call_mutex s = None \<Longrightarrow>
    initializer_step i s (goto i FirstLocked s\<lparr>first_call_mutex := Some i\<rparr>)"
| create_mutex: "pc_of s i = Some FirstLocked \<Longrightarrow>
    initializer_step i s (goto i MutexThere s
      \<lparr>glslang_mutex := (if glslang_mutex s = None then Some None else glslang_mutex s)\<rparr>)"
| unlock_first: "pc_of s i = Some MutexThere \<Longrightarrow>
    initializer_step i s (goto i CtorStart s\<lparr>first_call_mutex := None\<rparr>)"
| lock_ctor: "pc_of s i = Some CtorStart \<Longrightarrow> glslang_mutex s = Some None \<Longrightarrow>
    initializer_step i s (goto i CtorLocked s\<lparr>glslang_mutex := Some (Some i)\<rparr>)"
| initialize: "pc_of s i = Some CtorLocked \<Longrightarrow>
    initializer_step i s (goto i CtorInitialized s
      \<lparr>process_calls := process_calls s @ (if initialize_count s = 0 then [InitializeProcess] else [])\<rparr>)"
| count_up: "pc_of s i = Some CtorInitialized \<Longrightarrow>
    initializer_step i s (goto i CtorCounted s\<lparr>initialize_count := initialize_count s + 1\<rparr>)"
| unlock_ctor: "pc_of s i = Some CtorCounted \<Longrightarrow>
    initializer_step i s (goto i Alive s\<lparr>glslang_mutex := Some None\<rparr>)"
| lock_dtor: "pc_of s i = Some Alive \<Longrightarrow> glslang_mutex s = Some None \<Longrightarrow>
    initializer_step i s (goto i DtorLocked s\<lparr>glslang_mutex := Some (Some i)\<rparr>)"
| count_down: "pc_of s i = Some DtorLocked \<Longrightarrow>
    initializer_step i s (goto i DtorCounted s\<lparr>initialize_count := initialize_count s - 1\<rparr>)"
| finalize: "pc_of s i = Some DtorCounted \<Longrightarrow>
    initializer_step i s (goto i DtorFinalized s
      \<lparr>process_calls := process_calls s @ (if initialize_count s = 0 then [FinalizeProcess] else [])\<rparr>)"
| unlock_dtor: "pc_of s i = Some DtorFinalized \<Longrightarrow>
    initializer_step i s (goto i Gone s\<lparr>glslang_mutex := Some None\<rparr>)"

inductive_cases initializer_stepE: "initializer_step i s t"

definition any_step :: "initializer_state \<Rightarrow> initializer_state \<Rightarrow> bool" where
  "any_step s t \<longleftrightarrow> (\<exists>i < length (initializer_pcs s). initializer_step i s t)"

section \<open>The invariant\<close>

definition counted :: "initializer_pc \<Rightarrow> bool" where
  "counted pc \<longleftrightarrow> pc \<in> {CtorCounted, Alive, DtorLocked}"

definition holds_first :: "initializer_pc \<Rightarrow> bool" where
  "holds_first pc \<longleftrightarrow> pc \<in> {FirstLocked, MutexThere}"

definition holds_mutex :: "initializer_pc \<Rightarrow> bool" where
  "holds_mutex pc \<longleftrightarrow> pc \<in> {CtorLocked, CtorInitialized, CtorCounted, DtorLocked, DtorCounted, DtorFinalized}"

text \<open>Initializations and finalizations alternate, so glslang is up after an odd number of calls.\<close>

definition alternating :: "process_call list \<Rightarrow> bool" where
  "alternating calls \<longleftrightarrow>
     (\<forall>k < length calls. calls ! k = (if even k then InitializeProcess else FinalizeProcess))"

definition glslang_up :: "initializer_state \<Rightarrow> bool" where
  "glslang_up s \<longleftrightarrow> odd (length (process_calls s))"

definition count_ok :: "initializer_state \<Rightarrow> bool" where
  "count_ok s \<longleftrightarrow> length (initializer_pcs s) < 2 ^ 32 \<and>
     unat (initialize_count s) = length (filter counted (initializer_pcs s))"

definition locks_ok :: "initializer_state \<Rightarrow> bool" where
  "locks_ok s \<longleftrightarrow>
     (\<forall>i pc. pc_of s i = Some pc \<longrightarrow>
        (first_call_mutex s = Some i) = holds_first pc \<and>
        (glslang_mutex s = Some (Some i)) = holds_mutex pc \<and>
        (glslang_mutex s = None \<longrightarrow> pc \<in> {Unborn, FirstLocked})) \<and>
     (\<forall>i. pc_of s i = None \<longrightarrow> first_call_mutex s \<noteq> Some i \<and> glslang_mutex s \<noteq> Some (Some i))"

definition calls_ok :: "initializer_state \<Rightarrow> bool" where
  "calls_ok s \<longleftrightarrow> alternating (process_calls s) \<and>
     (glslang_up s \<longleftrightarrow> initialize_count s \<noteq> 0 \<or>
        (\<exists>i. pc_of s i = Some CtorInitialized \<or> pc_of s i = Some DtorCounted))"

definition initializer_inv :: "initializer_state \<Rightarrow> bool" where
  "initializer_inv s \<longleftrightarrow> count_ok s \<and> locks_ok s \<and> calls_ok s"

lemma filter_update:
  "i < length xs \<Longrightarrow> length (filter P (xs[i := y])) + (if P (xs ! i) then 1 else 0) =
    length (filter P xs) + (if P y then 1 else 0)"
proof (induction xs arbitrary: i)
  case (Cons x xs)
  then show ?case by (cases i) auto
qed simp

lemma alternating_snoc:
  "alternating (calls @ [c]) \<longleftrightarrow>
    alternating calls \<and> c = (if even (length calls) then InitializeProcess else FinalizeProcess)"
  by (auto simp: alternating_def nth_append less_Suc_eq)

lemma pc_of_Some: "pc_of s i = Some pc \<longleftrightarrow> i < length (initializer_pcs s) \<and> initializer_pcs s ! i = pc"
  by (auto simp: pc_of_def)

lemma pc_of_goto: "pc_of (goto i pc s) j = (if j = i \<and> pc_of s i \<noteq> None then Some pc else pc_of s j)"
  by (auto simp: pc_of_def goto_def)

lemma pc_of_updates [simp]:
  "pc_of (s\<lparr>first_call_mutex := f\<rparr>) i = pc_of s i"
  "pc_of (s\<lparr>glslang_mutex := g\<rparr>) i = pc_of s i"
  "pc_of (s\<lparr>initialize_count := c\<rparr>) i = pc_of s i"
  "pc_of (s\<lparr>process_calls := p\<rparr>) i = pc_of s i"
  by (simp_all add: pc_of_def)

lemma goto_fields [simp]:
  "first_call_mutex (goto i pc s) = first_call_mutex s"
  "glslang_mutex (goto i pc s) = glslang_mutex s"
  "initialize_count (goto i pc s) = initialize_count s"
  "process_calls (goto i pc s) = process_calls s"
  "length (initializer_pcs (goto i pc s)) = length (initializer_pcs s)"
  by (simp_all add: goto_def)

lemma start_inv: "n < 2 ^ 32 \<Longrightarrow> initializer_inv (initializer_start n)"
  by (auto simp: initializer_inv_def count_ok_def locks_ok_def calls_ok_def initializer_start_def
      alternating_def glslang_up_def counted_def holds_first_def holds_mutex_def pc_of_def split: if_splits)

lemma count_less:
  assumes "count_ok s" "pc_of s i = Some pc" "\<not> counted pc"
  shows "unat (initialize_count s) + 1 < 2 ^ 32"
proof -
  have i: "i < length (initializer_pcs s)" "initializer_pcs s ! i = pc"
    using assms(2) by (simp_all add: pc_of_Some)
  have "length (filter counted (initializer_pcs s)) < length (initializer_pcs s)"
    using length_filter_less [OF nth_mem [OF i(1)], of counted] i(2) assms(3) by blast
  then show ?thesis using assms(1) unfolding count_ok_def by linarith
qed

lemma count_positive:
  assumes "count_ok s" "pc_of s i = Some pc" "counted pc"
  shows "0 < unat (initialize_count s)"
proof -
  have "initializer_pcs s ! i \<in> set (filter counted (initializer_pcs s))"
    using assms(2,3) by (auto simp: pc_of_Some)
  then show ?thesis using assms(1) length_pos_if_in_set unfolding count_ok_def by metis
qed

lemma goto_count:
  assumes "pc_of s i = Some pc"
  shows "length (filter counted (initializer_pcs (goto i pc' s))) + (if counted pc then 1 else 0) =
    length (filter counted (initializer_pcs s)) + (if counted pc' then 1 else 0)"
  using assms filter_update [of i "initializer_pcs s" counted pc'] by (simp add: goto_def pc_of_Some)

lemma step_pc: "initializer_step i s t \<Longrightarrow> \<exists>pc pc'. pc_of s i = Some pc \<and> pc_of t i = Some pc'"
  by (erule initializer_stepE) (auto simp: pc_of_goto)

text \<open>Only the holder of the mutex can be between taking and releasing it.\<close>

lemma sole_holder:
  assumes "locks_ok s" "pc_of s i = Some pc" "holds_mutex pc" "pc_of s j = Some pc'" "holds_mutex pc'"
  shows "j = i"
proof -
  have "glslang_mutex s = Some (Some i)" "glslang_mutex s = Some (Some j)"
    using assms unfolding locks_ok_def by blast+
  then show ?thesis by simp
qed

section \<open>Every step keeps it\<close>

lemma step_locks: "initializer_step i s t \<Longrightarrow> locks_ok s \<Longrightarrow> locks_ok t"
proof (induction rule: initializer_step.induct)
qed (auto simp: locks_ok_def pc_of_goto holds_first_def holds_mutex_def; metis option.inject)+

lemma unat_up: "unat (w :: uint32_t) + 1 < 2 ^ 32 \<Longrightarrow> unat (w + 1) = unat w + 1"
  by (simp add: unat_add_lem [THEN iffD1])

lemma unat_down: "0 < unat (w :: uint32_t) \<Longrightarrow> unat (w - 1) + 1 = unat w"
  using unat_minus_one [of w] by (cases "w = 0") auto

lemma count_ok_updates [simp]:
  "count_ok (s\<lparr>first_call_mutex := f\<rparr>) = count_ok s"
  "count_ok (s\<lparr>glslang_mutex := g\<rparr>) = count_ok s"
  "count_ok (s\<lparr>process_calls := p\<rparr>) = count_ok s"
  by (simp_all add: count_ok_def)

lemma goto_keeps:
  assumes "pc_of s i \<noteq> None" "counted (the (pc_of s i)) = counted pc"
  shows "count_ok (goto i pc s) = count_ok s"
  using assms goto_count [of s i _ pc] by (auto simp: count_ok_def split: if_splits)

lemma step_count:
  assumes "initializer_step i s t" "count_ok s"
  shows "count_ok t"
  using assms
proof (induction rule: initializer_step.induct)
  case (count_up s i)
  then have "unat (initialize_count s + 1) = unat (initialize_count s) + 1"
    using count_less [of s i CtorInitialized] by (simp add: unat_up counted_def)
  then show ?case
    using count_up goto_count [of s i CtorInitialized CtorCounted] by (simp add: count_ok_def counted_def)
next
  case (count_down s i)
  then have "unat (initialize_count s - 1) + 1 = unat (initialize_count s)"
    using count_positive [of s i DtorLocked] unat_down by (simp add: counted_def)
  then show ?case
    using count_down goto_count [of s i DtorLocked DtorCounted] by (simp add: count_ok_def counted_def)
qed (simp_all add: goto_keeps counted_def)

lemma calls_ok_goto:
  assumes "pc_of s i \<noteq> None" "the (pc_of s i) \<notin> {CtorInitialized, DtorCounted}"
    "pc' \<notin> {CtorInitialized, DtorCounted}"
  shows "calls_ok (goto i pc' s) = calls_ok s"
proof -
  have "pc_of (goto i pc' s) j = Some CtorInitialized \<or> pc_of (goto i pc' s) j = Some DtorCounted \<longleftrightarrow>
      pc_of s j = Some CtorInitialized \<or> pc_of s j = Some DtorCounted" for j
    using assms by (auto simp: pc_of_goto)
  then show ?thesis by (simp add: calls_ok_def glslang_up_def)
qed

lemma calls_ok_updates [simp]:
  "calls_ok (s\<lparr>first_call_mutex := f\<rparr>) = calls_ok s"
  "calls_ok (s\<lparr>glslang_mutex := g\<rparr>) = calls_ok s"
  by (simp_all add: calls_ok_def glslang_up_def)

lemma none_between:
  assumes "locks_ok s" "pc_of s i = Some pc" "holds_mutex pc" "pc \<notin> {CtorInitialized, DtorCounted}"
  shows "pc_of s j \<noteq> Some CtorInitialized" "pc_of s j \<noteq> Some DtorCounted"
  using assms sole_holder [OF assms(1-3), of j] by (auto simp: holds_mutex_def)

lemma step_calls:
  assumes "initializer_step i s t" "initializer_inv s"
  shows "calls_ok t"
  using assms
proof (induction rule: initializer_step.induct)
  case (initialize s i)
  then have none: "pc_of s j \<noteq> Some CtorInitialized" "pc_of s j \<noteq> Some DtorCounted" for j
    using none_between [of s i CtorLocked j] by (simp_all add: initializer_inv_def holds_mutex_def)
  then show ?case using initialize
    by (auto simp: initializer_inv_def calls_ok_def glslang_up_def pc_of_goto alternating_snoc)
next
  case (count_up s i)
  have "unat (initialize_count s + 1) = unat (initialize_count s) + 1"
    using count_up count_less [of s i CtorInitialized] by (simp add: unat_up counted_def initializer_inv_def)
  then have "initialize_count s + 1 \<noteq> 0" by (metis add_is_0 unat_0 zero_neq_one)
  then show ?case using count_up
    by (auto simp: initializer_inv_def calls_ok_def glslang_up_def pc_of_goto)
next
  case (count_down s i)
  have "initialize_count s \<noteq> 0"
    using count_down count_positive [of s i DtorLocked] by (auto simp: counted_def initializer_inv_def)
  then show ?case using count_down
    by (auto simp: initializer_inv_def calls_ok_def glslang_up_def pc_of_goto)
next
  case (finalize s i)
  have none: "pc_of s j = Some CtorInitialized \<or> pc_of s j = Some DtorCounted \<longleftrightarrow> j = i" for j
    using finalize sole_holder [of s i DtorCounted j] by (auto simp: initializer_inv_def holds_mutex_def)
  then show ?case using finalize
    by (auto simp: initializer_inv_def calls_ok_def glslang_up_def pc_of_goto alternating_snoc)
qed (simp_all add: initializer_inv_def calls_ok_goto)

lemma step_inv: "initializer_step i s t \<Longrightarrow> initializer_inv s \<Longrightarrow> initializer_inv t"
  using step_calls step_count step_locks unfolding initializer_inv_def by blast

section \<open>Runs\<close>

fun pc_rank :: "initializer_pc \<Rightarrow> nat" where
  "pc_rank Unborn = 0" | "pc_rank FirstLocked = 1" | "pc_rank MutexThere = 2" | "pc_rank CtorStart = 3"
| "pc_rank CtorLocked = 4" | "pc_rank CtorInitialized = 5" | "pc_rank CtorCounted = 6"
| "pc_rank Alive = 7" | "pc_rank DtorLocked = 8" | "pc_rank DtorCounted = 9"
| "pc_rank DtorFinalized = 10" | "pc_rank Gone = 11"

definition steps_done :: "initializer_state \<Rightarrow> nat" where
  "steps_done s = sum_list (map pc_rank (initializer_pcs s))"

lemma sum_list_replace:
  "i < length xs \<Longrightarrow> sum_list (map f (xs[i := y])) + f (xs ! i) = sum_list (map f xs) + (f y :: nat)"
proof (induction xs arbitrary: i)
  case (Cons x xs)
  then show ?case by (cases i) auto
qed simp

lemma goto_rank: "pc_of s i = Some pc \<Longrightarrow> steps_done (goto i pc' s) + pc_rank pc = steps_done s + pc_rank pc'"
  using sum_list_replace [of i "initializer_pcs s" pc_rank pc']
  by (simp add: steps_done_def goto_def pc_of_Some)

lemma goto_next:
  assumes "pc_of s i \<noteq> None" "pc_rank pc = Suc (pc_rank (the (pc_of s i)))"
  shows "steps_done (goto i pc s) = Suc (steps_done s)"
  using assms goto_rank [of s i _ pc] by (cases "pc_of s i") auto

lemma steps_done_updates [simp]:
  "steps_done (s\<lparr>first_call_mutex := f\<rparr>) = steps_done s"
  "steps_done (s\<lparr>glslang_mutex := g\<rparr>) = steps_done s"
  "steps_done (s\<lparr>initialize_count := c\<rparr>) = steps_done s"
  "steps_done (s\<lparr>process_calls := p\<rparr>) = steps_done s"
  by (simp_all add: steps_done_def)

lemma step_rank: "initializer_step i s t \<Longrightarrow> steps_done t = steps_done s + 1"
  by (erule initializer_stepE) (simp_all add: goto_next)

lemma step_length: "initializer_step i s t \<Longrightarrow> length (initializer_pcs t) = length (initializer_pcs s)"
  by (erule initializer_stepE) simp_all

lemma run_facts:
  assumes "(any_step ^^ k) (initializer_start n) s" "n < 2 ^ 32"
  shows "initializer_inv s \<and> steps_done s = k \<and> length (initializer_pcs s) = n"
  using assms(1)
proof (induction k arbitrary: s)
  case 0
  then have "s = initializer_start n" by simp
  then show ?case
    using start_inv [OF assms(2)]
    by (simp add: steps_done_def initializer_start_def sum_list_replicate)
next
  case (Suc k)
  then obtain r where r: "(any_step ^^ k) (initializer_start n) r" "any_step r s" by auto
  then obtain i where "initializer_step i r s" by (auto simp: any_step_def)
  then show ?case using Suc.IH [OF r(1)] step_inv step_rank step_length by auto
qed

lemma pc_rank_le: "pc_rank pc \<le> 11" "pc_rank pc = 11 \<longleftrightarrow> pc = Gone"
  by (cases pc; simp)+

lemma rank_sum:
  "sum_list (map pc_rank pcs) \<le> 11 * length pcs \<and>
   (sum_list (map pc_rank pcs) = 11 * length pcs \<longleftrightarrow> set pcs \<subseteq> {Gone})"
proof (induction pcs)
  case (Cons pc pcs)
  have "pc_rank pc \<le> 11" "pc_rank pc = 11 \<longleftrightarrow> pc = Gone" by (fact pc_rank_le)+
  then show ?case using Cons by auto
qed simp

lemma filter_at_most_one:
  assumes "\<And>i j. i < length xs \<Longrightarrow> j < length xs \<Longrightarrow> P (xs ! i) \<Longrightarrow> P (xs ! j) \<Longrightarrow> i = j"
  shows "length (filter P xs) \<le> 1"
proof -
  have "card {i. i < length xs \<and> P (xs ! i)} \<le> Suc 0"
    using assms by (intro card_le_Suc0_iff_eq [THEN iffD2]) auto
  then show ?thesis by (simp add: length_filter_conv_card)
qed

text \<open>Whoever holds a mutex can go on, and when nobody does everybody can.\<close>

lemma can_step:
  assumes "pc_of s i = Some pc"
    "pc = Unborn \<Longrightarrow> first_call_mutex s = None"
    "pc \<in> {CtorStart, Alive} \<Longrightarrow> glslang_mutex s = Some None" "pc \<noteq> Gone"
  shows "\<exists>t. initializer_step i s t"
  using assms by (cases pc) (blast intro: initializer_step.intros)+

lemma progress:
  assumes "locks_ok s" "pc_of s i = Some pc" "pc \<noteq> Gone"
  shows "\<exists>t. any_step s t"
proof -
  have go: "\<exists>t. any_step s t" if "\<exists>t. initializer_step j s t" for j
    using that step_pc [of j s] unfolding any_step_def pc_of_def by (metis option.distinct(1))
  have locks: "\<And>j q. pc_of s j = Some q \<Longrightarrow> (first_call_mutex s = Some j) = holds_first q \<and>
      (glslang_mutex s = Some (Some j)) = holds_mutex q \<and> (glslang_mutex s = None \<longrightarrow> q \<in> {Unborn, FirstLocked})"
    "\<And>j. pc_of s j = None \<Longrightarrow> first_call_mutex s \<noteq> Some j \<and> glslang_mutex s \<noteq> Some (Some j)"
    using assms(1) unfolding locks_ok_def by blast+
  consider (first) j where "first_call_mutex s = Some j" | (mutex) j where "glslang_mutex s = Some (Some j)"
    | (free) "first_call_mutex s = None" "glslang_mutex s = None \<or> glslang_mutex s = Some None"
    by (metis not_None_eq)
  then show ?thesis
  proof cases
    case (first j)
    then obtain q where q: "pc_of s j = Some q" "holds_first q" using locks by (cases "pc_of s j") auto
    then have "\<exists>t. initializer_step j s t" by (intro can_step) (auto simp: holds_first_def)
    then show ?thesis by (rule go)
  next
    case (mutex j)
    then obtain q where q: "pc_of s j = Some q" "holds_mutex q" using locks by (cases "pc_of s j") auto
    then have "\<exists>t. initializer_step j s t" by (intro can_step) (auto simp: holds_mutex_def)
    then show ?thesis by (rule go)
  next
    case free
    have "glslang_mutex s = Some None" if "pc \<in> {CtorStart, Alive}"
      using locks(1) [OF assms(2)] free(2) that by auto
    then have "\<exists>t. initializer_step i s t" using assms(2,3) free(1) by (intro can_step) auto
    then show ?thesis by (rule go)
  qed
qed

lemma filter_Gone: "set pcs \<subseteq> {Gone} \<Longrightarrow> filter counted pcs = []"
  by (auto simp: filter_empty_conv counted_def)

section \<open>Properties\<close>

text \<open>C8: whatever the interleaving, the count is the number of objects between the two updates of it,
  glslang is initialized and finalized in turns, it is up whenever an object is alive, at most one
  thread at a time is in the code the mutex guards, and the mutex exists when it is used.\<close>

theorem initializer_safe:
  assumes "any_step\<^sup>*\<^sup>* (initializer_start n) s" "n < 2 ^ 32"
  shows "unat (initialize_count s) = length (filter counted (initializer_pcs s)) \<and>
    alternating (process_calls s) \<and>
    (if Alive \<in> set (initializer_pcs s) then glslang_up s else True) \<and>
    length (filter holds_mutex (initializer_pcs s)) \<le> 1 \<and>
    (if set (initializer_pcs s) \<subseteq> {Unborn, FirstLocked, MutexThere} then True else glslang_mutex s \<noteq> None)"
proof -
  have inv: "count_ok s" "locks_ok s" "calls_ok s"
    using assms run_facts rtranclp_power by (fastforce simp: initializer_inv_def)+
  have alive: "glslang_up s" if alive: "Alive \<in> set (initializer_pcs s)"
  proof -
    obtain i where "pc_of s i = Some Alive" using alive by (auto simp: in_set_conv_nth pc_of_Some)
    then have "0 < unat (initialize_count s)" using count_positive inv(1) by (simp add: counted_def)
    then show ?thesis using inv(3) by (auto simp: calls_ok_def)
  qed
  have "length (filter holds_mutex (initializer_pcs s)) \<le> 1"
  proof (rule filter_at_most_one)
    fix i j assume "i < length (initializer_pcs s)" "j < length (initializer_pcs s)"
      "holds_mutex (initializer_pcs s ! i)" "holds_mutex (initializer_pcs s ! j)"
    then show "i = j" using sole_holder [OF inv(2), of j _ i] by (simp add: pc_of_def)
  qed
  moreover have "glslang_mutex s \<noteq> None" if late: "\<not> set (initializer_pcs s) \<subseteq> {Unborn, FirstLocked, MutexThere}"
  proof -
    obtain pc where "pc \<in> set (initializer_pcs s)" "pc \<notin> {Unborn, FirstLocked}" using late by blast
    moreover then obtain i where "pc_of s i = Some pc" unfolding in_set_conv_nth pc_of_Some by blast
    ultimately show ?thesis using inv(2) unfolding locks_ok_def by blast
  qed
  ultimately show ?thesis using inv alive by (simp add: count_ok_def calls_ok_def)
qed

theorem initializer_safe_witness:
  "length (filter holds_mutex (initializer_pcs (goto 0 FirstLocked (initializer_start 2)
     \<lparr>first_call_mutex := Some 0\<rparr>))) \<le> 1"
proof -
  have less: "(2 :: nat) < 2 ^ 32" by simp
  have step: "any_step (initializer_start 2) (goto 0 FirstLocked (initializer_start 2) \<lparr>first_call_mutex := Some 0\<rparr>)"
    unfolding any_step_def
    by (intro exI [of _ 0] conjI lock_first) (simp_all add: initializer_start_def pc_of_def)
  from initializer_safe [OF r_into_rtranclp [where r = any_step, OF step] less] show ?thesis by blast
qed

text \<open>C9: every run comes to an end in which all objects are gone: it has at most eleven steps for each
  object, it can go on as long as it has fewer, and when it has all of them glslang is finalized.\<close>

theorem initializer_live:
  assumes "(any_step ^^ k) (initializer_start n) s" "n < 2 ^ 32"
  shows "k \<le> 11 * n \<and>
    (if k = 11 * n then set (initializer_pcs s) \<subseteq> {Gone} \<and> initialize_count s = 0 \<and> \<not> glslang_up s
     else \<exists>t. any_step s t)"
proof -
  have facts: "initializer_inv s" "steps_done s = k" "length (initializer_pcs s) = n"
    using run_facts [OF assms] by auto
  note sum = rank_sum [of "initializer_pcs s", folded steps_done_def, unfolded facts(2,3)]
  show ?thesis
  proof (cases "k = 11 * n")
    case True
    then have gone: "set (initializer_pcs s) \<subseteq> {Gone}" using sum by simp
    then have "initialize_count s = 0"
      using facts(1) by (simp add: filter_Gone initializer_inv_def count_ok_def unat_eq_zero)
    moreover have "pc = Gone" if "pc_of s i = Some pc" for i pc
      using that gone nth_mem [of i "initializer_pcs s"] unfolding pc_of_Some by blast
    then have "pc_of s i \<noteq> Some CtorInitialized \<and> pc_of s i \<noteq> Some DtorCounted" for i by blast
    ultimately show ?thesis using True gone facts(1) by (simp add: initializer_inv_def calls_ok_def)
  next
    case False
    then have "\<not> set (initializer_pcs s) \<subseteq> {Gone}" using sum by simp
    then obtain pc where "pc \<in> set (initializer_pcs s)" "pc \<noteq> Gone" by blast
    then obtain i where "i < n" "initializer_pcs s ! i \<noteq> Gone"
      using facts(3) unfolding in_set_conv_nth by blast
    then have "\<exists>t. any_step s t"
      using progress [of s i] facts(1,3) by (simp add: initializer_inv_def pc_of_def)
    then show ?thesis using False sum by simp
  qed
qed

theorem initializer_live_witness:
  "\<exists>t. any_step (initializer_start 3) t"
  using initializer_live [of 0 3 "initializer_start 3"] by simp

end
