(* ===== verification/Message.thy ===== *)
theory Message
  imports Version_Profile
begin

text \<open>
  \<open>src/ShaderCompiler/src/libshaderc_util/message.cc\<close>: the messages of glslang, taken apart and printed
  in the form of this compiler. A stream is the text written to it.
\<close>

datatype MessageType = MT_Warning | MT_Error | MT_ErrorSummary | MT_WarningSummary
  | MT_GlobalWarning | MT_GlobalError | MT_Unknown | MT_Ignored

section \<open>The parts of a message\<close>

text \<open>The type of a message and what follows its marker.\<close>

definition DeduceMessageType :: "string \<Rightarrow> MessageType \<times> string" where
  "DeduceMessageType message =
     (if sp_starts_with message ''ERROR: ''
      then (MT_Error, sp_substr message (length ''ERROR: '') None)
      else if sp_starts_with message ''WARNING: ''
      then (MT_Warning, sp_substr message (length ''WARNING: '') None)
      else if sp_starts_with message ''Warning, ''
      then (MT_GlobalWarning, sp_substr message (length ''Warning, '') None)
      else (MT_Unknown, message))"

text \<open>
  The loop over pairs of consecutive colons; \<open>first_colon_pos\<close> is the first of the pair. It gives the
  source name, the line number and the rest of the message.
\<close>

function location_loop :: "string \<Rightarrow> nat option \<Rightarrow> (string \<times> string \<times> string) option" where
  "location_loop message first_colon_pos =
     (case first_colon_pos of
        None \<Rightarrow> None
      | Some first_colon \<Rightarrow>
          if first_colon > length message - 4 then None
          else
            case find_first_of message '':'' (first_colon + 1) of
              None \<Rightarrow> None
            | Some next_colon \<Rightarrow>
                if next_colon > length message - 2 then None
                else if first_colon + 1 = next_colon then location_loop message (Some next_colon)
                else if message ! (next_colon + 1) \<noteq> CHR '' ''
                then location_loop message (Some next_colon)
                else if find_first_not_of message ''0123456789'' (first_colon + 1) = Some next_colon
                then Some (sp_substr message 0 (Some first_colon),
                           sp_substr message (first_colon + 1) (Some (next_colon - 1 - first_colon)),
                           sp_substr message (next_colon + 2) None)
                else location_loop message (Some next_colon))"
  by pat_completeness auto
termination
  by (relation "measure (\<lambda>(message, f). case f of None \<Rightarrow> 0 | Some f \<Rightarrow> length message - f)")
    (auto dest!: find_first_of_bounds)

declare location_loop.simps [simp del]

definition DeduceLocationSpec :: "string \<Rightarrow> (string \<times> string \<times> string) option" where
  "DeduceLocationSpec message =
     (if message = [] then None
      else if length message \<le> 4 then None
      else location_loop message (find_first_of message '':'' 0))"

definition IsSummaryMessage :: "string \<Rightarrow> bool" where
  "IsSummaryMessage message =
     (case find_first_of message '' '' 0 of
        None \<Rightarrow> False
      | Some space_loc \<Rightarrow>
          let number = sp_substr message 0 (Some space_loc);
              rest = sp_substr message (space_loc + 1) None
          in if \<not> list_all is_digit number then False
             else sp_starts_with rest ''compilation errors.'')"

text \<open>The type, the source name, the line number and the rest of a message.\<close>

definition parse_located ::
  "string \<Rightarrow> bool \<Rightarrow> bool \<Rightarrow> MessageType \<times> string \<times> string \<times> string" where
  "parse_located rest_of_message is_error warnings_as_errors =
     (let rest_of_message = strip_whitespace rest_of_message
      in if rest_of_message = [] then (MT_Unknown, [], [], [])
         else
           case DeduceLocationSpec rest_of_message of
             Some (source_name, line_number, rest) \<Rightarrow>
               (if is_error \<or> warnings_as_errors then MT_Error else MT_Warning,
                source_name, line_number, rest)
           | None \<Rightarrow>
               (if IsSummaryMessage rest_of_message
                then if is_error \<or> warnings_as_errors then MT_ErrorSummary else MT_WarningSummary
                else if is_error \<or> warnings_as_errors then MT_GlobalError else MT_GlobalWarning,
                [], [], rest_of_message))"

definition ParseGlslangOutput ::
  "string \<Rightarrow> bool \<Rightarrow> bool \<Rightarrow> MessageType \<times> string \<times> string \<times> string" where
  "ParseGlslangOutput message warnings_as_errors suppress_warnings =
     (let (type, rest_of_message) = DeduceMessageType message
      in case type of
           MT_Warning \<Rightarrow>
             if suppress_warnings then (MT_Ignored, [], [], [])
             else parse_located rest_of_message False warnings_as_errors
         | MT_Error \<Rightarrow> parse_located rest_of_message True warnings_as_errors
         | MT_GlobalWarning \<Rightarrow>
             if suppress_warnings then (MT_Ignored, [], [], [])
             else (if warnings_as_errors then MT_GlobalError else MT_GlobalWarning,
                   [], [], rest_of_message)
         | MT_Unknown \<Rightarrow> (MT_Unknown, [], [], rest_of_message)
         | _ \<Rightarrow> parse_located rest_of_message False warnings_as_errors)"

section \<open>Printing\<close>

definition ignored_error_strings :: "string list" where
  "ignored_error_strings =
     map (\<lambda>v. ''Warning, version '' @ v @ '' is not yet complete; most version-specific '' @
                ''features are present, but some are missing.'')
       [''310'', ''400'', ''410'', ''420'', ''430'', ''440'', ''450''] @
     [''Linked vertex stage:'', ''Linked fragment stage:'',
      ''Linked tessellation control stage:'',
      ''Linked tessellation evaluation stage:'', ''Linked geometry stage:'',
      ''Linked compute stage:'', '''']"

text \<open>What the printing functions change: the error stream and the two totals.\<close>

record message_state =
  error_stream :: string
  total_warnings :: nat
  total_errors :: nat

definition endl :: string where "endl = [CHR 0x0A]"

definition print_located :: "string \<Rightarrow> string \<Rightarrow> MessageType \<Rightarrow> string \<Rightarrow> message_state \<Rightarrow> message_state" where
  "print_located name line_number type rest st =
     st\<lparr>error_stream := error_stream st @ name @ '':'' @ line_number @ '': '' @
          (if type = MT_Error then ''error: '' else ''warning: '') @ strip_whitespace rest @ endl,
        total_errors := total_errors st + (if type = MT_Error then 1 else 0),
        total_warnings := total_warnings st + (if type = MT_Warning then 1 else 0)\<rparr>"

definition print_global :: "string \<Rightarrow> MessageType \<Rightarrow> string \<Rightarrow> message_state \<Rightarrow> message_state" where
  "print_global name type rest st =
     st\<lparr>error_stream := error_stream st @ name @ '': '' @
          (if type = MT_GlobalError then ''error'' else ''warning'') @ '': '' @
          strip_whitespace rest @ endl,
        total_errors := total_errors st + (if type = MT_GlobalError then 1 else 0),
        total_warnings := total_warnings st + (if type = MT_GlobalWarning then 1 else 0)\<rparr>"

definition print_message ::
  "string \<Rightarrow> bool \<Rightarrow> bool \<Rightarrow> string \<Rightarrow> message_state \<Rightarrow> message_state" where
  "print_message file_name warnings_as_errors suppress_warnings message st =
     (if message \<in> set ignored_error_strings then st
      else
        let (type, source_name, line_number, rest) =
              ParseGlslangOutput message warnings_as_errors suppress_warnings;
            name = (if source_name \<noteq> [] then
                      if source_name = ''-1'' then ''<command line>'' else source_name
                    else file_name)
        in case type of
             MT_Error \<Rightarrow> print_located name line_number type rest st
           | MT_Warning \<Rightarrow> print_located name line_number type rest st
           | MT_ErrorSummary \<Rightarrow> st
           | MT_WarningSummary \<Rightarrow> st
           | MT_GlobalError \<Rightarrow> print_global name type rest st
           | MT_GlobalWarning \<Rightarrow> print_global name type rest st
           | MT_Unknown \<Rightarrow>
               st\<lparr>error_stream := error_stream st @ name @ '':'' @ '' '' @ message @ endl\<rparr>
           | MT_Ignored \<Rightarrow> st)"

definition PrintFilteredErrors ::
  "string \<Rightarrow> bool \<Rightarrow> bool \<Rightarrow> string \<Rightarrow> message_state \<Rightarrow> bool \<times> message_state" where
  "PrintFilteredErrors file_name warnings_as_errors suppress_warnings error_list st =
     (let existing_total_errors = total_errors st;
          st = fold (print_message file_name warnings_as_errors suppress_warnings)
                 (get_fields error_list (CHR 0x0A) False) st
      in (existing_total_errors = total_errors st, st))"

definition plural :: "nat \<Rightarrow> string" where
  "plural n = (if n > 1 then ''s'' else '''')"

definition OutputMessages :: "string \<Rightarrow> nat \<Rightarrow> nat \<Rightarrow> string" where
  "OutputMessages stream warnings errors =
     (if warnings > 0 \<or> errors > 0 then
        if warnings > 0 \<and> errors > 0 then
          stream @ ToString warnings @ '' warning'' @ plural warnings @ '' and '' @
          ToString errors @ '' error'' @ plural errors @ '' generated.'' @ endl
        else if warnings > 0 then
          stream @ ToString warnings @ '' warning'' @ plural warnings @ '' generated.'' @ endl
        else if errors > 0 then
          stream @ ToString errors @ '' error'' @ plural errors @ '' generated.'' @ endl
        else stream
      else stream)"

section \<open>Where a message says it comes from\<close>

text \<open>
  A colon at \<open>f\<close>, then at least one digit up to a colon at \<open>n\<close>, then a space.
\<close>

definition located_at :: "string \<Rightarrow> nat \<Rightarrow> nat \<Rightarrow> bool" where
  "located_at msg f n \<longleftrightarrow> f + 1 < n \<and> n + 1 < length msg \<and> msg ! f = CHR '':'' \<and> msg ! n = CHR '':'' \<and>
     msg ! (n + 1) = CHR '' '' \<and> (\<forall>i. f < i \<and> i < n \<longrightarrow> is_digit (msg ! i))"

definition location_parts :: "string \<Rightarrow> nat \<Rightarrow> nat \<Rightarrow> string \<times> string \<times> string" where
  "location_parts msg f n = (take f msg, take (n - 1 - f) (drop (f + 1) msg), drop (n + 2) msg)"

lemma colon_not_digit [simp]: "\<not> is_digit (CHR '':'')"
  by (simp add: is_digit_def)

lemma colon_before:
  assumes "find_first_of msg '':'' (f + 1) = Some nx" "f < k" "msg ! k = CHR '':''"
  shows "nx \<le> k"
proof (rule ccontr)
  assume "\<not> nx \<le> k"
  then have "f + 1 \<le> k \<and> k < nx" using assms(2) by simp
  then have "msg ! k \<notin> set '':''" using assms(1) unfolding find_first_of_Some by blast
  then show False using assms(3) by simp
qed

lemma located_at_next:
  assumes "located_at msg f n"
  shows "find_first_of msg '':'' (f + 1) = Some n"
proof -
  have "msg ! i \<notin> set '':''" if "f + 1 \<le> i \<and> i < n" for i
  proof -
    have "is_digit (msg ! i)" using assms that by (simp add: located_at_def)
    then show ?thesis by auto
  qed
  then show ?thesis using assms unfolding located_at_def find_first_of_Some by simp
qed

text \<open>The loop finds the first location from its first colon on.\<close>

definition first_location_from :: "string \<Rightarrow> nat \<Rightarrow> (string \<times> string \<times> string) option \<Rightarrow> bool" where
  "first_location_from msg p result \<longleftrightarrow>
     (case result of
        None \<Rightarrow> \<forall>f n. p \<le> f \<longrightarrow> \<not> located_at msg f n
      | Some parts \<Rightarrow> \<exists>f n. p \<le> f \<and> located_at msg f n \<and> parts = location_parts msg f n \<and>
          (\<forall>f' n'. p \<le> f' \<and> f' < f \<longrightarrow> \<not> located_at msg f' n'))"

lemma first_location_from_skip:
  assumes "first_location_from msg q result" "p \<le> q" "\<And>f n. p \<le> f \<Longrightarrow> f < q \<Longrightarrow> \<not> located_at msg f n"
  shows "first_location_from msg p result"
proof (cases result)
  case None
  have "\<not> located_at msg f n" if "p \<le> f" for f n
    using that assms None by (cases "f < q") (auto simp: first_location_from_def)
  with None show ?thesis by (simp add: first_location_from_def)
next
  case (Some parts)
  then obtain f n where found: "q \<le> f" "located_at msg f n" "parts = location_parts msg f n"
    and before: "\<And>f' n'. q \<le> f' \<Longrightarrow> f' < f \<Longrightarrow> \<not> located_at msg f' n'"
    using assms(1) unfolding first_location_from_def by auto
  have "\<not> located_at msg f' n'" if "p \<le> f'" "f' < f" for f' n'
    using that assms(3) before by (cases "f' < q") auto
  then show ?thesis unfolding first_location_from_def Some option.case
    using found assms(2) by (intro exI [of _ f] exI [of _ n]) auto
qed

lemma location_loop_first:
  assumes "4 < length msg" "f < length msg" "msg ! f = CHR '':''"
  shows "first_location_from msg f (location_loop msg (Some f))"
  using assms
proof (induction "length msg - f" arbitrary: f rule: less_induct)
  case less
  have short: "n + 1 < length msg" "f' + 3 < length msg" if "located_at msg f' n" for f' n
    using that by (auto simp: located_at_def)
  show ?case
  proof (cases "f > length msg - 4")
    case True
    then have "location_loop msg (Some f) = None" by (simp add: location_loop.simps)
    then show ?thesis using short True by (force simp: first_location_from_def)
  next
    case far: False
    show ?thesis
    proof (cases "find_first_of msg '':'' (f + 1)")
      case None
      then have "location_loop msg (Some f) = None" by (simp add: location_loop.simps)
      moreover have "\<not> located_at msg f' n" if "f \<le> f'" for f' n
      proof
        assume loc: "located_at msg f' n"
        then have "f + 1 \<le> n \<and> n < length msg" "msg ! n \<in> set '':''" using that by (auto simp: located_at_def)
        then show False using None unfolding find_first_of_None by blast
      qed
      ultimately show ?thesis by (simp add: first_location_from_def)
    next
      case (Some nx)
      have nx: "f < nx" "nx < length msg" "msg ! nx = CHR '':''"
        using find_first_of_bounds [OF Some] Some unfolding find_first_of_Some by auto
      have at_f: "n = nx" if "located_at msg f n" for n
        using located_at_next [OF that] Some by simp
      have later: "nx \<le> f'" if "located_at msg f' n" "f \<le> f'" "f' \<noteq> f" for f' n
        using colon_before [OF Some, of f'] that by (simp add: located_at_def)
      show ?thesis
      proof (cases "nx > length msg - 2")
        case True
        then have "location_loop msg (Some f) = None" using far Some by (simp add: location_loop.simps)
        moreover have "\<not> located_at msg f' n" if "f \<le> f'" for f' n
        proof
          assume loc: "located_at msg f' n"
          then have "nx \<le> n" using later [OF loc that] at_f
            by (cases "f' = f") (auto simp: located_at_def)
          then show False using short(1) [OF loc] True by simp
        qed
        ultimately show ?thesis by (simp add: first_location_from_def)
      next
        case near: False
        have digits: "find_first_not_of msg ''0123456789'' (f + 1) = Some nx \<longleftrightarrow>
            (\<forall>i. f < i \<and> i < nx \<longrightarrow> is_digit (msg ! i))"
          using nx unfolding find_first_not_of_Some by (auto simp: is_digit_def Suc_le_eq)
        show ?thesis
        proof (cases "located_at msg f nx")
          case True
          then have "location_loop msg (Some f) = Some (location_parts msg f nx)"
            using far near Some digits
            by (subst location_loop.simps) (auto simp: sp_substr_def location_parts_def located_at_def)
          then show ?thesis unfolding first_location_from_def using True
            by (simp only: option.case) (intro exI [of _ f] exI [of _ nx], auto)
        next
          case False
          then have more: "location_loop msg (Some f) = location_loop msg (Some nx)"
            using far near Some digits nx less.prems(3)
            by (subst location_loop.simps) (auto simp: sp_substr_def location_parts_def located_at_def)
          have "first_location_from msg nx (location_loop msg (Some nx))"
            using less.hyps [of nx] less.prems nx by simp
          moreover have "\<not> located_at msg f' n" if "f \<le> f'" "f' < nx" for f' n
            using later [of f' n] at_f False that by (cases "f' = f") auto
          ultimately show ?thesis unfolding more
            using first_location_from_skip [of msg nx _ f] nx(1) by (meson less_imp_le)
        qed
      qed
    qed
  qed
qed

lemma located_text:
  assumes "l \<noteq> []" "list_all is_digit l"
  shows "located_at (s @ CHR '':'' # l @ CHR '':'' # CHR '' '' # r) (length s) (length s + 1 + length l) \<and>
    location_parts (s @ CHR '':'' # l @ CHR '':'' # CHR '' '' # r) (length s) (length s + 1 + length l) = (s, l, r)"
proof -
  have "is_digit ((s @ CHR '':'' # l @ CHR '':'' # CHR '' '' # r) ! i)"
    if "length s < i" "i < length s + 1 + length l" for i
  proof -
    from that obtain j where j: "i = length s + Suc j" "j < length l"
      by (metis Suc_eq_plus1 add.assoc add_less_cancel_left less_iff_Suc_add plus_1_eq_Suc add_Suc_right)
    have "(s @ CHR '':'' # l @ CHR '':'' # CHR '' '' # r) ! i = l ! j"
      unfolding j(1) nth_append_length_plus using j(2) by (simp add: nth_append)
    moreover have "is_digit (l ! j)" using assms(2) j(2) by (simp add: list_all_length)
    ultimately show ?thesis by simp
  qed
  then show ?thesis using assms(1) by (auto simp: located_at_def location_parts_def nth_append numeral_3_eq_3)
qed

lemma located_parts:
  assumes "located_at msg f n" "location_parts msg f n = (s, l, r)"
  shows "msg = s @ CHR '':'' # l @ CHR '':'' # CHR '' '' # r \<and> l \<noteq> [] \<and> list_all is_digit l \<and> length s = f"
proof -
  have pos: "f + 1 < n" "n + 1 < length msg" using assms(1) by (auto simp: located_at_def)
  have "msg = take f msg @ msg ! f # drop (f + 1) msg" using pos by (simp add: id_take_nth_drop)
  also have "drop (f + 1) msg = take (n - 1 - f) (drop (f + 1) msg) @ drop n msg"
    using pos append_take_drop_id [of "n - 1 - f" "drop (f + 1) msg"] by simp
  also have "drop n msg = msg ! n # msg ! (n + 1) # drop (n + 2) msg"
    using pos by (simp add: Cons_nth_drop_Suc)
  finally have "msg = s @ CHR '':'' # l @ CHR '':'' # CHR '' '' # r"
    using assms by (simp add: located_at_def location_parts_def)
  moreover have "list_all is_digit l"
  proof -
    have "is_digit (l ! i)" if "i < length l" for i
      using assms that by (auto simp: located_at_def location_parts_def)
    then show ?thesis by (simp add: list_all_length)
  qed
  moreover have "length s = f" "l \<noteq> []" using assms(2) pos by (auto simp: location_parts_def)
  ultimately show ?thesis by blast
qed

lemma DeduceLocationSpec_first:
  assumes "4 < length msg"
  shows "first_location_from msg 0 (DeduceLocationSpec msg)"
proof (cases "find_first_of msg '':'' 0")
  case None
  have "\<not> located_at msg f n" for f n
  proof
    assume "located_at msg f n"
    then have "f < length msg" "msg ! f \<in> set '':''" by (auto simp: located_at_def)
    then show False using None unfolding find_first_of_None by blast
  qed
  moreover have "DeduceLocationSpec msg = None"
    unfolding DeduceLocationSpec_def None by (simp add: location_loop.simps)
  ultimately show ?thesis by (simp add: first_location_from_def)
next
  case (Some f)
  then have f: "f < length msg" "msg ! f = CHR '':''" "\<And>i. i < f \<Longrightarrow> msg ! i \<noteq> CHR '':''"
    unfolding find_first_of_Some by auto
  have "DeduceLocationSpec msg = location_loop msg (Some f)"
    using assms Some by (auto simp: DeduceLocationSpec_def)
  moreover have "first_location_from msg f (location_loop msg (Some f))"
    using assms f(1,2) by (rule location_loop_first)
  ultimately show ?thesis
    using first_location_from_skip [of msg f _ 0] f(3) by (auto simp: located_at_def)
qed

section \<open>What the totals count\<close>

definition counted :: "MessageType set \<Rightarrow> bool \<Rightarrow> bool \<Rightarrow> string \<Rightarrow> bool" where
  "counted types warnings_as_errors suppress_warnings message \<longleftrightarrow>
     message \<notin> set ignored_error_strings \<and>
     fst (ParseGlslangOutput message warnings_as_errors suppress_warnings) \<in> types"

lemma parse_located_type:
  "fst (parse_located m is_error we) \<in>
    (if is_error \<or> we then {MT_Error, MT_ErrorSummary, MT_GlobalError, MT_Unknown}
     else {MT_Warning, MT_WarningSummary, MT_GlobalWarning, MT_Unknown})"
  by (auto simp: parse_located_def Let_def split: option.splits)

lemma DeduceMessageType_cases:
  obtains "fst (DeduceMessageType m) = MT_Error" | "fst (DeduceMessageType m) = MT_Warning"
  | "fst (DeduceMessageType m) = MT_GlobalWarning" | "fst (DeduceMessageType m) = MT_Unknown"
proof -
  have "fst (DeduceMessageType m) \<in> {MT_Error, MT_Warning, MT_GlobalWarning, MT_Unknown}"
    by (simp add: DeduceMessageType_def)
  then show thesis using that by auto
qed

lemma no_warnings:
  assumes "we \<or> sw"
  shows "fst (ParseGlslangOutput m we sw) \<notin> {MT_Warning, MT_GlobalWarning}"
  using parse_located_type [of "snd (DeduceMessageType m)" True we]
    parse_located_type [of "snd (DeduceMessageType m)" False we] assms
  by (cases m rule: DeduceMessageType_cases)
    (auto simp: ParseGlslangOutput_def split_beta split: if_splits)

lemma suppressed_same: "ParseGlslangOutput m we True = ParseGlslangOutput m False True"
  by (cases m rule: DeduceMessageType_cases)
    (auto simp: ParseGlslangOutput_def split_beta parse_located_def Let_def split: option.splits)

lemma print_message_totals:
  "total_errors (print_message file we sw m st) =
     total_errors st + (if counted {MT_Error, MT_GlobalError} we sw m then 1 else 0)"
  "total_warnings (print_message file we sw m st) =
     total_warnings st + (if counted {MT_Warning, MT_GlobalWarning} we sw m then 1 else 0)"
  by (auto simp: print_message_def counted_def print_located_def print_global_def Let_def split_beta
      split: MessageType.splits)

lemma print_messages_totals:
  "total_errors (fold (print_message file we sw) ms st) =
     total_errors st + length (filter (counted {MT_Error, MT_GlobalError} we sw) ms)"
  "total_warnings (fold (print_message file we sw) ms st) =
     total_warnings st + length (filter (counted {MT_Warning, MT_GlobalWarning} we sw) ms)"
  by (induction ms arbitrary: st) (simp_all add: print_message_totals)

lemma print_message_suppressed: "print_message file we True = print_message file False True"
  by (simp add: print_message_def suppressed_same [of _ we] fun_eq_iff)

section \<open>Properties\<close>

text \<open>C39: the location of a message is its first part of the form \<open>name:digits: \<close>: the name is the
  shortest text before such a part, however many colons it holds, and a message without such a
  part has no location.\<close>

theorem DeduceLocationSpec_shortest:
  "(DeduceLocationSpec message = Some (source_name, line_number, rest)) =
     (4 < length message \<and> message = source_name @ '':'' @ line_number @ '': '' @ rest \<and>
      line_number \<noteq> [] \<and> list_all is_digit line_number \<and>
      \<not> (\<exists>s l r. message = s @ '':'' @ l @ '': '' @ r \<and> l \<noteq> [] \<and> list_all is_digit l \<and>
            length s < length source_name))"
proof (cases "4 < length message")
  case False
  then show ?thesis by (auto simp: DeduceLocationSpec_def)
next
  case True
  have first: "first_location_from message 0 (DeduceLocationSpec message)"
    using True by (rule DeduceLocationSpec_first)
  show ?thesis
  proof
    assume found: "DeduceLocationSpec message = Some (source_name, line_number, rest)"
    then obtain f n where loc: "located_at message f n"
        "location_parts message f n = (source_name, line_number, rest)"
      and before: "\<And>f' n'. f' < f \<Longrightarrow> \<not> located_at message f' n'"
      using first by (auto simp: first_location_from_def)
    have "\<not> (\<exists>s l r. message = s @ '':'' @ l @ '': '' @ r \<and> l \<noteq> [] \<and> list_all is_digit l \<and>
            length s < length source_name)"
      using located_text before located_parts [OF loc] by fastforce
    then show "4 < length message \<and> message = source_name @ '':'' @ line_number @ '': '' @ rest \<and>
        line_number \<noteq> [] \<and> list_all is_digit line_number \<and>
        \<not> (\<exists>s l r. message = s @ '':'' @ l @ '': '' @ r \<and> l \<noteq> [] \<and> list_all is_digit l \<and>
            length s < length source_name)"
      using True located_parts [OF loc] by simp
  next
    assume parts: "4 < length message \<and> message = source_name @ '':'' @ line_number @ '': '' @ rest \<and>
        line_number \<noteq> [] \<and> list_all is_digit line_number \<and>
        \<not> (\<exists>s l r. message = s @ '':'' @ l @ '': '' @ r \<and> l \<noteq> [] \<and> list_all is_digit l \<and>
            length s < length source_name)"
    have here: "located_at message (length source_name) (length source_name + 1 + length line_number)"
      "location_parts message (length source_name) (length source_name + 1 + length line_number) =
        (source_name, line_number, rest)"
      using located_text [of line_number source_name rest] parts by auto
    have none: "\<not> located_at message f n" if "f < length source_name" for f n
    proof
      assume "located_at message f n"
      moreover obtain s l r where "location_parts message f n = (s, l, r)" by (cases "location_parts message f n")
      ultimately show False using located_parts [of message f n s l r] parts that by auto
    qed
    obtain f n where "located_at message f n" "DeduceLocationSpec message = Some (location_parts message f n)"
      "\<And>f' n'. f' < f \<Longrightarrow> \<not> located_at message f' n'"
      using first here(1) by (auto simp: first_location_from_def split: option.splits)
    moreover have "f = length source_name" using calculation none here(1) by (meson linorder_neqE_nat)
    ultimately show "DeduceLocationSpec message = Some (source_name, line_number, rest)"
      using here located_at_next by (metis option.inject)
  qed
qed

text \<open>C31: printing the messages of glslang adds to the totals the numbers of its lines that are errors
  and warnings, and succeeds exactly when no line is an error. With warnings as errors or
  suppressed no warning is counted, and suppressing takes precedence over warnings as errors.\<close>

theorem PrintFilteredErrors_totals:
  "(let (success, after) = PrintFilteredErrors file_name we sw error_list st;
        messages = get_fields error_list (CHR 0x0A) False;
        errors = filter (counted {MT_Error, MT_GlobalError} we sw) messages;
        warnings = filter (counted {MT_Warning, MT_GlobalWarning} we sw) messages
    in total_errors after = total_errors st + length errors \<and>
       total_warnings after = total_warnings st + (if we \<or> sw then 0 else length warnings) \<and>
       success = (errors = [])) \<and>
   PrintFilteredErrors file_name we True error_list st =
     PrintFilteredErrors file_name False True error_list st"
proof
  have "filter (counted {MT_Warning, MT_GlobalWarning} we sw) ms = []" if "we \<or> sw" for ms
    using no_warnings [OF that] by (auto simp: filter_empty_conv counted_def)
  then show "let (success, after) = PrintFilteredErrors file_name we sw error_list st;
        messages = get_fields error_list (CHR 0x0A) False;
        errors = filter (counted {MT_Error, MT_GlobalError} we sw) messages;
        warnings = filter (counted {MT_Warning, MT_GlobalWarning} we sw) messages
    in total_errors after = total_errors st + length errors \<and>
       total_warnings after = total_warnings st + (if we \<or> sw then 0 else length warnings) \<and>
       success = (errors = [])"
    by (simp add: PrintFilteredErrors_def Let_def print_messages_totals)
qed (simp add: PrintFilteredErrors_def print_message_suppressed [of _ we])

text \<open>A message that only counts errors is a global error whose text keeps the count, unless it is
  the summary of glslang, and an error marker with nothing behind it is no error at all.\<close>

theorem ParseGlslangOutput_counts:
  "ParseGlslangOutput ''ERROR: 2 errors found.'' False False = (MT_GlobalError, [], [], ''2 errors found.'') \<and>
   ParseGlslangOutput ''ERROR: 2 compilation errors.  No code generated.'' False False =
     (MT_ErrorSummary, [], [], ''2 compilation errors.  No code generated.'') \<and>
   ParseGlslangOutput ''ERROR: '' False False = (MT_Unknown, [], [], [])"
  by code_simp

end
