(* ===== verification/Resource_Limits.thy ===== *)
theory Resource_Limits
  imports Prelude "HOL-Library.List_Lexorder" "HOL-Library.Char_ord"
begin

text \<open>
  The limits of a compilation: \<open>libshaderc_util/resources.inc\<close> with what its users expand it to, and the
  defaults of \<open>resources.cc\<close>. \<open>RESOURCE(NAME, FIELD, CNAME)\<close> relates an enumerator of
  \<open>Compiler::Limit\<close>, a member of \<open>TBuiltInResource\<close> and an enumerator of \<open>shaderc_limit\<close>; each is written
  as its name (without \<open>shaderc_limit_\<close> for the last), and the resources are the values of their members.
\<close>

type_synonym Limit = string
type_synonym shaderc_limit = string
type_synonym TBuiltInResource = "string \<Rightarrow> int"

definition RESOURCES :: "(Limit \<times> string \<times> shaderc_limit) list" where
  "RESOURCES =
    [(''MaxLights'', ''maxLights'', ''max_lights''),
     (''MaxClipPlanes'', ''maxClipPlanes'', ''max_clip_planes''),
     (''MaxTextureUnits'', ''maxTextureUnits'', ''max_texture_units''),
     (''MaxTextureCoords'', ''maxTextureCoords'', ''max_texture_coords''),
     (''MaxVertexAttribs'', ''maxVertexAttribs'', ''max_vertex_attribs''),
     (''MaxVertexUniformComponents'', ''maxVertexUniformComponents'', ''max_vertex_uniform_components''),
     (''MaxVaryingFloats'', ''maxVaryingFloats'', ''max_varying_floats''),
     (''MaxVertexTextureImageUnits'', ''maxVertexTextureImageUnits'', ''max_vertex_texture_image_units''),
     (''MaxCombinedTextureImageUnits'', ''maxCombinedTextureImageUnits'', ''max_combined_texture_image_units''),
     (''MaxTextureImageUnits'', ''maxTextureImageUnits'', ''max_texture_image_units''),
     (''MaxFragmentUniformComponents'', ''maxFragmentUniformComponents'', ''max_fragment_uniform_components''),
     (''MaxDrawBuffers'', ''maxDrawBuffers'', ''max_draw_buffers''),
     (''MaxVertexUniformVectors'', ''maxVertexUniformVectors'', ''max_vertex_uniform_vectors''),
     (''MaxVaryingVectors'', ''maxVaryingVectors'', ''max_varying_vectors''),
     (''MaxFragmentUniformVectors'', ''maxFragmentUniformVectors'', ''max_fragment_uniform_vectors''),
     (''MaxVertexOutputVectors'', ''maxVertexOutputVectors'', ''max_vertex_output_vectors''),
     (''MaxFragmentInputVectors'', ''maxFragmentInputVectors'', ''max_fragment_input_vectors''),
     (''MinProgramTexelOffset'', ''minProgramTexelOffset'', ''min_program_texel_offset''),
     (''MaxProgramTexelOffset'', ''maxProgramTexelOffset'', ''max_program_texel_offset''),
     (''MaxClipDistances'', ''maxClipDistances'', ''max_clip_distances''),
     (''MaxComputeWorkGroupCountX'', ''maxComputeWorkGroupCountX'', ''max_compute_work_group_count_x''),
     (''MaxComputeWorkGroupCountY'', ''maxComputeWorkGroupCountY'', ''max_compute_work_group_count_y''),
     (''MaxComputeWorkGroupCountZ'', ''maxComputeWorkGroupCountZ'', ''max_compute_work_group_count_z''),
     (''MaxComputeWorkGroupSizeX'', ''maxComputeWorkGroupSizeX'', ''max_compute_work_group_size_x''),
     (''MaxComputeWorkGroupSizeY'', ''maxComputeWorkGroupSizeY'', ''max_compute_work_group_size_y''),
     (''MaxComputeWorkGroupSizeZ'', ''maxComputeWorkGroupSizeZ'', ''max_compute_work_group_size_z''),
     (''MaxComputeUniformComponents'', ''maxComputeUniformComponents'', ''max_compute_uniform_components''),
     (''MaxComputeTextureImageUnits'', ''maxComputeTextureImageUnits'', ''max_compute_texture_image_units''),
     (''MaxComputeImageUniforms'', ''maxComputeImageUniforms'', ''max_compute_image_uniforms''),
     (''MaxComputeAtomicCounters'', ''maxComputeAtomicCounters'', ''max_compute_atomic_counters''),
     (''MaxComputeAtomicCounterBuffers'', ''maxComputeAtomicCounterBuffers'', ''max_compute_atomic_counter_buffers''),
     (''MaxVaryingComponents'', ''maxVaryingComponents'', ''max_varying_components''),
     (''MaxVertexOutputComponents'', ''maxVertexOutputComponents'', ''max_vertex_output_components''),
     (''MaxGeometryInputComponents'', ''maxGeometryInputComponents'', ''max_geometry_input_components''),
     (''MaxGeometryOutputComponents'', ''maxGeometryOutputComponents'', ''max_geometry_output_components''),
     (''MaxFragmentInputComponents'', ''maxFragmentInputComponents'', ''max_fragment_input_components''),
     (''MaxImageUnits'', ''maxImageUnits'', ''max_image_units''),
     (''MaxCombinedImageUnitsAndFragmentOutputs'', ''maxCombinedImageUnitsAndFragmentOutputs'', ''max_combined_image_units_and_fragment_outputs''),
     (''MaxCombinedShaderOutputResources'', ''maxCombinedShaderOutputResources'', ''max_combined_shader_output_resources''),
     (''MaxImageSamples'', ''maxImageSamples'', ''max_image_samples''),
     (''MaxVertexImageUniforms'', ''maxVertexImageUniforms'', ''max_vertex_image_uniforms''),
     (''MaxTessControlImageUniforms'', ''maxTessControlImageUniforms'', ''max_tess_control_image_uniforms''),
     (''MaxTessEvaluationImageUniforms'', ''maxTessEvaluationImageUniforms'', ''max_tess_evaluation_image_uniforms''),
     (''MaxGeometryImageUniforms'', ''maxGeometryImageUniforms'', ''max_geometry_image_uniforms''),
     (''MaxFragmentImageUniforms'', ''maxFragmentImageUniforms'', ''max_fragment_image_uniforms''),
     (''MaxCombinedImageUniforms'', ''maxCombinedImageUniforms'', ''max_combined_image_uniforms''),
     (''MaxGeometryTextureImageUnits'', ''maxGeometryTextureImageUnits'', ''max_geometry_texture_image_units''),
     (''MaxGeometryOutputVertices'', ''maxGeometryOutputVertices'', ''max_geometry_output_vertices''),
     (''MaxGeometryTotalOutputComponents'', ''maxGeometryTotalOutputComponents'', ''max_geometry_total_output_components''),
     (''MaxGeometryUniformComponents'', ''maxGeometryUniformComponents'', ''max_geometry_uniform_components''),
     (''MaxGeometryVaryingComponents'', ''maxGeometryVaryingComponents'', ''max_geometry_varying_components''),
     (''MaxTessControlInputComponents'', ''maxTessControlInputComponents'', ''max_tess_control_input_components''),
     (''MaxTessControlOutputComponents'', ''maxTessControlOutputComponents'', ''max_tess_control_output_components''),
     (''MaxTessControlTextureImageUnits'', ''maxTessControlTextureImageUnits'', ''max_tess_control_texture_image_units''),
     (''MaxTessControlUniformComponents'', ''maxTessControlUniformComponents'', ''max_tess_control_uniform_components''),
     (''MaxTessControlTotalOutputComponents'', ''maxTessControlTotalOutputComponents'', ''max_tess_control_total_output_components''),
     (''MaxTessEvaluationInputComponents'', ''maxTessEvaluationInputComponents'', ''max_tess_evaluation_input_components''),
     (''MaxTessEvaluationOutputComponents'', ''maxTessEvaluationOutputComponents'', ''max_tess_evaluation_output_components''),
     (''MaxTessEvaluationTextureImageUnits'', ''maxTessEvaluationTextureImageUnits'', ''max_tess_evaluation_texture_image_units''),
     (''MaxTessEvaluationUniformComponents'', ''maxTessEvaluationUniformComponents'', ''max_tess_evaluation_uniform_components''),
     (''MaxTessPatchComponents'', ''maxTessPatchComponents'', ''max_tess_patch_components''),
     (''MaxPatchVertices'', ''maxPatchVertices'', ''max_patch_vertices''),
     (''MaxTessGenLevel'', ''maxTessGenLevel'', ''max_tess_gen_level''),
     (''MaxViewports'', ''maxViewports'', ''max_viewports''),
     (''MaxVertexAtomicCounters'', ''maxVertexAtomicCounters'', ''max_vertex_atomic_counters''),
     (''MaxTessControlAtomicCounters'', ''maxTessControlAtomicCounters'', ''max_tess_control_atomic_counters''),
     (''MaxTessEvaluationAtomicCounters'', ''maxTessEvaluationAtomicCounters'', ''max_tess_evaluation_atomic_counters''),
     (''MaxGeometryAtomicCounters'', ''maxGeometryAtomicCounters'', ''max_geometry_atomic_counters''),
     (''MaxFragmentAtomicCounters'', ''maxFragmentAtomicCounters'', ''max_fragment_atomic_counters''),
     (''MaxCombinedAtomicCounters'', ''maxCombinedAtomicCounters'', ''max_combined_atomic_counters''),
     (''MaxAtomicCounterBindings'', ''maxAtomicCounterBindings'', ''max_atomic_counter_bindings''),
     (''MaxVertexAtomicCounterBuffers'', ''maxVertexAtomicCounterBuffers'', ''max_vertex_atomic_counter_buffers''),
     (''MaxTessControlAtomicCounterBuffers'', ''maxTessControlAtomicCounterBuffers'', ''max_tess_control_atomic_counter_buffers''),
     (''MaxTessEvaluationAtomicCounterBuffers'', ''maxTessEvaluationAtomicCounterBuffers'', ''max_tess_evaluation_atomic_counter_buffers''),
     (''MaxGeometryAtomicCounterBuffers'', ''maxGeometryAtomicCounterBuffers'', ''max_geometry_atomic_counter_buffers''),
     (''MaxFragmentAtomicCounterBuffers'', ''maxFragmentAtomicCounterBuffers'', ''max_fragment_atomic_counter_buffers''),
     (''MaxCombinedAtomicCounterBuffers'', ''maxCombinedAtomicCounterBuffers'', ''max_combined_atomic_counter_buffers''),
     (''MaxAtomicCounterBufferSize'', ''maxAtomicCounterBufferSize'', ''max_atomic_counter_buffer_size''),
     (''MaxTransformFeedbackBuffers'', ''maxTransformFeedbackBuffers'', ''max_transform_feedback_buffers''),
     (''MaxTransformFeedbackInterleavedComponents'', ''maxTransformFeedbackInterleavedComponents'', ''max_transform_feedback_interleaved_components''),
     (''MaxCullDistances'', ''maxCullDistances'', ''max_cull_distances''),
     (''MaxCombinedClipAndCullDistances'', ''maxCombinedClipAndCullDistances'', ''max_combined_clip_and_cull_distances''),
     (''MaxSamples'', ''maxSamples'', ''max_samples''),
     (''MaxMeshOutputVerticesNV'', ''maxMeshOutputVerticesNV'', ''max_mesh_output_vertices_nv''),
     (''MaxMeshOutputPrimitivesNV'', ''maxMeshOutputPrimitivesNV'', ''max_mesh_output_primitives_nv''),
     (''MaxMeshWorkGroupSizeX_NV'', ''maxMeshWorkGroupSizeX_NV'', ''max_mesh_work_group_size_x_nv''),
     (''MaxMeshWorkGroupSizeY_NV'', ''maxMeshWorkGroupSizeY_NV'', ''max_mesh_work_group_size_y_nv''),
     (''MaxMeshWorkGroupSizeZ_NV'', ''maxMeshWorkGroupSizeZ_NV'', ''max_mesh_work_group_size_z_nv''),
     (''MaxTaskWorkGroupSizeX_NV'', ''maxTaskWorkGroupSizeX_NV'', ''max_task_work_group_size_x_nv''),
     (''MaxTaskWorkGroupSizeY_NV'', ''maxTaskWorkGroupSizeY_NV'', ''max_task_work_group_size_y_nv''),
     (''MaxTaskWorkGroupSizeZ_NV'', ''maxTaskWorkGroupSizeZ_NV'', ''max_task_work_group_size_z_nv''),
     (''MaxMeshViewCountNV'', ''maxMeshViewCountNV'', ''max_mesh_view_count_nv''),
     (''MaxMeshOutputVerticesEXT'', ''maxMeshOutputVerticesEXT'', ''max_mesh_output_vertices_ext''),
     (''MaxMeshOutputPrimitivesEXT'', ''maxMeshOutputPrimitivesEXT'', ''max_mesh_output_primitives_ext''),
     (''MaxMeshWorkGroupSizeX_EXT'', ''maxMeshWorkGroupSizeX_EXT'', ''max_mesh_work_group_size_x_ext''),
     (''MaxMeshWorkGroupSizeY_EXT'', ''maxMeshWorkGroupSizeY_EXT'', ''max_mesh_work_group_size_y_ext''),
     (''MaxMeshWorkGroupSizeZ_EXT'', ''maxMeshWorkGroupSizeZ_EXT'', ''max_mesh_work_group_size_z_ext''),
     (''MaxTaskWorkGroupSizeX_EXT'', ''maxTaskWorkGroupSizeX_EXT'', ''max_task_work_group_size_x_ext''),
     (''MaxTaskWorkGroupSizeY_EXT'', ''maxTaskWorkGroupSizeY_EXT'', ''max_task_work_group_size_y_ext''),
     (''MaxTaskWorkGroupSizeZ_EXT'', ''maxTaskWorkGroupSizeZ_EXT'', ''max_task_work_group_size_z_ext''),
     (''MaxMeshViewCountEXT'', ''maxMeshViewCountEXT'', ''max_mesh_view_count_ext''),
     (''MaxDualSourceDrawBuffersEXT'', ''maxDualSourceDrawBuffersEXT'', ''max_dual_source_draw_buffers_ext'')]"

text \<open>The members of \<open>TBuiltInResource\<close> in the order of its definition, without the nested \<open>TLimits\<close>.\<close>

definition kDefaultValues :: "(string \<times> int) list" where
  "kDefaultValues =
    [(''maxLights'', 8),
     (''maxClipPlanes'', 6),
     (''maxTextureUnits'', 2),
     (''maxTextureCoords'', 8),
     (''maxVertexAttribs'', 16),
     (''maxVertexUniformComponents'', 4096),
     (''maxVaryingFloats'', 60),
     (''maxVertexTextureImageUnits'', 16),
     (''maxCombinedTextureImageUnits'', 80),
     (''maxTextureImageUnits'', 16),
     (''maxFragmentUniformComponents'', 1024),
     (''maxDrawBuffers'', 8),
     (''maxVertexUniformVectors'', 256),
     (''maxVaryingVectors'', 15),
     (''maxFragmentUniformVectors'', 256),
     (''maxVertexOutputVectors'', 16),
     (''maxFragmentInputVectors'', 15),
     (''minProgramTexelOffset'', -8),
     (''maxProgramTexelOffset'', 7),
     (''maxClipDistances'', 8),
     (''maxComputeWorkGroupCountX'', 65535),
     (''maxComputeWorkGroupCountY'', 65535),
     (''maxComputeWorkGroupCountZ'', 65535),
     (''maxComputeWorkGroupSizeX'', 1024),
     (''maxComputeWorkGroupSizeY'', 1024),
     (''maxComputeWorkGroupSizeZ'', 64),
     (''maxComputeUniformComponents'', 512),
     (''maxComputeTextureImageUnits'', 16),
     (''maxComputeImageUniforms'', 8),
     (''maxComputeAtomicCounters'', 8),
     (''maxComputeAtomicCounterBuffers'', 1),
     (''maxVaryingComponents'', 60),
     (''maxVertexOutputComponents'', 64),
     (''maxGeometryInputComponents'', 64),
     (''maxGeometryOutputComponents'', 128),
     (''maxFragmentInputComponents'', 128),
     (''maxImageUnits'', 8),
     (''maxCombinedImageUnitsAndFragmentOutputs'', 8),
     (''maxCombinedShaderOutputResources'', 8),
     (''maxImageSamples'', 0),
     (''maxVertexImageUniforms'', 0),
     (''maxTessControlImageUniforms'', 0),
     (''maxTessEvaluationImageUniforms'', 0),
     (''maxGeometryImageUniforms'', 0),
     (''maxFragmentImageUniforms'', 8),
     (''maxCombinedImageUniforms'', 8),
     (''maxGeometryTextureImageUnits'', 16),
     (''maxGeometryOutputVertices'', 256),
     (''maxGeometryTotalOutputComponents'', 1024),
     (''maxGeometryUniformComponents'', 512),
     (''maxGeometryVaryingComponents'', 60),
     (''maxTessControlInputComponents'', 128),
     (''maxTessControlOutputComponents'', 128),
     (''maxTessControlTextureImageUnits'', 16),
     (''maxTessControlUniformComponents'', 1024),
     (''maxTessControlTotalOutputComponents'', 4096),
     (''maxTessEvaluationInputComponents'', 128),
     (''maxTessEvaluationOutputComponents'', 128),
     (''maxTessEvaluationTextureImageUnits'', 16),
     (''maxTessEvaluationUniformComponents'', 1024),
     (''maxTessPatchComponents'', 120),
     (''maxPatchVertices'', 32),
     (''maxTessGenLevel'', 64),
     (''maxViewports'', 16),
     (''maxVertexAtomicCounters'', 0),
     (''maxTessControlAtomicCounters'', 0),
     (''maxTessEvaluationAtomicCounters'', 0),
     (''maxGeometryAtomicCounters'', 0),
     (''maxFragmentAtomicCounters'', 8),
     (''maxCombinedAtomicCounters'', 8),
     (''maxAtomicCounterBindings'', 1),
     (''maxVertexAtomicCounterBuffers'', 0),
     (''maxTessControlAtomicCounterBuffers'', 0),
     (''maxTessEvaluationAtomicCounterBuffers'', 0),
     (''maxGeometryAtomicCounterBuffers'', 0),
     (''maxFragmentAtomicCounterBuffers'', 0),
     (''maxCombinedAtomicCounterBuffers'', 1),
     (''maxAtomicCounterBufferSize'', 32),
     (''maxTransformFeedbackBuffers'', 4),
     (''maxTransformFeedbackInterleavedComponents'', 64),
     (''maxCullDistances'', 8),
     (''maxCombinedClipAndCullDistances'', 8),
     (''maxSamples'', 4),
     (''maxMeshOutputVerticesNV'', 256),
     (''maxMeshOutputPrimitivesNV'', 512),
     (''maxMeshWorkGroupSizeX_NV'', 32),
     (''maxMeshWorkGroupSizeY_NV'', 1),
     (''maxMeshWorkGroupSizeZ_NV'', 1),
     (''maxTaskWorkGroupSizeX_NV'', 32),
     (''maxTaskWorkGroupSizeY_NV'', 1),
     (''maxTaskWorkGroupSizeZ_NV'', 1),
     (''maxMeshViewCountNV'', 4),
     (''maxMeshOutputVerticesEXT'', 256),
     (''maxMeshOutputPrimitivesEXT'', 256),
     (''maxMeshWorkGroupSizeX_EXT'', 128),
     (''maxMeshWorkGroupSizeY_EXT'', 128),
     (''maxMeshWorkGroupSizeZ_EXT'', 128),
     (''maxTaskWorkGroupSizeX_EXT'', 128),
     (''maxTaskWorkGroupSizeY_EXT'', 128),
     (''maxTaskWorkGroupSizeZ_EXT'', 128),
     (''maxMeshViewCountEXT'', 4),
     (''maxDualSourceDrawBuffersEXT'', 1)]"

text \<open>The enumerators of \<open>shaderc_limit\<close> in \<open>shaderc.h\<close>.\<close>

definition shaderc_limits :: "shaderc_limit list" where
  "shaderc_limits =
    [''max_lights'',
     ''max_clip_planes'',
     ''max_texture_units'',
     ''max_texture_coords'',
     ''max_vertex_attribs'',
     ''max_vertex_uniform_components'',
     ''max_varying_floats'',
     ''max_vertex_texture_image_units'',
     ''max_combined_texture_image_units'',
     ''max_texture_image_units'',
     ''max_fragment_uniform_components'',
     ''max_draw_buffers'',
     ''max_vertex_uniform_vectors'',
     ''max_varying_vectors'',
     ''max_fragment_uniform_vectors'',
     ''max_vertex_output_vectors'',
     ''max_fragment_input_vectors'',
     ''min_program_texel_offset'',
     ''max_program_texel_offset'',
     ''max_clip_distances'',
     ''max_compute_work_group_count_x'',
     ''max_compute_work_group_count_y'',
     ''max_compute_work_group_count_z'',
     ''max_compute_work_group_size_x'',
     ''max_compute_work_group_size_y'',
     ''max_compute_work_group_size_z'',
     ''max_compute_uniform_components'',
     ''max_compute_texture_image_units'',
     ''max_compute_image_uniforms'',
     ''max_compute_atomic_counters'',
     ''max_compute_atomic_counter_buffers'',
     ''max_varying_components'',
     ''max_vertex_output_components'',
     ''max_geometry_input_components'',
     ''max_geometry_output_components'',
     ''max_fragment_input_components'',
     ''max_image_units'',
     ''max_combined_image_units_and_fragment_outputs'',
     ''max_combined_shader_output_resources'',
     ''max_image_samples'',
     ''max_vertex_image_uniforms'',
     ''max_tess_control_image_uniforms'',
     ''max_tess_evaluation_image_uniforms'',
     ''max_geometry_image_uniforms'',
     ''max_fragment_image_uniforms'',
     ''max_combined_image_uniforms'',
     ''max_geometry_texture_image_units'',
     ''max_geometry_output_vertices'',
     ''max_geometry_total_output_components'',
     ''max_geometry_uniform_components'',
     ''max_geometry_varying_components'',
     ''max_tess_control_input_components'',
     ''max_tess_control_output_components'',
     ''max_tess_control_texture_image_units'',
     ''max_tess_control_uniform_components'',
     ''max_tess_control_total_output_components'',
     ''max_tess_evaluation_input_components'',
     ''max_tess_evaluation_output_components'',
     ''max_tess_evaluation_texture_image_units'',
     ''max_tess_evaluation_uniform_components'',
     ''max_tess_patch_components'',
     ''max_patch_vertices'',
     ''max_tess_gen_level'',
     ''max_viewports'',
     ''max_vertex_atomic_counters'',
     ''max_tess_control_atomic_counters'',
     ''max_tess_evaluation_atomic_counters'',
     ''max_geometry_atomic_counters'',
     ''max_fragment_atomic_counters'',
     ''max_combined_atomic_counters'',
     ''max_atomic_counter_bindings'',
     ''max_vertex_atomic_counter_buffers'',
     ''max_tess_control_atomic_counter_buffers'',
     ''max_tess_evaluation_atomic_counter_buffers'',
     ''max_geometry_atomic_counter_buffers'',
     ''max_fragment_atomic_counter_buffers'',
     ''max_combined_atomic_counter_buffers'',
     ''max_atomic_counter_buffer_size'',
     ''max_transform_feedback_buffers'',
     ''max_transform_feedback_interleaved_components'',
     ''max_cull_distances'',
     ''max_combined_clip_and_cull_distances'',
     ''max_samples'',
     ''max_mesh_output_vertices_nv'',
     ''max_mesh_output_primitives_nv'',
     ''max_mesh_work_group_size_x_nv'',
     ''max_mesh_work_group_size_y_nv'',
     ''max_mesh_work_group_size_z_nv'',
     ''max_task_work_group_size_x_nv'',
     ''max_task_work_group_size_y_nv'',
     ''max_task_work_group_size_z_nv'',
     ''max_mesh_view_count_nv'',
     ''max_mesh_output_vertices_ext'',
     ''max_mesh_output_primitives_ext'',
     ''max_mesh_work_group_size_x_ext'',
     ''max_mesh_work_group_size_y_ext'',
     ''max_mesh_work_group_size_z_ext'',
     ''max_task_work_group_size_x_ext'',
     ''max_task_work_group_size_y_ext'',
     ''max_task_work_group_size_z_ext'',
     ''max_mesh_view_count_ext'',
     ''max_dual_source_draw_buffers_ext'']"

definition kDefaultTBuiltInResource :: TBuiltInResource where
  "kDefaultTBuiltInResource field =
     (case map_of kDefaultValues field of Some value \<Rightarrow> value | None \<Rightarrow> 0)"

text \<open>The switches \<open>resources.inc\<close> is expanded into; a value without a case changes nothing.\<close>

definition limit_field :: "Limit \<Rightarrow> string option" where
  "limit_field limit = map_of (map (\<lambda>(name, field, cname). (name, field)) RESOURCES) limit"

definition set_limit :: "Limit \<Rightarrow> int \<Rightarrow> TBuiltInResource \<Rightarrow> TBuiltInResource" where
  "set_limit limit value limits =
     (case limit_field limit of Some field \<Rightarrow> limits(field := value) | None \<Rightarrow> limits)"

definition get_limit :: "Limit \<Rightarrow> TBuiltInResource \<Rightarrow> int" where
  "get_limit limit limits =
     (case limit_field limit of Some field \<Rightarrow> limits field | None \<Rightarrow> 0)"

definition CompilerLimit :: "shaderc_limit \<Rightarrow> Limit" where
  "CompilerLimit limit =
     (case map_of (map (\<lambda>(name, field, cname). (cname, name)) RESOURCES) limit of
        Some name \<Rightarrow> name
      | None \<Rightarrow> fst (hd RESOURCES))"

section \<open>Properties\<close>

text \<open>
  Names are distinct when they ascend in some order, which takes one comparison for each.
\<close>

fun ascending_names :: "string list \<Rightarrow> bool" where
  "ascending_names (x # y # zs) \<longleftrightarrow> x < y \<and> ascending_names (y # zs)"
| "ascending_names _ \<longleftrightarrow> True"

lemma ascending_names_distinct: "ascending_names xs \<Longrightarrow> sorted xs \<and> distinct xs"
proof (induction xs rule: ascending_names.induct)
  case (1 x y zs)
  then have "sorted (y # zs)" "x < y" "distinct (y # zs)" by auto
  then show ?case by (auto dest: order.strict_trans2)
qed auto

lemma distinct_in_order:
  assumes "ascending_names (map ((!) xs) order)" "length order = length xs"
    "list_all (\<lambda>i. i < length xs) order"
  shows "distinct xs"
proof -
  have "distinct (map ((!) xs) order)" using assms(1) ascending_names_distinct by blast
  then have "card (set (map ((!) xs) order)) = length xs" using assms(2) distinct_card by fastforce
  moreover have "set (map ((!) xs) order) \<subseteq> set xs" using assms(3) by (auto simp: list_all_iff)
  ultimately have "length xs \<le> card (set xs)" by (metis List.finite_set card_mono)
  then show ?thesis by (simp add: card_distinct card_length le_antisym)
qed

lemma RESOURCES_names: "distinct (map fst RESOURCES)"
  by (rule distinct_in_order [where order = "[70, 77, 19, 1, 76, 69, 81, 45, 37, 38, 8, 30, 29, 28, 27, 26, 20, 21, 22, 23, 24, 25, 80,
      11, 101, 75, 68, 44, 35, 16, 10, 14, 74, 67, 43, 33, 34, 47, 46, 48, 49, 50, 39, 36, 0,
      93, 84, 92, 83, 100, 91, 94, 85, 95, 86, 96, 87, 61, 18, 82, 97, 88, 98, 89, 99, 90, 72,
      65, 41, 51, 52, 53, 55, 54, 73, 66, 42, 56, 57, 58, 59, 62, 60, 3, 9, 2, 78, 79, 31, 6,
      13, 71, 64, 4, 40, 32, 15, 7, 5, 12, 63, 17]"])
    (simp_all add: RESOURCES_def)

lemma RESOURCES_fields: "distinct (map (fst \<circ> snd) RESOURCES)"
  by (rule distinct_in_order [where order = "[70, 77, 19, 1, 76, 69, 81, 45, 37, 38, 8, 30, 29, 28, 27, 26, 20, 21, 22, 23, 24, 25, 80,
      11, 101, 75, 68, 44, 35, 16, 10, 14, 74, 67, 43, 33, 34, 47, 46, 48, 49, 50, 39, 36, 0,
      93, 84, 92, 83, 100, 91, 94, 85, 95, 86, 96, 87, 61, 18, 82, 97, 88, 98, 89, 99, 90, 72,
      65, 41, 51, 52, 53, 55, 54, 73, 66, 42, 56, 57, 58, 59, 62, 60, 3, 9, 2, 78, 79, 31, 6,
      13, 71, 64, 4, 40, 32, 15, 7, 5, 12, 63, 17]"])
    (simp_all add: RESOURCES_def)

lemma RESOURCES_cnames: "distinct (map (snd \<circ> snd) RESOURCES)"
  by (rule distinct_in_order [where order = "[70, 77, 19, 1, 76, 69, 81, 45, 37, 38, 8, 30, 29, 28, 27, 26, 20, 21, 22, 23, 24, 25, 80,
      11, 101, 75, 68, 44, 35, 16, 10, 14, 74, 67, 43, 33, 34, 47, 46, 48, 49, 50, 39, 36, 0,
      93, 84, 92, 83, 100, 91, 94, 85, 95, 86, 96, 87, 61, 18, 82, 97, 88, 98, 89, 99, 90, 72,
      65, 41, 51, 52, 53, 55, 54, 73, 66, 42, 56, 57, 58, 59, 62, 60, 3, 9, 2, 78, 79, 31, 6,
      13, 71, 64, 4, 40, 32, 15, 7, 5, 12, 63, 17]"])
    (simp_all add: RESOURCES_def)

lemmas RESOURCES_distinct = RESOURCES_names RESOURCES_fields RESOURCES_cnames

lemma RESOURCES_orders:
  "map (snd \<circ> snd) RESOURCES = shaderc_limits" "map (fst \<circ> snd) RESOURCES = map fst kDefaultValues"
  by (simp_all add: RESOURCES_def shaderc_limits_def kDefaultValues_def)

lemma limit_field_Some: "limit_field limit = Some field \<longleftrightarrow> (\<exists>cname. (limit, field, cname) \<in> set RESOURCES)"
proof -
  have "map fst (map (\<lambda>(name, field, cname). (name, field)) RESOURCES) = map fst RESOURCES"
    by (simp add: split_beta)
  then have "distinct (map fst (map (\<lambda>(name, field, cname). (name, field)) RESOURCES))"
    using RESOURCES_distinct(1) by metis
  then show ?thesis by (force simp: limit_field_def map_of_eq_Some_iff)
qed

lemma limit_field_inj: "limit_field l = Some f \<Longrightarrow> limit_field k = Some f \<Longrightarrow> l = k"
  using RESOURCES_distinct(2) unfolding limit_field_Some distinct_map inj_on_def by fastforce

lemma limit_field_None: "limit_field limit = None \<longleftrightarrow> limit \<notin> set (map fst RESOURCES)"
  by (force simp: limit_field_def map_of_eq_None_iff)

text \<open>The limits are independent of each other: setting one changes what is read for it and for no
  other, because no two share a member of the resources; and each limit of the C interface stands
  for exactly one of them.\<close>

theorem limits_independent:
  "get_limit l (set_limit k value limits) =
     (if l = k \<and> l \<in> set (map fst RESOURCES) then value else get_limit l limits) \<and>
   map CompilerLimit shaderc_limits = map fst RESOURCES \<and> distinct shaderc_limits \<and>
   distinct (map fst RESOURCES)"
proof (intro conjI)
  show "get_limit l (set_limit k value limits) =
      (if l = k \<and> l \<in> set (map fst RESOURCES) then value else get_limit l limits)"
    using limit_field_inj [of l _ k] limit_field_None [of l]
    by (auto simp: get_limit_def set_limit_def split: option.splits)
  show "map CompilerLimit shaderc_limits = map fst RESOURCES"
  proof -
    have "map_of (map (\<lambda>(name, field, cname). (cname, name)) RESOURCES) cname = Some name"
      if "(name, field, cname) \<in> set RESOURCES" for name field cname
    proof -
      have "map fst (map (\<lambda>(name, field, cname). (cname, name)) RESOURCES) = map (snd \<circ> snd) RESOURCES"
        by (simp add: split_beta)
      then have "distinct (map fst (map (\<lambda>(name, field, cname). (cname, name)) RESOURCES))"
        using RESOURCES_distinct(3) by metis
      then show ?thesis using that by (force simp: map_of_eq_Some_iff)
    qed
    then show ?thesis unfolding RESOURCES_orders(1) [symmetric] by (force simp: CompilerLimit_def)
  qed
  show "distinct shaderc_limits" using RESOURCES_distinct(3) unfolding RESOURCES_orders(1) .
qed (rule RESOURCES_distinct(1))

end
