(* ===== verification/Compiler_Options.thy ===== *)
theory Compiler_Options
  imports Resource_Limits Version_Profile Target_Env
begin

text \<open>
  The state of \<open>shaderc_util::Compiler\<close> (\<open>libshaderc_util/compiler.h\<close>): the options of a compilation and
  the operations that set them, in \<open>compiler.cc\<close>, and what they mean for glslang and SPIRV-Tools.
\<close>

section \<open>Enumerations\<close>

datatype SourceLanguage = GLSL | HLSL

text \<open>An \<open>enum class\<close> holds every \<open>int\<close>; a value that is no enumerator is \<open>OtherEnv\<close>.\<close>

datatype TargetEnv = TE_Vulkan | TE_OpenGL | TE_OpenGLCompat | OtherEnv int

fun TargetEnv_int :: "TargetEnv \<Rightarrow> int" where
  "TargetEnv_int TE_Vulkan = 0"
| "TargetEnv_int TE_OpenGL = 1"
| "TargetEnv_int TE_OpenGLCompat = 2"
| "TargetEnv_int (OtherEnv n) = n"

text \<open>\<open>TargetEnvVersion\<close> and \<open>SpirvVersion\<close> are \<open>uint32_t\<close>; values without a name occur.\<close>

type_synonym TargetEnvVersion = uint32_t
definition TEV_Default :: TargetEnvVersion where "TEV_Default = 0"
definition TEV_Vulkan_1_0 :: TargetEnvVersion where "TEV_Vulkan_1_0 = push_bit 22 1"
definition TEV_Vulkan_1_1 :: TargetEnvVersion where "TEV_Vulkan_1_1 = push_bit 22 1 OR push_bit 12 1"
definition TEV_Vulkan_1_2 :: TargetEnvVersion where "TEV_Vulkan_1_2 = push_bit 22 1 OR push_bit 12 2"
definition TEV_Vulkan_1_3 :: TargetEnvVersion where "TEV_Vulkan_1_3 = push_bit 22 1 OR push_bit 12 3"
definition TEV_Vulkan_1_4 :: TargetEnvVersion where "TEV_Vulkan_1_4 = push_bit 22 1 OR push_bit 12 4"
definition TEV_OpenGL_4_5 :: TargetEnvVersion where "TEV_OpenGL_4_5 = 450"

lemmas TEV_defs = TEV_Default_def TEV_Vulkan_1_0_def TEV_Vulkan_1_1_def TEV_Vulkan_1_2_def
  TEV_Vulkan_1_3_def TEV_Vulkan_1_4_def TEV_OpenGL_4_5_def

type_synonym SpirvVersion = uint32_t
definition SV_1_0 :: SpirvVersion where "SV_1_0 = 0x010000"
definition SV_1_1 :: SpirvVersion where "SV_1_1 = 0x010100"
definition SV_1_2 :: SpirvVersion where "SV_1_2 = 0x010200"
definition SV_1_3 :: SpirvVersion where "SV_1_3 = 0x010300"
definition SV_1_4 :: SpirvVersion where "SV_1_4 = 0x010400"
definition SV_1_5 :: SpirvVersion where "SV_1_5 = 0x010500"
definition SV_1_6 :: SpirvVersion where "SV_1_6 = 0x010600"

lemmas SV_defs = SV_1_0_def SV_1_1_def SV_1_2_def SV_1_3_def SV_1_4_def SV_1_5_def SV_1_6_def

datatype OptimizationLevel = OL_Zero | OL_Size | OL_Performance

datatype PassId = kLegalizationPasses | kPerformancePasses | kSizePasses | kNullPass
  | kStripDebugInfo | kCompactIds

datatype UniformKind = UK_Image | UK_Sampler | UK_Texture | UK_Buffer | UK_StorageBuffer
  | UK_UnorderedAccessView

primrec UniformKind_index :: "UniformKind \<Rightarrow> nat" where
  "UniformKind_index UK_Image = 0"
| "UniformKind_index UK_Sampler = 1"
| "UniformKind_index UK_Texture = 2"
| "UniformKind_index UK_Buffer = 3"
| "UniformKind_index UK_StorageBuffer = 4"
| "UniformKind_index UK_UnorderedAccessView = 5"

definition kNumUniformKinds :: nat where
  "kNumUniformKinds = UniformKind_index UK_UnorderedAccessView + 1"

datatype Stage = Stage_Vertex | Stage_TessEval | Stage_TessControl | Stage_Geometry
  | Stage_Fragment | Stage_Compute | Stage_RayGen | Stage_Intersect | Stage_AnyHit
  | Stage_ClosestHit | Stage_Miss | Stage_Callable | Stage_Task | Stage_Mesh | Stage_End

primrec Stage_index :: "Stage \<Rightarrow> nat" where
  "Stage_index Stage_Vertex = 0"
| "Stage_index Stage_TessEval = 1"
| "Stage_index Stage_TessControl = 2"
| "Stage_index Stage_Geometry = 3"
| "Stage_index Stage_Fragment = 4"
| "Stage_index Stage_Compute = 5"
| "Stage_index Stage_RayGen = 6"
| "Stage_index Stage_Intersect = 7"
| "Stage_index Stage_AnyHit = 8"
| "Stage_index Stage_ClosestHit = 9"
| "Stage_index Stage_Miss = 10"
| "Stage_index Stage_Callable = 11"
| "Stage_index Stage_Task = 12"
| "Stage_index Stage_Mesh = 13"
| "Stage_index Stage_End = 14"

definition kNumStages :: nat where "kNumStages = Stage_index Stage_End"

definition stages :: "Stage list" where
  "stages = [Stage_Vertex, Stage_TessEval, Stage_TessControl, Stage_Geometry, Stage_Fragment,
     Stage_Compute, Stage_RayGen, Stage_Intersect, Stage_AnyHit, Stage_ClosestHit, Stage_Miss,
     Stage_Callable, Stage_Task, Stage_Mesh]"

text \<open>The value of an \<open>EShLanguage\<close>, which the compilation indexes the arrays of the options with.\<close>

primrec EShLanguage_index :: "EShLanguage \<Rightarrow> nat" where
  "EShLanguage_index EShLangVertex = 0"
| "EShLanguage_index EShLangTessControl = 1"
| "EShLanguage_index EShLangTessEvaluation = 2"
| "EShLanguage_index EShLangGeometry = 3"
| "EShLanguage_index EShLangFragment = 4"
| "EShLanguage_index EShLangCompute = 5"
| "EShLanguage_index EShLangRayGen = 6"
| "EShLanguage_index EShLangIntersect = 7"
| "EShLanguage_index EShLangAnyHit = 8"
| "EShLanguage_index EShLangClosestHit = 9"
| "EShLanguage_index EShLangMiss = 10"
| "EShLanguage_index EShLangCallable = 11"
| "EShLanguage_index EShLangTask = 12"
| "EShLanguage_index EShLangMesh = 13"
| "EShLanguage_index EShLangCount = 14"

definition ConvertToStage :: "EShLanguage \<Rightarrow> Stage" where
  "ConvertToStage stage =
     (case stage of
        EShLangVertex \<Rightarrow> Stage_Vertex
      | EShLangTessControl \<Rightarrow> Stage_TessEval
      | EShLangTessEvaluation \<Rightarrow> Stage_TessControl
      | EShLangGeometry \<Rightarrow> Stage_Geometry
      | EShLangFragment \<Rightarrow> Stage_Fragment
      | EShLangCompute \<Rightarrow> Stage_Compute
      | EShLangRayGen \<Rightarrow> Stage_RayGen
      | EShLangIntersect \<Rightarrow> Stage_Intersect
      | EShLangAnyHit \<Rightarrow> Stage_AnyHit
      | EShLangClosestHit \<Rightarrow> Stage_ClosestHit
      | EShLangMiss \<Rightarrow> Stage_Miss
      | EShLangCallable \<Rightarrow> Stage_Callable
      | EShLangTask \<Rightarrow> Stage_Task
      | EShLangMesh \<Rightarrow> Stage_Mesh
      | EShLangCount \<Rightarrow> Stage_Compute)"

section \<open>The options\<close>

text \<open>
  \<open>predefined_macros_\<close> is an unordered map; it is kept in the order in which its entries are visited,
  which the standard leaves open, with each name once. The two arrays are lists of \<open>kNumStages\<close>
  entries.
\<close>

record Compiler =
  default_version :: int
  default_profile :: EProfile
  force_version_profile :: bool
  predefined_macros :: "(string \<times> string) list"
  warnings_as_errors :: bool
  suppress_warnings :: bool
  generate_debug_info :: bool
  enabled_opt_passes :: "PassId list"
  target_env :: TargetEnv
  target_env_version :: TargetEnvVersion
  target_spirv_version :: SpirvVersion
  target_spirv_version_is_forced :: bool
  source_language :: SourceLanguage
  limits :: TBuiltInResource
  auto_bind_uniforms :: bool
  auto_combined_image_sampler :: bool
  auto_binding_base :: "uint32_t list list"
  auto_map_locations :: bool
  preserve_bindings :: bool
  hlsl_iomap :: bool
  hlsl_offsets :: bool
  hlsl_legalization_enabled :: bool
  hlsl_functionality1_enabled :: bool
  hlsl_16bit_types_enabled :: bool
  vulkan_rules_relaxed :: bool
  invert_y_enabled :: bool
  nan_clamp :: bool
  hlsl_explicit_bindings :: "string list list"

definition new_Compiler :: Compiler where
  "new_Compiler =
     \<lparr>default_version = 110, default_profile = ENoProfile, force_version_profile = False,
      predefined_macros = [], warnings_as_errors = False, suppress_warnings = False,
      generate_debug_info = False, enabled_opt_passes = [], target_env = TE_Vulkan,
      target_env_version = TEV_Default, target_spirv_version = SV_1_0,
      target_spirv_version_is_forced = False, source_language = GLSL,
      limits = kDefaultTBuiltInResource, auto_bind_uniforms = False,
      auto_combined_image_sampler = False,
      auto_binding_base = replicate kNumStages (replicate kNumUniformKinds 0),
      auto_map_locations = False, preserve_bindings = False, hlsl_iomap = False,
      hlsl_offsets = False, hlsl_legalization_enabled = True, hlsl_functionality1_enabled = False,
      hlsl_16bit_types_enabled = False, vulkan_rules_relaxed = False, invert_y_enabled = False,
      nan_clamp = False, hlsl_explicit_bindings = replicate kNumStages []\<rparr>"

section \<open>Setting them\<close>

definition SetLimit :: "Limit \<Rightarrow> int \<Rightarrow> Compiler \<Rightarrow> Compiler" where
  "SetLimit limit value c = c\<lparr>limits := set_limit limit value (limits c)\<rparr>"

definition GetLimit :: "Limit \<Rightarrow> Compiler \<Rightarrow> int" where
  "GetLimit limit c = get_limit limit (limits c)"

text \<open>
  The name is given with its length; a null definition is \<open>None\<close>. \<open>map_insert\<close> is the assignment to an
  entry of the map; where a new entry comes in the order is an argument.
\<close>

definition map_insert :: "nat \<Rightarrow> 'k \<Rightarrow> 'v \<Rightarrow> ('k \<times> 'v) list \<Rightarrow> ('k \<times> 'v) list" where
  "map_insert place k v m =
     (if k \<in> fst ` set m then map (\<lambda>(k', v'). if k' = k then (k, v) else (k', v')) m
      else list_insert_at place (k, v) m)"

definition AddMacroDefinition ::
  "nat \<Rightarrow> string \<Rightarrow> nat \<Rightarrow> string option \<Rightarrow> nat \<Rightarrow> Compiler \<Rightarrow> Compiler" where
  "AddMacroDefinition place macro macro_length macro_definition definition_length c =
     c\<lparr>predefined_macros := map_insert place (take macro_length macro)
         (case macro_definition of Some d \<Rightarrow> take definition_length d | None \<Rightarrow> '''')
         (predefined_macros c)\<rparr>"

definition SetTargetEnv :: "TargetEnv \<Rightarrow> TargetEnvVersion \<Rightarrow> Compiler \<Rightarrow> Compiler" where
  "SetTargetEnv env version c = c\<lparr>target_env := env, target_env_version := version\<rparr>"

definition SetTargetSpirv :: "SpirvVersion \<Rightarrow> Compiler \<Rightarrow> Compiler" where
  "SetTargetSpirv version c =
     c\<lparr>target_spirv_version := version, target_spirv_version_is_forced := True\<rparr>"

definition SetSourceLanguage :: "SourceLanguage \<Rightarrow> Compiler \<Rightarrow> Compiler" where
  "SetSourceLanguage lang c = c\<lparr>source_language := lang\<rparr>"

definition SetForcedVersionProfile :: "int \<Rightarrow> EProfile \<Rightarrow> Compiler \<Rightarrow> Compiler" where
  "SetForcedVersionProfile version profile c =
     c\<lparr>default_version := version, default_profile := profile, force_version_profile := True\<rparr>"

definition SetWarningsAsErrors :: "Compiler \<Rightarrow> Compiler" where
  "SetWarningsAsErrors c = c\<lparr>warnings_as_errors := True\<rparr>"

definition SetGenerateDebugInfo :: "Compiler \<Rightarrow> Compiler" where
  "SetGenerateDebugInfo c =
     c\<lparr>generate_debug_info := True,
       enabled_opt_passes := map (\<lambda>pass. if pass = kStripDebugInfo then kNullPass else pass)
         (enabled_opt_passes c)\<rparr>"

definition SetOptimizationLevel :: "OptimizationLevel \<Rightarrow> Compiler \<Rightarrow> Compiler" where
  "SetOptimizationLevel level c =
     (let c = c\<lparr>enabled_opt_passes := []\<rparr>;
          strip = (if \<not> generate_debug_info c then [kStripDebugInfo] else [])
      in case level of
           OL_Size \<Rightarrow> c\<lparr>enabled_opt_passes := strip @ [kSizePasses]\<rparr>
         | OL_Performance \<Rightarrow> c\<lparr>enabled_opt_passes := strip @ [kPerformancePasses]\<rparr>
         | _ \<Rightarrow> c)"

definition EnableHlslLegalization :: "bool \<Rightarrow> Compiler \<Rightarrow> Compiler" where
  "EnableHlslLegalization enabled c = c\<lparr>hlsl_legalization_enabled := enabled\<rparr>"

definition EnableHlslFunctionality1 :: "bool \<Rightarrow> Compiler \<Rightarrow> Compiler" where
  "EnableHlslFunctionality1 enable c = c\<lparr>hlsl_functionality1_enabled := enable\<rparr>"

definition SetVulkanRulesRelaxed :: "bool \<Rightarrow> Compiler \<Rightarrow> Compiler" where
  "SetVulkanRulesRelaxed enable c = c\<lparr>vulkan_rules_relaxed := enable\<rparr>"

definition EnableHlsl16BitTypes :: "bool \<Rightarrow> Compiler \<Rightarrow> Compiler" where
  "EnableHlsl16BitTypes enable c = c\<lparr>hlsl_16bit_types_enabled := enable\<rparr>"

definition EnableInvertY :: "bool \<Rightarrow> Compiler \<Rightarrow> Compiler" where
  "EnableInvertY enable c = c\<lparr>invert_y_enabled := enable\<rparr>"

definition SetNanClamp :: "bool \<Rightarrow> Compiler \<Rightarrow> Compiler" where
  "SetNanClamp enable c = c\<lparr>nan_clamp := enable\<rparr>"

definition SetSuppressWarnings :: "Compiler \<Rightarrow> Compiler" where
  "SetSuppressWarnings c = c\<lparr>suppress_warnings := True\<rparr>"

definition SetAutoBindUniforms :: "bool \<Rightarrow> Compiler \<Rightarrow> Compiler" where
  "SetAutoBindUniforms auto_bind c = c\<lparr>auto_bind_uniforms := auto_bind\<rparr>"

definition SetAutoCombinedImageSampler :: "bool \<Rightarrow> Compiler \<Rightarrow> Compiler" where
  "SetAutoCombinedImageSampler auto_combine c = c\<lparr>auto_combined_image_sampler := auto_combine\<rparr>"

definition SetAutoBindingBaseForStage ::
  "Stage \<Rightarrow> UniformKind \<Rightarrow> uint32_t \<Rightarrow> Compiler \<Rightarrow> Compiler" where
  "SetAutoBindingBaseForStage stage kind base c =
     (let i = Stage_index stage
      in c\<lparr>auto_binding_base := (auto_binding_base c)
             [i := (auto_binding_base c ! i)[UniformKind_index kind := base]]\<rparr>)"

definition SetAutoBindingBase :: "UniformKind \<Rightarrow> uint32_t \<Rightarrow> Compiler \<Rightarrow> Compiler" where
  "SetAutoBindingBase kind base c =
     fold (\<lambda>stage. SetAutoBindingBaseForStage stage kind base) stages c"

definition SetPreserveBindings :: "bool \<Rightarrow> Compiler \<Rightarrow> Compiler" where
  "SetPreserveBindings preserve c = c\<lparr>preserve_bindings := preserve\<rparr>"

definition SetAutoMapLocations :: "bool \<Rightarrow> Compiler \<Rightarrow> Compiler" where
  "SetAutoMapLocations auto_map c = c\<lparr>auto_map_locations := auto_map\<rparr>"

definition SetHlslIoMapping :: "bool \<Rightarrow> Compiler \<Rightarrow> Compiler" where
  "SetHlslIoMapping iomap c = c\<lparr>hlsl_iomap := iomap\<rparr>"

definition SetHlslOffsets :: "bool \<Rightarrow> Compiler \<Rightarrow> Compiler" where
  "SetHlslOffsets offsets c = c\<lparr>hlsl_offsets := offsets\<rparr>"

definition SetHlslRegisterSetAndBindingForStage ::
  "Stage \<Rightarrow> string \<Rightarrow> string \<Rightarrow> string \<Rightarrow> Compiler \<Rightarrow> Compiler" where
  "SetHlslRegisterSetAndBindingForStage stage reg set_number binding c =
     (let i = Stage_index stage
      in c\<lparr>hlsl_explicit_bindings := (hlsl_explicit_bindings c)
             [i := hlsl_explicit_bindings c ! i @ [reg, set_number, binding]]\<rparr>)"

definition SetHlslRegisterSetAndBinding :: "string \<Rightarrow> string \<Rightarrow> string \<Rightarrow> Compiler \<Rightarrow> Compiler" where
  "SetHlslRegisterSetAndBinding reg set_number binding c =
     fold (\<lambda>stage. SetHlslRegisterSetAndBindingForStage stage reg set_number binding) stages c"

section \<open>What the environment means for glslang\<close>

datatype EShClient = EShClientNone | EShClientVulkan | EShClientOpenGL

datatype EShTargetClientVersion = EShTargetVulkan_1_0 | EShTargetVulkan_1_1 | EShTargetVulkan_1_2
  | EShTargetVulkan_1_3 | EShTargetVulkan_1_4 | EShTargetOpenGL_450

datatype EShTargetLanguage = EShTargetNone | EShTargetSpv

datatype EShTargetLanguageVersion = EShTargetSpv_1_0 | EShTargetSpv_1_1 | EShTargetSpv_1_2
  | EShTargetSpv_1_3 | EShTargetSpv_1_4 | EShTargetSpv_1_5 | EShTargetSpv_1_6

text \<open>The client version has no initial value; \<open>None\<close> stands for one that was never set.\<close>

record GlslangClientInfo =
  gi_error :: string
  gi_client :: EShClient
  gi_client_version :: "EShTargetClientVersion option"
  gi_target_language :: EShTargetLanguage
  gi_target_language_version :: EShTargetLanguageVersion

definition hex_digit :: "nat \<Rightarrow> char" where
  "hex_digit d = ''0123456789abcdef'' ! d"

fun hex_string :: "nat \<Rightarrow> string" where
  "hex_string n = (if n < 16 then [hex_digit n] else hex_string (n div 16) @ [hex_digit (n mod 16)])"

definition invalid_client_version :: "string \<Rightarrow> TargetEnvVersion \<Rightarrow> string \<Rightarrow> TargetEnv \<Rightarrow> string" where
  "invalid_client_version error_tag env_version name env =
     ''error:'' @ error_tag @ '': Invalid target client version '' @ ToString (unat env_version) @
     '' for '' @ name @ '' environment '' @ int_string (TargetEnv_int env)"

definition client_info ::
  "string \<Rightarrow> TargetEnv \<Rightarrow> TargetEnvVersion \<Rightarrow> GlslangClientInfo" where
  "client_info error_tag env env_version =
     (let result = \<lparr>gi_error = '''', gi_client = EShClientNone, gi_client_version = None,
            gi_target_language = EShTargetSpv, gi_target_language_version = EShTargetSpv_1_0\<rparr>
      in case env of
           TE_Vulkan \<Rightarrow>
             (let result = result\<lparr>gi_client := EShClientVulkan\<rparr>
              in if env_version = TEV_Default \<or> env_version = TEV_Vulkan_1_0 then
                   result\<lparr>gi_client_version := Some EShTargetVulkan_1_0\<rparr>
                 else if env_version = TEV_Vulkan_1_1 then
                   result\<lparr>gi_client_version := Some EShTargetVulkan_1_1,
                          gi_target_language_version := EShTargetSpv_1_3\<rparr>
                 else if env_version = TEV_Vulkan_1_2 then
                   result\<lparr>gi_client_version := Some EShTargetVulkan_1_2,
                          gi_target_language_version := EShTargetSpv_1_5\<rparr>
                 else if env_version = TEV_Vulkan_1_3 then
                   result\<lparr>gi_client_version := Some EShTargetVulkan_1_3,
                          gi_target_language_version := EShTargetSpv_1_6\<rparr>
                 else if env_version = TEV_Vulkan_1_4 then
                   result\<lparr>gi_client_version := Some EShTargetVulkan_1_4,
                          gi_target_language_version := EShTargetSpv_1_6\<rparr>
                 else result\<lparr>gi_error := invalid_client_version error_tag env_version ''Vulkan'' env\<rparr>)
         | TE_OpenGLCompat \<Rightarrow>
             result\<lparr>gi_error := ''error: OpenGL compatibility profile is not supported''\<rparr>
         | TE_OpenGL \<Rightarrow>
             (let result = result\<lparr>gi_client := EShClientOpenGL\<rparr>
              in if env_version = TEV_Default \<or> env_version = TEV_OpenGL_4_5 then
                   result\<lparr>gi_client_version := Some EShTargetOpenGL_450\<rparr>
                 else result\<lparr>gi_error := invalid_client_version error_tag env_version ''OpenGL'' env\<rparr>)
         | OtherEnv _ \<Rightarrow>
             result\<lparr>gi_error := ''error:'' @ error_tag @ '': Invalid target client environment '' @
                    int_string (TargetEnv_int env)\<rparr>)"

definition spv_language_version :: "SpirvVersion \<Rightarrow> EShTargetLanguageVersion option" where
  "spv_language_version v =
     (if v = SV_1_0 then Some EShTargetSpv_1_0 else if v = SV_1_1 then Some EShTargetSpv_1_1
      else if v = SV_1_2 then Some EShTargetSpv_1_2 else if v = SV_1_3 then Some EShTargetSpv_1_3
      else if v = SV_1_4 then Some EShTargetSpv_1_4 else if v = SV_1_5 then Some EShTargetSpv_1_5
      else if v = SV_1_6 then Some EShTargetSpv_1_6 else None)"

definition GetGlslangClientInfo ::
  "string \<Rightarrow> TargetEnv \<Rightarrow> TargetEnvVersion \<Rightarrow> SpirvVersion \<Rightarrow> bool \<Rightarrow> GlslangClientInfo" where
  "GetGlslangClientInfo error_tag env env_version spv_version spv_version_is_forced =
     (let result = client_info error_tag env env_version
      in if spv_version_is_forced \<and> gi_error result = [] then
           (case spv_language_version spv_version of
              Some v \<Rightarrow> result\<lparr>gi_target_language_version := v\<rparr>
            | None \<Rightarrow> result\<lparr>gi_error := ''error:'' @ error_tag @ '': Unknown SPIR-V version '' @
                               hex_string (unat spv_version)\<rparr>)
         else result)"

text \<open>\<open>EShMessages\<close> is a set of flags.\<close>

definition EShMsgSpvRules :: uint32_t where "EShMsgSpvRules = push_bit 3 1"
definition EShMsgVulkanRules :: uint32_t where "EShMsgVulkanRules = push_bit 4 1"
definition EShMsgOnlyPreprocessor :: uint32_t where "EShMsgOnlyPreprocessor = push_bit 5 1"
definition EShMsgReadHlsl :: uint32_t where "EShMsgReadHlsl = push_bit 6 1"
definition EShMsgCascadingErrors :: uint32_t where "EShMsgCascadingErrors = push_bit 7 1"
definition EShMsgHlslOffsets :: uint32_t where "EShMsgHlslOffsets = push_bit 9 1"
definition EShMsgDebugInfo :: uint32_t where "EShMsgDebugInfo = push_bit 10 1"
definition EShMsgHlslEnable16BitTypes :: uint32_t where "EShMsgHlslEnable16BitTypes = push_bit 11 1"

definition GetMessageRules ::
  "TargetEnv \<Rightarrow> SourceLanguage \<Rightarrow> bool \<Rightarrow> bool \<Rightarrow> bool \<Rightarrow> uint32_t" where
  "GetMessageRules env lang offsets types_16bit debug_info =
     (let result = EShMsgCascadingErrors;
          result = (if lang = HLSL then result OR EShMsgReadHlsl else result);
          result = (case env of
                      TE_OpenGLCompat \<Rightarrow> result
                    | TE_OpenGL \<Rightarrow> result OR EShMsgSpvRules
                    | TE_Vulkan \<Rightarrow> result OR EShMsgSpvRules OR EShMsgVulkanRules
                    | OtherEnv _ \<Rightarrow> result);
          result = (if offsets then result OR EShMsgHlslOffsets else result);
          result = (if types_16bit then result OR EShMsgHlslEnable16BitTypes else result)
      in if debug_info then result OR EShMsgDebugInfo else result)"

section \<open>What it means for SPIRV-Tools\<close>

definition GetSpirvToolsTargetEnv :: "TargetEnv \<Rightarrow> TargetEnvVersion \<Rightarrow> spv_target_env" where
  "GetSpirvToolsTargetEnv env version =
     (case env of
        TE_Vulkan \<Rightarrow>
          if version = TEV_Default then SPV_ENV_VULKAN_1_0
          else if version = TEV_Vulkan_1_0 then SPV_ENV_VULKAN_1_0
          else if version = TEV_Vulkan_1_1 then SPV_ENV_VULKAN_1_1
          else if version = TEV_Vulkan_1_2 then SPV_ENV_VULKAN_1_2
          else if version = TEV_Vulkan_1_3 then SPV_ENV_VULKAN_1_3
          else if version = TEV_Vulkan_1_4 then SPV_ENV_VULKAN_1_4
          else SPV_ENV_VULKAN_1_0
      | TE_OpenGL \<Rightarrow> SPV_ENV_OPENGL_4_5
      | TE_OpenGLCompat \<Rightarrow> SPV_ENV_OPENGL_4_5
      | OtherEnv _ \<Rightarrow> SPV_ENV_VULKAN_1_0)"

section \<open>Sequences of operations\<close>

text \<open>
  The operations of the options, with their arguments, and what each does.
\<close>

datatype option_call = CallSetLimit Limit int
  | CallAddMacroDefinition nat string nat "string option" nat
  | CallSetTargetEnv TargetEnv TargetEnvVersion | CallSetTargetSpirv SpirvVersion
  | CallSetSourceLanguage SourceLanguage | CallSetForcedVersionProfile int EProfile
  | CallSetWarningsAsErrors | CallSetGenerateDebugInfo
  | CallSetOptimizationLevel OptimizationLevel | CallEnableHlslLegalization bool
  | CallEnableHlslFunctionality1 bool | CallSetVulkanRulesRelaxed bool
  | CallEnableHlsl16BitTypes bool | CallEnableInvertY bool | CallSetNanClamp bool
  | CallSetSuppressWarnings | CallSetAutoBindUniforms bool | CallSetAutoCombinedImageSampler bool
  | CallSetAutoBindingBaseForStage Stage UniformKind uint32_t
  | CallSetAutoBindingBase UniformKind uint32_t | CallSetPreserveBindings bool
  | CallSetAutoMapLocations bool | CallSetHlslIoMapping bool | CallSetHlslOffsets bool
  | CallSetHlslRegisterSetAndBindingForStage Stage string string string
  | CallSetHlslRegisterSetAndBinding string string string

primrec apply_option :: "option_call \<Rightarrow> Compiler \<Rightarrow> Compiler" where
  "apply_option (CallSetLimit l v) = SetLimit l v"
| "apply_option (CallAddMacroDefinition place m n d k) = AddMacroDefinition place m n d k"
| "apply_option (CallSetTargetEnv e v) = SetTargetEnv e v"
| "apply_option (CallSetTargetSpirv v) = SetTargetSpirv v"
| "apply_option (CallSetSourceLanguage l) = SetSourceLanguage l"
| "apply_option (CallSetForcedVersionProfile v p) = SetForcedVersionProfile v p"
| "apply_option CallSetWarningsAsErrors = SetWarningsAsErrors"
| "apply_option CallSetGenerateDebugInfo = SetGenerateDebugInfo"
| "apply_option (CallSetOptimizationLevel l) = SetOptimizationLevel l"
| "apply_option (CallEnableHlslLegalization b) = EnableHlslLegalization b"
| "apply_option (CallEnableHlslFunctionality1 b) = EnableHlslFunctionality1 b"
| "apply_option (CallSetVulkanRulesRelaxed b) = SetVulkanRulesRelaxed b"
| "apply_option (CallEnableHlsl16BitTypes b) = EnableHlsl16BitTypes b"
| "apply_option (CallEnableInvertY b) = EnableInvertY b"
| "apply_option (CallSetNanClamp b) = SetNanClamp b"
| "apply_option CallSetSuppressWarnings = SetSuppressWarnings"
| "apply_option (CallSetAutoBindUniforms b) = SetAutoBindUniforms b"
| "apply_option (CallSetAutoCombinedImageSampler b) = SetAutoCombinedImageSampler b"
| "apply_option (CallSetAutoBindingBaseForStage s k b) = SetAutoBindingBaseForStage s k b"
| "apply_option (CallSetAutoBindingBase k b) = SetAutoBindingBase k b"
| "apply_option (CallSetPreserveBindings b) = SetPreserveBindings b"
| "apply_option (CallSetAutoMapLocations b) = SetAutoMapLocations b"
| "apply_option (CallSetHlslIoMapping b) = SetHlslIoMapping b"
| "apply_option (CallSetHlslOffsets b) = SetHlslOffsets b"
| "apply_option (CallSetHlslRegisterSetAndBindingForStage s r n b) =
     SetHlslRegisterSetAndBindingForStage s r n b"
| "apply_option (CallSetHlslRegisterSetAndBinding r n b) = SetHlslRegisterSetAndBinding r n b"

lemmas option_defs = SetLimit_def AddMacroDefinition_def SetTargetEnv_def SetTargetSpirv_def
  SetSourceLanguage_def SetForcedVersionProfile_def SetWarningsAsErrors_def
  EnableHlslLegalization_def EnableHlslFunctionality1_def SetVulkanRulesRelaxed_def
  EnableHlsl16BitTypes_def EnableInvertY_def SetNanClamp_def SetSuppressWarnings_def
  SetAutoBindUniforms_def SetAutoCombinedImageSampler_def SetPreserveBindings_def
  SetAutoMapLocations_def SetHlslIoMapping_def SetHlslOffsets_def

text \<open>
  What the options keep: no pass that strips the debug info that was asked for, the shapes of the
  arrays, each macro once.
\<close>

definition options_ok :: "Compiler \<Rightarrow> bool" where
  "options_ok c \<longleftrightarrow>
     (generate_debug_info c \<longrightarrow> kStripDebugInfo \<notin> set (enabled_opt_passes c)) \<and>
     length (enabled_opt_passes c) \<le> 2 \<and>
     length (auto_binding_base c) = kNumStages \<and>
     (\<forall>bases \<in> set (auto_binding_base c). length bases = kNumUniformKinds) \<and>
     length (hlsl_explicit_bindings c) = kNumStages \<and>
     (\<forall>bindings \<in> set (hlsl_explicit_bindings c). length bindings mod 3 = 0) \<and>
     distinct (map fst (predefined_macros c))"

lemma options_ok_new: "options_ok new_Compiler"
  by (simp add: options_ok_def new_Compiler_def)

lemma distinct_map_insert: "distinct (map fst m) \<Longrightarrow> distinct (map fst (map_insert place k v m))"
proof -
  assume d: "distinct (map fst m)"
  have "map fst (map (\<lambda>(k', v'). if k' = k then (k, v) else (k', v')) m) = map fst m"
    by (induction m) auto
  moreover have "distinct (map fst (list_insert_at place (k, v) m))" if "k \<notin> fst ` set m"
  proof -
    have "map fst m = map fst (take place m) @ map fst (drop place m)"
      by (metis append_take_drop_id map_append)
    with d have "distinct (map fst (take place m) @ map fst (drop place m))" by simp
    moreover have "k \<notin> set (map fst (take place m))" "k \<notin> set (map fst (drop place m))"
      using that by (auto dest: in_set_takeD in_set_dropD)
    ultimately show ?thesis by (simp add: list_insert_at_def)
  qed
  ultimately show ?thesis using d by (simp add: map_insert_def del: map_map)
qed

lemma set_update_all:
  assumes "\<forall>x \<in> set xs. P x" "i < length xs \<Longrightarrow> P y"
  shows "\<forall>x \<in> set (xs[i := y]). P x"
proof (cases "i < length xs")
  case True
  then show ?thesis using assms set_update_subset_insert [of xs i y] by blast
qed (use assms in \<open>simp add: not_less list_update_beyond\<close>)

lemma binding_base_ok: "options_ok c \<Longrightarrow> options_ok (SetAutoBindingBaseForStage s k b c)"
proof -
  assume ok: "options_ok c"
  have "\<forall>row \<in> set ((auto_binding_base c)[i := (auto_binding_base c ! i)[j := b]]).
      length row = kNumUniformKinds" for i j
    using ok by (intro set_update_all) (auto simp: options_ok_def)
  then show ?thesis using ok by (simp add: options_ok_def SetAutoBindingBaseForStage_def Let_def)
qed

lemma register_binding_ok: "options_ok c \<Longrightarrow> options_ok (SetHlslRegisterSetAndBindingForStage s r n b c)"
proof -
  assume ok: "options_ok c"
  have "length row mod 3 = 0 \<Longrightarrow> length (row @ [r, n, b]) mod 3 = 0" for row :: "string list"
    by simp
  then have "\<forall>row \<in> set ((hlsl_explicit_bindings c)[i := hlsl_explicit_bindings c ! i @ [r, n, b]]).
      length row mod 3 = 0" for i
    using ok by (intro set_update_all) (auto simp: options_ok_def)
  then show ?thesis using ok by (auto simp: options_ok_def SetHlslRegisterSetAndBindingForStage_def Let_def)
qed

lemma fold_options_ok: "(\<And>x c. options_ok c \<Longrightarrow> options_ok (f x c)) \<Longrightarrow> options_ok c \<Longrightarrow> options_ok (fold f xs c)"
  by (induction xs arbitrary: c) auto

lemma optimization_level_ok: "options_ok c \<Longrightarrow> options_ok (SetOptimizationLevel l c)"
  by (cases l) (auto simp: options_ok_def SetOptimizationLevel_def Let_def)

lemma debug_info_ok: "options_ok c \<Longrightarrow> options_ok (SetGenerateDebugInfo c)"
  by (auto simp: options_ok_def SetGenerateDebugInfo_def)

lemma apply_option_ok: "options_ok c \<Longrightarrow> options_ok (apply_option op c)"
proof (cases op)
  case (CallAddMacroDefinition place m n d k)
  then show "options_ok c \<Longrightarrow> ?thesis"
    by (simp add: options_ok_def AddMacroDefinition_def distinct_map_insert)
next
  case (CallSetOptimizationLevel l)
  then show "options_ok c \<Longrightarrow> ?thesis" by (simp add: optimization_level_ok)
next
  case CallSetGenerateDebugInfo
  then show "options_ok c \<Longrightarrow> ?thesis" by (simp add: debug_info_ok)
next
  case (CallSetAutoBindingBaseForStage s k b)
  then show "options_ok c \<Longrightarrow> ?thesis" by (simp add: binding_base_ok)
next
  case (CallSetAutoBindingBase k b)
  then show "options_ok c \<Longrightarrow> ?thesis" by (simp add: SetAutoBindingBase_def fold_options_ok binding_base_ok)
next
  case (CallSetHlslRegisterSetAndBindingForStage s r n b)
  then show "options_ok c \<Longrightarrow> ?thesis" by (simp add: register_binding_ok)
next
  case (CallSetHlslRegisterSetAndBinding r n b)
  then show "options_ok c \<Longrightarrow> ?thesis"
    by (simp add: SetHlslRegisterSetAndBinding_def fold_options_ok register_binding_ok)
qed (simp_all add: options_ok_def option_defs)

interpretation options: step_invariant apply_option options_ok
  by unfold_locales (rule apply_option_ok)

section \<open>The passes that take effect\<close>

text \<open>The passes the last level asks for, with debug info requested or not.\<close>

definition level_passes :: "bool \<Rightarrow> OptimizationLevel \<Rightarrow> PassId list" where
  "level_passes debug level =
     (case level of OL_Zero \<Rightarrow> []
      | OL_Size \<Rightarrow> (if debug then [] else [kStripDebugInfo]) @ [kSizePasses]
      | OL_Performance \<Rightarrow> (if debug then [] else [kStripDebugInfo]) @ [kPerformancePasses])"

definition effective_passes :: "Compiler \<Rightarrow> PassId list" where
  "effective_passes c = filter (\<lambda>pass. pass \<noteq> kNullPass) (enabled_opt_passes c)"

definition last_level :: "option_call list \<Rightarrow> OptimizationLevel" where
  "last_level ops = fold (\<lambda>op level. case op of CallSetOptimizationLevel l \<Rightarrow> l | _ \<Rightarrow> level) ops OL_Zero"

lemma passes_frame:
  assumes "op \<noteq> CallSetGenerateDebugInfo" "\<And>l. op \<noteq> CallSetOptimizationLevel l"
  shows "enabled_opt_passes (apply_option op c) = enabled_opt_passes c \<and>
    generate_debug_info (apply_option op c) = generate_debug_info c"
proof -
  have fold: "enabled_opt_passes (fold f xs c) = enabled_opt_passes c \<and>
      generate_debug_info (fold f xs c) = generate_debug_info c"
    if "\<And>x c. enabled_opt_passes (f x c) = enabled_opt_passes c \<and>
      generate_debug_info (f x c) = generate_debug_info c" for f :: "Stage \<Rightarrow> Compiler \<Rightarrow> Compiler" and xs c
    by (induction xs arbitrary: c) (use that in auto)
  show ?thesis
  proof (cases op)
    case (CallSetOptimizationLevel l)
    then show ?thesis using assms(2) by blast
  qed (use assms(1) in \<open>simp_all add: option_defs SetAutoBindingBase_def SetHlslRegisterSetAndBinding_def
        SetAutoBindingBaseForStage_def SetHlslRegisterSetAndBindingForStage_def Let_def fold\<close>)
qed

lemma passes_run:
  "effective_passes (fold apply_option ops new_Compiler) =
     level_passes (CallSetGenerateDebugInfo \<in> set ops) (last_level ops) \<and>
   generate_debug_info (fold apply_option ops new_Compiler) = (CallSetGenerateDebugInfo \<in> set ops)"
proof (induction ops rule: rev_induct)
  case Nil
  then show ?case by (simp add: effective_passes_def new_Compiler_def level_passes_def last_level_def)
next
  case (snoc op ops)
  let ?c = "fold apply_option ops new_Compiler"
  consider "op = CallSetGenerateDebugInfo" | l where "op = CallSetOptimizationLevel l"
    | "op \<noteq> CallSetGenerateDebugInfo" "\<And>l. op \<noteq> CallSetOptimizationLevel l" by blast
  then show ?case
  proof cases
    case 1
    have "filter (\<lambda>p. p \<noteq> kNullPass) (map (\<lambda>p. if p = kStripDebugInfo then kNullPass else p) ps) =
        filter (\<lambda>p. p \<noteq> kStripDebugInfo) (filter (\<lambda>p. p \<noteq> kNullPass) ps)" for ps
      by (induction ps) auto
    then have "effective_passes (SetGenerateDebugInfo ?c) =
        filter (\<lambda>p. p \<noteq> kStripDebugInfo) (effective_passes ?c)"
      by (simp add: effective_passes_def SetGenerateDebugInfo_def del: filter_filter)
    also have "\<dots> = filter (\<lambda>p. p \<noteq> kStripDebugInfo)
        (level_passes (CallSetGenerateDebugInfo \<in> set ops) (last_level ops))"
      using snoc by simp
    also have "\<dots> = level_passes True (last_level ops)"
      by (simp add: level_passes_def split: OptimizationLevel.splits)
    finally show ?thesis using 1 by (simp add: last_level_def SetGenerateDebugInfo_def)
  next
    case (2 l)
    then show ?thesis using snoc
      by (cases l) (auto simp: SetOptimizationLevel_def Let_def effective_passes_def level_passes_def last_level_def)
  next
    case 3
    then have "last_level (ops @ [op]) = last_level ops"
    proof (cases op)
      case (CallSetOptimizationLevel l)
      then show ?thesis using 3(2) by blast
    qed (simp_all add: last_level_def)
    then show ?thesis using snoc passes_frame [OF 3, of ?c] 3(1) by (auto simp: effective_passes_def)
  qed
qed

section \<open>Versions that go together\<close>

definition language_version_word :: "EShTargetLanguageVersion \<Rightarrow> uint32_t" where
  "language_version_word v =
     (case v of
        EShTargetSpv_1_0 \<Rightarrow> SPV_SPIRV_VERSION_WORD 1 0 | EShTargetSpv_1_1 \<Rightarrow> SPV_SPIRV_VERSION_WORD 1 1
      | EShTargetSpv_1_2 \<Rightarrow> SPV_SPIRV_VERSION_WORD 1 2 | EShTargetSpv_1_3 \<Rightarrow> SPV_SPIRV_VERSION_WORD 1 3
      | EShTargetSpv_1_4 \<Rightarrow> SPV_SPIRV_VERSION_WORD 1 4 | EShTargetSpv_1_5 \<Rightarrow> SPV_SPIRV_VERSION_WORD 1 5
      | EShTargetSpv_1_6 \<Rightarrow> SPV_SPIRV_VERSION_WORD 1 6)"

lemma client_info_valid:
  "gi_error (client_info tag env v) = [] \<longleftrightarrow>
    env = TE_Vulkan \<and> v \<in> {TEV_Default, TEV_Vulkan_1_0, TEV_Vulkan_1_1, TEV_Vulkan_1_2, TEV_Vulkan_1_3, TEV_Vulkan_1_4} \<or>
    env = TE_OpenGL \<and> v \<in> {TEV_Default, TEV_OpenGL_4_5}"
  by (cases env) (simp_all add: client_info_def Let_def invalid_client_version_def)

lemma client_info_version:
  "gi_error (client_info tag env v) = [] \<Longrightarrow>
    gi_client_version (client_info tag env v) \<noteq> None \<and>
    language_version_word (gi_target_language_version (client_info tag env v)) =
      spvVersionForTargetEnv (GetSpirvToolsTargetEnv env v)"
  unfolding client_info_valid
  by (elim disjE conjE; simp)
    (auto simp: client_info_def Let_def TEV_defs language_version_word_def GetSpirvToolsTargetEnv_def
      spvVersionForTargetEnv_def)

lemma spv_language_version_word:
  "spv_language_version v = Some l \<longleftrightarrow> v = language_version_word l"
  by (cases l) (auto simp: spv_language_version_def SV_defs language_version_word_def
      SPV_SPIRV_VERSION_WORD_def split: if_splits)

lemma language_version_words:
  "spv \<in> SPV_SPIRV_VERSION_WORD 1 ` {0, 1, 2, 3, 4, 5, 6} \<longleftrightarrow> (\<exists>l. spv = language_version_word l)"
proof
  assume "spv \<in> SPV_SPIRV_VERSION_WORD 1 ` {0, 1, 2, 3, 4, 5, 6}"
  then have "spv \<in> language_version_word ` {EShTargetSpv_1_0, EShTargetSpv_1_1, EShTargetSpv_1_2,
      EShTargetSpv_1_3, EShTargetSpv_1_4, EShTargetSpv_1_5, EShTargetSpv_1_6}"
    by (simp add: language_version_word_def)
  then show "\<exists>l. spv = language_version_word l" by blast
next
  assume "\<exists>l. spv = language_version_word l"
  then obtain l where "spv = language_version_word l" by blast
  then show "spv \<in> SPV_SPIRV_VERSION_WORD 1 ` {0, 1, 2, 3, 4, 5, 6}"
    by (cases l) (simp_all add: language_version_word_def)
qed

section \<open>Properties\<close>

text \<open>C29: whatever options are set in whatever order, no pass strips the debug info once it has been
  asked for, at most two passes are enabled, the arrays of binding bases and register bindings keep
  their shapes, and each macro is defined once.\<close>

theorem options_invariant:
  "options_ok (fold apply_option ops new_Compiler)"
  using options_ok_new by (rule options.run_inv)

text \<open>The passes that take effect depend only on the optimization level set last and on whether debug
  info was asked for at any time, before or after: stripping debug info comes first and is left out
  when it was asked for.\<close>

theorem optimization_order_irrelevant:
  "filter (\<lambda>pass. pass \<noteq> kNullPass) (enabled_opt_passes (fold apply_option ops new_Compiler)) =
   (case last_level ops of OL_Zero \<Rightarrow> []
    | OL_Size \<Rightarrow> (if CallSetGenerateDebugInfo \<in> set ops then [] else [kStripDebugInfo]) @ [kSizePasses]
    | OL_Performance \<Rightarrow>
        (if CallSetGenerateDebugInfo \<in> set ops then [] else [kStripDebugInfo]) @ [kPerformancePasses])"
  using passes_run [of ops] by (simp add: effective_passes_def level_passes_def)

text \<open>C38: an environment without an error names a client version, and without a forced version glslang
  is asked for the SPIR-V version that SPIRV-Tools takes for the same environment; a forced version
  replaces it when it is one of 1.0 to 1.6 and is an error otherwise.\<close>

theorem client_info_agrees:
  assumes "gi_error (GetGlslangClientInfo tag env v spv False) = []"
  shows "gi_client_version (GetGlslangClientInfo tag env v spv forced) \<noteq> None \<and>
    language_version_word (gi_target_language_version (GetGlslangClientInfo tag env v spv False)) =
      spvVersionForTargetEnv (GetSpirvToolsTargetEnv env v) \<and>
    (gi_error (GetGlslangClientInfo tag env v spv True) = []) =
      (spv \<in> SPV_SPIRV_VERSION_WORD 1 ` {0, 1, 2, 3, 4, 5, 6}) \<and>
    (if gi_error (GetGlslangClientInfo tag env v spv True) = []
     then language_version_word (gi_target_language_version (GetGlslangClientInfo tag env v spv True)) = spv
     else True)"
proof -
  have info: "gi_error (client_info tag env v) = []"
    using assms by (simp add: GetGlslangClientInfo_def Let_def)
  have words: "spv \<in> SPV_SPIRV_VERSION_WORD 1 ` {0, 1, 2, 3, 4, 5, 6} \<longleftrightarrow> spv_language_version spv \<noteq> None"
    unfolding language_version_words using spv_language_version_word by auto
  show ?thesis
  proof (cases "spv_language_version spv")
    case None
    then show ?thesis unfolding words using info client_info_version [OF info]
      by (simp add: GetGlslangClientInfo_def Let_def)
  next
    case (Some l)
    then have "language_version_word l = spv" by (simp add: spv_language_version_word)
    then show ?thesis unfolding words using Some info client_info_version [OF info]
      by (simp add: GetGlslangClientInfo_def Let_def)
  qed
qed

theorem client_info_agrees_witness:
  "gi_client_version (GetGlslangClientInfo ''a.vert'' TE_Vulkan TEV_Vulkan_1_2 0x10500 True) \<noteq> None \<and>
    language_version_word (gi_target_language_version
      (GetGlslangClientInfo ''a.vert'' TE_Vulkan TEV_Vulkan_1_2 0x10500 False)) =
      spvVersionForTargetEnv (GetSpirvToolsTargetEnv TE_Vulkan TEV_Vulkan_1_2)"
  using client_info_agrees [of "''a.vert''" TE_Vulkan TEV_Vulkan_1_2 "0x10500" True]
  by (simp add: GetGlslangClientInfo_def client_info_def Let_def)

end
