(* ===== verification/Shader_Source.thy ===== *)
theory Shader_Source
  imports Message Compiler_Options Endian
begin

text \<open>
  What \<open>libshaderc_util/compiler.cc\<close> does with the text of a shader around the calls of glslang:
  \<open>#line\<close> directives, the version and the stage a preprocessed shader asks for, and the removal of
  the preamble that is put in front of it.
\<close>

section \<open>Line directives\<close>

definition LineDirectiveIsForNextLine :: "int \<Rightarrow> EProfile \<Rightarrow> bool" where
  "LineDirectiveIsForNextLine version profile \<longleftrightarrow> profile = EEsProfile \<or> version \<ge> 330"

definition newline :: char where "newline = CHR 0x0A"

definition GetLineDirective :: "int \<Rightarrow> string \<Rightarrow> string" where
  "GetLineDirective line filename = ''#line '' @ int_string line @ '' '' @ [CHR 0x22] @ filename @ [CHR 0x22, newline]"

text \<open>\<open>atoi\<close>, for numbers that fit an \<open>int\<close>: white space, a sign, and digits.\<close>

definition atoi :: "string \<Rightarrow> int" where
  "atoi s =
     (let s = dropWhile is_space s
      in case s of
           CHR ''-'' # t \<Rightarrow> - digits_value (takeWhile is_digit t)
         | CHR ''+'' # t \<Rightarrow> digits_value (takeWhile is_digit t)
         | _ \<Rightarrow> digits_value (takeWhile is_digit s))"

definition DecodeLineDirective :: "string \<Rightarrow> int \<times> string" where
  "DecodeLineDirective directive =
     (let directive = sp_substr directive (length ''#line '') None;
          line = atoi directive
      in case find_first_of directive '' '' 0 of
           None \<Rightarrow> (line, '''')
         | Some space_loc \<Rightarrow> (line, strip (sp_substr directive space_loc None) [CHR 0x22, CHR '' '', newline]))"

section \<open>The version\<close>

definition GetVersionProfileFromSourceCode :: "string \<Rightarrow> int \<times> EProfile" where
  "GetVersionProfileFromSourceCode preprocessed_shader =
     (case sp_find preprocessed_shader ''#version'' 0 of
        None \<Rightarrow> (0, ENoProfile)
      | Some pound_version_loc \<Rightarrow>
          let pound_version = sp_substr preprocessed_shader (pound_version_loc + length ''#version'') None;
              pound_version = sp_substr pound_version 0 (find_first_of pound_version [newline] 0);
              version_profile = filter (\<lambda>character. character \<noteq> CHR '' '') pound_version
          in case ParseVersionProfile version_profile of
               None \<Rightarrow> (0, ENoProfile)
             | Some (version, profile) \<Rightarrow> (version, profile))"

definition DeduceVersionProfile :: "Compiler \<Rightarrow> string \<Rightarrow> int \<times> EProfile" where
  "DeduceVersionProfile c preprocessed_shader =
     (if \<not> force_version_profile c then
        let (version, profile) = GetVersionProfileFromSourceCode preprocessed_shader
        in if version = 0 \<and> profile = ENoProfile then (default_version c, default_profile c)
           else (version, profile)
      else (default_version c, default_profile c))"

section \<open>The stage\<close>

text \<open>
  What the loop over the lines keeps: the name and the logical number of the line, the pragmas found
  with their place, and the physical numbers of the first pragma and the first line of code.
\<close>

record stage_scan =
  sc_filename :: string
  sc_logical_line_no :: uint64_t
  sc_stages :: "(string \<times> uint64_t \<times> string) list"
  sc_first_pragma :: nat
  sc_first_non_pp :: nat

definition kPragmaShaderStageDirective :: string where
  "kPragmaShaderStageDirective = ''#pragma shader_stage''"

definition kLineDirective :: string where
  "kLineDirective = ''#line''"

definition stage_line :: "bool \<Rightarrow> nat \<times> string \<Rightarrow> stage_scan \<Rightarrow> stage_scan" where
  "stage_line is_for_next_line = (\<lambda>(i, line) st.
     let current_line = strip_whitespace line;
         st = (if sp_starts_with current_line kPragmaShaderStageDirective then
                 let stage_value = strip (sp_substr current_line (length kPragmaShaderStageDirective) None) ''()''
                 in st\<lparr>sc_stages := sc_stages st @ [(sc_filename st, sc_logical_line_no st, stage_value)],
                       sc_first_pragma := min (sc_first_pragma st) (i + 1)\<rparr>
               else if current_line \<noteq> [] \<and> \<not> sp_starts_with current_line ''#'' then
                 st\<lparr>sc_first_non_pp := min (sc_first_non_pp st) (i + 1)\<rparr>
               else st)
     in if sp_starts_with current_line kLineDirective then
          let (line_no, name) = DecodeLineDirective current_line;
              st = st\<lparr>sc_logical_line_no := word_of_int line_no,
                      sc_filename := (if name \<noteq> [] then name else sc_filename st)\<rparr>
          in if \<not> is_for_next_line
             then st\<lparr>sc_logical_line_no := sc_logical_line_no st + 1\<rparr> else st
        else st\<lparr>sc_logical_line_no := sc_logical_line_no st + 1\<rparr>)"

definition scan_stages :: "bool \<Rightarrow> string \<Rightarrow> string list \<Rightarrow> stage_scan" where
  "scan_stages is_for_next_line filename lines =
     fold (stage_line is_for_next_line) (enumerate 0 lines)
       \<lparr>sc_filename = filename, sc_logical_line_no = 1, sc_stages = [],
        sc_first_pragma = length lines + 1, sc_first_non_pp = length lines + 1\<rparr>"

definition quoted :: "string \<Rightarrow> string" where
  "quoted s = CHR 0x27 # s @ [CHR 0x27]"

definition conflict_message :: "string \<times> uint64_t \<times> string \<Rightarrow> string \<times> uint64_t \<times> string \<Rightarrow> string" where
  "conflict_message first current =
     (let (first_filename, first_line, first_stage) = first;
          (current_filename, current_line, current_stage) = current
      in current_filename @ '':'' @ ToString (unat current_line) @
         '': error: '#pragma': conflicting stages for 'shader_stage' #pragma: '' @
         quoted current_stage @ '' (was '' @ quoted first_stage @ '' at '' @ first_filename @ '':'' @
         ToString (unat first_line) @ '')'' @ [newline])"

definition stage_of_pragmas :: "stage_scan \<Rightarrow> EShLanguage \<times> string" where
  "stage_of_pragmas st =
     (case sc_stages st of
        [] \<Rightarrow> (EShLangCount, '''')
      | first # others \<Rightarrow>
          let (first_filename, first_line, first_stage) = first;
              place = first_filename @ '':'' @ ToString (unat first_line);
              late = (if sc_first_pragma st > sc_first_non_pp st
                      then place @ '': error: '#pragma': the first 'shader_stage' #pragma '' @
                             ''must appear before any non-preprocessing code'' @ [newline]
                      else '''');
              stage = MapStageNameToLanguage first_stage;
              unknown = (if stage = EShLangCount
                         then place @ '': error: '#pragma': invalid stage for 'shader_stage' #pragma: '' @
                                quoted first_stage @ [newline]
                         else '''');
              conflicts = concat (map (\<lambda>current. if snd (snd current) \<noteq> first_stage
                                                 then conflict_message first current else '''') others);
              error_message = late @ unknown @ conflicts
          in (if error_message = [] then stage else EShLangCount, error_message))"

definition GetShaderStageFromSourceCode :: "Compiler \<Rightarrow> string \<Rightarrow> string \<Rightarrow> EShLanguage \<times> string" where
  "GetShaderStageFromSourceCode c filename preprocessed_shader =
     (let (version, profile) = DeduceVersionProfile c preprocessed_shader;
          is_for_next_line = LineDirectiveIsForNextLine version profile
      in stage_of_pragmas
           (scan_stages is_for_next_line filename (get_fields preprocessed_shader newline False)))"

section \<open>The preamble\<close>

text \<open>
  The first loop looks for the directive that was injected and, up to the first \<open>#version\<close>, ends
  there; the indices are the number of lines when nothing is found.
\<close>

fun directives_loop :: "string \<Rightarrow> nat \<Rightarrow> nat \<Rightarrow> nat \<Rightarrow> string list \<Rightarrow> nat \<times> nat" where
  "directives_loop pound_extension n ext i [] = (ext, n)"
| "directives_loop pound_extension n ext i (line # lines) =
     (if line = pound_extension then directives_loop pound_extension n (min i ext) (i + 1) lines
      else if sp_starts_with line ''#version'' then (ext, i)
      else directives_loop pound_extension n ext (i + 1) lines)"

definition CleanupPreamble :: "string \<Rightarrow> string \<Rightarrow> string \<Rightarrow> int \<Rightarrow> bool \<Rightarrow> string" where
  "CleanupPreamble preprocessed_shader error_tag pound_extension num_include_directives is_for_next_line =
     (let lines = get_fields preprocessed_shader newline True;
          n = length lines;
          (pound_extension_index, pound_version_index) = directives_loop pound_extension n n 0 lines;
          version_line = (if num_include_directives > 0 \<and> pound_version_index < n
                          then lines ! pound_version_index else '''');
          before = concat (filter (\<lambda>line. strip_whitespace line \<noteq> []) (take pound_extension_index lines));
          injected = (if num_include_directives > 0
                      then pound_extension @ GetLineDirective (if is_for_next_line then 1 else 0) error_tag
                      else '''');
          after = concat (map (\<lambda>i. if i = pound_version_index
                                   then if num_include_directives > 0 then [newline] else lines ! i
                                   else lines ! i)
                            [pound_extension_index + 1..<n])
      in version_line @ before @ injected @ after)"

section \<open>Text as words\<close>

fun words_of_bytes :: "uint32_t \<Rightarrow> uint8_t list \<Rightarrow> uint32_t list" where
  "words_of_bytes host (a # b # c # d # bytes) =
     (if host = I32_ENDIAN_LITTLE then word_of_bytes a b c d else word_of_bytes d c b a) #
     words_of_bytes host bytes"
| "words_of_bytes host _ = []"

definition byte_of_char :: "char \<Rightarrow> uint8_t" where
  "byte_of_char c = word_of_nat (of_char c)"

text \<open>\<open>strncpy\<close> stops at a zero byte; what it does not write stays zero.\<close>

definition ConvertStringToVector :: "uint32_t \<Rightarrow> string \<Rightarrow> uint32_t list" where
  "ConvertStringToVector host str =
     (let num_bytes_str = length str + 1;
          vector_length = (num_bytes_str + 4 - 1) div 4;
          copied = map byte_of_char (takeWhile (\<lambda>c. c \<noteq> CHR 0x00) str)
      in words_of_bytes host (copied @ replicate (4 * vector_length - length copied) 0))"

section \<open>Macros\<close>

text \<open>\<open>format\<close> of \<open>libshaderc_util/format.h\<close>.\<close>

definition format_map :: "(string \<times> string) list \<Rightarrow> string \<Rightarrow> string \<Rightarrow> string \<Rightarrow> string" where
  "format_map m pre infx postfix = concat (map (\<lambda>(k, v). pre @ k @ infx @ v @ postfix) m)"

section \<open>Fields of lines\<close>

lemma split_fields_line:
  assumes "d \<notin> set l"
  shows "split_fields d True ((l @ [d]) @ r) = (l @ [d]) # split_fields d True r"
proof -
  have "takeWhile (\<lambda>c. c \<noteq> d) ((l @ [d]) @ r) = l" "dropWhile (\<lambda>c. c \<noteq> d) ((l @ [d]) @ r) = d # r"
    using assms by (induction l) auto
  then show ?thesis by (subst split_fields.simps) auto
qed

lemma split_fields_lines:
  "list_all (\<lambda>l. d \<notin> set l) ls \<Longrightarrow>
    split_fields d True (concat (map (\<lambda>l. l @ [d]) ls) @ r) = map (\<lambda>l. l @ [d]) ls @ split_fields d True r"
  by (induction ls) (use split_fields_line in auto)

section \<open>The preamble taken away\<close>

definition pound_extension :: string where
  "pound_extension = ''#extension GL_GOOGLE_include_directive : enable'' @ [newline]"

definition version_index :: "string list \<Rightarrow> nat" where
  "version_index ls = length (takeWhile (\<lambda>l. \<not> sp_starts_with l ''#version'') ls)"

lemma directives_loop_skip:
  "list_all (\<lambda>l. l \<noteq> e \<and> \<not> sp_starts_with l ''#version'') ls \<Longrightarrow>
    directives_loop e n ext i (ls @ r) = directives_loop e n ext (i + length ls) r"
  by (induction ls arbitrary: i) auto

lemma directives_loop_version:
  "ext \<le> i \<Longrightarrow> \<not> sp_starts_with e ''#version'' \<Longrightarrow>
    directives_loop e n ext i ls =
      (ext, if version_index ls < length ls then i + version_index ls else n)"
  by (induction ls arbitrary: i) (auto simp: version_index_def min_absorb2)

lemma pound_extension_line:
  "\<not> sp_starts_with pound_extension ''#version''" "newline \<notin> set (butlast pound_extension)"
  "pound_extension = butlast pound_extension @ [newline]" "hd pound_extension = CHR ''#''"
  by (simp_all add: pound_extension_def newline_def)

lemma map_upt_shift:
  "map (\<lambda>i. f i ((b @ e # u) ! i)) [length b + 1..<length (b @ e # u)] =
    map (\<lambda>j. f (length b + 1 + j) (u ! j)) [0..<length u]"
  by (rule nth_equalityI) (simp_all add: nth_append del: upt_Suc)

lemma blank_line:
  assumes "set l \<subseteq> set whitespace - {newline}"
  shows "l @ [newline] \<noteq> pound_extension \<and> \<not> sp_starts_with (l @ [newline]) ''#version'' \<and>
    strip_whitespace (l @ [newline]) = []"
proof -
  have white: "set (l @ [newline]) \<subseteq> set whitespace"
    using assms by (auto simp: whitespace_def newline_def)
  then have "hd (l @ [newline]) \<noteq> CHR ''#''"
    using list.set_sel(1) [of "l @ [newline]"] by (auto simp: whitespace_def newline_def)
  then have "l @ [newline] \<noteq> pound_extension" "\<not> sp_starts_with (l @ [newline]) ''#version''"
    using pound_extension_line(4) by (auto simp: sp_starts_with_prefix prefix_def)
  moreover have "lstrip (l @ [newline]) whitespace = []"
    using white by (auto simp: lstrip_dropWhile dropWhile_eq_Nil_conv)
  ultimately show ?thesis by (simp add: strip_whitespace_def strip_def rstrip_dropWhile)
qed

lemma CleanupPreamble_lines:
  fixes user :: string
  defines "lines \<equiv> get_fields user newline True"
  assumes blank: "list_all (\<lambda>l. set l \<subseteq> set whitespace - {newline}) blanks"
  shows "CleanupPreamble (concat (map (\<lambda>l. l @ [newline]) blanks) @ pound_extension @ user) tag
      pound_extension n next =
    (if n > 0 then
       (if version_index lines < length lines then lines ! version_index lines else []) @
       pound_extension @ GetLineDirective (if next then 1 else 0) tag @
       concat (lines[version_index lines := [newline]])
     else user)"
proof -
  let ?b = "map (\<lambda>l. l @ [newline]) blanks"
  let ?all = "?b @ pound_extension # lines"
  let ?k = "version_index lines"
  have no_newline: "list_all (\<lambda>l. newline \<notin> set l) blanks" using blank by (auto simp: list_all_iff)
  have ext_line: "get_fields (pound_extension @ user) newline True = pound_extension # lines"
    using split_fields_line [of newline "butlast pound_extension" user] pound_extension_line(2)
    unfolding lines_def get_fields_split pound_extension_line(3) [symmetric] by simp
  have all: "get_fields (concat ?b @ pound_extension @ user) newline True = ?all"
    using split_fields_lines [OF no_newline] ext_line by (simp add: get_fields_split)
  have skip: "list_all (\<lambda>l. l \<noteq> pound_extension \<and> \<not> sp_starts_with l ''#version'') ?b"
    and blanks_empty: "filter (\<lambda>l. strip_whitespace l \<noteq> []) ?b = []"
    using blank_line blank by (auto simp: list_all_iff filter_empty_conv)
  have index: "directives_loop pound_extension (length ?all) (length ?all) 0 ?all =
      (length ?b, if ?k < length lines then length ?b + 1 + ?k else length ?all)"
    unfolding directives_loop_skip [OF skip]
    using directives_loop_version [of "length ?b" "length ?b + 1" pound_extension "length ?all" lines]
      pound_extension_line(1) by simp
  have after: "concat (map (\<lambda>i. if i = v then if n > 0 then [newline] else ?all ! i else ?all ! i)
      [length ?b + 1..<length ?all]) = (if n > 0 then concat (lines[?k := [newline]]) else concat lines)"
    if "v = (if ?k < length lines then length ?b + 1 + ?k else length ?all)" for v
  proof -
    have "map (\<lambda>i. if i = v then if n > 0 then [newline] else ?all ! i else ?all ! i)
        [length ?b + 1..<length ?all] =
      map (\<lambda>j. if length ?b + 1 + j = v then if n > 0 then [newline] else lines ! j else lines ! j)
        [0..<length lines]"
      using map_upt_shift [of "\<lambda>i x. if i = v then if n > 0 then [newline] else x else x" ?b pound_extension lines] .
    also have "\<dots> = (if n > 0 then lines[?k := [newline]] else lines)"
      by (rule nth_equalityI) (auto simp: that nth_list_update)
    finally show ?thesis by simp
  qed
  have lines: "concat lines = user" unfolding lines_def get_fields_split by (rule concat_split_fields)
  show ?thesis
    unfolding CleanupPreamble_def Let_def all index prod.case
    using after [OF refl] blanks_empty lines by (auto simp: nth_append)
qed

section \<open>The stage a shader asks for\<close>

definition is_pragma :: "string \<Rightarrow> bool" where
  "is_pragma line \<longleftrightarrow> sp_starts_with line kPragmaShaderStageDirective"

definition is_code :: "string \<Rightarrow> bool" where
  "is_code line \<longleftrightarrow> line \<noteq> [] \<and> \<not> sp_starts_with line ''#''"

definition pragma_value :: "string \<Rightarrow> string" where
  "pragma_value line = strip (drop (length kPragmaShaderStageDirective) line) ''()''"

lemma pragma_not_code: "is_pragma line \<Longrightarrow> \<not> is_code line"
  by (cases line) (auto simp: is_pragma_def is_code_def kPragmaShaderStageDirective_def)

lemma stage_line_fields:
  fixes line :: string
  defines "l \<equiv> strip_whitespace line"
  shows "map (snd \<circ> snd) (sc_stages (stage_line b (i, line) st)) =
      map (snd \<circ> snd) (sc_stages st) @ (if is_pragma l then [pragma_value l] else [])"
    "sc_first_pragma (stage_line b (i, line) st) =
      (if is_pragma l then min (sc_first_pragma st) (i + 1) else sc_first_pragma st)"
    "sc_first_non_pp (stage_line b (i, line) st) =
      (if is_code l then min (sc_first_non_pp st) (i + 1) else sc_first_non_pp st)"
  using pragma_not_code [of l]
  by (auto simp: stage_line_def Let_def split_beta is_pragma_def is_code_def pragma_value_def sp_substr_all l_def)

lemma scan_fold:
  fixes ls :: "string list"
  defines "ps \<equiv> map strip_whitespace ls"
  shows "map (snd \<circ> snd) (sc_stages (fold (stage_line b) (enumerate i ls) st)) =
      map (snd \<circ> snd) (sc_stages st) @ map pragma_value (filter is_pragma ps)"
    "sc_first_pragma (fold (stage_line b) (enumerate i ls) st) =
      (if list_ex is_pragma ps
       then min (sc_first_pragma st) (i + length (takeWhile (\<lambda>l. \<not> is_pragma l) ps) + 1)
       else sc_first_pragma st)"
    "sc_first_non_pp (fold (stage_line b) (enumerate i ls) st) =
      (if list_ex is_code ps
       then min (sc_first_non_pp st) (i + length (takeWhile (\<lambda>l. \<not> is_code l) ps) + 1)
       else sc_first_non_pp st)"
  unfolding ps_def
  by (induction ls arbitrary: i st) (auto simp: stage_line_fields)

lemma first_before:
  "list_ex P xs \<Longrightarrow> (\<And>x. P x \<Longrightarrow> \<not> Q x) \<Longrightarrow>
    length (takeWhile (\<lambda>x. \<not> Q x) xs) < length (takeWhile (\<lambda>x. \<not> P x) xs) \<longleftrightarrow>
    list_ex Q (takeWhile (\<lambda>x. \<not> P x) xs)"
  by (induction xs) auto

lemma takeWhile_ex: "list_ex Q (takeWhile P xs) \<Longrightarrow> list_ex Q xs"
  by (auto simp: list_ex_iff dest: set_takeWhileD)

text \<open>
  Of the lines of a shader without the white space around them, the values of the pragmas, and
  whether code comes before the first of them.
\<close>

definition pragma_values :: "string \<Rightarrow> string list" where
  "pragma_values shader = map pragma_value (filter is_pragma (map strip_whitespace (get_fields shader newline False)))"

definition code_before_pragma :: "string \<Rightarrow> bool" where
  "code_before_pragma shader \<longleftrightarrow>
     list_ex is_code (takeWhile (\<lambda>l. \<not> is_pragma l) (map strip_whitespace (get_fields shader newline False)))"

lemma scan_stages_summary:
  fixes shader filename :: string and b :: bool
  defines "st \<equiv> scan_stages b filename (get_fields shader newline False)"
  shows "map (snd \<circ> snd) (sc_stages st) = pragma_values shader"
    and "pragma_values shader \<noteq> [] \<Longrightarrow> sc_first_pragma st > sc_first_non_pp st \<longleftrightarrow> code_before_pragma shader"
proof -
  let ?ls = "get_fields shader newline False"
  let ?ps = "map strip_whitespace ?ls"
  show "map (snd \<circ> snd) (sc_stages st) = pragma_values shader"
    by (simp add: st_def scan_stages_def scan_fold pragma_values_def)
  assume "pragma_values shader \<noteq> []"
  then have ex: "list_ex is_pragma ?ps" by (auto simp: pragma_values_def filter_empty_conv list_ex_iff)
  let ?p = "length (takeWhile (\<lambda>l. \<not> is_pragma l) ?ps)"
  let ?q = "length (takeWhile (\<lambda>l. \<not> is_code l) ?ps)"
  have le: "?p \<le> length ?ls" "?q \<le> length ?ls" using length_takeWhile_le by (metis length_map)+
  have "sc_first_pragma st = ?p + 1" using ex le by (simp add: st_def scan_stages_def scan_fold)
  moreover have "sc_first_non_pp st = (if list_ex is_code ?ps then ?q + 1 else length ?ls + 1)"
    using le by (simp add: st_def scan_stages_def scan_fold)
  moreover have "?q < ?p \<longleftrightarrow> list_ex is_code (takeWhile (\<lambda>l. \<not> is_pragma l) ?ps)"
    using ex pragma_not_code by (rule first_before)
  ultimately show "sc_first_pragma st > sc_first_non_pp st \<longleftrightarrow> code_before_pragma shader"
    using takeWhile_ex [of is_code _ ?ps] le by (auto simp: code_before_pragma_def)
qed

lemma conflicts_empty:
  "concat (map (\<lambda>current. if snd (snd current) \<noteq> s then conflict_message f current else '''') others) = [] \<longleftrightarrow>
    list_all (\<lambda>v. v = s) (map (snd \<circ> snd) others)"
proof -
  have "conflict_message f current \<noteq> []" for current
    by (simp add: conflict_message_def split_beta)
  then have "(concat (map (\<lambda>current. if snd (snd current) \<noteq> s then conflict_message f current else []) others) = []) \<longleftrightarrow>
      (\<forall>current \<in> set others. snd (snd current) = s)"
    by (induction others) auto
  then show ?thesis by (simp add: list_all_iff)
qed

lemma GetShaderStage_cases:
  "(let (stage, errors) = GetShaderStageFromSourceCode c filename shader;
        values = pragma_values shader
    in (errors = []) = (if values = [] then True
          else MapStageNameToLanguage (hd values) \<noteq> EShLangCount \<and>
            list_all (\<lambda>v. v = hd values) values \<and> \<not> code_before_pragma shader) \<and>
       stage = (if errors = [] \<and> values \<noteq> [] then MapStageNameToLanguage (hd values) else EShLangCount))"
proof -
  obtain is_next where scan: "GetShaderStageFromSourceCode c filename shader =
      stage_of_pragmas (scan_stages is_next filename (get_fields shader newline False))"
    by (simp add: GetShaderStageFromSourceCode_def split_beta Let_def)
  define st where "st = scan_stages is_next filename (get_fields shader newline False)"
  have stages: "GetShaderStageFromSourceCode c filename shader = stage_of_pragmas st"
    unfolding st_def by (rule scan)
  have pragmas: "pragma_values shader = map (snd \<circ> snd) (sc_stages st)"
    unfolding st_def by (rule scan_stages_summary(1) [symmetric])
  show ?thesis
  proof (cases "sc_stages st")
    case Nil
    then show ?thesis unfolding stages pragmas by (simp add: stage_of_pragmas_def)
  next
    case (Cons first others)
    obtain name line stage where first: "first = (name, line, stage)" by (cases first)
    have late: "sc_first_pragma st > sc_first_non_pp st \<longleftrightarrow> code_before_pragma shader"
      using scan_stages_summary(2) [of shader is_next filename] Cons pragmas by (simp add: st_def)
    show ?thesis
      unfolding stages pragmas
      using conflicts_empty [of stage "(name, line, stage)" others]
      by (auto simp: stage_of_pragmas_def Cons first late Let_def)
  qed
qed

section \<open>The first version directive\<close>

declare ToString.simps [simp del]

lemma find_loop_skip:
  assumes "CHR ''#'' \<notin> set pre" "prefix (CHR ''#'' # sub) s"
  shows "find_loop (CHR ''#'' # sub) i (pre @ s) = Some (i + length pre)"
  using assms
proof (induction pre arbitrary: i)
  case Nil
  then show ?case
    by (cases s) (auto simp: sp_starts_with_prefix dest: prefix_length_le)
next
  case (Cons c pre)
  moreover have "length (CHR ''#'' # sub) \<le> length s" using Cons.prems(2) by (rule prefix_length_le)
  ultimately show ?case by (simp add: sp_starts_with_prefix)
qed

lemma find_version:
  assumes "CHR ''#'' \<notin> set before"
  shows "sp_find (before @ ''#version'' @ rest) ''#version'' 0 = Some (length before)"
  using find_loop_skip [of before "''version''" "''#version'' @ rest" 0] assms
  by (simp add: sp_find_def)

lemma filter_space_ToString: "filter (\<lambda>c. c \<noteq> CHR '' '') (ToString v) = ToString v"
proof -
  have "list_all is_digit (ToString v)" by (rule ToString_digits [THEN conjunct1])
  then show ?thesis unfolding list_all_iff filter_id_conv by (force simp: is_digit_def)
qed

lemma newline_free:
  "newline \<notin> set (ToString v)"
  "list_all (\<lambda>(name, p). newline \<notin> set name \<and> filter (\<lambda>c. c \<noteq> CHR '' '') name = name) profile_names"
proof -
  have "list_all is_digit (ToString v)" by (rule ToString_digits [THEN conjunct1])
  then show "newline \<notin> set (ToString v)" unfolding list_all_iff newline_def by (force simp: is_digit_def)
  show "list_all (\<lambda>(name, p). newline \<notin> set name \<and> filter (\<lambda>c. c \<noteq> CHR '' '') name = name) profile_names"
    by code_simp
qed

lemma first_line: "d \<notin> set l \<Longrightarrow> sp_substr (l @ d # r) 0 (find_first_of (l @ d # r) [d] 0) = l"
  by (simp add: find_first_of_single sp_substr_len takeWhile_append)

lemma GetVersionProfile_first:
  assumes "CHR ''#'' \<notin> set front" "v \<in> set known_versions" "(name, profile) \<in> set profile_names"
  shows "GetVersionProfileFromSourceCode (front @ ''#version '' @ ToString v @ '' '' @ name @ [newline] @ back) =
    (int v, profile)"
proof -
  let ?l = "CHR '' '' # ToString v @ CHR '' '' # name"
  let ?shader = "front @ ''#version'' @ ?l @ newline # back"
  have name: "newline \<notin> set name" "filter (\<lambda>c. c \<noteq> CHR '' '') name = name"
    using newline_free(2) assms(3) by (auto simp: list_all_iff)
  have free: "newline \<notin> set ?l"
    using name(1) newline_free(1) [of v] by (auto simp: newline_def)
  have find: "sp_find ?shader ''#version'' 0 = Some (length front)"
    using find_version [OF assms(1)] by simp
  have line: "drop (length front + length ''#version'') ?shader = ?l @ newline # back" by simp
  have spaces: "filter (\<lambda>c. c \<noteq> CHR '' '') ?l = ToString v @ name"
    using name(2) filter_space_ToString [of v] by simp
  have parse: "ParseVersionProfile (ToString v @ name) = Some (int v, profile)"
    using ParseVersionProfile_known [of v name profile] assms(2,3) by blast
  have "GetVersionProfileFromSourceCode ?shader = (int v, profile)"
    unfolding GetVersionProfileFromSourceCode_def find option.case Let_def sp_substr_all line
      first_line [OF free] spaces parse prod.case ..
  then show ?thesis by simp
qed

section \<open>Bytes of words\<close>

lemma bytes_of_words:
  "length bs mod 4 = 0 \<Longrightarrow> concat (map (host_bytes host) (words_of_bytes host bs)) = bs"
  by (induction host bs rule: words_of_bytes.induct)
    (auto simp: host_bytes_def byte_of_word_of_bytes simp del: One_nat_def)

lemma vector_bytes:
  "concat (map (host_bytes host) (ConvertStringToVector host s)) =
     map byte_of_char (takeWhile (\<lambda>c. c \<noteq> CHR 0x00) s) @
     replicate (4 * (length s div 4 + 1) - length (takeWhile (\<lambda>c. c \<noteq> CHR 0x00) s)) 0"
proof -
  let ?c = "map byte_of_char (takeWhile (\<lambda>c. c \<noteq> CHR 0x00) s)"
  have le: "length (takeWhile (\<lambda>c. c \<noteq> CHR 0x00) s) \<le> length s" by (rule length_takeWhile_le)
  have size: "(length s + 1 + 4 - 1) div 4 = length s div 4 + 1" by simp
  have less: "length s < 4 * (length s div 4 + 1)" by (simp add: mult.commute)
  have "length (?c @ replicate (4 * (length s div 4 + 1) - length ?c) 0) = 4 * (length s div 4 + 1)"
    using le less by simp
  then have "length (?c @ replicate (4 * (length s div 4 + 1) - length ?c) 0) mod 4 = 0" by simp
  from bytes_of_words [OF this] show ?thesis
    unfolding ConvertStringToVector_def Let_def size by simp
qed

section \<open>Properties\<close>

text \<open>C22: with blank lines and the injected extension directive in front of a preprocessed shader,
  cleaning up gives back the shader itself when it includes nothing; otherwise its first version
  directive comes first, then the extension directive and a line directive, then the shader with an
  empty line in the place of the version directive.\<close>

theorem CleanupPreamble_restores:
  assumes "list_all (\<lambda>l. set l \<subseteq> set whitespace - {newline}) blanks"
  shows "CleanupPreamble (concat (map (\<lambda>l. l @ [newline]) blanks) @ pound_extension @ shader) tag
      pound_extension n next =
    (let lines = get_fields shader newline True;
         v = length (takeWhile (\<lambda>l. \<not> sp_starts_with l ''#version'') lines)
     in if n > 0 then
          (if v < length lines then lines ! v else []) @
          pound_extension @ GetLineDirective (if next then 1 else 0) tag @ concat (lines[v := [newline]])
        else shader)"
  unfolding Let_def using CleanupPreamble_lines [OF assms, of shader tag n "next"]
  by (simp add: version_index_def)

theorem CleanupPreamble_restores_witness:
  "CleanupPreamble (concat (map (\<lambda>l. l @ [newline]) ['''', '' '']) @ pound_extension @ ''void main() {}'') ''a.vert''
      pound_extension 0 True = ''void main() {}''"
  using CleanupPreamble_restores [of "['''', '' '']" "''void main() {}''" "''a.vert''" 0 True]
  by (simp add: whitespace_def newline_def)

text \<open>C19: a shader without stage pragmas asks for no stage and is no error; with pragmas, it is accepted
  exactly when they all name the same known stage and no code comes before the first one, and that
  stage is the result, while every error leaves the stage undecided.\<close>

theorem GetShaderStage_correct:
  "(let (stage, errors) = GetShaderStageFromSourceCode c filename shader;
        values = pragma_values shader
    in (errors = []) = (if values = [] then True
          else MapStageNameToLanguage (hd values) \<noteq> EShLangCount \<and>
            list_all (\<lambda>v. v = hd values) values \<and> \<not> code_before_pragma shader) \<and>
       stage = (if errors = [] \<and> values \<noteq> [] then MapStageNameToLanguage (hd values) else EShLangCount))"
  by (rule GetShaderStage_cases)

text \<open>The version of a shader is the one its first version directive names, in any profile, and a
  version that is forced takes precedence over it.\<close>

theorem DeduceVersionProfile_first:
  assumes "CHR ''#'' \<notin> set front" "v \<in> set known_versions" "(name, profile) \<in> set profile_names"
  shows "DeduceVersionProfile c (front @ ''#version '' @ ToString v @ '' '' @ name @ [newline] @ back) =
    (if force_version_profile c then (default_version c, default_profile c) else (int v, profile))"
proof -
  have "v \<noteq> 0" using assms(2) by (auto simp: known_versions_def)
  then show ?thesis
    unfolding DeduceVersionProfile_def GetVersionProfile_first [OF assms] by simp
qed

theorem DeduceVersionProfile_first_witness:
  "DeduceVersionProfile new_Compiler (''precise '' @ ''#version '' @ ToString 310 @ '' '' @ ''es'' @ [newline] @ ''#version 450'') =
    (310, EEsProfile)"
  using DeduceVersionProfile_first [of "''precise ''" 310 "''es''" EEsProfile new_Compiler "''#version 450''"]
  by (simp add: known_versions_def profile_names_def new_Compiler_def)

text \<open>The bytes of the words that hold a text are, on either kind of machine, the text up to its
  first zero byte, followed by zero bytes, at least one.\<close>

theorem ConvertStringToVector_bytes:
  "concat (map (host_bytes host) (ConvertStringToVector host s)) =
     map byte_of_char (takeWhile (\<lambda>c. c \<noteq> CHR 0x00) s) @
     replicate (4 * (length s div 4 + 1) - length (takeWhile (\<lambda>c. c \<noteq> CHR 0x00) s)) 0 \<and>
   length (takeWhile (\<lambda>c. c \<noteq> CHR 0x00) s) < 4 * (length s div 4 + 1)"
proof -
  have "length (takeWhile (\<lambda>c. c \<noteq> CHR 0x00) s) \<le> length s" by (rule length_takeWhile_le)
  also have "length s < 4 * (length s div 4 + 1)" by (simp add: mult.commute)
  finally show ?thesis using vector_bytes by blast
qed

end
