(* ===== verification/Compile.thy ===== *)
theory Compile
  imports Shader_Source
begin

text \<open>
  The compilation: \<open>Compiler::PreprocessShader\<close> and \<open>Compiler::Compile\<close> of \<open>libshaderc_util/compiler.cc\<close>,
  and the calls of SPIRV-Tools in \<open>spirv_tools_wrapper.cc\<close>. Glslang and the assembler, disassembler and
  optimizer of SPIRV-Tools are arguments: the records \<open>glslang\<close> and \<open>spirv_tools\<close> hold the functions
  that are called. What the setters of a \<open>TShader\<close> are told is the list of the calls.
\<close>

section \<open>What is called\<close>

datatype OutputType = SpirvBinary | SpirvAssemblyText | PreprocessedText

datatype EShSource = EShSourceNone | EShSourceGlsl | EShSourceHlsl

datatype TShader_call =
    setStringsWithLengthsAndNames string int string
  | setPreamble string
  | setEntryPoint string
  | setAutoMapBindings bool
  | setTextureSamplerTransformMode_Upgrade
  | setAutoMapLocations bool
  | setShiftImageBinding uint32_t
  | setShiftSamplerBinding uint32_t
  | setShiftTextureBinding uint32_t
  | setShiftUboBinding uint32_t
  | setShiftSsboBinding uint32_t
  | setShiftUavBinding uint32_t
  | setHlslIoMapping bool
  | setResourceSetBinding "string list"
  | setEnvClient EShClient "EShTargetClientVersion option"
  | setEnvTarget EShTargetLanguage EShTargetLanguageVersion
  | setEnvTargetHlslFunctionality1
  | setEnvInput EShSource EShLanguage EShClient int
  | setEnvInputVulkanRulesRelaxed
  | setInvertY bool
  | setNanMinMaxClamp bool

text \<open>
  An includer (\<open>counting_includer.h\<close>) counts the directives it sees and passes them on; its further state
  is an extension of the record. Glslang is given the includer and returns it as its calls leave it.
\<close>

record CountingIncluder =
  num_include_directives :: uint32_t

datatype IncludeType = System | Local

definition includeSystem ::
  "(string \<Rightarrow> string \<Rightarrow> IncludeType \<Rightarrow> nat \<Rightarrow> 'm CountingIncluder_scheme \<Rightarrow> 'r \<times> 'm CountingIncluder_scheme) \<Rightarrow>
    string \<Rightarrow> string \<Rightarrow> nat \<Rightarrow> 'm CountingIncluder_scheme \<Rightarrow> 'r \<times> 'm CountingIncluder_scheme" where
  "includeSystem include_delegate requested_source requesting_source include_depth this =
     include_delegate requested_source requesting_source System include_depth
       (this\<lparr>num_include_directives := num_include_directives this + 1\<rparr>)"

definition includeLocal ::
  "(string \<Rightarrow> string \<Rightarrow> IncludeType \<Rightarrow> nat \<Rightarrow> 'm CountingIncluder_scheme \<Rightarrow> 'r \<times> 'm CountingIncluder_scheme) \<Rightarrow>
    string \<Rightarrow> string \<Rightarrow> nat \<Rightarrow> 'm CountingIncluder_scheme \<Rightarrow> 'r \<times> 'm CountingIncluder_scheme" where
  "includeLocal include_delegate requested_source requesting_source include_depth this =
     include_delegate requested_source requesting_source Local include_depth
       (this\<lparr>num_include_directives := num_include_directives this + 1\<rparr>)"

text \<open>
  \<open>TShader_preprocess\<close> and \<open>TShader_parse\<close> take the stage, the calls made before, and the arguments of
  the call; they return whether it succeeded, its output, the info log and the includer.
\<close>

record ('i, 's, 'p) glslang =
  TShader_preprocess :: "EShLanguage \<Rightarrow> TShader_call list \<Rightarrow> TBuiltInResource \<Rightarrow> int \<Rightarrow> EProfile \<Rightarrow>
    bool \<Rightarrow> bool \<Rightarrow> uint32_t \<Rightarrow> 'i \<Rightarrow> bool \<times> string \<times> string \<times> 'i"
  TShader_parse :: "EShLanguage \<Rightarrow> TShader_call list \<Rightarrow> TBuiltInResource \<Rightarrow> int \<Rightarrow> EProfile \<Rightarrow>
    bool \<Rightarrow> bool \<Rightarrow> uint32_t \<Rightarrow> 'i \<Rightarrow> bool \<times> 's \<times> string \<times> 'i"
  TProgram_link :: "'s \<Rightarrow> bool \<times> 'p"
  TProgram_mapIO :: "'p \<Rightarrow> bool \<times> 'p"
  TProgram_getInfoLog :: "'p \<Rightarrow> string"
  GlslangToSpv :: "'p \<Rightarrow> EShLanguage \<Rightarrow> bool \<Rightarrow> bool \<Rightarrow> bool \<Rightarrow> uint32_t list"

datatype pass_registration = RegisterLegalizationPasses | RegisterPerformancePasses | RegisterSizePasses
  | RegisterStripDebugInfoPass | RegisterCompactIdsPass

record ValidatorOptions =
  SkipBlockLayout :: bool
  RelaxLogicalPointer :: bool
  BeforeHlslLegalization :: bool
  FriendlyNames :: bool

record OptimizerOptions =
  opt_preserve_bindings :: bool
  opt_validator_options :: "ValidatorOptions option"
  opt_run_validator :: "bool option"

text \<open>
  The optimizer returns whether it succeeded, the binary and the messages it gave; the disassembler the
  text and its messages with their indices; the assembler a binary, or the line, column and text of
  the diagnostic.
\<close>

record spirv_tools =
  Optimizer_Run :: "spv_target_env \<Rightarrow> pass_registration list \<Rightarrow> OptimizerOptions \<Rightarrow> uint32_t list \<Rightarrow>
    bool \<times> uint32_t list \<times> string list"
  SpirvTools_Disassemble :: "spv_target_env \<Rightarrow> uint32_t \<Rightarrow> uint32_t list \<Rightarrow>
    bool \<times> string \<times> (nat \<times> string) list"
  spvTextToBinary :: "spv_target_env \<Rightarrow> string \<Rightarrow> nat \<times> nat \<times> string + uint32_t list"

section \<open>The calls of SPIRV-Tools\<close>

definition SPV_BINARY_TO_TEXT_OPTION_INDENT :: uint32_t where
  "SPV_BINARY_TO_TEXT_OPTION_INDENT = push_bit 3 1"

definition SPV_BINARY_TO_TEXT_OPTION_FRIENDLY_NAMES :: uint32_t where
  "SPV_BINARY_TO_TEXT_OPTION_FRIENDLY_NAMES = push_bit 6 1"

definition SpirvToolsDisassemble ::
  "spirv_tools \<Rightarrow> TargetEnv \<Rightarrow> TargetEnvVersion \<Rightarrow> uint32_t list \<Rightarrow> bool \<times> string" where
  "SpirvToolsDisassemble tools env version binary =
     (let (success, text, messages) = SpirvTools_Disassemble tools (GetSpirvToolsTargetEnv env version)
            (SPV_BINARY_TO_TEXT_OPTION_INDENT OR SPV_BINARY_TO_TEXT_OPTION_FRIENDLY_NAMES) binary
      in if \<not> success then (success, concat (map (\<lambda>(index, message). ToString index @ '': '' @ message) messages))
         else (success, text))"

definition SpirvToolsAssemble ::
  "spirv_tools \<Rightarrow> TargetEnv \<Rightarrow> TargetEnvVersion \<Rightarrow> string \<Rightarrow> string + uint32_t list" where
  "SpirvToolsAssemble tools env version assembly =
     (case spvTextToBinary tools (GetSpirvToolsTargetEnv env version) assembly of
        Inl (line, column, error) \<Rightarrow> Inl (ToString (line + 1) @ '':'' @ ToString (column + 1) @ '': '' @ error)
      | Inr binary \<Rightarrow> Inr binary)"

primrec register_pass :: "PassId \<Rightarrow> pass_registration list" where
  "register_pass kLegalizationPasses = [RegisterLegalizationPasses]"
| "register_pass kPerformancePasses = [RegisterPerformancePasses]"
| "register_pass kSizePasses = [RegisterSizePasses]"
| "register_pass kNullPass = []"
| "register_pass kStripDebugInfo = [RegisterStripDebugInfoPass]"
| "register_pass kCompactIds = [RegisterCompactIdsPass]"

definition SpirvToolsOptimize ::
  "spirv_tools \<Rightarrow> TargetEnv \<Rightarrow> TargetEnvVersion \<Rightarrow> PassId list \<Rightarrow> OptimizerOptions \<Rightarrow> uint32_t list \<Rightarrow>
    bool \<times> uint32_t list \<times> string" where
  "SpirvToolsOptimize tools env version enabled_passes optimizer_options binary =
     (if enabled_passes = [] then (True, binary, '''')
      else if list_all (\<lambda>pass. pass = kNullPass) enabled_passes then (True, binary, '''')
      else
        let val_opts = \<lparr>SkipBlockLayout = True, RelaxLogicalPointer = True,
              BeforeHlslLegalization = True, FriendlyNames = False\<rparr>;
            optimizer_options = optimizer_options
              \<lparr>opt_validator_options := Some val_opts, opt_run_validator := Some True\<rparr>;
            registered = concat (map register_pass enabled_passes);
            (success, binary, messages) =
              Optimizer_Run tools (GetSpirvToolsTargetEnv env version) registered optimizer_options binary
        in if \<not> success then (False, binary, concat (map (\<lambda>message. message @ [newline]) messages))
           else (True, binary, ''''))"

section \<open>Preprocessing\<close>

text \<open>A C string ends at its first zero byte; the length of the source is narrowed to \<open>int\<close>.\<close>

definition c_string :: "string \<Rightarrow> string" where
  "c_string s = takeWhile (\<lambda>c. c \<noteq> CHR 0x00) s"

definition int_length :: "string \<Rightarrow> int" where
  "int_length s = sint (word_of_nat (length s) :: uint32_t)"

definition kNotForwardCompatible :: bool where "kNotForwardCompatible = False"

definition compiler_client_info :: "string \<Rightarrow> Compiler \<Rightarrow> GlslangClientInfo" where
  "compiler_client_info error_tag c =
     GetGlslangClientInfo error_tag (target_env c) (target_env_version c) (target_spirv_version c)
       (target_spirv_version_is_forced c)"

definition PreprocessShader ::
  "('i, 's, 'p) glslang \<Rightarrow> Compiler \<Rightarrow> string \<Rightarrow> string \<Rightarrow> string \<Rightarrow> 'i \<Rightarrow> bool \<times> string \<times> string \<times> 'i" where
  "PreprocessShader g c error_tag shader_source shader_preamble includer =
     (let target_client_info = compiler_client_info error_tag c
      in if gi_error target_client_info \<noteq> [] then (False, '''', gi_error target_client_info, includer)
         else
           let shader =
                 [setStringsWithLengthsAndNames shader_source (int_length shader_source) (c_string error_tag),
                  setPreamble (c_string shader_preamble),
                  setEnvClient (gi_client target_client_info) (gi_client_version target_client_info)] @
                 (if hlsl_functionality1_enabled c then [setEnvTargetHlslFunctionality1] else []) @
                 [setInvertY (invert_y_enabled c), setNanMinMaxClamp (nan_clamp c)];
               rules = EShMsgOnlyPreprocessor OR
                 GetMessageRules (target_env c) (source_language c) (hlsl_offsets c)
                   (hlsl_16bit_types_enabled c) False;
               (success, preprocessed_shader, info_log, includer) =
                 TShader_preprocess g EShLangVertex shader (limits c) (default_version c) (default_profile c)
                   (force_version_profile c) kNotForwardCompatible rules includer
           in if success then (True, preprocessed_shader, info_log, includer)
              else (False, '''', info_log, includer))"

section \<open>The compilation\<close>

text \<open>
  A result says whether the compilation succeeded and holds the output and its size in bytes. The stage
  callback has a state of its own and writes to the error stream.
\<close>

type_synonym compile_result = "bool \<times> uint32_t list \<times> nat"
type_synonym 'd stage_callback = "string \<Rightarrow> string \<Rightarrow> 'd \<Rightarrow> EShLanguage \<times> string \<times> 'd"

definition failed :: compile_result where "failed = (False, [], 0)"

definition macro_definitions :: "Compiler \<Rightarrow> string" where
  "macro_definitions c = format_map (predefined_macros c) ''#define '' '' '' [newline]"

text \<open>
  The first part preprocesses where the output or the stage asks for it: it returns a result, or the
  stage to go on with.
\<close>

definition find_stage ::
  "uint32_t \<Rightarrow> ('m CountingIncluder_scheme, 's, 'p) glslang \<Rightarrow> Compiler \<Rightarrow> string \<Rightarrow> EShLanguage \<Rightarrow> string \<Rightarrow>
    'd stage_callback \<Rightarrow> OutputType \<Rightarrow> message_state \<Rightarrow> 'm CountingIncluder_scheme \<Rightarrow> 'd \<Rightarrow>
    (compile_result + EShLanguage) \<times> message_state \<times> 'm CountingIncluder_scheme \<times> 'd" where
  "find_stage host g c source forced_shader_stage error_tag stage_callback output_type st includer d =
     (if output_type = PreprocessedText \<or> forced_shader_stage = EShLangCount then
        let (success, preprocessed_shader, glslang_errors, includer) =
              PreprocessShader g c error_tag source (macro_definitions c @ pound_extension) includer;
            (printed, st) =
              PrintFilteredErrors error_tag (warnings_as_errors c) True (c_string glslang_errors) st
        in if \<not> (success \<and> printed) then (Inl failed, st, includer, d)
           else
             let (version, profile) = DeduceVersionProfile c preprocessed_shader;
                 is_for_next_line = LineDirectiveIsForNextLine version profile;
                 preprocessed_shader = CleanupPreamble preprocessed_shader error_tag pound_extension
                   (sint (num_include_directives includer)) is_for_next_line
             in if output_type = PreprocessedText then
                  (Inl (True, ConvertStringToVector host preprocessed_shader, length preprocessed_shader),
                   st, includer, d)
                else
                  let (stage, errors) = GetShaderStageFromSourceCode c error_tag preprocessed_shader
                  in if errors \<noteq> [] then
                       (Inl failed, st\<lparr>error_stream := error_stream st @ errors\<rparr>, includer, d)
                     else if stage = EShLangCount then
                       let (stage, stream, d) = stage_callback (error_stream st) error_tag d;
                           st = st\<lparr>error_stream := stream\<rparr>
                       in (if stage = EShLangCount then Inl failed else Inr stage, st, includer, d)
                     else (Inr stage, st, includer, d)
      else (Inr forced_shader_stage, st, includer, d))"

definition binding_base :: "Compiler \<Rightarrow> EShLanguage \<Rightarrow> UniformKind \<Rightarrow> uint32_t" where
  "binding_base c stage kind = auto_binding_base c ! EShLanguage_index stage ! UniformKind_index kind"

definition shader_calls ::
  "Compiler \<Rightarrow> GlslangClientInfo \<Rightarrow> string \<Rightarrow> EShLanguage \<Rightarrow> string \<Rightarrow> string \<Rightarrow> TShader_call list" where
  "shader_calls c info source stage error_tag entry_point_name =
     [setStringsWithLengthsAndNames source (int_length source) (c_string error_tag),
      setPreamble (c_string (macro_definitions c @ pound_extension)),
      setEntryPoint entry_point_name,
      setAutoMapBindings (auto_bind_uniforms c)] @
     (if auto_combined_image_sampler c then [setTextureSamplerTransformMode_Upgrade] else []) @
     [setAutoMapLocations (auto_map_locations c),
      setShiftImageBinding (binding_base c stage UK_Image),
      setShiftSamplerBinding (binding_base c stage UK_Sampler),
      setShiftTextureBinding (binding_base c stage UK_Texture),
      setShiftUboBinding (binding_base c stage UK_Buffer),
      setShiftSsboBinding (binding_base c stage UK_StorageBuffer),
      setShiftUavBinding (binding_base c stage UK_UnorderedAccessView),
      setHlslIoMapping (hlsl_iomap c),
      setResourceSetBinding (hlsl_explicit_bindings c ! EShLanguage_index stage),
      setEnvClient (gi_client info) (gi_client_version info),
      setEnvTarget (gi_target_language info) (gi_target_language_version info)] @
     (if hlsl_functionality1_enabled c then [setEnvTargetHlslFunctionality1] else []) @
     (if vulkan_rules_relaxed c then
        [setEnvInput (case source_language c of GLSL \<Rightarrow> EShSourceGlsl | HLSL \<Rightarrow> EShSourceHlsl)
           stage EShClientVulkan 100,
         setEnvInputVulkanRulesRelaxed]
      else []) @
     [setInvertY (invert_y_enabled c), setNanMinMaxClamp (nan_clamp c)]"

text \<open>The second part turns the source into a binary with glslang.\<close>

definition shaderc_generator_word :: uint32_t where "shaderc_generator_word = 13"
definition generator_word_index :: nat where "generator_word_index = 2"

definition set_generator :: "uint32_t list \<Rightarrow> uint32_t list" where
  "set_generator spirv =
     spirv[generator_word_index :=
       (spirv ! generator_word_index AND 0xffff) OR push_bit 16 shaderc_generator_word]"

definition translate ::
  "('i, 's, 'p) glslang \<Rightarrow> Compiler \<Rightarrow> GlslangClientInfo \<Rightarrow> string \<Rightarrow> EShLanguage \<Rightarrow> string \<Rightarrow> string \<Rightarrow>
    message_state \<Rightarrow> 'i \<Rightarrow> uint32_t list option \<times> message_state \<times> 'i" where
  "translate g c info source stage error_tag entry_point_name st includer =
     (let rules = GetMessageRules (target_env c) (source_language c) (hlsl_offsets c)
            (hlsl_16bit_types_enabled c) (generate_debug_info c);
          (success, shader, info_log, includer) =
            TShader_parse g stage (shader_calls c info source stage error_tag entry_point_name) (limits c)
              (default_version c) (default_profile c) (force_version_profile c) kNotForwardCompatible
              rules includer;
          (printed, st) = PrintFilteredErrors error_tag (warnings_as_errors c) (suppress_warnings c) info_log st
      in if \<not> (success \<and> printed) then (None, st, includer)
         else
           let (linked, program) = TProgram_link g shader;
               (success, program) = (if linked then TProgram_mapIO g program else (False, program));
               (printed, st) = PrintFilteredErrors error_tag (warnings_as_errors c) (suppress_warnings c)
                 (TProgram_getInfoLog g program) st
           in if \<not> (success \<and> printed) then (None, st, includer)
              else (Some (set_generator (GlslangToSpv g program stage (generate_debug_info c) True False)),
                    st, includer))"

text \<open>The third part optimizes the binary and writes it out.\<close>

definition opt_passes_of :: "Compiler \<Rightarrow> PassId list" where
  "opt_passes_of c =
     (if hlsl_legalization_enabled c \<and> source_language c = HLSL then [kLegalizationPasses] else []) @
     enabled_opt_passes c"

definition write_output ::
  "uint32_t \<Rightarrow> spirv_tools \<Rightarrow> Compiler \<Rightarrow> OutputType \<Rightarrow> uint32_t list \<Rightarrow> message_state \<Rightarrow>
    compile_result \<times> message_state" where
  "write_output host tools c output_type spirv st =
     (let (optimized, spirv, opt_errors) =
            (if opt_passes_of c \<noteq> [] then
               SpirvToolsOptimize tools (target_env c) (target_env_version c) (opt_passes_of c)
                 \<lparr>opt_preserve_bindings = preserve_bindings c, opt_validator_options = None,
                  opt_run_validator = None\<rparr> spirv
             else (True, spirv, ''''))
      in if \<not> optimized then
           ((False, spirv, 0),
            st\<lparr>error_stream := error_stream st @
                 ''shaderc: internal error: compilation succeeded but failed to optimize: '' @
                 opt_errors @ [newline]\<rparr>)
         else if output_type = SpirvAssemblyText then
           let (disassembled, text_or_error) =
                 SpirvToolsDisassemble tools (target_env c) (target_env_version c) spirv
           in if \<not> disassembled then
                ((False, spirv, 0),
                 st\<lparr>error_stream := error_stream st @
                      ''shaderc: internal error: compilation succeeded but failed to disassemble: '' @
                      text_or_error @ [newline]\<rparr>)
              else ((True, ConvertStringToVector host text_or_error, length text_or_error), st)
         else ((True, spirv, 4 * length spirv), st))"

definition Compile ::
  "uint32_t \<Rightarrow> ('m CountingIncluder_scheme, 's, 'p) glslang \<Rightarrow> spirv_tools \<Rightarrow> Compiler \<Rightarrow> string \<Rightarrow>
    EShLanguage \<Rightarrow> string \<Rightarrow> string \<Rightarrow> 'd stage_callback \<Rightarrow> OutputType \<Rightarrow> message_state \<Rightarrow>
    'm CountingIncluder_scheme \<Rightarrow> 'd \<Rightarrow>
    compile_result \<times> message_state \<times> 'm CountingIncluder_scheme \<times> 'd" where
  "Compile host g tools c input_source_string forced_shader_stage error_tag entry_point_name
     stage_callback output_type st includer d =
     (let target_client_info = compiler_client_info error_tag c
      in if gi_error target_client_info \<noteq> [] then
           (failed, st\<lparr>error_stream := error_stream st @ gi_error target_client_info,
                       total_warnings := 0, total_errors := 1\<rparr>, includer, d)
         else
           let (found, st, includer, d) = find_stage host g c input_source_string forced_shader_stage
                 error_tag stage_callback output_type st includer d
           in case found of
                Inl result \<Rightarrow> (result, st, includer, d)
              | Inr used_shader_stage \<Rightarrow>
                  let (spirv, st, includer) = translate g c target_client_info input_source_string
                        used_shader_stage error_tag entry_point_name st includer
                  in case spirv of
                       None \<Rightarrow> (failed, st, includer, d)
                     | Some spirv \<Rightarrow>
                         let (result, st) = write_output host tools c output_type spirv st
                         in (result, st, includer, d))"

section \<open>What the parts keep\<close>

lemma printed_totals:
  "PrintFilteredErrors name we sw errors st = (True, st') \<Longrightarrow> total_errors st' = total_errors st"
  by (auto simp: PrintFilteredErrors_def Let_def)

lemma words_of_bytes_length: "length (words_of_bytes host bs) = length bs div 4"
  by (induction host bs rule: words_of_bytes.induct) auto

lemma text_length: "length s < 4 * length (ConvertStringToVector host s)"
proof -
  have "length (takeWhile (\<lambda>c. c \<noteq> CHR 0x00) s) \<le> length s" by (rule length_takeWhile_le)
  moreover have "length s < 4 * (length s div 4 + 1)" by (simp add: mult.commute)
  ultimately show ?thesis
    by (simp add: ConvertStringToVector_def Let_def words_of_bytes_length)
qed

text \<open>What a result says of its output: an output of text ends with at least one zero byte.\<close>

definition result_ok :: "uint32_t \<Rightarrow> OutputType \<Rightarrow> compile_result \<Rightarrow> bool" where
  "result_ok host output_type = (\<lambda>(succeeded, data, size).
     if succeeded then
       (if output_type = SpirvBinary then size = 4 * length data
        else \<exists>text. data = ConvertStringToVector host text \<and> size = length text)
     else size = 0)"

lemma failed_ok [simp]: "result_ok host output_type failed" "fst failed = False"
  by (simp_all add: result_ok_def failed_def)

lemma find_stage_ok:
  assumes "find_stage host g c source forced tag callback output_type st includer d = (found, st', includer', d')"
  shows "(case found of Inl r \<Rightarrow> result_ok host output_type r \<and> (fst r \<longrightarrow> total_errors st' = total_errors st)
    | Inr stage \<Rightarrow> stage \<noteq> EShLangCount \<and> output_type \<noteq> PreprocessedText \<and> total_errors st' = total_errors st)"
proof (cases "output_type = PreprocessedText \<or> forced = EShLangCount")
  case True
  show ?thesis
    using assms printed_totals
    by (auto simp: find_stage_def Let_def True result_ok_def failed_def split: prod.splits if_splits)
next
  case False
  then show ?thesis using assms by (auto simp: find_stage_def)
qed

lemma translate_ok:
  assumes "translate g c info source stage tag entry st includer = (Some spirv, st', includer')"
  shows "total_errors st' = total_errors st \<and>
    (\<exists>program. spirv = set_generator (GlslangToSpv g program stage (generate_debug_info c) True False))"
  using assms printed_totals by (auto simp: translate_def Let_def split: prod.splits if_splits)

lemma write_output_ok:
  assumes "write_output host tools c output_type spirv st = (result, st')" "output_type \<noteq> PreprocessedText"
  shows "result_ok host output_type result \<and> total_errors st' = total_errors st"
proof -
  have "output_type = SpirvBinary \<or> output_type = SpirvAssemblyText" using assms(2) by (cases output_type) auto
  then show ?thesis
    using assms(1)
    by (auto simp: write_output_def Let_def result_ok_def split: prod.splits if_splits)
qed

lemma Compile_ok:
  assumes "Compile host g tools c source forced tag entry callback output_type st includer d = (r, after, includer', d')"
  shows "result_ok host output_type r \<and> (fst r \<longrightarrow> total_errors after = total_errors st)"
  using assms find_stage_ok [of host g c source forced tag callback output_type st includer d]
    write_output_ok [of host tools c output_type] translate_ok [of g c _ source _ tag entry]
  by (auto simp: Compile_def Let_def split: prod.splits if_splits sum.splits option.splits)

text \<open>The state of the callback changes only where it is called, without a forced stage.\<close>

lemma find_stage_callback:
  assumes "find_stage host g c source forced tag callback output_type st includer d = (found, st', includer', d')"
  shows "d' = d \<or> forced = EShLangCount \<and> (\<exists>stream r s. callback stream tag d = (r, s, d'))"
  using assms by (auto simp: find_stage_def Let_def split: prod.splits if_splits)

lemma Compile_callback:
  assumes "Compile host g tools c source forced tag entry callback output_type st includer d = (r, after, includer', d')"
  shows "d' = d \<or> forced = EShLangCount \<and> (\<exists>stream r s. callback stream tag d = (r, s, d'))"
  using assms find_stage_callback [of host g c source forced tag callback output_type st includer d]
  by (auto simp: Compile_def Let_def split: prod.splits if_splits sum.splits option.splits)

text \<open>The preprocessed source without the preamble, which the stage is looked for in.\<close>

definition cleaned_shader ::
  "('m CountingIncluder_scheme, 's, 'p) glslang \<Rightarrow> Compiler \<Rightarrow> string \<Rightarrow> string \<Rightarrow> 'm CountingIncluder_scheme \<Rightarrow> string" where
  "cleaned_shader g c source tag includer =
     (let (_, preprocessed, _, includer) =
            PreprocessShader g c tag source (macro_definitions c @ pound_extension) includer;
          (version, profile) = DeduceVersionProfile c preprocessed
      in CleanupPreamble preprocessed tag pound_extension (sint (num_include_directives includer))
           (LineDirectiveIsForNextLine version profile))"

lemma set_generator_words:
  "set_generator s = take 2 s @ map (\<lambda>w. push_bit 16 13 OR take_bit 16 w) (take 1 (drop 2 s)) @ drop 3 s"
proof -
  have word: "(w AND 0xffff) OR push_bit 16 13 = push_bit 16 13 OR take_bit 16 w" for w :: uint32_t
    by (simp add: take_bit_eq_mask or.commute mask_eq_exp_minus_1)
  consider "length s \<le> 2" | a b w r where "s = a # b # w # r"
    by (metis One_nat_def Suc_eq_plus1 le_SucI list.exhaust list.size(3) list.size(4) not_less_eq_eq numeral_2_eq_2 zero_le)
  then show ?thesis
    unfolding set_generator_def generator_word_index_def shaderc_generator_word_def word
    by cases (simp_all add: list_update_beyond)
qed

section \<open>Properties\<close>

text \<open>C4: a compilation that succeeds has counted no error, its binary is all words of the output and
  its text is followed by at least one zero byte, and a compilation that fails has no size.\<close>

theorem Compile_result:
  "(let ((succeeded, data, size), after, _, _) =
          Compile host g tools c source forced tag entry callback output_type st includer d
    in if succeeded then total_errors after = total_errors st \<and>
         (if output_type = SpirvBinary then size = 4 * length data else size < 4 * length data)
       else size = 0)"
proof -
  obtain r after includer' d' where compile:
    "Compile host g tools c source forced tag entry callback output_type st includer d = (r, after, includer', d')"
    by (metis prod_cases4)
  show ?thesis
    using Compile_ok [OF compile] text_length [of _ host]
    unfolding compile by (auto simp: result_ok_def split: prod.splits)
qed

text \<open>C35: a binary that no pass changes is the one glslang translated, with the generator word naming
  this compiler in its upper half and its lower half as before.\<close>

theorem Compile_generator:
  "(let ((succeeded, data, size), _) =
          Compile host g tools c source forced tag entry callback SpirvBinary st includer d
    in if succeeded \<and> list_all (\<lambda>pass. pass = kNullPass) (opt_passes_of c) then
         \<exists>program stage. let spirv = GlslangToSpv g program stage (generate_debug_info c) True False
           in data = take 2 spirv @ map (\<lambda>w. push_bit 16 13 OR take_bit 16 w) (take 1 (drop 2 spirv)) @ drop 3 spirv
       else True)"
proof -
  obtain r after includer' d' where compile:
    "Compile host g tools c source forced tag entry callback SpirvBinary st includer d = (r, after, includer', d')"
    by (metis prod_cases4)
  obtain succeeded data size where r: "r = (succeeded, data, size)" by (cases r)
  have "\<exists>program stage. data = set_generator (GlslangToSpv g program stage (generate_debug_info c) True False)"
    if succeeded: "succeeded" and null: "list_all (\<lambda>pass. pass = kNullPass) (opt_passes_of c)"
  proof -
    have "write_output host tools c SpirvBinary spirv st = ((True, spirv, 4 * length spirv), st)" for spirv st
      using null by (simp add: write_output_def SpirvToolsOptimize_def)
    moreover have "\<not> fst result" if "find_stage host g c source forced tag callback SpirvBinary st includer d = (Inl result, s', i', d'')"
      for result s' i' d''
      using that by (auto simp: find_stage_def Let_def split: prod.splits if_splits)
    ultimately show ?thesis
      using compile r succeeded translate_ok [of g c _ source _ tag entry]
      by (fastforce simp: Compile_def Let_def failed_def split: prod.splits if_splits sum.splits option.splits)
  qed
  then show ?thesis unfolding compile r set_generator_words by (simp add: Let_def)
qed

text \<open>C34: the optimizer is run with the passes the options ask for and only then: legalization first for
  HLSL, then what the optimization level set last asks for, without stripping the debug info when it
  was asked for.\<close>

theorem optimizer_registrations:
  "(let c = fold apply_option ops new_Compiler;
        registered = (if hlsl_legalization_enabled c \<and> source_language c = HLSL
                      then [RegisterLegalizationPasses] else []) @
          (case last_level ops of OL_Zero \<Rightarrow> []
           | OL_Size \<Rightarrow> (if CallSetGenerateDebugInfo \<in> set ops then [] else [RegisterStripDebugInfoPass]) @ [RegisterSizePasses]
           | OL_Performance \<Rightarrow>
               (if CallSetGenerateDebugInfo \<in> set ops then [] else [RegisterStripDebugInfoPass]) @ [RegisterPerformancePasses])
    in SpirvToolsOptimize tools env version (opt_passes_of c) options binary =
       (if registered = [] then (True, binary, '''')
        else let (success, binary, messages) = Optimizer_Run tools (GetSpirvToolsTargetEnv env version) registered
                   (options\<lparr>opt_validator_options := Some \<lparr>SkipBlockLayout = True, RelaxLogicalPointer = True,
                        BeforeHlslLegalization = True, FriendlyNames = False\<rparr>,
                      opt_run_validator := Some True\<rparr>) binary
             in (success, binary, if success then '''' else concat (map (\<lambda>message. message @ [newline]) messages))))"
proof -
  define c where "c = fold apply_option ops new_Compiler"
  have register: "concat (map register_pass passes) = concat (map register_pass (filter (\<lambda>p. p \<noteq> kNullPass) passes))"
    for passes by (induction passes) auto
  have none: "list_all (\<lambda>p. p = kNullPass) passes \<longleftrightarrow> concat (map register_pass passes) = []" for passes
  proof (induction passes)
    case (Cons p passes)
    then show ?case by (cases p) auto
  qed simp
  have passes: "filter (\<lambda>p. p \<noteq> kNullPass) (enabled_opt_passes c) =
      level_passes (CallSetGenerateDebugInfo \<in> set ops) (last_level ops)"
    unfolding c_def using passes_run [of ops] by (simp add: effective_passes_def)
  let ?r = "concat (map register_pass (opt_passes_of c))"
  have r: "?r = (if hlsl_legalization_enabled c \<and> source_language c = HLSL then [RegisterLegalizationPasses] else []) @
      (case last_level ops of OL_Zero \<Rightarrow> []
       | OL_Size \<Rightarrow> (if CallSetGenerateDebugInfo \<in> set ops then [] else [RegisterStripDebugInfoPass]) @ [RegisterSizePasses]
       | OL_Performance \<Rightarrow>
           (if CallSetGenerateDebugInfo \<in> set ops then [] else [RegisterStripDebugInfoPass]) @ [RegisterPerformancePasses])"
    using register [of "enabled_opt_passes c"]
    by (simp add: opt_passes_of_def passes level_passes_def split: OptimizationLevel.splits)
  show ?thesis
    unfolding c_def [symmetric] Let_def r [symmetric] SpirvToolsOptimize_def none
    by (auto simp: split_beta)
qed

text \<open>C33: the stage of a compilation is the forced one; without it, the one the stage pragmas of the
  preprocessed source name; without them, the one the callback gives. Preprocessing alone never gets to
  a stage.\<close>

theorem stage_priority:
  "(case find_stage host g c source forced tag callback output_type st includer d of
      (Inl _, _) \<Rightarrow> True
    | (Inr stage, st', includer', d') \<Rightarrow>
        output_type \<noteq> PreprocessedText \<and> stage \<noteq> EShLangCount \<and>
        (if forced \<noteq> EShLangCount then stage = forced \<and> includer' = includer \<and> d' = d
         else let shader = cleaned_shader g c source tag includer; values = pragma_values shader
           in if values \<noteq> [] then
                stage = MapStageNameToLanguage (hd values) \<and> list_all (\<lambda>v. v = hd values) values \<and>
                \<not> code_before_pragma shader \<and> d' = d
              else \<exists>stream. callback stream tag d = (stage, error_stream st', d')))"
proof -
  obtain found st' includer' d' where find:
    "find_stage host g c source forced tag callback output_type st includer d = (found, st', includer', d')"
    by (metis prod_cases4)
  show ?thesis
  proof (cases found)
    case (Inr stage)
    have ok: "stage \<noteq> EShLangCount" "output_type \<noteq> PreprocessedText"
      using find_stage_ok [OF find] Inr by simp_all
    show ?thesis
    proof (cases "forced = EShLangCount")
      case True
      let ?shader = "cleaned_shader g c source tag includer"
      obtain pragma errors where pragma: "GetShaderStageFromSourceCode c tag ?shader = (pragma, errors)"
        by (cases "GetShaderStageFromSourceCode c tag ?shader")
      have errors: "errors = []" and stage: "if pragma = EShLangCount
          then \<exists>stream. callback stream tag d = (stage, error_stream st', d') else stage = pragma \<and> d' = d"
        using find Inr ok True pragma unfolding cleaned_shader_def
        by (auto simp: find_stage_def Let_def split: prod.splits if_splits)
      show ?thesis
        using GetShaderStage_cases [of c tag ?shader] errors stage ok True
        unfolding find Inr pragma by (auto simp: Let_def split: if_splits)
    next
      case False
      then show ?thesis using find Inr ok by (auto simp: find_stage_def)
    qed
  qed (simp add: find)
qed

end
