(* ===== verification/Shaderc.thy ===== *)
theory Shaderc
  imports Compile
begin

text \<open>
  The interface of the compiler, \<open>shaderc/shaderc.cc\<close>: the enumerations of \<open>shaderc/shaderc.h\<close>,
  \<open>env.h\<close> and \<open>status.h\<close> and what they mean for \<open>libshaderc_util\<close>, the options and the functions that set
  them, the includer, and the functions that compile and assemble and give the results.
\<close>

section \<open>Enumerations\<close>

text \<open>The names \<open>shaderc_glsl_..._shader\<close> are further names of the first kinds.\<close>

datatype shaderc_shader_kind =
    shaderc_vertex_shader | shaderc_fragment_shader | shaderc_compute_shader | shaderc_geometry_shader
  | shaderc_tess_control_shader | shaderc_tess_evaluation_shader
  | shaderc_glsl_infer_from_source
  | shaderc_glsl_default_vertex_shader | shaderc_glsl_default_fragment_shader
  | shaderc_glsl_default_compute_shader | shaderc_glsl_default_geometry_shader
  | shaderc_glsl_default_tess_control_shader | shaderc_glsl_default_tess_evaluation_shader
  | shaderc_spirv_assembly
  | shaderc_raygen_shader | shaderc_anyhit_shader | shaderc_closesthit_shader | shaderc_miss_shader
  | shaderc_intersection_shader | shaderc_callable_shader
  | shaderc_glsl_default_raygen_shader | shaderc_glsl_default_anyhit_shader
  | shaderc_glsl_default_closesthit_shader | shaderc_glsl_default_miss_shader
  | shaderc_glsl_default_intersection_shader | shaderc_glsl_default_callable_shader
  | shaderc_task_shader | shaderc_mesh_shader
  | shaderc_glsl_default_task_shader | shaderc_glsl_default_mesh_shader

datatype shaderc_source_language = shaderc_source_language_glsl | shaderc_source_language_hlsl

datatype shaderc_profile = shaderc_profile_none | shaderc_profile_core | shaderc_profile_compatibility
  | shaderc_profile_es

datatype shaderc_optimization_level = shaderc_optimization_level_zero | shaderc_optimization_level_size
  | shaderc_optimization_level_performance

datatype shaderc_uniform_kind = shaderc_uniform_kind_image | shaderc_uniform_kind_sampler
  | shaderc_uniform_kind_texture | shaderc_uniform_kind_buffer | shaderc_uniform_kind_storage_buffer
  | shaderc_uniform_kind_unordered_access_view

datatype shaderc_target_env = shaderc_target_env_vulkan | shaderc_target_env_opengl
  | shaderc_target_env_opengl_compat | shaderc_target_env_webgpu

definition shaderc_target_env_default :: shaderc_target_env where
  "shaderc_target_env_default = shaderc_target_env_vulkan"

datatype shaderc_compilation_status =
    shaderc_compilation_status_success
  | shaderc_compilation_status_invalid_stage
  | shaderc_compilation_status_compilation_error
  | shaderc_compilation_status_internal_error
  | shaderc_compilation_status_null_result_object
  | shaderc_compilation_status_invalid_assembly
  | shaderc_compilation_status_validation_error
  | shaderc_compilation_status_transformation_error
  | shaderc_compilation_status_configuration_error

datatype shaderc_include_type = shaderc_include_type_relative | shaderc_include_type_standard

section \<open>What they mean\<close>

definition GetForcedStage :: "shaderc_shader_kind \<Rightarrow> EShLanguage" where
  "GetForcedStage kind =
     (case kind of
        shaderc_vertex_shader \<Rightarrow> EShLangVertex
      | shaderc_fragment_shader \<Rightarrow> EShLangFragment
      | shaderc_compute_shader \<Rightarrow> EShLangCompute
      | shaderc_geometry_shader \<Rightarrow> EShLangGeometry
      | shaderc_tess_control_shader \<Rightarrow> EShLangTessControl
      | shaderc_tess_evaluation_shader \<Rightarrow> EShLangTessEvaluation
      | shaderc_raygen_shader \<Rightarrow> EShLangRayGen
      | shaderc_anyhit_shader \<Rightarrow> EShLangAnyHit
      | shaderc_closesthit_shader \<Rightarrow> EShLangClosestHit
      | shaderc_miss_shader \<Rightarrow> EShLangMiss
      | shaderc_intersection_shader \<Rightarrow> EShLangIntersect
      | shaderc_callable_shader \<Rightarrow> EShLangCallable
      | shaderc_task_shader \<Rightarrow> EShLangTask
      | shaderc_mesh_shader \<Rightarrow> EShLangMesh
      | _ \<Rightarrow> EShLangCount)"

definition GetDefaultStage :: "shaderc_shader_kind \<Rightarrow> EShLanguage" where
  "GetDefaultStage kind =
     (case kind of
        shaderc_glsl_default_vertex_shader \<Rightarrow> EShLangVertex
      | shaderc_glsl_default_fragment_shader \<Rightarrow> EShLangFragment
      | shaderc_glsl_default_compute_shader \<Rightarrow> EShLangCompute
      | shaderc_glsl_default_geometry_shader \<Rightarrow> EShLangGeometry
      | shaderc_glsl_default_tess_control_shader \<Rightarrow> EShLangTessControl
      | shaderc_glsl_default_tess_evaluation_shader \<Rightarrow> EShLangTessEvaluation
      | shaderc_glsl_default_raygen_shader \<Rightarrow> EShLangRayGen
      | shaderc_glsl_default_anyhit_shader \<Rightarrow> EShLangAnyHit
      | shaderc_glsl_default_closesthit_shader \<Rightarrow> EShLangClosestHit
      | shaderc_glsl_default_miss_shader \<Rightarrow> EShLangMiss
      | shaderc_glsl_default_intersection_shader \<Rightarrow> EShLangIntersect
      | shaderc_glsl_default_callable_shader \<Rightarrow> EShLangCallable
      | shaderc_glsl_default_task_shader \<Rightarrow> EShLangTask
      | shaderc_glsl_default_mesh_shader \<Rightarrow> EShLangMesh
      | _ \<Rightarrow> EShLangCount)"

record StageDeducer =
  sd_kind :: shaderc_shader_kind
  sd_error :: bool

definition new_StageDeducer :: "shaderc_shader_kind \<Rightarrow> StageDeducer" where
  "new_StageDeducer kind = \<lparr>sd_kind = kind, sd_error = False\<rparr>"

definition StageDeducer_call :: "StageDeducer stage_callback" where
  "StageDeducer_call stream error_tag this =
     (let stage = GetDefaultStage (sd_kind this)
      in (stage, stream, this\<lparr>sd_error := (stage = EShLangCount)\<rparr>))"

definition GetCompilerTargetEnv :: "shaderc_target_env \<Rightarrow> TargetEnv" where
  "GetCompilerTargetEnv env =
     (case env of
        shaderc_target_env_opengl \<Rightarrow> TE_OpenGL
      | shaderc_target_env_opengl_compat \<Rightarrow> TE_OpenGLCompat
      | _ \<Rightarrow> TE_Vulkan)"

definition GetCompilerTargetEnvVersion :: "uint32_t \<Rightarrow> TargetEnvVersion" where
  "GetCompilerTargetEnvVersion version_number =
     (if TEV_Vulkan_1_0 = version_number then TEV_Vulkan_1_0
      else if TEV_Vulkan_1_1 = version_number then TEV_Vulkan_1_1
      else if TEV_Vulkan_1_2 = version_number then TEV_Vulkan_1_2
      else if TEV_Vulkan_1_3 = version_number then TEV_Vulkan_1_3
      else if TEV_Vulkan_1_4 = version_number then TEV_Vulkan_1_4
      else if TEV_OpenGL_4_5 = version_number then TEV_OpenGL_4_5
      else TEV_Default)"

definition GetUniformKind :: "shaderc_uniform_kind \<Rightarrow> UniformKind" where
  "GetUniformKind kind =
     (case kind of
        shaderc_uniform_kind_texture \<Rightarrow> UK_Texture
      | shaderc_uniform_kind_sampler \<Rightarrow> UK_Sampler
      | shaderc_uniform_kind_image \<Rightarrow> UK_Image
      | shaderc_uniform_kind_buffer \<Rightarrow> UK_Buffer
      | shaderc_uniform_kind_storage_buffer \<Rightarrow> UK_StorageBuffer
      | shaderc_uniform_kind_unordered_access_view \<Rightarrow> UK_UnorderedAccessView)"

text \<open>The other kinds are refused by an assertion; without it they give the first stage.\<close>

definition GetStage :: "shaderc_shader_kind \<Rightarrow> Stage" where
  "GetStage kind =
     (case kind of
        shaderc_vertex_shader \<Rightarrow> Stage_Vertex
      | shaderc_fragment_shader \<Rightarrow> Stage_Fragment
      | shaderc_compute_shader \<Rightarrow> Stage_Compute
      | shaderc_tess_control_shader \<Rightarrow> Stage_TessControl
      | shaderc_tess_evaluation_shader \<Rightarrow> Stage_TessEval
      | shaderc_geometry_shader \<Rightarrow> Stage_Geometry
      | _ \<Rightarrow> Stage_Vertex)"

definition shaderc_convert_specific_stage :: "shaderc_shader_kind \<Rightarrow> Stage" where
  "shaderc_convert_specific_stage kind =
     (case kind of
        shaderc_vertex_shader \<Rightarrow> Stage_Vertex
      | shaderc_fragment_shader \<Rightarrow> Stage_Fragment
      | shaderc_tess_control_shader \<Rightarrow> Stage_TessControl
      | shaderc_tess_evaluation_shader \<Rightarrow> Stage_TessEval
      | shaderc_geometry_shader \<Rightarrow> Stage_Geometry
      | shaderc_compute_shader \<Rightarrow> Stage_Compute
      | shaderc_raygen_shader \<Rightarrow> Stage_RayGen
      | shaderc_intersection_shader \<Rightarrow> Stage_Intersect
      | shaderc_anyhit_shader \<Rightarrow> Stage_AnyHit
      | shaderc_closesthit_shader \<Rightarrow> Stage_ClosestHit
      | shaderc_miss_shader \<Rightarrow> Stage_Miss
      | shaderc_callable_shader \<Rightarrow> Stage_Callable
      | shaderc_task_shader \<Rightarrow> Stage_Task
      | shaderc_mesh_shader \<Rightarrow> Stage_Mesh
      | _ \<Rightarrow> Stage_TessEval)"

section \<open>The includer\<close>

text \<open>
  A result of the callbacks holds its strings with their lengths; the callbacks are functions of the
  user data, and a null pointer is \<open>None\<close>. A resolver never returns a null pointer.
\<close>

record shaderc_include_result =
  source_name :: string
  content :: string

type_synonym 'd shaderc_include_resolve_fn =
  "'d \<Rightarrow> string \<Rightarrow> shaderc_include_type \<Rightarrow> string \<Rightarrow> nat \<Rightarrow> shaderc_include_result \<times> 'd"

type_synonym 'd shaderc_include_result_release_fn =
  "'d \<Rightarrow> shaderc_include_result option \<Rightarrow> 'd"

record IncludeResult =
  headerName :: string
  headerData :: string
  userData :: "shaderc_include_result option"

record 'd InternalFileIncluder = CountingIncluder +
  resolver :: "'d shaderc_include_resolve_fn option"
  result_releaser :: "'d shaderc_include_result_release_fn option"
  user_data :: 'd

definition new_InternalFileIncluder ::
  "'d shaderc_include_resolve_fn option \<Rightarrow> 'd shaderc_include_result_release_fn option \<Rightarrow> 'd \<Rightarrow>
    'd InternalFileIncluder" where
  "new_InternalFileIncluder resolve release data =
     \<lparr>num_include_directives = 0, resolver = resolve, result_releaser = release, user_data = data\<rparr>"

definition AreValidCallbacks :: "'d InternalFileIncluder \<Rightarrow> bool" where
  "AreValidCallbacks this \<longleftrightarrow> resolver this \<noteq> None \<and> result_releaser this \<noteq> None"

primrec GetIncludeType :: "IncludeType \<Rightarrow> shaderc_include_type" where
  "GetIncludeType Local = shaderc_include_type_relative"
| "GetIncludeType System = shaderc_include_type_standard"

definition include_delegate ::
  "string \<Rightarrow> string \<Rightarrow> IncludeType \<Rightarrow> nat \<Rightarrow> 'd InternalFileIncluder \<Rightarrow>
    IncludeResult \<times> 'd InternalFileIncluder" where
  "include_delegate requested_source requesting_source type include_depth this =
     (if \<not> AreValidCallbacks this then
        (\<lparr>headerName = '''', headerData = ''#error unexpected include directive'', userData = None\<rparr>, this)
      else
        let (include_result, data) = the (resolver this) (user_data this) requested_source
              (GetIncludeType type) requesting_source include_depth
        in (\<lparr>headerName = source_name include_result, headerData = content include_result,
             userData = Some include_result\<rparr>, this\<lparr>user_data := data\<rparr>))"

definition release_delegate ::
  "IncludeResult option \<Rightarrow> 'd InternalFileIncluder \<Rightarrow> 'd InternalFileIncluder" where
  "release_delegate result this =
     (case (result, result_releaser this) of
        (Some r, Some release) \<Rightarrow> this\<lparr>user_data := release (user_data this) (userData r)\<rparr>
      | _ \<Rightarrow> this)"

section \<open>The options\<close>

record 'd shaderc_compile_options =
  so_target_env :: shaderc_target_env
  so_target_env_version :: uint32_t
  so_compiler :: Compiler
  include_resolver :: "'d shaderc_include_resolve_fn option"
  include_result_releaser :: "'d shaderc_include_result_release_fn option"
  include_user_data :: 'd

text \<open>The user data is a pointer; the null pointer of it is an argument.\<close>

definition shaderc_compile_options_initialize :: "'d \<Rightarrow> 'd shaderc_compile_options" where
  "shaderc_compile_options_initialize null =
     \<lparr>so_target_env = shaderc_target_env_default, so_target_env_version = 0, so_compiler = new_Compiler,
      include_resolver = None, include_result_releaser = None, include_user_data = null\<rparr>"

definition shaderc_compile_options_clone ::
  "'d \<Rightarrow> 'd shaderc_compile_options option \<Rightarrow> 'd shaderc_compile_options" where
  "shaderc_compile_options_clone null options =
     (case options of None \<Rightarrow> shaderc_compile_options_initialize null | Some options \<Rightarrow> options)"

definition on_compiler :: "(Compiler \<Rightarrow> Compiler) \<Rightarrow> 'd shaderc_compile_options \<Rightarrow> 'd shaderc_compile_options" where
  "on_compiler f options = options\<lparr>so_compiler := f (so_compiler options)\<rparr>"

definition shaderc_compile_options_add_macro_definition ::
  "nat \<Rightarrow> string \<Rightarrow> nat \<Rightarrow> string option \<Rightarrow> nat \<Rightarrow> 'd shaderc_compile_options \<Rightarrow> 'd shaderc_compile_options" where
  "shaderc_compile_options_add_macro_definition place name name_length v value_length =
     on_compiler (AddMacroDefinition place name name_length v value_length)"

definition shaderc_compile_options_set_source_language ::
  "shaderc_source_language \<Rightarrow> 'd shaderc_compile_options \<Rightarrow> 'd shaderc_compile_options" where
  "shaderc_compile_options_set_source_language set_lang =
     (let lang = (if set_lang = shaderc_source_language_hlsl then HLSL else GLSL)
      in on_compiler (SetSourceLanguage lang))"

definition shaderc_compile_options_set_generate_debug_info ::
  "'d shaderc_compile_options \<Rightarrow> 'd shaderc_compile_options" where
  "shaderc_compile_options_set_generate_debug_info = on_compiler SetGenerateDebugInfo"

definition GetOptimizationLevel :: "shaderc_optimization_level \<Rightarrow> OptimizationLevel" where
  "GetOptimizationLevel level =
     (case level of
        shaderc_optimization_level_size \<Rightarrow> OL_Size
      | shaderc_optimization_level_performance \<Rightarrow> OL_Performance
      | _ \<Rightarrow> OL_Zero)"

definition shaderc_compile_options_set_optimization_level ::
  "shaderc_optimization_level \<Rightarrow> 'd shaderc_compile_options \<Rightarrow> 'd shaderc_compile_options" where
  "shaderc_compile_options_set_optimization_level level = on_compiler (SetOptimizationLevel (GetOptimizationLevel level))"

definition GetEProfile :: "shaderc_profile \<Rightarrow> EProfile" where
  "GetEProfile profile =
     (case profile of
        shaderc_profile_none \<Rightarrow> ENoProfile
      | shaderc_profile_core \<Rightarrow> ECoreProfile
      | shaderc_profile_compatibility \<Rightarrow> ECompatibilityProfile
      | shaderc_profile_es \<Rightarrow> EEsProfile)"

definition shaderc_compile_options_set_forced_version_profile ::
  "int \<Rightarrow> shaderc_profile \<Rightarrow> 'd shaderc_compile_options \<Rightarrow> 'd shaderc_compile_options" where
  "shaderc_compile_options_set_forced_version_profile version profile =
     on_compiler (SetForcedVersionProfile version (GetEProfile profile))"

definition shaderc_compile_options_set_include_callbacks ::
  "'d shaderc_include_resolve_fn option \<Rightarrow> 'd shaderc_include_result_release_fn option \<Rightarrow> 'd \<Rightarrow>
    'd shaderc_compile_options \<Rightarrow> 'd shaderc_compile_options" where
  "shaderc_compile_options_set_include_callbacks resolve release data options =
     options\<lparr>include_resolver := resolve, include_result_releaser := release, include_user_data := data\<rparr>"

definition shaderc_compile_options_set_suppress_warnings ::
  "'d shaderc_compile_options \<Rightarrow> 'd shaderc_compile_options" where
  "shaderc_compile_options_set_suppress_warnings = on_compiler SetSuppressWarnings"

definition shaderc_compile_options_set_target_env ::
  "shaderc_target_env \<Rightarrow> uint32_t \<Rightarrow> 'd shaderc_compile_options \<Rightarrow> 'd shaderc_compile_options" where
  "shaderc_compile_options_set_target_env target version options =
     on_compiler (SetTargetEnv (GetCompilerTargetEnv target) (GetCompilerTargetEnvVersion version))
       (options\<lparr>so_target_env := target\<rparr>)"

definition shaderc_compile_options_set_target_spirv ::
  "uint32_t \<Rightarrow> 'd shaderc_compile_options \<Rightarrow> 'd shaderc_compile_options" where
  "shaderc_compile_options_set_target_spirv ver = on_compiler (SetTargetSpirv ver)"

definition shaderc_compile_options_set_warnings_as_errors ::
  "'d shaderc_compile_options \<Rightarrow> 'd shaderc_compile_options" where
  "shaderc_compile_options_set_warnings_as_errors = on_compiler SetWarningsAsErrors"

definition shaderc_compile_options_set_limit ::
  "shaderc_limit \<Rightarrow> int \<Rightarrow> 'd shaderc_compile_options \<Rightarrow> 'd shaderc_compile_options" where
  "shaderc_compile_options_set_limit limit n = on_compiler (SetLimit (CompilerLimit limit) n)"

definition shaderc_compile_options_set_auto_bind_uniforms ::
  "bool \<Rightarrow> 'd shaderc_compile_options \<Rightarrow> 'd shaderc_compile_options" where
  "shaderc_compile_options_set_auto_bind_uniforms auto_bind = on_compiler (SetAutoBindUniforms auto_bind)"

definition shaderc_compile_options_set_auto_combined_image_sampler ::
  "bool \<Rightarrow> 'd shaderc_compile_options \<Rightarrow> 'd shaderc_compile_options" where
  "shaderc_compile_options_set_auto_combined_image_sampler upgrade =
     on_compiler (SetAutoCombinedImageSampler upgrade)"

definition shaderc_compile_options_set_hlsl_io_mapping ::
  "bool \<Rightarrow> 'd shaderc_compile_options \<Rightarrow> 'd shaderc_compile_options" where
  "shaderc_compile_options_set_hlsl_io_mapping iomap = on_compiler (SetHlslIoMapping iomap)"

definition shaderc_compile_options_set_hlsl_offsets ::
  "bool \<Rightarrow> 'd shaderc_compile_options \<Rightarrow> 'd shaderc_compile_options" where
  "shaderc_compile_options_set_hlsl_offsets offsets = on_compiler (SetHlslOffsets offsets)"

definition shaderc_compile_options_set_binding_base ::
  "shaderc_uniform_kind \<Rightarrow> uint32_t \<Rightarrow> 'd shaderc_compile_options \<Rightarrow> 'd shaderc_compile_options" where
  "shaderc_compile_options_set_binding_base kind base =
     on_compiler (SetAutoBindingBase (GetUniformKind kind) base)"

definition shaderc_compile_options_set_binding_base_for_stage ::
  "shaderc_shader_kind \<Rightarrow> shaderc_uniform_kind \<Rightarrow> uint32_t \<Rightarrow>
    'd shaderc_compile_options \<Rightarrow> 'd shaderc_compile_options" where
  "shaderc_compile_options_set_binding_base_for_stage shader_kind kind base =
     on_compiler (SetAutoBindingBaseForStage (GetStage shader_kind) (GetUniformKind kind) base)"

definition shaderc_compile_options_set_preserve_bindings ::
  "bool \<Rightarrow> 'd shaderc_compile_options \<Rightarrow> 'd shaderc_compile_options" where
  "shaderc_compile_options_set_preserve_bindings preserve = on_compiler (SetPreserveBindings preserve)"

definition shaderc_compile_options_set_auto_map_locations ::
  "bool \<Rightarrow> 'd shaderc_compile_options \<Rightarrow> 'd shaderc_compile_options" where
  "shaderc_compile_options_set_auto_map_locations auto_map = on_compiler (SetAutoMapLocations auto_map)"

definition shaderc_compile_options_set_hlsl_register_set_and_binding_for_stage ::
  "shaderc_shader_kind \<Rightarrow> string \<Rightarrow> string \<Rightarrow> string \<Rightarrow> 'd shaderc_compile_options \<Rightarrow> 'd shaderc_compile_options" where
  "shaderc_compile_options_set_hlsl_register_set_and_binding_for_stage shader_kind reg set_number binding =
     on_compiler (SetHlslRegisterSetAndBindingForStage (GetStage shader_kind) reg set_number binding)"

definition shaderc_compile_options_set_hlsl_register_set_and_binding ::
  "string \<Rightarrow> string \<Rightarrow> string \<Rightarrow> 'd shaderc_compile_options \<Rightarrow> 'd shaderc_compile_options" where
  "shaderc_compile_options_set_hlsl_register_set_and_binding reg set_number binding =
     on_compiler (SetHlslRegisterSetAndBinding reg set_number binding)"

definition shaderc_compile_options_set_hlsl_functionality1 ::
  "bool \<Rightarrow> 'd shaderc_compile_options \<Rightarrow> 'd shaderc_compile_options" where
  "shaderc_compile_options_set_hlsl_functionality1 enable = on_compiler (EnableHlslFunctionality1 enable)"

definition shaderc_compile_options_set_hlsl_16bit_types ::
  "bool \<Rightarrow> 'd shaderc_compile_options \<Rightarrow> 'd shaderc_compile_options" where
  "shaderc_compile_options_set_hlsl_16bit_types enable = on_compiler (EnableHlsl16BitTypes enable)"

definition shaderc_compile_options_set_vulkan_rules_relaxed ::
  "bool \<Rightarrow> 'd shaderc_compile_options \<Rightarrow> 'd shaderc_compile_options" where
  "shaderc_compile_options_set_vulkan_rules_relaxed enable = on_compiler (SetVulkanRulesRelaxed enable)"

definition shaderc_compile_options_set_invert_y ::
  "bool \<Rightarrow> 'd shaderc_compile_options \<Rightarrow> 'd shaderc_compile_options" where
  "shaderc_compile_options_set_invert_y enable = on_compiler (EnableInvertY enable)"

definition shaderc_compile_options_set_nan_clamp ::
  "bool \<Rightarrow> 'd shaderc_compile_options \<Rightarrow> 'd shaderc_compile_options" where
  "shaderc_compile_options_set_nan_clamp enable = on_compiler (SetNanClamp enable)"

section \<open>Results\<close>

text \<open>
  The output is the vector of a compilation, or the binary of an assembly, which is a null pointer
  (\<open>None\<close>) until it is set.
\<close>

record shaderc_compilation_result =
  output_data_size :: nat
  messages :: string
  num_errors :: nat
  num_warnings :: nat
  compilation_status :: shaderc_compilation_status
  output_data :: "uint32_t list option"

definition new_result :: "uint32_t list option \<Rightarrow> shaderc_compilation_result" where
  "new_result data = \<lparr>output_data_size = 0, messages = '''', num_errors = 0, num_warnings = 0,
     compilation_status = shaderc_compilation_status_null_result_object, output_data = data\<rparr>"

text \<open>A compiler is its \<open>initializer\<close>, there or not.\<close>

type_synonym shaderc_compiler = bool

definition CompileToSpecifiedOutputType ::
  "uint32_t \<Rightarrow> ('d InternalFileIncluder, 's, 'p) glslang \<Rightarrow> spirv_tools \<Rightarrow> 'd \<Rightarrow> shaderc_compiler \<Rightarrow> string \<Rightarrow>
    nat \<Rightarrow> shaderc_shader_kind \<Rightarrow> string option \<Rightarrow> string \<Rightarrow> 'd shaderc_compile_options option \<Rightarrow>
    OutputType \<Rightarrow> shaderc_compilation_result" where
  "CompileToSpecifiedOutputType host g tools null compiler source_text source_text_size shader_kind
     input_file_name entry_point_name additional_options output_type =
     (let result = new_result (Some [])
      in case input_file_name of
           None \<Rightarrow>
             result\<lparr>messages := ''Input file name string was null.'', num_errors := 1,
                    compilation_status := shaderc_compilation_status_compilation_error\<rparr>
         | Some input_file_name \<Rightarrow>
             let result = result\<lparr>compilation_status := shaderc_compilation_status_invalid_stage\<rparr>
             in if \<not> compiler then result
                else
                  let errors = \<lparr>error_stream = '''', total_warnings = 0, total_errors = 0\<rparr>;
                      forced_stage = GetForcedStage shader_kind;
                      source_string = take source_text_size source_text;
                      stage_deducer = new_StageDeducer shader_kind;
                      ((compilation_succeeded, compilation_output_data, compilation_output_data_size_in_bytes),
                       errors, includer, stage_deducer) =
                        (case additional_options of
                           Some options \<Rightarrow>
                             Compile host g tools (so_compiler options) source_string forced_stage
                               input_file_name entry_point_name StageDeducer_call output_type errors
                               (new_InternalFileIncluder (include_resolver options)
                                 (include_result_releaser options) (include_user_data options))
                               stage_deducer
                         | None \<Rightarrow>
                             Compile host g tools new_Compiler source_string forced_stage
                               input_file_name entry_point_name StageDeducer_call output_type errors
                               (new_InternalFileIncluder None None null) stage_deducer)
                  in result
                       \<lparr>messages := error_stream errors,
                        output_data := Some compilation_output_data,
                        output_data_size := compilation_output_data_size_in_bytes,
                        num_warnings := total_warnings errors,
                        num_errors := total_errors errors,
                        compilation_status :=
                          (if compilation_succeeded then shaderc_compilation_status_success
                           else if sd_error stage_deducer then shaderc_compilation_status_invalid_stage
                           else shaderc_compilation_status_compilation_error)\<rparr>)"

definition shaderc_compile_into_spv where
  "shaderc_compile_into_spv host g tools null compiler source_text source_text_size shader_kind
     input_file_name entry_point_name additional_options =
     CompileToSpecifiedOutputType host g tools null compiler source_text source_text_size shader_kind
       input_file_name entry_point_name additional_options SpirvBinary"

definition shaderc_compile_into_spv_assembly where
  "shaderc_compile_into_spv_assembly host g tools null compiler source_text source_text_size shader_kind
     input_file_name entry_point_name additional_options =
     CompileToSpecifiedOutputType host g tools null compiler source_text source_text_size shader_kind
       input_file_name entry_point_name additional_options SpirvAssemblyText"

definition shaderc_compile_into_preprocessed_text where
  "shaderc_compile_into_preprocessed_text host g tools null compiler source_text source_text_size shader_kind
     input_file_name entry_point_name additional_options =
     CompileToSpecifiedOutputType host g tools null compiler source_text source_text_size shader_kind
       input_file_name entry_point_name additional_options PreprocessedText"

definition shaderc_assemble_into_spv ::
  "spirv_tools \<Rightarrow> shaderc_compiler \<Rightarrow> string option \<Rightarrow> nat \<Rightarrow> 'd shaderc_compile_options option \<Rightarrow>
    shaderc_compilation_result" where
  "shaderc_assemble_into_spv tools compiler source_assembly source_assembly_size additional_options =
     (let result = (new_result None)\<lparr>compilation_status := shaderc_compilation_status_invalid_assembly\<rparr>
      in if \<not> compiler then result
         else
           case source_assembly of
             None \<Rightarrow> result
           | Some source_assembly \<Rightarrow>
               let env = (case additional_options of
                            Some options \<Rightarrow> so_target_env options | None \<Rightarrow> shaderc_target_env_default);
                   version = (case additional_options of
                                Some options \<Rightarrow> so_target_env_version options | None \<Rightarrow> 0)
               in case SpirvToolsAssemble tools (GetCompilerTargetEnv env) (GetCompilerTargetEnvVersion version)
                         (take source_assembly_size source_assembly) of
                    Inr assembling_output_data \<Rightarrow>
                      result\<lparr>num_errors := 0, output_data := Some assembling_output_data,
                             output_data_size := length assembling_output_data * 4,
                             compilation_status := shaderc_compilation_status_success\<rparr>
                  | Inl errors \<Rightarrow>
                      result\<lparr>num_errors := 1, messages := errors,
                             compilation_status := shaderc_compilation_status_invalid_assembly\<rparr>)"

text \<open>Taking the bytes of a binary that was never set reads through a null pointer: \<open>None\<close>.\<close>

definition shaderc_result_get_bytes :: "uint32_t \<Rightarrow> shaderc_compilation_result \<Rightarrow> uint8_t list option" where
  "shaderc_result_get_bytes host result =
     map_option (\<lambda>data. concat (map (host_bytes host) data)) (output_data result)"

definition shaderc_result_get_length :: "shaderc_compilation_result \<Rightarrow> nat" where
  "shaderc_result_get_length result = output_data_size result"

definition shaderc_result_get_num_warnings :: "shaderc_compilation_result \<Rightarrow> nat" where
  "shaderc_result_get_num_warnings result = num_warnings result"

definition shaderc_result_get_num_errors :: "shaderc_compilation_result \<Rightarrow> nat" where
  "shaderc_result_get_num_errors result = num_errors result"

definition shaderc_result_get_error_message :: "shaderc_compilation_result \<Rightarrow> string" where
  "shaderc_result_get_error_message result = c_string (messages result)"

definition shaderc_result_get_compilation_status ::
  "shaderc_compilation_result \<Rightarrow> shaderc_compilation_status" where
  "shaderc_result_get_compilation_status result = compilation_status result"

definition shaderc_get_spv_version :: "uint32_t \<times> uint32_t" where
  "shaderc_get_spv_version = (0x00010600, 1)"

definition shaderc_parse_version_profile :: "string \<Rightarrow> (int \<times> shaderc_profile) option" where
  "shaderc_parse_version_profile str =
     (case ParseVersionProfile (c_string str) of
        None \<Rightarrow> None
      | Some (version, glslang_profile) \<Rightarrow>
          (case glslang_profile of
             EEsProfile \<Rightarrow> Some (version, shaderc_profile_es)
           | ECoreProfile \<Rightarrow> Some (version, shaderc_profile_core)
           | ECompatibilityProfile \<Rightarrow> Some (version, shaderc_profile_compatibility)
           | ENoProfile \<Rightarrow> Some (version, shaderc_profile_none)
           | _ \<Rightarrow> None))"

section \<open>Sequences of option calls\<close>

text \<open>The functions that set options, as calls.\<close>

datatype 'd shaderc_call =
    AddMacro nat string nat "string option" nat | SetLanguage shaderc_source_language | SetDebugInfo
  | SetLevel shaderc_optimization_level | SetVersionProfile int shaderc_profile
  | SetCallbacks "'d shaderc_include_resolve_fn option" "'d shaderc_include_result_release_fn option" 'd
  | SetSuppress | SetEnvironment shaderc_target_env uint32_t | SetSpirv uint32_t | SetWarnings
  | SetResourceLimit shaderc_limit int | SetBindUniforms bool | SetCombinedSampler bool
  | SetIoMapping bool | SetOffsets bool | SetBase shaderc_uniform_kind uint32_t
  | SetBaseForStage shaderc_shader_kind shaderc_uniform_kind uint32_t | SetPreserve bool
  | SetMapLocations bool | SetRegisterForStage shaderc_shader_kind string string string
  | SetRegister string string string | SetFunctionality1 bool | Set16BitTypes bool | SetRelaxed bool
  | SetInvert bool | SetClamp bool

primrec apply_call :: "'d shaderc_call \<Rightarrow> 'd shaderc_compile_options \<Rightarrow> 'd shaderc_compile_options" where
  "apply_call (AddMacro p n k v l) = shaderc_compile_options_add_macro_definition p n k v l"
| "apply_call (SetLanguage l) = shaderc_compile_options_set_source_language l"
| "apply_call SetDebugInfo = shaderc_compile_options_set_generate_debug_info"
| "apply_call (SetLevel l) = shaderc_compile_options_set_optimization_level l"
| "apply_call (SetVersionProfile v p) = shaderc_compile_options_set_forced_version_profile v p"
| "apply_call (SetCallbacks r l d) = shaderc_compile_options_set_include_callbacks r l d"
| "apply_call SetSuppress = shaderc_compile_options_set_suppress_warnings"
| "apply_call (SetEnvironment e v) = shaderc_compile_options_set_target_env e v"
| "apply_call (SetSpirv v) = shaderc_compile_options_set_target_spirv v"
| "apply_call SetWarnings = shaderc_compile_options_set_warnings_as_errors"
| "apply_call (SetResourceLimit l n) = shaderc_compile_options_set_limit l n"
| "apply_call (SetBindUniforms b) = shaderc_compile_options_set_auto_bind_uniforms b"
| "apply_call (SetCombinedSampler b) = shaderc_compile_options_set_auto_combined_image_sampler b"
| "apply_call (SetIoMapping b) = shaderc_compile_options_set_hlsl_io_mapping b"
| "apply_call (SetOffsets b) = shaderc_compile_options_set_hlsl_offsets b"
| "apply_call (SetBase k b) = shaderc_compile_options_set_binding_base k b"
| "apply_call (SetBaseForStage s k b) = shaderc_compile_options_set_binding_base_for_stage s k b"
| "apply_call (SetPreserve b) = shaderc_compile_options_set_preserve_bindings b"
| "apply_call (SetMapLocations b) = shaderc_compile_options_set_auto_map_locations b"
| "apply_call (SetRegisterForStage s r n b) =
     shaderc_compile_options_set_hlsl_register_set_and_binding_for_stage s r n b"
| "apply_call (SetRegister r n b) = shaderc_compile_options_set_hlsl_register_set_and_binding r n b"
| "apply_call (SetFunctionality1 b) = shaderc_compile_options_set_hlsl_functionality1 b"
| "apply_call (Set16BitTypes b) = shaderc_compile_options_set_hlsl_16bit_types b"
| "apply_call (SetRelaxed b) = shaderc_compile_options_set_vulkan_rules_relaxed b"
| "apply_call (SetInvert b) = shaderc_compile_options_set_invert_y b"
| "apply_call (SetClamp b) = shaderc_compile_options_set_nan_clamp b"

lemmas shaderc_option_defs = shaderc_compile_options_add_macro_definition_def
  shaderc_compile_options_set_source_language_def shaderc_compile_options_set_generate_debug_info_def
  shaderc_compile_options_set_optimization_level_def shaderc_compile_options_set_forced_version_profile_def
  shaderc_compile_options_set_include_callbacks_def shaderc_compile_options_set_suppress_warnings_def
  shaderc_compile_options_set_target_env_def shaderc_compile_options_set_target_spirv_def
  shaderc_compile_options_set_warnings_as_errors_def shaderc_compile_options_set_limit_def
  shaderc_compile_options_set_auto_bind_uniforms_def
  shaderc_compile_options_set_auto_combined_image_sampler_def
  shaderc_compile_options_set_hlsl_io_mapping_def shaderc_compile_options_set_hlsl_offsets_def
  shaderc_compile_options_set_binding_base_def shaderc_compile_options_set_binding_base_for_stage_def
  shaderc_compile_options_set_preserve_bindings_def shaderc_compile_options_set_auto_map_locations_def
  shaderc_compile_options_set_hlsl_register_set_and_binding_for_stage_def
  shaderc_compile_options_set_hlsl_register_set_and_binding_def
  shaderc_compile_options_set_hlsl_functionality1_def shaderc_compile_options_set_hlsl_16bit_types_def
  shaderc_compile_options_set_vulkan_rules_relaxed_def shaderc_compile_options_set_invert_y_def
  shaderc_compile_options_set_nan_clamp_def

lemma apply_call_version: "so_target_env_version (apply_call op options) = so_target_env_version options"
  by (cases op) (simp_all add: shaderc_option_defs on_compiler_def Let_def)

lemma calls_version: "so_target_env_version (fold apply_call ops options) = so_target_env_version options"
  by (induction ops arbitrary: options) (simp_all add: apply_call_version)

section \<open>The kinds of a stage\<close>

primrec forced_kind :: "EShLanguage \<Rightarrow> shaderc_shader_kind" where
  "forced_kind EShLangVertex = shaderc_vertex_shader"
| "forced_kind EShLangTessControl = shaderc_tess_control_shader"
| "forced_kind EShLangTessEvaluation = shaderc_tess_evaluation_shader"
| "forced_kind EShLangGeometry = shaderc_geometry_shader"
| "forced_kind EShLangFragment = shaderc_fragment_shader"
| "forced_kind EShLangCompute = shaderc_compute_shader"
| "forced_kind EShLangRayGen = shaderc_raygen_shader"
| "forced_kind EShLangIntersect = shaderc_intersection_shader"
| "forced_kind EShLangAnyHit = shaderc_anyhit_shader"
| "forced_kind EShLangClosestHit = shaderc_closesthit_shader"
| "forced_kind EShLangMiss = shaderc_miss_shader"
| "forced_kind EShLangCallable = shaderc_callable_shader"
| "forced_kind EShLangTask = shaderc_task_shader"
| "forced_kind EShLangMesh = shaderc_mesh_shader"
| "forced_kind EShLangCount = shaderc_glsl_infer_from_source"

primrec default_kind :: "EShLanguage \<Rightarrow> shaderc_shader_kind" where
  "default_kind EShLangVertex = shaderc_glsl_default_vertex_shader"
| "default_kind EShLangTessControl = shaderc_glsl_default_tess_control_shader"
| "default_kind EShLangTessEvaluation = shaderc_glsl_default_tess_evaluation_shader"
| "default_kind EShLangGeometry = shaderc_glsl_default_geometry_shader"
| "default_kind EShLangFragment = shaderc_glsl_default_fragment_shader"
| "default_kind EShLangCompute = shaderc_glsl_default_compute_shader"
| "default_kind EShLangRayGen = shaderc_glsl_default_raygen_shader"
| "default_kind EShLangIntersect = shaderc_glsl_default_intersection_shader"
| "default_kind EShLangAnyHit = shaderc_glsl_default_anyhit_shader"
| "default_kind EShLangClosestHit = shaderc_glsl_default_closesthit_shader"
| "default_kind EShLangMiss = shaderc_glsl_default_miss_shader"
| "default_kind EShLangCallable = shaderc_glsl_default_callable_shader"
| "default_kind EShLangTask = shaderc_glsl_default_task_shader"
| "default_kind EShLangMesh = shaderc_glsl_default_mesh_shader"
| "default_kind EShLangCount = shaderc_glsl_infer_from_source"

lemma kind_of_stage:
  "stage \<noteq> EShLangCount \<Longrightarrow> GetForcedStage (forced_kind stage) = stage"
  "stage \<noteq> EShLangCount \<Longrightarrow> GetDefaultStage (default_kind stage) = stage"
  by (cases stage; simp add: GetForcedStage_def GetDefaultStage_def)+

lemma stage_of_kind:
  "GetForcedStage kind \<noteq> EShLangCount \<Longrightarrow> kind = forced_kind (GetForcedStage kind)"
  "GetDefaultStage kind \<noteq> EShLangCount \<Longrightarrow> kind = default_kind (GetDefaultStage kind)"
  by (cases kind; simp add: GetForcedStage_def GetDefaultStage_def)+

section \<open>The bytes of a result\<close>

lemmas result_accessors = shaderc_result_get_bytes_def shaderc_result_get_length_def
  shaderc_result_get_num_errors_def shaderc_result_get_compilation_status_def

lemma bytes_length: "length (concat (map (host_bytes host) data)) = 4 * length data"
  by (induction data) (simp_all add: host_bytes_def)

lemma text_bytes:
  "length text < 4 * length (ConvertStringToVector host text) \<and>
    concat (map (host_bytes host) (ConvertStringToVector host text)) ! length text = 0"
proof -
  let ?n = "length (takeWhile (\<lambda>c. c \<noteq> CHR 0x00) text)"
  have "?n \<le> length text" by (rule length_takeWhile_le)
  moreover have "length text < 4 * (length text div 4 + 1)" by (simp add: mult.commute)
  ultimately show ?thesis
    using text_length [of "text" host] by (simp add: vector_bytes nth_append)
qed

section \<open>Properties\<close>

text \<open>Every shader kind forces a stage, names a default stage, or leaves the stage to the source, and
  each of the fourteen stages is forced by exactly one kind and the default of exactly one.\<close>

theorem shader_kinds:
  "((GetForcedStage kind = EShLangCount \<and> GetDefaultStage kind = EShLangCount) =
      (kind \<in> {shaderc_glsl_infer_from_source, shaderc_spirv_assembly})) \<and>
   EShLangCount \<in> {GetForcedStage kind, GetDefaultStage kind} \<and>
   (if stage = EShLangCount then True
    else (\<exists>!kind. GetForcedStage kind = stage) \<and> (\<exists>!kind. GetDefaultStage kind = stage))"
proof (intro conjI)
  show "(GetForcedStage kind = EShLangCount \<and> GetDefaultStage kind = EShLangCount) =
      (kind \<in> {shaderc_glsl_infer_from_source, shaderc_spirv_assembly})"
    "EShLangCount \<in> {GetForcedStage kind, GetDefaultStage kind}"
    by (cases kind; simp add: GetForcedStage_def GetDefaultStage_def)+
  have "\<exists>!kind. GetForcedStage kind = stage" "\<exists>!kind. GetDefaultStage kind = stage" if "stage \<noteq> EShLangCount"
    using kind_of_stage [OF that] stage_of_kind that by metis+
  then show "if stage = EShLangCount then True
    else (\<exists>!kind. GetForcedStage kind = stage) \<and> (\<exists>!kind. GetDefaultStage kind = stage)" by simp
qed

text \<open>C37: a binding base set for a stage by its kind is the one a compilation of that kind uses for a
  vertex, fragment, geometry or compute shader; for the two tessellation stages it is the base of the
  other one that is set.\<close>

theorem binding_base_stages:
  assumes "options_ok (so_compiler options)"
    "kind \<in> {shaderc_vertex_shader, shaderc_fragment_shader, shaderc_compute_shader, shaderc_geometry_shader,
      shaderc_tess_control_shader, shaderc_tess_evaluation_shader}"
  shows "(let c = so_compiler (shaderc_compile_options_set_binding_base_for_stage kind uniform base options);
        used = (case kind of
            shaderc_tess_control_shader \<Rightarrow> EShLangTessEvaluation
          | shaderc_tess_evaluation_shader \<Rightarrow> EShLangTessControl
          | _ \<Rightarrow> GetForcedStage kind)
    in binding_base c used (GetUniformKind uniform) = base \<and>
       (if stage = used \<or> stage = EShLangCount then True
        else binding_base c stage u = binding_base (so_compiler options) stage u))"
proof -
  have shape: "length (auto_binding_base (so_compiler options)) = 14"
    "i < 14 \<Longrightarrow> length (auto_binding_base (so_compiler options) ! i) = 6" for i
    using assms(1) by (simp_all add: options_ok_def kNumStages_def kNumUniformKinds_def)
  have uniform: "UniformKind_index (GetUniformKind uniform) < 6" by (cases uniform) (simp_all add: GetUniformKind_def)
  have inj: "UniformKind_index u = UniformKind_index v \<longleftrightarrow> u = v" for u v
    by (cases u; cases v) simp_all
  have less: "Stage_index (GetStage kind) < 14" by (cases kind) (simp_all add: GetStage_def)
  have index: "EShLanguage_index stage < 14" if "stage \<noteq> EShLangCount" for stage
    using that by (cases stage) simp_all
  have set: "binding_base (so_compiler (shaderc_compile_options_set_binding_base_for_stage kind uniform base options)) stage u =
      (if EShLanguage_index stage = Stage_index (GetStage kind) \<and> u = GetUniformKind uniform then base
       else binding_base (so_compiler options) stage u)" if "stage \<noteq> EShLangCount" for stage u
    using index [OF that] less shape uniform
    by (auto simp: binding_base_def shaderc_compile_options_set_binding_base_for_stage_def on_compiler_def
        SetAutoBindingBaseForStage_def Let_def nth_list_update inj)
  have used: "EShLanguage_index stage = Stage_index (GetStage kind) \<longleftrightarrow> stage = (case kind of
            shaderc_tess_control_shader \<Rightarrow> EShLangTessEvaluation
          | shaderc_tess_evaluation_shader \<Rightarrow> EShLangTessControl
          | _ \<Rightarrow> GetForcedStage kind)" for stage
    using assms(2) by (cases stage) (auto simp: GetStage_def GetForcedStage_def)
  have "(case kind of
            shaderc_tess_control_shader \<Rightarrow> EShLangTessEvaluation
          | shaderc_tess_evaluation_shader \<Rightarrow> EShLangTessControl
          | _ \<Rightarrow> GetForcedStage kind) \<noteq> EShLangCount"
    using assms(2) by (auto simp: GetForcedStage_def)
  then show ?thesis by (simp add: Let_def set used)
qed

theorem binding_base_stages_witness:
  "binding_base (so_compiler (shaderc_compile_options_set_binding_base_for_stage shaderc_tess_control_shader
     shaderc_uniform_kind_buffer 7 (shaderc_compile_options_initialize ()))) EShLangTessEvaluation UK_Buffer = 7"
  using binding_base_stages [of "shaderc_compile_options_initialize ()" shaderc_tess_control_shader
      shaderc_uniform_kind_buffer 7 EShLangVertex UK_Image] options_ok_new
  by (simp add: shaderc_compile_options_initialize_def GetUniformKind_def Let_def)

text \<open>C10: a result is consistent: a success has no errors, its bytes are as many as it says, and a text
  ends with a zero byte; a failure has no size; an invalid stage is only reported without a compiler or
  for a kind that leaves the stage to the source.\<close>

theorem shaderc_result_consistent:
  "(let result = CompileToSpecifiedOutputType host g tools null compiler source n kind name entry options output_type;
        status = shaderc_result_get_compilation_status result;
        size = shaderc_result_get_length result
    in (if status = shaderc_compilation_status_success then
          shaderc_result_get_num_errors result = 0 \<and>
          (case shaderc_result_get_bytes host result of
             None \<Rightarrow> False
           | Some bytes \<Rightarrow>
               if output_type = SpirvBinary then size = length bytes
               else size < length bytes \<and> bytes ! size = 0)
        else size = 0) \<and>
       status \<in> {shaderc_compilation_status_success, shaderc_compilation_status_invalid_stage,
         shaderc_compilation_status_compilation_error} \<and>
       (if status = shaderc_compilation_status_invalid_stage \<and> compiler
        then kind \<in> {shaderc_glsl_infer_from_source, shaderc_spirv_assembly} else True))"
proof -
  let ?errors = "\<lparr>error_stream = '''', total_warnings = 0, total_errors = 0\<rparr>"
  define c where "c = (case options of Some opts \<Rightarrow> so_compiler opts | None \<Rightarrow> new_Compiler)"
  define includer where "includer = (case options of
      Some opts \<Rightarrow> new_InternalFileIncluder (include_resolver opts) (include_result_releaser opts)
        (include_user_data opts)
    | None \<Rightarrow> new_InternalFileIncluder None None null)"
  show ?thesis
  proof (cases "name = None \<or> \<not> compiler")
    case True
    then show ?thesis
      by (cases name) (simp_all add: CompileToSpecifiedOutputType_def new_result_def result_accessors Let_def)
  next
    case False
    then obtain tag where name: "name = Some tag" by (cases name) auto
    obtain r after includer' deducer where compile:
      "Compile host g tools c (take n source) (GetForcedStage kind) tag entry StageDeducer_call output_type
        ?errors includer (new_StageDeducer kind) = (r, after, includer', deducer)"
      by (metis prod_cases4)
    obtain succeeded data size where r: "r = (succeeded, data, size)" by (cases r)
    have result: "CompileToSpecifiedOutputType host g tools null compiler source n kind name entry options output_type =
      \<lparr>output_data_size = size, messages = error_stream after, num_errors = total_errors after,
       num_warnings = total_warnings after,
       compilation_status = (if succeeded then shaderc_compilation_status_success
         else if sd_error deducer then shaderc_compilation_status_invalid_stage
         else shaderc_compilation_status_compilation_error), output_data = Some data\<rparr>"
      using False compile name r
      by (simp add: CompileToSpecifiedOutputType_def new_result_def c_def includer_def Let_def split: option.splits)
    have deduced: "kind \<in> {shaderc_glsl_infer_from_source, shaderc_spirv_assembly}" if "sd_error deducer"
      using Compile_callback [OF compile] that
      by (cases kind) (auto simp: new_StageDeducer_def StageDeducer_call_def Let_def GetForcedStage_def GetDefaultStage_def)
    show ?thesis
      unfolding result
      using Compile_ok [OF compile] deduced text_bytes [where host = host]
      by (auto simp: r result_ok_def result_accessors bytes_length)
  qed
qed

text \<open>C40: errors in the stage pragmas of a source fail its compilation with a message, but are not counted
  as errors of the result.\<close>

theorem pragma_errors_uncounted:
  assumes "gi_error (compiler_client_info tag (so_compiler options)) = []"
    "GetForcedStage kind = EShLangCount" "output_type \<noteq> PreprocessedText"
    "PreprocessShader g (so_compiler options) tag (take n source)
       (macro_definitions (so_compiler options) @ pound_extension)
       (new_InternalFileIncluder (include_resolver options) (include_result_releaser options)
         (include_user_data options)) = (True, preprocessed, '''', includer)"
    "GetShaderStageFromSourceCode (so_compiler options) tag
       (cleaned_shader g (so_compiler options) (take n source) tag
         (new_InternalFileIncluder (include_resolver options) (include_result_releaser options)
           (include_user_data options))) = (stage, errors)" "errors \<noteq> []"
  shows "(let result = CompileToSpecifiedOutputType host g tools null True source n kind (Some tag) entry
          (Some options) output_type
    in shaderc_result_get_compilation_status result = shaderc_compilation_status_compilation_error \<and>
       messages result = errors \<and> shaderc_result_get_num_errors result = 0)"
proof -
  have print: "PrintFilteredErrors tag w sw '''' st = (True, st)" for w sw st
    by (simp add: PrintFilteredErrors_def get_fields_split split_fields.simps Let_def)
  show ?thesis
    using assms
    by (simp add: CompileToSpecifiedOutputType_def Compile_def find_stage_def cleaned_shader_def new_result_def
        new_StageDeducer_def failed_def c_string_def print result_accessors split_beta Let_def)
qed

text \<open>A preprocessor that gives the same text for every source, and tools that do nothing.\<close>

definition constant_glslang :: "string \<Rightarrow> ('i, unit, unit) glslang" where
  "constant_glslang output =
     \<lparr>TShader_preprocess = \<lambda>_ _ _ _ _ _ _ _ includer. (True, output, '''', includer),
      TShader_parse = \<lambda>_ _ _ _ _ _ _ _ includer. (True, (), '''', includer),
      TProgram_link = \<lambda>_. (True, ()), TProgram_mapIO = \<lambda>_. (True, ()),
      TProgram_getInfoLog = \<lambda>_. '''', GlslangToSpv = \<lambda>_ _ _ _ _. []\<rparr>"

definition idle_tools :: spirv_tools where
  "idle_tools = \<lparr>Optimizer_Run = \<lambda>_ _ _ binary. (True, binary, []),
     SpirvTools_Disassemble = \<lambda>_ _ _. (True, '''', []), spvTextToBinary = \<lambda>_ _. Inr []\<rparr>"

lemma pragma_example:
  "(case GetShaderStageFromSourceCode new_Compiler ''a''
      (cleaned_shader (constant_glslang ''#pragma shader_stage(foo)'') new_Compiler ''x'' ''a''
        (new_InternalFileIncluder None None ())) of (stage, errors) \<Rightarrow> errors \<noteq> []) \<and>
   gi_error (compiler_client_info ''a'' new_Compiler) = []"
  by code_simp

theorem pragma_errors_uncounted_witness:
  "shaderc_result_get_num_errors (CompileToSpecifiedOutputType I32_ENDIAN_LITTLE
     (constant_glslang ''#pragma shader_stage(foo)'') idle_tools () True ''x'' 1 shaderc_glsl_infer_from_source
     (Some ''a'') ''main'' (Some (shaderc_compile_options_initialize ())) SpirvBinary) = 0"
proof -
  let ?o = "shaderc_compile_options_initialize ()"
  let ?g = "constant_glslang ''#pragma shader_stage(foo)'' :: (unit InternalFileIncluder, unit, unit) glslang"
  obtain stage errors where stage: "GetShaderStageFromSourceCode new_Compiler ''a''
      (cleaned_shader ?g new_Compiler ''x'' ''a'' (new_InternalFileIncluder None None ())) = (stage, errors)"
      "errors \<noteq> []"
    using pragma_example by (auto split: prod.splits)
  show ?thesis
    using pragma_errors_uncounted [of "''a''" ?o shaderc_glsl_infer_from_source SpirvBinary ?g 1 "''x''"
        "''#pragma shader_stage(foo)''" "new_InternalFileIncluder None None ()" stage errors
        I32_ENDIAN_LITTLE idle_tools "()" "''main''"] stage pragma_example
    by (simp add: shaderc_compile_options_initialize_def GetForcedStage_def PreprocessShader_def Let_def
        constant_glslang_def)
qed

text \<open>Whatever target environment the options are given, assembling uses the default version of it.\<close>

theorem assembly_default_version:
  "shaderc_assemble_into_spv tools compiler source n
     (Some (fold apply_call ops (shaderc_compile_options_initialize null))) =
   (case source of
      Some text \<Rightarrow>
        (case spvTextToBinary tools
            (if so_target_env (fold apply_call ops (shaderc_compile_options_initialize null)) \<in>
               {shaderc_target_env_opengl, shaderc_target_env_opengl_compat}
             then SPV_ENV_OPENGL_4_5 else SPV_ENV_VULKAN_1_0) (take n text) of
           Inr binary \<Rightarrow>
             if compiler then
               (new_result (Some binary))\<lparr>output_data_size := 4 * length binary,
                 compilation_status := shaderc_compilation_status_success\<rparr>
             else (new_result None)\<lparr>compilation_status := shaderc_compilation_status_invalid_assembly\<rparr>
         | Inl (line, column, error) \<Rightarrow>
             (new_result None)
               \<lparr>num_errors := if compiler then 1 else 0,
                messages := if compiler then ToString (line + 1) @ '':'' @ ToString (column + 1) @ '': '' @ error else '''',
                compilation_status := shaderc_compilation_status_invalid_assembly\<rparr>)
    | None \<Rightarrow> (new_result None)\<lparr>compilation_status := shaderc_compilation_status_invalid_assembly\<rparr>)"
proof -
  let ?options = "fold apply_call ops (shaderc_compile_options_initialize null)"
  have version: "so_target_env_version ?options = 0"
    unfolding calls_version by (simp add: shaderc_compile_options_initialize_def)
  have env: "GetSpirvToolsTargetEnv (GetCompilerTargetEnv e) (GetCompilerTargetEnvVersion 0) =
      (if e \<in> {shaderc_target_env_opengl, shaderc_target_env_opengl_compat}
       then SPV_ENV_OPENGL_4_5 else SPV_ENV_VULKAN_1_0)" for e
    by (cases e) (simp_all add: GetCompilerTargetEnv_def GetCompilerTargetEnvVersion_def
        GetSpirvToolsTargetEnv_def TEV_defs)
  show ?thesis
    by (cases source) (auto simp: shaderc_assemble_into_spv_def SpirvToolsAssemble_def version env new_result_def
        Let_def split: sum.splits)
qed

text \<open>The version and profile that are parsed from a known version and the name of a profile are the
  ones that forcing them gives the compiler.\<close>

theorem parse_force_roundtrip:
  "list_all (\<lambda>v. list_all (\<lambda>(name, profile).
     (case shaderc_parse_version_profile (ToString v @ name) of
        None \<Rightarrow> False
      | Some (version, p) \<Rightarrow>
          let c = so_compiler (shaderc_compile_options_set_forced_version_profile version p options)
          in default_version c = int v \<and> default_profile c = profile \<and> force_version_profile c))
     profile_names) known_versions"
proof -
  have plain: "c_string (ToString v @ name) = ToString v @ name"
    if "(name, profile) \<in> set profile_names" for v name profile
  proof -
    have "list_all (\<lambda>c. c \<noteq> CHR 0x00) (ToString v)"
      using ToString_digits [of v] unfolding list_all_iff by (force simp: is_digit_def)
    moreover have "list_all (\<lambda>c. c \<noteq> CHR 0x00) name" using that by (auto simp: profile_names_def)
    ultimately show ?thesis by (simp add: c_string_def takeWhile_eq_all_conv list_all_iff)
  qed
  have "(case shaderc_parse_version_profile (ToString v @ name) of
        None \<Rightarrow> False
      | Some (version, p) \<Rightarrow>
          let c = so_compiler (shaderc_compile_options_set_forced_version_profile version p options)
          in default_version c = int v \<and> default_profile c = profile \<and> force_version_profile c)"
    if "v \<in> set known_versions" "(name, profile) \<in> set profile_names" for v name profile
    unfolding shaderc_parse_version_profile_def plain [OF that(2)] ParseVersionProfile_known [OF that]
    using that(2) by (auto simp: profile_names_def shaderc_compile_options_set_forced_version_profile_def
        on_compiler_def SetForcedVersionProfile_def GetEProfile_def Let_def)
  then show ?thesis by (auto simp: list_all_iff)
qed

end
