(* ===== verification/Spec2Isabelle.thy ===== *)
theory Spec2Isabelle
  imports Bit_Utils Bit_Vec Enum_Set Endian Str_Utils Target_Env Opcodes Operands Grammar
    Assembly_Grammar Ext_Inst Binary_Module Core_Parser Name_Mapper Text_Termination Glslang_Initializer
    Shaderc
begin

text \<open>
  A verification development for ShaderCompiler, a distribution of shaderc: the library that turns
  GLSL and HLSL shaders into SPIR-V with glslang and SPIRV-Tools.

  The parts of the program and how they interact. A client makes a compiler and a set of options
  through the C interface (\<open>src/shaderc/shaderc.cc\<close>) and compiles a source. The interface forwards to
  \<open>shaderc_util::Compiler\<close> (\<open>src/libshaderc_util/compiler.cc\<close>), which preprocesses the source where it
  has to find the stage, lets glslang parse, link and translate it, filters the messages of glslang
  (\<open>message.cc\<close>), optimizes the binary with SPIRV-Tools and gives it out as words or as text
  (\<open>spirv_tools_wrapper.cc\<close>). SPIRV-Tools (\<open>src/spirv-tools\<close>) reads binaries with a parser that is
  driven by tables of instructions and operands; the parser is what its disassembler, validator and
  optimizer start from.

  The theories of the compiler, in the order the code has the parts:

  \<^item> \<open>String_Piece\<close>: \<open>string_piece.h\<close>. A piece is the text it refers to; a position that is not found is
    \<open>None\<close>. Its property is that fields and delimiters make up the text.
  \<^item> \<open>Version_Profile\<close>: \<open>version_profile.cc\<close> and \<open>shader_stage.cc\<close>, the parser of \<open>450core\<close> and the names
    of the stages.
  \<^item> \<open>Message\<close>: \<open>message.cc\<close>. \<open>message_state\<close> is the error stream with the two totals. The location of a
    message is characterised by its shortest prefix, and the totals by the classes of the lines.
  \<^item> \<open>Resource_Limits\<close>: \<open>resources.inc\<close>, \<open>resources.cc\<close> and the limits of \<open>shaderc.h\<close>, each limit under its
    name in the macros. Setting a limit changes it and no other.
  \<^item> \<open>Compiler_Options\<close>: the state of \<open>Compiler\<close> as a record with the members of \<open>compiler.h\<close>, every
    operation that sets it, and the tables from options to glslang and SPIRV-Tools. \<open>option_call\<close> names
    the operations, \<open>options_ok\<close> is the invariant that all of them keep.
  \<^item> \<open>Shader_Source\<close>: the functions of \<open>compiler.cc\<close> on the text of a shader: line directives, the version,
    the stage pragmas, the preamble, and text as words.
  \<^item> \<open>Glslang_Initializer\<close>: the counted initialization of glslang under a mutex, as a step relation over
    any number of objects with every interleaving of their constructors and destructors. The count is a
    word of 32 bits, so the properties are for fewer than \<open>2 ^ 32\<close> objects.
  \<^item> \<open>Compile\<close>: \<open>PreprocessShader\<close>, \<open>Compile\<close> and the calls of SPIRV-Tools. Glslang is the record \<open>glslang\<close> of
    the functions that are called, SPIRV-Tools the record \<open>spirv_tools\<close>; the setters of a \<open>TShader\<close> are kept
    as the list of the calls. An early return is a value of a sum or an option.
  \<^item> \<open>Shaderc\<close>: the interface: enumerations, options, includer, results, and the functions that compile
    and assemble. A null pointer is \<open>None\<close>.

  The theories of SPIRV-Tools:

  \<^item> \<open>Prelude\<close>: names of the C++ integer types, generic lemmas, and the locales that several components
    provide: \<open>set_container\<close> for containers that implement sets, \<open>step_invariant\<close> for operations that keep
    an invariant.
  \<^item> \<open>Bit_Utils\<close>, \<open>Enum_Set\<close>, \<open>Bit_Vec\<close>, \<open>Str_Utils\<close>: \<open>util/bitutils.h\<close>, \<open>enum_set.h\<close>, \<open>util/bit_vector.cpp\<close>,
    \<open>util/string_utils.h\<close>. The two sets refine mathematical sets under a representation invariant.
  \<^item> \<open>Libspirv\<close>, \<open>Endian\<close>, \<open>Target_Env\<close>, \<open>Opcodes\<close>, \<open>Spirv_Ops\<close>: the enumerations of the C interface, byte
    orders, target environments and opcodes.
  \<^item> \<open>Grammar\<close>, \<open>Operand_Types\<close>, \<open>Operands\<close>, \<open>Assembly_Grammar\<close>, \<open>Ext_Inst\<close>: \<open>table2.cpp\<close>, \<open>operand.cpp\<close>,
    \<open>assembly_grammar.cpp\<close> and \<open>ext_inst.cpp\<close>: searches in sorted tables, operand patterns, masks.
  \<^item> \<open>Binary_Operand\<close>, \<open>Binary_Parser\<close>, \<open>Binary_Module\<close>: \<open>binary.cpp\<close>, the parser with its state and its
    callbacks. The loops over operands and instructions end because each consumes words. The properties
    say what a parse has reported when it ends, well or not, for any client and either byte order.
  \<^item> \<open>Parse_Number\<close>: \<open>util/parse_number.h\<close> and \<open>util/parse_number.cpp\<close>, numbers from text. An integer
    literal is accepted exactly when it is in the range of its type. Floating point numbers are an
    argument.
  \<^item> \<open>Name_Mapper\<close>: \<open>name_mapper.cpp\<close> with \<open>to_string.cpp\<close> and \<open>parsed_operand.cpp\<close>, a client of the parser.
    The search for a free name is unbounded in the code; it ends because an id without a name leaves a
    number of 32 bits that is not taken. The printing of floating point numbers is an argument.
  \<^item> \<open>Text_Context\<close>: \<open>text_handler.cpp\<close>, the reader of an assembly text, and \<open>AssemblyContext\<close> with the names,
    types and imports of ids. Its properties are the positions and the numbers of the ids.
  \<^item> \<open>Text_Operand\<close>, \<open>Text_Assembler\<close>: \<open>text.cpp\<close>. An \<open>encoding\<close> is the context with the instruction under
    construction and the operands expected; every function of the code takes and returns it with a code.
    The loops over operands, words and instructions have no bound in the code and are partial functions
    to \<open>option\<close>, where \<open>None\<close> is a call that does not return.
  \<^item> \<open>Text_Steps\<close>, \<open>Text_Binary\<close>, \<open>Text_Termination\<close>: what the steps of the assembler keep, as two locales over
    a property of the context; the form of the binary; and that every loop comes to an end, because an
    operand that is accepted is not an empty word.
  \<^item> \<open>Core_Tables\<close>, \<open>Core_Grammar\<close>, \<open>Core_Parser\<close>: the shipped tables \<open>core_tables_body.inc\<close> and the parser
    on them: what its lookups find, the one operand type it has no case for, and the imports it accepts.

  Conventions. Machine integers are words of their width, \<open>size_t\<close> that counts elements of a container is
  a natural number, a \<open>std::string\<close> is a list of characters. The byte order of the host is an argument.
  Errors are values. Assertions are not executed: where one guards a default, the model has the value
  the code returns without it. Recursion is on the words or characters that are left, or a partial
  function whose end is proved, so there is no fuel anywhere.

  Not modelled. Glslang (the parser, the linker and the translation to SPIR-V), the
  disassembler, the validator and the optimizer of SPIRV-Tools are programs of their own, several
  hundred thousand lines; they are arguments of the compilation, and no property assumes anything of
  them but what it states. The interface takes the assembler as an argument, too. Floating point
  numbers (\<open>util/hex_float.h\<close> and the standard library) are arguments of the functions on numbers. Abseil and protobuf belong to the fuzzer. Reading and writing files,
  allocation and its failure, exceptions, and the text of the diagnostics of SPIRV-Tools are left out. Of the shipped tables, those ordered by name and the string table are arguments of
  \<open>core_grammar\<close>.
\<close>

end
